(* ===== verification/GP_Prelude.thy ===== *)
theory GP_Prelude
  imports
    "HOL-Library.Word"
    "HOL-Library.List_Lexorder"
    "HOL-Library.Char_ord"
begin

text \<open>
  Shared vocabulary of the development: the Rust integer and array types, the
  \<open>Result\<close> type, \<open>BTreeMap\<close>, big-endian byte strings, and the generic
  interfaces (locales) the components instantiate:

  \<^item> \<open>kv_store\<close>: what \<open>BTreeMap\<close> promises about \<open>get\<close>, \<open>insert\<close>, \<open>remove\<close>;
  \<^item> \<open>prefix_code\<close>: an encoder whose output can be split off uniquely from the
    front of a byte string, the property every canonical transcript rests on;
  \<^item> \<open>logged_machine\<close>: a machine whose operations keep an invariant between the
    results returned so far and the state, with the lemmas about whole runs proved once;
  \<^item> \<open>stable_machine\<close>: a machine with a predicate that no operation falsifies.
\<close>

named_theorems result_simps \<open>evaluation of Result-valued programs\<close>
named_theorems codec \<open>unique splitting of encoded fields\<close>

section \<open>Integers, arrays, results\<close>

type_synonym byte = "8 word"
type_synonym u8 = "8 word"
type_synonym u16 = "16 word"
type_synonym u32 = "32 word"
type_synonym u64 = "64 word"

text \<open>
  A fixed array \<open>[u8; n]\<close> is a word of \<open>8 n\<close> bits; its bytes are read from the most
  significant end (\<open>be_bytes\<close> below), so that numeric order is the lexicographic order
  Rust uses for arrays.
\<close>

type_synonym arr24 = "192 word"
type_synonym arr32 = "256 word"

type_synonym ('e, 'a) result = "'e + 'a"

definition u64_MAX :: u64 where
  "u64_MAX = - 1"

definition saturating_add :: "'a::len word \<Rightarrow> 'a word \<Rightarrow> 'a word" where
  "saturating_add a b = (if unat a + unat b < 2 ^ LENGTH('a) then a + b else - 1)"

definition bindR :: "('e, 'a) result \<Rightarrow> ('a \<Rightarrow> ('e, 'b) result) \<Rightarrow> ('e, 'b) result" where
  "bindR r f = (case r of Inl e \<Rightarrow> Inl e | Inr a \<Rightarrow> f a)"

definition ok_or :: "'a option \<Rightarrow> 'e \<Rightarrow> ('e, 'a) result" where
  "ok_or x e = (case x of None \<Rightarrow> Inl e | Some a \<Rightarrow> Inr a)"

text \<open>\<open>is_ok\<close> of a \<open>Result\<close>.\<close>

definition is_ok :: "('e, 'a) result \<Rightarrow> bool" where
  "is_ok r = (case r of Inl _ \<Rightarrow> False | Inr _ \<Rightarrow> True)"

lemma bindR_simps [simp, result_simps]:
  "bindR (Inl e) f = Inl e"
  "bindR (Inr a) f = f a"
  by (simp_all add: bindR_def)

lemma bindR_eq_Inr [simp, result_simps]:
  "bindR r f = Inr b \<longleftrightarrow> (\<exists>a. r = Inr a \<and> f a = Inr b)"
  by (cases r) simp_all

lemma ok_or_eq_Inr [simp, result_simps]:
  "ok_or x e = Inr a \<longleftrightarrow> x = Some a"
  by (cases x) (simp_all add: ok_or_def)

lemma ok_or_eq_Inl [simp, result_simps]:
  "ok_or x e = Inl e' \<longleftrightarrow> x = None \<and> e' = e"
  by (cases x) (auto simp add: ok_or_def)

lemma is_ok_iff: "is_ok r \<longleftrightarrow> (\<exists>a. r = Inr a)"
  by (cases r) (simp_all add: is_ok_def)

lemma unat_max_word: "unat (- 1 :: 'a::len word) = 2 ^ LENGTH('a) - 1"
  by (simp add: unsigned_minus_1_eq_mask mask_eq_exp_minus_1)

lemma unat_saturating_add:
  fixes a b :: "'a::len word"
  shows "unat (saturating_add a b) = min (unat a + unat b) (2 ^ LENGTH('a) - 1)"
proof (cases "unat a + unat b < 2 ^ LENGTH('a)")
  case True
  then have "unat (a + b) = unat a + unat b"
    by (simp add: unat_word_ariths)
  with True show ?thesis by (simp add: saturating_add_def)
next
  case False
  then show ?thesis by (simp add: saturating_add_def unat_max_word)
qed

lemma unat_le_max: "unat a \<le> 2 ^ LENGTH('a) - 1"
  for a :: "'a::len word"
  using unsigned_less [of a, where 'a = nat] by linarith

lemma le_saturating_add: "a \<le> saturating_add a b"
  using unat_le_max [of a] by (simp add: word_le_nat_alt unat_saturating_add)

lemma saturating_add_one_less: "a \<noteq> - 1 \<Longrightarrow> a < saturating_add a 1"
  for a :: "'a::len word"
proof -
  assume "a \<noteq> - 1"
  then have "unat a \<noteq> 2 ^ LENGTH('a) - 1"
    by (metis unat_max_word word_unat_eq_iff)
  with unat_le_max [of a] have "unat a < 2 ^ LENGTH('a) - 1"
    by linarith
  then show ?thesis
    by (simp add: word_less_nat_alt unat_saturating_add)
qed

lemma saturating_add_max [simp]: "saturating_add (- 1) b = (- 1 :: 'a::len word)"
  by (simp add: word_unat_eq_iff unat_saturating_add unat_max_word)

section \<open>\<open>BTreeMap\<close>\<close>

text \<open>
  A \<open>BTreeMap\<close> is the list of its entries in key order. \<open>BTreeSet\<close> is a HOL set.
\<close>

type_synonym ('k, 'v) btree_map = "('k \<times> 'v) list"

abbreviation bt_get :: "('k, 'v) btree_map \<Rightarrow> 'k \<Rightarrow> 'v option" where
  "bt_get \<equiv> map_of"

fun bt_insert :: "'k::linorder \<Rightarrow> 'v \<Rightarrow> ('k, 'v) btree_map \<Rightarrow> ('k, 'v) btree_map" where
  "bt_insert k v [] = [(k, v)]"
| "bt_insert k v ((k', v') # m) =
     (if k < k' then (k, v) # (k', v') # m
      else if k = k' then (k, v) # m
      else (k', v') # bt_insert k v m)"

definition bt_remove :: "'k \<Rightarrow> ('k, 'v) btree_map \<Rightarrow> ('k, 'v) btree_map" where
  "bt_remove k m = filter (\<lambda>(k', _). k' \<noteq> k) m"

definition bt_contains_key :: "('k, 'v) btree_map \<Rightarrow> 'k \<Rightarrow> bool" where
  "bt_contains_key m k = (bt_get m k \<noteq> None)"

definition bt_values :: "('k, 'v) btree_map \<Rightarrow> 'v list" where
  "bt_values m = map snd m"

definition bt_ok :: "('k::linorder, 'v) btree_map \<Rightarrow> bool" where
  "bt_ok m = sorted_wrt (<) (map fst m)"

lemma bt_contains_key_iff [simp]: "bt_contains_key m k \<longleftrightarrow> (\<exists>v. bt_get m k = Some v)"
  by (simp add: bt_contains_key_def)

lemma bt_get_insert [simp]: "bt_get (bt_insert k v m) = (bt_get m)(k \<mapsto> v)"
  by (induction k v m rule: bt_insert.induct) (auto simp: fun_eq_iff)

lemma bt_get_remove [simp]: "bt_get (bt_remove k m) = (bt_get m)(k := None)"
  by (induction m) (auto simp: bt_remove_def fun_eq_iff)

lemma set_keys_bt_insert: "fst ` set (bt_insert k v m) = insert k (fst ` set m)"
  by (induction k v m rule: bt_insert.induct) auto

lemma bt_ok_Nil [simp]: "bt_ok []"
  by (simp add: bt_ok_def)

lemma bt_ok_insert [simp]: "bt_ok m \<Longrightarrow> bt_ok (bt_insert k v m)"
proof (induction k v m rule: bt_insert.induct)
  case (2 k v k' v' m)
  have "set (map fst (bt_insert k v m)) = insert k (set (map fst m))"
    by (simp add: set_keys_bt_insert)
  with 2 show ?case
    by (auto simp: bt_ok_def)
qed (simp add: bt_ok_def)

lemma bt_ok_remove [simp]: "bt_ok m \<Longrightarrow> bt_ok (bt_remove k m)"
  by (induction m) (auto simp: bt_ok_def bt_remove_def)

lemma bt_ok_distinct: "bt_ok m \<Longrightarrow> distinct (map fst m)"
  by (induction m) (force simp: bt_ok_def)+

lemma bt_values_get:
  "bt_ok m \<Longrightarrow> v \<in> set (bt_values m) \<longleftrightarrow> (\<exists>k. bt_get m k = Some v)"
  using bt_ok_distinct [of m] by (force simp: bt_values_def map_of_eq_Some_iff)

text \<open>The contract the components use, and \<open>BTreeMap\<close> as its provider.\<close>

locale kv_store =
  fixes get :: "'m \<Rightarrow> 'k \<Rightarrow> 'v option"
    and ins :: "'k \<Rightarrow> 'v \<Rightarrow> 'm \<Rightarrow> 'm"
    and del :: "'k \<Rightarrow> 'm \<Rightarrow> 'm"
    and vals :: "'m \<Rightarrow> 'v list"
    and wf :: "'m \<Rightarrow> bool"
  assumes get_ins: "get (ins k v m) k' = (if k' = k then Some v else get m k')"
    and get_del: "get (del k m) k' = (if k' = k then None else get m k')"
    and vals_get: "wf m \<Longrightarrow> v \<in> set (vals m) \<longleftrightarrow> (\<exists>k. get m k = Some v)"
    and wf_ins: "wf m \<Longrightarrow> wf (ins k v m)"
    and wf_del: "wf m \<Longrightarrow> wf (del k m)"
begin

lemma ins_frame: "k' \<noteq> k \<Longrightarrow> get (ins k v m) k' = get m k'"
  by (simp add: get_ins)

lemma any_value:
  "wf m \<Longrightarrow> list_ex P (vals m) \<longleftrightarrow> (\<exists>k v. get m k = Some v \<and> P v)"
  using vals_get [of m] by (metis list_ex_iff)

lemma all_values_ins:
  assumes "wf m" and "list_all P (vals m)" and "P v"
  shows "list_all P (vals (ins k v m))"
  using assms vals_get [OF wf_ins [OF assms(1)]]
  by (auto simp: list_all_iff vals_get get_ins split: if_splits)

end

interpretation bt: kv_store bt_get bt_insert bt_remove bt_values bt_ok
  by unfold_locales (auto simp: bt_values_get)

section \<open>Big-endian byte strings\<close>

fun le_bytes :: "nat \<Rightarrow> nat \<Rightarrow> byte list" where
  "le_bytes 0 v = []"
| "le_bytes (Suc n) v = of_nat (v mod 256) # le_bytes n (v div 256)"

definition be_bytes :: "nat \<Rightarrow> nat \<Rightarrow> byte list" where
  "be_bytes n v = rev (le_bytes n v)"

fun from_le :: "byte list \<Rightarrow> nat" where
  "from_le [] = 0"
| "from_le (b # bs) = unat b + 256 * from_le bs"

definition from_be :: "byte list \<Rightarrow> nat" where
  "from_be bs = from_le (rev bs)"

lemma length_le_bytes [simp]: "length (le_bytes n v) = n"
  by (induction n v rule: le_bytes.induct) simp_all

lemma length_be_bytes [simp]: "length (be_bytes n v) = n"
  by (simp add: be_bytes_def)

lemma unat_of_nat_byte: "unat (of_nat (v mod 256) :: byte) = v mod 256"
  by (simp add: unat_of_nat)

lemma from_le_le_bytes: "from_le (le_bytes n v) = v mod 256 ^ n"
proof (induction n v rule: le_bytes.induct)
  case (2 n v)
  have "v mod 256 + 256 * (v div 256 mod 256 ^ n) = v mod (256 * 256 ^ n)"
    by (simp add: mod_mult2_eq)
  with 2 show ?case by (simp add: unat_of_nat_byte)
qed simp

lemma from_be_be_bytes: "v < 256 ^ n \<Longrightarrow> from_be (be_bytes n v) = v"
  by (simp add: from_be_def be_bytes_def from_le_le_bytes)

lemma from_le_less: "from_le bs < 256 ^ length bs"
proof (induction bs)
  case (Cons b bs)
  have "unat b < 256" using unsigned_less [of b, where 'a = nat] by simp
  with Cons show ?case by simp
qed simp

lemma le_bytes_from_le: "le_bytes (length bs) (from_le bs) = bs"
proof (induction bs)
  case (Cons b bs)
  have b: "unat b < 256" using unsigned_less [of b, where 'a = nat] by simp
  then have "(unat b + 256 * from_le bs) mod 256 = unat b"
    and "(unat b + 256 * from_le bs) div 256 = from_le bs"
    by simp_all
  with Cons show ?case by simp
qed simp

lemma be_bytes_from_be: "be_bytes (length bs) (from_be bs) = bs"
  using le_bytes_from_le [of "rev bs"] by (simp add: be_bytes_def from_be_def)

lemma from_be_less: "from_be bs < 256 ^ length bs"
  using from_le_less [of "rev bs"] by (simp add: from_be_def)

lemma be_bytes_inject:
  "v < 256 ^ n \<Longrightarrow> w < 256 ^ n \<Longrightarrow> be_bytes n v = be_bytes n w \<longleftrightarrow> v = w"
  by (metis from_be_be_bytes)

text \<open>\<open>to_be_bytes\<close> of the machine integers, and the bytes of the fixed arrays.\<close>

definition be16 :: "u16 \<Rightarrow> byte list" where
  "be16 v = be_bytes 2 (unat v)"

definition be32 :: "u32 \<Rightarrow> byte list" where
  "be32 v = be_bytes 4 (unat v)"

definition be64 :: "u64 \<Rightarrow> byte list" where
  "be64 v = be_bytes 8 (unat v)"

definition bytes24 :: "arr24 \<Rightarrow> byte list" where
  "bytes24 v = be_bytes 24 (unat v)"

definition bytes32 :: "arr32 \<Rightarrow> byte list" where
  "bytes32 v = be_bytes 32 (unat v)"

lemma length_be [simp]:
  "length (be16 x) = 2" "length (be32 y) = 4" "length (be64 z) = 8"
  "length (bytes24 a) = 24" "length (bytes32 b) = 32"
  by (simp_all add: be16_def be32_def be64_def bytes24_def bytes32_def)

lemma be_bytes_unat_inject:
  fixes v w :: "'a::len word"
  assumes "LENGTH('a) = 8 * n"
  shows "be_bytes n (unat v) = be_bytes n (unat w) \<longleftrightarrow> v = w"
proof -
  have "(256::nat) ^ n = 2 ^ LENGTH('a)"
    by (simp add: assms power_mult)
  then show ?thesis
    using unsigned_less [of v, where 'a = nat] unsigned_less [of w, where 'a = nat]
    by (simp add: be_bytes_inject word_unat_eq_iff)
qed

lemma be_inject [simp]:
  "be16 a = be16 a' \<longleftrightarrow> a = a'"
  "be32 b = be32 b' \<longleftrightarrow> b = b'"
  "be64 c = be64 c' \<longleftrightarrow> c = c'"
  "bytes24 d = bytes24 d' \<longleftrightarrow> d = d'"
  "bytes32 e = bytes32 e' \<longleftrightarrow> e = e'"
  by (simp_all add: be16_def be32_def be64_def bytes24_def bytes32_def be_bytes_unat_inject)

text \<open>\<open>str::as_bytes\<close>: a string is its list of (UTF-8) bytes.\<close>

definition as_bytes :: "string \<Rightarrow> byte list" where
  "as_bytes s = map (\<lambda>c. of_nat (of_char c)) s"

lemma of_char_byte_inject: "(of_nat (of_char c) :: byte) = of_nat (of_char d) \<longleftrightarrow> c = d"
proof -
  have "unat (of_nat (of_char x) :: byte) = of_char x" for x :: char
    by (simp add: unsigned_of_nat take_bit_eq_mod)
  then show ?thesis by (metis of_char_eq_iff)
qed

lemma as_bytes_inject [simp]: "as_bytes s = as_bytes t \<longleftrightarrow> s = t"
  unfolding as_bytes_def
  by (rule inj_map_eq_map) (simp add: inj_on_def of_char_byte_inject)

lemma length_as_bytes [simp]: "length (as_bytes s) = length s"
  by (simp add: as_bytes_def)

section \<open>Encoders that split uniquely\<close>

locale prefix_code =
  fixes enc :: "'a \<Rightarrow> byte list"
    and valid :: "'a \<Rightarrow> bool"
  assumes unique_split:
    "valid x \<Longrightarrow> valid y \<Longrightarrow> enc x @ r = enc y @ s \<Longrightarrow> x = y \<and> r = s"
begin

lemma split_iff: "valid x \<Longrightarrow> valid y \<Longrightarrow> enc x @ r = enc y @ s \<longleftrightarrow> x = y \<and> r = s"
  using unique_split by blast

lemma inject: "valid x \<Longrightarrow> valid y \<Longrightarrow> enc x = enc y \<longleftrightarrow> x = y"
  using split_iff [of x y "[]" "[]"] by simp

lemma list_split:
  assumes "length xs = length ys" "list_all valid xs" "list_all valid ys"
  shows "concat (map enc xs) @ r = concat (map enc ys) @ s \<longleftrightarrow> xs = ys \<and> r = s"
  using assms
proof (induction xs ys rule: list_induct2)
  case (Cons x xs y ys)
  then show ?case by (simp add: split_iff)
qed simp

lemma list_inject:
  assumes "length xs = length ys" "list_all valid xs" "list_all valid ys"
  shows "concat (map enc xs) = concat (map enc ys) \<longleftrightarrow> xs = ys"
  using list_split [OF assms, of "[]" "[]"] by simp

text \<open>A list written behind its 16-bit length.\<close>

lemma counted_split:
  assumes "length xs < 65536" "length ys < 65536"
    and "list_all valid xs" "list_all valid ys"
  shows "be16 (of_nat (length xs)) @ concat (map enc xs) @ r =
      be16 (of_nat (length ys)) @ concat (map enc ys) @ s \<longleftrightarrow> xs = ys \<and> r = s"
    (is "?l = ?r \<longleftrightarrow> _")
proof
  assume eq: "?l = ?r"
  then have "be16 (of_nat (length xs)) = be16 (of_nat (length ys))"
    and rest: "concat (map enc xs) @ r = concat (map enc ys) @ s"
    by (simp_all add: append_eq_append_conv)
  then have "unat (of_nat (length xs) :: u16) = unat (of_nat (length ys) :: u16)"
    by simp
  with assms(1,2) have "length xs = length ys"
    by (simp add: unsigned_of_nat take_bit_eq_mod)
  with assms(3,4) rest show "xs = ys \<and> r = s" by (simp add: list_split)
qed auto

end

lemma prefix_code_fixed_width:
  assumes "\<And>x. length (enc x) = n" and "\<And>x y. enc x = enc y \<Longrightarrow> x = y"
  shows "prefix_code enc (\<lambda>_. True)"
proof
  fix x y r s
  assume eq: "enc x @ r = enc y @ s"
  with assms(1) have "enc x = enc y" and "r = s"
    by (simp_all add: append_eq_append_conv)
  with assms(2) show "x = y \<and> r = s" by simp
qed

interpretation c16: prefix_code be16 "\<lambda>_. True"
  by (rule prefix_code_fixed_width [where n = 2]) simp_all

interpretation c32: prefix_code be32 "\<lambda>_. True"
  by (rule prefix_code_fixed_width [where n = 4]) simp_all

interpretation c64: prefix_code be64 "\<lambda>_. True"
  by (rule prefix_code_fixed_width [where n = 8]) simp_all

lemmas be_split [simp, codec] =
  c16.split_iff [OF TrueI TrueI] c32.split_iff [OF TrueI TrueI] c64.split_iff [OF TrueI TrueI]

section \<open>Machines and their runs\<close>

text \<open>
  \<open>run_log\<close> runs a list of operations and records what each one returned.
\<close>

fun run_log :: "('op \<Rightarrow> 's \<Rightarrow> 'r \<times> 's) \<Rightarrow> 's \<Rightarrow> 'op list \<Rightarrow> ('op \<times> 'r) list \<times> 's" where
  "run_log exec s [] = ([], s)"
| "run_log exec s (op # ops) =
     (let (r, s1) = exec op s; (l, s2) = run_log exec s1 ops in ((op, r) # l, s2))"

lemma run_log_append:
  "run_log exec s (ops @ ops') =
     (let (l1, s1) = run_log exec s ops; (l2, s2) = run_log exec s1 ops' in (l1 @ l2, s2))"
  by (induction ops arbitrary: s) (auto split: prod.splits simp: Let_def)

lemma run_log_length: "length (fst (run_log exec s ops)) = length ops"
  by (induction ops arbitrary: s) (auto split: prod.splits simp: Let_def, metis fst_conv)

lemma run_log_split:
  assumes "run_log exec s ops = (l1 @ (op, r) # l2, t)"
  shows "\<exists>ops1 ops2 s1 s2. ops = ops1 @ op # ops2 \<and> run_log exec s ops1 = (l1, s1) \<and>
    exec op s1 = (r, s2) \<and> run_log exec s2 ops2 = (l2, t)"
  using assms
proof (induction ops arbitrary: s l1)
  case (Cons a ops)
  obtain r1 s1 where ex: "exec a s = (r1, s1)" by fastforce
  obtain l' t' where run: "run_log exec s1 ops = (l', t')" by fastforce
  with ex Cons.prems have eqs: "(a, r1) # l' = l1 @ (op, r) # l2" "t' = t"
    by simp_all
  show ?case
  proof (cases l1)
    case Nil
    with eqs ex run have "a # ops = [] @ op # ops \<and> run_log exec s [] = (l1, s) \<and>
        exec op s = (r, s1) \<and> run_log exec s1 ops = (l2, t)"
      by simp
    then show ?thesis by blast
  next
    case (Cons x l1')
    with eqs have x: "x = (a, r1)" and "l' = l1' @ (op, r) # l2" by simp_all
    with run eqs(2) have "run_log exec s1 ops = (l1' @ (op, r) # l2, t)" by simp
    from Cons.IH [OF this] obtain ops1 ops2 u v where
      "ops = ops1 @ op # ops2" "run_log exec s1 ops1 = (l1', u)"
      "exec op u = (r, v)" "run_log exec v ops2 = (l2, t)"
      by blast
    with ex Cons x have "a # ops = (a # ops1) @ op # ops2 \<and>
        run_log exec s (a # ops1) = (l1, u) \<and> exec op u = (r, v) \<and> run_log exec v ops2 = (l2, t)"
      by simp
    then show ?thesis by blast
  qed
qed simp

text \<open>
  The contract of a machine: \<open>inv\<close> relates what has been returned so far to the
  state, holds at the start and is kept by every operation.
\<close>

locale logged_machine =
  fixes exec :: "'op \<Rightarrow> 's \<Rightarrow> 'r \<times> 's"
    and start :: 's
    and inv :: "('op \<times> 'r) list \<Rightarrow> 's \<Rightarrow> bool"
  assumes inv_start: "inv [] start"
    and inv_exec: "inv l s \<Longrightarrow> exec op s = (r, s') \<Longrightarrow> inv (l @ [(op, r)]) s'"
begin

lemma run_inv: "run_log exec start ops = (l, s) \<Longrightarrow> inv l s"
proof (induction ops arbitrary: l s rule: rev_induct)
  case (snoc op ops)
  then show ?case
    by (auto simp: run_log_append Let_def split: prod.splits intro: inv_exec)
qed (simp add: inv_start)

lemma inv_before:
  assumes "run_log exec start ops = (l1 @ (op, r) # l2, t)"
  shows "\<exists>s s'. inv l1 s \<and> exec op s = (r, s')"
  using run_log_split [OF assms] run_inv by blast

end

text \<open>
  A stable predicate: once it holds, no operation falsifies it.
\<close>

locale stable_machine =
  fixes exec :: "'op \<Rightarrow> 's \<Rightarrow> 'r \<times> 's"
    and stable :: "'s \<Rightarrow> bool"
  assumes exec_stable: "stable s \<Longrightarrow> exec op s = (r, s') \<Longrightarrow> stable s'"
begin

lemma run_stable: "stable s \<Longrightarrow> run_log exec s ops = (l, t) \<Longrightarrow> stable t"
proof (induction ops arbitrary: s l)
  case (Cons op ops)
  then show ?case
    by (auto simp: Let_def split: prod.splits dest: exec_stable)
qed simp

lemma run_stable_entry:
  assumes "stable s" and "run_log exec s ops = (l1 @ (op, r) # l2, t)"
  shows "\<exists>u u'. stable u \<and> exec op u = (r, u')"
  using run_log_split [OF assms(2)] run_stable [OF assms(1)] by blast

end

end
