(* ===== verification/GP_Types.thy ===== *)
theory GP_Types
  imports GP_Prelude
begin

text \<open>
  The protocol-v2 data types of \<open>gp-types/src/lib.rs\<close>, one record per struct and one
  datatype per enum, with the fields in the order of the source. A field carries a short
  prefix that names its struct, since the structs share field names.
\<close>

type_synonym Id32 = arr32
type_synonym SignatureBytes = "byte list"
type_synonym MerkleProofBytes = "byte list"

definition PROTOCOL_VERSION_V2 :: u16 where
  "PROTOCOL_VERSION_V2 = 2"

definition PROTOCOL_VERSION_V3 :: u16 where
  "PROTOCOL_VERSION_V3 = 3"

definition PROTOCOL_VERSION :: u16 where
  "PROTOCOL_VERSION = PROTOCOL_VERSION_V2"

definition PRODUCTION_MIN_DELAY_SECS :: u64 where
  "PRODUCTION_MIN_DELAY_SECS = 24 * 60 * 60"

section \<open>Data\<close>

datatype CryptoSuite =
    XWingXChaCha20Poly1305Ed25519

datatype MetadataMode =
    Off
  | Basic
  | Strong

datatype RecoveryState =
    Created
  | AwaitingApprovals
  | Authorized
  | DelayPending
  | Cancelled
  | Releasing
  | Completed
  | Expired

record RecoveryRequest =
  rq_protocol_version :: u16
  rq_crypto_suite :: CryptoSuite
  rq_config_id :: Id32
  rq_config_version :: u64
  rq_request_id :: Id32
  rq_recovery_recipient_key :: "byte list"
  rq_requested_at :: u64
  rq_nonce :: Id32
  rq_expiry :: u64

record AeadCiphertext =
  ac_nonce :: arr24
  ac_ciphertext :: "byte list"

record SealedMessage =
  sm_kem_ciphertext :: "byte list"
  sm_payload :: AeadCiphertext

record SignerContribution =
  sc_request :: RecoveryRequest
  sc_signer_id :: u16
  sc_signer_public_key :: arr32
  sc_signer_signature :: SignatureBytes
  sc_signer_membership_proof :: MerkleProofBytes
  sc_encrypted_a_share :: SealedMessage

record BeginRecoveryCertificate =
  brc_request :: RecoveryRequest
  brc_signer_contributions :: "SignerContribution list"

record OwnerCancelCertificate =
  occ_protocol_version :: u16
  occ_config_id :: Id32
  occ_config_version :: u64
  occ_request_id :: Id32
  occ_request_digest :: Id32
  occ_recovery_recipient_key :: "byte list"
  occ_cancel_response_recipient_key :: "byte list"
  occ_reason_code :: u16
  occ_nonce :: Id32
  occ_issued_at :: u64
  occ_owner_cancel_public_key :: arr32
  occ_owner_signature :: SignatureBytes

record OwnerCancelAck =
  oca_protocol_version :: u16
  oca_config_id :: Id32
  oca_config_version :: u64
  oca_request_id :: Id32
  oca_request_digest :: Id32
  oca_owner_cancel_transcript_digest :: Id32
  oca_guardian_index :: u16
  oca_guardian_signature :: SignatureBytes

record ReleaseVote =
  rv_protocol_version :: u16
  rv_config_id :: Id32
  rv_config_version :: u64
  rv_request_id :: Id32
  rv_request_digest :: Id32
  rv_recovery_recipient_key :: "byte list"
  rv_nonce :: Id32
  rv_signer_id :: u16
  rv_signer_public_key :: arr32
  rv_signer_membership_proof :: MerkleProofBytes
  rv_signer_signature :: SignatureBytes

record ReleaseCertificate =
  rc_votes :: "ReleaseVote list"

record PendingRecovery =
  pr_request_id :: Id32
  pr_config_id :: Id32
  pr_config_version :: u64
  pr_recipient :: "byte list"
  pr_started_at_monotonic :: u64
  pr_not_before :: u64
  pr_state :: RecoveryState

record GuardianContribution =
  gc_protocol_version :: u16
  gc_config_id :: Id32
  gc_config_version :: u64
  gc_request_id :: Id32
  gc_request_digest :: Id32
  gc_guardian_index :: u16
  gc_ciphertext_fragment :: "byte list"
  gc_encrypted_dek_share :: AeadCiphertext
  gc_merkle_path_proof :: MerkleProofBytes
  gc_guardian_signature :: SignatureBytes

record GuardianRoute =
  gr_mailbox :: string
  gr_opaque_slot_id :: Id32
  gr_guardian_index :: u16
  gr_guardian_public_key :: arr32

record RecoveryDescriptor =
  rd_guardians :: "GuardianRoute list"
  rd_guardian_material_root :: Id32
  rd_data_shards :: u16
  rd_total_shards :: u16
  rd_ciphertext_len :: u64
  rd_payload_nonce :: arr24

record ConfigCapsule =
  cc_protocol_version :: u16
  cc_crypto_suite :: CryptoSuite
  cc_config_id :: Id32
  cc_config_version :: u64
  cc_signer_count :: u16
  cc_signer_threshold :: u16
  cc_guardian_count :: u16
  cc_guardian_threshold :: u16
  cc_minimum_recovery_delay :: u64
  cc_signer_set_commitment :: Id32
  cc_owner_cancel_public_key :: arr32
  cc_guardian_material_commitment :: Id32
  cc_encrypted_recovery_descriptor :: AeadCiphertext
  cc_max_request_lifetime :: u64

record RecoveryCard =
  card_config_id :: Id32
  card_capsule_locators :: "string list"
  card_capsule_locator :: "string option"
  card_signer_mailboxes :: "string list"
  card_relay_bases :: "string list"
  card_signer_set_commitment :: Id32
  card_owner_cancel_public_key :: arr32

record SignerPolicy =
  sp_config_id :: Id32
  sp_config_version :: u64
  sp_signer_set_commitment :: Id32
  sp_signer_threshold :: u16

record GuardianPolicy =
  gp_config_id :: Id32
  gp_config_version :: u64
  gp_signer_set_commitment :: Id32
  gp_signer_count :: u16
  gp_signer_threshold :: u16
  gp_owner_cancel_public_key :: arr32
  gp_minimum_recovery_delay :: u64
  gp_guardian_material_root :: Id32

record GuardianRecord =
  grec_opaque_slot_id :: Id32
  grec_guardian_index :: u16
  grec_ciphertext_fragment :: "byte list"
  grec_encrypted_dek_share :: AeadCiphertext
  grec_merkle_path_proof :: MerkleProofBytes
  grec_policy :: GuardianPolicy

record SetupPolicy =
  setup_signer_count :: u16
  setup_signer_threshold :: u16
  setup_guardian_count :: u16
  setup_guardian_threshold :: u16
  setup_minimum_recovery_delay :: u64

section \<open>Operations\<close>

text \<open>The loop of \<open>RecoveryCard::all_capsule_locators\<close> over the list of locators.\<close>

fun push_new_locators :: "string list \<Rightarrow> string list \<Rightarrow> string list" where
  "push_new_locators locators [] = locators"
| "push_new_locators locators (locator # rest) =
     push_new_locators (if locator \<in> set locators then locators else locators @ [locator]) rest"

definition all_capsule_locators :: "RecoveryCard \<Rightarrow> string list" where
  "all_capsule_locators self =
     push_new_locators
       (case card_capsule_locator self of None \<Rightarrow> [] | Some locator \<Rightarrow> [locator])
       (card_capsule_locators self)"

definition default_SetupPolicy :: SetupPolicy where
  "default_SetupPolicy =
     \<lparr> setup_signer_count = 3,
       setup_signer_threshold = 2,
       setup_guardian_count = 8,
       setup_guardian_threshold = 5,
       setup_minimum_recovery_delay = PRODUCTION_MIN_DELAY_SECS \<rparr>"

lemma push_new_locators_set: "set (push_new_locators acc ls) = set acc \<union> set ls"
  by (induction acc ls rule: push_new_locators.induct) auto

lemma push_new_locators_distinct: "distinct acc \<Longrightarrow> distinct (push_new_locators acc ls)"
  by (induction acc ls rule: push_new_locators.induct) auto

lemma push_new_locators_prefix: "\<exists>new. push_new_locators acc ls = acc @ new"
proof (induction acc ls rule: push_new_locators.induct)
  case (2 acc l ls)
  then show ?case by (cases "l \<in> set acc") auto
qed simp

end
