(* ===== verification/GP_Custody.thy ===== *)
theory GP_Custody
  imports GP_Types
begin

text \<open>
  What a guardian promises about recovery requests, independently of the protocol version:
  an abstract custodian remembers tombstones, pending requests, seen request identifiers
  and seen nonces, and its steps are labelled with what the outside world can observe. The
  locale \<open>custodian\<close> is the interface: a machine whose every operation is a step of this
  specification. \<open>GuardianMachine\<close> (protocol 2) and \<open>EpochRecoveryMachine\<close> (protocol 3)
  are its two providers.
\<close>

section \<open>The abstract custodian\<close>

record custody =
  tomb :: "Id32 \<rightharpoonup> Id32"
  pend :: "Id32 \<rightharpoonup> Id32 \<times> u64 \<times> u64"
  seen_ids :: "Id32 set"
  seen_ns :: "Id32 set"

text \<open>
  \<open>Began id nonce digest not_before expiry\<close>, \<open>CancelledBy id digest\<close> and
  \<open>Released id digest wall_now monotonic_now\<close> are the successful operations.
\<close>

datatype custody_label =
    Began Id32 Id32 Id32 u64 u64
  | CancelledBy Id32 Id32
  | Released Id32 Id32 u64 u64

definition custody_start :: custody where
  "custody_start = \<lparr> tomb = Map.empty, pend = Map.empty, seen_ids = {}, seen_ns = {} \<rparr>"

inductive custody_step :: "custody \<Rightarrow> custody_label option \<Rightarrow> custody \<Rightarrow> bool" where
  silent:
    "tomb c' = tomb c \<Longrightarrow> pend c' = pend c \<Longrightarrow> seen_ids c \<subseteq> seen_ids c' \<Longrightarrow> seen_ns c \<subseteq> seen_ns c' \<Longrightarrow>
     custody_step c None c'"
| began:
    "tomb c i = None \<Longrightarrow> i \<notin> seen_ids c \<Longrightarrow> n \<notin> seen_ns c \<Longrightarrow>
     custody_step c (Some (Began i n d nb e))
       (c \<lparr> pend := (pend c)(i \<mapsto> (d, nb, e)), seen_ids := insert i (seen_ids c),
            seen_ns := insert n (seen_ns c) \<rparr>)"
| cancelled:
    "tomb c i = None \<or> tomb c i = Some d \<Longrightarrow> (case pend c i of None \<Rightarrow> True | Some (d', _) \<Rightarrow> tomb c i = None \<longrightarrow> d' = d) \<Longrightarrow>
     custody_step c (Some (CancelledBy i d)) (c \<lparr> tomb := (tomb c)(i \<mapsto> d) \<rparr>)"
| released:
    "tomb c i = None \<Longrightarrow> pend c i = Some (d, nb, e) \<Longrightarrow> nb \<le> mt \<Longrightarrow> wt < e \<Longrightarrow>
     custody_step c (Some (Released i d wt mt)) c"

inductive_simps custody_step_simps:
  "custody_step c None c'"
  "custody_step c (Some (Began i n d nb e)) c'"
  "custody_step c (Some (CancelledBy i d)) c'"
  "custody_step c (Some (Released i d wt mt)) c'"

section \<open>What a history says about the state\<close>

text \<open>
  The invariant between the labels seen so far and the abstract state. It says what is
  pending and why, which identifiers and nonces are used, what is cancelled, and that the
  history itself is legal: no second \<open>Began\<close>, nothing after a tombstone.
\<close>

definition custody_inv :: "custody_label list \<Rightarrow> custody \<Rightarrow> bool" where
  "custody_inv h c \<longleftrightarrow>
     (\<forall>i d nb e. pend c i = Some (d, nb, e) \<longrightarrow> (\<exists>n. Began i n d nb e \<in> set h)) \<and>
     (\<forall>i n d nb e. Began i n d nb e \<in> set h \<longrightarrow> i \<in> seen_ids c \<and> n \<in> seen_ns c) \<and>
     (\<forall>i d. CancelledBy i d \<in> set h \<longleftrightarrow> tomb c i = Some d)"

lemma custody_invI:
  assumes "\<And>i d nb e. pend c i = Some (d, nb, e) \<Longrightarrow> \<exists>n. Began i n d nb e \<in> set h"
    and "\<And>i n d nb e. Began i n d nb e \<in> set h \<Longrightarrow> i \<in> seen_ids c \<and> n \<in> seen_ns c"
    and "\<And>i d. CancelledBy i d \<in> set h \<longleftrightarrow> tomb c i = Some d"
  shows "custody_inv h c"
  using assms unfolding custody_inv_def by blast

lemma custody_invD:
  assumes "custody_inv h c"
  shows "pend c i = Some (d, nb, e) \<Longrightarrow> \<exists>n. Began i n d nb e \<in> set h"
    and "Began i n d nb e \<in> set h \<Longrightarrow> i \<in> seen_ids c"
    and "Began i n d nb e \<in> set h \<Longrightarrow> n \<in> seen_ns c"
    and "CancelledBy i d \<in> set h \<longleftrightarrow> tomb c i = Some d"
  using assms unfolding custody_inv_def by blast+

lemma custody_inv_start: "custody_inv [] custody_start"
  by (rule custody_invI) (simp_all add: custody_start_def)

lemma custody_inv_silent:
  assumes "custody_inv h c" and "custody_step c None c'"
  shows "custody_inv h c'"
  using assms(2) custody_invD [OF assms(1)]
  by (intro custody_invI) (auto simp: custody_step_simps)

lemma custody_inv_began:
  assumes "custody_inv h c" and "custody_step c (Some (Began i n d nb e)) c'"
  shows "custody_inv (h @ [Began i n d nb e]) c'"
  using assms(2) custody_invD [OF assms(1)]
  by (intro custody_invI) (auto simp: custody_step_simps split: if_splits)

lemma custody_inv_cancelled:
  assumes "custody_inv h c" and "custody_step c (Some (CancelledBy i d)) c'"
  shows "custody_inv (h @ [CancelledBy i d]) c'"
  using assms(2) custody_invD [OF assms(1)]
  by (intro custody_invI) (auto simp: custody_step_simps split: if_splits)

lemma custody_inv_released:
  assumes "custody_inv h c" and "custody_step c (Some (Released i d wt mt)) c'"
  shows "custody_inv (h @ [Released i d wt mt]) c'"
  using assms(2) custody_invD [OF assms(1)]
  by (intro custody_invI) (auto simp: custody_step_simps)

lemma custody_inv_step:
  assumes "custody_inv h c" and "custody_step c a c'"
  shows "custody_inv (h @ (case a of None \<Rightarrow> [] | Some x \<Rightarrow> [x])) c'"
proof (cases a)
  case None
  with assms show ?thesis by (simp add: custody_inv_silent)
next
  case (Some x)
  with assms show ?thesis
    by (cases x) (simp_all add: custody_inv_began custody_inv_cancelled custody_inv_released)
qed

text \<open>A run of the abstract custodian with the labels it shows.\<close>

inductive custody_run :: "custody \<Rightarrow> custody_label list \<Rightarrow> custody \<Rightarrow> bool" where
  refl: "custody_run c [] c"
| step: "custody_run c h c1 \<Longrightarrow> custody_step c1 a c2 \<Longrightarrow>
     custody_run c (h @ (case a of None \<Rightarrow> [] | Some x \<Rightarrow> [x])) c2"

lemma custody_run_inv: "custody_run custody_start h c \<Longrightarrow> custody_inv h c"
  by (induction custody_start h c rule: custody_run.induct)
    (simp_all add: custody_inv_start custody_inv_step)

text \<open>What may follow a given history.\<close>

definition custody_admits :: "custody_label list \<Rightarrow> custody_label \<Rightarrow> bool" where
  "custody_admits h a = (case a of
     Began i n d nb e \<Rightarrow>
       (\<forall>i' n' d' nb' e'. Began i' n' d' nb' e' \<in> set h \<longrightarrow> i' \<noteq> i \<and> n' \<noteq> n) \<and>
       (\<forall>d'. CancelledBy i d' \<notin> set h)
   | CancelledBy i d \<Rightarrow> (\<forall>d'. CancelledBy i d' \<in> set h \<longrightarrow> d' = d)
   | Released i d wt mt \<Rightarrow>
       (\<exists>n nb e. Began i n d nb e \<in> set h \<and> nb \<le> mt \<and> wt < e) \<and>
       (\<forall>d'. CancelledBy i d' \<notin> set h))"

lemma custody_step_admits:
  assumes "custody_inv h c" and "custody_step c (Some a) c'"
  shows "custody_admits h a"
  using assms(2) custody_invD [OF assms(1)]
  by (cases a) (fastforce simp: custody_step_simps custody_admits_def)+

section \<open>The interface\<close>

text \<open>The labels of a log.\<close>

definition labels :: "('op \<Rightarrow> 'r \<Rightarrow> 'l option) \<Rightarrow> ('op \<times> 'r) list \<Rightarrow> 'l list" where
  "labels lab l = List.map_filter (\<lambda>(op, r). lab op r) l"

lemma labels_simps [simp]:
  "labels lab [] = []"
  "labels lab ((op, r) # l) = (case lab op r of None \<Rightarrow> [] | Some x \<Rightarrow> [x]) @ labels lab l"
  "labels lab (l @ l') = labels lab l @ labels lab l'"
  by (simp_all add: labels_def List.map_filter_def split: option.splits)

lemma labels_member: "x \<in> set (labels lab l) \<longleftrightarrow> (\<exists>op r. (op, r) \<in> set l \<and> lab op r = Some x)"
  by (force simp: labels_def List.map_filter_def)

locale custodian =
  fixes exec :: "'op \<Rightarrow> 's \<Rightarrow> 'r \<times> 's"
    and start :: 's
    and lab :: "'op \<Rightarrow> 'r \<Rightarrow> custody_label option"
    and abs :: "'s \<Rightarrow> custody"
  assumes abs_start: "abs start = custody_start"
    and simulates: "exec op s = (r, s') \<Longrightarrow> custody_step (abs s) (lab op r) (abs s')"
begin

lemma refines: "run_log exec start ops = (l, s) \<Longrightarrow> custody_run custody_start (labels lab l) (abs s)"
proof (induction ops arbitrary: l s rule: rev_induct)
  case Nil
  then have "s = start" and "l = []" by simp_all
  then show ?case by (simp add: abs_start custody_run.refl)
next
  case (snoc op ops)
  obtain l1 s1 where 1: "run_log exec start ops = (l1, s1)" by fastforce
  obtain r s2 where 2: "exec op s1 = (r, s2)" by fastforce
  from 1 2 snoc.prems have "l = l1 @ [(op, r)]" and "s = s2"
    by (auto simp: run_log_append)
  with custody_run.step [OF snoc.IH [OF 1] simulates [OF 2]] show ?case by simp
qed

lemma inv_run: "run_log exec start ops = (l, s) \<Longrightarrow> custody_inv (labels lab l) (abs s)"
  using refines custody_run_inv by blast

lemma admits:
  assumes "run_log exec start ops = (l1 @ (op, r) # l2, t)" and "lab op r = Some a"
  shows "custody_admits (labels lab l1) a"
proof -
  from run_log_split [OF assms(1)] obtain ops1 s s' where
    "run_log exec start ops1 = (l1, s)" and "exec op s = (r, s')" by blast
  with inv_run simulates assms(2) show ?thesis
    by (metis custody_step_admits)
qed

text \<open>Nothing but the same cancellation succeeds for a cancelled request.\<close>

lemma after_cancel:
  assumes "run_log exec start ops = (l1 @ (op, r) # l2, t)" and "lab op r = Some (CancelledBy i d)"
    and "(op', r') \<in> set l2" and "lab op' r' = Some a"
  shows "case a of Began i' n d' nb e \<Rightarrow> i' \<noteq> i | Released i' d' wt mt \<Rightarrow> i' \<noteq> i
    | CancelledBy i' d' \<Rightarrow> i' = i \<longrightarrow> d' = d"
proof -
  from assms(3) obtain m1 m2 where "l2 = m1 @ (op', r') # m2" by (meson split_list)
  with assms(1) have "run_log exec start ops = ((l1 @ (op, r) # m1) @ (op', r') # m2, t)" by simp
  from admits [OF this assms(4)] assms(2) show ?thesis
    by (auto simp: custody_admits_def split: custody_label.splits)
qed

lemma cancelled_at_end:
  assumes "run_log exec start ops = (l, t)" and "CancelledBy i d \<in> set (labels lab l)"
  shows "tomb (abs t) i = Some d"
  using inv_run [OF assms(1)] assms(2) custody_invD(4) by blast

end

end
