(* ===== verification/GP_Core.thy ===== *)
theory GP_Core
  imports GP_Custody
begin

text \<open>
  The protocol-2 state machines of \<open>gp-core/src/lib.rs\<close>: the requester's
  \<open>RecoveryMachine\<close> and the guardian's \<open>GuardianMachine\<close>. A method \<open>&mut self\<close> that returns
  a \<open>Result\<close> is a function from the arguments and the state to the result and the new
  state, since several methods change the state and then return an error.
\<close>

section \<open>Data\<close>

datatype RecoveryEvent =
    RequestCreated
  | ApprovalThresholdReached
  | BeginAccepted
  | ReleaseCertificateReady
  | GuardianThresholdReached
  | OwnerCancelObserved
  | ExpiryReached

datatype Action =
    RequestSignerApprovals
  | DecryptRecoveryDescriptor
  | SendBeginCertificate
  | WaitUntil u64
  | RequestReleaseVotes
  | RequestGuardianContributions
  | ReconstructLocally
  | RefuseRelease
  | ZeroizeRecoverySecrets

datatype CoreError =
    InvalidTransition RecoveryState
  | StaleConfiguration
  | Replay
  | UnknownRequest
  | DelayNotElapsed
  | Expired
  | Cancelled
  | FailClosed
  | RequestMismatch
  | InvalidRequest

record RecoveryMachine =
  rm_state :: RecoveryState
  rm_not_before :: "u64 option"

record GuardianPending =
  gpe_pending :: PendingRecovery
  gpe_request_digest :: Id32
  gpe_expiry :: u64

record GuardianMachine =
  gm_config_id :: Id32
  gm_current_version :: u64
  gm_seen :: "Id32 set"
  gm_seen_nonces :: "Id32 set"
  gm_pending :: "(Id32, GuardianPending) btree_map"
  gm_cancelled :: "(Id32, Id32) btree_map"

section \<open>\<open>RecoveryMachine\<close>\<close>

definition RecoveryMachine_default :: RecoveryMachine where
  "RecoveryMachine_default = \<lparr> rm_state = RecoveryState.Created, rm_not_before = None \<rparr>"

definition RecoveryMachine_apply ::
    "RecoveryEvent \<Rightarrow> u64 \<Rightarrow> u64 \<Rightarrow> RecoveryMachine \<Rightarrow> (CoreError, Action list) result \<times> RecoveryMachine"
where
  "RecoveryMachine_apply event now delay self =
    (if rm_state self = RecoveryState.Cancelled then (Inl CoreError.Cancelled, self)
     else if rm_state self = RecoveryState.Expired then (Inl CoreError.Expired, self)
     else case (rm_state self, event) of
       (RecoveryState.Created, RequestCreated) \<Rightarrow>
         (Inr [RequestSignerApprovals], self \<lparr> rm_state := RecoveryState.AwaitingApprovals \<rparr>)
     | (RecoveryState.AwaitingApprovals, ApprovalThresholdReached) \<Rightarrow>
         (Inr [DecryptRecoveryDescriptor, SendBeginCertificate],
          self \<lparr> rm_state := RecoveryState.Authorized \<rparr>)
     | (RecoveryState.Authorized, BeginAccepted) \<Rightarrow>
         (let not_before = saturating_add now delay in
          (Inr [WaitUntil not_before, RequestReleaseVotes],
           self \<lparr> rm_state := RecoveryState.DelayPending, rm_not_before := Some not_before \<rparr>))
     | (RecoveryState.DelayPending, ReleaseCertificateReady) \<Rightarrow>
         (if now \<ge> (case rm_not_before self of Some t \<Rightarrow> t | None \<Rightarrow> u64_MAX)
          then (Inr [RequestGuardianContributions], self \<lparr> rm_state := RecoveryState.Releasing \<rparr>)
          else (Inl (InvalidTransition (rm_state self)), self))
     | (RecoveryState.Releasing, GuardianThresholdReached) \<Rightarrow>
         (Inr [ReconstructLocally, ZeroizeRecoverySecrets],
          self \<lparr> rm_state := RecoveryState.Completed \<rparr>)
     | (RecoveryState.AwaitingApprovals, OwnerCancelObserved) \<Rightarrow>
         (Inr [RefuseRelease, ZeroizeRecoverySecrets], self \<lparr> rm_state := RecoveryState.Cancelled \<rparr>)
     | (RecoveryState.Authorized, OwnerCancelObserved) \<Rightarrow>
         (Inr [RefuseRelease, ZeroizeRecoverySecrets], self \<lparr> rm_state := RecoveryState.Cancelled \<rparr>)
     | (RecoveryState.DelayPending, OwnerCancelObserved) \<Rightarrow>
         (Inr [RefuseRelease, ZeroizeRecoverySecrets], self \<lparr> rm_state := RecoveryState.Cancelled \<rparr>)
     | (_, ExpiryReached) \<Rightarrow>
         (Inr [RefuseRelease, ZeroizeRecoverySecrets], self \<lparr> rm_state := RecoveryState.Expired \<rparr>)
     | (from, _) \<Rightarrow> (Inl (InvalidTransition from), self))"

section \<open>\<open>GuardianMachine\<close>\<close>

definition GuardianMachine_new :: "Id32 \<Rightarrow> u64 \<Rightarrow> GuardianMachine" where
  "GuardianMachine_new config_id current_version =
     \<lparr> gm_config_id = config_id,
       gm_current_version = current_version,
       gm_seen = {},
       gm_seen_nonces = {},
       gm_pending = [],
       gm_cancelled = [] \<rparr>"

definition validate_request :: "GuardianMachine \<Rightarrow> RecoveryRequest \<Rightarrow> (CoreError, unit) result" where
  "validate_request self request =
     (if rq_protocol_version request \<noteq> PROTOCOL_VERSION \<or>
         rq_config_id request \<noteq> gm_config_id self \<or>
         rq_config_version request \<noteq> gm_current_version self
      then Inl StaleConfiguration
      else Inr ())"

definition begin_at ::
    "RecoveryRequest \<Rightarrow> Id32 \<Rightarrow> u64 \<Rightarrow> u64 \<Rightarrow> u64 \<Rightarrow> bool \<Rightarrow> GuardianMachine \<Rightarrow>
     (CoreError, u64) result \<times> GuardianMachine"
where
  "begin_at request request_digest wall_now monotonic_now delay certificate_valid self =
    (case validate_request self request of
       Inl e \<Rightarrow> (Inl e, self)
     | Inr _ \<Rightarrow>
       if \<not> certificate_valid then (Inl CoreError.FailClosed, self)
       else if rq_requested_at request > wall_now then (Inl InvalidRequest, self)
       else if wall_now \<ge> rq_expiry request then (Inl CoreError.Expired, self)
       else case bt_get (gm_cancelled self) (rq_request_id request) of
         Some cancelled_digest \<Rightarrow>
           (if cancelled_digest = request_digest then (Inl CoreError.Cancelled, self)
            else (Inl CoreError.RequestMismatch, self))
       | None \<Rightarrow>
         if rq_request_id request \<in> gm_seen self \<or> rq_nonce request \<in> gm_seen_nonces self
         then (Inl CoreError.Replay, self)
         else
           let not_before = saturating_add monotonic_now delay in
           (Inr not_before,
            self \<lparr> gm_seen := insert (rq_request_id request) (gm_seen self),
                   gm_seen_nonces := insert (rq_nonce request) (gm_seen_nonces self),
                   gm_pending := bt_insert (rq_request_id request)
                     \<lparr> gpe_pending =
                         \<lparr> pr_request_id = rq_request_id request,
                           pr_config_id = rq_config_id request,
                           pr_config_version = rq_config_version request,
                           pr_recipient = rq_recovery_recipient_key request,
                           pr_started_at_monotonic = monotonic_now,
                           pr_not_before = not_before,
                           pr_state = RecoveryState.DelayPending \<rparr>,
                       gpe_request_digest = request_digest,
                       gpe_expiry = rq_expiry request \<rparr>
                     (gm_pending self) \<rparr>))"

definition begin_now ::
    "RecoveryRequest \<Rightarrow> Id32 \<Rightarrow> u64 \<Rightarrow> u64 \<Rightarrow> bool \<Rightarrow> GuardianMachine \<Rightarrow>
     (CoreError, u64) result \<times> GuardianMachine"
where
  "begin_now request request_digest now delay certificate_valid self =
     begin_at request request_digest now now delay certificate_valid self"

text \<open>\<open>pending.get_mut(id)\<close> followed by an assignment to \<open>pending.pending.state\<close>.\<close>

definition set_pending_state :: "Id32 \<Rightarrow> GuardianPending \<Rightarrow> RecoveryState \<Rightarrow> GuardianMachine \<Rightarrow> GuardianMachine" where
  "set_pending_state i p st self =
     self \<lparr> gm_pending := bt_insert i (p \<lparr> gpe_pending := (gpe_pending p) \<lparr> pr_state := st \<rparr> \<rparr>) (gm_pending self) \<rparr>"

definition GuardianMachine_cancel ::
    "Id32 \<Rightarrow> Id32 \<Rightarrow> bool \<Rightarrow> GuardianMachine \<Rightarrow> (CoreError, unit) result \<times> GuardianMachine"
where
  "GuardianMachine_cancel request_id request_digest certificate_valid self =
    (if \<not> certificate_valid then (Inl CoreError.FailClosed, self)
     else case bt_get (gm_cancelled self) request_id of
       Some cancelled_digest \<Rightarrow>
         (if cancelled_digest = request_digest then (Inr (), self)
          else (Inl CoreError.RequestMismatch, self))
     | None \<Rightarrow>
       case bt_get (gm_pending self) request_id of
         Some pending \<Rightarrow>
           (if gpe_request_digest pending \<noteq> request_digest then (Inl CoreError.RequestMismatch, self)
            else
              (Inr (),
               (set_pending_state request_id pending RecoveryState.Cancelled self)
                 \<lparr> gm_cancelled := bt_insert request_id request_digest (gm_cancelled self) \<rparr>))
       | None \<Rightarrow>
           (Inr (),
            self \<lparr> gm_cancelled := bt_insert request_id request_digest (gm_cancelled self) \<rparr>))"

definition authorize_release_at ::
    "Id32 \<Rightarrow> Id32 \<Rightarrow> u64 \<Rightarrow> u64 \<Rightarrow> bool \<Rightarrow> bool \<Rightarrow> GuardianMachine \<Rightarrow>
     (CoreError, unit) result \<times> GuardianMachine"
where
  "authorize_release_at request_id request_digest wall_now monotonic_now certificate_valid
      state_unambiguous self =
    (case bt_get (gm_cancelled self) request_id of
       Some cancelled_digest \<Rightarrow>
         (if cancelled_digest = request_digest then (Inl CoreError.Cancelled, self)
          else (Inl CoreError.RequestMismatch, self))
     | None \<Rightarrow>
       if \<not> certificate_valid \<or> \<not> state_unambiguous then (Inl CoreError.FailClosed, self)
       else case bt_get (gm_pending self) request_id of
         None \<Rightarrow> (Inl CoreError.UnknownRequest, self)
       | Some pending \<Rightarrow>
         if gpe_request_digest pending \<noteq> request_digest then (Inl CoreError.RequestMismatch, self)
         else if wall_now \<ge> gpe_expiry pending then
           (Inl CoreError.Expired, set_pending_state request_id pending RecoveryState.Expired self)
         else if monotonic_now < pr_not_before (gpe_pending pending) then
           (Inl CoreError.DelayNotElapsed, self)
         else (Inr (), set_pending_state request_id pending RecoveryState.Releasing self))"

definition authorize_release ::
    "Id32 \<Rightarrow> Id32 \<Rightarrow> u64 \<Rightarrow> bool \<Rightarrow> bool \<Rightarrow> GuardianMachine \<Rightarrow>
     (CoreError, unit) result \<times> GuardianMachine"
where
  "authorize_release request_id request_digest now certificate_valid state_unambiguous self =
     authorize_release_at request_id request_digest now now certificate_valid state_unambiguous self"

definition GuardianMachine_state :: "GuardianMachine \<Rightarrow> Id32 \<Rightarrow> RecoveryState option" where
  "GuardianMachine_state self request_id =
     (if bt_contains_key (gm_cancelled self) request_id then Some RecoveryState.Cancelled
      else map_option (\<lambda>entry. pr_state (gpe_pending entry)) (bt_get (gm_pending self) request_id))"

text \<open>The operations of the machine as a datatype, to speak about runs.\<close>

datatype guardian_op =
    GBegin RecoveryRequest Id32 u64 u64 u64 bool
  | GCancel Id32 Id32 bool
  | GRelease Id32 Id32 u64 u64 bool bool

datatype guardian_reply =
    BeginReply "(CoreError, u64) result"
  | UnitReply "(CoreError, unit) result"

fun guardian_exec :: "guardian_op \<Rightarrow> GuardianMachine \<Rightarrow> guardian_reply \<times> GuardianMachine" where
  "guardian_exec (GBegin rq d wt mt delay ok) s = map_prod BeginReply id (begin_at rq d wt mt delay ok s)"
| "guardian_exec (GCancel i d ok) s = map_prod UnitReply id (GuardianMachine_cancel i d ok s)"
| "guardian_exec (GRelease i d wt mt ok un) s =
     map_prod UnitReply id (authorize_release_at i d wt mt ok un s)"


fun guardian_lab :: "guardian_op \<Rightarrow> guardian_reply \<Rightarrow> custody_label option" where
  "guardian_lab (GBegin rq d wt mt delay ok) (BeginReply (Inr nb)) =
     Some (Began (rq_request_id rq) (rq_nonce rq) d nb (rq_expiry rq))"
| "guardian_lab (GCancel i d ok) (UnitReply (Inr _)) = Some (CancelledBy i d)"
| "guardian_lab (GRelease i d wt mt ok un) (UnitReply (Inr _)) = Some (Released i d wt mt)"
| "guardian_lab _ _ = None"

definition pending_view :: "GuardianPending \<Rightarrow> Id32 \<times> u64 \<times> u64" where
  "pending_view p = (gpe_request_digest p, pr_not_before (gpe_pending p), gpe_expiry p)"

definition guardian_abs :: "GuardianMachine \<Rightarrow> custody" where
  "guardian_abs s =
     \<lparr> tomb = bt_get (gm_cancelled s),
       pend = (\<lambda>i. map_option pending_view (bt_get (gm_pending s) i)),
       seen_ids = gm_seen s,
       seen_ns = gm_seen_nonces s \<rparr>"

text \<open>The operations of the requester's machine, for runs.\<close>

fun recovery_exec ::
    "RecoveryEvent \<times> u64 \<times> u64 \<Rightarrow> RecoveryMachine \<Rightarrow> (CoreError, Action list) result \<times> RecoveryMachine"
where
  "recovery_exec (ev, now, delay) m = RecoveryMachine_apply ev now delay m"

type_synonym recovery_log = "((RecoveryEvent \<times> u64 \<times> u64) \<times> (CoreError, Action list) result) list"

definition accepted_events :: "recovery_log \<Rightarrow> RecoveryEvent list" where
  "accepted_events l = map (fst \<circ> fst) (filter (is_ok \<circ> snd) l)"

definition happy_path :: "RecoveryEvent list" where
  "happy_path = [RequestCreated, ApprovalThresholdReached, BeginAccepted,
     ReleaseCertificateReady, GuardianThresholdReached]"

text \<open>The accepted events that lead to a state.\<close>

definition leads_to :: "RecoveryEvent list \<Rightarrow> RecoveryState \<Rightarrow> bool" where
  "leads_to h st = (case st of
     RecoveryState.Created \<Rightarrow> h = []
   | RecoveryState.AwaitingApprovals \<Rightarrow> h = take 1 happy_path
   | RecoveryState.Authorized \<Rightarrow> h = take 2 happy_path
   | RecoveryState.DelayPending \<Rightarrow> h = take 3 happy_path
   | RecoveryState.Releasing \<Rightarrow> h = take 4 happy_path
   | RecoveryState.Completed \<Rightarrow> h = happy_path
   | RecoveryState.Cancelled \<Rightarrow> list_ex (\<lambda>n. h = take n happy_path @ [OwnerCancelObserved]) [1, 2, 3]
   | RecoveryState.Expired \<Rightarrow> list_ex (\<lambda>n. h = take n happy_path @ [ExpiryReached]) [0, 1, 2, 3, 4, 5])"

section \<open>Lemmas on \<open>RecoveryMachine\<close>\<close>

lemma accepted_events_snoc [simp]:
  "accepted_events (l @ [((ev, t), r)]) = accepted_events l @ (if is_ok r then [ev] else [])"
  "accepted_events [] = []"
  by (simp_all add: accepted_events_def)

lemma recovery_apply_cases:
  assumes "RecoveryMachine_apply ev now delay m = (r, m')"
  shows "(\<exists>e. r = Inl e) \<and> m' = m \<or>
    (\<exists>acts. r = Inr acts) \<and> rm_state m \<noteq> RecoveryState.Cancelled \<and> rm_state m \<noteq> RecoveryState.Expired \<and>
    (rm_state m = RecoveryState.Created \<and> ev = RequestCreated \<and>
       m' = m \<lparr> rm_state := RecoveryState.AwaitingApprovals \<rparr> \<or>
     rm_state m = RecoveryState.AwaitingApprovals \<and> ev = ApprovalThresholdReached \<and>
       m' = m \<lparr> rm_state := RecoveryState.Authorized \<rparr> \<or>
     rm_state m = RecoveryState.Authorized \<and> ev = BeginAccepted \<and>
       m' = m \<lparr> rm_state := RecoveryState.DelayPending, rm_not_before := Some (saturating_add now delay) \<rparr> \<or>
     rm_state m = RecoveryState.DelayPending \<and> ev = ReleaseCertificateReady \<and>
       (case rm_not_before m of Some t \<Rightarrow> t | None \<Rightarrow> u64_MAX) \<le> now \<and>
       m' = m \<lparr> rm_state := RecoveryState.Releasing \<rparr> \<or>
     rm_state m = RecoveryState.Releasing \<and> ev = GuardianThresholdReached \<and>
       m' = m \<lparr> rm_state := RecoveryState.Completed \<rparr> \<or>
     rm_state m \<in> {RecoveryState.AwaitingApprovals, RecoveryState.Authorized, RecoveryState.DelayPending} \<and>
       ev = OwnerCancelObserved \<and> m' = m \<lparr> rm_state := RecoveryState.Cancelled \<rparr> \<or>
     ev = ExpiryReached \<and> m' = m \<lparr> rm_state := RecoveryState.Expired \<rparr>)"
  using assms unfolding RecoveryMachine_apply_def
  by (cases "rm_state m"; cases ev) (auto simp: Let_def split: if_splits)

definition begun_at :: "recovery_log \<Rightarrow> u64 option \<Rightarrow> bool" where
  "begun_at l nb \<longleftrightarrow>
     (\<exists>now delay acts. ((BeginAccepted, now, delay), Inr acts) \<in> set l \<and> nb = Some (saturating_add now delay))"

definition recovery_inv :: "recovery_log \<Rightarrow> RecoveryMachine \<Rightarrow> bool" where
  "recovery_inv l m \<longleftrightarrow> leads_to (accepted_events l) (rm_state m) \<and>
     (rm_state m \<in> {RecoveryState.DelayPending, RecoveryState.Releasing, RecoveryState.Completed} \<longrightarrow>
        begun_at l (rm_not_before m))"

lemma begun_at_mono: "begun_at l nb \<Longrightarrow> begun_at (l @ l') nb"
  by (auto simp: begun_at_def)

lemma recovery_inv_exec:
  assumes "recovery_inv l m" and "recovery_exec op m = (r, m')"
  shows "recovery_inv (l @ [(op, r)]) m'"
proof (cases op)
  case (fields ev now delay)
  with assms(2) have ap: "RecoveryMachine_apply ev now delay m = (r, m')" by simp
  from assms(1) have l: "leads_to (accepted_events l) (rm_state m)"
    and b: "rm_state m \<in> {RecoveryState.DelayPending, RecoveryState.Releasing, RecoveryState.Completed} \<Longrightarrow>
        begun_at l (rm_not_before m)"
    by (auto simp: recovery_inv_def)
  have b': "begun_at (l @ [((ev, now, delay), r)]) (rm_not_before m)"
    if "rm_state m \<in> {RecoveryState.DelayPending, RecoveryState.Releasing, RecoveryState.Completed}"
    using b [OF that] by (rule begun_at_mono)
  have b2: "r = Inr acts \<Longrightarrow> begun_at (l @ [((BeginAccepted, now, delay), r)]) (Some (saturating_add now delay))" for acts
    by (auto simp: begun_at_def)
  show ?thesis
    using recovery_apply_cases [OF ap] l b' b2 fields
    by (cases "rm_state m"; cases ev)
      (auto simp: recovery_inv_def leads_to_def happy_path_def is_ok_def)
qed

lemma recovery_inv_start: "recovery_inv [] RecoveryMachine_default"
  by (simp add: recovery_inv_def RecoveryMachine_default_def leads_to_def)

interpretation rm: logged_machine recovery_exec RecoveryMachine_default recovery_inv
  by unfold_locales (fact recovery_inv_start, fact recovery_inv_exec)

section \<open>Lemmas on \<open>GuardianMachine\<close>\<close>

lemmas guardian_op_defs =
  begin_at_def GuardianMachine_cancel_def authorize_release_at_def validate_request_def
  set_pending_state_def

text \<open>What a successful operation implies.\<close>

lemma begin_at_ok:
  assumes "begin_at rq d wt mt delay ok s = (Inr nb, s')"
  shows "ok" "nb = saturating_add mt delay" "rq_config_id rq = gm_config_id s"
    "rq_config_version rq = gm_current_version s" "rq_protocol_version rq = PROTOCOL_VERSION"
    "rq_requested_at rq \<le> wt" "wt < rq_expiry rq"
  using assms
  by (auto simp: guardian_op_defs Let_def split: if_splits option.splits sum.splits)

lemma release_ok:
  "authorize_release_at i d wt mt ok un s = (Inr u, s') \<Longrightarrow> ok \<and> un"
  by (auto simp: guardian_op_defs split: if_splits option.splits)

lemma guardian_config_kept:
  "guardian_exec op s = (r, s') \<Longrightarrow>
     gm_config_id s' = gm_config_id s \<and> gm_current_version s' = gm_current_version s"
  by (cases op)
    (auto simp: guardian_op_defs Let_def split: if_splits option.splits sum.splits)

lemma guardian_simulates:
  assumes "guardian_exec op s = (r, s')"
  shows "custody_step (guardian_abs s) (guardian_lab op r) (guardian_abs s')"
proof (cases op)
  case (GBegin rq d wt mt delay ok)
  with assms show ?thesis
    by (auto simp: guardian_op_defs Let_def guardian_abs_def custody_step_simps fun_eq_iff pending_view_def
        split: if_splits option.splits sum.splits)
next
  case (GCancel i d ok)
  with assms show ?thesis
    by (auto simp: guardian_op_defs guardian_abs_def custody_step_simps fun_eq_iff pending_view_def
        split: if_splits option.splits)
next
  case (GRelease i d wt mt ok un)
  with assms show ?thesis
    by (auto simp: guardian_op_defs guardian_abs_def custody_step_simps fun_eq_iff pending_view_def
        split: if_splits option.splits)
qed

interpretation gm: custodian guardian_exec "GuardianMachine_new cfg ver" guardian_lab guardian_abs
  for cfg ver
  by unfold_locales
    (simp_all add: guardian_simulates, simp add: guardian_abs_def GuardianMachine_new_def custody_start_def)

interpretation gm_config: stable_machine guardian_exec
    "\<lambda>s. gm_config_id s = cfg \<and> gm_current_version s = ver"
  for cfg ver
  by unfold_locales (auto dest: guardian_config_kept)


lemma guardian_begin_success:
  assumes "run_log guardian_exec (GuardianMachine_new cfg ver) ops = (l, s)"
    and "(GBegin rq d wt mt delay ok, BeginReply (Inr nb)) \<in> set l"
  shows "ok \<and> nb = saturating_add mt delay \<and> rq_config_id rq = cfg \<and> rq_config_version rq = ver \<and>
    rq_requested_at rq \<le> wt \<and> wt < rq_expiry rq"
proof -
  from assms(2) obtain l1 l2 where "l = l1 @ (GBegin rq d wt mt delay ok, BeginReply (Inr nb)) # l2"
    by (meson split_list)
  with assms(1) obtain u u' where "gm_config_id u = cfg \<and> gm_current_version u = ver"
    and "guardian_exec (GBegin rq d wt mt delay ok) u = (BeginReply (Inr nb), u')"
    using gm_config.run_stable_entry [of "GuardianMachine_new cfg ver" cfg ver]
    by (fastforce simp: GuardianMachine_new_def)
  then show ?thesis
    using begin_at_ok [of rq d wt mt delay ok u nb] by (auto simp: map_prod_def split: prod.splits)
qed

lemma guardian_lab_began:
  "guardian_lab op r = Some (Began i n d nb e) \<longleftrightarrow>
     (\<exists>rq wt mt delay ok. op = GBegin rq d wt mt delay ok \<and> r = BeginReply (Inr nb) \<and>
        rq_request_id rq = i \<and> rq_nonce rq = n \<and> rq_expiry rq = e)"
  by (cases "(op, r)" rule: guardian_lab.cases) auto

lemma guardian_lab_cancelled:
  "guardian_lab op r = Some (CancelledBy i d) \<longleftrightarrow>
     (\<exists>ok. op = GCancel i d ok \<and> r = UnitReply (Inr ()))"
  by (cases "(op, r)" rule: guardian_lab.cases) auto

lemmas guardian_label_members = labels_member guardian_lab_began guardian_lab_cancelled

text \<open>A tombstone decides the reply to every later release and cancellation.\<close>

definition tombstoned :: "Id32 \<Rightarrow> Id32 \<Rightarrow> GuardianMachine \<Rightarrow> bool" where
  "tombstoned i d s \<longleftrightarrow> bt_get (gm_cancelled s) i = Some d"

interpretation gm_tomb: stable_machine guardian_exec "tombstoned i d" for i d
proof unfold_locales
  fix s op r s'
  assume "tombstoned i d s" and "guardian_exec op s = (r, s')"
  then show "tombstoned i d s'"
    by (cases op)
      (auto simp: tombstoned_def guardian_op_defs Let_def split: if_splits option.splits sum.splits)
qed

definition refusal :: "Id32 \<Rightarrow> Id32 \<Rightarrow> CoreError" where
  "refusal d d' = (if d' = d then CoreError.Cancelled else CoreError.RequestMismatch)"

lemma tombstoned_replies:
  assumes "tombstoned i d s" and "guardian_exec op s = (r, s')"
  shows "op = GRelease i d' wt mt ok un \<Longrightarrow> r = UnitReply (Inl (refusal d d'))"
    and "op = GBegin rq d' wt mt delay ok \<Longrightarrow> rq_request_id rq = i \<Longrightarrow> \<exists>e. r = BeginReply (Inl e)"
    and "op = GCancel i d' ok \<Longrightarrow> r = UnitReply (Inr ()) \<Longrightarrow> d' = d"
  using assms
  by (auto simp: tombstoned_def refusal_def guardian_op_defs Let_def
      split: if_splits option.splits sum.splits)

lemma cancel_sets_tombstone:
  "GuardianMachine_cancel i d ok s = (Inr u, s') \<Longrightarrow> tombstoned i d s'"
  by (auto simp: tombstoned_def guardian_op_defs split: if_splits option.splits)

lemma tombstoned_state: "tombstoned i d s \<Longrightarrow> GuardianMachine_state s i = Some RecoveryState.Cancelled"
  by (simp add: tombstoned_def GuardianMachine_state_def)

section \<open>Properties of the requester's machine\<close>

text \<open>Whatever events the requester's machine is given, and at whatever times, the events it
  accepts are a prefix of the recovery path (created, approved, begun, released, completed),
  possibly ended by one owner cancellation before the release or by one expiry; its state
  tells exactly which prefix. So no step is skipped, repeated or taken after the end.\<close>

theorem recovery_history:
  "leads_to (accepted_events (fst (run_log recovery_exec RecoveryMachine_default ops)))
     (rm_state (snd (run_log recovery_exec RecoveryMachine_default ops)))"
  using rm.run_inv [of ops] by (simp add: recovery_inv_def prod_eq_iff)

text \<open>The requester's machine asks the guardians for their contributions only after a begin it
  accepted, at a time no earlier than the begin plus the delay (saturating at \<open>u64::MAX\<close>), and
  with no owner cancellation or expiry accepted before.\<close>

theorem recovery_release_delay:
  assumes "run_log recovery_exec RecoveryMachine_default ops =
      (l1 @ ((ev, now, delay), Inr acts) # l2, m)"
    and "RequestGuardianContributions \<in> set acts"
  shows "\<exists>t d acts'. ((BeginAccepted, t, d), Inr acts') \<in> set l1 \<and> saturating_add t d \<le> now \<and>
    accepted_events l1 = [RequestCreated, ApprovalThresholdReached, BeginAccepted]"
proof -
  from rm.inv_before [OF assms(1)] obtain s s' where inv: "recovery_inv l1 s"
    and ex: "RecoveryMachine_apply ev now delay s = (Inr acts, s')" by auto
  have st: "rm_state s = RecoveryState.DelayPending \<and>
      (case rm_not_before s of Some t \<Rightarrow> t | None \<Rightarrow> u64_MAX) \<le> now"
    using ex assms(2) unfolding RecoveryMachine_apply_def
    by (cases "rm_state s"; cases ev) (auto simp: Let_def split: if_splits)
  with inv show ?thesis
    by (auto simp: recovery_inv_def begun_at_def leads_to_def happy_path_def) blast
qed

definition sample_recovery_ops :: "(RecoveryEvent \<times> u64 \<times> u64) list" where
  "sample_recovery_ops =
     [(RequestCreated, 0, 10), (ApprovalThresholdReached, 1, 10), (BeginAccepted, 2, 10)]"

theorem recovery_release_delay_witness:
  "\<exists>t d acts'. ((BeginAccepted, t, d), Inr acts') \<in>
       set (fst (run_log recovery_exec RecoveryMachine_default sample_recovery_ops)) \<and>
     saturating_add t d \<le> 12 \<and>
     accepted_events (fst (run_log recovery_exec RecoveryMachine_default sample_recovery_ops)) =
       [RequestCreated, ApprovalThresholdReached, BeginAccepted]"
proof (rule recovery_release_delay)
  let ?s = "snd (run_log recovery_exec RecoveryMachine_default sample_recovery_ops)"
  show "run_log recovery_exec RecoveryMachine_default
      (sample_recovery_ops @ [(ReleaseCertificateReady, 12, 10)]) =
    (fst (run_log recovery_exec RecoveryMachine_default sample_recovery_ops) @
      ((ReleaseCertificateReady, 12, 10), Inr [RequestGuardianContributions]) # [],
     ?s \<lparr> rm_state := RecoveryState.Releasing \<rparr>)"
    by (simp add: sample_recovery_ops_def RecoveryMachine_default_def RecoveryMachine_apply_def
        saturating_add_def)
qed simp

section \<open>Properties of the guardian's machine\<close>

text \<open>C35: every run of the guardian's machine is a run of the abstract custodian: each successful
  begin, cancellation and release is the custodian's step of that name, every refusal is a
  silent step, and the abstraction of the machine's state follows.\<close>

theorem guardian_refines_custody:
  "custody_run custody_start
     (labels guardian_lab (fst (run_log guardian_exec (GuardianMachine_new cfg ver) ops)))
     (guardian_abs (snd (run_log guardian_exec (GuardianMachine_new cfg ver) ops)))"
  by (rule gm.refines [of cfg ver ops]) simp

text \<open>A guardian authorises a release only with a valid certificate and an unambiguous state,
  after it accepted a begin for the same request and the same digest under this configuration,
  once the monotonic delay of that begin has passed and before the request's wall-clock expiry,
  and only if no cancellation of the request was accepted before.\<close>

theorem guardian_release_safety:
  assumes "run_log guardian_exec (GuardianMachine_new cfg ver) ops =
      (l1 @ (GRelease i d wt mt ok un, UnitReply (Inr ())) # l2, s)"
  shows "ok \<and> un \<and>
    (\<exists>rq wt0 mt0 delay.
       (GBegin rq d wt0 mt0 delay True, BeginReply (Inr (saturating_add mt0 delay))) \<in> set l1 \<and>
       rq_request_id rq = i \<and> rq_config_id rq = cfg \<and> rq_config_version rq = ver \<and>
       rq_requested_at rq \<le> wt0 \<and> saturating_add mt0 delay \<le> mt \<and> wt < rq_expiry rq) \<and>
    (\<nexists>d' ok'. (GCancel i d' ok', UnitReply (Inr ())) \<in> set l1)"
proof (intro conjI)
  from run_log_split [OF assms] obtain u u' where
    "guardian_exec (GRelease i d wt mt ok un) u = (UnitReply (Inr ()), u')" by blast
  then show ok and un
    using release_ok [of i d wt mt ok un u] by (auto simp: map_prod_def split: prod.splits)
  have adm: "custody_admits (labels guardian_lab l1) (Released i d wt mt)"
    by (rule gm.admits [OF assms]) simp
  then show "\<nexists>d' ok'. (GCancel i d' ok', UnitReply (Inr ())) \<in> set l1"
    by (auto simp: custody_admits_def guardian_label_members)
  from adm obtain rq wt0 mt0 delay ok0 nb where
    b: "(GBegin rq d wt0 mt0 delay ok0, BeginReply (Inr nb)) \<in> set l1"
    and "rq_request_id rq = i" "nb \<le> mt" "wt < rq_expiry rq"
    by (auto simp: custody_admits_def guardian_label_members)
  moreover from b have "ok0 \<and> nb = saturating_add mt0 delay \<and> rq_config_id rq = cfg \<and>
      rq_config_version rq = ver \<and> rq_requested_at rq \<le> wt0 \<and> wt0 < rq_expiry rq"
    using guardian_begin_success [OF assms, of rq d wt0 mt0 delay ok0 nb] by simp
  ultimately show "\<exists>rq wt0 mt0 delay.
       (GBegin rq d wt0 mt0 delay True, BeginReply (Inr (saturating_add mt0 delay))) \<in> set l1 \<and>
       rq_request_id rq = i \<and> rq_config_id rq = cfg \<and> rq_config_version rq = ver \<and>
       rq_requested_at rq \<le> wt0 \<and> saturating_add mt0 delay \<le> mt \<and> wt < rq_expiry rq"
    by (intro exI [of _ rq] exI [of _ wt0] exI [of _ mt0] exI [of _ delay]) auto
qed

definition sample_request :: RecoveryRequest where
  "sample_request =
     \<lparr> rq_protocol_version = 2, rq_crypto_suite = XWingXChaCha20Poly1305Ed25519,
       rq_config_id = 1, rq_config_version = 1, rq_request_id = 2,
       rq_recovery_recipient_key = [3], rq_requested_at = 10, rq_nonce = 4, rq_expiry = 100 \<rparr>"

definition sample_machine :: GuardianMachine where
  "sample_machine = snd (guardian_exec (GBegin sample_request 9 10 1000 20 True) (GuardianMachine_new 1 1))"

lemmas sample_evals =
  sample_machine_def sample_request_def GuardianMachine_new_def guardian_op_defs
  PROTOCOL_VERSION_def PROTOCOL_VERSION_V2_def saturating_add_def

theorem guardian_release_safety_witness:
  "\<exists>rq wt0 mt0 delay.
     (GBegin rq 9 wt0 mt0 delay True, BeginReply (Inr (saturating_add mt0 delay))) \<in>
        set [(GBegin sample_request 9 10 1000 20 True, BeginReply (Inr 1020))] \<and>
     rq_request_id rq = 2 \<and> saturating_add mt0 delay \<le> 1020 \<and> 20 < rq_expiry rq"
proof -
  have "run_log guardian_exec (GuardianMachine_new 1 1)
      [GBegin sample_request 9 10 1000 20 True, GRelease 2 9 20 1020 True True] =
    ([(GBegin sample_request 9 10 1000 20 True, BeginReply (Inr 1020))] @
      (GRelease 2 9 20 1020 True True, UnitReply (Inr ())) # [],
     snd (guardian_exec (GRelease 2 9 20 1020 True True) sample_machine))"
    by (simp add: sample_evals)
  from guardian_release_safety [OF this] show ?thesis by blast
qed

text \<open>A guardian accepts at most one begin per request identifier and at most one per nonce, in
  any run: two accepted begins always differ in both.\<close>

theorem guardian_begin_once:
  assumes "run_log guardian_exec (GuardianMachine_new cfg ver) ops =
      (l1 @ (GBegin rq d wt mt delay ok, BeginReply (Inr nb)) # l2, s)"
    and "(GBegin rq' d' wt' mt' delay' ok', BeginReply (Inr nb')) \<in> set l1"
  shows "rq_request_id rq' \<noteq> rq_request_id rq \<and> rq_nonce rq' \<noteq> rq_nonce rq"
proof -
  have "custody_admits (labels guardian_lab l1)
      (Began (rq_request_id rq) (rq_nonce rq) d nb (rq_expiry rq))"
    by (rule gm.admits [OF assms(1)]) simp
  with assms(2) show ?thesis
    unfolding custody_admits_def by (simp add: guardian_label_members) blast
qed

definition second_request :: RecoveryRequest where
  "second_request = sample_request \<lparr> rq_request_id := 5, rq_nonce := 6 \<rparr>"

theorem guardian_begin_once_witness:
  "rq_request_id sample_request \<noteq> rq_request_id second_request \<and>
   rq_nonce sample_request \<noteq> rq_nonce second_request"
proof -
  have "run_log guardian_exec (GuardianMachine_new 1 1)
      [GBegin sample_request 9 10 1000 20 True, GBegin second_request 8 10 1000 20 True] =
    ([(GBegin sample_request 9 10 1000 20 True, BeginReply (Inr 1020))] @
      (GBegin second_request 8 10 1000 20 True, BeginReply (Inr 1020)) # [],
     snd (guardian_exec (GBegin second_request 8 10 1000 20 True) sample_machine))"
    by (simp add: sample_evals second_request_def)
  from guardian_begin_once [OF this] show ?thesis by (simp add: second_request_def)
qed

text \<open>A cancellation is permanent, whether or not the request was begun before it: afterwards no
  begin for the request succeeds, every release is refused (as cancelled for the cancelled
  digest, as a mismatch for any other), no cancellation under another digest succeeds, and
  the request's state stays \<open>Cancelled\<close>.\<close>

theorem guardian_cancel_permanent:
  assumes "GuardianMachine_cancel i d ok s = (Inr (), s0)"
    and "run_log guardian_exec s0 ops = (l, t)"
  shows "GuardianMachine_state t i = Some RecoveryState.Cancelled \<and>
    (\<forall>(op, r) \<in> set l.
       (\<forall>d' wt mt ok un. op = GRelease i d' wt mt ok un \<longrightarrow>
          r = UnitReply (Inl (if d' = d then CoreError.Cancelled else CoreError.RequestMismatch))) \<and>
       (\<forall>rq d' wt mt delay ok. op = GBegin rq d' wt mt delay ok \<and> rq_request_id rq = i \<longrightarrow>
          (\<exists>e. r = BeginReply (Inl e))) \<and>
       (\<forall>d' ok. op = GCancel i d' ok \<and> r = UnitReply (Inr ()) \<longrightarrow> d' = d))"
proof (intro conjI ballI, unfold case_prod_beta)
  have tomb: "tombstoned i d s0" by (rule cancel_sets_tombstone [OF assms(1)])
  show "GuardianMachine_state t i = Some RecoveryState.Cancelled"
    by (rule tombstoned_state [OF gm_tomb.run_stable [OF tomb assms(2)]])
  fix x assume "x \<in> set l"
  then obtain l1 l2 where "l = l1 @ (fst x, snd x) # l2" by (metis split_list surjective_pairing)
  with assms(2) obtain u u' where u: "tombstoned i d u" "guardian_exec (fst x) u = (snd x, u')"
    using gm_tomb.run_stable_entry [OF tomb] by blast
  show "(\<forall>d' wt mt ok un. fst x = GRelease i d' wt mt ok un \<longrightarrow>
          snd x = UnitReply (Inl (if d' = d then CoreError.Cancelled else CoreError.RequestMismatch))) \<and>
       (\<forall>rq d' wt mt delay ok. fst x = GBegin rq d' wt mt delay ok \<and> rq_request_id rq = i \<longrightarrow>
          (\<exists>e. snd x = BeginReply (Inl e))) \<and>
       (\<forall>d' ok. fst x = GCancel i d' ok \<and> snd x = UnitReply (Inr ()) \<longrightarrow> d' = d)"
    using tombstoned_replies [OF u] unfolding refusal_def by blast
qed

theorem guardian_cancel_permanent_witness:
  "GuardianMachine_state
     (snd (run_log guardian_exec
        (snd (GuardianMachine_cancel 2 9 True sample_machine))
        [GRelease 2 9 20 1020 True True])) 2 = Some RecoveryState.Cancelled"
proof -
  have "GuardianMachine_cancel 2 9 True sample_machine =
      (Inr (), snd (GuardianMachine_cancel 2 9 True sample_machine))"
    by (simp add: sample_evals)
  from guardian_cancel_permanent [OF this surjective_pairing] show ?thesis by blast
qed

end
