(* ===== verification/GP_Types_Rotation.thy ===== *)
theory GP_Types_Rotation
  imports GP_Types
begin

text \<open>
  The protocol-v3 guardian-epoch and rotation data types of \<open>gp-types/src/rotation.rs\<close>,
  the successor relation between configurations and the order of the rotation phases.
\<close>

definition MAX_ROTATION_ACTORS :: u16 where
  "MAX_ROTATION_ACTORS = 4096"

definition MAX_CONFIG_WITNESSES :: u16 where
  "MAX_CONFIG_WITNESSES = 4096"

section \<open>Data\<close>

record ConfigRef =
  cr_config_id :: Id32
  cr_payload_generation :: u64
  cr_authorization_epoch :: u64
  cr_guardian_epoch :: u64
  cr_epoch_binding :: Id32

datatype RotationState =
    Proposed
  | DelayPending
  | Preparing
  | Ready
  | Activating
  | Active
  | Draining
  | Retired
  | Aborted

datatype GuardianEpochState =
    Prepared
  | Active
  | Draining
  | Retired

datatype GuardianLifecycle =
    Candidate
  | Healthy
  | Suspect
  | Unavailable
  | Malicious
  | Exiting
  | Retired

datatype RotationReason =
    PlannedExit
  | CustodyFailure
  | Unavailable
  | SuspectedCompromise
  | DiversityPolicy
  | ProactiveRefresh
  | SecurityUpgrade
  | OwnerAssistedMigration

datatype DpssSuiteId =
    ZfFrostRistretto255RtsRefreshV1

datatype DpssPhase =
    RepairRound1
  | RepairRound2
  | RepairRound3
  | RefreshRound1
  | RefreshRound2
  | Finalize

datatype GuardianHealthState =
    Unknown
  | Healthy
  | Degraded
  | Failed

record RotationContext =
  rx_protocol_version :: u16
  rx_config_ref :: ConfigRef
  rx_rotation_id :: Id32
  rx_predecessor_capsule_hash :: Id32
  rx_recipient_key :: "byte list"
  rx_nonce :: Id32
  rx_issued_at :: u64
  rx_expiry :: u64

record GuardianRouteV3 =
  gr3_guardian_index :: u16
  gr3_opaque_slot_id :: Id32
  gr3_mailbox :: string
  gr3_guardian_public_key :: arr32
  gr3_session_recipient_key :: "byte list"
  gr3_operator_domain_commitment :: Id32

record RotationIntent =
  ri_context :: RotationContext
  ri_reason :: RotationReason
  ri_old_guardian_count :: u16
  ri_old_guardian_threshold :: u16
  ri_allowed_new_guardian_count :: "u16 list"
  ri_allowed_new_guardian_threshold :: "u16 list"
  ri_allowed_dpss_suites :: "DpssSuiteId list"
  ri_selection_constraints_commitment :: Id32
  ri_witness_read_qc_hash :: Id32

record SignerRotationIntentContribution =
  sric_context :: RotationContext
  sric_intent_hash :: Id32
  sric_signer_id :: u16
  sric_signer_public_key :: arr32
  sric_signer_membership_proof :: MerkleProofBytes
  sric_encrypted_authorization_share :: SealedMessage
  sric_signer_signature :: SignatureBytes

record RotationPlan =
  rp_context :: RotationContext
  rp_intent_hash :: Id32
  rp_predecessor :: ConfigRef
  rp_successor :: ConfigRef
  rp_old_roster :: "GuardianRouteV3 list"
  rp_new_roster :: "GuardianRouteV3 list"
  rp_old_roster_commitment :: Id32
  rp_new_roster_commitment :: Id32
  rp_old_guardian_threshold :: u16
  rp_new_guardian_threshold :: u16
  rp_data_shards :: u16
  rp_total_shards :: u16
  rp_dpss_suite :: DpssSuiteId
  rp_dpss_session_id :: Id32
  rp_dpss_qualified_set_commitment :: Id32
  rp_minimum_delay_secs :: u64
  rp_preparation_deadline :: u64
  rp_drain_deadline :: u64

record SignerRotationBeginVote =
  srbv_context :: RotationContext
  srbv_intent_hash :: Id32
  srbv_plan_hash :: Id32
  srbv_old_roster_commitment :: Id32
  srbv_new_roster_commitment :: Id32
  srbv_signer_id :: u16
  srbv_signer_public_key :: arr32
  srbv_signer_membership_proof :: MerkleProofBytes
  srbv_signer_signature :: SignatureBytes

record BeginRotationCertificate =
  brot_context :: RotationContext
  brot_intent_hash :: Id32
  brot_plan_hash :: Id32
  brot_old_roster_commitment :: Id32
  brot_new_roster_commitment :: Id32
  brot_not_before_wall :: u64
  brot_votes :: "SignerRotationBeginVote list"

record OwnerRotationCancelCertificate =
  orcc_context :: RotationContext
  orcc_plan_hash :: Id32
  orcc_reason_code :: u16
  orcc_cancel_response_recipient_key :: "byte list"
  orcc_owner_cancel_public_key :: arr32
  orcc_owner_signature :: SignatureBytes

record OwnerRotationCancelAck =
  orca_context :: RotationContext
  orca_plan_hash :: Id32
  orca_cancel_certificate_hash :: Id32
  orca_guardian_index :: u16
  orca_guardian_signature :: SignatureBytes

record SignerRotationReleaseVote =
  srrv_context :: RotationContext
  srrv_plan_hash :: Id32
  srrv_begin_certificate_hash :: Id32
  srrv_signer_id :: u16
  srrv_signer_public_key :: arr32
  srrv_signer_membership_proof :: MerkleProofBytes
  srrv_signer_signature :: SignatureBytes

record RotationReleaseCertificate =
  rrc_context :: RotationContext
  rrc_plan_hash :: Id32
  rrc_begin_certificate_hash :: Id32
  rrc_votes :: "SignerRotationReleaseVote list"

record OldShareUnlockGrant =
  osug_context :: RotationContext
  osug_plan_hash :: Id32
  osug_release_certificate_hash :: Id32
  osug_old_guardian_index :: u16
  osug_encrypted_unwrap_key :: SealedMessage
  osug_encrypted_fragment_key :: SealedMessage

record NewShareWrapGrant =
  nswg_context :: RotationContext
  nswg_plan_hash :: Id32
  nswg_release_certificate_hash :: Id32
  nswg_new_guardian_index :: u16
  nswg_encrypted_wrap_key :: SealedMessage
  nswg_encrypted_fragment_key :: SealedMessage

record DpssProtocolMessage =
  dpm_context :: RotationContext
  dpm_plan_hash :: Id32
  dpm_dpss_suite :: DpssSuiteId
  dpm_dpss_session_id :: Id32
  dpm_qualified_set_commitment :: Id32
  dpm_phase :: DpssPhase
  dpm_sender_index :: u16
  dpm_recipient_index :: u16
  dpm_sequence :: u64
  dpm_provider_payload :: "byte list"
  dpm_sender_signature :: SignatureBytes

record PreparedRecordLeaf =
  prl_guardian_index :: u16
  prl_fragment_index :: u16
  prl_opaque_slot_id :: Id32
  prl_encrypted_share_hash :: Id32
  prl_fragment_hash :: Id32
  prl_policy_hash :: Id32

record CiphertextFragmentContribution =
  cfc_context :: RotationContext
  cfc_plan_hash :: Id32
  cfc_release_certificate_hash :: Id32
  cfc_old_guardian_index :: u16
  cfc_fragment_index :: u16
  cfc_ciphertext_fragment :: "byte list"
  cfc_fragment_commitment :: Id32
  cfc_prepared_record_leaf :: PreparedRecordLeaf
  cfc_merkle_path_proof :: MerkleProofBytes
  cfc_guardian_signature :: SignatureBytes

record NewGuardianPreparedAck =
  ngpa_context :: RotationContext
  ngpa_plan_hash :: Id32
  ngpa_dpss_result_commitment :: Id32
  ngpa_guardian_material_root :: Id32
  ngpa_new_guardian_index :: u16
  ngpa_prepared_record_leaf :: PreparedRecordLeaf
  ngpa_durable_write_generation :: u64
  ngpa_guardian_signature :: SignatureBytes

record OldGuardianHandoffAck =
  ogha_context :: RotationContext
  ogha_plan_hash :: Id32
  ogha_dpss_result_commitment :: Id32
  ogha_qualified_set_commitment :: Id32
  ogha_old_guardian_index :: u16
  ogha_guardian_signature :: SignatureBytes

record RotationReadyCertificate =
  rrdy_context :: RotationContext
  rrdy_plan_hash :: Id32
  rrdy_successor :: ConfigRef
  rrdy_dpss_result_commitment :: Id32
  rrdy_guardian_material_root :: Id32
  rrdy_encrypted_descriptor_hash :: Id32
  rrdy_prepared_acks :: "NewGuardianPreparedAck list"
  rrdy_old_handoff_acks :: "OldGuardianHandoffAck list"

record SignerRotationActivateVote =
  srav_context :: RotationContext
  srav_plan_hash :: Id32
  srav_ready_certificate_hash :: Id32
  srav_successor_capsule_hash :: Id32
  srav_signer_id :: u16
  srav_signer_public_key :: arr32
  srav_signer_membership_proof :: MerkleProofBytes
  srav_signer_signature :: SignatureBytes

record RotationActivateCertificate =
  rac_context :: RotationContext
  rac_plan_hash :: Id32
  rac_ready_certificate_hash :: Id32
  rac_successor :: ConfigRef
  rac_successor_capsule_hash :: Id32
  rac_votes :: "SignerRotationActivateVote list"

record WitnessActivationAck =
  waa_context :: RotationContext
  waa_plan_hash :: Id32
  waa_activation_certificate_hash :: Id32
  waa_witness_id :: u16
  waa_predecessor_epoch :: u64
  waa_predecessor_capsule_hash :: Id32
  waa_successor_epoch :: u64
  waa_successor_capsule_hash :: Id32
  waa_witness_public_key :: arr32
  waa_witness_signature :: SignatureBytes

record WitnessRotationCancelAck =
  wrca_protocol_version :: u16
  wrca_config_id :: Id32
  wrca_rotation_id :: Id32
  wrca_plan_hash :: Id32
  wrca_cancel_certificate_hash :: Id32
  wrca_witness_id :: u16
  wrca_witness_public_key :: arr32
  wrca_witness_signature :: SignatureBytes

record EpochActivationQc =
  qc_protocol_version :: u16
  qc_config_id :: Id32
  qc_rotation_id :: Id32
  qc_predecessor_epoch :: u64
  qc_predecessor_capsule_hash :: Id32
  qc_successor_epoch :: u64
  qc_successor_capsule_hash :: Id32
  qc_activation_certificate_hash :: Id32
  qc_witness_fault_bound :: u16
  qc_witness_acks :: "WitnessActivationAck list"

record EpochReadChallenge =
  erc_protocol_version :: u16
  erc_config_id :: Id32
  erc_client_nonce :: Id32
  erc_response_recipient_key :: "byte list"
  erc_issued_at :: u64
  erc_expiry :: u64

record WitnessEpochReadResponse =
  werr_protocol_version :: u16
  werr_config_id :: Id32
  werr_client_nonce :: Id32
  werr_witness_id :: u16
  werr_highest_guardian_epoch :: u64
  werr_capsule_hash :: Id32
  werr_witness_public_key :: arr32
  werr_witness_signature :: SignatureBytes

record RetirementNotice =
  rn_context :: RotationContext
  rn_plan_hash :: Id32
  rn_activation_qc_hash :: Id32
  rn_retired_epoch :: u64
  rn_drain_deadline :: u64

record RetirementAck =
  rta_context :: RotationContext
  rta_plan_hash :: Id32
  rta_activation_qc_hash :: Id32
  rta_guardian_index :: u16
  rta_retired_epoch :: u64
  rta_tombstone_hash :: Id32
  rta_guardian_signature :: SignatureBytes

record SignerRotationAbortVote =
  sabv_context :: RotationContext
  sabv_plan_hash :: Id32
  sabv_state_at_abort :: RotationState
  sabv_reason_code :: u16
  sabv_signer_id :: u16
  sabv_signer_public_key :: arr32
  sabv_signer_membership_proof :: MerkleProofBytes
  sabv_signer_signature :: SignatureBytes

record AbortRotationCertificate =
  abc_context :: RotationContext
  abc_plan_hash :: Id32
  abc_state_at_abort :: RotationState
  abc_reason_code :: u16
  abc_votes :: "SignerRotationAbortVote list"

record RecoveryRequestV3 =
  rq3_protocol_version :: u16
  rq3_config_ref :: ConfigRef
  rq3_request_id :: Id32
  rq3_recovery_recipient_key :: "byte list"
  rq3_requested_at :: u64
  rq3_nonce :: Id32
  rq3_expiry :: u64

record SignerRecoveryContributionV3 =
  sc3_request :: RecoveryRequestV3
  sc3_signer_id :: u16
  sc3_signer_public_key :: arr32
  sc3_signer_membership_proof :: MerkleProofBytes
  sc3_encrypted_authorization_share :: SealedMessage
  sc3_signer_signature :: SignatureBytes

record BeginRecoveryCertificateV3 =
  brc3_request :: RecoveryRequestV3
  brc3_request_digest :: Id32
  brc3_signer_contributions :: "SignerRecoveryContributionV3 list"

record SignerRecoveryReleaseVoteV3 =
  rv3_request :: RecoveryRequestV3
  rv3_request_digest :: Id32
  rv3_signer_id :: u16
  rv3_signer_public_key :: arr32
  rv3_signer_membership_proof :: MerkleProofBytes
  rv3_signer_signature :: SignatureBytes

record RecoveryReleaseCertificateV3 =
  rc3_request :: RecoveryRequestV3
  rc3_request_digest :: Id32
  rc3_votes :: "SignerRecoveryReleaseVoteV3 list"

record OwnerRecoveryCancelCertificateV3 =
  occ3_request :: RecoveryRequestV3
  occ3_request_digest :: Id32
  occ3_reason_code :: u16
  occ3_cancel_response_recipient_key :: "byte list"
  occ3_owner_cancel_public_key :: arr32
  occ3_owner_signature :: SignatureBytes

record OwnerRecoveryCancelAckV3 =
  oca3_config_ref :: ConfigRef
  oca3_request_id :: Id32
  oca3_request_digest :: Id32
  oca3_cancel_certificate_hash :: Id32
  oca3_guardian_index :: u16
  oca3_guardian_signature :: SignatureBytes

record GuardianRecoveryContributionV3 =
  gc3_config_ref :: ConfigRef
  gc3_request_id :: Id32
  gc3_request_digest :: Id32
  gc3_recovery_recipient_key :: "byte list"
  gc3_nonce :: Id32
  gc3_guardian_index :: u16
  gc3_fragment_index :: u16
  gc3_encrypted_ciphertext_fragment :: AeadCiphertext
  gc3_encrypted_dek_share :: AeadCiphertext
  gc3_merkle_path_proof :: MerkleProofBytes
  gc3_guardian_signature :: SignatureBytes

record RecoveryDescriptorV3 =
  rd3_config_ref :: ConfigRef
  rd3_guardians :: "GuardianRouteV3 list"
  rd3_guardian_material_root :: Id32
  rd3_data_shards :: u16
  rd3_total_shards :: u16
  rd3_ciphertext_len :: u64
  rd3_payload_nonce :: arr24
  rd3_dpss_suite :: DpssSuiteId
  rd3_dpss_public_package :: "byte list"
  rd3_dpss_public_commitment :: Id32

record ConfigCapsuleV3 =
  cc3_protocol_version :: u16
  cc3_config_ref :: ConfigRef
  cc3_capsule_hash :: Id32
  cc3_predecessor_capsule_hash :: Id32
  cc3_signer_count :: u16
  cc3_signer_threshold :: u16
  cc3_guardian_count :: u16
  cc3_guardian_threshold :: u16
  cc3_minimum_recovery_delay :: u64
  cc3_max_request_lifetime :: u64
  cc3_signer_set_commitment :: Id32
  cc3_owner_cancel_public_key :: arr32
  cc3_dpss_suite :: DpssSuiteId
  cc3_dpss_public_commitment :: Id32
  cc3_ciphertext_fragment_root :: Id32
  cc3_guardian_material_root :: Id32
  cc3_encrypted_recovery_descriptor :: AeadCiphertext
  cc3_activation_certificate :: "RotationActivateCertificate option"
  cc3_activation_qc :: "EpochActivationQc option"

record WitnessPin =
  wp_witness_id :: u16
  wp_mailbox :: string
  wp_public_key :: arr32

record RecoveryCardV3 =
  card3_protocol_version :: u16
  card3_config_id :: Id32
  card3_signer_mailboxes :: "string list"
  card3_signer_set_commitment :: Id32
  card3_owner_cancel_public_key :: arr32
  card3_witness_fault_bound :: u16
  card3_witnesses :: "WitnessPin list"
  card3_relay_bases :: "string list"

record GuardianPolicyV3 =
  gp3_config_ref :: ConfigRef
  gp3_epoch_state :: GuardianEpochState
  gp3_signer_set_commitment :: Id32
  gp3_signer_count :: u16
  gp3_signer_threshold :: u16
  gp3_owner_cancel_public_key :: arr32
  gp3_minimum_recovery_delay :: u64
  gp3_guardian_material_root :: Id32
  gp3_dpss_suite :: DpssSuiteId
  gp3_dpss_public_commitment :: Id32
  gp3_predecessor_capsule_hash :: Id32
  gp3_activation_qc_hash :: "Id32 option"
  gp3_drain_deadline :: "u64 option"

record GuardianRecordV3 =
  grec3_opaque_slot_id :: Id32
  grec3_guardian_index :: u16
  grec3_fragment_index :: u16
  grec3_encrypted_ciphertext_fragment :: AeadCiphertext
  grec3_encrypted_dek_share :: AeadCiphertext
  grec3_merkle_path_proof :: MerkleProofBytes
  grec3_custody_root :: Id32
  grec3_policy :: GuardianPolicyV3

record CustodyChallenge =
  cch_protocol_version :: u16
  cch_config_ref :: ConfigRef
  cch_opaque_slot_id :: Id32
  cch_challenge_id :: Id32
  cch_block_indices :: "u32 list"
  cch_nonce :: Id32
  cch_response_recipient_key :: "byte list"
  cch_expiry :: u64

record CustodyBlockProof =
  cbp_block_index :: u32
  cbp_block :: "byte list"
  cbp_merkle_path :: MerkleProofBytes

record CustodyResponse =
  crs_protocol_version :: u16
  crs_config_ref :: ConfigRef
  crs_opaque_slot_id :: Id32
  crs_challenge_id :: Id32
  crs_nonce :: Id32
  crs_guardian_index :: u16
  crs_proofs :: "CustodyBlockProof list"
  crs_guardian_signature :: SignatureBytes

record GuardianHealthRecord =
  ghr_config_ref :: ConfigRef
  ghr_guardian_index :: u16
  ghr_state :: GuardianHealthState
  ghr_consecutive_failures :: u16
  ghr_last_challenge_id :: "Id32 option"
  ghr_last_success_at :: "u64 option"
  ghr_evidence_hashes :: "Id32 list"

section \<open>Successor configurations\<close>

definition is_direct_successor_of :: "ConfigRef \<Rightarrow> ConfigRef \<Rightarrow> bool" where
  "is_direct_successor_of self predecessor \<longleftrightarrow>
     cr_config_id self = cr_config_id predecessor \<and>
     cr_payload_generation self = cr_payload_generation predecessor \<and>
     cr_authorization_epoch self = cr_authorization_epoch predecessor \<and>
     cr_guardian_epoch self = saturating_add (cr_guardian_epoch predecessor) 1 \<and>
     cr_epoch_binding self \<noteq> cr_epoch_binding predecessor"

lemma successor_epoch_mono:
  "is_direct_successor_of s p \<Longrightarrow> cr_guardian_epoch p \<le> cr_guardian_epoch s"
  by (simp add: is_direct_successor_of_def le_saturating_add)

lemma successor_epoch_less:
  "is_direct_successor_of s p \<Longrightarrow> cr_guardian_epoch p \<noteq> u64_MAX \<Longrightarrow>
     cr_guardian_epoch p < cr_guardian_epoch s"
  by (simp add: is_direct_successor_of_def saturating_add_one_less u64_MAX_def)

lemma successor_irrefl: "\<not> is_direct_successor_of c c"
  by (simp add: is_direct_successor_of_def)

section \<open>The order of the rotation phases\<close>

text \<open>
  The phases in the order a rotation goes through them; \<open>Aborted\<close> is last, since a
  rotation may end there from any earlier phase.
\<close>

primrec phase_rank :: "RotationState \<Rightarrow> nat" where
  "phase_rank RotationState.Proposed = 0"
| "phase_rank RotationState.DelayPending = 1"
| "phase_rank RotationState.Preparing = 2"
| "phase_rank RotationState.Ready = 3"
| "phase_rank RotationState.Activating = 4"
| "phase_rank RotationState.Active = 5"
| "phase_rank RotationState.Draining = 6"
| "phase_rank RotationState.Retired = 7"
| "phase_rank RotationState.Aborted = 8"

lemma phase_rank_inject [simp]: "phase_rank s = phase_rank t \<longleftrightarrow> s = t"
  by (cases s; cases t) simp_all

instantiation RotationState :: linorder
begin

definition less_eq_RotationState :: "RotationState \<Rightarrow> RotationState \<Rightarrow> bool" where
  "s \<le> t \<longleftrightarrow> phase_rank s \<le> phase_rank t"

definition less_RotationState :: "RotationState \<Rightarrow> RotationState \<Rightarrow> bool" where
  "s < t \<longleftrightarrow> phase_rank s < phase_rank t"

instance
proof
  fix s t :: RotationState
  assume "s \<le> t" and "t \<le> s"
  then have "phase_rank s = phase_rank t"
    by (simp add: less_eq_RotationState_def)
  then show "s = t" by simp
qed (auto simp: less_eq_RotationState_def less_RotationState_def)

end

lemmas phase_order = less_eq_RotationState_def less_RotationState_def

end
