(* ===== verification/GP_Registers.thy ===== *)
theory GP_Registers
  imports GP_Prelude
begin

text \<open>
  Write-once registers, the interface behind every "one child per predecessor", "one vote per
  phase" and "one plan per rotation" rule of the protocol: an operation may grant a value to a
  key, a granted value stays recorded, and a later grant for the key repeats it. The locale
  gives the consequence for whole runs once; the witness machine, the witness store and the
  signer store are its providers.
\<close>

locale write_once =
  fixes exec :: "'op \<Rightarrow> 's \<Rightarrow> 'r \<times> 's"
    and recorded :: "'s \<Rightarrow> 'k \<Rightarrow> 'v option"
    and grants :: "'op \<Rightarrow> 'r \<Rightarrow> ('k \<times> 'v) option"
  assumes grant_recorded: "exec op s = (r, s') \<Longrightarrow> grants op r = Some (k, v) \<Longrightarrow> recorded s' k = Some v"
    and recorded_kept: "exec op s = (r, s') \<Longrightarrow> recorded s k = Some v \<Longrightarrow> recorded s' k = Some v"
begin

lemma run_keeps: "run_log exec s ops = (l, t) \<Longrightarrow> recorded s k = Some v \<Longrightarrow> recorded t k = Some v"
proof (induction ops arbitrary: s l)
  case (Cons op ops)
  then show ?case by (auto simp: Let_def split: prod.splits dest: recorded_kept)
qed simp

lemma later_grant:
  assumes "run_log exec s ops = (l1 @ (op, r) # l2, t)" and "recorded s k = Some v"
    and "grants op r = Some (k, v')"
  shows "v' = v"
proof -
  from run_log_split [OF assms(1)] obtain ops1 u u' where
    "run_log exec s ops1 = (l1, u)" and ex: "exec op u = (r, u')" by blast
  with run_keeps assms(2) have "recorded u k = Some v" by blast
  from recorded_kept [OF ex this] grant_recorded [OF ex assms(3)] show ?thesis by simp
qed

lemma grants_agree:
  assumes "run_log exec s ops = (l, t)"
    and "(op1, r1) \<in> set l" "grants op1 r1 = Some (k, v1)"
    and "(op2, r2) \<in> set l" "grants op2 r2 = Some (k, v2)"
  shows "v1 = v2"
proof -
  have rec: "recorded t k = Some v" if "(op, r) \<in> set l" "grants op r = Some (k, v)" for op r v
  proof -
    from that(1) obtain l1 l2 where "l = l1 @ (op, r) # l2" by (meson split_list)
    with assms(1) have "run_log exec s ops = (l1 @ (op, r) # l2, t)" by simp
    from run_log_split [OF this] obtain ops2 u u' where
      "exec op u = (r, u')" "run_log exec u' ops2 = (l2, t)" by blast
    with grant_recorded [OF _ that(2)] run_keeps show ?thesis by blast
  qed
  from rec [OF assms(2,3)] rec [OF assms(4,5)] show ?thesis by simp
qed

end

text \<open>
  The same with revocation: an operation may withdraw what is recorded for a key, and then the
  key may be granted anew. The laws may rely on an invariant of the machine. A register without
  revocation is the special case.
\<close>

locale revocable =
  fixes exec :: "'op \<Rightarrow> 's \<Rightarrow> 'r \<times> 's"
    and recorded :: "'s \<Rightarrow> 'k \<Rightarrow> 'v option"
    and grants :: "'op \<Rightarrow> 'r \<Rightarrow> ('k \<times> 'v) option"
    and revokes :: "'op \<Rightarrow> 'r \<Rightarrow> 'k option"
    and wf :: "'s \<Rightarrow> bool"
  assumes grant_records: "wf s \<Longrightarrow> exec op s = (r, s') \<Longrightarrow> grants op r = Some (k, v) \<Longrightarrow> recorded s' k = Some v"
    and kept_unless_revoked: "wf s \<Longrightarrow> exec op s = (r, s') \<Longrightarrow> recorded s k = Some v \<Longrightarrow>
      revokes op r \<noteq> Some k \<Longrightarrow> recorded s' k = Some v"
    and grants_or_revokes: "grants op r = Some (k, v) \<Longrightarrow> revokes op r \<noteq> Some k"
    and wf_exec: "wf s \<Longrightarrow> exec op s = (r, s') \<Longrightarrow> wf s'"
begin

lemma wf_run: "run_log exec s ops = (l, t) \<Longrightarrow> wf s \<Longrightarrow> wf t"
proof (induction ops arbitrary: s l)
  case (Cons op ops)
  then show ?case by (auto simp: Let_def split: prod.splits dest: wf_exec)
qed simp

lemma run_keeps_unrevoked:
  "run_log exec s ops = (l, t) \<Longrightarrow> wf s \<Longrightarrow> recorded s k = Some v \<Longrightarrow>
     (\<forall>(op, r) \<in> set l. revokes op r \<noteq> Some k) \<Longrightarrow> recorded t k = Some v"
proof (induction ops arbitrary: s l)
  case (Cons op ops)
  from Cons.prems(1) obtain r s' l' where step: "exec op s = (r, s')"
    and run: "run_log exec s' ops = (l', t)" and l: "l = (op, r) # l'"
    by (auto simp: Let_def split: prod.splits)
  from l Cons.prems(4) have "revokes op r \<noteq> Some k" and rest: "\<forall>(op, r) \<in> set l'. revokes op r \<noteq> Some k"
    by auto
  with kept_unless_revoked [OF Cons.prems(2) step Cons.prems(3)] have "recorded s' k = Some v" by blast
  from Cons.IH [OF run wf_exec [OF Cons.prems(2) step] this rest] show ?case .
qed simp

lemma regrant_after_revocation:
  assumes "run_log exec s ops = (l1 @ (op1, r1) # l2 @ (op2, r2) # l3, t)" and "wf s"
    and "grants op1 r1 = Some (k, v1)" and "grants op2 r2 = Some (k, v2)" and "v1 \<noteq> v2"
  shows "\<exists>(op, r) \<in> set l2. revokes op r = Some k"
proof (rule ccontr)
  assume "\<not> ?thesis"
  then have none: "\<forall>(op, r) \<in> set l2. revokes op r \<noteq> Some k" by blast
  from run_log_split [OF assms(1)] obtain ops1 ops2 u u' where 0: "run_log exec s ops1 = (l1, u)"
    and 1: "exec op1 u = (r1, u')" and run: "run_log exec u' ops2 = (l2 @ (op2, r2) # l3, t)" by blast
  from run_log_split [OF run] obtain ops3 w w' where
    2: "run_log exec u' ops3 = (l2, w)" "exec op2 w = (r2, w')" by blast
  have iu: "wf u" by (rule wf_run [OF 0 assms(2)])
  have iu': "wf u'" by (rule wf_exec [OF iu 1])
  have iw: "wf w" by (rule wf_run [OF 2(1) iu'])
  have "recorded w k = Some v1"
    by (rule run_keeps_unrevoked [OF 2(1) iu' grant_records [OF iu 1 assms(3)] none])
  then have "recorded w' k = Some v1"
    using kept_unless_revoked [OF iw 2(2)] grants_or_revokes [OF assms(4)] by blast
  with grant_records [OF iw 2(2) assms(4)] assms(5) show False by simp
qed

lemma grants_agree_unless_revoked:
  assumes "run_log exec s ops = (l, t)" and "wf s"
    and "(op1, r1) \<in> set l" "grants op1 r1 = Some (k, v1)"
    and "(op2, r2) \<in> set l" "grants op2 r2 = Some (k, v2)" and "v1 \<noteq> v2"
  shows "\<exists>(op, r) \<in> set l. revokes op r = Some k"
proof -
  have ne: "(op1, r1) \<noteq> (op2, r2)" using assms(4,6,7) by auto
  from assms(3) obtain l1 l2 where l: "l = l1 @ (op1, r1) # l2" by (meson split_list)
  with assms(5) ne consider "(op2, r2) \<in> set l2" | "(op2, r2) \<in> set l1" by auto
  then show ?thesis
  proof cases
    case 1
    then obtain m n where "l2 = m @ (op2, r2) # n" by (meson split_list)
    with l regrant_after_revocation [OF _ assms(2,4,6,7), of ops l1 m n t] assms(1) show ?thesis by auto
  next
    case 2
    then obtain m n where "l1 = m @ (op2, r2) # n" by (meson split_list)
    with l regrant_after_revocation [OF _ assms(2,6,4), of ops m n l2 t] assms(1,7) show ?thesis by auto
  qed
qed

end

sublocale write_once \<subseteq> revocable exec recorded grants "\<lambda>_ _. None" "\<lambda>_. True"
  by unfold_locales (auto simp: grant_recorded recorded_kept)

end
