(* ===== verification/GP_Core_Rotation.thy ===== *)
theory GP_Core_Rotation
  imports GP_Types_Rotation GP_Custody GP_Registers
begin

text \<open>
  The protocol-3 state machines of \<open>gp-core/src/rotation.rs\<close>: the coordinator's
  \<open>RotationMachine\<close>, the witness \<open>EpochWitnessMachine\<close> and the guardian's
  \<open>EpochRecoveryMachine\<close>.
\<close>

section \<open>Data\<close>

text \<open>The named fields of the variants are positional, in the order of the source.\<close>

datatype RotationEvent =
    BeginAccepted u64 u64 bool
  | ReleaseAccepted u64 bool bool
  | PreparationComplete u16 u16 bool bool
  | ActivationAuthorized bool bool
  | WitnessQcObserved bool bool u64
  | DrainStarted
  | DrainDeadlineReached u64
  | OwnerCancelObserved bool
  | AbortObserved bool
  | ConflictObserved

datatype RotationAction =
    PersistBeginAndWaitUntil u64
  | BeginDpssAndFragmentRepair
  | AssembleReadyCertificate
  | RequestSignerActivation
  | SubmitToWitnesses
  | ActivateSuccessorAndDrainOld u64
  | RefuseNewOldEpochBegins
  | RetireOldEpoch
  | AbortAndErasePreparedState
  | FailClosed

datatype RotationError =
    InvalidTransition RotationState
  | InvalidEvidence
  | DelayNotElapsed
  | IncompletePreparation
  | Aborted
  | FailClosed
  | InvalidSuccessor
  | PredecessorLocked
  | Replay
  | StaleEpoch
  | UnknownRequest
  | RequestMismatch
  | Cancelled
  | Expired

record RotationMachine =
  rot_rotation_id :: Id32
  rot_plan_hash :: Id32
  rot_predecessor :: ConfigRef
  rot_successor :: ConfigRef
  rot_state :: RotationState
  rot_not_before :: "u64 option"
  rot_drain_deadline :: "u64 option"
  rot_tombstoned :: bool
  rot_ambiguous :: bool

datatype WitnessAction =
    PersistSuccessorBeforeAck u64 Id32 u64 Id32
  | SignFreshRead Id32 u64 Id32
  | FailClosed

record EpochWitnessMachine =
  ew_config_id :: Id32
  ew_highest_epoch :: u64
  ew_highest_capsule_hash :: Id32
  ew_predecessor_locks :: "(Id32, Id32) btree_map"
  ew_seen_read_nonces :: "Id32 set"
  ew_ambiguous :: bool

record PendingEpochRecovery =
  per_config_ref :: ConfigRef
  per_request_digest :: Id32
  per_nonce :: Id32
  per_not_before :: u64
  per_expiry :: u64
  per_state :: RecoveryState

record EpochRecoveryMachine =
  er_active :: ConfigRef
  er_draining :: "(u64, u64) btree_map"
  er_pending :: "(Id32, PendingEpochRecovery) btree_map"
  er_seen_request_ids :: "Id32 set"
  er_seen_nonces :: "Id32 set"
  er_cancelled :: "(Id32, Id32) btree_map"

record EpochReleaseAuthorization =
  era_request_id :: Id32
  era_request_digest :: Id32
  era_config_ref :: ConfigRef
  era_wall_now :: u64
  era_monotonic_now :: u64
  era_certificate_valid :: bool
  era_state_unambiguous :: bool

section \<open>\<open>RotationMachine\<close>\<close>

definition unwrap_or :: "'a option \<Rightarrow> 'a \<Rightarrow> 'a" where
  "unwrap_or x d = (case x of None \<Rightarrow> d | Some a \<Rightarrow> a)"

definition RotationMachine_new ::
    "Id32 \<Rightarrow> Id32 \<Rightarrow> ConfigRef \<Rightarrow> ConfigRef \<Rightarrow> (RotationError, RotationMachine) result"
where
  "RotationMachine_new rotation_id plan_hash predecessor successor =
    (if \<not> is_direct_successor_of successor predecessor then Inl InvalidSuccessor
     else Inr
       \<lparr> rot_rotation_id = rotation_id,
         rot_plan_hash = plan_hash,
         rot_predecessor = predecessor,
         rot_successor = successor,
         rot_state = RotationState.Proposed,
         rot_not_before = None,
         rot_drain_deadline = None,
         rot_tombstoned = False,
         rot_ambiguous = False \<rparr>)"

text \<open>The last two arms of the match: the events whose evidence is refused in every state.\<close>

fun bad_evidence :: "RotationEvent \<Rightarrow> bool" where
  "bad_evidence (BeginAccepted _ _ certificate_valid) = (\<not> certificate_valid)"
| "bad_evidence (ReleaseAccepted _ certificate_valid state_unambiguous) =
     (\<not> certificate_valid \<or> \<not> state_unambiguous)"
| "bad_evidence (PreparationComplete _ _ dpss_result_valid fragments_valid) =
     (\<not> dpss_result_valid \<or> \<not> fragments_valid)"
| "bad_evidence (ActivationAuthorized certificate_valid exact_capsule) =
     (\<not> certificate_valid \<or> \<not> exact_capsule)"
| "bad_evidence (WitnessQcObserved qc_valid exact_successor _) =
     (\<not> qc_valid \<or> \<not> exact_successor)"
| "bad_evidence (OwnerCancelObserved certificate_valid) = (\<not> certificate_valid)"
| "bad_evidence (AbortObserved certificate_valid) = (\<not> certificate_valid)"
| "bad_evidence _ = False"

definition is_abort :: "RotationEvent \<Rightarrow> bool" where
  "is_abort event \<longleftrightarrow> event = OwnerCancelObserved True \<or> event = AbortObserved True"

definition RotationMachine_apply ::
    "RotationEvent \<Rightarrow> RotationMachine \<Rightarrow> (RotationError, RotationAction list) result \<times> RotationMachine"
where
  "RotationMachine_apply event self =
    (if rot_ambiguous self then (Inl RotationError.FailClosed, self)
     else if rot_tombstoned self then (Inl RotationError.Aborted, self)
     else if event = ConflictObserved then
       (Inr [RotationAction.FailClosed], self \<lparr> rot_ambiguous := True \<rparr>)
     else case (rot_state self, event) of
       (RotationState.Proposed, BeginAccepted monotonic_now delay_secs True) \<Rightarrow>
         (let not_before = saturating_add monotonic_now delay_secs in
          (Inr [PersistBeginAndWaitUntil not_before],
           self \<lparr> rot_not_before := Some not_before, rot_state := RotationState.DelayPending \<rparr>))
     | (RotationState.DelayPending, ReleaseAccepted monotonic_now True True) \<Rightarrow>
         (if monotonic_now < unwrap_or (rot_not_before self) u64_MAX
          then (Inl RotationError.DelayNotElapsed, self)
          else (Inr [BeginDpssAndFragmentRepair], self \<lparr> rot_state := RotationState.Preparing \<rparr>))
     | (RotationState.Preparing, PreparationComplete prepared_count expected_count True True) \<Rightarrow>
         (if expected_count = 0 \<or> prepared_count \<noteq> expected_count
          then (Inl IncompletePreparation, self)
          else (Inr [AssembleReadyCertificate, RequestSignerActivation],
                self \<lparr> rot_state := RotationState.Ready \<rparr>))
     | (RotationState.Ready, ActivationAuthorized True True) \<Rightarrow>
         (Inr [SubmitToWitnesses], self \<lparr> rot_state := RotationState.Activating \<rparr>)
     | (RotationState.Activating, WitnessQcObserved True True drain_deadline) \<Rightarrow>
         (Inr [ActivateSuccessorAndDrainOld drain_deadline],
          self \<lparr> rot_drain_deadline := Some drain_deadline, rot_state := RotationState.Active \<rparr>)
     | (RotationState.Active, DrainStarted) \<Rightarrow>
         (Inr [RefuseNewOldEpochBegins], self \<lparr> rot_state := RotationState.Draining \<rparr>)
     | (RotationState.Draining, DrainDeadlineReached monotonic_now) \<Rightarrow>
         (if monotonic_now < unwrap_or (rot_drain_deadline self) u64_MAX
          then (Inl RotationError.DelayNotElapsed, self)
          else (Inr [RetireOldEpoch], self \<lparr> rot_state := RotationState.Retired \<rparr>))
     | (from, ev) \<Rightarrow>
         (if from \<in> {RotationState.Proposed, RotationState.DelayPending, RotationState.Preparing,
              RotationState.Ready, RotationState.Activating} \<and> is_abort ev
          then (Inr [AbortAndErasePreparedState],
                self \<lparr> rot_state := RotationState.Aborted, rot_tombstoned := True \<rparr>)
          else if bad_evidence ev then (Inl InvalidEvidence, self)
          else (Inl (InvalidTransition from), self)))"

section \<open>\<open>EpochWitnessMachine\<close>\<close>

definition EpochWitnessMachine_new :: "Id32 \<Rightarrow> u64 \<Rightarrow> Id32 \<Rightarrow> EpochWitnessMachine" where
  "EpochWitnessMachine_new config_id highest_epoch highest_capsule_hash =
     \<lparr> ew_config_id = config_id,
       ew_highest_epoch = highest_epoch,
       ew_highest_capsule_hash = highest_capsule_hash,
       ew_predecessor_locks = [],
       ew_seen_read_nonces = {},
       ew_ambiguous = False \<rparr>"

definition accept_successor ::
    "ConfigRef \<Rightarrow> Id32 \<Rightarrow> ConfigRef \<Rightarrow> Id32 \<Rightarrow> bool \<Rightarrow> EpochWitnessMachine \<Rightarrow>
     (RotationError, WitnessAction) result \<times> EpochWitnessMachine"
where
  "accept_successor predecessor predecessor_capsule_hash successor successor_capsule_hash
      activation_certificate_valid self =
    (if ew_ambiguous self then (Inl RotationError.FailClosed, self)
     else if \<not> activation_certificate_valid then (Inl InvalidEvidence, self)
     else if cr_config_id predecessor \<noteq> ew_config_id self \<or>
        cr_guardian_epoch predecessor \<noteq> ew_highest_epoch self \<or>
        predecessor_capsule_hash \<noteq> ew_highest_capsule_hash self \<or>
        \<not> is_direct_successor_of successor predecessor
     then (Inl InvalidSuccessor, self)
     else case bt_get (ew_predecessor_locks self) predecessor_capsule_hash of
       Some locked_hash \<Rightarrow>
         (if locked_hash = successor_capsule_hash then
            (Inr (PersistSuccessorBeforeAck (cr_guardian_epoch predecessor) predecessor_capsule_hash
               (cr_guardian_epoch successor) successor_capsule_hash), self)
          else (Inl PredecessorLocked, self))
     | None \<Rightarrow>
         (Inr (PersistSuccessorBeforeAck (cr_guardian_epoch predecessor) predecessor_capsule_hash
            (cr_guardian_epoch successor) successor_capsule_hash),
          self \<lparr> ew_predecessor_locks :=
                   bt_insert predecessor_capsule_hash successor_capsule_hash (ew_predecessor_locks self),
                 ew_highest_epoch := cr_guardian_epoch successor,
                 ew_highest_capsule_hash := successor_capsule_hash \<rparr>))"

text \<open>The short-circuit \<open>||\<close> inserts the nonce only when the earlier disjuncts are false.\<close>

definition fresh_read ::
    "Id32 \<Rightarrow> Id32 \<Rightarrow> u64 \<Rightarrow> u64 \<Rightarrow> u64 \<Rightarrow> EpochWitnessMachine \<Rightarrow>
     (RotationError, WitnessAction) result \<times> EpochWitnessMachine"
where
  "fresh_read config_id client_nonce issued_at expiry now self =
    (if ew_ambiguous self then (Inl RotationError.FailClosed, self)
     else if config_id \<noteq> ew_config_id self \<or> issued_at > now \<or> now \<ge> expiry \<or>
        client_nonce \<in> ew_seen_read_nonces self
     then (Inl RotationError.Replay, self)
     else
       (Inr (SignFreshRead client_nonce (ew_highest_epoch self) (ew_highest_capsule_hash self)),
        self \<lparr> ew_seen_read_nonces := insert client_nonce (ew_seen_read_nonces self) \<rparr>))"

definition observe_same_epoch_conflict ::
    "u64 \<Rightarrow> Id32 \<Rightarrow> EpochWitnessMachine \<Rightarrow> (RotationError, WitnessAction) result \<times> EpochWitnessMachine"
where
  "observe_same_epoch_conflict guardian_epoch capsule_hash self =
    (if guardian_epoch = ew_highest_epoch self \<and> capsule_hash \<noteq> ew_highest_capsule_hash self
     then (Inr WitnessAction.FailClosed, self \<lparr> ew_ambiguous := True \<rparr>)
     else (Inl InvalidEvidence, self))"

definition highest :: "EpochWitnessMachine \<Rightarrow> u64 \<times> Id32" where
  "highest self = (ew_highest_epoch self, ew_highest_capsule_hash self)"

section \<open>\<open>EpochRecoveryMachine\<close>\<close>

definition EpochRecoveryMachine_new :: "ConfigRef \<Rightarrow> EpochRecoveryMachine" where
  "EpochRecoveryMachine_new active =
     \<lparr> er_active = active,
       er_draining = [],
       er_pending = [],
       er_seen_request_ids = {},
       er_seen_nonces = {},
       er_cancelled = [] \<rparr>"

text \<open>
  \<open>!ids.insert(id) || !nonces.insert(nonce)\<close>: the identifier is inserted even when the nonce
  turns out to be known.
\<close>

definition epoch_begin ::
    "RecoveryRequestV3 \<Rightarrow> Id32 \<Rightarrow> u64 \<Rightarrow> u64 \<Rightarrow> u64 \<Rightarrow> bool \<Rightarrow> EpochRecoveryMachine \<Rightarrow>
     (RotationError, u64) result \<times> EpochRecoveryMachine"
where
  "epoch_begin request request_digest wall_now monotonic_now delay_secs certificate_valid self =
    (if \<not> certificate_valid then (Inl InvalidEvidence, self)
     else if rq3_config_ref request \<noteq> er_active self then (Inl StaleEpoch, self)
     else if rq3_requested_at request > wall_now \<or> wall_now \<ge> rq3_expiry request
     then (Inl RotationError.Expired, self)
     else case bt_get (er_cancelled self) (rq3_request_id request) of
       Some cancelled_digest \<Rightarrow>
         (if cancelled_digest = request_digest then (Inl RotationError.Cancelled, self)
          else (Inl RotationError.RequestMismatch, self))
     | None \<Rightarrow>
       if rq3_request_id request \<in> er_seen_request_ids self then (Inl RotationError.Replay, self)
       else
         let self = self \<lparr> er_seen_request_ids := insert (rq3_request_id request) (er_seen_request_ids self) \<rparr> in
         if rq3_nonce request \<in> er_seen_nonces self then (Inl RotationError.Replay, self)
         else
           let self = self \<lparr> er_seen_nonces := insert (rq3_nonce request) (er_seen_nonces self) \<rparr>;
               not_before = saturating_add monotonic_now delay_secs in
           (Inr not_before,
            self \<lparr> er_pending := bt_insert (rq3_request_id request)
                     \<lparr> per_config_ref = rq3_config_ref request,
                       per_request_digest = request_digest,
                       per_nonce = rq3_nonce request,
                       per_not_before = not_before,
                       per_expiry = rq3_expiry request,
                       per_state = RecoveryState.DelayPending \<rparr>
                     (er_pending self) \<rparr>))"

definition activate_successor ::
    "ConfigRef \<Rightarrow> u64 \<Rightarrow> bool \<Rightarrow> EpochRecoveryMachine \<Rightarrow>
     (RotationError, unit) result \<times> EpochRecoveryMachine"
where
  "activate_successor successor drain_deadline qc_valid self =
    (if \<not> qc_valid then (Inl InvalidEvidence, self)
     else if \<not> is_direct_successor_of successor (er_active self) then (Inl InvalidSuccessor, self)
     else
       (Inr (),
        self \<lparr> er_draining :=
                 bt_insert (cr_guardian_epoch (er_active self)) drain_deadline (er_draining self),
               er_active := successor \<rparr>))"

definition set_epoch_state ::
    "Id32 \<Rightarrow> PendingEpochRecovery \<Rightarrow> RecoveryState \<Rightarrow> EpochRecoveryMachine \<Rightarrow> EpochRecoveryMachine"
where
  "set_epoch_state i p st self =
     self \<lparr> er_pending := bt_insert i (p \<lparr> per_state := st \<rparr>) (er_pending self) \<rparr>"

definition epoch_authorize_release ::
    "EpochReleaseAuthorization \<Rightarrow> EpochRecoveryMachine \<Rightarrow>
     (RotationError, unit) result \<times> EpochRecoveryMachine"
where
  "epoch_authorize_release a self =
    (if \<not> era_certificate_valid a \<or> \<not> era_state_unambiguous a then (Inl InvalidEvidence, self)
     else case bt_get (er_cancelled self) (era_request_id a) of
       Some cancelled_digest \<Rightarrow>
         (if cancelled_digest = era_request_digest a then (Inl RotationError.Cancelled, self)
          else (Inl RotationError.RequestMismatch, self))
     | None \<Rightarrow>
       case bt_get (er_pending self) (era_request_id a) of
         None \<Rightarrow> (Inl RotationError.UnknownRequest, self)
       | Some pending \<Rightarrow>
         if per_request_digest pending \<noteq> era_request_digest a \<or>
            per_config_ref pending \<noteq> era_config_ref a
         then (Inl RotationError.RequestMismatch, self)
         else if era_config_ref a \<noteq> er_active self \<and>
            \<not> bt_contains_key (er_draining self) (cr_guardian_epoch (era_config_ref a))
         then (Inl StaleEpoch, self)
         else if era_wall_now a \<ge> per_expiry pending then
           (Inl RotationError.Expired, set_epoch_state (era_request_id a) pending RecoveryState.Expired self)
         else if era_monotonic_now a < per_not_before pending then
           (Inl RotationError.DelayNotElapsed, self)
         else (Inr (), set_epoch_state (era_request_id a) pending RecoveryState.Releasing self))"

definition epoch_cancel ::
    "Id32 \<Rightarrow> Id32 \<Rightarrow> bool \<Rightarrow> EpochRecoveryMachine \<Rightarrow>
     (RotationError, unit) result \<times> EpochRecoveryMachine"
where
  "epoch_cancel request_id request_digest certificate_valid self =
    (if \<not> certificate_valid then (Inl InvalidEvidence, self)
     else case bt_get (er_cancelled self) request_id of
       Some existing \<Rightarrow>
         (if existing = request_digest then (Inr (), self)
          else (Inl RotationError.RequestMismatch, self))
     | None \<Rightarrow>
       case bt_get (er_pending self) request_id of
         Some pending \<Rightarrow>
           (if per_request_digest pending \<noteq> request_digest
            then (Inl RotationError.RequestMismatch, self)
            else
              (Inr (),
               (set_epoch_state request_id pending RecoveryState.Cancelled self)
                 \<lparr> er_cancelled := bt_insert request_id request_digest (er_cancelled self) \<rparr>))
       | None \<Rightarrow>
           (Inr (),
            self \<lparr> er_cancelled := bt_insert request_id request_digest (er_cancelled self) \<rparr>))"

definition retire_draining_epoch ::
    "u64 \<Rightarrow> u64 \<Rightarrow> EpochRecoveryMachine \<Rightarrow> (RotationError, unit) result \<times> EpochRecoveryMachine"
where
  "retire_draining_epoch guardian_epoch monotonic_now self =
    (case bt_get (er_draining self) guardian_epoch of
       None \<Rightarrow> (Inl StaleEpoch, self)
     | Some deadline \<Rightarrow>
       if monotonic_now < deadline then (Inl RotationError.DelayNotElapsed, self)
       else if list_ex (\<lambda>pending.
            cr_guardian_epoch (per_config_ref pending) = guardian_epoch \<and>
            (per_state pending = RecoveryState.DelayPending \<or>
             per_state pending = RecoveryState.Releasing))
          (bt_values (er_pending self))
       then (Inl RotationError.FailClosed, self)
       else (Inr (), self \<lparr> er_draining := bt_remove guardian_epoch (er_draining self) \<rparr>))"

definition epoch_state :: "EpochRecoveryMachine \<Rightarrow> Id32 \<Rightarrow> RecoveryState option" where
  "epoch_state self request_id =
     (if bt_contains_key (er_cancelled self) request_id then Some RecoveryState.Cancelled
      else map_option per_state (bt_get (er_pending self) request_id))"

definition request_nonce :: "EpochRecoveryMachine \<Rightarrow> Id32 \<Rightarrow> Id32 option" where
  "request_nonce self request_id = map_option per_nonce (bt_get (er_pending self) request_id)"


section \<open>Lemmas on \<open>RotationMachine\<close>\<close>

text \<open>The accepted events that lead to a phase, with the times and counts they carry.\<close>

inductive rotation_path :: "RotationEvent list \<Rightarrow> RotationState \<Rightarrow> bool" where
  proposed: "rotation_path [] RotationState.Proposed"
| begun: "rotation_path [BeginAccepted t0 delay True] RotationState.DelayPending"
| preparing:
    "saturating_add t0 delay \<le> t1 \<Longrightarrow>
     rotation_path [BeginAccepted t0 delay True, ReleaseAccepted t1 True True] RotationState.Preparing"
| ready:
    "rotation_path h RotationState.Preparing \<Longrightarrow> n \<noteq> 0 \<Longrightarrow>
     rotation_path (h @ [PreparationComplete n n True True]) RotationState.Ready"
| activating:
    "rotation_path h RotationState.Ready \<Longrightarrow>
     rotation_path (h @ [ActivationAuthorized True True]) RotationState.Activating"
| active:
    "rotation_path h RotationState.Activating \<Longrightarrow>
     rotation_path (h @ [WitnessQcObserved True True dd]) RotationState.Active"
| draining:
    "rotation_path h RotationState.Active \<Longrightarrow>
     rotation_path (h @ [DrainStarted]) RotationState.Draining"
| retired:
    "rotation_path h RotationState.Draining \<Longrightarrow> WitnessQcObserved True True dd \<in> set h \<Longrightarrow> dd \<le> t2 \<Longrightarrow>
     rotation_path (h @ [DrainDeadlineReached t2]) RotationState.Retired"
| aborted:
    "rotation_path h st \<Longrightarrow> st \<le> RotationState.Activating \<Longrightarrow> is_abort ev \<Longrightarrow>
     rotation_path (h @ [ev]) RotationState.Aborted"

type_synonym rotation_log = "(RotationEvent \<times> (RotationError, RotationAction list) result) list"

definition accepted_rotation :: "rotation_log \<Rightarrow> RotationEvent list" where
  "accepted_rotation l = map fst (filter (is_ok \<circ> snd) l)"

lemma accepted_rotation_simps [simp]:
  "accepted_rotation (l @ [(ev, r)]) = accepted_rotation l @ (if is_ok r then [ev] else [])"
  "accepted_rotation [] = []"
  by (simp_all add: accepted_rotation_def)

text \<open>What an accepted event does, one line per arm.\<close>

lemma rotation_apply_ok:
  assumes "RotationMachine_apply ev m = (Inr acts, m')"
  shows "\<not> rot_ambiguous m \<and> \<not> rot_tombstoned m \<and>
    (ev = ConflictObserved \<and> m' = m \<lparr> rot_ambiguous := True \<rparr> \<or>
     ev \<noteq> ConflictObserved \<and>
     ((\<exists>t d. rot_state m = RotationState.Proposed \<and> ev = BeginAccepted t d True \<and>
        m' = m \<lparr> rot_not_before := Some (saturating_add t d), rot_state := RotationState.DelayPending \<rparr>) \<or>
      (\<exists>t. rot_state m = RotationState.DelayPending \<and> ev = ReleaseAccepted t True True \<and>
        unwrap_or (rot_not_before m) u64_MAX \<le> t \<and> m' = m \<lparr> rot_state := RotationState.Preparing \<rparr>) \<or>
      (\<exists>n. rot_state m = RotationState.Preparing \<and> ev = PreparationComplete n n True True \<and> n \<noteq> 0 \<and>
        m' = m \<lparr> rot_state := RotationState.Ready \<rparr>) \<or>
      rot_state m = RotationState.Ready \<and> ev = ActivationAuthorized True True \<and>
        m' = m \<lparr> rot_state := RotationState.Activating \<rparr> \<or>
      (\<exists>dd. rot_state m = RotationState.Activating \<and> ev = WitnessQcObserved True True dd \<and>
        m' = m \<lparr> rot_drain_deadline := Some dd, rot_state := RotationState.Active \<rparr>) \<or>
      rot_state m = RotationState.Active \<and> ev = DrainStarted \<and>
        m' = m \<lparr> rot_state := RotationState.Draining \<rparr> \<or>
      (\<exists>t. rot_state m = RotationState.Draining \<and> ev = DrainDeadlineReached t \<and>
        unwrap_or (rot_drain_deadline m) u64_MAX \<le> t \<and> m' = m \<lparr> rot_state := RotationState.Retired \<rparr>) \<or>
      rot_state m \<le> RotationState.Activating \<and> is_abort ev \<and>
        m' = m \<lparr> rot_state := RotationState.Aborted, rot_tombstoned := True \<rparr>))"
  using assms unfolding RotationMachine_apply_def phase_order
  by (cases "rot_state m"; cases ev)
    (auto simp: Let_def is_abort_def split: if_splits bool.splits)

lemma rotation_apply_err: "RotationMachine_apply ev m = (Inl e, m') \<Longrightarrow> m' = m"
  unfolding RotationMachine_apply_def
  by (cases "rot_state m"; cases ev) (auto simp: Let_def split: if_splits bool.splits)


definition rotation_start :: "Id32 \<Rightarrow> Id32 \<Rightarrow> ConfigRef \<Rightarrow> ConfigRef \<Rightarrow> RotationMachine" where
  "rotation_start rid ph p s =
     \<lparr> rot_rotation_id = rid, rot_plan_hash = ph, rot_predecessor = p, rot_successor = s,
       rot_state = RotationState.Proposed, rot_not_before = None, rot_drain_deadline = None,
       rot_tombstoned = False, rot_ambiguous = False \<rparr>"

lemma RotationMachine_new_ok:
  "RotationMachine_new rid ph p s = Inr m \<longleftrightarrow> is_direct_successor_of s p \<and> m = rotation_start rid ph p s"
  by (auto simp: RotationMachine_new_def rotation_start_def)

text \<open>The identity of a rotation: which plan moves which configuration to which.\<close>

definition rotation_identity :: "RotationMachine \<Rightarrow> Id32 \<times> Id32 \<times> ConfigRef \<times> ConfigRef" where
  "rotation_identity m = (rot_rotation_id m, rot_plan_hash m, rot_predecessor m, rot_successor m)"

text \<open>The history without a final conflict, and how the fields of the machine follow from it.\<close>

definition path_data :: "RotationEvent list \<Rightarrow> RotationMachine \<Rightarrow> bool" where
  "path_data h m \<longleftrightarrow>
     rotation_path h (rot_state m) \<and>
     (rot_state m = RotationState.DelayPending \<longrightarrow>
        (\<exists>t d. h = [BeginAccepted t d True] \<and> rot_not_before m = Some (saturating_add t d))) \<and>
     (rot_state m = RotationState.Active \<or> rot_state m = RotationState.Draining \<longrightarrow>
        (\<exists>dd. WitnessQcObserved True True dd \<in> set h \<and> rot_drain_deadline m = Some dd)) \<and>
     (rot_tombstoned m \<longleftrightarrow> rot_state m = RotationState.Aborted)"

lemma rotation_path_proposed: "rotation_path h RotationState.Proposed \<longleftrightarrow> h = []"
  by (auto elim: rotation_path.cases intro: rotation_path.intros)

lemma path_data_step:
  assumes h: "path_data h m" and ev: "ev \<noteq> ConflictObserved"
    and ap: "RotationMachine_apply ev m = (Inr acts, m')"
  shows "path_data (h @ [ev]) m' \<and> rot_ambiguous m' = rot_ambiguous m \<and>
    rotation_identity m' = rotation_identity m"
  using rotation_apply_ok [OF ap] ev h
  by (elim conjE disjE exE)
    (auto simp: path_data_def unwrap_or_def rotation_path_proposed rotation_identity_def
      intro: rotation_path.intros)

definition rotation_inv ::
    "Id32 \<times> Id32 \<times> ConfigRef \<times> ConfigRef \<Rightarrow> rotation_log \<Rightarrow> RotationMachine \<Rightarrow> bool" where
  "rotation_inv ident l m \<longleftrightarrow> rotation_identity m = ident \<and>
     (\<exists>h. accepted_rotation l = h @ (if rot_ambiguous m then [ConflictObserved] else []) \<and> path_data h m)"

lemma rotation_inv_start: "rotation_inv (rid, ph, p, s) [] (rotation_start rid ph p s)"
  by (simp add: rotation_inv_def rotation_start_def rotation_identity_def path_data_def
      rotation_path.intros)

lemma rotation_inv_exec:
  assumes inv: "rotation_inv ident l m" and ap: "RotationMachine_apply ev m = (r, m')"
  shows "rotation_inv ident (l @ [(ev, r)]) m'"
proof (cases r)
  case (Inl e)
  with inv rotation_apply_err ap show ?thesis by (force simp: rotation_inv_def is_ok_def)
next
  case (Inr acts)
  from inv obtain h where h: "accepted_rotation l = h @ (if rot_ambiguous m then [ConflictObserved] else [])"
    "path_data h m" "rotation_identity m = ident" by (auto simp: rotation_inv_def)
  have na: "\<not> rot_ambiguous m" using rotation_apply_ok [of ev m acts m'] ap Inr by simp
  show ?thesis
  proof (cases "ev = ConflictObserved")
    case True
    with rotation_apply_ok [of ev m acts m'] ap Inr have "m' = m \<lparr> rot_ambiguous := True \<rparr>" by simp
    with h na True Inr show ?thesis
      by (simp add: rotation_inv_def is_ok_def path_data_def rotation_identity_def)
  next
    case False
    with path_data_step [OF h(2) False] ap Inr h na show ?thesis
      by (simp add: rotation_inv_def is_ok_def)
  qed
qed

interpretation rot: logged_machine RotationMachine_apply "rotation_start rid ph p s"
    "rotation_inv (rid, ph, p, s)"
  for rid ph p s
  by unfold_locales (fact rotation_inv_start, fact rotation_inv_exec)

interpretation rot_dead: stable_machine RotationMachine_apply
    "\<lambda>m. m = m0 \<and> (rot_ambiguous m0 \<or> rot_tombstoned m0)"
  for m0
  by unfold_locales (auto simp: RotationMachine_apply_def split: if_splits)

section \<open>Lemmas on \<open>EpochWitnessMachine\<close>\<close>

datatype witness_op =
    WAccept ConfigRef Id32 ConfigRef Id32 bool
  | WRead Id32 Id32 u64 u64 u64
  | WConflict u64 Id32

fun witness_exec :: "witness_op \<Rightarrow> EpochWitnessMachine \<Rightarrow> (RotationError, WitnessAction) result \<times> EpochWitnessMachine" where
  "witness_exec (WAccept p ph s sh ok) w = accept_successor p ph s sh ok w"
| "witness_exec (WRead c n iss ex now) w = fresh_read c n iss ex now w"
| "witness_exec (WConflict e h) w = observe_same_epoch_conflict e h w"

lemmas witness_op_defs = accept_successor_def fresh_read_def observe_same_epoch_conflict_def

text \<open>The acknowledgement the caller signs grants a child to a predecessor capsule.\<close>

fun witness_grant :: "witness_op \<Rightarrow> (RotationError, WitnessAction) result \<Rightarrow> (Id32 \<times> Id32) option" where
  "witness_grant (WAccept p ph s sh ok) (Inr _) = Some (ph, sh)"
| "witness_grant _ _ = None"

interpretation ew: write_once witness_exec "\<lambda>w. bt_get (ew_predecessor_locks w)" witness_grant
proof unfold_locales
  fix op s r s' k v
  assume "witness_exec op s = (r, s')" and "witness_grant op r = Some (k, v)"
  then show "bt_get (ew_predecessor_locks s') k = Some v"
    by (cases "(op, r)" rule: witness_grant.cases)
      (auto simp: witness_op_defs split: if_splits option.splits)
next
  fix op s r s' k v
  assume "witness_exec op s = (r, s')" and "bt_get (ew_predecessor_locks s) k = Some v"
  then show "bt_get (ew_predecessor_locks s') k = Some v"
    by (cases op) (auto simp: witness_op_defs split: if_splits option.splits)
qed

text \<open>One step of the register: it either keeps its value or moves to the direct successor.\<close>

lemma witness_step_epoch:
  assumes "witness_exec op w = (r, w')"
  shows "ew_highest_epoch w' = ew_highest_epoch w \<and> ew_highest_capsule_hash w' = ew_highest_capsule_hash w \<or>
    (\<exists>p s sh. op = WAccept p (ew_highest_capsule_hash w) s sh True \<and> is_ok r \<and> is_direct_successor_of s p \<and>
      ew_highest_epoch w' = saturating_add (ew_highest_epoch w) 1 \<and> ew_highest_capsule_hash w' = sh)"
  using assms
  by (cases op)
    (auto simp: witness_op_defs is_direct_successor_of_def is_ok_def split: if_splits option.splits)

interpretation ew_epoch: stable_machine witness_exec "\<lambda>w. e \<le> ew_highest_epoch w" for e
proof unfold_locales
  fix s op r s'
  assume "e \<le> ew_highest_epoch s" and "witness_exec op s = (r, s')"
  with witness_step_epoch [of op s r s'] le_saturating_add [of "ew_highest_epoch s" 1]
  show "e \<le> ew_highest_epoch s'" by auto
qed

interpretation ew_nonce: stable_machine witness_exec "\<lambda>w. n \<in> ew_seen_read_nonces w" for n
proof unfold_locales
  fix s op r s'
  assume "n \<in> ew_seen_read_nonces s" and "witness_exec op s = (r, s')"
  then show "n \<in> ew_seen_read_nonces s'"
    by (cases op) (auto simp: witness_op_defs split: if_splits option.splits)
qed

interpretation ew_ambiguous: stable_machine witness_exec ew_ambiguous
proof unfold_locales
  fix s op r s'
  assume "ew_ambiguous s" and "witness_exec op s = (r, s')"
  then show "ew_ambiguous s'"
    by (cases op) (auto simp: witness_op_defs split: if_splits option.splits)
qed


text \<open>
  What a reader that saw epoch \<open>e\<close> with capsule \<open>h\<close> can rely on later: a higher epoch, or the
  same capsule.
\<close>

definition at_or_after :: "u64 \<Rightarrow> Id32 \<Rightarrow> EpochWitnessMachine \<Rightarrow> bool" where
  "at_or_after e h w \<longleftrightarrow>
     e < ew_highest_epoch w \<or> ew_highest_epoch w = e \<and> ew_highest_capsule_hash w = h \<or> e = u64_MAX"

interpretation ew_at: stable_machine witness_exec "at_or_after e h" for e h
proof unfold_locales
  fix s op r s'
  assume a: "at_or_after e h s" and ex: "witness_exec op s = (r, s')"
  from witness_step_epoch [OF ex] show "at_or_after e h s'"
  proof (elim disjE conjE exE)
    assume "ew_highest_epoch s' = saturating_add (ew_highest_epoch s) 1"
    moreover have "e < saturating_add (ew_highest_epoch s) 1" if "e \<noteq> u64_MAX" "e \<le> ew_highest_epoch s"
      using that saturating_add_one_less [of e] saturating_add_one_less [of "ew_highest_epoch s"]
        le_saturating_add [of "ew_highest_epoch s" 1]
      by (cases "ew_highest_epoch s = u64_MAX")
        (auto simp: u64_MAX_def simp flip: word_order.not_eq_extremum)
    ultimately show ?thesis using a less_imp_le [of e "ew_highest_epoch s"] by (auto simp: at_or_after_def)
  qed (use a in \<open>simp add: at_or_after_def\<close>)
qed

lemma fresh_read_ok:
  "fresh_read c n iss ex now w = (Inr a, w') \<longleftrightarrow>
     \<not> ew_ambiguous w \<and> c = ew_config_id w \<and> iss \<le> now \<and> now < ex \<and> n \<notin> ew_seen_read_nonces w \<and>
     a = SignFreshRead n (ew_highest_epoch w) (ew_highest_capsule_hash w) \<and>
     w' = w \<lparr> ew_seen_read_nonces := insert n (ew_seen_read_nonces w) \<rparr>"
  by (auto simp: fresh_read_def not_le not_less)

section \<open>Properties of the rotation machine\<close>

lemma rotation_path_preparing:
  "rotation_path h RotationState.Preparing \<Longrightarrow>
     \<exists>t0 delay t1. h = [BeginAccepted t0 delay True, ReleaseAccepted t1 True True] \<and>
       saturating_add t0 delay \<le> t1"
  by (erule rotation_path.cases) auto

lemma rotation_path_activating:
  "rotation_path h RotationState.Activating \<Longrightarrow>
     \<exists>t0 delay t1 n. h = [BeginAccepted t0 delay True, ReleaseAccepted t1 True True,
         PreparationComplete n n True True, ActivationAuthorized True True] \<and>
       saturating_add t0 delay \<le> t1 \<and> n \<noteq> 0"
proof (erule rotation_path.cases; simp)
  fix h' assume "rotation_path h' RotationState.Ready"
  then show "\<exists>t0 delay t1 n. h' = [BeginAccepted t0 delay True, ReleaseAccepted t1 True True,
         PreparationComplete n n True True] \<and> saturating_add t0 delay \<le> t1 \<and> n \<noteq> 0"
    by (cases rule: rotation_path.cases) (auto dest!: rotation_path_preparing)
qed

text \<open>C17: a rotation tells its caller to activate the successor only on a valid quorum certificate
  for the exact successor, and only when the events it accepted before are, in this order and
  nothing else: a certified begin, a certified release in an unambiguous state at least the
  delay later, a complete preparation of a non-empty roster, and an activation certificate
  for the exact capsule.\<close>

theorem rotation_activation_safety:
  assumes "RotationMachine_new rid ph p s = Inr m0"
    and "run_log RotationMachine_apply m0 ops = (l1 @ (ev, Inr acts) # l2, m)"
    and "ActivateSuccessorAndDrainOld dd \<in> set acts"
  shows "ev = WitnessQcObserved True True dd \<and>
    (\<exists>t0 delay t1 n. accepted_rotation l1 =
        [BeginAccepted t0 delay True, ReleaseAccepted t1 True True,
         PreparationComplete n n True True, ActivationAuthorized True True] \<and>
       saturating_add t0 delay \<le> t1 \<and> n \<noteq> 0)"
proof -
  from assms(1,2) have "run_log RotationMachine_apply (rotation_start rid ph p s) ops =
      (l1 @ (ev, Inr acts) # l2, m)" by (simp add: RotationMachine_new_ok)
  from rot.inv_before [OF this] obtain u u' where inv: "rotation_inv (rid, ph, p, s) l1 u"
    and ap: "RotationMachine_apply ev u = (Inr acts, u')" by blast
  have "rot_state u = RotationState.Activating \<and> ev = WitnessQcObserved True True dd \<and> \<not> rot_ambiguous u"
    using ap assms(3) unfolding RotationMachine_apply_def
    by (cases "rot_state u"; cases ev) (auto simp: Let_def split: if_splits bool.splits)
  with inv show ?thesis
    by (auto simp: rotation_inv_def path_data_def dest!: rotation_path_activating)
qed

definition sample_ref :: "u64 \<Rightarrow> Id32 \<Rightarrow> ConfigRef" where
  "sample_ref epoch binding =
     \<lparr> cr_config_id = 1, cr_payload_generation = 1, cr_authorization_epoch = 1,
       cr_guardian_epoch = epoch, cr_epoch_binding = binding \<rparr>"

lemma sample_ref_successor: "is_direct_successor_of (sample_ref 2 2) (sample_ref 1 1)"
  by (simp add: is_direct_successor_of_def sample_ref_def saturating_add_def)

definition sample_rotation_ops :: "RotationEvent list" where
  "sample_rotation_ops =
     [BeginAccepted 10 5 True, ReleaseAccepted 15 True True, PreparationComplete 8 8 True True,
      ActivationAuthorized True True]"

theorem rotation_activation_safety_witness:
  "\<exists>t0 delay t1 n. accepted_rotation
        (fst (run_log RotationMachine_apply (rotation_start 7 8 (sample_ref 1 1) (sample_ref 2 2))
           sample_rotation_ops)) =
        [BeginAccepted t0 delay True, ReleaseAccepted t1 True True,
         PreparationComplete n n True True, ActivationAuthorized True True] \<and>
       saturating_add t0 delay \<le> t1 \<and> n \<noteq> 0"
proof -
  let ?m0 = "rotation_start 7 8 (sample_ref 1 1) (sample_ref 2 2)"
  have new: "RotationMachine_new 7 8 (sample_ref 1 1) (sample_ref 2 2) = Inr ?m0"
    by (simp add: RotationMachine_new_ok sample_ref_successor)
  have run: "run_log RotationMachine_apply ?m0 (sample_rotation_ops @ [WitnessQcObserved True True 99]) =
     (fst (run_log RotationMachine_apply ?m0 sample_rotation_ops) @
        (WitnessQcObserved True True 99, Inr [ActivateSuccessorAndDrainOld 99]) # [],
      snd (run_log RotationMachine_apply ?m0 (sample_rotation_ops @ [WitnessQcObserved True True 99])))"
    by (simp add: sample_rotation_ops_def rotation_start_def RotationMachine_apply_def
        saturating_add_def unwrap_or_def)
  from rotation_activation_safety [OF new run] show ?thesis by simp
qed

text \<open>In every run of a rotation, the accepted events form a legal path to the machine's phase
  (with the delay before the release, the full preparation, the activation, the quorum and the
  drain deadline where the phase requires them), except for at most one conflict, which is the
  last accepted event and sets the ambiguity flag; the rotation's identity, plan, predecessor
  and successor never change.\<close>

theorem rotation_history:
  assumes "RotationMachine_new rid ph p s = Inr m0"
  shows "let (l, m) = run_log RotationMachine_apply m0 ops in
    (\<exists>h. accepted_rotation l = h @ (if rot_ambiguous m then [ConflictObserved] else []) \<and>
       rotation_path h (rot_state m)) \<and>
    rot_rotation_id m = rid \<and> rot_plan_hash m = ph \<and> rot_predecessor m = p \<and> rot_successor m = s"
  using assms rot.run_inv [of rid ph p s ops]
  by (auto simp: RotationMachine_new_ok rotation_inv_def path_data_def rotation_identity_def
      split: prod.splits)

theorem rotation_history_witness:
  "let (l, m) = run_log RotationMachine_apply (rotation_start 7 8 (sample_ref 1 1) (sample_ref 2 2))
      sample_rotation_ops in
    (\<exists>h. accepted_rotation l = h @ (if rot_ambiguous m then [ConflictObserved] else []) \<and>
       rotation_path h (rot_state m)) \<and>
    rot_rotation_id m = 7 \<and> rot_plan_hash m = 8 \<and> rot_predecessor m = sample_ref 1 1 \<and>
    rot_successor m = sample_ref 2 2"
  by (rule rotation_history) (simp add: RotationMachine_new_ok sample_ref_successor)

text \<open>No event moves a rotation backwards, and the phase strictly advances exactly when an
  event other than a conflict is accepted; a refused event leaves the machine unchanged.\<close>

theorem rotation_forward:
  "let (r, m') = RotationMachine_apply ev m in
     rot_state m \<le> rot_state m' \<and>
     (rot_state m < rot_state m' \<longleftrightarrow> is_ok r \<and> ev \<noteq> ConflictObserved) \<and>
     (is_ok r \<or> m' = m)"
proof (cases "RotationMachine_apply ev m")
  case (Pair r m')
  show ?thesis
  proof (cases r)
    case (Inl e)
    with Pair rotation_apply_err show ?thesis by (auto simp: is_ok_def)
  next
    case (Inr acts)
    with Pair rotation_apply_ok [of ev m acts m'] show ?thesis
      by (auto simp: is_ok_def phase_order)
  qed
qed

text \<open>An accepted abort or owner cancellation, and an observed conflict, end a rotation: every
  later event is refused, with the abort or the fail-closed error, and the machine never
  changes again.\<close>

theorem rotation_end_is_final:
  assumes "RotationMachine_apply ev m = (Inr acts, m0)"
    and "ev = ConflictObserved \<or> is_abort ev"
    and "run_log RotationMachine_apply m0 ops = (l, t)"
  shows "t = m0 \<and> (\<forall>(op, r) \<in> set l.
    r = Inl (if ev = ConflictObserved then RotationError.FailClosed else RotationError.Aborted))"
proof -
  from rotation_apply_ok [OF assms(1)] assms(2)
  have end_state: "rot_ambiguous m0 \<longleftrightarrow> ev = ConflictObserved" "rot_ambiguous m0 \<or> rot_tombstoned m0"
    by (auto simp: is_abort_def)
  then have dead: "m0 = m0 \<and> (rot_ambiguous m0 \<or> rot_tombstoned m0)" by simp
  from rot_dead.run_stable [OF dead assms(3)] have t: "t = m0" by simp
  have "r = Inl (if ev = ConflictObserved then RotationError.FailClosed else RotationError.Aborted)"
    if "(op, r) \<in> set l" for op r
  proof -
    from that obtain l1 l2 where "l = l1 @ (op, r) # l2" by (meson split_list)
    with assms(3) obtain u' where "RotationMachine_apply op m0 = (r, u')"
      using rot_dead.run_stable_entry [OF dead] by blast
    with end_state show ?thesis by (auto simp: RotationMachine_apply_def)
  qed
  with t show ?thesis by blast
qed

theorem rotation_end_is_final_witness:
  "(snd (run_log RotationMachine_apply
      (snd (RotationMachine_apply (AbortObserved True) (rotation_start 7 8 (sample_ref 1 1) (sample_ref 2 2))))
      sample_rotation_ops)) =
   snd (RotationMachine_apply (AbortObserved True) (rotation_start 7 8 (sample_ref 1 1) (sample_ref 2 2)))"
proof -
  let ?m = "rotation_start 7 8 (sample_ref 1 1) (sample_ref 2 2)"
  have ap: "RotationMachine_apply (AbortObserved True) ?m =
      (Inr [AbortAndErasePreparedState], snd (RotationMachine_apply (AbortObserved True) ?m))"
    by (simp add: rotation_start_def RotationMachine_apply_def is_abort_def)
  from rotation_end_is_final [OF ap _ surjective_pairing] show ?thesis
    by (simp add: is_abort_def)
qed

section \<open>Properties of the witness machine\<close>

text \<open>A witness acknowledges at most one successor capsule per predecessor capsule, over its
  whole life and from any state it was restored in: two acknowledged activations with the same
  predecessor capsule hash have the same successor capsule hash.\<close>

theorem witness_one_child:
  assumes "run_log witness_exec w ops = (l, t)"
    and "(WAccept p1 h s1 c1 ok1, Inr a1) \<in> set l"
    and "(WAccept p2 h s2 c2 ok2, Inr a2) \<in> set l"
  shows "c1 = c2"
  by (rule ew.grants_agree [OF assms(1,2) _ assms(3)]) simp_all

definition cyclic_witness :: EpochWitnessMachine where
  "cyclic_witness = EpochWitnessMachine_new 1 1 10"

definition cyclic_ops :: "witness_op list" where
  "cyclic_ops =
     [WAccept (sample_ref 1 1) 10 (sample_ref 2 2) 11 True,
      WAccept (sample_ref 2 2) 11 (sample_ref 3 3) 10 True,
      WAccept (sample_ref 3 3) 10 (sample_ref 4 4) 12 True,
      WAccept (sample_ref 3 3) 10 (sample_ref 4 4) 11 True]"

lemma cyclic_run:
  "run_log witness_exec cyclic_witness cyclic_ops =
    ([(WAccept (sample_ref 1 1) 10 (sample_ref 2 2) 11 True, Inr (PersistSuccessorBeforeAck 1 10 2 11)),
      (WAccept (sample_ref 2 2) 11 (sample_ref 3 3) 10 True, Inr (PersistSuccessorBeforeAck 2 11 3 10)),
      (WAccept (sample_ref 3 3) 10 (sample_ref 4 4) 12 True, Inl PredecessorLocked),
      (WAccept (sample_ref 3 3) 10 (sample_ref 4 4) 11 True, Inr (PersistSuccessorBeforeAck 3 10 4 11))],
     snd (run_log witness_exec cyclic_witness cyclic_ops))"
  by (simp add: cyclic_witness_def cyclic_ops_def EpochWitnessMachine_new_def accept_successor_def
      is_direct_successor_of_def sample_ref_def saturating_add_def)

theorem witness_one_child_witness:
  "\<exists>c1 c2.
     (WAccept (sample_ref 1 1) 10 (sample_ref 2 2) c1 True, Inr (PersistSuccessorBeforeAck 1 10 2 11)) \<in>
       set (fst (run_log witness_exec cyclic_witness cyclic_ops)) \<and>
     (WAccept (sample_ref 3 3) 10 (sample_ref 4 4) c2 True, Inr (PersistSuccessorBeforeAck 3 10 4 11)) \<in>
       set (fst (run_log witness_exec cyclic_witness cyclic_ops)) \<and>
     c1 = c2"
proof (intro exI conjI)
  let ?l = "fst (run_log witness_exec cyclic_witness cyclic_ops)"
  show 1: "(WAccept (sample_ref 1 1) 10 (sample_ref 2 2) 11 True, Inr (PersistSuccessorBeforeAck 1 10 2 11)) \<in> set ?l"
    by (subst cyclic_run) simp
  show 2: "(WAccept (sample_ref 3 3) 10 (sample_ref 4 4) 11 True, Inr (PersistSuccessorBeforeAck 3 10 4 11)) \<in> set ?l"
    by (subst cyclic_run) simp
  show "(11 :: Id32) = 11" by (rule witness_one_child [OF surjective_pairing 1 2])
qed

text \<open>Fresh reads of a witness behave like a monotone register. Of two successful reads in a
  run, the later one uses another nonce, reports an epoch that is not smaller, and, for the
  same epoch below \<open>u64::MAX\<close>, the same capsule.\<close>

theorem witness_reads_monotone:
  assumes "run_log witness_exec w ops =
      (l1 @ (WRead c1 n1 i1 x1 t1, Inr (SignFreshRead m1 e1 h1)) #
       l2 @ (WRead c2 n2 i2 x2 t2, Inr (SignFreshRead m2 e2 h2)) # l3, t)"
  shows "n1 \<noteq> n2 \<and> m1 = n1 \<and> m2 = n2 \<and> e1 \<le> e2 \<and> (e1 = e2 \<and> e1 \<noteq> u64_MAX \<longrightarrow> h1 = h2)"
proof -
  from run_log_split [OF assms] obtain ops2 u u' where
    1: "witness_exec (WRead c1 n1 i1 x1 t1) u = (Inr (SignFreshRead m1 e1 h1), u')"
    and run: "run_log witness_exec u' ops2 =
      (l2 @ (WRead c2 n2 i2 x2 t2, Inr (SignFreshRead m2 e2 h2)) # l3, t)" by blast
  then have u': "n1 \<in> ew_seen_read_nonces u'" "e1 \<le> ew_highest_epoch u'" "at_or_after e1 h1 u'" "m1 = n1"
    by (auto simp: fresh_read_ok at_or_after_def)
  from run_log_split [OF run] obtain ops3 v v' where
    v: "run_log witness_exec u' ops3 = (l2, v)"
    and 2: "fresh_read c2 n2 i2 x2 t2 v = (Inr (SignFreshRead m2 e2 h2), v')" by auto
  from ew_nonce.run_stable [OF u'(1) v] ew_epoch.run_stable [OF u'(2) v] ew_at.run_stable [OF u'(3) v]
  show ?thesis using 2 u'(4) by (auto simp: fresh_read_ok at_or_after_def)
qed

definition read_ops :: "witness_op list" where
  "read_ops = [WRead 1 5 0 9 3, WAccept (sample_ref 1 1) 10 (sample_ref 2 2) 11 True, WRead 1 6 0 9 3]"

theorem witness_reads_monotone_witness:
  "\<exists>n1 n2 e1 e2 l2.
     fst (run_log witness_exec cyclic_witness read_ops) =
       (WRead 1 n1 0 9 3, Inr (SignFreshRead n1 e1 10)) # l2 @ [(WRead 1 n2 0 9 3, Inr (SignFreshRead n2 e2 11))] \<and>
     n1 \<noteq> n2 \<and> e1 \<le> e2"
proof (intro exI conjI)
  have run: "run_log witness_exec cyclic_witness read_ops =
    ([] @ (WRead 1 5 0 9 3, Inr (SignFreshRead 5 1 10)) #
      [(WAccept (sample_ref 1 1) 10 (sample_ref 2 2) 11 True, Inr (PersistSuccessorBeforeAck 1 10 2 11))] @
      (WRead 1 6 0 9 3, Inr (SignFreshRead 6 2 11)) # [],
     snd (run_log witness_exec cyclic_witness read_ops))"
    by (simp add: cyclic_witness_def read_ops_def EpochWitnessMachine_new_def witness_op_defs
        is_direct_successor_of_def sample_ref_def saturating_add_def)
  then show "fst (run_log witness_exec cyclic_witness read_ops) =
     (WRead 1 5 0 9 3, Inr (SignFreshRead 5 1 10)) #
       [(WAccept (sample_ref 1 1) 10 (sample_ref 2 2) 11 True, Inr (PersistSuccessorBeforeAck 1 10 2 11))] @
       [(WRead 1 6 0 9 3, Inr (SignFreshRead 6 2 11))]"
    by (metis append_Cons append_Nil fst_conv)
  from witness_reads_monotone [OF run] show "(5 :: Id32) \<noteq> 6" and "(1 :: u64) \<le> 2" by simp_all
qed


section \<open>Lemmas on \<open>EpochRecoveryMachine\<close>\<close>

datatype epoch_op =
    EBegin RecoveryRequestV3 Id32 u64 u64 u64 bool
  | EActivate ConfigRef u64 bool
  | ERelease EpochReleaseAuthorization
  | ECancel Id32 Id32 bool
  | ERetire u64 u64

datatype epoch_reply =
    EBeginReply "(RotationError, u64) result"
  | EUnitReply "(RotationError, unit) result"

fun epoch_exec :: "epoch_op \<Rightarrow> EpochRecoveryMachine \<Rightarrow> epoch_reply \<times> EpochRecoveryMachine" where
  "epoch_exec (EBegin rq d wt mt delay ok) s = map_prod EBeginReply id (epoch_begin rq d wt mt delay ok s)"
| "epoch_exec (EActivate c dd ok) s = map_prod EUnitReply id (activate_successor c dd ok s)"
| "epoch_exec (ERelease a) s = map_prod EUnitReply id (epoch_authorize_release a s)"
| "epoch_exec (ECancel i d ok) s = map_prod EUnitReply id (epoch_cancel i d ok s)"
| "epoch_exec (ERetire e mt) s = map_prod EUnitReply id (retire_draining_epoch e mt s)"

lemmas epoch_op_defs =
  epoch_begin_def activate_successor_def epoch_authorize_release_def epoch_cancel_def
  retire_draining_epoch_def set_epoch_state_def

lemma epoch_exec_iff:
  "epoch_exec (EBegin rq d wt mt delay ok) s = (EBeginReply x, s') \<longleftrightarrow> epoch_begin rq d wt mt delay ok s = (x, s')"
  "epoch_exec (ERelease a) s = (EUnitReply y, s') \<longleftrightarrow> epoch_authorize_release a s = (y, s')"
  by (cases "epoch_begin rq d wt mt delay ok s", simp) (cases "epoch_authorize_release a s", simp)

fun epoch_lab :: "epoch_op \<Rightarrow> epoch_reply \<Rightarrow> custody_label option" where
  "epoch_lab (EBegin rq d wt mt delay ok) (EBeginReply (Inr nb)) =
     Some (Began (rq3_request_id rq) (rq3_nonce rq) d nb (rq3_expiry rq))"
| "epoch_lab (ECancel i d ok) (EUnitReply (Inr _)) = Some (CancelledBy i d)"
| "epoch_lab (ERelease a) (EUnitReply (Inr _)) =
     Some (Released (era_request_id a) (era_request_digest a) (era_wall_now a) (era_monotonic_now a))"
| "epoch_lab _ _ = None"

definition epoch_pending_view :: "PendingEpochRecovery \<Rightarrow> Id32 \<times> u64 \<times> u64" where
  "epoch_pending_view p = (per_request_digest p, per_not_before p, per_expiry p)"

definition epoch_abs :: "EpochRecoveryMachine \<Rightarrow> custody" where
  "epoch_abs s =
     \<lparr> tomb = bt_get (er_cancelled s),
       pend = (\<lambda>i. map_option epoch_pending_view (bt_get (er_pending s) i)),
       seen_ids = er_seen_request_ids s,
       seen_ns = er_seen_nonces s \<rparr>"

lemma epoch_simulates:
  assumes "epoch_exec op s = (r, s')"
  shows "custody_step (epoch_abs s) (epoch_lab op r) (epoch_abs s')"
proof (cases op)
  case (EBegin rq d wt mt delay ok)
  with assms show ?thesis
    by (auto simp: epoch_op_defs Let_def epoch_abs_def custody_step_simps fun_eq_iff epoch_pending_view_def
        split: if_splits option.splits)
next
  case (EActivate c dd ok)
  with assms show ?thesis
    by (auto simp: epoch_op_defs epoch_abs_def custody_step_simps split: if_splits)
next
  case (ERelease a)
  with assms show ?thesis
    by (auto simp: epoch_op_defs epoch_abs_def custody_step_simps fun_eq_iff epoch_pending_view_def
        split: if_splits option.splits)
next
  case (ECancel i d ok)
  with assms show ?thesis
    by (auto simp: epoch_op_defs epoch_abs_def custody_step_simps fun_eq_iff epoch_pending_view_def
        split: if_splits option.splits)
next
  case (ERetire e mt)
  with assms show ?thesis
    by (auto simp: epoch_op_defs epoch_abs_def custody_step_simps split: if_splits option.splits)
qed

interpretation er: custodian epoch_exec "EpochRecoveryMachine_new c" epoch_lab epoch_abs for c
  by unfold_locales
    (simp_all add: epoch_simulates, simp add: epoch_abs_def EpochRecoveryMachine_new_def custody_start_def)

text \<open>
  The machine's own invariant: the maps are well formed, every pending request carries the
  configuration and nonce of the begin that created it, which was the active one then, and
  the active configuration and its predecessors share the configuration identifier.
\<close>

definition epoch_wf :: "EpochRecoveryMachine \<Rightarrow> bool" where
  "epoch_wf s \<longleftrightarrow> bt_ok (er_draining s) \<and> bt_ok (er_pending s) \<and> bt_ok (er_cancelled s) \<and>
     (\<forall>i p. bt_get (er_pending s) i = Some p \<longrightarrow>
        i \<in> er_seen_request_ids s \<and> per_nonce p \<in> er_seen_nonces s \<and>
        cr_config_id (per_config_ref p) = cr_config_id (er_active s) \<and>
        cr_guardian_epoch (per_config_ref p) \<le> cr_guardian_epoch (er_active s))"

lemma epoch_wf_new: "epoch_wf (EpochRecoveryMachine_new c)"
  by (simp add: epoch_wf_def EpochRecoveryMachine_new_def)

lemma epoch_wf_exec:
  assumes "epoch_wf s" and "epoch_exec op s = (r, s')"
  shows "epoch_wf s'"
proof (cases op)
  case (EActivate c dd ok)
  with assms successor_epoch_mono [of c "er_active s"] show ?thesis
    by (auto simp: epoch_wf_def activate_successor_def is_direct_successor_of_def split: if_splits)
      (meson order_trans)
next
  case (ERelease a)
  with assms show ?thesis
    by (auto simp: epoch_wf_def epoch_authorize_release_def set_epoch_state_def split: if_splits option.splits)
      metis+
qed (use assms in \<open>auto simp: epoch_wf_def epoch_op_defs Let_def split: if_splits option.splits\<close>)

interpretation er_wf: stable_machine epoch_exec epoch_wf
  by unfold_locales (fact epoch_wf_exec)


interpretation er_seen: stable_machine epoch_exec "\<lambda>s. i \<in> er_seen_request_ids s" for i
proof unfold_locales
  fix s op r s'
  assume "i \<in> er_seen_request_ids s" and "epoch_exec op s = (r, s')"
  then show "i \<in> er_seen_request_ids s'"
    by (cases op) (auto simp: epoch_op_defs Let_def split: if_splits option.splits)
qed

text \<open>Every pending request comes from an accepted begin with the same fields.\<close>

type_synonym epoch_log = "(epoch_op \<times> epoch_reply) list"

definition begun_by :: "epoch_log \<Rightarrow> Id32 \<Rightarrow> PendingEpochRecovery \<Rightarrow> bool" where
  "begun_by l i p \<longleftrightarrow> (\<exists>rq wt mt delay.
     (EBegin rq (per_request_digest p) wt mt delay True, EBeginReply (Inr (saturating_add mt delay))) \<in> set l \<and>
     rq3_request_id rq = i \<and> rq3_config_ref rq = per_config_ref p \<and> rq3_nonce rq = per_nonce p \<and>
     rq3_requested_at rq \<le> wt \<and> wt < rq3_expiry rq \<and>
     per_not_before p = saturating_add mt delay \<and> per_expiry p = rq3_expiry rq)"

definition epoch_log_inv :: "epoch_log \<Rightarrow> EpochRecoveryMachine \<Rightarrow> bool" where
  "epoch_log_inv l s \<longleftrightarrow> (\<forall>i p. bt_get (er_pending s) i = Some p \<longrightarrow> begun_by l i p)"

lemma begun_by_mono: "begun_by l i p \<Longrightarrow> begun_by (l @ l') i p"
  by (auto simp: begun_by_def)

lemma begun_by_state [simp]: "begun_by l i (p \<lparr> per_state := st \<rparr>) = begun_by l i p"
  by (simp add: begun_by_def)

lemma epoch_begin_ok:
  assumes "epoch_begin rq d wt mt delay ok s = (Inr nb, s')"
  shows "ok \<and> rq3_config_ref rq = er_active s \<and> rq3_requested_at rq \<le> wt \<and> wt < rq3_expiry rq \<and>
    nb = saturating_add mt delay \<and>
    er_pending s' = bt_insert (rq3_request_id rq)
      \<lparr> per_config_ref = rq3_config_ref rq, per_request_digest = d, per_nonce = rq3_nonce rq,
        per_not_before = nb, per_expiry = rq3_expiry rq, per_state = RecoveryState.DelayPending \<rparr>
      (er_pending s)"
  using assms by (auto simp: epoch_begin_def Let_def not_less split: if_splits option.splits)

text \<open>The other operations change at most the state of a pending request.\<close>

lemma epoch_pending_kept:
  assumes "epoch_exec op s = (r, s')" and "bt_get (er_pending s') i = Some p'"
  shows "(\<exists>p st. bt_get (er_pending s) i = Some p \<and> p' = p \<lparr> per_state := st \<rparr>) \<or>
    (\<exists>rq d wt mt delay ok nb. op = EBegin rq d wt mt delay ok \<and> r = EBeginReply (Inr nb) \<and>
       rq3_request_id rq = i)"
proof -
  have id: "p = p \<lparr> per_state := per_state p \<rparr>" for p :: PendingEpochRecovery by simp
  show ?thesis
    using assms id
    by (cases op) (auto simp: epoch_op_defs Let_def split: if_splits option.splits, (metis id)+)
qed

lemma epoch_log_inv_exec:
  assumes "epoch_log_inv l s" and "epoch_exec op s = (r, s')"
  shows "epoch_log_inv (l @ [(op, r)]) s'"
  unfolding epoch_log_inv_def
proof (intro allI impI)
  fix i p' assume p': "bt_get (er_pending s') i = Some p'"
  from epoch_pending_kept [OF assms(2) p'] show "begun_by (l @ [(op, r)]) i p'"
  proof (elim disjE exE conjE)
    fix p st assume "bt_get (er_pending s) i = Some p" and "p' = p \<lparr> per_state := st \<rparr>"
    with assms(1) show ?thesis by (simp add: epoch_log_inv_def begun_by_mono)
  next
    fix rq d wt mt delay ok nb
    assume op: "op = EBegin rq d wt mt delay ok" "r = EBeginReply (Inr nb)" "rq3_request_id rq = i"
    with assms(2) have "epoch_begin rq d wt mt delay ok s = (Inr nb, s')"
      by (auto simp: map_prod_def split: prod.splits)
    from epoch_begin_ok [OF this] op p' show ?thesis
      unfolding begun_by_def
      by (intro exI [of _ rq] exI [of _ wt] exI [of _ mt] exI [of _ delay]) auto
  qed
qed

interpretation er_log: logged_machine epoch_exec "EpochRecoveryMachine_new c" epoch_log_inv for c
  by unfold_locales
    (simp add: epoch_log_inv_def EpochRecoveryMachine_new_def, fact epoch_log_inv_exec)

lemma epoch_release_ok:
  assumes "epoch_authorize_release a s = (Inr u, s')"
  shows "\<exists>p. bt_get (er_pending s) (era_request_id a) = Some p \<and>
    era_certificate_valid a \<and> era_state_unambiguous a \<and>
    per_request_digest p = era_request_digest a \<and> per_config_ref p = era_config_ref a \<and>
    (era_config_ref a = er_active s \<or> bt_contains_key (er_draining s) (cr_guardian_epoch (era_config_ref a))) \<and>
    era_wall_now a < per_expiry p \<and> per_not_before p \<le> era_monotonic_now a \<and>
    bt_get (er_pending s') (era_request_id a) = Some (p \<lparr> per_state := RecoveryState.Releasing \<rparr>)"
  using assms
  by (auto simp: epoch_authorize_release_def set_epoch_state_def not_le not_less split: if_splits option.splits)


lemma epoch_lab_cancelled:
  "epoch_lab op r = Some (CancelledBy i d) \<longleftrightarrow> (\<exists>ok. op = ECancel i d ok \<and> r = EUnitReply (Inr ()))"
  by (cases "(op, r)" rule: epoch_lab.cases) auto

lemma epoch_lab_began:
  "epoch_lab op r = Some (Began i n d nb e) \<longleftrightarrow>
     (\<exists>rq wt mt delay ok. op = EBegin rq d wt mt delay ok \<and> r = EBeginReply (Inr nb) \<and>
        rq3_request_id rq = i \<and> rq3_nonce rq = n \<and> rq3_expiry rq = e)"
  by (cases "(op, r)" rule: epoch_lab.cases) auto

text \<open>A request that holds its epoch: it is pending there and was released.\<close>

definition releasing_in :: "Id32 \<Rightarrow> u64 \<Rightarrow> EpochRecoveryMachine \<Rightarrow> bool" where
  "releasing_in i e s \<longleftrightarrow> epoch_wf s \<and> (\<exists>p. bt_get (er_pending s) i = Some p \<and>
     per_state p = RecoveryState.Releasing \<and> cr_guardian_epoch (per_config_ref p) = e)"

lemma releasing_in_step:
  assumes "releasing_in i e s" and "epoch_exec op s = (r, s')"
    and "\<And>d ok. (op, r) \<noteq> (ECancel i d ok, EUnitReply (Inr ()))"
    and "\<And>a. era_request_id a = i \<Longrightarrow> (op, r) \<noteq> (ERelease a, EUnitReply (Inl RotationError.Expired))"
  shows "releasing_in i e s'"
proof -
  have wf: "epoch_wf s" "epoch_wf s'"
    using assms(1,2) epoch_wf_exec by (auto simp: releasing_in_def)
  obtain p where p: "bt_get (er_pending s) i = Some p" "per_state p = RecoveryState.Releasing"
    "cr_guardian_epoch (per_config_ref p) = e"
    using assms(1) by (auto simp: releasing_in_def)
  with wf(1) have seen: "i \<in> er_seen_request_ids s" by (auto simp: epoch_wf_def)
  have "\<exists>p'. bt_get (er_pending s') i = Some p' \<and> per_state p' = RecoveryState.Releasing \<and>
      cr_guardian_epoch (per_config_ref p') = e"
    using p seen assms(2-4)
    by (cases op) (auto simp: epoch_op_defs Let_def split: if_splits option.splits, blast+)
  with wf(2) show ?thesis by (simp add: releasing_in_def)
qed

lemma releasing_in_run:
  assumes "releasing_in i e s" and "run_log epoch_exec s ops = (l, t)"
    and "\<And>d ok. (ECancel i d ok, EUnitReply (Inr ())) \<notin> set l"
    and "\<And>a. era_request_id a = i \<Longrightarrow> (ERelease a, EUnitReply (Inl RotationError.Expired)) \<notin> set l"
  shows "releasing_in i e t"
  using assms
proof (induction ops arbitrary: s l)
  case (Cons op ops)
  obtain r s1 where ex: "epoch_exec op s = (r, s1)" by fastforce
  obtain l' where l': "run_log epoch_exec s1 ops = (l', t)" "l = (op, r) # l'"
    using Cons.prems(2) ex by (auto simp: Let_def split: prod.splits)
  have "releasing_in i e s1"
    by (rule releasing_in_step [OF Cons.prems(1) ex]) (use Cons.prems(3,4) l'(2) in auto)
  from Cons.IH [OF this l'(1)] Cons.prems(3,4) l'(2) show ?case by simp
qed simp

lemma retire_exact:
  assumes "epoch_wf s"
  shows "fst (retire_draining_epoch e mt s) = Inr () \<longleftrightarrow>
    (\<exists>dl. bt_get (er_draining s) e = Some dl \<and> dl \<le> mt) \<and>
    \<not> (\<exists>i p. bt_get (er_pending s) i = Some p \<and> cr_guardian_epoch (per_config_ref p) = e \<and>
         (per_state p = RecoveryState.DelayPending \<or> per_state p = RecoveryState.Releasing))"
proof -
  define busy where "busy p \<longleftrightarrow> cr_guardian_epoch (per_config_ref p) = e \<and>
      (per_state p = RecoveryState.DelayPending \<or> per_state p = RecoveryState.Releasing)"
    for p :: PendingEpochRecovery
  have "bt_ok (er_pending s)" using assms by (simp add: epoch_wf_def)
  then have "list_ex busy (bt_values (er_pending s)) \<longleftrightarrow> (\<exists>i p. bt_get (er_pending s) i = Some p \<and> busy p)"
    by (rule bt.any_value)
  then show ?thesis
    unfolding retire_draining_epoch_def busy_def [symmetric]
    by (auto simp: not_less split: option.splits)
qed

section \<open>Properties of epoch-bound recovery\<close>

text \<open>C28: an epoch-bound guardian authorises a release only with a valid certificate in an
  unambiguous state, after it accepted a begin for the same request, digest and configuration,
  once the delay of that begin has passed and before its expiry, if no cancellation of the
  request was accepted before, and only while that configuration is the active one or its
  epoch is still draining.\<close>

theorem epoch_release_safety:
  assumes "run_log epoch_exec (EpochRecoveryMachine_new c) ops =
      (l1 @ (ERelease a, EUnitReply (Inr ())) # l2, t)"
  shows "era_certificate_valid a \<and> era_state_unambiguous a \<and>
    (\<exists>rq wt mt delay.
       (EBegin rq (era_request_digest a) wt mt delay True, EBeginReply (Inr (saturating_add mt delay))) \<in> set l1 \<and>
       rq3_request_id rq = era_request_id a \<and> rq3_config_ref rq = era_config_ref a \<and>
       saturating_add mt delay \<le> era_monotonic_now a \<and> era_wall_now a < rq3_expiry rq) \<and>
    (\<nexists>d ok. (ECancel (era_request_id a) d ok, EUnitReply (Inr ())) \<in> set l1) \<and>
    (let s = snd (run_log epoch_exec (EpochRecoveryMachine_new c) (take (length l1) ops)) in
       era_config_ref a = er_active s \<or> bt_contains_key (er_draining s) (cr_guardian_epoch (era_config_ref a)))"
proof -
  from run_log_split [OF assms] obtain ops1 ops2 s s' where ops: "ops = ops1 @ ERelease a # ops2"
    and run: "run_log epoch_exec (EpochRecoveryMachine_new c) ops1 = (l1, s)"
    and ex: "epoch_authorize_release a s = (Inr (), s')" unfolding epoch_exec_iff by blast
  have len: "length l1 = length ops1" using run_log_length [of epoch_exec _ ops1] run by (metis fst_conv)
  from epoch_release_ok [OF ex] obtain p where p: "bt_get (er_pending s) (era_request_id a) = Some p"
    and ok: "era_certificate_valid a" "era_state_unambiguous a" "per_request_digest p = era_request_digest a"
      "per_config_ref p = era_config_ref a" "era_wall_now a < per_expiry p" "per_not_before p \<le> era_monotonic_now a"
    and act: "era_config_ref a = er_active s \<or> bt_contains_key (er_draining s) (cr_guardian_epoch (era_config_ref a))"
    by blast
  from er_log.run_inv [OF run] p have "begun_by l1 (era_request_id a) p" by (simp add: epoch_log_inv_def)
  then have "\<exists>rq wt mt delay.
       (EBegin rq (era_request_digest a) wt mt delay True, EBeginReply (Inr (saturating_add mt delay))) \<in> set l1 \<and>
       rq3_request_id rq = era_request_id a \<and> rq3_config_ref rq = era_config_ref a \<and>
       saturating_add mt delay \<le> era_monotonic_now a \<and> era_wall_now a < rq3_expiry rq"
    using ok unfolding begun_by_def by metis
  moreover have "\<nexists>d ok. (ECancel (era_request_id a) d ok, EUnitReply (Inr ())) \<in> set l1"
    using er.admits [OF assms, of "Released (era_request_id a) (era_request_digest a) (era_wall_now a) (era_monotonic_now a)"]
    by (auto simp: custody_admits_def labels_member epoch_lab_cancelled)
  ultimately show ?thesis using ok act run ops len by simp
qed

definition sample_request3 :: RecoveryRequestV3 where
  "sample_request3 =
     \<lparr> rq3_protocol_version = 3, rq3_config_ref = sample_ref 1 1, rq3_request_id = 3,
       rq3_recovery_recipient_key = [4], rq3_requested_at = 10, rq3_nonce = 5, rq3_expiry = 200 \<rparr>"

definition sample_authorization :: EpochReleaseAuthorization where
  "sample_authorization =
     \<lparr> era_request_id = 3, era_request_digest = 6, era_config_ref = sample_ref 1 1, era_wall_now = 20,
       era_monotonic_now = 120, era_certificate_valid = True, era_state_unambiguous = True \<rparr>"

definition sample_epoch_ops :: "epoch_op list" where
  "sample_epoch_ops = [EBegin sample_request3 6 10 100 20 True, EActivate (sample_ref 2 2) 250 True]"

lemmas sample_epoch_evals =
  sample_epoch_ops_def sample_request3_def sample_authorization_def EpochRecoveryMachine_new_def
  epoch_op_defs saturating_add_def is_direct_successor_of_def sample_ref_def

lemma sample_epoch_run:
  "run_log epoch_exec (EpochRecoveryMachine_new (sample_ref 1 1)) (sample_epoch_ops @ [ERelease sample_authorization]) =
    ([(EBegin sample_request3 6 10 100 20 True, EBeginReply (Inr 120)),
      (EActivate (sample_ref 2 2) 250 True, EUnitReply (Inr ()))] @
      (ERelease sample_authorization, EUnitReply (Inr ())) # [],
     snd (run_log epoch_exec (EpochRecoveryMachine_new (sample_ref 1 1))
       (sample_epoch_ops @ [ERelease sample_authorization])))"
  by (simp add: sample_epoch_evals Let_def)

theorem epoch_release_safety_witness:
  "\<exists>rq wt mt delay.
     (EBegin rq 6 wt mt delay True, EBeginReply (Inr (saturating_add mt delay))) \<in>
       set [(EBegin sample_request3 6 10 100 20 True, EBeginReply (Inr 120)),
            (EActivate (sample_ref 2 2) 250 True, EUnitReply (Inr ()))] \<and>
     rq3_request_id rq = 3 \<and> rq3_config_ref rq = sample_ref 1 1 \<and>
     saturating_add mt delay \<le> 120 \<and> 20 < rq3_expiry rq"
  using epoch_release_safety [OF sample_epoch_run] unfolding sample_authorization_def by simp

text \<open>The epoch-bound guardian refines the same abstract custodian as the protocol-2 guardian,
  so its runs also begin each request and nonce at most once and honour every cancellation.\<close>

theorem epoch_refines_custody:
  "custody_run custody_start
     (labels epoch_lab (fst (run_log epoch_exec (EpochRecoveryMachine_new c) ops)))
     (epoch_abs (snd (run_log epoch_exec (EpochRecoveryMachine_new c) ops)))"
  by (rule er.refines [of c ops]) simp

text \<open>In epoch-bound recovery a cancellation survives every later operation, epoch activations
  and retirements included: no later begin or release of the request succeeds, and its state
  stays \<open>Cancelled\<close>.\<close>

theorem epoch_cancel_permanent:
  assumes "run_log epoch_exec (EpochRecoveryMachine_new c) ops =
      (l1 @ (ECancel i d ok, EUnitReply (Inr ())) # l2, t)"
  shows "epoch_state t i = Some RecoveryState.Cancelled \<and>
    (\<nexists>rq d' wt mt delay ok' nb. rq3_request_id rq = i \<and>
       (EBegin rq d' wt mt delay ok', EBeginReply (Inr nb)) \<in> set l2) \<and>
    (\<nexists>a. era_request_id a = i \<and> (ERelease a, EUnitReply (Inr ())) \<in> set l2)"
proof -
  have lab: "epoch_lab (ECancel i d ok) (EUnitReply (Inr ())) = Some (CancelledBy i d)" by simp
  note after = er.after_cancel [OF assms lab]
  have "tomb (epoch_abs t) i = Some d"
    by (rule er.cancelled_at_end [OF assms]) simp
  then have "epoch_state t i = Some RecoveryState.Cancelled"
    by (simp add: epoch_abs_def epoch_state_def)
  moreover have "rq3_request_id rq \<noteq> i"
    if "(EBegin rq d' wt mt delay ok', EBeginReply (Inr nb)) \<in> set l2" for rq d' wt mt delay ok' nb
    using after [OF that] by simp
  moreover have "era_request_id a \<noteq> i" if "(ERelease a, EUnitReply (Inr ())) \<in> set l2" for a
    using after [OF that] by simp
  ultimately show ?thesis by blast
qed

theorem epoch_cancel_permanent_witness:
  "epoch_state (snd (run_log epoch_exec (EpochRecoveryMachine_new (sample_ref 1 1))
     [ECancel 3 6 True, EBegin sample_request3 6 10 100 20 True])) 3 = Some RecoveryState.Cancelled"
proof -
  have "run_log epoch_exec (EpochRecoveryMachine_new (sample_ref 1 1))
      [ECancel 3 6 True, EBegin sample_request3 6 10 100 20 True] =
    ([] @ (ECancel 3 6 True, EUnitReply (Inr ())) #
      [(EBegin sample_request3 6 10 100 20 True, EBeginReply (Inl RotationError.Cancelled))],
     snd (run_log epoch_exec (EpochRecoveryMachine_new (sample_ref 1 1))
      [ECancel 3 6 True, EBegin sample_request3 6 10 100 20 True]))"
    by (simp add: sample_epoch_evals)
  from epoch_cancel_permanent [OF this] show ?thesis by blast
qed

text \<open>A released request pins its epoch. After a successful release, whatever happens next, the
  epoch of the request cannot be retired, at any time, unless the request has been cancelled or
  a later release of it was refused as expired: the machine has no completed state.\<close>

theorem epoch_release_pins_epoch:
  assumes "run_log epoch_exec (EpochRecoveryMachine_new c) ops =
      (l1 @ (ERelease a, EUnitReply (Inr ())) # l2, t)"
    and "\<nexists>d ok. (ECancel (era_request_id a) d ok, EUnitReply (Inr ())) \<in> set l2"
    and "\<nexists>a'. era_request_id a' = era_request_id a \<and>
      (ERelease a', EUnitReply (Inl RotationError.Expired)) \<in> set l2"
  shows "fst (retire_draining_epoch (cr_guardian_epoch (era_config_ref a)) mt t) \<noteq> Inr ()"
proof -
  from run_log_split [OF assms(1)] obtain ops1 ops2 s s' where
    run1: "run_log epoch_exec (EpochRecoveryMachine_new c) ops1 = (l1, s)"
    and ex: "epoch_exec (ERelease a) s = (EUnitReply (Inr ()), s')"
    and run2: "run_log epoch_exec s' ops2 = (l2, t)" by blast
  have "epoch_wf s" by (rule er_wf.run_stable [OF epoch_wf_new run1])
  then have "epoch_wf s'" by (rule epoch_wf_exec [OF _ ex])
  moreover from ex have "epoch_authorize_release a s = (Inr (), s')" by (simp only: epoch_exec_iff)
  ultimately have "releasing_in (era_request_id a) (cr_guardian_epoch (era_config_ref a)) s'"
    using epoch_release_ok [of a s "()" s'] by (auto simp: releasing_in_def)
  from releasing_in_run [OF this run2] assms(2,3)
  have "releasing_in (era_request_id a) (cr_guardian_epoch (era_config_ref a)) t" by blast
  then show ?thesis unfolding releasing_in_def using retire_exact by blast
qed

theorem epoch_release_pins_epoch_witness:
  "fst (retire_draining_epoch 1 1000 (snd (run_log epoch_exec (EpochRecoveryMachine_new (sample_ref 1 1))
     (sample_epoch_ops @ [ERelease sample_authorization])))) \<noteq> Inr ()"
  using epoch_release_pins_epoch [OF sample_epoch_run, of 1000]
  unfolding sample_authorization_def by (simp add: sample_ref_def)

text \<open>Retiring a draining epoch succeeds exactly when the epoch is draining, its deadline has
  passed and no pending request of that epoch is still waiting or releasing.\<close>

theorem epoch_retire_exact:
  assumes "run_log epoch_exec (EpochRecoveryMachine_new c) ops = (l, s)"
  shows "fst (retire_draining_epoch e mt s) = Inr () \<longleftrightarrow>
    (\<exists>dl. bt_get (er_draining s) e = Some dl \<and> dl \<le> mt) \<and>
    \<not> (\<exists>i p. bt_get (er_pending s) i = Some p \<and> cr_guardian_epoch (per_config_ref p) = e \<and>
         (per_state p = RecoveryState.DelayPending \<or> per_state p = RecoveryState.Releasing))"
  by (rule retire_exact [OF er_wf.run_stable [OF epoch_wf_new assms]])

theorem epoch_retire_exact_witness:
  "fst (retire_draining_epoch 1 250 (snd (run_log epoch_exec (EpochRecoveryMachine_new (sample_ref 1 1))
      [EActivate (sample_ref 2 2) 250 True]))) = Inr ()"
  using epoch_retire_exact [OF surjective_pairing, of 1 250 "sample_ref 1 1" "[EActivate (sample_ref 2 2) 250 True]"]
  by (simp add: sample_epoch_evals bt_values_def)

text \<open>A begin that is refused only because its nonce was used before still uses up its request
  identifier: from then on every begin for that identifier is refused, whatever its nonce.\<close>

theorem epoch_begin_burns_identifier:
  assumes "epoch_begin rq d wt mt delay True s = (Inl RotationError.Replay, s')"
    and "run_log epoch_exec s' ops = (l, t)"
    and "(EBegin rq' d' wt' mt' delay' ok', EBeginReply r) \<in> set l"
    and "rq3_request_id rq' = rq3_request_id rq"
  shows "\<not> is_ok r"
proof -
  have "rq3_request_id rq \<in> er_seen_request_ids s'"
    using assms(1) by (auto simp: epoch_begin_def Let_def split: if_splits option.splits)
  moreover from assms(3) obtain l1 l2 where "l = l1 @ (EBegin rq' d' wt' mt' delay' ok', EBeginReply r) # l2"
    by (meson split_list)
  ultimately obtain u u' where "rq3_request_id rq \<in> er_seen_request_ids u"
    and "epoch_exec (EBegin rq' d' wt' mt' delay' ok') u = (EBeginReply r, u')"
    using er_seen.run_stable_entry assms(2) by blast
  with assms(4) show ?thesis
    by (auto simp: epoch_begin_def is_ok_def Let_def split: if_splits option.splits)
qed

definition burnt_request :: RecoveryRequestV3 where
  "burnt_request = sample_request3 \<lparr> rq3_request_id := 7 \<rparr>"

definition burnt_machine :: EpochRecoveryMachine where
  "burnt_machine = snd (epoch_exec (EBegin sample_request3 6 10 100 20 True) (EpochRecoveryMachine_new (sample_ref 1 1)))"

theorem epoch_begin_burns_identifier_witness:
  "\<not> is_ok (Inl RotationError.Replay :: (RotationError, u64) result) \<and>
   fst (epoch_begin burnt_request 9 10 100 20 True burnt_machine) = Inl RotationError.Replay \<and>
   fst (epoch_begin (burnt_request \<lparr> rq3_nonce := 8 \<rparr>) 9 10 100 20 True
     (snd (epoch_begin burnt_request 9 10 100 20 True burnt_machine))) = Inl RotationError.Replay"
proof (intro conjI)
  let ?s = "snd (epoch_begin burnt_request 9 10 100 20 True burnt_machine)"
  let ?op = "EBegin (burnt_request \<lparr> rq3_nonce := 8 \<rparr>) 9 10 100 20 True"
  have b: "epoch_begin burnt_request 9 10 100 20 True burnt_machine = (Inl RotationError.Replay, ?s)"
    by (simp add: burnt_request_def burnt_machine_def sample_epoch_evals Let_def)
  have run: "run_log epoch_exec ?s [?op] =
      ([(?op, EBeginReply (Inl RotationError.Replay))], snd (run_log epoch_exec ?s [?op]))"
    by (simp add: burnt_request_def burnt_machine_def sample_epoch_evals Let_def)
  show "\<not> is_ok (Inl RotationError.Replay :: (RotationError, u64) result)"
    by (rule epoch_begin_burns_identifier [OF b run list.set_intros(1)]) simp
  show "fst (epoch_begin burnt_request 9 10 100 20 True burnt_machine) = Inl RotationError.Replay"
    by (subst b) simp
  show "fst (epoch_begin (burnt_request \<lparr> rq3_nonce := 8 \<rparr>) 9 10 100 20 True ?s) = Inl RotationError.Replay"
    by (simp add: burnt_request_def burnt_machine_def sample_epoch_evals Let_def)
qed

end
