(* ===== verification/GP_Wire_Rotation.thy ===== *)
theory GP_Wire_Rotation
  imports GP_Wire GP_Types_Rotation
begin

text \<open>
  The protocol-3 transcripts of \<open>gp-wire/src/rotation.rs\<close>. A function \<open>x_into(out, v)\<close> is the
  list of writer calls it makes; a public function first runs its checks, in the order of the
  source, and then the writer.
\<close>

section \<open>Checks and identifiers\<close>

definition same_rotation :: "RotationContext \<Rightarrow> RotationContext \<Rightarrow> bool" where
  "same_rotation left right \<longleftrightarrow>
     rx_protocol_version left = rx_protocol_version right \<and>
     rx_config_ref left = rx_config_ref right \<and>
     rx_rotation_id left = rx_rotation_id right \<and>
     rx_predecessor_capsule_hash left = rx_predecessor_capsule_hash right"

text \<open>
  The loop of \<open>unique_ids\<close>. On a bad identifier that was not inserted, \<open>unique.contains\<close> still
  decides which error is returned.
\<close>

fun unique_ids_from :: "u16 set \<Rightarrow> u16 list \<Rightarrow> (WireError, unit) result" where
  "unique_ids_from unique [] = Inr ()"
| "unique_ids_from unique (i # ids) =
     (if i = 0 \<or> i > MAX_ROTATION_ACTORS \<or> i \<in> unique
      then Inl (if i \<in> unique then DuplicateActor else InvalidValue)
      else unique_ids_from (insert i unique) ids)"

definition unique_ids :: "u16 list \<Rightarrow> (WireError, unit) result" where
  "unique_ids ids = unique_ids_from {} ids"

fun dpss_suite_id :: "DpssSuiteId \<Rightarrow> u16" where
  "dpss_suite_id ZfFrostRistretto255RtsRefreshV1 = 1"

fun dpss_phase_id :: "DpssPhase \<Rightarrow> u16" where
  "dpss_phase_id RepairRound1 = 1"
| "dpss_phase_id RepairRound2 = 2"
| "dpss_phase_id RepairRound3 = 3"
| "dpss_phase_id RefreshRound1 = 4"
| "dpss_phase_id RefreshRound2 = 5"
| "dpss_phase_id Finalize = 6"

fun reason_id :: "RotationReason \<Rightarrow> u16" where
  "reason_id PlannedExit = 1"
| "reason_id CustodyFailure = 2"
| "reason_id RotationReason.Unavailable = 3"
| "reason_id SuspectedCompromise = 4"
| "reason_id DiversityPolicy = 5"
| "reason_id ProactiveRefresh = 6"
| "reason_id SecurityUpgrade = 7"
| "reason_id OwnerAssistedMigration = 8"

fun state_id :: "RotationState \<Rightarrow> u16" where
  "state_id RotationState.Proposed = 1"
| "state_id RotationState.DelayPending = 2"
| "state_id RotationState.Preparing = 3"
| "state_id RotationState.Ready = 4"
| "state_id RotationState.Activating = 5"
| "state_id RotationState.Active = 6"
| "state_id RotationState.Draining = 7"
| "state_id RotationState.Retired = 8"
| "state_id RotationState.Aborted = 9"

section \<open>Transcripts\<close>

definition config_ref_into :: "ConfigRef \<Rightarrow> item list" where
  "config_ref_into value =
     [Bytes (bytes32 (cr_config_id value)),
      U64 (cr_payload_generation value),
      U64 (cr_authorization_epoch value),
      U64 (cr_guardian_epoch value),
      Bytes (bytes32 (cr_epoch_binding value))]"

definition context_into :: "RotationContext \<Rightarrow> item list" where
  "context_into value =
     [Require (rx_protocol_version value = PROTOCOL_VERSION_V3 \<and> rx_issued_at value < rx_expiry value),
      U16 (rx_protocol_version value)] @
     config_ref_into (rx_config_ref value) @
     [Bytes (bytes32 (rx_rotation_id value)),
      Bytes (bytes32 (rx_predecessor_capsule_hash value)),
      Bytes (rx_recipient_key value),
      Bytes (bytes32 (rx_nonce value)),
      U64 (rx_issued_at value),
      U64 (rx_expiry value)]"

definition route_into :: "GuardianRouteV3 \<Rightarrow> item list" where
  "route_into route =
     [Require (gr3_guardian_index route \<noteq> 0 \<and> gr3_guardian_index route \<le> MAX_ROTATION_ACTORS),
      U16 (gr3_guardian_index route),
      Bytes (bytes32 (gr3_opaque_slot_id route)),
      Bytes (as_bytes (gr3_mailbox route)),
      Bytes (bytes32 (gr3_guardian_public_key route)),
      Bytes (gr3_session_recipient_key route),
      Bytes (bytes32 (gr3_operator_domain_commitment route))]"

definition guardian_roster_v3 :: "GuardianRouteV3 list \<Rightarrow> (WireError, byte list) result" where
  "guardian_roster_v3 routes =
    (bindR (unique_ids (map gr3_guardian_index routes)) (\<lambda>_.
     transcript
      ([Domain ''gp/private-guardian-roster/v3'',
       Count (length routes) MAX_ROTATION_ACTORS] @
      concat (map (\<lambda>route. route_into route) routes))))"

definition sealed_into :: "SealedMessage \<Rightarrow> item list" where
  "sealed_into sealed =
     [Bytes (sm_kem_ciphertext sealed),
      Bytes (bytes24 (ac_nonce (sm_payload sealed))),
      Bytes (ac_ciphertext (sm_payload sealed))]"

definition begin_vote_into :: "SignerRotationBeginVote \<Rightarrow> bool \<Rightarrow> item list" where
  "begin_vote_into vote include_signature =
     context_into (srbv_context vote) @
     [Bytes (bytes32 (srbv_intent_hash vote)),
      Bytes (bytes32 (srbv_plan_hash vote)),
      Bytes (bytes32 (srbv_old_roster_commitment vote)),
      Bytes (bytes32 (srbv_new_roster_commitment vote)),
      U16 (srbv_signer_id vote),
      Bytes (bytes32 (srbv_signer_public_key vote)),
      Bytes (srbv_signer_membership_proof vote)] @
     (if include_signature then [Bytes (srbv_signer_signature vote)] else [])"

definition release_vote_into :: "SignerRotationReleaseVote \<Rightarrow> bool \<Rightarrow> item list" where
  "release_vote_into vote include_signature =
     context_into (srrv_context vote) @
     [Bytes (bytes32 (srrv_plan_hash vote)),
      Bytes (bytes32 (srrv_begin_certificate_hash vote)),
      U16 (srrv_signer_id vote),
      Bytes (bytes32 (srrv_signer_public_key vote)),
      Bytes (srrv_signer_membership_proof vote)] @
     (if include_signature then [Bytes (srrv_signer_signature vote)] else [])"

definition prepared_leaf_into :: "PreparedRecordLeaf \<Rightarrow> item list" where
  "prepared_leaf_into leaf =
     [U16 (prl_guardian_index leaf),
      U16 (prl_fragment_index leaf),
      Bytes (bytes32 (prl_opaque_slot_id leaf)),
      Bytes (bytes32 (prl_encrypted_share_hash leaf)),
      Bytes (bytes32 (prl_fragment_hash leaf)),
      Bytes (bytes32 (prl_policy_hash leaf))]"

definition prepared_record_leaf_v3 :: "PreparedRecordLeaf \<Rightarrow> (WireError, byte list) result" where
  "prepared_record_leaf_v3 value = transcript
     ([Domain ''gp/prepared-record-leaf/v3''] @
      prepared_leaf_into value)"

definition prepared_ack_into :: "NewGuardianPreparedAck \<Rightarrow> bool \<Rightarrow> item list" where
  "prepared_ack_into ack include_signature =
     context_into (ngpa_context ack) @
     [Bytes (bytes32 (ngpa_plan_hash ack)),
      Bytes (bytes32 (ngpa_dpss_result_commitment ack)),
      Bytes (bytes32 (ngpa_guardian_material_root ack)),
      U16 (ngpa_new_guardian_index ack)] @
     prepared_leaf_into (ngpa_prepared_record_leaf ack) @
     [U64 (ngpa_durable_write_generation ack)] @
     (if include_signature then [Bytes (ngpa_guardian_signature ack)] else [])"

definition handoff_ack_into :: "OldGuardianHandoffAck \<Rightarrow> bool \<Rightarrow> item list" where
  "handoff_ack_into ack include_signature =
     context_into (ogha_context ack) @
     [Bytes (bytes32 (ogha_plan_hash ack)),
      Bytes (bytes32 (ogha_dpss_result_commitment ack)),
      Bytes (bytes32 (ogha_qualified_set_commitment ack)),
      U16 (ogha_old_guardian_index ack)] @
     (if include_signature then [Bytes (ogha_guardian_signature ack)] else [])"

definition activate_vote_into :: "SignerRotationActivateVote \<Rightarrow> bool \<Rightarrow> item list" where
  "activate_vote_into vote include_signature =
     context_into (srav_context vote) @
     [Bytes (bytes32 (srav_plan_hash vote)),
      Bytes (bytes32 (srav_ready_certificate_hash vote)),
      Bytes (bytes32 (srav_successor_capsule_hash vote)),
      U16 (srav_signer_id vote),
      Bytes (bytes32 (srav_signer_public_key vote)),
      Bytes (srav_signer_membership_proof vote)] @
     (if include_signature then [Bytes (srav_signer_signature vote)] else [])"

definition witness_ack_into :: "WitnessActivationAck \<Rightarrow> bool \<Rightarrow> item list" where
  "witness_ack_into ack include_signature =
     context_into (waa_context ack) @
     [Bytes (bytes32 (waa_plan_hash ack)),
      Bytes (bytes32 (waa_activation_certificate_hash ack)),
      U16 (waa_witness_id ack),
      U64 (waa_predecessor_epoch ack),
      Bytes (bytes32 (waa_predecessor_capsule_hash ack)),
      U64 (waa_successor_epoch ack),
      Bytes (bytes32 (waa_successor_capsule_hash ack)),
      Bytes (bytes32 (waa_witness_public_key ack))] @
     (if include_signature then [Bytes (waa_witness_signature ack)] else [])"

definition rotation_intent :: "RotationIntent \<Rightarrow> (WireError, byte list) result" where
  "rotation_intent value = transcript
     ([Domain ''gp/rotation-intent/v3''] @
      context_into (ri_context value) @
      [U16 (reason_id (ri_reason value)),
       U16 (ri_old_guardian_count value),
       U16 (ri_old_guardian_threshold value),
       Count (length (ri_allowed_new_guardian_count value)) MAX_ROTATION_ACTORS] @
      concat (map (\<lambda>count. [U16 count]) (ri_allowed_new_guardian_count value)) @
      [Count (length (ri_allowed_new_guardian_threshold value)) MAX_ROTATION_ACTORS] @
      concat (map (\<lambda>threshold. [U16 threshold]) (ri_allowed_new_guardian_threshold value)) @
      [Count (length (ri_allowed_dpss_suites value)) 32] @
      concat (map (\<lambda>suite. [U16 (dpss_suite_id suite)]) (ri_allowed_dpss_suites value)) @
      [Bytes (bytes32 (ri_selection_constraints_commitment value)),
       Bytes (bytes32 (ri_witness_read_qc_hash value))])"

definition signer_rotation_intent_contribution :: "SignerRotationIntentContribution \<Rightarrow> (WireError, byte list) result" where
  "signer_rotation_intent_contribution value = transcript
     ([Domain ''gp/signer-rotation-intent-contribution/v3''] @
      context_into (sric_context value) @
      [Bytes (bytes32 (sric_intent_hash value)),
       U16 (sric_signer_id value),
       Bytes (bytes32 (sric_signer_public_key value)),
       Bytes (sric_signer_membership_proof value)] @
      sealed_into (sric_encrypted_authorization_share value))"

definition rotation_intent_share_context_v3 :: "RotationContext \<Rightarrow> Id32 \<Rightarrow> u16 \<Rightarrow> (WireError, byte list) result" where
  "rotation_intent_share_context_v3 context intent_hash signer_id = transcript
     ([Domain ''gp/rotation-intent-a-share-context/v3''] @
      context_into context @
      [Bytes (bytes32 intent_hash),
       U16 signer_id])"

definition rotation_plan :: "RotationPlan \<Rightarrow> (WireError, byte list) result" where
  "rotation_plan value =
    (if \<not> is_direct_successor_of (rp_successor value) (rp_predecessor value) \<or>
      rx_config_ref (rp_context value) \<noteq> rp_predecessor value \<or>
      rp_old_guardian_threshold value = 0 \<or>
      rp_new_guardian_threshold value = 0 \<or>
      unat (rp_old_guardian_threshold value) > length (rp_old_roster value) \<or>
      unat (rp_new_guardian_threshold value) > length (rp_new_roster value) \<or>
      rp_data_shards value = 0 \<or>
      rp_data_shards value > rp_total_shards value
     then Inl InvalidValue else
     bindR (unique_ids (map gr3_guardian_index (rp_old_roster value))) (\<lambda>_.
     bindR (unique_ids (map gr3_guardian_index (rp_new_roster value))) (\<lambda>_.
     transcript
      ([Domain ''gp/rotation-plan/v3''] @
      context_into (rp_context value) @
      [Bytes (bytes32 (rp_intent_hash value))] @
      config_ref_into (rp_predecessor value) @
      config_ref_into (rp_successor value) @
      [Count (length (rp_old_roster value)) MAX_ROTATION_ACTORS] @
      concat (map (\<lambda>route. route_into route) (rp_old_roster value)) @
      [Count (length (rp_new_roster value)) MAX_ROTATION_ACTORS] @
      concat (map (\<lambda>route. route_into route) (rp_new_roster value)) @
      [Bytes (bytes32 (rp_old_roster_commitment value)),
       Bytes (bytes32 (rp_new_roster_commitment value)),
       U16 (rp_old_guardian_threshold value),
       U16 (rp_new_guardian_threshold value),
       U16 (rp_data_shards value),
       U16 (rp_total_shards value),
       U16 (dpss_suite_id (rp_dpss_suite value)),
       Bytes (bytes32 (rp_dpss_session_id value)),
       Bytes (bytes32 (rp_dpss_qualified_set_commitment value)),
       U64 (rp_minimum_delay_secs value),
       U64 (rp_preparation_deadline value),
       U64 (rp_drain_deadline value)]))))"

definition signer_rotation_begin_vote :: "SignerRotationBeginVote \<Rightarrow> (WireError, byte list) result" where
  "signer_rotation_begin_vote value = transcript
     ([Domain ''gp/signer-rotation-begin-vote/v3''] @
      begin_vote_into value False)"

definition begin_rotation_certificate :: "BeginRotationCertificate \<Rightarrow> (WireError, byte list) result" where
  "begin_rotation_certificate value =
    (bindR (unique_ids (map srbv_signer_id (brot_votes value))) (\<lambda>_.
     if list_ex (\<lambda>vote.
        \<not> same_rotation (brot_context value) (srbv_context vote) \<or>
        srbv_intent_hash vote \<noteq> brot_intent_hash value \<or>
        srbv_plan_hash vote \<noteq> brot_plan_hash value \<or>
        srbv_old_roster_commitment vote \<noteq> brot_old_roster_commitment value \<or>
        srbv_new_roster_commitment vote \<noteq> brot_new_roster_commitment value) (brot_votes value)
     then Inl InvalidValue else
     transcript
      ([Domain ''gp/begin-rotation-certificate/v3''] @
      context_into (brot_context value) @
      [Bytes (bytes32 (brot_intent_hash value)),
       Bytes (bytes32 (brot_plan_hash value)),
       Bytes (bytes32 (brot_old_roster_commitment value)),
       Bytes (bytes32 (brot_new_roster_commitment value)),
       U64 (brot_not_before_wall value),
       Count (length (brot_votes value)) MAX_ROTATION_ACTORS] @
      concat (map (\<lambda>vote. begin_vote_into vote True) (brot_votes value)))))"

definition owner_rotation_cancel_certificate :: "OwnerRotationCancelCertificate \<Rightarrow> (WireError, byte list) result" where
  "owner_rotation_cancel_certificate value = transcript
     ([Domain ''gp/owner-rotation-cancel/v3''] @
      context_into (orcc_context value) @
      [Bytes (bytes32 (orcc_plan_hash value)),
       U16 (orcc_reason_code value),
       Bytes (orcc_cancel_response_recipient_key value),
       Bytes (bytes32 (orcc_owner_cancel_public_key value))])"

definition owner_rotation_cancel_ack :: "OwnerRotationCancelAck \<Rightarrow> (WireError, byte list) result" where
  "owner_rotation_cancel_ack value = transcript
     ([Domain ''gp/owner-rotation-cancel-ack/v3''] @
      context_into (orca_context value) @
      [Bytes (bytes32 (orca_plan_hash value)),
       Bytes (bytes32 (orca_cancel_certificate_hash value)),
       U16 (orca_guardian_index value)])"

definition signer_rotation_release_vote :: "SignerRotationReleaseVote \<Rightarrow> (WireError, byte list) result" where
  "signer_rotation_release_vote value = transcript
     ([Domain ''gp/signer-rotation-release-vote/v3''] @
      release_vote_into value False)"

definition rotation_release_certificate :: "RotationReleaseCertificate \<Rightarrow> (WireError, byte list) result" where
  "rotation_release_certificate value =
    (bindR (unique_ids (map srrv_signer_id (rrc_votes value))) (\<lambda>_.
     if list_ex (\<lambda>vote.
        \<not> same_rotation (rrc_context value) (srrv_context vote) \<or>
        srrv_plan_hash vote \<noteq> rrc_plan_hash value \<or>
        srrv_begin_certificate_hash vote \<noteq> rrc_begin_certificate_hash value) (rrc_votes value)
     then Inl InvalidValue else
     transcript
      ([Domain ''gp/rotation-release-certificate/v3''] @
      context_into (rrc_context value) @
      [Bytes (bytes32 (rrc_plan_hash value)),
       Bytes (bytes32 (rrc_begin_certificate_hash value)),
       Count (length (rrc_votes value)) MAX_ROTATION_ACTORS] @
      concat (map (\<lambda>vote. release_vote_into vote True) (rrc_votes value)))))"

definition old_share_unlock_grant :: "OldShareUnlockGrant \<Rightarrow> (WireError, byte list) result" where
  "old_share_unlock_grant value = transcript
     ([Domain ''gp/old-share-unlock-grant/v3''] @
      context_into (osug_context value) @
      [Bytes (bytes32 (osug_plan_hash value)),
       Bytes (bytes32 (osug_release_certificate_hash value)),
       U16 (osug_old_guardian_index value)] @
      sealed_into (osug_encrypted_unwrap_key value) @
      sealed_into (osug_encrypted_fragment_key value))"

definition old_share_unlock_grant_payload_context :: "OldShareUnlockGrant \<Rightarrow> bool \<Rightarrow> (WireError, byte list) result" where
  "old_share_unlock_grant_payload_context value fragment_key = transcript
     ([Domain ''gp/old-share-unlock-grant-payload/v3''] @
      context_into (osug_context value) @
      [Bytes (bytes32 (osug_plan_hash value)),
       Bytes (bytes32 (osug_release_certificate_hash value)),
       U16 (osug_old_guardian_index value),
       U16 (of_bool fragment_key)])"

definition new_share_wrap_grant :: "NewShareWrapGrant \<Rightarrow> (WireError, byte list) result" where
  "new_share_wrap_grant value = transcript
     ([Domain ''gp/new-share-wrap-grant/v3''] @
      context_into (nswg_context value) @
      [Bytes (bytes32 (nswg_plan_hash value)),
       Bytes (bytes32 (nswg_release_certificate_hash value)),
       U16 (nswg_new_guardian_index value)] @
      sealed_into (nswg_encrypted_wrap_key value) @
      sealed_into (nswg_encrypted_fragment_key value))"

definition new_share_wrap_grant_payload_context :: "NewShareWrapGrant \<Rightarrow> bool \<Rightarrow> (WireError, byte list) result" where
  "new_share_wrap_grant_payload_context value fragment_key = transcript
     ([Domain ''gp/new-share-wrap-grant-payload/v3''] @
      context_into (nswg_context value) @
      [Bytes (bytes32 (nswg_plan_hash value)),
       Bytes (bytes32 (nswg_release_certificate_hash value)),
       U16 (nswg_new_guardian_index value),
       U16 (of_bool fragment_key)])"

definition dpss_protocol_message :: "DpssProtocolMessage \<Rightarrow> (WireError, byte list) result" where
  "dpss_protocol_message value =
    (if dpm_sender_index value = dpm_recipient_index value \<or> dpm_sequence value = 0
     then Inl InvalidValue else
     bindR (unique_ids [dpm_sender_index value, dpm_recipient_index value]) (\<lambda>_.
     transcript
      ([Domain ''gp/dpss-protocol-message/v3''] @
      context_into (dpm_context value) @
      [Bytes (bytes32 (dpm_plan_hash value)),
       U16 (dpss_suite_id (dpm_dpss_suite value)),
       Bytes (bytes32 (dpm_dpss_session_id value)),
       Bytes (bytes32 (dpm_qualified_set_commitment value)),
       U16 (dpss_phase_id (dpm_phase value)),
       U16 (dpm_sender_index value),
       U16 (dpm_recipient_index value),
       U64 (dpm_sequence value),
       Bytes (dpm_provider_payload value)])))"

definition ciphertext_fragment_contribution :: "CiphertextFragmentContribution \<Rightarrow> (WireError, byte list) result" where
  "ciphertext_fragment_contribution value = transcript
     ([Domain ''gp/ciphertext-fragment-contribution/v3''] @
      context_into (cfc_context value) @
      [Bytes (bytes32 (cfc_plan_hash value)),
       Bytes (bytes32 (cfc_release_certificate_hash value)),
       U16 (cfc_old_guardian_index value),
       U16 (cfc_fragment_index value),
       Bytes (cfc_ciphertext_fragment value),
       Bytes (bytes32 (cfc_fragment_commitment value))] @
      prepared_leaf_into (cfc_prepared_record_leaf value) @
      [Bytes (cfc_merkle_path_proof value)])"

definition new_guardian_prepared_ack :: "NewGuardianPreparedAck \<Rightarrow> (WireError, byte list) result" where
  "new_guardian_prepared_ack value =
    (if ngpa_new_guardian_index value \<noteq> prl_guardian_index (ngpa_prepared_record_leaf value) \<or>
      ngpa_durable_write_generation value = 0
     then Inl InvalidValue else
     transcript
      ([Domain ''gp/new-guardian-prepared-ack/v3''] @
      prepared_ack_into value False))"

definition old_guardian_handoff_ack :: "OldGuardianHandoffAck \<Rightarrow> (WireError, byte list) result" where
  "old_guardian_handoff_ack value = transcript
     ([Domain ''gp/old-guardian-handoff-ack/v3''] @
      handoff_ack_into value False)"

definition rotation_ready_certificate :: "RotationReadyCertificate \<Rightarrow> (WireError, byte list) result" where
  "rotation_ready_certificate value =
    (bindR (unique_ids (map ngpa_new_guardian_index (rrdy_prepared_acks value))) (\<lambda>_.
     bindR (unique_ids (map ogha_old_guardian_index (rrdy_old_handoff_acks value))) (\<lambda>_.
     if list_ex (\<lambda>ack.
        \<not> same_rotation (rrdy_context value) (ngpa_context ack) \<or>
        ngpa_plan_hash ack \<noteq> rrdy_plan_hash value \<or>
        ngpa_dpss_result_commitment ack \<noteq> rrdy_dpss_result_commitment value \<or>
        ngpa_guardian_material_root ack \<noteq> rrdy_guardian_material_root value \<or>
        ngpa_new_guardian_index ack \<noteq> prl_guardian_index (ngpa_prepared_record_leaf ack) \<or>
        ngpa_durable_write_generation ack = 0) (rrdy_prepared_acks value) \<or>
      list_ex (\<lambda>ack.
        \<not> same_rotation (rrdy_context value) (ogha_context ack) \<or>
        ogha_plan_hash ack \<noteq> rrdy_plan_hash value \<or>
        ogha_dpss_result_commitment ack \<noteq> rrdy_dpss_result_commitment value) (rrdy_old_handoff_acks value)
     then Inl InvalidValue else
     transcript
      ([Domain ''gp/rotation-ready-certificate/v3''] @
      context_into (rrdy_context value) @
      [Bytes (bytes32 (rrdy_plan_hash value))] @
      config_ref_into (rrdy_successor value) @
      [Bytes (bytes32 (rrdy_dpss_result_commitment value)),
       Bytes (bytes32 (rrdy_guardian_material_root value)),
       Bytes (bytes32 (rrdy_encrypted_descriptor_hash value)),
       Count (length (rrdy_prepared_acks value)) MAX_ROTATION_ACTORS] @
      concat (map (\<lambda>ack. prepared_ack_into ack True) (rrdy_prepared_acks value)) @
      [Count (length (rrdy_old_handoff_acks value)) MAX_ROTATION_ACTORS] @
      concat (map (\<lambda>ack. handoff_ack_into ack True) (rrdy_old_handoff_acks value))))))"

definition signer_rotation_activate_vote :: "SignerRotationActivateVote \<Rightarrow> (WireError, byte list) result" where
  "signer_rotation_activate_vote value = transcript
     ([Domain ''gp/signer-rotation-activate-vote/v3''] @
      activate_vote_into value False)"

definition rotation_activate_certificate :: "RotationActivateCertificate \<Rightarrow> (WireError, byte list) result" where
  "rotation_activate_certificate value =
    (bindR (unique_ids (map srav_signer_id (rac_votes value))) (\<lambda>_.
     if list_ex (\<lambda>vote.
        \<not> same_rotation (rac_context value) (srav_context vote) \<or>
        srav_plan_hash vote \<noteq> rac_plan_hash value \<or>
        srav_ready_certificate_hash vote \<noteq> rac_ready_certificate_hash value \<or>
        srav_successor_capsule_hash vote \<noteq> rac_successor_capsule_hash value) (rac_votes value)
     then Inl InvalidValue else
     transcript
      ([Domain ''gp/rotation-activate-certificate/v3''] @
      context_into (rac_context value) @
      [Bytes (bytes32 (rac_plan_hash value)),
       Bytes (bytes32 (rac_ready_certificate_hash value))] @
      config_ref_into (rac_successor value) @
      [Bytes (bytes32 (rac_successor_capsule_hash value)),
       Count (length (rac_votes value)) MAX_ROTATION_ACTORS] @
      concat (map (\<lambda>vote. activate_vote_into vote True) (rac_votes value)))))"

definition witness_activation_ack :: "WitnessActivationAck \<Rightarrow> (WireError, byte list) result" where
  "witness_activation_ack value = transcript
     ([Domain ''gp/witness-activation-ack/v3''] @
      witness_ack_into value False)"

definition witness_rotation_cancel_ack :: "WitnessRotationCancelAck \<Rightarrow> (WireError, byte list) result" where
  "witness_rotation_cancel_ack value =
    (if wrca_protocol_version value \<noteq> PROTOCOL_VERSION_V3 \<or> wrca_witness_id value = 0
     then Inl InvalidValue else
     transcript
      ([Domain ''gp/witness-rotation-cancel-ack/v3'',
       U16 (wrca_protocol_version value),
       Bytes (bytes32 (wrca_config_id value)),
       Bytes (bytes32 (wrca_rotation_id value)),
       Bytes (bytes32 (wrca_plan_hash value)),
       Bytes (bytes32 (wrca_cancel_certificate_hash value)),
       U16 (wrca_witness_id value),
       Bytes (bytes32 (wrca_witness_public_key value))]))"

definition epoch_activation_qc :: "EpochActivationQc \<Rightarrow> (WireError, byte list) result" where
  "epoch_activation_qc value =
    (if qc_protocol_version value \<noteq> PROTOCOL_VERSION_V3 \<or>
      qc_successor_epoch value \<noteq> saturating_add (qc_predecessor_epoch value) 1 \<or>
      qc_witness_fault_bound value > MAX_CONFIG_WITNESSES
     then Inl InvalidValue else
     bindR (unique_ids (map waa_witness_id (qc_witness_acks value))) (\<lambda>_.
     if length (qc_witness_acks value) < 2 * unat (qc_witness_fault_bound value) + 1
     then Inl InvalidValue else
     if list_ex (\<lambda>ack.
        rx_protocol_version (waa_context ack) \<noteq> qc_protocol_version value \<or>
        cr_config_id (rx_config_ref (waa_context ack)) \<noteq> qc_config_id value \<or>
        rx_rotation_id (waa_context ack) \<noteq> qc_rotation_id value \<or>
        waa_predecessor_epoch ack \<noteq> qc_predecessor_epoch value \<or>
        waa_predecessor_capsule_hash ack \<noteq> qc_predecessor_capsule_hash value \<or>
        waa_successor_epoch ack \<noteq> qc_successor_epoch value \<or>
        waa_successor_capsule_hash ack \<noteq> qc_successor_capsule_hash value \<or>
        waa_activation_certificate_hash ack \<noteq> qc_activation_certificate_hash value) (qc_witness_acks value)
     then Inl InvalidValue else
     transcript
      ([Domain ''gp/epoch-activation-qc/v3'',
       U16 (qc_protocol_version value),
       Bytes (bytes32 (qc_config_id value)),
       Bytes (bytes32 (qc_rotation_id value)),
       U64 (qc_predecessor_epoch value),
       Bytes (bytes32 (qc_predecessor_capsule_hash value)),
       U64 (qc_successor_epoch value),
       Bytes (bytes32 (qc_successor_capsule_hash value)),
       Bytes (bytes32 (qc_activation_certificate_hash value)),
       U16 (qc_witness_fault_bound value),
       Count (length (qc_witness_acks value)) MAX_CONFIG_WITNESSES] @
      concat (map (\<lambda>ack. witness_ack_into ack True) (qc_witness_acks value)))))"

definition epoch_read_challenge :: "EpochReadChallenge \<Rightarrow> (WireError, byte list) result" where
  "epoch_read_challenge value =
    (if erc_protocol_version value \<noteq> PROTOCOL_VERSION_V3 \<or> erc_issued_at value \<ge> erc_expiry value
     then Inl InvalidValue else
     transcript
      ([Domain ''gp/epoch-read-challenge/v3'',
       U16 (erc_protocol_version value),
       Bytes (bytes32 (erc_config_id value)),
       Bytes (bytes32 (erc_client_nonce value)),
       Bytes (erc_response_recipient_key value),
       U64 (erc_issued_at value),
       U64 (erc_expiry value)]))"

definition witness_epoch_read_response :: "WitnessEpochReadResponse \<Rightarrow> (WireError, byte list) result" where
  "witness_epoch_read_response value =
    (if werr_protocol_version value \<noteq> PROTOCOL_VERSION_V3
     then Inl InvalidValue else
     transcript
      ([Domain ''gp/witness-epoch-read-response/v3'',
       U16 (werr_protocol_version value),
       Bytes (bytes32 (werr_config_id value)),
       Bytes (bytes32 (werr_client_nonce value)),
       U16 (werr_witness_id value),
       U64 (werr_highest_guardian_epoch value),
       Bytes (bytes32 (werr_capsule_hash value)),
       Bytes (bytes32 (werr_witness_public_key value))]))"

definition retirement_notice :: "RetirementNotice \<Rightarrow> (WireError, byte list) result" where
  "retirement_notice value = transcript
     ([Domain ''gp/retirement-notice/v3''] @
      context_into (rn_context value) @
      [Bytes (bytes32 (rn_plan_hash value)),
       Bytes (bytes32 (rn_activation_qc_hash value)),
       U64 (rn_retired_epoch value),
       U64 (rn_drain_deadline value)])"

definition retirement_ack :: "RetirementAck \<Rightarrow> (WireError, byte list) result" where
  "retirement_ack value = transcript
     ([Domain ''gp/retirement-ack/v3''] @
      context_into (rta_context value) @
      [Bytes (bytes32 (rta_plan_hash value)),
       Bytes (bytes32 (rta_activation_qc_hash value)),
       U16 (rta_guardian_index value),
       U64 (rta_retired_epoch value),
       Bytes (bytes32 (rta_tombstone_hash value))])"

definition signer_rotation_abort_vote_into :: "SignerRotationAbortVote \<Rightarrow> bool \<Rightarrow> item list" where
  "signer_rotation_abort_vote_into value include_signature =
     context_into (sabv_context value) @
     [Bytes (bytes32 (sabv_plan_hash value)),
      U16 (state_id (sabv_state_at_abort value)),
      U16 (sabv_reason_code value),
      U16 (sabv_signer_id value),
      Bytes (bytes32 (sabv_signer_public_key value)),
      Bytes (sabv_signer_membership_proof value)] @
     (if include_signature then [Bytes (sabv_signer_signature value)] else [])"

definition abort_rotation_certificate :: "AbortRotationCertificate \<Rightarrow> (WireError, byte list) result" where
  "abort_rotation_certificate value =
    (bindR (unique_ids (map sabv_signer_id (abc_votes value))) (\<lambda>_.
     transcript
      ([Domain ''gp/abort-rotation-certificate/v3''] @
      context_into (abc_context value) @
      [Bytes (bytes32 (abc_plan_hash value)),
       U16 (state_id (abc_state_at_abort value)),
       U16 (abc_reason_code value),
       Count (length (abc_votes value)) MAX_ROTATION_ACTORS] @
      concat (map (\<lambda>vote. signer_rotation_abort_vote_into vote True) (abc_votes value)))))"

definition signer_rotation_abort_vote :: "SignerRotationAbortVote \<Rightarrow> (WireError, byte list) result" where
  "signer_rotation_abort_vote value = transcript
     ([Domain ''gp/signer-rotation-abort-vote/v3''] @
      signer_rotation_abort_vote_into value False)"

definition recovery_request_v3 :: "RecoveryRequestV3 \<Rightarrow> (WireError, byte list) result" where
  "recovery_request_v3 value =
    (if rq3_protocol_version value \<noteq> PROTOCOL_VERSION_V3 \<or> rq3_requested_at value \<ge> rq3_expiry value
     then Inl InvalidValue else
     transcript
      ([Domain ''gp/recovery-request/v3'',
       U16 (rq3_protocol_version value)] @
      config_ref_into (rq3_config_ref value) @
      [Bytes (bytes32 (rq3_request_id value)),
       Bytes (rq3_recovery_recipient_key value),
       U64 (rq3_requested_at value),
       Bytes (bytes32 (rq3_nonce value)),
       U64 (rq3_expiry value)]))"

definition recovery_request_digest_v3 :: "RecoveryRequestV3 \<Rightarrow> (WireError, byte list) result" where
  "recovery_request_digest_v3 value = transcript
     ([Domain ''gp/recovery-request-digest/v3'',
       Nested (recovery_request_v3 value)])"

definition recovery_authorization_share_context_v3 :: "RecoveryRequestV3 \<Rightarrow> u16 \<Rightarrow> (WireError, byte list) result" where
  "recovery_authorization_share_context_v3 request signer_id = transcript
     ([Domain ''gp/recovery-a-share-context/v3'',
       Nested (recovery_request_v3 request),
       U16 signer_id])"

definition signer_recovery_contribution_into :: "SignerRecoveryContributionV3 \<Rightarrow> bool \<Rightarrow> item list" where
  "signer_recovery_contribution_into value include_signature =
     [Nested (recovery_request_v3 (sc3_request value)),
      U16 (sc3_signer_id value),
      Bytes (bytes32 (sc3_signer_public_key value)),
      Bytes (sc3_signer_membership_proof value)] @
     sealed_into (sc3_encrypted_authorization_share value) @
     (if include_signature then [Bytes (sc3_signer_signature value)] else [])"

definition signer_recovery_contribution_v3 :: "SignerRecoveryContributionV3 \<Rightarrow> (WireError, byte list) result" where
  "signer_recovery_contribution_v3 value = transcript
     ([Domain ''gp/signer-recovery-contribution/v3''] @
      signer_recovery_contribution_into value False)"

definition begin_recovery_certificate_v3 :: "BeginRecoveryCertificateV3 \<Rightarrow> (WireError, byte list) result" where
  "begin_recovery_certificate_v3 value =
    (bindR (unique_ids (map sc3_signer_id (brc3_signer_contributions value))) (\<lambda>_.
     if list_ex (\<lambda>item. sc3_request item \<noteq> brc3_request value) (brc3_signer_contributions value)
     then Inl InvalidValue else
     transcript
      ([Domain ''gp/begin-recovery-certificate/v3'',
       Nested (recovery_request_v3 (brc3_request value)),
       Bytes (bytes32 (brc3_request_digest value)),
       Count (length (brc3_signer_contributions value)) MAX_ROTATION_ACTORS] @
      concat (map (\<lambda>contribution. signer_recovery_contribution_into contribution True) (brc3_signer_contributions value)))))"

definition signer_recovery_release_vote_into :: "SignerRecoveryReleaseVoteV3 \<Rightarrow> bool \<Rightarrow> item list" where
  "signer_recovery_release_vote_into value include_signature =
     [Nested (recovery_request_v3 (rv3_request value)),
      Bytes (bytes32 (rv3_request_digest value)),
      U16 (rv3_signer_id value),
      Bytes (bytes32 (rv3_signer_public_key value)),
      Bytes (rv3_signer_membership_proof value)] @
     (if include_signature then [Bytes (rv3_signer_signature value)] else [])"

definition signer_recovery_release_vote_v3 :: "SignerRecoveryReleaseVoteV3 \<Rightarrow> (WireError, byte list) result" where
  "signer_recovery_release_vote_v3 value = transcript
     ([Domain ''gp/signer-recovery-release-vote/v3''] @
      signer_recovery_release_vote_into value False)"

definition recovery_release_certificate_v3 :: "RecoveryReleaseCertificateV3 \<Rightarrow> (WireError, byte list) result" where
  "recovery_release_certificate_v3 value =
    (bindR (unique_ids (map rv3_signer_id (rc3_votes value))) (\<lambda>_.
     if list_ex (\<lambda>vote. rv3_request vote \<noteq> rc3_request value \<or>
        rv3_request_digest vote \<noteq> rc3_request_digest value) (rc3_votes value)
     then Inl InvalidValue else
     transcript
      ([Domain ''gp/recovery-release-certificate/v3'',
       Nested (recovery_request_v3 (rc3_request value)),
       Bytes (bytes32 (rc3_request_digest value)),
       Count (length (rc3_votes value)) MAX_ROTATION_ACTORS] @
      concat (map (\<lambda>vote. signer_recovery_release_vote_into vote True) (rc3_votes value)))))"

definition owner_recovery_cancel_certificate_v3 :: "OwnerRecoveryCancelCertificateV3 \<Rightarrow> (WireError, byte list) result" where
  "owner_recovery_cancel_certificate_v3 value = transcript
     ([Domain ''gp/owner-recovery-cancel/v3'',
       Nested (recovery_request_v3 (occ3_request value)),
       Bytes (bytes32 (occ3_request_digest value)),
       U16 (occ3_reason_code value),
       Bytes (occ3_cancel_response_recipient_key value),
       Bytes (bytes32 (occ3_owner_cancel_public_key value))])"

definition owner_recovery_cancel_ack_v3 :: "OwnerRecoveryCancelAckV3 \<Rightarrow> (WireError, byte list) result" where
  "owner_recovery_cancel_ack_v3 value = transcript
     ([Domain ''gp/owner-recovery-cancel-ack/v3''] @
      config_ref_into (oca3_config_ref value) @
      [Bytes (bytes32 (oca3_request_id value)),
       Bytes (bytes32 (oca3_request_digest value)),
       Bytes (bytes32 (oca3_cancel_certificate_hash value)),
       U16 (oca3_guardian_index value)])"

definition guardian_recovery_contribution_v3 :: "GuardianRecoveryContributionV3 \<Rightarrow> (WireError, byte list) result" where
  "guardian_recovery_contribution_v3 value =
    (if gc3_guardian_index value = 0 \<or> gc3_fragment_index value = 0
     then Inl InvalidValue else
     transcript
      ([Domain ''gp/guardian-recovery-contribution/v3''] @
      config_ref_into (gc3_config_ref value) @
      [Bytes (bytes32 (gc3_request_id value)),
       Bytes (bytes32 (gc3_request_digest value)),
       Bytes (gc3_recovery_recipient_key value),
       Bytes (bytes32 (gc3_nonce value)),
       U16 (gc3_guardian_index value),
       U16 (gc3_fragment_index value),
       Bytes (bytes24 (ac_nonce (gc3_encrypted_ciphertext_fragment value))),
       Bytes (ac_ciphertext (gc3_encrypted_ciphertext_fragment value)),
       Bytes (bytes24 (ac_nonce (gc3_encrypted_dek_share value))),
       Bytes (ac_ciphertext (gc3_encrypted_dek_share value)),
       Bytes (gc3_merkle_path_proof value)]))"

definition guardian_share_context_v3 :: "ConfigRef \<Rightarrow> u16 \<Rightarrow> (WireError, byte list) result" where
  "guardian_share_context_v3 config_ref guardian_index = transcript
     ([Domain ''gp/guardian-dek-share-context/v3''] @
      config_ref_into config_ref @
      [U16 guardian_index])"

definition guardian_fragment_context_v3 :: "ConfigRef \<Rightarrow> u16 \<Rightarrow> u16 \<Rightarrow> (WireError, byte list) result" where
  "guardian_fragment_context_v3 config_ref guardian_index fragment_index = transcript
     ([Domain ''gp/guardian-ciphertext-fragment-context/v3''] @
      config_ref_into config_ref @
      [U16 guardian_index,
       U16 fragment_index])"

definition descriptor_context_v3 :: "ConfigRef \<Rightarrow> (WireError, byte list) result" where
  "descriptor_context_v3 config_ref = transcript
     ([Domain ''gp/recovery-descriptor-context/v3''] @
      config_ref_into config_ref)"

definition config_capsule_body_v3 :: "ConfigCapsuleV3 \<Rightarrow> (WireError, byte list) result" where
  "config_capsule_body_v3 value =
    (if cc3_protocol_version value \<noteq> PROTOCOL_VERSION_V3 \<or>
      cc3_signer_threshold value = 0 \<or>
      cc3_signer_threshold value > cc3_signer_count value \<or>
      cc3_guardian_threshold value < 2 \<or>
      cc3_guardian_threshold value > cc3_guardian_count value
     then Inl InvalidValue else
     transcript
      ([Domain ''gp/config-capsule-body/v3'',
       U16 (cc3_protocol_version value)] @
      config_ref_into (cc3_config_ref value) @
      [Bytes (bytes32 (cc3_predecessor_capsule_hash value)),
       U16 (cc3_signer_count value),
       U16 (cc3_signer_threshold value),
       U16 (cc3_guardian_count value),
       U16 (cc3_guardian_threshold value),
       U64 (cc3_minimum_recovery_delay value),
       U64 (cc3_max_request_lifetime value),
       Bytes (bytes32 (cc3_signer_set_commitment value)),
       Bytes (bytes32 (cc3_owner_cancel_public_key value)),
       U16 (dpss_suite_id (cc3_dpss_suite value)),
       Bytes (bytes32 (cc3_dpss_public_commitment value)),
       Bytes (bytes32 (cc3_ciphertext_fragment_root value)),
       Bytes (bytes32 (cc3_guardian_material_root value)),
       Bytes (bytes24 (ac_nonce (cc3_encrypted_recovery_descriptor value))),
       Bytes (ac_ciphertext (cc3_encrypted_recovery_descriptor value))]))"

definition guardian_policy_body_v3 :: "GuardianPolicyV3 \<Rightarrow> (WireError, byte list) result" where
  "guardian_policy_body_v3 value =
    (if gp3_signer_threshold value = 0 \<or>
      gp3_signer_threshold value > gp3_signer_count value \<or>
      gp3_minimum_recovery_delay value = 0
     then Inl InvalidValue else
     transcript
      ([Domain ''gp/guardian-policy-body/v3''] @
      config_ref_into (gp3_config_ref value) @
      [Bytes (bytes32 (gp3_signer_set_commitment value)),
       U16 (gp3_signer_count value),
       U16 (gp3_signer_threshold value),
       Bytes (bytes32 (gp3_owner_cancel_public_key value)),
       U64 (gp3_minimum_recovery_delay value),
       U16 (dpss_suite_id (gp3_dpss_suite value)),
       Bytes (bytes32 (gp3_dpss_public_commitment value)),
       Bytes (bytes32 (gp3_predecessor_capsule_hash value))]))"

definition payload_context_v3 :: "Id32 \<Rightarrow> u64 \<Rightarrow> (WireError, byte list) result" where
  "payload_context_v3 config_id payload_generation = transcript
     ([Domain ''gp/payload-context/v3'',
       Bytes (bytes32 config_id),
       U64 payload_generation])"

definition custody_challenge :: "CustodyChallenge \<Rightarrow> (WireError, byte list) result" where
  "custody_challenge value =
    (if cch_protocol_version value \<noteq> PROTOCOL_VERSION_V3 \<or> cch_block_indices value = []
     then Inl InvalidValue else
     if \<not> distinct (cch_block_indices value) then Inl DuplicateActor else
     transcript
      ([Domain ''gp/custody-challenge/v3'',
       U16 (cch_protocol_version value)] @
      config_ref_into (cch_config_ref value) @
      [Bytes (bytes32 (cch_opaque_slot_id value)),
       Bytes (bytes32 (cch_challenge_id value)),
       Count (length (cch_block_indices value)) 4096] @
      concat (map (\<lambda>index. [U32 index]) (cch_block_indices value)) @
      [Bytes (bytes32 (cch_nonce value)),
       Bytes (cch_response_recipient_key value),
       U64 (cch_expiry value)]))"

definition custody_response :: "CustodyResponse \<Rightarrow> (WireError, byte list) result" where
  "custody_response value =
    (if crs_protocol_version value \<noteq> PROTOCOL_VERSION_V3 \<or> crs_proofs value = []
     then Inl InvalidValue else
     if \<not> distinct (map cbp_block_index (crs_proofs value)) then Inl DuplicateActor else
     transcript
      ([Domain ''gp/custody-response/v3'',
       U16 (crs_protocol_version value)] @
      config_ref_into (crs_config_ref value) @
      [Bytes (bytes32 (crs_opaque_slot_id value)),
       Bytes (bytes32 (crs_challenge_id value)),
       Bytes (bytes32 (crs_nonce value)),
       U16 (crs_guardian_index value),
       Count (length (crs_proofs value)) 4096] @
      concat (map (\<lambda>proof. [U32 (cbp_block_index proof),
      Bytes (cbp_block proof),
      Bytes (cbp_merkle_path proof)]) (crs_proofs value))))"

section \<open>The parts of a transcript split uniquely\<close>

lemma chunks_concat [simp]: "chunks (concat (map f xs)) = concat (map (\<lambda>x. chunks (f x)) xs)"
  by (induction xs) simp_all

lemma goods_concat [simp]: "goods (concat (map f xs)) \<longleftrightarrow> list_all (\<lambda>x. goods (f x)) xs"
  by (induction xs) simp_all

lemma chunks_map [simp]: "chunks (map f xs) = concat (map (\<lambda>x. chunk (f x)) xs)"
  by (induction xs) simp_all

lemma goods_map [simp]: "goods (map f xs) \<longleftrightarrow> list_all (\<lambda>x. good (f x)) xs"
  by (induction xs) simp_all

lemma count_inject [simp, codec]:
  "m < 65536 \<Longrightarrow> n < 65536 \<Longrightarrow> (of_nat m :: u16) = of_nat n \<longleftrightarrow> m = n"
  by (simp add: word_unat_eq_iff unsigned_of_nat take_bit_eq_mod)

lemma dpss_suite_id_inject [simp]: "dpss_suite_id a = dpss_suite_id b \<longleftrightarrow> a = b"
  by (cases a; cases b) simp_all

lemma dpss_phase_id_inject [simp]: "dpss_phase_id a = dpss_phase_id b \<longleftrightarrow> a = b"
  by (cases a; cases b) simp_all

lemma reason_id_inject [simp]: "reason_id a = reason_id b \<longleftrightarrow> a = b"
  by (cases a; cases b) simp_all

lemma state_id_inject [simp]: "state_id a = state_id b \<longleftrightarrow> a = b"
  by (cases a; cases b) simp_all

interpretation config_ref_code: prefix_code "\<lambda>x. chunks (config_ref_into x)" "\<lambda>x. goods (config_ref_into x)"
  by unfold_locales (auto simp: config_ref_into_def codec intro!: ConfigRef.equality)

lemmas config_ref_code_split [codec] =
  config_ref_code.split_iff config_ref_code.inject config_ref_code.list_split config_ref_code.list_inject

interpretation context_code: prefix_code "\<lambda>x. chunks (context_into x)" "\<lambda>x. goods (context_into x)"
  by unfold_locales (auto simp: context_into_def codec intro!: RotationContext.equality)

lemmas context_code_split [codec] =
  context_code.split_iff context_code.inject context_code.list_split context_code.list_inject

interpretation route_code: prefix_code "\<lambda>x. chunks (route_into x)" "\<lambda>x. goods (route_into x)"
  by unfold_locales (auto simp: route_into_def codec intro!: GuardianRouteV3.equality)

lemmas route_code_split [codec] =
  route_code.split_iff route_code.inject route_code.list_split route_code.list_inject

interpretation sealed_code: prefix_code "\<lambda>x. chunks (sealed_into x)" "\<lambda>x. goods (sealed_into x)"
  by unfold_locales (auto simp: sealed_into_def codec intro!: SealedMessage.equality AeadCiphertext.equality)

lemmas sealed_code_split [codec] =
  sealed_code.split_iff sealed_code.inject sealed_code.list_split sealed_code.list_inject

interpretation leaf_code: prefix_code "\<lambda>x. chunks (prepared_leaf_into x)" "\<lambda>x. goods (prepared_leaf_into x)"
  by unfold_locales (auto simp: prepared_leaf_into_def codec intro!: PreparedRecordLeaf.equality)

lemmas leaf_code_split [codec] =
  leaf_code.split_iff leaf_code.inject leaf_code.list_split leaf_code.list_inject

interpretation begin_vote_code: prefix_code "\<lambda>x. chunks (begin_vote_into x True)" "\<lambda>x. goods (begin_vote_into x True)"
  by unfold_locales (auto simp: begin_vote_into_def codec intro!: SignerRotationBeginVote.equality)

lemmas begin_vote_code_split [codec] =
  begin_vote_code.split_iff begin_vote_code.inject begin_vote_code.list_split begin_vote_code.list_inject

interpretation release_vote_code: prefix_code "\<lambda>x. chunks (release_vote_into x True)" "\<lambda>x. goods (release_vote_into x True)"
  by unfold_locales (auto simp: release_vote_into_def codec intro!: SignerRotationReleaseVote.equality)

lemmas release_vote_code_split [codec] =
  release_vote_code.split_iff release_vote_code.inject release_vote_code.list_split release_vote_code.list_inject

interpretation prepared_ack_code: prefix_code "\<lambda>x. chunks (prepared_ack_into x True)" "\<lambda>x. goods (prepared_ack_into x True)"
  by unfold_locales (auto simp: prepared_ack_into_def codec intro!: NewGuardianPreparedAck.equality)

lemmas prepared_ack_code_split [codec] =
  prepared_ack_code.split_iff prepared_ack_code.inject prepared_ack_code.list_split prepared_ack_code.list_inject

interpretation handoff_ack_code: prefix_code "\<lambda>x. chunks (handoff_ack_into x True)" "\<lambda>x. goods (handoff_ack_into x True)"
  by unfold_locales (auto simp: handoff_ack_into_def codec intro!: OldGuardianHandoffAck.equality)

lemmas handoff_ack_code_split [codec] =
  handoff_ack_code.split_iff handoff_ack_code.inject handoff_ack_code.list_split handoff_ack_code.list_inject

interpretation activate_vote_code: prefix_code "\<lambda>x. chunks (activate_vote_into x True)" "\<lambda>x. goods (activate_vote_into x True)"
  by unfold_locales (auto simp: activate_vote_into_def codec intro!: SignerRotationActivateVote.equality)

lemmas activate_vote_code_split [codec] =
  activate_vote_code.split_iff activate_vote_code.inject activate_vote_code.list_split activate_vote_code.list_inject

interpretation witness_ack_code: prefix_code "\<lambda>x. chunks (witness_ack_into x True)" "\<lambda>x. goods (witness_ack_into x True)"
  by unfold_locales (auto simp: witness_ack_into_def codec intro!: WitnessActivationAck.equality)

lemmas witness_ack_code_split [codec] =
  witness_ack_code.split_iff witness_ack_code.inject witness_ack_code.list_split witness_ack_code.list_inject

interpretation abort_vote_code: prefix_code "\<lambda>x. chunks (signer_rotation_abort_vote_into x True)" "\<lambda>x. goods (signer_rotation_abort_vote_into x True)"
  by unfold_locales (auto simp: signer_rotation_abort_vote_into_def codec intro!: SignerRotationAbortVote.equality)

lemmas abort_vote_code_split [codec] =
  abort_vote_code.split_iff abort_vote_code.inject abort_vote_code.list_split abort_vote_code.list_inject

lemma recovery_request_v3_inject:
  assumes "recovery_request_v3 x = Inr b" "recovery_request_v3 y = Inr b"
  shows "x = y"
  using assms unfolding recovery_request_v3_def
  by (auto simp: transcript_ok codec split: if_splits intro!: RecoveryRequestV3.equality)

lemmas recovery_request_v3_nested [codec] =
  nested_split [where f = recovery_request_v3, OF _ _ recovery_request_v3_inject, simplified]
  nested_split [where f = recovery_request_v3 and r = "[]" and s = "[]",
    OF _ _ recovery_request_v3_inject, simplified]

interpretation contribution_code: prefix_code "\<lambda>x. chunks (signer_recovery_contribution_into x True)" "\<lambda>x. goods (signer_recovery_contribution_into x True)"
  by unfold_locales (auto simp: signer_recovery_contribution_into_def codec intro!: SignerRecoveryContributionV3.equality)

lemmas contribution_code_split [codec] =
  contribution_code.split_iff contribution_code.inject contribution_code.list_split contribution_code.list_inject

interpretation recovery_vote_code: prefix_code "\<lambda>x. chunks (signer_recovery_release_vote_into x True)" "\<lambda>x. goods (signer_recovery_release_vote_into x True)"
  by unfold_locales (auto simp: signer_recovery_release_vote_into_def codec intro!: SignerRecoveryReleaseVoteV3.equality)

lemmas recovery_vote_code_split [codec] =
  recovery_vote_code.split_iff recovery_vote_code.inject recovery_vote_code.list_split recovery_vote_code.list_inject

interpretation suite_code: prefix_code "\<lambda>s. be16 (dpss_suite_id s)" "\<lambda>_. True"
  by (rule prefix_code_fixed_width [where n = 2]) simp_all

interpretation proof_code: prefix_code
    "\<lambda>p :: CustodyBlockProof. be32 (cbp_block_index p) @ lp (cbp_block p) @ lp (cbp_merkle_path p)"
    "\<lambda>p. length (cbp_block p) \<le> 16777216 \<and> length (cbp_merkle_path p) \<le> 16777216"
  by unfold_locales (auto simp: codec intro!: CustodyBlockProof.equality)

lemmas plain_list_split [codec] =
  c16.list_split c32.list_split suite_code.list_split proof_code.list_inject

lemma list_all_True [simp]: "list_all (\<lambda>_. True) xs"
  by (induction xs) simp_all

section \<open>Actor identifiers\<close>

lemma unique_ids_from_ok:
  "unique_ids_from u ids = Inr () \<longleftrightarrow>
     distinct ids \<and> set ids \<inter> u = {} \<and> (\<forall>i\<in>set ids. i \<noteq> 0 \<and> i \<le> MAX_ROTATION_ACTORS)"
  by (induction u ids rule: unique_ids_from.induct) (auto simp: not_less)

lemma unique_ids_ok:
  "unique_ids ids = Inr () \<longleftrightarrow> distinct ids \<and> (\<forall>i\<in>set ids. i \<noteq> 0 \<and> i \<le> MAX_ROTATION_ACTORS)"
  by (simp add: unique_ids_def unique_ids_from_ok)

text \<open>The numbers of \<open>n\<close> distinct identifiers of a list are as many as the list is long.\<close>

lemma distinct_ids_card: "distinct (map f xs) \<Longrightarrow> card (f ` set xs) = length xs"
  by (metis distinct_card length_map list.set_map)

section \<open>Properties of certificates\<close>

text \<open>An epoch-activation quorum certificate has a transcript only if it holds at least
  \<open>2 f + 1\<close> acknowledgements of pairwise different witnesses, none of them zero, every one for
  the certificate's configuration, rotation, predecessor, successor and activation
  certificate, and the successor epoch is the next one.\<close>

theorem qc_transcript_needs_quorum:
  assumes "epoch_activation_qc qc = Inr b"
  shows "card (waa_witness_id ` set (qc_witness_acks qc)) \<ge> 2 * unat (qc_witness_fault_bound qc) + 1 \<and>
    qc_successor_epoch qc = saturating_add (qc_predecessor_epoch qc) 1 \<and>
    (\<forall>ack \<in> set (qc_witness_acks qc).
       waa_witness_id ack \<noteq> 0 \<and>
       cr_config_id (rx_config_ref (waa_context ack)) = qc_config_id qc \<and>
       rx_rotation_id (waa_context ack) = qc_rotation_id qc \<and>
       waa_predecessor_epoch ack = qc_predecessor_epoch qc \<and>
       waa_predecessor_capsule_hash ack = qc_predecessor_capsule_hash qc \<and>
       waa_successor_epoch ack = qc_successor_epoch qc \<and>
       waa_successor_capsule_hash ack = qc_successor_capsule_hash qc \<and>
       waa_activation_certificate_hash ack = qc_activation_certificate_hash qc)"
proof -
  from assms have ids: "unique_ids (map waa_witness_id (qc_witness_acks qc)) = Inr ()"
    and len: "2 * unat (qc_witness_fault_bound qc) + 1 \<le> length (qc_witness_acks qc)"
    by (auto simp: epoch_activation_qc_def split: if_splits)
  then have "card (waa_witness_id ` set (qc_witness_acks qc)) = length (qc_witness_acks qc)"
    by (simp add: unique_ids_ok distinct_ids_card)
  with ids len assms show ?thesis
    by (auto simp: epoch_activation_qc_def unique_ids_ok list_ex_iff split: if_splits)
qed

definition sample_ctx :: RotationContext where
  "sample_ctx =
     \<lparr> rx_protocol_version = 3,
       rx_config_ref = \<lparr> cr_config_id = 1, cr_payload_generation = 2, cr_authorization_epoch = 3,
         cr_guardian_epoch = 4, cr_epoch_binding = 4 \<rparr>,
       rx_rotation_id = 5, rx_predecessor_capsule_hash = 4, rx_recipient_key = [6], rx_nonce = 7,
       rx_issued_at = 10, rx_expiry = 100 \<rparr>"

definition sample_ack :: "u16 \<Rightarrow> WitnessActivationAck" where
  "sample_ack i =
     \<lparr> waa_context = sample_ctx, waa_plan_hash = 8, waa_activation_certificate_hash = 9,
       waa_witness_id = i, waa_predecessor_epoch = 4, waa_predecessor_capsule_hash = 4,
       waa_successor_epoch = 5, waa_successor_capsule_hash = 11, waa_witness_public_key = 12,
       waa_witness_signature = [13] \<rparr>"

definition sample_qc :: EpochActivationQc where
  "sample_qc =
     \<lparr> qc_protocol_version = 3, qc_config_id = 1, qc_rotation_id = 5, qc_predecessor_epoch = 4,
       qc_predecessor_capsule_hash = 4, qc_successor_epoch = 5, qc_successor_capsule_hash = 11,
       qc_activation_certificate_hash = 9, qc_witness_fault_bound = 1,
       qc_witness_acks = [sample_ack 1, sample_ack 2, sample_ack 3] \<rparr>"

lemma sample_qc_ok: "\<exists>b. epoch_activation_qc sample_qc = Inr b"
  by (simp add: epoch_activation_qc_def sample_qc_def sample_ack_def sample_ctx_def transcript_ok
      unique_ids_ok saturating_add_def PROTOCOL_VERSION_V3_def MAX_CONFIG_WITNESSES_def
      MAX_ROTATION_ACTORS_def witness_ack_into_def context_into_def config_ref_into_def)

theorem qc_transcript_needs_quorum_witness:
  "card (waa_witness_id ` set (qc_witness_acks sample_qc)) \<ge> 3"
proof -
  from sample_qc_ok obtain b where "epoch_activation_qc sample_qc = Inr b" by blast
  from qc_transcript_needs_quorum [OF this] show ?thesis by (simp add: sample_qc_def)
qed

text \<open>A ready certificate has a transcript only if every prepared acknowledgement belongs to
  the certificate's rotation and plan, agrees on the sharing result and the material root,
  names its own leaf and reports a durable write, every handoff acknowledgement belongs to the
  same rotation, plan and result, and no guardian is counted twice on either side.\<close>

theorem ready_transcript_binds_acks:
  assumes "rotation_ready_certificate v = Inr b"
  shows "distinct (map ngpa_new_guardian_index (rrdy_prepared_acks v)) \<and>
    distinct (map ogha_old_guardian_index (rrdy_old_handoff_acks v)) \<and>
    (\<forall>ack \<in> set (rrdy_prepared_acks v).
       same_rotation (rrdy_context v) (ngpa_context ack) \<and> ngpa_plan_hash ack = rrdy_plan_hash v \<and>
       ngpa_dpss_result_commitment ack = rrdy_dpss_result_commitment v \<and>
       ngpa_guardian_material_root ack = rrdy_guardian_material_root v \<and>
       ngpa_new_guardian_index ack = prl_guardian_index (ngpa_prepared_record_leaf ack) \<and>
       ngpa_durable_write_generation ack \<noteq> 0) \<and>
    (\<forall>ack \<in> set (rrdy_old_handoff_acks v).
       same_rotation (rrdy_context v) (ogha_context ack) \<and> ogha_plan_hash ack = rrdy_plan_hash v \<and>
       ogha_dpss_result_commitment ack = rrdy_dpss_result_commitment v)"
  using assms
  by (auto simp: rotation_ready_certificate_def unique_ids_ok list_ex_iff split: if_splits)

definition sample_prepared :: "u16 \<Rightarrow> NewGuardianPreparedAck" where
  "sample_prepared i =
     \<lparr> ngpa_context = sample_ctx, ngpa_plan_hash = 8, ngpa_dpss_result_commitment = 9,
       ngpa_guardian_material_root = 10, ngpa_new_guardian_index = i,
       ngpa_prepared_record_leaf = \<lparr> prl_guardian_index = i, prl_fragment_index = i,
         prl_opaque_slot_id = 11, prl_encrypted_share_hash = 12, prl_fragment_hash = 13,
         prl_policy_hash = 14 \<rparr>,
       ngpa_durable_write_generation = 1, ngpa_guardian_signature = [15] \<rparr>"

definition sample_ready :: RotationReadyCertificate where
  "sample_ready =
     \<lparr> rrdy_context = sample_ctx, rrdy_plan_hash = 8, rrdy_successor = rx_config_ref sample_ctx,
       rrdy_dpss_result_commitment = 9, rrdy_guardian_material_root = 10,
       rrdy_encrypted_descriptor_hash = 16, rrdy_prepared_acks = [sample_prepared 1, sample_prepared 2],
       rrdy_old_handoff_acks = [] \<rparr>"

lemma sample_ready_ok: "\<exists>b. rotation_ready_certificate sample_ready = Inr b"
  by (simp add: rotation_ready_certificate_def sample_ready_def sample_prepared_def sample_ctx_def
      transcript_ok unique_ids_ok same_rotation_def PROTOCOL_VERSION_V3_def MAX_ROTATION_ACTORS_def
      prepared_ack_into_def prepared_leaf_into_def context_into_def config_ref_into_def)

theorem ready_transcript_binds_acks_witness:
  "distinct (map ngpa_new_guardian_index (rrdy_prepared_acks sample_ready))"
proof -
  from sample_ready_ok obtain b where "rotation_ready_certificate sample_ready = Inr b" by blast
  from ready_transcript_binds_acks [OF this] show ?thesis by blast
qed

end
