(* ===== verification/GP_Documents.thy ===== *)
theory GP_Documents
  imports GP_Wire_Rotation
begin

text \<open>
  Every object that has a canonical transcript, with a constructor per public transcript
  function of \<open>gp-wire\<close>, in four groups. \<open>document_transcript\<close> is the transcript of a document
  and \<open>unsigned\<close> erases exactly the fields the transcript leaves out: the signature of the
  object itself, the hash and certificates that authenticate a capsule, the mutable fields of
  a guardian policy, and the ciphertexts of a grant in its own payload context.
\<close>

section \<open>Documents\<close>

text \<open>The protocol-2 objects.\<close>

datatype request_doc =
    Doc_recovery_request RecoveryRequest
  | Doc_signer_approval RecoveryRequest u16 SealedMessage
  | Doc_signer_leaf u16 arr32
  | Doc_request_digest_preimage RecoveryRequest
  | Doc_descriptor_context arr32 u64
  | Doc_recipient_share_context RecoveryRequest u16
  | Doc_guardian_release_context RecoveryRequest u16
  | Doc_owner_cancel OwnerCancelCertificate
  | Doc_owner_cancel_ack OwnerCancelAck
  | Doc_release_vote ReleaseVote
  | Doc_guardian_contribution GuardianContribution
  | Doc_guardian_leaf arr32 u64 u16 arr32 arr32
  | Doc_guardian_share_context arr32 u64 u16
  | Doc_payload_context arr32 u64
  | Doc_node_provision_context string string
  | Doc_mailbox_transport_context string string

text \<open>The rotation objects up to the preparation.\<close>

datatype plan_doc =
    Doc_guardian_roster_v3 "GuardianRouteV3 list"
  | Doc_prepared_record_leaf_v3 PreparedRecordLeaf
  | Doc_rotation_intent RotationIntent
  | Doc_signer_rotation_intent_contribution SignerRotationIntentContribution
  | Doc_rotation_intent_share_context_v3 RotationContext Id32 u16
  | Doc_rotation_plan RotationPlan
  | Doc_signer_rotation_begin_vote SignerRotationBeginVote
  | Doc_begin_rotation_certificate BeginRotationCertificate
  | Doc_owner_rotation_cancel_certificate OwnerRotationCancelCertificate
  | Doc_owner_rotation_cancel_ack OwnerRotationCancelAck
  | Doc_signer_rotation_release_vote SignerRotationReleaseVote
  | Doc_rotation_release_certificate RotationReleaseCertificate
  | Doc_old_share_unlock_grant OldShareUnlockGrant
  | Doc_old_share_unlock_grant_payload_context OldShareUnlockGrant bool
  | Doc_new_share_wrap_grant NewShareWrapGrant
  | Doc_new_share_wrap_grant_payload_context NewShareWrapGrant bool
  | Doc_dpss_protocol_message DpssProtocolMessage

text \<open>The rotation objects from the preparation on.\<close>

datatype epoch_doc =
    Doc_ciphertext_fragment_contribution CiphertextFragmentContribution
  | Doc_new_guardian_prepared_ack NewGuardianPreparedAck
  | Doc_old_guardian_handoff_ack OldGuardianHandoffAck
  | Doc_rotation_ready_certificate RotationReadyCertificate
  | Doc_signer_rotation_activate_vote SignerRotationActivateVote
  | Doc_rotation_activate_certificate RotationActivateCertificate
  | Doc_witness_activation_ack WitnessActivationAck
  | Doc_witness_rotation_cancel_ack WitnessRotationCancelAck
  | Doc_epoch_activation_qc EpochActivationQc
  | Doc_epoch_read_challenge EpochReadChallenge
  | Doc_witness_epoch_read_response WitnessEpochReadResponse
  | Doc_retirement_notice RetirementNotice
  | Doc_retirement_ack RetirementAck
  | Doc_abort_rotation_certificate AbortRotationCertificate
  | Doc_signer_rotation_abort_vote SignerRotationAbortVote

text \<open>Epoch-bound recovery, capsules and custody.\<close>

datatype epoch_recovery_doc =
    Doc_recovery_request_v3 RecoveryRequestV3
  | Doc_recovery_request_digest_v3 RecoveryRequestV3
  | Doc_recovery_authorization_share_context_v3 RecoveryRequestV3 u16
  | Doc_signer_recovery_contribution_v3 SignerRecoveryContributionV3
  | Doc_begin_recovery_certificate_v3 BeginRecoveryCertificateV3
  | Doc_signer_recovery_release_vote_v3 SignerRecoveryReleaseVoteV3
  | Doc_recovery_release_certificate_v3 RecoveryReleaseCertificateV3
  | Doc_owner_recovery_cancel_certificate_v3 OwnerRecoveryCancelCertificateV3
  | Doc_owner_recovery_cancel_ack_v3 OwnerRecoveryCancelAckV3
  | Doc_guardian_recovery_contribution_v3 GuardianRecoveryContributionV3
  | Doc_guardian_share_context_v3 ConfigRef u16
  | Doc_guardian_fragment_context_v3 ConfigRef u16 u16
  | Doc_descriptor_context_v3 ConfigRef
  | Doc_config_capsule_body_v3 ConfigCapsuleV3
  | Doc_guardian_policy_body_v3 GuardianPolicyV3
  | Doc_payload_context_v3 Id32 u64
  | Doc_custody_challenge CustodyChallenge
  | Doc_custody_response CustodyResponse

datatype document =
    Request request_doc
  | Plan plan_doc
  | Epoch epoch_doc
  | EpochRecovery epoch_recovery_doc

definition no_sealed :: SealedMessage where
  "no_sealed = \<lparr> sm_kem_ciphertext = [], sm_payload = \<lparr> ac_nonce = 0, ac_ciphertext = [] \<rparr> \<rparr>"

primrec request_doc_transcript :: "request_doc \<Rightarrow> (WireError, byte list) result" where
  "request_doc_transcript (Doc_recovery_request x1) = recovery_request x1"
| "request_doc_transcript (Doc_signer_approval x1 x2 x3) = signer_approval x1 x2 x3"
| "request_doc_transcript (Doc_signer_leaf x1 x2) = signer_leaf x1 x2"
| "request_doc_transcript (Doc_request_digest_preimage x1) = request_digest_preimage x1"
| "request_doc_transcript (Doc_descriptor_context x1 x2) = descriptor_context x1 x2"
| "request_doc_transcript (Doc_recipient_share_context x1 x2) = recipient_share_context x1 x2"
| "request_doc_transcript (Doc_guardian_release_context x1 x2) = guardian_release_context x1 x2"
| "request_doc_transcript (Doc_owner_cancel x1) = owner_cancel x1"
| "request_doc_transcript (Doc_owner_cancel_ack x1) = owner_cancel_ack x1"
| "request_doc_transcript (Doc_release_vote x1) = release_vote x1"
| "request_doc_transcript (Doc_guardian_contribution x1) = guardian_contribution x1"
| "request_doc_transcript (Doc_guardian_leaf x1 x2 x3 x4 x5) = guardian_leaf x1 x2 x3 x4 x5"
| "request_doc_transcript (Doc_guardian_share_context x1 x2 x3) = guardian_share_context x1 x2 x3"
| "request_doc_transcript (Doc_payload_context x1 x2) = payload_context x1 x2"
| "request_doc_transcript (Doc_node_provision_context x1 x2) = node_provision_context x1 x2"
| "request_doc_transcript (Doc_mailbox_transport_context x1 x2) = mailbox_transport_context x1 x2"

primrec plan_doc_transcript :: "plan_doc \<Rightarrow> (WireError, byte list) result" where
  "plan_doc_transcript (Doc_guardian_roster_v3 x1) = guardian_roster_v3 x1"
| "plan_doc_transcript (Doc_prepared_record_leaf_v3 x1) = prepared_record_leaf_v3 x1"
| "plan_doc_transcript (Doc_rotation_intent x1) = rotation_intent x1"
| "plan_doc_transcript (Doc_signer_rotation_intent_contribution x1) = signer_rotation_intent_contribution x1"
| "plan_doc_transcript (Doc_rotation_intent_share_context_v3 x1 x2 x3) = rotation_intent_share_context_v3 x1 x2 x3"
| "plan_doc_transcript (Doc_rotation_plan x1) = rotation_plan x1"
| "plan_doc_transcript (Doc_signer_rotation_begin_vote x1) = signer_rotation_begin_vote x1"
| "plan_doc_transcript (Doc_begin_rotation_certificate x1) = begin_rotation_certificate x1"
| "plan_doc_transcript (Doc_owner_rotation_cancel_certificate x1) = owner_rotation_cancel_certificate x1"
| "plan_doc_transcript (Doc_owner_rotation_cancel_ack x1) = owner_rotation_cancel_ack x1"
| "plan_doc_transcript (Doc_signer_rotation_release_vote x1) = signer_rotation_release_vote x1"
| "plan_doc_transcript (Doc_rotation_release_certificate x1) = rotation_release_certificate x1"
| "plan_doc_transcript (Doc_old_share_unlock_grant x1) = old_share_unlock_grant x1"
| "plan_doc_transcript (Doc_old_share_unlock_grant_payload_context x1 x2) = old_share_unlock_grant_payload_context x1 x2"
| "plan_doc_transcript (Doc_new_share_wrap_grant x1) = new_share_wrap_grant x1"
| "plan_doc_transcript (Doc_new_share_wrap_grant_payload_context x1 x2) = new_share_wrap_grant_payload_context x1 x2"
| "plan_doc_transcript (Doc_dpss_protocol_message x1) = dpss_protocol_message x1"

primrec epoch_doc_transcript :: "epoch_doc \<Rightarrow> (WireError, byte list) result" where
  "epoch_doc_transcript (Doc_ciphertext_fragment_contribution x1) = ciphertext_fragment_contribution x1"
| "epoch_doc_transcript (Doc_new_guardian_prepared_ack x1) = new_guardian_prepared_ack x1"
| "epoch_doc_transcript (Doc_old_guardian_handoff_ack x1) = old_guardian_handoff_ack x1"
| "epoch_doc_transcript (Doc_rotation_ready_certificate x1) = rotation_ready_certificate x1"
| "epoch_doc_transcript (Doc_signer_rotation_activate_vote x1) = signer_rotation_activate_vote x1"
| "epoch_doc_transcript (Doc_rotation_activate_certificate x1) = rotation_activate_certificate x1"
| "epoch_doc_transcript (Doc_witness_activation_ack x1) = witness_activation_ack x1"
| "epoch_doc_transcript (Doc_witness_rotation_cancel_ack x1) = witness_rotation_cancel_ack x1"
| "epoch_doc_transcript (Doc_epoch_activation_qc x1) = epoch_activation_qc x1"
| "epoch_doc_transcript (Doc_epoch_read_challenge x1) = epoch_read_challenge x1"
| "epoch_doc_transcript (Doc_witness_epoch_read_response x1) = witness_epoch_read_response x1"
| "epoch_doc_transcript (Doc_retirement_notice x1) = retirement_notice x1"
| "epoch_doc_transcript (Doc_retirement_ack x1) = retirement_ack x1"
| "epoch_doc_transcript (Doc_abort_rotation_certificate x1) = abort_rotation_certificate x1"
| "epoch_doc_transcript (Doc_signer_rotation_abort_vote x1) = signer_rotation_abort_vote x1"

primrec epoch_recovery_doc_transcript :: "epoch_recovery_doc \<Rightarrow> (WireError, byte list) result" where
  "epoch_recovery_doc_transcript (Doc_recovery_request_v3 x1) = recovery_request_v3 x1"
| "epoch_recovery_doc_transcript (Doc_recovery_request_digest_v3 x1) = recovery_request_digest_v3 x1"
| "epoch_recovery_doc_transcript (Doc_recovery_authorization_share_context_v3 x1 x2) = recovery_authorization_share_context_v3 x1 x2"
| "epoch_recovery_doc_transcript (Doc_signer_recovery_contribution_v3 x1) = signer_recovery_contribution_v3 x1"
| "epoch_recovery_doc_transcript (Doc_begin_recovery_certificate_v3 x1) = begin_recovery_certificate_v3 x1"
| "epoch_recovery_doc_transcript (Doc_signer_recovery_release_vote_v3 x1) = signer_recovery_release_vote_v3 x1"
| "epoch_recovery_doc_transcript (Doc_recovery_release_certificate_v3 x1) = recovery_release_certificate_v3 x1"
| "epoch_recovery_doc_transcript (Doc_owner_recovery_cancel_certificate_v3 x1) = owner_recovery_cancel_certificate_v3 x1"
| "epoch_recovery_doc_transcript (Doc_owner_recovery_cancel_ack_v3 x1) = owner_recovery_cancel_ack_v3 x1"
| "epoch_recovery_doc_transcript (Doc_guardian_recovery_contribution_v3 x1) = guardian_recovery_contribution_v3 x1"
| "epoch_recovery_doc_transcript (Doc_guardian_share_context_v3 x1 x2) = guardian_share_context_v3 x1 x2"
| "epoch_recovery_doc_transcript (Doc_guardian_fragment_context_v3 x1 x2 x3) = guardian_fragment_context_v3 x1 x2 x3"
| "epoch_recovery_doc_transcript (Doc_descriptor_context_v3 x1) = descriptor_context_v3 x1"
| "epoch_recovery_doc_transcript (Doc_config_capsule_body_v3 x1) = config_capsule_body_v3 x1"
| "epoch_recovery_doc_transcript (Doc_guardian_policy_body_v3 x1) = guardian_policy_body_v3 x1"
| "epoch_recovery_doc_transcript (Doc_payload_context_v3 x1 x2) = payload_context_v3 x1 x2"
| "epoch_recovery_doc_transcript (Doc_custody_challenge x1) = custody_challenge x1"
| "epoch_recovery_doc_transcript (Doc_custody_response x1) = custody_response x1"

primrec document_transcript :: "document \<Rightarrow> (WireError, byte list) result" where
  "document_transcript (Request d) = request_doc_transcript d"
| "document_transcript (Plan d) = plan_doc_transcript d"
| "document_transcript (Epoch d) = epoch_doc_transcript d"
| "document_transcript (EpochRecovery d) = epoch_recovery_doc_transcript d"

primrec request_doc_unsigned :: "request_doc \<Rightarrow> request_doc" where
  "request_doc_unsigned (Doc_recovery_request x1) = Doc_recovery_request x1"
| "request_doc_unsigned (Doc_signer_approval x1 x2 x3) = Doc_signer_approval x1 x2 x3"
| "request_doc_unsigned (Doc_signer_leaf x1 x2) = Doc_signer_leaf x1 x2"
| "request_doc_unsigned (Doc_request_digest_preimage x1) = Doc_request_digest_preimage x1"
| "request_doc_unsigned (Doc_descriptor_context x1 x2) = Doc_descriptor_context x1 x2"
| "request_doc_unsigned (Doc_recipient_share_context x1 x2) = Doc_recipient_share_context x1 x2"
| "request_doc_unsigned (Doc_guardian_release_context x1 x2) = Doc_guardian_release_context x1 x2"
| "request_doc_unsigned (Doc_owner_cancel x1) = Doc_owner_cancel (x1 \<lparr> occ_owner_signature := [] \<rparr>)"
| "request_doc_unsigned (Doc_owner_cancel_ack x1) = Doc_owner_cancel_ack (x1 \<lparr> oca_guardian_signature := [] \<rparr>)"
| "request_doc_unsigned (Doc_release_vote x1) = Doc_release_vote (x1 \<lparr> rv_signer_signature := [] \<rparr>)"
| "request_doc_unsigned (Doc_guardian_contribution x1) = Doc_guardian_contribution (x1 \<lparr> gc_guardian_signature := [] \<rparr>)"
| "request_doc_unsigned (Doc_guardian_leaf x1 x2 x3 x4 x5) = Doc_guardian_leaf x1 x2 x3 x4 x5"
| "request_doc_unsigned (Doc_guardian_share_context x1 x2 x3) = Doc_guardian_share_context x1 x2 x3"
| "request_doc_unsigned (Doc_payload_context x1 x2) = Doc_payload_context x1 x2"
| "request_doc_unsigned (Doc_node_provision_context x1 x2) = Doc_node_provision_context x1 x2"
| "request_doc_unsigned (Doc_mailbox_transport_context x1 x2) = Doc_mailbox_transport_context x1 x2"

primrec plan_doc_unsigned :: "plan_doc \<Rightarrow> plan_doc" where
  "plan_doc_unsigned (Doc_guardian_roster_v3 x1) = Doc_guardian_roster_v3 x1"
| "plan_doc_unsigned (Doc_prepared_record_leaf_v3 x1) = Doc_prepared_record_leaf_v3 x1"
| "plan_doc_unsigned (Doc_rotation_intent x1) = Doc_rotation_intent x1"
| "plan_doc_unsigned (Doc_signer_rotation_intent_contribution x1) = Doc_signer_rotation_intent_contribution (x1 \<lparr> sric_signer_signature := [] \<rparr>)"
| "plan_doc_unsigned (Doc_rotation_intent_share_context_v3 x1 x2 x3) = Doc_rotation_intent_share_context_v3 x1 x2 x3"
| "plan_doc_unsigned (Doc_rotation_plan x1) = Doc_rotation_plan x1"
| "plan_doc_unsigned (Doc_signer_rotation_begin_vote x1) = Doc_signer_rotation_begin_vote (x1 \<lparr> srbv_signer_signature := [] \<rparr>)"
| "plan_doc_unsigned (Doc_begin_rotation_certificate x1) = Doc_begin_rotation_certificate x1"
| "plan_doc_unsigned (Doc_owner_rotation_cancel_certificate x1) = Doc_owner_rotation_cancel_certificate (x1 \<lparr> orcc_owner_signature := [] \<rparr>)"
| "plan_doc_unsigned (Doc_owner_rotation_cancel_ack x1) = Doc_owner_rotation_cancel_ack (x1 \<lparr> orca_guardian_signature := [] \<rparr>)"
| "plan_doc_unsigned (Doc_signer_rotation_release_vote x1) = Doc_signer_rotation_release_vote (x1 \<lparr> srrv_signer_signature := [] \<rparr>)"
| "plan_doc_unsigned (Doc_rotation_release_certificate x1) = Doc_rotation_release_certificate x1"
| "plan_doc_unsigned (Doc_old_share_unlock_grant x1) = Doc_old_share_unlock_grant x1"
| "plan_doc_unsigned (Doc_old_share_unlock_grant_payload_context x1 x2) = Doc_old_share_unlock_grant_payload_context (x1 \<lparr> osug_encrypted_unwrap_key := no_sealed, osug_encrypted_fragment_key := no_sealed \<rparr>) x2"
| "plan_doc_unsigned (Doc_new_share_wrap_grant x1) = Doc_new_share_wrap_grant x1"
| "plan_doc_unsigned (Doc_new_share_wrap_grant_payload_context x1 x2) = Doc_new_share_wrap_grant_payload_context (x1 \<lparr> nswg_encrypted_wrap_key := no_sealed, nswg_encrypted_fragment_key := no_sealed \<rparr>) x2"
| "plan_doc_unsigned (Doc_dpss_protocol_message x1) = Doc_dpss_protocol_message (x1 \<lparr> dpm_sender_signature := [] \<rparr>)"

primrec epoch_doc_unsigned :: "epoch_doc \<Rightarrow> epoch_doc" where
  "epoch_doc_unsigned (Doc_ciphertext_fragment_contribution x1) = Doc_ciphertext_fragment_contribution (x1 \<lparr> cfc_guardian_signature := [] \<rparr>)"
| "epoch_doc_unsigned (Doc_new_guardian_prepared_ack x1) = Doc_new_guardian_prepared_ack (x1 \<lparr> ngpa_guardian_signature := [] \<rparr>)"
| "epoch_doc_unsigned (Doc_old_guardian_handoff_ack x1) = Doc_old_guardian_handoff_ack (x1 \<lparr> ogha_guardian_signature := [] \<rparr>)"
| "epoch_doc_unsigned (Doc_rotation_ready_certificate x1) = Doc_rotation_ready_certificate x1"
| "epoch_doc_unsigned (Doc_signer_rotation_activate_vote x1) = Doc_signer_rotation_activate_vote (x1 \<lparr> srav_signer_signature := [] \<rparr>)"
| "epoch_doc_unsigned (Doc_rotation_activate_certificate x1) = Doc_rotation_activate_certificate x1"
| "epoch_doc_unsigned (Doc_witness_activation_ack x1) = Doc_witness_activation_ack (x1 \<lparr> waa_witness_signature := [] \<rparr>)"
| "epoch_doc_unsigned (Doc_witness_rotation_cancel_ack x1) = Doc_witness_rotation_cancel_ack (x1 \<lparr> wrca_witness_signature := [] \<rparr>)"
| "epoch_doc_unsigned (Doc_epoch_activation_qc x1) = Doc_epoch_activation_qc x1"
| "epoch_doc_unsigned (Doc_epoch_read_challenge x1) = Doc_epoch_read_challenge x1"
| "epoch_doc_unsigned (Doc_witness_epoch_read_response x1) = Doc_witness_epoch_read_response (x1 \<lparr> werr_witness_signature := [] \<rparr>)"
| "epoch_doc_unsigned (Doc_retirement_notice x1) = Doc_retirement_notice x1"
| "epoch_doc_unsigned (Doc_retirement_ack x1) = Doc_retirement_ack (x1 \<lparr> rta_guardian_signature := [] \<rparr>)"
| "epoch_doc_unsigned (Doc_abort_rotation_certificate x1) = Doc_abort_rotation_certificate x1"
| "epoch_doc_unsigned (Doc_signer_rotation_abort_vote x1) = Doc_signer_rotation_abort_vote (x1 \<lparr> sabv_signer_signature := [] \<rparr>)"

primrec epoch_recovery_doc_unsigned :: "epoch_recovery_doc \<Rightarrow> epoch_recovery_doc" where
  "epoch_recovery_doc_unsigned (Doc_recovery_request_v3 x1) = Doc_recovery_request_v3 x1"
| "epoch_recovery_doc_unsigned (Doc_recovery_request_digest_v3 x1) = Doc_recovery_request_digest_v3 x1"
| "epoch_recovery_doc_unsigned (Doc_recovery_authorization_share_context_v3 x1 x2) = Doc_recovery_authorization_share_context_v3 x1 x2"
| "epoch_recovery_doc_unsigned (Doc_signer_recovery_contribution_v3 x1) = Doc_signer_recovery_contribution_v3 (x1 \<lparr> sc3_signer_signature := [] \<rparr>)"
| "epoch_recovery_doc_unsigned (Doc_begin_recovery_certificate_v3 x1) = Doc_begin_recovery_certificate_v3 x1"
| "epoch_recovery_doc_unsigned (Doc_signer_recovery_release_vote_v3 x1) = Doc_signer_recovery_release_vote_v3 (x1 \<lparr> rv3_signer_signature := [] \<rparr>)"
| "epoch_recovery_doc_unsigned (Doc_recovery_release_certificate_v3 x1) = Doc_recovery_release_certificate_v3 x1"
| "epoch_recovery_doc_unsigned (Doc_owner_recovery_cancel_certificate_v3 x1) = Doc_owner_recovery_cancel_certificate_v3 (x1 \<lparr> occ3_owner_signature := [] \<rparr>)"
| "epoch_recovery_doc_unsigned (Doc_owner_recovery_cancel_ack_v3 x1) = Doc_owner_recovery_cancel_ack_v3 (x1 \<lparr> oca3_guardian_signature := [] \<rparr>)"
| "epoch_recovery_doc_unsigned (Doc_guardian_recovery_contribution_v3 x1) = Doc_guardian_recovery_contribution_v3 (x1 \<lparr> gc3_guardian_signature := [] \<rparr>)"
| "epoch_recovery_doc_unsigned (Doc_guardian_share_context_v3 x1 x2) = Doc_guardian_share_context_v3 x1 x2"
| "epoch_recovery_doc_unsigned (Doc_guardian_fragment_context_v3 x1 x2 x3) = Doc_guardian_fragment_context_v3 x1 x2 x3"
| "epoch_recovery_doc_unsigned (Doc_descriptor_context_v3 x1) = Doc_descriptor_context_v3 x1"
| "epoch_recovery_doc_unsigned (Doc_config_capsule_body_v3 x1) = Doc_config_capsule_body_v3 (x1 \<lparr> cc3_capsule_hash := 0, cc3_activation_certificate := None, cc3_activation_qc := None \<rparr>)"
| "epoch_recovery_doc_unsigned (Doc_guardian_policy_body_v3 x1) = Doc_guardian_policy_body_v3 (x1 \<lparr> gp3_epoch_state := Prepared, gp3_guardian_material_root := 0, gp3_activation_qc_hash := None, gp3_drain_deadline := None \<rparr>)"
| "epoch_recovery_doc_unsigned (Doc_payload_context_v3 x1 x2) = Doc_payload_context_v3 x1 x2"
| "epoch_recovery_doc_unsigned (Doc_custody_challenge x1) = Doc_custody_challenge x1"
| "epoch_recovery_doc_unsigned (Doc_custody_response x1) = Doc_custody_response (x1 \<lparr> crs_guardian_signature := [] \<rparr>)"

primrec unsigned_document :: "document \<Rightarrow> document" where
  "unsigned_document (Request d) = Request (request_doc_unsigned d)"
| "unsigned_document (Plan d) = Plan (plan_doc_unsigned d)"
| "unsigned_document (Epoch d) = Epoch (epoch_doc_unsigned d)"
| "unsigned_document (EpochRecovery d) = EpochRecovery (epoch_recovery_doc_unsigned d)"

text \<open>The domain tag a document starts with.\<close>

primrec request_doc_domain :: "request_doc \<Rightarrow> string" where
  "request_doc_domain (Doc_recovery_request x1) = ''gp/recovery-request/v1''"
| "request_doc_domain (Doc_signer_approval x1 x2 x3) = ''gp/signer-approval/v1''"
| "request_doc_domain (Doc_signer_leaf x1 x2) = ''gp/signer-leaf/v1''"
| "request_doc_domain (Doc_request_digest_preimage x1) = ''gp/recovery-request-digest/v1''"
| "request_doc_domain (Doc_descriptor_context x1 x2) = ''gp/recovery-descriptor-context/v1''"
| "request_doc_domain (Doc_recipient_share_context x1 x2) = ''gp/recipient-a-share-context/v1''"
| "request_doc_domain (Doc_guardian_release_context x1 x2) = ''gp/recipient-guardian-contribution/v1''"
| "request_doc_domain (Doc_owner_cancel x1) = ''gp/owner-hard-cancel/v1''"
| "request_doc_domain (Doc_owner_cancel_ack x1) = ''gp/owner-hard-cancel-ack/v1''"
| "request_doc_domain (Doc_release_vote x1) = ''gp/release-vote/v1''"
| "request_doc_domain (Doc_guardian_contribution x1) = ''gp/guardian-contribution/v1''"
| "request_doc_domain (Doc_guardian_leaf x1 x2 x3 x4 x5) = ''gp/guardian-leaf/v1''"
| "request_doc_domain (Doc_guardian_share_context x1 x2 x3) = ''gp/guardian-dek-share-context/v1''"
| "request_doc_domain (Doc_payload_context x1 x2) = ''gp/payload-context/v1''"
| "request_doc_domain (Doc_node_provision_context x1 x2) = ''gp/network-node-provision/v1''"
| "request_doc_domain (Doc_mailbox_transport_context x1 x2) = ''gp/network-mailbox-transport/v1''"

primrec plan_doc_domain :: "plan_doc \<Rightarrow> string" where
  "plan_doc_domain (Doc_guardian_roster_v3 x1) = ''gp/private-guardian-roster/v3''"
| "plan_doc_domain (Doc_prepared_record_leaf_v3 x1) = ''gp/prepared-record-leaf/v3''"
| "plan_doc_domain (Doc_rotation_intent x1) = ''gp/rotation-intent/v3''"
| "plan_doc_domain (Doc_signer_rotation_intent_contribution x1) = ''gp/signer-rotation-intent-contribution/v3''"
| "plan_doc_domain (Doc_rotation_intent_share_context_v3 x1 x2 x3) = ''gp/rotation-intent-a-share-context/v3''"
| "plan_doc_domain (Doc_rotation_plan x1) = ''gp/rotation-plan/v3''"
| "plan_doc_domain (Doc_signer_rotation_begin_vote x1) = ''gp/signer-rotation-begin-vote/v3''"
| "plan_doc_domain (Doc_begin_rotation_certificate x1) = ''gp/begin-rotation-certificate/v3''"
| "plan_doc_domain (Doc_owner_rotation_cancel_certificate x1) = ''gp/owner-rotation-cancel/v3''"
| "plan_doc_domain (Doc_owner_rotation_cancel_ack x1) = ''gp/owner-rotation-cancel-ack/v3''"
| "plan_doc_domain (Doc_signer_rotation_release_vote x1) = ''gp/signer-rotation-release-vote/v3''"
| "plan_doc_domain (Doc_rotation_release_certificate x1) = ''gp/rotation-release-certificate/v3''"
| "plan_doc_domain (Doc_old_share_unlock_grant x1) = ''gp/old-share-unlock-grant/v3''"
| "plan_doc_domain (Doc_old_share_unlock_grant_payload_context x1 x2) = ''gp/old-share-unlock-grant-payload/v3''"
| "plan_doc_domain (Doc_new_share_wrap_grant x1) = ''gp/new-share-wrap-grant/v3''"
| "plan_doc_domain (Doc_new_share_wrap_grant_payload_context x1 x2) = ''gp/new-share-wrap-grant-payload/v3''"
| "plan_doc_domain (Doc_dpss_protocol_message x1) = ''gp/dpss-protocol-message/v3''"

primrec epoch_doc_domain :: "epoch_doc \<Rightarrow> string" where
  "epoch_doc_domain (Doc_ciphertext_fragment_contribution x1) = ''gp/ciphertext-fragment-contribution/v3''"
| "epoch_doc_domain (Doc_new_guardian_prepared_ack x1) = ''gp/new-guardian-prepared-ack/v3''"
| "epoch_doc_domain (Doc_old_guardian_handoff_ack x1) = ''gp/old-guardian-handoff-ack/v3''"
| "epoch_doc_domain (Doc_rotation_ready_certificate x1) = ''gp/rotation-ready-certificate/v3''"
| "epoch_doc_domain (Doc_signer_rotation_activate_vote x1) = ''gp/signer-rotation-activate-vote/v3''"
| "epoch_doc_domain (Doc_rotation_activate_certificate x1) = ''gp/rotation-activate-certificate/v3''"
| "epoch_doc_domain (Doc_witness_activation_ack x1) = ''gp/witness-activation-ack/v3''"
| "epoch_doc_domain (Doc_witness_rotation_cancel_ack x1) = ''gp/witness-rotation-cancel-ack/v3''"
| "epoch_doc_domain (Doc_epoch_activation_qc x1) = ''gp/epoch-activation-qc/v3''"
| "epoch_doc_domain (Doc_epoch_read_challenge x1) = ''gp/epoch-read-challenge/v3''"
| "epoch_doc_domain (Doc_witness_epoch_read_response x1) = ''gp/witness-epoch-read-response/v3''"
| "epoch_doc_domain (Doc_retirement_notice x1) = ''gp/retirement-notice/v3''"
| "epoch_doc_domain (Doc_retirement_ack x1) = ''gp/retirement-ack/v3''"
| "epoch_doc_domain (Doc_abort_rotation_certificate x1) = ''gp/abort-rotation-certificate/v3''"
| "epoch_doc_domain (Doc_signer_rotation_abort_vote x1) = ''gp/signer-rotation-abort-vote/v3''"

primrec epoch_recovery_doc_domain :: "epoch_recovery_doc \<Rightarrow> string" where
  "epoch_recovery_doc_domain (Doc_recovery_request_v3 x1) = ''gp/recovery-request/v3''"
| "epoch_recovery_doc_domain (Doc_recovery_request_digest_v3 x1) = ''gp/recovery-request-digest/v3''"
| "epoch_recovery_doc_domain (Doc_recovery_authorization_share_context_v3 x1 x2) = ''gp/recovery-a-share-context/v3''"
| "epoch_recovery_doc_domain (Doc_signer_recovery_contribution_v3 x1) = ''gp/signer-recovery-contribution/v3''"
| "epoch_recovery_doc_domain (Doc_begin_recovery_certificate_v3 x1) = ''gp/begin-recovery-certificate/v3''"
| "epoch_recovery_doc_domain (Doc_signer_recovery_release_vote_v3 x1) = ''gp/signer-recovery-release-vote/v3''"
| "epoch_recovery_doc_domain (Doc_recovery_release_certificate_v3 x1) = ''gp/recovery-release-certificate/v3''"
| "epoch_recovery_doc_domain (Doc_owner_recovery_cancel_certificate_v3 x1) = ''gp/owner-recovery-cancel/v3''"
| "epoch_recovery_doc_domain (Doc_owner_recovery_cancel_ack_v3 x1) = ''gp/owner-recovery-cancel-ack/v3''"
| "epoch_recovery_doc_domain (Doc_guardian_recovery_contribution_v3 x1) = ''gp/guardian-recovery-contribution/v3''"
| "epoch_recovery_doc_domain (Doc_guardian_share_context_v3 x1 x2) = ''gp/guardian-dek-share-context/v3''"
| "epoch_recovery_doc_domain (Doc_guardian_fragment_context_v3 x1 x2 x3) = ''gp/guardian-ciphertext-fragment-context/v3''"
| "epoch_recovery_doc_domain (Doc_descriptor_context_v3 x1) = ''gp/recovery-descriptor-context/v3''"
| "epoch_recovery_doc_domain (Doc_config_capsule_body_v3 x1) = ''gp/config-capsule-body/v3''"
| "epoch_recovery_doc_domain (Doc_guardian_policy_body_v3 x1) = ''gp/guardian-policy-body/v3''"
| "epoch_recovery_doc_domain (Doc_payload_context_v3 x1 x2) = ''gp/payload-context/v3''"
| "epoch_recovery_doc_domain (Doc_custody_challenge x1) = ''gp/custody-challenge/v3''"
| "epoch_recovery_doc_domain (Doc_custody_response x1) = ''gp/custody-response/v3''"

primrec document_domain :: "document \<Rightarrow> string" where
  "document_domain (Request d) = request_doc_domain d"
| "document_domain (Plan d) = plan_doc_domain d"
| "document_domain (Epoch d) = epoch_doc_domain d"
| "document_domain (EpochRecovery d) = epoch_recovery_doc_domain d"

section \<open>Each transcript determines its object\<close>

lemma signer_leaf_inject:
  assumes "signer_leaf x1 x2 = Inr b" "signer_leaf y1 y2 = Inr b"
  shows "x1 = y1 \<and> x2 = y2"
  using assms unfolding signer_leaf_def
  by (auto simp: transcript_ok codec split: if_splits)

lemma request_digest_preimage_inject:
  assumes "request_digest_preimage x1 = Inr b" "request_digest_preimage y1 = Inr b"
  shows "x1 = y1"
  using assms unfolding request_digest_preimage_def
  by (auto simp: transcript_ok codec split: if_splits)

lemma descriptor_context_inject:
  assumes "descriptor_context x1 x2 = Inr b" "descriptor_context y1 y2 = Inr b"
  shows "x1 = y1 \<and> x2 = y2"
  using assms unfolding descriptor_context_def
  by (auto simp: transcript_ok codec split: if_splits)

lemma recipient_share_context_inject:
  assumes "recipient_share_context x1 x2 = Inr b" "recipient_share_context y1 y2 = Inr b"
  shows "x1 = y1 \<and> x2 = y2"
  using assms unfolding recipient_share_context_def
  by (auto simp: transcript_ok codec split: if_splits)

lemma guardian_release_context_inject:
  assumes "guardian_release_context x1 x2 = Inr b" "guardian_release_context y1 y2 = Inr b"
  shows "x1 = y1 \<and> x2 = y2"
  using assms unfolding guardian_release_context_def
  by (auto simp: transcript_ok codec split: if_splits)

lemma owner_cancel_inject:
  assumes "owner_cancel x1 = Inr b" "owner_cancel y1 = Inr b"
  shows "x1 \<lparr> occ_owner_signature := [] \<rparr> = y1 \<lparr> occ_owner_signature := [] \<rparr>"
  using assms unfolding owner_cancel_def
  by (auto simp: transcript_ok codec split: if_splits intro!: OwnerCancelCertificate.equality)

lemma owner_cancel_ack_inject:
  assumes "owner_cancel_ack x1 = Inr b" "owner_cancel_ack y1 = Inr b"
  shows "x1 \<lparr> oca_guardian_signature := [] \<rparr> = y1 \<lparr> oca_guardian_signature := [] \<rparr>"
  using assms unfolding owner_cancel_ack_def
  by (auto simp: transcript_ok codec split: if_splits intro!: OwnerCancelAck.equality)

lemma release_vote_inject:
  assumes "release_vote x1 = Inr b" "release_vote y1 = Inr b"
  shows "x1 \<lparr> rv_signer_signature := [] \<rparr> = y1 \<lparr> rv_signer_signature := [] \<rparr>"
  using assms unfolding release_vote_def
  by (auto simp: transcript_ok codec split: if_splits intro!: ReleaseVote.equality)

lemma guardian_contribution_inject:
  assumes "guardian_contribution x1 = Inr b" "guardian_contribution y1 = Inr b"
  shows "x1 \<lparr> gc_guardian_signature := [] \<rparr> = y1 \<lparr> gc_guardian_signature := [] \<rparr>"
  using assms unfolding guardian_contribution_def
  by (auto simp: transcript_ok codec split: if_splits intro!: GuardianContribution.equality AeadCiphertext.equality)

lemma guardian_leaf_inject:
  assumes "guardian_leaf x1 x2 x3 x4 x5 = Inr b" "guardian_leaf y1 y2 y3 y4 y5 = Inr b"
  shows "x1 = y1 \<and> x2 = y2 \<and> x3 = y3 \<and> x4 = y4 \<and> x5 = y5"
  using assms unfolding guardian_leaf_def
  by (auto simp: transcript_ok codec split: if_splits)

lemma guardian_share_context_inject:
  assumes "guardian_share_context x1 x2 x3 = Inr b" "guardian_share_context y1 y2 y3 = Inr b"
  shows "x1 = y1 \<and> x2 = y2 \<and> x3 = y3"
  using assms unfolding guardian_share_context_def
  by (auto simp: transcript_ok codec split: if_splits)

lemma payload_context_inject:
  assumes "payload_context x1 x2 = Inr b" "payload_context y1 y2 = Inr b"
  shows "x1 = y1 \<and> x2 = y2"
  using assms unfolding payload_context_def
  by (auto simp: transcript_ok codec split: if_splits)

lemma node_provision_context_inject:
  assumes "node_provision_context x1 x2 = Inr b" "node_provision_context y1 y2 = Inr b"
  shows "x1 = y1 \<and> x2 = y2"
  using assms unfolding node_provision_context_def
  by (auto simp: transcript_ok codec split: if_splits)

lemma mailbox_transport_context_inject:
  assumes "mailbox_transport_context x1 x2 = Inr b" "mailbox_transport_context y1 y2 = Inr b"
  shows "x1 = y1 \<and> x2 = y2"
  using assms unfolding mailbox_transport_context_def
  by (auto simp: transcript_ok codec split: if_splits)

lemma guardian_roster_v3_inject:
  assumes "guardian_roster_v3 x1 = Inr b" "guardian_roster_v3 y1 = Inr b"
  shows "x1 = y1"
  using assms unfolding guardian_roster_v3_def
  by (auto simp: transcript_ok codec split: if_splits)

lemma prepared_record_leaf_v3_inject:
  assumes "prepared_record_leaf_v3 x1 = Inr b" "prepared_record_leaf_v3 y1 = Inr b"
  shows "x1 = y1"
  using assms unfolding prepared_record_leaf_v3_def
  by (auto simp: transcript_ok codec split: if_splits intro!: PreparedRecordLeaf.equality)

lemma rotation_intent_inject:
  assumes "rotation_intent x1 = Inr b" "rotation_intent y1 = Inr b"
  shows "x1 = y1"
  using assms unfolding rotation_intent_def
  by (auto simp: transcript_ok codec split: if_splits intro!: RotationIntent.equality)

lemma signer_rotation_intent_contribution_inject:
  assumes "signer_rotation_intent_contribution x1 = Inr b" "signer_rotation_intent_contribution y1 = Inr b"
  shows "x1 \<lparr> sric_signer_signature := [] \<rparr> = y1 \<lparr> sric_signer_signature := [] \<rparr>"
  using assms unfolding signer_rotation_intent_contribution_def
  by (auto simp: transcript_ok codec split: if_splits intro!: SignerRotationIntentContribution.equality)

lemma rotation_intent_share_context_v3_inject:
  assumes "rotation_intent_share_context_v3 x1 x2 x3 = Inr b" "rotation_intent_share_context_v3 y1 y2 y3 = Inr b"
  shows "x1 = y1 \<and> x2 = y2 \<and> x3 = y3"
  using assms unfolding rotation_intent_share_context_v3_def
  by (auto simp: transcript_ok codec split: if_splits)

lemma rotation_plan_inject:
  assumes "rotation_plan x1 = Inr b" "rotation_plan y1 = Inr b"
  shows "x1 = y1"
  using assms unfolding rotation_plan_def
  by (auto simp: transcript_ok codec split: if_splits intro!: RotationPlan.equality)

lemma signer_rotation_begin_vote_inject:
  assumes "signer_rotation_begin_vote x1 = Inr b" "signer_rotation_begin_vote y1 = Inr b"
  shows "x1 \<lparr> srbv_signer_signature := [] \<rparr> = y1 \<lparr> srbv_signer_signature := [] \<rparr>"
  using assms unfolding signer_rotation_begin_vote_def begin_vote_into_def
  by (auto simp: transcript_ok codec split: if_splits intro!: SignerRotationBeginVote.equality)

lemma begin_rotation_certificate_inject:
  assumes "begin_rotation_certificate x1 = Inr b" "begin_rotation_certificate y1 = Inr b"
  shows "x1 = y1"
  using assms unfolding begin_rotation_certificate_def
  by (auto simp: transcript_ok codec split: if_splits intro!: BeginRotationCertificate.equality)

lemma owner_rotation_cancel_certificate_inject:
  assumes "owner_rotation_cancel_certificate x1 = Inr b" "owner_rotation_cancel_certificate y1 = Inr b"
  shows "x1 \<lparr> orcc_owner_signature := [] \<rparr> = y1 \<lparr> orcc_owner_signature := [] \<rparr>"
  using assms unfolding owner_rotation_cancel_certificate_def
  by (auto simp: transcript_ok codec split: if_splits intro!: OwnerRotationCancelCertificate.equality)

lemma owner_rotation_cancel_ack_inject:
  assumes "owner_rotation_cancel_ack x1 = Inr b" "owner_rotation_cancel_ack y1 = Inr b"
  shows "x1 \<lparr> orca_guardian_signature := [] \<rparr> = y1 \<lparr> orca_guardian_signature := [] \<rparr>"
  using assms unfolding owner_rotation_cancel_ack_def
  by (auto simp: transcript_ok codec split: if_splits intro!: OwnerRotationCancelAck.equality)

lemma signer_rotation_release_vote_inject:
  assumes "signer_rotation_release_vote x1 = Inr b" "signer_rotation_release_vote y1 = Inr b"
  shows "x1 \<lparr> srrv_signer_signature := [] \<rparr> = y1 \<lparr> srrv_signer_signature := [] \<rparr>"
  using assms unfolding signer_rotation_release_vote_def release_vote_into_def
  by (auto simp: transcript_ok codec split: if_splits intro!: SignerRotationReleaseVote.equality)

lemma rotation_release_certificate_inject:
  assumes "rotation_release_certificate x1 = Inr b" "rotation_release_certificate y1 = Inr b"
  shows "x1 = y1"
  using assms unfolding rotation_release_certificate_def
  by (auto simp: transcript_ok codec split: if_splits intro!: RotationReleaseCertificate.equality)

lemma old_share_unlock_grant_inject:
  assumes "old_share_unlock_grant x1 = Inr b" "old_share_unlock_grant y1 = Inr b"
  shows "x1 = y1"
  using assms unfolding old_share_unlock_grant_def
  by (auto simp: transcript_ok codec split: if_splits intro!: OldShareUnlockGrant.equality)

lemma old_share_unlock_grant_payload_context_inject:
  assumes "old_share_unlock_grant_payload_context x1 x2 = Inr b" "old_share_unlock_grant_payload_context y1 y2 = Inr b"
  shows "x1 \<lparr> osug_encrypted_unwrap_key := no_sealed, osug_encrypted_fragment_key := no_sealed \<rparr> = y1 \<lparr> osug_encrypted_unwrap_key := no_sealed, osug_encrypted_fragment_key := no_sealed \<rparr> \<and> x2 = y2"
  using assms unfolding old_share_unlock_grant_payload_context_def
  by (auto simp: transcript_ok codec split: if_splits intro!: OldShareUnlockGrant.equality)

lemma new_share_wrap_grant_inject:
  assumes "new_share_wrap_grant x1 = Inr b" "new_share_wrap_grant y1 = Inr b"
  shows "x1 = y1"
  using assms unfolding new_share_wrap_grant_def
  by (auto simp: transcript_ok codec split: if_splits intro!: NewShareWrapGrant.equality)

lemma new_share_wrap_grant_payload_context_inject:
  assumes "new_share_wrap_grant_payload_context x1 x2 = Inr b" "new_share_wrap_grant_payload_context y1 y2 = Inr b"
  shows "x1 \<lparr> nswg_encrypted_wrap_key := no_sealed, nswg_encrypted_fragment_key := no_sealed \<rparr> = y1 \<lparr> nswg_encrypted_wrap_key := no_sealed, nswg_encrypted_fragment_key := no_sealed \<rparr> \<and> x2 = y2"
  using assms unfolding new_share_wrap_grant_payload_context_def
  by (auto simp: transcript_ok codec split: if_splits intro!: NewShareWrapGrant.equality)

lemma dpss_protocol_message_inject:
  assumes "dpss_protocol_message x1 = Inr b" "dpss_protocol_message y1 = Inr b"
  shows "x1 \<lparr> dpm_sender_signature := [] \<rparr> = y1 \<lparr> dpm_sender_signature := [] \<rparr>"
  using assms unfolding dpss_protocol_message_def
  by (auto simp: transcript_ok codec split: if_splits intro!: DpssProtocolMessage.equality)

lemma ciphertext_fragment_contribution_inject:
  assumes "ciphertext_fragment_contribution x1 = Inr b" "ciphertext_fragment_contribution y1 = Inr b"
  shows "x1 \<lparr> cfc_guardian_signature := [] \<rparr> = y1 \<lparr> cfc_guardian_signature := [] \<rparr>"
  using assms unfolding ciphertext_fragment_contribution_def
  by (auto simp: transcript_ok codec split: if_splits intro!: CiphertextFragmentContribution.equality)

lemma new_guardian_prepared_ack_inject:
  assumes "new_guardian_prepared_ack x1 = Inr b" "new_guardian_prepared_ack y1 = Inr b"
  shows "x1 \<lparr> ngpa_guardian_signature := [] \<rparr> = y1 \<lparr> ngpa_guardian_signature := [] \<rparr>"
  using assms unfolding new_guardian_prepared_ack_def prepared_ack_into_def
  by (auto simp: transcript_ok codec split: if_splits intro!: NewGuardianPreparedAck.equality)

lemma old_guardian_handoff_ack_inject:
  assumes "old_guardian_handoff_ack x1 = Inr b" "old_guardian_handoff_ack y1 = Inr b"
  shows "x1 \<lparr> ogha_guardian_signature := [] \<rparr> = y1 \<lparr> ogha_guardian_signature := [] \<rparr>"
  using assms unfolding old_guardian_handoff_ack_def handoff_ack_into_def
  by (auto simp: transcript_ok codec split: if_splits intro!: OldGuardianHandoffAck.equality)

lemma rotation_ready_certificate_inject:
  assumes "rotation_ready_certificate x1 = Inr b" "rotation_ready_certificate y1 = Inr b"
  shows "x1 = y1"
  using assms unfolding rotation_ready_certificate_def
  by (auto simp: transcript_ok codec split: if_splits intro!: RotationReadyCertificate.equality)

lemma signer_rotation_activate_vote_inject:
  assumes "signer_rotation_activate_vote x1 = Inr b" "signer_rotation_activate_vote y1 = Inr b"
  shows "x1 \<lparr> srav_signer_signature := [] \<rparr> = y1 \<lparr> srav_signer_signature := [] \<rparr>"
  using assms unfolding signer_rotation_activate_vote_def activate_vote_into_def
  by (auto simp: transcript_ok codec split: if_splits intro!: SignerRotationActivateVote.equality)

lemma rotation_activate_certificate_inject:
  assumes "rotation_activate_certificate x1 = Inr b" "rotation_activate_certificate y1 = Inr b"
  shows "x1 = y1"
  using assms unfolding rotation_activate_certificate_def
  by (auto simp: transcript_ok codec split: if_splits intro!: RotationActivateCertificate.equality)

lemma witness_activation_ack_inject:
  assumes "witness_activation_ack x1 = Inr b" "witness_activation_ack y1 = Inr b"
  shows "x1 \<lparr> waa_witness_signature := [] \<rparr> = y1 \<lparr> waa_witness_signature := [] \<rparr>"
  using assms unfolding witness_activation_ack_def witness_ack_into_def
  by (auto simp: transcript_ok codec split: if_splits intro!: WitnessActivationAck.equality)

lemma witness_rotation_cancel_ack_inject:
  assumes "witness_rotation_cancel_ack x1 = Inr b" "witness_rotation_cancel_ack y1 = Inr b"
  shows "x1 \<lparr> wrca_witness_signature := [] \<rparr> = y1 \<lparr> wrca_witness_signature := [] \<rparr>"
  using assms unfolding witness_rotation_cancel_ack_def
  by (auto simp: transcript_ok codec split: if_splits intro!: WitnessRotationCancelAck.equality)

lemma epoch_activation_qc_inject:
  assumes "epoch_activation_qc x1 = Inr b" "epoch_activation_qc y1 = Inr b"
  shows "x1 = y1"
  using assms unfolding epoch_activation_qc_def
  by (auto simp: transcript_ok codec split: if_splits intro!: EpochActivationQc.equality)

lemma epoch_read_challenge_inject:
  assumes "epoch_read_challenge x1 = Inr b" "epoch_read_challenge y1 = Inr b"
  shows "x1 = y1"
  using assms unfolding epoch_read_challenge_def
  by (auto simp: transcript_ok codec split: if_splits intro!: EpochReadChallenge.equality)

lemma witness_epoch_read_response_inject:
  assumes "witness_epoch_read_response x1 = Inr b" "witness_epoch_read_response y1 = Inr b"
  shows "x1 \<lparr> werr_witness_signature := [] \<rparr> = y1 \<lparr> werr_witness_signature := [] \<rparr>"
  using assms unfolding witness_epoch_read_response_def
  by (auto simp: transcript_ok codec split: if_splits intro!: WitnessEpochReadResponse.equality)

lemma retirement_notice_inject:
  assumes "retirement_notice x1 = Inr b" "retirement_notice y1 = Inr b"
  shows "x1 = y1"
  using assms unfolding retirement_notice_def
  by (auto simp: transcript_ok codec split: if_splits intro!: RetirementNotice.equality)

lemma retirement_ack_inject:
  assumes "retirement_ack x1 = Inr b" "retirement_ack y1 = Inr b"
  shows "x1 \<lparr> rta_guardian_signature := [] \<rparr> = y1 \<lparr> rta_guardian_signature := [] \<rparr>"
  using assms unfolding retirement_ack_def
  by (auto simp: transcript_ok codec split: if_splits intro!: RetirementAck.equality)

lemma abort_rotation_certificate_inject:
  assumes "abort_rotation_certificate x1 = Inr b" "abort_rotation_certificate y1 = Inr b"
  shows "x1 = y1"
  using assms unfolding abort_rotation_certificate_def
  by (auto simp: transcript_ok codec split: if_splits intro!: AbortRotationCertificate.equality)

lemma signer_rotation_abort_vote_inject:
  assumes "signer_rotation_abort_vote x1 = Inr b" "signer_rotation_abort_vote y1 = Inr b"
  shows "x1 \<lparr> sabv_signer_signature := [] \<rparr> = y1 \<lparr> sabv_signer_signature := [] \<rparr>"
  using assms unfolding signer_rotation_abort_vote_def signer_rotation_abort_vote_into_def
  by (auto simp: transcript_ok codec split: if_splits intro!: SignerRotationAbortVote.equality)

lemma recovery_request_digest_v3_inject:
  assumes "recovery_request_digest_v3 x1 = Inr b" "recovery_request_digest_v3 y1 = Inr b"
  shows "x1 = y1"
  using assms unfolding recovery_request_digest_v3_def
  by (auto simp: transcript_ok codec split: if_splits)

lemma recovery_authorization_share_context_v3_inject:
  assumes "recovery_authorization_share_context_v3 x1 x2 = Inr b" "recovery_authorization_share_context_v3 y1 y2 = Inr b"
  shows "x1 = y1 \<and> x2 = y2"
  using assms unfolding recovery_authorization_share_context_v3_def
  by (auto simp: transcript_ok codec split: if_splits)

lemma signer_recovery_contribution_v3_inject:
  assumes "signer_recovery_contribution_v3 x1 = Inr b" "signer_recovery_contribution_v3 y1 = Inr b"
  shows "x1 \<lparr> sc3_signer_signature := [] \<rparr> = y1 \<lparr> sc3_signer_signature := [] \<rparr>"
  using assms unfolding signer_recovery_contribution_v3_def signer_recovery_contribution_into_def
  by (auto simp: transcript_ok codec split: if_splits intro!: SignerRecoveryContributionV3.equality)

lemma begin_recovery_certificate_v3_inject:
  assumes "begin_recovery_certificate_v3 x1 = Inr b" "begin_recovery_certificate_v3 y1 = Inr b"
  shows "x1 = y1"
  using assms unfolding begin_recovery_certificate_v3_def
  by (auto simp: transcript_ok codec split: if_splits intro!: BeginRecoveryCertificateV3.equality)

lemma signer_recovery_release_vote_v3_inject:
  assumes "signer_recovery_release_vote_v3 x1 = Inr b" "signer_recovery_release_vote_v3 y1 = Inr b"
  shows "x1 \<lparr> rv3_signer_signature := [] \<rparr> = y1 \<lparr> rv3_signer_signature := [] \<rparr>"
  using assms unfolding signer_recovery_release_vote_v3_def signer_recovery_release_vote_into_def
  by (auto simp: transcript_ok codec split: if_splits intro!: SignerRecoveryReleaseVoteV3.equality)

lemma recovery_release_certificate_v3_inject:
  assumes "recovery_release_certificate_v3 x1 = Inr b" "recovery_release_certificate_v3 y1 = Inr b"
  shows "x1 = y1"
  using assms unfolding recovery_release_certificate_v3_def
  by (auto simp: transcript_ok codec split: if_splits intro!: RecoveryReleaseCertificateV3.equality)

lemma owner_recovery_cancel_certificate_v3_inject:
  assumes "owner_recovery_cancel_certificate_v3 x1 = Inr b" "owner_recovery_cancel_certificate_v3 y1 = Inr b"
  shows "x1 \<lparr> occ3_owner_signature := [] \<rparr> = y1 \<lparr> occ3_owner_signature := [] \<rparr>"
  using assms unfolding owner_recovery_cancel_certificate_v3_def
  by (auto simp: transcript_ok codec split: if_splits intro!: OwnerRecoveryCancelCertificateV3.equality)

lemma owner_recovery_cancel_ack_v3_inject:
  assumes "owner_recovery_cancel_ack_v3 x1 = Inr b" "owner_recovery_cancel_ack_v3 y1 = Inr b"
  shows "x1 \<lparr> oca3_guardian_signature := [] \<rparr> = y1 \<lparr> oca3_guardian_signature := [] \<rparr>"
  using assms unfolding owner_recovery_cancel_ack_v3_def
  by (auto simp: transcript_ok codec split: if_splits intro!: OwnerRecoveryCancelAckV3.equality)

lemma guardian_recovery_contribution_v3_inject:
  assumes "guardian_recovery_contribution_v3 x1 = Inr b" "guardian_recovery_contribution_v3 y1 = Inr b"
  shows "x1 \<lparr> gc3_guardian_signature := [] \<rparr> = y1 \<lparr> gc3_guardian_signature := [] \<rparr>"
  using assms unfolding guardian_recovery_contribution_v3_def
  by (auto simp: transcript_ok codec split: if_splits intro!: GuardianRecoveryContributionV3.equality AeadCiphertext.equality)

lemma guardian_share_context_v3_inject:
  assumes "guardian_share_context_v3 x1 x2 = Inr b" "guardian_share_context_v3 y1 y2 = Inr b"
  shows "x1 = y1 \<and> x2 = y2"
  using assms unfolding guardian_share_context_v3_def
  by (auto simp: transcript_ok codec split: if_splits)

lemma guardian_fragment_context_v3_inject:
  assumes "guardian_fragment_context_v3 x1 x2 x3 = Inr b" "guardian_fragment_context_v3 y1 y2 y3 = Inr b"
  shows "x1 = y1 \<and> x2 = y2 \<and> x3 = y3"
  using assms unfolding guardian_fragment_context_v3_def
  by (auto simp: transcript_ok codec split: if_splits)

lemma descriptor_context_v3_inject:
  assumes "descriptor_context_v3 x1 = Inr b" "descriptor_context_v3 y1 = Inr b"
  shows "x1 = y1"
  using assms unfolding descriptor_context_v3_def
  by (auto simp: transcript_ok codec split: if_splits)

lemma config_capsule_body_v3_inject:
  assumes "config_capsule_body_v3 x1 = Inr b" "config_capsule_body_v3 y1 = Inr b"
  shows "x1 \<lparr> cc3_capsule_hash := 0, cc3_activation_certificate := None, cc3_activation_qc := None \<rparr> = y1 \<lparr> cc3_capsule_hash := 0, cc3_activation_certificate := None, cc3_activation_qc := None \<rparr>"
  using assms unfolding config_capsule_body_v3_def
  by (auto simp: transcript_ok codec split: if_splits intro!: ConfigCapsuleV3.equality AeadCiphertext.equality)

lemma guardian_policy_body_v3_inject:
  assumes "guardian_policy_body_v3 x1 = Inr b" "guardian_policy_body_v3 y1 = Inr b"
  shows "x1 \<lparr> gp3_epoch_state := Prepared, gp3_guardian_material_root := 0, gp3_activation_qc_hash := None, gp3_drain_deadline := None \<rparr> = y1 \<lparr> gp3_epoch_state := Prepared, gp3_guardian_material_root := 0, gp3_activation_qc_hash := None, gp3_drain_deadline := None \<rparr>"
  using assms unfolding guardian_policy_body_v3_def
  by (auto simp: transcript_ok codec split: if_splits intro!: GuardianPolicyV3.equality)

lemma payload_context_v3_inject:
  assumes "payload_context_v3 x1 x2 = Inr b" "payload_context_v3 y1 y2 = Inr b"
  shows "x1 = y1 \<and> x2 = y2"
  using assms unfolding payload_context_v3_def
  by (auto simp: transcript_ok codec split: if_splits)

lemma custody_challenge_inject:
  assumes "custody_challenge x1 = Inr b" "custody_challenge y1 = Inr b"
  shows "x1 = y1"
  using assms unfolding custody_challenge_def
  by (auto simp: transcript_ok codec split: if_splits intro!: CustodyChallenge.equality)

lemma custody_response_inject:
  assumes "custody_response x1 = Inr b" "custody_response y1 = Inr b"
  shows "x1 \<lparr> crs_guardian_signature := [] \<rparr> = y1 \<lparr> crs_guardian_signature := [] \<rparr>"
  using assms unfolding custody_response_def
  by (auto simp: transcript_ok codec split: if_splits intro!: CustodyResponse.equality)

section \<open>Domain separation\<close>

lemma lp_literal: "length s \<le> 16777216 \<Longrightarrow> length t \<le> 16777216 \<Longrightarrow>
    lp (as_bytes s) @ r = lp (as_bytes t) @ r' \<longleftrightarrow> s = t \<and> r = r'"
  by (simp add: lp_split)

lemma request_doc_prefix:
  "request_doc_transcript d = Inr b \<Longrightarrow> \<exists>r. b = lp (as_bytes (request_doc_domain d)) @ r"
  by (cases d) (auto simp: transcript_ok recovery_request_def signer_approval_def signer_leaf_def request_digest_preimage_def descriptor_context_def recipient_share_context_def guardian_release_context_def owner_cancel_def owner_cancel_ack_def release_vote_def guardian_contribution_def guardian_leaf_def guardian_share_context_def payload_context_def node_provision_context_def mailbox_transport_context_def split: if_splits)

lemma request_doc_domain_short: "length (request_doc_domain d) \<le> 16777216"
  by (cases d) simp_all

lemmas request_doc_injects =
  recovery_request_inject
  signer_approval_inject
  signer_leaf_inject
  request_digest_preimage_inject
  descriptor_context_inject
  recipient_share_context_inject
  guardian_release_context_inject
  owner_cancel_inject
  owner_cancel_ack_inject
  release_vote_inject
  guardian_contribution_inject
  guardian_leaf_inject
  guardian_share_context_inject
  payload_context_inject
  node_provision_context_inject
  mailbox_transport_context_inject

lemma request_doc_inject:
  assumes "request_doc_transcript d = Inr b" "request_doc_transcript e = Inr b" "request_doc_domain d = request_doc_domain e"
  shows "request_doc_unsigned d = request_doc_unsigned e"
  using assms by (cases d; cases e) (auto dest: request_doc_injects)

lemma plan_doc_prefix:
  "plan_doc_transcript d = Inr b \<Longrightarrow> \<exists>r. b = lp (as_bytes (plan_doc_domain d)) @ r"
  by (cases d) (auto simp: transcript_ok guardian_roster_v3_def prepared_record_leaf_v3_def rotation_intent_def signer_rotation_intent_contribution_def rotation_intent_share_context_v3_def rotation_plan_def signer_rotation_begin_vote_def begin_rotation_certificate_def owner_rotation_cancel_certificate_def owner_rotation_cancel_ack_def signer_rotation_release_vote_def rotation_release_certificate_def old_share_unlock_grant_def old_share_unlock_grant_payload_context_def new_share_wrap_grant_def new_share_wrap_grant_payload_context_def dpss_protocol_message_def split: if_splits)

lemma plan_doc_domain_short: "length (plan_doc_domain d) \<le> 16777216"
  by (cases d) simp_all

lemmas plan_doc_injects =
  guardian_roster_v3_inject
  prepared_record_leaf_v3_inject
  rotation_intent_inject
  signer_rotation_intent_contribution_inject
  rotation_intent_share_context_v3_inject
  rotation_plan_inject
  signer_rotation_begin_vote_inject
  begin_rotation_certificate_inject
  owner_rotation_cancel_certificate_inject
  owner_rotation_cancel_ack_inject
  signer_rotation_release_vote_inject
  rotation_release_certificate_inject
  old_share_unlock_grant_inject
  old_share_unlock_grant_payload_context_inject
  new_share_wrap_grant_inject
  new_share_wrap_grant_payload_context_inject
  dpss_protocol_message_inject

lemma plan_doc_inject:
  assumes "plan_doc_transcript d = Inr b" "plan_doc_transcript e = Inr b" "plan_doc_domain d = plan_doc_domain e"
  shows "plan_doc_unsigned d = plan_doc_unsigned e"
  using assms by (cases d; cases e) (auto dest: plan_doc_injects)

lemma epoch_doc_prefix:
  "epoch_doc_transcript d = Inr b \<Longrightarrow> \<exists>r. b = lp (as_bytes (epoch_doc_domain d)) @ r"
  by (cases d) (auto simp: transcript_ok ciphertext_fragment_contribution_def new_guardian_prepared_ack_def old_guardian_handoff_ack_def rotation_ready_certificate_def signer_rotation_activate_vote_def rotation_activate_certificate_def witness_activation_ack_def witness_rotation_cancel_ack_def epoch_activation_qc_def epoch_read_challenge_def witness_epoch_read_response_def retirement_notice_def retirement_ack_def abort_rotation_certificate_def signer_rotation_abort_vote_def split: if_splits)

lemma epoch_doc_domain_short: "length (epoch_doc_domain d) \<le> 16777216"
  by (cases d) simp_all

lemmas epoch_doc_injects =
  ciphertext_fragment_contribution_inject
  new_guardian_prepared_ack_inject
  old_guardian_handoff_ack_inject
  rotation_ready_certificate_inject
  signer_rotation_activate_vote_inject
  rotation_activate_certificate_inject
  witness_activation_ack_inject
  witness_rotation_cancel_ack_inject
  epoch_activation_qc_inject
  epoch_read_challenge_inject
  witness_epoch_read_response_inject
  retirement_notice_inject
  retirement_ack_inject
  abort_rotation_certificate_inject
  signer_rotation_abort_vote_inject

lemma epoch_doc_inject:
  assumes "epoch_doc_transcript d = Inr b" "epoch_doc_transcript e = Inr b" "epoch_doc_domain d = epoch_doc_domain e"
  shows "epoch_doc_unsigned d = epoch_doc_unsigned e"
  using assms by (cases d; cases e) (auto dest: epoch_doc_injects)

lemma epoch_recovery_doc_prefix:
  "epoch_recovery_doc_transcript d = Inr b \<Longrightarrow> \<exists>r. b = lp (as_bytes (epoch_recovery_doc_domain d)) @ r"
  by (cases d) (auto simp: transcript_ok recovery_request_v3_def recovery_request_digest_v3_def recovery_authorization_share_context_v3_def signer_recovery_contribution_v3_def begin_recovery_certificate_v3_def signer_recovery_release_vote_v3_def recovery_release_certificate_v3_def owner_recovery_cancel_certificate_v3_def owner_recovery_cancel_ack_v3_def guardian_recovery_contribution_v3_def guardian_share_context_v3_def guardian_fragment_context_v3_def descriptor_context_v3_def config_capsule_body_v3_def guardian_policy_body_v3_def payload_context_v3_def custody_challenge_def custody_response_def split: if_splits)

lemma epoch_recovery_doc_domain_short: "length (epoch_recovery_doc_domain d) \<le> 16777216"
  by (cases d) simp_all

lemmas epoch_recovery_doc_injects =
  recovery_request_v3_inject
  recovery_request_digest_v3_inject
  recovery_authorization_share_context_v3_inject
  signer_recovery_contribution_v3_inject
  begin_recovery_certificate_v3_inject
  signer_recovery_release_vote_v3_inject
  recovery_release_certificate_v3_inject
  owner_recovery_cancel_certificate_v3_inject
  owner_recovery_cancel_ack_v3_inject
  guardian_recovery_contribution_v3_inject
  guardian_share_context_v3_inject
  guardian_fragment_context_v3_inject
  descriptor_context_v3_inject
  config_capsule_body_v3_inject
  guardian_policy_body_v3_inject
  payload_context_v3_inject
  custody_challenge_inject
  custody_response_inject

lemma epoch_recovery_doc_inject:
  assumes "epoch_recovery_doc_transcript d = Inr b" "epoch_recovery_doc_transcript e = Inr b" "epoch_recovery_doc_domain d = epoch_recovery_doc_domain e"
  shows "epoch_recovery_doc_unsigned d = epoch_recovery_doc_unsigned e"
  using assms by (cases d; cases e) (auto dest: epoch_recovery_doc_injects)

lemma domains_apart:
  "request_doc_domain a \<noteq> plan_doc_domain b"
  "request_doc_domain a \<noteq> epoch_doc_domain c"
  "request_doc_domain a \<noteq> epoch_recovery_doc_domain d"
  "plan_doc_domain b \<noteq> epoch_doc_domain c"
  "plan_doc_domain b \<noteq> epoch_recovery_doc_domain d"
  "epoch_doc_domain c \<noteq> epoch_recovery_doc_domain d"
  by ((cases a; cases b; simp), (cases a; cases c; simp), (cases a; cases d; simp), (cases b; cases c; simp), (cases b; cases d; simp), (cases c; cases d; simp))

lemma document_prefix:
  "document_transcript d = Inr b \<Longrightarrow> \<exists>r. b = lp (as_bytes (document_domain d)) @ r"
  by (cases d) (simp_all add: request_doc_prefix plan_doc_prefix epoch_doc_prefix epoch_recovery_doc_prefix)

lemma document_domain_short: "length (document_domain d) \<le> 16777216"
  by (cases d) (simp_all add: request_doc_domain_short plan_doc_domain_short epoch_doc_domain_short epoch_recovery_doc_domain_short)

lemma document_same_domain:
  assumes "document_transcript d = Inr b" "document_transcript e = Inr b"
  shows "document_domain d = document_domain e"
  using document_prefix [OF assms(1)] document_prefix [OF assms(2)]
  by (auto simp: lp_literal document_domain_short)

lemma document_transcript_inject:
  assumes "document_transcript d = Inr b" "document_transcript e = Inr b"
  shows "unsigned_document d = unsigned_document e"
  using assms document_same_domain [OF assms]
  by (cases d; cases e)
    (auto dest: request_doc_inject plan_doc_inject epoch_doc_inject epoch_recovery_doc_inject simp: domains_apart domains_apart [symmetric])

lemma request_doc_unsigned_transcript: "request_doc_transcript (request_doc_unsigned d) = request_doc_transcript d"
  by (cases d) (simp_all add: owner_cancel_def owner_cancel_ack_def release_vote_def guardian_contribution_def)

lemma plan_doc_unsigned_transcript: "plan_doc_transcript (plan_doc_unsigned d) = plan_doc_transcript d"
  by (cases d) (simp_all add: signer_rotation_intent_contribution_def signer_rotation_begin_vote_def begin_vote_into_def owner_rotation_cancel_certificate_def owner_rotation_cancel_ack_def signer_rotation_release_vote_def release_vote_into_def old_share_unlock_grant_payload_context_def new_share_wrap_grant_payload_context_def dpss_protocol_message_def)

lemma epoch_doc_unsigned_transcript: "epoch_doc_transcript (epoch_doc_unsigned d) = epoch_doc_transcript d"
  by (cases d) (simp_all add: ciphertext_fragment_contribution_def new_guardian_prepared_ack_def prepared_ack_into_def old_guardian_handoff_ack_def handoff_ack_into_def signer_rotation_activate_vote_def activate_vote_into_def witness_activation_ack_def witness_ack_into_def witness_rotation_cancel_ack_def witness_epoch_read_response_def retirement_ack_def signer_rotation_abort_vote_def signer_rotation_abort_vote_into_def)

lemma epoch_recovery_doc_unsigned_transcript: "epoch_recovery_doc_transcript (epoch_recovery_doc_unsigned d) = epoch_recovery_doc_transcript d"
  by (cases d) (simp_all add: signer_recovery_contribution_v3_def signer_recovery_contribution_into_def signer_recovery_release_vote_v3_def signer_recovery_release_vote_into_def owner_recovery_cancel_certificate_v3_def owner_recovery_cancel_ack_v3_def guardian_recovery_contribution_v3_def config_capsule_body_v3_def guardian_policy_body_v3_def custody_response_def)

lemma unsigned_document_transcript:
  "document_transcript (unsigned_document d) = document_transcript d"
  by (cases d) (simp_all add: request_doc_unsigned_transcript plan_doc_unsigned_transcript epoch_doc_unsigned_transcript epoch_recovery_doc_unsigned_transcript)

section \<open>Properties of the canonical transcripts\<close>

text \<open>C18: canonical transcripts are unambiguous. Over all the kinds of objects of the protocol (both
  versions), a transcript determines the kind of its object and the object itself, up to the
  fields that are deliberately left out (its own signature, a capsule's hash and certificates,
  the mutable fields of a policy, the ciphertexts of a grant in its payload context), and
  those fields never influence it.\<close>

theorem transcripts_unambiguous:
  assumes "document_transcript d = Inr b"
  shows "document_transcript e = Inr b \<longleftrightarrow> unsigned_document d = unsigned_document e"
  using assms document_transcript_inject unsigned_document_transcript by metis

text \<open>Domain separation. Every transcript starts with the length-prefixed tag of its kind of
  object, so two objects of different kinds never have the same transcript.\<close>

theorem transcripts_domain_separated:
  assumes "document_transcript d = Inr b" "document_domain d \<noteq> document_domain e"
  shows "document_transcript e \<noteq> Inr b \<and> (\<exists>r. b = lp (as_bytes (document_domain d)) @ r)"
  using assms document_same_domain document_prefix by metis

definition sample_doc :: "Id32 \<Rightarrow> document" where
  "sample_doc key = Request (Doc_signer_leaf 7 key)"

lemma sample_doc_ok: "\<exists>b. document_transcript (sample_doc key) = Inr b"
  by (simp add: sample_doc_def signer_leaf_def transcript_ok)

theorem transcripts_unambiguous_witness:
  "\<exists>b. document_transcript (sample_doc 1) = Inr b \<and> document_transcript (sample_doc 2) \<noteq> Inr b"
proof -
  obtain b where b: "document_transcript (sample_doc 1) = Inr b" using sample_doc_ok by blast
  from transcripts_unambiguous [OF b, of "sample_doc 2"] b show ?thesis
    by (auto simp: sample_doc_def)
qed

theorem transcripts_domain_separated_witness:
  "\<exists>b. document_transcript (sample_doc 1) = Inr b \<and>
     document_transcript (Request (Doc_payload_context 1 2)) \<noteq> Inr b"
proof -
  obtain b where b: "document_transcript (sample_doc 1) = Inr b" using sample_doc_ok by blast
  from transcripts_domain_separated [OF b, of "Request (Doc_payload_context 1 2)"] b show ?thesis
    by (simp add: sample_doc_def)
qed

end
