(* ===== verification/GP_Storage.thy ===== *)
theory GP_Storage
  imports GP_Types GP_Registers
begin

text \<open>
  The protocol-2 stores of \<open>gp-storage/src/lib.rs\<close>: the signer's replay state, the guardian's
  records and the configuration store. \<open>hex::encode\<close> is a parameter \<open>hx\<close> of the operations
  that build map keys with it.
\<close>

section \<open>Data\<close>

datatype StorageError =
    NotFound
  | StaleVersion
  | WrongConfiguration
  | Replay
  | Conflict
  | InvalidEpoch
  | NotDurable
  | NoPreparedSuccessor
  | AlreadyActivated
  | InjectedFailure

record SignerState =
  ss_signer_id :: u16
  ss_mailbox :: string
  ss_authorization_share :: "byte list"
  ss_signing_seed :: Id32
  ss_signing_public_key :: arr32
  ss_membership_proof :: "byte list"
  ss_policy :: SignerPolicy
  ss_seen_requests :: "(string, Id32) btree_map"
  ss_seen_nonces :: "Id32 set"

record GuardianState =
  gs_guardian_id :: u16
  gs_mailbox :: string
  gs_signing_seed :: Id32
  gs_records :: "(Id32, GuardianRecord) btree_map"

record ConfigStore =
  cs_capsules :: "(Id32, ConfigCapsule) btree_map"

section \<open>Operations\<close>

definition validate_config :: "SignerState \<Rightarrow> Id32 \<Rightarrow> u64 \<Rightarrow> (StorageError, unit) result" where
  "validate_config self config_id config_version =
    (if sp_config_id (ss_policy self) \<noteq> config_id \<or> sp_config_version (ss_policy self) \<noteq> config_version
     then Inl WrongConfiguration
     else Inr ())"

text \<open>The nonce is inserted only when the request key is new.\<close>

definition observe_request ::
    "(Id32 \<Rightarrow> string) \<Rightarrow> Id32 \<Rightarrow> u64 \<Rightarrow> Id32 \<Rightarrow> Id32 \<Rightarrow> Id32 \<Rightarrow> SignerState \<Rightarrow>
     (StorageError, unit) result \<times> SignerState"
where
  "observe_request hx config_id config_version request_id nonce request_digest self =
    (case validate_config self config_id config_version of
       Inl e \<Rightarrow> (Inl e, self)
     | Inr _ \<Rightarrow>
       let request_key = hx request_id in
       if bt_contains_key (ss_seen_requests self) request_key \<or> nonce \<in> ss_seen_nonces self
       then (Inl Replay, self)
       else
         (Inr (),
          self \<lparr> ss_seen_nonces := insert nonce (ss_seen_nonces self),
                 ss_seen_requests := bt_insert request_key request_digest (ss_seen_requests self) \<rparr>))"

definition GuardianState_new :: "u16 \<Rightarrow> string \<Rightarrow> Id32 \<Rightarrow> GuardianState" where
  "GuardianState_new guardian_id mailbox signing_seed =
     \<lparr> gs_guardian_id = guardian_id,
       gs_mailbox = mailbox,
       gs_signing_seed = signing_seed,
       gs_records = [] \<rparr>"

definition GuardianState_insert :: "GuardianRecord \<Rightarrow> GuardianState \<Rightarrow> GuardianState" where
  "GuardianState_insert rec self =
     self \<lparr> gs_records := bt_insert (grec_opaque_slot_id rec) rec (gs_records self) \<rparr>"

definition GuardianState_get :: "GuardianState \<Rightarrow> Id32 \<Rightarrow> (StorageError, GuardianRecord) result" where
  "GuardianState_get self slot = ok_or (bt_get (gs_records self) slot) NotFound"

definition ConfigStore_put :: "ConfigCapsule \<Rightarrow> ConfigStore \<Rightarrow> (StorageError, unit) result \<times> ConfigStore" where
  "ConfigStore_put capsule self =
    (case bt_get (cs_capsules self) (cc_config_id capsule) of
       Some existing \<Rightarrow>
         (if cc_config_version capsule \<le> cc_config_version existing then (Inl StaleVersion, self)
          else (Inr (), self \<lparr> cs_capsules := bt_insert (cc_config_id capsule) capsule (cs_capsules self) \<rparr>))
     | None \<Rightarrow>
         (Inr (), self \<lparr> cs_capsules := bt_insert (cc_config_id capsule) capsule (cs_capsules self) \<rparr>))"

definition ConfigStore_get :: "ConfigStore \<Rightarrow> Id32 \<Rightarrow> (StorageError, ConfigCapsule) result" where
  "ConfigStore_get self config_id = ok_or (bt_get (cs_capsules self) config_id) NotFound"

section \<open>Lemmas\<close>

text \<open>One call of \<open>observe_request\<close>: configuration, version, request, nonce, digest.\<close>

type_synonym observation = "Id32 \<times> u64 \<times> Id32 \<times> Id32 \<times> Id32"

fun observe_exec :: "(Id32 \<Rightarrow> string) \<Rightarrow> observation \<Rightarrow> SignerState \<Rightarrow> (StorageError, unit) result \<times> SignerState" where
  "observe_exec hx (c, v, i, n, d) s = observe_request hx c v i n d s"

interpretation ss_nonce: stable_machine "observe_exec hx" "\<lambda>s. n \<in> ss_seen_nonces s" for hx n
proof unfold_locales
  fix s op r s'
  assume "n \<in> ss_seen_nonces s" and "observe_exec hx op s = (r, s')"
  then show "n \<in> ss_seen_nonces s'"
    by (cases op) (auto simp: observe_request_def Let_def split: sum.splits if_splits)
qed

interpretation ss_request: stable_machine "observe_exec hx" "\<lambda>s. bt_contains_key (ss_seen_requests s) k" for hx k
proof unfold_locales
  fix s op r s'
  assume "bt_contains_key (ss_seen_requests s) k" and "observe_exec hx op s = (r, s')"
  then show "bt_contains_key (ss_seen_requests s') k"
    by (cases op) (auto simp: observe_request_def Let_def split: sum.splits if_splits)
qed

lemma observe_request_ok:
  "observe_request hx c v i n d s = (Inr u, s') \<Longrightarrow>
     \<not> bt_contains_key (ss_seen_requests s) (hx i) \<and> n \<notin> ss_seen_nonces s \<and>
     bt_contains_key (ss_seen_requests s') (hx i) \<and> n \<in> ss_seen_nonces s' \<and>
     c = sp_config_id (ss_policy s) \<and> v = sp_config_version (ss_policy s)"
  by (auto simp: observe_request_def validate_config_def Let_def split: if_splits)

text \<open>The version a store holds for a configuration, as a monotone register.\<close>

definition holds_version :: "Id32 \<Rightarrow> u64 \<Rightarrow> ConfigStore \<Rightarrow> bool" where
  "holds_version c v s \<longleftrightarrow> (\<exists>cap. bt_get (cs_capsules s) c = Some cap \<and> v \<le> cc_config_version cap)"

interpretation cs_version: stable_machine ConfigStore_put "holds_version c v" for c v
proof unfold_locales
  fix s op r s'
  assume "holds_version c v s" and "ConfigStore_put op s = (r, s')"
  then show "holds_version c v s'"
    by (auto simp: holds_version_def ConfigStore_put_def split: option.splits if_splits)
qed

lemma config_put_ok:
  "ConfigStore_put cap s = (Inr u, s') \<Longrightarrow>
     ConfigStore_get s' (cc_config_id cap) = Inr cap \<and>
     (\<forall>old. bt_get (cs_capsules s) (cc_config_id cap) = Some old \<longrightarrow> cc_config_version old < cc_config_version cap)"
  by (auto simp: ConfigStore_put_def ConfigStore_get_def ok_or_def not_le split: option.splits if_splits)

section \<open>Properties\<close>

text \<open>A signer acts on a recovery request at most once: of two requests it accepts, the request
  identifiers differ (even their hexadecimal keys do) and so do the nonces.\<close>

theorem signer_observes_once:
  assumes "run_log (observe_exec hx) s ops =
      (l1 @ ((c1, v1, i1, n1, d1), Inr ()) # l2 @ ((c2, v2, i2, n2, d2), Inr ()) # l3, t)"
  shows "hx i1 \<noteq> hx i2 \<and> i1 \<noteq> i2 \<and> n1 \<noteq> n2"
proof -
  from run_log_split [OF assms] obtain ops2 u u' where
    1: "observe_request hx c1 v1 i1 n1 d1 u = (Inr (), u')"
    and run: "run_log (observe_exec hx) u' ops2 = (l2 @ ((c2, v2, i2, n2, d2), Inr ()) # l3, t)" by auto
  from run_log_split [OF run] obtain ops3 w w' where
    w: "run_log (observe_exec hx) u' ops3 = (l2, w)"
    and 2: "observe_request hx c2 v2 i2 n2 d2 w = (Inr (), w')" by auto
  from observe_request_ok [OF 1] have "n1 \<in> ss_seen_nonces u'" "bt_contains_key (ss_seen_requests u') (hx i1)"
    by auto
  from ss_nonce.run_stable [OF this(1) w] ss_request.run_stable [OF this(2) w] observe_request_ok [OF 2]
  show ?thesis by auto
qed

definition sample_signer :: SignerState where
  "sample_signer =
     \<lparr> ss_signer_id = 1, ss_mailbox = ''opaque'', ss_authorization_share = [1], ss_signing_seed = 2,
       ss_signing_public_key = 4, ss_membership_proof = [],
       ss_policy = \<lparr> sp_config_id = 5, sp_config_version = 2, sp_signer_set_commitment = 6, sp_signer_threshold = 2 \<rparr>,
       ss_seen_requests = [], ss_seen_nonces = {} \<rparr>"

text \<open>
  A lower-case hexadecimal encoder, the behaviour \<open>hex::encode\<close> documents. It is injective, which
  is all that the stores rely on.
\<close>

definition hex_digit :: "nat \<Rightarrow> char" where
  "hex_digit n = ''0123456789abcdef'' ! n"

definition hex_byte :: "byte \<Rightarrow> string" where
  "hex_byte b = [hex_digit (unat b div 16), hex_digit (unat b mod 16)]"

definition hex_encode :: "Id32 \<Rightarrow> string" where
  "hex_encode v = concat (map hex_byte (bytes32 v))"

lemma hex_digit_inject: "m < 16 \<Longrightarrow> n < 16 \<Longrightarrow> hex_digit m = hex_digit n \<longleftrightarrow> m = n"
  unfolding hex_digit_def by (rule nth_eq_iff_index_eq) simp_all

lemma hex_byte_inject: "hex_byte a = hex_byte b \<longleftrightarrow> a = b"
proof
  assume "hex_byte a = hex_byte b"
  moreover have "unat a < 256" "unat b < 256"
    using unsigned_less [of a, where 'a = nat] unsigned_less [of b, where 'a = nat] by simp_all
  ultimately have "unat a div 16 = unat b div 16" "unat a mod 16 = unat b mod 16"
    by (simp_all add: hex_byte_def hex_digit_inject)
  then have "unat a = unat b" by (metis div_mult_mod_eq)
  then show "a = b" by (simp add: word_unat_eq_iff)
qed simp

lemma hex_concat_inject:
  "length xs = length ys \<Longrightarrow> concat (map hex_byte xs) = concat (map hex_byte ys) \<longleftrightarrow> xs = ys"
proof (induction xs ys rule: list_induct2)
  case (Cons x xs y ys)
  have "hex_byte x @ u = hex_byte y @ v \<longleftrightarrow> x = y \<and> u = v" for u v
    using hex_byte_inject [of x y] by (auto simp: hex_byte_def)
  with Cons.IH show ?case by simp
qed simp

lemma hex_encode_inject [simp]: "hex_encode a = hex_encode b \<longleftrightarrow> a = b"
  by (simp add: hex_encode_def hex_concat_inject)

lemma inj_hex_encode: "inj hex_encode"
  by (simp add: inj_on_def)

theorem signer_observes_once_witness:
  "hex_encode 8 \<noteq> hex_encode 11 \<and> (8 :: Id32) \<noteq> 11 \<and> (9 :: Id32) \<noteq> 10"
proof -
  have "run_log (observe_exec hex_encode) sample_signer [(5, 2, 8, 9, 1), (5, 2, 11, 10, 1)] =
    ([] @ ((5, 2, 8, 9, 1), Inr ()) # [] @ ((5, 2, 11, 10, 1), Inr ()) # [],
     snd (run_log (observe_exec hex_encode) sample_signer [(5, 2, 8, 9, 1), (5, 2, 11, 10, 1)]))"
    by (simp add: observe_request_def validate_config_def sample_signer_def Let_def)
  from signer_observes_once [OF this] show ?thesis .
qed

text \<open>A configuration store never goes back: once it holds some version of a configuration, every
  later capsule it accepts for that configuration is newer, and what it returns is never older.\<close>

theorem config_versions_increase:
  assumes "ConfigStore_put cap s = (Inr (), s0)"
    and "run_log ConfigStore_put s0 ops = (l1 @ (cap', Inr ()) # l2, t)"
    and "cc_config_id cap' = cc_config_id cap"
  shows "cc_config_version cap < cc_config_version cap' \<and>
    (\<exists>cur. ConfigStore_get t (cc_config_id cap) = Inr cur \<and> cc_config_version cap' \<le> cc_config_version cur)"
proof -
  have h0: "holds_version (cc_config_id cap) (cc_config_version cap) s0"
    using config_put_ok [OF assms(1)] by (auto simp: holds_version_def ConfigStore_get_def)
  from run_log_split [OF assms(2)] obtain ops1 ops2 u u' where
    u: "run_log ConfigStore_put s0 ops1 = (l1, u)" "ConfigStore_put cap' u = (Inr (), u')"
      "run_log ConfigStore_put u' ops2 = (l2, t)" by blast
  from cs_version.run_stable [OF h0 u(1)] config_put_ok [OF u(2)] assms(3)
  have less: "cc_config_version cap < cc_config_version cap'" by (auto simp: holds_version_def)
  have "holds_version (cc_config_id cap) (cc_config_version cap') u'"
    using config_put_ok [OF u(2)] assms(3) by (auto simp: holds_version_def ConfigStore_get_def)
  from cs_version.run_stable [OF this u(3)] less show ?thesis
    by (auto simp: holds_version_def ConfigStore_get_def)
qed

definition sample_capsule :: "u64 \<Rightarrow> ConfigCapsule" where
  "sample_capsule v =
     \<lparr> cc_protocol_version = 2, cc_crypto_suite = XWingXChaCha20Poly1305Ed25519, cc_config_id = 1,
       cc_config_version = v, cc_signer_count = 3, cc_signer_threshold = 2, cc_guardian_count = 8,
       cc_guardian_threshold = 5, cc_minimum_recovery_delay = 10, cc_signer_set_commitment = 3,
       cc_owner_cancel_public_key = 4, cc_guardian_material_commitment = 5,
       cc_encrypted_recovery_descriptor = \<lparr> ac_nonce = 6, ac_ciphertext = [7] \<rparr>, cc_max_request_lifetime = 20 \<rparr>"

theorem config_versions_increase_witness:
  "cc_config_version (sample_capsule 3) < cc_config_version (sample_capsule 4)"
proof -
  let ?s = "\<lparr> cs_capsules = [] \<rparr>"
  have p: "ConfigStore_put (sample_capsule 3) ?s = (Inr (), snd (ConfigStore_put (sample_capsule 3) ?s))"
    by (simp add: ConfigStore_put_def)
  have run: "run_log ConfigStore_put (snd (ConfigStore_put (sample_capsule 3) ?s)) [sample_capsule 4] =
    ([] @ (sample_capsule 4, Inr ()) # [],
     snd (run_log ConfigStore_put (snd (ConfigStore_put (sample_capsule 3) ?s)) [sample_capsule 4]))"
    by (simp add: ConfigStore_put_def sample_capsule_def)
  from config_versions_increase [OF p run] show ?thesis by (simp add: sample_capsule_def)
qed

end
