(* ===== verification/GP_Storage_Rotation.thy ===== *)
theory GP_Storage_Rotation
  imports GP_Storage GP_Types_Rotation
begin

text \<open>
  The protocol-3 stores of \<open>gp-storage/src/rotation.rs\<close>: the guardian's epoch store, the
  signer's rotation store and the witness's epoch store. \<open>hex::encode\<close> is the parameter \<open>hx\<close>.
  A method that moves a field out (\<open>take\<close>) and then fails leaves the field empty; the model
  keeps that, and the invariant of the guardian store shows when it cannot happen.
\<close>

section \<open>Data\<close>

record RotationTombstone =
  rt_rotation_id :: Id32
  rt_plan_hash :: Id32
  rt_predecessor_capsule_hash :: Id32
  rt_terminal_state :: RotationState

record DpssSessionJournal =
  dj_rotation_id :: Id32
  dj_plan_hash :: Id32
  dj_session_id :: Id32
  dj_qualified_set_digest :: Id32
  dj_phase :: u16
  dj_next_sequence :: u64
  dj_provider_public_journal :: "byte list"
  dj_encrypted_provider_secret_journal :: AeadCiphertext

record PreparedGuardianEpoch =
  pge_rotation_id :: Id32
  pge_plan_hash :: Id32
  pge_record :: GuardianRecordV3
  pge_durable_write_generation :: u64

record DrainingGuardianEpoch =
  dge_record :: GuardianRecordV3
  dge_capsule_hash :: Id32
  dge_drain_deadline :: u64
  dge_pending_request_ids :: "Id32 set"

record GuardianEpochStore =
  ges_config_id :: Id32
  ges_expected_predecessor :: ConfigRef
  ges_expected_predecessor_capsule_hash :: Id32
  ges_active :: "GuardianRecordV3 option"
  ges_active_capsule_hash :: "Id32 option"
  ges_prepared :: "PreparedGuardianEpoch option"
  ges_draining :: "(u64, DrainingGuardianEpoch) btree_map"
  ges_dpss_journal :: "DpssSessionJournal option"
  ges_rotation_tombstones :: "(string, RotationTombstone) btree_map"
  ges_recovery_cancellation_tombstones :: "(string, Id32) btree_map"
  ges_activation_qc :: "EpochActivationQc option"
  ges_next_write_generation :: u64

record SignerRotationStore =
  srs_predecessor_plan_locks :: "(string, Id32) btree_map"
  srs_intents :: "(string, RotationIntent) btree_map"
  srs_intent_votes :: "(string, Id32) btree_map"
  srs_begin_votes :: "(string, Id32) btree_map"
  srs_release_votes :: "(string, Id32) btree_map"
  srs_activate_votes :: "(string, Id32) btree_map"
  srs_cancelled_rotations :: "(string, Id32) btree_map"
  srs_highest_observed_epoch :: "(string, u64) btree_map"

record WitnessEpochStore =
  wes_config_id :: Id32
  wes_highest_guardian_epoch :: u64
  wes_highest_capsule_hash :: Id32
  wes_predecessor_locks :: "(string, Id32) btree_map"
  wes_seen_read_nonces :: "Id32 set"

section \<open>\<open>GuardianEpochStore\<close>\<close>

text \<open>Assignments to the mutable fields of a record's policy.\<close>

abbreviation with_epoch_state :: "GuardianEpochState \<Rightarrow> GuardianRecordV3 \<Rightarrow> GuardianRecordV3" where
  "with_epoch_state st r \<equiv> r \<lparr> grec3_policy := (grec3_policy r) \<lparr> gp3_epoch_state := st \<rparr> \<rparr>"

abbreviation with_drain_deadline :: "u64 \<Rightarrow> GuardianRecordV3 \<Rightarrow> GuardianRecordV3" where
  "with_drain_deadline t r \<equiv> r \<lparr> grec3_policy := (grec3_policy r) \<lparr> gp3_drain_deadline := Some t \<rparr> \<rparr>"

abbreviation with_activation_qc_hash :: "Id32 \<Rightarrow> GuardianRecordV3 \<Rightarrow> GuardianRecordV3" where
  "with_activation_qc_hash h r \<equiv> r \<lparr> grec3_policy := (grec3_policy r) \<lparr> gp3_activation_qc_hash := Some h \<rparr> \<rparr>"

abbreviation record_ref :: "GuardianRecordV3 \<Rightarrow> ConfigRef" where
  "record_ref r \<equiv> gp3_config_ref (grec3_policy r)"

definition GuardianEpochStore_new :: "GuardianRecordV3 \<Rightarrow> Id32 \<Rightarrow> GuardianEpochStore" where
  "GuardianEpochStore_new active0 active_capsule_hash =
    (let active = with_epoch_state GuardianEpochState.Active active0;
         expected_predecessor = record_ref active in
     \<lparr> ges_config_id = cr_config_id expected_predecessor,
       ges_expected_predecessor = expected_predecessor,
       ges_expected_predecessor_capsule_hash = active_capsule_hash,
       ges_active = Some active,
       ges_active_capsule_hash = Some active_capsule_hash,
       ges_prepared = None,
       ges_draining = [],
       ges_dpss_journal = None,
       ges_rotation_tombstones = [],
       ges_recovery_cancellation_tombstones = [],
       ges_activation_qc = None,
       ges_next_write_generation = 1 \<rparr>)"

definition new_candidate :: "ConfigRef \<Rightarrow> Id32 \<Rightarrow> GuardianEpochStore" where
  "new_candidate predecessor predecessor_capsule_hash =
     \<lparr> ges_config_id = cr_config_id predecessor,
       ges_expected_predecessor = predecessor,
       ges_expected_predecessor_capsule_hash = predecessor_capsule_hash,
       ges_active = None,
       ges_active_capsule_hash = None,
       ges_prepared = None,
       ges_draining = [],
       ges_dpss_journal = None,
       ges_rotation_tombstones = [],
       ges_recovery_cancellation_tombstones = [],
       ges_activation_qc = None,
       ges_next_write_generation = 1 \<rparr>"

definition transaction :: "bool \<Rightarrow> ('s \<Rightarrow> (StorageError, 'a) result \<times> 's) \<Rightarrow> 's \<Rightarrow> (StorageError, 'a) result \<times> 's" where
  "transaction inject_failure mutate self =
    (case mutate self of
       (Inl e, _) \<Rightarrow> (Inl e, self)
     | (Inr r, candidate) \<Rightarrow>
         if inject_failure then (Inl InjectedFailure, self) else (Inr r, candidate))"

definition prepare_successor ::
    "(Id32 \<Rightarrow> string) \<Rightarrow> Id32 \<Rightarrow> Id32 \<Rightarrow> GuardianRecordV3 \<Rightarrow> DpssSessionJournal \<Rightarrow> GuardianEpochStore \<Rightarrow>
     (StorageError, u64) result \<times> GuardianEpochStore"
where
  "prepare_successor hx rotation_id plan_hash rec journal self =
    (if bt_contains_key (ges_rotation_tombstones self) (hx rotation_id) then (Inl Replay, self)
     else if ges_prepared self \<noteq> None then (Inl Conflict, self)
     else if \<not> is_direct_successor_of (record_ref rec) (ges_expected_predecessor self) \<or>
        gp3_predecessor_capsule_hash (grec3_policy rec) \<noteq> ges_expected_predecessor_capsule_hash self \<or>
        dj_rotation_id journal \<noteq> rotation_id \<or>
        dj_plan_hash journal \<noteq> plan_hash
     then (Inl InvalidEpoch, self)
     else
       let generation = ges_next_write_generation self in
       (Inr generation,
        self \<lparr> ges_next_write_generation := saturating_add (ges_next_write_generation self) 1,
               ges_prepared := Some
                 \<lparr> pge_rotation_id = rotation_id,
                   pge_plan_hash = plan_hash,
                   pge_record = with_epoch_state GuardianEpochState.Prepared rec,
                   pge_durable_write_generation = generation \<rparr>,
               ges_dpss_journal := Some journal \<rparr>))"

definition prepared_ack_generation ::
    "Id32 \<Rightarrow> Id32 \<Rightarrow> GuardianEpochStore \<Rightarrow> (StorageError, u64) result" where
  "prepared_ack_generation rotation_id plan_hash self =
    (case ges_prepared self of
       None \<Rightarrow> Inl NoPreparedSuccessor
     | Some prepared \<Rightarrow>
       if pge_rotation_id prepared \<noteq> rotation_id \<or> pge_plan_hash prepared \<noteq> plan_hash then Inl Conflict
       else if pge_durable_write_generation prepared = 0 then Inl NotDurable
       else Inr (pge_durable_write_generation prepared))"

text \<open>The second half of \<open>activate_successor\<close>, after the old record was moved to draining.\<close>

definition install_successor ::
    "(Id32 \<Rightarrow> string) \<Rightarrow> Id32 \<Rightarrow> Id32 \<Rightarrow> EpochActivationQc \<Rightarrow> Id32 \<Rightarrow> Id32 \<Rightarrow> PreparedGuardianEpoch \<Rightarrow>
     GuardianEpochStore \<Rightarrow> GuardianEpochStore"
where
  "install_successor hx rotation_id plan_hash qc activation_qc_hash predecessor_hash prepared self =
    (let new_active = with_activation_qc_hash activation_qc_hash
           (with_epoch_state GuardianEpochState.Active (pge_record prepared));
         successor_capsule_hash = qc_successor_capsule_hash qc in
     self \<lparr> ges_expected_predecessor := record_ref new_active,
            ges_expected_predecessor_capsule_hash := successor_capsule_hash,
            ges_active := Some new_active,
            ges_active_capsule_hash := Some successor_capsule_hash,
            ges_activation_qc := Some qc,
            ges_dpss_journal := None,
            ges_rotation_tombstones := bt_insert (hx rotation_id)
              \<lparr> rt_rotation_id = rotation_id,
                rt_plan_hash = plan_hash,
                rt_predecessor_capsule_hash = predecessor_hash,
                rt_terminal_state = RotationState.Active \<rparr>
              (ges_rotation_tombstones self) \<rparr>)"

definition store_activate_successor ::
    "(Id32 \<Rightarrow> string) \<Rightarrow> Id32 \<Rightarrow> Id32 \<Rightarrow> EpochActivationQc \<Rightarrow> Id32 \<Rightarrow> u64 \<Rightarrow> Id32 set \<Rightarrow>
     GuardianEpochStore \<Rightarrow> (StorageError, unit) result \<times> GuardianEpochStore"
where
  "store_activate_successor hx rotation_id plan_hash qc activation_qc_hash drain_deadline
      pending_old_requests self =
    (case ges_prepared self of
       None \<Rightarrow> (Inl NoPreparedSuccessor, self)
     | Some prepared \<Rightarrow>
       if pge_rotation_id prepared \<noteq> rotation_id \<or>
          pge_plan_hash prepared \<noteq> plan_hash \<or>
          qc_rotation_id qc \<noteq> rotation_id \<or>
          qc_predecessor_epoch qc \<noteq> cr_guardian_epoch (ges_expected_predecessor self) \<or>
          qc_predecessor_capsule_hash qc \<noteq> ges_expected_predecessor_capsule_hash self \<or>
          qc_successor_epoch qc \<noteq> cr_guardian_epoch (record_ref (pge_record prepared))
       then (Inl InvalidEpoch, self)
       else
         let predecessor_hash = ges_expected_predecessor_capsule_hash self;
             self1 = self \<lparr> ges_prepared := None \<rparr> in
         case ges_active self of
           Some old \<Rightarrow>
             (let old_epoch = cr_guardian_epoch (record_ref old);
                  self2 = self1 \<lparr> ges_active := None \<rparr> in
              case ges_active_capsule_hash self of
                None \<Rightarrow> (Inl InvalidEpoch, self2)
              | Some old_capsule_hash \<Rightarrow>
                let self3 = self2 \<lparr> ges_active_capsule_hash := None,
                      ges_draining := bt_insert old_epoch
                        \<lparr> dge_record = with_drain_deadline drain_deadline
                            (with_epoch_state GuardianEpochState.Draining old),
                          dge_capsule_hash = old_capsule_hash,
                          dge_drain_deadline = drain_deadline,
                          dge_pending_request_ids = pending_old_requests \<rparr>
                        (ges_draining self) \<rparr> in
                (Inr (), install_successor hx rotation_id plan_hash qc activation_qc_hash
                   predecessor_hash prepared self3))
         | None \<Rightarrow>
             if pending_old_requests \<noteq> {} then (Inl InvalidEpoch, self)
             else (Inr (), install_successor hx rotation_id plan_hash qc activation_qc_hash
                     predecessor_hash prepared self1))"

definition abort_prepared ::
    "(Id32 \<Rightarrow> string) \<Rightarrow> Id32 \<Rightarrow> Id32 \<Rightarrow> GuardianEpochStore \<Rightarrow> (StorageError, unit) result \<times> GuardianEpochStore"
where
  "abort_prepared hx rotation_id plan_hash self =
    (if map_option qc_rotation_id (ges_activation_qc self) = Some rotation_id
     then (Inl AlreadyActivated, self)
     else if (case ges_prepared self of
          None \<Rightarrow> False
        | Some prepared \<Rightarrow> pge_rotation_id prepared \<noteq> rotation_id \<or> pge_plan_hash prepared \<noteq> plan_hash)
     then (Inl Conflict, self)
     else
       (Inr (),
        self \<lparr> ges_prepared := None,
               ges_dpss_journal := None,
               ges_rotation_tombstones := bt_insert (hx rotation_id)
                 \<lparr> rt_rotation_id = rotation_id,
                   rt_plan_hash = plan_hash,
                   rt_predecessor_capsule_hash = ges_expected_predecessor_capsule_hash self,
                   rt_terminal_state = RotationState.Aborted \<rparr>
                 (ges_rotation_tombstones self) \<rparr>))"

definition observe_replacement_activation ::
    "(Id32 \<Rightarrow> string) \<Rightarrow> Id32 \<Rightarrow> Id32 \<Rightarrow> EpochActivationQc \<Rightarrow> Id32 \<Rightarrow> u64 \<Rightarrow> Id32 set \<Rightarrow>
     GuardianEpochStore \<Rightarrow> (StorageError, unit) result \<times> GuardianEpochStore"
where
  "observe_replacement_activation hx rotation_id plan_hash qc activation_qc_hash drain_deadline
      pending_old_requests self =
    (case ges_active self of
       None \<Rightarrow> (Inl Conflict, self)
     | Some old \<Rightarrow>
       if ges_prepared self \<noteq> None then (Inl Conflict, self)
       else if qc_rotation_id qc \<noteq> rotation_id \<or>
          qc_predecessor_epoch qc \<noteq> cr_guardian_epoch (ges_expected_predecessor self) \<or>
          qc_predecessor_capsule_hash qc \<noteq> ges_expected_predecessor_capsule_hash self \<or>
          qc_successor_epoch qc \<noteq> saturating_add (cr_guardian_epoch (ges_expected_predecessor self)) 1
       then (Inl InvalidEpoch, self)
       else
         case ges_active_capsule_hash self of
           None \<Rightarrow> (Inl InvalidEpoch, self \<lparr> ges_active := None \<rparr>)
         | Some old_hash \<Rightarrow>
             (Inr (),
              self \<lparr> ges_active := None,
                     ges_active_capsule_hash := None,
                     ges_draining := bt_insert (cr_guardian_epoch (record_ref old))
                       \<lparr> dge_record = with_activation_qc_hash activation_qc_hash
                           (with_drain_deadline drain_deadline
                             (with_epoch_state GuardianEpochState.Draining old)),
                         dge_capsule_hash = old_hash,
                         dge_drain_deadline = drain_deadline,
                         dge_pending_request_ids = pending_old_requests \<rparr>
                       (ges_draining self),
                     ges_activation_qc := Some qc,
                     ges_dpss_journal := None,
                     ges_rotation_tombstones := bt_insert (hx rotation_id)
                       \<lparr> rt_rotation_id = rotation_id,
                         rt_plan_hash = plan_hash,
                         rt_predecessor_capsule_hash = old_hash,
                         rt_terminal_state = RotationState.Draining \<rparr>
                       (ges_rotation_tombstones self) \<rparr>))"

definition finish_draining_request ::
    "u64 \<Rightarrow> Id32 \<Rightarrow> GuardianEpochStore \<Rightarrow> (StorageError, unit) result \<times> GuardianEpochStore"
where
  "finish_draining_request guardian_epoch request_id self =
    (case bt_get (ges_draining self) guardian_epoch of
       None \<Rightarrow> (Inl NotFound, self)
     | Some draining \<Rightarrow>
         (Inr (),
          self \<lparr> ges_draining := bt_insert guardian_epoch
                   (draining \<lparr> dge_pending_request_ids := dge_pending_request_ids draining - {request_id} \<rparr>)
                   (ges_draining self) \<rparr>))"

definition retire_epoch ::
    "u64 \<Rightarrow> u64 \<Rightarrow> GuardianEpochStore \<Rightarrow> (StorageError, Id32) result \<times> GuardianEpochStore"
where
  "retire_epoch guardian_epoch monotonic_now self =
    (case bt_get (ges_draining self) guardian_epoch of
       None \<Rightarrow> (Inl NotFound, self)
     | Some draining \<Rightarrow>
       if monotonic_now < dge_drain_deadline draining \<or> dge_pending_request_ids draining \<noteq> {}
       then (Inl NotDurable, self)
       else (Inr (dge_capsule_hash draining),
             self \<lparr> ges_draining := bt_remove guardian_epoch (ges_draining self) \<rparr>))"

section \<open>\<open>SignerRotationStore\<close>\<close>

definition SignerRotationStore_new :: SignerRotationStore where
  "SignerRotationStore_new =
     \<lparr> srs_predecessor_plan_locks = [],
       srs_intents = [],
       srs_intent_votes = [],
       srs_begin_votes = [],
       srs_release_votes = [],
       srs_activate_votes = [],
       srs_cancelled_rotations = [],
       srs_highest_observed_epoch = [] \<rparr>"

definition lock_plan ::
    "(Id32 \<Rightarrow> string) \<Rightarrow> Id32 \<Rightarrow> Id32 \<Rightarrow> SignerRotationStore \<Rightarrow> (StorageError, unit) result \<times> SignerRotationStore"
where
  "lock_plan hx predecessor_hash plan_hash self =
    (let key = hx predecessor_hash in
     case bt_get (srs_predecessor_plan_locks self) key of
       Some existing \<Rightarrow> (if existing \<noteq> plan_hash then (Inl Conflict, self) else (Inr (), self))
     | None \<Rightarrow>
         (Inr (),
          self \<lparr> srs_predecessor_plan_locks := bt_insert key plan_hash (srs_predecessor_plan_locks self) \<rparr>))"

definition record_vote ::
    "(Id32 \<Rightarrow> string) \<Rightarrow> Id32 \<Rightarrow> Id32 \<Rightarrow> (string, Id32) btree_map \<Rightarrow>
     (StorageError, unit) result \<times> (string, Id32) btree_map"
where
  "record_vote hx rotation_id transcript_hash votes =
    (let key = hx rotation_id in
     case bt_get votes key of
       Some existing \<Rightarrow> (if existing \<noteq> transcript_hash then (Inl Conflict, votes) else (Inr (), votes))
     | None \<Rightarrow> (Inr (), bt_insert key transcript_hash votes))"

section \<open>\<open>WitnessEpochStore\<close>\<close>

definition WitnessEpochStore_new :: "ConfigRef \<Rightarrow> Id32 \<Rightarrow> WitnessEpochStore" where
  "WitnessEpochStore_new config_ref capsule_hash =
     \<lparr> wes_config_id = cr_config_id config_ref,
       wes_highest_guardian_epoch = cr_guardian_epoch config_ref,
       wes_highest_capsule_hash = capsule_hash,
       wes_predecessor_locks = [],
       wes_seen_read_nonces = {} \<rparr>"

definition persist_successor_before_ack ::
    "(Id32 \<Rightarrow> string) \<Rightarrow> ConfigRef \<Rightarrow> Id32 \<Rightarrow> ConfigRef \<Rightarrow> Id32 \<Rightarrow> WitnessEpochStore \<Rightarrow>
     (StorageError, unit) result \<times> WitnessEpochStore"
where
  "persist_successor_before_ack hx predecessor predecessor_capsule_hash successor
      successor_capsule_hash self =
    (if \<not> is_direct_successor_of successor predecessor then (Inl InvalidEpoch, self)
     else
       let predecessor_key = hx predecessor_capsule_hash in
       case bt_get (wes_predecessor_locks self) predecessor_key of
         Some existing \<Rightarrow>
           (if existing = successor_capsule_hash then (Inr (), self) else (Inl Conflict, self))
       | None \<Rightarrow>
           if cr_config_id predecessor \<noteq> wes_config_id self \<or>
              cr_guardian_epoch predecessor \<noteq> wes_highest_guardian_epoch self \<or>
              predecessor_capsule_hash \<noteq> wes_highest_capsule_hash self
           then (Inl InvalidEpoch, self)
           else
             (Inr (),
              self \<lparr> wes_predecessor_locks :=
                       bt_insert predecessor_key successor_capsule_hash (wes_predecessor_locks self),
                     wes_highest_guardian_epoch := cr_guardian_epoch successor,
                     wes_highest_capsule_hash := successor_capsule_hash \<rparr>))"

definition cancel_pending_successor ::
    "(Id32 \<Rightarrow> string) \<Rightarrow> u64 \<Rightarrow> Id32 \<Rightarrow> u64 \<Rightarrow> Id32 \<Rightarrow> WitnessEpochStore \<Rightarrow>
     (StorageError, unit) result \<times> WitnessEpochStore"
where
  "cancel_pending_successor hx predecessor_epoch predecessor_capsule_hash successor_epoch
      successor_capsule_hash self =
    (let predecessor_key = hx predecessor_capsule_hash in
     if successor_epoch \<noteq> saturating_add predecessor_epoch 1 \<or>
        wes_highest_guardian_epoch self \<noteq> successor_epoch \<or>
        wes_highest_capsule_hash self \<noteq> successor_capsule_hash \<or>
        bt_get (wes_predecessor_locks self) predecessor_key \<noteq> Some successor_capsule_hash
     then (Inl Conflict, self)
     else
       (Inr (),
        self \<lparr> wes_predecessor_locks := bt_remove predecessor_key (wes_predecessor_locks self),
               wes_highest_guardian_epoch := predecessor_epoch,
               wes_highest_capsule_hash := predecessor_capsule_hash \<rparr>))"

definition observe_read_nonce ::
    "Id32 \<Rightarrow> WitnessEpochStore \<Rightarrow> (StorageError, unit) result \<times> WitnessEpochStore" where
  "observe_read_nonce nonce self =
    (if nonce \<in> wes_seen_read_nonces self then (Inl Replay, self)
     else (Inr (), self \<lparr> wes_seen_read_nonces := insert nonce (wes_seen_read_nonces self) \<rparr>))"


section \<open>Lemmas on \<open>GuardianEpochStore\<close>\<close>

datatype store_op =
    SPrepare Id32 Id32 GuardianRecordV3 DpssSessionJournal
  | SActivate Id32 Id32 EpochActivationQc Id32 u64 "Id32 set"
  | SAbort Id32 Id32
  | SReplace Id32 Id32 EpochActivationQc Id32 u64 "Id32 set"
  | SFinish u64 Id32
  | SRetire u64 u64

datatype store_value = Generation u64 | RetiredCapsule Id32 | Done

fun store_exec :: "(Id32 \<Rightarrow> string) \<Rightarrow> store_op \<Rightarrow> GuardianEpochStore \<Rightarrow> (StorageError, store_value) result \<times> GuardianEpochStore" where
  "store_exec hx (SPrepare rid ph rec j) s = map_prod (map_sum id Generation) id (prepare_successor hx rid ph rec j s)"
| "store_exec hx (SActivate rid ph qc h dd P) s = map_prod (map_sum id (\<lambda>_. Done)) id (store_activate_successor hx rid ph qc h dd P s)"
| "store_exec hx (SAbort rid ph) s = map_prod (map_sum id (\<lambda>_. Done)) id (abort_prepared hx rid ph s)"
| "store_exec hx (SReplace rid ph qc h dd P) s = map_prod (map_sum id (\<lambda>_. Done)) id (observe_replacement_activation hx rid ph qc h dd P s)"
| "store_exec hx (SFinish e i) s = map_prod (map_sum id (\<lambda>_. Done)) id (finish_draining_request e i s)"
| "store_exec hx (SRetire e t) s = map_prod (map_sum id RetiredCapsule) id (retire_epoch e t s)"

lemma reply_eq: "map_prod f id p = (r, s) \<longleftrightarrow> (\<exists>r0. p = (r0, s) \<and> r = f r0)"
  by (cases p) auto

lemma reply_ok: "map_prod (map_sum id f) id p = (Inr v, s) \<longleftrightarrow> (\<exists>u. p = (Inr u, s) \<and> v = f u)"
  by (cases p; cases "fst p") auto

lemmas store_op_defs =
  prepare_successor_def store_activate_successor_def abort_prepared_def
  observe_replacement_activation_def finish_draining_request_def retire_epoch_def install_successor_def

text \<open>The parts of the store's invariant: the active record, the prepared one, the draining ones.\<close>

definition active_ok :: "GuardianEpochStore \<Rightarrow> bool" where
  "active_ok s = (case ges_active s of
     None \<Rightarrow> ges_active_capsule_hash s = None
   | Some r \<Rightarrow> record_ref r = ges_expected_predecessor s \<and>
       gp3_epoch_state (grec3_policy r) = GuardianEpochState.Active \<and>
       ges_active_capsule_hash s = Some (ges_expected_predecessor_capsule_hash s))"

definition prepared_ok :: "(Id32 \<Rightarrow> string) \<Rightarrow> GuardianEpochStore \<Rightarrow> bool" where
  "prepared_ok hx s = (case ges_prepared s of
     None \<Rightarrow> ges_dpss_journal s = None
   | Some p \<Rightarrow>
       is_direct_successor_of (record_ref (pge_record p)) (ges_expected_predecessor s) \<and>
       gp3_predecessor_capsule_hash (grec3_policy (pge_record p)) = ges_expected_predecessor_capsule_hash s \<and>
       gp3_epoch_state (grec3_policy (pge_record p)) = GuardianEpochState.Prepared \<and>
       pge_durable_write_generation p \<noteq> 0 \<and>
       bt_get (ges_rotation_tombstones s) (hx (pge_rotation_id p)) = None \<and>
       (\<exists>j. ges_dpss_journal s = Some j \<and> dj_rotation_id j = pge_rotation_id p \<and> dj_plan_hash j = pge_plan_hash p))"

definition draining_ok :: "GuardianEpochStore \<Rightarrow> bool" where
  "draining_ok s \<longleftrightarrow> bt_ok (ges_draining s) \<and>
     (\<forall>e d. bt_get (ges_draining s) e = Some d \<longrightarrow>
        cr_guardian_epoch (record_ref (dge_record d)) = e \<and>
        gp3_epoch_state (grec3_policy (dge_record d)) = GuardianEpochState.Draining \<and>
        gp3_drain_deadline (grec3_policy (dge_record d)) = Some (dge_drain_deadline d))"

definition store_ok :: "(Id32 \<Rightarrow> string) \<Rightarrow> GuardianEpochStore \<Rightarrow> bool" where
  "store_ok hx s \<longleftrightarrow> active_ok s \<and> prepared_ok hx s \<and> draining_ok s \<and>
     ges_next_write_generation s \<noteq> 0 \<and> ges_config_id s = cr_config_id (ges_expected_predecessor s)"

lemmas store_ok_defs = store_ok_def active_ok_def prepared_ok_def draining_ok_def

lemma store_ok_new:
  "store_ok hx (GuardianEpochStore_new r h)" "store_ok hx (new_candidate c h)"
  by (simp_all add: store_ok_defs GuardianEpochStore_new_def new_candidate_def Let_def)

lemma saturating_add_one_nonzero [simp]: "saturating_add a 1 \<noteq> (0 :: u64)"
  using unat_saturating_add [of a 1] by auto

text \<open>Each part of the invariant reads only some fields; updates of the others leave it alone.\<close>

lemma active_ok_update [simp]:
  "active_ok (s \<lparr> ges_prepared := p \<rparr>) = active_ok s" "active_ok (s \<lparr> ges_dpss_journal := j \<rparr>) = active_ok s"
  "active_ok (s \<lparr> ges_next_write_generation := n \<rparr>) = active_ok s" "active_ok (s \<lparr> ges_draining := d \<rparr>) = active_ok s"
  "active_ok (s \<lparr> ges_rotation_tombstones := t \<rparr>) = active_ok s" "active_ok (s \<lparr> ges_activation_qc := q \<rparr>) = active_ok s"
  by (simp_all add: active_ok_def split: option.split)

lemma prepared_ok_update [simp]:
  "prepared_ok hx (s \<lparr> ges_active := a \<rparr>) = prepared_ok hx s"
  "prepared_ok hx (s \<lparr> ges_active_capsule_hash := h \<rparr>) = prepared_ok hx s"
  "prepared_ok hx (s \<lparr> ges_next_write_generation := n \<rparr>) = prepared_ok hx s"
  "prepared_ok hx (s \<lparr> ges_draining := d \<rparr>) = prepared_ok hx s"
  "prepared_ok hx (s \<lparr> ges_activation_qc := q \<rparr>) = prepared_ok hx s"
  by (simp_all add: prepared_ok_def split: option.split)

lemma draining_ok_update [simp]:
  "draining_ok (s \<lparr> ges_prepared := p \<rparr>) = draining_ok s" "draining_ok (s \<lparr> ges_dpss_journal := j \<rparr>) = draining_ok s"
  "draining_ok (s \<lparr> ges_next_write_generation := n \<rparr>) = draining_ok s" "draining_ok (s \<lparr> ges_active := a \<rparr>) = draining_ok s"
  "draining_ok (s \<lparr> ges_active_capsule_hash := h \<rparr>) = draining_ok s"
  "draining_ok (s \<lparr> ges_rotation_tombstones := t \<rparr>) = draining_ok s" "draining_ok (s \<lparr> ges_activation_qc := q \<rparr>) = draining_ok s"
  "draining_ok (s \<lparr> ges_expected_predecessor := c \<rparr>) = draining_ok s"
  "draining_ok (s \<lparr> ges_expected_predecessor_capsule_hash := i \<rparr>) = draining_ok s"
  by (simp_all add: draining_ok_def)

lemma prepared_ok_none: "ges_prepared s = None \<Longrightarrow> ges_dpss_journal s = None \<Longrightarrow> prepared_ok hx s"
  by (simp add: prepared_ok_def)

lemma active_ok_none: "ges_active s = None \<Longrightarrow> ges_active_capsule_hash s = None \<Longrightarrow> active_ok s"
  by (simp add: active_ok_def)

lemma draining_ok_insert:
  assumes "draining_ok s" and "cr_guardian_epoch (record_ref (dge_record d)) = e"
    and "gp3_epoch_state (grec3_policy (dge_record d)) = GuardianEpochState.Draining"
    and "gp3_drain_deadline (grec3_policy (dge_record d)) = Some (dge_drain_deadline d)"
  shows "draining_ok (s \<lparr> ges_draining := bt_insert e d (ges_draining s) \<rparr>)"
  using assms by (simp add: draining_ok_def)

lemma prepare_ok:
  "store_ok hx s \<Longrightarrow> prepare_successor hx rid ph rec j s = (r, s') \<Longrightarrow> store_ok hx s'"
  by (auto simp: store_ok_def prepared_ok_def prepare_successor_def Let_def split: if_splits)

lemma install_ok:
  assumes "prepared_ok hx s0" and "ges_prepared s0 = Some p" and "draining_ok s"
    and "ges_prepared s = None" and "ges_next_write_generation s \<noteq> 0"
    and "ges_config_id s = cr_config_id (ges_expected_predecessor s0)"
  shows "store_ok hx (install_successor hx rid ph qc h pred p s)"
  using assms
  by (simp add: store_ok_def install_successor_def active_ok_def prepared_ok_def is_direct_successor_of_def Let_def)

lemma activate_ok:
  assumes "store_ok hx s" and "store_activate_successor hx rid ph qc h dd P s = (r, s')"
  shows "store_ok hx s'"
proof (cases "ges_prepared s")
  case (Some p)
  note ok = assms(1) [unfolded store_ok_def]
  show ?thesis
  proof (cases "ges_active s")
    case None
    have "store_ok hx (install_successor hx rid ph qc h pred p (s \<lparr> ges_prepared := None \<rparr>))" for pred
      by (rule install_ok [OF _ Some]) (use ok in simp_all)
    with assms Some None show ?thesis
      by (auto simp: store_activate_successor_def Let_def split: if_splits)
  next
    case act: (Some old)
    with ok have hash: "ges_active_capsule_hash s = Some (ges_expected_predecessor_capsule_hash s)"
      by (simp add: active_ok_def)
    let ?d = "\<lparr> dge_record = with_drain_deadline dd (with_epoch_state GuardianEpochState.Draining old),
      dge_capsule_hash = ges_expected_predecessor_capsule_hash s, dge_drain_deadline = dd, dge_pending_request_ids = P \<rparr>"
    have "draining_ok (s \<lparr> ges_draining := bt_insert (cr_guardian_epoch (record_ref old)) ?d (ges_draining s) \<rparr>)"
      by (rule draining_ok_insert) (use ok in simp_all)
    then have "store_ok hx (install_successor hx rid ph qc h pred p (s \<lparr> ges_prepared := None, ges_active := None,
        ges_active_capsule_hash := None,
        ges_draining := bt_insert (cr_guardian_epoch (record_ref old)) ?d (ges_draining s) \<rparr>))" for pred
      by (intro install_ok [OF _ Some]) (use ok in \<open>simp_all add: draining_ok_def\<close>)
    with assms Some act hash show ?thesis
      by (auto simp: store_activate_successor_def Let_def split: if_splits)
  qed
qed (use assms in \<open>simp add: store_activate_successor_def\<close>)

lemma abort_ok:
  "store_ok hx s \<Longrightarrow> abort_prepared hx rid ph s = (r, s') \<Longrightarrow> store_ok hx s'"
  by (auto simp: store_ok_def abort_prepared_def intro!: prepared_ok_none split: if_splits)

lemma replace_ok:
  "store_ok hx s \<Longrightarrow> observe_replacement_activation hx rid ph qc h dd P s = (r, s') \<Longrightarrow> store_ok hx s'"
  by (auto simp: store_ok_defs observe_replacement_activation_def split: if_splits option.splits)

lemma finish_ok:
  "store_ok hx s \<Longrightarrow> finish_draining_request e i s = (r, s') \<Longrightarrow> store_ok hx s'"
  by (auto simp: store_ok_def draining_ok_def finish_draining_request_def split: if_splits option.splits)

lemma retire_ok:
  "store_ok hx s \<Longrightarrow> retire_epoch e t s = (r, s') \<Longrightarrow> store_ok hx s'"
  by (auto simp: store_ok_def draining_ok_def retire_epoch_def split: if_splits option.splits)

lemma store_ok_exec:
  assumes "store_ok hx s" and "store_exec hx op s = (r, s')"
  shows "store_ok hx s'"
  using assms
  by (cases op)
    (auto simp: reply_eq intro: prepare_ok activate_ok abort_ok replace_ok finish_ok retire_ok)

text \<open>In a well-formed store a refused operation changes nothing.\<close>

lemma store_exec_refused:
  assumes "active_ok s" and "store_exec hx op s = (Inl e, s')"
  shows "s' = s"
  using assms
  by (cases op)
    (auto simp: store_op_defs active_ok_def Let_def map_sum_def split: if_splits option.splits sum.splits)

interpretation ges: stable_machine "store_exec hx" "store_ok hx" for hx
  by unfold_locales (fact store_ok_exec)


text \<open>A rotation that ended here: its tombstone stays, whatever its terminal state becomes.\<close>

definition rotation_ended :: "(Id32 \<Rightarrow> string) \<Rightarrow> Id32 \<Rightarrow> GuardianEpochStore \<Rightarrow> bool" where
  "rotation_ended hx rid s \<longleftrightarrow> store_ok hx s \<and> bt_contains_key (ges_rotation_tombstones s) (hx rid)"

lemma tombstone_kept:
  "bt_contains_key (ges_rotation_tombstones s) k \<Longrightarrow> store_exec hx op s = (r, s') \<Longrightarrow>
     bt_contains_key (ges_rotation_tombstones s') k"
  by (cases op) (auto simp: store_op_defs Let_def split: if_splits option.splits)

interpretation ges_ended: stable_machine "store_exec hx" "rotation_ended hx rid" for hx rid
  by unfold_locales (unfold rotation_ended_def, blast intro: tombstone_kept store_ok_exec)

lemma ended_refuses:
  assumes "rotation_ended hx rid s" and "store_exec hx op s = (r, s')"
  shows "op = SPrepare rid ph rec j \<Longrightarrow> r = Inl Replay"
    and "op = SActivate rid ph qc h dd P \<Longrightarrow> \<not> is_ok r"
  using assms
  by (auto simp: rotation_ended_def store_ok_def prepared_ok_def store_op_defs is_ok_def Let_def
      split: if_splits option.splits)

lemma activation_ends:
  "store_ok hx s \<Longrightarrow> store_activate_successor hx rid ph qc h dd P s = (Inr u, s') \<Longrightarrow> rotation_ended hx rid s'"
  using activate_ok [of hx s rid ph qc h dd P "Inr u" s']
  by (auto simp: rotation_ended_def store_activate_successor_def install_successor_def Let_def
      split: if_splits option.splits)

lemma abort_ends:
  "store_ok hx s \<Longrightarrow> abort_prepared hx rid ph s = (Inr u, s') \<Longrightarrow> rotation_ended hx rid s'"
  using abort_ok [of hx s rid ph "Inr u" s']
  by (auto simp: rotation_ended_def abort_prepared_def split: if_splits option.splits)

text \<open>
  An epoch that can no longer be put to draining: the store has moved past it, or it is the
  last known one and no record is active.
\<close>

definition past_epoch :: "u64 \<Rightarrow> GuardianEpochStore \<Rightarrow> bool" where
  "past_epoch e s \<longleftrightarrow> e \<noteq> u64_MAX \<and>
     (e < cr_guardian_epoch (ges_expected_predecessor s) \<or>
      e = cr_guardian_epoch (ges_expected_predecessor s) \<and> ges_active s = None)"

text \<open>The requests of \<open>P\<close> that are not among \<open>F\<close> are still pending in epoch \<open>e\<close>.\<close>

definition still_pending :: "u64 \<Rightarrow> Id32 set \<Rightarrow> GuardianEpochStore \<Rightarrow> bool" where
  "still_pending e Q s \<longleftrightarrow> past_epoch e s \<and>
     (\<exists>d. bt_get (ges_draining s) e = Some d \<and> Q \<subseteq> dge_pending_request_ids d)"

lemma successor_past:
  "is_direct_successor_of c p \<Longrightarrow> e \<noteq> u64_MAX \<Longrightarrow> e \<le> cr_guardian_epoch p \<Longrightarrow> e < cr_guardian_epoch c"
  using saturating_add_one_less [of e] successor_epoch_less [of c p] successor_epoch_mono [of c p]
  by (cases "cr_guardian_epoch p = u64_MAX")
    (auto simp: u64_MAX_def is_direct_successor_of_def simp flip: word_order.not_eq_extremum)

text \<open>What a successful activation does to the store.\<close>

lemma activate_effect:
  assumes "store_activate_successor hx rid ph qc h dd P s = (Inr u, s')"
  shows "\<exists>p. ges_prepared s = Some p \<and> pge_rotation_id p = rid \<and> pge_plan_hash p = ph \<and>
    qc_rotation_id qc = rid \<and>
    qc_predecessor_epoch qc = cr_guardian_epoch (ges_expected_predecessor s) \<and>
    qc_predecessor_capsule_hash qc = ges_expected_predecessor_capsule_hash s \<and>
    qc_successor_epoch qc = cr_guardian_epoch (record_ref (pge_record p)) \<and>
    ges_expected_predecessor s' = record_ref (pge_record p) \<and>
    ges_expected_predecessor_capsule_hash s' = qc_successor_capsule_hash qc \<and>
    ges_active s' = Some (with_activation_qc_hash h (with_epoch_state GuardianEpochState.Active (pge_record p))) \<and>
    ges_active_capsule_hash s' = Some (qc_successor_capsule_hash qc) \<and>
    ges_prepared s' = None \<and> ges_dpss_journal s' = None \<and> ges_activation_qc s' = Some qc \<and>
    bt_get (ges_draining s') = (case ges_active s of
       None \<Rightarrow> bt_get (ges_draining s)
     | Some old \<Rightarrow> (bt_get (ges_draining s))(cr_guardian_epoch (record_ref old) \<mapsto>
         \<lparr> dge_record = with_drain_deadline dd (with_epoch_state GuardianEpochState.Draining old),
           dge_capsule_hash = the (ges_active_capsule_hash s),
           dge_drain_deadline = dd, dge_pending_request_ids = P \<rparr>)) \<and>
    (ges_active s = None \<longrightarrow> P = {})"
  using assms
  by (cases "ges_prepared s"; cases "ges_active s"; cases "ges_active_capsule_hash s")
    (auto simp: store_activate_successor_def install_successor_def Let_def split: if_splits)

lemma activate_past:
  assumes "store_ok hx s" "past_epoch e s" "store_activate_successor hx rid ph qc h dd P s = (Inr u, s')"
  shows "past_epoch e s' \<and> bt_get (ges_draining s') e = bt_get (ges_draining s) e"
proof -
  from activate_effect [OF assms(3)] obtain p where "ges_prepared s = Some p"
    and p2: "ges_expected_predecessor s' = record_ref (pge_record p)" by blast
  with assms(1) have p1: "is_direct_successor_of (record_ref (pge_record p)) (ges_expected_predecessor s)"
    by (simp add: store_ok_def prepared_ok_def)
  from assms(2) have "e \<noteq> u64_MAX" "e \<le> cr_guardian_epoch (ges_expected_predecessor s)"
    by (auto simp: past_epoch_def)
  with successor_past [OF p1] p2 have "past_epoch e s'" by (simp add: past_epoch_def)
  moreover have "bt_get (ges_draining s') e = bt_get (ges_draining s) e"
    using activate_effect [OF assms(3)] assms(1,2)
    by (auto simp: store_ok_def active_ok_def past_epoch_def split: option.splits)
  ultimately show ?thesis by simp
qed

lemma replace_past:
  assumes "store_ok hx s" "past_epoch e s" "observe_replacement_activation hx rid ph qc h dd P s = (Inr u, s')"
  shows "past_epoch e s' \<and> bt_get (ges_draining s') e = bt_get (ges_draining s) e"
  using assms
  by (auto simp: store_ok_defs past_epoch_def observe_replacement_activation_def split: if_splits option.splits)


lemma still_pending_step:
  assumes "store_ok hx s" "still_pending e Q s" "store_exec hx op s = (r, s')" "Q \<noteq> {}"
  shows "still_pending e (Q - {i. op = SFinish e i}) s' \<and> (\<nexists>t v. op = SRetire e t \<and> r = Inr v)"
proof (cases r)
  case (Inl er)
  have "active_ok s" using assms(1) by (simp add: store_ok_def)
  from store_exec_refused [OF this] assms(3) Inl have "s' = s" by blast
  with assms(2) Inl show ?thesis by (auto simp: still_pending_def)
next
  case (Inr v)
  from assms(2) obtain d where d: "bt_get (ges_draining s) e = Some d" "Q \<subseteq> dge_pending_request_ids d"
    and past: "past_epoch e s" by (auto simp: still_pending_def)
  show ?thesis
  proof (cases op)
    case (SActivate rid ph qc h dd P)
    with assms(3) Inr have "\<exists>u. store_activate_successor hx rid ph qc h dd P s = (Inr u, s')"
      by (simp add: reply_ok)
    with activate_past [OF assms(1) past] d SActivate show ?thesis by (auto simp: still_pending_def)
  next
    case (SReplace rid ph qc h dd P)
    with assms(3) Inr have "\<exists>u. observe_replacement_activation hx rid ph qc h dd P s = (Inr u, s')"
      by (simp add: reply_ok)
    with replace_past [OF assms(1) past] d SReplace show ?thesis by (auto simp: still_pending_def)
  next
    case (SFinish e' i)
    with assms(3) Inr d(1) past have "past_epoch e s'"
      by (auto simp: finish_draining_request_def past_epoch_def split: option.splits)
    moreover have "\<exists>d'. bt_get (ges_draining s') e = Some d' \<and> dge_pending_request_ids d - {i. op = SFinish e i} \<subseteq> dge_pending_request_ids d'"
      using SFinish assms(3) Inr d(1) by (auto simp: finish_draining_request_def split: option.splits)
    ultimately show ?thesis using d(2) SFinish by (fastforce simp: still_pending_def)
  qed (use assms(3,4) Inr d past in
      \<open>auto simp: still_pending_def past_epoch_def prepare_successor_def abort_prepared_def
         retire_epoch_def Let_def split: if_splits option.splits\<close>)
qed


definition finished :: "u64 \<Rightarrow> (store_op \<times> (StorageError, store_value) result) list \<Rightarrow> Id32 set" where
  "finished e l = {i. \<exists>r. (SFinish e i, r) \<in> set l}"

lemma still_pending_run:
  assumes "store_ok hx s" "still_pending e Q s" "run_log (store_exec hx) s ops = (l, t)"
  shows "Q \<subseteq> finished e l \<or> still_pending e (Q - finished e l) t"
  using assms
proof (induction ops arbitrary: s l Q)
  case Nil
  then show ?case by (auto simp: finished_def)
next
  case (Cons op ops)
  obtain r s1 where ex: "store_exec hx op s = (r, s1)" by fastforce
  obtain l' where l': "run_log (store_exec hx) s1 ops = (l', t)" "l = (op, r) # l'"
    using Cons.prems(3) ex by (auto simp: Let_def split: prod.splits)
  have fin: "finished e l = {i. op = SFinish e i} \<union> finished e l'"
    by (auto simp: l'(2) finished_def)
  show ?case
  proof (cases "Q = {}")
    case False
    from still_pending_step [OF Cons.prems(1,2) ex False]
    have "still_pending e (Q - {i. op = SFinish e i}) s1" by blast
    from Cons.IH [OF store_ok_exec [OF Cons.prems(1) ex] this l'(1)] show ?thesis
      unfolding fin Diff_eq Compl_Un Int_assoc [symmetric] by blast
  qed simp
qed

section \<open>Properties of the guardian's epoch store\<close>

text \<open>The guardian's epoch store stays well formed through any sequence of operations, for a
  guardian of the roster and for a candidate alike: the active record carries the expected
  configuration and capsule, a prepared record is the direct successor with a non-zero durable
  generation, its journal and no tombstone, and draining records sit under their own epoch. In
  such a store an operation that is refused changes nothing.\<close>

theorem guardian_store_invariant:
  assumes "s0 = GuardianEpochStore_new r h \<or> s0 = new_candidate c h"
    and "run_log (store_exec hx) s0 ops = (l, s)"
  shows "store_ok hx s \<and> (\<forall>op e s'. store_exec hx op s = (Inl e, s') \<longrightarrow> s' = s)"
proof -
  have "store_ok hx s0" using assms(1) store_ok_new by blast
  then have "store_ok hx s" by (rule ges.run_stable [OF _ assms(2)])
  then show ?thesis using store_exec_refused by (auto simp: store_ok_def)
qed

definition sample_policy :: "ConfigRef \<Rightarrow> Id32 \<Rightarrow> GuardianPolicyV3" where
  "sample_policy c prev =
     \<lparr> gp3_config_ref = c, gp3_epoch_state = GuardianEpochState.Prepared, gp3_signer_set_commitment = 1,
       gp3_signer_count = 3, gp3_signer_threshold = 2, gp3_owner_cancel_public_key = 2,
       gp3_minimum_recovery_delay = 10, gp3_guardian_material_root = 3,
       gp3_dpss_suite = ZfFrostRistretto255RtsRefreshV1, gp3_dpss_public_commitment = 4,
       gp3_predecessor_capsule_hash = prev, gp3_activation_qc_hash = None, gp3_drain_deadline = None \<rparr>"

definition sample_record :: "ConfigRef \<Rightarrow> Id32 \<Rightarrow> GuardianRecordV3" where
  "sample_record c prev =
     \<lparr> grec3_opaque_slot_id = 1, grec3_guardian_index = 1, grec3_fragment_index = 1,
       grec3_encrypted_ciphertext_fragment = \<lparr> ac_nonce = 0, ac_ciphertext = [1] \<rparr>,
       grec3_encrypted_dek_share = \<lparr> ac_nonce = 0, ac_ciphertext = [2] \<rparr>,
       grec3_merkle_path_proof = [], grec3_custody_root = 5, grec3_policy = sample_policy c prev \<rparr>"

definition store_ref :: "u64 \<Rightarrow> Id32 \<Rightarrow> ConfigRef" where
  "store_ref epoch binding =
     \<lparr> cr_config_id = 1, cr_payload_generation = 1, cr_authorization_epoch = 1,
       cr_guardian_epoch = epoch, cr_epoch_binding = binding \<rparr>"

definition sample_journal :: DpssSessionJournal where
  "sample_journal =
     \<lparr> dj_rotation_id = 7, dj_plan_hash = 8, dj_session_id = 9, dj_qualified_set_digest = 10, dj_phase = 0,
       dj_next_sequence = 1, dj_provider_public_journal = [],
       dj_encrypted_provider_secret_journal = \<lparr> ac_nonce = 0, ac_ciphertext = [] \<rparr> \<rparr>"

definition store_qc :: EpochActivationQc where
  "store_qc =
     \<lparr> qc_protocol_version = 3, qc_config_id = 1, qc_rotation_id = 7, qc_predecessor_epoch = 1,
       qc_predecessor_capsule_hash = 11, qc_successor_epoch = 2, qc_successor_capsule_hash = 12,
       qc_activation_certificate_hash = 13, qc_witness_fault_bound = 0, qc_witness_acks = [] \<rparr>"

definition sample_store :: GuardianEpochStore where
  "sample_store = GuardianEpochStore_new (sample_record (store_ref 1 1) 0) 11"

definition sample_prepare :: store_op where
  "sample_prepare = SPrepare 7 8 (sample_record (store_ref 2 2) 11) sample_journal"

definition sample_activate :: "Id32 set \<Rightarrow> store_op" where
  "sample_activate P = SActivate 7 8 store_qc 14 100 P"

definition prepared_store :: GuardianEpochStore where
  "prepared_store = snd (store_exec hex_encode sample_prepare sample_store)"

definition activated_store :: "Id32 set \<Rightarrow> GuardianEpochStore" where
  "activated_store P = snd (store_exec hex_encode (sample_activate P) prepared_store)"

lemmas sample_store_evals =
  sample_store_def sample_prepare_def sample_activate_def prepared_store_def activated_store_def
  sample_record_def sample_policy_def store_ref_def sample_journal_def store_qc_def
  GuardianEpochStore_new_def is_direct_successor_of_def saturating_add_def

theorem guardian_store_invariant_witness:
  "store_ok hex_encode (snd (run_log (store_exec hex_encode) sample_store [sample_prepare, sample_activate {3}]))"
  using guardian_store_invariant [of sample_store "sample_record (store_ref 1 1) 0" 11 "store_ref 1 1" hex_encode
      "[sample_prepare, sample_activate {3}]", OF _ surjective_pairing]
  by (simp add: sample_store_def)


text \<open>A guardian lives through each rotation at most once. After a rotation was activated or
  aborted in its store, every later attempt to prepare it is refused as a replay and no
  activation of it succeeds, in any sequence of operations.\<close>

theorem guardian_store_rotation_once:
  assumes "store_ok hx s"
    and "op = SActivate rid ph qc h dd P \<or> op = SAbort rid ph" and "store_exec hx op s = (Inr v, s0)"
    and "run_log (store_exec hx) s0 ops = (l, t)"
  shows "\<forall>(op', r) \<in> set l.
    (\<forall>ph' rec j. op' = SPrepare rid ph' rec j \<longrightarrow> r = Inl Replay) \<and>
    (\<forall>ph' qc' h' dd' P'. op' = SActivate rid ph' qc' h' dd' P' \<longrightarrow> \<not> is_ok r)"
proof (intro ballI, unfold case_prod_beta)
  have ended: "rotation_ended hx rid s0"
    using assms(2,3) activation_ends [OF assms(1)] abort_ends [OF assms(1)] by (auto simp: reply_ok)
  fix x assume "x \<in> set l"
  then obtain l1 l2 where "l = l1 @ (fst x, snd x) # l2" by (metis split_list surjective_pairing)
  with assms(4) obtain u u' where u: "rotation_ended hx rid u" "store_exec hx (fst x) u = (snd x, u')"
    using ges_ended.run_stable_entry [OF ended] by blast
  show "(\<forall>ph' rec j. fst x = SPrepare rid ph' rec j \<longrightarrow> snd x = Inl Replay) \<and>
    (\<forall>ph' qc' h' dd' P'. fst x = SActivate rid ph' qc' h' dd' P' \<longrightarrow> \<not> is_ok (snd x))"
    using ended_refuses [OF u] by blast
qed

lemma sample_activation:
  "store_exec hex_encode (sample_activate P) prepared_store = (Inr Done, activated_store P)"
  by (simp add: sample_store_evals store_op_defs Let_def)

lemma prepared_store_ok: "store_ok hex_encode prepared_store"
  unfolding prepared_store_def
  by (rule store_ok_exec [OF _ surjective_pairing]) (simp add: sample_store_def store_ok_new)

theorem guardian_store_rotation_once_witness:
  "fst (store_exec hex_encode sample_prepare (activated_store {3})) = Inl Replay"
proof -
  have run: "run_log (store_exec hex_encode) (activated_store {3}) [sample_prepare] =
    ([(sample_prepare, fst (store_exec hex_encode sample_prepare (activated_store {3})))],
     snd (store_exec hex_encode sample_prepare (activated_store {3})))"
    by (simp split: prod.splits)
  from guardian_store_rotation_once [OF prepared_store_ok _ sample_activation [of "{3}"] run, of 7 8 store_qc 14 100 "{3}"]
  show ?thesis by (simp add: sample_activate_def sample_prepare_def)
qed

text \<open>Both ways an activation moves the old epoch to draining, with the requests it leaves pending.\<close>

lemma drained_pending:
  assumes "store_ok hx s" and "op \<in> {SActivate rid ph qc h dd P, SReplace rid ph qc h dd P}"
    and "store_exec hx op s = (Inr v, s0)" and "P \<noteq> {}" and "qc_predecessor_epoch qc \<noteq> u64_MAX"
  shows "still_pending (qc_predecessor_epoch qc) P s0"
proof -
  let ?e = "qc_predecessor_epoch qc"
  consider (activated) u where "store_activate_successor hx rid ph qc h dd P s = (Inr u, s0)"
    | (replaced) u where "observe_replacement_activation hx rid ph qc h dd P s = (Inr u, s0)"
    using assms(2,3) by (auto simp: reply_ok)
  then show ?thesis
  proof cases
    case activated
    from activate_effect [OF activated] assms(4) obtain p old where p: "ges_prepared s = Some p"
      and old: "ges_active s = Some old" and e: "?e = cr_guardian_epoch (ges_expected_predecessor s)"
      and exp: "ges_expected_predecessor s0 = record_ref (pge_record p)"
      and dr: "bt_get (ges_draining s0) = (bt_get (ges_draining s))(cr_guardian_epoch (record_ref old) \<mapsto>
           \<lparr> dge_record = with_drain_deadline dd (with_epoch_state GuardianEpochState.Draining old),
             dge_capsule_hash = the (ges_active_capsule_hash s),
             dge_drain_deadline = dd, dge_pending_request_ids = P \<rparr>)"
      by (auto split: option.splits)
    have refs: "record_ref old = ges_expected_predecessor s"
      "is_direct_successor_of (record_ref (pge_record p)) (ges_expected_predecessor s)"
      using assms(1) p old by (auto simp: store_ok_def active_ok_def prepared_ok_def)
    have "past_epoch ?e s0"
      using successor_past [OF refs(2) assms(5)] exp assms(5) by (simp add: past_epoch_def e)
    with dr refs(1) e show ?thesis by (simp add: still_pending_def)
  next
    case replaced
    with assms(1,5) show ?thesis
      by (auto simp: store_ok_def active_ok_def observe_replacement_activation_def still_pending_def past_epoch_def
          split: if_splits option.splits)
  qed
qed

text \<open>C29: no draining recovery is dropped by a retirement. If an activation put the old epoch to
  draining with some pending requests, on a guardian that goes on into the successor or on the one
  that is replaced, and the epoch was later retired, then each of these requests was explicitly
  finished in between. The old epoch is below \<open>u64::MAX\<close>, where the epoch counter saturates.\<close>

theorem guardian_store_keeps_pending:
  assumes "store_ok hx s"
    and "op \<in> {SActivate rid ph qc h dd P, SReplace rid ph qc h dd P}" and "store_exec hx op s = (Inr v, s0)" and "P \<noteq> {}"
    and "qc_predecessor_epoch qc \<noteq> u64_MAX"
    and "run_log (store_exec hx) s0 ops = (l1 @ (SRetire (qc_predecessor_epoch qc) mt, Inr w) # l2, t)"
  shows "\<forall>i \<in> P. \<exists>r. (SFinish (qc_predecessor_epoch qc) i, r) \<in> set l1"
proof -
  let ?e = "qc_predecessor_epoch qc"
  have sp: "still_pending ?e P s0" by (rule drained_pending [OF assms(1-5)])
  have ok0: "store_ok hx s0" by (rule store_ok_exec [OF assms(1,3)])
  from run_log_split [OF assms(6)] obtain ops1 s1 s2 where
    run: "run_log (store_exec hx) s0 ops1 = (l1, s1)" and ret: "store_exec hx (SRetire ?e mt) s1 = (Inr w, s2)"
    by blast
  have ok1: "store_ok hx s1" by (rule ges.run_stable [OF ok0 run])
  have "P \<subseteq> finished ?e l1"
  proof (rule ccontr)
    assume no: "\<not> P \<subseteq> finished ?e l1"
    with still_pending_run [OF ok0 sp run] have "still_pending ?e (P - finished ?e l1) s1" by blast
    from still_pending_step [OF ok1 this ret] no show False by blast
  qed
  then show ?thesis by (auto simp: finished_def)
qed

theorem guardian_store_keeps_pending_witness:
  "fst (run_log (store_exec hex_encode) (activated_store {3}) [SFinish 1 3, SRetire 1 100]) =
     [(SFinish 1 3, Inr Done), (SRetire 1 100, Inr (RetiredCapsule 11))] \<and>
   (\<exists>r. (SFinish 1 3, r) \<in> set [(SFinish 1 3, Inr Done :: (StorageError, store_value) result)])"
proof -
  have run: "run_log (store_exec hex_encode) (activated_store {3}) [SFinish 1 3, SRetire 1 100] =
    ([(SFinish 1 3, Inr Done)] @ (SRetire (qc_predecessor_epoch store_qc) 100, Inr (RetiredCapsule 11)) # [],
     snd (run_log (store_exec hex_encode) (activated_store {3}) [SFinish 1 3, SRetire 1 100]))"
    by (simp add: sample_store_evals store_op_defs Let_def)
  have e: "qc_predecessor_epoch store_qc = 1" by (simp add: store_qc_def)
  from e guardian_store_keeps_pending [OF prepared_store_ok _
      sample_activation [unfolded sample_activate_def] _ _ run, where P = "{3}"] show ?thesis
    by (subst run) (simp add: u64_MAX_def)
qed

text \<open>A transaction is atomic: if the mutation fails or the persistence fails, the store is the
  old one and the error is returned; otherwise the result and the new store are exactly those
  of the mutation.\<close>

theorem transaction_atomic:
  "transaction inject mutate s =
    (if is_ok (fst (mutate s)) \<and> \<not> inject then mutate s
     else (if is_ok (fst (mutate s)) then Inl InjectedFailure else fst (mutate s), s))"
  by (cases "mutate s"; cases "fst (mutate s)") (auto simp: transaction_def is_ok_def)

end
