(* ===== verification/GP_Storage_Locks.thy ===== *)
theory GP_Storage_Locks
  imports GP_Storage_Rotation GP_Core_Rotation
begin

text \<open>
  The one-child and one-vote rules of the signer and witness stores of
  \<open>gp-storage/src/rotation.rs\<close>, as providers of the register interfaces, and the relation
  between the witness store and the witness machine of \<open>gp-core\<close>.
\<close>

section \<open>The signer's locks and votes\<close>

text \<open>
  The vote maps a signer passes to \<open>record_vote\<close>, one per phase of a rotation.
\<close>

datatype vote_phase = IntentVote | BeginVote | ReleaseVotePhase | ActivateVote

primrec votes_of :: "vote_phase \<Rightarrow> SignerRotationStore \<Rightarrow> (string, Id32) btree_map" where
  "votes_of IntentVote s = srs_intent_votes s"
| "votes_of BeginVote s = srs_begin_votes s"
| "votes_of ReleaseVotePhase s = srs_release_votes s"
| "votes_of ActivateVote s = srs_activate_votes s"

primrec set_votes :: "vote_phase \<Rightarrow> (string, Id32) btree_map \<Rightarrow> SignerRotationStore \<Rightarrow> SignerRotationStore" where
  "set_votes IntentVote m s = s \<lparr> srs_intent_votes := m \<rparr>"
| "set_votes BeginVote m s = s \<lparr> srs_begin_votes := m \<rparr>"
| "set_votes ReleaseVotePhase m s = s \<lparr> srs_release_votes := m \<rparr>"
| "set_votes ActivateVote m s = s \<lparr> srs_activate_votes := m \<rparr>"

datatype signer_op = Lock Id32 Id32 | Vote vote_phase Id32 Id32

fun signer_exec :: "(Id32 \<Rightarrow> string) \<Rightarrow> signer_op \<Rightarrow> SignerRotationStore \<Rightarrow> (StorageError, unit) result \<times> SignerRotationStore" where
  "signer_exec hx (Lock pred plan) s = lock_plan hx pred plan s"
| "signer_exec hx (Vote ph rid h) s = map_prod id (\<lambda>m. set_votes ph m s) (record_vote hx rid h (votes_of ph s))"

lemma votes_of_set_votes [simp]:
  "votes_of ph (set_votes ph' m s) = (if ph = ph' then m else votes_of ph s)"
  "srs_predecessor_plan_locks (set_votes ph' m s) = srs_predecessor_plan_locks s"
  by (cases ph; cases ph'; simp) (cases ph'; simp)

text \<open>A register is a plan lock (no phase) or a vote of a phase.\<close>

definition signer_recorded :: "SignerRotationStore \<Rightarrow> vote_phase option \<times> string \<Rightarrow> Id32 option" where
  "signer_recorded s k = (case fst k of
     None \<Rightarrow> bt_get (srs_predecessor_plan_locks s) (snd k)
   | Some ph \<Rightarrow> bt_get (votes_of ph s) (snd k))"

fun signer_grant :: "(Id32 \<Rightarrow> string) \<Rightarrow> signer_op \<Rightarrow> (StorageError, unit) result \<Rightarrow> ((vote_phase option \<times> string) \<times> Id32) option" where
  "signer_grant hx (Lock pred plan) (Inr _) = Some ((None, hx pred), plan)"
| "signer_grant hx (Vote ph rid h) (Inr _) = Some ((Some ph, hx rid), h)"
| "signer_grant hx _ (Inl _) = None"

lemma votes_kept [simp]:
  "votes_of ph (s \<lparr> srs_predecessor_plan_locks := m \<rparr>) = votes_of ph s"
  by (cases ph) simp_all

interpretation srs: write_once "signer_exec hx" signer_recorded "signer_grant hx" for hx
proof unfold_locales
  fix op s r s' k v
  assume "signer_exec hx op s = (r, s')" and "signer_grant hx op r = Some (k, v)"
  then show "signer_recorded s' k = Some v"
    by (cases "(hx, op, r)" rule: signer_grant.cases)
      (auto simp: signer_recorded_def lock_plan_def record_vote_def Let_def split: if_splits option.splits)
next
  fix op s r s' k v
  assume "signer_exec hx op s = (r, s')" and "signer_recorded s k = Some v"
  then show "signer_recorded s' k = Some v"
    by (cases op)
      (auto simp: signer_recorded_def lock_plan_def record_vote_def Let_def split: if_splits option.splits)
qed

text \<open>A signer never equivocates, from any state its store was restored in: two plans it locked
  for the same predecessor are the same plan, and two votes it recorded in the same phase of
  the same rotation are for the same transcript.\<close>

theorem signer_never_equivocates:
  assumes "run_log (signer_exec hx) s ops = (l, t)"
  shows "(\<forall>p a b. (Lock p a, Inr ()) \<in> set l \<and> (Lock p b, Inr ()) \<in> set l \<longrightarrow> a = b) \<and>
    (\<forall>ph rid a b. (Vote ph rid a, Inr ()) \<in> set l \<and> (Vote ph rid b, Inr ()) \<in> set l \<longrightarrow> a = b)"
proof (intro conjI allI impI)
  fix p a b assume "(Lock p a, Inr ()) \<in> set l \<and> (Lock p b, Inr ()) \<in> set l"
  then show "a = b"
    using srs.grants_agree [OF assms, of "Lock p a" "Inr ()" "(None, hx p)" a "Lock p b" "Inr ()" b] by simp
next
  fix ph rid a b assume "(Vote ph rid a, Inr ()) \<in> set l \<and> (Vote ph rid b, Inr ()) \<in> set l"
  then show "a = b"
    using srs.grants_agree [OF assms, of "Vote ph rid a" "Inr ()" "(Some ph, hx rid)" a "Vote ph rid b" "Inr ()" b] by simp
qed

definition sample_signer_ops :: "signer_op list" where
  "sample_signer_ops = [Lock 1 2, Lock 1 3, Lock 1 2, Vote BeginVote 4 5, Vote BeginVote 4 6, Vote ReleaseVotePhase 4 6]"

theorem signer_never_equivocates_witness:
  "map snd (fst (run_log (signer_exec hex_encode) SignerRotationStore_new sample_signer_ops)) =
     [Inr (), Inl Conflict, Inr (), Inr (), Inl Conflict, Inr ()] \<and>
   (Lock 1 3, Inr ()) \<notin> set (fst (run_log (signer_exec hex_encode) SignerRotationStore_new sample_signer_ops)) \<and>
   (Vote BeginVote 4 6, Inr ()) \<notin> set (fst (run_log (signer_exec hex_encode) SignerRotationStore_new sample_signer_ops))"
  (is "map snd ?l = _ \<and> _")
proof -
  have l: "?l = [(Lock 1 2, Inr ()), (Lock 1 3, Inl Conflict), (Lock 1 2, Inr ()), (Vote BeginVote 4 5, Inr ()),
      (Vote BeginVote 4 6, Inl Conflict), (Vote ReleaseVotePhase 4 6, Inr ())]"
    by (simp add: sample_signer_ops_def SignerRotationStore_new_def lock_plan_def record_vote_def Let_def)
  have granted: "(Lock 1 2, Inr ()) \<in> set ?l" "(Vote BeginVote 4 5, Inr ()) \<in> set ?l"
    by (simp_all only: l list.set) simp_all
  note agree = signer_never_equivocates [OF surjective_pairing, of hex_encode SignerRotationStore_new sample_signer_ops]
  have "(2 :: Id32) \<noteq> 3" "(5 :: Id32) \<noteq> 6" by simp_all
  with granted agree have "(Lock 1 3, Inr ()) \<notin> set ?l" "(Vote BeginVote 4 6, Inr ()) \<notin> set ?l"
    by blast+
  then show ?thesis by (simp add: l)
qed

section \<open>The witness store\<close>

datatype witness_store_op =
    WPersist ConfigRef Id32 ConfigRef Id32
  | WCancel u64 Id32 u64 Id32
  | WNonce Id32

fun witness_store_exec :: "(Id32 \<Rightarrow> string) \<Rightarrow> witness_store_op \<Rightarrow> WitnessEpochStore \<Rightarrow> (StorageError, unit) result \<times> WitnessEpochStore" where
  "witness_store_exec hx (WPersist p ph s sh) w = persist_successor_before_ack hx p ph s sh w"
| "witness_store_exec hx (WCancel pe ph se sh) w = cancel_pending_successor hx pe ph se sh w"
| "witness_store_exec hx (WNonce n) w = observe_read_nonce n w"

lemmas witness_store_defs =
  persist_successor_before_ack_def cancel_pending_successor_def observe_read_nonce_def

fun store_grant :: "(Id32 \<Rightarrow> string) \<Rightarrow> witness_store_op \<Rightarrow> (StorageError, unit) result \<Rightarrow> (string \<times> Id32) option" where
  "store_grant hx (WPersist p ph s sh) (Inr _) = Some (hx ph, sh)"
| "store_grant hx _ _ = None"

fun store_revoke :: "(Id32 \<Rightarrow> string) \<Rightarrow> witness_store_op \<Rightarrow> (StorageError, unit) result \<Rightarrow> string option" where
  "store_revoke hx (WCancel pe ph se sh) (Inr _) = Some (hx ph)"
| "store_revoke hx _ _ = None"

interpretation wes: revocable "witness_store_exec hx" "\<lambda>w. bt_get (wes_predecessor_locks w)" "store_grant hx" "store_revoke hx"
  "\<lambda>_. True" for hx
proof unfold_locales
  fix op s r s' k v
  assume "witness_store_exec hx op s = (r, s')" and "store_grant hx op r = Some (k, v)"
  then show "bt_get (wes_predecessor_locks s') k = Some v"
    by (cases "(hx, op, r)" rule: store_grant.cases)
      (auto simp: witness_store_defs Let_def split: if_splits option.splits)
next
  fix op s r s' k v
  assume "witness_store_exec hx op s = (r, s')" and "bt_get (wes_predecessor_locks s) k = Some v"
    and "store_revoke hx op r \<noteq> Some k"
  then show "bt_get (wes_predecessor_locks s') k = Some v"
    by (cases op) (auto simp: witness_store_defs Let_def split: if_splits option.splits)
next
  fix op r k v
  assume "store_grant hx op r = Some (k, v)"
  then show "store_revoke hx op r \<noteq> Some k"
    by (cases "(hx, op, r)" rule: store_grant.cases) auto
qed simp

lemma store_revoke_iff:
  "store_revoke hx op r = Some k \<longleftrightarrow> (\<exists>pe ph se sh. op = WCancel pe ph se sh \<and> r = Inr () \<and> hx ph = k)"
  by (cases "(hx, op, r)" rule: store_revoke.cases) auto

text \<open>A witness store acknowledges one child per predecessor capsule. If it acknowledged two
  different successors of the same predecessor, then between the two acknowledgements it
  executed an owner cancellation of a pending successor of exactly that predecessor.\<close>

theorem witness_store_one_child:
  assumes "inj hx"
    and "run_log (witness_store_exec hx) w ops =
      (l1 @ (WPersist p1 h s1 c1, Inr ()) # l2 @ (WPersist p2 h s2 c2, Inr ()) # l3, t)"
    and "c1 \<noteq> c2"
  shows "\<exists>pe se c. (WCancel pe h se c, Inr ()) \<in> set l2"
proof -
  have "\<exists>(op, r) \<in> set l2. store_revoke hx op r = Some (hx h)"
    by (rule wes.regrant_after_revocation [OF assms(2) TrueI _ _ assms(3)]) simp_all
  then show ?thesis
    using assms(1) by (auto simp: store_revoke_iff inj_eq)
qed

definition witness_store0 :: WitnessEpochStore where
  "witness_store0 = WitnessEpochStore_new (store_ref 1 1) 10"

theorem witness_store_one_child_witness:
  "map snd (fst (run_log (witness_store_exec hex_encode) witness_store0
      [WPersist (store_ref 1 1) 10 (store_ref 2 2) 11, WCancel 1 10 2 11,
       WPersist (store_ref 1 1) 10 (store_ref 2 3) 12])) = [Inr (), Inr (), Inr ()] \<and>
   (\<exists>pe se c. (WCancel pe 10 se c, Inr ()) \<in> set [(WCancel 1 10 2 11, Inr () :: (StorageError, unit) result)])"
proof -
  let ?ops = "[WPersist (store_ref 1 1) 10 (store_ref 2 2) 11, WCancel 1 10 2 11,
      WPersist (store_ref 1 1) 10 (store_ref 2 3) 12]"
  have run: "run_log (witness_store_exec hex_encode) witness_store0 ?ops =
    ([] @ (WPersist (store_ref 1 1) 10 (store_ref 2 2) 11, Inr ()) # [(WCancel 1 10 2 11, Inr ())] @
      (WPersist (store_ref 1 1) 10 (store_ref 2 3) 12, Inr ()) # [],
     snd (run_log (witness_store_exec hex_encode) witness_store0 ?ops))"
    by (simp add: witness_store0_def WitnessEpochStore_new_def witness_store_defs store_ref_def
        is_direct_successor_of_def saturating_add_def bt_remove_def Let_def)
  from witness_store_one_child [OF inj_hex_encode run] show ?thesis
    by (subst run) simp
qed

lemma bt_remove_insert: "bt_get m k = None \<Longrightarrow> bt_remove k (bt_insert k v m) = m"
proof (induction k v m rule: bt_insert.induct)
  case (2 k v k' v' m)
  then have "k \<noteq> k'" and "bt_get m k = None" by (auto split: if_splits)
  moreover from this(2) have "filter (\<lambda>(k', _). k' \<noteq> k) m = m"
    by (force simp: filter_id_conv map_of_eq_None_iff)
  ultimately show ?case using 2 by (auto simp: bt_remove_def)
qed (simp add: bt_remove_def)

text \<open>Cancelling a pending successor undoes its acknowledgement exactly: the store after a fresh
  acknowledgement and its cancellation is the store before, so the rotation can be planned
  anew and nothing of the cancelled one is left.\<close>

theorem witness_cancel_undoes_persist:
  assumes "bt_get (wes_predecessor_locks w) (hx ph) = None"
    and "persist_successor_before_ack hx p ph s sh w = (Inr (), w1)"
  shows "cancel_pending_successor hx (cr_guardian_epoch p) ph (cr_guardian_epoch s) sh w1 = (Inr (), w)"
proof -
  from assms have w1: "w1 = w \<lparr> wes_predecessor_locks := bt_insert (hx ph) sh (wes_predecessor_locks w),
      wes_highest_guardian_epoch := cr_guardian_epoch s, wes_highest_capsule_hash := sh \<rparr>"
    and p: "cr_guardian_epoch p = wes_highest_guardian_epoch w" "ph = wes_highest_capsule_hash w"
      "cr_guardian_epoch s = saturating_add (cr_guardian_epoch p) 1"
    by (auto simp: persist_successor_before_ack_def is_direct_successor_of_def Let_def split: if_splits)
  then show ?thesis
    using bt_remove_insert [OF assms(1), of sh]
    by (simp add: cancel_pending_successor_def Let_def)
qed

theorem witness_cancel_undoes_persist_witness:
  "cancel_pending_successor hex_encode 1 10 2 11
     (snd (persist_successor_before_ack hex_encode (store_ref 1 1) 10 (store_ref 2 2) 11 witness_store0)) =
   (Inr (), witness_store0)"
proof -
  have a: "bt_get (wes_predecessor_locks witness_store0) (hex_encode 10) = None"
    by (simp add: witness_store0_def WitnessEpochStore_new_def)
  have b: "persist_successor_before_ack hex_encode (store_ref 1 1) 10 (store_ref 2 2) 11 witness_store0 =
    (Inr (), snd (persist_successor_before_ack hex_encode (store_ref 1 1) 10 (store_ref 2 2) 11 witness_store0))"
    by (simp add: witness_store0_def WitnessEpochStore_new_def witness_store_defs store_ref_def
        is_direct_successor_of_def saturating_add_def Let_def)
  from witness_cancel_undoes_persist [OF a b] show ?thesis by (simp add: store_ref_def)
qed

section \<open>The witness store implements the witness machine\<close>

text \<open>The store holds the register and the locks of the machine, under hexadecimal keys.\<close>

definition represents :: "(Id32 \<Rightarrow> string) \<Rightarrow> WitnessEpochStore \<Rightarrow> EpochWitnessMachine \<Rightarrow> bool" where
  "represents hx w m \<longleftrightarrow>
     wes_config_id w = ew_config_id m \<and>
     wes_highest_guardian_epoch w = ew_highest_epoch m \<and>
     wes_highest_capsule_hash w = ew_highest_capsule_hash m \<and>
     (\<forall>h. bt_get (wes_predecessor_locks w) (hx h) = bt_get (ew_predecessor_locks m) h) \<and>
     wes_seen_read_nonces w = ew_seen_read_nonces m"

text \<open>The witness store implements the witness machine. Whenever the machine acknowledges a
  successor, the store persists the same one and the two stay in correspondence; whenever the
  machine answers a fresh read, the store accepts the nonce, and the epoch and capsule it holds
  are the ones the machine signs.\<close>

theorem witness_store_refines_machine:
  assumes "inj hx" and "represents hx w m"
  shows "(\<forall>p ph s sh a m'. accept_successor p ph s sh True m = (Inr a, m') \<longrightarrow>
      (\<exists>w'. persist_successor_before_ack hx p ph s sh w = (Inr (), w') \<and> represents hx w' m')) \<and>
    (\<forall>c n i x t a m'. fresh_read c n i x t m = (Inr a, m') \<longrightarrow>
      (\<exists>w'. observe_read_nonce n w = (Inr (), w') \<and> represents hx w' m' \<and>
         a = SignFreshRead n (wes_highest_guardian_epoch w') (wes_highest_capsule_hash w')))"
proof
  show "\<forall>p ph s sh a m'. accept_successor p ph s sh True m = (Inr a, m') \<longrightarrow>
      (\<exists>w'. persist_successor_before_ack hx p ph s sh w = (Inr (), w') \<and> represents hx w' m')"
    using assms
    by (auto simp: represents_def accept_successor_def persist_successor_before_ack_def Let_def inj_eq
        split: if_splits option.splits)
  show "\<forall>c n i x t a m'. fresh_read c n i x t m = (Inr a, m') \<longrightarrow>
      (\<exists>w'. observe_read_nonce n w = (Inr (), w') \<and> represents hx w' m' \<and>
         a = SignFreshRead n (wes_highest_guardian_epoch w') (wes_highest_capsule_hash w'))"
    using assms by (auto simp: represents_def fresh_read_ok observe_read_nonce_def)
qed

theorem witness_store_refines_machine_witness:
  "\<exists>w'. persist_successor_before_ack hex_encode (sample_ref 1 1) 10 (sample_ref 2 2) 11
      (WitnessEpochStore_new (sample_ref 1 1) 10) = (Inr (), w') \<and>
    represents hex_encode w' (snd (accept_successor (sample_ref 1 1) 10 (sample_ref 2 2) 11 True cyclic_witness))"
proof -
  have rep: "represents hex_encode (WitnessEpochStore_new (sample_ref 1 1) 10) cyclic_witness"
    by (simp add: represents_def WitnessEpochStore_new_def cyclic_witness_def EpochWitnessMachine_new_def sample_ref_def)
  have acc: "accept_successor (sample_ref 1 1) 10 (sample_ref 2 2) 11 True cyclic_witness =
    (Inr (PersistSuccessorBeforeAck 1 10 2 11),
     snd (accept_successor (sample_ref 1 1) 10 (sample_ref 2 2) 11 True cyclic_witness))"
    by (simp add: cyclic_witness_def EpochWitnessMachine_new_def accept_successor_def
        is_direct_successor_of_def sample_ref_def saturating_add_def)
  from witness_store_refines_machine [OF inj_hex_encode rep] acc show ?thesis by blast
qed

end
