(* ===== verification/GP_Crypto.thy ===== *)
theory GP_Crypto
  imports GP_Types_Rotation
begin

text \<open>
  The wrappers of \<open>gp-crypto/src/lib.rs\<close> that the verification rules and the services call: hashing and
  key derivation, authenticated encryption, sealing to a recipient, signatures and Merkle proofs.
  Erasing secrets has no counterpart. The primitives behind them are third-party packages; they are the fields of
  the record \<open>primitives\<close>, an argument of every definition that uses them. No law is attached to
  the record: a property that relies on one (that a witness key signs only what its owner signed)
  names it as a hypothesis.
\<close>

record primitives =
  sha2_digest :: "byte list \<Rightarrow> Id32"
  dalek_key_ok :: "arr32 \<Rightarrow> bool"
  dalek_signature_ok :: "byte list \<Rightarrow> bool"
  dalek_verify :: "arr32 \<Rightarrow> byte list \<Rightarrow> byte list \<Rightarrow> bool"
  dalek_public :: "Id32 \<Rightarrow> arr32"
  dalek_sign :: "Id32 \<Rightarrow> byte list \<Rightarrow> byte list"
  rs_merkle_root :: "Id32 list \<Rightarrow> Id32 option"
  rs_merkle_prove :: "Id32 list \<Rightarrow> nat list \<Rightarrow> byte list"
  rs_merkle_parse :: "byte list \<Rightarrow> bool"
  rs_merkle_verify :: "byte list \<Rightarrow> Id32 \<Rightarrow> nat list \<Rightarrow> Id32 list \<Rightarrow> nat \<Rightarrow> bool"
  hkdf_expand :: "byte list \<Rightarrow> byte list \<Rightarrow> Id32 option"
  xchacha_encrypt :: "Id32 \<Rightarrow> arr24 \<Rightarrow> byte list \<Rightarrow> byte list \<Rightarrow> byte list option"
  xchacha_decrypt :: "Id32 \<Rightarrow> arr24 \<Rightarrow> byte list \<Rightarrow> byte list \<Rightarrow> byte list option"
  xwing_public :: "Id32 \<Rightarrow> byte list"
  xwing_encapsulate :: "byte list \<Rightarrow> Id32 \<Rightarrow> (byte list \<times> Id32) option"
  xwing_decapsulate :: "Id32 \<Rightarrow> byte list \<Rightarrow> Id32 option"

datatype CryptoError =
    Authentication
  | InvalidThreshold
  | InvalidSecretLength
  | InsufficientShares
  | InvalidShare
  | DuplicateShare
  | InvalidFragments
  | InvalidSignature
  | InvalidKemData
  | InvalidMerkleProof
  | Kdf
  | InvalidFrost
  | InvalidFrostParticipant

definition XWING_PUBLIC_KEY_LEN :: nat where
  "XWING_PUBLIC_KEY_LEN = 1216"

definition sha256 :: "primitives \<Rightarrow> byte list \<Rightarrow> Id32" where
  "sha256 cp data = sha2_digest cp data"

definition merkle_commit ::
    "primitives \<Rightarrow> Id32 list \<Rightarrow> (CryptoError, Id32 \<times> byte list list) result"
where
  "merkle_commit cp leaves =
    (if leaves = [] then Inl InvalidMerkleProof else
     bindR (ok_or (rs_merkle_root cp leaves) InvalidMerkleProof) (\<lambda>root.
     Inr (root, map (\<lambda>index. rs_merkle_prove cp leaves [index]) [0..<length leaves])))"

definition merkle_verify ::
    "primitives \<Rightarrow> Id32 \<Rightarrow> Id32 \<Rightarrow> nat \<Rightarrow> nat \<Rightarrow> byte list \<Rightarrow> (CryptoError, unit) result"
where
  "merkle_verify cp root leaf index leaf_count proof =
    (if \<not> rs_merkle_parse cp proof then Inl InvalidMerkleProof
     else if rs_merkle_verify cp proof root [index] [leaf] leaf_count then Inr ()
     else Inl InvalidMerkleProof)"

section \<open>Key derivation\<close>

definition FROST_MAX_PARTICIPANTS :: u16 where
  "FROST_MAX_PARTICIPANTS = 32"

definition hkdf_sha256 :: "primitives \<Rightarrow> byte list \<Rightarrow> byte list \<Rightarrow> (CryptoError, Id32) result" where
  "hkdf_sha256 cp ikm info = ok_or (hkdf_expand cp ikm info) Kdf"

definition guardian_share_key ::
    "primitives \<Rightarrow> arr32 \<Rightarrow> Id32 \<Rightarrow> u64 \<Rightarrow> u16 \<Rightarrow> (CryptoError, Id32) result"
where
  "guardian_share_key cp authorization_key config_id config_version guardian_index =
    hkdf_sha256 cp (bytes32 authorization_key)
      (as_bytes ''gp/guardian-dek-share/v1'' @ bytes32 config_id @ be64 config_version @ be16 guardian_index)"

definition config_ref_kdf_info :: "string \<Rightarrow> ConfigRef \<Rightarrow> u16 option \<Rightarrow> byte list" where
  "config_ref_kdf_info prefix config_ref actor_index =
    as_bytes prefix @ bytes32 (cr_config_id config_ref) @ be64 (cr_payload_generation config_ref) @
    be64 (cr_authorization_epoch config_ref) @ be64 (cr_guardian_epoch config_ref) @
    bytes32 (cr_epoch_binding config_ref) @
    (case actor_index of None \<Rightarrow> [] | Some index \<Rightarrow> be16 index)"

definition guardian_share_key_v3 ::
    "primitives \<Rightarrow> arr32 \<Rightarrow> ConfigRef \<Rightarrow> u16 \<Rightarrow> (CryptoError, Id32) result"
where
  "guardian_share_key_v3 cp authorization_key config_ref guardian_index =
    (if guardian_index = 0 \<or> guardian_index > FROST_MAX_PARTICIPANTS then Inl InvalidFrostParticipant else
     hkdf_sha256 cp (bytes32 authorization_key)
       (config_ref_kdf_info ''gp/guardian-dek-share/v3'' config_ref (Some guardian_index)))"

definition guardian_fragment_key_v3 ::
    "primitives \<Rightarrow> arr32 \<Rightarrow> ConfigRef \<Rightarrow> u16 \<Rightarrow> (CryptoError, Id32) result"
where
  "guardian_fragment_key_v3 cp authorization_key config_ref guardian_index =
    (if guardian_index = 0 \<or> guardian_index > FROST_MAX_PARTICIPANTS then Inl InvalidFrostParticipant else
     hkdf_sha256 cp (bytes32 authorization_key)
       (config_ref_kdf_info ''gp/guardian-ciphertext-fragment/v3'' config_ref (Some guardian_index)))"

definition descriptor_key_v3 :: "primitives \<Rightarrow> arr32 \<Rightarrow> ConfigRef \<Rightarrow> (CryptoError, Id32) result" where
  "descriptor_key_v3 cp authorization_key config_ref =
    hkdf_sha256 cp (bytes32 authorization_key)
      (config_ref_kdf_info ''gp/recovery-descriptor/v3'' config_ref None)"

definition descriptor_key :: "primitives \<Rightarrow> arr32 \<Rightarrow> Id32 \<Rightarrow> u64 \<Rightarrow> (CryptoError, Id32) result" where
  "descriptor_key cp authorization_key config_id config_version =
    hkdf_sha256 cp (bytes32 authorization_key)
      (as_bytes ''gp/recovery-descriptor/v1'' @ bytes32 config_id @ be64 config_version)"

section \<open>Encryption\<close>

definition aead_encrypt ::
    "primitives \<Rightarrow> Id32 \<Rightarrow> arr24 \<Rightarrow> byte list \<Rightarrow> byte list \<Rightarrow> (CryptoError, AeadCiphertext) result"
where
  "aead_encrypt cp key nonce plaintext associated_data =
    bindR (ok_or (xchacha_encrypt cp key nonce plaintext associated_data) Authentication) (\<lambda>ciphertext.
    Inr \<lparr> ac_nonce = nonce, ac_ciphertext = ciphertext \<rparr>)"

definition aead_decrypt ::
    "primitives \<Rightarrow> Id32 \<Rightarrow> AeadCiphertext \<Rightarrow> byte list \<Rightarrow> (CryptoError, byte list) result"
where
  "aead_decrypt cp key value associated_data =
    ok_or (xchacha_decrypt cp key (ac_nonce value) (ac_ciphertext value) associated_data) Authentication"

definition seal_local_rotation_journal ::
    "primitives \<Rightarrow> Id32 \<Rightarrow> arr24 \<Rightarrow> byte list \<Rightarrow> byte list \<Rightarrow> (CryptoError, AeadCiphertext) result"
where
  "seal_local_rotation_journal cp node_identity_seed nonce plaintext canonical_context =
    bindR (hkdf_sha256 cp (bytes32 node_identity_seed)
      (as_bytes ''gp/local-rotation-journal/v3'' @ bytes32 (sha256 cp canonical_context))) (\<lambda>key.
    aead_encrypt cp key nonce plaintext canonical_context)"

definition open_local_rotation_journal ::
    "primitives \<Rightarrow> Id32 \<Rightarrow> AeadCiphertext \<Rightarrow> byte list \<Rightarrow> (CryptoError, byte list) result"
where
  "open_local_rotation_journal cp node_identity_seed encrypted canonical_context =
    bindR (hkdf_sha256 cp (bytes32 node_identity_seed)
      (as_bytes ''gp/local-rotation-journal/v3'' @ bytes32 (sha256 cp canonical_context))) (\<lambda>key.
    aead_decrypt cp key encrypted canonical_context)"

text \<open>A recipient's key pair is named by its seed as well.\<close>

definition open_sealed ::
    "primitives \<Rightarrow> Id32 \<Rightarrow> SealedMessage \<Rightarrow> byte list \<Rightarrow> (CryptoError, byte list) result"
where
  "open_sealed cp seed sealed associated_data =
    bindR (ok_or (xwing_decapsulate cp seed (sm_kem_ciphertext sealed)) InvalidKemData) (\<lambda>key.
    aead_decrypt cp key (sm_payload sealed) associated_data)"

definition seal_to_recipient ::
    "primitives \<Rightarrow> byte list \<Rightarrow> Id32 \<Rightarrow> arr24 \<Rightarrow> byte list \<Rightarrow> byte list \<Rightarrow> (CryptoError, SealedMessage) result"
where
  "seal_to_recipient cp recipient_public_key kem_seed nonce plaintext associated_data =
    bindR (ok_or (xwing_encapsulate cp recipient_public_key kem_seed) InvalidKemData) (\<lambda>(ciphertext, key).
    bindR (aead_encrypt cp key nonce plaintext associated_data) (\<lambda>payload.
    Inr \<lparr> sm_kem_ciphertext = ciphertext, sm_payload = payload \<rparr>))"

definition hash_aead :: "primitives \<Rightarrow> AeadCiphertext \<Rightarrow> Id32" where
  "hash_aead cp value = sha256 cp (bytes24 (ac_nonce value) @ ac_ciphertext value)"

section \<open>Signatures\<close>

text \<open>A signing key is named by its seed: \<open>signing_key\<close> is the identity on it.\<close>

definition verifying_key_bytes :: "primitives \<Rightarrow> Id32 \<Rightarrow> arr32" where
  "verifying_key_bytes cp seed = dalek_public cp seed"

definition sign :: "primitives \<Rightarrow> Id32 \<Rightarrow> byte list \<Rightarrow> byte list" where
  "sign cp seed transcript = dalek_sign cp seed transcript"

definition verify :: "primitives \<Rightarrow> arr32 \<Rightarrow> byte list \<Rightarrow> byte list \<Rightarrow> (CryptoError, unit) result" where
  "verify cp public_key transcript signature =
    (if \<not> dalek_key_ok cp public_key then Inl InvalidSignature
     else if \<not> dalek_signature_ok cp signature then Inl InvalidSignature
     else if dalek_verify cp public_key transcript signature then Inr ()
     else Inl InvalidSignature)"

end
