(* ===== verification/GP_Protocol_V3.thy ===== *)
theory GP_Protocol_V3
  imports GP_Core_Rotation GP_Wire_Rotation GP_Crypto GP_Storage
begin

text \<open>
  The verification rules of protocol version 3, \<open>gp-network/src/rotation_protocol.rs\<close>: recovery
  cards, recovery requests and certificates, rotation plans, begin, release, abort, ready and
  activate certificates, owner cancellations, activated capsules and the selection of the latest
  epoch from witness reads. The functions perform no I/O; every security decision of the services
  goes through them.

  An \<open>anyhow\<close> error is the message of a \<open>bail!\<close> or the error a \<open>?\<close> converted. A set of
  identifiers collected in a loop is a HOL set, its \<open>len\<close> the cardinality.
\<close>

datatype anyhow =
    Bail string
  | FromWire WireError
  | FromCrypto CryptoError
  | FromStorage StorageError
  | FromJson
  | FromTryInt
  | FromRotation RotationError

definition wire :: "(WireError, 'a) result \<Rightarrow> (anyhow, 'a) result" where
  "wire r = (case r of Inl e \<Rightarrow> Inl (FromWire e) | Inr a \<Rightarrow> Inr a)"

definition crypt :: "(CryptoError, 'a) result \<Rightarrow> (anyhow, 'a) result" where
  "crypt r = (case r of Inl e \<Rightarrow> Inl (FromCrypto e) | Inr a \<Rightarrow> Inr a)"

definition ensure :: "bool \<Rightarrow> string \<Rightarrow> (anyhow, unit) result" where
  "ensure b msg = (if b then Inr () else Inl (Bail msg))"

text \<open>The operator \<open>?\<close> inside a handler with state: an error is returned with the current state.\<close>

definition attempt :: "('e, 'a) result \<Rightarrow> 's \<Rightarrow> ('a \<Rightarrow> ('e, 'b) result \<times> 's) \<Rightarrow> ('e, 'b) result \<times> 's" where
  "attempt r s f = (case r of Inl e \<Rightarrow> (Inl e, s) | Inr a \<Rightarrow> f a)"

lemma attempt_eq:
  "attempt r s f = (r', s') \<longleftrightarrow> (\<exists>e. r = Inl e \<and> r' = Inl e \<and> s' = s) \<or> (\<exists>a. r = Inr a \<and> f a = (r', s'))"
  by (cases r) (auto simp: attempt_def)

text \<open>Inversion of a handler, one guard or \<open>?\<close> at a time.\<close>

lemma attempt_elim:
  assumes "attempt r s f = (r', s')"
  obtains (err) e where "r = Inl e" "r' = Inl e" "s' = s" | (ok) a where "r = Inr a" "f a = (r', s')"
  using assms by (auto simp: attempt_eq)

lemma guard_elim:
  assumes "(if b then (Inl e, s) else X) = (r', s')"
  obtains (err) "r' = Inl e" "s' = s" | (ok) "\<not> b" "X = (r', s')"
  using assms by (auto split: if_splits)

lemma outcome_elim:
  assumes "(case X of (Inl e, _) \<Rightarrow> (Inl (g e), s) | (Inr u, t) \<Rightarrow> f u t) = (r', s')"
  obtains (err) e where "r' = Inl (g e)" "s' = s" | (ok) u t where "X = (Inr u, t)" "f u t = (r', s')"
  using assms by (auto split: prod.splits sum.splits)

text \<open>Checked arithmetic on \<open>usize\<close> and the conversion to \<open>u16\<close>.\<close>

definition usize_MAX :: nat where
  "usize_MAX = 2 ^ 64 - 1"

definition checked_mul :: "nat \<Rightarrow> nat \<Rightarrow> nat option" where
  "checked_mul a b = (if a * b \<le> usize_MAX then Some (a * b) else None)"

definition checked_add :: "nat \<Rightarrow> nat \<Rightarrow> nat option" where
  "checked_add a b = (if a + b \<le> usize_MAX then Some (a + b) else None)"

definition u16_try_from :: "nat \<Rightarrow> (anyhow, u16) result" where
  "u16_try_from n = (if n < 2 ^ 16 then Inr (of_nat n) else Inl FromTryInt)"

text \<open>
  The shape of every loop over signed items: test the item, insert its identifier into the set of
  those seen, run the cryptographic checks, go on; the first failure is returned.
\<close>

fun each_once ::
    "('v \<Rightarrow> 'k) \<Rightarrow> ('v \<Rightarrow> (anyhow, unit) result) \<Rightarrow> string \<Rightarrow> ('v \<Rightarrow> (anyhow, unit) result) \<Rightarrow>
     'k set \<Rightarrow> 'v list \<Rightarrow> (anyhow, 'k set) result"
where
  "each_once key test dup body ids [] = Inr ids"
| "each_once key test dup body ids (v # vs) =
     bindR (test v) (\<lambda>_.
     if key v \<in> ids then Inl (Bail dup) else
     bindR (body v) (\<lambda>_.
     each_once key test dup body (insert (key v) ids) vs))"

section \<open>Recovery cards\<close>

definition required_witness_quorum :: "u16 \<Rightarrow> (anyhow, nat) result" where
  "required_witness_quorum fault_bound =
    ok_or (Option.bind (checked_mul (unat fault_bound) 2) (\<lambda>value. checked_add value 1))
      (Bail ''witness quorum size overflow'')"

fun check_pins :: "u16 set \<Rightarrow> arr32 set \<Rightarrow> string set \<Rightarrow> WitnessPin list \<Rightarrow> (anyhow, unit) result" where
  "check_pins ids keys mailboxes [] = Inr ()"
| "check_pins ids keys mailboxes (pin # pins) =
     (if wp_witness_id pin = 0 \<or> wp_mailbox pin = [] \<or> wp_witness_id pin \<in> ids \<or>
         wp_public_key pin \<in> keys \<or> wp_mailbox pin \<in> mailboxes
      then Inl (Bail ''Recovery Card contains an invalid or duplicate witness pin'')
      else check_pins (insert (wp_witness_id pin) ids) (insert (wp_public_key pin) keys)
        (insert (wp_mailbox pin) mailboxes) pins)"

definition validate_recovery_card_v3 :: "RecoveryCardV3 \<Rightarrow> (anyhow, unit) result" where
  "validate_recovery_card_v3 rcard =
    (if card3_protocol_version rcard \<noteq> PROTOCOL_VERSION_V3 \<or> card3_witness_fault_bound rcard = 0
     then Inl (Bail ''invalid protocol-v3 Recovery Card'') else
     bindR (ok_or (Option.bind (checked_mul (unat (card3_witness_fault_bound rcard)) 3)
         (\<lambda>value. checked_add value 1)) (Bail ''witness roster size overflow'')) (\<lambda>required_roster.
     if length (card3_witnesses rcard) < required_roster
     then Inl (Bail ''Recovery Card does not pin at least 3f+1 witnesses'') else
     check_pins {} {} {} (card3_witnesses rcard)))"

definition witness_pins :: "RecoveryCardV3 \<Rightarrow> (u16, WitnessPin) btree_map" where
  "witness_pins rcard =
    fold (\<lambda>pin. bt_insert (wp_witness_id pin) pin) (card3_witnesses rcard) []"

section \<open>Recovery requests and certificates\<close>

definition validate_signer_membership ::
    "primitives \<Rightarrow> u16 \<Rightarrow> arr32 \<Rightarrow> byte list \<Rightarrow> ConfigCapsuleV3 \<Rightarrow> (anyhow, unit) result"
where
  "validate_signer_membership cp signer_id signer_public_key membership_proof capsule =
    (if signer_id = 0 \<or> signer_id > cc3_signer_count capsule then Inl (Bail ''invalid signer id'') else
     bindR (wire (signer_leaf signer_id signer_public_key)) (\<lambda>leaf.
     crypt (merkle_verify cp (cc3_signer_set_commitment capsule) (sha256 cp leaf)
       (unat (signer_id - 1)) (unat (cc3_signer_count capsule)) membership_proof)))"

definition request_digest_v3 :: "primitives \<Rightarrow> RecoveryRequestV3 \<Rightarrow> (anyhow, Id32) result" where
  "request_digest_v3 cp request =
    bindR (wire (recovery_request_digest_v3 request)) (\<lambda>t. Inr (sha256 cp t))"

definition validate_recovery_request_for_ref_v3 ::
    "primitives \<Rightarrow> RecoveryRequestV3 \<Rightarrow> ConfigCapsuleV3 \<Rightarrow> ConfigRef \<Rightarrow> u64 \<Rightarrow> (anyhow, Id32) result"
where
  "validate_recovery_request_for_ref_v3 cp request capsule expected_config_ref now =
    (if rq3_protocol_version request \<noteq> PROTOCOL_VERSION_V3 \<or>
        rq3_config_ref request \<noteq> expected_config_ref \<or>
        cr_config_id (rq3_config_ref request) \<noteq> cr_config_id (cc3_config_ref capsule) \<or>
        cr_payload_generation (rq3_config_ref request) \<noteq> cr_payload_generation (cc3_config_ref capsule) \<or>
        cr_authorization_epoch (rq3_config_ref request) \<noteq> cr_authorization_epoch (cc3_config_ref capsule) \<or>
        length (rq3_recovery_recipient_key request) \<noteq> XWING_PUBLIC_KEY_LEN \<or>
        rq3_requested_at request > now \<or>
        rq3_expiry request \<le> now \<or>
        rq3_expiry request > saturating_add (rq3_requested_at request) (cc3_max_request_lifetime capsule)
     then Inl (Bail ''invalid, stale, expired, or recipient-mismatched v3 recovery request'')
     else request_digest_v3 cp request)"

definition validate_recovery_request_v3 ::
    "primitives \<Rightarrow> RecoveryRequestV3 \<Rightarrow> ConfigCapsuleV3 \<Rightarrow> u64 \<Rightarrow> (anyhow, Id32) result"
where
  "validate_recovery_request_v3 cp request capsule now =
    validate_recovery_request_for_ref_v3 cp request capsule (cc3_config_ref capsule) now"

definition validate_begin_recovery_certificate_v3 ::
    "primitives \<Rightarrow> BeginRecoveryCertificateV3 \<Rightarrow> ConfigCapsuleV3 \<Rightarrow> u64 \<Rightarrow> (anyhow, Id32) result"
where
  "validate_begin_recovery_certificate_v3 cp certificate capsule now =
    bindR (validate_recovery_request_v3 cp (brc3_request certificate) capsule now) (\<lambda>digest.
    bindR (wire (begin_recovery_certificate_v3 certificate)) (\<lambda>_.
    if brc3_request_digest certificate \<noteq> digest
    then Inl (Bail ''v3 Begin certificate has the wrong request digest'') else
    bindR (each_once sc3_signer_id
      (\<lambda>contribution. ensure (sc3_request contribution = brc3_request certificate)
        ''duplicate or request-mismatched signer recovery contribution'')
      ''duplicate or request-mismatched signer recovery contribution''
      (\<lambda>contribution.
        bindR (validate_signer_membership cp (sc3_signer_id contribution) (sc3_signer_public_key contribution)
          (sc3_signer_membership_proof contribution) capsule) (\<lambda>_.
        bindR (wire (signer_recovery_contribution_v3 contribution)) (\<lambda>t.
        crypt (verify cp (sc3_signer_public_key contribution) t (sc3_signer_signature contribution)))))
      {} (brc3_signer_contributions certificate)) (\<lambda>ids.
    if card ids < unat (cc3_signer_threshold capsule)
    then Inl (Bail ''v3 Begin certificate has no signer threshold'')
    else Inr digest)))"

definition validate_recovery_release_certificate_for_ref_v3 ::
    "primitives \<Rightarrow> RecoveryReleaseCertificateV3 \<Rightarrow> ConfigCapsuleV3 \<Rightarrow> ConfigRef \<Rightarrow> u64 \<Rightarrow> (anyhow, Id32) result"
where
  "validate_recovery_release_certificate_for_ref_v3 cp certificate capsule expected_config_ref now =
    bindR (validate_recovery_request_for_ref_v3 cp (rc3_request certificate) capsule expected_config_ref now)
      (\<lambda>digest.
    bindR (wire (recovery_release_certificate_v3 certificate)) (\<lambda>_.
    if rc3_request_digest certificate \<noteq> digest
    then Inl (Bail ''v3 Release certificate has the wrong request digest'') else
    bindR (each_once rv3_signer_id
      (\<lambda>vote. ensure (rv3_request vote = rc3_request certificate)
        ''duplicate or request-mismatched v3 Release vote'')
      ''duplicate or request-mismatched v3 Release vote''
      (\<lambda>vote.
        bindR (validate_signer_membership cp (rv3_signer_id vote) (rv3_signer_public_key vote)
          (rv3_signer_membership_proof vote) capsule) (\<lambda>_.
        bindR (wire (signer_recovery_release_vote_v3 vote)) (\<lambda>t.
        crypt (verify cp (rv3_signer_public_key vote) t (rv3_signer_signature vote)))))
      {} (rc3_votes certificate)) (\<lambda>ids.
    if card ids < unat (cc3_signer_threshold capsule)
    then Inl (Bail ''v3 Release certificate has no signer threshold'')
    else Inr digest)))"

definition validate_owner_recovery_cancel_for_ref_v3 ::
    "primitives \<Rightarrow> OwnerRecoveryCancelCertificateV3 \<Rightarrow> RecoveryRequestV3 \<Rightarrow> ConfigCapsuleV3 \<Rightarrow> ConfigRef \<Rightarrow>
     u64 \<Rightarrow> (anyhow, Id32) result"
where
  "validate_owner_recovery_cancel_for_ref_v3 cp certificate request capsule expected_config_ref now =
    bindR (validate_recovery_request_for_ref_v3 cp request capsule expected_config_ref now) (\<lambda>digest.
    if occ3_request certificate \<noteq> request \<or>
       occ3_request_digest certificate \<noteq> digest \<or>
       occ3_owner_cancel_public_key certificate \<noteq> cc3_owner_cancel_public_key capsule
    then Inl (Bail ''owner cancellation does not bind the exact v3 recovery request'') else
    bindR (wire (owner_recovery_cancel_certificate_v3 certificate)) (\<lambda>t.
    bindR (crypt (verify cp (occ3_owner_cancel_public_key certificate) t (occ3_owner_signature certificate)))
      (\<lambda>_. Inr digest)))"

section \<open>Lemmas of the verification rules\<close>

named_theorems checks \<open>success of a check as a condition\<close>

lemma wire_ok [simp, checks]: "wire r = Inr a \<longleftrightarrow> r = Inr a"
  by (cases r) (simp_all add: wire_def)

lemma crypt_ok [simp, checks]: "crypt r = Inr a \<longleftrightarrow> r = Inr a"
  by (cases r) (simp_all add: crypt_def)

lemma ensure_ok [simp, checks]: "ensure b msg = Inr u \<longleftrightarrow> b"
  by (simp add: ensure_def)

lemma u16_try_from_ok [checks]: "u16_try_from n = Inr w \<longleftrightarrow> n < 2 ^ 16 \<and> w = of_nat n"
  by (auto simp: u16_try_from_def)

lemma if_bail_ok [simp]: "(if b then Inl e else r) = Inr a \<longleftrightarrow> \<not> b \<and> r = Inr a"
  by simp

lemma each_once_ok [checks]:
  "each_once key test dup body ids vs = Inr ids' \<longleftrightarrow>
     (\<forall>v \<in> set vs. test v = Inr () \<and> body v = Inr ()) \<and> distinct (map key vs) \<and>
     key ` set vs \<inter> ids = {} \<and> ids' = ids \<union> key ` set vs"
  by (induction vs arbitrary: ids) auto

text \<open>The quorum and the roster size never overflow for a 16-bit fault bound.\<close>

lemma unat_u16_bound: "unat (f :: u16) < 65536"
  using unsigned_less [of f, where 'a = nat] by simp

lemma required_witness_quorum_eq [simp, checks]:
  "required_witness_quorum f = Inr (2 * unat f + 1)"
  using unat_u16_bound [of f]
  by (simp add: required_witness_quorum_def checked_mul_def checked_add_def usize_MAX_def ok_or_def)

lemma roster_size [simp]:
  "Option.bind (checked_mul (unat (f :: u16)) 3) (\<lambda>v. checked_add v 1) = Some (3 * unat f + 1)"
  using unat_u16_bound [of f] by (simp add: checked_mul_def checked_add_def usize_MAX_def)

lemma check_pins_ok [checks]:
  "check_pins ids keys mails pins = Inr () \<longleftrightarrow>
     (\<forall>p \<in> set pins. wp_witness_id p \<noteq> 0 \<and> wp_mailbox p \<noteq> []) \<and>
     (distinct (map wp_witness_id pins) \<and> wp_witness_id ` set pins \<inter> ids = {}) \<and>
     (distinct (map wp_public_key pins) \<and> wp_public_key ` set pins \<inter> keys = {}) \<and>
     (distinct (map wp_mailbox pins) \<and> wp_mailbox ` set pins \<inter> mails = {})"
proof (induction pins arbitrary: ids keys mails)
  case (Cons p pins)
  have split: "f x \<notin> A \<and> distinct (map f xs) \<and> f ` set xs \<inter> insert (f x) A = {} \<longleftrightarrow>
      distinct (map f (x # xs)) \<and> f ` set (x # xs) \<inter> A = {}" for f :: "WitnessPin \<Rightarrow> 'z" and x xs A
    by auto
  show ?case
    using split [of wp_witness_id p ids pins] split [of wp_public_key p keys pins] split [of wp_mailbox p mails pins]
    by (simp only: check_pins.simps if_bail_ok Cons.IH list.set ball_simps) argo
qed simp

lemma recovery_card_ok [checks]:
  "validate_recovery_card_v3 rcard = Inr () \<longleftrightarrow>
     card3_protocol_version rcard = PROTOCOL_VERSION_V3 \<and> card3_witness_fault_bound rcard \<noteq> 0 \<and>
     3 * unat (card3_witness_fault_bound rcard) + 1 \<le> length (card3_witnesses rcard) \<and>
     (\<forall>p \<in> set (card3_witnesses rcard). wp_witness_id p \<noteq> 0 \<and> wp_mailbox p \<noteq> []) \<and>
     distinct (map wp_witness_id (card3_witnesses rcard)) \<and>
     distinct (map wp_public_key (card3_witnesses rcard)) \<and>
     distinct (map wp_mailbox (card3_witnesses rcard))"
  by (simp only: validate_recovery_card_v3_def check_pins_ok ok_or_def roster_size option.case bindR_simps
      if_bail_ok) auto

text \<open>A map collected from a list of items with distinct keys returns each item by its key.\<close>

lemma collected_get:
  "distinct (map key xs) \<Longrightarrow>
   bt_get (fold (\<lambda>x. bt_insert (key x) (val x)) xs m) k =
     (case find (\<lambda>x. key x = k) xs of Some x \<Rightarrow> Some (val x) | None \<Rightarrow> bt_get m k)"
proof (induction xs arbitrary: m)
  case (Cons x xs)
  have "find (\<lambda>x'. key x' = key x) xs = None"
    using Cons.prems by (simp add: find_None_iff) (metis imageI)
  with Cons show ?case by (auto split: option.splits)
qed simp

lemma collected_member:
  assumes "distinct (map key xs)"
  shows "bt_get (fold (\<lambda>x. bt_insert (key x) (val x)) xs []) k = Some v \<longleftrightarrow>
    (\<exists>x \<in> set xs. key x = k \<and> val x = v)"
proof (cases "find (\<lambda>x. key x = k) xs")
  case None
  then have "\<forall>x \<in> set xs. key x \<noteq> k" by (simp add: find_None_iff)
  then show ?thesis by (simp add: collected_get [OF assms] None)
next
  case (Some x)
  then have x: "x \<in> set xs" "key x = k" by (auto simp: find_Some_iff)
  have "(\<exists>y \<in> set xs. key y = k \<and> val y = v) \<longleftrightarrow> val x = v"
    using assms x by (metis distinct_map inj_on_def)
  then show ?thesis by (simp only: collected_get [OF assms] Some option.case option.inject)
qed

lemma witness_pins_get:
  assumes "validate_recovery_card_v3 rcard = Inr ()"
  shows "bt_get (witness_pins rcard) w = Some pin \<longleftrightarrow> pin \<in> set (card3_witnesses rcard) \<and> wp_witness_id pin = w"
proof -
  have d: "distinct (map wp_witness_id (card3_witnesses rcard))" using assms by (simp add: recovery_card_ok)
  have "(\<exists>p \<in> set (card3_witnesses rcard). wp_witness_id p = w \<and> p = pin) \<longleftrightarrow>
      pin \<in> set (card3_witnesses rcard) \<and> wp_witness_id pin = w" by blast
  with collected_member [OF d, of "\<lambda>p. p" w pin] show ?thesis
    by (simp only: witness_pins_def)
qed

lemma signer_membership_ok [checks]:
  "validate_signer_membership cp i key proof capsule = Inr () \<longleftrightarrow>
     i \<noteq> 0 \<and> i \<le> cc3_signer_count capsule \<and>
     (\<exists>leaf. signer_leaf i key = Inr leaf \<and>
       merkle_verify cp (cc3_signer_set_commitment capsule) (sha256 cp leaf) (unat (i - 1))
         (unat (cc3_signer_count capsule)) proof = Inr ())"
  by (auto simp: validate_signer_membership_def)

section \<open>Quorums of witnesses\<close>

text \<open>
  The interface of a witness roster: a valid roster has at least \<open>3 f + 1\<close> members. A quorum is
  any set of \<open>2 f + 1\<close> members. Two quorums of a roster of exactly \<open>3 f + 1\<close> members share
  \<open>f + 1\<close> of them, hence a correct one when at most \<open>f\<close> are faulty.
\<close>

locale witness_roster =
  fixes valid :: "'c \<Rightarrow> bool"
    and members :: "'c \<Rightarrow> 'w set"
    and bound :: "'c \<Rightarrow> nat"
  assumes finite_members: "finite (members c)"
    and enough_members: "valid c \<Longrightarrow> 3 * bound c + 1 \<le> card (members c)"
begin

lemma overlap:
  assumes "Q \<subseteq> members c" "Q' \<subseteq> members c"
  shows "card Q + card Q' \<le> card (members c) + card (Q \<inter> Q')"
proof -
  have "finite Q" "finite Q'" using assms finite_members by (blast intro: finite_subset)+
  then have "card Q + card Q' = card (Q \<union> Q') + card (Q \<inter> Q')" by (rule card_Un_Int)
  moreover have "card (Q \<union> Q') \<le> card (members c)"
    using assms by (intro card_mono finite_members) blast
  ultimately show ?thesis by linarith
qed

lemma quorums_share:
  assumes "card (members c) = 3 * bound c + 1"
    and "Q \<subseteq> members c" "2 * bound c + 1 \<le> card Q"
    and "Q' \<subseteq> members c" "2 * bound c + 1 \<le> card Q'"
  shows "bound c + 1 \<le> card (Q \<inter> Q')"
  using overlap [OF assms(2,4)] assms(1,3,5) by linarith

lemma quorums_share_correct:
  assumes "card (members c) = 3 * bound c + 1"
    and "Q \<subseteq> members c" "2 * bound c + 1 \<le> card Q"
    and "Q' \<subseteq> members c" "2 * bound c + 1 \<le> card Q'"
    and "card (members c - correct) \<le> bound c"
  obtains w where "w \<in> Q" "w \<in> Q'" "w \<in> correct"
proof -
  have "\<not> Q \<inter> Q' \<subseteq> members c - correct"
  proof
    assume "Q \<inter> Q' \<subseteq> members c - correct"
    then have "card (Q \<inter> Q') \<le> card (members c - correct)"
      by (intro card_mono) (simp_all add: finite_members)
    with quorums_share [OF assms(1-5)] assms(6) show False by linarith
  qed
  with assms(2) that show thesis by blast
qed

lemma quorum_has_correct:
  assumes "Q \<subseteq> members c" "2 * bound c + 1 \<le> card Q" "card (members c - correct) \<le> bound c"
  obtains w where "w \<in> Q" "w \<in> correct"
proof -
  have "\<not> Q \<subseteq> members c - correct"
    using card_mono [of "members c - correct" Q] finite_members [of c] assms(2,3) by fastforce
  with assms(1) that show thesis by blast
qed

end

abbreviation pinned_ids :: "RecoveryCardV3 \<Rightarrow> u16 set" where
  "pinned_ids rcard \<equiv> wp_witness_id ` set (card3_witnesses rcard)"

interpretation pinned: witness_roster "\<lambda>rcard. validate_recovery_card_v3 rcard = Inr ()" pinned_ids
  "\<lambda>rcard. unat (card3_witness_fault_bound rcard)"
  by unfold_locales (auto simp: recovery_card_ok distinct_ids_card)

lemma card_pinned_ids:
  "validate_recovery_card_v3 rcard = Inr () \<Longrightarrow> card (pinned_ids rcard) = length (card3_witnesses rcard)"
  by (simp add: recovery_card_ok distinct_ids_card)

end
