(* ===== verification/GP_Protocol_Rotation.thy ===== *)
theory GP_Protocol_Rotation
  imports GP_Protocol_V3
begin

text \<open>
  The rotation half of \<open>gp-network/src/rotation_protocol.rs\<close>: plans and their intents, the begin,
  release, abort, ready and activate certificates, the owner's cancellation with its witness
  quorum, activated capsules, and the selection of the latest epoch from fresh witness reads.
\<close>

section \<open>Plans\<close>

definition validate_rotation_plan_v3 ::
    "primitives \<Rightarrow> RotationPlan \<Rightarrow> ConfigCapsuleV3 \<Rightarrow> u64 \<Rightarrow> (anyhow, Id32) result"
where
  "validate_rotation_plan_v3 cp plan predecessor now =
    bindR (wire (rotation_plan plan)) (\<lambda>transcript.
    if rx_protocol_version (rp_context plan) \<noteq> PROTOCOL_VERSION_V3 \<or>
       rx_config_ref (rp_context plan) \<noteq> cc3_config_ref predecessor \<or>
       rx_predecessor_capsule_hash (rp_context plan) \<noteq> cc3_capsule_hash predecessor \<or>
       rp_predecessor plan \<noteq> cc3_config_ref predecessor \<or>
       \<not> is_direct_successor_of (rp_successor plan) (rp_predecessor plan) \<or>
       rx_issued_at (rp_context plan) > now \<or>
       rx_expiry (rp_context plan) \<le> now \<or>
       rp_preparation_deadline plan \<le> rx_issued_at (rp_context plan) \<or>
       rp_drain_deadline plan \<le> rp_preparation_deadline plan \<or>
       rp_minimum_delay_secs plan < cc3_minimum_recovery_delay predecessor \<or>
       rp_old_guardian_threshold plan \<noteq> cc3_guardian_threshold predecessor \<or>
       rp_data_shards plan \<noteq> cc3_guardian_threshold predecessor \<or>
       rp_total_shards plan \<noteq> cc3_guardian_count predecessor \<or>
       length (rp_old_roster plan) \<noteq> unat (cc3_guardian_count predecessor) \<or>
       length (rp_new_roster plan) \<noteq> unat (rp_total_shards plan) \<or>
       rp_new_guardian_threshold plan < 2
    then Inl (Bail ''rotation plan is stale, malformed, or weakens immutable policy'') else
    bindR (u16_try_from (length (rp_new_roster plan))) (\<lambda>new_count.
    if rp_new_guardian_threshold plan > new_count
    then Inl (Bail ''rotation plan is stale, malformed, or weakens immutable policy'') else
    bindR (wire (guardian_roster_v3 (rp_old_roster plan))) (\<lambda>old_roster.
    bindR (wire (guardian_roster_v3 (rp_new_roster plan))) (\<lambda>new_roster.
    if sha256 cp old_roster \<noteq> rp_old_roster_commitment plan \<or>
       sha256 cp new_roster \<noteq> rp_new_roster_commitment plan
    then Inl (Bail ''rotation roster commitment mismatch'')
    else Inr (sha256 cp transcript)))))"

text \<open>The roster by guardian index, as the code collects it into a \<open>BTreeMap\<close>.\<close>

definition routes_by_index :: "GuardianRouteV3 list \<Rightarrow> (u16, GuardianRouteV3) btree_map" where
  "routes_by_index roster = fold (\<lambda>route. bt_insert (gr3_guardian_index route) route) roster []"

definition missing_ids :: "(u16, 'a) btree_map \<Rightarrow> (u16, 'b) btree_map \<Rightarrow> u16 list" where
  "missing_ids old new = filter (\<lambda>id. \<not> bt_contains_key new id) (map fst old)"

text \<open>The identity of a kept guardian may not change, and its route must be a fresh one.\<close>

definition route_not_refreshed :: "GuardianRouteV3 \<Rightarrow> GuardianRouteV3 \<Rightarrow> bool" where
  "route_not_refreshed new_route old_route \<longleftrightarrow>
    gr3_guardian_public_key new_route \<noteq> gr3_guardian_public_key old_route \<or>
    gr3_session_recipient_key new_route \<noteq> gr3_session_recipient_key old_route \<or>
    gr3_operator_domain_commitment new_route \<noteq> gr3_operator_domain_commitment old_route \<or>
    gr3_opaque_slot_id new_route = gr3_opaque_slot_id old_route \<or>
    gr3_mailbox new_route = gr3_mailbox old_route"

definition validate_rotation_plan_against_intent_v3 ::
    "primitives \<Rightarrow> RotationPlan \<Rightarrow> RotationIntent \<Rightarrow> ConfigCapsuleV3 \<Rightarrow> u64 \<Rightarrow> (anyhow, Id32) result"
where
  "validate_rotation_plan_against_intent_v3 cp plan intent predecessor now =
    bindR (validate_rotation_plan_v3 cp plan predecessor now) (\<lambda>plan_hash.
    bindR (wire (rotation_intent intent)) (\<lambda>intent_bytes.
    if rp_context plan \<noteq> ri_context intent \<or>
       rp_intent_hash plan \<noteq> sha256 cp intent_bytes \<or>
       ri_old_guardian_count intent \<noteq> cc3_guardian_count predecessor \<or>
       ri_old_guardian_threshold intent \<noteq> cc3_guardian_threshold predecessor
    then Inl (Bail ''rotation plan violates the signer-approved Intent constraints'') else
    bindR (u16_try_from (length (rp_new_roster plan))) (\<lambda>new_count.
    if new_count \<notin> set (ri_allowed_new_guardian_count intent) \<or>
       rp_new_guardian_threshold plan \<notin> set (ri_allowed_new_guardian_threshold intent) \<or>
       rp_dpss_suite plan \<notin> set (ri_allowed_dpss_suites intent) \<or>
       rp_dpss_qualified_set_commitment plan \<noteq> rp_new_roster_commitment plan \<or>
       rp_preparation_deadline plan \<le> now
    then Inl (Bail ''rotation plan violates the signer-approved Intent constraints'') else
    let old = routes_by_index (rp_old_roster plan);
        new = routes_by_index (rp_new_roster plan);
        removed = missing_ids old new;
        added = missing_ids new old in
    if length removed \<noteq> 1 \<or> length added \<noteq> 1 \<or>
       sha256 cp (be16 (hd removed)) \<noteq> ri_selection_constraints_commitment intent
    then Inl (Bail ''routine rotation must replace the exact one guardian authorized by Intent'') else
    if list_ex (\<lambda>(id, old_route). case bt_get new id of
         Some new_route \<Rightarrow> route_not_refreshed new_route old_route
       | None \<Rightarrow> False) old
    then Inl (Bail ''unchanged guardian identity changed or did not receive a fresh route'') else
    let old_keys = gr3_guardian_public_key ` set (bt_values old);
        new_keys = gr3_guardian_public_key ` set (bt_values new);
        new_mailboxes = gr3_mailbox ` set (bt_values new);
        new_slots = gr3_opaque_slot_id ` set (bt_values new);
        new_domains = gr3_operator_domain_commitment ` set (bt_values new) in
    if card new_keys \<noteq> length new \<or> card new_mailboxes \<noteq> length new \<or>
       card new_slots \<noteq> length new \<or> card new_domains \<noteq> length new \<or>
       gr3_guardian_public_key (the (bt_get new (hd added))) \<in> old_keys
    then Inl (Bail ''successor roster contains a reused or duplicate guardian identity/route'')
    else Inr plan_hash)))"

section \<open>Certificates of the signers\<close>

definition validate_begin_rotation_certificate_v3 ::
    "primitives \<Rightarrow> BeginRotationCertificate \<Rightarrow> RotationPlan \<Rightarrow> ConfigCapsuleV3 \<Rightarrow> u64 \<Rightarrow> (anyhow, Id32) result"
where
  "validate_begin_rotation_certificate_v3 cp certificate plan predecessor now =
    bindR (validate_rotation_plan_v3 cp plan predecessor now) (\<lambda>plan_hash.
    bindR (wire (begin_rotation_certificate certificate)) (\<lambda>transcript.
    if brot_context certificate \<noteq> rp_context plan \<or>
       brot_intent_hash certificate \<noteq> rp_intent_hash plan \<or>
       brot_plan_hash certificate \<noteq> plan_hash \<or>
       brot_old_roster_commitment certificate \<noteq> rp_old_roster_commitment plan \<or>
       brot_new_roster_commitment certificate \<noteq> rp_new_roster_commitment plan \<or>
       rp_preparation_deadline plan \<le> now \<or>
       brot_not_before_wall certificate <
         saturating_add (rx_issued_at (brot_context certificate)) (rp_minimum_delay_secs plan)
    then Inl (Bail ''Begin certificate does not bind the exact plan and delay'') else
    bindR (each_once srbv_signer_id (\<lambda>_. Inr ()) ''duplicate signer Begin vote''
      (\<lambda>vote.
        bindR (validate_signer_membership cp (srbv_signer_id vote) (srbv_signer_public_key vote)
          (srbv_signer_membership_proof vote) predecessor) (\<lambda>_.
        bindR (wire (signer_rotation_begin_vote vote)) (\<lambda>t.
        crypt (verify cp (srbv_signer_public_key vote) t (srbv_signer_signature vote)))))
      {} (brot_votes certificate)) (\<lambda>ids.
    if card ids < unat (cc3_signer_threshold predecessor)
    then Inl (Bail ''Begin certificate has no signer threshold'')
    else Inr (sha256 cp transcript))))"

definition validate_rotation_release_certificate_v3 ::
    "primitives \<Rightarrow> RotationReleaseCertificate \<Rightarrow> BeginRotationCertificate \<Rightarrow> RotationPlan \<Rightarrow>
     ConfigCapsuleV3 \<Rightarrow> u64 \<Rightarrow> (anyhow, Id32) result"
where
  "validate_rotation_release_certificate_v3 cp release begin_cert plan predecessor now =
    bindR (validate_begin_rotation_certificate_v3 cp begin_cert plan predecessor now) (\<lambda>begin_hash.
    bindR (wire (rotation_release_certificate release)) (\<lambda>transcript.
    if rrc_context release \<noteq> rp_context plan
    then Inl (Bail ''Release certificate is early or does not bind the exact Begin'') else
    bindR (wire (rotation_plan plan)) (\<lambda>plan_bytes.
    if rrc_plan_hash release \<noteq> sha256 cp plan_bytes \<or>
       rrc_begin_certificate_hash release \<noteq> begin_hash \<or>
       now < brot_not_before_wall begin_cert \<or>
       now \<ge> rp_preparation_deadline plan
    then Inl (Bail ''Release certificate is early or does not bind the exact Begin'') else
    bindR (each_once srrv_signer_id (\<lambda>_. Inr ()) ''duplicate signer Release vote''
      (\<lambda>vote.
        bindR (validate_signer_membership cp (srrv_signer_id vote) (srrv_signer_public_key vote)
          (srrv_signer_membership_proof vote) predecessor) (\<lambda>_.
        bindR (wire (signer_rotation_release_vote vote)) (\<lambda>t.
        crypt (verify cp (srrv_signer_public_key vote) t (srrv_signer_signature vote)))))
      {} (rrc_votes release)) (\<lambda>ids.
    if card ids < unat (cc3_signer_threshold predecessor)
    then Inl (Bail ''Release certificate has no signer threshold'')
    else Inr (sha256 cp transcript)))))"

definition validate_abort_rotation_certificate_v3 ::
    "primitives \<Rightarrow> AbortRotationCertificate \<Rightarrow> RotationPlan \<Rightarrow> ConfigCapsuleV3 \<Rightarrow> u64 \<Rightarrow> (anyhow, Id32) result"
where
  "validate_abort_rotation_certificate_v3 cp certificate plan predecessor now =
    bindR (validate_rotation_plan_v3 cp plan predecessor now) (\<lambda>plan_hash.
    bindR (wire (abort_rotation_certificate certificate)) (\<lambda>transcript.
    if abc_context certificate \<noteq> rp_context plan \<or>
       abc_plan_hash certificate \<noteq> plan_hash \<or>
       abc_state_at_abort certificate \<notin> {RotationState.Proposed, RotationState.DelayPending,
         RotationState.Preparing, RotationState.Ready, RotationState.Activating}
    then Inl (Bail ''Abort certificate is post-activation or plan-mismatched'') else
    bindR (each_once sabv_signer_id
      (\<lambda>vote. ensure (sabv_context vote = abc_context certificate \<and>
          sabv_plan_hash vote = abc_plan_hash certificate \<and>
          sabv_state_at_abort vote = abc_state_at_abort certificate \<and>
          sabv_reason_code vote = abc_reason_code certificate)
        ''Abort certificate contains a duplicate or mismatched vote'')
      ''Abort certificate contains a duplicate or mismatched vote''
      (\<lambda>vote.
        bindR (validate_signer_membership cp (sabv_signer_id vote) (sabv_signer_public_key vote)
          (sabv_signer_membership_proof vote) predecessor) (\<lambda>_.
        bindR (wire (signer_rotation_abort_vote vote)) (\<lambda>t.
        crypt (verify cp (sabv_signer_public_key vote) t (sabv_signer_signature vote)))))
      {} (abc_votes certificate)) (\<lambda>signer_ids.
    if card signer_ids < unat (cc3_signer_threshold predecessor)
    then Inl (Bail ''Abort certificate lacks a signer threshold'')
    else Inr (sha256 cp transcript))))"

section \<open>Owner cancellation and preparation\<close>

definition validate_owner_rotation_cancel_witness_quorum_v3 ::
    "primitives \<Rightarrow> OwnerRotationCancelCertificate \<Rightarrow> WitnessRotationCancelAck list \<Rightarrow> RecoveryCardV3 \<Rightarrow>
     RotationPlan \<Rightarrow> ConfigCapsuleV3 \<Rightarrow> u64 \<Rightarrow> (anyhow, Id32) result"
where
  "validate_owner_rotation_cancel_witness_quorum_v3 cp certificate witness_acks rcard plan predecessor now =
    bindR (validate_recovery_card_v3 rcard) (\<lambda>_.
    bindR (validate_rotation_plan_v3 cp plan predecessor now) (\<lambda>plan_hash.
    if card3_config_id rcard \<noteq> cr_config_id (cc3_config_ref predecessor) \<or>
       card3_owner_cancel_public_key rcard \<noteq> cc3_owner_cancel_public_key predecessor \<or>
       orcc_context certificate \<noteq> rp_context plan \<or>
       orcc_plan_hash certificate \<noteq> plan_hash \<or>
       orcc_owner_cancel_public_key certificate \<noteq> cc3_owner_cancel_public_key predecessor \<or>
       length (orcc_cancel_response_recipient_key certificate) \<noteq> XWING_PUBLIC_KEY_LEN
    then Inl (Bail ''owner rotation cancellation does not bind the active plan and card'') else
    bindR (wire (owner_rotation_cancel_certificate certificate)) (\<lambda>cancel_transcript.
    bindR (crypt (verify cp (orcc_owner_cancel_public_key certificate) cancel_transcript
        (orcc_owner_signature certificate))) (\<lambda>_.
    let cancel_hash = sha256 cp cancel_transcript; pins = witness_pins rcard in
    bindR (each_once wrca_witness_id
      (\<lambda>ack.
        bindR (ok_or (bt_get pins (wrca_witness_id ack)) (Bail ''owner cancellation uses an unpinned witness''))
          (\<lambda>pin.
        ensure (wrca_protocol_version ack = PROTOCOL_VERSION_V3 \<and>
          wrca_config_id ack = card3_config_id rcard \<and>
          wrca_rotation_id ack = rx_rotation_id (rp_context plan) \<and>
          wrca_plan_hash ack = plan_hash \<and>
          wrca_cancel_certificate_hash ack = cancel_hash \<and>
          wrca_witness_public_key ack = wp_public_key pin)
          ''owner cancellation contains a duplicate or mismatched witness veto''))
      ''owner cancellation contains a duplicate or mismatched witness veto''
      (\<lambda>ack.
        bindR (ok_or (bt_get pins (wrca_witness_id ack)) (Bail ''owner cancellation uses an unpinned witness''))
          (\<lambda>pin.
        bindR (wire (witness_rotation_cancel_ack ack)) (\<lambda>t.
        crypt (verify cp (wp_public_key pin) t (wrca_witness_signature ack)))))
      {} witness_acks) (\<lambda>witness_ids.
    bindR (required_witness_quorum (card3_witness_fault_bound rcard)) (\<lambda>quorum.
    if card witness_ids < quorum
    then Inl (Bail ''owner cancellation lacks a 2f+1 witness veto quorum'')
    else Inr cancel_hash))))))"

text \<open>The public keys of a roster by guardian index, and the loop that verifies acknowledgements.\<close>

definition roster_keys :: "GuardianRouteV3 list \<Rightarrow> (u16, arr32) btree_map" where
  "roster_keys roster =
    fold (\<lambda>route. bt_insert (gr3_guardian_index route) (gr3_guardian_public_key route)) roster []"

fun each_ok :: "('v \<Rightarrow> (anyhow, unit) result) \<Rightarrow> 'v list \<Rightarrow> (anyhow, unit) result" where
  "each_ok body [] = Inr ()"
| "each_ok body (v # vs) = bindR (body v) (\<lambda>_. each_ok body vs)"

definition validate_rotation_ready_certificate_v3 ::
    "primitives \<Rightarrow> RotationReadyCertificate \<Rightarrow> RotationPlan \<Rightarrow> ConfigCapsuleV3 \<Rightarrow> u64 \<Rightarrow> (anyhow, Id32) result"
where
  "validate_rotation_ready_certificate_v3 cp ready plan predecessor now =
    bindR (validate_rotation_plan_v3 cp plan predecessor now) (\<lambda>plan_hash.
    bindR (wire (rotation_ready_certificate ready)) (\<lambda>transcript.
    if rrdy_context ready \<noteq> rp_context plan \<or>
       rrdy_plan_hash ready \<noteq> plan_hash \<or>
       rrdy_successor ready \<noteq> rp_successor plan \<or>
       now \<ge> rp_preparation_deadline plan \<or>
       length (rrdy_prepared_acks ready) \<noteq> length (rp_new_roster plan) \<or>
       length (rrdy_old_handoff_acks ready) < unat (rp_old_guardian_threshold plan)
    then Inl (Bail ''Ready certificate is incomplete or plan-mismatched'') else
    bindR (each_ok (\<lambda>ack.
      bindR (ok_or (bt_get (roster_keys (rp_new_roster plan)) (ngpa_new_guardian_index ack))
        (Bail ''Prepared ack is from a non-successor guardian'')) (\<lambda>key.
      bindR (wire (new_guardian_prepared_ack ack)) (\<lambda>t.
      crypt (verify cp key t (ngpa_guardian_signature ack)))))
      (rrdy_prepared_acks ready)) (\<lambda>_.
    bindR (each_ok (\<lambda>ack.
      bindR (ok_or (bt_get (roster_keys (rp_old_roster plan)) (ogha_old_guardian_index ack))
        (Bail ''handoff ack is from a non-predecessor guardian'')) (\<lambda>key.
      bindR (wire (old_guardian_handoff_ack ack)) (\<lambda>t.
      crypt (verify cp key t (ogha_guardian_signature ack)))))
      (rrdy_old_handoff_acks ready)) (\<lambda>_.
    Inr (sha256 cp transcript)))))"

section \<open>Activated capsules and the latest epoch\<close>

record WitnessReadEnvelope =
  wre_response :: WitnessEpochReadResponse
  wre_capsule :: ConfigCapsuleV3

fun read_material :: "byte list \<Rightarrow> u16 set \<Rightarrow> WitnessReadEnvelope list \<Rightarrow> (anyhow, byte list) result" where
  "read_material material ids [] = Inr material"
| "read_material material ids (read # reads) =
     (if werr_witness_id (wre_response read) \<in> ids
      then Inl (Bail ''duplicate witness in read transcript'') else
      bindR (wire (witness_epoch_read_response (wre_response read))) (\<lambda>t.
      read_material (material @ t @ bytes32 (cc3_capsule_hash (wre_capsule read)))
        (insert (werr_witness_id (wre_response read)) ids) reads))"

definition witness_read_quorum_hash_v3 ::
    "primitives \<Rightarrow> EpochReadChallenge \<Rightarrow> WitnessReadEnvelope list \<Rightarrow> (anyhow, Id32) result"
where
  "witness_read_quorum_hash_v3 cp challenge reads =
    (let ordered = sort_key (\<lambda>read. werr_witness_id (wre_response read)) reads in
     bindR (wire (epoch_read_challenge challenge)) (\<lambda>material.
     bindR (read_material material {} ordered) (\<lambda>material.
     Inr (sha256 cp material))))"

definition validate_activate_certificate ::
    "primitives \<Rightarrow> ConfigCapsuleV3 \<Rightarrow> RotationActivateCertificate \<Rightarrow> (anyhow, Id32) result"
where
  "validate_activate_certificate cp capsule certificate =
    (if rac_successor certificate \<noteq> cc3_config_ref capsule \<or>
        rac_successor_capsule_hash certificate \<noteq> cc3_capsule_hash capsule \<or>
        cr_config_id (rx_config_ref (rac_context certificate)) \<noteq> cr_config_id (cc3_config_ref capsule) \<or>
        cr_payload_generation (rx_config_ref (rac_context certificate)) \<noteq>
          cr_payload_generation (cc3_config_ref capsule) \<or>
        cr_authorization_epoch (rx_config_ref (rac_context certificate)) \<noteq>
          cr_authorization_epoch (cc3_config_ref capsule) \<or>
        saturating_add (cr_guardian_epoch (rx_config_ref (rac_context certificate))) 1 \<noteq>
          cr_guardian_epoch (cc3_config_ref capsule) \<or>
        rx_predecessor_capsule_hash (rac_context certificate) \<noteq> cc3_predecessor_capsule_hash capsule
     then Inl (Bail ''Activate certificate does not bind the exact direct successor'') else
     bindR (wire (rotation_activate_certificate certificate)) (\<lambda>transcript.
     bindR (each_once srav_signer_id
       (\<lambda>vote. ensure (srav_signer_id vote \<noteq> 0 \<and> srav_signer_id vote \<le> cc3_signer_count capsule)
         ''Activate certificate contains an invalid signer id'')
       ''Activate certificate contains an invalid signer id''
       (\<lambda>vote.
         bindR (wire (signer_leaf (srav_signer_id vote) (srav_signer_public_key vote))) (\<lambda>leaf.
         bindR (crypt (merkle_verify cp (cc3_signer_set_commitment capsule) (sha256 cp leaf)
           (unat (srav_signer_id vote - 1)) (unat (cc3_signer_count capsule))
           (srav_signer_membership_proof vote))) (\<lambda>_.
         bindR (wire (signer_rotation_activate_vote vote)) (\<lambda>t.
         crypt (verify cp (srav_signer_public_key vote) t (srav_signer_signature vote))))))
       {} (rac_votes certificate)) (\<lambda>signer_ids.
     if card signer_ids < unat (cc3_signer_threshold capsule)
     then Inl (Bail ''Activate certificate has no signer threshold'')
     else Inr (sha256 cp transcript))))"

definition validate_activated_capsule_v3 ::
    "primitives \<Rightarrow> RecoveryCardV3 \<Rightarrow> ConfigCapsuleV3 \<Rightarrow> (anyhow, unit) result"
where
  "validate_activated_capsule_v3 cp rcard capsule =
    bindR (validate_recovery_card_v3 rcard) (\<lambda>_.
    bindR (wire (config_capsule_body_v3 capsule)) (\<lambda>body.
    if cc3_protocol_version capsule \<noteq> PROTOCOL_VERSION_V3 \<or>
       cr_config_id (cc3_config_ref capsule) \<noteq> card3_config_id rcard \<or>
       cc3_signer_set_commitment capsule \<noteq> card3_signer_set_commitment rcard \<or>
       cc3_owner_cancel_public_key capsule \<noteq> card3_owner_cancel_public_key rcard \<or>
       cc3_capsule_hash capsule \<noteq> sha256 cp body
    then Inl (Bail ''capsule does not match the Recovery Card or its canonical body'') else
    if cr_guardian_epoch (cc3_config_ref capsule) = 1 then
      (if cc3_predecessor_capsule_hash capsule \<noteq> 0 \<or>
          cc3_activation_certificate capsule \<noteq> None \<or>
          cc3_activation_qc capsule \<noteq> None
       then Inl (Bail ''invalid genesis capsule'')
       else Inr ())
    else
    bindR (ok_or (cc3_activation_certificate capsule)
      (Bail ''successor capsule has no Activate certificate'')) (\<lambda>certificate.
    bindR (validate_activate_certificate cp capsule certificate) (\<lambda>activation_certificate_hash.
    bindR (ok_or (cc3_activation_qc capsule)
      (Bail ''successor capsule has no activation QC'')) (\<lambda>qc.
    bindR (wire (epoch_activation_qc qc)) (\<lambda>_.
    if qc_protocol_version qc \<noteq> PROTOCOL_VERSION_V3 \<or>
       qc_config_id qc \<noteq> card3_config_id rcard \<or>
       qc_rotation_id qc \<noteq> rx_rotation_id (rac_context certificate) \<or>
       qc_predecessor_epoch qc \<noteq> cr_guardian_epoch (rx_config_ref (rac_context certificate)) \<or>
       qc_predecessor_capsule_hash qc \<noteq> cc3_predecessor_capsule_hash capsule \<or>
       qc_successor_epoch qc \<noteq> cr_guardian_epoch (cc3_config_ref capsule) \<or>
       qc_successor_capsule_hash qc \<noteq> cc3_capsule_hash capsule \<or>
       qc_activation_certificate_hash qc \<noteq> activation_certificate_hash \<or>
       qc_witness_fault_bound qc \<noteq> card3_witness_fault_bound rcard
    then Inl (Bail ''activation QC does not bind the exact capsule and certificate'') else
    let pins = witness_pins rcard in
    bindR (each_once waa_witness_id
      (\<lambda>ack.
        bindR (ok_or (bt_get pins (waa_witness_id ack)) (Bail ''activation QC uses an unpinned witness''))
          (\<lambda>pin.
        ensure (waa_witness_public_key ack = wp_public_key pin \<and>
          waa_activation_certificate_hash ack = activation_certificate_hash)
          ''activation QC contains a duplicate or mismatched witness ack''))
      ''activation QC contains a duplicate or mismatched witness ack''
      (\<lambda>ack.
        bindR (ok_or (bt_get pins (waa_witness_id ack)) (Bail ''activation QC uses an unpinned witness''))
          (\<lambda>pin.
        bindR (wire (witness_activation_ack ack)) (\<lambda>t.
        crypt (verify cp (wp_public_key pin) t (waa_witness_signature ack)))))
      {} (qc_witness_acks qc)) (\<lambda>witness_ids.
    bindR (required_witness_quorum (card3_witness_fault_bound rcard)) (\<lambda>quorum.
    if card witness_ids < quorum
    then Inl (Bail ''activation QC has no 2f+1 pinned witness quorum'')
    else Inr ()))))))))"

text \<open>
  The loop over the envelopes keeps the witnesses seen, the witnesses with a valid read, and the
  capsules of the valid reads in order. A response that fails a check is skipped; only a response
  without a transcript ends the selection with an error.
\<close>

fun collect_reads ::
    "primitives \<Rightarrow> RecoveryCardV3 \<Rightarrow> EpochReadChallenge \<Rightarrow> u16 set \<Rightarrow> u16 set \<Rightarrow> ConfigCapsuleV3 list \<Rightarrow>
     WitnessReadEnvelope list \<Rightarrow> (anyhow, u16 set \<times> u16 set \<times> ConfigCapsuleV3 list) result"
where
  "collect_reads cp rcard challenge seen valid_witnesses valid [] = Inr (seen, valid_witnesses, valid)"
| "collect_reads cp rcard challenge seen valid_witnesses valid (envelope # envelopes) =
     (let response = wre_response envelope in
      case bt_get (witness_pins rcard) (werr_witness_id response) of
        None \<Rightarrow> collect_reads cp rcard challenge seen valid_witnesses valid envelopes
      | Some pin \<Rightarrow>
        if werr_protocol_version response \<noteq> PROTOCOL_VERSION_V3 \<or>
           werr_config_id response \<noteq> erc_config_id challenge \<or>
           werr_client_nonce response \<noteq> erc_client_nonce challenge \<or>
           werr_witness_public_key response \<noteq> wp_public_key pin \<or>
           werr_highest_guardian_epoch response \<noteq> cr_guardian_epoch (cc3_config_ref (wre_capsule envelope)) \<or>
           werr_capsule_hash response \<noteq> cc3_capsule_hash (wre_capsule envelope) \<or>
           werr_witness_id response \<in> seen
        then collect_reads cp rcard challenge seen valid_witnesses valid envelopes
        else
        bindR (wire (witness_epoch_read_response response)) (\<lambda>t.
        if \<not> is_ok (verify cp (wp_public_key pin) t (werr_witness_signature response)) \<or>
           \<not> is_ok (validate_activated_capsule_v3 cp rcard (wre_capsule envelope))
        then collect_reads cp rcard challenge (insert (werr_witness_id response) seen)
               valid_witnesses valid envelopes
        else collect_reads cp rcard challenge (insert (werr_witness_id response) seen)
               (insert (werr_witness_id response) valid_witnesses) (valid @ [wre_capsule envelope])
               envelopes))"

definition valid_genesis_agreement :: "WitnessReadEnvelope list \<Rightarrow> u16 set \<Rightarrow> Id32 \<Rightarrow> nat" where
  "valid_genesis_agreement envelopes valid_witnesses capsule_hash =
    card ((\<lambda>envelope. werr_witness_id (wre_response envelope)) `
      set (filter (\<lambda>envelope.
        werr_witness_id (wre_response envelope) \<in> valid_witnesses \<and>
        werr_highest_guardian_epoch (wre_response envelope) = 1 \<and>
        werr_capsule_hash (wre_response envelope) = capsule_hash) envelopes))"

text \<open>\<open>Iterator::max\<close> on the epochs.\<close>

fun max_epoch :: "u64 list \<Rightarrow> u64 option" where
  "max_epoch [] = None"
| "max_epoch (e # es) = Some (fold max es e)"

definition select_latest_epoch_v3 ::
    "primitives \<Rightarrow> RecoveryCardV3 \<Rightarrow> EpochReadChallenge \<Rightarrow> WitnessReadEnvelope list \<Rightarrow>
     (anyhow, ConfigCapsuleV3) result"
where
  "select_latest_epoch_v3 cp rcard challenge envelopes =
    bindR (validate_recovery_card_v3 rcard) (\<lambda>_.
    bindR (wire (epoch_read_challenge challenge)) (\<lambda>_.
    if erc_config_id challenge \<noteq> card3_config_id rcard
    then Inl (Bail ''witness challenge is for another configuration'') else
    bindR (collect_reads cp rcard challenge {} {} [] envelopes) (\<lambda>(seen_witnesses, valid_witnesses, valid).
    bindR (required_witness_quorum (card3_witness_fault_bound rcard)) (\<lambda>quorum.
    if card seen_witnesses < quorum \<or> length valid < quorum
    then Inl (Bail ''fresh 2f+1 authenticated witness read quorum was not reached'') else
    bindR (ok_or (max_epoch (map (\<lambda>capsule. cr_guardian_epoch (cc3_config_ref capsule)) valid))
      (Bail ''witness quorum returned no capsule'')) (\<lambda>highest_epoch.
    let highest = filter (\<lambda>capsule. cr_guardian_epoch (cc3_config_ref capsule) = highest_epoch) valid in
    if card (cc3_capsule_hash ` set highest) \<noteq> 1
    then Inl (Bail ''conflicting valid capsules exist at the same guardian epoch'') else
    let selected = hd highest in
    if highest_epoch = 1 \<and>
       valid_genesis_agreement envelopes valid_witnesses (cc3_capsule_hash selected) < quorum
    then Inl (Bail ''genesis capsule lacks 2f+1 read agreement'')
    else Inr selected)))))"

section \<open>Lemmas\<close>

lemma each_ok_ok [checks]: "each_ok body vs = Inr () \<longleftrightarrow> (\<forall>v \<in> set vs. body v = Inr ())"
  by (induction vs) auto

text \<open>An acknowledgement that verifies under the key the card pins for its witness.\<close>

definition signed_ack :: "primitives \<Rightarrow> RecoveryCardV3 \<Rightarrow> WitnessActivationAck \<Rightarrow> bool" where
  "signed_ack cp rcard ack \<longleftrightarrow>
    (\<exists>pin \<in> set (card3_witnesses rcard). wp_witness_id pin = waa_witness_id ack \<and>
      is_ok (bindR (wire (witness_activation_ack ack)) (\<lambda>t.
        crypt (verify cp (wp_public_key pin) t (waa_witness_signature ack)))))"

lemma signed_ack_iff:
  "signed_ack cp rcard ack \<longleftrightarrow>
    (\<exists>pin t. pin \<in> set (card3_witnesses rcard) \<and> wp_witness_id pin = waa_witness_id ack \<and>
      witness_activation_ack ack = Inr t \<and>
      verify cp (wp_public_key pin) t (waa_witness_signature ack) = Inr ())"
  by (auto simp: signed_ack_def is_ok_iff)

lemma signed_ack_id: "signed_ack cp rcard ack \<Longrightarrow> waa_witness_id ack \<in> pinned_ids rcard"
  by (force simp: signed_ack_def)

lemma qc_binds_acks:
  assumes "epoch_activation_qc qc = Inr b" and "ack \<in> set (qc_witness_acks qc)"
  shows "waa_predecessor_capsule_hash ack = qc_predecessor_capsule_hash qc"
    and "waa_predecessor_epoch ack = qc_predecessor_epoch qc"
    and "waa_successor_epoch ack = qc_successor_epoch qc"
    and "waa_successor_capsule_hash ack = qc_successor_capsule_hash qc"
    and "rx_rotation_id (waa_context ack) = qc_rotation_id qc"
    and "cr_config_id (rx_config_ref (waa_context ack)) = qc_config_id qc"
  using assms by (auto simp: epoch_activation_qc_def list_ex_iff)

text \<open>What acceptance of a successor capsule says about its quorum certificate.\<close>

lemma activated_successor:
  assumes "validate_activated_capsule_v3 cp rcard c = Inr ()"
    and "cr_guardian_epoch (cc3_config_ref c) \<noteq> 1"
  obtains cert qc h b where "cc3_activation_certificate c = Some cert"
    and "validate_activate_certificate cp c cert = Inr h"
    and "cc3_activation_qc c = Some qc" and "epoch_activation_qc qc = Inr b"
    and "qc_rotation_id qc = rx_rotation_id (rac_context cert)"
    and "qc_config_id qc = card3_config_id rcard"
    and "qc_predecessor_capsule_hash qc = cc3_predecessor_capsule_hash c"
    and "qc_successor_epoch qc = cr_guardian_epoch (cc3_config_ref c)"
    and "qc_successor_capsule_hash qc = cc3_capsule_hash c"
    and "\<forall>ack \<in> set (qc_witness_acks qc). signed_ack cp rcard ack"
    and "2 * unat (card3_witness_fault_bound rcard) + 1 \<le> card (waa_witness_id ` set (qc_witness_acks qc))"
proof -
  from assms(1) have rc: "validate_recovery_card_v3 rcard = Inr ()"
    by (auto simp: validate_activated_capsule_v3_def)
  from assms show thesis
    unfolding validate_activated_capsule_v3_def
    apply (simp only: bindR_eq_Inr if_bail_ok wire_ok ok_or_eq_Inr if_False Let_def each_once_ok
        required_witness_quorum_eq ensure_ok crypt_ok witness_pins_get [OF rc] Un_empty_left)
    apply (elim exE conjE)
    apply (rule that)
              apply assumption+
          apply (simp_all add: signed_ack_iff)
    done
qed

lemma activated_card: "validate_activated_capsule_v3 cp rcard c = Inr () \<Longrightarrow> validate_recovery_card_v3 rcard = Inr ()"
  by (auto simp: validate_activated_capsule_v3_def)

text \<open>A read the selection counts: signed by a pinned witness for this challenge, about the capsule it
  carries, and that capsule is an activated one.\<close>

definition valid_read :: "primitives \<Rightarrow> RecoveryCardV3 \<Rightarrow> EpochReadChallenge \<Rightarrow> WitnessReadEnvelope \<Rightarrow> bool" where
  "valid_read cp rcard challenge env \<longleftrightarrow>
    (\<exists>pin \<in> set (card3_witnesses rcard). wp_witness_id pin = werr_witness_id (wre_response env) \<and>
      is_ok (bindR (wire (witness_epoch_read_response (wre_response env))) (\<lambda>t.
        crypt (verify cp (wp_public_key pin) t (werr_witness_signature (wre_response env)))))) \<and>
    werr_config_id (wre_response env) = erc_config_id challenge \<and>
    werr_client_nonce (wre_response env) = erc_client_nonce challenge \<and>
    werr_highest_guardian_epoch (wre_response env) = cr_guardian_epoch (cc3_config_ref (wre_capsule env)) \<and>
    werr_capsule_hash (wre_response env) = cc3_capsule_hash (wre_capsule env) \<and>
    validate_activated_capsule_v3 cp rcard (wre_capsule env) = Inr ()"

lemma valid_readI:
  assumes "validate_recovery_card_v3 rcard = Inr ()"
    and "bt_get (witness_pins rcard) (werr_witness_id (wre_response env)) = Some pin"
    and "werr_config_id (wre_response env) = erc_config_id challenge"
    and "werr_client_nonce (wre_response env) = erc_client_nonce challenge"
    and "werr_highest_guardian_epoch (wre_response env) = cr_guardian_epoch (cc3_config_ref (wre_capsule env))"
    and "werr_capsule_hash (wre_response env) = cc3_capsule_hash (wre_capsule env)"
    and "witness_epoch_read_response (wre_response env) = Inr t"
    and "is_ok (verify cp (wp_public_key pin) t (werr_witness_signature (wre_response env)))"
    and "is_ok (validate_activated_capsule_v3 cp rcard (wre_capsule env))"
  shows "valid_read cp rcard challenge env"
  using assms by (auto simp: valid_read_def is_ok_iff witness_pins_get)

text \<open>The loop collects valid reads of pairwise different witnesses, in order.\<close>

abbreviation read_id :: "WitnessReadEnvelope \<Rightarrow> u16" where
  "read_id env \<equiv> werr_witness_id (wre_response env)"

definition fresh_reads ::
    "primitives \<Rightarrow> RecoveryCardV3 \<Rightarrow> EpochReadChallenge \<Rightarrow> u16 set \<Rightarrow> WitnessReadEnvelope list \<Rightarrow>
     WitnessReadEnvelope list \<Rightarrow> bool"
where
  "fresh_reads cp rcard challenge seen envs rs \<longleftrightarrow>
    set rs \<subseteq> set envs \<and> list_all (valid_read cp rcard challenge) rs \<and> distinct (map read_id rs) \<and>
    read_id ` set rs \<inter> seen = {}"

lemma fresh_reads_later:
  "fresh_reads cp rcard challenge seen envs rs \<Longrightarrow> seen0 \<subseteq> seen \<Longrightarrow> fresh_reads cp rcard challenge seen0 (env # envs) rs"
  by (auto simp: fresh_reads_def)

lemma fresh_reads_Cons:
  "fresh_reads cp rcard challenge (insert (read_id env) seen) envs rs \<Longrightarrow> valid_read cp rcard challenge env \<Longrightarrow>
   read_id env \<notin> seen \<Longrightarrow> fresh_reads cp rcard challenge seen (env # envs) (env # rs)"
  by (auto simp: fresh_reads_def)

lemma collect_reads_ok:
  assumes "validate_recovery_card_v3 rcard = Inr ()"
    and "collect_reads cp rcard challenge seen ws caps envs = Inr (seen', ws', caps')"
  shows "\<exists>rs. fresh_reads cp rcard challenge seen envs rs \<and> caps' = caps @ map wre_capsule rs \<and>
    ws' = ws \<union> read_id ` set rs"
  using assms(2)
proof (induction envs arbitrary: seen ws caps)
  case Nil
  then show ?case by (intro exI [of _ "[]"]) (simp add: fresh_reads_def)
next
  case (Cons env envs)
  consider (skip) "collect_reads cp rcard challenge seen ws caps envs = Inr (seen', ws', caps')"
    | (bad) "collect_reads cp rcard challenge (insert (read_id env) seen) ws caps envs = Inr (seen', ws', caps')"
    | (good) "collect_reads cp rcard challenge (insert (read_id env) seen) (insert (read_id env) ws)
          (caps @ [wre_capsule env]) envs = Inr (seen', ws', caps')"
        "read_id env \<notin> seen" "valid_read cp rcard challenge env"
    using Cons.prems valid_readI [OF assms(1)]
    by (auto simp: Let_def split: option.splits if_splits)
  then show ?case
  proof cases
    case skip
    from Cons.IH [OF this] show ?thesis by (blast intro: fresh_reads_later)
  next
    case bad
    from Cons.IH [OF this] show ?thesis by (blast intro: fresh_reads_later)
  next
    case good
    from Cons.IH [OF good(1)] obtain rs where
      "fresh_reads cp rcard challenge (insert (read_id env) seen) envs rs"
      "caps' = (caps @ [wre_capsule env]) @ map wre_capsule rs" "ws' = insert (read_id env) ws \<union> read_id ` set rs"
      by blast
    with good(2,3) fresh_reads_Cons show ?thesis by (intro exI [of _ "env # rs"]) auto
  qed
qed

lemma max_epoch_ge: "max_epoch es = Some m \<Longrightarrow> m \<in> set es \<and> (\<forall>e \<in> set es. e \<le> m)"
proof (cases es)
  case (Cons e es')
  have "fold max es' e = Max (insert e (set es'))" for e :: u64
    by (metis Max.set_eq_fold list.simps(15))
  moreover assume "max_epoch es = Some m"
  ultimately have "m = Max (set es)" using Cons by simp
  then show ?thesis using Max_in [of "set es"] Cons by simp
qed simp

end
