(* ===== verification/GP_Protocol_Safety.thy ===== *)
theory GP_Protocol_Safety
  imports GP_Protocol_Rotation GP_Documents
begin

text \<open>
  What the verification rules of protocol version 3 guarantee: two activated capsules of one epoch
  have \<open>f + 1\<close> witnesses in common that signed both, the selected epoch is the highest of a quorum
  of fresh reads, a release of a rotation rests on two signer thresholds and the delay, and a plan
  that passes its intent replaces exactly one guardian.
\<close>

section \<open>Forks\<close>

text \<open>C16: on a card with exactly \<open>3 f + 1\<close> witnesses, two different activated capsules of the same
  epoch prove that at least \<open>f + 1\<close> pinned witnesses signed acknowledgements for both.\<close>

theorem fork_needs_double_signing:
  assumes "validate_activated_capsule_v3 cp rcard c1 = Inr ()"
    and "validate_activated_capsule_v3 cp rcard c2 = Inr ()"
    and "cr_guardian_epoch (cc3_config_ref c1) = e" and "cr_guardian_epoch (cc3_config_ref c2) = e" and "e \<noteq> 1"
    and "cc3_capsule_hash c1 \<noteq> cc3_capsule_hash c2"
    and "length (card3_witnesses rcard) = 3 * unat (card3_witness_fault_bound rcard) + 1"
  shows "\<exists>W \<subseteq> pinned_ids rcard. unat (card3_witness_fault_bound rcard) + 1 \<le> card W \<and>
    (\<forall>w \<in> W. \<exists>a1 a2. waa_witness_id a1 = w \<and> waa_witness_id a2 = w \<and>
       signed_ack cp rcard a1 \<and> signed_ack cp rcard a2 \<and>
       waa_successor_epoch a1 = e \<and> waa_successor_epoch a2 = e \<and>
       waa_predecessor_capsule_hash a1 = cc3_predecessor_capsule_hash c1 \<and>
       waa_predecessor_capsule_hash a2 = cc3_predecessor_capsule_hash c2 \<and>
       waa_successor_capsule_hash a1 = cc3_capsule_hash c1 \<and>
       waa_successor_capsule_hash a2 = cc3_capsule_hash c2)"
proof -
  have n1: "cr_guardian_epoch (cc3_config_ref c1) \<noteq> 1" and n2: "cr_guardian_epoch (cc3_config_ref c2) \<noteq> 1"
    using assms(3-5) by simp_all
  obtain cert1 qc1 h1 b1 where 1: "epoch_activation_qc qc1 = Inr b1"
    "qc_predecessor_capsule_hash qc1 = cc3_predecessor_capsule_hash c1"
    "qc_successor_epoch qc1 = cr_guardian_epoch (cc3_config_ref c1)"
    "qc_successor_capsule_hash qc1 = cc3_capsule_hash c1"
    "\<forall>ack \<in> set (qc_witness_acks qc1). signed_ack cp rcard ack"
    "2 * unat (card3_witness_fault_bound rcard) + 1 \<le> card (waa_witness_id ` set (qc_witness_acks qc1))"
    by (rule activated_successor [OF assms(1) n1])
  obtain cert2 qc2 h2 b2 where 2: "epoch_activation_qc qc2 = Inr b2"
    "qc_predecessor_capsule_hash qc2 = cc3_predecessor_capsule_hash c2"
    "qc_successor_epoch qc2 = cr_guardian_epoch (cc3_config_ref c2)"
    "qc_successor_capsule_hash qc2 = cc3_capsule_hash c2"
    "\<forall>ack \<in> set (qc_witness_acks qc2). signed_ack cp rcard ack"
    "2 * unat (card3_witness_fault_bound rcard) + 1 \<le> card (waa_witness_id ` set (qc_witness_acks qc2))"
    by (rule activated_successor [OF assms(2) n2])
  let ?A1 = "waa_witness_id ` set (qc_witness_acks qc1)" and ?A2 = "waa_witness_id ` set (qc_witness_acks qc2)"
  have sub: "?A1 \<subseteq> pinned_ids rcard" "?A2 \<subseteq> pinned_ids rcard"
    using 1(5) 2(5) signed_ack_id by blast+
  have "card (pinned_ids rcard) = 3 * unat (card3_witness_fault_bound rcard) + 1"
    using card_pinned_ids [OF activated_card [OF assms(1)]] assms(7) by simp
  from pinned.quorums_share [OF this sub(1) 1(6) sub(2) 2(6)]
  have "unat (card3_witness_fault_bound rcard) + 1 \<le> card (?A1 \<inter> ?A2)" .
  moreover have "\<exists>a1 a2. waa_witness_id a1 = w \<and> waa_witness_id a2 = w \<and>
       signed_ack cp rcard a1 \<and> signed_ack cp rcard a2 \<and>
       waa_successor_epoch a1 = e \<and> waa_successor_epoch a2 = e \<and>
       waa_predecessor_capsule_hash a1 = cc3_predecessor_capsule_hash c1 \<and>
       waa_predecessor_capsule_hash a2 = cc3_predecessor_capsule_hash c2 \<and>
       waa_successor_capsule_hash a1 = cc3_capsule_hash c1 \<and>
       waa_successor_capsule_hash a2 = cc3_capsule_hash c2" if "w \<in> ?A1 \<inter> ?A2" for w
  proof -
    from that obtain a1 a2 where "a1 \<in> set (qc_witness_acks qc1)" "waa_witness_id a1 = w"
      "a2 \<in> set (qc_witness_acks qc2)" "waa_witness_id a2 = w" by auto
    with qc_binds_acks [OF 1(1)] qc_binds_acks [OF 2(1)] 1(2-5) 2(2-5) assms(3,4)
    show ?thesis by (intro exI [of _ a1] exI [of _ a2]) simp
  qed
  ultimately show ?thesis using sub by (intro exI [of _ "?A1 \<inter> ?A2"]) blast
qed

section \<open>The latest epoch\<close>

lemma quorum_meets:
  assumes "validate_recovery_card_v3 rcard = Inr ()" and "S \<subseteq> pinned_ids rcard"
    and "length (card3_witnesses rcard) < card S + q"
    and "distinct (map read_id rs)" and "q \<le> length rs" and "read_id ` set rs \<subseteq> pinned_ids rcard"
  shows "\<exists>r \<in> set rs. read_id r \<in> S"
proof -
  have "q \<le> card (read_id ` set rs)" using assms(4,5) by (simp add: distinct_ids_card)
  with pinned.overlap [OF assms(2,6)] assms(3) card_pinned_ids [OF assms(1)]
  have "0 < card (S \<inter> read_id ` set rs)" by linarith
  then have "S \<inter> read_id ` set rs \<noteq> {}" by (cases "S \<inter> read_id ` set rs = {}") simp_all
  then show ?thesis by blast
qed

text \<open>C21: the selected capsule is an activated one, and a quorum of \<open>2 f + 1\<close> pinned witnesses answered
  this very challenge with activated capsules of no higher epoch, those of the same epoch
  with the same capsule hash. Hence the selection is not behind any set of witnesses that
  meets every quorum and answers with epoch \<open>e\<close> or later.\<close>

theorem select_latest_sound:
  assumes "select_latest_epoch_v3 cp rcard challenge envs = Inr c"
  shows "validate_activated_capsule_v3 cp rcard c = Inr () \<and>
    (\<exists>rs. set rs \<subseteq> set envs \<and> distinct (map read_id rs) \<and>
       2 * unat (card3_witness_fault_bound rcard) + 1 \<le> length rs \<and>
       (\<forall>r \<in> set rs. valid_read cp rcard challenge r \<and> read_id r \<in> pinned_ids rcard \<and>
          cr_guardian_epoch (cc3_config_ref (wre_capsule r)) \<le> cr_guardian_epoch (cc3_config_ref c) \<and>
          (cr_guardian_epoch (cc3_config_ref (wre_capsule r)) = cr_guardian_epoch (cc3_config_ref c) \<longrightarrow>
             cc3_capsule_hash (wre_capsule r) = cc3_capsule_hash c))) \<and>
    (\<forall>S e. S \<subseteq> pinned_ids rcard \<and>
       length (card3_witnesses rcard) < card S + (2 * unat (card3_witness_fault_bound rcard) + 1) \<and>
       (\<forall>r \<in> set envs. valid_read cp rcard challenge r \<and> read_id r \<in> S \<longrightarrow>
          e \<le> cr_guardian_epoch (cc3_config_ref (wre_capsule r))) \<longrightarrow>
       e \<le> cr_guardian_epoch (cc3_config_ref c))"
proof -
  let ?f = "unat (card3_witness_fault_bound rcard)"
  let ?ep = "\<lambda>c. cr_guardian_epoch (cc3_config_ref c)"
  from assms obtain seen ws caps m where rc: "validate_recovery_card_v3 rcard = Inr ()"
    and coll: "collect_reads cp rcard challenge {} {} [] envs = Inr (seen, ws, caps)"
    and quo: "2 * ?f + 1 \<le> length caps" and mx: "max_epoch (map ?ep caps) = Some m"
    and one: "card (cc3_capsule_hash ` set (filter (\<lambda>c. ?ep c = m) caps)) = 1"
    and c: "c = hd (filter (\<lambda>c. ?ep c = m) caps)"
    by (auto simp: select_latest_epoch_v3_def Let_def split: if_splits)
  from collect_reads_ok [OF rc coll] obtain rs where
    fr: "fresh_reads cp rcard challenge {} envs rs" and caps: "caps = map wre_capsule rs"
    by auto
  from max_epoch_ge [OF mx] have top: "\<forall>x \<in> set caps. ?ep x \<le> m" and "\<exists>x \<in> set caps. ?ep x = m" by auto
  then have ne: "filter (\<lambda>c. ?ep c = m) caps \<noteq> []" by (simp add: filter_empty_conv)
  with c have mem: "c \<in> set (filter (\<lambda>c. ?ep c = m) caps)" using hd_in_set by blast
  then have cm: "?ep c = m" "c \<in> set caps" by simp_all
  from one obtain h where h: "cc3_capsule_hash ` set (filter (\<lambda>c. ?ep c = m) caps) = {h}"
    by (rule card_1_singletonE)
  have same: "cc3_capsule_hash x = cc3_capsule_hash c" if "x \<in> set caps" "?ep x = m" for x
  proof -
    from that have "x \<in> set (filter (\<lambda>c. ?ep c = m) caps)" by simp
    with mem h show ?thesis by (metis imageI singletonD)
  qed
  have vr: "valid_read cp rcard challenge r" if "r \<in> set rs" for r
    using fr that by (simp add: fresh_reads_def list_all_iff)
  have pin: "read_id r \<in> pinned_ids rcard" if "r \<in> set rs" for r
    using vr [OF that] unfolding valid_read_def by (metis imageI)
  have val: "validate_activated_capsule_v3 cp rcard c = Inr ()"
    using cm(2) vr by (auto simp: caps valid_read_def)
  have reads: "set rs \<subseteq> set envs" "distinct (map read_id rs)" "2 * ?f + 1 \<le> length rs"
    using fr quo caps by (simp_all add: fresh_reads_def)
  have level: "?ep (wre_capsule r) \<le> ?ep c \<and> (?ep (wre_capsule r) = ?ep c \<longrightarrow>
      cc3_capsule_hash (wre_capsule r) = cc3_capsule_hash c)" if "r \<in> set rs" for r
    using that top same by (simp add: caps cm(1))
  have lower: "e \<le> ?ep c" if S: "S \<subseteq> pinned_ids rcard" "length (card3_witnesses rcard) < card S + (2 * ?f + 1)"
      "\<forall>r \<in> set envs. valid_read cp rcard challenge r \<and> read_id r \<in> S \<longrightarrow> e \<le> ?ep (wre_capsule r)" for S e
  proof -
    have "read_id ` set rs \<subseteq> pinned_ids rcard" using pin by blast
    with reads obtain r where "r \<in> set rs" "read_id r \<in> S"
      using quorum_meets [OF rc S(1,2) reads(2,3)] by blast
    with S(3) vr reads(1) have "e \<le> ?ep (wre_capsule r)" by blast
    also have "\<dots> \<le> ?ep c" using level [OF \<open>r \<in> set rs\<close>] by (rule conjunct1)
    finally show ?thesis .
  qed
  have all: "\<forall>r \<in> set rs. valid_read cp rcard challenge r \<and> read_id r \<in> pinned_ids rcard \<and>
      ?ep (wre_capsule r) \<le> ?ep c \<and> (?ep (wre_capsule r) = ?ep c \<longrightarrow>
         cc3_capsule_hash (wre_capsule r) = cc3_capsule_hash c)"
    using vr pin level by blast
  show ?thesis
    using val lower by (intro conjI exI [of _ rs] reads all) blast+
qed

section \<open>Certificates of the signers\<close>

lemma direct_plan:
  assumes "validate_rotation_plan_v3 cp plan predecessor now = Inr h"
  obtains t where "rotation_plan plan = Inr t" and "h = sha256 cp t"
    and "rp_predecessor plan = cc3_config_ref predecessor"
    and "is_direct_successor_of (rp_successor plan) (rp_predecessor plan)"
    and "cc3_minimum_recovery_delay predecessor \<le> rp_minimum_delay_secs plan"
    and "length (rp_new_roster plan) = length (rp_old_roster plan)"
    and "\<exists>b. guardian_roster_v3 (rp_old_roster plan) = Inr b" and "\<exists>b. guardian_roster_v3 (rp_new_roster plan) = Inr b"
proof -
  from assms obtain t where "rotation_plan plan = Inr t" "h = sha256 cp t"
    "rp_predecessor plan = cc3_config_ref predecessor"
    "is_direct_successor_of (rp_successor plan) (rp_predecessor plan)"
    "\<not> rp_minimum_delay_secs plan < cc3_minimum_recovery_delay predecessor"
    "length (rp_old_roster plan) = unat (cc3_guardian_count predecessor)"
    "length (rp_new_roster plan) = unat (rp_total_shards plan)"
    "rp_total_shards plan = cc3_guardian_count predecessor"
    "\<exists>b. guardian_roster_v3 (rp_old_roster plan) = Inr b" "\<exists>b. guardian_roster_v3 (rp_new_roster plan) = Inr b"
    by (auto simp: validate_rotation_plan_v3_def)
  then show thesis by (intro that) simp_all
qed

text \<open>The votes of a begin or release certificate, as a threshold of signers of the capsule.\<close>

definition begin_threshold :: "primitives \<Rightarrow> ConfigCapsuleV3 \<Rightarrow> BeginRotationCertificate \<Rightarrow> bool" where
  "begin_threshold cp capsule certificate \<longleftrightarrow>
    unat (cc3_signer_threshold capsule) \<le> card (srbv_signer_id ` set (brot_votes certificate)) \<and>
    (\<forall>v \<in> set (brot_votes certificate).
       srbv_plan_hash v = brot_plan_hash certificate \<and>
       validate_signer_membership cp (srbv_signer_id v) (srbv_signer_public_key v)
         (srbv_signer_membership_proof v) capsule = Inr () \<and>
       (\<exists>t. signer_rotation_begin_vote v = Inr t \<and>
          verify cp (srbv_signer_public_key v) t (srbv_signer_signature v) = Inr ()))"

definition release_threshold :: "primitives \<Rightarrow> ConfigCapsuleV3 \<Rightarrow> RotationReleaseCertificate \<Rightarrow> bool" where
  "release_threshold cp capsule certificate \<longleftrightarrow>
    unat (cc3_signer_threshold capsule) \<le> card (srrv_signer_id ` set (rrc_votes certificate)) \<and>
    (\<forall>v \<in> set (rrc_votes certificate).
       srrv_plan_hash v = rrc_plan_hash certificate \<and>
       srrv_begin_certificate_hash v = rrc_begin_certificate_hash certificate \<and>
       validate_signer_membership cp (srrv_signer_id v) (srrv_signer_public_key v)
         (srrv_signer_membership_proof v) capsule = Inr () \<and>
       (\<exists>t. signer_rotation_release_vote v = Inr t \<and>
          verify cp (srrv_signer_public_key v) t (srrv_signer_signature v) = Inr ()))"

lemma begin_certificate_ok:
  assumes "validate_begin_rotation_certificate_v3 cp certificate plan predecessor now = Inr h"
  obtains ph t where "validate_rotation_plan_v3 cp plan predecessor now = Inr ph"
    and "begin_rotation_certificate certificate = Inr t" and "h = sha256 cp t"
    and "brot_context certificate = rp_context plan" and "brot_plan_hash certificate = ph"
    and "saturating_add (rx_issued_at (rp_context plan)) (rp_minimum_delay_secs plan) \<le> brot_not_before_wall certificate"
    and "begin_threshold cp predecessor certificate"
proof -
  from assms show thesis
    unfolding validate_begin_rotation_certificate_v3_def
    by (simp only: bindR_eq_Inr if_bail_ok wire_ok each_once_ok crypt_ok de_Morgan_disj not_not not_less)
      (elim exE conjE, rule that, assumption+,
       auto simp: begin_threshold_def begin_rotation_certificate_def list_ex_iff split: if_splits)
qed

text \<open>C22: a rotation is released only on two certificates for the same plan, each with a threshold of
  different signers that are members of the predecessor's signer set and signed it, after
  the owner-visible delay (at least the recovery delay of the predecessor) since the
  rotation was issued, and before the preparation deadline; and the plan leads to the
  direct successor of the predecessor.\<close>

theorem rotation_release_certified:
  assumes "validate_rotation_release_certificate_v3 cp release beg plan predecessor now = Inr h"
  shows "begin_threshold cp predecessor beg \<and> release_threshold cp predecessor release \<and>
    brot_plan_hash beg = rrc_plan_hash release \<and>
    (\<exists>t. begin_rotation_certificate beg = Inr t \<and> rrc_begin_certificate_hash release = sha256 cp t) \<and>
    saturating_add (rx_issued_at (rp_context plan)) (rp_minimum_delay_secs plan) \<le> now \<and>
    cc3_minimum_recovery_delay predecessor \<le> rp_minimum_delay_secs plan \<and>
    now < rp_preparation_deadline plan \<and>
    is_direct_successor_of (rp_successor plan) (cc3_config_ref predecessor)"
proof -
  from assms obtain bh pb where beg: "validate_begin_rotation_certificate_v3 cp beg plan predecessor now = Inr bh"
    and pb: "rotation_plan plan = Inr pb" "rrc_plan_hash release = sha256 cp pb"
    and bhash: "rrc_begin_certificate_hash release = bh"
    and time: "brot_not_before_wall beg \<le> now" "now < rp_preparation_deadline plan"
    and rel: "release_threshold cp predecessor release"
    unfolding validate_rotation_release_certificate_v3_def
    by (simp only: bindR_eq_Inr if_bail_ok wire_ok each_once_ok crypt_ok de_Morgan_disj not_not not_less not_le)
      (elim exE conjE, auto simp: release_threshold_def rotation_release_certificate_def list_ex_iff split: if_splits)
  obtain ph t where 1: "validate_rotation_plan_v3 cp plan predecessor now = Inr ph"
    "begin_rotation_certificate beg = Inr t" "bh = sha256 cp t" "brot_plan_hash beg = ph"
    "saturating_add (rx_issued_at (rp_context plan)) (rp_minimum_delay_secs plan) \<le> brot_not_before_wall beg"
    "begin_threshold cp predecessor beg"
    by (rule begin_certificate_ok [OF beg])
  obtain pt where 2: "rotation_plan plan = Inr pt" "ph = sha256 cp pt"
    "rp_predecessor plan = cc3_config_ref predecessor"
    "is_direct_successor_of (rp_successor plan) (rp_predecessor plan)"
    "cc3_minimum_recovery_delay predecessor \<le> rp_minimum_delay_secs plan"
    by (rule direct_plan [OF 1(1)])
  from 1(5) time(1) have "saturating_add (rx_issued_at (rp_context plan)) (rp_minimum_delay_secs plan) \<le> now"
    by (rule order_trans)
  with 1 2 pb bhash time(2) rel show ?thesis by simp
qed

section \<open>One-for-one replacement\<close>

abbreviation roster_ids :: "GuardianRouteV3 list \<Rightarrow> u16 set" where
  "roster_ids roster \<equiv> gr3_guardian_index ` set roster"

lemma bt_ok_collected: "bt_ok m \<Longrightarrow> bt_ok (fold (\<lambda>x. bt_insert (key x) (val x)) xs m)"
  by (induction xs arbitrary: m) simp_all

lemma routes_get:
  assumes "distinct (map gr3_guardian_index roster)"
  shows "bt_get (routes_by_index roster) k = Some x \<longleftrightarrow> x \<in> set roster \<and> gr3_guardian_index x = k"
proof -
  have "(\<exists>p \<in> set roster. gr3_guardian_index p = k \<and> p = x) \<longleftrightarrow> x \<in> set roster \<and> gr3_guardian_index x = k"
    by blast
  with collected_member [OF assms, of "\<lambda>p. p" k x] show ?thesis
    by (simp only: routes_by_index_def)
qed

lemma routes_ok: "bt_ok (routes_by_index roster)"
  by (simp add: routes_by_index_def bt_ok_collected)

lemma routes_keys:
  assumes "distinct (map gr3_guardian_index roster)"
  shows "set (map fst (routes_by_index roster)) = roster_ids roster"
proof -
  have "fst ` set (routes_by_index roster) = dom (bt_get (routes_by_index roster))"
    by (simp add: dom_map_of_conv_image_fst)
  also have "\<dots> = roster_ids roster" using routes_get [OF assms] by (auto simp: dom_def)
  finally show ?thesis by simp
qed

lemma routes_values:
  assumes "distinct (map gr3_guardian_index roster)"
  shows "set (bt_values (routes_by_index roster)) = set roster"
  using bt_values_get [OF routes_ok, of _ roster] routes_get [OF assms] by blast

lemma routes_length:
  assumes "distinct (map gr3_guardian_index roster)"
  shows "length (routes_by_index roster) = length roster"
proof -
  have "length (routes_by_index roster) = card (set (map fst (routes_by_index roster)))"
    using distinct_card [OF bt_ok_distinct [OF routes_ok [of roster]]] by simp
  then show ?thesis by (simp only: routes_keys [OF assms] distinct_ids_card [OF assms])
qed

lemma missing_ids_set:
  assumes "distinct (map gr3_guardian_index old)" "distinct (map gr3_guardian_index new)"
  shows "set (missing_ids (routes_by_index old) (routes_by_index new)) = roster_ids old - roster_ids new"
proof -
  have "bt_contains_key (routes_by_index new) i \<longleftrightarrow> i \<in> roster_ids new" for i
    using routes_get [OF assms(2), of i] by auto
  then show ?thesis
    using routes_keys [OF assms(1)] by (simp only: missing_ids_def set_filter) blast
qed

lemma singleton_list: "length xs = 1 \<Longrightarrow> set xs = {hd xs}"
  by (cases xs) simp_all

text \<open>C23: a plan that passes the intent replaces one guardian by another: the removed one is the one the
  intent commits to, the added one has a key no old guardian has, every other guardian keeps
  its index and public key but gets another slot and another mailbox, and keys, slots and
  mailboxes of the new roster are pairwise different.\<close>

theorem plan_replaces_one_guardian:
  assumes "validate_rotation_plan_against_intent_v3 cp plan intent predecessor now = Inr h"
  shows "\<exists>removed added. removed \<in> roster_ids (rp_old_roster plan) \<and> added \<notin> roster_ids (rp_old_roster plan) \<and>
    roster_ids (rp_new_roster plan) = insert added (roster_ids (rp_old_roster plan) - {removed}) \<and>
    sha256 cp (be16 removed) = ri_selection_constraints_commitment intent \<and>
    (\<forall>n \<in> set (rp_new_roster plan).
       (gr3_guardian_index n = added \<longrightarrow>
          gr3_guardian_public_key n \<notin> gr3_guardian_public_key ` set (rp_old_roster plan)) \<and>
       (\<forall>r \<in> set (rp_old_roster plan). gr3_guardian_index r = gr3_guardian_index n \<longrightarrow>
          gr3_guardian_public_key n = gr3_guardian_public_key r \<and>
          gr3_opaque_slot_id n \<noteq> gr3_opaque_slot_id r \<and> gr3_mailbox n \<noteq> gr3_mailbox r)) \<and>
    inj_on gr3_guardian_public_key (set (rp_new_roster plan)) \<and>
    inj_on gr3_opaque_slot_id (set (rp_new_roster plan)) \<and>
    inj_on gr3_mailbox (set (rp_new_roster plan))"
proof -
  let ?o = "rp_old_roster plan" and ?n = "rp_new_roster plan"
  let ?old = "routes_by_index ?o" and ?new = "routes_by_index ?n"
  from assms obtain ph where plan: "validate_rotation_plan_v3 cp plan predecessor now = Inr ph"
    and rem: "length (missing_ids ?old ?new) = 1" and add: "length (missing_ids ?new ?old) = 1"
    and sel: "sha256 cp (be16 (hd (missing_ids ?old ?new))) = ri_selection_constraints_commitment intent"
    and kept: "\<not> list_ex (\<lambda>(i, r). case bt_get ?new i of Some n \<Rightarrow> route_not_refreshed n r | None \<Rightarrow> False) ?old"
    and cards: "card (gr3_guardian_public_key ` set (bt_values ?new)) = length ?new"
      "card (gr3_mailbox ` set (bt_values ?new)) = length ?new"
      "card (gr3_opaque_slot_id ` set (bt_values ?new)) = length ?new"
    and newkey: "gr3_guardian_public_key (the (bt_get ?new (hd (missing_ids ?new ?old)))) \<notin>
      gr3_guardian_public_key ` set (bt_values ?old)"
    unfolding validate_rotation_plan_against_intent_v3_def Let_def
    by (simp only: bindR_eq_Inr if_bail_ok de_Morgan_disj not_not) blast
  from direct_plan [OF plan] have dist: "distinct (map gr3_guardian_index ?o)" "distinct (map gr3_guardian_index ?n)"
    by (auto simp: guardian_roster_v3_def unique_ids_ok)
  note g = routes_get [OF dist(1)] routes_get [OF dist(2)]
  define a where "a = hd (missing_ids ?new ?old)"
  define r where "r = hd (missing_ids ?old ?new)"
  have ids: "roster_ids ?o - roster_ids ?n = {r}" "roster_ids ?n - roster_ids ?o = {a}"
    using singleton_list [OF rem] singleton_list [OF add] missing_ids_set [OF dist] missing_ids_set [OF dist(2,1)]
    by (simp_all add: a_def r_def)
  have fresh: "gr3_guardian_public_key n = gr3_guardian_public_key r' \<and>
      gr3_opaque_slot_id n \<noteq> gr3_opaque_slot_id r' \<and> gr3_mailbox n \<noteq> gr3_mailbox r'"
    if "n \<in> set ?n" "r' \<in> set ?o" "gr3_guardian_index r' = gr3_guardian_index n" for n r'
  proof -
    have "bt_get ?old (gr3_guardian_index n) = Some r'" and n: "bt_get ?new (gr3_guardian_index n) = Some n"
      using that g by simp_all
    then have "(gr3_guardian_index n, r') \<in> set ?old" by (simp add: map_of_SomeD)
    with kept n have "\<not> route_not_refreshed n r'" by (force simp: list_ex_iff)
    then show ?thesis by (simp add: route_not_refreshed_def)
  qed
  have addkey: "gr3_guardian_public_key n \<notin> gr3_guardian_public_key ` set ?o"
    if "n \<in> set ?n" "gr3_guardian_index n = a" for n
  proof -
    from that g(2) have "bt_get ?new a = Some n" by simp
    with newkey routes_values [OF dist(1)] show ?thesis by (simp add: a_def)
  qed
  have inj: "inj_on f (set ?n)" if "card (f ` set (bt_values ?new)) = length ?new" for f :: "GuardianRouteV3 \<Rightarrow> 'z"
  proof -
    have "card (set ?n) = length ?n" using dist(2) by (simp add: distinct_map distinct_card)
    with that have "card (f ` set ?n) = card (set ?n)"
      by (simp only: routes_values [OF dist(2)] routes_length [OF dist(2)])
    then show ?thesis by (simp add: eq_card_imp_inj_on)
  qed
  have "r \<in> roster_ids ?o" "a \<notin> roster_ids ?o" "roster_ids ?n = insert a (roster_ids ?o - {r})"
    using ids by blast+
  moreover have "sha256 cp (be16 r) = ri_selection_constraints_commitment intent" using sel by (simp add: r_def)
  moreover have "\<forall>n \<in> set ?n. (gr3_guardian_index n = a \<longrightarrow>
          gr3_guardian_public_key n \<notin> gr3_guardian_public_key ` set ?o) \<and>
       (\<forall>r \<in> set ?o. gr3_guardian_index r = gr3_guardian_index n \<longrightarrow>
          gr3_guardian_public_key n = gr3_guardian_public_key r \<and>
          gr3_opaque_slot_id n \<noteq> gr3_opaque_slot_id r \<and> gr3_mailbox n \<noteq> gr3_mailbox r)"
    using addkey fresh by simp
  ultimately show ?thesis using inj [OF cards(1)] inj [OF cards(2)] inj [OF cards(3)]
    by (intro exI [of _ r] exI [of _ a] conjI)
qed

section \<open>A concrete card, its capsules and their certificates\<close>

definition fx_ref :: "u64 \<Rightarrow> Id32 \<Rightarrow> ConfigRef" where
  "fx_ref e b = \<lparr> cr_config_id = 1, cr_payload_generation = 1, cr_authorization_epoch = 1,
     cr_guardian_epoch = e, cr_epoch_binding = b \<rparr>"

definition fx_pin :: "u16 \<Rightarrow> WitnessPin" where
  "fx_pin i = \<lparr> wp_witness_id = i, wp_mailbox = [char_of (unat i)], wp_public_key = ucast i \<rparr>"

definition fx_card :: "u16 list \<Rightarrow> RecoveryCardV3" where
  "fx_card ids = \<lparr> card3_protocol_version = 3, card3_config_id = 1, card3_signer_mailboxes = [],
     card3_signer_set_commitment = 20, card3_owner_cancel_public_key = 21, card3_witness_fault_bound = 1,
     card3_witnesses = map fx_pin ids, card3_relay_bases = [] \<rparr>"

definition fx_body :: "u64 \<Rightarrow> Id32 \<Rightarrow> Id32 \<Rightarrow> ConfigCapsuleV3" where
  "fx_body e b pred = \<lparr> cc3_protocol_version = 3, cc3_config_ref = fx_ref e b, cc3_capsule_hash = 0,
     cc3_predecessor_capsule_hash = pred, cc3_signer_count = 1, cc3_signer_threshold = 1,
     cc3_guardian_count = 2, cc3_guardian_threshold = 2, cc3_minimum_recovery_delay = 10,
     cc3_max_request_lifetime = 100, cc3_signer_set_commitment = 20, cc3_owner_cancel_public_key = 21,
     cc3_dpss_suite = ZfFrostRistretto255RtsRefreshV1, cc3_dpss_public_commitment = 22,
     cc3_ciphertext_fragment_root = 23, cc3_guardian_material_root = 24,
     cc3_encrypted_recovery_descriptor = \<lparr> ac_nonce = 25, ac_ciphertext = [] \<rparr>,
     cc3_activation_certificate = None, cc3_activation_qc = None \<rparr>"

definition fx_hash :: "primitives \<Rightarrow> (WireError, byte list) result \<Rightarrow> Id32" where
  "fx_hash cp r = (case r of Inl _ \<Rightarrow> 0 | Inr t \<Rightarrow> sha256 cp t)"

definition fx_genesis :: "primitives \<Rightarrow> ConfigCapsuleV3" where
  "fx_genesis cp = (fx_body 1 1 0) \<lparr> cc3_capsule_hash := fx_hash cp (config_capsule_body_v3 (fx_body 1 1 0)) \<rparr>"

text \<open>The successor with binding \<open>b\<close> of the genesis capsule, activated by rotation \<open>b\<close>.\<close>

definition fx_succ :: "primitives \<Rightarrow> Id32 \<Rightarrow> ConfigCapsuleV3" where
  "fx_succ cp b = fx_body 2 b (cc3_capsule_hash (fx_genesis cp))"

definition fx_succ_hash :: "primitives \<Rightarrow> Id32 \<Rightarrow> Id32" where
  "fx_succ_hash cp b = fx_hash cp (config_capsule_body_v3 (fx_succ cp b))"

definition fx_ctx :: "primitives \<Rightarrow> Id32 \<Rightarrow> RotationContext" where
  "fx_ctx cp b = \<lparr> rx_protocol_version = 3, rx_config_ref = fx_ref 1 1, rx_rotation_id = b,
     rx_predecessor_capsule_hash = cc3_capsule_hash (fx_genesis cp), rx_recipient_key = [],
     rx_nonce = 30, rx_issued_at = 1, rx_expiry = 1000 \<rparr>"

definition fx_vote :: "primitives \<Rightarrow> Id32 \<Rightarrow> SignerRotationActivateVote" where
  "fx_vote cp b = \<lparr> srav_context = fx_ctx cp b, srav_plan_hash = 31, srav_ready_certificate_hash = 32,
     srav_successor_capsule_hash = fx_succ_hash cp b, srav_signer_id = 1, srav_signer_public_key = 33,
     srav_signer_membership_proof = [], srav_signer_signature = [] \<rparr>"

definition fx_cert :: "primitives \<Rightarrow> Id32 \<Rightarrow> RotationActivateCertificate" where
  "fx_cert cp b = \<lparr> rac_context = fx_ctx cp b, rac_plan_hash = 31, rac_ready_certificate_hash = 32,
     rac_successor = fx_ref 2 b, rac_successor_capsule_hash = fx_succ_hash cp b, rac_votes = [fx_vote cp b] \<rparr>"

definition fx_ack :: "primitives \<Rightarrow> Id32 \<Rightarrow> u16 \<Rightarrow> WitnessActivationAck" where
  "fx_ack cp b i = \<lparr> waa_context = fx_ctx cp b, waa_plan_hash = 31,
     waa_activation_certificate_hash = fx_hash cp (rotation_activate_certificate (fx_cert cp b)),
     waa_witness_id = i, waa_predecessor_epoch = 1,
     waa_predecessor_capsule_hash = cc3_capsule_hash (fx_genesis cp), waa_successor_epoch = 2,
     waa_successor_capsule_hash = fx_succ_hash cp b, waa_witness_public_key = ucast i,
     waa_witness_signature = [] \<rparr>"

definition fx_qc :: "primitives \<Rightarrow> Id32 \<Rightarrow> u16 list \<Rightarrow> EpochActivationQc" where
  "fx_qc cp b ids = \<lparr> qc_protocol_version = 3, qc_config_id = 1, qc_rotation_id = b, qc_predecessor_epoch = 1,
     qc_predecessor_capsule_hash = cc3_capsule_hash (fx_genesis cp), qc_successor_epoch = 2,
     qc_successor_capsule_hash = fx_succ_hash cp b,
     qc_activation_certificate_hash = fx_hash cp (rotation_activate_certificate (fx_cert cp b)),
     qc_witness_fault_bound = 1, qc_witness_acks = map (fx_ack cp b) ids \<rparr>"

definition fx_active :: "primitives \<Rightarrow> Id32 \<Rightarrow> u16 list \<Rightarrow> ConfigCapsuleV3" where
  "fx_active cp b ids = (fx_succ cp b) \<lparr> cc3_capsule_hash := fx_succ_hash cp b,
     cc3_activation_certificate := Some (fx_cert cp b), cc3_activation_qc := Some (fx_qc cp b ids) \<rparr>"

lemma fx_card_sel [simp]:
  "card3_protocol_version (fx_card ids) = 3" "card3_config_id (fx_card ids) = 1"
  "card3_signer_set_commitment (fx_card ids) = 20" "card3_owner_cancel_public_key (fx_card ids) = 21"
  "card3_witness_fault_bound (fx_card ids) = 1" "card3_witnesses (fx_card ids) = map fx_pin ids"
  by (simp_all add: fx_card_def)

lemmas fx_wire = transcript_ok config_ref_into_def context_into_def witness_ack_into_def activate_vote_into_def
  unique_ids_ok MAX_ROTATION_ACTORS_def MAX_CONFIG_WITNESSES_def PROTOCOL_VERSION_V3_def MAX_FIELD_LEN_def
  same_rotation_def saturating_add_def

lemma fx_body_ok: "\<exists>t. config_capsule_body_v3 (fx_body e b p) = Inr t"
  by (simp add: config_capsule_body_v3_def fx_body_def fx_ref_def fx_wire)

lemma body_of_update [simp]:
  "config_capsule_body_v3 (c \<lparr> cc3_capsule_hash := h \<rparr>) = config_capsule_body_v3 c"
  "config_capsule_body_v3 (c \<lparr> cc3_activation_certificate := ce \<rparr>) = config_capsule_body_v3 c"
  "config_capsule_body_v3 (c \<lparr> cc3_activation_qc := q \<rparr>) = config_capsule_body_v3 c"
  by (simp_all add: config_capsule_body_v3_def)

lemma fx_vote_ok: "\<exists>t. signer_rotation_activate_vote (fx_vote cp b) = Inr t"
  by (simp add: signer_rotation_activate_vote_def fx_vote_def fx_ctx_def fx_ref_def fx_wire)

lemma fx_cert_ok: "\<exists>t. rotation_activate_certificate (fx_cert cp b) = Inr t"
  by (simp add: rotation_activate_certificate_def fx_cert_def fx_vote_def fx_ctx_def fx_ref_def fx_wire)

lemma fx_ack_ok: "\<exists>t. witness_activation_ack (fx_ack cp b i) = Inr t"
  by (simp add: witness_activation_ack_def fx_ack_def fx_ctx_def fx_ref_def fx_wire)

lemma fx_qc_ok:
  "ids \<in> {[1, 2, 3], [2, 3, 4], [4, 5, 6]} \<Longrightarrow> \<exists>t. epoch_activation_qc (fx_qc cp b ids) = Inr t"
  by (auto simp: epoch_activation_qc_def fx_qc_def fx_ack_def fx_ctx_def fx_ref_def fx_wire)

lemma fx_card_ok:
  "validate_recovery_card_v3 (fx_card [1, 2, 3, 4]) = Inr ()"
  "validate_recovery_card_v3 (fx_card [1, 2, 3, 4, 5, 6]) = Inr ()"
  by (simp_all add: recovery_card_ok fx_card_def fx_pin_def PROTOCOL_VERSION_V3_def)

text \<open>Primitives that accept every signature and membership proof, and a digest that tells the body of
  the successor with binding 3 from every other byte string.\<close>

definition fx_prim :: primitives where
  "fx_prim = \<lparr> sha2_digest = (\<lambda>d. if config_capsule_body_v3 (fx_body 2 3 11) = Inr d then 12 else 11),
     dalek_key_ok = (\<lambda>_. True), dalek_signature_ok = (\<lambda>_. True), dalek_verify = (\<lambda>_ _ _. True),
     dalek_public = (\<lambda>seed. seed), dalek_sign = (\<lambda>_ _. []), rs_merkle_root = (\<lambda>_. Some 20),
     rs_merkle_prove = (\<lambda>_ _. []), rs_merkle_parse = (\<lambda>_. True), rs_merkle_verify = (\<lambda>_ _ _ _ _. True),
     hkdf_expand = (\<lambda>_ _. None), xchacha_encrypt = (\<lambda>_ _ m _. Some m), xchacha_decrypt = (\<lambda>_ _ c _. Some c),
     xwing_public = (\<lambda>_. []), xwing_encapsulate = (\<lambda>_ _. Some ([], 0)), xwing_decapsulate = (\<lambda>_ _. Some 0) \<rparr>"

lemma fx_sha: "sha256 fx_prim d = (if config_capsule_body_v3 (fx_body 2 3 11) = Inr d then 12 else 11)"
  by (simp add: sha256_def fx_prim_def)

lemma fx_body_distinct:
  assumes "(e, b) \<noteq> (2, 3)" and "config_capsule_body_v3 (fx_body e b p) = Inr t"
  shows "config_capsule_body_v3 (fx_body 2 3 11) \<noteq> Inr t"
proof
  assume "config_capsule_body_v3 (fx_body 2 3 11) = Inr t"
  from config_capsule_body_v3_inject [OF this assms(2)] assms(1) show False
    by (auto simp: fx_body_def fx_ref_def)
qed

lemma fx_hashes:
  "cc3_capsule_hash (fx_genesis fx_prim) = 11" "fx_succ_hash fx_prim 2 = 11" "fx_succ_hash fx_prim 3 = 12"
proof -
  have h: "fx_hash fx_prim (config_capsule_body_v3 (fx_body e b p)) = 11" if "(e, b) \<noteq> (2, 3)" for e b p
    using fx_body_ok [of e b p] fx_body_distinct [OF that] by (auto simp: fx_hash_def fx_sha)
  show g: "cc3_capsule_hash (fx_genesis fx_prim) = 11" by (simp add: fx_genesis_def h)
  show "fx_succ_hash fx_prim 2 = 11" by (simp add: fx_succ_hash_def fx_succ_def h)
  show "fx_succ_hash fx_prim 3 = 12"
    using fx_body_ok [of 2 3 11] by (auto simp: fx_succ_hash_def fx_succ_def g fx_hash_def fx_sha)
qed

lemma fx_accepts: "verify fx_prim k t s = Inr ()" "merkle_verify fx_prim r l i n prf = Inr ()"
  by (simp_all add: verify_def merkle_verify_def fx_prim_def)

lemma fx_activate_ok:
  assumes "\<And>t s. verify cp 33 t s = Inr ()" and "\<And>r l i n prf. merkle_verify cp r l i n prf = Inr ()"
  shows "validate_activate_certificate cp (fx_active cp b ids) (fx_cert cp b) =
    Inr (fx_hash cp (rotation_activate_certificate (fx_cert cp b)))"
proof -
  obtain t where t: "rotation_activate_certificate (fx_cert cp b) = Inr t" using fx_cert_ok by blast
  obtain l where l: "signer_leaf 1 33 = Inr l" by (simp add: signer_leaf_def transcript_ok MAX_FIELD_LEN_def)
  obtain v where v: "signer_rotation_activate_vote (fx_vote cp b) = Inr v" using fx_vote_ok by blast
  have vote: "rac_votes (fx_cert cp b) = [fx_vote cp b]" by (simp add: fx_cert_def)
  show ?thesis
    by (simp add: validate_activate_certificate_def t vote v fx_hash_def wire_def ensure_def crypt_def assms
        fx_vote_def [of cp b, THEN arg_cong [where f = srav_signer_id]] l
        fx_vote_def [of cp b, THEN arg_cong [where f = srav_signer_public_key]]
        fx_active_def fx_succ_def fx_body_def fx_ref_def saturating_add_def)
      (simp add: fx_cert_def fx_ctx_def fx_ref_def)
qed

lemma fx_active_ok:
  assumes "\<And>t s. verify cp 33 t s = Inr ()" and "\<And>r l i n prf. merkle_verify cp r l i n prf = Inr ()"
    and "ids \<in> {[1, 2, 3], [2, 3, 4], [4, 5, 6]}" and "set ids \<subseteq> set pins" and "validate_recovery_card_v3 (fx_card pins) = Inr ()"
    and ack: "\<And>i t s. i \<in> set ids \<Longrightarrow> witness_activation_ack (fx_ack cp b i) = Inr t \<Longrightarrow> verify cp (ucast i) t s = Inr ()"
  shows "validate_activated_capsule_v3 cp (fx_card pins) (fx_active cp b ids) = Inr ()"
proof -
  have body: "config_capsule_body_v3 (fx_active cp b ids) = config_capsule_body_v3 (fx_succ cp b)"
    by (simp add: fx_active_def)
  obtain t where t: "config_capsule_body_v3 (fx_succ cp b) = Inr t" using fx_body_ok unfolding fx_succ_def by blast
  obtain q where q: "epoch_activation_qc (fx_qc cp b ids) = Inr q" using fx_qc_ok [OF assms(3)] by blast
  have pin: "bt_get (witness_pins (fx_card pins)) i = Some (fx_pin i)" if "i \<in> set ids" for i
    using that assms(4) by (subst witness_pins_get [OF assms(5)]) (auto simp: fx_card_def fx_pin_def)
  have signed: "\<exists>t. witness_activation_ack (fx_ack cp b i) = Inr t \<and> verify cp (ucast i) t s = Inr ()" if "i \<in> set ids" for i s
    using fx_ack_ok [of cp b i] ack [OF that] by auto
  have acks: "each_once waa_witness_id
      (\<lambda>ack. bindR (ok_or (bt_get (witness_pins (fx_card pins)) (waa_witness_id ack)) e1) (\<lambda>pin.
        ensure (waa_witness_public_key ack = wp_public_key pin \<and>
          waa_activation_certificate_hash ack = fx_hash cp (rotation_activate_certificate (fx_cert cp b))) e2)) e3
      (\<lambda>ack. bindR (ok_or (bt_get (witness_pins (fx_card pins)) (waa_witness_id ack)) e1) (\<lambda>pin.
        bindR (wire (witness_activation_ack ack)) (\<lambda>t. crypt (verify cp (wp_public_key pin) t (waa_witness_signature ack)))))
      {} (map (fx_ack cp b) ids) = Inr (set ids)" for e1 e2 e3
    using assms(3) pin signed
    by (auto simp: each_once_ok fx_ack_def [of cp b, THEN arg_cong [where f = waa_witness_id]] fx_pin_def
        fx_ack_def [of cp b, THEN arg_cong [where f = waa_witness_public_key]]
        fx_ack_def [of cp b, THEN arg_cong [where f = waa_activation_certificate_hash]])
  have card: "card (set ids) = 3" using assms(3) by auto
  have sel: "cc3_activation_certificate (fx_active cp b ids) = Some (fx_cert cp b)"
    "cc3_activation_qc (fx_active cp b ids) = Some (fx_qc cp b ids)"
    "cc3_capsule_hash (fx_active cp b ids) = sha256 cp t"
    "qc_witness_acks (fx_qc cp b ids) = map (fx_ack cp b) ids"
    "card3_witness_fault_bound (fx_card pins) = 1"
    by (simp_all add: fx_active_def fx_succ_hash_def fx_hash_def t fx_qc_def fx_card_def)
  have fields: "cc3_protocol_version (fx_active cp b ids) = PROTOCOL_VERSION_V3"
    "cc3_config_ref (fx_active cp b ids) = fx_ref 2 b"
    "cr_config_id (fx_ref 2 b) = card3_config_id (fx_card pins)" "cr_guardian_epoch (fx_ref 2 b) \<noteq> 1"
    "cc3_signer_set_commitment (fx_active cp b ids) = card3_signer_set_commitment (fx_card pins)"
    "cc3_owner_cancel_public_key (fx_active cp b ids) = card3_owner_cancel_public_key (fx_card pins)"
    "qc_protocol_version (fx_qc cp b ids) = PROTOCOL_VERSION_V3"
    "qc_config_id (fx_qc cp b ids) = card3_config_id (fx_card pins)"
    "qc_rotation_id (fx_qc cp b ids) = rx_rotation_id (rac_context (fx_cert cp b))"
    "qc_predecessor_epoch (fx_qc cp b ids) = cr_guardian_epoch (rx_config_ref (rac_context (fx_cert cp b)))"
    "qc_predecessor_capsule_hash (fx_qc cp b ids) = cc3_predecessor_capsule_hash (fx_active cp b ids)"
    "qc_successor_epoch (fx_qc cp b ids) = cr_guardian_epoch (fx_ref 2 b)"
    "qc_successor_capsule_hash (fx_qc cp b ids) = sha256 cp t"
    "qc_activation_certificate_hash (fx_qc cp b ids) = fx_hash cp (rotation_activate_certificate (fx_cert cp b))"
    "qc_witness_fault_bound (fx_qc cp b ids) = 1"
    using t by (simp_all add: fx_active_def fx_succ_def fx_body_def fx_ref_def fx_card_def fx_qc_def fx_cert_def
        fx_ctx_def PROTOCOL_VERSION_V3_def fx_succ_hash_def fx_hash_def)
  show ?thesis
    unfolding validate_activated_capsule_v3_def
    by (simp add: assms(5) body t sel fields fx_activate_ok [OF assms(1,2)] q acks card Let_def)
qed

section \<open>Applications at concrete inputs\<close>

theorem fork_needs_double_signing_witness:
  "\<exists>W \<subseteq> {1, 2, 3, 4}. 2 \<le> card W \<and> (\<forall>w \<in> W. \<exists>a1 a2. waa_witness_id a1 = w \<and> waa_witness_id a2 = w \<and>
     signed_ack fx_prim (fx_card [1, 2, 3, 4]) a1 \<and> signed_ack fx_prim (fx_card [1, 2, 3, 4]) a2 \<and>
     waa_successor_capsule_hash a1 = 11 \<and> waa_successor_capsule_hash a2 = 12)"
proof -
  have valid: "validate_activated_capsule_v3 fx_prim (fx_card [1, 2, 3, 4]) (fx_active fx_prim 2 [1, 2, 3]) = Inr ()"
    "validate_activated_capsule_v3 fx_prim (fx_card [1, 2, 3, 4]) (fx_active fx_prim 3 [2, 3, 4]) = Inr ()"
    by (intro fx_active_ok fx_accepts fx_card_ok; simp)+
  have epoch: "cr_guardian_epoch (cc3_config_ref (fx_active fx_prim b ids)) = 2" for b ids
    by (simp add: fx_active_def fx_succ_def fx_body_def fx_ref_def)
  have hash: "cc3_capsule_hash (fx_active fx_prim b ids) = fx_succ_hash fx_prim b" for b ids
    by (simp add: fx_active_def)
  have pins: "length (card3_witnesses (fx_card [1, 2, 3, 4])) =
      3 * unat (card3_witness_fault_bound (fx_card [1, 2, 3, 4])) + 1"
    "pinned_ids (fx_card [1, 2, 3, 4]) = {1, 2, 3, 4}"
    by (simp_all add: fx_card_def fx_pin_def)
  have "(2 :: u64) \<noteq> 1" and "cc3_capsule_hash (fx_active fx_prim 2 [1, 2, 3]) \<noteq> cc3_capsule_hash (fx_active fx_prim 3 [2, 3, 4])"
    by (simp_all add: hash fx_hashes)
  note fork_needs_double_signing [OF valid epoch epoch this pins(1), unfolded hash fx_hashes pins(2)]
  then obtain W where "W \<subseteq> {1, 2, 3, 4}" "unat (card3_witness_fault_bound (fx_card [1, 2, 3, 4])) + 1 \<le> card W"
    "\<And>w. w \<in> W \<Longrightarrow> \<exists>a1 a2. waa_witness_id a1 = w \<and> waa_witness_id a2 = w \<and>
       signed_ack fx_prim (fx_card [1, 2, 3, 4]) a1 \<and> signed_ack fx_prim (fx_card [1, 2, 3, 4]) a2 \<and>
       waa_successor_capsule_hash a1 = 11 \<and> waa_successor_capsule_hash a2 = 12"
    by (elim exE conjE) fast
  then show ?thesis by (intro exI [of _ W]) simp
qed

text \<open>Three witnesses answer a challenge; two are one epoch behind.\<close>

definition fx_challenge :: EpochReadChallenge where
  "fx_challenge = \<lparr> erc_protocol_version = 3, erc_config_id = 1, erc_client_nonce = 40,
     erc_response_recipient_key = [], erc_issued_at = 1, erc_expiry = 100 \<rparr>"

definition fx_read :: "u16 \<Rightarrow> ConfigCapsuleV3 \<Rightarrow> WitnessReadEnvelope" where
  "fx_read i c = \<lparr> wre_response = \<lparr> werr_protocol_version = 3, werr_config_id = 1, werr_client_nonce = 40,
       werr_witness_id = i, werr_highest_guardian_epoch = cr_guardian_epoch (cc3_config_ref c),
       werr_capsule_hash = cc3_capsule_hash c, werr_witness_public_key = ucast i, werr_witness_signature = [] \<rparr>,
     wre_capsule = c \<rparr>"

definition fx_reads :: "WitnessReadEnvelope list" where
  "fx_reads = [fx_read 1 (fx_genesis fx_prim), fx_read 2 (fx_active fx_prim 2 [1, 2, 3]), fx_read 3 (fx_genesis fx_prim)]"

lemma fx_genesis_ok: "validate_activated_capsule_v3 fx_prim (fx_card [1, 2, 3, 4]) (fx_genesis fx_prim) = Inr ()"
proof -
  obtain t where t: "config_capsule_body_v3 (fx_body 1 1 0) = Inr t" using fx_body_ok by blast
  have "config_capsule_body_v3 (fx_genesis fx_prim) = Inr t" by (simp add: fx_genesis_def t)
  moreover have "cc3_capsule_hash (fx_genesis fx_prim) = sha256 fx_prim t" by (simp add: fx_genesis_def fx_hash_def t)
  moreover have "cc3_config_ref (fx_genesis fx_prim) = fx_ref 1 1" "cc3_protocol_version (fx_genesis fx_prim) = 3"
    "cc3_signer_set_commitment (fx_genesis fx_prim) = 20" "cc3_owner_cancel_public_key (fx_genesis fx_prim) = 21"
    "cc3_predecessor_capsule_hash (fx_genesis fx_prim) = 0" "cc3_activation_certificate (fx_genesis fx_prim) = None"
    "cc3_activation_qc (fx_genesis fx_prim) = None"
    by (simp_all add: fx_genesis_def fx_body_def)
  ultimately show ?thesis
    by (simp add: validate_activated_capsule_v3_def fx_card_ok wire_def PROTOCOL_VERSION_V3_def fx_ref_def)
qed

lemma fx_select: "select_latest_epoch_v3 fx_prim (fx_card [1, 2, 3, 4]) fx_challenge fx_reads =
    Inr (fx_active fx_prim 2 [1, 2, 3])"
proof -
  have act: "validate_activated_capsule_v3 fx_prim (fx_card [1, 2, 3, 4]) (fx_active fx_prim 2 [1, 2, 3]) = Inr ()"
    by (intro fx_active_ok fx_accepts fx_card_ok; simp)
  have ref: "cc3_config_ref (fx_genesis fx_prim) = fx_ref 1 1" "cc3_config_ref (fx_active fx_prim 2 [1, 2, 3]) = fx_ref 2 2"
    by (simp_all add: fx_genesis_def fx_active_def fx_succ_def fx_body_def)
  have pin: "bt_get (witness_pins (fx_card [1, 2, 3, 4])) i = Some (fx_pin i)" if "i \<in> {1, 2, 3}" for i
    using that by (subst witness_pins_get [OF fx_card_ok(1)]) (auto simp: fx_card_def fx_pin_def)
  have "\<exists>t. epoch_read_challenge fx_challenge = Inr t"
    by (simp add: epoch_read_challenge_def fx_challenge_def transcript_ok PROTOCOL_VERSION_V3_def MAX_FIELD_LEN_def word_le_nat_alt)
  then obtain t where ch: "epoch_read_challenge fx_challenge = Inr t" by blast
  have resp: "\<exists>t. witness_epoch_read_response (wre_response (fx_read i c)) = Inr t" for i c
    by (simp add: witness_epoch_read_response_def fx_read_def transcript_ok PROTOCOL_VERSION_V3_def MAX_FIELD_LEN_def)
  have step: "collect_reads fx_prim (fx_card [1, 2, 3, 4]) fx_challenge seen ws caps (fx_read i c # envs) =
      collect_reads fx_prim (fx_card [1, 2, 3, 4]) fx_challenge (insert i seen) (insert i ws) (caps @ [c]) envs"
    if "i \<in> {1, 2, 3}" "i \<notin> seen" "validate_activated_capsule_v3 fx_prim (fx_card [1, 2, 3, 4]) c = Inr ()"
    for seen ws caps i c envs
  proof -
    obtain t where t: "witness_epoch_read_response (wre_response (fx_read i c)) = Inr t" using resp by blast
    have f: "werr_witness_id (wre_response (fx_read i c)) = i" "wre_capsule (fx_read i c) = c"
      "werr_protocol_version (wre_response (fx_read i c)) = PROTOCOL_VERSION_V3"
      "werr_config_id (wre_response (fx_read i c)) = erc_config_id fx_challenge"
      "werr_client_nonce (wre_response (fx_read i c)) = erc_client_nonce fx_challenge"
      "werr_witness_public_key (wre_response (fx_read i c)) = wp_public_key (fx_pin i)"
      "werr_highest_guardian_epoch (wre_response (fx_read i c)) = cr_guardian_epoch (cc3_config_ref c)"
      "werr_capsule_hash (wre_response (fx_read i c)) = cc3_capsule_hash c"
      by (simp_all add: fx_read_def fx_challenge_def fx_pin_def PROTOCOL_VERSION_V3_def)
    show ?thesis
      by (simp add: f pin [OF that(1)] that(2,3) t fx_accepts is_ok_def wire_def)
  qed
  have coll: "collect_reads fx_prim (fx_card [1, 2, 3, 4]) fx_challenge {} {} [] fx_reads =
      Inr ({1, 2, 3}, {1, 2, 3}, [fx_genesis fx_prim, fx_active fx_prim 2 [1, 2, 3], fx_genesis fx_prim])"
    unfolding fx_reads_def by (simp add: step fx_genesis_ok act insert_commute del: collect_reads.simps(2))
  let ?caps = "[fx_genesis fx_prim, fx_active fx_prim 2 [1, 2, 3], fx_genesis fx_prim]"
  have mx: "max_epoch (map (\<lambda>c. cr_guardian_epoch (cc3_config_ref c)) ?caps) = Some 2"
    by (simp add: ref fx_ref_def)
  have top: "filter (\<lambda>c. cr_guardian_epoch (cc3_config_ref c) = 2) ?caps = [fx_active fx_prim 2 [1, 2, 3]]"
    by (simp add: ref fx_ref_def)
  have cid: "erc_config_id fx_challenge = 1" by (simp add: fx_challenge_def)
  show ?thesis
    unfolding select_latest_epoch_v3_def Let_def
    by (simp only: bindR_eq_Inr wire_ok fx_card_ok ch coll cid mx top ok_or_eq_Inr if_bail_ok prod.case bindR_simps
        required_witness_quorum_eq fx_card_sel) (simp add: ref fx_ref_def)
qed

theorem select_latest_sound_witness:
  "validate_activated_capsule_v3 fx_prim (fx_card [1, 2, 3, 4]) (fx_active fx_prim 2 [1, 2, 3]) = Inr () \<and>
   (\<exists>rs. set rs \<subseteq> set fx_reads \<and> distinct (map read_id rs) \<and> 3 \<le> length rs)"
  using select_latest_sound [OF fx_select] by auto

text \<open>A plan that replaces guardian 2 by guardian 3, with its intent and certificates, under a constant
  digest.\<close>

definition fx_const :: primitives where
  "fx_const = fx_prim \<lparr> sha2_digest := \<lambda>_. 11 \<rparr>"

definition fx_route :: "u16 \<Rightarrow> Id32 \<Rightarrow> GuardianRouteV3" where
  "fx_route i slot = \<lparr> gr3_guardian_index = i, gr3_opaque_slot_id = slot, gr3_mailbox = [char_of (unat slot)],
     gr3_guardian_public_key = ucast i, gr3_session_recipient_key = [], gr3_operator_domain_commitment = ucast i \<rparr>"

definition fx_plan :: RotationPlan where
  "fx_plan = \<lparr> rp_context = fx_ctx fx_const 2, rp_intent_hash = 11, rp_predecessor = fx_ref 1 1,
     rp_successor = fx_ref 2 2, rp_old_roster = [fx_route 1 51, fx_route 2 52],
     rp_new_roster = [fx_route 1 53, fx_route 3 54], rp_old_roster_commitment = 11, rp_new_roster_commitment = 11,
     rp_old_guardian_threshold = 2, rp_new_guardian_threshold = 2, rp_data_shards = 2, rp_total_shards = 2,
     rp_dpss_suite = ZfFrostRistretto255RtsRefreshV1, rp_dpss_session_id = 55,
     rp_dpss_qualified_set_commitment = 11, rp_minimum_delay_secs = 10, rp_preparation_deadline = 50,
     rp_drain_deadline = 60 \<rparr>"

definition fx_intent :: RotationIntent where
  "fx_intent = \<lparr> ri_context = fx_ctx fx_const 2, ri_reason = Unavailable, ri_old_guardian_count = 2,
     ri_old_guardian_threshold = 2, ri_allowed_new_guardian_count = [2], ri_allowed_new_guardian_threshold = [2],
     ri_allowed_dpss_suites = [ZfFrostRistretto255RtsRefreshV1], ri_selection_constraints_commitment = 11,
     ri_witness_read_qc_hash = 56 \<rparr>"

definition fx_begin :: BeginRotationCertificate where
  "fx_begin = \<lparr> brot_context = fx_ctx fx_const 2, brot_intent_hash = 11, brot_plan_hash = 11,
     brot_old_roster_commitment = 11, brot_new_roster_commitment = 11, brot_not_before_wall = 20,
     brot_votes = [\<lparr> srbv_context = fx_ctx fx_const 2, srbv_intent_hash = 11, srbv_plan_hash = 11,
       srbv_old_roster_commitment = 11, srbv_new_roster_commitment = 11, srbv_signer_id = 1,
       srbv_signer_public_key = 33, srbv_signer_membership_proof = [], srbv_signer_signature = [] \<rparr>] \<rparr>"

definition fx_release :: RotationReleaseCertificate where
  "fx_release = \<lparr> rrc_context = fx_ctx fx_const 2, rrc_plan_hash = 11, rrc_begin_certificate_hash = 11,
     rrc_votes = [\<lparr> srrv_context = fx_ctx fx_const 2, srrv_plan_hash = 11, srrv_begin_certificate_hash = 11,
       srrv_signer_id = 1, srrv_signer_public_key = 33, srrv_signer_membership_proof = [],
       srrv_signer_signature = [] \<rparr>] \<rparr>"

lemma fx_const_sha: "sha256 fx_const d = 11"
  by (simp add: sha256_def fx_const_def)

lemma fx_const_accepts: "verify fx_const k t s = Inr ()" "merkle_verify fx_const r l i n prf = Inr ()"
  by (simp_all add: verify_def merkle_verify_def fx_const_def fx_prim_def)

lemma fx_const_genesis: "fx_genesis fx_const = (fx_body 1 1 0) \<lparr> cc3_capsule_hash := 11 \<rparr>"
  using fx_body_ok [of 1 1 0] by (auto simp: fx_genesis_def fx_hash_def fx_const_sha)

lemma fx_plan_ok: "\<exists>t. rotation_plan fx_plan = Inr t"
  by (simp add: rotation_plan_def fx_plan_def fx_ctx_def fx_ref_def fx_route_def fx_wire route_into_def
      is_direct_successor_of_def)

lemma fx_roster_ok: "\<exists>t. guardian_roster_v3 (rp_old_roster fx_plan) = Inr t" "\<exists>t. guardian_roster_v3 (rp_new_roster fx_plan) = Inr t"
  by (simp_all add: guardian_roster_v3_def fx_plan_def fx_route_def fx_wire route_into_def)

lemma fx_plan_valid:
  "now \<in> {30} \<Longrightarrow> validate_rotation_plan_v3 fx_const fx_plan (fx_genesis fx_const) now = Inr 11"
  using fx_plan_ok fx_roster_ok
  by (auto simp: validate_rotation_plan_v3_def wire_def fx_const_sha fx_const_genesis u16_try_from_def)
    (simp_all add: fx_plan_def fx_ctx_def fx_body_def fx_ref_def is_direct_successor_of_def saturating_add_def
      fx_const_genesis PROTOCOL_VERSION_V3_def word_le_nat_alt)

lemma fx_begin_valid: "validate_begin_rotation_certificate_v3 fx_const fx_begin fx_plan (fx_genesis fx_const) 30 = Inr 11"
proof -
  have w: "\<exists>t. begin_rotation_certificate fx_begin = Inr t"
    by (simp add: begin_rotation_certificate_def fx_begin_def begin_vote_into_def fx_ctx_def fx_ref_def fx_wire)
  have m: "validate_signer_membership fx_const 1 33 [] (fx_genesis fx_const) = Inr ()"
    by (simp add: signer_membership_ok fx_const_accepts fx_const_genesis fx_body_def signer_leaf_def transcript_ok
        MAX_FIELD_LEN_def)
  have v: "\<exists>t. signer_rotation_begin_vote (hd (brot_votes fx_begin)) = Inr t"
    by (simp add: signer_rotation_begin_vote_def fx_begin_def begin_vote_into_def fx_ctx_def fx_ref_def fx_wire)
  show ?thesis
    using w v m fx_plan_valid [of 30]
    by (auto simp: validate_begin_rotation_certificate_v3_def wire_def fx_const_sha fx_const_accepts crypt_def)
      (simp_all add: fx_begin_def fx_plan_def fx_ctx_def fx_const_genesis fx_body_def saturating_add_def word_le_nat_alt word_less_nat_alt)
qed

lemma fx_release_valid:
  "validate_rotation_release_certificate_v3 fx_const fx_release fx_begin fx_plan (fx_genesis fx_const) 30 = Inr 11"
proof -
  have w: "\<exists>t. rotation_release_certificate fx_release = Inr t"
    by (simp add: rotation_release_certificate_def fx_release_def release_vote_into_def fx_ctx_def fx_ref_def fx_wire)
  have m: "validate_signer_membership fx_const 1 33 [] (fx_genesis fx_const) = Inr ()"
    by (simp add: signer_membership_ok fx_const_accepts fx_const_genesis fx_body_def signer_leaf_def transcript_ok
        MAX_FIELD_LEN_def)
  have v: "\<exists>t. signer_rotation_release_vote (hd (rrc_votes fx_release)) = Inr t"
    by (simp add: signer_rotation_release_vote_def fx_release_def release_vote_into_def fx_ctx_def fx_ref_def fx_wire)
  show ?thesis
    using w v m fx_plan_ok
    by (auto simp: validate_rotation_release_certificate_v3_def fx_begin_valid wire_def fx_const_sha fx_const_accepts crypt_def)
      (simp_all add: fx_release_def fx_begin_def fx_plan_def fx_ctx_def fx_const_genesis fx_body_def word_le_nat_alt word_less_nat_alt)
qed

theorem rotation_release_certified_witness:
  "begin_threshold fx_const (fx_genesis fx_const) fx_begin \<and> release_threshold fx_const (fx_genesis fx_const) fx_release"
  using rotation_release_certified [OF fx_release_valid] by blast

lemma fx_intent_valid:
  "validate_rotation_plan_against_intent_v3 fx_const fx_plan fx_intent (fx_genesis fx_const) 30 = Inr 11"
proof -
  have i: "\<exists>t. rotation_intent fx_intent = Inr t"
    by (simp add: rotation_intent_def fx_intent_def fx_ctx_def fx_ref_def fx_wire)
  have maps: "routes_by_index (rp_old_roster fx_plan) = [(1, fx_route 1 51), (2, fx_route 2 52)]"
    "routes_by_index (rp_new_roster fx_plan) = [(1, fx_route 1 53), (3, fx_route 3 54)]"
    by (simp_all add: routes_by_index_def fx_plan_def fx_route_def)
  show ?thesis
    using i fx_plan_valid [of 30]
    by (auto simp: validate_rotation_plan_against_intent_v3_def wire_def fx_const_sha maps missing_ids_def
        route_not_refreshed_def bt_values_def u16_try_from_def Let_def)
      (simp_all add: fx_plan_def fx_intent_def fx_ctx_def fx_const_genesis fx_body_def fx_route_def)
qed

theorem plan_replaces_one_guardian_witness:
  "\<exists>removed added. roster_ids (rp_new_roster fx_plan) = insert added (roster_ids (rp_old_roster fx_plan) - {removed}) \<and>
     added \<notin> roster_ids (rp_old_roster fx_plan)"
  using plan_replaces_one_guardian [OF fx_intent_valid] by blast

end
