(* ===== verification/GP_Witness_Service.thy ===== *)
theory GP_Witness_Service
  imports GP_Protocol_Rotation GP_Storage_Locks GP_Documents GP_Core
begin

text \<open>
  The witness service of \<open>gp-network/src/server.rs\<close>: provisioning, activation, finalisation, owner
  cancellation and fresh reads of one witness node, over the state of \<open>gp-network/src/types.rs\<close>.

  The handlers run one at a time: each holds the lock of the store from its first access to its
  return. The state has the entries in memory and the entries in the state file; \<open>save\<close> copies the
  former to the latter, or fails before or after the rename that replaces the file; a restart
  loads the file. The clock reading and the outcome of the save are inputs of a call. Handlers
  that change the entries and then fail keep the change in memory, as the code does.
\<close>

section \<open>State\<close>

record WitnessConfigProvision =
  wcp_witness_id :: u16
  wcp_capsule :: ConfigCapsuleV3
  wcp_signer_public_keys :: "(u16, arr32) btree_map"
  wcp_witness_public_keys :: "(u16, arr32) btree_map"
  wcp_witness_fault_bound :: u16

record WitnessRotationCancellation =
  wrc_plan_hash :: Id32
  wrc_cancel_certificate_hash :: Id32

record WitnessConfigEntry =
  wce_witness_id :: u16
  wce_register :: WitnessEpochStore
  wce_capsule :: ConfigCapsuleV3
  wce_pending_capsule :: "ConfigCapsuleV3 option"
  wce_pending_ack :: "WitnessActivationAck option"
  wce_rotation_cancellations :: "(string, WitnessRotationCancellation) btree_map"
  wce_signer_public_keys :: "(u16, arr32) btree_map"
  wce_witness_public_keys :: "(u16, arr32) btree_map"
  wce_witness_fault_bound :: u16

type_synonym WitnessDisk = "(string, WitnessConfigEntry) btree_map"

record WitnessActivationRequest =
  war_capsule :: ConfigCapsuleV3
  war_activation_certificate :: RotationActivateCertificate

record IdentityDisk =
  idk_node_id :: string
  idk_kem_seed :: Id32

record ProvisionAck =
  pack_mailbox :: string
  pack_stored :: bool

record WitnessServerState =
  wss_identity :: IdentityDisk
  wss_admin_token :: string
  wss_data :: WitnessDisk
  wss_file :: WitnessDisk

datatype message =
    Text string
  | OfWire WireError
  | OfCrypto CryptoError
  | OfStorage StorageError
  | OfProtocol anyhow
  | OfCore CoreError
  | OfClock
  | OfSave

datatype ApiError =
    bad_request message
  | forbidden string
  | not_found string
  | rate_limited string

definition map_err :: "('e \<Rightarrow> message) \<Rightarrow> ('e, 'a) result \<Rightarrow> (ApiError, 'a) result" where
  "map_err f r = (case r of Inl e \<Rightarrow> Inl (bad_request (f e)) | Inr a \<Rightarrow> Inr a)"

lemma map_err_ok [simp]: "map_err f r = Inr a \<longleftrightarrow> r = Inr a"
  by (cases r) (simp_all add: map_err_def)

lemma map_err_err [simp]: "map_err f r = Inl e \<longleftrightarrow> (\<exists>e'. r = Inl e' \<and> e = bad_request (f e'))"
  by (cases r) (auto simp: map_err_def)

datatype save_outcome = Saved | FailedBeforeRename | FailedAfterRename

definition save :: "save_outcome \<Rightarrow> WitnessServerState \<Rightarrow> (ApiError, unit) result \<times> WitnessServerState" where
  "save outcome self =
    (case outcome of
       Saved \<Rightarrow> (Inr (), self \<lparr> wss_file := wss_data self \<rparr>)
     | FailedBeforeRename \<Rightarrow> (Inl (bad_request OfSave), self)
     | FailedAfterRename \<Rightarrow> (Inl (bad_request OfSave), self \<lparr> wss_file := wss_data self \<rparr>))"

definition save_then ::
    "save_outcome \<Rightarrow> WitnessServerState \<Rightarrow> (ApiError, 'a) result \<Rightarrow> (ApiError, 'a) result \<times> WitnessServerState"
where
  "save_then outcome self reply =
    (case save outcome self of (Inl e, self') \<Rightarrow> (Inl e, self') | (Inr _, self') \<Rightarrow> (reply, self'))"

definition put_entry :: "string \<Rightarrow> WitnessConfigEntry \<Rightarrow> WitnessServerState \<Rightarrow> WitnessServerState" where
  "put_entry config_id entry self = self \<lparr> wss_data := bt_insert config_id entry (wss_data self) \<rparr>"

definition load :: "WitnessServerState \<Rightarrow> WitnessServerState" where
  "load self = self \<lparr> wss_data := wss_file self \<rparr>"

section \<open>Provisioning\<close>

text \<open>The value of the \<open>authorization\<close> header, where it is present and readable.\<close>

definition bearer :: "string option \<Rightarrow> string option" where
  "bearer authorization =
    Option.bind authorization (\<lambda>value.
      if take 7 value = ''Bearer '' then Some (drop 7 value) else None)"

fun signer_leaves :: "primitives \<Rightarrow> (u16 \<times> arr32) list \<Rightarrow> (WireError, Id32 list) result" where
  "signer_leaves cp [] = Inr []"
| "signer_leaves cp ((i, key) # keys) =
     bindR (signer_leaf i key) (\<lambda>leaf.
     bindR (signer_leaves cp keys) (\<lambda>leaves. Inr (sha256 cp leaf # leaves)))"

definition witness_provision ::
    "primitives \<Rightarrow> (Id32 \<Rightarrow> string) \<Rightarrow> save_outcome \<Rightarrow> string option \<Rightarrow> WitnessConfigProvision \<Rightarrow>
     WitnessServerState \<Rightarrow> (ApiError, ProvisionAck) result \<times> WitnessServerState"
where
  "witness_provision cp hx outcome authorization provision self =
    (let capsule = wcp_capsule provision in
     if wss_admin_token self = [] \<or> bearer authorization \<noteq> Some (wss_admin_token self)
     then (Inl (forbidden ''invalid witness provisioning token''), self) else
     if wcp_witness_id provision = 0 \<or>
        cc3_protocol_version capsule \<noteq> PROTOCOL_VERSION_V3 \<or>
        cr_guardian_epoch (cc3_config_ref capsule) = 0 \<or>
        length (wcp_signer_public_keys provision) \<noteq> unat (cc3_signer_count capsule) \<or>
        wcp_witness_fault_bound provision = 0
     then (Inl (bad_request (Text ''invalid witness genesis policy'')), self) else
     attempt (map_err OfWire (config_capsule_body_v3 capsule)) self (\<lambda>body.
     if sha256 cp body \<noteq> cc3_capsule_hash capsule
     then (Inl (bad_request (Text ''invalid genesis capsule hash'')), self) else
     if fst ` set (wcp_signer_public_keys provision) \<noteq>
        of_nat ` set [1..<Suc (unat (cc3_signer_count capsule))]
     then (Inl (bad_request (Text ''signer ids are not canonical'')), self) else
     attempt (map_err OfWire (signer_leaves cp (wcp_signer_public_keys provision))) self (\<lambda>leaves.
     attempt (map_err OfCrypto (merkle_commit cp leaves)) self (\<lambda>(signer_root, _).
     if signer_root \<noteq> cc3_signer_set_commitment capsule
     then (Inl (bad_request (Text ''pinned signer keys do not match signer-set commitment'')), self) else
     attempt (ok_or (Option.bind (checked_mul (unat (wcp_witness_fault_bound provision)) 3)
         (\<lambda>value. checked_add value 1)) (bad_request (Text ''witness policy overflow''))) self
       (\<lambda>required_witnesses.
     if length (wcp_witness_public_keys provision) < required_witnesses \<or>
        bt_get (wcp_witness_public_keys provision) (wcp_witness_id provision) \<noteq>
          Some (verifying_key_bytes cp (idk_kem_seed (wss_identity self))) \<or>
        card (set (bt_values (wcp_witness_public_keys provision))) \<noteq>
          length (wcp_witness_public_keys provision)
     then (Inl (bad_request (Text ''invalid pinned witness roster'')), self) else
     let key = hx (cr_config_id (cc3_config_ref capsule)) in
     if bt_contains_key (wss_data self) key
     then (Inl (bad_request (Text ''witness configuration is already provisioned'')), self) else
     let entry = \<lparr> wce_witness_id = wcp_witness_id provision,
           wce_register = WitnessEpochStore_new (cc3_config_ref capsule) (cc3_capsule_hash capsule),
           wce_capsule = capsule,
           wce_pending_capsule = None,
           wce_pending_ack = None,
           wce_rotation_cancellations = [],
           wce_signer_public_keys = wcp_signer_public_keys provision,
           wce_witness_public_keys = wcp_witness_public_keys provision,
           wce_witness_fault_bound = wcp_witness_fault_bound provision \<rparr> in
     save_then outcome (put_entry key entry self)
       (Inr \<lparr> pack_mailbox = key, pack_stored = True \<rparr>))))))"

section \<open>Owner cancellation\<close>

text \<open>The body of the cancellation when no cancellation of the rotation is recorded yet.\<close>

definition cancel_entry ::
    "(Id32 \<Rightarrow> string) \<Rightarrow> OwnerRotationCancelCertificate \<Rightarrow> Id32 \<Rightarrow> WitnessConfigEntry \<Rightarrow>
     (ApiError, WitnessConfigEntry) result"
where
  "cancel_entry hx certificate cancel_hash entry =
    bindR (case wce_pending_capsule entry of
        None \<Rightarrow> Inr entry
      | Some pending \<Rightarrow>
          bindR (ok_or (cc3_activation_certificate pending)
            (bad_request (Text ''pending successor lacks an activation certificate''))) (\<lambda>activation.
          if rx_rotation_id (rac_context activation) \<noteq> rx_rotation_id (orcc_context certificate) \<or>
             rac_plan_hash activation \<noteq> orcc_plan_hash certificate \<or>
             cc3_predecessor_capsule_hash pending \<noteq> cc3_capsule_hash (wce_capsule entry)
          then Inl (bad_request (Text ''owner cancellation does not bind the pending successor'')) else
          case cancel_pending_successor hx
              (cr_guardian_epoch (cc3_config_ref (wce_capsule entry)))
              (cc3_capsule_hash (wce_capsule entry))
              (cr_guardian_epoch (cc3_config_ref pending))
              (cc3_capsule_hash pending) (wce_register entry) of
            (Inl e, _) \<Rightarrow> Inl (bad_request (OfStorage e))
          | (Inr _, register) \<Rightarrow>
              Inr (entry \<lparr> wce_register := register, wce_pending_capsule := None,
                           wce_pending_ack := None \<rparr>)))
      (\<lambda>entry'. Inr (entry' \<lparr> wce_rotation_cancellations :=
        bt_insert (hx (rx_rotation_id (orcc_context certificate)))
          \<lparr> wrc_plan_hash = orcc_plan_hash certificate, wrc_cancel_certificate_hash = cancel_hash \<rparr>
          (wce_rotation_cancellations entry') \<rparr>))"

definition witness_cancel_rotation ::
    "primitives \<Rightarrow> (Id32 \<Rightarrow> string) \<Rightarrow> save_outcome \<Rightarrow> u64 option \<Rightarrow> string \<Rightarrow> OwnerRotationCancelCertificate \<Rightarrow>
     WitnessServerState \<Rightarrow> (ApiError, WitnessRotationCancelAck) result \<times> WitnessServerState"
where
  "witness_cancel_rotation cp hx outcome wall_now config_id certificate self =
    (let ctx = orcc_context certificate in
     attempt (ok_or wall_now (bad_request OfClock)) self (\<lambda>now.
     if rx_protocol_version ctx \<noteq> PROTOCOL_VERSION_V3 \<or>
        hx (cr_config_id (rx_config_ref ctx)) \<noteq> config_id \<or>
        rx_issued_at ctx > now \<or>
        rx_expiry ctx \<le> now \<or>
        length (orcc_cancel_response_recipient_key certificate) \<noteq> XWING_PUBLIC_KEY_LEN
     then (Inl (bad_request (Text ''owner witness cancellation is malformed or expired'')), self) else
     attempt (map_err OfWire (owner_rotation_cancel_certificate certificate)) self (\<lambda>cancel_transcript.
     let cancel_hash = sha256 cp cancel_transcript in
     attempt (ok_or (bt_get (wss_data self) config_id)
       (not_found ''witness configuration was not found'')) self (\<lambda>entry.
     if rx_config_ref ctx \<noteq> cc3_config_ref (wce_capsule entry) \<or>
        rx_predecessor_capsule_hash ctx \<noteq> cc3_capsule_hash (wce_capsule entry) \<or>
        orcc_owner_cancel_public_key certificate \<noteq> cc3_owner_cancel_public_key (wce_capsule entry)
     then (Inl (bad_request (Text
       ''owner cancellation does not bind the witness's active predecessor'')), self) else
     attempt (map_err OfCrypto (verify cp (cc3_owner_cancel_public_key (wce_capsule entry))
       cancel_transcript (orcc_owner_signature certificate))) self (\<lambda>_.
     attempt (case bt_get (wce_rotation_cancellations entry) (hx (rx_rotation_id ctx)) of
         Some existing \<Rightarrow>
           if wrc_plan_hash existing \<noteq> orcc_plan_hash certificate \<or>
              wrc_cancel_certificate_hash existing \<noteq> cancel_hash
           then Inl (bad_request (Text ''witness has a conflicting cancellation for this rotation id''))
           else Inr entry
       | None \<Rightarrow> cancel_entry hx certificate cancel_hash entry) self (\<lambda>entry'.
     let self' = put_entry config_id entry' self;
         witness_seed = idk_kem_seed (wss_identity self);
         ack = \<lparr> wrca_protocol_version = PROTOCOL_VERSION_V3,
           wrca_config_id = cr_config_id (rx_config_ref ctx),
           wrca_rotation_id = rx_rotation_id ctx,
           wrca_plan_hash = orcc_plan_hash certificate,
           wrca_cancel_certificate_hash = cancel_hash,
           wrca_witness_id = wce_witness_id entry',
           wrca_witness_public_key = verifying_key_bytes cp witness_seed,
           wrca_witness_signature = [] \<rparr> in
     attempt (map_err OfWire (witness_rotation_cancel_ack ack)) self' (\<lambda>t.
     save_then outcome self' (Inr (ack \<lparr> wrca_witness_signature := sign cp witness_seed t \<rparr>)))))))))"

section \<open>Activation\<close>

fun check_activate_votes ::
    "primitives \<Rightarrow> (u16, arr32) btree_map \<Rightarrow> SignerRotationActivateVote list \<Rightarrow> (ApiError, unit) result"
where
  "check_activate_votes cp keys [] = Inr ()"
| "check_activate_votes cp keys (vote # votes) =
     (if bt_get keys (srav_signer_id vote) \<noteq> Some (srav_signer_public_key vote)
      then Inl (bad_request (Text ''activate vote is not from a pinned signer'')) else
      bindR (map_err OfWire (signer_rotation_activate_vote vote)) (\<lambda>t.
      bindR (map_err OfCrypto (verify cp (srav_signer_public_key vote) t (srav_signer_signature vote))) (\<lambda>_.
      check_activate_votes cp keys votes)))"

text \<open>The acknowledgement before it is signed.\<close>

definition unsigned_ack ::
    "primitives \<Rightarrow> Id32 \<Rightarrow> WitnessConfigEntry \<Rightarrow> WitnessActivationRequest \<Rightarrow> Id32 \<Rightarrow> Id32 \<Rightarrow> WitnessActivationAck"
where
  "unsigned_ack cp witness_seed entry request activation_hash capsule_hash =
    \<lparr> waa_context = rac_context (war_activation_certificate request),
      waa_plan_hash = rac_plan_hash (war_activation_certificate request),
      waa_activation_certificate_hash = activation_hash,
      waa_witness_id = wce_witness_id entry,
      waa_predecessor_epoch = cr_guardian_epoch (cc3_config_ref (wce_capsule entry)),
      waa_predecessor_capsule_hash = cc3_capsule_hash (wce_capsule entry),
      waa_successor_epoch = cr_guardian_epoch (cc3_config_ref (war_capsule request)),
      waa_successor_capsule_hash = capsule_hash,
      waa_witness_public_key = verifying_key_bytes cp witness_seed,
      waa_witness_signature = [] \<rparr>"

text \<open>The rest of the handler when the entry has no pending successor: the policy checks, the votes,
  the one-child lock and the signed acknowledgement.\<close>

definition activate_new ::
    "primitives \<Rightarrow> (Id32 \<Rightarrow> string) \<Rightarrow> save_outcome \<Rightarrow> string \<Rightarrow> WitnessActivationRequest \<Rightarrow> Id32 \<Rightarrow> Id32 \<Rightarrow>
     WitnessConfigEntry \<Rightarrow> WitnessServerState \<Rightarrow> (ApiError, WitnessActivationAck) result \<times> WitnessServerState"
where
  "activate_new cp hx outcome config_id request capsule_hash activation_hash entry self =
    (let capsule = war_capsule request; certificate = war_activation_certificate request in
     if rx_config_ref (rac_context certificate) \<noteq> cc3_config_ref (wce_capsule entry) \<or>
        cc3_predecessor_capsule_hash capsule \<noteq> cc3_capsule_hash (wce_capsule entry) \<or>
        cc3_signer_count capsule \<noteq> cc3_signer_count (wce_capsule entry) \<or>
        cc3_signer_threshold capsule \<noteq> cc3_signer_threshold (wce_capsule entry) \<or>
        cc3_signer_set_commitment capsule \<noteq> cc3_signer_set_commitment (wce_capsule entry) \<or>
        cc3_owner_cancel_public_key capsule \<noteq> cc3_owner_cancel_public_key (wce_capsule entry) \<or>
        cc3_minimum_recovery_delay capsule < cc3_minimum_recovery_delay (wce_capsule entry) \<or>
        cc3_max_request_lifetime capsule \<noteq> cc3_max_request_lifetime (wce_capsule entry) \<or>
        cc3_dpss_suite capsule \<noteq> cc3_dpss_suite (wce_capsule entry) \<or>
        length (rac_votes certificate) < unat (cc3_signer_threshold (wce_capsule entry))
     then (Inl (bad_request (Text
       ''stale predecessor, immutable-policy downgrade, or signer quorum failure'')), self) else
     attempt (check_activate_votes cp (wce_signer_public_keys entry) (rac_votes certificate)) self (\<lambda>_.
     case persist_successor_before_ack hx (cc3_config_ref (wce_capsule entry))
         (cc3_capsule_hash (wce_capsule entry)) (cc3_config_ref capsule) (cc3_capsule_hash capsule)
         (wce_register entry) of
       (Inl e, _) \<Rightarrow> (Inl (bad_request (OfStorage e)), self)
     | (Inr _, register) \<Rightarrow>
       let entry1 = entry \<lparr> wce_register := register \<rparr>;
           stored_capsule = capsule \<lparr> cc3_activation_certificate := Some certificate,
             cc3_activation_qc := None \<rparr>;
           witness_seed = idk_kem_seed (wss_identity self);
           ack = unsigned_ack cp witness_seed entry request activation_hash capsule_hash in
       attempt (map_err OfWire (witness_activation_ack ack)) (put_entry config_id entry1 self) (\<lambda>t.
       let ack' = ack \<lparr> waa_witness_signature := sign cp witness_seed t \<rparr>;
           entry2 = entry1 \<lparr> wce_pending_capsule := Some stored_capsule, wce_pending_ack := Some ack' \<rparr> in
       save_then outcome (put_entry config_id entry2 self) (Inr ack'))))"

definition witness_activate ::
    "primitives \<Rightarrow> (Id32 \<Rightarrow> string) \<Rightarrow> save_outcome \<Rightarrow> string \<Rightarrow> WitnessActivationRequest \<Rightarrow>
     WitnessServerState \<Rightarrow> (ApiError, WitnessActivationAck) result \<times> WitnessServerState"
where
  "witness_activate cp hx outcome config_id request self =
    (let capsule = war_capsule request; certificate = war_activation_certificate request in
     if hx (cr_config_id (cc3_config_ref capsule)) \<noteq> config_id
     then (Inl (bad_request (Text ''config id path/body mismatch'')), self) else
     attempt (map_err OfWire (config_capsule_body_v3 capsule)) self (\<lambda>body.
     let capsule_hash = sha256 cp body in
     if capsule_hash \<noteq> cc3_capsule_hash capsule \<or>
        rac_successor certificate \<noteq> cc3_config_ref capsule \<or>
        rac_successor_capsule_hash certificate \<noteq> capsule_hash \<or>
        cc3_predecessor_capsule_hash capsule \<noteq> rx_predecessor_capsule_hash (rac_context certificate)
     then (Inl (bad_request (Text ''activation certificate does not bind the exact capsule'')), self) else
     attempt (map_err OfWire (rotation_activate_certificate certificate)) self (\<lambda>activation_transcript.
     let activation_hash = sha256 cp activation_transcript in
     attempt (ok_or (bt_get (wss_data self) config_id)
       (not_found ''witness configuration was not found'')) self (\<lambda>entry.
     if bt_contains_key (wce_rotation_cancellations entry) (hx (rx_rotation_id (rac_context certificate)))
     then (Inl (bad_request (Text ''witness permanently rejected this owner-cancelled rotation'')), self) else
     case wce_pending_capsule entry of
       Some pending \<Rightarrow>
         (if cc3_capsule_hash pending = cc3_capsule_hash capsule
          then (ok_or (wce_pending_ack entry)
                  (bad_request (Text ''pending witness write has no durable ack'')), self)
          else (Inl (bad_request (Text ''witness is already locked to another successor'')), self))
     | None \<Rightarrow> activate_new cp hx outcome config_id request capsule_hash activation_hash entry self))))"

section \<open>Finalisation\<close>

fun check_qc_acks ::
    "primitives \<Rightarrow> (u16, arr32) btree_map \<Rightarrow> u16 set \<Rightarrow> WitnessActivationAck list \<Rightarrow> (ApiError, u16 set) result"
where
  "check_qc_acks cp keys witness_ids [] = Inr witness_ids"
| "check_qc_acks cp keys witness_ids (ack # acks) =
     bindR (ok_or (bt_get keys (waa_witness_id ack)) (bad_request (Text ''QC contains an unpinned witness'')))
       (\<lambda>pinned.
     if waa_witness_id ack \<in> witness_ids \<or> pinned \<noteq> waa_witness_public_key ack
     then Inl (bad_request (Text ''QC contains duplicate or substituted witnesses'')) else
     bindR (map_err OfWire (witness_activation_ack ack)) (\<lambda>t.
     bindR (map_err OfCrypto (verify cp pinned t (waa_witness_signature ack))) (\<lambda>_.
     check_qc_acks cp keys (insert (waa_witness_id ack) witness_ids) acks)))"

definition witness_finalize ::
    "primitives \<Rightarrow> (Id32 \<Rightarrow> string) \<Rightarrow> save_outcome \<Rightarrow> string \<Rightarrow> EpochActivationQc \<Rightarrow>
     WitnessServerState \<Rightarrow> (ApiError, ProvisionAck) result \<times> WitnessServerState"
where
  "witness_finalize cp hx outcome config_id qc self =
    attempt (ok_or (bt_get (wss_data self) config_id)
      (not_found ''witness configuration was not found'')) self (\<lambda>entry.
    attempt (ok_or (wce_pending_capsule entry)
      (bad_request (Text ''witness has no pending successor''))) self (\<lambda>pending.
    attempt (ok_or (wce_pending_ack entry)
      (bad_request (Text ''pending successor has no witness ack''))) self (\<lambda>pending_ack.
    if bt_contains_key (wce_rotation_cancellations entry) (hx (qc_rotation_id qc))
    then (Inl (bad_request (Text ''witness refuses to finalize an owner-cancelled rotation'')), self) else
    attempt (map_err OfWire (epoch_activation_qc qc)) self (\<lambda>_.
    if qc_config_id qc \<noteq> cr_config_id (cc3_config_ref pending) \<or>
       hx (qc_config_id qc) \<noteq> config_id \<or>
       qc_witness_fault_bound qc \<noteq> wce_witness_fault_bound entry \<or>
       qc_rotation_id qc \<noteq> rx_rotation_id (waa_context pending_ack) \<or>
       qc_predecessor_epoch qc \<noteq> waa_predecessor_epoch pending_ack \<or>
       qc_predecessor_capsule_hash qc \<noteq> waa_predecessor_capsule_hash pending_ack \<or>
       qc_successor_epoch qc \<noteq> cr_guardian_epoch (cc3_config_ref pending) \<or>
       qc_successor_capsule_hash qc \<noteq> cc3_capsule_hash pending \<or>
       qc_activation_certificate_hash qc \<noteq> waa_activation_certificate_hash pending_ack
    then (Inl (bad_request (Text ''activation QC does not bind the pending successor'')), self) else
    attempt (ok_or (Option.bind (checked_mul (unat (wce_witness_fault_bound entry)) 2)
      (\<lambda>value. checked_add value 1)) (bad_request (Text ''witness quorum overflow''))) self (\<lambda>required.
    attempt (check_qc_acks cp (wce_witness_public_keys entry) {} (qc_witness_acks qc)) self (\<lambda>witness_ids.
    if card witness_ids < required \<or>
       \<not> list_ex (\<lambda>ack. waa_witness_id ack = wce_witness_id entry \<and> ack = pending_ack) (qc_witness_acks qc)
    then (Inl (bad_request (Text ''QC has no 2f+1 quorum or omits this witness's exact ack'')), self) else
    save_then outcome
      (put_entry config_id
        (entry \<lparr> wce_capsule := pending \<lparr> cc3_activation_qc := Some qc \<rparr>,
                 wce_pending_capsule := None, wce_pending_ack := None \<rparr>) self)
      (Inr \<lparr> pack_mailbox = config_id, pack_stored = True \<rparr>)))))))"

section \<open>Fresh reads\<close>

definition witness_read ::
    "primitives \<Rightarrow> (Id32 \<Rightarrow> string) \<Rightarrow> save_outcome \<Rightarrow> u64 option \<Rightarrow> string \<Rightarrow> EpochReadChallenge \<Rightarrow>
     WitnessServerState \<Rightarrow> (ApiError, WitnessReadEnvelope) result \<times> WitnessServerState"
where
  "witness_read cp hx outcome wall_now config_id challenge self =
    (if erc_protocol_version challenge \<noteq> PROTOCOL_VERSION_V3 \<or> hx (erc_config_id challenge) \<noteq> config_id
     then (Inl (bad_request (Text ''invalid witness read challenge'')), self) else
     attempt (ok_or wall_now (bad_request OfClock)) self (\<lambda>now.
     if erc_issued_at challenge > now \<or> now \<ge> erc_expiry challenge
     then (Inl (bad_request (Text ''expired witness read challenge'')), self) else
     attempt (map_err OfWire (epoch_read_challenge challenge)) self (\<lambda>_.
     attempt (ok_or (bt_get (wss_data self) config_id)
       (not_found ''witness configuration was not found'')) self (\<lambda>entry.
     case observe_read_nonce (erc_client_nonce challenge) (wce_register entry) of
       (Inl e, _) \<Rightarrow> (Inl (bad_request (OfStorage e)), self)
     | (Inr _, register) \<Rightarrow>
       let capsule = wce_capsule entry;
           witness_seed = idk_kem_seed (wss_identity self);
           response = \<lparr> werr_protocol_version = PROTOCOL_VERSION_V3,
             werr_config_id = erc_config_id challenge,
             werr_client_nonce = erc_client_nonce challenge,
             werr_witness_id = wce_witness_id entry,
             werr_highest_guardian_epoch = cr_guardian_epoch (cc3_config_ref capsule),
             werr_capsule_hash = cc3_capsule_hash capsule,
             werr_witness_public_key = verifying_key_bytes cp witness_seed,
             werr_witness_signature = [] \<rparr> in
       save_then outcome (put_entry config_id (entry \<lparr> wce_register := register \<rparr>) self)
         (bindR (map_err OfWire (witness_epoch_read_response response)) (\<lambda>t.
           Inr \<lparr> wre_response = response \<lparr> werr_witness_signature := sign cp witness_seed t \<rparr>,
                 wre_capsule = capsule \<rparr>))))))"

end
