(* ===== verification/GP_Witness_Safety.thy ===== *)
theory GP_Witness_Safety
  imports GP_Witness_Service GP_Protocol_Safety
begin

text \<open>
  Runs of a witness node: calls of the handlers and restarts, with the replies. With working saves
  the memory and the state file agree after every call, acknowledgements and cancellations are
  durable, and the node acknowledges one child per predecessor unless the owner cancelled in
  between. Over a card with \<open>3 f + 1\<close> witnesses this excludes forks.
\<close>

section \<open>Runs\<close>

datatype witness_call =
    WProvision "string option" WitnessConfigProvision
  | WActivate string WitnessActivationRequest
  | WFinalize string EpochActivationQc
  | WCancelRotation "u64 option" string OwnerRotationCancelCertificate
  | WRead "u64 option" string EpochReadChallenge
  | WRestart

datatype witness_reply =
    Provisioned ProvisionAck
  | Acked WitnessActivationAck
  | Finalized ProvisionAck
  | CancelAcked WitnessRotationCancelAck
  | ReadAnswer WitnessReadEnvelope
  | Restarted

definition reply_with :: "('a \<Rightarrow> witness_reply) \<Rightarrow> (ApiError, 'a) result \<times> 's \<Rightarrow> (ApiError, witness_reply) result \<times> 's" where
  "reply_with f rs = (case rs of (Inl e, s) \<Rightarrow> (Inl e, s) | (Inr a, s) \<Rightarrow> (Inr (f a), s))"

fun witness_serve ::
    "primitives \<Rightarrow> (Id32 \<Rightarrow> string) \<Rightarrow> save_outcome \<Rightarrow> witness_call \<Rightarrow> WitnessServerState \<Rightarrow>
     (ApiError, witness_reply) result \<times> WitnessServerState"
where
  "witness_serve cp hx out (WProvision auth p) self = reply_with Provisioned (witness_provision cp hx out auth p self)"
| "witness_serve cp hx out (WActivate cfg rq) self = reply_with Acked (witness_activate cp hx out cfg rq self)"
| "witness_serve cp hx out (WFinalize cfg qc) self = reply_with Finalized (witness_finalize cp hx out cfg qc self)"
| "witness_serve cp hx out (WCancelRotation now cfg ce) self =
     reply_with CancelAcked (witness_cancel_rotation cp hx out now cfg ce self)"
| "witness_serve cp hx out (WRead now cfg ch) self = reply_with ReadAnswer (witness_read cp hx out now cfg ch self)"
| "witness_serve cp hx out WRestart self = (Inr Restarted, load self)"

lemma reply_with_eq:
  "reply_with f rs = (r, s) \<longleftrightarrow> (\<exists>e. rs = (Inl e, s) \<and> r = Inl e) \<or> (\<exists>a. rs = (Inr a, s) \<and> r = Inr (f a))"
  by (cases rs; cases "fst rs") (auto simp: reply_with_def)

definition saved :: "string \<Rightarrow> WitnessConfigEntry \<Rightarrow> WitnessServerState \<Rightarrow> WitnessServerState" where
  "saved cfg entry self = self \<lparr> wss_data := bt_insert cfg entry (wss_data self),
     wss_file := bt_insert cfg entry (wss_data self) \<rparr>"

lemma save_then_Saved [simp]: "save_then Saved (put_entry cfg entry self) r = (r, saved cfg entry self)"
  by (simp add: save_then_def save_def put_entry_def saved_def)

section \<open>Effects of the handlers when saves succeed\<close>

lemma provision_effect:
  assumes "witness_provision cp hx Saved auth p self = (r, s')"
  shows "(\<exists>e. r = Inl e \<and> s' = self) \<or>
    (\<exists>ack. r = Inr ack \<and> wcp_witness_id p \<noteq> 0 \<and>
       bt_get (wss_data self) (hx (cr_config_id (cc3_config_ref (wcp_capsule p)))) = None \<and>
       s' = saved (hx (cr_config_id (cc3_config_ref (wcp_capsule p))))
         \<lparr> wce_witness_id = wcp_witness_id p,
           wce_register = WitnessEpochStore_new (cc3_config_ref (wcp_capsule p)) (cc3_capsule_hash (wcp_capsule p)),
           wce_capsule = wcp_capsule p, wce_pending_capsule = None, wce_pending_ack = None,
           wce_rotation_cancellations = [], wce_signer_public_keys = wcp_signer_public_keys p,
           wce_witness_public_keys = wcp_witness_public_keys p, wce_witness_fault_bound = wcp_witness_fault_bound p \<rparr> self)"
  using assms unfolding witness_provision_def Let_def
  by (auto simp: attempt_eq split: if_splits)

text \<open>The transcript of an acknowledgement exists whenever the transcript of the activation certificate
  does: both contain the same context, and everything else has a fixed size.\<close>

lemma activation_ack_total:
  assumes "rotation_activate_certificate cert = Inr t" and "waa_context a = rac_context cert"
  shows "\<exists>t. witness_activation_ack a = Inr t"
  using assms by (auto simp: rotation_activate_certificate_def witness_activation_ack_def witness_ack_into_def
      transcript_ok MAX_FIELD_LEN_def split: if_splits)

lemma cancel_ack_total:
  assumes "wrca_protocol_version a = PROTOCOL_VERSION_V3" and "wrca_witness_id a \<noteq> 0"
  shows "\<exists>t. witness_rotation_cancel_ack a = Inr t"
  using assms by (simp add: witness_rotation_cancel_ack_def transcript_ok MAX_FIELD_LEN_def)

lemma read_response_total:
  "werr_protocol_version a = PROTOCOL_VERSION_V3 \<Longrightarrow> \<exists>t. witness_epoch_read_response a = Inr t"
  by (simp add: witness_epoch_read_response_def transcript_ok MAX_FIELD_LEN_def)

definition new_ack ::
    "primitives \<Rightarrow> WitnessServerState \<Rightarrow> WitnessConfigEntry \<Rightarrow> WitnessActivationRequest \<Rightarrow> WitnessActivationAck \<Rightarrow> bool"
where
  "new_ack cp self entry rq a \<longleftrightarrow> (\<exists>h t. witness_activation_ack a = Inr t \<and>
     a = (unsigned_ack cp (idk_kem_seed (wss_identity self)) entry rq h (cc3_capsule_hash (war_capsule rq)))
       \<lparr> waa_witness_signature := sign cp (idk_kem_seed (wss_identity self)) t \<rparr>)"

definition pending_entry ::
    "WitnessConfigEntry \<Rightarrow> WitnessEpochStore \<Rightarrow> WitnessActivationRequest \<Rightarrow> WitnessActivationAck \<Rightarrow> WitnessConfigEntry"
where
  "pending_entry entry reg rq a = entry \<lparr> wce_register := reg,
     wce_pending_capsule := Some ((war_capsule rq) \<lparr> cc3_activation_certificate := Some (war_activation_certificate rq),
       cc3_activation_qc := None \<rparr>), wce_pending_ack := Some a \<rparr>"

lemma unsigned_ack_sign:
  "witness_activation_ack (a \<lparr> waa_witness_signature := s \<rparr>) = witness_activation_ack a"
  by (simp add: witness_activation_ack_def witness_ack_into_def)

lemma activate_new_effect:
  assumes "activate_new cp hx Saved cfg rq (cc3_capsule_hash (war_capsule rq)) h entry self = (r, s')"
    and "rotation_activate_certificate (war_activation_certificate rq) = Inr t"
  shows "(\<exists>e. r = Inl e \<and> s' = self) \<or>
    (\<exists>a reg. r = Inr a \<and> new_ack cp self entry rq a \<and> s' = saved cfg (pending_entry entry reg rq a) self \<and>
       cc3_predecessor_capsule_hash (war_capsule rq) = cc3_capsule_hash (wce_capsule entry) \<and>
       rx_config_ref (rac_context (war_activation_certificate rq)) = cc3_config_ref (wce_capsule entry) \<and>
       persist_successor_before_ack hx (cc3_config_ref (wce_capsule entry)) (cc3_capsule_hash (wce_capsule entry))
         (cc3_config_ref (war_capsule rq)) (cc3_capsule_hash (war_capsule rq)) (wce_register entry) = (Inr (), reg))"
proof -
  let ?u = "unsigned_ack cp (idk_kem_seed (wss_identity self)) entry rq h (cc3_capsule_hash (war_capsule rq))"
  have "waa_context ?u = rac_context (war_activation_certificate rq)" by (simp add: unsigned_ack_def)
  from activation_ack_total [OF assms(2) this] obtain w where w: "witness_activation_ack ?u = Inr w" by blast
  show ?thesis
    using assms(1) unfolding activate_new_def Let_def
    by (auto simp: attempt_eq w new_ack_def pending_entry_def unsigned_ack_sign
        split: if_splits prod.splits sum.splits)
qed

lemma node_activate_effect:
  assumes "witness_activate cp hx Saved cfg rq self = (r, s')"
  obtains (err) e where "r = Inl e" "s' = self"
  | (retry) entry p a where "bt_get (wss_data self) cfg = Some entry" "wce_pending_capsule entry = Some p"
      "wce_pending_ack entry = Some a" "cc3_capsule_hash p = cc3_capsule_hash (war_capsule rq)" "r = Inr a" "s' = self"
  | (new) entry reg a where "bt_get (wss_data self) cfg = Some entry" "wce_pending_capsule entry = None"
      "bt_get (wce_rotation_cancellations entry) (hx (rx_rotation_id (rac_context (war_activation_certificate rq)))) = None"
      "hx (cr_config_id (cc3_config_ref (war_capsule rq))) = cfg" "r = Inr a" "new_ack cp self entry rq a"
      "s' = saved cfg (pending_entry entry reg rq a) self"
      "cc3_predecessor_capsule_hash (war_capsule rq) = cc3_capsule_hash (wce_capsule entry)"
      "rx_config_ref (rac_context (war_activation_certificate rq)) = cc3_config_ref (wce_capsule entry)"
      "persist_successor_before_ack hx (cc3_config_ref (wce_capsule entry)) (cc3_capsule_hash (wce_capsule entry))
         (cc3_config_ref (war_capsule rq)) (cc3_capsule_hash (war_capsule rq)) (wce_register entry) = (Inr (), reg)"
proof -
  have "(\<exists>e. r = Inl e \<and> s' = self) \<or>
    (\<exists>entry p. bt_get (wss_data self) cfg = Some entry \<and> wce_pending_capsule entry = Some p \<and>
       cc3_capsule_hash p = cc3_capsule_hash (war_capsule rq) \<and> s' = self \<and>
       r = ok_or (wce_pending_ack entry) (bad_request (Text ''pending witness write has no durable ack''))) \<or>
    (\<exists>entry h t. bt_get (wss_data self) cfg = Some entry \<and> wce_pending_capsule entry = None \<and>
       bt_get (wce_rotation_cancellations entry) (hx (rx_rotation_id (rac_context (war_activation_certificate rq)))) = None \<and>
       hx (cr_config_id (cc3_config_ref (war_capsule rq))) = cfg \<and>
       rotation_activate_certificate (war_activation_certificate rq) = Inr t \<and>
       activate_new cp hx Saved cfg rq (cc3_capsule_hash (war_capsule rq)) h entry self = (r, s'))"
    using assms unfolding witness_activate_def Let_def
  proof (elim guard_elim attempt_elim, goal_cases)
    case (7 body t entry)
    then show ?case by (auto split: option.splits if_splits)
  qed auto
  then show thesis
  proof (elim disjE exE conjE)
    fix e assume "r = Inl e" "s' = self"
    then show thesis by (rule err)
  next
    fix entry p assume 1: "bt_get (wss_data self) cfg = Some entry" "wce_pending_capsule entry = Some p"
      "cc3_capsule_hash p = cc3_capsule_hash (war_capsule rq)" and s: "s' = self"
      and r: "r = ok_or (wce_pending_ack entry) (bad_request (Text ''pending witness write has no durable ack''))"
    show thesis
    proof (cases "wce_pending_ack entry")
      case None
      with r s show ?thesis by (intro err) (simp_all add: ok_or_def)
    next
      case (Some a)
      with r s show ?thesis by (intro retry [OF 1(1,2) Some 1(3)]) (simp_all add: ok_or_def)
    qed
  next
    fix entry h t assume 1: "bt_get (wss_data self) cfg = Some entry" "wce_pending_capsule entry = None"
      "bt_get (wce_rotation_cancellations entry) (hx (rx_rotation_id (rac_context (war_activation_certificate rq)))) = None"
      "hx (cr_config_id (cc3_config_ref (war_capsule rq))) = cfg"
      and t: "rotation_activate_certificate (war_activation_certificate rq) = Inr t"
      and n: "activate_new cp hx Saved cfg rq (cc3_capsule_hash (war_capsule rq)) h entry self = (r, s')"
    from activate_new_effect [OF n t] show thesis
      by (elim disjE exE conjE) (rule err, assumption+, rule new [OF 1], assumption+)
  qed
qed

lemma finalize_effect:
  assumes "witness_finalize cp hx Saved cfg qc self = (r, s')"
  shows "(\<exists>e. r = Inl e \<and> s' = self) \<or>
    (\<exists>entry p a ack. r = Inr ack \<and> bt_get (wss_data self) cfg = Some entry \<and> wce_pending_capsule entry = Some p \<and>
       wce_pending_ack entry = Some a \<and> bt_get (wce_rotation_cancellations entry) (hx (qc_rotation_id qc)) = None \<and>
       qc_rotation_id qc = rx_rotation_id (waa_context a) \<and> qc_successor_capsule_hash qc = cc3_capsule_hash p \<and>
       (\<exists>b. epoch_activation_qc qc = Inr b) \<and> qc_witness_fault_bound qc = wce_witness_fault_bound entry \<and>
       check_qc_acks cp (wce_witness_public_keys entry) {} (qc_witness_acks qc) =
         Inr (waa_witness_id ` set (qc_witness_acks qc)) \<and> a \<in> set (qc_witness_acks qc) \<and>
       2 * unat (wce_witness_fault_bound entry) + 1 \<le> card (waa_witness_id ` set (qc_witness_acks qc)) \<and>
       s' = saved cfg (entry \<lparr> wce_capsule := p \<lparr> cc3_activation_qc := Some qc \<rparr>,
         wce_pending_capsule := None, wce_pending_ack := None \<rparr>) self)"
proof -
  have ids: "ids = ids0 \<union> waa_witness_id ` set acks"
    if "check_qc_acks cp keys ids0 acks = Inr ids" for ids ids0 keys acks
    using that by (induction acks arbitrary: ids0) auto
  have two: "Option.bind (checked_mul (unat (f :: u16)) 2) (\<lambda>v. checked_add v (Suc 0)) = Some (Suc (2 * unat f))" for f
    using unat_u16_bound [of f] by (simp add: checked_mul_def checked_add_def usize_MAX_def)
  show ?thesis
    using assms unfolding witness_finalize_def
  proof (elim guard_elim attempt_elim, goal_cases)
    case (10 entry p a b required ws)
    then show ?case using ids [of _ "{}"] by (auto simp: two list_ex_iff)
  qed auto
qed

lemma read_effect:
  assumes "witness_read cp hx Saved now cfg ch self = (r, s')"
  shows "(\<exists>e. r = Inl e \<and> s' = self) \<or>
    (\<exists>entry env. r = Inr env \<and> bt_get (wss_data self) cfg = Some entry \<and> hx (erc_config_id ch) = cfg \<and>
       erc_client_nonce ch \<notin> wes_seen_read_nonces (wce_register entry) \<and>
       wre_capsule env = wce_capsule entry \<and> werr_client_nonce (wre_response env) = erc_client_nonce ch \<and>
       s' = saved cfg (entry \<lparr> wce_register := (wce_register entry)
         \<lparr> wes_seen_read_nonces := insert (erc_client_nonce ch) (wes_seen_read_nonces (wce_register entry)) \<rparr> \<rparr>) self)"
proof -
  have tot: "\<exists>t. witness_epoch_read_response \<lparr> werr_protocol_version = PROTOCOL_VERSION_V3, werr_config_id = c,
      werr_client_nonce = n, werr_witness_id = w, werr_highest_guardian_epoch = e, werr_capsule_hash = h,
      werr_witness_public_key = k, werr_witness_signature = [] \<rparr> = Inr t" for c n w e h k
    by (rule read_response_total) simp
  show ?thesis
    using assms unfolding witness_read_def Let_def
  proof (elim guard_elim attempt_elim outcome_elim, goal_cases)
    case (7 n b entry u reg)
    obtain t where "witness_epoch_read_response
        \<lparr> werr_protocol_version = PROTOCOL_VERSION_V3, werr_config_id = erc_config_id ch,
          werr_client_nonce = erc_client_nonce ch, werr_witness_id = wce_witness_id entry,
          werr_highest_guardian_epoch = cr_guardian_epoch (cc3_config_ref (wce_capsule entry)),
          werr_capsule_hash = cc3_capsule_hash (wce_capsule entry),
          werr_witness_public_key = verifying_key_bytes cp (idk_kem_seed (wss_identity self)),
          werr_witness_signature = [] \<rparr> = Inr t"
      using tot by blast
    with 7 show ?case by (auto simp: map_err_def observe_read_nonce_def split: if_splits)
  qed auto
qed

lemma cancel_entry_ok:
  assumes "cancel_entry hx ce h entry = Inr entry'"
  obtains reg where "entry' = entry \<lparr> wce_register := reg, wce_pending_capsule := None,
      wce_pending_ack := (if wce_pending_capsule entry = None then wce_pending_ack entry else None),
      wce_rotation_cancellations := bt_insert (hx (rx_rotation_id (orcc_context ce)))
        \<lparr> wrc_plan_hash = orcc_plan_hash ce, wrc_cancel_certificate_hash = h \<rparr> (wce_rotation_cancellations entry) \<rparr>"
    and "\<forall>k. k \<noteq> hx (cc3_capsule_hash (wce_capsule entry)) \<longrightarrow>
      bt_get (wes_predecessor_locks reg) k = bt_get (wes_predecessor_locks (wce_register entry)) k"
proof (cases "wce_pending_capsule entry")
  case None
  with assms show thesis by (intro that [of "wce_register entry"]) (auto simp: cancel_entry_def)
next
  case (Some p)
  with assms obtain reg where c: "cancel_pending_successor hx (cr_guardian_epoch (cc3_config_ref (wce_capsule entry)))
      (cc3_capsule_hash (wce_capsule entry)) (cr_guardian_epoch (cc3_config_ref p)) (cc3_capsule_hash p)
      (wce_register entry) = (Inr (), reg)"
    and e: "entry' = entry \<lparr> wce_register := reg, wce_pending_capsule := None, wce_pending_ack := None,
      wce_rotation_cancellations := bt_insert (hx (rx_rotation_id (orcc_context ce)))
        \<lparr> wrc_plan_hash = orcc_plan_hash ce, wrc_cancel_certificate_hash = h \<rparr> (wce_rotation_cancellations entry) \<rparr>"
    by (auto simp: cancel_entry_def split: if_splits prod.splits sum.splits)
  from c have "\<forall>k. k \<noteq> hx (cc3_capsule_hash (wce_capsule entry)) \<longrightarrow>
      bt_get (wes_predecessor_locks reg) k = bt_get (wes_predecessor_locks (wce_register entry)) k"
    by (auto simp: cancel_pending_successor_def Let_def split: if_splits)
  with e Some show thesis by (intro that [of reg]) simp_all
qed

lemma cancel_effect:
  assumes "witness_cancel_rotation cp hx Saved now cfg ce self = (r, s')"
    and "\<forall>e. bt_get (wss_data self) cfg = Some e \<longrightarrow> wce_witness_id e \<noteq> 0"
  obtains (err) e where "r = Inl e" "s' = self"
  | (again) entry ack where "bt_get (wss_data self) cfg = Some entry" "r = Inr ack" "s' = saved cfg entry self"
      "bt_get (wce_rotation_cancellations entry) (hx (rx_rotation_id (orcc_context ce))) \<noteq> None"
      "rx_predecessor_capsule_hash (orcc_context ce) = cc3_capsule_hash (wce_capsule entry)"
  | (new) entry entry' h ack where "bt_get (wss_data self) cfg = Some entry" "r = Inr ack" "s' = saved cfg entry' self"
      "cancel_entry hx ce h entry = Inr entry'"
      "rx_predecessor_capsule_hash (orcc_context ce) = cc3_capsule_hash (wce_capsule entry)"
  using assms(1) unfolding witness_cancel_rotation_def Let_def
proof (elim guard_elim attempt_elim, goal_cases)
  case (8 now' t entry u entry')
  have "wce_witness_id entry' = wce_witness_id entry"
    using 8 by (auto elim: cancel_entry_ok split: option.splits if_splits)
  moreover have "wce_witness_id entry \<noteq> 0" using 8 assms(2) by simp
  ultimately have "\<exists>w. witness_rotation_cancel_ack \<lparr> wrca_protocol_version = PROTOCOL_VERSION_V3,
      wrca_config_id = cr_config_id (rx_config_ref (orcc_context ce)),
      wrca_rotation_id = rx_rotation_id (orcc_context ce), wrca_plan_hash = orcc_plan_hash ce,
      wrca_cancel_certificate_hash = sha256 cp t, wrca_witness_id = wce_witness_id entry',
      wrca_witness_public_key = verifying_key_bytes cp (idk_kem_seed (wss_identity self)),
      wrca_witness_signature = [] \<rparr> = Inr w"
    by (intro cancel_ack_total) simp_all
  with 8 show ?case by (auto simp: map_err_def)
next
  case (9 now' t entry u entry' w)
  then have s: "s' = saved cfg entry' self" and entry: "bt_get (wss_data self) cfg = Some entry"
    and pred: "rx_predecessor_capsule_hash (orcc_context ce) = cc3_capsule_hash (wce_capsule entry)"
    and r: "\<exists>ack. r = Inr ack" by auto
  show ?case
  proof (cases "bt_get (wce_rotation_cancellations entry) (hx (rx_rotation_id (orcc_context ce)))")
    case None
    with 9 have "cancel_entry hx ce (sha256 cp t) entry = Inr entry'" by simp
    with s entry pred r show ?thesis by (auto intro: new)
  next
    case (Some x)
    with 9 have "entry' = entry" by (auto split: if_splits)
    with s entry pred r Some show ?thesis by (auto intro: again)
  qed
qed (auto intro: err)

section \<open>The invariant of a node\<close>

definition pending_ok :: "(Id32 \<Rightarrow> string) \<Rightarrow> string \<Rightarrow> WitnessConfigEntry \<Rightarrow> WitnessActivationAck \<Rightarrow> ConfigCapsuleV3 \<Rightarrow> bool" where
  "pending_ok hx cfg e a p \<longleftrightarrow>
    cc3_capsule_hash p = waa_successor_capsule_hash a \<and> hx (cr_config_id (cc3_config_ref p)) = cfg \<and>
    waa_predecessor_capsule_hash a = cc3_capsule_hash (wce_capsule e) \<and>
    hx (cr_config_id (rx_config_ref (waa_context a))) = cfg \<and>
    bt_get (wes_predecessor_locks (wce_register e)) (hx (waa_predecessor_capsule_hash a)) =
      Some (waa_successor_capsule_hash a) \<and>
    bt_get (wce_rotation_cancellations e) (hx (rx_rotation_id (waa_context a))) = None"

definition entry_ok :: "(Id32 \<Rightarrow> string) \<Rightarrow> string \<Rightarrow> WitnessConfigEntry \<Rightarrow> bool" where
  "entry_ok hx cfg e \<longleftrightarrow> wce_witness_id e \<noteq> 0 \<and> hx (cr_config_id (cc3_config_ref (wce_capsule e))) = cfg \<and>
    (case wce_pending_ack e of
       None \<Rightarrow> wce_pending_capsule e = None
     | Some a \<Rightarrow> (case wce_pending_capsule e of None \<Rightarrow> False | Some p \<Rightarrow> pending_ok hx cfg e a p))"

definition service_ok :: "(Id32 \<Rightarrow> string) \<Rightarrow> WitnessServerState \<Rightarrow> bool" where
  "service_ok hx self \<longleftrightarrow> wss_file self = wss_data self \<and>
    (\<forall>cfg e. bt_get (wss_data self) cfg = Some e \<longrightarrow> entry_ok hx cfg e)"

lemma service_ok_saved:
  "service_ok hx self \<Longrightarrow> entry_ok hx cfg e \<Longrightarrow> service_ok hx (saved cfg e self)"
  by (simp add: service_ok_def saved_def)

lemma service_ok_entry: "service_ok hx self \<Longrightarrow> bt_get (wss_data self) cfg = Some e \<Longrightarrow> entry_ok hx cfg e"
  by (simp add: service_ok_def)

lemma persist_locks:
  assumes "persist_successor_before_ack hx pr ph su sh w = (Inr (), w')"
  shows "bt_get (wes_predecessor_locks w') (hx ph) = Some sh"
    and "bt_get (wes_predecessor_locks w) k = Some v \<Longrightarrow> bt_get (wes_predecessor_locks w') k = Some v"
  using assms by (auto simp: persist_successor_before_ack_def Let_def split: if_splits option.splits)

lemma entry_ok_pending:
  assumes "entry_ok hx cfg entry" and "new_ack cp self entry rq a"
    and "bt_get (wce_rotation_cancellations entry) (hx (rx_rotation_id (rac_context (war_activation_certificate rq)))) = None"
    and "hx (cr_config_id (cc3_config_ref (war_capsule rq))) = cfg"
    and "rx_config_ref (rac_context (war_activation_certificate rq)) = cc3_config_ref (wce_capsule entry)"
    and "persist_successor_before_ack hx (cc3_config_ref (wce_capsule entry)) (cc3_capsule_hash (wce_capsule entry))
         (cc3_config_ref (war_capsule rq)) (cc3_capsule_hash (war_capsule rq)) (wce_register entry) = (Inr (), reg)"
  shows "entry_ok hx cfg (pending_entry entry reg rq a)"
  using assms persist_locks(1) [OF assms(6)]
  by (auto simp: entry_ok_def pending_ok_def pending_entry_def new_ack_def unsigned_ack_def)

lemma entry_ok_cancelled:
  assumes "entry_ok hx cfg entry" and "cancel_entry hx ce h entry = Inr entry'"
  shows "entry_ok hx cfg entry'"
  using assms(2) assms(1) by (elim cancel_entry_ok) (auto simp: entry_ok_def split: option.splits)

lemma entry_ok_finalized:
  "entry_ok hx cfg entry \<Longrightarrow> wce_pending_capsule entry = Some p \<Longrightarrow> wce_pending_ack entry = Some a \<Longrightarrow>
   entry_ok hx cfg (entry \<lparr> wce_capsule := p \<lparr> cc3_activation_qc := q \<rparr>, wce_pending_capsule := None,
     wce_pending_ack := None \<rparr>)"
  by (simp add: entry_ok_def pending_ok_def)

lemma entry_ok_read:
  "entry_ok hx cfg entry \<Longrightarrow>
   entry_ok hx cfg (entry \<lparr> wce_register := (wce_register entry) \<lparr> wes_seen_read_nonces := N \<rparr> \<rparr>)"
  by (auto simp: entry_ok_def pending_ok_def split: option.splits)

lemma service_ok_serve:
  assumes "service_ok hx self" and "witness_serve cp hx Saved call self = (r, self')"
  shows "service_ok hx self'"
proof (cases call)
  case (WProvision auth p)
  with assms(2) obtain r0 where "witness_provision cp hx Saved auth p self = (r0, self')" by (auto simp: reply_with_eq)
  from provision_effect [OF this] assms(1) show ?thesis
    by (elim disjE exE conjE) (auto intro!: service_ok_saved simp: entry_ok_def)
next
  case (WActivate cfg rq)
  with assms(2) obtain r0 where "witness_activate cp hx Saved cfg rq self = (r0, self')" by (auto simp: reply_with_eq)
  then show ?thesis
  proof (cases rule: node_activate_effect)
    case (new entry reg a)
    have "entry_ok hx cfg entry" by (rule service_ok_entry [OF assms(1) new(1)])
    from entry_ok_pending [OF this new(6,3,4,9,10)] new(7) assms(1) show ?thesis
      by (simp add: service_ok_saved)
  qed (use assms(1) in simp_all)
next
  case (WFinalize cfg qc)
  with assms(2) obtain r0 where "witness_finalize cp hx Saved cfg qc self = (r0, self')" by (auto simp: reply_with_eq)
  from finalize_effect [OF this] assms(1) service_ok_entry [OF assms(1)] show ?thesis
    by (elim disjE exE conjE) (auto intro!: service_ok_saved entry_ok_finalized)
next
  case (WCancelRotation now cfg ce)
  with assms(2) obtain r0 where c: "witness_cancel_rotation cp hx Saved now cfg ce self = (r0, self')"
    by (auto simp: reply_with_eq)
  have w: "\<forall>e. bt_get (wss_data self) cfg = Some e \<longrightarrow> wce_witness_id e \<noteq> 0"
    using service_ok_entry [OF assms(1)] by (auto simp: entry_ok_def)
  from c w show ?thesis
  proof (cases rule: cancel_effect)
    case (again entry ack)
    with service_ok_entry [OF assms(1) again(1)] assms(1) show ?thesis by (simp add: service_ok_saved)
  next
    case (new entry entry' h ack)
    have "entry_ok hx cfg entry'" by (rule entry_ok_cancelled [OF service_ok_entry [OF assms(1) new(1)] new(4)])
    with new(3) assms(1) show ?thesis by (simp add: service_ok_saved)
  qed (use assms(1) in simp_all)
next
  case (WRead now cfg ch)
  with assms(2) obtain r0 where "witness_read cp hx Saved now cfg ch self = (r0, self')" by (auto simp: reply_with_eq)
  from read_effect [OF this] assms(1) service_ok_entry [OF assms(1)] show ?thesis
    by (elim disjE exE conjE) (simp_all add: service_ok_saved entry_ok_read)
next
  case WRestart
  with assms show ?thesis by (auto simp: service_ok_def load_def)
qed

text \<open>C24: as long as saves succeed, every call and restart leaves the memory and the state file of a
  witness equal, keeps the pending acknowledgement of every configuration covered by its
  one-child lock and never cancelled, and a restart changes nothing.\<close>

theorem witness_state_durable:
  assumes "service_ok hx self" and "run_log (witness_serve cp hx Saved) self calls = (l, self')"
  shows "service_ok hx self' \<and> wss_file self' = wss_data self' \<and> load self' = self'"
proof -
  have "service_ok hx self'"
    using assms(2,1)
  proof (induction calls arbitrary: self l)
    case (Cons c calls)
    then show ?case by (auto simp: Let_def split: prod.splits dest: service_ok_serve)
  qed simp
  then show ?thesis by (simp add: service_ok_def load_def)
qed

section \<open>One child per predecessor\<close>

fun ack_grant :: "(Id32 \<Rightarrow> string) \<Rightarrow> witness_call \<Rightarrow> (ApiError, witness_reply) result \<Rightarrow> ((string \<times> string) \<times> Id32) option" where
  "ack_grant hx (WActivate cfg rq) (Inr (Acked a)) =
     Some ((cfg, hx (waa_predecessor_capsule_hash a)), waa_successor_capsule_hash a)"
| "ack_grant hx _ _ = None"

fun cancel_revoke :: "(Id32 \<Rightarrow> string) \<Rightarrow> witness_call \<Rightarrow> (ApiError, witness_reply) result \<Rightarrow> (string \<times> string) option" where
  "cancel_revoke hx (WCancelRotation now cfg ce) (Inr (CancelAcked a)) =
     Some (cfg, hx (rx_predecessor_capsule_hash (orcc_context ce)))"
| "cancel_revoke hx _ _ = None"

definition locked_child :: "WitnessServerState \<Rightarrow> string \<times> string \<Rightarrow> Id32 option" where
  "locked_child self k = Option.bind (bt_get (wss_file self) (fst k))
     (\<lambda>e. bt_get (wes_predecessor_locks (wce_register e)) (snd k))"

lemma locked_child_saved:
  "locked_child (saved cfg e self) (c, k) =
     (if c = cfg then bt_get (wes_predecessor_locks (wce_register e)) k
      else Option.bind (bt_get (wss_data self) c) (\<lambda>e. bt_get (wes_predecessor_locks (wce_register e)) k))"
  by (simp add: locked_child_def saved_def)

lemma locked_child_data:
  "service_ok hx self \<Longrightarrow> locked_child self (c, k) =
     Option.bind (bt_get (wss_data self) c) (\<lambda>e. bt_get (wes_predecessor_locks (wce_register e)) k)"
  by (simp add: locked_child_def service_ok_def)

lemma ack_locked:
  assumes "service_ok hx self" and "witness_serve cp hx Saved call self = (r, self')"
    and "ack_grant hx call r = Some (k, v)"
  shows "locked_child self' k = Some v"
proof -
  from assms(3) obtain cfg rq a where call: "call = WActivate cfg rq" and r: "r = Inr (Acked a)"
    and k: "k = (cfg, hx (waa_predecessor_capsule_hash a))" and v: "v = waa_successor_capsule_hash a"
    by (cases "(hx, call, r)" rule: ack_grant.cases) auto
  from assms(2) call r have "witness_activate cp hx Saved cfg rq self = (Inr a, self')" by (auto simp: reply_with_eq)
  then show ?thesis
  proof (cases rule: node_activate_effect)
    case (retry entry p a')
    from service_ok_entry [OF assms(1) retry(1)] retry(2,3)
    have "bt_get (wes_predecessor_locks (wce_register entry)) (hx (waa_predecessor_capsule_hash a')) =
      Some (waa_successor_capsule_hash a')" by (auto simp: entry_ok_def pending_ok_def)
    with retry(1,5,6) show ?thesis by (simp add: k v locked_child_data [OF assms(1)])
  next
    case (new entry reg a')
    from persist_locks(1) [OF new(10)] new show ?thesis
      by (auto simp: k v locked_child_saved pending_entry_def new_ack_def unsigned_ack_def)
  qed simp_all
qed

lemma lock_kept:
  assumes ok: "service_ok hx self" and step: "witness_serve cp hx Saved call self = (r, self')"
    and lock: "locked_child self k = Some v" and keep: "cancel_revoke hx call r \<noteq> Some k"
  shows "locked_child self' k = Some v"
proof -
  obtain c key where k: "k = (c, key)" by (cases k)
  from lock obtain e where e: "bt_get (wss_data self) c = Some e"
    and l: "bt_get (wes_predecessor_locks (wce_register e)) key = Some v"
    by (auto simp: k locked_child_data [OF ok] bind_eq_Some_conv)
  show ?thesis
  proof (cases call)
    case (WProvision auth p)
    with step obtain r0 where "witness_provision cp hx Saved auth p self = (r0, self')" by (auto simp: reply_with_eq)
    from provision_effect [OF this] lock e l show ?thesis
      by (elim disjE exE conjE) (auto simp: k locked_child_saved)
  next
    case (WActivate cfg rq)
    with step obtain r0 where "witness_activate cp hx Saved cfg rq self = (r0, self')" by (auto simp: reply_with_eq)
    then show ?thesis
    proof (cases rule: node_activate_effect)
      case (new entry reg a)
      from persist_locks(2) [OF new(10)] new(1,7) e l show ?thesis
        by (auto simp: k locked_child_saved pending_entry_def)
    qed (use lock in simp_all)
  next
    case (WFinalize cfg qc)
    with step obtain r0 where "witness_finalize cp hx Saved cfg qc self = (r0, self')" by (auto simp: reply_with_eq)
    from finalize_effect [OF this] lock e l show ?thesis
      by (elim disjE exE conjE) (auto simp: k locked_child_saved)
  next
    case (WCancelRotation now cfg ce)
    with step obtain r0 where rc: "witness_cancel_rotation cp hx Saved now cfg ce self = (r0, self')"
      and rr: "r = (case r0 of Inl e \<Rightarrow> Inl e | Inr a \<Rightarrow> Inr (CancelAcked a))"
      by (auto simp: reply_with_eq)
    have w: "\<forall>e. bt_get (wss_data self) cfg = Some e \<longrightarrow> wce_witness_id e \<noteq> 0"
      using service_ok_entry [OF ok] by (auto simp: entry_ok_def)
    from rc w show ?thesis
    proof (cases rule: cancel_effect)
      case (again entry ack)
      with e l show ?thesis by (auto simp: k locked_child_saved)
    next
      case (new entry entry' h ack)
      from new(2) rr keep WCancelRotation have "k \<noteq> (cfg, hx (rx_predecessor_capsule_hash (orcc_context ce)))" by auto
      with new(5) have "c = cfg \<Longrightarrow> key \<noteq> hx (cc3_capsule_hash (wce_capsule entry))" by (simp add: k)
      with new(1,3,4) e l show ?thesis
        by (elim cancel_entry_ok) (auto simp: k locked_child_saved)
    qed (use lock in simp_all)
  next
    case (WRead now cfg ch)
    with step obtain r0 where "witness_read cp hx Saved now cfg ch self = (r0, self')" by (auto simp: reply_with_eq)
    from read_effect [OF this] lock e l show ?thesis
      by (elim disjE exE conjE) (auto simp: k locked_child_saved)
  next
    case WRestart
    with step ok lock show ?thesis by (auto simp: load_def locked_child_def)
  qed
qed

interpretation node: revocable "witness_serve cp hx Saved" locked_child "ack_grant hx" "cancel_revoke hx" "service_ok hx"
  for cp hx
proof unfold_locales
  fix op r k v assume "ack_grant hx op r = Some (k, v)"
  then show "cancel_revoke hx op r \<noteq> Some k"
    by (cases "(hx, op, r)" rule: ack_grant.cases) auto
qed (blast intro: ack_locked lock_kept service_ok_serve)+

lemma cancel_revoke_iff:
  "cancel_revoke hx op r = Some (cfg, k) \<longleftrightarrow>
     (\<exists>now ce a. op = WCancelRotation now cfg ce \<and> r = Inr (CancelAcked a) \<and>
        hx (rx_predecessor_capsule_hash (orcc_context ce)) = k)"
  by (cases "(hx, op, r)" rule: cancel_revoke.cases) auto

text \<open>C19: in every run whose saves all succeed, restarts included, a witness node acknowledges one child
  per predecessor. If it acknowledged two different successors of one predecessor in the same
  configuration, it acknowledged an owner cancellation for that predecessor between the two. Without
  the condition on the saves this is false, see below.\<close>

theorem witness_node_one_child:
  assumes "inj hx" and "service_ok hx self"
    and "run_log (witness_serve cp hx Saved) self calls =
      (l1 @ (WActivate cfg rq1, Inr (Acked a1)) # l2 @ (WActivate cfg rq2, Inr (Acked a2)) # l3, self')"
    and "waa_predecessor_capsule_hash a1 = waa_predecessor_capsule_hash a2"
    and "waa_successor_capsule_hash a1 \<noteq> waa_successor_capsule_hash a2"
  shows "\<exists>now ce a. (WCancelRotation now cfg ce, Inr (CancelAcked a)) \<in> set l2 \<and>
    rx_predecessor_capsule_hash (orcc_context ce) = waa_predecessor_capsule_hash a1"
proof -
  have "\<exists>(op, r) \<in> set l2. cancel_revoke hx op r = Some (cfg, hx (waa_predecessor_capsule_hash a1))"
    by (rule node.regrant_after_revocation [OF assms(3,2) _ _ assms(5)]) (simp_all add: assms(4))
  then show ?thesis using assms(1) by (fastforce simp: cancel_revoke_iff inj_eq)
qed

section \<open>Cancellations\<close>

definition rotation_cancelled :: "(Id32 \<Rightarrow> string) \<Rightarrow> string \<Rightarrow> Id32 \<Rightarrow> WitnessServerState \<Rightarrow> bool" where
  "rotation_cancelled hx cfg rid self \<longleftrightarrow>
    (\<exists>e. bt_get (wss_data self) cfg = Some e \<and> bt_get (wce_rotation_cancellations e) (hx rid) \<noteq> None)"

lemma rotation_cancelled_saved:
  "rotation_cancelled hx c rid (saved cfg e self) \<longleftrightarrow>
     (if c = cfg then bt_get (wce_rotation_cancellations e) (hx rid) \<noteq> None else rotation_cancelled hx c rid self)"
  by (simp add: rotation_cancelled_def saved_def)

lemma rotation_cancelled_kept:
  assumes "bt_get (wss_data self) cfg = Some entry" and "rotation_cancelled hx c rid self"
    and "bt_get (wce_rotation_cancellations entry) (hx rid) \<noteq> None \<Longrightarrow>
      bt_get (wce_rotation_cancellations e) (hx rid) \<noteq> None"
  shows "rotation_cancelled hx c rid (saved cfg e self)"
  using assms by (auto simp: rotation_cancelled_def saved_def)

lemma cancellations_kept:
  assumes "service_ok hx self" and "witness_serve cp hx Saved call self = (r, self')"
    and can: "rotation_cancelled hx c rid self"
  shows "rotation_cancelled hx c rid self'"
proof (cases call)
  case (WProvision auth p)
  with assms(2) obtain r0 where "witness_provision cp hx Saved auth p self = (r0, self')" by (auto simp: reply_with_eq)
  from provision_effect [OF this] can show ?thesis
    by (elim disjE exE conjE) (auto simp: rotation_cancelled_def saved_def)
next
  case (WActivate cfg rq)
  with assms(2) obtain r0 where "witness_activate cp hx Saved cfg rq self = (r0, self')" by (auto simp: reply_with_eq)
  then show ?thesis
  proof (cases rule: node_activate_effect)
    case (new entry reg a)
    from rotation_cancelled_kept [OF new(1) can] new(7) show ?thesis by (simp add: pending_entry_def)
  qed (use can in simp_all)
next
  case (WFinalize cfg qc)
  with assms(2) obtain r0 where "witness_finalize cp hx Saved cfg qc self = (r0, self')" by (auto simp: reply_with_eq)
  from finalize_effect [OF this] can show ?thesis
    by (elim disjE exE conjE) (auto intro!: rotation_cancelled_kept)
next
  case (WCancelRotation now cfg ce)
  with assms(2) obtain r0 where rc: "witness_cancel_rotation cp hx Saved now cfg ce self = (r0, self')"
    by (auto simp: reply_with_eq)
  have w: "\<forall>e. bt_get (wss_data self) cfg = Some e \<longrightarrow> wce_witness_id e \<noteq> 0"
    using service_ok_entry [OF assms(1)] by (auto simp: entry_ok_def)
  from rc w show ?thesis
  proof (cases rule: cancel_effect)
    case (again entry ack)
    from rotation_cancelled_kept [OF again(1) can] again(3) show ?thesis by simp
  next
    case (new entry entry' h ack)
    from new(4) have "bt_get (wce_rotation_cancellations entry) (hx rid) \<noteq> None \<Longrightarrow>
      bt_get (wce_rotation_cancellations entry') (hx rid) \<noteq> None" by (elim cancel_entry_ok) auto
    from rotation_cancelled_kept [OF new(1) can this] new(3) show ?thesis by simp
  qed (use can in simp_all)
next
  case (WRead now cfg ch)
  with assms(2) obtain r0 where "witness_read cp hx Saved now cfg ch self = (r0, self')" by (auto simp: reply_with_eq)
  from read_effect [OF this] can show ?thesis
    by (elim disjE exE conjE) (auto intro!: rotation_cancelled_kept)
next
  case WRestart
  with assms show ?thesis by (auto simp: service_ok_def load_def)
qed

interpretation cancelled_node: stable_machine "witness_serve cp hx Saved"
  "\<lambda>self. service_ok hx self \<and> rotation_cancelled hx cfg rid self" for cp hx cfg rid
  by unfold_locales (blast intro: service_ok_serve cancellations_kept)

lemma cancel_records:
  assumes "service_ok hx self" and "witness_serve cp hx Saved (WCancelRotation now cfg ce) self = (Inr x, self')"
  shows "rotation_cancelled hx cfg (rx_rotation_id (orcc_context ce)) self'"
proof -
  from assms(2) obtain a where rc: "witness_cancel_rotation cp hx Saved now cfg ce self = (Inr a, self')"
    by (auto simp: reply_with_eq)
  have w: "\<forall>e. bt_get (wss_data self) cfg = Some e \<longrightarrow> wce_witness_id e \<noteq> 0"
    using service_ok_entry [OF assms(1)] by (auto simp: entry_ok_def)
  from rc w show ?thesis
  proof (cases rule: cancel_effect)
    case (new entry entry' h ack)
    then show ?thesis by (elim cancel_entry_ok) (simp add: rotation_cancelled_saved)
  qed (simp_all add: rotation_cancelled_saved)
qed

lemma cancelled_refuses:
  assumes "service_ok hx self" and "rotation_cancelled hx cfg rid self"
  shows "witness_serve cp hx Saved (WActivate cfg rq) self = (Inr (Acked a), self') \<Longrightarrow> rx_rotation_id (waa_context a) \<noteq> rid"
    and "witness_serve cp hx Saved (WFinalize cfg qc) self = (Inr x, self') \<Longrightarrow> qc_rotation_id qc \<noteq> rid"
proof -
  assume "witness_serve cp hx Saved (WActivate cfg rq) self = (Inr (Acked a), self')"
  then have "witness_activate cp hx Saved cfg rq self = (Inr a, self')" by (auto simp: reply_with_eq)
  then show "rx_rotation_id (waa_context a) \<noteq> rid"
  proof (cases rule: node_activate_effect)
    case (retry entry p a')
    with assms service_ok_entry [OF assms(1) retry(1)] show ?thesis
      by (auto simp: rotation_cancelled_def entry_ok_def pending_ok_def)
  next
    case (new entry reg a')
    with assms(2) show ?thesis by (auto simp: rotation_cancelled_def new_ack_def unsigned_ack_def)
  qed simp
next
  assume "witness_serve cp hx Saved (WFinalize cfg qc) self = (Inr x, self')"
  then obtain y where "witness_finalize cp hx Saved cfg qc self = (Inr y, self')" by (auto simp: reply_with_eq)
  from finalize_effect [OF this] assms(2) show "qc_rotation_id qc \<noteq> rid" by (auto simp: rotation_cancelled_def)
qed

text \<open>C20: in every run whose saves all succeed, restarts included, an owner cancellation a witness node
  acknowledged is permanent: afterwards the node never acknowledges an activation of that
  rotation and never finalises it.\<close>

theorem witness_node_cancel_permanent:
  assumes "service_ok hx self"
    and "run_log (witness_serve cp hx Saved) self calls =
      (l1 @ (WCancelRotation now cfg ce, Inr x) # l2 @ (call, Inr y) # l3, self')"
  shows "(\<forall>rq a. call = WActivate cfg rq \<and> y = Acked a \<longrightarrow>
      rx_rotation_id (waa_context a) \<noteq> rx_rotation_id (orcc_context ce)) \<and>
    (\<forall>qc. call = WFinalize cfg qc \<longrightarrow> qc_rotation_id qc \<noteq> rx_rotation_id (orcc_context ce))"
proof -
  let ?rid = "rx_rotation_id (orcc_context ce)"
  from run_log_split [OF assms(2)] obtain ops1 ops2 u u' where
    1: "run_log (witness_serve cp hx Saved) self ops1 = (l1, u)"
    "witness_serve cp hx Saved (WCancelRotation now cfg ce) u = (Inr x, u')"
    "run_log (witness_serve cp hx Saved) u' ops2 = (l2 @ (call, Inr y) # l3, self')" by blast
  have ok: "service_ok hx u" by (rule node.wf_run [OF 1(1) assms(1)])
  have "service_ok hx u' \<and> rotation_cancelled hx cfg ?rid u'"
    using service_ok_serve [OF ok 1(2)] cancel_records [OF ok 1(2)] by blast
  from cancelled_node.run_stable_entry [OF this 1(3)] obtain v v' where
    "service_ok hx v" "rotation_cancelled hx cfg ?rid v" "witness_serve cp hx Saved call v = (Inr y, v')" by blast
  with cancelled_refuses show ?thesis by blast
qed

section \<open>No forks\<close>

text \<open>The transcripts a node signed in a run, and what it signed as an activation acknowledgement.\<close>

definition signed_by_node :: "(witness_call \<times> (ApiError, witness_reply) result) list \<Rightarrow> byte list set" where
  "signed_by_node l =
    {t. \<exists>c a. (c, Inr (Acked a)) \<in> set l \<and> witness_activation_ack a = Inr t} \<union>
    {t. \<exists>c a. (c, Inr (CancelAcked a)) \<in> set l \<and> witness_rotation_cancel_ack a = Inr t} \<union>
    {t. \<exists>c env. (c, Inr (ReadAnswer env)) \<in> set l \<and> witness_epoch_read_response (wre_response env) = Inr t}"

lemma signed_activation:
  assumes "t \<in> signed_by_node l" and "witness_activation_ack a = Inr t"
  obtains c a' where "(c, Inr (Acked a')) \<in> set l" and "a' \<lparr> waa_witness_signature := [] \<rparr> = a \<lparr> waa_witness_signature := [] \<rparr>"
proof -
  have a: "document_transcript (Epoch (Doc_witness_activation_ack a)) = Inr t" using assms(2) by simp
  have "witness_rotation_cancel_ack x \<noteq> Inr t" for x
    using document_same_domain [OF a, of "Epoch (Doc_witness_rotation_cancel_ack x)"] by auto
  moreover have "witness_epoch_read_response x \<noteq> Inr t" for x
    using document_same_domain [OF a, of "Epoch (Doc_witness_epoch_read_response x)"] by auto
  ultimately obtain c a' where "(c, Inr (Acked a')) \<in> set l" "witness_activation_ack a' = Inr t"
    using assms(1) by (auto simp: signed_by_node_def)
  with witness_activation_ack_inject [OF _ assms(2)] that show thesis by blast
qed

lemma acked_in_run:
  assumes "service_ok hx self" and "run_log (witness_serve cp hx Saved) self calls = (l, self')"
    and "(c, Inr (Acked a)) \<in> set l"
  shows "\<exists>rq. c = WActivate (hx (cr_config_id (rx_config_ref (waa_context a)))) rq"
proof -
  from assms(3) obtain l1 l2 where "l = l1 @ (c, Inr (Acked a)) # l2" by (meson split_list)
  with run_log_split [of "witness_serve cp hx Saved" self calls l1 c "Inr (Acked a)" l2 self'] assms(2)
  obtain ops u u' where run: "run_log (witness_serve cp hx Saved) self ops = (l1, u)"
    and step: "witness_serve cp hx Saved c u = (Inr (Acked a), u')" by blast
  have ok: "service_ok hx u" by (rule node.wf_run [OF run assms(1)])
  from step obtain cfg rq where c: "c = WActivate cfg rq" by (cases c) (auto simp: reply_with_eq)
  with step have "witness_activate cp hx Saved cfg rq u = (Inr a, u')" by (auto simp: reply_with_eq)
  then have "cfg = hx (cr_config_id (rx_config_ref (waa_context a)))"
  proof (cases rule: node_activate_effect)
    case (retry entry p a')
    with service_ok_entry [OF ok retry(1)] show ?thesis by (auto simp: entry_ok_def pending_ok_def)
  next
    case (new entry reg a')
    with service_ok_entry [OF ok new(1)] show ?thesis by (auto simp: entry_ok_def new_ack_def unsigned_ack_def)
  qed simp
  with c show ?thesis by blast
qed

lemma unforged_ack:
  assumes "service_ok hx self" and "run_log (witness_serve cp hx Saved) self calls = (l, self')"
    and "signed_ack cp rcard a"
    and "\<forall>pin \<in> set (card3_witnesses rcard). wp_witness_id pin = waa_witness_id a \<longrightarrow>
      (\<forall>t sig. verify cp (wp_public_key pin) t sig = Inr () \<longrightarrow> t \<in> signed_by_node l)"
  obtains rq a' where "(WActivate (hx (cr_config_id (rx_config_ref (waa_context a)))) rq, Inr (Acked a')) \<in> set l"
    and "waa_predecessor_capsule_hash a' = waa_predecessor_capsule_hash a"
    and "waa_successor_capsule_hash a' = waa_successor_capsule_hash a"
proof -
  from assms(3,4) obtain t where "t \<in> signed_by_node l" "witness_activation_ack a = Inr t"
    by (auto simp: signed_ack_iff)
  then obtain c a' where m: "(c, Inr (Acked a')) \<in> set l"
    and e: "a' \<lparr> waa_witness_signature := [] \<rparr> = a \<lparr> waa_witness_signature := [] \<rparr>"
    by (rule signed_activation)
  have ctx: "waa_context a' = waa_context a" and f: "waa_predecessor_capsule_hash a' = waa_predecessor_capsule_hash a"
    "waa_successor_capsule_hash a' = waa_successor_capsule_hash a"
    using arg_cong [OF e, of waa_context] arg_cong [OF e, of waa_predecessor_capsule_hash]
      arg_cong [OF e, of waa_successor_capsule_hash] by simp_all
  from acked_in_run [OF assms(1,2) m] ctx m f that show thesis by auto
qed

text \<open>C15: agreement on the successor. On a card with exactly \<open>3 f + 1\<close> witnesses of which at most
  \<open>f\<close> are faulty, where the others run the witness service with working saves (restarts
  included) and signatures under their pinned keys are unforgeable, two activated capsules with the same
  predecessor are the same capsule, unless some correct witness acknowledged an owner cancellation for that predecessor.\<close>

theorem no_fork_without_cancellation:
  assumes "inj hx"
    and "validate_activated_capsule_v3 cp rcard c1 = Inr ()" "cr_guardian_epoch (cc3_config_ref c1) \<noteq> 1"
    and "validate_activated_capsule_v3 cp rcard c2 = Inr ()" "cr_guardian_epoch (cc3_config_ref c2) \<noteq> 1"
    and "cc3_predecessor_capsule_hash c1 = cc3_predecessor_capsule_hash c2"
    and "length (card3_witnesses rcard) = 3 * unat (card3_witness_fault_bound rcard) + 1"
    and few: "card (pinned_ids rcard - correct) \<le> unat (card3_witness_fault_bound rcard)"
    and runs: "\<forall>w \<in> correct. service_ok hx (start w) \<and>
      run_log (witness_serve cp hx Saved) (start w) (calls w) = (log w, final w)"
    and unforgeable: "\<forall>w \<in> correct. \<forall>pin \<in> set (card3_witnesses rcard). wp_witness_id pin = w \<longrightarrow>
      (\<forall>t sig. verify cp (wp_public_key pin) t sig = Inr () \<longrightarrow> t \<in> signed_by_node (log w))"
  shows "cc3_capsule_hash c1 = cc3_capsule_hash c2 \<or>
    (\<exists>w \<in> correct. \<exists>now cfg ce a. (WCancelRotation now cfg ce, Inr (CancelAcked a)) \<in> set (log w) \<and>
       rx_predecessor_capsule_hash (orcc_context ce) = cc3_predecessor_capsule_hash c1)"
proof (cases "cc3_capsule_hash c1 = cc3_capsule_hash c2")
  case False
  obtain qc1 b1 where 1: "epoch_activation_qc qc1 = Inr b1" "qc_config_id qc1 = card3_config_id rcard"
    "qc_predecessor_capsule_hash qc1 = cc3_predecessor_capsule_hash c1"
    "qc_successor_capsule_hash qc1 = cc3_capsule_hash c1"
    "\<forall>ack \<in> set (qc_witness_acks qc1). signed_ack cp rcard ack"
    "2 * unat (card3_witness_fault_bound rcard) + 1 \<le> card (waa_witness_id ` set (qc_witness_acks qc1))"
    by (rule activated_successor [OF assms(2,3)])
  obtain qc2 b2 where 2: "epoch_activation_qc qc2 = Inr b2" "qc_config_id qc2 = card3_config_id rcard"
    "qc_predecessor_capsule_hash qc2 = cc3_predecessor_capsule_hash c2"
    "qc_successor_capsule_hash qc2 = cc3_capsule_hash c2"
    "\<forall>ack \<in> set (qc_witness_acks qc2). signed_ack cp rcard ack"
    "2 * unat (card3_witness_fault_bound rcard) + 1 \<le> card (waa_witness_id ` set (qc_witness_acks qc2))"
    by (rule activated_successor [OF assms(4,5)])
  have sub: "waa_witness_id ` set (qc_witness_acks qc1) \<subseteq> pinned_ids rcard"
    "waa_witness_id ` set (qc_witness_acks qc2) \<subseteq> pinned_ids rcard"
    using 1(5) 2(5) signed_ack_id by blast+
  have size: "card (pinned_ids rcard) = 3 * unat (card3_witness_fault_bound rcard) + 1"
    using card_pinned_ids [OF activated_card [OF assms(2)]] assms(7) by simp
  obtain w where w: "w \<in> waa_witness_id ` set (qc_witness_acks qc1)"
    "w \<in> waa_witness_id ` set (qc_witness_acks qc2)" "w \<in> correct"
    by (rule pinned.quorums_share_correct [OF size sub(1) 1(6) sub(2) 2(6) few])
  from w(1) obtain a1 where a1: "a1 \<in> set (qc_witness_acks qc1)" "waa_witness_id a1 = w" by auto
  from w(2) obtain a2 where a2: "a2 \<in> set (qc_witness_acks qc2)" "waa_witness_id a2 = w" by auto
  from runs w(3) have ok: "service_ok hx (start w)"
    and run: "run_log (witness_serve cp hx Saved) (start w) (calls w) = (log w, final w)" by blast+
  have un: "\<forall>pin \<in> set (card3_witnesses rcard). wp_witness_id pin = w \<longrightarrow>
      (\<forall>t sig. verify cp (wp_public_key pin) t sig = Inr () \<longrightarrow> t \<in> signed_by_node (log w))"
    using unforgeable w(3) by blast
  let ?cfg = "hx (card3_config_id rcard)" and ?h = "cc3_predecessor_capsule_hash c1"
  obtain rq1 x1 where "(WActivate (hx (cr_config_id (rx_config_ref (waa_context a1)))) rq1, Inr (Acked x1)) \<in> set (log w)"
    "waa_predecessor_capsule_hash x1 = waa_predecessor_capsule_hash a1"
    "waa_successor_capsule_hash x1 = waa_successor_capsule_hash a1"
    by (rule unforged_ack [OF ok run bspec [OF 1(5) a1(1)]]) (use un a1(2) in simp)
  note x1 = this [unfolded qc_binds_acks [OF 1(1) a1(1)] 1(2-4)]
  obtain rq2 x2 where "(WActivate (hx (cr_config_id (rx_config_ref (waa_context a2)))) rq2, Inr (Acked x2)) \<in> set (log w)"
    "waa_predecessor_capsule_hash x2 = waa_predecessor_capsule_hash a2"
    "waa_successor_capsule_hash x2 = waa_successor_capsule_hash a2"
    by (rule unforged_ack [OF ok run bspec [OF 2(5) a2(1)]]) (use un a2(2) in simp)
  note x2 = this [unfolded qc_binds_acks [OF 2(1) a2(1)] 2(2-4) assms(6) [symmetric]]
  have "\<exists>(op, r) \<in> set (log w). cancel_revoke hx op r = Some (?cfg, hx ?h)"
    by (rule node.grants_agree_unless_revoked [OF run ok x1(1) _ x2(1) _ False]) (simp_all add: x1 x2)
  then show ?thesis using w(3) assms(1) by (fastforce simp: cancel_revoke_iff inj_eq)
qed simp

section \<open>Acknowledgements that were never saved\<close>

text \<open>A new activation hands its reply to the save whatever comes of it.\<close>

lemma activate_new_outcome:
  assumes "activate_new cp hx Saved cfg rq h h' entry self = (Inr a, s1)"
  shows "\<exists>p e2. s1 = saved cfg e2 self \<and> wce_pending_capsule e2 = Some p \<and> cc3_capsule_hash p = cc3_capsule_hash (war_capsule rq) \<and>
    wce_pending_ack e2 = Some a \<and> wce_rotation_cancellations e2 = wce_rotation_cancellations entry \<and>
    waa_predecessor_capsule_hash a = cc3_capsule_hash (wce_capsule entry) \<and> waa_successor_capsule_hash a = h \<and>
    (\<forall>outcome. activate_new cp hx outcome cfg rq h h' entry self = save_then outcome (put_entry cfg e2 self) (Inr a))"
proof -
  let ?u = "unsigned_ack cp (idk_kem_seed (wss_identity self)) entry rq h' h"
  obtain reg t where reg: "persist_successor_before_ack hx (cc3_config_ref (wce_capsule entry)) (cc3_capsule_hash (wce_capsule entry))
      (cc3_config_ref (war_capsule rq)) (cc3_capsule_hash (war_capsule rq)) (wce_register entry) = (Inr (), reg)"
    and t: "witness_activation_ack ?u = Inr t" and a: "a = ?u \<lparr> waa_witness_signature := sign cp (idk_kem_seed (wss_identity self)) t \<rparr>"
    and s1: "s1 = saved cfg (pending_entry entry reg rq a) self"
    using assms unfolding activate_new_def Let_def
    by (auto simp: attempt_eq pending_entry_def split: if_splits prod.splits sum.splits)
  have "activate_new cp hx outcome cfg rq h h' entry self = save_then outcome (put_entry cfg (pending_entry entry reg rq a) self) (Inr a)"
    for outcome
    using assms unfolding activate_new_def Let_def
    by (auto simp: attempt_def map_err_def reg t a pending_entry_def split: if_splits sum.splits)
  with s1 a show ?thesis
    by (intro exI [of _ "(war_capsule rq) \<lparr> cc3_activation_certificate := Some (war_activation_certificate rq), cc3_activation_qc := None \<rparr>"]
        exI [of _ "pending_entry entry reg rq a"]) (simp add: pending_entry_def unsigned_ack_def)
qed

text \<open>The checks of an activation before it looks at the entry, as one condition.\<close>

lemma activate_passes:
  assumes "bt_get (wss_data self) cfg = Some entry" and "wce_pending_capsule entry = None"
    and "witness_activate cp hx Saved cfg rq self = (Inr a, s1)"
  obtains h' where "activate_new cp hx Saved cfg rq (cc3_capsule_hash (war_capsule rq)) h' entry self = (Inr a, s1)"
    and "\<And>outcome self' e'. bt_get (wss_data self') cfg = Some e' \<Longrightarrow>
      wce_rotation_cancellations e' = wce_rotation_cancellations entry \<Longrightarrow>
      witness_activate cp hx outcome cfg rq self' = (case wce_pending_capsule e' of
        Some pending \<Rightarrow>
          (if cc3_capsule_hash pending = cc3_capsule_hash (war_capsule rq)
           then (ok_or (wce_pending_ack e') (bad_request (Text ''pending witness write has no durable ack'')), self')
           else (Inl (bad_request (Text ''witness is already locked to another successor'')), self'))
      | None \<Rightarrow> activate_new cp hx outcome cfg rq (cc3_capsule_hash (war_capsule rq)) h' e' self')"
proof -
  from assms obtain body t where
    c: "hx (cr_config_id (cc3_config_ref (war_capsule rq))) = cfg" "config_capsule_body_v3 (war_capsule rq) = Inr body"
      "sha256 cp body = cc3_capsule_hash (war_capsule rq)"
      "rac_successor (war_activation_certificate rq) = cc3_config_ref (war_capsule rq)"
      "rac_successor_capsule_hash (war_activation_certificate rq) = sha256 cp body"
      "cc3_predecessor_capsule_hash (war_capsule rq) = rx_predecessor_capsule_hash (rac_context (war_activation_certificate rq))"
      "\<not> bt_contains_key (wce_rotation_cancellations entry) (hx (rx_rotation_id (rac_context (war_activation_certificate rq))))"
    and t: "rotation_activate_certificate (war_activation_certificate rq) = Inr t"
    and new: "activate_new cp hx Saved cfg rq (cc3_capsule_hash (war_capsule rq)) (sha256 cp t) entry self = (Inr a, s1)"
    unfolding witness_activate_def Let_def by (auto simp: attempt_eq split: if_splits)
  show thesis
  proof (rule that [OF new])
    fix outcome and self' :: WitnessServerState and e'
    assume "bt_get (wss_data self') cfg = Some e'" "wce_rotation_cancellations e' = wce_rotation_cancellations entry"
    with c t show "witness_activate cp hx outcome cfg rq self' = (case wce_pending_capsule e' of
        Some pending \<Rightarrow>
          (if cc3_capsule_hash pending = cc3_capsule_hash (war_capsule rq)
           then (ok_or (wce_pending_ack e') (bad_request (Text ''pending witness write has no durable ack'')), self')
           else (Inl (bad_request (Text ''witness is already locked to another successor'')), self'))
      | None \<Rightarrow> activate_new cp hx outcome cfg rq (cc3_capsule_hash (war_capsule rq)) (sha256 cp t) e' self')"
      by (simp add: witness_activate_def Let_def attempt_def map_err_def ok_or_def cong: option.case_cong)
  qed
qed

lemma activate_outcomes:
  assumes "service_ok hx self" and "bt_get (wss_data self) cfg = Some entry" and "wce_pending_capsule entry = None"
    and "witness_activate cp hx Saved cfg rq self = (Inr a, s1)"
  obtains s3 where "witness_activate cp hx FailedBeforeRename cfg rq self = (Inl (bad_request OfSave), s3)" "load s3 = self"
    and "\<And>outcome. witness_activate cp hx outcome cfg rq s3 = (Inr a, s3)"
    and "\<And>outcome. witness_activate cp hx outcome cfg rq s1 = (Inr a, s1)" "load s1 = s1"
    and "\<And>outcome rq' a' s2. witness_activate cp hx Saved cfg rq' self = (Inr a', s2) \<Longrightarrow>
      cc3_capsule_hash (war_capsule rq') \<noteq> cc3_capsule_hash (war_capsule rq) \<Longrightarrow>
      witness_activate cp hx outcome cfg rq' s1 = (Inl (bad_request (Text ''witness is already locked to another successor'')), s1)"
    and "waa_predecessor_capsule_hash a = cc3_capsule_hash (wce_capsule entry)"
      "waa_successor_capsule_hash a = cc3_capsule_hash (war_capsule rq)"
proof -
  from activate_passes [OF assms(2-4)] obtain h' where n: "activate_new cp hx Saved cfg rq (cc3_capsule_hash (war_capsule rq)) h' entry self = (Inr a, s1)"
    and passes: "\<And>outcome self' e'. bt_get (wss_data self') cfg = Some e' \<Longrightarrow>
      wce_rotation_cancellations e' = wce_rotation_cancellations entry \<Longrightarrow>
      witness_activate cp hx outcome cfg rq self' = (case wce_pending_capsule e' of
        Some pending \<Rightarrow>
          (if cc3_capsule_hash pending = cc3_capsule_hash (war_capsule rq)
           then (ok_or (wce_pending_ack e') (bad_request (Text ''pending witness write has no durable ack'')), self')
           else (Inl (bad_request (Text ''witness is already locked to another successor'')), self'))
      | None \<Rightarrow> activate_new cp hx outcome cfg rq (cc3_capsule_hash (war_capsule rq)) h' e' self')" by blast
  from activate_new_outcome [OF n] obtain p e2 where e2: "s1 = saved cfg e2 self" "wce_pending_capsule e2 = Some p"
    "cc3_capsule_hash p = cc3_capsule_hash (war_capsule rq)" "wce_pending_ack e2 = Some a"
    "wce_rotation_cancellations e2 = wce_rotation_cancellations entry"
    and hashes: "waa_predecessor_capsule_hash a = cc3_capsule_hash (wce_capsule entry)"
      "waa_successor_capsule_hash a = cc3_capsule_hash (war_capsule rq)"
    and any: "\<And>outcome. activate_new cp hx outcome cfg rq (cc3_capsule_hash (war_capsule rq)) h' entry self =
      save_then outcome (put_entry cfg e2 self) (Inr a)" by blast
  let ?s3 = "put_entry cfg e2 self"
  have s3: "bt_get (wss_data ?s3) cfg = Some e2" and s1: "bt_get (wss_data s1) cfg = Some e2"
    by (simp_all add: put_entry_def e2(1) saved_def)
  have failed: "witness_activate cp hx FailedBeforeRename cfg rq self = (Inl (bad_request OfSave), ?s3)"
    by (simp add: passes [OF assms(2) HOL.refl] assms(3) any save_then_def save_def)
  have restart: "load ?s3 = self" using assms(1) by (simp add: load_def put_entry_def service_ok_def)
  have again: "witness_activate cp hx outcome cfg rq ?s3 = (Inr a, ?s3)" "witness_activate cp hx outcome cfg rq s1 = (Inr a, s1)" for outcome
    by (simp_all add: passes [OF s3 e2(5)] passes [OF s1 e2(5)] e2(2-4) ok_or_def)
  have durable: "load s1 = s1" by (simp add: e2(1) load_def saved_def)
  have locked: "witness_activate cp hx outcome cfg rq' s1 = (Inl (bad_request (Text ''witness is already locked to another successor'')), s1)"
    if "witness_activate cp hx Saved cfg rq' self = (Inr a', s2)" "cc3_capsule_hash (war_capsule rq') \<noteq> cc3_capsule_hash (war_capsule rq)"
    for outcome rq' a' s2
    using that(2) by (rule_tac activate_passes [OF assms(2,3) that(1)]) (simp add: s1 e2(2,3,5))
  show thesis by (rule that [OF failed restart again durable locked hashes])
qed

definition run_results ::
    "primitives \<Rightarrow> (Id32 \<Rightarrow> string) \<Rightarrow> WitnessServerState \<Rightarrow> (save_outcome \<times> witness_call) list \<Rightarrow> (ApiError, witness_reply) result list"
where
  "run_results cp hx self calls = map snd (fst (run_log (\<lambda>(outcome, call). witness_serve cp hx outcome call) self calls))"

text \<open>C40: an activation whose save fails loses its acknowledgement. Take a witness whose file agrees
  with its memory and that has no pending successor, and two requests for different successors that it would each
  acknowledge. If the save of the first fails before the rename, the caller gets an error, but the
  retry hands out the acknowledgement whatever happens to the file, and after a restart the second
  successor of the same predecessor is acknowledged too. Had the first save succeeded, the same
  calls would end with the second successor refused.\<close>

theorem failed_save_loses_ack:
  assumes "service_ok hx self" and "bt_get (wss_data self) cfg = Some entry" and "wce_pending_capsule entry = None"
    and "witness_activate cp hx Saved cfg rq self = (Inr a, s1)" and "witness_activate cp hx Saved cfg rq' self = (Inr a', s2)"
    and "cc3_capsule_hash (war_capsule rq) \<noteq> cc3_capsule_hash (war_capsule rq')"
  shows "waa_predecessor_capsule_hash a = waa_predecessor_capsule_hash a' \<and>
    waa_successor_capsule_hash a \<noteq> waa_successor_capsule_hash a' \<and>
    run_results cp hx self [(FailedBeforeRename, WActivate cfg rq), (outcome, WActivate cfg rq), (outcome', WRestart), (Saved, WActivate cfg rq')] =
      [Inl (bad_request OfSave), Inr (Acked a), Inr Restarted, Inr (Acked a')] \<and>
    run_results cp hx self [(Saved, WActivate cfg rq), (outcome, WActivate cfg rq), (outcome', WRestart), (Saved, WActivate cfg rq')] =
      [Inr (Acked a), Inr (Acked a), Inr Restarted, Inl (bad_request (Text ''witness is already locked to another successor''))]"
proof -
  obtain s3 where first: "witness_activate cp hx FailedBeforeRename cfg rq self = (Inl (bad_request OfSave), s3)" "load s3 = self"
    "witness_activate cp hx outcome cfg rq s3 = (Inr a, s3)"
    "witness_activate cp hx outcome cfg rq s1 = (Inr a, s1)" "load s1 = s1"
    "witness_activate cp hx Saved cfg rq' s1 = (Inl (bad_request (Text ''witness is already locked to another successor'')), s1)"
    "waa_predecessor_capsule_hash a = cc3_capsule_hash (wce_capsule entry)"
    "waa_successor_capsule_hash a = cc3_capsule_hash (war_capsule rq)"
    using activate_outcomes [OF assms(1-4)] assms(5,6) by metis
  have "waa_predecessor_capsule_hash a' = cc3_capsule_hash (wce_capsule entry)"
    "waa_successor_capsule_hash a' = cc3_capsule_hash (war_capsule rq')"
    using activate_outcomes [OF assms(1-3,5)] by metis+
  with first assms(4-6) show ?thesis by (simp add: run_results_def reply_with_def)
qed

section \<open>A concrete witness node\<close>

definition fx_entry :: "primitives \<Rightarrow> (string, WitnessRotationCancellation) btree_map \<Rightarrow> u16 \<Rightarrow> WitnessConfigEntry" where
  "fx_entry cp cs i = \<lparr> wce_witness_id = i,
     wce_register = WitnessEpochStore_new (fx_ref 1 1) (cc3_capsule_hash (fx_genesis cp)),
     wce_capsule = fx_genesis cp, wce_pending_capsule = None, wce_pending_ack = None,
     wce_rotation_cancellations = cs, wce_signer_public_keys = [(1, 33)],
     wce_witness_public_keys = [(1, 1), (2, 2), (3, 3), (4, 4)], wce_witness_fault_bound = 1 \<rparr>"

definition fx_node :: "(Id32 \<Rightarrow> string) \<Rightarrow> u16 \<Rightarrow> WitnessConfigEntry \<Rightarrow> WitnessServerState" where
  "fx_node hx i e = \<lparr> wss_identity = \<lparr> idk_node_id = ''w'', idk_kem_seed = ucast i \<rparr>, wss_admin_token = ''t'',
     wss_data = [(hx 1, e)], wss_file = [(hx 1, e)] \<rparr>"

definition fx_request :: "primitives \<Rightarrow> Id32 \<Rightarrow> WitnessActivationRequest" where
  "fx_request cp b = \<lparr> war_capsule = (fx_succ cp b) \<lparr> cc3_capsule_hash := fx_succ_hash cp b \<rparr>,
     war_activation_certificate = fx_cert cp b \<rparr>"

definition fx_stored :: "primitives \<Rightarrow> Id32 \<Rightarrow> ConfigCapsuleV3" where
  "fx_stored cp b = (fx_succ cp b) \<lparr> cc3_capsule_hash := fx_succ_hash cp b,
     cc3_activation_certificate := Some (fx_cert cp b) \<rparr>"

lemma fx_node_ok: "i \<noteq> 0 \<Longrightarrow> service_ok hx (fx_node hx i (fx_entry cp cs i))"
  by (auto simp: service_ok_def fx_node_def entry_ok_def fx_entry_def fx_genesis_def fx_body_def fx_ref_def
      split: if_splits)

lemma fx_new_ack: "unsigned_ack cp (ucast i) (fx_entry cp cs i) (fx_request cp b) 
    (fx_hash cp (rotation_activate_certificate (fx_cert cp b))) (fx_succ_hash cp b) = fx_ack cp b i"
  if "verifying_key_bytes cp (ucast i) = ucast i"
  by (simp add: that unsigned_ack_def fx_ack_def fx_request_def fx_cert_def fx_entry_def fx_genesis_def fx_body_def
      fx_succ_def fx_ref_def)

lemma fx_votes: "check_activate_votes cp [(1, 33)] (rac_votes (fx_cert cp b)) = Inr ()"
  if "\<And>t s. verify cp 33 t s = Inr ()"
  using fx_vote_ok [of cp b] that
  by (auto simp: fx_cert_def map_err_def fx_vote_def [of cp b, THEN arg_cong [where f = srav_signer_id]]
        fx_vote_def [of cp b, THEN arg_cong [where f = srav_signer_public_key]])

definition fx_locked :: "primitives \<Rightarrow> (Id32 \<Rightarrow> string) \<Rightarrow> (string, WitnessRotationCancellation) btree_map \<Rightarrow> Id32 \<Rightarrow> u16 \<Rightarrow> WitnessConfigEntry" where
  "fx_locked cp hx cs b i = (fx_entry cp cs i) \<lparr>
     wce_register := (wce_register (fx_entry cp cs i)) \<lparr>
       wes_predecessor_locks := [(hx (cc3_capsule_hash (fx_genesis cp)), fx_succ_hash cp b)],
       wes_highest_guardian_epoch := 2, wes_highest_capsule_hash := fx_succ_hash cp b \<rparr>,
     wce_pending_capsule := Some (fx_stored cp b), wce_pending_ack := Some (fx_ack cp b i) \<rparr>"

lemma fx_activate:
  assumes key: "\<And>t s. verify cp 33 t s = Inr ()" and pub: "\<And>k. verifying_key_bytes cp k = k"
    and sign: "\<And>k t. sign cp k t = []" and "b \<noteq> 1" and "bt_get cs (hx b) = None"
  shows "witness_activate cp hx out (hx 1) (fx_request cp b) (fx_node hx i (fx_entry cp cs i)) =
    save_then out (put_entry (hx 1) (fx_locked cp hx cs b i) (fx_node hx i (fx_entry cp cs i))) (Inr (fx_ack cp b i))"
proof -
  obtain t where t: "config_capsule_body_v3 (fx_succ cp b) = Inr t" using fx_body_ok unfolding fx_succ_def by blast
  obtain c where c: "rotation_activate_certificate (fx_cert cp b) = Inr c" using fx_cert_ok by blast
  obtain a where a: "witness_activation_ack (fx_ack cp b i) = Inr a" using fx_ack_ok by blast
  have rq: "war_capsule (fx_request cp b) = (fx_succ cp b) \<lparr> cc3_capsule_hash := fx_succ_hash cp b \<rparr>"
    "war_activation_certificate (fx_request cp b) = fx_cert cp b" by (simp_all add: fx_request_def)
  have cert: "rac_successor (fx_cert cp b) = fx_ref 2 b" "rac_successor_capsule_hash (fx_cert cp b) = fx_succ_hash cp b"
    "rac_context (fx_cert cp b) = fx_ctx cp b" "rac_votes (fx_cert cp b) \<noteq> []" by (simp_all add: fx_cert_def)
  have succ: "cc3_config_ref (fx_succ cp b) = fx_ref 2 b"
     "cc3_predecessor_capsule_hash (fx_succ cp b) = cc3_capsule_hash (fx_genesis cp)"
     "cc3_signer_count (fx_succ cp b) = 1" "cc3_signer_threshold (fx_succ cp b) = 1"
     "cc3_signer_set_commitment (fx_succ cp b) = 20" "cc3_owner_cancel_public_key (fx_succ cp b) = 21"
     "cc3_minimum_recovery_delay (fx_succ cp b) = 10" "cc3_max_request_lifetime (fx_succ cp b) = 100"
     "cc3_dpss_suite (fx_succ cp b) = ZfFrostRistretto255RtsRefreshV1" "cc3_activation_qc (fx_succ cp b) = None"
    by (simp_all add: fx_succ_def fx_body_def)
  have gen: "cc3_config_ref (fx_genesis cp) = fx_ref 1 1"
     "cc3_signer_count (fx_genesis cp) = 1" "cc3_signer_threshold (fx_genesis cp) = 1"
     "cc3_signer_set_commitment (fx_genesis cp) = 20" "cc3_owner_cancel_public_key (fx_genesis cp) = 21"
     "cc3_minimum_recovery_delay (fx_genesis cp) = 10" "cc3_max_request_lifetime (fx_genesis cp) = 100"
     "cc3_dpss_suite (fx_genesis cp) = ZfFrostRistretto255RtsRefreshV1"
    by (simp_all add: fx_genesis_def fx_body_def)
  have ctx: "rx_config_ref (fx_ctx cp b) = fx_ref 1 1" "rx_predecessor_capsule_hash (fx_ctx cp b) = cc3_capsule_hash (fx_genesis cp)"
    "rx_rotation_id (fx_ctx cp b) = b" by (simp_all add: fx_ctx_def)
  have hash: "fx_succ_hash cp b = sha256 cp t" by (simp add: fx_succ_hash_def fx_hash_def t)
  have entry: "bt_get (wss_data (fx_node hx i (fx_entry cp cs i))) (hx 1) = Some (fx_entry cp cs i)" "idk_kem_seed (wss_identity (fx_node hx i (fx_entry cp cs i))) = ucast i"
    by (simp_all add: fx_node_def)
  have e: "wce_capsule (fx_entry cp cs i) = fx_genesis cp" "wce_pending_capsule (fx_entry cp cs i) = None"
    "wce_rotation_cancellations (fx_entry cp cs i) = cs" "wce_signer_public_keys (fx_entry cp cs i) = [(1, 33)]"
    "wce_register (fx_entry cp cs i) = WitnessEpochStore_new (fx_ref 1 1) (cc3_capsule_hash (fx_genesis cp))"
    by (simp_all add: fx_entry_def)
  have reg: "persist_successor_before_ack hx (fx_ref 1 1) (cc3_capsule_hash (fx_genesis cp)) (fx_ref 2 b) (fx_succ_hash cp b)
      (WitnessEpochStore_new (fx_ref 1 1) (cc3_capsule_hash (fx_genesis cp))) =
      (Inr (), (WitnessEpochStore_new (fx_ref 1 1) (cc3_capsule_hash (fx_genesis cp))) \<lparr>
       wes_predecessor_locks := [(hx (cc3_capsule_hash (fx_genesis cp)), fx_succ_hash cp b)],
       wes_highest_guardian_epoch := 2, wes_highest_capsule_hash := fx_succ_hash cp b \<rparr>)"
    by (simp add: persist_successor_before_ack_def is_direct_successor_of_def fx_ref_def WitnessEpochStore_new_def saturating_add_def assms(4))
  have stored: "(fx_succ cp b) \<lparr> cc3_capsule_hash := fx_succ_hash cp b, cc3_activation_certificate := Some (fx_cert cp b),
      cc3_activation_qc := None \<rparr> = fx_stored cp b"
    by (simp add: fx_stored_def fx_succ_def fx_body_def)
  have ack: "unsigned_ack cp (ucast i) (fx_entry cp cs i) (fx_request cp b) (sha256 cp c) (fx_succ_hash cp b) = fx_ack cp b i"
    using fx_new_ack [OF pub, of i cs b] by (simp add: fx_hash_def c)
  have sg: "(fx_ack cp b i) \<lparr> waa_witness_signature := [] \<rparr> = fx_ack cp b i" by (simp add: fx_ack_def)
  have "activate_new cp hx out (hx 1) (fx_request cp b) (fx_succ_hash cp b) (sha256 cp c) (fx_entry cp cs i) (fx_node hx i (fx_entry cp cs i)) =
    save_then out (put_entry (hx 1) (fx_locked cp hx cs b i) (fx_node hx i (fx_entry cp cs i))) (Inr (fx_ack cp b i))"
    by (simp add: activate_new_def rq cert succ gen ctx e entry reg ack a sg sign stored fx_votes [OF key] map_err_def
        attempt_def Let_def fx_locked_def)
  then show ?thesis
    by (simp add: witness_activate_def rq succ t cert ctx entry e attempt_def map_err_def c hash fx_ref_def ok_or_def assms(5))
qed

lemma fx_node_saved [simp]: "saved (hx 1) e' (fx_node hx i e) = fx_node hx i e'"
  by (simp add: saved_def fx_node_def)

lemma fx_retry:
  assumes "bt_get cs (hx b) = None" and "bt_get (wss_data self) (hx 1) = Some (fx_locked cp hx cs b i)"
  shows "witness_activate cp hx out (hx 1) (fx_request cp b) self = (Inr (fx_ack cp b i), self)"
proof -
  obtain t where t: "config_capsule_body_v3 (fx_succ cp b) = Inr t" using fx_body_ok unfolding fx_succ_def by blast
  obtain c where c: "rotation_activate_certificate (fx_cert cp b) = Inr c" using fx_cert_ok by blast
  have "fx_succ_hash cp b = sha256 cp t" by (simp add: fx_succ_hash_def fx_hash_def t)
  moreover have "cc3_config_ref (fx_succ cp b) = fx_ref 2 b" "cr_config_id (fx_ref 2 b) = 1"
    "cc3_predecessor_capsule_hash (fx_succ cp b) = cc3_capsule_hash (fx_genesis cp)"
    by (simp_all add: fx_succ_def fx_body_def fx_ref_def)
  moreover have "wce_rotation_cancellations (fx_locked cp hx cs b i) = cs"
    "wce_pending_capsule (fx_locked cp hx cs b i) = Some (fx_stored cp b)"
    "wce_pending_ack (fx_locked cp hx cs b i) = Some (fx_ack cp b i)"
    "cc3_capsule_hash (fx_stored cp b) = fx_succ_hash cp b"
    by (simp_all add: fx_locked_def fx_entry_def fx_stored_def)
  moreover have "rac_successor (fx_cert cp b) = fx_ref 2 b" "rac_successor_capsule_hash (fx_cert cp b) = fx_succ_hash cp b"
    "rx_predecessor_capsule_hash (rac_context (fx_cert cp b)) = cc3_capsule_hash (fx_genesis cp)"
    "rx_rotation_id (rac_context (fx_cert cp b)) = b"
    by (simp_all add: fx_cert_def fx_ctx_def)
  ultimately show ?thesis
    by (simp add: witness_activate_def fx_request_def t c attempt_def map_err_def assms ok_or_def)
qed

definition fx_cancel :: "primitives \<Rightarrow> Id32 \<Rightarrow> OwnerRotationCancelCertificate" where
  "fx_cancel cp b = \<lparr> orcc_context = fx_ctx cp b, orcc_plan_hash = 31, orcc_reason_code = 1,
     orcc_cancel_response_recipient_key = replicate XWING_PUBLIC_KEY_LEN 0,
     orcc_owner_cancel_public_key = 21, orcc_owner_signature = [] \<rparr>"

definition fx_cancel_hash :: "primitives \<Rightarrow> Id32 \<Rightarrow> Id32" where
  "fx_cancel_hash cp b = fx_hash cp (owner_rotation_cancel_certificate (fx_cancel cp b))"

definition fx_cancelled :: "primitives \<Rightarrow> (Id32 \<Rightarrow> string) \<Rightarrow> Id32 \<Rightarrow> (string, WitnessRotationCancellation) btree_map" where
  "fx_cancelled cp hx b = [(hx b, \<lparr> wrc_plan_hash = 31, wrc_cancel_certificate_hash = fx_cancel_hash cp b \<rparr>)]"

definition fx_cancel_ack :: "primitives \<Rightarrow> Id32 \<Rightarrow> u16 \<Rightarrow> WitnessRotationCancelAck" where
  "fx_cancel_ack cp b i = \<lparr> wrca_protocol_version = 3, wrca_config_id = 1, wrca_rotation_id = b, wrca_plan_hash = 31,
     wrca_cancel_certificate_hash = fx_cancel_hash cp b, wrca_witness_id = i, wrca_witness_public_key = ucast i,
     wrca_witness_signature = [] \<rparr>"

lemma fx_cancel_ok: "\<exists>t. owner_rotation_cancel_certificate (fx_cancel cp b) = Inr t"
  by (simp add: owner_rotation_cancel_certificate_def fx_cancel_def fx_ctx_def fx_ref_def fx_wire XWING_PUBLIC_KEY_LEN_def)

lemma fx_cancel_run:
  assumes key: "\<And>t s. verify cp 21 t s = Inr ()" and pub: "\<And>k. verifying_key_bytes cp k = k"
    and sign: "\<And>k t. sign cp k t = []" and "b \<noteq> 1" "i \<noteq> 0"
  shows "witness_cancel_rotation cp hx Saved (Some 5) (hx 1) (fx_cancel cp b) (fx_node hx i (fx_locked cp hx [] b i)) =
    (Inr (fx_cancel_ack cp b i), fx_node hx i (fx_entry cp (fx_cancelled cp hx b) i))"
proof -
  obtain t where t: "owner_rotation_cancel_certificate (fx_cancel cp b) = Inr t" using fx_cancel_ok by blast
  have h: "sha256 cp t = fx_cancel_hash cp b" by (simp add: fx_cancel_hash_def fx_hash_def t)
  have ca: "orcc_context (fx_cancel cp b) = fx_ctx cp b" "orcc_plan_hash (fx_cancel cp b) = 31"
    "length (orcc_cancel_response_recipient_key (fx_cancel cp b)) = XWING_PUBLIC_KEY_LEN"
    "orcc_owner_cancel_public_key (fx_cancel cp b) = 21" by (simp_all add: fx_cancel_def)
  have ctx: "rx_config_ref (fx_ctx cp b) = fx_ref 1 1" "rx_predecessor_capsule_hash (fx_ctx cp b) = cc3_capsule_hash (fx_genesis cp)"
    "rx_rotation_id (fx_ctx cp b) = b" "rx_protocol_version (fx_ctx cp b) = PROTOCOL_VERSION_V3"
    "rx_issued_at (fx_ctx cp b) = 1" "rx_expiry (fx_ctx cp b) = 1000" "cr_config_id (fx_ref 1 1) = 1"
    by (simp_all add: fx_ctx_def PROTOCOL_VERSION_V3_def fx_ref_def)
  have e: "wce_capsule (fx_locked cp hx [] b i) = fx_genesis cp" "wce_rotation_cancellations (fx_locked cp hx [] b i) = []"
    "cc3_owner_cancel_public_key (fx_genesis cp) = 21" "cc3_config_ref (fx_genesis cp) = fx_ref 1 1"
    by (simp_all add: fx_locked_def fx_entry_def fx_genesis_def fx_body_def)
  have ce: "cancel_entry hx (fx_cancel cp b) (fx_cancel_hash cp b) (fx_locked cp hx [] b i) =
      Inr (fx_entry cp (fx_cancelled cp hx b) i)"
  proof -
    let ?g = "cc3_capsule_hash (fx_genesis cp)" and ?new = "WitnessEpochStore_new (fx_ref 1 1) (cc3_capsule_hash (fx_genesis cp))"
    have reg: "cancel_pending_successor hx 1 ?g 2 (fx_succ_hash cp b) (?new \<lparr>
       wes_predecessor_locks := [(hx ?g, fx_succ_hash cp b)], wes_highest_guardian_epoch := 2,
       wes_highest_capsule_hash := fx_succ_hash cp b \<rparr>) = (Inr (), ?new)"
      by (simp add: cancel_pending_successor_def saturating_add_def WitnessEpochStore_new_def fx_ref_def bt_remove_def)
    have st: "cc3_activation_certificate (fx_stored cp b) = Some (fx_cert cp b)" "cc3_config_ref (fx_stored cp b) = fx_ref 2 b"
      "cc3_predecessor_capsule_hash (fx_stored cp b) = ?g" "cc3_capsule_hash (fx_stored cp b) = fx_succ_hash cp b"
      "cr_guardian_epoch (fx_ref 2 b) = 2" "cr_guardian_epoch (fx_ref 1 1) = 1"
      by (simp_all add: fx_stored_def fx_succ_def fx_body_def fx_ref_def)
    have "rac_context (fx_cert cp b) = fx_ctx cp b" "rac_plan_hash (fx_cert cp b) = 31" by (simp_all add: fx_cert_def)
    moreover have "wce_pending_capsule (fx_locked cp hx [] b i) = Some (fx_stored cp b)"
      "wce_register (fx_locked cp hx [] b i) = ?new \<lparr>
       wes_predecessor_locks := [(hx ?g, fx_succ_hash cp b)], wes_highest_guardian_epoch := 2,
       wes_highest_capsule_hash := fx_succ_hash cp b \<rparr>"
      "(fx_locked cp hx [] b i) \<lparr> wce_register := ?new, wce_pending_capsule := None, wce_pending_ack := None,
        wce_rotation_cancellations := fx_cancelled cp hx b \<rparr> = fx_entry cp (fx_cancelled cp hx b) i"
      by (simp_all add: fx_locked_def fx_entry_def)
    ultimately show ?thesis
      by (simp add: cancel_entry_def ca ctx e st ok_or_def reg fx_cancelled_def)
  qed
  obtain a where a: "witness_rotation_cancel_ack (fx_cancel_ack cp b i) = Inr a"
    using assms(5) by (simp add: witness_rotation_cancel_ack_def fx_cancel_ack_def fx_wire)
  have "(fx_cancel_ack cp b i) \<lparr> wrca_witness_signature := [] \<rparr> = fx_cancel_ack cp b i" by (simp add: fx_cancel_ack_def)
  moreover have "\<lparr> wrca_protocol_version = PROTOCOL_VERSION_V3, wrca_config_id = 1, wrca_rotation_id = b, wrca_plan_hash = 31,
     wrca_cancel_certificate_hash = fx_cancel_hash cp b, wrca_witness_id = i, wrca_witness_public_key = ucast i,
     wrca_witness_signature = [] \<rparr> = fx_cancel_ack cp b i" by (simp add: fx_cancel_ack_def PROTOCOL_VERSION_V3_def)
  moreover have "wce_witness_id (fx_entry cp cs i) = i" for cs by (simp add: fx_entry_def)
  moreover have "bt_get (wss_data (fx_node hx i x)) (hx 1) = Some x" "idk_kem_seed (wss_identity (fx_node hx i x)) = ucast i" for x
    by (simp_all add: fx_node_def)
  ultimately show ?thesis
    by (simp add: witness_cancel_rotation_def Let_def ctx ca e t h attempt_def map_err_def ok_or_def key ce a pub sign)
qed

section \<open>Applications at concrete runs\<close>

lemma fx_prim_keys [simp]: "verifying_key_bytes fx_prim k = k" "sign fx_prim k t = []"
  by (simp_all add: verifying_key_bytes_def sign_def fx_prim_def)

abbreviation fx_serve :: "witness_call \<Rightarrow> WitnessServerState \<Rightarrow> (ApiError, witness_reply) result \<times> WitnessServerState" where
  "fx_serve \<equiv> witness_serve fx_prim hex_encode Saved"

abbreviation fx_start :: WitnessServerState where
  "fx_start \<equiv> fx_node hex_encode 1 (fx_entry fx_prim [] 1)"

lemma fx_serve_activate:
  assumes "b \<noteq> 1" and "bt_get cs (hex_encode b) = None"
  shows "fx_serve (WActivate (hex_encode 1) (fx_request fx_prim b)) (fx_node hex_encode i (fx_entry fx_prim cs i)) =
    (Inr (Acked (fx_ack fx_prim b i)), fx_node hex_encode i (fx_locked fx_prim hex_encode cs b i))"
  by (simp add: fx_activate [where cp = fx_prim and hx = hex_encode and b = b and cs = cs, OF fx_accepts(1) fx_prim_keys assms] reply_with_def)

lemma fx_serve_cancel:
  assumes "b \<noteq> 1" and "i \<noteq> 0"
  shows "fx_serve (WCancelRotation (Some 5) (hex_encode 1) (fx_cancel fx_prim b))
      (fx_node hex_encode i (fx_locked fx_prim hex_encode [] b i)) =
    (Inr (CancelAcked (fx_cancel_ack fx_prim b i)),
     fx_node hex_encode i (fx_entry fx_prim (fx_cancelled fx_prim hex_encode b) i))"
  by (simp add: fx_cancel_run [where cp = fx_prim and hx = hex_encode and b = b, OF fx_accepts(1) fx_prim_keys assms] reply_with_def)

text \<open>A witness acknowledges rotation 2, then its cancellation, then rotation 3 of the same predecessor.\<close>

abbreviation fx_calls :: "witness_call list" where
  "fx_calls \<equiv> [WActivate (hex_encode 1) (fx_request fx_prim 2),
     WCancelRotation (Some 5) (hex_encode 1) (fx_cancel fx_prim 2), WRestart,
     WActivate (hex_encode 1) (fx_request fx_prim 3)]"

lemma fx_run:
  "run_log fx_serve fx_start fx_calls =
   ([] @ (WActivate (hex_encode 1) (fx_request fx_prim 2), Inr (Acked (fx_ack fx_prim 2 1))) #
     [(WCancelRotation (Some 5) (hex_encode 1) (fx_cancel fx_prim 2), Inr (CancelAcked (fx_cancel_ack fx_prim 2 1))),
      (WRestart, Inr Restarted)] @
     (WActivate (hex_encode 1) (fx_request fx_prim 3), Inr (Acked (fx_ack fx_prim 3 1))) # [],
    fx_node hex_encode 1 (fx_locked fx_prim hex_encode (fx_cancelled fx_prim hex_encode 2) 3 1))"
proof -
  have "bt_get (fx_cancelled fx_prim hex_encode 2) (hex_encode 3) = None" by (simp add: fx_cancelled_def)
  moreover have "fx_serve WRestart (fx_node hex_encode i e) = (Inr Restarted, fx_node hex_encode i e)" for i e
    by (simp add: load_def fx_node_def)
  ultimately show ?thesis
    by (simp del: witness_serve.simps add: Let_def fx_serve_activate fx_serve_cancel)
qed

lemma fx_ack_sel [simp]: "waa_predecessor_capsule_hash (fx_ack fx_prim b i) = 11"
  "waa_successor_capsule_hash (fx_ack fx_prim b i) = fx_succ_hash fx_prim b"
  "rx_rotation_id (waa_context (fx_ack fx_prim b i)) = b"
  by (simp_all add: fx_ack_def fx_hashes fx_ctx_def)

theorem witness_state_durable_witness:
  "service_ok hex_encode (snd (run_log fx_serve fx_start fx_calls)) \<and>
   map snd (fst (run_log fx_serve fx_start fx_calls)) =
     [Inr (Acked (fx_ack fx_prim 2 1)), Inr (CancelAcked (fx_cancel_ack fx_prim 2 1)), Inr Restarted,
      Inr (Acked (fx_ack fx_prim 3 1))]"
  using witness_state_durable [OF fx_node_ok fx_run] unfolding fx_run by simp

theorem witness_node_one_child_witness:
  "\<exists>now ce a. (WCancelRotation now (hex_encode 1) ce, Inr (CancelAcked a)) \<in> set (fst (run_log fx_serve fx_start fx_calls)) \<and>
     rx_predecessor_capsule_hash (orcc_context ce) = 11"
  using witness_node_one_child [OF inj_hex_encode fx_node_ok fx_run] unfolding fx_run by (fastforce simp: fx_hashes)

theorem witness_node_cancel_permanent_witness:
  "rx_rotation_id (waa_context (fx_ack fx_prim 3 1)) \<noteq> rx_rotation_id (orcc_context (fx_cancel fx_prim 2)) \<and>
   (WActivate (hex_encode 1) (fx_request fx_prim 3), Inr (Acked (fx_ack fx_prim 3 1))) \<in> set (fst (run_log fx_serve fx_start fx_calls))"
proof -
  note run = fx_run [THEN trans [where t = "([(WActivate (hex_encode 1) (fx_request fx_prim 2), Inr (Acked (fx_ack fx_prim 2 1)))] @
     (WCancelRotation (Some 5) (hex_encode 1) (fx_cancel fx_prim 2), Inr (CancelAcked (fx_cancel_ack fx_prim 2 1))) #
      [(WRestart, Inr Restarted)] @
     (WActivate (hex_encode 1) (fx_request fx_prim 3), Inr (Acked (fx_ack fx_prim 3 1))) # [],
    fx_node hex_encode 1 (fx_locked fx_prim hex_encode (fx_cancelled fx_prim hex_encode 2) 3 1))"]]
  show ?thesis
    using witness_node_cancel_permanent [OF fx_node_ok run] unfolding fx_run by simp
qed

text \<open>Primitives that accept under the keys of witnesses 1 to 3 only what these witnesses sign: the
  acknowledgement of rotation 2. Witness 4 signs everything.\<close>

definition fx_strict :: primitives where
  "fx_strict = fx_prim \<lparr> dalek_verify := (\<lambda>k t s. k = 33 \<or> k = 4 \<or>
     (\<exists>i \<in> {1, 2, 3}. k = ucast (i :: u16) \<and> witness_activation_ack (fx_ack fx_prim 2 i) = Inr t)) \<rparr>"

lemma fx_strict_same [simp]:
  "fx_genesis fx_strict = fx_genesis fx_prim" "fx_succ fx_strict = fx_succ fx_prim"
  "fx_succ_hash fx_strict = fx_succ_hash fx_prim" "fx_ctx fx_strict = fx_ctx fx_prim" "fx_ack fx_strict = fx_ack fx_prim"
proof -
  have h: "fx_hash fx_strict = fx_hash fx_prim"
    by (rule ext) (simp add: fx_hash_def fx_strict_def sha256_def split: sum.split)
  show g: "fx_genesis fx_strict = fx_genesis fx_prim" by (simp add: fx_genesis_def h)
  show s: "fx_succ fx_strict = fx_succ fx_prim" by (rule ext) (simp add: fx_succ_def g)
  show sh: "fx_succ_hash fx_strict = fx_succ_hash fx_prim" by (rule ext) (simp add: fx_succ_hash_def s h)
  show c: "fx_ctx fx_strict = fx_ctx fx_prim" by (rule ext) (simp add: fx_ctx_def g)
  have v: "fx_cert fx_strict = fx_cert fx_prim" by (rule ext) (simp add: fx_cert_def fx_vote_def c sh)
  show "fx_ack fx_strict = fx_ack fx_prim" by (intro ext) (simp add: fx_ack_def g sh c v h)
qed

lemma fx_strict_keys: "verifying_key_bytes fx_strict k = k" "sign fx_strict k t = []" "verify fx_strict 33 t s = Inr ()"
  "merkle_verify fx_strict r l x n prf = Inr ()"
  by (simp_all add: verifying_key_bytes_def sign_def verify_def merkle_verify_def fx_strict_def fx_prim_def)

lemma fx_strict_verify:
  "verify fx_strict (ucast (i :: u16)) t s = Inr () \<longleftrightarrow> i = 33 \<or> i = 4 \<or> (i \<in> {1, 2, 3} \<and> witness_activation_ack (fx_ack fx_prim 2 i) = Inr t)"
proof -
  have u: "ucast i = (ucast j :: arr32) \<longleftrightarrow> i = j" for j :: u16
  proof -
    have "take_bit 256 (unat k) = unat k" for k :: u16
      by (rule take_bit_nat_eq_self) (use unat_u16_bound [of k] in simp)
    then show ?thesis by (simp add: word_unat_eq_iff unsigned_ucast_eq)
  qed
  have "dalek_key_ok fx_strict k" "dalek_signature_ok fx_strict s" for k s by (simp_all add: fx_strict_def fx_prim_def)
  then have "verify fx_strict (ucast i) t s = Inr () \<longleftrightarrow> dalek_verify fx_strict (ucast i) t s" by (simp add: verify_def)
  with u [of 33] u [of 4] u [of 1] u [of 2] u [of 3] show ?thesis by (auto simp: fx_strict_def)
qed

theorem no_fork_without_cancellation_witness:
  "cc3_capsule_hash (fx_active fx_strict 2 [1, 2, 3]) = cc3_capsule_hash (fx_active fx_strict 2 [2, 3, 4]) \<and>
   cc3_activation_qc (fx_active fx_strict 2 [1, 2, 3]) \<noteq> cc3_activation_qc (fx_active fx_strict 2 [2, 3, 4])"
proof -
  let ?c = "fx_card [1, 2, 3, 4]" and ?calls = "[WActivate (hex_encode 1) (fx_request fx_strict 2)]"
  define start where "start i = fx_node hex_encode i (fx_entry fx_strict [] i)" for i
  define final where "final i = fx_node hex_encode i (fx_locked fx_strict hex_encode [] 2 i)" for i
  define l where "l i = [(WActivate (hex_encode 1) (fx_request fx_strict 2), Inr (Acked (fx_ack fx_prim 2 i)) :: (ApiError, witness_reply) result)]" for i
  have valid: "validate_activated_capsule_v3 fx_strict ?c (fx_active fx_strict 2 ids) = Inr ()"
    if "ids \<in> {[1, 2, 3], [2, 3, 4]}" for ids
    using that by (intro fx_active_ok fx_strict_keys fx_card_ok) (auto simp: fx_strict_verify)
  have epoch: "cr_guardian_epoch (cc3_config_ref (fx_active fx_strict 2 ids)) \<noteq> 1" for ids
    by (simp add: fx_active_def fx_succ_def fx_body_def fx_ref_def)
  have pred: "cc3_predecessor_capsule_hash (fx_active fx_strict 2 ids) = 11" for ids
    by (simp add: fx_active_def fx_succ_def fx_body_def fx_hashes)
  have pins: "card (pinned_ids ?c - {1, 2, 3}) \<le> unat (card3_witness_fault_bound ?c)"
    by (simp add: fx_pin_def insert_Diff_if)
  have run: "service_ok hex_encode (start i) \<and> run_log (witness_serve fx_strict hex_encode Saved) (start i) ?calls = (l i, final i)"
    if "i \<in> {1, 2, 3}" for i
    using that by (auto simp: start_def final_def l_def fx_node_ok reply_with_def
        fx_activate [OF fx_strict_keys(3,1,2)])
  have "cc3_capsule_hash (fx_active fx_strict 2 [1, 2, 3]) = cc3_capsule_hash (fx_active fx_strict 2 [2, 3, 4]) \<or>
    (\<exists>w \<in> {1, 2, 3}. \<exists>now cfg ce a. (WCancelRotation now cfg ce, Inr (CancelAcked a)) \<in> set (l w) \<and>
       rx_predecessor_capsule_hash (orcc_context ce) = cc3_predecessor_capsule_hash (fx_active fx_strict 2 [1, 2, 3]))"
  proof (rule no_fork_without_cancellation [OF inj_hex_encode valid epoch valid epoch,
        where start = start and calls = "\<lambda>_. ?calls" and final = final])
    show "\<forall>w \<in> {1, 2, 3}. \<forall>pin \<in> set (card3_witnesses ?c). wp_witness_id pin = w \<longrightarrow>
      (\<forall>t sig. verify fx_strict (wp_public_key pin) t sig = Inr () \<longrightarrow> t \<in> signed_by_node (l w))"
      by (auto simp: fx_pin_def signed_by_node_def l_def fx_strict_verify [of 1, simplified] fx_strict_verify [of 2, simplified]
          fx_strict_verify [of 3, simplified])
    show "card (pinned_ids ?c - {1, 2, 3}) \<le> unat (card3_witness_fault_bound ?c)" by (rule pins)
    show "\<forall>w \<in> {1, 2, 3}. service_ok hex_encode (start w) \<and>
      run_log (witness_serve fx_strict hex_encode Saved) (start w) ?calls = (l w, final w)" using run by blast
  qed (auto simp: pred)
  then show ?thesis by (auto simp: l_def fx_active_def fx_qc_def fx_ack_def)
qed

section \<open>An acknowledgement the state file does not have\<close>

theorem failed_save_loses_ack_witness:
  "\<exists>s1 s2. fx_serve (WActivate (hex_encode 1) (fx_request fx_prim 2)) fx_start = (Inr (Acked (fx_ack fx_prim 2 1)), s1) \<and>
     fx_serve (WActivate (hex_encode 1) (fx_request fx_prim 3)) fx_start = (Inr (Acked (fx_ack fx_prim 3 1)), s2) \<and>
     run_results fx_prim hex_encode fx_start [(FailedBeforeRename, WActivate (hex_encode 1) (fx_request fx_prim 2)),
       (Saved, WActivate (hex_encode 1) (fx_request fx_prim 2)), (Saved, WRestart), (Saved, WActivate (hex_encode 1) (fx_request fx_prim 3))] =
       [Inl (bad_request OfSave), Inr (Acked (fx_ack fx_prim 2 1)), Inr Restarted, Inr (Acked (fx_ack fx_prim 3 1))]"
proof -
  have act: "\<exists>s. witness_activate fx_prim hex_encode Saved (hex_encode 1) (fx_request fx_prim b) fx_start = (Inr (fx_ack fx_prim b 1), s)"
    if "b \<noteq> 1" for b
    by (simp add: fx_activate [where cp = fx_prim and hx = hex_encode, OF fx_accepts(1) fx_prim_keys that])
  obtain s1 where s1: "witness_activate fx_prim hex_encode Saved (hex_encode 1) (fx_request fx_prim 2) fx_start = (Inr (fx_ack fx_prim 2 1), s1)"
    using act [of 2] by auto
  obtain s2 where s2: "witness_activate fx_prim hex_encode Saved (hex_encode 1) (fx_request fx_prim 3) fx_start = (Inr (fx_ack fx_prim 3 1), s2)"
    using act [of 3] by auto
  have ok: "service_ok hex_encode fx_start" by (rule fx_node_ok) simp
  have entry: "bt_get (wss_data fx_start) (hex_encode 1) = Some (fx_entry fx_prim [] 1)" "wce_pending_capsule (fx_entry fx_prim [] 1) = None"
    by (simp_all add: fx_node_def fx_entry_def)
  have differ: "cc3_capsule_hash (war_capsule (fx_request fx_prim 2)) \<noteq> cc3_capsule_hash (war_capsule (fx_request fx_prim 3))"
    by (simp add: fx_request_def fx_hashes)
  from failed_save_loses_ack [OF ok entry s1 s2 differ, of Saved Saved] s1 s2 show ?thesis
    by (auto simp: reply_with_def)
qed

end
