(* ===== verification/GP_Sharing.thy ===== *)
theory GP_Sharing
  imports GP_Crypto "HOL-Library.Product_Lexorder"
begin

text \<open>
  The sharing half of \<open>gp-crypto\<close>: Shamir shares of 32-byte secrets, erasure-coded fragments of a
  ciphertext and their rotation, Merkle commitments to fragments and to custody blocks, and the
  tracker that orders the messages of a resharing session. The field arithmetic is third-party:
  \<open>blahaj\<close> and the Reed-Solomon coder are the fields of the record \<open>sharing\<close>. What is modelled is
  all that the wrappers add: the length, range and threshold checks, the bitmap of seen share
  indices, the layout of bytes in shards and of blocks in leaves.
\<close>

record sharing =
  sharks_deal :: "u8 \<Rightarrow> byte list \<Rightarrow> Id32 \<Rightarrow> nat \<Rightarrow> byte list list"
  sharks_share_ok :: "byte list \<Rightarrow> bool"
  sharks_recover :: "u8 \<Rightarrow> byte list list \<Rightarrow> byte list option"
  reed_solomon_ok :: "nat \<Rightarrow> nat \<Rightarrow> bool"
  reed_solomon_encode :: "nat \<Rightarrow> nat \<Rightarrow> byte list list \<Rightarrow> byte list list option"
  reed_solomon_reconstruct :: "nat \<Rightarrow> nat \<Rightarrow> (byte list \<times> bool) list \<Rightarrow> (byte list \<times> bool) list option"

unbundle bit_operations_syntax

section \<open>Shamir shares\<close>

definition SHAMIR_SECRET_LEN :: nat where "SHAMIR_SECRET_LEN = 32"
definition SHAMIR_SHARE_LEN :: nat where "SHAMIR_SHARE_LEN = SHAMIR_SECRET_LEN + 1"
definition SHAMIR_MAX_SHARES :: u16 where "SHAMIR_MAX_SHARES = 255"
definition SHAMIR_INDEX_WORDS :: nat where "SHAMIR_INDEX_WORDS = 4"
definition SHAMIR_INDEX_BITS_PER_WORD :: nat where "SHAMIR_INDEX_BITS_PER_WORD = 64"

definition split_secret ::
    "sharing \<Rightarrow> byte list \<Rightarrow> u16 \<Rightarrow> u16 \<Rightarrow> Id32 \<Rightarrow> (CryptoError, byte list list) result"
where
  "split_secret sp secret threshold share_count seed =
    (if length secret \<noteq> SHAMIR_SECRET_LEN then Inl InvalidSecretLength else
     if threshold = 0 \<or> threshold > share_count \<or> share_count > SHAMIR_MAX_SHARES then Inl InvalidThreshold else
     Inr (sharks_deal sp (ucast threshold) secret seed (unat share_count)))"

text \<open>The loop of \<open>recover_secret\<close>: \<open>seen\<close> is the bitmap of share indices in four 64-bit words.\<close>

fun decode_shares ::
    "sharing \<Rightarrow> u64 list \<Rightarrow> byte list list \<Rightarrow> byte list list \<Rightarrow> (CryptoError, byte list list) result"
where
  "decode_shares sp seen decoded [] = Inr decoded"
| "decode_shares sp seen decoded (encoded # shares) =
     (if length encoded \<noteq> SHAMIR_SHARE_LEN \<or> hd encoded = 0 then Inl InvalidShare else
      let index = unat (hd encoded);
          word = index div SHAMIR_INDEX_BITS_PER_WORD;
          mask = push_bit (index mod SHAMIR_INDEX_BITS_PER_WORD) 1 in
      if (seen ! word) AND mask \<noteq> 0 then Inl DuplicateShare else
      if \<not> sharks_share_ok sp encoded then Inl InvalidShare else
      decode_shares sp (seen[word := (seen ! word) OR mask]) (decoded @ [encoded]) shares)"

definition recover_secret :: "sharing \<Rightarrow> byte list list \<Rightarrow> u16 \<Rightarrow> (CryptoError, byte list) result" where
  "recover_secret sp shares threshold =
    (if threshold = 0 \<or> threshold > SHAMIR_MAX_SHARES then Inl InvalidThreshold else
     if length shares < unat threshold then Inl InsufficientShares else
     if length shares > unat SHAMIR_MAX_SHARES then Inl InvalidShare else
     bindR (decode_shares sp (replicate SHAMIR_INDEX_WORDS 0) [] shares) (\<lambda>decoded.
     bindR (ok_or (sharks_recover sp (ucast threshold) decoded) InvalidShare) (\<lambda>recovered.
     if length recovered \<noteq> SHAMIR_SECRET_LEN then Inl InvalidShare else Inr recovered)))"

section \<open>Erasure coding\<close>

fun place_bytes :: "nat \<Rightarrow> nat \<Rightarrow> byte list \<Rightarrow> byte list list \<Rightarrow> byte list list" where
  "place_bytes shard_len offset [] shards = shards"
| "place_bytes shard_len offset (byte # data) shards =
     place_bytes shard_len (offset + 1) data
       (shards[offset div shard_len := (shards ! (offset div shard_len))[offset mod shard_len := byte]])"

definition div_ceil :: "nat \<Rightarrow> nat \<Rightarrow> nat" where
  "div_ceil a b = (a + b - 1) div b"

definition erasure_encode ::
    "sharing \<Rightarrow> byte list \<Rightarrow> u16 \<Rightarrow> u16 \<Rightarrow> (CryptoError, byte list list) result"
where
  "erasure_encode sp data data_shards total_shards =
    (if data_shards = 0 \<or> data_shards > total_shards then Inl InvalidThreshold else
     let parity = unat (total_shards - data_shards) in
     if \<not> reed_solomon_ok sp (unat data_shards) parity then Inl InvalidThreshold else
     let shard_len = max (div_ceil (length data) (unat data_shards)) 1;
         shards = replicate (unat total_shards) (replicate shard_len 0) in
     ok_or (reed_solomon_encode sp (unat data_shards) parity (place_bytes shard_len 0 data shards))
       InvalidFragments)"

fun place_fragments ::
    "nat \<Rightarrow> (u16 \<times> byte list) list \<Rightarrow> (byte list \<times> bool) list \<Rightarrow> (CryptoError, (byte list \<times> bool) list) result"
where
  "place_fragments shard_len [] shards = Inr shards"
| "place_fragments shard_len ((index, fragment) # fragments) shards =
     (if index = 0 \<or> \<not> unat index - 1 < length shards then Inl InvalidFragments else
      let position = unat index - 1 in
      if length fragment \<noteq> shard_len \<or> snd (shards ! position) then Inl InvalidFragments else
      place_fragments shard_len fragments (shards[position := (fragment, True)]))"

fun join_shards :: "(byte list \<times> bool) list \<Rightarrow> (CryptoError, byte list) result" where
  "join_shards [] = Inr []"
| "join_shards ((shard, present) # shards) =
     (if \<not> present then Inl InvalidFragments else
      bindR (join_shards shards) (\<lambda>output. Inr (shard @ output)))"

definition erasure_reconstruct ::
    "sharing \<Rightarrow> (u16 \<times> byte list) list \<Rightarrow> u16 \<Rightarrow> u16 \<Rightarrow> nat \<Rightarrow> (CryptoError, byte list) result"
where
  "erasure_reconstruct sp fragments data_shards total_shards original_len =
    (if length fragments < unat data_shards \<or> data_shards > total_shards then Inl InsufficientShares else
     let parity = unat (total_shards - data_shards) in
     if \<not> reed_solomon_ok sp (unat data_shards) parity then Inl InvalidThreshold else
     if fragments = [] \<or> snd (hd fragments) = [] then Inl InvalidFragments else
     let shard_len = length (snd (hd fragments)) in
     bindR (place_fragments shard_len fragments
       (replicate (unat total_shards) (replicate shard_len 0, False))) (\<lambda>shards.
     bindR (ok_or (reed_solomon_reconstruct sp (unat data_shards) parity shards) InvalidFragments) (\<lambda>shards.
     bindR (join_shards (take (unat data_shards) shards)) (\<lambda>output.
     Inr (take original_len output)))))"

definition rotate_ciphertext_fragments ::
    "sharing \<Rightarrow> (u16 \<times> byte list) list \<Rightarrow> u16 \<Rightarrow> u16 \<Rightarrow> nat \<Rightarrow> u16 \<Rightarrow> u16 \<Rightarrow>
     (CryptoError, byte list list) result"
where
  "rotate_ciphertext_fragments sp old_fragments old_data_shards old_total_shards ciphertext_len
      new_data_shards new_total_shards =
    (if \<not> distinct (map fst old_fragments) then Inl InvalidFragments else
     bindR (erasure_reconstruct sp old_fragments old_data_shards old_total_shards ciphertext_len)
       (\<lambda>ciphertext. erasure_encode sp ciphertext new_data_shards new_total_shards))"

section \<open>Commitments to fragments and custody blocks\<close>

definition ciphertext_fragment_leaf ::
    "primitives \<Rightarrow> Id32 \<Rightarrow> u64 \<Rightarrow> u16 \<Rightarrow> byte list \<Rightarrow> (CryptoError, Id32) result"
where
  "ciphertext_fragment_leaf cp config_id payload_generation fragment_index fragment =
    (if fragment_index = 0 \<or> fragment = [] then Inl InvalidFragments else
     if length fragment \<ge> 2 ^ 64 then Inl InvalidFragments else
     Inr (sha256 cp (as_bytes ''gp/ciphertext-fragment-leaf/v3'' @ bytes32 config_id @
       be64 payload_generation @ be16 fragment_index @ be64 (of_nat (length fragment)) @
       bytes32 (sha256 cp fragment))))"

fun fragment_leaves ::
    "primitives \<Rightarrow> Id32 \<Rightarrow> u64 \<Rightarrow> nat \<Rightarrow> byte list list \<Rightarrow> (CryptoError, Id32 list) result"
where
  "fragment_leaves cp config_id payload_generation offset [] = Inr []"
| "fragment_leaves cp config_id payload_generation offset (fragment # fragments) =
     (if offset + 1 \<ge> 2 ^ 16 then Inl InvalidFragments else
      bindR (ciphertext_fragment_leaf cp config_id payload_generation (of_nat (offset + 1)) fragment) (\<lambda>leaf.
      bindR (fragment_leaves cp config_id payload_generation (offset + 1) fragments) (\<lambda>leaves.
      Inr (leaf # leaves))))"

record CiphertextFragmentCommitment =
  cfc_root :: Id32
  cfc_proofs :: "byte list list"

definition commit_ciphertext_fragments ::
    "primitives \<Rightarrow> Id32 \<Rightarrow> u64 \<Rightarrow> byte list list \<Rightarrow> (CryptoError, CiphertextFragmentCommitment) result"
where
  "commit_ciphertext_fragments cp config_id payload_generation fragments =
    (if fragments = [] \<or> length fragments > 65535 then Inl InvalidFragments else
     bindR (fragment_leaves cp config_id payload_generation 0 fragments) (\<lambda>leaves.
     bindR (merkle_commit cp leaves) (\<lambda>(root, proofs).
     Inr \<lparr> cfc_root = root, cfc_proofs = proofs \<rparr>)))"

definition verify_ciphertext_fragment ::
    "primitives \<Rightarrow> Id32 \<Rightarrow> Id32 \<Rightarrow> u64 \<Rightarrow> u16 \<Rightarrow> u16 \<Rightarrow> byte list \<Rightarrow> byte list \<Rightarrow> (CryptoError, unit) result"
where
  "verify_ciphertext_fragment cp root config_id payload_generation fragment_index total_fragments fragment proof =
    (if fragment_index = 0 \<or> \<not> unat fragment_index - 1 < unat total_fragments then Inl InvalidFragments else
     bindR (ciphertext_fragment_leaf cp config_id payload_generation fragment_index fragment) (\<lambda>leaf.
     merkle_verify cp root leaf (unat fragment_index - 1) (unat total_fragments) proof))"

definition CUSTODY_BLOCK_SIZE :: nat where "CUSTODY_BLOCK_SIZE = 4096"

record CustodyCommitment =
  cuc_root :: Id32
  cuc_block_count :: u32
  cuc_proofs :: "byte list list"

definition custody_leaf :: "primitives \<Rightarrow> u32 \<Rightarrow> byte list \<Rightarrow> Id32" where
  "custody_leaf cp index block =
    sha256 cp (as_bytes ''gp/custody-block/v3'' @ be32 index @ be32 (of_nat (length block)) @ block)"

text \<open>\<open>slice::chunks\<close>: blocks of the given size, the last one possibly shorter.\<close>

function chunks_of :: "nat \<Rightarrow> 'a list \<Rightarrow> 'a list list" where
  "chunks_of n xs = (if xs = [] \<or> n = 0 then [] else take n xs # chunks_of n (drop n xs))"
  by auto
termination by (relation "measure (\<lambda>(n, xs). length xs)") (auto simp: neq_Nil_conv)

declare chunks_of.simps [simp del]

definition custody_commit :: "primitives \<Rightarrow> byte list \<Rightarrow> (CryptoError, CustodyCommitment) result" where
  "custody_commit cp bytes =
    (if bytes = [] then Inl InvalidMerkleProof else
     let leaves = map (\<lambda>(index, block). custody_leaf cp (of_nat index) block)
           (enumerate 0 (chunks_of CUSTODY_BLOCK_SIZE bytes)) in
     if length leaves \<ge> 2 ^ 32 then Inl InvalidMerkleProof else
     bindR (merkle_commit cp leaves) (\<lambda>(root, proofs).
     Inr \<lparr> cuc_root = root, cuc_block_count = of_nat (length leaves), cuc_proofs = proofs \<rparr>))"

definition custody_verify_block ::
    "primitives \<Rightarrow> Id32 \<Rightarrow> u32 \<Rightarrow> u32 \<Rightarrow> byte list \<Rightarrow> byte list \<Rightarrow> (CryptoError, unit) result"
where
  "custody_verify_block cp root block_count block_index block proof =
    (if block_count = 0 \<or> block_index \<ge> block_count \<or> length block > CUSTODY_BLOCK_SIZE
     then Inl InvalidMerkleProof
     else merkle_verify cp root (custody_leaf cp block_index block) (unat block_index) (unat block_count) proof)"

section \<open>The message tracker of a resharing session\<close>

definition FROST_ROUND_PACKAGE_MAX_LEN :: nat where "FROST_ROUND_PACKAGE_MAX_LEN = 4 * 1024"

definition frost_identifier :: "u16 \<Rightarrow> (CryptoError, unit) result" where
  "frost_identifier value =
    (if value = 0 \<or> value > FROST_MAX_PARTICIPANTS then Inl InvalidFrostParticipant else Inr ())"

definition validate_threshold :: "u16 \<Rightarrow> u16 \<Rightarrow> (CryptoError, unit) result" where
  "validate_threshold threshold share_count =
    (if threshold < 2 \<or> threshold > share_count \<or> \<not> (2 \<le> share_count \<and> share_count \<le> FROST_MAX_PARTICIPANTS)
     then Inl InvalidThreshold else Inr ())"

definition bounded :: "byte list \<Rightarrow> nat \<Rightarrow> (CryptoError, unit) result" where
  "bounded value maximum = (if value = [] \<or> length value > maximum then Inl InvalidFrost else Inr ())"

record DpssMessageTracker =
  dmt_next_sequences :: "(u16 \<times> u16, u64) btree_map"
  dmt_seen_payloads :: "Id32 set"

definition DpssMessageTracker_default :: DpssMessageTracker where
  "DpssMessageTracker_default = \<lparr> dmt_next_sequences = [], dmt_seen_payloads = {} \<rparr>"

text \<open>The entry of the pair is created before the sequence number is tested, and the payload is
  recorded only when the number is the expected one.\<close>

definition accept_dpss_message ::
    "primitives \<Rightarrow> u16 \<Rightarrow> u16 \<Rightarrow> u64 \<Rightarrow> byte list \<Rightarrow> DpssMessageTracker \<Rightarrow>
     (CryptoError, unit) result \<times> DpssMessageTracker"
where
  "accept_dpss_message cp sender recipient sequence provider_payload tracker =
    (case bindR (frost_identifier sender) (\<lambda>_. bindR (frost_identifier recipient) (\<lambda>_.
        if sender = recipient then Inl InvalidFrostParticipant
        else bounded provider_payload FROST_ROUND_PACKAGE_MAX_LEN)) of
       Inl e \<Rightarrow> (Inl e, tracker)
     | Inr _ \<Rightarrow>
       let key = (sender, recipient);
           expected = (case bt_get (dmt_next_sequences tracker) key of None \<Rightarrow> 1 | Some n \<Rightarrow> n);
           tracker1 = tracker \<lparr> dmt_next_sequences := bt_insert key expected (dmt_next_sequences tracker) \<rparr>;
           hash = sha256 cp provider_payload in
       if sequence \<noteq> expected then (Inl InvalidFrost, tracker1) else
       if hash \<in> dmt_seen_payloads tracker then (Inl InvalidFrost, tracker1) else
       (Inr (), tracker1 \<lparr> dmt_seen_payloads := insert hash (dmt_seen_payloads tracker),
          dmt_next_sequences := bt_insert key (saturating_add expected 1) (dmt_next_sequences tracker1) \<rparr>))"

end
