(* ===== verification/GP_Sharing_Safety.thy ===== *)
theory GP_Sharing_Safety
  imports GP_Sharing
begin

text \<open>
  What the wrappers of the sharing half guarantee: the bitmap of \<open>recover_secret\<close> is an exact duplicate
  test, any threshold of distinct shares or fragments reconstructs, rotation of fragments preserves
  the ciphertext, honest custody blocks and fragments verify, and the tracker accepts every
  payload once and the messages of a pair in order. The behaviour of the third-party coders that
  a statement needs is a hypothesis of it.
\<close>

section \<open>The bitmap of seen indices\<close>

text \<open>The bitmap represents a set of share indices.\<close>

definition bitmap_of :: "u64 list \<Rightarrow> nat set \<Rightarrow> bool" where
  "bitmap_of seen S \<longleftrightarrow> length seen = SHAMIR_INDEX_WORDS \<and>
    (\<forall>i < 256. bit (seen ! (i div 64)) (i mod 64) \<longleftrightarrow> i \<in> S)"

lemma bitmap_of_zero: "bitmap_of (replicate SHAMIR_INDEX_WORDS 0) {}"
  by (simp add: bitmap_of_def SHAMIR_INDEX_WORDS_def)

lemma mask_bit: "n < 64 \<Longrightarrow> bit (2 ^ n :: u64) m \<longleftrightarrow> m = n"
  by (auto simp: bit_exp_iff)

lemma mask_test: "(w :: u64) AND push_bit n 1 \<noteq> 0 \<longleftrightarrow> bit w n" if "n < 64"
proof -
  have "w AND push_bit n 1 = (if bit w n then 2 ^ n else 0)"
    by (rule bit_word_eqI) (use that in \<open>auto simp: bit_and_iff mask_bit\<close>)
  moreover have "(2 :: u64) ^ n \<noteq> 0" using mask_bit [OF that, of n] by (metis bit_0_eq bot_apply bot_bool_def)
  ultimately show ?thesis by simp
qed

lemma bitmap_of_insert:
  assumes "bitmap_of seen S" and "i < 256"
  shows "bitmap_of (seen[i div 64 := (seen ! (i div 64)) OR push_bit (i mod 64) 1]) (insert i S)"
proof -
  have len: "length seen = 4" using assms(1) by (simp add: bitmap_of_def SHAMIR_INDEX_WORDS_def)
  have "bit (seen[i div 64 := (seen ! (i div 64)) OR push_bit (i mod 64) 1] ! (j div 64)) (j mod 64) \<longleftrightarrow>
      j = i \<or> j \<in> S" if "j < 256" for j
  proof -
    have old: "bit (seen ! (j div 64)) (j mod 64) \<longleftrightarrow> j \<in> S" using assms(1) that by (simp add: bitmap_of_def)
    have "j mod 64 < 64" "j div 64 < 4" "i div 64 < 4" using that assms(2) by simp_all
    moreover have "j = i \<longleftrightarrow> j div 64 = i div 64 \<and> j mod 64 = i mod 64" by (metis div_mult_mod_eq)
    ultimately show ?thesis using old len
      by (auto simp: nth_list_update bit_or_iff mask_bit)
  qed
  with len show ?thesis by (simp add: bitmap_of_def SHAMIR_INDEX_WORDS_def)
qed

definition share_ok :: "sharing \<Rightarrow> byte list \<Rightarrow> bool" where
  "share_ok sp s \<longleftrightarrow> length s = SHAMIR_SHARE_LEN \<and> hd s \<noteq> 0 \<and> sharks_share_ok sp s"

lemma inj_unat: "inj (unat :: u8 \<Rightarrow> nat)"
  by (simp add: inj_def word_unat_eq_iff)

lemma decode_shares_ok:
  assumes "bitmap_of seen (unat ` S)"
  shows "decode_shares sp seen decoded shares = Inr out \<longleftrightarrow>
    (\<forall>s \<in> set shares. share_ok sp s) \<and> distinct (map hd shares) \<and> hd ` set shares \<inter> S = {} \<and>
    out = decoded @ shares"
  using assms
proof (induction shares arbitrary: seen decoded S)
  case (Cons s shares)
  let ?i = "unat (hd s)"
  have i: "?i < 256" using unsigned_less [of "hd s", where 'a = nat] by simp
  have test: "(seen ! (?i div 64)) AND push_bit (?i mod 64) 1 \<noteq> 0 \<longleftrightarrow> hd s \<in> S"
    using Cons.prems i by (subst mask_test) (simp_all add: bitmap_of_def inj_image_mem_iff inj_unat)
  have "bitmap_of (seen[?i div 64 := (seen ! (?i div 64)) OR push_bit (?i mod 64) 1]) (unat ` insert (hd s) S)"
    using bitmap_of_insert [OF Cons.prems i] by simp
  from Cons.IH [OF this] test show ?case
    by (auto simp: Let_def share_ok_def SHAMIR_INDEX_BITS_PER_WORD_def split: if_splits)
qed auto

text \<open>C36: \<open>recover_secret\<close> accepts exactly the share lists of the specification: a threshold in range, between
  threshold and 255 well-formed shares with pairwise different indices, and a 32-byte secret
  interpolated from them. In particular its bitmap of four 64-bit words agrees with a set of
  indices for all 255 indices, on the word boundaries too.\<close>

theorem recover_secret_exact:
  "recover_secret sp shares threshold = Inr secret \<longleftrightarrow>
     1 \<le> unat threshold \<and> unat threshold \<le> length shares \<and> unat threshold \<le> 255 \<and> length shares \<le> 255 \<and>
     list_all (share_ok sp) shares \<and> distinct (map hd shares) \<and>
     sharks_recover sp (ucast threshold) shares = Some secret \<and> length secret = 32"
proof -
  have "decode_shares sp (replicate SHAMIR_INDEX_WORDS 0) [] shares = Inr out \<longleftrightarrow>
      (\<forall>s \<in> set shares. share_ok sp s) \<and> distinct (map hd shares) \<and> out = shares" for out
    using decode_shares_ok [of _ "{}" sp "[]" shares out] bitmap_of_zero by simp
  moreover have "threshold = 0 \<longleftrightarrow> \<not> 1 \<le> unat threshold" "threshold > SHAMIR_MAX_SHARES \<longleftrightarrow> \<not> unat threshold \<le> 255"
    "unat SHAMIR_MAX_SHARES = 255"
    by (auto simp: SHAMIR_MAX_SHARES_def word_less_nat_alt unat_eq_zero [symmetric] simp del: unat_eq_zero)
  ultimately show ?thesis
    by (auto simp: recover_secret_def SHAMIR_SECRET_LEN_def ok_or_eq_Inr list_all_iff)
qed

section \<open>Thresholds of Shamir shares\<close>

text \<open>What \<open>blahaj\<close> promises: the dealer numbers its shares from 1, each one byte longer than the secret,
  and any threshold of different ones recovers it.\<close>

definition sharks_threshold :: "sharing \<Rightarrow> bool" where
  "sharks_threshold sp \<longleftrightarrow> (\<forall>t secret seed n. 0 < unat t \<and> unat t \<le> n \<and> n \<le> 255 \<longrightarrow>
    length (sharks_deal sp t secret seed n) = n \<and>
    (\<forall>i < n. length (sharks_deal sp t secret seed n ! i) = Suc (length secret) \<and>
       hd (sharks_deal sp t secret seed n ! i) = of_nat (i + 1) \<and>
       sharks_share_ok sp (sharks_deal sp t secret seed n ! i)) \<and>
    (\<forall>idx. distinct idx \<and> set idx \<subseteq> {..<n} \<and> unat t \<le> length idx \<longrightarrow>
       sharks_recover sp t (map ((!) (sharks_deal sp t secret seed n)) idx) = Some secret))"

lemma unat_ucast_u8: "unat (w :: u16) \<le> 255 \<Longrightarrow> unat (ucast w :: u8) = unat w"
  by (simp add: unsigned_ucast_eq take_bit_nat_eq_self)

lemma unat_byte_index: "i < 255 \<Longrightarrow> unat (of_nat (i + 1) :: u8) = i + 1"
  by (simp add: unsigned_of_nat take_bit_nat_eq_self del: of_nat_Suc)

lemma shamir_recovers:
  assumes "sharks_threshold sp" and "split_secret sp secret threshold n seed = Inr shares"
    and "distinct idx" and "set idx \<subseteq> {..<unat n}" and "unat threshold \<le> length idx"
  shows "recover_secret sp (map ((!) shares) idx) threshold = Inr secret"
proof -
  from assms(2) have len: "length secret = 32" and t: "0 < unat threshold" "unat threshold \<le> unat n" "unat n \<le> 255"
    and sh: "shares = sharks_deal sp (ucast threshold) secret seed (unat n)"
    by (auto simp: split_secret_def SHAMIR_SECRET_LEN_def SHAMIR_MAX_SHARES_def word_less_nat_alt word_le_nat_alt
        word_unat_eq_iff split: if_splits)
  have law: "\<forall>i < unat n. length (shares ! i) = Suc (length secret) \<and> hd (shares ! i) = of_nat (i + 1) \<and>
      sharks_share_ok sp (shares ! i)"
    "sharks_recover sp (ucast threshold) (map ((!) shares) idx) = Some secret"
    using assms(1,3,4,5) t unfolding sharks_threshold_def sh by (simp_all add: unat_ucast_u8)
  have idx: "i < unat n" if "i \<in> set idx" for i using assms(4) that by auto
  have ok: "share_ok sp (shares ! i)" if "i \<in> set idx" for i
  proof -
    have "unat (of_nat (i + 1) :: u8) = i + 1" using idx [OF that] t by (intro unat_byte_index) simp
    then have "(of_nat (i + 1) :: u8) \<noteq> 0" by (metis add_is_0 unat_0 zero_neq_one)
    with law(1) idx [OF that] len show ?thesis
      by (simp add: share_ok_def SHAMIR_SHARE_LEN_def SHAMIR_SECRET_LEN_def)
  qed
  have "inj_on (\<lambda>i. hd (shares ! i)) (set idx)"
  proof (rule inj_onI)
    fix i j assume "i \<in> set idx" "j \<in> set idx" "hd (shares ! i) = hd (shares ! j)"
    then have "unat (of_nat (i + 1) :: u8) = unat (of_nat (j + 1) :: u8)" using law(1) idx by simp
    moreover have "unat (of_nat (k + 1) :: u8) = k + 1" if "k \<in> set idx" for k
      using idx [OF that] t by (intro unat_byte_index) simp
    ultimately show "i = j" using \<open>i \<in> set idx\<close> \<open>j \<in> set idx\<close> by simp
  qed
  then have dist: "distinct (map hd (map ((!) shares) idx))" using assms(3) by (simp add: distinct_map comp_def)
  have "length idx \<le> 255"
    using card_mono [OF _ assms(4)] distinct_card [OF assms(3)] t(3) by simp
  with ok dist law(2) len t assms(5) show ?thesis
    by (simp add: recover_secret_exact list_all_iff)
qed

text \<open>Any threshold of different shares of a split secret recovers it, in any order.\<close>

theorem shamir_roundtrip:
  assumes "sharks_threshold sp" and "split_secret sp secret threshold n seed = Inr shares"
    and "distinct idx" and "set idx \<subseteq> {..<unat n}" and "unat threshold \<le> length idx"
  shows "recover_secret sp (map ((!) shares) idx) threshold = Inr secret"
  using assms by (rule shamir_recovers)

section \<open>Fragments of a ciphertext\<close>

lemma concat_update:
  assumes "\<forall>s \<in> set shards. length s = L" and "n < L * length shards"
  shows "concat (shards[n div L := (shards ! (n div L))[n mod L := b]]) = (concat shards)[n := b]"
  using assms
proof (induction shards arbitrary: n)
  case (Cons s shards)
  show ?case
  proof (cases "n < L")
    case True
    with Cons.prems show ?thesis by (simp add: list_update_append1)
  next
    case False
    have "0 < L" using Cons.prems(2) by (cases L) simp_all
    with False have n: "n div L = Suc ((n - L) div L)" "n mod L = (n - L) mod L"
      by (simp_all add: le_div_geq le_mod_geq)
    have "concat (shards[(n - L) div L := (shards ! ((n - L) div L))[(n - L) mod L := b]]) = (concat shards)[n - L := b]"
      using Cons.prems False by (intro Cons.IH) auto
    with n False Cons.prems show ?thesis by (simp add: list_update_append)
  qed
qed simp

lemma place_bytes_lengths:
  "\<forall>s \<in> set shards. length s = L \<Longrightarrow>
     length (place_bytes L n data shards) = length shards \<and> (\<forall>s \<in> set (place_bytes L n data shards). length s = L)"
proof (induction L n data shards rule: place_bytes.induct)
  case (2 L n b data shards)
  have "\<forall>s \<in> set (shards[n div L := (shards ! (n div L))[n mod L := b]]). length s = L"
    using 2(2) by (cases "n div L < length shards")
      (auto simp: list_update_beyond dest!: subsetD [OF set_update_subset_insert])
  from 2(1) [OF this] show ?case by simp
qed simp

lemma concat_place_bytes:
  assumes "\<forall>s \<in> set shards. length s = L" and "n + length data \<le> L * length shards"
  shows "concat (place_bytes L n data shards) =
    take n (concat shards) @ data @ drop (n + length data) (concat shards)"
  using assms
proof (induction L n data shards rule: place_bytes.induct)
  case (2 L n b data shards)
  let ?s = "shards[n div L := (shards ! (n div L))[n mod L := b]]"
  have len: "\<forall>s \<in> set ?s. length s = L"
    using place_bytes_lengths [of shards L n "[b]"] 2(2) by simp
  have c: "concat ?s = (concat shards)[n := b]" using 2(2,3) by (intro concat_update) auto
  have all: "length (concat shards) = L * length shards"
    using 2(2) by (induction shards) auto
  then have "take (Suc n) ((concat shards)[n := b]) = take n (concat shards) @ [b]"
    using 2(3) by (simp add: take_Suc_conv_app_nth take_update_cancel)
  with 2(1) [OF len] 2(3) c show ?case by simp
qed simp

lemma concat_take:
  "\<forall>s \<in> set shards. length s = L \<Longrightarrow> k \<le> length shards \<Longrightarrow> concat (take k shards) = take (L * k) (concat shards)"
proof (induction shards arbitrary: k)
  case (Cons s shards)
  then show ?case by (cases k) (auto simp: algebra_simps)
qed simp

lemma join_present: "join_shards (map (\<lambda>s. (s, True)) xs) = Inr (concat xs)"
  by (induction xs) simp_all

lemma unat_u16_index: "i < 65535 \<Longrightarrow> unat (of_nat (i + 1) :: u16) = i + 1"
  by (simp add: unsigned_of_nat take_bit_nat_eq_self del: of_nat_Suc of_nat_add)

lemma place_fragments_chosen:
  assumes "distinct idx" and "\<forall>i \<in> set idx. i < length shards \<and> length (out ! i) = L \<and> \<not> snd (shards ! i)"
    and "length shards \<le> 65535"
  shows "place_fragments L (map (\<lambda>i. (of_nat (i + 1), out ! i)) idx) shards =
    Inr (map (\<lambda>i. if i \<in> set idx then (out ! i, True) else shards ! i) [0..<length shards])"
  using assms
proof (induction idx arbitrary: shards)
  case Nil
  then show ?case by (simp add: map_nth)
next
  case (Cons i idx)
  then have i: "i < length shards" "length (out ! i) = L" "\<not> snd (shards ! i)" by auto
  have u: "unat (of_nat (i + 1) :: u16) = i + 1" using i(1) Cons.prems(3) by (intro unat_u16_index) simp
  then have nz: "(of_nat (i + 1) :: u16) \<noteq> 0" by (metis add_is_0 unat_0 zero_neq_one)
  let ?s = "shards[i := (out ! i, True)]"
  have "place_fragments L (map (\<lambda>i. (of_nat (i + 1), out ! i)) idx) ?s =
      Inr (map (\<lambda>j. if j \<in> set idx then (out ! j, True) else ?s ! j) [0..<length ?s])"
    using Cons.prems by (intro Cons.IH) (auto simp: nth_list_update)
  also have "map (\<lambda>j. if j \<in> set idx then (out ! j, True) else ?s ! j) [0..<length ?s] =
      map (\<lambda>j. if j \<in> set (i # idx) then (out ! j, True) else shards ! j) [0..<length shards]"
    by (rule map_cong) (auto simp: nth_list_update)
  finally show ?case using i nz u by (simp add: Let_def del: of_nat_add of_nat_Suc)
qed

text \<open>What the Reed-Solomon coder promises: encoding keeps the data shards and the common length, and from
  any \<open>k\<close> shards of an encoding all of it is reconstructed.\<close>

definition reed_solomon_code :: "sharing \<Rightarrow> bool" where
  "reed_solomon_code sp \<longleftrightarrow> (\<forall>k p L shards out. reed_solomon_ok sp k p \<and> length shards = k + p \<and>
     (\<forall>s \<in> set shards. length s = L) \<and> reed_solomon_encode sp k p shards = Some out \<longrightarrow>
     length out = k + p \<and> take k out = take k shards \<and> (\<forall>s \<in> set out. length s = L) \<and>
     (\<forall>given. length given = k + p \<and> (\<forall>s \<in> set given. length (fst s) = L) \<and>
        k \<le> card {i. i < k + p \<and> snd (given ! i)} \<and>
        (\<forall>i < k + p. snd (given ! i) \<longrightarrow> fst (given ! i) = out ! i) \<longrightarrow>
        reed_solomon_reconstruct sp k p given = Some (map (\<lambda>s. (s, True)) out)))"

lemma reed_solomon_codeD:
  assumes "reed_solomon_code sp" and "reed_solomon_ok sp k p" and "length shards = k + p"
    and "\<forall>s \<in> set shards. length s = L" and "reed_solomon_encode sp k p shards = Some out"
  shows "length out = k + p" and "take k out = take k shards" and "\<forall>s \<in> set out. length s = L"
    and "length given = k + p \<Longrightarrow> \<forall>s \<in> set given. length (fst s) = L \<Longrightarrow>
      k \<le> card {i. i < k + p \<and> snd (given ! i)} \<Longrightarrow>
      \<forall>i < k + p. snd (given ! i) \<longrightarrow> fst (given ! i) = out ! i \<Longrightarrow>
      reed_solomon_reconstruct sp k p given = Some (map (\<lambda>s. (s, True)) out)"
proof -
  note law = assms(1) [unfolded reed_solomon_code_def, THEN spec, THEN spec, THEN spec, THEN spec, THEN spec,
      THEN mp, OF conjI [OF assms(2) conjI [OF assms(3) conjI [OF assms(4,5)]]]]
  show "length out = k + p" using law by (rule conjunct1)
  show "take k out = take k shards" using law by (elim conjE)
  show "\<forall>s \<in> set out. length s = L" using law by (elim conjE)
  assume "length given = k + p" "\<forall>s \<in> set given. length (fst s) = L"
    "k \<le> card {i. i < k + p \<and> snd (given ! i)}" "\<forall>i < k + p. snd (given ! i) \<longrightarrow> fst (given ! i) = out ! i"
  with law [THEN conjunct2, THEN conjunct2, THEN conjunct2, THEN spec, of given]
  show "reed_solomon_reconstruct sp k p given = Some (map (\<lambda>s. (s, True)) out)" by (elim mp) (intro conjI)
qed

lemma div_ceil_covers: "0 < b \<Longrightarrow> a \<le> div_ceil a b * b"
proof -
  assume "0 < b"
  have "a + b - 1 = (a + b - 1) div b * b + (a + b - 1) mod b" by (rule div_mult_mod_eq [symmetric])
  moreover have "(a + b - 1) mod b < b" using \<open>0 < b\<close> by simp
  ultimately show ?thesis unfolding div_ceil_def by linarith
qed

lemma erasure_encode_ok:
  assumes "reed_solomon_code sp" and "erasure_encode sp data k n = Inr out"
  obtains L where "0 < unat k" "k \<le> n" "reed_solomon_ok sp (unat k) (unat n - unat k)" "0 < L"
    "length out = unat n" "\<forall>s \<in> set out. length s = L" "take (length data) (concat (take (unat k) out)) = data"
    "\<And>given. length given = unat n \<Longrightarrow> \<forall>s \<in> set given. length (fst s) = L \<Longrightarrow>
      unat k \<le> card {i. i < unat n \<and> snd (given ! i)} \<Longrightarrow>
      \<forall>i < unat n. snd (given ! i) \<longrightarrow> fst (given ! i) = out ! i \<Longrightarrow>
      reed_solomon_reconstruct sp (unat k) (unat n - unat k) given = Some (map (\<lambda>s. (s, True)) out)"
proof -
  define L where "L = max (div_ceil (length data) (unat k)) 1"
  define z where "z = replicate (unat n) (replicate L (0 :: byte))"
  let ?s = "place_bytes L 0 data z"
  from assms(2) have k: "k \<noteq> 0" "k \<le> n" "unat (n - k) = unat n - unat k"
    and ok: "reed_solomon_ok sp (unat k) (unat n - unat k)"
    and enc: "reed_solomon_encode sp (unat k) (unat n - unat k) ?s = Some out"
    by (auto simp: erasure_encode_def Let_def ok_or_eq_Inr unat_sub not_less L_def z_def split: if_splits)
  have k0: "0 < unat k" "unat k \<le> unat n" using k by (simp_all add: word_le_nat_alt unat_gt_0)
  have z: "\<forall>s \<in> set z. length s = L" "length z = unat n" by (simp_all add: z_def)
  from place_bytes_lengths [OF z(1), of 0 data] z(2)
  have len: "length ?s = unat n" "\<forall>s \<in> set ?s. length s = L" by simp_all
  have "div_ceil (length data) (unat k) * unat k \<le> L * unat k" unfolding L_def by (rule mult_le_mono1) simp
  with div_ceil_covers [OF k0(1), of "length data"] have fits: "length data \<le> L * unat k" by (rule order_trans)
  moreover have "L * unat k \<le> L * unat n" using k0(2) by (rule mult_le_mono2)
  ultimately have "0 + length data \<le> L * length z" unfolding z(2) add_0 by (rule order_trans)
  from concat_place_bytes [OF z(1) this] have "concat ?s = data @ drop (length data) (concat z)" by simp
  then have data: "take (length data) (concat (take (unat k) ?s)) = data"
    using concat_take [OF len(2)] fits k0(2) len(1) by simp
  have n: "unat k + (unat n - unat k) = unat n" using k0(2) by simp
  with len(1) have "length ?s = unat k + (unat n - unat k)" by simp
  note law = reed_solomon_codeD [OF assms(1) ok this len(2) enc, unfolded n]
  show thesis
  proof (rule that [of L])
    show "0 < L" by (simp add: L_def)
    show "take (length data) (concat (take (unat k) out)) = data" using data law(2) by simp
  qed (fact k0 k ok law)+
qed

lemma erasure_recovers:
  assumes "reed_solomon_code sp" and "erasure_encode sp data k n = Inr out"
    and "distinct idx" and "set idx \<subseteq> {..<unat n}" and "unat k \<le> length idx"
  shows "erasure_reconstruct sp (map (\<lambda>i. (of_nat (i + 1), out ! i)) idx) k n (length data) = Inr data \<and>
    rotate_ciphertext_fragments sp (map (\<lambda>i. (of_nat (i + 1), out ! i)) idx) k n (length data) k' n' =
      erasure_encode sp data k' n'"
proof -
  let ?frags = "map (\<lambda>i. (of_nat (i + 1) :: u16, out ! i)) idx"
  from assms(1,2) obtain L where k: "0 < unat k" "k \<le> n" and ok: "reed_solomon_ok sp (unat k) (unat n - unat k)"
    and L: "0 < L" "length out = unat n" "\<forall>s \<in> set out. length s = L"
    and data: "take (length data) (concat (take (unat k) out)) = data"
    and rec: "\<And>given. length given = unat n \<Longrightarrow> \<forall>s \<in> set given. length (fst s) = L \<Longrightarrow>
      unat k \<le> card {i. i < unat n \<and> snd (given ! i)} \<Longrightarrow>
      \<forall>i < unat n. snd (given ! i) \<longrightarrow> fst (given ! i) = out ! i \<Longrightarrow>
      reed_solomon_reconstruct sp (unat k) (unat n - unat k) given = Some (map (\<lambda>s. (s, True)) out)"
    by (rule erasure_encode_ok) blast
  let ?given = "map (\<lambda>i. if i \<in> set idx then (out ! i, True) else replicate (unat n) (replicate L 0, False) ! i) [0..<unat n]"
  have n: "unat n \<le> 65535" using unsigned_less [of n, where 'a = nat] by simp
  have R: "length (replicate (unat n) (replicate L (0 :: byte), False)) = unat n" by simp
  have "\<forall>i \<in> set idx. i < length (replicate (unat n) (replicate L (0 :: byte), False)) \<and> length (out ! i) = L \<and>
      \<not> snd (replicate (unat n) (replicate L (0 :: byte), False) ! i)"
    using assms(4) L by auto
  from place_fragments_chosen [OF assms(3) this, unfolded R, OF n]
  have place: "place_fragments L ?frags (replicate (unat n) (replicate L 0, False)) = Inr ?given" .
  have ne: "idx \<noteq> []" using assms(5) k(1) by auto
  then have hd: "length (snd (hd ?frags)) = L" using L assms(4) by (simp add: hd_map subset_iff)
  have "{i. i < unat n \<and> snd (?given ! i)} = set idx" using assms(4) by (auto split: if_splits)
  then have "unat k \<le> card {i. i < unat n \<and> snd (?given ! i)}" using assms(3,5) by (simp add: distinct_card)
  then have given: "reed_solomon_reconstruct sp (unat k) (unat n - unat k) ?given = Some (map (\<lambda>s. (s, True)) out)"
    by (intro rec) (use L in auto)
  have 1: "erasure_reconstruct sp fr k n (length data) = Inr data"
    if fr: "length fr = length idx" "length (snd (hd fr)) = L"
      "place_fragments L fr (replicate (unat n) (replicate L 0, False)) = Inr g"
      "reed_solomon_reconstruct sp (unat k) (unat n - unat k) g = Some (map (\<lambda>s. (s, True)) out)" for fr g
  proof -
    have "fr \<noteq> []" "snd (hd fr) \<noteq> []" using fr(1,2) ne L(1) by auto
    with fr assms(5) k ok data show ?thesis
      by (simp add: erasure_reconstruct_def unat_sub ok_or_def take_map join_present not_less)
  qed
  have 1: "erasure_reconstruct sp ?frags k n (length data) = Inr data"
    by (rule 1 [OF _ hd place given]) simp
  have u: "unat (of_nat (i + 1) :: u16) = i + 1" if "i \<in> set idx" for i
  proof -
    from that assms(4) have "i < unat n" by blast
    from less_le_trans [OF this n] show ?thesis by (rule unat_u16_index)
  qed
  have "inj_on (\<lambda>i. of_nat (i + 1) :: u16) (set idx)"
  proof (rule inj_onI)
    fix i j assume ij: "i \<in> set idx" "j \<in> set idx" and "(of_nat (i + 1) :: u16) = of_nat (j + 1)"
    then have "unat (of_nat (i + 1) :: u16) = unat (of_nat (j + 1) :: u16)" by (rule_tac arg_cong)
    then show "i = j" unfolding u [OF ij(1)] u [OF ij(2)] by simp
  qed
  then have "distinct (map fst ?frags)" using assms(3) by (simp add: distinct_map comp_def del: of_nat_add of_nat_Suc)
  with 1 show ?thesis by (simp add: rotate_ciphertext_fragments_def del: of_nat_add of_nat_Suc)
qed

text \<open>Any \<open>k\<close> different fragments of an encoded ciphertext reconstruct it, whatever its length, empty
  and not divisible by \<open>k\<close> included; and rotating such fragments gives exactly the fragments of a
  fresh encoding with the new parameters.\<close>

theorem erasure_roundtrip:
  assumes "reed_solomon_code sp" and "erasure_encode sp data k n = Inr out"
    and "distinct idx" and "set idx \<subseteq> {..<unat n}" and "unat k \<le> length idx"
  shows "erasure_reconstruct sp (map (\<lambda>i. (of_nat (i + 1), out ! i)) idx) k n (length data) = Inr data \<and>
    rotate_ciphertext_fragments sp (map (\<lambda>i. (of_nat (i + 1), out ! i)) idx) k n (length data) k' n' =
      erasure_encode sp data k' n'"
  using assms by (rule erasure_recovers)

section \<open>Commitments\<close>

text \<open>What the Merkle library promises: the proof of each leaf of a tree verifies against its root.\<close>

definition merkle_complete :: "primitives \<Rightarrow> bool" where
  "merkle_complete cp \<longleftrightarrow> (\<forall>leaves root i. rs_merkle_root cp leaves = Some root \<and> i < length leaves \<longrightarrow>
     rs_merkle_parse cp (rs_merkle_prove cp leaves [i]) \<and>
     rs_merkle_verify cp (rs_merkle_prove cp leaves [i]) root [i] [leaves ! i] (length leaves))"

lemma merkle_commit_verify:
  assumes "merkle_complete cp" and "merkle_commit cp leaves = Inr (root, proofs)" and "i < length leaves"
  shows "merkle_verify cp root (leaves ! i) i (length leaves) (proofs ! i) = Inr ()"
  using assms by (auto simp: merkle_commit_def merkle_verify_def merkle_complete_def ok_or_eq_Inr split: if_splits)

lemma chunks_of_Nil [simp]: "chunks_of n [] = []"
  by (simp add: chunks_of.simps)

lemma chunks_of_step: "xs \<noteq> [] \<Longrightarrow> 0 < n \<Longrightarrow> chunks_of n xs = take n xs # chunks_of n (drop n xs)"
  by (subst chunks_of.simps) simp

lemma concat_chunks_of: "0 < n \<Longrightarrow> concat (chunks_of n xs) = xs"
proof (induction n xs rule: chunks_of.induct)
  case (1 n xs)
  then show ?case by (cases "xs = []") (simp_all add: chunks_of_step)
qed

lemma chunks_of_lengths: "0 < n \<Longrightarrow> c \<in> set (chunks_of n xs) \<Longrightarrow> length c \<le> n"
proof (induction n xs rule: chunks_of.induct)
  case (1 n xs)
  then show ?case by (cases "xs = []") (auto simp: chunks_of_step)
qed

lemma length_chunks_of: "0 < n \<Longrightarrow> length (chunks_of n xs) = div_ceil (length xs) n"
proof (induction n xs rule: chunks_of.induct)
  case (1 n xs)
  show ?case
  proof (cases "xs = []")
    case True
    then show ?thesis using 1(2) by (simp add: div_ceil_def)
  next
    case False
    then have "length (chunks_of n xs) = Suc (div_ceil (length xs - n) n)"
      using 1 by (simp add: chunks_of_step)
    also have "\<dots> = div_ceil (length xs) n"
    proof (cases "length xs \<le> n")
      case True
      with False 1(2) have "(length xs + n - 1) div n = 1"
        by (intro div_nat_eqI) (auto simp: neq_Nil_conv)
      with True 1(2) show ?thesis by (simp add: div_ceil_def)
    next
      case F: False
      then obtain m where m: "length xs = n + m" by (metis nat_le_iff_add nat_le_linear)
      have "n + m + n - 1 = (m + n - 1) + n" using 1(2) by simp
      then have "(n + m + n - 1) div n = Suc ((m + n - 1) div n)" using 1(2) by (simp only: div_add_self2)
      then show ?thesis by (simp add: div_ceil_def m)
    qed
    finally show ?thesis .
  qed
qed

text \<open>C37: an honest custodian passes every sample: each block of the committed bytes verifies at its index
  with its proof. The blocks are the bytes in order, none longer than 4096, and their number is
  the length divided by 4096 and rounded up, without wrap-around of the 32-bit count.\<close>

theorem custody_roundtrip:
  assumes "merkle_complete cp" and "custody_commit cp bytes = Inr c" and "i < length (chunks_of CUSTODY_BLOCK_SIZE bytes)"
  shows "custody_verify_block cp (cuc_root c) (cuc_block_count c) (of_nat i) (chunks_of CUSTODY_BLOCK_SIZE bytes ! i)
      (cuc_proofs c ! i) = Inr () \<and>
    concat (chunks_of CUSTODY_BLOCK_SIZE bytes) = bytes \<and>
    unat (cuc_block_count c) = div_ceil (length bytes) CUSTODY_BLOCK_SIZE"
proof -
  let ?blocks = "chunks_of CUSTODY_BLOCK_SIZE bytes"
  let ?leaves = "map (\<lambda>(index, block). custody_leaf cp (of_nat index) block) (enumerate 0 ?blocks)"
  have size: "0 < CUSTODY_BLOCK_SIZE" by (simp add: CUSTODY_BLOCK_SIZE_def)
  from assms(2) obtain root proofs where small: "length ?blocks < 2 ^ 32"
    and commit: "merkle_commit cp ?leaves = Inr (root, proofs)"
    and c: "c = \<lparr> cuc_root = root, cuc_block_count = of_nat (length ?blocks), cuc_proofs = proofs \<rparr>"
    by (auto simp: custody_commit_def Let_def not_le split: if_splits prod.splits)
  have leaf: "?leaves ! i = custody_leaf cp (of_nat i) (?blocks ! i)"
    using assms(3) by (simp add: nth_enumerate_eq)
  have u: "unat (of_nat i :: u32) = i" "unat (of_nat (length ?blocks) :: u32) = length ?blocks"
    using assms(3) small by (simp_all add: unsigned_of_nat take_bit_nat_eq_self)
  have "length (?blocks ! i) \<le> CUSTODY_BLOCK_SIZE"
    using assms(3) by (intro chunks_of_lengths [OF size, of _ bytes] nth_mem)
  moreover have "(of_nat i :: u32) < of_nat (length ?blocks)" using assms(3) u by (simp add: word_less_nat_alt)
  moreover have "merkle_verify cp root (custody_leaf cp (of_nat i) (?blocks ! i)) i (length ?blocks) (proofs ! i) = Inr ()"
    using merkle_commit_verify [OF assms(1) commit, of i] assms(3) leaf by simp
  ultimately show ?thesis
    using u concat_chunks_of [OF size] length_chunks_of [OF size]
    by (auto simp: custody_verify_block_def c word_less_nat_alt word_le_nat_alt)
qed

lemma fragment_leaves_ok:
  assumes "fragment_leaves cp cfg gen off fragments = Inr leaves" and "i < length fragments"
  shows "ciphertext_fragment_leaf cp cfg gen (of_nat (off + i + 1)) (fragments ! i) = Inr (leaves ! i) \<and>
    length leaves = length fragments"
  using assms
proof (induction fragments arbitrary: off leaves i)
  case (Cons f fragments)
  from Cons.prems(1) obtain leaf rest where l: "ciphertext_fragment_leaf cp cfg gen (of_nat (off + 1)) f = Inr leaf"
    "fragment_leaves cp cfg gen (off + 1) fragments = Inr rest" "leaves = leaf # rest"
    by (auto split: if_splits)
  show ?case
  proof (cases i)
    case 0
    have "length rest = length fragments"
      using Cons.IH [OF l(2), of 0] l(2) by (cases fragments) auto
    with 0 l show ?thesis by simp
  next
    case (Suc j)
    with Cons.IH [OF l(2), of j] Cons.prems(2) l(3) show ?thesis by simp
  qed
qed simp

text \<open>Every fragment of a committed set verifies under its index, up to the last one.\<close>

theorem fragment_commitment_roundtrip:
  assumes "merkle_complete cp" and "commit_ciphertext_fragments cp cfg gen fragments = Inr c" and "i < length fragments"
  shows "verify_ciphertext_fragment cp (cfc_root c) cfg gen (of_nat (i + 1)) (of_nat (length fragments)) (fragments ! i)
    (cfc_proofs c ! i) = Inr ()"
proof -
  from assms(2) obtain leaves root proofs where n: "length fragments \<le> 65535"
    and l: "fragment_leaves cp cfg gen 0 fragments = Inr leaves" and m: "merkle_commit cp leaves = Inr (root, proofs)"
    and c: "c = \<lparr> cfc_root = root, cfc_proofs = proofs \<rparr>"
    by (auto simp: commit_ciphertext_fragments_def not_less split: if_splits prod.splits)
  from fragment_leaves_ok [OF l assms(3)] have leaf: "ciphertext_fragment_leaf cp cfg gen (of_nat (i + 1)) (fragments ! i) = Inr (leaves ! i)"
    and len: "length leaves = length fragments" by simp_all
  have u: "unat (of_nat (i + 1) :: u16) = i + 1" using assms(3) n by (intro unat_u16_index) simp
  then have nz: "(of_nat (i + 1) :: u16) \<noteq> 0" by (metis add_is_0 unat_0 zero_neq_one)
  have v: "unat (of_nat (length fragments) :: u16) = length fragments"
    using n by (simp add: unsigned_of_nat take_bit_nat_eq_self)
  from merkle_commit_verify [OF assms(1) m, of i] len assms(3)
  have "merkle_verify cp root (leaves ! i) i (length fragments) (proofs ! i) = Inr ()" by simp
  with u v nz leaf assms(3) c show ?thesis
    by (simp add: verify_ciphertext_fragment_def del: of_nat_add of_nat_Suc)
qed

section \<open>Ordered messages\<close>

type_synonym tracker_op = "u16 \<times> u16 \<times> u64 \<times> byte list"

definition tracker_exec :: "primitives \<Rightarrow> tracker_op \<Rightarrow> DpssMessageTracker \<Rightarrow> (CryptoError, unit) result \<times> DpssMessageTracker" where
  "tracker_exec cp op tracker = (case op of (snd_id, rcv_id, q, p) \<Rightarrow> accept_dpss_message cp snd_id rcv_id q p tracker)"

definition accepted_messages :: "(tracker_op \<times> (CryptoError, unit) result) list \<Rightarrow> tracker_op list" where
  "accepted_messages l = map fst (filter (\<lambda>(op, r). r = Inr ()) l)"

fun channel :: "tracker_op \<Rightarrow> u16 \<times> u16" where "channel (s, r, q, p) = (s, r)"
fun sequence_of :: "tracker_op \<Rightarrow> u64" where "sequence_of (s, r, q, p) = q"
fun payload_of :: "tracker_op \<Rightarrow> byte list" where "payload_of (s, r, q, p) = p"

fun message_ok :: "tracker_op \<Rightarrow> bool" where
  "message_ok (s, r, q, p) \<longleftrightarrow> s \<in> {1..32} \<and> r \<in> {1..32} \<and> s \<noteq> r \<and> p \<noteq> [] \<and> length p \<le> 4096"

text \<open>The sequence number after \<open>n\<close> accepted messages of a pair: it counts from 1 and stays at the maximum.\<close>

fun nth_sequence :: "nat \<Rightarrow> u64" where
  "nth_sequence 0 = 1"
| "nth_sequence (Suc n) = saturating_add (nth_sequence n) 1"

definition tracker_inv :: "primitives \<Rightarrow> (tracker_op \<times> (CryptoError, unit) result) list \<Rightarrow> DpssMessageTracker \<Rightarrow> bool" where
  "tracker_inv cp l t \<longleftrightarrow> (let acc = accepted_messages l in
     distinct (map (\<lambda>m. sha256 cp (payload_of m)) acc) \<and>
     dmt_seen_payloads t = (\<lambda>m. sha256 cp (payload_of m)) ` set acc \<and> list_all message_ok acc \<and>
     (\<forall>k. map sequence_of (filter (\<lambda>m. channel m = k) acc) =
          map nth_sequence [0..<length (filter (\<lambda>m. channel m = k) acc)] \<and>
        (case bt_get (dmt_next_sequences t) k of None \<Rightarrow> 1 | Some n \<Rightarrow> n) =
          nth_sequence (length (filter (\<lambda>m. channel m = k) acc))))"

lemma accept_ok:
  assumes "accept_dpss_message cp s r q p t = (Inr u, t')"
  shows "message_ok (s, r, q, p) \<and> q = (case bt_get (dmt_next_sequences t) (s, r) of None \<Rightarrow> 1 | Some n \<Rightarrow> n) \<and>
    sha256 cp p \<notin> dmt_seen_payloads t \<and> dmt_seen_payloads t' = insert (sha256 cp p) (dmt_seen_payloads t) \<and>
    bt_get (dmt_next_sequences t') = (bt_get (dmt_next_sequences t)) ((s, r) \<mapsto> saturating_add q 1)"
proof -
  have u: "s \<in> {1..32} \<longleftrightarrow> s \<noteq> 0 \<and> \<not> 32 < s" for s :: u16
    by (auto simp: word_less_nat_alt word_le_nat_alt unat_gt_0 simp flip: word_unat_eq_iff) (metis One_nat_def Suc_leI unat_0 unat_eq_zero neq0_conv)
  show ?thesis
    using assms unfolding message_ok.simps u
    by (auto simp: accept_dpss_message_def frost_identifier_def bounded_def FROST_MAX_PARTICIPANTS_def
        FROST_ROUND_PACKAGE_MAX_LEN_def Let_def fun_eq_iff split: if_splits sum.splits)
qed

lemma accept_err:
  assumes "accept_dpss_message cp s r q p t = (Inl e, t')"
  shows "dmt_seen_payloads t' = dmt_seen_payloads t \<and>
    (case bt_get (dmt_next_sequences t') k of None \<Rightarrow> 1 | Some n \<Rightarrow> n) =
    (case bt_get (dmt_next_sequences t) k of None \<Rightarrow> 1 | Some n \<Rightarrow> n)"
  using assms
  by (auto simp: accept_dpss_message_def Let_def split: if_splits sum.splits option.splits)

lemma tracker_inv_exec:
  assumes "tracker_inv cp l t" and "tracker_exec cp op t = (r, t')"
  shows "tracker_inv cp (l @ [(op, r)]) t'"
proof -
  obtain s d q p where op: "op = (s, d, q, p)" by (cases op) auto
  with assms(2) have ex: "accept_dpss_message cp s d q p t = (r, t')" by (simp add: tracker_exec_def)
  show ?thesis
  proof (cases r)
    case (Inl e)
    with accept_err [OF ex [unfolded Inl]] assms(1) show ?thesis
      by (simp add: tracker_inv_def accepted_messages_def)
  next
    case (Inr u)
    with accept_ok [OF ex [unfolded Inr]] assms(1) op show ?thesis
      by (auto simp: tracker_inv_def accepted_messages_def Let_def)
  qed
qed

interpretation tracker: logged_machine "tracker_exec cp" DpssMessageTracker_default "tracker_inv cp" for cp
  by unfold_locales (simp add: tracker_inv_def accepted_messages_def DpssMessageTracker_default_def, fact tracker_inv_exec)

text \<open>In every session the tracker accepts the messages of a pair of participants exactly in the order of
  their sequence numbers 1, 2, ..., no two messages with the same payload hash in the whole
  session, and only bounded payloads between two different participants in range.\<close>

theorem dpss_messages_ordered:
  "let acc = accepted_messages (fst (run_log (tracker_exec cp) DpssMessageTracker_default ops)) in
   map sequence_of (filter (\<lambda>m. channel m = k) acc) =
     map nth_sequence [0..<length (filter (\<lambda>m. channel m = k) acc)] \<and>
   distinct (map (\<lambda>m. sha256 cp (payload_of m)) acc) \<and> list_all message_ok acc"
proof -
  have "tracker_inv cp (fst (run_log (tracker_exec cp) DpssMessageTracker_default ops))
      (snd (run_log (tracker_exec cp) DpssMessageTracker_default ops))"
    by (rule tracker.run_inv [OF surjective_pairing])
  then show ?thesis unfolding tracker_inv_def Let_def by blast
qed

section \<open>Derived keys\<close>

text \<open>The uses of key derivation, and the info string of each.\<close>

datatype kdf_use =
    ShareKey Id32 u64 u16
  | ShareKeyV3 ConfigRef u16
  | FragmentKeyV3 ConfigRef u16
  | DescriptorKeyV3 ConfigRef
  | DescriptorKey Id32 u64

fun kdf_info :: "kdf_use \<Rightarrow> byte list" where
  "kdf_info (ShareKey i v g) = as_bytes ''gp/guardian-dek-share/v1'' @ bytes32 i @ be64 v @ be16 g"
| "kdf_info (ShareKeyV3 r g) = config_ref_kdf_info ''gp/guardian-dek-share/v3'' r (Some g)"
| "kdf_info (FragmentKeyV3 r g) = config_ref_kdf_info ''gp/guardian-ciphertext-fragment/v3'' r (Some g)"
| "kdf_info (DescriptorKeyV3 r) = config_ref_kdf_info ''gp/recovery-descriptor/v3'' r None"
| "kdf_info (DescriptorKey i v) = as_bytes ''gp/recovery-descriptor/v1'' @ bytes32 i @ be64 v"

fun derive :: "primitives \<Rightarrow> arr32 \<Rightarrow> kdf_use \<Rightarrow> (CryptoError, Id32) result" where
  "derive cp key (ShareKey i v g) = guardian_share_key cp key i v g"
| "derive cp key (ShareKeyV3 r g) = guardian_share_key_v3 cp key r g"
| "derive cp key (FragmentKeyV3 r g) = guardian_fragment_key_v3 cp key r g"
| "derive cp key (DescriptorKeyV3 r) = descriptor_key_v3 cp key r"
| "derive cp key (DescriptorKey i v) = descriptor_key cp key i v"

definition kdf_slot_ok :: "kdf_use \<Rightarrow> bool" where
  "kdf_slot_ok use = (case use of ShareKeyV3 r g \<Rightarrow> g \<noteq> 0 \<and> g \<le> 32 | FragmentKeyV3 r g \<Rightarrow> g \<noteq> 0 \<and> g \<le> 32 | _ \<Rightarrow> True)"

lemma config_ref_info_inject:
  "config_ref_kdf_info d r a = config_ref_kdf_info d r' a' \<longleftrightarrow> r = r' \<and> a = a'"
proof
  assume "config_ref_kdf_info d r a = config_ref_kdf_info d r' a'"
  then show "r = r' \<and> a = a'"
    by (cases r; cases r'; cases a; cases a') (auto simp: config_ref_kdf_info_def dest: arg_cong [where f = length])
qed simp

text \<open>The use of an info string is read off four bytes of its domain.\<close>

definition kdf_tag :: "byte list \<Rightarrow> byte \<times> byte \<times> byte" where
  "kdf_tag xs = (xs ! 3, xs ! 12, if xs ! 3 = 114 then xs ! 24 else if xs ! 12 = 100 then xs ! 23 else 0)"

lemma kdf_tag_info:
  "kdf_tag (kdf_info use) = (case use of
     ShareKey i v g \<Rightarrow> (103, 100, 49)
   | ShareKeyV3 r g \<Rightarrow> (103, 100, 51)
   | FragmentKeyV3 r g \<Rightarrow> (103, 99, 0)
   | DescriptorKeyV3 r \<Rightarrow> (114, 100, 51)
   | DescriptorKey i v \<Rightarrow> (114, 100, 49))"
  by (cases use) (simp_all add: kdf_tag_def config_ref_kdf_info_def as_bytes_def)

lemma kdf_info_inject: "kdf_info use = kdf_info use' \<Longrightarrow> use = use'"
proof -
  assume eq: "kdf_info use = kdf_info use'"
  then have "kdf_tag (kdf_info use) = kdf_tag (kdf_info use')" by simp
  with eq show "use = use'"
    unfolding kdf_tag_info by (cases use; cases use') (simp_all add: config_ref_info_inject)
qed

text \<open>The key derivations of the program never share an info string: each derives from the string of its
  use, within the slot bounds of version 3, and different uses, configurations or slots have
  different strings although none of their parts carries a length.\<close>

theorem derived_keys_separated:
  "derive cp key use = (if kdf_slot_ok use then hkdf_sha256 cp (bytes32 key) (kdf_info use) else Inl InvalidFrostParticipant) \<and>
   (kdf_info use = kdf_info use' \<longleftrightarrow> use = use')"
proof
  show "derive cp key use = (if kdf_slot_ok use then hkdf_sha256 cp (bytes32 key) (kdf_info use) else Inl InvalidFrostParticipant)"
    by (cases use) (auto simp: kdf_slot_ok_def guardian_share_key_def guardian_share_key_v3_def guardian_fragment_key_v3_def
        descriptor_key_v3_def descriptor_key_def FROST_MAX_PARTICIPANTS_def not_less)
  show "kdf_info use = kdf_info use' \<longleftrightarrow> use = use'" by (auto dest: kdf_info_inject)
qed

section \<open>Instances\<close>

text \<open>Replication satisfies the laws of both coders: every share and every fragment is a copy of the
  secret or of the single data shard.\<close>

definition ex_sharing :: sharing where
  "ex_sharing = \<lparr> sharks_deal = (\<lambda>t secret seed n. map (\<lambda>i. of_nat (i + 1) # secret) [0..<n]),
     sharks_share_ok = (\<lambda>_. True), sharks_recover = (\<lambda>t shares. Some (tl (hd shares))),
     reed_solomon_ok = (\<lambda>k p. k = 1),
     reed_solomon_encode = (\<lambda>k p shards. Some (replicate (k + p) (hd shards))),
     reed_solomon_reconstruct = (\<lambda>k p given. map_option (\<lambda>s. replicate (k + p) (fst s, True)) (List.find snd given)) \<rparr>"

lemma ex_sharing_threshold: "sharks_threshold ex_sharing"
  unfolding sharks_threshold_def
proof (intro allI impI conjI, goal_cases)
  case (5 t secret seed n idx)
  then show ?case by (cases idx) (auto simp: ex_sharing_def)
qed (auto simp: ex_sharing_def)

lemma find_present:
  assumes "length given = n" and "1 \<le> card {i. i < n \<and> snd (given ! i)}"
    and "\<forall>i < n. snd (given ! i) \<longrightarrow> fst (given ! i) = b"
  shows "map_option fst (List.find snd given) = Some b"
proof -
  have "{i. i < n \<and> snd (given ! i)} \<noteq> {}" using assms(2) by (metis card.empty not_one_le_zero)
  then have "\<exists>s \<in> set given. snd s" using assms(1) by auto
  then obtain s where s: "List.find snd given = Some s" by (metis find_None_iff not_None_eq)
  then obtain i where "i < n" "s = given ! i" "snd s" using assms(1) by (auto simp: find_Some_iff)
  with s assms(3) show ?thesis by simp
qed

lemma ex_sharing_code: "reed_solomon_code ex_sharing"
  unfolding reed_solomon_code_def
proof (intro allI impI, elim conjE)
  fix k p L and shards out :: "byte list list"
  assume k: "reed_solomon_ok ex_sharing k p" and len: "length shards = k + p"
    and L: "\<forall>s \<in> set shards. length s = L" and enc: "reed_solomon_encode ex_sharing k p shards = Some out"
  from k have k1: "k = 1" by (simp add: ex_sharing_def)
  then obtain b rest where sh: "shards = b # rest" using len by (cases shards) auto
  have out: "out = replicate (Suc p) b" using enc sh k1 by (simp add: ex_sharing_def)
  have "reed_solomon_reconstruct ex_sharing k p given = Some (map (\<lambda>s. (s, True)) out)"
    if "length given = k + p" "k \<le> card {i. i < k + p \<and> snd (given ! i)}"
      "\<forall>i < k + p. snd (given ! i) \<longrightarrow> fst (given ! i) = out ! i" for given
  proof -
    have "\<forall>i < k + p. snd (given ! i) \<longrightarrow> fst (given ! i) = b"
      using that(3) k1 unfolding out by (metis nth_replicate plus_1_eq_Suc)
    from find_present [OF that(1) _ this] that(2) k1 show ?thesis
      by (auto simp: ex_sharing_def out)
  qed
  then show "length out = k + p \<and> take k out = take k shards \<and> (\<forall>s \<in> set out. length s = L) \<and>
     (\<forall>given. length given = k + p \<and> (\<forall>s \<in> set given. length (fst s) = L) \<and>
        k \<le> card {i. i < k + p \<and> snd (given ! i)} \<and>
        (\<forall>i < k + p. snd (given ! i) \<longrightarrow> fst (given ! i) = out ! i) \<longrightarrow>
        reed_solomon_reconstruct ex_sharing k p given = Some (map (\<lambda>s. (s, True)) out))"
    using k1 sh L out by simp
qed

theorem shamir_roundtrip_witness:
  "recover_secret ex_sharing [3 # replicate 32 7, 1 # replicate 32 7] 2 = Inr (replicate 32 7)"
proof -
  have "split_secret ex_sharing (replicate 32 7) 2 3 0 =
      Inr [1 # replicate 32 7, 2 # replicate 32 7, 3 # replicate 32 7]"
    by (simp add: split_secret_def ex_sharing_def SHAMIR_SECRET_LEN_def SHAMIR_MAX_SHARES_def upt_rec)
  from shamir_roundtrip [OF ex_sharing_threshold this, of "[2, 0]"] show ?thesis by simp
qed

theorem erasure_roundtrip_witness:
  "erasure_reconstruct ex_sharing [(3, [5, 6])] 1 3 2 = Inr [5, 6] \<and>
   rotate_ciphertext_fragments ex_sharing [(3, [5, 6])] 1 3 2 1 2 = erasure_encode ex_sharing [5, 6] 1 2 \<and>
   erasure_encode ex_sharing [5, 6] 1 2 = Inr [[5, 6], [5, 6]]"
proof -
  have enc: "erasure_encode ex_sharing [5, 6] 1 n = Inr (replicate (unat n) [5, 6])" if "n \<noteq> 0" for n :: u16
  proof -
    from that obtain m where m: "unat n = Suc m" by (metis not0_implies_Suc unat_eq_zero)
    from that have "1 \<le> n" by (simp add: word_le_nat_alt m)
    with m that show ?thesis
      by (simp add: erasure_encode_def ex_sharing_def div_ceil_def not_less unat_sub ok_or_def)
  qed
  have two: "replicate 2 x = [x, x]" for x :: "byte list" by (simp add: numeral_2_eq_2)
  have "erasure_encode ex_sharing [5, 6] 1 2 = Inr [[5, 6], [5, 6]]" using enc [of 2] by (simp add: two)
  with erasure_roundtrip [OF ex_sharing_code enc [of 3], of "[2]"] show ?thesis
    by (simp flip: numeral_2_eq_2)
qed

text \<open>A tree whose proofs list all leaves satisfies the Merkle law.\<close>

definition ex_merkle :: primitives where
  "ex_merkle = \<lparr> sha2_digest = (\<lambda>d. of_nat (length d)), dalek_key_ok = (\<lambda>_. True), dalek_signature_ok = (\<lambda>_. True),
     dalek_verify = (\<lambda>_ _ _. True), dalek_public = (\<lambda>seed. seed), dalek_sign = (\<lambda>_ _. []),
     rs_merkle_root = (\<lambda>leaves. Some (of_nat (length leaves))),
     rs_merkle_prove = (\<lambda>leaves _. concat (map bytes32 leaves)),
     rs_merkle_parse = (\<lambda>p. length p mod 32 = 0),
     rs_merkle_verify = (\<lambda>p root idx leaves n. root = of_nat n \<and>
        list_all2 (\<lambda>i l. take 32 (drop (32 * i) p) = bytes32 l) idx leaves),
     hkdf_expand = (\<lambda>_ _. None), xchacha_encrypt = (\<lambda>_ _ m _. Some m), xchacha_decrypt = (\<lambda>_ _ c _. Some c),
     xwing_public = (\<lambda>_. []), xwing_encapsulate = (\<lambda>_ _. Some ([], 0)), xwing_decapsulate = (\<lambda>_ _. Some 0) \<rparr>"

lemma take_drop_concat:
  "\<forall>x \<in> set xs. length (f x) = n \<Longrightarrow> i < length xs \<Longrightarrow> take n (drop (n * i) (concat (map f xs))) = f (xs ! i)"
proof (induction xs arbitrary: i)
  case (Cons x xs)
  then show ?case by (cases i) (auto simp: drop_append)
qed simp

lemma ex_merkle_complete: "merkle_complete ex_merkle"
proof -
  have "length (concat (map bytes32 ls)) = 32 * length ls" for ls by (induction ls) auto
  then show ?thesis
    by (auto simp: merkle_complete_def ex_merkle_def take_drop_concat)
qed

theorem custody_roundtrip_witness:
  "custody_verify_block ex_merkle 2 2 1 (replicate 904 9) (concat (map bytes32 [4123, 931])) = Inr () \<and>
   concat (chunks_of CUSTODY_BLOCK_SIZE (replicate 5000 9)) = replicate 5000 (9 :: byte) \<and>
   div_ceil 5000 CUSTODY_BLOCK_SIZE = 2"
proof -
  have blocks: "chunks_of CUSTODY_BLOCK_SIZE (replicate 5000 9) = [replicate 4096 9, replicate 904 (9 :: byte)]"
    by (simp add: chunks_of_step CUSTODY_BLOCK_SIZE_def)
  let ?leaves = "[custody_leaf ex_merkle 0 (replicate 4096 9), custody_leaf ex_merkle 1 (replicate 904 9)]"
  have leaves: "?leaves = [4123, 931]"
    by (simp add: custody_leaf_def sha256_def ex_merkle_def as_bytes_def)
  have commit: "custody_commit ex_merkle (replicate 5000 9) = Inr \<lparr> cuc_root = 2, cuc_block_count = 2,
      cuc_proofs = replicate 2 (concat (map bytes32 [4123, 931])) \<rparr>"
    using leaves
    by (simp add: custody_commit_def blocks merkle_commit_def ok_or_def)
      (simp add: ex_merkle_def numeral_2_eq_2)
  from custody_roundtrip [OF ex_merkle_complete commit, of 1] show ?thesis by (simp add: blocks)
qed

theorem fragment_commitment_roundtrip_witness:
  "verify_ciphertext_fragment ex_merkle 2 7 1 2 2 [6] (concat (map bytes32 [112, 112])) = Inr ()"
proof -
  have leaf: "ciphertext_fragment_leaf ex_merkle 7 1 i [b] = Inr 112" if "i \<noteq> 0" for i b
    using that by (simp add: ciphertext_fragment_leaf_def sha256_def ex_merkle_def as_bytes_def)
  have commit: "commit_ciphertext_fragments ex_merkle 7 1 [[5], [6]] = Inr \<lparr> cfc_root = 2,
      cfc_proofs = replicate 2 (concat (map bytes32 [112, 112])) \<rparr>"
    by (simp add: commit_ciphertext_fragments_def leaf merkle_commit_def ok_or_def)
      (simp add: ex_merkle_def numeral_2_eq_2)
  from fragment_commitment_roundtrip [OF ex_merkle_complete commit, of 1] show ?thesis by simp
qed

end
