(* ===== verification/GP_Signer_Runtime.thy ===== *)
theory GP_Signer_Runtime
  imports GP_Protocol_Rotation GP_Storage_Locks
begin

text \<open>
  The protocol-3 signer: \<open>handle_signer_rotation_v3\<close> of \<open>gp-network/src/rotation_runtime.rs\<close> and
  \<open>handle_signer_recovery_v3\<close> of \<open>gp-network/src/recovery_runtime.rs\<close>, over the entry of
  \<open>gp-network/src/types.rs\<close>. The random seed and nonce of a sealed answer are inputs, as is the
  clock. A handler that fails after a change of the entry keeps the change.
\<close>

section \<open>State and messages\<close>

record SignerRotationProvisionV3 =
  srp_mailbox :: string
  srp_signer_id :: u16
  srp_authorization_share :: "byte list"
  srp_signing_seed :: Id32
  srp_signing_public_key :: arr32
  srp_membership_proof :: "byte list"
  srp_recovery_card :: RecoveryCardV3
  srp_active_capsule :: ConfigCapsuleV3

record SignerRotationEntryV3 =
  sre_provision :: SignerRotationProvisionV3
  sre_security_state :: SignerRotationStore
  sre_recovery_requests :: "(string, Id32) btree_map"
  sre_recovery_nonces :: "Id32 set"

datatype SignerRecoveryRequestV3 =
    Approve RecoveryRequestV3 EpochReadChallenge "WitnessReadEnvelope list"
  | ReleaseRequest RecoveryRequestV3

datatype SignerRecoveryResponseV3 =
    Contribution SignerRecoveryContributionV3
  | RecoveryReleaseVote SignerRecoveryReleaseVoteV3

datatype SignerRotationRequestV3 =
    Intent RotationIntent EpochReadChallenge "WitnessReadEnvelope list"
  | Begin Id32 RotationPlan
  | Release RotationPlan BeginRotationCertificate
  | Activate RotationPlan RotationReadyCertificate ConfigCapsuleV3
  | Abort RotationPlan RotationState u16 "byte list"
  | FinalizeAbort RotationPlan AbortRotationCertificate "byte list"
  | FinalizeOwnerCancel RotationPlan OwnerRotationCancelCertificate "WitnessRotationCancelAck list" "byte list"

datatype SignerRotationResponseV3 =
    IntentContribution SignerRotationIntentContribution
  | BeginVoted SignerRotationBeginVote
  | ReleaseVoted SignerRotationReleaseVote
  | ActivateVoted SignerRotationActivateVote
  | AbortVoted SignerRotationAbortVote
  | AbortFinalized
  | OwnerCancelFinalized

fun request_context :: "SignerRotationRequestV3 \<Rightarrow> RotationContext" where
  "request_context (Intent intent _ _) = ri_context intent"
| "request_context (Begin _ plan) = rp_context plan"
| "request_context (Release plan _) = rp_context plan"
| "request_context (Activate plan _ _) = rp_context plan"
| "request_context (Abort plan _ _ _) = rp_context plan"
| "request_context (FinalizeAbort plan _ _) = rp_context plan"
| "request_context (FinalizeOwnerCancel plan _ _ _) = rp_context plan"

section \<open>Rotation\<close>

text \<open>\<open>SignerRotationStore::record_vote\<close> on one of the vote maps of the entry.\<close>

definition record_vote_in ::
    "(Id32 \<Rightarrow> string) \<Rightarrow> vote_phase \<Rightarrow> Id32 \<Rightarrow> Id32 \<Rightarrow> SignerRotationEntryV3 \<Rightarrow>
     (anyhow, SignerRotationEntryV3) result"
where
  "record_vote_in hx phase rotation_id transcript_hash entry =
    (case record_vote hx rotation_id transcript_hash (votes_of phase (sre_security_state entry)) of
       (Inl e, _) \<Rightarrow> Inl (FromStorage e)
     | (Inr _, votes) \<Rightarrow> Inr (entry \<lparr> sre_security_state := set_votes phase votes (sre_security_state entry) \<rparr>))"

definition seal_share ::
    "primitives \<Rightarrow> SignerRotationEntryV3 \<Rightarrow> byte list \<Rightarrow> Id32 \<Rightarrow> arr24 \<Rightarrow> (WireError, byte list) result \<Rightarrow>
     (anyhow, SealedMessage) result"
where
  "seal_share cp entry recipient_key kem_seed nonce context =
    bindR (wire context) (\<lambda>context.
    crypt (seal_to_recipient cp recipient_key kem_seed nonce
      (srp_authorization_share (sre_provision entry)) context))"

definition signer_intent ::
    "primitives \<Rightarrow> (Id32 \<Rightarrow> string) \<Rightarrow> Id32 \<Rightarrow> arr24 \<Rightarrow> RotationIntent \<Rightarrow> EpochReadChallenge \<Rightarrow>
     WitnessReadEnvelope list \<Rightarrow> SignerRotationEntryV3 \<Rightarrow>
     (anyhow, SignerRotationResponseV3) result \<times> SignerRotationEntryV3"
where
  "signer_intent cp hx kem_seed nonce intent witness_challenge witness_reads entry =
    (let provision = sre_provision entry; context = ri_context intent in
     attempt (select_latest_epoch_v3 cp (srp_recovery_card provision) witness_challenge witness_reads) entry (\<lambda>active.
     if cc3_config_ref active \<noteq> rx_config_ref context \<or>
        cc3_capsule_hash active \<noteq> rx_predecessor_capsule_hash context \<or>
        ri_old_guardian_count intent \<noteq> cc3_guardian_count active \<or>
        ri_old_guardian_threshold intent \<noteq> cc3_guardian_threshold active \<or>
        ri_allowed_new_guardian_count intent = [] \<or>
        ri_allowed_new_guardian_threshold intent = [] \<or>
        ri_allowed_dpss_suites intent = []
     then (Inl (Bail ''rotation intent does not bind the fresh active witness view''), entry) else
     attempt (witness_read_quorum_hash_v3 cp witness_challenge witness_reads) entry (\<lambda>read_hash.
     if ri_witness_read_qc_hash intent \<noteq> read_hash
     then (Inl (Bail ''rotation intent does not bind the fresh active witness view''), entry) else
     attempt (wire (rotation_intent intent)) entry (\<lambda>intent_transcript.
     let intent_hash = sha256 cp intent_transcript; intent_key = hx (rx_rotation_id context) in
     attempt (record_vote_in hx IntentVote
       (rx_rotation_id context) intent_hash entry) entry (\<lambda>entry.
     if (case bt_get (srs_intents (sre_security_state entry)) intent_key of
           Some existing \<Rightarrow> existing \<noteq> intent | None \<Rightarrow> False)
     then (Inl (Bail ''signer already approved a conflicting rotation Intent''), entry) else
     let entry = entry \<lparr> sre_provision := provision \<lparr> srp_active_capsule := active \<rparr>,
           sre_security_state := (sre_security_state entry) \<lparr>
             srs_intents := (case bt_get (srs_intents (sre_security_state entry)) intent_key of
               Some _ \<Rightarrow> srs_intents (sre_security_state entry)
             | None \<Rightarrow> bt_insert intent_key intent (srs_intents (sre_security_state entry))),
             srs_highest_observed_epoch := bt_insert (hx (cr_config_id (rx_config_ref context)))
               (cr_guardian_epoch (rx_config_ref context))
               (srs_highest_observed_epoch (sre_security_state entry)) \<rparr> \<rparr> in
     attempt (seal_share cp entry (rx_recipient_key context) kem_seed nonce
       (rotation_intent_share_context_v3 context intent_hash (srp_signer_id provision))) entry
       (\<lambda>encrypted_authorization_share.
     let contribution = \<lparr> sric_context = context, sric_intent_hash = intent_hash,
           sric_signer_id = srp_signer_id provision,
           sric_signer_public_key = srp_signing_public_key provision,
           sric_signer_membership_proof = srp_membership_proof provision,
           sric_encrypted_authorization_share = encrypted_authorization_share, sric_signer_signature = [] \<rparr> in
     attempt (wire (signer_rotation_intent_contribution contribution)) entry (\<lambda>t.
     (Inr (IntentContribution (contribution \<lparr> sric_signer_signature := sign cp (srp_signing_seed provision) t \<rparr>)),
      entry))))))))"

definition signer_begin ::
    "primitives \<Rightarrow> (Id32 \<Rightarrow> string) \<Rightarrow> u64 \<Rightarrow> Id32 \<Rightarrow> RotationPlan \<Rightarrow> SignerRotationEntryV3 \<Rightarrow>
     (anyhow, SignerRotationResponseV3) result \<times> SignerRotationEntryV3"
where
  "signer_begin cp hx now intent_hash plan entry =
    (let provision = sre_provision entry; store = sre_security_state entry;
         rotation_key = hx (rx_rotation_id (rp_context plan)) in
     if bt_contains_key (srs_cancelled_rotations store) rotation_key
     then (Inl (Bail ''signer permanently rejected this cancelled rotation id''), entry) else
     attempt (ok_or (bt_get (srs_intents store) rotation_key)
       (Bail ''signer has no approved Intent for this rotation'')) entry (\<lambda>approved_intent.
     attempt (validate_rotation_plan_against_intent_v3 cp plan approved_intent (srp_active_capsule provision) now)
       entry (\<lambda>plan_hash.
     if rp_intent_hash plan \<noteq> intent_hash \<or> bt_get (srs_intent_votes store) rotation_key \<noteq> Some intent_hash
     then (Inl (Bail ''signer did not authorize this exact descriptor-open intent''), entry) else
     case lock_plan hx (rx_predecessor_capsule_hash (rp_context plan)) plan_hash store of
       (Inl e, store) \<Rightarrow> (Inl (FromStorage e), entry \<lparr> sre_security_state := store \<rparr>)
     | (Inr _, store) \<Rightarrow>
     (let entry = entry \<lparr> sre_security_state := store \<rparr> in
     attempt (record_vote_in hx BeginVote
       (rx_rotation_id (rp_context plan)) plan_hash entry) entry (\<lambda>entry.
     let vote = \<lparr> srbv_context = rp_context plan, srbv_intent_hash = intent_hash, srbv_plan_hash = plan_hash,
           srbv_old_roster_commitment = rp_old_roster_commitment plan,
           srbv_new_roster_commitment = rp_new_roster_commitment plan,
           srbv_signer_id = srp_signer_id provision, srbv_signer_public_key = srp_signing_public_key provision,
           srbv_signer_membership_proof = srp_membership_proof provision, srbv_signer_signature = [] \<rparr> in
     attempt (wire (signer_rotation_begin_vote vote)) entry (\<lambda>t.
     (Inr (BeginVoted (vote \<lparr> srbv_signer_signature := sign cp (srp_signing_seed provision) t \<rparr>)), entry)))))))"

definition signer_release ::
    "primitives \<Rightarrow> (Id32 \<Rightarrow> string) \<Rightarrow> u64 \<Rightarrow> RotationPlan \<Rightarrow> BeginRotationCertificate \<Rightarrow> SignerRotationEntryV3 \<Rightarrow>
     (anyhow, SignerRotationResponseV3) result \<times> SignerRotationEntryV3"
where
  "signer_release cp hx now plan begin_certificate entry =
    (let provision = sre_provision entry; store = sre_security_state entry;
         rotation_key = hx (rx_rotation_id (rp_context plan)) in
     if bt_contains_key (srs_cancelled_rotations store) rotation_key
     then (Inl (Bail ''signer refuses Release for a cancelled rotation''), entry) else
     attempt (wire (rotation_plan plan)) entry (\<lambda>plan_transcript.
     let release_plan_hash = sha256 cp plan_transcript in
     if bt_get (srs_begin_votes store) rotation_key \<noteq> Some release_plan_hash
     then (Inl (Bail ''signer never approved this exact Begin plan''), entry) else
     attempt (validate_begin_rotation_certificate_v3 cp begin_certificate plan (srp_active_capsule provision) now)
       entry (\<lambda>begin_hash.
     if now < brot_not_before_wall begin_certificate
     then (Inl (Bail ''rotation delay has not elapsed''), entry) else
     let vote = \<lparr> srrv_context = rp_context plan, srrv_plan_hash = release_plan_hash,
           srrv_begin_certificate_hash = begin_hash, srrv_signer_id = srp_signer_id provision,
           srrv_signer_public_key = srp_signing_public_key provision,
           srrv_signer_membership_proof = srp_membership_proof provision, srrv_signer_signature = [] \<rparr> in
     attempt (wire (signer_rotation_release_vote vote)) entry (\<lambda>t.
     attempt (record_vote_in hx ReleaseVotePhase
       (rx_rotation_id (rp_context plan)) (sha256 cp t) entry) entry (\<lambda>entry.
     (Inr (ReleaseVoted (vote \<lparr> srrv_signer_signature := sign cp (srp_signing_seed provision) t \<rparr>)), entry))))))"

definition successor_mismatch ::
    "primitives \<Rightarrow> RotationPlan \<Rightarrow> RotationReadyCertificate \<Rightarrow> ConfigCapsuleV3 \<Rightarrow> ConfigCapsuleV3 \<Rightarrow> Id32 \<Rightarrow>
     (anyhow, bool) result"
where
  "successor_mismatch cp plan ready successor active capsule_hash =
    (if cc3_config_ref successor \<noteq> rp_successor plan \<or>
        cc3_predecessor_capsule_hash successor \<noteq> cc3_capsule_hash active \<or>
        cc3_capsule_hash successor \<noteq> capsule_hash \<or>
        cc3_signer_count successor \<noteq> cc3_signer_count active \<or>
        cc3_signer_threshold successor \<noteq> cc3_signer_threshold active \<or>
        cc3_signer_set_commitment successor \<noteq> cc3_signer_set_commitment active \<or>
        cc3_owner_cancel_public_key successor \<noteq> cc3_owner_cancel_public_key active
     then Inr True else
     bindR (u16_try_from (length (rp_new_roster plan))) (\<lambda>new_count.
     Inr (cc3_guardian_count successor \<noteq> new_count \<or>
       cc3_guardian_threshold successor \<noteq> rp_new_guardian_threshold plan \<or>
       cc3_dpss_public_commitment successor \<noteq> rrdy_dpss_result_commitment ready \<or>
       cc3_guardian_material_root successor \<noteq> rrdy_guardian_material_root ready \<or>
       hash_aead cp (cc3_encrypted_recovery_descriptor successor) \<noteq> rrdy_encrypted_descriptor_hash ready \<or>
       cc3_activation_certificate successor \<noteq> None \<or>
       cc3_activation_qc successor \<noteq> None)))"

definition signer_activate ::
    "primitives \<Rightarrow> (Id32 \<Rightarrow> string) \<Rightarrow> u64 \<Rightarrow> RotationPlan \<Rightarrow> RotationReadyCertificate \<Rightarrow> ConfigCapsuleV3 \<Rightarrow>
     SignerRotationEntryV3 \<Rightarrow> (anyhow, SignerRotationResponseV3) result \<times> SignerRotationEntryV3"
where
  "signer_activate cp hx now plan ready_certificate successor_capsule entry =
    (let provision = sre_provision entry; store = sre_security_state entry;
         active = srp_active_capsule provision;
         rotation_key = hx (rx_rotation_id (rp_context plan)) in
     if bt_contains_key (srs_cancelled_rotations store) rotation_key
     then (Inl (Bail ''signer did not participate in this rotation's Begin and Release''), entry) else
     attempt (wire (rotation_plan plan)) entry (\<lambda>plan_transcript.
     if bt_get (srs_begin_votes store) rotation_key \<noteq> Some (sha256 cp plan_transcript) \<or>
        \<not> bt_contains_key (srs_release_votes store) rotation_key
     then (Inl (Bail ''signer did not participate in this rotation's Begin and Release''), entry) else
     attempt (validate_rotation_ready_certificate_v3 cp ready_certificate plan active now) entry (\<lambda>ready_hash.
     attempt (wire (config_capsule_body_v3 successor_capsule)) entry (\<lambda>body.
     let capsule_hash = sha256 cp body in
     attempt (successor_mismatch cp plan ready_certificate successor_capsule active capsule_hash) entry (\<lambda>mismatch.
     if mismatch
     then (Inl (Bail ''successor capsule does not match Ready and immutable signer policy''), entry) else
     let vote = \<lparr> srav_context = rp_context plan, srav_plan_hash = rrdy_plan_hash ready_certificate,
           srav_ready_certificate_hash = ready_hash, srav_successor_capsule_hash = capsule_hash,
           srav_signer_id = srp_signer_id provision, srav_signer_public_key = srp_signing_public_key provision,
           srav_signer_membership_proof = srp_membership_proof provision, srav_signer_signature = [] \<rparr> in
     attempt (wire (signer_rotation_activate_vote vote)) entry (\<lambda>t.
     attempt (record_vote_in hx ActivateVote
       (rx_rotation_id (rp_context plan)) (sha256 cp t) entry) entry (\<lambda>entry.
     (Inr (ActivateVoted (vote \<lparr> srav_signer_signature := sign cp (srp_signing_seed provision) t \<rparr>)), entry))))))))"

definition signer_abort ::
    "primitives \<Rightarrow> (Id32 \<Rightarrow> string) \<Rightarrow> u64 \<Rightarrow> RotationPlan \<Rightarrow> RotationState \<Rightarrow> u16 \<Rightarrow> byte list \<Rightarrow>
     SignerRotationEntryV3 \<Rightarrow> (anyhow, SignerRotationResponseV3) result \<times> SignerRotationEntryV3"
where
  "signer_abort cp hx now plan state_at_abort reason_code response_recipient_key entry =
    (let provision = sre_provision entry; store = sre_security_state entry;
         rotation_key = hx (rx_rotation_id (rp_context plan)) in
     if length response_recipient_key \<noteq> XWING_PUBLIC_KEY_LEN
     then (Inl (Bail ''signer Abort response recipient is malformed''), entry) else
     attempt (validate_rotation_plan_v3 cp plan (srp_active_capsule provision) now) entry (\<lambda>plan_hash.
     if bt_contains_key (srs_cancelled_rotations store) rotation_key \<or>
        bt_get (srs_begin_votes store) rotation_key \<noteq> Some plan_hash \<or>
        bt_contains_key (srs_activate_votes store) rotation_key \<or>
        state_at_abort \<notin> {RotationState.DelayPending, RotationState.Preparing, RotationState.Ready,
          RotationState.Activating}
     then (Inl (Bail ''signer refuses an unbegun, post-activation, or invalid-state abort''), entry) else
     let vote = \<lparr> sabv_context = rp_context plan, sabv_plan_hash = plan_hash, sabv_state_at_abort = state_at_abort,
           sabv_reason_code = reason_code, sabv_signer_id = srp_signer_id provision,
           sabv_signer_public_key = srp_signing_public_key provision,
           sabv_signer_membership_proof = srp_membership_proof provision, sabv_signer_signature = [] \<rparr> in
     attempt (wire (signer_rotation_abort_vote vote)) entry (\<lambda>t.
     (Inr (AbortVoted (vote \<lparr> sabv_signer_signature := sign cp (srp_signing_seed provision) t \<rparr>)), entry))))"

definition signer_finalize_abort ::
    "primitives \<Rightarrow> (Id32 \<Rightarrow> string) \<Rightarrow> u64 \<Rightarrow> RotationPlan \<Rightarrow> AbortRotationCertificate \<Rightarrow> byte list \<Rightarrow>
     SignerRotationEntryV3 \<Rightarrow> (anyhow, SignerRotationResponseV3) result \<times> SignerRotationEntryV3"
where
  "signer_finalize_abort cp hx now plan certificate response_recipient_key entry =
    (let store = sre_security_state entry;
         rotation_key = hx (rx_rotation_id (rp_context plan));
         predecessor_key = hx (rx_predecessor_capsule_hash (rp_context plan)) in
     if length response_recipient_key \<noteq> XWING_PUBLIC_KEY_LEN
     then (Inl (Bail ''signer abort-finalization recipient is malformed''), entry) else
     attempt (validate_abort_rotation_certificate_v3 cp certificate plan (srp_active_capsule (sre_provision entry)) now)
       entry (\<lambda>_.
     attempt (wire (rotation_plan plan)) entry (\<lambda>plan_transcript.
     let plan_hash = sha256 cp plan_transcript in
     if bt_get (srs_begin_votes store) rotation_key \<noteq> Some plan_hash \<or>
        bt_contains_key (srs_activate_votes store) rotation_key
     then (Inl (Bail ''signer refuses to finalize an unbegun or post-Activate abort''), entry) else
     if bt_get (srs_predecessor_plan_locks store) predecessor_key \<noteq> Some plan_hash
     then (Inl (Bail ''signer predecessor lock does not match the aborted plan''), entry) else
     attempt (wire (abort_rotation_certificate certificate)) entry (\<lambda>t.
     (Inr AbortFinalized, entry \<lparr> sre_security_state := store \<lparr>
        srs_cancelled_rotations := bt_insert rotation_key (sha256 cp t) (srs_cancelled_rotations store),
        srs_predecessor_plan_locks := bt_remove predecessor_key (srs_predecessor_plan_locks store) \<rparr> \<rparr>)))))"

definition signer_finalize_owner_cancel ::
    "primitives \<Rightarrow> (Id32 \<Rightarrow> string) \<Rightarrow> u64 \<Rightarrow> RotationPlan \<Rightarrow> OwnerRotationCancelCertificate \<Rightarrow>
     WitnessRotationCancelAck list \<Rightarrow> byte list \<Rightarrow> SignerRotationEntryV3 \<Rightarrow>
     (anyhow, SignerRotationResponseV3) result \<times> SignerRotationEntryV3"
where
  "signer_finalize_owner_cancel cp hx now plan certificate witness_acks response_recipient_key entry =
    (let provision = sre_provision entry; store = sre_security_state entry;
         rotation_key = hx (rx_rotation_id (rp_context plan));
         predecessor_key = hx (rx_predecessor_capsule_hash (rp_context plan)) in
     if length response_recipient_key \<noteq> XWING_PUBLIC_KEY_LEN
     then (Inl (Bail ''signer owner-cancel finalization recipient is malformed''), entry) else
     attempt (validate_owner_rotation_cancel_witness_quorum_v3 cp certificate witness_acks
       (srp_recovery_card provision) plan (srp_active_capsule provision) now) entry (\<lambda>cancel_hash.
     if bt_get (srs_cancelled_rotations store) rotation_key = Some cancel_hash
     then (Inr OwnerCancelFinalized, entry) else
     attempt (wire (rotation_plan plan)) entry (\<lambda>plan_transcript.
     let plan_hash = sha256 cp plan_transcript in
     if bt_get (srs_begin_votes store) rotation_key \<noteq> Some plan_hash
     then (Inl (Bail ''signer refuses to finalize owner cancellation for an unbegun plan''), entry) else
     if bt_get (srs_predecessor_plan_locks store) predecessor_key \<noteq> Some plan_hash
     then (Inl (Bail ''signer predecessor lock does not match the owner-cancelled plan''), entry) else
     (Inr OwnerCancelFinalized, entry \<lparr> sre_security_state := store \<lparr>
        srs_cancelled_rotations := bt_insert rotation_key cancel_hash (srs_cancelled_rotations store),
        srs_predecessor_plan_locks := bt_remove predecessor_key (srs_predecessor_plan_locks store) \<rparr> \<rparr>))))"

definition handle_signer_rotation_v3 ::
    "primitives \<Rightarrow> (Id32 \<Rightarrow> string) \<Rightarrow> Id32 \<Rightarrow> arr24 \<Rightarrow> u64 \<Rightarrow> SignerRotationRequestV3 \<Rightarrow> SignerRotationEntryV3 \<Rightarrow>
     (anyhow, SignerRotationResponseV3) result \<times> SignerRotationEntryV3"
where
  "handle_signer_rotation_v3 cp hx kem_seed nonce now request entry =
    (let context = request_context request in
     if rx_protocol_version context \<noteq> PROTOCOL_VERSION_V3 \<or>
        cr_config_id (rx_config_ref context) \<noteq> card3_config_id (srp_recovery_card (sre_provision entry)) \<or>
        rx_issued_at context > now \<or>
        rx_expiry context \<le> now \<or>
        length (rx_recipient_key context) \<noteq> XWING_PUBLIC_KEY_LEN
     then (Inl (Bail ''signer rejected malformed, stale, or recipient-mismatched rotation context''), entry)
     else case request of
       Intent intent witness_challenge witness_reads \<Rightarrow>
         signer_intent cp hx kem_seed nonce intent witness_challenge witness_reads entry
     | Begin intent_hash plan \<Rightarrow> signer_begin cp hx now intent_hash plan entry
     | Release plan begin_certificate \<Rightarrow> signer_release cp hx now plan begin_certificate entry
     | Activate plan ready_certificate successor_capsule \<Rightarrow>
         signer_activate cp hx now plan ready_certificate successor_capsule entry
     | Abort plan state_at_abort reason_code response_recipient_key \<Rightarrow>
         signer_abort cp hx now plan state_at_abort reason_code response_recipient_key entry
     | FinalizeAbort plan certificate response_recipient_key \<Rightarrow>
         signer_finalize_abort cp hx now plan certificate response_recipient_key entry
     | FinalizeOwnerCancel plan certificate witness_acks response_recipient_key \<Rightarrow>
         signer_finalize_owner_cancel cp hx now plan certificate witness_acks response_recipient_key entry)"

section \<open>Recovery\<close>

definition signer_recovery_approve ::
    "primitives \<Rightarrow> (Id32 \<Rightarrow> string) \<Rightarrow> Id32 \<Rightarrow> arr24 \<Rightarrow> u64 \<Rightarrow> RecoveryRequestV3 \<Rightarrow> EpochReadChallenge \<Rightarrow>
     WitnessReadEnvelope list \<Rightarrow> SignerRotationEntryV3 \<Rightarrow>
     (anyhow, SignerRecoveryResponseV3) result \<times> SignerRotationEntryV3"
where
  "signer_recovery_approve cp hx kem_seed nonce now request witness_challenge witness_reads entry =
    (let provision = sre_provision entry; request_key = hx (rq3_request_id request) in
     if erc_issued_at witness_challenge > now \<or> erc_expiry witness_challenge \<le> now \<or>
        erc_response_recipient_key witness_challenge \<noteq> rq3_recovery_recipient_key request
     then (Inl (Bail ''signer requires a fresh witness read bound to the recovery recipient''), entry) else
     attempt (select_latest_epoch_v3 cp (srp_recovery_card provision) witness_challenge witness_reads) entry (\<lambda>active.
     attempt (validate_recovery_request_v3 cp request active now) entry (\<lambda>digest.
     attempt (case bt_get (sre_recovery_requests entry) request_key of
         Some previous \<Rightarrow>
           if previous \<noteq> digest
           then Inl (Bail ''signer request id is already bound to another transcript'')
           else Inr entry
       | None \<Rightarrow>
           if rq3_nonce request \<in> sre_recovery_nonces entry
           then Inl (Bail ''signer rejected a replayed recovery nonce'')
           else Inr (entry \<lparr> sre_recovery_nonces := insert (rq3_nonce request) (sre_recovery_nonces entry),
             sre_recovery_requests := bt_insert request_key digest (sre_recovery_requests entry) \<rparr>))
       entry (\<lambda>entry.
     let entry = entry \<lparr> sre_provision := provision \<lparr> srp_active_capsule := active \<rparr> \<rparr> in
     attempt (seal_share cp entry (rq3_recovery_recipient_key request) kem_seed nonce
       (recovery_authorization_share_context_v3 request (srp_signer_id provision))) entry
       (\<lambda>encrypted_authorization_share.
     let contribution = \<lparr> sc3_request = request, sc3_signer_id = srp_signer_id provision,
           sc3_signer_public_key = srp_signing_public_key provision,
           sc3_signer_membership_proof = srp_membership_proof provision,
           sc3_encrypted_authorization_share = encrypted_authorization_share, sc3_signer_signature = [] \<rparr> in
     attempt (wire (signer_recovery_contribution_v3 contribution)) entry (\<lambda>t.
     (Inr (Contribution (contribution \<lparr> sc3_signer_signature := sign cp (srp_signing_seed provision) t \<rparr>)),
      entry)))))))"

definition signer_recovery_release ::
    "primitives \<Rightarrow> (Id32 \<Rightarrow> string) \<Rightarrow> u64 \<Rightarrow> RecoveryRequestV3 \<Rightarrow> SignerRotationEntryV3 \<Rightarrow>
     (anyhow, SignerRecoveryResponseV3) result \<times> SignerRotationEntryV3"
where
  "signer_recovery_release cp hx now request entry =
    (let provision = sre_provision entry in
     attempt (validate_recovery_request_v3 cp request (srp_active_capsule provision) now) entry (\<lambda>digest.
     if bt_get (sre_recovery_requests entry) (hx (rq3_request_id request)) \<noteq> Some digest
     then (Inl (Bail ''signer never approved this exact recovery request''), entry) else
     let vote = \<lparr> rv3_request = request, rv3_request_digest = digest, rv3_signer_id = srp_signer_id provision,
           rv3_signer_public_key = srp_signing_public_key provision,
           rv3_signer_membership_proof = srp_membership_proof provision, rv3_signer_signature = [] \<rparr> in
     attempt (wire (signer_recovery_release_vote_v3 vote)) entry (\<lambda>t.
     (Inr (RecoveryReleaseVote (vote \<lparr> rv3_signer_signature := sign cp (srp_signing_seed provision) t \<rparr>)), entry))))"

definition handle_signer_recovery_v3 ::
    "primitives \<Rightarrow> (Id32 \<Rightarrow> string) \<Rightarrow> Id32 \<Rightarrow> arr24 \<Rightarrow> u64 \<Rightarrow> SignerRecoveryRequestV3 \<Rightarrow> SignerRotationEntryV3 \<Rightarrow>
     (anyhow, SignerRecoveryResponseV3) result \<times> SignerRotationEntryV3"
where
  "handle_signer_recovery_v3 cp hx kem_seed nonce now request entry =
    (case request of
       Approve request witness_challenge witness_reads \<Rightarrow>
         signer_recovery_approve cp hx kem_seed nonce now request witness_challenge witness_reads entry
     | ReleaseRequest request \<Rightarrow> signer_recovery_release cp hx now request entry)"

end
