(* ===== verification/GP_Signer_Steps.thy ===== *)
theory GP_Signer_Steps
  imports GP_Signer_Runtime GP_Protocol_Safety
begin

text \<open>
  Runs of one protocol-3 signer: the sequence of rotation and recovery calls its mailboxes serve,
  failing calls included. A call that fails may still have recorded a lock or a vote.
\<close>

section \<open>Calls and runs\<close>

datatype signer_call =
    RotationCall SignerRotationRequestV3 Id32 arr24 u64
  | RecoveryCall SignerRecoveryRequestV3 Id32 arr24 u64

datatype signer_reply =
    RotationReply SignerRotationResponseV3
  | RecoveryReply SignerRecoveryResponseV3

fun signer_serve ::
    "primitives \<Rightarrow> (Id32 \<Rightarrow> string) \<Rightarrow> signer_call \<Rightarrow> SignerRotationEntryV3 \<Rightarrow>
     (anyhow, signer_reply) result \<times> SignerRotationEntryV3"
where
  "signer_serve cp hx (RotationCall request seed nonce now) entry =
     map_prod (map_sum id RotationReply) id (handle_signer_rotation_v3 cp hx seed nonce now request entry)"
| "signer_serve cp hx (RecoveryCall request seed nonce now) entry =
     map_prod (map_sum id RecoveryReply) id (handle_signer_recovery_v3 cp hx seed nonce now request entry)"

text \<open>The entry of a freshly provisioned mailbox.\<close>

definition fresh_signer :: "SignerRotationProvisionV3 \<Rightarrow> SignerRotationEntryV3" where
  "fresh_signer provision = \<lparr> sre_provision = provision, sre_security_state = SignerRotationStore_new,
     sre_recovery_requests = [], sre_recovery_nonces = {} \<rparr>"

abbreviation locks :: "SignerRotationEntryV3 \<Rightarrow> (string, Id32) btree_map" where
  "locks e \<equiv> srs_predecessor_plan_locks (sre_security_state e)"
abbreviation votes :: "vote_phase \<Rightarrow> SignerRotationEntryV3 \<Rightarrow> (string, Id32) btree_map" where
  "votes ph e \<equiv> votes_of ph (sre_security_state e)"
abbreviation cancelled :: "SignerRotationEntryV3 \<Rightarrow> (string, Id32) btree_map" where
  "cancelled e \<equiv> srs_cancelled_rotations (sre_security_state e)"

abbreviation rotation_of :: "RotationPlan \<Rightarrow> Id32" where
  "rotation_of plan \<equiv> rx_rotation_id (rp_context plan)"
abbreviation predecessor_of :: "RotationPlan \<Rightarrow> Id32" where
  "predecessor_of plan \<equiv> rx_predecessor_capsule_hash (rp_context plan)"

text \<open>The hash under which a plan is locked and voted for.\<close>

definition plan_digest :: "primitives \<Rightarrow> RotationPlan \<Rightarrow> Id32 option" where
  "plan_digest cp plan = (case rotation_plan plan of Inl _ \<Rightarrow> None | Inr t \<Rightarrow> Some (sha256 cp t))"

lemma plan_digest_transcript [simp]: "rotation_plan plan = Inr t \<Longrightarrow> plan_digest cp plan = Some (sha256 cp t)"
  by (simp add: plan_digest_def)

lemma plan_valid_digest: "validate_rotation_plan_v3 cp plan c now = Inr h \<Longrightarrow> plan_digest cp plan = Some h"
  by (auto simp: validate_rotation_plan_v3_def split: if_splits)

lemma intent_valid_digest:
  "validate_rotation_plan_against_intent_v3 cp plan i c now = Inr h \<Longrightarrow> plan_digest cp plan = Some h"
  by (auto simp: validate_rotation_plan_against_intent_v3_def Let_def dest: plan_valid_digest split: if_splits)

section \<open>Effects\<close>

text \<open>The entry after a vote was recorded, and after a plan was locked.\<close>

definition voted :: "(Id32 \<Rightarrow> string) \<Rightarrow> vote_phase \<Rightarrow> Id32 \<Rightarrow> Id32 \<Rightarrow> SignerRotationEntryV3 \<Rightarrow> SignerRotationEntryV3" where
  "voted hx ph rid h e = e \<lparr> sre_security_state := set_votes ph (bt_insert (hx rid) h (votes ph e)) (sre_security_state e) \<rparr>"

definition plan_locked :: "(Id32 \<Rightarrow> string) \<Rightarrow> Id32 \<Rightarrow> Id32 \<Rightarrow> SignerRotationEntryV3 \<Rightarrow> SignerRotationEntryV3" where
  "plan_locked hx pred h e = e \<lparr> sre_security_state := (sre_security_state e)
     \<lparr> srs_predecessor_plan_locks := bt_insert (hx pred) h (locks e) \<rparr> \<rparr>"

definition finalized :: "(Id32 \<Rightarrow> string) \<Rightarrow> RotationPlan \<Rightarrow> Id32 \<Rightarrow> SignerRotationEntryV3 \<Rightarrow> SignerRotationEntryV3" where
  "finalized hx plan c e = e \<lparr> sre_security_state := (sre_security_state e)
     \<lparr> srs_cancelled_rotations := bt_insert (hx (rotation_of plan)) c (cancelled e),
       srs_predecessor_plan_locks := bt_remove (hx (predecessor_of plan)) (locks e) \<rparr> \<rparr>"

lemma set_votes_cancelled [simp]: "srs_cancelled_rotations (set_votes ph m s) = srs_cancelled_rotations s"
  by (cases ph) simp_all

lemma votes_of_cancelled [simp]: "votes_of ph (s \<lparr> srs_cancelled_rotations := m \<rparr>) = votes_of ph s"
  by (cases ph) simp_all

lemma effect_simps [simp]:
  "locks (voted hx ph rid h e) = locks e"
  "votes ph' (voted hx ph rid h e) = (if ph = ph' then bt_insert (hx rid) h (votes ph e) else votes ph' e)"
  "cancelled (voted hx ph rid h e) = cancelled e"
  "sre_recovery_requests (voted hx ph rid h e) = sre_recovery_requests e"
  "locks (plan_locked hx p h e) = bt_insert (hx p) h (locks e)"
  "votes ph (plan_locked hx p h e) = votes ph e"
  "cancelled (plan_locked hx p h e) = cancelled e"
  "sre_recovery_requests (plan_locked hx p h e) = sre_recovery_requests e"
  "locks (finalized hx plan c e) = bt_remove (hx (predecessor_of plan)) (locks e)"
  "votes ph (finalized hx plan c e) = votes ph e"
  "cancelled (finalized hx plan c e) = bt_insert (hx (rotation_of plan)) c (cancelled e)"
  "sre_recovery_requests (finalized hx plan c e) = sre_recovery_requests e"
  by (simp_all add: voted_def plan_locked_def finalized_def)

lemma effect_votes [simp]:
  "srs_begin_votes (sre_security_state (plan_locked hx p h e)) = srs_begin_votes (sre_security_state e)"
  "srs_release_votes (sre_security_state (plan_locked hx p h e)) = srs_release_votes (sre_security_state e)"
  "srs_activate_votes (sre_security_state (plan_locked hx p h e)) = srs_activate_votes (sre_security_state e)"
  "srs_begin_votes (sre_security_state (finalized hx plan c e)) = srs_begin_votes (sre_security_state e)"
  "srs_release_votes (sre_security_state (finalized hx plan c e)) = srs_release_votes (sre_security_state e)"
  "srs_activate_votes (sre_security_state (finalized hx plan c e)) = srs_activate_votes (sre_security_state e)"
  by (simp_all add: plan_locked_def finalized_def)

text \<open>Two entries that agree on everything the safety of the votes rests on.\<close>

definition same_votes :: "SignerRotationEntryV3 \<Rightarrow> SignerRotationEntryV3 \<Rightarrow> bool" where
  "same_votes e e' \<longleftrightarrow> locks e' = locks e \<and> (\<forall>ph. ph \<noteq> IntentVote \<longrightarrow> votes ph e' = votes ph e) \<and>
     cancelled e' = cancelled e"

lemma same_votes_refl [simp]: "same_votes e e"
  by (simp add: same_votes_def)

lemma same_votesD:
  "same_votes e e' \<Longrightarrow> locks e' = locks e"
  "same_votes e e' \<Longrightarrow> ph \<noteq> IntentVote \<Longrightarrow> votes ph e' = votes ph e"
  "same_votes e e' \<Longrightarrow> cancelled e' = cancelled e"
  by (simp_all add: same_votes_def)

lemma record_vote_in_ok:
  assumes "record_vote_in hx ph rid h e = Inr e'"
  shows "(bt_get (votes ph e) (hx rid) = None \<and> e' = voted hx ph rid h e) \<or>
    (bt_get (votes ph e) (hx rid) = Some h \<and> e' = e \<lparr> sre_security_state := set_votes ph (votes ph e) (sre_security_state e) \<rparr>)"
  using assms by (auto simp: record_vote_in_def record_vote_def voted_def Let_def split: option.splits if_splits)

lemma set_votes_same [simp]: "set_votes ph (votes_of ph s) s = s"
  by (cases ph) simp_all

lemma record_vote_in_elim:
  assumes "record_vote_in hx ph rid h e = Inr e'"
  obtains (fresh) "bt_get (votes ph e) (hx rid) = None" "e' = voted hx ph rid h e"
  | (again) "bt_get (votes ph e) (hx rid) = Some h" "e' = e"
  using record_vote_in_ok [OF assms] by auto

lemma intent_effect:
  assumes "signer_intent cp hx seed nonce i ch reads e = (r, e')"
  shows "same_votes e e' \<and> sre_recovery_requests e' = sre_recovery_requests e"
proof -
  have vote: "same_votes e e1 \<and> sre_recovery_requests e1 = sre_recovery_requests e"
    if "record_vote_in hx IntentVote rid h e = Inr e1" for rid h e1
    using that by (rule record_vote_in_elim) (auto simp: same_votes_def)
  have put: "same_votes e (e1 \<lparr> sre_provision := p, sre_security_state := (sre_security_state e1)
      \<lparr> srs_intents := m, srs_highest_observed_epoch := n \<rparr> \<rparr>)" if "same_votes e e1" for e1 p m n
  proof -
    have "votes_of ph (s \<lparr> srs_intents := m, srs_highest_observed_epoch := n \<rparr>) = votes_of ph s" for ph s
      by (cases ph) simp_all
    with that show ?thesis by (simp add: same_votes_def)
  qed
  from assms show ?thesis
    unfolding signer_intent_def Let_def
    by (elim attempt_elim guard_elim) (auto dest!: vote simp: put)
qed

lemma lock_plan_elim:
  assumes "lock_plan hx pred h st = (r, st')"
  obtains (conflict) err where "r = Inl err" "st' = st"
  | (fresh) "r = Inr ()" "bt_get (srs_predecessor_plan_locks st) (hx pred) = None"
      "st' = st \<lparr> srs_predecessor_plan_locks := bt_insert (hx pred) h (srs_predecessor_plan_locks st) \<rparr>"
  | (again) "r = Inr ()" "bt_get (srs_predecessor_plan_locks st) (hx pred) = Some h" "st' = st"
  using assms by (auto simp: lock_plan_def Let_def split: option.splits if_splits)

text \<open>The plan lock that a begin call leaves.\<close>

definition locks_plan :: "(Id32 \<Rightarrow> string) \<Rightarrow> RotationPlan \<Rightarrow> Id32 \<Rightarrow> SignerRotationEntryV3 \<Rightarrow> SignerRotationEntryV3 \<Rightarrow> bool" where
  "locks_plan hx plan h e e1 \<longleftrightarrow>
    bt_get (locks e) (hx (predecessor_of plan)) = None \<and> e1 = plan_locked hx (predecessor_of plan) h e \<or>
    bt_get (locks e) (hx (predecessor_of plan)) = Some h \<and> e1 = e"

lemma state_outcome_elim:
  assumes "(case X of (Inl e, t) \<Rightarrow> (Inl (g e), k t) | (Inr u, t) \<Rightarrow> f u t) = (r', s')"
  obtains (err) e t where "X = (Inl e, t)" "r' = Inl (g e)" "s' = k t" | (ok) u t where "X = (Inr u, t)" "f u t = (r', s')"
  using assms by (auto split: prod.splits sum.splits)

lemma begin_effect:
  assumes "signer_begin cp hx now ih plan e = (r, e')"
  shows "(\<exists>err. r = Inl err \<and> e' = e) \<or>
    (\<exists>h e1. plan_digest cp plan = Some h \<and> \<not> bt_contains_key (cancelled e) (hx (rotation_of plan)) \<and>
      locks_plan hx plan h e e1 \<and>
      ((\<exists>err. r = Inl err \<and> e' = e1) \<or>
       (bt_get (votes BeginVote e) (hx (rotation_of plan)) = None \<and> e' = voted hx BeginVote (rotation_of plan) h e1 \<or>
        bt_get (votes BeginVote e) (hx (rotation_of plan)) = Some h \<and> e' = e1) \<and>
       (\<forall>a. r = Inr a \<longrightarrow> (\<exists>v. a = BeginVoted v \<and> srbv_plan_hash v = h \<and> srbv_context v = rp_context plan))))"
proof -
  have lock: "locks_plan hx plan h e (e \<lparr> sre_security_state := st \<rparr>)"
    if "lock_plan hx (predecessor_of plan) h (sre_security_state e) = (Inr u, st)" for h st u
    using that by (rule lock_plan_elim) (auto simp: locks_plan_def plan_locked_def)
  have refuse: "e \<lparr> sre_security_state := st \<rparr> = e" if "lock_plan hx p h (sre_security_state e) = (Inl err, st)" for p h err st
    using that by (rule lock_plan_elim) auto
  have same: "votes BeginVote e1 = votes BeginVote e" if "locks_plan hx plan h e e1" for h e1
    using that by (auto simp: locks_plan_def)
  from assms show ?thesis
    unfolding signer_begin_def Let_def
  proof (elim attempt_elim guard_elim state_outcome_elim, goal_cases)
    case (5 i h err st)
    then show ?case by (auto simp: refuse)
  next
    case (6 i h u st err)
    with lock [OF 6(5)] show ?case by (blast dest: intent_valid_digest)
  next
    case (7 i h u st e2 err)
    note l = lock [OF 7(5)]
    from 7(6) show ?case
      by (rule record_vote_in_elim) (use 7 l same [OF l] in \<open>auto dest!: intent_valid_digest\<close>)
  next
    case (8 i h u st e2 t)
    note l = lock [OF 8(5)]
    from 8(6) show ?case
      by (rule record_vote_in_elim) (use 8 l same [OF l] in \<open>auto dest!: intent_valid_digest\<close>)
  qed auto
qed

lemma release_effect:
  assumes "signer_release cp hx now plan cert e = (r, e')"
  shows "(\<exists>err. r = Inl err \<and> e' = e) \<or> (\<exists>h b v x. plan_digest cp plan = Some h \<and>
      \<not> bt_contains_key (cancelled e) (hx (rotation_of plan)) \<and>
      bt_get (votes BeginVote e) (hx (rotation_of plan)) = Some h \<and>
      validate_begin_rotation_certificate_v3 cp cert plan (srp_active_capsule (sre_provision e)) now = Inr b \<and>
      brot_not_before_wall cert \<le> now \<and> r = Inr (ReleaseVoted v) \<and> srrv_context v = rp_context plan \<and> srrv_plan_hash v = h \<and>
      (e' = voted hx ReleaseVotePhase (rotation_of plan) x e \<or>
       bt_contains_key (votes ReleaseVotePhase e) (hx (rotation_of plan)) \<and> e' = e))"
  using assms unfolding signer_release_def Let_def
  by (elim attempt_elim guard_elim record_vote_in_elim) (auto simp: not_less)

lemma activate_call_effect:
  assumes "signer_activate cp hx now plan ready successor e = (r, e')"
  shows "(\<exists>err. r = Inl err \<and> e' = e) \<or> (\<exists>h v x. plan_digest cp plan = Some h \<and>
      \<not> bt_contains_key (cancelled e) (hx (rotation_of plan)) \<and>
      bt_get (votes BeginVote e) (hx (rotation_of plan)) = Some h \<and>
      bt_contains_key (votes ReleaseVotePhase e) (hx (rotation_of plan)) \<and>
      r = Inr (ActivateVoted v) \<and> srav_context v = rp_context plan \<and>
      (e' = voted hx ActivateVote (rotation_of plan) x e \<or>
       bt_contains_key (votes ActivateVote e) (hx (rotation_of plan)) \<and> e' = e))"
  using assms unfolding signer_activate_def Let_def
  by (elim attempt_elim guard_elim record_vote_in_elim) auto

lemma abort_effect: "snd (signer_abort cp hx now plan st rc key e) = e"
  by (simp add: signer_abort_def attempt_def Let_def split: sum.splits)

lemma finalize_abort_effect:
  assumes "signer_finalize_abort cp hx now plan cert key e = (r, e')"
  shows "(\<exists>err. r = Inl err \<and> e' = e) \<or> (\<exists>h c. plan_digest cp plan = Some h \<and>
      bt_get (votes BeginVote e) (hx (rotation_of plan)) = Some h \<and>
      \<not> bt_contains_key (votes ActivateVote e) (hx (rotation_of plan)) \<and>
      bt_get (locks e) (hx (predecessor_of plan)) = Some h \<and> r = Inr AbortFinalized \<and> e' = finalized hx plan c e)"
  using assms unfolding signer_finalize_abort_def Let_def
  by (elim attempt_elim guard_elim) (auto simp: finalized_def)

lemma answer_elim:
  assumes "(if b then (Inr a, s) else X) = (r', s')"
  obtains (answer) "b" "r' = Inr a" "s' = s" | (ok) "\<not> b" "X = (r', s')"
  using assms by (auto split: if_splits)

lemma finalize_cancel_effect:
  assumes "signer_finalize_owner_cancel cp hx now plan cert acks key e = (r, e')"
  shows "(\<exists>err. r = Inl err \<and> e' = e) \<or>
    r = Inr OwnerCancelFinalized \<and> bt_contains_key (cancelled e) (hx (rotation_of plan)) \<and> e' = e \<or>
    (\<exists>h c. plan_digest cp plan = Some h \<and> bt_get (votes BeginVote e) (hx (rotation_of plan)) = Some h \<and>
      bt_get (locks e) (hx (predecessor_of plan)) = Some h \<and> r = Inr OwnerCancelFinalized \<and> e' = finalized hx plan c e)"
  using assms unfolding signer_finalize_owner_cancel_def Let_def
  by (elim attempt_elim guard_elim answer_elim) (auto simp: finalized_def)

text \<open>The request map after an approval that passed its checks.\<close>

definition binds_request :: "(Id32 \<Rightarrow> string) \<Rightarrow> RecoveryRequestV3 \<Rightarrow> Id32 \<Rightarrow> SignerRotationEntryV3 \<Rightarrow> SignerRotationEntryV3 \<Rightarrow> bool" where
  "binds_request hx rq digest e e' \<longleftrightarrow>
    bt_get (sre_recovery_requests e) (hx (rq3_request_id rq)) = Some digest \<and>
      sre_recovery_requests e' = sre_recovery_requests e \<or>
    bt_get (sre_recovery_requests e) (hx (rq3_request_id rq)) = None \<and> rq3_nonce rq \<notin> sre_recovery_nonces e \<and>
      sre_recovery_requests e' = bt_insert (hx (rq3_request_id rq)) digest (sre_recovery_requests e)"

lemma approve_effect:
  assumes "signer_recovery_approve cp hx seed nonce now rq ch reads e = (r, e')"
  shows "sre_security_state e' = sre_security_state e \<and> ((\<exists>err. r = Inl err \<and> e' = e) \<or>
    (\<exists>active digest. validate_recovery_request_v3 cp rq active now = Inr digest \<and> binds_request hx rq digest e e'))"
proof -
  have bind: "sre_security_state e1 = sre_security_state e \<and> binds_request hx rq d e (e1 \<lparr> sre_provision := p \<rparr>)"
    if "(case bt_get (sre_recovery_requests e) (hx (rq3_request_id rq)) of
         Some previous \<Rightarrow> if previous \<noteq> d then Inl x else Inr e
       | None \<Rightarrow> if rq3_nonce rq \<in> sre_recovery_nonces e then Inl y
           else Inr (e \<lparr> sre_recovery_nonces := insert (rq3_nonce rq) (sre_recovery_nonces e),
             sre_recovery_requests := bt_insert (hx (rq3_request_id rq)) d (sre_recovery_requests e) \<rparr>)) = Inr e1"
    for d x y e1 p
    using that by (auto simp: binds_request_def split: option.splits if_splits)
  from assms show ?thesis
    unfolding signer_recovery_approve_def Let_def
    by (elim attempt_elim guard_elim) (auto dest!: bind simp del: if_bail_ok)
qed

lemma recovery_release_effect:
  assumes "signer_recovery_release cp hx now rq e = (r, e')"
  shows "e' = e \<and> ((\<exists>err. r = Inl err) \<or>
    (\<exists>digest v. validate_recovery_request_v3 cp rq (srp_active_capsule (sre_provision e)) now = Inr digest \<and>
       bt_get (sre_recovery_requests e) (hx (rq3_request_id rq)) = Some digest \<and>
       r = Inr (RecoveryReleaseVote v) \<and> rv3_request v = rq \<and> rv3_request_digest v = digest))"
  using assms unfolding signer_recovery_release_def Let_def
  by (elim attempt_elim guard_elim) auto

section \<open>Steps of a run\<close>

text \<open>The plan a rotation call is about.\<close>

fun request_plan :: "SignerRotationRequestV3 \<Rightarrow> RotationPlan option" where
  "request_plan (Intent _ _ _) = None"
| "request_plan (Begin _ plan) = Some plan"
| "request_plan (Release plan _) = Some plan"
| "request_plan (Activate plan _ _) = Some plan"
| "request_plan (Abort plan _ _ _) = Some plan"
| "request_plan (FinalizeAbort plan _ _) = Some plan"
| "request_plan (FinalizeOwnerCancel plan _ _ _) = Some plan"

fun call_plan :: "signer_call \<Rightarrow> RotationPlan option" where
  "call_plan (RotationCall rq _ _ _) = request_plan rq"
| "call_plan (RecoveryCall _ _ _ _) = None"

lemma serve_rotation:
  assumes "signer_serve cp hx (RotationCall rq seed nonce now) e = (r, e')"
  obtains (rejected) err where "r = Inl err" "e' = e"
  | (intent) i ch reads r0 where "rq = Intent i ch reads" "signer_intent cp hx seed nonce i ch reads e = (r0, e')"
      "r = map_sum id RotationReply r0"
  | (begin_call) ih plan r0 where "rq = Begin ih plan" "signer_begin cp hx now ih plan e = (r0, e')"
      "r = map_sum id RotationReply r0"
  | (release_call) plan cert r0 where "rq = Release plan cert" "signer_release cp hx now plan cert e = (r0, e')"
      "r = map_sum id RotationReply r0"
  | (activate_call) plan ready succ r0 where "rq = Activate plan ready succ"
      "signer_activate cp hx now plan ready succ e = (r0, e')" "r = map_sum id RotationReply r0"
  | (abort_call) plan st rc key r0 where "rq = Abort plan st rc key" "signer_abort cp hx now plan st rc key e = (r0, e')"
      "r = map_sum id RotationReply r0"
  | (abort_closed) plan cert key r0 where "rq = FinalizeAbort plan cert key"
      "signer_finalize_abort cp hx now plan cert key e = (r0, e')" "r = map_sum id RotationReply r0"
  | (cancel_closed) plan cert acks key r0 where "rq = FinalizeOwnerCancel plan cert acks key"
      "signer_finalize_owner_cancel cp hx now plan cert acks key e = (r0, e')" "r = map_sum id RotationReply r0"
proof -
  from assms obtain r0 where h: "handle_signer_rotation_v3 cp hx seed nonce now rq e = (r0, e')"
    and r: "r = map_sum id RotationReply r0" by (auto simp: map_prod_def split: prod.splits)
  show thesis
  proof (cases rq)
    case (Intent i ch reads)
    with h r show thesis by (auto simp: handle_signer_rotation_v3_def Let_def split: if_splits intro: rejected intent)
  next
    case (Begin ih plan)
    with h r show thesis by (auto simp: handle_signer_rotation_v3_def Let_def split: if_splits intro: rejected begin_call)
  next
    case (Release plan cert)
    with h r show thesis by (auto simp: handle_signer_rotation_v3_def Let_def split: if_splits intro: rejected release_call)
  next
    case (Activate plan ready succ)
    with h r show thesis by (auto simp: handle_signer_rotation_v3_def Let_def split: if_splits intro: rejected activate_call)
  next
    case (Abort plan st rc key)
    with h r show thesis by (auto simp: handle_signer_rotation_v3_def Let_def split: if_splits intro: rejected abort_call)
  next
    case (FinalizeAbort plan cert key)
    with h r show thesis by (auto simp: handle_signer_rotation_v3_def Let_def split: if_splits intro: rejected abort_closed)
  next
    case (FinalizeOwnerCancel plan cert acks key)
    with h r show thesis by (auto simp: handle_signer_rotation_v3_def Let_def split: if_splits intro: rejected cancel_closed)
  qed
qed

lemma serve_recovery:
  assumes "signer_serve cp hx (RecoveryCall rq seed nonce now) e = (r, e')"
  obtains (approve) q ch reads r0 where "rq = Approve q ch reads"
      "signer_recovery_approve cp hx seed nonce now q ch reads e = (r0, e')" "r = map_sum id RecoveryReply r0"
  | (vote) q r0 where "rq = ReleaseRequest q" "signer_recovery_release cp hx now q e = (r0, e')"
      "r = map_sum id RecoveryReply r0"
  using assms by (cases rq) (auto simp: handle_signer_recovery_v3_def map_prod_def split: prod.splits)

text \<open>What one call can do to the locks, the votes and the cancellations.\<close>

lemma serve_step:
  assumes "signer_serve cp hx call e = (r, e')"
  obtains (quiet) "same_votes e e'"
  | (locked) plan h where "call_plan call = Some plan" "plan_digest cp plan = Some h"
      "\<not> bt_contains_key (cancelled e) (hx (rotation_of plan))" "locks_plan hx plan h e e'"
  | (begun) plan h e1 where "call_plan call = Some plan" "plan_digest cp plan = Some h"
      "\<not> bt_contains_key (cancelled e) (hx (rotation_of plan))" "locks_plan hx plan h e e1"
      "bt_get (votes BeginVote e) (hx (rotation_of plan)) = None" "e' = voted hx BeginVote (rotation_of plan) h e1"
  | (released) plan cert seed nonce now h b v x where "call = RotationCall (Release plan cert) seed nonce now"
      "plan_digest cp plan = Some h" "bt_get (votes BeginVote e) (hx (rotation_of plan)) = Some h"
      "validate_begin_rotation_certificate_v3 cp cert plan (srp_active_capsule (sre_provision e)) now = Inr b"
      "brot_not_before_wall cert \<le> now" "r = Inr (RotationReply (ReleaseVoted v))"
      "e' = voted hx ReleaseVotePhase (rotation_of plan) x e"
  | (activated) plan ready succ seed nonce now x where "call = RotationCall (Activate plan ready succ) seed nonce now"
      "e' = voted hx ActivateVote (rotation_of plan) x e"
  | (finalized) plan h c where "call_plan call = Some plan" "plan_digest cp plan = Some h"
      "bt_get (locks e) (hx (predecessor_of plan)) = Some h" "is_ok r" "e' = finalized hx plan c e"
      "(\<exists>cert key seed nonce now. call = RotationCall (FinalizeAbort plan cert key) seed nonce now \<and>
         \<not> bt_contains_key (votes ActivateVote e) (hx (rotation_of plan))) \<or>
       (\<exists>cert acks key seed nonce now. call = RotationCall (FinalizeOwnerCancel plan cert acks key) seed nonce now)"
proof (cases call)
  case (RotationCall rq seed nonce now)
  from assms [unfolded RotationCall] show thesis
  proof (cases rule: serve_rotation)
    case rejected
    then show thesis using quiet by simp
  next
    case intent
    then show thesis using quiet intent_effect by blast
  next
    case (begin_call ih plan r0)
    from begin_effect [OF begin_call(2)] show thesis
      by (elim disjE exE conjE) (use begin_call(1) RotationCall quiet locked begun in auto)
  next
    case (release_call plan cert r0)
    from release_effect [OF release_call(2)] show thesis
      by (elim disjE exE conjE) (use release_call(1,3) RotationCall quiet released in auto)
  next
    case (activate_call plan ready succ r0)
    from activate_call_effect [OF activate_call(2)] show thesis
      by (elim disjE exE conjE) (use activate_call(1) RotationCall quiet activated in auto)
  next
    case (abort_call plan st rc key r0)
    then show thesis using quiet abort_effect [of cp hx now plan st rc key e] by simp
  next
    case (abort_closed plan cert key r0)
    from finalize_abort_effect [OF abort_closed(2)] show thesis
      by (elim disjE exE conjE) (use abort_closed(1,3) RotationCall quiet finalized in \<open>auto simp: is_ok_def\<close>)
  next
    case (cancel_closed plan cert acks key r0)
    from finalize_cancel_effect [OF cancel_closed(2)] show thesis
      by (elim disjE exE conjE) (use cancel_closed(1,3) RotationCall quiet finalized in \<open>auto simp: is_ok_def\<close>)
  qed
next
  case (RecoveryCall rq seed nonce now)
  from assms [unfolded RecoveryCall] have "sre_security_state e' = sre_security_state e"
    by (rule serve_recovery) (auto dest!: approve_effect recovery_release_effect)
  then show thesis using quiet by (simp add: same_votes_def)
qed

end
