(* ===== verification/GP_Signer_Safety.thy ===== *)
theory GP_Signer_Safety
  imports GP_Signer_Steps
begin

text \<open>
  The promises of a protocol-3 signer over its whole life: it supports one successor plan per
  predecessor unless the owner cancels, it votes for an activation only after the delay, a closed
  rotation stays closed, and a recovery request identifier stands for one request.
\<close>

lemma map_sum_Inr [simp]:
  "map_sum id f r = Inr y \<longleftrightarrow> (\<exists>x. r = Inr x \<and> y = f x)" "Inr y = map_sum id f r \<longleftrightarrow> (\<exists>x. r = Inr x \<and> y = f x)"
  by (cases r; auto)+

section \<open>Invariants of a run\<close>

definition plans_of :: "(signer_call \<times> (anyhow, signer_reply) result) list \<Rightarrow> RotationPlan set" where
  "plans_of l = {plan. \<exists>(c, r) \<in> set l. call_plan c = Some plan}"

text \<open>No two different plans of the set have the same digest.\<close>

definition collision_free :: "primitives \<Rightarrow> RotationPlan set \<Rightarrow> bool" where
  "collision_free cp P \<longleftrightarrow> (\<forall>p \<in> P. \<forall>q \<in> P. plan_digest cp p \<noteq> None \<and> plan_digest cp p = plan_digest cp q \<longrightarrow> p = q)"

lemma collision_freeD:
  "collision_free cp P \<Longrightarrow> p \<in> P \<Longrightarrow> q \<in> P \<Longrightarrow> plan_digest cp p = Some h \<Longrightarrow> plan_digest cp q = Some h \<Longrightarrow> p = q"
  by (auto simp: collision_free_def)

lemma collision_free_mono: "collision_free cp P \<Longrightarrow> Q \<subseteq> P \<Longrightarrow> collision_free cp Q"
  unfolding collision_free_def by blast

lemma plans_ofI: "(c, r) \<in> set l \<Longrightarrow> call_plan c = Some plan \<Longrightarrow> plan \<in> plans_of l"
  unfolding plans_of_def by blast

lemma plans_of_snoc: "plans_of (l @ [(c, r)]) = plans_of l \<union> {plan. call_plan c = Some plan}"
  by (auto simp: plans_of_def)

lemma plans_of_append: "plans_of (l @ l') = plans_of l \<union> plans_of l'"
  by (auto simp: plans_of_def)

lemma same_votes_iff:
  "same_votes e e' \<longleftrightarrow> locks e' = locks e \<and> cancelled e' = cancelled e \<and>
    srs_begin_votes (sre_security_state e') = srs_begin_votes (sre_security_state e) \<and>
    srs_release_votes (sre_security_state e') = srs_release_votes (sre_security_state e) \<and>
    srs_activate_votes (sre_security_state e') = srs_activate_votes (sre_security_state e)"
proof -
  have "(\<forall>ph. ph \<noteq> IntentVote \<longrightarrow> Q ph) \<longleftrightarrow> Q BeginVote \<and> Q ReleaseVotePhase \<and> Q ActivateVote" for Q
    by (metis vote_phase.distinct(1,3,5) vote_phase.exhaust)
  then show ?thesis by (auto simp: same_votes_def)
qed

text \<open>The plan behind a begin vote; it stays locked until its rotation is closed.\<close>

definition vote_has_plan ::
    "primitives \<Rightarrow> (Id32 \<Rightarrow> string) \<Rightarrow> RotationPlan set \<Rightarrow> SignerRotationEntryV3 \<Rightarrow> string \<Rightarrow> Id32 \<Rightarrow> bool"
where
  "vote_has_plan cp hx P e k h \<longleftrightarrow> (\<exists>plan \<in> P. plan_digest cp plan = Some h \<and> hx (rotation_of plan) = k \<and>
    (\<not> bt_contains_key (cancelled e) k \<longrightarrow> bt_get (locks e) (hx (predecessor_of plan)) = Some h))"

definition locked_while_open ::
    "primitives \<Rightarrow> (Id32 \<Rightarrow> string) \<Rightarrow> RotationPlan set \<Rightarrow> SignerRotationEntryV3 \<Rightarrow> bool"
where
  "locked_while_open cp hx P e \<longleftrightarrow> (\<forall>k h. bt_get (votes BeginVote e) k = Some h \<longrightarrow> vote_has_plan cp hx P e k h)"

lemma vote_has_plan_same: "same_votes e e' \<Longrightarrow> vote_has_plan cp hx P e' k h \<longleftrightarrow> vote_has_plan cp hx P e k h"
  by (simp add: vote_has_plan_def same_votes_def)

lemma vote_has_plan_mono: "P \<subseteq> Q \<Longrightarrow> vote_has_plan cp hx P e k h \<Longrightarrow> vote_has_plan cp hx Q e k h"
  unfolding vote_has_plan_def by blast

lemma locked_while_open_mono: "P \<subseteq> Q \<Longrightarrow> locked_while_open cp hx P e \<Longrightarrow> locked_while_open cp hx Q e"
  unfolding locked_while_open_def by (simp add: vote_has_plan_mono)

lemma vote_has_plan_locked:
  "locks_plan hx plan h' e e' \<Longrightarrow> vote_has_plan cp hx P e k h \<Longrightarrow> vote_has_plan cp hx P e' k h"
  by (auto simp: vote_has_plan_def locks_plan_def fun_upd_def) (metis option.distinct(1))

lemma locks_plan_get: "locks_plan hx plan h e e' \<Longrightarrow> bt_get (locks e') (hx (predecessor_of plan)) = Some h"
  by (auto simp: locks_plan_def)

lemma locks_plan_frame:
  "locks_plan hx plan h e e' \<Longrightarrow> votes ph e' = votes ph e \<and> cancelled e' = cancelled e"
  by (auto simp: locks_plan_def simp del: votes_of.simps)

lemma vote_has_plan_voted [simp]:
  "vote_has_plan cp hx P (voted hx ph rid x e) k h \<longleftrightarrow> vote_has_plan cp hx P e k h"
  by (simp add: vote_has_plan_def)

lemma locked_while_open_step:
  assumes "locked_while_open cp hx P e" and "signer_serve cp hx call e = (r, e')"
    and P: "collision_free cp P" "\<And>plan. call_plan call = Some plan \<Longrightarrow> plan \<in> P"
  shows "locked_while_open cp hx P e'"
  using assms(2)
proof (cases rule: serve_step)
  case quiet
  then show ?thesis
    using assms(1) by (simp add: locked_while_open_def vote_has_plan_same [OF quiet] same_votes_iff)
next
  case (locked plan h)
  with assms(1) show ?thesis
    by (auto simp: locked_while_open_def locks_plan_frame simp del: votes_of.simps intro: vote_has_plan_locked)
next
  case (begun plan h e1)
  have new: "vote_has_plan cp hx P e1 (hx (rotation_of plan)) h"
    unfolding vote_has_plan_def
    using P(2) [OF begun(1)] begun(2) locks_plan_get [OF begun(4)] by blast
  from begun assms(1) new show ?thesis
    by (auto simp: locked_while_open_def locks_plan_frame fun_upd_def simp del: votes_of.simps
        intro: vote_has_plan_locked split: if_splits)
next
  case released
  with assms(1) show ?thesis by (simp add: locked_while_open_def)
next
  case activated
  with assms(1) show ?thesis by (simp add: locked_while_open_def)
next
  case (finalized plan h c)
  have plan: "plan \<in> P" using P(2) finalized(1) by blast
  have "vote_has_plan cp hx P e' k h'" if v: "vote_has_plan cp hx P e k h'" for k h'
  proof -
    from v obtain p where p: "p \<in> P" "plan_digest cp p = Some h'" "hx (rotation_of p) = k"
      "\<not> bt_contains_key (cancelled e) k \<Longrightarrow> bt_get (locks e) (hx (predecessor_of p)) = Some h'"
      unfolding vote_has_plan_def by blast
    have "bt_get (locks e') (hx (predecessor_of p)) = Some h'" if open': "\<not> bt_contains_key (cancelled e') k"
    proof -
      from open' finalized(5) have k: "k \<noteq> hx (rotation_of plan)" "\<not> bt_contains_key (cancelled e) k"
        by (auto simp: fun_upd_def split: if_splits)
      have "hx (predecessor_of p) \<noteq> hx (predecessor_of plan)"
      proof
        assume "hx (predecessor_of p) = hx (predecessor_of plan)"
        with p(4) k(2) finalized(3) have "h' = h" by simp
        with collision_freeD [OF P(1) p(1) plan p(2)] finalized(2) have "p = plan" by simp
        with p(3) k(1) show False by simp
      qed
      with p(4) k(2) finalized(5) show ?thesis by simp
    qed
    with p(1-3) show ?thesis unfolding vote_has_plan_def by blast
  qed
  with assms(1) finalized(5) show ?thesis by (simp add: locked_while_open_def)
qed

text \<open>A recorded release vote goes back to an accepted release call.\<close>

definition released_in ::
    "primitives \<Rightarrow> (Id32 \<Rightarrow> string) \<Rightarrow> (signer_call \<times> (anyhow, signer_reply) result) list \<Rightarrow> string \<Rightarrow> Id32 \<Rightarrow> bool"
where
  "released_in cp hx l k h \<longleftrightarrow> (\<exists>plan cert seed nonce now v c b.
    (RotationCall (Release plan cert) seed nonce now, Inr (RotationReply (ReleaseVoted v))) \<in> set l \<and>
    hx (rotation_of plan) = k \<and> plan_digest cp plan = Some h \<and>
    validate_begin_rotation_certificate_v3 cp cert plan c now = Inr b \<and> brot_not_before_wall cert \<le> now)"

lemma released_in_append [intro]: "released_in cp hx l k h \<Longrightarrow> released_in cp hx (l @ l') k h"
  unfolding released_in_def by fastforce

definition signer_inv ::
    "primitives \<Rightarrow> (Id32 \<Rightarrow> string) \<Rightarrow> (signer_call \<times> (anyhow, signer_reply) result) list \<Rightarrow> SignerRotationEntryV3 \<Rightarrow> bool"
where
  "signer_inv cp hx l e \<longleftrightarrow>
    (collision_free cp (plans_of l) \<longrightarrow> locked_while_open cp hx (plans_of l) e) \<and>
    (\<forall>k. bt_contains_key (votes ReleaseVotePhase e) k \<longrightarrow>
      (\<exists>h. bt_get (votes BeginVote e) k = Some h \<and> released_in cp hx l k h))"

text \<open>Begin votes are write-once; the other votes and the cancellations stay.\<close>

lemma serve_keeps_begin:
  assumes "signer_serve cp hx call e = (r, e')" and "bt_get (votes BeginVote e) k = Some h"
  shows "bt_get (votes BeginVote e') k = Some h"
  using assms(1) by (cases rule: serve_step) (use assms(2) in \<open>auto simp: same_votes_iff locks_plan_def\<close>)

lemma serve_keeps_activate:
  assumes "signer_serve cp hx call e = (r, e')" and "bt_contains_key (votes ActivateVote e) k"
  shows "bt_contains_key (votes ActivateVote e') k"
  using assms(1) by (cases rule: serve_step) (use assms(2) in \<open>auto simp: same_votes_iff locks_plan_def\<close>)

lemma serve_keeps_cancelled:
  assumes "signer_serve cp hx call e = (r, e')" and "bt_contains_key (cancelled e) k"
  shows "bt_contains_key (cancelled e') k"
  using assms(1) by (cases rule: serve_step) (use assms(2) in \<open>auto simp: same_votes_iff locks_plan_def\<close>)

interpretation signer: logged_machine "signer_serve cp hx" "fresh_signer p" "signer_inv cp hx" for cp hx p
proof unfold_locales
  show "signer_inv cp hx [] (fresh_signer p)"
    by (simp add: signer_inv_def locked_while_open_def fresh_signer_def SignerRotationStore_new_def)
next
  fix l e call r e'
  assume inv: "signer_inv cp hx l e" and step: "signer_serve cp hx call e = (r, e')"
  have 1: "locked_while_open cp hx (plans_of (l @ [(call, r)])) e'" if free: "collision_free cp (plans_of (l @ [(call, r)]))"
  proof -
    have sub: "plans_of l \<subseteq> plans_of (l @ [(call, r)])" by (simp add: plans_of_append)
    with inv collision_free_mono [OF free] have "locked_while_open cp hx (plans_of l) e"
      by (simp add: signer_inv_def)
    then have "locked_while_open cp hx (plans_of (l @ [(call, r)])) e"
      by (rule locked_while_open_mono [OF sub])
    then show ?thesis by (rule locked_while_open_step [OF _ step free]) (simp add: plans_of_snoc)
  qed
  have 2: "\<exists>h. bt_get (votes BeginVote e') k = Some h \<and> released_in cp hx (l @ [(call, r)]) k h"
    if k: "bt_contains_key (votes ReleaseVotePhase e') k" for k
  proof -
    have old: ?thesis if "bt_contains_key (votes ReleaseVotePhase e) k"
      using that inv serve_keeps_begin [OF step] unfolding signer_inv_def by blast
    from step show ?thesis
    proof (cases rule: serve_step)
      case (released plan cert seed nonce now h b v x)
      show ?thesis
      proof (cases "k = hx (rotation_of plan)")
        case True
        have "released_in cp hx (l @ [(call, r)]) k h"
          unfolding released_in_def using released True by fastforce
        with released True show ?thesis by auto
      next
        case False
        with k released old show ?thesis by auto
      qed
    qed (use k old in \<open>auto simp: same_votes_iff locks_plan_def\<close>)
  qed
  from 1 2 show "signer_inv cp hx (l @ [(call, r)]) e'" by (simp add: signer_inv_def)
qed

section \<open>One plan per predecessor\<close>

text \<open>The plan locks as a register of pairs of predecessor and plan digest.\<close>

definition plan_lock :: "SignerRotationEntryV3 \<Rightarrow> string \<times> Id32 \<Rightarrow> unit option" where
  "plan_lock e k = (if bt_get (locks e) (fst k) = Some (snd k) then Some () else None)"

fun lock_grant :: "(Id32 \<Rightarrow> string) \<Rightarrow> signer_call \<Rightarrow> (anyhow, signer_reply) result \<Rightarrow> ((string \<times> Id32) \<times> unit) option" where
  "lock_grant hx (RotationCall (Begin _ plan) _ _ _) (Inr (RotationReply (BeginVoted v))) =
     Some ((hx (predecessor_of plan), srbv_plan_hash v), ())"
| "lock_grant hx _ _ = None"

fun lock_revoke :: "primitives \<Rightarrow> (Id32 \<Rightarrow> string) \<Rightarrow> signer_call \<Rightarrow> (anyhow, signer_reply) result \<Rightarrow> (string \<times> Id32) option" where
  "lock_revoke cp hx (RotationCall (FinalizeAbort plan _ _) _ _ _) (Inr _) =
     map_option (\<lambda>h. (hx (predecessor_of plan), h)) (plan_digest cp plan)"
| "lock_revoke cp hx (RotationCall (FinalizeOwnerCancel plan _ _ _) _ _ _) (Inr _) =
     map_option (\<lambda>h. (hx (predecessor_of plan), h)) (plan_digest cp plan)"
| "lock_revoke cp hx _ _ = None"

lemma lock_grant_iff:
  "lock_grant hx c r = Some (k, u) \<longleftrightarrow> (\<exists>ih plan seed nonce now v. c = RotationCall (Begin ih plan) seed nonce now \<and>
     r = Inr (RotationReply (BeginVoted v)) \<and> k = (hx (predecessor_of plan), srbv_plan_hash v))"
  by (cases "(hx, c, r)" rule: lock_grant.cases) auto

lemma lock_revoke_iff:
  "lock_revoke cp hx c r = Some (p, h) \<longleftrightarrow> is_ok r \<and> (\<exists>plan seed nonce now. plan_digest cp plan = Some h \<and> p = hx (predecessor_of plan) \<and>
     ((\<exists>cert key. c = RotationCall (FinalizeAbort plan cert key) seed nonce now) \<or>
      (\<exists>cert acks key. c = RotationCall (FinalizeOwnerCancel plan cert acks key) seed nonce now)))"
  by (cases "(cp, hx, c, r)" rule: lock_revoke.cases) (auto simp: is_ok_def)

interpretation signer_lock: revocable "signer_serve cp hx" plan_lock "lock_grant hx" "lock_revoke cp hx" "\<lambda>_. True" for cp hx
proof unfold_locales
  fix s c r s' k v
  assume "signer_serve cp hx c s = (r, s')" and "lock_grant hx c r = Some (k, v)"
  then obtain ih plan seed nonce now v' where serve: "signer_serve cp hx (RotationCall (Begin ih plan) seed nonce now) s = (r, s')"
    and r: "r = Inr (RotationReply (BeginVoted v'))" and k: "k = (hx (predecessor_of plan), srbv_plan_hash v')"
    by (auto simp: lock_grant_iff)
  from serve show "plan_lock s' k = Some v"
  proof (cases rule: serve_rotation)
    case (begin_call ih' plan' r0)
    from begin_effect [OF begin_call(2)] begin_call(1,3) r k show ?thesis
      by (elim disjE exE conjE) (auto simp: plan_lock_def dest: locks_plan_get)
  qed (use r in auto)
next
  fix s c r s' k v
  assume serve: "signer_serve cp hx c s = (r, s')" and lock: "plan_lock s k = Some v" and keep: "lock_revoke cp hx c r \<noteq> Some k"
  have have_lock: "bt_get (locks s) (fst k) = Some (snd k)" using lock by (simp add: plan_lock_def split: if_splits)
  from serve have "bt_get (locks s') (fst k) = Some (snd k)"
  proof (cases rule: serve_step)
    case quiet
    with have_lock show ?thesis by (simp only: same_votes_iff)
  next
    case (locked plan h)
    with have_lock show ?thesis by (auto simp: locks_plan_def)
  next
    case (begun plan h e1)
    with have_lock show ?thesis by (auto simp: locks_plan_def)
  next
    case (finalized plan h x)
    from finalized(4) obtain a where "r = Inr a" by (auto simp: is_ok_def split: sum.splits)
    with finalized(2,6) have "lock_revoke cp hx c r = Some (hx (predecessor_of plan), h)" by auto
    with keep have "k \<noteq> (hx (predecessor_of plan), h)" by metis
    with finalized(3,5) have_lock show ?thesis by (cases k) auto
  qed (simp_all add: have_lock)
  then show "plan_lock s' k = Some v" by (simp add: plan_lock_def)
next
  fix c r k v
  assume "lock_grant hx c r = Some (k, v)"
  then show "lock_revoke cp hx c r \<noteq> Some k" unfolding lock_grant_iff by (elim exE conjE) simp
qed

interpretation activated: stable_machine "signer_serve cp hx" "\<lambda>e. bt_contains_key (votes ActivateVote e) k" for cp hx k
  by unfold_locales (rule serve_keeps_activate)

interpretation closed: stable_machine "signer_serve cp hx" "\<lambda>e. bt_contains_key (cancelled e) k" for cp hx k
  by unfold_locales (rule serve_keeps_cancelled)

lemma serve_activated:
  assumes "signer_serve cp hx (RotationCall (Activate plan ready succ) seed nonce now) e = (Inr a, e')"
  shows "\<exists>h v. plan_digest cp plan = Some h \<and> bt_get (votes BeginVote e) (hx (rotation_of plan)) = Some h \<and>
    \<not> bt_contains_key (cancelled e) (hx (rotation_of plan)) \<and>
    bt_contains_key (votes ReleaseVotePhase e) (hx (rotation_of plan)) \<and>
    a = RotationReply (ActivateVoted v) \<and> srav_context v = rp_context plan \<and>
    bt_contains_key (votes ActivateVote e') (hx (rotation_of plan)) \<and> locks e' = locks e"
  using assms
proof (cases rule: serve_rotation)
  case (activate_call plan' ready' succ' r0)
  from activate_call_effect [OF activate_call(2)] activate_call(1,3) show ?thesis
    by (elim disjE exE conjE) auto
qed auto

lemma activated_locked:
  assumes "signer_inv cp hx l e" and "collision_free cp P" "plans_of l \<subseteq> P" "plan \<in> P"
    and "plan_digest cp plan = Some h" "bt_get (votes BeginVote e) (hx (rotation_of plan)) = Some h"
    and "\<not> bt_contains_key (cancelled e) (hx (rotation_of plan))"
  shows "bt_get (locks e) (hx (predecessor_of plan)) = Some h"
proof -
  from assms(1) collision_free_mono [OF assms(2,3)] have "locked_while_open cp hx (plans_of l) e"
    by (simp add: signer_inv_def)
  with assms(6) obtain p where p: "p \<in> plans_of l" "plan_digest cp p = Some h"
    "\<not> bt_contains_key (cancelled e) (hx (rotation_of plan)) \<longrightarrow> bt_get (locks e) (hx (predecessor_of p)) = Some h"
    unfolding locked_while_open_def vote_has_plan_def by blast
  from p(1) assms(3) have "p \<in> P" by blast
  from collision_freeD [OF assms(2) this assms(4) p(2) assms(5)] p(3) assms(7) show ?thesis by blast
qed

text \<open>C25: a signer that voted to activate one successor plan of a predecessor votes to activate another plan
  of it only after it accepted, in between, the owner's cancellation of the first plan with a
  quorum of witness vetoes; an abort by the signers is not enough. Plans are told apart by their digests.\<close>

theorem signer_activates_one_plan:
  assumes run: "run_log (signer_serve cp hx) (fresh_signer p) calls =
      (l1 @ (RotationCall (Activate plan1 ready1 succ1) s1 n1 t1, Inr a1) # l2 @
       (RotationCall (Activate plan2 ready2 succ2) s2 n2 t2, Inr a2) # l3, e)"
    and free: "collision_free cp (plans_of (l1 @ (RotationCall (Activate plan1 ready1 succ1) s1 n1 t1, Inr a1) # l2 @
       (RotationCall (Activate plan2 ready2 succ2) s2 n2 t2, Inr a2) # l3))"
    and pred: "predecessor_of plan1 = predecessor_of plan2" and ne: "plan1 \<noteq> plan2"
  shows "\<exists>cert acks key s n t r. (RotationCall (FinalizeOwnerCancel plan1 cert acks key) s n t, Inr r) \<in> set l2"
proof -
  define P where "P = plans_of (l1 @ (RotationCall (Activate plan1 ready1 succ1) s1 n1 t1, Inr a1) # l2 @
       (RotationCall (Activate plan2 ready2 succ2) s2 n2 t2, Inr a2) # l3)"
  have free: "collision_free cp P" using free by (simp add: P_def)
  have sub: "plans_of l1 \<subseteq> P" "plans_of (l1 @ (RotationCall (Activate plan1 ready1 succ1) s1 n1 t1, Inr a1) # l2) \<subseteq> P"
    "plan1 \<in> P" "plan2 \<in> P"
    by (auto simp: P_def plans_of_def)
  from run_log_split [OF run] obtain ops1 ops2 u u' where 0: "run_log (signer_serve cp hx) (fresh_signer p) ops1 = (l1, u)"
    and 1: "signer_serve cp hx (RotationCall (Activate plan1 ready1 succ1) s1 n1 t1) u = (Inr a1, u')"
    and rest: "run_log (signer_serve cp hx) u' ops2 =
      (l2 @ (RotationCall (Activate plan2 ready2 succ2) s2 n2 t2, Inr a2) # l3, e)" by blast
  from run_log_split [OF rest] obtain ops3 w w' where 2: "run_log (signer_serve cp hx) u' ops3 = (l2, w)"
    "signer_serve cp hx (RotationCall (Activate plan2 ready2 succ2) s2 n2 t2) w = (Inr a2, w')" by blast
  have "run_log (signer_serve cp hx) (fresh_signer p) (ops1 @ RotationCall (Activate plan1 ready1 succ1) s1 n1 t1 # ops3) =
      (l1 @ (RotationCall (Activate plan1 ready1 succ1) s1 n1 t1, Inr a1) # l2, w)"
    by (simp add: run_log_append 0 1 2(1) del: signer_serve.simps)
  then have inv: "signer_inv cp hx l1 u"
    "signer_inv cp hx (l1 @ (RotationCall (Activate plan1 ready1 succ1) s1 n1 t1, Inr a1) # l2) w"
    using signer.run_inv 0 by blast+
  from serve_activated [OF 1] obtain h1 where h1: "plan_digest cp plan1 = Some h1"
    "bt_get (votes BeginVote u) (hx (rotation_of plan1)) = Some h1" "\<not> bt_contains_key (cancelled u) (hx (rotation_of plan1))"
    "bt_contains_key (votes ActivateVote u') (hx (rotation_of plan1))" "locks u' = locks u" by blast
  from serve_activated [OF 2(2)] obtain h2 where h2: "plan_digest cp plan2 = Some h2"
    "bt_get (votes BeginVote w) (hx (rotation_of plan2)) = Some h2" "\<not> bt_contains_key (cancelled w) (hx (rotation_of plan2))" by blast
  have "plan_lock u' (hx (predecessor_of plan1), h1) = Some ()"
    using activated_locked [OF inv(1) free sub(1,3) h1(1-3)] h1(5) by (simp add: plan_lock_def)
  moreover have "plan_lock w (hx (predecessor_of plan1), h1) = None"
    using activated_locked [OF inv(2) free sub(2,4) h2] collision_freeD [OF free sub(3,4) h1(1)] h2(1) ne pred
    by (auto simp: plan_lock_def)
  ultimately obtain c r where cr: "(c, r) \<in> set l2" "lock_revoke cp hx c r = Some (hx (predecessor_of plan1), h1)"
    using signer_lock.run_keeps_unrevoked [OF 2(1), of "(hx (predecessor_of plan1), h1)" "()"] by fastforce
  from cr(2) obtain plan a seed nonce now where r: "r = Inr a" and plan: "plan_digest cp plan = Some h1"
    and c: "(\<exists>cert key. c = RotationCall (FinalizeAbort plan cert key) seed nonce now) \<or>
      (\<exists>cert acks key. c = RotationCall (FinalizeOwnerCancel plan cert acks key) seed nonce now)"
    by (auto simp: lock_revoke_iff is_ok_def split: sum.splits)
  have "call_plan c = Some plan" using c by auto
  with cr(1) have "plan \<in> P" unfolding P_def by (intro plans_ofI [of c r]) auto
  from collision_freeD [OF free this sub(3) plan h1(1)] have same: "plan = plan1" .
  show ?thesis
  proof (rule ccontr)
    assume "\<not> ?thesis"
    with cr(1) c r same obtain cert key where abort: "c = RotationCall (FinalizeAbort plan1 cert key) seed nonce now" by blast
    from cr(1) obtain m1 m2 where "l2 = m1 @ (c, r) # m2" by (meson split_list)
    with 2(1) have "run_log (signer_serve cp hx) u' ops3 = (m1 @ (c, r) # m2, w)" by simp
    from activated.run_stable_entry [OF h1(4) this] obtain v v' where
      v: "bt_contains_key (votes ActivateVote v) (hx (rotation_of plan1))" "signer_serve cp hx c v = (r, v')" by blast
    from v(2) [unfolded abort r] show False
    proof (cases rule: serve_rotation)
      case (abort_closed plan' cert' key' r0)
      from finalize_abort_effect [OF abort_closed(2)] abort_closed(1,3) v(1) show False
        by (elim disjE exE conjE) auto
    qed auto
  qed
qed

section \<open>Closed rotations and delays\<close>

lemma serve_closed:
  assumes "signer_serve cp hx (RotationCall rq seed nonce now) e = (Inr (RotationReply a), e')"
    and "a \<in> {AbortFinalized, OwnerCancelFinalized}" and "request_plan rq = Some plan"
  shows "bt_contains_key (cancelled e') (hx (rotation_of plan))"
  using assms(1)
proof (cases rule: serve_rotation)
  case (begin_call ih plan' r0)
  from begin_effect [OF begin_call(2)] begin_call(1,3) assms(2) show ?thesis
    by (elim disjE exE conjE) auto
next
  case (release_call plan' cert r0)
  from release_effect [OF release_call(2)] release_call(1,3) assms(2) show ?thesis
    by (elim disjE exE conjE) auto
next
  case (activate_call plan' ready succ r0)
  from activate_call_effect [OF activate_call(2)] activate_call(1,3) assms(2) show ?thesis
    by (elim disjE exE conjE) auto
next
  case (abort_call plan' st rc key r0)
  from abort_call(2,3) assms(2) show ?thesis
    unfolding signer_abort_def Let_def by (elim attempt_elim guard_elim) auto
next
  case (abort_closed plan' cert key r0)
  from finalize_abort_effect [OF abort_closed(2)] abort_closed(1,3) assms(3) show ?thesis
    by (elim disjE exE conjE) auto
next
  case (cancel_closed plan' cert acks key r0)
  from finalize_cancel_effect [OF cancel_closed(2)] cancel_closed(1,3) assms(3) show ?thesis
    by (elim disjE exE conjE) auto
qed (use assms(3) in auto)

lemma cancelled_refuses_call:
  assumes "signer_serve cp hx (RotationCall rq seed nonce now) e = (Inr (RotationReply a), e')"
    and "request_plan rq = Some plan" and "bt_contains_key (cancelled e) (hx (rotation_of plan))"
  shows "a \<in> {AbortFinalized, OwnerCancelFinalized}"
  using assms(1)
proof (cases rule: serve_rotation)
  case (begin_call ih plan' r0)
  from begin_effect [OF begin_call(2)] begin_call(1,3) assms(2,3) show ?thesis
    by (elim disjE exE conjE) auto
next
  case (release_call plan' cert r0)
  from release_effect [OF release_call(2)] release_call(1,3) assms(2,3) show ?thesis
    by (elim disjE exE conjE) auto
next
  case (activate_call plan' ready succ r0)
  from activate_call_effect [OF activate_call(2)] activate_call(1,3) assms(2,3) show ?thesis
    by (elim disjE exE conjE) auto
next
  case (abort_call plan' st rc key r0)
  from abort_call assms(2,3) show ?thesis
    unfolding signer_abort_def Let_def by (elim attempt_elim guard_elim) auto
next
  case (abort_closed plan' cert key r0)
  from finalize_abort_effect [OF abort_closed(2)] abort_closed(1,3) show ?thesis
    by (elim disjE exE conjE) auto
next
  case (cancel_closed plan' cert acks key r0)
  from finalize_cancel_effect [OF cancel_closed(2)] cancel_closed(1,3) show ?thesis
    by (elim disjE exE conjE) auto
qed (use assms(2) in auto)

text \<open>Once a signer has closed a rotation, by the signers' abort or the owner's cancellation, it never again
  begins, releases, activates or aborts a plan with that rotation identifier, from whatever state
  it was restored and whatever comes in between.\<close>

theorem signer_closed_rotation_final:
  assumes "run_log (signer_serve cp hx) e0 calls =
      (l1 @ (RotationCall rq1 s1 n1 t1, Inr (RotationReply a)) # l2 @ (RotationCall rq2 s2 n2 t2, r) # l3, e)"
    and "a \<in> {AbortFinalized, OwnerCancelFinalized}" and "request_plan rq1 = Some plan1" and "request_plan rq2 = Some plan2"
    and "rotation_of plan2 = rotation_of plan1"
  shows "(\<exists>err. r = Inl err) \<or> r \<in> {Inr (RotationReply AbortFinalized), Inr (RotationReply OwnerCancelFinalized)}"
proof -
  from run_log_split [OF assms(1)] obtain ops u u' where
    1: "signer_serve cp hx (RotationCall rq1 s1 n1 t1) u = (Inr (RotationReply a), u')"
    and rest: "run_log (signer_serve cp hx) u' ops = (l2 @ (RotationCall rq2 s2 n2 t2, r) # l3, e)" by blast
  from closed.run_stable_entry [OF serve_closed [OF 1 assms(2,3)] rest] obtain w w' where
    w: "bt_contains_key (cancelled w) (hx (rotation_of plan1))"
    "signer_serve cp hx (RotationCall rq2 s2 n2 t2) w = (r, w')" by blast
  show ?thesis
  proof (cases r)
    case (Inr y)
    with w(2) obtain b where b: "y = RotationReply b"
      by (cases "handle_signer_rotation_v3 cp hx s2 n2 t2 rq2 w") auto
    from cancelled_refuses_call [OF w(2) [unfolded Inr b] assms(4)] w(1) assms(5) Inr b show ?thesis by auto
  qed simp
qed

text \<open>What an accepted release call of a run establishes, in the state in which it was made.\<close>

lemma release_call_valid:
  assumes "signer_serve cp hx (RotationCall (Release plan cert) s n t) u = (Inr (RotationReply (ReleaseVoted v)), u')"
  shows "plan_digest cp plan = Some (brot_plan_hash cert) \<and>
    begin_threshold cp (srp_active_capsule (sre_provision u)) cert \<and>
    saturating_add (rx_issued_at (rp_context plan)) (rp_minimum_delay_secs plan) \<le> t \<and>
    cc3_minimum_recovery_delay (srp_active_capsule (sre_provision u)) \<le> rp_minimum_delay_secs plan"
  using assms
proof (cases rule: serve_rotation)
  case (release_call plan' cert' r0)
  then obtain b where beg: "validate_begin_rotation_certificate_v3 cp cert plan (srp_active_capsule (sre_provision u)) t = Inr b"
    "brot_not_before_wall cert \<le> t"
    using release_effect [OF release_call(2)] by auto
  from beg(1) obtain ph where ph: "validate_rotation_plan_v3 cp plan (srp_active_capsule (sre_provision u)) t = Inr ph"
    "brot_plan_hash cert = ph"
    "saturating_add (rx_issued_at (rp_context plan)) (rp_minimum_delay_secs plan) \<le> brot_not_before_wall cert"
    "begin_threshold cp (srp_active_capsule (sre_provision u)) cert" by (rule begin_certificate_ok) blast
  have "cc3_minimum_recovery_delay (srp_active_capsule (sre_provision u)) \<le> rp_minimum_delay_secs plan"
    using ph(1) by (auto simp: validate_rotation_plan_v3_def not_less split: if_splits)
  moreover have "saturating_add (rx_issued_at (rp_context plan)) (rp_minimum_delay_secs plan) \<le> t"
    using ph(3) beg(2) by (rule order_trans)
  ultimately show ?thesis using ph(2,4) plan_valid_digest [OF ph(1)] by simp
qed auto

text \<open>C26: a signer votes to activate a plan only after it accepted a release call for it. That
  call, answered in the state \<open>u\<close> the run had reached, carried a begin certificate of the plan with
  the votes of the threshold of pairwise distinct members of the capsule \<open>u\<close> holds as the active
  one, and it was made after the owner-visible delay of the plan, which is at least the recovery
  delay of that capsule.\<close>

theorem signer_activates_after_delay:
  assumes "run_log (signer_serve cp hx) (fresh_signer p) calls =
      (l1 @ (RotationCall (Activate plan ready succ) s n t, Inr a) # l2, e)"
  shows "\<exists>plan' cert s' n' t' v l0 l calls0 u. l1 = l0 @ (RotationCall (Release plan' cert) s' n' t', Inr (RotationReply (ReleaseVoted v))) # l \<and>
    run_log (signer_serve cp hx) (fresh_signer p) calls0 = (l0, u) \<and>
    hx (rotation_of plan') = hx (rotation_of plan) \<and> plan_digest cp plan' = plan_digest cp plan \<and>
    Some (brot_plan_hash cert) = plan_digest cp plan \<and>
    begin_threshold cp (srp_active_capsule (sre_provision u)) cert \<and>
    saturating_add (rx_issued_at (rp_context plan')) (rp_minimum_delay_secs plan') \<le> t' \<and>
    cc3_minimum_recovery_delay (srp_active_capsule (sre_provision u)) \<le> rp_minimum_delay_secs plan'"
proof -
  from signer.inv_before [OF assms] obtain w w' where inv: "signer_inv cp hx l1 w"
    and act: "signer_serve cp hx (RotationCall (Activate plan ready succ) s n t) w = (Inr a, w')" by blast
  from serve_activated [OF act] obtain h where h: "plan_digest cp plan = Some h"
    "bt_get (votes BeginVote w) (hx (rotation_of plan)) = Some h" "bt_contains_key (votes ReleaseVotePhase w) (hx (rotation_of plan))"
    by blast
  with inv have "released_in cp hx l1 (hx (rotation_of plan)) h" unfolding signer_inv_def by fastforce
  then obtain plan' cert s' n' t' v where
    r: "(RotationCall (Release plan' cert) s' n' t', Inr (RotationReply (ReleaseVoted v))) \<in> set l1"
    "hx (rotation_of plan') = hx (rotation_of plan)" "plan_digest cp plan' = Some h"
    unfolding released_in_def by blast
  from split_list [OF r(1)] obtain l0 l where
    l1: "l1 = l0 @ (RotationCall (Release plan' cert) s' n' t', Inr (RotationReply (ReleaseVoted v))) # l" by blast
  with assms have "run_log (signer_serve cp hx) (fresh_signer p) calls =
      (l0 @ (RotationCall (Release plan' cert) s' n' t', Inr (RotationReply (ReleaseVoted v))) #
        (l @ (RotationCall (Activate plan ready succ) s n t, Inr a) # l2), e)" by simp
  from run_log_split [OF this] obtain calls0 u u' where
    u: "run_log (signer_serve cp hx) (fresh_signer p) calls0 = (l0, u)"
    "signer_serve cp hx (RotationCall (Release plan' cert) s' n' t') u = (Inr (RotationReply (ReleaseVoted v)), u')" by blast
  have hash: "plan_digest cp plan' = plan_digest cp plan" using r(3) h(1) by simp
  note valid = release_call_valid [OF u(2)]
  show ?thesis
    by (intro exI conjI, rule l1, rule u(1), rule r(2), rule hash) (use valid hash in simp_all)
qed

text \<open>An abort vote leaves no trace: the signer signs it and its entry is the same, so nothing keeps it
  from voting for the activation of the same rotation afterwards.\<close>

theorem signer_abort_leaves_no_trace:
  "snd (signer_serve cp hx (RotationCall (Abort plan st rc key) seed nonce now) e) = e"
  using abort_effect [of cp hx now plan st rc key e]
  by (simp add: handle_signer_rotation_v3_def Let_def)

section \<open>Recovery requests\<close>

text \<open>The request map as a register: a release vote needs the digest its approval recorded.\<close>

fun vote_grant :: "(Id32 \<Rightarrow> string) \<Rightarrow> signer_call \<Rightarrow> (anyhow, signer_reply) result \<Rightarrow> (string \<times> Id32) option" where
  "vote_grant hx c (Inr (RecoveryReply (RecoveryReleaseVote v))) = Some (hx (rq3_request_id (rv3_request v)), rv3_request_digest v)"
| "vote_grant hx c _ = None"

lemma rotation_keeps_requests:
  assumes "signer_serve cp hx (RotationCall rq seed nonce now) e = (r, e')"
  shows "sre_recovery_requests e' = sre_recovery_requests e"
  using assms
proof (cases rule: serve_rotation)
  case intent
  then show ?thesis using intent_effect by blast
next
  case (begin_call ih plan r0)
  from begin_effect [OF begin_call(2)] show ?thesis by (elim disjE exE conjE) (auto simp: locks_plan_def)
next
  case (release_call plan cert r0)
  from release_effect [OF release_call(2)] show ?thesis by (elim disjE exE conjE) auto
next
  case (activate_call plan ready succ r0)
  from activate_call_effect [OF activate_call(2)] show ?thesis by (elim disjE exE conjE) auto
next
  case (abort_call plan st rc key r0)
  with abort_effect [of cp hx now plan st rc key e] show ?thesis by simp
next
  case (abort_closed plan cert key r0)
  from finalize_abort_effect [OF abort_closed(2)] show ?thesis by (elim disjE exE conjE) auto
next
  case (cancel_closed plan cert acks key r0)
  from finalize_cancel_effect [OF cancel_closed(2)] show ?thesis by (elim disjE exE conjE) auto
qed simp

lemma serve_vote:
  assumes "signer_serve cp hx c e = (r, e')" and "vote_grant hx c r = Some (k, d)"
  obtains q s n t v where "c = RecoveryCall (ReleaseRequest q) s n t" "r = Inr (RecoveryReply (RecoveryReleaseVote v))"
    "rv3_request v = q" "rv3_request_digest v = d" "k = hx (rq3_request_id q)" "e' = e"
    "validate_recovery_request_v3 cp q (srp_active_capsule (sre_provision e)) t = Inr d" "bt_get (sre_recovery_requests e) k = Some d"
proof -
  from assms(2) obtain v where v: "r = Inr (RecoveryReply (RecoveryReleaseVote v))" "k = hx (rq3_request_id (rv3_request v))"
    "d = rv3_request_digest v" by (cases "(hx, c, r)" rule: vote_grant.cases) auto
  show thesis
  proof (cases c)
    case (RotationCall rq s n t)
    with assms(1) v(1) show thesis by (cases "handle_signer_rotation_v3 cp hx s n t rq e") auto
  next
    case (RecoveryCall rq s n t)
    from assms(1) [unfolded RecoveryCall] show thesis
    proof (cases rule: serve_recovery)
      case (approve q ch reads r0)
      from approve(2,3) v(1) show thesis
        unfolding signer_recovery_approve_def Let_def by (elim attempt_elim guard_elim) auto
    next
      case (vote q r0)
      from recovery_release_effect [OF vote(2)] vote(1,3) v RecoveryCall that show thesis
        by (elim disjE exE conjE) auto
    qed
  qed
qed

text \<open>A recorded request goes back to an approval under a fresh challenge of its recipient.\<close>

definition approved_in ::
    "primitives \<Rightarrow> (Id32 \<Rightarrow> string) \<Rightarrow> (signer_call \<times> (anyhow, signer_reply) result) list \<Rightarrow> string \<Rightarrow> Id32 \<Rightarrow> bool"
where
  "approved_in cp hx l k d \<longleftrightarrow> (\<exists>q ch reads s n t r active. (RecoveryCall (Approve q ch reads) s n t, r) \<in> set l \<and>
    hx (rq3_request_id q) = k \<and> validate_recovery_request_v3 cp q active t = Inr d \<and>
    erc_issued_at ch \<le> t \<and> t < erc_expiry ch \<and> erc_response_recipient_key ch = rq3_recovery_recipient_key q)"

definition requests_approved ::
    "primitives \<Rightarrow> (Id32 \<Rightarrow> string) \<Rightarrow> (signer_call \<times> (anyhow, signer_reply) result) list \<Rightarrow> SignerRotationEntryV3 \<Rightarrow> bool"
where
  "requests_approved cp hx l e \<longleftrightarrow> (\<forall>k d. bt_get (sre_recovery_requests e) k = Some d \<longrightarrow> approved_in cp hx l k d)"

lemma approved_in_mono: "approved_in cp hx l k d \<Longrightarrow> approved_in cp hx (l @ l') k d"
  unfolding approved_in_def by fastforce

lemma serve_requests:
  assumes "signer_serve cp hx c e = (r, e')"
  shows "sre_recovery_requests e' = sre_recovery_requests e \<or>
    (\<exists>k d. bt_get (sre_recovery_requests e) k = None \<and> sre_recovery_requests e' = bt_insert k d (sre_recovery_requests e) \<and>
       approved_in cp hx [(c, r)] k d)"
proof (cases c)
  case (RotationCall rq s n t)
  with rotation_keeps_requests [OF assms [unfolded RotationCall]] show ?thesis by blast
next
  case (RecoveryCall rq s n t)
  from assms [unfolded RecoveryCall] show ?thesis
  proof (cases rule: serve_recovery)
    case (approve q ch reads r0)
    show ?thesis
    proof (cases "sre_recovery_requests e' = sre_recovery_requests e")
      case False
      with approve_effect [OF approve(2)] obtain active d where d: "validate_recovery_request_v3 cp q active t = Inr d"
        "binds_request hx q d e e'" by auto
      have "erc_issued_at ch \<le> t \<and> t < erc_expiry ch \<and> erc_response_recipient_key ch = rq3_recovery_recipient_key q"
      proof (rule ccontr)
        assume "\<not> ?thesis"
        with approve(2) have "e' = e" by (auto simp: signer_recovery_approve_def Let_def not_le not_less)
        with False show False by simp
      qed
      with d approve(1) RecoveryCall have "approved_in cp hx [(c, r)] (hx (rq3_request_id q)) d"
        unfolding approved_in_def by auto
      with d(2) False show ?thesis unfolding binds_request_def by blast
    qed simp
  next
    case (vote q r0)
    with recovery_release_effect [OF vote(2)] show ?thesis by simp
  qed
qed

interpretation recovery: logged_machine "signer_serve cp hx" "fresh_signer p" "requests_approved cp hx" for cp hx p
proof unfold_locales
  show "requests_approved cp hx [] (fresh_signer p)" by (simp add: requests_approved_def fresh_signer_def)
next
  fix l e c r e'
  assume inv: "requests_approved cp hx l e" and step: "signer_serve cp hx c e = (r, e')"
  have old: "approved_in cp hx (l @ [(c, r)]) k d" if "bt_get (sre_recovery_requests e) k = Some d" for k d
    using inv that unfolding requests_approved_def by (blast intro: approved_in_mono)
  have new: "approved_in cp hx (l @ [(c, r)]) k d" if "approved_in cp hx [(c, r)] k d" for k d
    using that unfolding approved_in_def by fastforce
  from serve_requests [OF step] old new show "requests_approved cp hx (l @ [(c, r)]) e'"
    by (auto simp: requests_approved_def split: if_splits)
qed

interpretation requests: write_once "signer_serve cp hx" "\<lambda>e. bt_get (sre_recovery_requests e)" "vote_grant hx" for cp hx
proof unfold_locales
  fix c e r e' k d
  assume "signer_serve cp hx c e = (r, e')" and "vote_grant hx c r = Some (k, d)"
  then show "bt_get (sre_recovery_requests e') k = Some d" by (rule serve_vote) simp
next
  fix c e r e' k d
  assume "signer_serve cp hx c e = (r, e')" and "bt_get (sre_recovery_requests e) k = Some d"
  with serve_requests [of cp hx c e r e'] show "bt_get (sre_recovery_requests e') k = Some d" by auto
qed

text \<open>C27: a signer votes to release a recovery only for a request whose digest it recorded before, when it
  approved a request with that identifier under a fresh witness challenge of the recovery recipient;
  and all its release votes for one request identifier carry the same digest.\<close>

theorem signer_recovery_votes_bound:
  assumes "run_log (signer_serve cp hx) (fresh_signer p) calls =
      (l1 @ (RecoveryCall (ReleaseRequest q) s n t, Inr (RecoveryReply (RecoveryReleaseVote v))) # l2, e)"
  shows "(\<exists>q' ch reads s' n' t' r active. (RecoveryCall (Approve q' ch reads) s' n' t', r) \<in> set l1 \<and>
      hx (rq3_request_id q') = hx (rq3_request_id (rv3_request v)) \<and>
      validate_recovery_request_v3 cp q' active t' = Inr (rv3_request_digest v) \<and>
      erc_issued_at ch \<le> t' \<and> t' < erc_expiry ch \<and> erc_response_recipient_key ch = rq3_recovery_recipient_key q') \<and>
    (\<forall>q2 s2 n2 t2 v2. (RecoveryCall (ReleaseRequest q2) s2 n2 t2, Inr (RecoveryReply (RecoveryReleaseVote v2))) \<in> set l2 \<and>
      rq3_request_id (rv3_request v2) = rq3_request_id (rv3_request v) \<longrightarrow> rv3_request_digest v2 = rv3_request_digest v)"
proof (intro conjI allI impI)
  from recovery.inv_before [OF assms] obtain u u' where inv: "requests_approved cp hx l1 u"
    and serve: "signer_serve cp hx (RecoveryCall (ReleaseRequest q) s n t) u =
      (Inr (RecoveryReply (RecoveryReleaseVote v)), u')" by blast
  have "bt_get (sre_recovery_requests u) (hx (rq3_request_id (rv3_request v))) = Some (rv3_request_digest v)"
    by (rule serve_vote [OF serve]) auto
  with inv have "approved_in cp hx l1 (hx (rq3_request_id (rv3_request v))) (rv3_request_digest v)"
    unfolding requests_approved_def by blast
  then show "\<exists>q' ch reads s' n' t' r active. (RecoveryCall (Approve q' ch reads) s' n' t', r) \<in> set l1 \<and>
      hx (rq3_request_id q') = hx (rq3_request_id (rv3_request v)) \<and>
      validate_recovery_request_v3 cp q' active t' = Inr (rv3_request_digest v) \<and>
      erc_issued_at ch \<le> t' \<and> t' < erc_expiry ch \<and> erc_response_recipient_key ch = rq3_recovery_recipient_key q'"
    unfolding approved_in_def by blast
next
  fix q2 s2 n2 t2 v2
  assume "(RecoveryCall (ReleaseRequest q2) s2 n2 t2, Inr (RecoveryReply (RecoveryReleaseVote v2))) \<in> set l2 \<and>
      rq3_request_id (rv3_request v2) = rq3_request_id (rv3_request v)"
  then show "rv3_request_digest v2 = rv3_request_digest v"
    using requests.grants_agree [OF assms, of "RecoveryCall (ReleaseRequest q2) s2 n2 t2"
        "Inr (RecoveryReply (RecoveryReleaseVote v2))" "hx (rq3_request_id (rv3_request v))" "rv3_request_digest v2"
        "RecoveryCall (ReleaseRequest q) s n t" "Inr (RecoveryReply (RecoveryReleaseVote v))" "rv3_request_digest v"]
    by simp
qed

end
