(* ===== verification/GP_Signer_Instances.thy ===== *)
theory GP_Signer_Instances
  imports GP_Signer_Safety
begin

text \<open>
  A concrete life of a signer: it takes part in a rotation up to the activation vote, accepts the
  owner's cancellation, and takes part in the next rotation of the same predecessor. The run shows
  that the hypotheses of the statements on signers can hold together. The digest is the length of
  the text, which tells the two plans apart.
\<close>

definition fs_prim :: primitives where
  "fs_prim = fx_prim \<lparr> sha2_digest := \<lambda>d. of_nat (length d), xwing_encapsulate := \<lambda>_ _. Some ([], 0) \<rparr>"

definition fs_key :: "byte list" where "fs_key = replicate 1216 0"

lemma length_fs_key [simp]: "length fs_key = 1216" by (simp add: fs_key_def)

definition fs_genesis :: ConfigCapsuleV3 where "fs_genesis = fx_genesis fs_prim"

definition fs_ctx :: "nat \<Rightarrow> RotationContext" where
  "fs_ctx b = \<lparr> rx_protocol_version = 3, rx_config_ref = fx_ref 1 1, rx_rotation_id = of_nat b,
     rx_predecessor_capsule_hash = cc3_capsule_hash fs_genesis, rx_recipient_key = fs_key,
     rx_nonce = 30, rx_issued_at = 1, rx_expiry = 1000 \<rparr>"

definition fs_challenge :: EpochReadChallenge where
  "fs_challenge = \<lparr> erc_protocol_version = 3, erc_config_id = 1, erc_client_nonce = 40,
     erc_response_recipient_key = fs_key, erc_issued_at = 1, erc_expiry = 100 \<rparr>"

definition fs_reads :: "WitnessReadEnvelope list" where
  "fs_reads = map (\<lambda>i. fx_read i fs_genesis) [1, 2, 3]"

definition fs_read_hash :: Id32 where
  "fs_read_hash = (case witness_read_quorum_hash_v3 fs_prim fs_challenge fs_reads of Inl _ \<Rightarrow> 0 | Inr h \<Rightarrow> h)"

definition fs_intent :: "nat \<Rightarrow> RotationIntent" where
  "fs_intent b = \<lparr> ri_context = fs_ctx b, ri_reason = Unavailable, ri_old_guardian_count = 2,
     ri_old_guardian_threshold = 2, ri_allowed_new_guardian_count = [2], ri_allowed_new_guardian_threshold = [2],
     ri_allowed_dpss_suites = [ZfFrostRistretto255RtsRefreshV1],
     ri_selection_constraints_commitment = sha256 fs_prim (be16 2), ri_witness_read_qc_hash = fs_read_hash \<rparr>"

definition fs_intent_hash :: "nat \<Rightarrow> Id32" where "fs_intent_hash b = fx_hash fs_prim (rotation_intent (fs_intent b))"

text \<open>The new guardian of plan \<open>b\<close> has a mailbox of \<open>b\<close> characters.\<close>

definition fs_old :: "GuardianRouteV3 list" where "fs_old = [fx_route 1 51, fx_route 2 52]"
definition fs_new :: "nat \<Rightarrow> GuardianRouteV3 list" where
  "fs_new b = [fx_route 1 53, (fx_route 3 54) \<lparr> gr3_mailbox := replicate b CHR ''x'' \<rparr>]"

definition fs_plan :: "nat \<Rightarrow> RotationPlan" where
  "fs_plan b = \<lparr> rp_context = fs_ctx b, rp_intent_hash = fs_intent_hash b, rp_predecessor = fx_ref 1 1,
     rp_successor = fx_ref 2 (of_nat b), rp_old_roster = fs_old, rp_new_roster = fs_new b,
     rp_old_roster_commitment = fx_hash fs_prim (guardian_roster_v3 fs_old),
     rp_new_roster_commitment = fx_hash fs_prim (guardian_roster_v3 (fs_new b)),
     rp_old_guardian_threshold = 2, rp_new_guardian_threshold = 2, rp_data_shards = 2, rp_total_shards = 2,
     rp_dpss_suite = ZfFrostRistretto255RtsRefreshV1, rp_dpss_session_id = 55,
     rp_dpss_qualified_set_commitment = fx_hash fs_prim (guardian_roster_v3 (fs_new b)), rp_minimum_delay_secs = 10,
     rp_preparation_deadline = 50, rp_drain_deadline = 60 \<rparr>"

definition fs_plan_hash :: "nat \<Rightarrow> Id32" where "fs_plan_hash b = fx_hash fs_prim (rotation_plan (fs_plan b))"

lemma fs_sha: "sha256 fs_prim d = of_nat (length d)"
  by (simp add: sha256_def fs_prim_def)

lemma fs_accepts [simp]: "verify fs_prim k t s = Inr ()" "merkle_verify fs_prim r l i n prf = Inr ()"
  by (simp_all add: verify_def merkle_verify_def fs_prim_def fx_prim_def)

lemma fs_hash_ok: "r = Inr t \<Longrightarrow> fx_hash fs_prim r = sha256 fs_prim t"
  by (simp add: fx_hash_def)

lemmas fs_defs = fs_ctx_def fx_ref_def fs_intent_def fs_plan_def fs_old_def fs_new_def fx_route_def

lemma fs_intent_ok: "\<exists>t. rotation_intent (fs_intent b) = Inr t"
  by (simp add: rotation_intent_def fs_defs fx_wire)

lemma fs_roster_ok: "\<exists>t. guardian_roster_v3 fs_old = Inr t" "b \<in> {2, 3} \<Longrightarrow> \<exists>t. guardian_roster_v3 (fs_new b) = Inr t"
  by (auto simp: guardian_roster_v3_def fs_defs fx_wire route_into_def)

lemma fs_plan_ok:
  assumes "b \<in> {2, 3}"
  shows "\<exists>t. rotation_plan (fs_plan b) = Inr t \<and> length t = 2350 + b"
proof -
  have "(of_nat b :: Id32) \<noteq> 1" using assms by auto
  with assms show ?thesis
    by (auto simp: rotation_plan_def fs_defs fx_wire route_into_def is_direct_successor_of_def lp_def as_bytes_def)
qed

lemma fs_plan_hash: "b \<in> {2, 3} \<Longrightarrow> plan_digest fs_prim (fs_plan b) = Some (fs_plan_hash b)"
  using fs_plan_ok [of b] by (auto simp: fs_plan_hash_def fx_hash_def)

lemma fs_plan_hash_num: "b \<in> {2, 3} \<Longrightarrow> fs_plan_hash b = of_nat (2350 + b)"
  using fs_plan_ok [of b] by (auto simp: fs_plan_hash_def fx_hash_def fs_sha)

definition fs_provision :: SignerRotationProvisionV3 where
  "fs_provision = \<lparr> srp_mailbox = ''m'', srp_signer_id = 1, srp_authorization_share = [1], srp_signing_seed = 33,
     srp_signing_public_key = 33, srp_membership_proof = [], srp_recovery_card = fx_card [1, 2, 3, 4],
     srp_active_capsule = fs_genesis \<rparr>"

lemma fs_provision_sel [simp]:
  "srp_signer_id fs_provision = 1" "srp_signing_public_key fs_provision = 33" "srp_membership_proof fs_provision = []"
  "srp_recovery_card fs_provision = fx_card [1, 2, 3, 4]" "srp_active_capsule fs_provision = fs_genesis"
  "fs_provision \<lparr> srp_active_capsule := fs_genesis \<rparr> = fs_provision"
  by (simp_all add: fs_provision_def)

lemma fs_genesis_sel:
  "cc3_config_ref fs_genesis = fx_ref 1 1" "cc3_protocol_version fs_genesis = 3"
  "cc3_signer_set_commitment fs_genesis = 20" "cc3_owner_cancel_public_key fs_genesis = 21"
  "cc3_predecessor_capsule_hash fs_genesis = 0" "cc3_activation_certificate fs_genesis = None"
  "cc3_activation_qc fs_genesis = None" "cc3_guardian_count fs_genesis = 2" "cc3_guardian_threshold fs_genesis = 2"
  "cc3_signer_count fs_genesis = 1" "cc3_signer_threshold fs_genesis = 1" "cc3_minimum_recovery_delay fs_genesis = 10"
  "cc3_max_request_lifetime fs_genesis = 100"
  by (simp_all add: fs_genesis_def fx_genesis_def fx_body_def)

lemma fs_genesis_ok: "validate_activated_capsule_v3 fs_prim (fx_card [1, 2, 3, 4]) fs_genesis = Inr ()"
proof -
  obtain t where t: "config_capsule_body_v3 (fx_body 1 1 0) = Inr t" using fx_body_ok by blast
  have "config_capsule_body_v3 fs_genesis = Inr t" "cc3_capsule_hash fs_genesis = sha256 fs_prim t"
    by (simp_all add: fs_genesis_def fx_genesis_def fx_hash_def t)
  then show ?thesis
    by (simp add: validate_activated_capsule_v3_def fx_card_ok wire_def PROTOCOL_VERSION_V3_def fx_ref_def fs_genesis_sel)
qed

lemma fs_pin: "i \<in> {1, 2, 3} \<Longrightarrow> bt_get (witness_pins (fx_card [1, 2, 3, 4])) i = Some (fx_pin i)"
  by (subst witness_pins_get [OF fx_card_ok(1)]) (auto simp: fx_card_def fx_pin_def)

lemma fs_response_ok: "\<exists>t. witness_epoch_read_response (wre_response (fx_read i c)) = Inr t"
  by (simp add: witness_epoch_read_response_def fx_read_def transcript_ok PROTOCOL_VERSION_V3_def MAX_FIELD_LEN_def)

lemma fs_challenge_ok: "\<exists>t. epoch_read_challenge fs_challenge = Inr t"
  by (simp add: epoch_read_challenge_def fs_challenge_def transcript_ok PROTOCOL_VERSION_V3_def MAX_FIELD_LEN_def word_le_nat_alt)

lemma fx_read_sel [simp]: "wre_capsule (fx_read i c) = c" "werr_witness_id (wre_response (fx_read i c)) = i"
  "werr_highest_guardian_epoch (wre_response (fx_read i c)) = cr_guardian_epoch (cc3_config_ref c)"
  "werr_capsule_hash (wre_response (fx_read i c)) = cc3_capsule_hash c"
  by (simp_all add: fx_read_def)

lemma fs_select: "select_latest_epoch_v3 fs_prim (fx_card [1, 2, 3, 4]) fs_challenge fs_reads = Inr fs_genesis"
proof -
  obtain t where ch: "epoch_read_challenge fs_challenge = Inr t" using fs_challenge_ok by blast
  have step: "collect_reads fs_prim (fx_card [1, 2, 3, 4]) fs_challenge seen ws caps (fx_read i fs_genesis # envs) =
      collect_reads fs_prim (fx_card [1, 2, 3, 4]) fs_challenge (insert i seen) (insert i ws) (caps @ [fs_genesis]) envs"
    if "i \<in> {1, 2, 3}" "i \<notin> seen" for seen ws caps i envs
  proof -
    obtain t where t: "witness_epoch_read_response (wre_response (fx_read i fs_genesis)) = Inr t" using fs_response_ok by blast
    have f: "werr_protocol_version (wre_response (fx_read i fs_genesis)) = PROTOCOL_VERSION_V3"
      "werr_config_id (wre_response (fx_read i fs_genesis)) = erc_config_id fs_challenge"
      "werr_client_nonce (wre_response (fx_read i fs_genesis)) = erc_client_nonce fs_challenge"
      "werr_witness_public_key (wre_response (fx_read i fs_genesis)) = wp_public_key (fx_pin i)"
      by (simp_all add: fx_read_def fs_challenge_def fx_pin_def PROTOCOL_VERSION_V3_def)
    show ?thesis by (simp add: f fs_pin [OF that(1)] that(2) t fs_genesis_ok is_ok_def wire_def)
  qed
  have coll: "collect_reads fs_prim (fx_card [1, 2, 3, 4]) fs_challenge {} {} [] fs_reads =
      Inr ({1, 2, 3}, {1, 2, 3}, [fs_genesis, fs_genesis, fs_genesis])"
    unfolding fs_reads_def by (simp add: step insert_commute del: collect_reads.simps(2))
  have agree: "valid_genesis_agreement fs_reads {1, 2, 3} (cc3_capsule_hash fs_genesis) = 3"
  proof -
    have "(\<lambda>e. werr_witness_id (wre_response e)) ` set (filter (\<lambda>e. werr_witness_id (wre_response e) \<in> {1, 2, 3} \<and>
        werr_highest_guardian_epoch (wre_response e) = 1 \<and> werr_capsule_hash (wre_response e) = cc3_capsule_hash fs_genesis) fs_reads) =
        {1, 2, 3}"
      by (simp add: fs_reads_def fs_genesis_sel fx_ref_def)
    then show ?thesis by (simp add: valid_genesis_agreement_def)
  qed
  show ?thesis
    unfolding select_latest_epoch_v3_def Let_def
    by (simp only: bindR_eq_Inr wire_ok fx_card_ok ch coll ok_or_eq_Inr if_bail_ok prod.case bindR_simps
        required_witness_quorum_eq fx_card_sel agree)
      (simp add: fs_genesis_sel fx_ref_def agree fs_challenge_def)
qed

lemma fs_read_hash_ok: "witness_read_quorum_hash_v3 fs_prim fs_challenge fs_reads = Inr fs_read_hash"
proof -
  obtain t1 t2 t3 where t: "witness_epoch_read_response (wre_response (fx_read 1 fs_genesis)) = Inr t1"
    "witness_epoch_read_response (wre_response (fx_read 2 fs_genesis)) = Inr t2"
    "witness_epoch_read_response (wre_response (fx_read 3 fs_genesis)) = Inr t3"
    using fs_response_ok by metis
  have "sort_key (\<lambda>r. werr_witness_id (wre_response r)) fs_reads = fs_reads"
    by (simp add: fs_reads_def)
  then have "\<exists>h. witness_read_quorum_hash_v3 fs_prim fs_challenge fs_reads = Inr h"
    using fs_challenge_ok by (auto simp: witness_read_quorum_hash_v3_def fs_reads_def t wire_def)
  then show ?thesis by (auto simp: fs_read_hash_def)
qed

section \<open>The calls of a rotation\<close>

definition fs_state :: "SignerRotationStore \<Rightarrow> SignerRotationEntryV3" where
  "fs_state s = \<lparr> sre_provision = fs_provision, sre_security_state = s, sre_recovery_requests = [], sre_recovery_nonces = {} \<rparr>"

abbreviation fs_rid :: "nat \<Rightarrow> string" where "fs_rid b \<equiv> hex_encode (of_nat b)"
abbreviation fs_pred :: string where "fs_pred \<equiv> hex_encode (cc3_capsule_hash fs_genesis)"

lemma fs_sel [simp]:
  "rp_context (fs_plan b) = fs_ctx b" "ri_context (fs_intent b) = fs_ctx b" "rx_rotation_id (fs_ctx b) = of_nat b"
  "rx_predecessor_capsule_hash (fs_ctx b) = cc3_capsule_hash fs_genesis" "rp_intent_hash (fs_plan b) = fs_intent_hash b"
  "sre_provision (fs_state s) = fs_provision" "sre_security_state (fs_state s) = s"
  "sre_recovery_requests (fs_state s) = []" "sre_recovery_nonces (fs_state s) = {}"
  "fs_state s \<lparr> sre_security_state := s' \<rparr> = fs_state s'"
  "fs_state s \<lparr> sre_provision := fs_provision \<rparr> = fs_state s"
  by (simp_all add: fs_plan_def fs_intent_def fs_ctx_def fs_state_def)

lemma fs_window: "rx_protocol_version (fs_ctx b) = PROTOCOL_VERSION_V3" "rx_config_ref (fs_ctx b) = fx_ref 1 1"
  "rx_issued_at (fs_ctx b) = 1" "rx_expiry (fs_ctx b) = 1000" "rx_recipient_key (fs_ctx b) = fs_key"
  by (simp_all add: fs_ctx_def PROTOCOL_VERSION_V3_def)

lemma fs_serve:
  assumes "request_context rq = fs_ctx b"
  shows "signer_serve fs_prim hex_encode (RotationCall rq 1 1 30) (fs_state s) =
    map_prod (map_sum id RotationReply) id (case rq of
       Intent intent ch reads \<Rightarrow> signer_intent fs_prim hex_encode 1 1 intent ch reads (fs_state s)
     | Begin ih plan \<Rightarrow> signer_begin fs_prim hex_encode 30 ih plan (fs_state s)
     | Release plan cert \<Rightarrow> signer_release fs_prim hex_encode 30 plan cert (fs_state s)
     | Activate plan ready succ \<Rightarrow> signer_activate fs_prim hex_encode 30 plan ready succ (fs_state s)
     | Abort plan st rc key \<Rightarrow> signer_abort fs_prim hex_encode 30 plan st rc key (fs_state s)
     | FinalizeAbort plan cert key \<Rightarrow> signer_finalize_abort fs_prim hex_encode 30 plan cert key (fs_state s)
     | FinalizeOwnerCancel plan cert acks key \<Rightarrow>
         signer_finalize_owner_cancel fs_prim hex_encode 30 plan cert acks key (fs_state s))"
  using assms by (simp add: handle_signer_rotation_v3_def fs_window XWING_PUBLIC_KEY_LEN_def fx_ref_def word_less_nat_alt word_le_nat_alt)

definition fs_after_intent :: "nat \<Rightarrow> SignerRotationStore \<Rightarrow> SignerRotationStore" where
  "fs_after_intent b s = s \<lparr> srs_intent_votes := bt_insert (fs_rid b) (fs_intent_hash b) (srs_intent_votes s),
     srs_intents := bt_insert (fs_rid b) (fs_intent b) (srs_intents s),
     srs_highest_observed_epoch := bt_insert (hex_encode 1) 1 (srs_highest_observed_epoch s) \<rparr>"

definition fs_call_intent :: "nat \<Rightarrow> signer_call" where
  "fs_call_intent b = RotationCall (Intent (fs_intent b) fs_challenge fs_reads) 1 1 30"

lemma fs_seal: "\<exists>m. seal_share fs_prim (fs_state s) fs_key 1 1 (Inr t) = Inr m"
  by (simp add: seal_share_def wire_def crypt_def seal_to_recipient_def aead_encrypt_def fs_prim_def fx_prim_def
      fs_state_def fs_provision_def ok_or_def)

lemma fs_step_intent:
  assumes "bt_get (srs_intents s) (fs_rid b) = None" "bt_get (srs_intent_votes s) (fs_rid b) = None"
  shows "\<exists>a. signer_serve fs_prim hex_encode (fs_call_intent b) (fs_state s) = (Inr a, fs_state (fs_after_intent b s))"
proof -
  obtain t where t: "rotation_intent (fs_intent b) = Inr t" using fs_intent_ok by blast
  then have h: "sha256 fs_prim t = fs_intent_hash b" by (simp add: fs_intent_hash_def fx_hash_def)
  have "\<exists>c. rotation_intent_share_context_v3 (fs_ctx b) (fs_intent_hash b) 1 = Inr c"
    by (simp add: rotation_intent_share_context_v3_def fs_ctx_def fx_ref_def fx_wire)
  then obtain c where c: "rotation_intent_share_context_v3 (fs_ctx b) (fs_intent_hash b) 1 = Inr c" by blast
  have vote: "record_vote_in hex_encode IntentVote (of_nat b) (fs_intent_hash b) (fs_state s) =
      Inr (fs_state (s \<lparr> srs_intent_votes := bt_insert (fs_rid b) (fs_intent_hash b) (srs_intent_votes s) \<rparr>))"
    using assms(2) by (simp add: record_vote_in_def record_vote_def)
  have fields: "ri_old_guardian_count (fs_intent b) = 2" "ri_old_guardian_threshold (fs_intent b) = 2"
    "ri_allowed_new_guardian_count (fs_intent b) \<noteq> []" "ri_allowed_new_guardian_threshold (fs_intent b) \<noteq> []"
    "ri_allowed_dpss_suites (fs_intent b) \<noteq> []" "ri_witness_read_qc_hash (fs_intent b) = fs_read_hash"
    by (simp_all add: fs_intent_def)
  obtain m where m: "seal_share fs_prim (fs_state (fs_after_intent b s)) fs_key 1 1 (Inr c) = Inr m" using fs_seal by blast
  have "\<exists>t. signer_rotation_intent_contribution \<lparr> sric_context = fs_ctx b, sric_intent_hash = fs_intent_hash b,
      sric_signer_id = 1, sric_signer_public_key = 33, sric_signer_membership_proof = [],
      sric_encrypted_authorization_share = m, sric_signer_signature = [] \<rparr> = Inr t"
  proof -
    from m have "sm_kem_ciphertext m = [] \<and> ac_ciphertext (sm_payload m) = [1]"
      by (auto simp: seal_share_def seal_to_recipient_def aead_encrypt_def fs_prim_def fx_prim_def ok_or_def
          fs_state_def fs_provision_def wire_def crypt_def)
    then show ?thesis by (simp add: signer_rotation_intent_contribution_def fs_ctx_def fx_ref_def fx_wire sealed_into_def)
  qed
  then show ?thesis
    using m assms
    by (auto simp: fs_call_intent_def fs_serve signer_intent_def Let_def attempt_def fs_select fs_genesis_sel fs_window
        fields fs_read_hash_ok t h vote c wire_def fx_ref_def fs_after_intent_def simp del: signer_serve.simps)
qed

text \<open>Begin.\<close>

lemma fs_plan_valid:
  assumes b: "b \<in> {2, 3}"
  shows "validate_rotation_plan_v3 fs_prim (fs_plan b) fs_genesis 30 = Inr (fs_plan_hash b)"
proof -
  obtain t where t: "rotation_plan (fs_plan b) = Inr t" using fs_plan_ok [OF b] by blast
  then have h: "sha256 fs_prim t = fs_plan_hash b" by (simp add: fs_plan_hash_def fx_hash_def)
  obtain r1 r2 where r: "guardian_roster_v3 fs_old = Inr r1" "guardian_roster_v3 (fs_new b) = Inr r2"
    using fs_roster_ok b by metis
  have f: "rp_predecessor (fs_plan b) = fx_ref 1 1" "rp_successor (fs_plan b) = fx_ref 2 (of_nat b)"
    "rp_preparation_deadline (fs_plan b) = 50" "rp_drain_deadline (fs_plan b) = 60" "rp_minimum_delay_secs (fs_plan b) = 10"
    "rp_old_guardian_threshold (fs_plan b) = 2" "rp_new_guardian_threshold (fs_plan b) = 2" "rp_data_shards (fs_plan b) = 2"
    "rp_total_shards (fs_plan b) = 2" "rp_old_roster (fs_plan b) = fs_old" "rp_new_roster (fs_plan b) = fs_new b"
    "rp_old_roster_commitment (fs_plan b) = fx_hash fs_prim (Inr r1)" "rp_new_roster_commitment (fs_plan b) = fx_hash fs_prim (Inr r2)"
    by (simp_all add: fs_plan_def flip: r)
  have "(of_nat b :: Id32) \<noteq> 1" using b by auto
  then have "is_direct_successor_of (fx_ref 2 (of_nat b)) (fx_ref 1 1)"
    by (simp add: is_direct_successor_of_def fx_ref_def saturating_add_def)
  moreover have "length fs_old = 2" "length (fs_new b) = 2" by (simp_all add: fs_old_def fs_new_def)
  ultimately show ?thesis
    by (simp add: validate_rotation_plan_v3_def t h f fs_window fs_genesis_sel r u16_try_from_def wire_def fx_hash_def word_le_nat_alt
      word_less_nat_alt)
qed

lemma fs_intent_valid:
  assumes b: "b \<in> {2, 3}"
  shows "validate_rotation_plan_against_intent_v3 fs_prim (fs_plan b) (fs_intent b) fs_genesis 30 = Inr (fs_plan_hash b)"
proof -
  obtain t where t: "rotation_intent (fs_intent b) = Inr t" using fs_intent_ok by blast
  have maps: "routes_by_index (rp_old_roster (fs_plan b)) = [(1, fx_route 1 51), (2, fx_route 2 52)]"
    "routes_by_index (rp_new_roster (fs_plan b)) = [(1, fx_route 1 53), (3, (fx_route 3 54) \<lparr> gr3_mailbox := replicate b CHR ''x'' \<rparr>)]"
    by (simp_all add: routes_by_index_def fs_plan_def fs_old_def fs_new_def fx_route_def)
  have "length (replicate b CHR ''x'') \<noteq> length [char_of (53 :: nat)]" using b by auto
  then have mail: "replicate b CHR ''x'' \<noteq> [char_of (53 :: nat)]" by metis
  show ?thesis
    using t b mail
    by (auto simp: validate_rotation_plan_against_intent_v3_def fs_plan_valid wire_def maps missing_ids_def
        route_not_refreshed_def bt_values_def u16_try_from_def Let_def fs_genesis_sel fs_intent_hash_def fx_hash_def)
      (simp_all add: fs_plan_def fs_intent_def fs_new_def fx_route_def fx_hash_def)
qed

definition fs_after_begin :: "nat \<Rightarrow> SignerRotationStore \<Rightarrow> SignerRotationStore" where
  "fs_after_begin b s = s \<lparr> srs_predecessor_plan_locks := bt_insert fs_pred (fs_plan_hash b) (srs_predecessor_plan_locks s),
     srs_begin_votes := bt_insert (fs_rid b) (fs_plan_hash b) (srs_begin_votes s) \<rparr>"

definition fs_call_begin :: "nat \<Rightarrow> signer_call" where
  "fs_call_begin b = RotationCall (Begin (fs_intent_hash b) (fs_plan b)) 1 1 30"

lemma fs_step_begin:
  assumes b: "b \<in> {2, 3}" and "bt_get (srs_intents s) (fs_rid b) = Some (fs_intent b)"
    "bt_get (srs_intent_votes s) (fs_rid b) = Some (fs_intent_hash b)" "bt_get (srs_predecessor_plan_locks s) fs_pred = None"
    "bt_get (srs_begin_votes s) (fs_rid b) = None" "bt_get (srs_cancelled_rotations s) (fs_rid b) = None"
  shows "\<exists>a. signer_serve fs_prim hex_encode (fs_call_begin b) (fs_state s) = (Inr a, fs_state (fs_after_begin b s))"
proof -
  have "\<exists>t. signer_rotation_begin_vote \<lparr> srbv_context = fs_ctx b, srbv_intent_hash = fs_intent_hash b, srbv_plan_hash = fs_plan_hash b,
      srbv_old_roster_commitment = rp_old_roster_commitment (fs_plan b), srbv_new_roster_commitment = rp_new_roster_commitment (fs_plan b),
      srbv_signer_id = 1, srbv_signer_public_key = 33, srbv_signer_membership_proof = [], srbv_signer_signature = [] \<rparr> = Inr t"
    by (simp add: signer_rotation_begin_vote_def begin_vote_into_def fs_ctx_def fx_ref_def fx_wire)
  then show ?thesis
    using assms
    by (auto simp: fs_call_begin_def fs_serve signer_begin_def Let_def attempt_def ok_or_def fs_intent_valid [OF b] lock_plan_def
        record_vote_in_def record_vote_def wire_def fs_after_begin_def simp del: signer_serve.simps)
qed


text \<open>Release, under a begin certificate with the vote of the one signer.\<close>

definition fs_vote :: "nat \<Rightarrow> SignerRotationBeginVote" where
  "fs_vote b = \<lparr> srbv_context = fs_ctx b, srbv_intent_hash = fs_intent_hash b, srbv_plan_hash = fs_plan_hash b,
     srbv_old_roster_commitment = rp_old_roster_commitment (fs_plan b),
     srbv_new_roster_commitment = rp_new_roster_commitment (fs_plan b), srbv_signer_id = 1,
     srbv_signer_public_key = 33, srbv_signer_membership_proof = [], srbv_signer_signature = [] \<rparr>"

definition fs_begin :: "nat \<Rightarrow> BeginRotationCertificate" where
  "fs_begin b = \<lparr> brot_context = fs_ctx b, brot_intent_hash = fs_intent_hash b, brot_plan_hash = fs_plan_hash b,
     brot_old_roster_commitment = rp_old_roster_commitment (fs_plan b),
     brot_new_roster_commitment = rp_new_roster_commitment (fs_plan b), brot_not_before_wall = 20,
     brot_votes = [fs_vote b] \<rparr>"

lemma fs_member: "validate_signer_membership fs_prim 1 33 [] fs_genesis = Inr ()"
  by (simp add: signer_membership_ok fs_genesis_sel signer_leaf_def transcript_ok MAX_FIELD_LEN_def)

lemma fs_begin_valid:
  assumes b: "b \<in> {2, 3}"
  shows "\<exists>h. validate_begin_rotation_certificate_v3 fs_prim (fs_begin b) (fs_plan b) fs_genesis 30 = Inr h"
proof -
  have "\<exists>t. begin_rotation_certificate (fs_begin b) = Inr t" "\<exists>t. signer_rotation_begin_vote (fs_vote b) = Inr t"
    by (simp_all add: begin_rotation_certificate_def signer_rotation_begin_vote_def fs_begin_def fs_vote_def
        begin_vote_into_def fs_ctx_def fx_ref_def fx_wire)
  moreover have "rp_preparation_deadline (fs_plan b) = 50" "rp_minimum_delay_secs (fs_plan b) = 10"
    by (simp_all add: fs_plan_def)
  moreover have "brot_context (fs_begin b) = fs_ctx b" "brot_intent_hash (fs_begin b) = fs_intent_hash b"
    "brot_plan_hash (fs_begin b) = fs_plan_hash b" "brot_not_before_wall (fs_begin b) = 20"
    "brot_old_roster_commitment (fs_begin b) = rp_old_roster_commitment (fs_plan b)"
    "brot_new_roster_commitment (fs_begin b) = rp_new_roster_commitment (fs_plan b)" "brot_votes (fs_begin b) = [fs_vote b]"
    "srbv_signer_id (fs_vote b) = 1" "srbv_signer_public_key (fs_vote b) = 33" "srbv_signer_membership_proof (fs_vote b) = []"
    by (simp_all add: fs_begin_def fs_vote_def)
  ultimately show ?thesis
    by (auto simp: validate_begin_rotation_certificate_v3_def fs_plan_valid [OF b] wire_def fs_member crypt_def fs_window
        saturating_add_def fs_genesis_sel word_le_nat_alt word_less_nat_alt)
qed

definition fs_call_release :: "nat \<Rightarrow> signer_call" where
  "fs_call_release b = RotationCall (Release (fs_plan b) (fs_begin b)) 1 1 30"

lemma fs_step_release:
  assumes b: "b \<in> {2, 3}" and "bt_get (srs_begin_votes s) (fs_rid b) = Some (fs_plan_hash b)"
    "bt_get (srs_release_votes s) (fs_rid b) = None" "bt_get (srs_cancelled_rotations s) (fs_rid b) = None"
  shows "\<exists>v x. signer_serve fs_prim hex_encode (fs_call_release b) (fs_state s) =
    (Inr (RotationReply (ReleaseVoted v)), fs_state (s \<lparr> srs_release_votes := bt_insert (fs_rid b) x (srs_release_votes s) \<rparr>))"
proof -
  obtain t where t: "rotation_plan (fs_plan b) = Inr t" using fs_plan_ok [OF b] by blast
  then have h: "sha256 fs_prim t = fs_plan_hash b" by (simp add: fs_plan_hash_def fx_hash_def)
  obtain bh where bh: "validate_begin_rotation_certificate_v3 fs_prim (fs_begin b) (fs_plan b) fs_genesis 30 = Inr bh"
    using fs_begin_valid [OF b] by blast
  have "\<exists>t. signer_rotation_release_vote \<lparr> srrv_context = fs_ctx b, srrv_plan_hash = fs_plan_hash b,
      srrv_begin_certificate_hash = bh, srrv_signer_id = 1, srrv_signer_public_key = 33, srrv_signer_membership_proof = [],
      srrv_signer_signature = [] \<rparr> = Inr t"
    by (simp add: signer_rotation_release_vote_def release_vote_into_def fs_ctx_def fx_ref_def fx_wire)
  moreover have "brot_not_before_wall (fs_begin b) = 20" by (simp add: fs_begin_def)
  ultimately show ?thesis
    using assms bh
    by (auto simp: fs_call_release_def fs_serve signer_release_def Let_def attempt_def t h wire_def record_vote_in_def
        record_vote_def word_less_nat_alt simp del: signer_serve.simps)
qed

text \<open>Activate, under a ready certificate of the two new and the two old guardians.\<close>

definition fs_leaf :: "u16 \<Rightarrow> PreparedRecordLeaf" where
  "fs_leaf i = \<lparr> prl_guardian_index = i, prl_fragment_index = i, prl_opaque_slot_id = 53, prl_encrypted_share_hash = 1,
     prl_fragment_hash = 1, prl_policy_hash = 1 \<rparr>"

definition fs_prepared :: "nat \<Rightarrow> u16 \<Rightarrow> NewGuardianPreparedAck" where
  "fs_prepared b i = \<lparr> ngpa_context = fs_ctx b, ngpa_plan_hash = fs_plan_hash b, ngpa_dpss_result_commitment = 22,
     ngpa_guardian_material_root = 24, ngpa_new_guardian_index = i, ngpa_prepared_record_leaf = fs_leaf i,
     ngpa_durable_write_generation = 1, ngpa_guardian_signature = [] \<rparr>"

definition fs_handoff :: "nat \<Rightarrow> u16 \<Rightarrow> OldGuardianHandoffAck" where
  "fs_handoff b i = \<lparr> ogha_context = fs_ctx b, ogha_plan_hash = fs_plan_hash b, ogha_dpss_result_commitment = 22,
     ogha_qualified_set_commitment = 1, ogha_old_guardian_index = i, ogha_guardian_signature = [] \<rparr>"

definition fs_succ :: "nat \<Rightarrow> ConfigCapsuleV3" where
  "fs_succ b = (fx_body 2 (of_nat b) (cc3_capsule_hash fs_genesis))
     \<lparr> cc3_capsule_hash := fx_hash fs_prim (config_capsule_body_v3 (fx_body 2 (of_nat b) (cc3_capsule_hash fs_genesis))) \<rparr>"

definition fs_ready :: "nat \<Rightarrow> RotationReadyCertificate" where
  "fs_ready b = \<lparr> rrdy_context = fs_ctx b, rrdy_plan_hash = fs_plan_hash b, rrdy_successor = fx_ref 2 (of_nat b),
     rrdy_dpss_result_commitment = 22, rrdy_guardian_material_root = 24,
     rrdy_encrypted_descriptor_hash = hash_aead fs_prim (cc3_encrypted_recovery_descriptor (fs_succ b)),
     rrdy_prepared_acks = [fs_prepared b 1, fs_prepared b 3], rrdy_old_handoff_acks = [fs_handoff b 1, fs_handoff b 2] \<rparr>"

lemma fs_acks_ok:
  "\<exists>t. new_guardian_prepared_ack (fs_prepared b i) = Inr t" "\<exists>t. old_guardian_handoff_ack (fs_handoff b i) = Inr t"
  by (simp_all add: new_guardian_prepared_ack_def old_guardian_handoff_ack_def prepared_ack_into_def handoff_ack_into_def
      prepared_leaf_into_def fs_prepared_def fs_handoff_def fs_leaf_def fs_ctx_def fx_ref_def fx_wire)

lemma fs_ready_ok: "\<exists>t. rotation_ready_certificate (fs_ready b) = Inr t"
  by (simp add: rotation_ready_certificate_def prepared_ack_into_def handoff_ack_into_def
      prepared_leaf_into_def fs_ready_def fs_prepared_def fs_handoff_def fs_leaf_def fs_ctx_def fx_ref_def fx_wire)

lemma fs_ready_valid:
  assumes b: "b \<in> {2, 3}"
  shows "\<exists>h. validate_rotation_ready_certificate_v3 fs_prim (fs_ready b) (fs_plan b) fs_genesis 30 = Inr h"
proof -
  have "rrdy_context (fs_ready b) = fs_ctx b" "rrdy_plan_hash (fs_ready b) = fs_plan_hash b"
    "rrdy_successor (fs_ready b) = rp_successor (fs_plan b)" "rp_preparation_deadline (fs_plan b) = 50"
    "rrdy_prepared_acks (fs_ready b) = [fs_prepared b 1, fs_prepared b 3]" "length (rp_new_roster (fs_plan b)) = 2"
    "rrdy_old_handoff_acks (fs_ready b) = [fs_handoff b 1, fs_handoff b 2]" "rp_old_guardian_threshold (fs_plan b) = 2"
    "roster_keys (rp_new_roster (fs_plan b)) = [(1, 1), (3, 3)]" "roster_keys (rp_old_roster (fs_plan b)) = [(1, 1), (2, 2)]"
    "ngpa_new_guardian_index (fs_prepared b i) = i" "ogha_old_guardian_index (fs_handoff b i) = i" for i
    by (simp_all add: fs_ready_def fs_plan_def fs_new_def fs_old_def fx_route_def roster_keys_def fs_prepared_def fs_handoff_def)
  then show ?thesis
    using fs_ready_ok [of b] fs_acks_ok(1) [of b 1] fs_acks_ok(1) [of b 3] fs_acks_ok(2) [of b 1] fs_acks_ok(2) [of b 2]
    by (auto simp: validate_rotation_ready_certificate_v3_def fs_plan_valid [OF b] wire_def crypt_def ok_or_def word_le_nat_alt)
qed

definition fs_call_activate :: "nat \<Rightarrow> signer_call" where
  "fs_call_activate b = RotationCall (Activate (fs_plan b) (fs_ready b) (fs_succ b)) 1 1 30"

lemma fs_step_activate:
  assumes b: "b \<in> {2, 3}" and "bt_get (srs_begin_votes s) (fs_rid b) = Some (fs_plan_hash b)"
    "bt_get (srs_release_votes s) (fs_rid b) = Some y" "bt_get (srs_cancelled_rotations s) (fs_rid b) = None"
    "bt_get (srs_activate_votes s) (fs_rid b) = None"
  shows "\<exists>v x. signer_serve fs_prim hex_encode (fs_call_activate b) (fs_state s) =
    (Inr (RotationReply (ActivateVoted v)), fs_state (s \<lparr> srs_activate_votes := bt_insert (fs_rid b) x (srs_activate_votes s) \<rparr>))"
proof -
  obtain t where t: "rotation_plan (fs_plan b) = Inr t" using fs_plan_ok [OF b] by blast
  then have h: "sha256 fs_prim t = fs_plan_hash b" by (simp add: fs_plan_hash_def fx_hash_def)
  obtain rh where rh: "validate_rotation_ready_certificate_v3 fs_prim (fs_ready b) (fs_plan b) fs_genesis 30 = Inr rh"
    using fs_ready_valid [OF b] by blast
  obtain c where c: "config_capsule_body_v3 (fx_body 2 (of_nat b) (cc3_capsule_hash fs_genesis)) = Inr c" using fx_body_ok by blast
  then have body: "config_capsule_body_v3 (fs_succ b) = Inr c" by (simp add: fs_succ_def)
  have same: "successor_mismatch fs_prim (fs_plan b) (fs_ready b) (fs_succ b) fs_genesis (sha256 fs_prim c) = Inr False"
    using c by (simp add: successor_mismatch_def fs_genesis_sel u16_try_from_def)
      (simp add: fs_succ_def fs_ready_def fs_plan_def fs_new_def fx_body_def fx_hash_def)
  have "\<exists>t. signer_rotation_activate_vote \<lparr> srav_context = fs_ctx b, srav_plan_hash = fs_plan_hash b,
      srav_ready_certificate_hash = rh, srav_successor_capsule_hash = sha256 fs_prim c, srav_signer_id = 1,
      srav_signer_public_key = 33, srav_signer_membership_proof = [], srav_signer_signature = [] \<rparr> = Inr t"
    by (simp add: signer_rotation_activate_vote_def fs_ctx_def fx_ref_def fx_wire)
  moreover have "rrdy_plan_hash (fs_ready b) = fs_plan_hash b" by (simp add: fs_ready_def)
  ultimately show ?thesis
    using assms rh
    by (auto simp: fs_call_activate_def fs_serve signer_activate_def Let_def attempt_def t h body same wire_def
        record_vote_in_def record_vote_def simp del: signer_serve.simps)
qed


text \<open>The owner cancels, under acknowledgements of three witnesses.\<close>

definition fs_cancel :: "nat \<Rightarrow> OwnerRotationCancelCertificate" where
  "fs_cancel b = \<lparr> orcc_context = fs_ctx b, orcc_plan_hash = fs_plan_hash b, orcc_reason_code = 1,
     orcc_cancel_response_recipient_key = fs_key, orcc_owner_cancel_public_key = 21, orcc_owner_signature = [] \<rparr>"

definition fs_cancel_ack :: "nat \<Rightarrow> u16 \<Rightarrow> WitnessRotationCancelAck" where
  "fs_cancel_ack b i = \<lparr> wrca_protocol_version = 3, wrca_config_id = 1, wrca_rotation_id = of_nat b,
     wrca_plan_hash = fs_plan_hash b,
     wrca_cancel_certificate_hash = fx_hash fs_prim (owner_rotation_cancel_certificate (fs_cancel b)),
     wrca_witness_id = i, wrca_witness_public_key = ucast i, wrca_witness_signature = [] \<rparr>"

definition fs_cancel_acks :: "nat \<Rightarrow> WitnessRotationCancelAck list" where
  "fs_cancel_acks b = map (fs_cancel_ack b) [1, 2, 3]"

lemma fs_cancel_valid:
  assumes b: "b \<in> {2, 3}"
  shows "\<exists>h. validate_owner_rotation_cancel_witness_quorum_v3 fs_prim (fs_cancel b) (fs_cancel_acks b) (fx_card [1, 2, 3, 4])
    (fs_plan b) fs_genesis 30 = Inr h"
proof -
  obtain t where t: "owner_rotation_cancel_certificate (fs_cancel b) = Inr t"
    using owner_rotation_cancel_certificate_def
    by (simp add: owner_rotation_cancel_certificate_def fs_cancel_def fs_ctx_def fx_ref_def fx_wire)
  have acks: "\<exists>t. witness_rotation_cancel_ack (fs_cancel_ack b i) = Inr t" if "i \<noteq> 0" for i
    using that by (simp add: witness_rotation_cancel_ack_def fs_cancel_ack_def fx_wire)
  obtain t1 t2 t3 where ts: "witness_rotation_cancel_ack (fs_cancel_ack b 1) = Inr t1"
    "witness_rotation_cancel_ack (fs_cancel_ack b 2) = Inr t2" "witness_rotation_cancel_ack (fs_cancel_ack b 3) = Inr t3"
    using acks [of 1] acks [of 2] acks [of 3] by auto
  have f: "wrca_protocol_version (fs_cancel_ack b i) = PROTOCOL_VERSION_V3" "wrca_config_id (fs_cancel_ack b i) = 1"
    "wrca_rotation_id (fs_cancel_ack b i) = of_nat b" "wrca_plan_hash (fs_cancel_ack b i) = fs_plan_hash b"
    "wrca_cancel_certificate_hash (fs_cancel_ack b i) = sha256 fs_prim t" "wrca_witness_id (fs_cancel_ack b i) = i"
    "wrca_witness_public_key (fs_cancel_ack b i) = ucast i" "wp_public_key (fx_pin i) = ucast i" for i
    by (simp_all add: fs_cancel_ack_def PROTOCOL_VERSION_V3_def t fx_hash_def fx_pin_def)
  have c: "orcc_context (fs_cancel b) = fs_ctx b" "orcc_plan_hash (fs_cancel b) = fs_plan_hash b"
    "orcc_owner_cancel_public_key (fs_cancel b) = 21" "orcc_cancel_response_recipient_key (fs_cancel b) = fs_key"
    by (simp_all add: fs_cancel_def)
  show ?thesis
    by (simp add: validate_owner_rotation_cancel_witness_quorum_v3_def fx_card_ok fs_plan_valid [OF b] fs_genesis_sel c t
        wire_def crypt_def XWING_PUBLIC_KEY_LEN_def fs_cancel_acks_def f ts fs_pin ensure_def ok_or_def Let_def
        required_witness_quorum_eq fx_ref_def)
qed

definition fs_call_cancel :: "nat \<Rightarrow> signer_call" where
  "fs_call_cancel b = RotationCall (FinalizeOwnerCancel (fs_plan b) (fs_cancel b) (fs_cancel_acks b) fs_key) 1 1 30"

lemma fs_step_cancel:
  assumes b: "b \<in> {2, 3}" and "bt_get (srs_begin_votes s) (fs_rid b) = Some (fs_plan_hash b)"
    "bt_get (srs_predecessor_plan_locks s) fs_pred = Some (fs_plan_hash b)" "bt_get (srs_cancelled_rotations s) (fs_rid b) = None"
  shows "\<exists>x. signer_serve fs_prim hex_encode (fs_call_cancel b) (fs_state s) =
    (Inr (RotationReply OwnerCancelFinalized), fs_state (s \<lparr>
       srs_cancelled_rotations := bt_insert (fs_rid b) x (srs_cancelled_rotations s),
       srs_predecessor_plan_locks := bt_remove fs_pred (srs_predecessor_plan_locks s) \<rparr>))"
proof -
  obtain t where t: "rotation_plan (fs_plan b) = Inr t" using fs_plan_ok [OF b] by blast
  then have h: "sha256 fs_prim t = fs_plan_hash b" by (simp add: fs_plan_hash_def fx_hash_def)
  obtain ch where "validate_owner_rotation_cancel_witness_quorum_v3 fs_prim (fs_cancel b) (fs_cancel_acks b)
      (fx_card [1, 2, 3, 4]) (fs_plan b) fs_genesis 30 = Inr ch"
    using fs_cancel_valid [OF b] by blast
  then show ?thesis
    using assms
    by (auto simp: fs_call_cancel_def fs_serve signer_finalize_owner_cancel_def Let_def attempt_def t h wire_def
        XWING_PUBLIC_KEY_LEN_def simp del: signer_serve.simps)
qed

text \<open>A recovery request, approved and then released.\<close>

definition fs_request :: RecoveryRequestV3 where
  "fs_request = \<lparr> rq3_protocol_version = 3, rq3_config_ref = fx_ref 1 1, rq3_request_id = 60,
     rq3_recovery_recipient_key = fs_key, rq3_requested_at = 10, rq3_nonce = 61, rq3_expiry = 90 \<rparr>"

definition fs_digest :: Id32 where "fs_digest = fx_hash fs_prim (recovery_request_digest_v3 fs_request)"

lemma fs_request_ok: "\<exists>t. recovery_request_v3 fs_request = Inr t \<and> length t \<le> 2000"
  by (simp add: recovery_request_v3_def fs_request_def fx_ref_def fx_wire lp_def as_bytes_def word_le_nat_alt)

lemma fs_request_valid: "validate_recovery_request_v3 fs_prim fs_request fs_genesis 30 = Inr fs_digest"
proof -
  have "\<exists>t. recovery_request_digest_v3 fs_request = Inr t"
    using fs_request_ok by (auto simp: recovery_request_digest_v3_def transcript_ok MAX_FIELD_LEN_def)
  then show ?thesis
    by (auto simp: validate_recovery_request_v3_def validate_recovery_request_for_ref_v3_def request_digest_v3_def wire_def
        fs_digest_def fx_hash_def fs_genesis_sel)
      (simp_all add: fs_request_def fx_ref_def PROTOCOL_VERSION_V3_def XWING_PUBLIC_KEY_LEN_def saturating_add_def
        word_le_nat_alt word_less_nat_alt)
qed

definition fs_call_approve :: signer_call where "fs_call_approve = RecoveryCall (Approve fs_request fs_challenge fs_reads) 1 1 30"
definition fs_call_vote :: signer_call where "fs_call_vote = RecoveryCall (ReleaseRequest fs_request) 1 1 30"

definition fs_approved :: SignerRotationEntryV3 where
  "fs_approved = (fs_state SignerRotationStore_new) \<lparr> sre_recovery_requests := [(hex_encode 60, fs_digest)],
     sre_recovery_nonces := {61} \<rparr>"


lemma fs_step_approve:
  "\<exists>a. signer_serve fs_prim hex_encode fs_call_approve (fs_state SignerRotationStore_new) = (Inr a, fs_approved)"
proof -
  obtain q where q: "recovery_request_v3 fs_request = Inr q" "length q \<le> 2000" using fs_request_ok by blast
  obtain c where c: "recovery_authorization_share_context_v3 fs_request 1 = Inr c"
    using q by (simp add: recovery_authorization_share_context_v3_def transcript_ok MAX_FIELD_LEN_def)
  obtain m where m: "seal_share fs_prim fs_approved fs_key 1 1 (Inr c) = Inr m"
    using fs_seal [of SignerRotationStore_new c] by (auto simp: seal_share_def fs_approved_def)
  then have sm: "sm_kem_ciphertext m = [] \<and> ac_ciphertext (sm_payload m) = [1]"
    by (auto simp: seal_share_def seal_to_recipient_def aead_encrypt_def fs_prim_def fx_prim_def ok_or_def
        fs_state_def fs_provision_def fs_approved_def wire_def crypt_def)
  have "\<exists>t. signer_recovery_contribution_v3 \<lparr> sc3_request = fs_request, sc3_signer_id = 1, sc3_signer_public_key = 33,
      sc3_signer_membership_proof = [], sc3_encrypted_authorization_share = m, sc3_signer_signature = [] \<rparr> = Inr t"
    using q sm by (simp add: signer_recovery_contribution_v3_def signer_recovery_contribution_into_def fx_wire sealed_into_def)
  moreover have "erc_issued_at fs_challenge = 1" "erc_expiry fs_challenge = 100" "erc_response_recipient_key fs_challenge = fs_key"
    "rq3_recovery_recipient_key fs_request = fs_key" "rq3_request_id fs_request = 60" "rq3_nonce fs_request = 61"
    by (simp_all add: fs_challenge_def fs_request_def)
  ultimately show ?thesis
    using m by (auto simp: fs_call_approve_def handle_signer_recovery_v3_def signer_recovery_approve_def Let_def attempt_def
        fs_select fs_request_valid c wire_def word_less_nat_alt fs_approved_def fs_state_def word_le_nat_alt)
qed

lemma fs_step_vote:
  "\<exists>v. signer_serve fs_prim hex_encode fs_call_vote fs_approved = (Inr (RecoveryReply (RecoveryReleaseVote v)), fs_approved)"
proof -
  obtain q where q: "recovery_request_v3 fs_request = Inr q" "length q \<le> 2000" using fs_request_ok by blast
  then have "\<exists>t. signer_recovery_release_vote_v3 \<lparr> rv3_request = fs_request, rv3_request_digest = fs_digest, rv3_signer_id = 1,
      rv3_signer_public_key = 33, rv3_signer_membership_proof = [], rv3_signer_signature = [] \<rparr> = Inr t"
    by (simp add: signer_recovery_release_vote_v3_def signer_recovery_release_vote_into_def fx_wire)
  moreover have "rq3_request_id fs_request = 60" by (simp add: fs_request_def)
  ultimately show ?thesis
    by (auto simp: fs_call_vote_def handle_signer_recovery_v3_def signer_recovery_release_def Let_def attempt_def
        fs_request_valid wire_def fs_approved_def)
qed

section \<open>The runs\<close>

text \<open>The four calls of one rotation, from a store without a trace of it.\<close>

definition fs_fresh :: "nat \<Rightarrow> SignerRotationStore \<Rightarrow> bool" where
  "fs_fresh b s \<longleftrightarrow> (\<forall>m \<in> {srs_intent_votes s, srs_begin_votes s, srs_release_votes s, srs_activate_votes s,
      srs_cancelled_rotations s}. bt_get m (fs_rid b) = None) \<and>
    bt_get (srs_intents s) (fs_rid b) = None \<and> bt_get (srs_predecessor_plan_locks s) fs_pred = None"

definition fs_done :: "nat \<Rightarrow> SignerRotationStore \<Rightarrow> Id32 \<Rightarrow> Id32 \<Rightarrow> SignerRotationStore" where
  "fs_done b s x y = (fs_after_begin b (fs_after_intent b s)) \<lparr> srs_release_votes := bt_insert (fs_rid b) x (srs_release_votes s),
     srs_activate_votes := bt_insert (fs_rid b) y (srs_activate_votes s) \<rparr>"

definition fs_life :: "nat \<Rightarrow> signer_call list" where
  "fs_life b = [fs_call_intent b, fs_call_begin b, fs_call_release b, fs_call_activate b]"

lemma fs_run_life:
  assumes b: "b \<in> {2, 3}" and fresh: "fs_fresh b s"
  shows "\<exists>a1 a2 v3 a4 x y. run_log (signer_serve fs_prim hex_encode) (fs_state s) (fs_life b) =
    ([(fs_call_intent b, Inr a1), (fs_call_begin b, Inr a2), (fs_call_release b, Inr (RotationReply (ReleaseVoted v3))),
      (fs_call_activate b, Inr (RotationReply (ActivateVoted a4)))], fs_state (fs_done b s x y))"
proof -
  obtain a1 where 1: "signer_serve fs_prim hex_encode (fs_call_intent b) (fs_state s) = (Inr a1, fs_state (fs_after_intent b s))"
    using fs_step_intent [of s b] fresh by (auto simp: fs_fresh_def)
  let ?s1 = "fs_after_intent b s"
  obtain a2 where 2: "signer_serve fs_prim hex_encode (fs_call_begin b) (fs_state ?s1) = (Inr a2, fs_state (fs_after_begin b ?s1))"
    using fs_step_begin [OF b, of ?s1] fresh by (auto simp: fs_fresh_def fs_after_intent_def)
  let ?s2 = "fs_after_begin b ?s1"
  obtain v3 x where 3: "signer_serve fs_prim hex_encode (fs_call_release b) (fs_state ?s2) = (Inr (RotationReply (ReleaseVoted v3)),
      fs_state (?s2 \<lparr> srs_release_votes := bt_insert (fs_rid b) x (srs_release_votes ?s2) \<rparr>))"
    using fs_step_release [OF b, of ?s2] fresh by (auto simp: fs_fresh_def fs_after_intent_def fs_after_begin_def)
  let ?s3 = "?s2 \<lparr> srs_release_votes := bt_insert (fs_rid b) x (srs_release_votes ?s2) \<rparr>"
  obtain v4 y where 4: "signer_serve fs_prim hex_encode (fs_call_activate b) (fs_state ?s3) = (Inr (RotationReply (ActivateVoted v4)),
      fs_state (?s3 \<lparr> srs_activate_votes := bt_insert (fs_rid b) y (srs_activate_votes ?s3) \<rparr>))"
    using fs_step_activate [OF b, of ?s3 x] fresh by (auto simp: fs_fresh_def fs_after_intent_def fs_after_begin_def)
  have "?s3 \<lparr> srs_activate_votes := bt_insert (fs_rid b) y (srs_activate_votes ?s3) \<rparr> = fs_done b s x y"
    by (simp add: fs_done_def fs_after_begin_def fs_after_intent_def)
  with 1 2 3 4 show ?thesis by (auto simp: fs_life_def simp del: signer_serve.simps)
qed

lemma fs_fresh_start: "fresh_signer fs_provision = fs_state SignerRotationStore_new" "fs_fresh b SignerRotationStore_new"
  by (simp_all add: fresh_signer_def fs_state_def fs_fresh_def SignerRotationStore_new_def)

lemma fs_run:
  "\<exists>a1 a2 v3 a4 b1 b2 b3 b4 e. run_log (signer_serve fs_prim hex_encode) (fresh_signer fs_provision)
     (fs_life 2 @ fs_call_cancel 2 # fs_life 3) =
    ([(fs_call_intent 2, Inr a1), (fs_call_begin 2, Inr a2), (fs_call_release 2, Inr (RotationReply (ReleaseVoted v3))),
      (fs_call_activate 2, Inr (RotationReply (ActivateVoted a4))), (fs_call_cancel 2, Inr (RotationReply OwnerCancelFinalized)),
      (fs_call_intent 3, Inr b1), (fs_call_begin 3, Inr b2), (fs_call_release 3, Inr (RotationReply (ReleaseVoted b3))),
      (fs_call_activate 3, Inr (RotationReply (ActivateVoted b4)))], e)"
proof -
  obtain a1 a2 v3 a4 x y where 1: "run_log (signer_serve fs_prim hex_encode) (fs_state SignerRotationStore_new) (fs_life 2) =
    ([(fs_call_intent 2, Inr a1), (fs_call_begin 2, Inr a2), (fs_call_release 2, Inr (RotationReply (ReleaseVoted v3))),
      (fs_call_activate 2, Inr (RotationReply (ActivateVoted a4)))], fs_state (fs_done 2 SignerRotationStore_new x y))"
    using fs_run_life [OF _ fs_fresh_start(2), of 2] by auto
  let ?s = "fs_done 2 SignerRotationStore_new x y"
  obtain z where 2: "signer_serve fs_prim hex_encode (fs_call_cancel 2) (fs_state ?s) =
    (Inr (RotationReply OwnerCancelFinalized), fs_state (?s \<lparr>
       srs_cancelled_rotations := bt_insert (fs_rid 2) z (srs_cancelled_rotations ?s),
       srs_predecessor_plan_locks := bt_remove fs_pred (srs_predecessor_plan_locks ?s) \<rparr>))"
    using fs_step_cancel [of 2 ?s]
    by (auto simp: fs_done_def fs_after_begin_def fs_after_intent_def SignerRotationStore_new_def)
  define t where "t = ?s \<lparr> srs_cancelled_rotations := bt_insert (fs_rid 2) z (srs_cancelled_rotations ?s),
       srs_predecessor_plan_locks := bt_remove fs_pred (srs_predecessor_plan_locks ?s) \<rparr>"
  note 2 = 2 [folded t_def]
  have "fs_fresh 3 t"
    by (simp add: t_def fs_fresh_def fs_done_def fs_after_begin_def fs_after_intent_def SignerRotationStore_new_def)
  then obtain b1 b2 b3 b4 x' y' where 3: "run_log (signer_serve fs_prim hex_encode) (fs_state t) (fs_life 3) =
    ([(fs_call_intent 3, Inr b1), (fs_call_begin 3, Inr b2), (fs_call_release 3, Inr (RotationReply (ReleaseVoted b3))),
      (fs_call_activate 3, Inr (RotationReply (ActivateVoted b4)))], fs_state (fs_done 3 t x' y'))"
    using fs_run_life [of 3 t] by auto
  show ?thesis
    by (simp add: fs_fresh_start run_log_append 1 2 3 del: signer_serve.simps)
qed

section \<open>Applications\<close>

lemma fs_plans_differ: "fs_plan 2 \<noteq> fs_plan 3"
  by (auto simp: fs_plan_def fs_ctx_def dest!: arg_cong [where f = "\<lambda>p. rx_rotation_id (rp_context p)"])

lemma fs_collision_free: assumes "P \<subseteq> {fs_plan 2, fs_plan 3}" shows "collision_free fs_prim P"
  unfolding collision_free_def
proof (intro ballI impI)
  fix p q assume "p \<in> P" "q \<in> P" and h: "plan_digest fs_prim p \<noteq> None \<and> plan_digest fs_prim p = plan_digest fs_prim q"
  with assms have "p \<in> {fs_plan 2, fs_plan 3}" "q \<in> {fs_plan 2, fs_plan 3}" by auto
  with h show "p = q"
    using fs_plan_hash [of 2] fs_plan_hash [of 3] fs_plan_hash_num [of 2] fs_plan_hash_num [of 3] by auto
qed

lemmas fs_calls = fs_call_intent_def fs_call_begin_def fs_call_release_def fs_call_activate_def fs_call_cancel_def

theorem signer_activates_one_plan_witness:
  "\<exists>log e c r. run_log (signer_serve fs_prim hex_encode) (fresh_signer fs_provision) (fs_life 2 @ fs_call_cancel 2 # fs_life 3) = (log, e) \<and>
     (RotationCall (FinalizeOwnerCancel (fs_plan 2) c (fs_cancel_acks 2) fs_key) 1 1 30, Inr r) \<in> set log"
proof -
  from fs_run obtain a1 a2 v3 a4 b1 b2 b3 b4 e where run:
    "run_log (signer_serve fs_prim hex_encode) (fresh_signer fs_provision) (fs_life 2 @ fs_call_cancel 2 # fs_life 3) =
    ([(fs_call_intent 2, Inr a1), (fs_call_begin 2, Inr a2), (fs_call_release 2, Inr (RotationReply (ReleaseVoted v3))),
      (fs_call_activate 2, Inr (RotationReply (ActivateVoted a4))), (fs_call_cancel 2, Inr (RotationReply OwnerCancelFinalized)),
      (fs_call_intent 3, Inr b1), (fs_call_begin 3, Inr b2), (fs_call_release 3, Inr (RotationReply (ReleaseVoted b3))),
      (fs_call_activate 3, Inr (RotationReply (ActivateVoted b4)))], e)" by blast
  have "collision_free fs_prim (plans_of [(fs_call_intent 2, Inr a1), (fs_call_begin 2, Inr a2),
      (fs_call_release 2, Inr (RotationReply (ReleaseVoted v3))),
      (fs_call_activate 2, Inr (RotationReply (ActivateVoted a4))), (fs_call_cancel 2, Inr (RotationReply OwnerCancelFinalized)),
      (fs_call_intent 3, Inr b1), (fs_call_begin 3, Inr b2), (fs_call_release 3, Inr (RotationReply (ReleaseVoted b3))),
      (fs_call_activate 3, Inr (RotationReply (ActivateVoted b4)))])"
    by (rule fs_collision_free) (auto simp: plans_of_def fs_calls)
  note free = this [unfolded fs_call_activate_def]
  have "run_log (signer_serve fs_prim hex_encode) (fresh_signer fs_provision) (fs_life 2 @ fs_call_cancel 2 # fs_life 3) =
    ([(fs_call_intent 2, Inr a1), (fs_call_begin 2, Inr a2), (fs_call_release 2, Inr (RotationReply (ReleaseVoted v3)))] @
     (RotationCall (Activate (fs_plan 2) (fs_ready 2) (fs_succ 2)) 1 1 30, Inr (RotationReply (ActivateVoted a4))) #
     [(fs_call_cancel 2, Inr (RotationReply OwnerCancelFinalized)), (fs_call_intent 3, Inr b1), (fs_call_begin 3, Inr b2),
      (fs_call_release 3, Inr (RotationReply (ReleaseVoted b3)))] @
     (RotationCall (Activate (fs_plan 3) (fs_ready 3) (fs_succ 3)) 1 1 30, Inr (RotationReply (ActivateVoted b4))) # [], e)"
    using run by (simp add: fs_call_activate_def)
  from signer_activates_one_plan [OF this _ _ fs_plans_differ] free
  have "\<exists>cert acks key s n t r. (RotationCall (FinalizeOwnerCancel (fs_plan 2) cert acks key) s n t, Inr r) \<in>
      set [(fs_call_cancel 2, Inr (RotationReply OwnerCancelFinalized)),
      (fs_call_intent 3, Inr b1), (fs_call_begin 3, Inr b2), (fs_call_release 3, Inr (RotationReply (ReleaseVoted b3)))]"
    by simp
  with run show ?thesis by (auto simp: fs_calls)
qed

theorem signer_closed_rotation_final_witness:
  "\<exists>err. fst (signer_serve fs_prim hex_encode (fs_call_begin 2)
     (snd (run_log (signer_serve fs_prim hex_encode) (fresh_signer fs_provision) (fs_life 2 @ fs_call_cancel 2 # fs_life 3)))) = Inl err"
proof -
  from fs_run obtain a1 a2 v3 a4 b1 b2 b3 b4 e where run:
    "run_log (signer_serve fs_prim hex_encode) (fresh_signer fs_provision) (fs_life 2 @ fs_call_cancel 2 # fs_life 3) =
    ([(fs_call_intent 2, Inr a1), (fs_call_begin 2, Inr a2), (fs_call_release 2, Inr (RotationReply (ReleaseVoted v3))),
      (fs_call_activate 2, Inr (RotationReply (ActivateVoted a4))), (fs_call_cancel 2, Inr (RotationReply OwnerCancelFinalized)),
      (fs_call_intent 3, Inr b1), (fs_call_begin 3, Inr b2), (fs_call_release 3, Inr (RotationReply (ReleaseVoted b3))),
      (fs_call_activate 3, Inr (RotationReply (ActivateVoted b4)))], e)" by blast
  obtain r e' where again: "signer_serve fs_prim hex_encode (fs_call_begin 2) e = (r, e')" by (meson surj_pair)
  have "run_log (signer_serve fs_prim hex_encode) (fresh_signer fs_provision)
      ((fs_life 2 @ fs_call_cancel 2 # fs_life 3) @ [fs_call_begin 2]) =
    ([(fs_call_intent 2, Inr a1), (fs_call_begin 2, Inr a2), (fs_call_release 2, Inr (RotationReply (ReleaseVoted v3))),
      (fs_call_activate 2, Inr (RotationReply (ActivateVoted a4)))] @ (fs_call_cancel 2, Inr (RotationReply OwnerCancelFinalized)) #
      [(fs_call_intent 3, Inr b1), (fs_call_begin 3, Inr b2), (fs_call_release 3, Inr (RotationReply (ReleaseVoted b3))),
      (fs_call_activate 3, Inr (RotationReply (ActivateVoted b4)))] @ (fs_call_begin 2, r) # [], e')"
    by (subst run_log_append) (simp add: run again del: signer_serve.simps)
  then have "(\<exists>err. r = Inl err) \<or> r \<in> {Inr (RotationReply AbortFinalized), Inr (RotationReply OwnerCancelFinalized)}"
    unfolding fs_call_cancel_def [of 2] fs_call_begin_def [of 2] by (rule signer_closed_rotation_final) simp_all
  moreover have "\<not> (r \<in> {Inr (RotationReply AbortFinalized), Inr (RotationReply OwnerCancelFinalized)})"
  proof
    assume r: "r \<in> {Inr (RotationReply AbortFinalized), Inr (RotationReply OwnerCancelFinalized)}"
    from again [unfolded fs_call_begin_def] show False
    proof (cases rule: serve_rotation)
      case (begin_call ih plan r0)
      from begin_effect [OF begin_call(2)] begin_call(3) r show False by (elim disjE exE conjE) auto
    qed (use r in auto)
  qed
  ultimately show ?thesis using run again by simp
qed

lemma run_log_calls: "run_log exec s ops = (l, t) \<Longrightarrow> ops = map fst l"
  by (induction ops arbitrary: s l) (auto split: prod.splits simp: Let_def)

theorem signer_activates_after_delay_witness:
  "\<exists>a1 a2 v a4 e u cert. run_log (signer_serve fs_prim hex_encode) (fresh_signer fs_provision) (fs_life 2) =
      ([(fs_call_intent 2, Inr a1), (fs_call_begin 2, Inr a2), (fs_call_release 2, Inr (RotationReply (ReleaseVoted v)))] @
       [(RotationCall (Activate (fs_plan 2) (fs_ready 2) (fs_succ 2)) 1 1 30, Inr (RotationReply (ActivateVoted a4)))], e) \<and>
    run_log (signer_serve fs_prim hex_encode) (fresh_signer fs_provision) [fs_call_intent 2, fs_call_begin 2] =
      ([(fs_call_intent 2, Inr a1), (fs_call_begin 2, Inr a2)], u) \<and>
    begin_threshold fs_prim (srp_active_capsule (sre_provision u)) cert"
proof -
  from fs_run_life [OF _ fs_fresh_start(2), of 2] obtain a1 a2 v3 a4 e where
    run: "run_log (signer_serve fs_prim hex_encode) (fresh_signer fs_provision) (fs_life 2) =
      ([(fs_call_intent 2, Inr a1), (fs_call_begin 2, Inr a2), (fs_call_release 2, Inr (RotationReply (ReleaseVoted v3)))] @
       (RotationCall (Activate (fs_plan 2) (fs_ready 2) (fs_succ 2)) 1 1 30, Inr (RotationReply (ActivateVoted a4))) # [], e)"
    unfolding fs_fresh_start fs_call_activate_def by auto
  from signer_activates_after_delay [OF run] obtain plan' cert s' n' t' v l0 l calls0 u where
    split: "[(fs_call_intent 2, Inr a1), (fs_call_begin 2, Inr a2), (fs_call_release 2, Inr (RotationReply (ReleaseVoted v3)))] =
      l0 @ (RotationCall (Release plan' cert) s' n' t', Inr (RotationReply (ReleaseVoted v))) # l"
    and u: "run_log (signer_serve fs_prim hex_encode) (fresh_signer fs_provision) calls0 = (l0, u)"
    and thr: "begin_threshold fs_prim (srp_active_capsule (sre_provision u)) cert" by blast
  from split have l0: "l0 = [(fs_call_intent 2, Inr a1), (fs_call_begin 2, Inr a2)]"
    by (auto simp: Cons_eq_append_conv fs_call_intent_def fs_call_begin_def)
  have "calls0 = map fst l0" using run_log_calls [OF u] .
  with u thr l0 run show ?thesis by auto
qed

theorem signer_recovery_votes_bound_witness:
  "\<exists>a v e. run_log (signer_serve fs_prim hex_encode) (fresh_signer fs_provision) [fs_call_approve, fs_call_vote] =
     ([(fs_call_approve, Inr a), (fs_call_vote, Inr (RecoveryReply (RecoveryReleaseVote v)))], e) \<and>
     request_digest_v3 fs_prim fs_request = Inr (rv3_request_digest v)"
proof -
  obtain a v where "signer_serve fs_prim hex_encode fs_call_approve (fs_state SignerRotationStore_new) = (Inr a, fs_approved)"
    "signer_serve fs_prim hex_encode fs_call_vote fs_approved = (Inr (RecoveryReply (RecoveryReleaseVote v)), fs_approved)"
    using fs_step_approve fs_step_vote by blast
  then have run: "run_log (signer_serve fs_prim hex_encode) (fresh_signer fs_provision) [fs_call_approve, fs_call_vote] =
    ([(fs_call_approve, Inr a)] @ (RecoveryCall (ReleaseRequest fs_request) 1 1 30, Inr (RecoveryReply (RecoveryReleaseVote v))) # [],
     fs_approved)"
    by (simp add: fs_fresh_start fs_call_vote_def del: signer_serve.simps)
  from conjunct1 [OF signer_recovery_votes_bound [OF run]] obtain q' ch reads s' n' t' r active where
    "(RecoveryCall (Approve q' ch reads) s' n' t', r) \<in> set [(fs_call_approve, Inr a :: (anyhow, signer_reply) result)]"
    "validate_recovery_request_v3 fs_prim q' active t' = Inr (rv3_request_digest v)"
    by blast
  then have "request_digest_v3 fs_prim fs_request = Inr (rv3_request_digest v)"
    by (auto simp: fs_call_approve_def validate_recovery_request_v3_def validate_recovery_request_for_ref_v3_def split: if_splits)
  then show ?thesis using run by (auto simp: fs_call_vote_def)
qed

end
