(* ===== verification/GP_Protocol_V2.thy ===== *)
theory GP_Protocol_V2
  imports GP_Protocol_V3 GP_Sharing
begin

text \<open>
  Protocol version 2, \<open>gp-network/src/protocol.rs\<close>: the set-up of a configuration by the owner, the checks
  of capsules, requests, begin and release certificates, owner cancellations and guardian
  contributions, and the reconstruction of the secret. The random draws of the set-up are the fields
  of an argument; \<open>serde_json\<close> and \<open>hex::encode\<close> are parameters.
\<close>

section \<open>Set-up\<close>

record GuardianProvision =
  gpv_mailbox :: string
  gpv_guardian_id :: u16
  gpv_signing_seed :: Id32
  gpv_record :: GuardianRecord

record SetupBundle =
  sb_capsule :: ConfigCapsule
  sb_card :: RecoveryCard
  sb_signers :: "SignerState list"
  sb_guardians :: "GuardianProvision list"
  sb_owner_cancel_signing_seed :: "byte list"
  sb_owner_guardian_routes :: "GuardianRoute list"

record descriptor_json =
  descriptor_to_vec :: "RecoveryDescriptor \<Rightarrow> byte list option"
  descriptor_from_slice :: "byte list \<Rightarrow> RecoveryDescriptor option"

text \<open>The results of \<open>random_id\<close> and \<open>random_nonce\<close>, by their place; those of a loop by its offset.\<close>

record setup_draws =
  dr_config_id :: Id32
  dr_owner_seed :: Id32
  dr_authorization_key :: Id32
  dr_dek :: Id32
  dr_a_seed :: Id32
  dr_signer_seed :: "nat \<Rightarrow> Id32"
  dr_payload_nonce :: arr24
  dr_dek_seed :: Id32
  dr_share_nonce :: "nat \<Rightarrow> arr24"
  dr_guardian_seed :: "nat \<Rightarrow> Id32"
  dr_slot :: "nat \<Rightarrow> Id32"
  dr_descriptor_nonce :: arr24

text \<open>The conversion of a slice to \<open>[u8; 32]\<close>.\<close>

definition arr32_try_from :: "string \<Rightarrow> byte list \<Rightarrow> (anyhow, Id32) result" where
  "arr32_try_from msg bytes = (if length bytes = 32 then Inr (of_nat (from_be bytes)) else Inl (Bail msg))"

definition json :: "'a option \<Rightarrow> (anyhow, 'a) result" where
  "json r = ok_or r FromJson"

text \<open>The loop over the signers: the leaf and the state of each.\<close>

fun setup_signers ::
    "primitives \<Rightarrow> setup_draws \<Rightarrow> SetupPolicy \<Rightarrow> byte list list \<Rightarrow> nat \<Rightarrow> string list \<Rightarrow>
     (anyhow, (Id32 \<times> SignerState) list) result"
where
  "setup_signers cp dr policy a_shares offset [] = Inr []"
| "setup_signers cp dr policy a_shares offset (mailbox # mailboxes) =
    bindR (u16_try_from (offset + 1)) (\<lambda>signer_id.
    let seed = dr_signer_seed dr offset; public = verifying_key_bytes cp seed in
    bindR (wire (signer_leaf signer_id public)) (\<lambda>leaf.
    bindR (setup_signers cp dr policy a_shares (Suc offset) mailboxes) (\<lambda>rest.
    Inr ((sha256 cp leaf, \<lparr> ss_signer_id = signer_id, ss_mailbox = mailbox,
      ss_authorization_share = a_shares ! offset, ss_signing_seed = seed, ss_signing_public_key = public,
      ss_membership_proof = [],
      ss_policy = \<lparr> sp_config_id = dr_config_id dr, sp_config_version = 1, sp_signer_set_commitment = 0,
        sp_signer_threshold = setup_signer_threshold policy \<rparr>,
      ss_seen_requests = [], ss_seen_nonces = {} \<rparr>) # rest))))"

definition with_membership :: "Id32 \<Rightarrow> SignerState \<times> byte list \<Rightarrow> SignerState" where
  "with_membership root = (\<lambda>(signer, proof). signer \<lparr> ss_membership_proof := proof,
     ss_policy := (ss_policy signer) \<lparr> sp_signer_set_commitment := root \<rparr> \<rparr>)"

text \<open>The first loop over the guardians: leaf, route, signing seed, fragment and encrypted share.\<close>

fun setup_guardians ::
    "primitives \<Rightarrow> setup_draws \<Rightarrow> byte list \<Rightarrow> byte list list \<Rightarrow> byte list list \<Rightarrow> nat \<Rightarrow> string list \<Rightarrow>
     (anyhow, (Id32 \<times> GuardianRoute \<times> Id32 \<times> byte list \<times> AeadCiphertext) list) result"
where
  "setup_guardians cp dr authorization_key fragments dek_shares offset [] = Inr []"
| "setup_guardians cp dr authorization_key fragments dek_shares offset (mailbox # mailboxes) =
    bindR (u16_try_from (offset + 1)) (\<lambda>index.
    bindR (arr32_try_from ''invalid authorization key'' authorization_key) (\<lambda>authorization.
    bindR (crypt (guardian_share_key cp authorization (dr_config_id dr) 1 index)) (\<lambda>key.
    bindR (wire (guardian_share_context (dr_config_id dr) 1 index)) (\<lambda>context.
    bindR (crypt (aead_encrypt cp key (dr_share_nonce dr offset) (dek_shares ! offset) context)) (\<lambda>encrypted_share.
    let fragment = fragments ! offset in
    bindR (wire (guardian_leaf (dr_config_id dr) 1 index (sha256 cp fragment) (hash_aead cp encrypted_share)))
      (\<lambda>leaf.
    let signing_seed = dr_guardian_seed dr offset;
        route = \<lparr> gr_mailbox = mailbox, gr_opaque_slot_id = dr_slot dr offset, gr_guardian_index = index,
          gr_guardian_public_key = verifying_key_bytes cp signing_seed \<rparr> in
    bindR (setup_guardians cp dr authorization_key fragments dek_shares (Suc offset) mailboxes) (\<lambda>rest.
    Inr ((sha256 cp leaf, route, signing_seed, fragment, encrypted_share) # rest))))))))"

definition guardian_provision ::
    "GuardianPolicy \<Rightarrow> (Id32 \<times> GuardianRoute \<times> Id32 \<times> byte list \<times> AeadCiphertext) \<times> byte list \<Rightarrow> GuardianProvision"
where
  "guardian_provision policy = (\<lambda>((_, route, signing_seed, fragment, encrypted_share), proof).
     \<lparr> gpv_mailbox = gr_mailbox route, gpv_guardian_id = gr_guardian_index route, gpv_signing_seed = signing_seed,
       gpv_record = \<lparr> grec_opaque_slot_id = gr_opaque_slot_id route, grec_guardian_index = gr_guardian_index route,
         grec_ciphertext_fragment = fragment, grec_encrypted_dek_share = encrypted_share,
         grec_merkle_path_proof = proof, grec_policy = policy \<rparr> \<rparr>)"

definition trim_end_slashes :: "string \<Rightarrow> string" where
  "trim_end_slashes base = rev (dropWhile (\<lambda>c. c = CHR ''/'') (rev base))"

definition create_setup ::
    "primitives \<Rightarrow> sharing \<Rightarrow> descriptor_json \<Rightarrow> (Id32 \<Rightarrow> string) \<Rightarrow> setup_draws \<Rightarrow> byte list \<Rightarrow> SetupPolicy \<Rightarrow>
     string list \<Rightarrow> string list \<Rightarrow> string list \<Rightarrow> string list \<Rightarrow> (anyhow, SetupBundle) result"
where
  "create_setup cp sp js hx dr secret policy signer_mailboxes guardian_mailboxes capsule_locator_bases relay_bases =
    (if capsule_locator_bases = [] \<or> relay_bases = []
     then Inl (Bail ''at least one config store and one relay base is required'') else
     if length signer_mailboxes \<noteq> unat (setup_signer_count policy) \<or>
        length guardian_mailboxes \<noteq> unat (setup_guardian_count policy) \<or>
        setup_signer_threshold policy = 0 \<or>
        setup_signer_threshold policy > setup_signer_count policy \<or>
        setup_guardian_threshold policy = 0 \<or>
        setup_guardian_threshold policy > setup_guardian_count policy
     then Inl (Bail ''invalid setup policy or node count'') else
     let config_id = dr_config_id dr; config_version = 1;
         owner_cancel_signing_seed = bytes32 (dr_owner_seed dr) in
     bindR (arr32_try_from ''invalid owner cancellation seed'' owner_cancel_signing_seed) (\<lambda>owner_seed.
     let owner_cancel_public_key = verifying_key_bytes cp owner_seed;
         authorization_key = bytes32 (dr_authorization_key dr); dek = bytes32 (dr_dek dr) in
     bindR (crypt (split_secret sp authorization_key (setup_signer_threshold policy) (setup_signer_count policy)
       (dr_a_seed dr))) (\<lambda>a_shares.
     bindR (setup_signers cp dr policy a_shares 0 signer_mailboxes) (\<lambda>signers.
     bindR (crypt (merkle_commit cp (map fst signers))) (\<lambda>(signer_root, signer_proofs).
     bindR (arr32_try_from ''invalid DEK'' dek) (\<lambda>dek_key.
     bindR (wire (payload_context config_id config_version)) (\<lambda>context.
     bindR (crypt (aead_encrypt cp dek_key (dr_payload_nonce dr) secret context)) (\<lambda>payload.
     bindR (crypt (erasure_encode sp (ac_ciphertext payload) (setup_guardian_threshold policy)
       (setup_guardian_count policy))) (\<lambda>fragments.
     bindR (crypt (split_secret sp dek (setup_guardian_threshold policy) (setup_guardian_count policy)
       (dr_dek_seed dr))) (\<lambda>dek_shares.
     bindR (setup_guardians cp dr authorization_key fragments dek_shares 0 guardian_mailboxes) (\<lambda>raw.
     bindR (crypt (merkle_commit cp (map fst raw))) (\<lambda>(guardian_root, proofs).
     let routes = map (\<lambda>(_, route, _). route) raw;
         guardian_policy = \<lparr> gp_config_id = config_id, gp_config_version = config_version,
           gp_signer_set_commitment = signer_root, gp_signer_count = setup_signer_count policy,
           gp_signer_threshold = setup_signer_threshold policy,
           gp_owner_cancel_public_key = owner_cancel_public_key,
           gp_minimum_recovery_delay = setup_minimum_recovery_delay policy,
           gp_guardian_material_root = guardian_root \<rparr>;
         guardians = map (guardian_provision guardian_policy) (zip raw proofs);
         descriptor = \<lparr> rd_guardians = routes, rd_guardian_material_root = guardian_root,
           rd_data_shards = setup_guardian_threshold policy, rd_total_shards = setup_guardian_count policy,
           rd_ciphertext_len = of_nat (length (ac_ciphertext payload)),
           rd_payload_nonce = dr_payload_nonce dr \<rparr> in
     bindR (json (descriptor_to_vec js descriptor)) (\<lambda>descriptor_bytes.
     bindR (arr32_try_from ''invalid authorization key'' authorization_key) (\<lambda>authorization.
     bindR (crypt (descriptor_key cp authorization config_id config_version)) (\<lambda>descriptor_key_value.
     bindR (wire (descriptor_context config_id config_version)) (\<lambda>context.
     bindR (crypt (aead_encrypt cp descriptor_key_value (dr_descriptor_nonce dr) descriptor_bytes context))
       (\<lambda>encrypted_recovery_descriptor.
     Inr \<lparr> sb_capsule = \<lparr> cc_protocol_version = PROTOCOL_VERSION,
           cc_crypto_suite = XWingXChaCha20Poly1305Ed25519, cc_config_id = config_id,
           cc_config_version = config_version, cc_signer_count = setup_signer_count policy,
           cc_signer_threshold = setup_signer_threshold policy,
           cc_guardian_count = setup_guardian_count policy,
           cc_guardian_threshold = setup_guardian_threshold policy,
           cc_minimum_recovery_delay = setup_minimum_recovery_delay policy,
           cc_signer_set_commitment = signer_root, cc_owner_cancel_public_key = owner_cancel_public_key,
           cc_guardian_material_commitment = guardian_root,
           cc_encrypted_recovery_descriptor = encrypted_recovery_descriptor,
           cc_max_request_lifetime = 7 * 24 * 60 * 60 \<rparr>,
         sb_card = \<lparr> card_config_id = config_id,
           card_capsule_locators = map (\<lambda>base. trim_end_slashes base @ ''/v1/configs/'' @ hx config_id) capsule_locator_bases,
           card_capsule_locator = None, card_signer_mailboxes = signer_mailboxes, card_relay_bases = relay_bases,
           card_signer_set_commitment = signer_root, card_owner_cancel_public_key = owner_cancel_public_key \<rparr>,
         sb_signers = map (with_membership signer_root) (zip (map snd signers) signer_proofs),
         sb_guardians = guardians,
         sb_owner_cancel_signing_seed = owner_cancel_signing_seed,
         sb_owner_guardian_routes = routes \<rparr>)))))))))))))))))"

section \<open>Checks\<close>

definition validate_capsule :: "RecoveryCard \<Rightarrow> ConfigCapsule \<Rightarrow> (anyhow, unit) result" where
  "validate_capsule rcard capsule =
    (if cc_protocol_version capsule \<noteq> PROTOCOL_VERSION \<or>
        cc_crypto_suite capsule \<noteq> XWingXChaCha20Poly1305Ed25519 \<or>
        cc_config_id capsule \<noteq> card_config_id rcard \<or>
        cc_signer_set_commitment capsule \<noteq> card_signer_set_commitment rcard \<or>
        cc_owner_cancel_public_key capsule \<noteq> card_owner_cancel_public_key rcard \<or>
        cc_signer_count capsule = 0 \<or>
        cc_signer_threshold capsule = 0 \<or>
        cc_signer_threshold capsule > cc_signer_count capsule \<or>
        cc_guardian_count capsule = 0 \<or>
        cc_guardian_threshold capsule = 0 \<or>
        cc_guardian_threshold capsule > cc_guardian_count capsule
     then Inl (Bail ''Config Capsule does not match the Recovery Card or has invalid thresholds'')
     else Inr ())"

definition validate_request_v2 :: "RecoveryRequest \<Rightarrow> ConfigCapsule \<Rightarrow> u64 \<Rightarrow> (anyhow, unit) result" where
  "validate_request_v2 request capsule now =
    (if rq_protocol_version request \<noteq> PROTOCOL_VERSION \<or>
        rq_crypto_suite request \<noteq> cc_crypto_suite capsule \<or>
        rq_config_id request \<noteq> cc_config_id capsule \<or>
        rq_config_version request \<noteq> cc_config_version capsule \<or>
        length (rq_recovery_recipient_key request) \<noteq> XWING_PUBLIC_KEY_LEN \<or>
        rq_requested_at request > now \<or>
        rq_expiry request \<le> now \<or>
        rq_expiry request > saturating_add (rq_requested_at request) (cc_max_request_lifetime capsule)
     then Inl (Bail ''invalid, stale, expired, or recipient-mismatched RecoveryRequest'')
     else Inr ())"

definition validate_membership ::
    "primitives \<Rightarrow> u16 \<Rightarrow> arr32 \<Rightarrow> byte list \<Rightarrow> Id32 \<Rightarrow> u16 \<Rightarrow> (anyhow, unit) result"
where
  "validate_membership cp signer_id public proof root signer_count =
    (if signer_id = 0 \<or> signer_id > signer_count then Inl (Bail ''invalid signer index'') else
     bindR (wire (signer_leaf signer_id public)) (\<lambda>leaf.
     crypt (merkle_verify cp root (sha256 cp leaf) (unat (signer_id - 1)) (unat signer_count) proof)))"

text \<open>The body of the loops over signer contributions.\<close>

definition check_contribution ::
    "primitives \<Rightarrow> RecoveryRequest \<Rightarrow> Id32 \<Rightarrow> u16 \<Rightarrow> SignerContribution \<Rightarrow> (anyhow, unit) result"
where
  "check_contribution cp request root signer_count contribution =
    bindR (validate_membership cp (sc_signer_id contribution) (sc_signer_public_key contribution)
      (sc_signer_membership_proof contribution) root signer_count) (\<lambda>_.
    bindR (wire (signer_approval request (sc_signer_id contribution) (sc_encrypted_a_share contribution))) (\<lambda>t.
    crypt (verify cp (sc_signer_public_key contribution) t (sc_signer_signature contribution))))"

definition validate_begin_for_policy ::
    "primitives \<Rightarrow> BeginRecoveryCertificate \<Rightarrow> GuardianPolicy \<Rightarrow> u64 \<Rightarrow> (anyhow, unit) result"
where
  "validate_begin_for_policy cp certificate policy now =
    (let request = brc_request certificate in
     if rq_protocol_version request \<noteq> PROTOCOL_VERSION \<or>
        rq_config_id request \<noteq> gp_config_id policy \<or>
        rq_config_version request \<noteq> gp_config_version policy \<or>
        length (rq_recovery_recipient_key request) \<noteq> XWING_PUBLIC_KEY_LEN \<or>
        rq_requested_at request > now \<or>
        rq_expiry request \<le> now
     then Inl (Bail ''guardian rejected RecoveryRequest fields'') else
     bindR (each_once sc_signer_id
       (\<lambda>contribution. ensure (sc_request contribution = request)
         ''duplicate or request-mismatched signer contribution'')
       ''duplicate or request-mismatched signer contribution''
       (check_contribution cp request (gp_signer_set_commitment policy) (gp_signer_count policy))
       {} (brc_signer_contributions certificate)) (\<lambda>ids.
     if card ids < unat (gp_signer_threshold policy)
     then Inl (Bail ''signer approval threshold not reached'')
     else Inr ()))"

text \<open>The loop of \<open>reconstruct_a\<close>; the recipient's key pair is named by its seed.\<close>

fun open_a_shares ::
    "primitives \<Rightarrow> RecoveryRequest \<Rightarrow> ConfigCapsule \<Rightarrow> Id32 \<Rightarrow> u16 set \<Rightarrow> SignerContribution list \<Rightarrow>
     (anyhow, byte list list) result"
where
  "open_a_shares cp request capsule recipient ids [] = Inr []"
| "open_a_shares cp request capsule recipient ids (contribution # contributions) =
    (if sc_request contribution \<noteq> request \<or> sc_signer_id contribution \<in> ids
     then Inl (Bail ''duplicate or mismatched signer contribution'') else
     bindR (check_contribution cp request (cc_signer_set_commitment capsule) (cc_signer_count capsule) contribution) (\<lambda>_.
     bindR (wire (recipient_share_context request (sc_signer_id contribution))) (\<lambda>context.
     bindR (crypt (open_sealed cp recipient (sc_encrypted_a_share contribution) context)) (\<lambda>share.
     bindR (open_a_shares cp request capsule recipient (insert (sc_signer_id contribution) ids) contributions)
       (\<lambda>shares. Inr (share # shares))))))"

definition reconstruct_a ::
    "primitives \<Rightarrow> sharing \<Rightarrow> BeginRecoveryCertificate \<Rightarrow> ConfigCapsule \<Rightarrow> Id32 \<Rightarrow> u64 \<Rightarrow> (anyhow, byte list) result"
where
  "reconstruct_a cp sp certificate capsule recipient now =
    bindR (validate_request_v2 (brc_request certificate) capsule now) (\<lambda>_.
    bindR (open_a_shares cp (brc_request certificate) capsule recipient {} (brc_signer_contributions certificate))
      (\<lambda>shares.
    if length shares < unat (cc_signer_threshold capsule)
    then Inl (Bail ''signer threshold not reached'')
    else crypt (recover_secret sp shares (cc_signer_threshold capsule))))"

definition open_descriptor ::
    "primitives \<Rightarrow> descriptor_json \<Rightarrow> ConfigCapsule \<Rightarrow> byte list \<Rightarrow> (anyhow, RecoveryDescriptor) result"
where
  "open_descriptor cp js capsule authorization_key =
    bindR (arr32_try_from ''invalid authorization key'' authorization_key) (\<lambda>authorization.
    bindR (crypt (descriptor_key cp authorization (cc_config_id capsule) (cc_config_version capsule))) (\<lambda>key.
    bindR (wire (descriptor_context (cc_config_id capsule) (cc_config_version capsule))) (\<lambda>context.
    bindR (crypt (aead_decrypt cp key (cc_encrypted_recovery_descriptor capsule) context)) (\<lambda>plaintext.
    bindR (json (descriptor_from_slice js plaintext)) (\<lambda>descriptor.
    if length (rd_guardians descriptor) \<noteq> unat (cc_guardian_count capsule) \<or>
       rd_guardian_material_root descriptor \<noteq> cc_guardian_material_commitment capsule \<or>
       rd_data_shards descriptor \<noteq> cc_guardian_threshold capsule \<or>
       rd_total_shards descriptor \<noteq> cc_guardian_count capsule
    then Inl (Bail ''Recovery Descriptor does not match Config Capsule'')
    else Inr descriptor)))))"

definition request_digest :: "primitives \<Rightarrow> RecoveryRequest \<Rightarrow> (anyhow, Id32) result" where
  "request_digest cp request = bindR (wire (request_digest_preimage request)) (\<lambda>t. Inr (sha256 cp t))"

definition stale_for_policy :: "RecoveryRequest \<Rightarrow> GuardianPolicy \<Rightarrow> u64 \<Rightarrow> bool" where
  "stale_for_policy request policy now \<longleftrightarrow>
     rq_protocol_version request \<noteq> PROTOCOL_VERSION \<or>
     rq_crypto_suite request \<noteq> XWingXChaCha20Poly1305Ed25519 \<or>
     rq_config_id request \<noteq> gp_config_id policy \<or>
     rq_config_version request \<noteq> gp_config_version policy \<or>
     length (rq_recovery_recipient_key request) \<noteq> XWING_PUBLIC_KEY_LEN \<or>
     rq_requested_at request > now \<or>
     rq_expiry request \<le> now"

definition validate_release_for_policy ::
    "primitives \<Rightarrow> ReleaseCertificate \<Rightarrow> GuardianPolicy \<Rightarrow> RecoveryRequest \<Rightarrow> u64 \<Rightarrow> (anyhow, unit) result"
where
  "validate_release_for_policy cp certificate policy request now =
    (if stale_for_policy request policy now then Inl (Bail ''release request is stale or expired'') else
     bindR (wire (request_digest_preimage request)) (\<lambda>preimage.
     let digest = sha256 cp preimage in
     bindR (each_once rv_signer_id
       (\<lambda>vote. ensure (rv_protocol_version vote = PROTOCOL_VERSION \<and>
          rv_config_id vote = rq_config_id request \<and>
          rv_config_version vote = rq_config_version request \<and>
          rv_request_id vote = rq_request_id request \<and>
          rv_request_digest vote = digest \<and>
          rv_recovery_recipient_key vote = rq_recovery_recipient_key request \<and>
          rv_nonce vote = rq_nonce request) ''release vote is not bound to the exact request'')
       ''release vote is not bound to the exact request''
       (\<lambda>vote.
         bindR (validate_membership cp (rv_signer_id vote) (rv_signer_public_key vote)
           (rv_signer_membership_proof vote) (gp_signer_set_commitment policy) (gp_signer_count policy)) (\<lambda>_.
         bindR (wire (release_vote vote)) (\<lambda>t.
         crypt (verify cp (rv_signer_public_key vote) t (rv_signer_signature vote)))))
       {} (rc_votes certificate)) (\<lambda>ids.
     if card ids < unat (gp_signer_threshold policy)
     then Inl (Bail ''release threshold not reached'')
     else Inr ())))"

section \<open>Owner cancellation\<close>

definition make_owner_cancel_certificate ::
    "primitives \<Rightarrow> RecoveryRequest \<Rightarrow> Id32 \<Rightarrow> byte list \<Rightarrow> u16 \<Rightarrow> u64 \<Rightarrow> (anyhow, OwnerCancelCertificate) result"
where
  "make_owner_cancel_certificate cp request owner_cancel_signing_seed cancel_response_recipient_key reason_code issued_at =
    bindR (request_digest cp request) (\<lambda>digest.
    let certificate = \<lparr> occ_protocol_version = PROTOCOL_VERSION, occ_config_id = rq_config_id request,
          occ_config_version = rq_config_version request, occ_request_id = rq_request_id request,
          occ_request_digest = digest, occ_recovery_recipient_key = rq_recovery_recipient_key request,
          occ_cancel_response_recipient_key = cancel_response_recipient_key, occ_reason_code = reason_code,
          occ_nonce = rq_nonce request, occ_issued_at = issued_at,
          occ_owner_cancel_public_key = verifying_key_bytes cp owner_cancel_signing_seed,
          occ_owner_signature = [] \<rparr> in
    bindR (wire (owner_cancel certificate)) (\<lambda>t.
    Inr (certificate \<lparr> occ_owner_signature := sign cp owner_cancel_signing_seed t \<rparr>)))"

text \<open>The operands after the digest are evaluated after it, and the digest only when those before it hold.\<close>

definition validate_owner_cancel_for_policy ::
    "primitives \<Rightarrow> OwnerCancelCertificate \<Rightarrow> GuardianPolicy \<Rightarrow> RecoveryRequest \<Rightarrow> u64 \<Rightarrow> (anyhow, unit) result"
where
  "validate_owner_cancel_for_policy cp certificate policy request now =
    (let err = Inl (Bail ''owner hard-cancel is stale, malformed, or not bound to the exact request'') in
     if stale_for_policy request policy now \<or>
        occ_protocol_version certificate \<noteq> PROTOCOL_VERSION \<or>
        occ_config_id certificate \<noteq> rq_config_id request \<or>
        occ_config_version certificate \<noteq> rq_config_version request \<or>
        occ_request_id certificate \<noteq> rq_request_id request
     then err else
     bindR (request_digest cp request) (\<lambda>digest.
     if occ_request_digest certificate \<noteq> digest \<or>
        occ_recovery_recipient_key certificate \<noteq> rq_recovery_recipient_key request \<or>
        length (occ_cancel_response_recipient_key certificate) \<noteq> XWING_PUBLIC_KEY_LEN \<or>
        occ_nonce certificate \<noteq> rq_nonce request \<or>
        occ_issued_at certificate < rq_requested_at request \<or>
        occ_issued_at certificate > now \<or>
        occ_issued_at certificate \<ge> rq_expiry request \<or>
        occ_owner_cancel_public_key certificate \<noteq> gp_owner_cancel_public_key policy
     then err else
     bindR (wire (owner_cancel certificate)) (\<lambda>t.
     crypt (verify cp (gp_owner_cancel_public_key policy) t (occ_owner_signature certificate)))))"

definition validate_owner_cancel_ack ::
    "primitives \<Rightarrow> OwnerCancelAck \<Rightarrow> OwnerCancelCertificate \<Rightarrow> RecoveryRequest \<Rightarrow> GuardianRoute \<Rightarrow> (anyhow, unit) result"
where
  "validate_owner_cancel_ack cp ack certificate request route =
    (let err = Inl (Bail ''owner hard-cancel acknowledgement is not bound to the exact request'') in
     if oca_protocol_version ack \<noteq> PROTOCOL_VERSION \<or>
        oca_config_id ack \<noteq> rq_config_id request \<or>
        oca_config_version ack \<noteq> rq_config_version request \<or>
        oca_request_id ack \<noteq> rq_request_id request
     then err else
     bindR (request_digest cp request) (\<lambda>digest.
     if oca_request_digest ack \<noteq> digest then err else
     bindR (wire (owner_cancel certificate)) (\<lambda>c.
     if oca_owner_cancel_transcript_digest ack \<noteq> sha256 cp c \<or>
        oca_guardian_index ack \<noteq> gr_guardian_index route
     then err else
     bindR (wire (owner_cancel_ack ack)) (\<lambda>t.
     crypt (verify cp (gr_guardian_public_key route) t (oca_guardian_signature ack))))))"

section \<open>Guardian contributions\<close>

text \<open>\<open>guardian_index - 1\<close> wraps at zero, as the release build does.\<close>

definition validate_guardian_contribution ::
    "primitives \<Rightarrow> GuardianContribution \<Rightarrow> GuardianRoute \<Rightarrow> RecoveryDescriptor \<Rightarrow> RecoveryRequest \<Rightarrow> byte list \<Rightarrow>
     (anyhow, byte list) result"
where
  "validate_guardian_contribution cp contribution route descriptor request authorization_key =
    bindR (wire (request_digest_preimage request)) (\<lambda>preimage.
    let digest = sha256 cp preimage in
    if gc_protocol_version contribution \<noteq> PROTOCOL_VERSION \<or>
       gc_config_id contribution \<noteq> rq_config_id request \<or>
       gc_config_version contribution \<noteq> rq_config_version request \<or>
       gc_request_id contribution \<noteq> rq_request_id request \<or>
       gc_request_digest contribution \<noteq> digest \<or>
       gc_guardian_index contribution \<noteq> gr_guardian_index route
    then Inl (Bail ''guardian contribution is not bound to the exact request'') else
    bindR (wire (guardian_contribution contribution)) (\<lambda>t.
    bindR (crypt (verify cp (gr_guardian_public_key route) t (gc_guardian_signature contribution))) (\<lambda>_.
    bindR (wire (guardian_leaf (gc_config_id contribution) (gc_config_version contribution)
      (gc_guardian_index contribution) (sha256 cp (gc_ciphertext_fragment contribution))
      (hash_aead cp (gc_encrypted_dek_share contribution)))) (\<lambda>leaf.
    bindR (crypt (merkle_verify cp (rd_guardian_material_root descriptor) (sha256 cp leaf)
      (unat (gc_guardian_index contribution - 1)) (unat (rd_total_shards descriptor))
      (gc_merkle_path_proof contribution))) (\<lambda>_.
    bindR (arr32_try_from ''invalid authorization key'' authorization_key) (\<lambda>authorization.
    bindR (crypt (guardian_share_key cp authorization (gc_config_id contribution) (gc_config_version contribution)
      (gc_guardian_index contribution))) (\<lambda>key.
    bindR (wire (guardian_share_context (gc_config_id contribution) (gc_config_version contribution)
      (gc_guardian_index contribution))) (\<lambda>context.
    crypt (aead_decrypt cp key (gc_encrypted_dek_share contribution) context)))))))))"

text \<open>A \<open>u64\<close> fits a \<open>usize\<close> on the 64-bit targets.\<close>

definition reconstruct_payload ::
    "primitives \<Rightarrow> sharing \<Rightarrow> ConfigCapsule \<Rightarrow> RecoveryDescriptor \<Rightarrow> (u16 \<times> byte list) list \<Rightarrow> byte list list \<Rightarrow>
     (anyhow, byte list) result"
where
  "reconstruct_payload cp sp capsule descriptor fragments dek_shares =
    bindR (crypt (recover_secret sp dek_shares (cc_guardian_threshold capsule))) (\<lambda>dek.
    bindR (crypt (erasure_reconstruct sp fragments (rd_data_shards descriptor) (rd_total_shards descriptor)
      (unat (rd_ciphertext_len descriptor)))) (\<lambda>ciphertext.
    bindR (arr32_try_from ''invalid DEK'' dek) (\<lambda>dek_key.
    bindR (wire (payload_context (cc_config_id capsule) (cc_config_version capsule))) (\<lambda>context.
    crypt (aead_decrypt cp dek_key \<lparr> ac_nonce = rd_payload_nonce descriptor, ac_ciphertext = ciphertext \<rparr> context)))))"

definition sign_guardian_contribution ::
    "primitives \<Rightarrow> GuardianContribution \<Rightarrow> Id32 \<Rightarrow> (anyhow, GuardianContribution) result"
where
  "sign_guardian_contribution cp contribution signing_seed =
    bindR (wire (guardian_contribution contribution)) (\<lambda>t.
    Inr (contribution \<lparr> gc_guardian_signature := sign cp signing_seed t \<rparr>))"

section \<open>What the signature package promises\<close>

text \<open>A signature of a key verifies under the public half of that key.\<close>

definition signatures_correct :: "primitives \<Rightarrow> bool" where
  "signatures_correct cp \<longleftrightarrow> (\<forall>seed t. verify cp (verifying_key_bytes cp seed) t (sign cp seed t) = Inr ())"

end
