(* ===== verification/GP_Node_V2.thy ===== *)
theory GP_Node_V2
  imports GP_Protocol_V2 GP_Witness_Service GP_Core
begin

text \<open>
  The protocol-2 signer and guardian services of \<open>gp-network/src/server.rs\<close> over the state of
  \<open>types.rs\<close>: provisioning and the mailboxes. As in the witness service, a call carries the clock
  readings, the outcome of its save and the random seeds and nonces it draws; entries in memory and
  in the state file are kept apart; a handler that fails after a change keeps the change in memory.
\<close>

section \<open>State and messages\<close>

record SealedMailboxBody =
  smb_sealed :: SealedMessage

datatype MailboxRequest =
    SignerApprove RecoveryRequest
  | SignerRelease RecoveryRequest
  | GuardianBegin BeginRecoveryCertificate
  | GuardianCancel RecoveryRequest OwnerCancelCertificate
  | GuardianRelease RecoveryRequest ReleaseCertificate

fun mailbox_request :: "MailboxRequest \<Rightarrow> RecoveryRequest" where
  "mailbox_request (SignerApprove request) = request"
| "mailbox_request (SignerRelease request) = request"
| "mailbox_request (GuardianCancel request _) = request"
| "mailbox_request (GuardianRelease request _) = request"
| "mailbox_request (GuardianBegin certificate) = brc_request certificate"

datatype MailboxResponse =
    SignerContributed SignerContribution
  | ReleaseVoted ReleaseVote
  | BeginAccepted u64
  | CancellationAccepted OwnerCancelAck
  | ReleaseRefused string
  | GuardianContributed GuardianContribution

datatype ProvisionPayload =
    Signer SignerState
  | Guardian GuardianProvision

record mailbox_json =
  request_from_slice :: "byte list \<Rightarrow> MailboxRequest option"
  response_to_vec :: "MailboxResponse \<Rightarrow> byte list option"
  provision_from_slice :: "byte list \<Rightarrow> ProvisionPayload option"

record PendingNetworkRecovery =
  pnr_request :: RecoveryRequest
  pnr_request_digest :: Id32
  pnr_accepted_wall_time :: u64
  pnr_started_monotonic :: u64
  pnr_not_before_monotonic :: u64
  pnr_boot_id :: string

record GuardianEntry =
  gne_provision :: GuardianProvision
  gne_pending :: "(string, PendingNetworkRecovery) btree_map"
  gne_cancelled :: "(string, Id32) btree_map"
  gne_released :: "(string, Id32) btree_map"
  gne_seen_nonces :: "Id32 set"

definition GuardianEntry_new :: "GuardianProvision \<Rightarrow> GuardianEntry" where
  "GuardianEntry_new provision = \<lparr> gne_provision = provision, gne_pending = [], gne_cancelled = [],
     gne_released = [], gne_seen_nonces = {} \<rparr>"

record SignerDisk =
  sdk_entries :: "(string, SignerState) btree_map"
  sdk_last_approval_at :: "(string, u64) btree_map"

record SignerServerState =
  sgs_identity :: IdentityDisk
  sgs_auto_approve :: bool
  sgs_admin_token :: string
  sgs_data :: SignerDisk
  sgs_file :: SignerDisk

record GuardianServerState =
  gus_identity :: IdentityDisk
  gus_allow_insecure_demo_delay :: bool
  gus_corrupt_contribution :: bool
  gus_admin_token :: string
  gus_data :: "(string, GuardianEntry) btree_map"
  gus_file :: "(string, GuardianEntry) btree_map"

text \<open>A save: the result and the contents of the state file afterwards.\<close>

definition save_file :: "save_outcome \<Rightarrow> 'd \<Rightarrow> 'd \<Rightarrow> (ApiError, unit) result \<times> 'd" where
  "save_file outcome data file =
    (case outcome of
       Saved \<Rightarrow> (Inr (), data)
     | FailedBeforeRename \<Rightarrow> (Inl (bad_request OfSave), file)
     | FailedAfterRename \<Rightarrow> (Inl (bad_request OfSave), data))"

abbreviation protocol_error :: "(anyhow, 'a) result \<Rightarrow> (ApiError, 'a) result" where
  "protocol_error r \<equiv> map_err OfProtocol r"

section \<open>Envelopes\<close>

definition open_mailbox_request ::
    "primitives \<Rightarrow> mailbox_json \<Rightarrow> IdentityDisk \<Rightarrow> string \<Rightarrow> SealedMailboxBody \<Rightarrow> (anyhow, MailboxRequest) result"
where
  "open_mailbox_request cp mj identity mailbox body =
    bindR (wire (mailbox_transport_context mailbox ''request'')) (\<lambda>context.
    bindR (crypt (open_sealed cp (idk_kem_seed identity) (smb_sealed body) context)) (\<lambda>plaintext.
    json (request_from_slice mj plaintext)))"

definition seal_mailbox_response ::
    "primitives \<Rightarrow> mailbox_json \<Rightarrow> Id32 \<Rightarrow> arr24 \<Rightarrow> string \<Rightarrow> byte list \<Rightarrow> MailboxResponse \<Rightarrow>
     (anyhow, SealedMailboxBody) result"
where
  "seal_mailbox_response cp mj kem_seed nonce mailbox response_recipient_key response =
    bindR (json (response_to_vec mj response)) (\<lambda>bytes.
    bindR (wire (mailbox_transport_context mailbox ''response'')) (\<lambda>context.
    bindR (crypt (seal_to_recipient cp response_recipient_key kem_seed nonce bytes context)) (\<lambda>sealed.
    Inr \<lparr> smb_sealed = sealed \<rparr>)))"

definition open_provision ::
    "primitives \<Rightarrow> mailbox_json \<Rightarrow> IdentityDisk \<Rightarrow> string \<Rightarrow> SealedMessage \<Rightarrow> (anyhow, ProvisionPayload) result"
where
  "open_provision cp mj identity role sealed =
    bindR (wire (node_provision_context (idk_node_id identity) role)) (\<lambda>context.
    bindR (crypt (open_sealed cp (idk_kem_seed identity) sealed context)) (\<lambda>plaintext.
    json (provision_from_slice mj plaintext)))"

definition mailbox_id :: "string \<Rightarrow> (anyhow, string) result" where
  "mailbox_id mailbox_url =
    (let value = rev (takeWhile (\<lambda>c. c \<noteq> CHR ''/'') (rev (trim_end_slashes mailbox_url))) in
     if length value \<ge> 32 then Inr value else Inl (Bail ''invalid opaque mailbox URL''))"

section \<open>Signer\<close>

definition validate_signer_request :: "SignerState \<Rightarrow> RecoveryRequest \<Rightarrow> u64 \<Rightarrow> (anyhow, unit) result" where
  "validate_signer_request signer request now =
    (if rq_protocol_version request \<noteq> PROTOCOL_VERSION \<or>
        rq_config_id request \<noteq> sp_config_id (ss_policy signer) \<or>
        rq_config_version request \<noteq> sp_config_version (ss_policy signer) \<or>
        length (rq_recovery_recipient_key request) \<noteq> XWING_PUBLIC_KEY_LEN \<or>
        rq_requested_at request > now \<or>
        rq_expiry request \<le> now
     then Inl (Bail ''signer rejected stale, expired, or malformed RecoveryRequest'')
     else Inr ())"

definition signer_contribution ::
    "primitives \<Rightarrow> Id32 \<Rightarrow> arr24 \<Rightarrow> RecoveryRequest \<Rightarrow> SignerState \<Rightarrow> (anyhow, SignerContribution) result"
where
  "signer_contribution cp kem_seed nonce request signer =
    bindR (wire (recipient_share_context request (ss_signer_id signer))) (\<lambda>context.
    bindR (crypt (seal_to_recipient cp (rq_recovery_recipient_key request) kem_seed nonce
      (ss_authorization_share signer) context)) (\<lambda>encrypted_a_share.
    bindR (wire (signer_approval request (ss_signer_id signer) encrypted_a_share)) (\<lambda>t.
    Inr \<lparr> sc_request = request, sc_signer_id = ss_signer_id signer,
      sc_signer_public_key = ss_signing_public_key signer,
      sc_signer_signature = sign cp (ss_signing_seed signer) t,
      sc_signer_membership_proof = ss_membership_proof signer,
      sc_encrypted_a_share = encrypted_a_share \<rparr>)))"

definition signer_release_vote :: "primitives \<Rightarrow> RecoveryRequest \<Rightarrow> Id32 \<Rightarrow> SignerState \<Rightarrow> (anyhow, ReleaseVote) result" where
  "signer_release_vote cp request digest signer =
    (let vote = \<lparr> rv_protocol_version = PROTOCOL_VERSION, rv_config_id = rq_config_id request,
           rv_config_version = rq_config_version request, rv_request_id = rq_request_id request,
           rv_request_digest = digest, rv_recovery_recipient_key = rq_recovery_recipient_key request,
           rv_nonce = rq_nonce request, rv_signer_id = ss_signer_id signer,
           rv_signer_public_key = ss_signing_public_key signer,
           rv_signer_membership_proof = ss_membership_proof signer, rv_signer_signature = [] \<rparr> in
     bindR (wire (release_vote vote)) (\<lambda>t.
     Inr (vote \<lparr> rv_signer_signature := sign cp (ss_signing_seed signer) t \<rparr>)))"

text \<open>The match of \<open>signer_mailbox\<close> on the request, over the entry of the mailbox.\<close>

definition handle_signer ::
    "primitives \<Rightarrow> (Id32 \<Rightarrow> string) \<Rightarrow> Id32 \<Rightarrow> arr24 \<Rightarrow> MailboxRequest \<Rightarrow> Id32 \<Rightarrow> SignerState \<Rightarrow>
     (ApiError, MailboxResponse) result \<times> SignerState"
where
  "handle_signer cp hx kem_seed nonce action digest signer =
    (case action of
       SignerApprove request \<Rightarrow>
         (case observe_request hx (rq_config_id request) (rq_config_version request) (rq_request_id request)
             (rq_nonce request) digest signer of
            (Inl e, signer) \<Rightarrow> (Inl (bad_request (OfStorage e)), signer)
          | (Inr _, signer) \<Rightarrow>
            attempt (protocol_error (signer_contribution cp kem_seed nonce request signer)) signer
              (\<lambda>contribution. (Inr (SignerContributed contribution), signer)))
     | SignerRelease request \<Rightarrow>
         (if bt_get (ss_seen_requests signer) (hx (rq_request_id request)) \<noteq> Some digest
          then (Inl (bad_request (Text ''signer never approved this exact request'')), signer) else
          attempt (protocol_error (signer_release_vote cp request digest signer)) signer
            (\<lambda>vote. (Inr (ReleaseVoted vote), signer)))
     | _ \<Rightarrow> (Inl (bad_request (Text ''request is not valid for a signer'')), signer))"

fun is_approve :: "MailboxRequest \<Rightarrow> bool" where
  "is_approve (SignerApprove _) = True"
| "is_approve _ = False"

definition signer_mailbox ::
    "primitives \<Rightarrow> mailbox_json \<Rightarrow> (Id32 \<Rightarrow> string) \<Rightarrow> save_outcome \<Rightarrow> u64 option \<Rightarrow> Id32 \<times> arr24 \<Rightarrow> Id32 \<times> arr24 \<Rightarrow>
     string \<Rightarrow> SealedMailboxBody \<Rightarrow> SignerServerState \<Rightarrow> (ApiError, SealedMailboxBody) result \<times> SignerServerState"
where
  "signer_mailbox cp mj hx outcome wall_now share_draw reply_draw mailbox body self =
    (if \<not> sgs_auto_approve self
     then (Inl (forbidden ''automatic social approval is disabled on this signer''), self) else
     attempt (protocol_error (open_mailbox_request cp mj (sgs_identity self) mailbox body)) self (\<lambda>action.
     let request = mailbox_request action in
     attempt (ok_or wall_now (bad_request OfClock)) self (\<lambda>now.
     attempt (ok_or (bt_get (sdk_entries (sgs_data self)) mailbox)
       (not_found ''signer mailbox is not provisioned'')) self (\<lambda>signer.
     attempt (protocol_error (validate_signer_request signer request now)) self (\<lambda>_.
     if is_approve action \<and> (case bt_get (sdk_last_approval_at (sgs_data self)) mailbox of
          Some previous \<Rightarrow> now < saturating_add previous 1 | None \<Rightarrow> False)
     then (Inl (rate_limited ''signer mailbox accepts at most one approval request per second''), self) else
     let self = (if is_approve action then self \<lparr> sgs_data := (sgs_data self) \<lparr> sdk_last_approval_at :=
           bt_insert mailbox now (sdk_last_approval_at (sgs_data self)) \<rparr> \<rparr> else self) in
     attempt (protocol_error (request_digest cp request)) self (\<lambda>digest.
     case handle_signer cp hx (fst share_draw) (snd share_draw) action digest signer of (reply, signer) \<Rightarrow>
     (let self = self \<lparr> sgs_data := (sgs_data self) \<lparr> sdk_entries :=
           bt_insert mailbox signer (sdk_entries (sgs_data self)) \<rparr> \<rparr> in
      attempt reply self (\<lambda>response.
      case save_file outcome (sgs_data self) (sgs_file self) of (saved, file) \<Rightarrow>
      (let self = self \<lparr> sgs_file := file \<rparr> in
       attempt saved self (\<lambda>_.
       (protocol_error (seal_mailbox_response cp mj (fst reply_draw) (snd reply_draw) mailbox
          (rq_recovery_recipient_key request) response), self)))))))))))"

definition signer_provision ::
    "primitives \<Rightarrow> mailbox_json \<Rightarrow> save_outcome \<Rightarrow> string option \<Rightarrow> SealedMailboxBody \<Rightarrow> SignerServerState \<Rightarrow>
     (ApiError, ProvisionAck) result \<times> SignerServerState"
where
  "signer_provision cp mj outcome authorization body self =
    (if sgs_admin_token self = [] \<or> bearer authorization \<noteq> Some (sgs_admin_token self)
     then (Inl (forbidden ''invalid node provisioning token''), self) else
     attempt (protocol_error (open_provision cp mj (sgs_identity self) ''signer'' (smb_sealed body))) self (\<lambda>payload.
     case payload of
       Guardian _ \<Rightarrow> (Inl (bad_request (Text ''wrong provisioning role'')), self)
     | Signer signer \<Rightarrow>
       attempt (protocol_error (mailbox_id (ss_mailbox signer))) self (\<lambda>mailbox.
       if bt_contains_key (sdk_entries (sgs_data self)) mailbox
       then (Inl (bad_request (Text ''signer mailbox is already provisioned'')), self) else
       let self = self \<lparr> sgs_data := (sgs_data self) \<lparr> sdk_entries :=
             bt_insert mailbox signer (sdk_entries (sgs_data self)) \<rparr> \<rparr> in
       case save_file outcome (sgs_data self) (sgs_file self) of (saved, file) \<Rightarrow>
       (let self = self \<lparr> sgs_file := file \<rparr> in
        attempt saved self (\<lambda>_. (Inr \<lparr> pack_mailbox = mailbox, pack_stored = True \<rparr>, self))))))"

section \<open>Guardian\<close>

abbreviation entry_policy :: "GuardianEntry \<Rightarrow> GuardianPolicy" where
  "entry_policy entry \<equiv> grec_policy (gpv_record (gne_provision entry))"

definition guardian_begin ::
    "primitives \<Rightarrow> (Id32 \<Rightarrow> string) \<Rightarrow> u64 \<Rightarrow> u64 \<Rightarrow> string \<Rightarrow> BeginRecoveryCertificate \<Rightarrow> Id32 \<Rightarrow> GuardianEntry \<Rightarrow>
     (ApiError, MailboxResponse) result \<times> GuardianEntry"
where
  "guardian_begin cp hx wall monotonic current_boot certificate digest entry =
    (let request = brc_request certificate; policy = entry_policy entry; key = hx (rq_request_id request) in
     attempt (protocol_error (validate_begin_for_policy cp certificate policy wall)) entry (\<lambda>_.
     if bt_get (gne_cancelled entry) key = Some digest
     then (Inl (bad_request (Text ''request was permanently cancelled'')), entry) else
     if bt_contains_key (gne_pending entry) key \<or> rq_nonce request \<in> gne_seen_nonces entry
     then (Inl (bad_request (Text ''replayed request id or nonce'')), entry) else
     let entry = entry \<lparr> gne_seen_nonces := insert (rq_nonce request) (gne_seen_nonces entry) \<rparr> in
     case begin_at request digest wall monotonic (gp_minimum_recovery_delay policy) True
         (GuardianMachine_new (gp_config_id policy) (gp_config_version policy)) of
       (Inl e, _) \<Rightarrow> (Inl (bad_request (OfCore e)), entry)
     | (Inr not_before, _) \<Rightarrow>
         (Inr (BeginAccepted not_before),
          entry \<lparr> gne_pending := bt_insert key \<lparr> pnr_request = request, pnr_request_digest = digest,
            pnr_accepted_wall_time = wall, pnr_started_monotonic = monotonic,
            pnr_not_before_monotonic = not_before, pnr_boot_id = current_boot \<rparr> (gne_pending entry) \<rparr>)))"

definition guardian_cancel ::
    "primitives \<Rightarrow> (Id32 \<Rightarrow> string) \<Rightarrow> u64 \<Rightarrow> RecoveryRequest \<Rightarrow> OwnerCancelCertificate \<Rightarrow> Id32 \<Rightarrow> GuardianEntry \<Rightarrow>
     (ApiError, MailboxResponse) result \<times> GuardianEntry"
where
  "guardian_cancel cp hx wall request certificate digest entry =
    (let policy = entry_policy entry; key = hx (rq_request_id request) in
     attempt (protocol_error (validate_owner_cancel_for_policy cp certificate policy request wall)) entry (\<lambda>_.
     if bt_get (gne_released entry) key = Some digest
     then (Inl (bad_request (Text ''guardian already released material for this request'')), entry) else
     if (case bt_get (gne_cancelled entry) key of Some stored \<Rightarrow> stored \<noteq> digest | None \<Rightarrow> False)
     then (Inl (bad_request (Text ''cancellation digest conflict'')), entry) else
     let entry = entry \<lparr> gne_cancelled := bt_insert key digest (gne_cancelled entry) \<rparr> in
     attempt (protocol_error (wire (owner_cancel certificate))) entry (\<lambda>c.
     let ack = \<lparr> oca_protocol_version = PROTOCOL_VERSION, oca_config_id = rq_config_id request,
           oca_config_version = rq_config_version request, oca_request_id = rq_request_id request,
           oca_request_digest = digest, oca_owner_cancel_transcript_digest = sha256 cp c,
           oca_guardian_index = grec_guardian_index (gpv_record (gne_provision entry)),
           oca_guardian_signature = [] \<rparr> in
     attempt (protocol_error (wire (owner_cancel_ack ack))) entry (\<lambda>t.
     (Inr (CancellationAccepted (ack \<lparr> oca_guardian_signature :=
        sign cp (gpv_signing_seed (gne_provision entry)) t \<rparr>)), entry)))))"

definition flip_first :: "byte list \<Rightarrow> byte list" where
  "flip_first bytes = (case bytes of [] \<Rightarrow> [] | byte # rest \<Rightarrow> Bit_Operations.xor byte 1 # rest)"

definition guardian_material ::
    "primitives \<Rightarrow> bool \<Rightarrow> RecoveryRequest \<Rightarrow> Id32 \<Rightarrow> GuardianProvision \<Rightarrow> (anyhow, GuardianContribution) result"
where
  "guardian_material cp corrupt_contribution request digest provision =
    (let rec = gpv_record provision in
     sign_guardian_contribution cp \<lparr> gc_protocol_version = PROTOCOL_VERSION, gc_config_id = rq_config_id request,
       gc_config_version = rq_config_version request, gc_request_id = rq_request_id request,
       gc_request_digest = digest, gc_guardian_index = grec_guardian_index rec,
       gc_ciphertext_fragment = (if corrupt_contribution then flip_first (grec_ciphertext_fragment rec)
         else grec_ciphertext_fragment rec),
       gc_encrypted_dek_share = grec_encrypted_dek_share rec,
       gc_merkle_path_proof = grec_merkle_path_proof rec, gc_guardian_signature = [] \<rparr> (gpv_signing_seed provision))"

text \<open>The machine that decides on a release is rebuilt from the pending record.\<close>

definition guardian_release ::
    "primitives \<Rightarrow> (Id32 \<Rightarrow> string) \<Rightarrow> bool \<Rightarrow> u64 \<Rightarrow> u64 \<Rightarrow> string \<Rightarrow> RecoveryRequest \<Rightarrow> ReleaseCertificate \<Rightarrow> Id32 \<Rightarrow>
     GuardianEntry \<Rightarrow> (ApiError, MailboxResponse) result \<times> GuardianEntry"
where
  "guardian_release cp hx corrupt_contribution wall monotonic current_boot request certificate digest entry =
    (let policy = entry_policy entry; key = hx (rq_request_id request) in
     attempt (protocol_error (validate_release_for_policy cp certificate policy request wall)) entry (\<lambda>_.
     attempt (ok_or (bt_get (gne_pending entry) key) (bad_request (Text ''Begin was not observed''))) entry (\<lambda>pending.
     if pnr_boot_id pending \<noteq> current_boot
     then (Inl (bad_request (Text ''guardian rebooted during delay and fails closed'')), entry) else
     case begin_at (pnr_request pending) (pnr_request_digest pending) (pnr_accepted_wall_time pending)
         (pnr_started_monotonic pending) (gp_minimum_recovery_delay policy) True
         (GuardianMachine_new (gp_config_id policy) (gp_config_version policy)) of
       (Inl e, _) \<Rightarrow> (Inl (bad_request (OfCore e)), entry)
     | (Inr _, machine) \<Rightarrow>
     (case authorize_release_at (rq_request_id request) digest wall monotonic True True machine of
       (Inl e, _) \<Rightarrow> (Inl (bad_request (OfCore e)), entry)
     | (Inr _, _) \<Rightarrow>
       attempt (protocol_error (guardian_material cp corrupt_contribution request digest (gne_provision entry))) entry
         (\<lambda>contribution. (Inr (GuardianContributed contribution),
           entry \<lparr> gne_released := bt_insert key digest (gne_released entry) \<rparr>))))))"

text \<open>The match of \<open>guardian_mailbox\<close> on the request, over the entry of the mailbox.\<close>

definition handle_guardian ::
    "primitives \<Rightarrow> (Id32 \<Rightarrow> string) \<Rightarrow> bool \<Rightarrow> u64 \<Rightarrow> u64 \<Rightarrow> string \<Rightarrow> MailboxRequest \<Rightarrow> Id32 \<Rightarrow> GuardianEntry \<Rightarrow>
     (ApiError, MailboxResponse) result \<times> GuardianEntry"
where
  "handle_guardian cp hx corrupt_contribution wall monotonic current_boot action digest entry =
    (case action of
       GuardianRelease request certificate \<Rightarrow>
         (if bt_get (gne_cancelled entry) (hx (rq_request_id request)) = Some digest
          then (Inr (ReleaseRefused ''cancelled''), entry)
          else guardian_release cp hx corrupt_contribution wall monotonic current_boot request certificate digest entry)
     | GuardianBegin certificate \<Rightarrow> guardian_begin cp hx wall monotonic current_boot certificate digest entry
     | GuardianCancel request certificate \<Rightarrow> guardian_cancel cp hx wall request certificate digest entry
     | _ \<Rightarrow> (Inl (bad_request (Text ''request is not valid for a guardian'')), entry))"

definition guardian_mailbox ::
    "primitives \<Rightarrow> mailbox_json \<Rightarrow> (Id32 \<Rightarrow> string) \<Rightarrow> save_outcome \<Rightarrow> u64 option \<Rightarrow> u64 option \<Rightarrow> string \<Rightarrow> Id32 \<times> arr24 \<Rightarrow>
     string \<Rightarrow> SealedMailboxBody \<Rightarrow> GuardianServerState \<Rightarrow> (ApiError, SealedMailboxBody) result \<times> GuardianServerState"
where
  "guardian_mailbox cp mj hx outcome wall_now monotonic_now current_boot reply_draw mailbox body self =
    attempt (protocol_error (open_mailbox_request cp mj (gus_identity self) mailbox body)) self (\<lambda>action.
    let request = mailbox_request action;
        response_recipient_key = (case action of
            GuardianCancel _ certificate \<Rightarrow> occ_cancel_response_recipient_key certificate
          | _ \<Rightarrow> rq_recovery_recipient_key request) in
    attempt (ok_or wall_now (bad_request OfClock)) self (\<lambda>wall.
    attempt (ok_or monotonic_now (bad_request OfClock)) self (\<lambda>monotonic.
    attempt (protocol_error (request_digest cp request)) self (\<lambda>digest.
    attempt (ok_or (bt_get (gus_data self) mailbox) (not_found ''guardian mailbox is not provisioned'')) self (\<lambda>entry.
    case handle_guardian cp hx (gus_corrupt_contribution self) wall monotonic current_boot action digest entry of (reply, entry) \<Rightarrow>
    (let self = self \<lparr> gus_data := bt_insert mailbox entry (gus_data self) \<rparr> in
     attempt reply self (\<lambda>response.
     case save_file outcome (gus_data self) (gus_file self) of (saved, file) \<Rightarrow>
     (let self = self \<lparr> gus_file := file \<rparr> in
      attempt saved self (\<lambda>_.
      (protocol_error (seal_mailbox_response cp mj (fst reply_draw) (snd reply_draw) mailbox
         response_recipient_key response), self)))))))))) "

definition guardian_provision_request ::
    "primitives \<Rightarrow> mailbox_json \<Rightarrow> save_outcome \<Rightarrow> string option \<Rightarrow> SealedMailboxBody \<Rightarrow> GuardianServerState \<Rightarrow>
     (ApiError, ProvisionAck) result \<times> GuardianServerState"
where
  "guardian_provision_request cp mj outcome authorization body self =
    (if gus_admin_token self = [] \<or> bearer authorization \<noteq> Some (gus_admin_token self)
     then (Inl (forbidden ''invalid node provisioning token''), self) else
     attempt (protocol_error (open_provision cp mj (gus_identity self) ''guardian'' (smb_sealed body))) self (\<lambda>payload.
     case payload of
       Signer _ \<Rightarrow> (Inl (bad_request (Text ''wrong provisioning role'')), self)
     | Guardian provision \<Rightarrow>
       (if gp_minimum_recovery_delay (grec_policy (gpv_record provision)) < PRODUCTION_MIN_DELAY_SECS \<and>
           \<not> gus_allow_insecure_demo_delay self
        then (Inl (forbidden ''guardian refuses a delay below 24 hours outside explicit demo mode''), self) else
        attempt (protocol_error (mailbox_id (gpv_mailbox provision))) self (\<lambda>mailbox.
        if bt_contains_key (gus_data self) mailbox
        then (Inl (bad_request (Text ''guardian mailbox is already provisioned'')), self) else
        let self = self \<lparr> gus_data := bt_insert mailbox (GuardianEntry_new provision) (gus_data self) \<rparr> in
        case save_file outcome (gus_data self) (gus_file self) of (saved, file) \<Rightarrow>
        (let self = self \<lparr> gus_file := file \<rparr> in
         attempt saved self (\<lambda>_. (Inr \<lparr> pack_mailbox = mailbox, pack_stored = True \<rparr>, self)))))))"

end
