(* ===== verification/GP_Node_Safety.thy ===== *)
theory GP_Node_Safety
  imports GP_Node_V2
begin

text \<open>
  What the protocol-2 guardian promises over any sequence of requests to one mailbox: material
  leaves only after an accepted begin certificate, its delay and a release certificate, and a
  cancelled request is never released. The last section shows how far a cancellation reaches.
\<close>

section \<open>Certificates\<close>

text \<open>The signer approvals and release votes a guardian accepts.\<close>

definition vote_for :: "RecoveryRequest \<Rightarrow> Id32 \<Rightarrow> ReleaseVote \<Rightarrow> bool" where
  "vote_for request digest vote \<longleftrightarrow> rv_protocol_version vote = PROTOCOL_VERSION \<and>
     rv_config_id vote = rq_config_id request \<and> rv_config_version vote = rq_config_version request \<and>
     rv_request_id vote = rq_request_id request \<and> rv_request_digest vote = digest \<and>
     rv_recovery_recipient_key vote = rq_recovery_recipient_key request \<and> rv_nonce vote = rq_nonce request"

definition vote_signed :: "primitives \<Rightarrow> GuardianPolicy \<Rightarrow> ReleaseVote \<Rightarrow> bool" where
  "vote_signed cp policy vote \<longleftrightarrow>
     validate_membership cp (rv_signer_id vote) (rv_signer_public_key vote) (rv_signer_membership_proof vote)
       (gp_signer_set_commitment policy) (gp_signer_count policy) = Inr () \<and>
     (\<exists>t. release_vote vote = Inr t \<and> verify cp (rv_signer_public_key vote) t (rv_signer_signature vote) = Inr ())"

text \<open>The begin check accepts exactly the certificates of sufficiently many different signers that approve
  this request, with the fields of the request, membership and signatures valid.\<close>

theorem begin_certificate_exact:
  "validate_begin_for_policy cp certificate policy now = Inr () \<longleftrightarrow>
     (let request = brc_request certificate; cs = brc_signer_contributions certificate in
      rq_protocol_version request = PROTOCOL_VERSION \<and> rq_config_id request = gp_config_id policy \<and>
      rq_config_version request = gp_config_version policy \<and>
      length (rq_recovery_recipient_key request) = XWING_PUBLIC_KEY_LEN \<and>
      rq_requested_at request \<le> now \<and> now < rq_expiry request \<and>
      distinct (map sc_signer_id cs) \<and> unat (gp_signer_threshold policy) \<le> length cs \<and>
      (\<forall>c \<in> set cs. sc_request c = request \<and>
         check_contribution cp request (gp_signer_set_commitment policy) (gp_signer_count policy) c = Inr ()))"
  by (auto simp: validate_begin_for_policy_def Let_def each_once_ok not_less not_le distinct_card [of "map sc_signer_id _", simplified])

text \<open>The release check accepts exactly the certificates of sufficiently many different signers whose votes
  name this request and its digest, with membership and signature valid.\<close>

theorem release_certificate_exact:
  "validate_release_for_policy cp certificate policy request now = Inr () \<longleftrightarrow>
     \<not> stale_for_policy request policy now \<and> distinct (map rv_signer_id (rc_votes certificate)) \<and>
     unat (gp_signer_threshold policy) \<le> length (rc_votes certificate) \<and>
     (\<exists>digest. request_digest cp request = Inr digest \<and>
        (\<forall>vote \<in> set (rc_votes certificate). vote_for request digest vote \<and> vote_signed cp policy vote))"
  by (auto simp: validate_release_for_policy_def request_digest_def vote_for_def vote_signed_def Let_def each_once_ok not_less
      distinct_card [of "map rv_signer_id _", simplified])

section \<open>Runs of a guardian entry\<close>

type_synonym entry_op = "u64 \<times> u64 \<times> string \<times> MailboxRequest"

definition entry_exec ::
    "primitives \<Rightarrow> (Id32 \<Rightarrow> string) \<Rightarrow> bool \<Rightarrow> entry_op \<Rightarrow> GuardianEntry \<Rightarrow> (ApiError, MailboxResponse) result \<times> GuardianEntry"
where
  "entry_exec cp hx corrupt = (\<lambda>(wall, monotonic, boot, action) entry.
     attempt (protocol_error (request_digest cp (mailbox_request action))) entry
       (\<lambda>digest. handle_guardian cp hx corrupt wall monotonic boot action digest entry))"

text \<open>A request as the guardian files it: its identifier in hexadecimal and its digest.\<close>

definition filed :: "primitives \<Rightarrow> (Id32 \<Rightarrow> string) \<Rightarrow> RecoveryRequest \<Rightarrow> string \<Rightarrow> Id32 \<Rightarrow> bool" where
  "filed cp hx request key digest \<longleftrightarrow> key = hx (rq_request_id request) \<and> request_digest cp request = Inr digest"

definition began ::
    "primitives \<Rightarrow> (Id32 \<Rightarrow> string) \<Rightarrow> GuardianPolicy \<Rightarrow> string \<Rightarrow> PendingNetworkRecovery \<Rightarrow>
     entry_op \<times> (ApiError, MailboxResponse) result \<Rightarrow> bool"
where
  "began cp hx policy key p x \<longleftrightarrow> (\<exists>certificate.
     x = ((pnr_accepted_wall_time p, pnr_started_monotonic p, pnr_boot_id p, GuardianBegin certificate),
       Inr (BeginAccepted (pnr_not_before_monotonic p))) \<and>
     brc_request certificate = pnr_request p \<and> filed cp hx (pnr_request p) key (pnr_request_digest p) \<and>
     validate_begin_for_policy cp certificate policy (pnr_accepted_wall_time p) = Inr () \<and>
     pnr_not_before_monotonic p = saturating_add (pnr_started_monotonic p) (gp_minimum_recovery_delay policy))"

definition cancels ::
    "primitives \<Rightarrow> (Id32 \<Rightarrow> string) \<Rightarrow> string \<Rightarrow> Id32 \<Rightarrow> entry_op \<times> (ApiError, MailboxResponse) result \<Rightarrow> bool"
where
  "cancels cp hx key digest x \<longleftrightarrow> (\<exists>wall monotonic boot request certificate ack.
     x = ((wall, monotonic, boot, GuardianCancel request certificate), Inr (CancellationAccepted ack)) \<and>
     filed cp hx request key digest)"

definition releases ::
    "primitives \<Rightarrow> (Id32 \<Rightarrow> string) \<Rightarrow> string \<Rightarrow> Id32 \<Rightarrow> entry_op \<times> (ApiError, MailboxResponse) result \<Rightarrow> bool"
where
  "releases cp hx key digest x \<longleftrightarrow> (\<exists>wall monotonic boot request certificate c.
     x = ((wall, monotonic, boot, GuardianRelease request certificate), Inr (GuardianContributed c)) \<and>
     filed cp hx request key digest)"

lemma begin_elim:
  assumes "guardian_begin cp hx wall monotonic boot certificate digest e = (r, e')"
    and "request_digest cp (brc_request certificate) = Inr digest"
  obtains (kept) err where "r = Inl err" "gne_pending e' = gne_pending e" "gne_cancelled e' = gne_cancelled e"
      "gne_released e' = gne_released e" "gne_provision e' = gne_provision e"
    | (began) key p where "r = Inr (BeginAccepted (pnr_not_before_monotonic p))"
      "began cp hx (entry_policy e) key p ((wall, monotonic, boot, GuardianBegin certificate), r)"
      "bt_get (gne_pending e) key = None" "bt_get (gne_cancelled e) key \<noteq> Some (pnr_request_digest p)"
      "gne_pending e' = bt_insert key p (gne_pending e)" "gne_cancelled e' = gne_cancelled e"
      "gne_released e' = gne_released e" "gne_provision e' = gne_provision e"
proof -
  let ?request = "brc_request certificate" and ?policy = "entry_policy e"
  let ?key = "hx (rq_request_id ?request)"
  obtain br m where b: "begin_at ?request digest wall monotonic (gp_minimum_recovery_delay ?policy) True
        (GuardianMachine_new (gp_config_id ?policy) (gp_config_version ?policy)) = (br, m)" by fastforce
  show thesis
  proof (cases r)
    case (Inl err)
    with assms(1) have "gne_pending e' = gne_pending e \<and> gne_cancelled e' = gne_cancelled e \<and>
      gne_released e' = gne_released e \<and> gne_provision e' = gne_provision e"
      by (auto simp: guardian_begin_def Let_def attempt_eq b split: if_splits sum.splits)
    with Inl show thesis using kept by blast
  next
    case (Inr response)
    let ?p = "\<lambda>nb. \<lparr> pnr_request = ?request, pnr_request_digest = digest, pnr_accepted_wall_time = wall,
      pnr_started_monotonic = monotonic, pnr_not_before_monotonic = nb, pnr_boot_id = boot \<rparr>"
    from assms(1) Inr have v: "validate_begin_for_policy cp certificate ?policy wall = Inr ()"
      "bt_get (gne_cancelled e) ?key \<noteq> Some digest" "bt_get (gne_pending e) ?key = None"
      and "\<exists>nb. br = Inr nb \<and> response = BeginAccepted nb \<and> e' = e \<lparr> gne_seen_nonces := insert (rq_nonce ?request) (gne_seen_nonces e),
          gne_pending := bt_insert ?key (?p nb) (gne_pending e) \<rparr>"
      by (auto simp: guardian_begin_def Let_def attempt_eq b split: if_splits sum.splits)
    then obtain nb where nb: "br = Inr nb" and r: "response = BeginAccepted nb"
      and e': "e' = e \<lparr> gne_seen_nonces := insert (rq_nonce ?request) (gne_seen_nonces e),
          gne_pending := bt_insert ?key (?p nb) (gne_pending e) \<rparr>" by blast
    have nb': "nb = saturating_add monotonic (gp_minimum_recovery_delay ?policy)"
      using begin_at_ok(2) b nb by blast
    show thesis
      by (rule began [of "?p nb" ?key]) (use v assms(2) nb' in \<open>simp_all add: Inr r e' began_def filed_def\<close>)
  qed
qed

lemma cancel_elim:
  assumes "guardian_cancel cp hx wall request certificate digest e = (r, e')"
  obtains (kept) err where "r = Inl err" "e' = e"
    | (filed) "e' = e \<lparr> gne_cancelled := bt_insert (hx (rq_request_id request)) digest (gne_cancelled e) \<rparr>"
      "bt_get (gne_released e) (hx (rq_request_id request)) \<noteq> Some digest"
      "bt_get (gne_cancelled e) (hx (rq_request_id request)) \<in> {None, Some digest}"
      "(\<exists>err. r = Inl err) \<or> (\<exists>ack. r = Inr (CancellationAccepted ack))"
  using assms
  by (fastforce simp: guardian_cancel_def Let_def attempt_eq split: if_splits option.splits)

lemma rebuilt_machine:
  assumes "begin_at request d wt mt delay True (GuardianMachine_new cfg version) = (Inr nb, m)"
    and "authorize_release_at i digest wall monotonic True True m = (Inr u, m')"
  shows "d = digest \<and> saturating_add mt delay \<le> monotonic \<and> wall < rq_expiry request \<and> rq_request_id request = i"
  using assms
  by (auto simp: guardian_op_defs GuardianMachine_new_def Let_def not_less not_le split: if_splits option.splits sum.splits)

lemma release_elim:
  assumes "guardian_release cp hx corrupt wall monotonic boot request certificate digest e = (r, e')"
  obtains (kept) err where "r = Inl err" "e' = e"
    | (released) p c where "r = Inr (GuardianContributed c)" "bt_get (gne_pending e) (hx (rq_request_id request)) = Some p"
      "pnr_request_digest p = digest" "pnr_boot_id p = boot"
      "saturating_add (pnr_started_monotonic p) (gp_minimum_recovery_delay (entry_policy e)) \<le> monotonic"
      "wall < rq_expiry (pnr_request p)" "rq_request_id (pnr_request p) = rq_request_id request"
      "validate_release_for_policy cp certificate (entry_policy e) request wall = Inr ()"
      "guardian_material cp corrupt request digest (gne_provision e) = Inr c"
      "e' = e \<lparr> gne_released := bt_insert (hx (rq_request_id request)) digest (gne_released e) \<rparr>"
proof -
  let ?policy = "entry_policy e"
  let ?restart = "\<lambda>p. begin_at (pnr_request p) (pnr_request_digest p) (pnr_accepted_wall_time p) (pnr_started_monotonic p)
        (gp_minimum_recovery_delay ?policy) True (GuardianMachine_new (gp_config_id ?policy) (gp_config_version ?policy))"
  let ?pending = "the (bt_get (gne_pending e) (hx (rq_request_id request)))"
  obtain br m where b: "?restart ?pending = (br, m)" by fastforce
  obtain ar m' where a: "authorize_release_at (rq_request_id request) digest wall monotonic True True m = (ar, m')" by fastforce
  show thesis
  proof (cases r)
    case (Inl err)
    have "e' = e"
      using assms Inl b
      by (cases "bt_get (gne_pending e) (hx (rq_request_id request))")
        (auto simp: guardian_release_def Let_def attempt_eq ok_or_eq_Inr a split: if_splits sum.splits)
    with Inl show thesis using kept by blast
  next
    case (Inr response)
    with assms obtain p where v: "validate_release_for_policy cp certificate ?policy request wall = Inr ()"
      and p: "bt_get (gne_pending e) (hx (rq_request_id request)) = Some p" "pnr_boot_id p = boot"
      by (auto simp: guardian_release_def Let_def attempt_eq ok_or_eq_Inr split: if_splits)
    note b = b [unfolded p(1) option.sel]
    from assms Inr v p have "\<exists>nb u c. br = Inr nb \<and> ar = Inr u \<and> response = GuardianContributed c \<and>
        guardian_material cp corrupt request digest (gne_provision e) = Inr c \<and>
        e' = e \<lparr> gne_released := bt_insert (hx (rq_request_id request)) digest (gne_released e) \<rparr>"
      by (auto simp: guardian_release_def Let_def attempt_eq b a split: sum.splits)
    then obtain nb u c where rest: "br = Inr nb" "ar = Inr u" "response = GuardianContributed c"
        "guardian_material cp corrupt request digest (gne_provision e) = Inr c"
        "e' = e \<lparr> gne_released := bt_insert (hx (rq_request_id request)) digest (gne_released e) \<rparr>" by blast
    show thesis
      using released [OF _ p(1) _ p(2) _ _ _ v rest(4,5)] rest(3) Inr
        rebuilt_machine [OF b [unfolded rest(1)] a [unfolded rest(2)]] by simp
  qed
qed

text \<open>What the state of an entry says about the calls it served.\<close>

definition entry_inv ::
    "primitives \<Rightarrow> (Id32 \<Rightarrow> string) \<Rightarrow> GuardianProvision \<Rightarrow> (entry_op \<times> (ApiError, MailboxResponse) result) list \<Rightarrow>
     GuardianEntry \<Rightarrow> bool"
where
  "entry_inv cp hx provision log e \<longleftrightarrow> gne_provision e = provision \<and>
     (\<forall>key p. bt_get (gne_pending e) key = Some p \<longrightarrow>
        (\<exists>x \<in> set log. began cp hx (grec_policy (gpv_record provision)) key p x)) \<and>
     (\<forall>key d. bt_get (gne_released e) key = Some d \<longrightarrow>
        bt_get (gne_cancelled e) key \<noteq> Some d \<and> (\<exists>p. bt_get (gne_pending e) key = Some p \<and> pnr_request_digest p = d)) \<and>
     (\<forall>x \<in> set log. \<forall>key d.
        (releases cp hx key d x \<longrightarrow> bt_get (gne_released e) key = Some d) \<and>
        (cancels cp hx key d x \<longrightarrow> bt_get (gne_cancelled e) key = Some d))"

lemma entry_exec_elim:
  assumes "entry_exec cp hx corrupt (wall, monotonic, boot, action) e = (r, e')"
  obtains (failed) err where "r = Inl err" "e' = e"
    | (refused) digest request certificate where "action = GuardianRelease request certificate"
      "r = Inr (ReleaseRefused ''cancelled'')" "e' = e"
      "filed cp hx request (hx (rq_request_id request)) digest" "bt_get (gne_cancelled e) (hx (rq_request_id request)) = Some digest"
    | (starts) digest certificate where "action = GuardianBegin certificate" "request_digest cp (brc_request certificate) = Inr digest"
      "guardian_begin cp hx wall monotonic boot certificate digest e = (r, e')"
    | (cancel) digest request certificate where "action = GuardianCancel request certificate" "request_digest cp request = Inr digest"
      "guardian_cancel cp hx wall request certificate digest e = (r, e')"
    | (release) digest request certificate where "action = GuardianRelease request certificate" "request_digest cp request = Inr digest"
      "bt_get (gne_cancelled e) (hx (rq_request_id request)) \<noteq> Some digest"
      "guardian_release cp hx corrupt wall monotonic boot request certificate digest e = (r, e')"
proof (cases "request_digest cp (mailbox_request action)")
  case (Inl err)
  with assms show thesis by (intro failed) (auto simp: entry_exec_def attempt_def map_err_def)
next
  case (Inr digest)
  then have h: "handle_guardian cp hx corrupt wall monotonic boot action digest e = (r, e')"
    using assms by (simp add: entry_exec_def attempt_eq)
  show thesis
  proof (cases action)
    case (GuardianRelease request certificate)
    with Inr h show thesis
      by (cases "bt_get (gne_cancelled e) (hx (rq_request_id request)) = Some digest")
        (use refused [of request certificate digest] release [of request certificate digest] in
          \<open>auto simp: handle_guardian_def filed_def\<close>)
  qed (use Inr h failed starts cancel in \<open>auto simp: handle_guardian_def\<close>)
qed

lemma began_kept: "began cp hx policy key p x \<Longrightarrow> releases cp hx k d x \<Longrightarrow> P" "began cp hx policy key p x \<Longrightarrow> cancels cp hx k d x \<Longrightarrow> P"
  by (auto simp: began_def releases_def cancels_def)

lemma labels_exclusive: "releases cp hx k d x \<Longrightarrow> cancels cp hx k' d' x \<Longrightarrow> P"
  by (auto simp: releases_def cancels_def)

lemma entry_inv_exec:
  assumes I: "entry_inv cp hx provision log e" and ex: "entry_exec cp hx corrupt op e = (r, e')"
  shows "entry_inv cp hx provision (log @ [(op, r)]) e'"
proof -
  obtain wall monotonic boot action where op: "op = (wall, monotonic, boot, action)" by (metis prod_cases4)
  from ex [unfolded op] show ?thesis
  proof (cases rule: entry_exec_elim)
    case (failed err)
    with I show ?thesis by (auto simp: entry_inv_def op releases_def cancels_def)
  next
    case (refused digest request certificate)
    with I show ?thesis by (auto simp: entry_inv_def op releases_def cancels_def)
  next
    case (starts digest certificate)
    from starts(3,2) show ?thesis
    proof (cases rule: begin_elim)
      case (kept err)
      with I starts(1) show ?thesis by (auto simp: entry_inv_def op releases_def cancels_def)
    next
      case (began key p)
      have "began cp hx (grec_policy (gpv_record provision)) key p (op, r)"
        using began(2) I starts(1) by (simp add: op entry_inv_def)
      moreover from this have "\<not> releases cp hx k d (op, r)" "\<not> cancels cp hx k d (op, r)" for k d
        using began_kept by metis+
      moreover have "bt_get (gne_released e) key = None"
        using I began(3) unfolding entry_inv_def by (metis option.distinct(1) option.exhaust)
      ultimately show ?thesis
        using I began(3-) by (auto simp: entry_inv_def)
    qed
  next
    case (cancel digest request certificate)
    from cancel(3) show ?thesis
    proof (cases rule: cancel_elim)
      case (kept err)
      with I show ?thesis by (auto simp: entry_inv_def op releases_def cancels_def)
    next
      case filed
      have "cancels cp hx k d (op, r) \<Longrightarrow> k = hx (rq_request_id request) \<and> d = digest" "\<not> releases cp hx k d (op, r)" for k d
        using cancel(1,2) by (auto simp: op cancels_def releases_def filed_def)
      with I filed show ?thesis
        by (auto simp: entry_inv_def)
    qed
  next
    case (release digest request certificate)
    from release(4) show ?thesis
    proof (cases rule: release_elim)
      case (kept err)
      with I show ?thesis by (auto simp: entry_inv_def op releases_def cancels_def)
    next
      case (released p c)
      have "releases cp hx k d (op, r) \<Longrightarrow> k = hx (rq_request_id request) \<and> d = digest" "\<not> cancels cp hx k d (op, r)" for k d
        using release(1,2) by (auto simp: op cancels_def releases_def filed_def)
      moreover have same: "d = pnr_request_digest p" if "releases cp hx (hx (rq_request_id request)) d x" "x \<in> set log" for x d
        using I that released(2) unfolding entry_inv_def by (metis option.inject)
      ultimately show ?thesis
        using I released release(3) by (auto simp: entry_inv_def dest: same)
    qed
  qed
qed

interpretation entry: logged_machine "entry_exec cp hx corrupt" "GuardianEntry_new provision" "entry_inv cp hx provision"
  for cp hx corrupt provision
proof
  show "entry_inv cp hx provision [] (GuardianEntry_new provision)"
    by (simp add: entry_inv_def GuardianEntry_new_def)
qed (rule entry_inv_exec)

text \<open>C2: a guardian of protocol 2 hands out its contribution only for a request whose begin it accepted
  earlier in the run, under the same boot identifier, with the same identifier and digest and a begin
  certificate valid at that time, when the recovery delay counted from that begin is over, the
  request has not expired, the release certificate is valid for the request, and no cancellation of
  the digest was accepted before. The contribution is the guardian's material for the request.\<close>

theorem entry_release_due:
  assumes "run_log (entry_exec cp hx corrupt) (GuardianEntry_new provision) ops =
      (l1 @ ((wall, monotonic, boot, GuardianRelease request certificate), Inr (GuardianContributed c)) # l2, t)"
  shows "validate_release_for_policy cp certificate (grec_policy (gpv_record provision)) request wall = Inr () \<and>
    (\<exists>digest wall0 monotonic0 bc not_before.
       request_digest cp request = Inr digest \<and> guardian_material cp corrupt request digest provision = Inr c \<and>
       ((wall0, monotonic0, boot, GuardianBegin bc), Inr (BeginAccepted not_before)) \<in> set l1 \<and>
       validate_begin_for_policy cp bc (grec_policy (gpv_record provision)) wall0 = Inr () \<and>
       rq_request_id (brc_request bc) = rq_request_id request \<and> request_digest cp (brc_request bc) = Inr digest \<and>
       not_before = saturating_add monotonic0 (gp_minimum_recovery_delay (grec_policy (gpv_record provision))) \<and>
       not_before \<le> monotonic \<and> wall < rq_expiry (brc_request bc) \<and>
       (\<forall>x \<in> set l1. \<not> cancels cp hx (hx (rq_request_id request)) digest x))"
proof -
  let ?policy = "grec_policy (gpv_record provision)"
  from entry.inv_before [OF assms] obtain e e' where I: "entry_inv cp hx provision l1 e"
    and ex: "entry_exec cp hx corrupt (wall, monotonic, boot, GuardianRelease request certificate) e = (Inr (GuardianContributed c), e')"
    by blast
  from I have prov: "gne_provision e = provision" by (simp add: entry_inv_def)
  from ex show ?thesis
  proof (cases rule: entry_exec_elim)
    case (release digest request' certificate')
    then have rq: "request' = request" "certificate' = certificate" by simp_all
    from release(4) show ?thesis
    proof (cases rule: release_elim)
      case (released p c')
      from I released(2) obtain x where x: "x \<in> set l1" "began cp hx ?policy (hx (rq_request_id request)) p x"
        unfolding entry_inv_def rq by blast
      then obtain bc where bc: "((pnr_accepted_wall_time p, pnr_started_monotonic p, pnr_boot_id p, GuardianBegin bc),
          Inr (BeginAccepted (pnr_not_before_monotonic p))) \<in> set l1" "brc_request bc = pnr_request p"
        "request_digest cp (pnr_request p) = Inr (pnr_request_digest p)"
        "validate_begin_for_policy cp bc ?policy (pnr_accepted_wall_time p) = Inr ()"
        "pnr_not_before_monotonic p = saturating_add (pnr_started_monotonic p) (gp_minimum_recovery_delay ?policy)"
        unfolding began_def filed_def by blast
      have "\<not> cancels cp hx (hx (rq_request_id request)) digest x" if "x \<in> set l1" for x
        using I release(3) that unfolding entry_inv_def rq by blast
      moreover have "validate_release_for_policy cp certificate ?policy request wall = Inr ()"
        "guardian_material cp corrupt request digest provision = Inr c"
        using released(1,8,9) prov rq by simp_all
      ultimately show ?thesis
        using bc released(3-7) release(2) prov rq by (metis (no_types, lifting))
    qed simp
  qed simp_all
qed

text \<open>C3: in no run does a guardian both accept the cancellation of a request and release its material
  for that request, in either order.\<close>

theorem entry_cancel_excludes_release:
  assumes "run_log (entry_exec cp hx corrupt) (GuardianEntry_new provision) ops = (l, t)"
    and "x \<in> set l" "y \<in> set l" and "cancels cp hx key digest x"
  shows "\<not> releases cp hx key digest y"
proof -
  have "entry_inv cp hx provision l t" by (rule entry.run_inv [OF assms(1)])
  with assms(2-4) show ?thesis unfolding entry_inv_def by blast
qed

section \<open>A request identifier used twice\<close>

lemma entry_inv_cancels:
  "entry_inv cp hx provision log e \<Longrightarrow> y \<in> set log \<Longrightarrow> cancels cp hx key d y \<Longrightarrow> bt_get (gne_cancelled e) key = Some d"
  "entry_inv cp hx provision log e \<Longrightarrow> gne_provision e = provision"
  unfolding entry_inv_def by blast+

text \<open>A begun recovery stays filed with its details, whatever is called.\<close>

lemma entry_exec_pending:
  assumes "bt_get (gne_pending e) key = Some p" and "entry_exec cp hx corrupt op e = (r, e')"
  shows "bt_get (gne_pending e') key = Some p"
proof -
  obtain wall monotonic boot action where op: "op = (wall, monotonic, boot, action)" by (metis prod_cases4)
  from assms(2) [unfolded op] show ?thesis
  proof (cases rule: entry_exec_elim)
    case (starts digest certificate)
    from starts(3,2) show ?thesis by (cases rule: begin_elim) (use assms(1) in auto)
  next
    case (cancel digest request certificate)
    from cancel(3) show ?thesis by (cases rule: cancel_elim) (use assms(1) in auto)
  next
    case (release digest request certificate)
    from release(4) show ?thesis by (cases rule: release_elim) (use assms(1) in auto)
  qed (use assms(1) in simp_all)
qed

interpretation pending: stable_machine "entry_exec cp hx corrupt" "\<lambda>e. bt_get (gne_pending e) key = Some p" for cp hx corrupt key p
  by unfold_locales (rule entry_exec_pending)

text \<open>The machine of a begin accepts a request whose certificate is valid, and the machine a release
  rebuilds from it accepts the release once the delay is over.\<close>

lemma machine_accepts:
  assumes "validate_begin_for_policy cp certificate policy wall = Inr ()"
  obtains m where "begin_at (brc_request certificate) digest wall monotonic (gp_minimum_recovery_delay policy) True
      (GuardianMachine_new (gp_config_id policy) (gp_config_version policy)) =
        (Inr (saturating_add monotonic (gp_minimum_recovery_delay policy)), m)"
    and "\<And>wall' monotonic'. wall' < rq_expiry (brc_request certificate) \<Longrightarrow>
      saturating_add monotonic (gp_minimum_recovery_delay policy) \<le> monotonic' \<Longrightarrow>
      \<exists>m'. authorize_release_at (rq_request_id (brc_request certificate)) digest wall' monotonic' True True m = (Inr (), m')"
  using assms that
  by (auto simp: validate_begin_for_policy_def guardian_op_defs GuardianMachine_new_def Let_def not_less not_le split: if_splits)

lemma begin_accepted:
  assumes "filed cp hx (brc_request certificate) key digest" and "bt_get (gne_cancelled e) key \<noteq> Some digest"
    and "bt_get (gne_pending e) key = None" and "rq_nonce (brc_request certificate) \<notin> gne_seen_nonces e"
    and "validate_begin_for_policy cp certificate (entry_policy e) wall = Inr ()"
  shows "\<exists>not_before e'. entry_exec cp hx corrupt (wall, monotonic, boot, GuardianBegin certificate) e = (Inr (BeginAccepted not_before), e') \<and>
    bt_get (gne_pending e') key = Some \<lparr> pnr_request = brc_request certificate, pnr_request_digest = digest,
      pnr_accepted_wall_time = wall, pnr_started_monotonic = monotonic, pnr_not_before_monotonic = not_before, pnr_boot_id = boot \<rparr>"
proof -
  obtain m where "begin_at (brc_request certificate) digest wall monotonic (gp_minimum_recovery_delay (entry_policy e)) True
      (GuardianMachine_new (gp_config_id (entry_policy e)) (gp_config_version (entry_policy e))) =
        (Inr (saturating_add monotonic (gp_minimum_recovery_delay (entry_policy e))), m)"
    by (rule machine_accepts [OF assms(5)])
  with assms show ?thesis
    by (auto simp: filed_def entry_exec_def handle_guardian_def guardian_begin_def Let_def attempt_eq)
qed

lemma release_accepted:
  assumes "filed cp hx request key digest" and "bt_get (gne_cancelled e) key \<noteq> Some digest"
    and "bt_get (gne_pending e) key = Some \<lparr> pnr_request = request, pnr_request_digest = digest,
      pnr_accepted_wall_time = wall, pnr_started_monotonic = monotonic, pnr_not_before_monotonic = not_before, pnr_boot_id = boot \<rparr>"
    and "brc_request certificate = request" and "validate_begin_for_policy cp certificate (entry_policy e) wall = Inr ()"
    and "validate_release_for_policy cp votes (entry_policy e) request wall' = Inr ()"
    and "saturating_add monotonic (gp_minimum_recovery_delay (entry_policy e)) \<le> monotonic'"
    and "guardian_material cp corrupt request digest (gne_provision e) = Inr c"
  shows "\<exists>e'. entry_exec cp hx corrupt (wall', monotonic', boot, GuardianRelease request votes) e = (Inr (GuardianContributed c), e')"
proof -
  have "\<not> stale_for_policy request (entry_policy e) wall'" using assms(6) by (simp add: release_certificate_exact)
  then have "wall' < rq_expiry request" by (simp add: stale_for_policy_def not_le)
  then obtain m m' where "begin_at request digest wall monotonic (gp_minimum_recovery_delay (entry_policy e)) True
      (GuardianMachine_new (gp_config_id (entry_policy e)) (gp_config_version (entry_policy e))) =
        (Inr (saturating_add monotonic (gp_minimum_recovery_delay (entry_policy e))), m)"
    "authorize_release_at (rq_request_id request) digest wall' monotonic' True True m = (Inr (), m')"
    using machine_accepts [OF assms(5), of digest monotonic] assms(4,7) by metis
  with assms(1-3,6,8) show ?thesis
    by (auto simp: filed_def entry_exec_def handle_guardian_def guardian_release_def Let_def attempt_eq ok_or_eq_Inr)
qed

text \<open>C38: a cancelled request identifier can be reused for another request. In any run in which the
  cancellation of one request was accepted, a second request with its identifier but another
  digest begins, when its begin certificate is valid, its nonce is new and nothing is pending under
  the identifier; from then on no call makes the guardian accept its cancellation, and after the delay a
  valid release certificate makes it hand out its contribution, whatever was called in between.\<close>

theorem cancelled_identifier_reused:
  assumes "run_log (entry_exec cp hx corrupt) (GuardianEntry_new provision) ops = (l, t)"
    and "x \<in> set l" and "cancels cp hx key digest x"
    and "brc_request certificate = request" and "filed cp hx request key digest'" and "digest' \<noteq> digest"
    and "bt_get (gne_pending t) key = None" and "rq_nonce request \<notin> gne_seen_nonces t"
    and "validate_begin_for_policy cp certificate (grec_policy (gpv_record provision)) wall = Inr ()"
    and "validate_release_for_policy cp votes (grec_policy (gpv_record provision)) request wall' = Inr ()"
    and "saturating_add monotonic (gp_minimum_recovery_delay (grec_policy (gpv_record provision))) \<le> monotonic'"
    and "guardian_material cp corrupt request digest' provision = Inr c"
  shows "\<exists>not_before t1. entry_exec cp hx corrupt (wall, monotonic, boot, GuardianBegin certificate) t = (Inr (BeginAccepted not_before), t1) \<and>
    (\<forall>ops2 l2 t2. run_log (entry_exec cp hx corrupt) t1 ops2 = (l2, t2) \<longrightarrow>
      (\<forall>y \<in> set l2. \<not> cancels cp hx key digest' y) \<and>
      (\<exists>t3. entry_exec cp hx corrupt (wall', monotonic', boot, GuardianRelease request votes) t2 = (Inr (GuardianContributed c), t3)))"
proof -
  let ?accepted = "(wall, monotonic, boot, GuardianBegin certificate)"
  have inv: "entry_inv cp hx provision l t" by (rule entry.run_inv [OF assms(1)])
  have open1: "gne_provision t = provision" "bt_get (gne_cancelled t) key \<noteq> Some digest'"
    using entry_inv_cancels(1) [OF inv assms(2,3)] entry_inv_cancels(2) [OF inv] assms(6) by simp_all
  with begin_accepted [of cp hx certificate key digest' t wall] assms(4,5,7-9) obtain not_before t1
    where b: "entry_exec cp hx corrupt ?accepted t = (Inr (BeginAccepted not_before), t1)"
      "bt_get (gne_pending t1) key = Some \<lparr> pnr_request = request, pnr_request_digest = digest',
        pnr_accepted_wall_time = wall, pnr_started_monotonic = monotonic, pnr_not_before_monotonic = not_before, pnr_boot_id = boot \<rparr>"
    by metis
  have "(\<forall>y \<in> set l2. \<not> cancels cp hx key digest' y) \<and>
      (\<exists>t3. entry_exec cp hx corrupt (wall', monotonic', boot, GuardianRelease request votes) t2 = (Inr (GuardianContributed c), t3))"
    if run: "run_log (entry_exec cp hx corrupt) t1 ops2 = (l2, t2)" for ops2 l2 t2
  proof -
    have "run_log (entry_exec cp hx corrupt) (GuardianEntry_new provision) (ops @ ?accepted # ops2) =
        (l @ (?accepted, Inr (BeginAccepted not_before)) # l2, t2)"
      using assms(1) b(1) run by (simp add: run_log_append)
    then have inv2: "entry_inv cp hx provision (l @ (?accepted, Inr (BeginAccepted not_before)) # l2) t2" by (rule entry.run_inv)
    have tomb: "bt_get (gne_cancelled t2) key = Some digest" "gne_provision t2 = provision"
      using entry_inv_cancels(1) [OF inv2 _ assms(3)] assms(2) entry_inv_cancels(2) [OF inv2] by simp_all
    have "\<not> cancels cp hx key digest' y" if "y \<in> set l2" for y
      using entry_inv_cancels(1) [OF inv2, of y key digest'] that tomb(1) assms(6) by auto
    moreover have "\<exists>t3. entry_exec cp hx corrupt (wall', monotonic', boot, GuardianRelease request votes) t2 = (Inr (GuardianContributed c), t3)"
      by (rule release_accepted [OF assms(5) _ pending.run_stable [OF b(2) run] assms(4)]) (use tomb assms(6,9-12) in auto)
    ultimately show ?thesis by blast
  qed
  with b(1) show ?thesis by blast
qed

section \<open>Owner cancellations\<close>

text \<open>A certificate the owner makes for a filed request that has not been released is acknowledged, the
  acknowledgement passes the check of the owner's client, and every later release is refused.\<close>

theorem owner_cancellation_acknowledged:
  assumes "signatures_correct cp" and "make_owner_cancel_certificate cp request seed reply_key reason issued = Inr certificate"
    and "\<not> stale_for_policy request (entry_policy e) now" and "length reply_key = XWING_PUBLIC_KEY_LEN"
    and "rq_requested_at request \<le> issued" "issued \<le> now"
    and "gp_owner_cancel_public_key (entry_policy e) = verifying_key_bytes cp seed"
    and "filed cp hx request key digest" and "bt_get (gne_released e) key \<noteq> Some digest"
    and "bt_get (gne_cancelled e) key \<in> {None, Some digest}"
    and "gr_guardian_index route = grec_guardian_index (gpv_record (gne_provision e))"
    and "gr_guardian_public_key route = verifying_key_bytes cp (gpv_signing_seed (gne_provision e))"
  shows "\<exists>ack e'. entry_exec cp hx corrupt (now, monotonic, boot, GuardianCancel request certificate) e =
      (Inr (CancellationAccepted ack), e') \<and>
    validate_owner_cancel_ack cp ack certificate request route = Inr () \<and>
    (\<forall>wall m b rc. entry_exec cp hx corrupt (wall, m, b, GuardianRelease request rc) e' = (Inr (ReleaseRefused ''cancelled''), e'))"
proof -
  let ?policy = "entry_policy e"
  from assms(8) have key: "key = hx (rq_request_id request)" and digest: "request_digest cp request = Inr digest"
    by (simp_all add: filed_def)
  from assms(2) digest obtain t where t: "owner_cancel certificate = Inr t" "verify cp (verifying_key_bytes cp seed) t (occ_owner_signature certificate) = Inr ()"
    and cert: "occ_protocol_version certificate = PROTOCOL_VERSION" "occ_config_id certificate = rq_config_id request"
      "occ_config_version certificate = rq_config_version request" "occ_request_id certificate = rq_request_id request"
      "occ_request_digest certificate = digest" "occ_recovery_recipient_key certificate = rq_recovery_recipient_key request"
      "occ_cancel_response_recipient_key certificate = reply_key" "occ_nonce certificate = rq_nonce request"
      "occ_issued_at certificate = issued" "occ_owner_cancel_public_key certificate = verifying_key_bytes cp seed"
    using assms(1) by (auto simp: make_owner_cancel_certificate_def Let_def owner_cancel_def signatures_correct_def)
  have "now < rq_expiry request" using assms(3) by (simp add: stale_for_policy_def not_le)
  then have "issued < rq_expiry request" using assms(6) by (rule order.strict_trans1 [rotated])
  then have valid: "validate_owner_cancel_for_policy cp certificate ?policy request now = Inr ()"
    using assms(3-7) digest cert t by (simp add: validate_owner_cancel_for_policy_def Let_def not_less not_le)
  let ?ack = "\<lparr> oca_protocol_version = PROTOCOL_VERSION, oca_config_id = rq_config_id request,
     oca_config_version = rq_config_version request, oca_request_id = rq_request_id request, oca_request_digest = digest,
     oca_owner_cancel_transcript_digest = sha256 cp t, oca_guardian_index = grec_guardian_index (gpv_record (gne_provision e)),
     oca_guardian_signature = [] \<rparr>"
  obtain a where a: "owner_cancel_ack (?ack \<lparr> oca_guardian_signature := s \<rparr>) = Inr a" for s
    by (simp add: owner_cancel_ack_def transcript_ok MAX_FIELD_LEN_def)
  let ?signed = "?ack \<lparr> oca_guardian_signature := sign cp (gpv_signing_seed (gne_provision e)) a \<rparr>"
  let ?e = "e \<lparr> gne_cancelled := bt_insert key digest (gne_cancelled e) \<rparr>"
  have "entry_exec cp hx corrupt (now, monotonic, boot, GuardianCancel request certificate) e = (Inr (CancellationAccepted ?signed), ?e)"
    using digest valid assms(9,10) t a [of "[]"]
    by (auto simp: entry_exec_def handle_guardian_def guardian_cancel_def Let_def attempt_eq key split: option.split)
  moreover have "validate_owner_cancel_ack cp ?signed certificate request route = Inr ()"
    using digest t a assms(1,11,12) by (simp add: validate_owner_cancel_ack_def Let_def signatures_correct_def)
  moreover have "entry_exec cp hx corrupt (wall, m, b, GuardianRelease request rc) ?e = (Inr (ReleaseRefused ''cancelled''), ?e)" for wall m b rc
    using digest by (simp add: entry_exec_def attempt_eq handle_guardian_def key)
  ultimately show ?thesis by blast
qed

section \<open>A concrete guardian\<close>

text \<open>Primitives that accept every signature and proof; the digest of a transcript is its last byte,
  for a request the last byte of its expiry.\<close>

definition nx_prims :: primitives where
  "nx_prims = \<lparr> sha2_digest = (\<lambda>d. ucast (last d)), dalek_key_ok = (\<lambda>_. True), dalek_signature_ok = (\<lambda>_. True),
     dalek_verify = (\<lambda>_ _ _. True), dalek_public = (\<lambda>_. 0), dalek_sign = (\<lambda>_ _. []),
     rs_merkle_root = (\<lambda>_. None), rs_merkle_prove = (\<lambda>_ _. []), rs_merkle_parse = (\<lambda>_. True),
     rs_merkle_verify = (\<lambda>_ _ _ _ _. True), hkdf_expand = (\<lambda>_ _. None), xchacha_encrypt = (\<lambda>_ _ m _. Some m),
     xchacha_decrypt = (\<lambda>_ _ c _. Some c), xwing_public = (\<lambda>_. []), xwing_encapsulate = (\<lambda>_ _. None),
     xwing_decapsulate = (\<lambda>_ _. None) \<rparr>"

definition nx_request :: "u64 \<Rightarrow> RecoveryRequest" where
  "nx_request expiry = \<lparr> rq_protocol_version = PROTOCOL_VERSION, rq_crypto_suite = XWingXChaCha20Poly1305Ed25519,
     rq_config_id = 7, rq_config_version = 1, rq_request_id = 3, rq_recovery_recipient_key = replicate XWING_PUBLIC_KEY_LEN 0,
     rq_requested_at = 10, rq_nonce = ucast expiry, rq_expiry = expiry \<rparr>"

definition nx_provision :: GuardianProvision where
  "nx_provision = \<lparr> gpv_mailbox = ''m'', gpv_guardian_id = 1, gpv_signing_seed = 0,
     gpv_record = \<lparr> grec_opaque_slot_id = 0, grec_guardian_index = 1, grec_ciphertext_fragment = [1],
       grec_encrypted_dek_share = \<lparr> ac_nonce = 0, ac_ciphertext = [2] \<rparr>, grec_merkle_path_proof = [],
       grec_policy = \<lparr> gp_config_id = 7, gp_config_version = 1, gp_signer_set_commitment = 0, gp_signer_count = 1,
         gp_signer_threshold = 1, gp_owner_cancel_public_key = 0, gp_minimum_recovery_delay = 5,
         gp_guardian_material_root = 0 \<rparr> \<rparr> \<rparr>"

definition nx_begin :: "u64 \<Rightarrow> BeginRecoveryCertificate" where
  "nx_begin e = \<lparr> brc_request = nx_request e, brc_signer_contributions = [\<lparr> sc_request = nx_request e, sc_signer_id = 1,
     sc_signer_public_key = 0, sc_signer_signature = [], sc_signer_membership_proof = [],
     sc_encrypted_a_share = \<lparr> sm_kem_ciphertext = [], sm_payload = \<lparr> ac_nonce = 0, ac_ciphertext = [] \<rparr> \<rparr> \<rparr>] \<rparr>"

definition nx_release :: "u64 \<Rightarrow> ReleaseCertificate" where
  "nx_release e = \<lparr> rc_votes = [\<lparr> rv_protocol_version = PROTOCOL_VERSION, rv_config_id = 7, rv_config_version = 1,
     rv_request_id = 3, rv_request_digest = ucast e, rv_recovery_recipient_key = replicate XWING_PUBLIC_KEY_LEN 0,
     rv_nonce = ucast e, rv_signer_id = 1, rv_signer_public_key = 0, rv_signer_membership_proof = [],
     rv_signer_signature = [] \<rparr>] \<rparr>"

definition nx_cancel :: "u64 \<Rightarrow> OwnerCancelCertificate" where
  "nx_cancel e = \<lparr> occ_protocol_version = PROTOCOL_VERSION, occ_config_id = 7, occ_config_version = 1,
     occ_request_id = 3, occ_request_digest = ucast e, occ_recovery_recipient_key = replicate XWING_PUBLIC_KEY_LEN 0,
     occ_cancel_response_recipient_key = replicate XWING_PUBLIC_KEY_LEN 0, occ_reason_code = 0, occ_nonce = ucast e,
     occ_issued_at = 10, occ_owner_cancel_public_key = 0, occ_owner_signature = [] \<rparr>"

lemma nx_eval:
  "verify nx_prims k t sg = Inr ()" "merkle_verify nx_prims r l i n p = Inr ()" "sign nx_prims seed t = []"
  "sha256 nx_prims d = ucast (last d)" "verifying_key_bytes nx_prims seed = 0"
  by (simp_all add: verify_def merkle_verify_def sign_def sha256_def verifying_key_bytes_def nx_prims_def)

lemma be64_last [simp]: "last (be64 e) = ucast e" "be64 e \<noteq> []"
proof -
  have eight: "(8 :: nat) = Suc 7" by simp
  have "last (be64 e) = of_nat (unat e mod 256)"
    unfolding be64_def be_bytes_def last_rev eight by (simp only: le_bytes.simps list.sel)
  also have "\<dots> = ucast e"
    by (simp add: word_unat_eq_iff unsigned_of_nat unsigned_ucast_eq take_bit_eq_mod)
  finally show "last (be64 e) = ucast e" .
  show "be64 e \<noteq> []" by (simp flip: length_0_conv)
qed

lemma nx_recovery_request: "\<exists>t. recovery_request (nx_request e) = Inr t \<and> t \<noteq> [] \<and> length t \<le> 2000 \<and> last t = ucast e"
  by (simp add: recovery_request_def nx_request_def transcript_ok MAX_FIELD_LEN_def XWING_PUBLIC_KEY_LEN_def lp_def)

lemma nx_digest: "e < 256 \<Longrightarrow> request_digest nx_prims (nx_request e) = Inr (ucast e)"
  using nx_recovery_request [of e]
  by (auto simp: request_digest_def request_digest_preimage_def transcript_ok MAX_FIELD_LEN_def nx_eval lp_def
      word_unat_eq_iff unsigned_ucast_eq take_bit_nat_eq_self word_less_nat_alt)

lemma nx_checks:
  "check_contribution nx_prims (nx_request e) 0 1 (hd (brc_signer_contributions (nx_begin e))) = Inr ()"
  "\<exists>t. release_vote (hd (rc_votes (nx_release e))) = Inr t" "\<exists>t. owner_cancel (nx_cancel e) = Inr t" "\<exists>t. signer_leaf 1 0 = Inr t"
  using nx_recovery_request [of e]
  by (auto simp: check_contribution_def validate_membership_def nx_eval nx_begin_def signer_leaf_def signer_approval_def
      release_vote_def nx_release_def owner_cancel_def nx_cancel_def transcript_ok MAX_FIELD_LEN_def XWING_PUBLIC_KEY_LEN_def)

abbreviation nx_policy :: GuardianPolicy where
  "nx_policy \<equiv> grec_policy (gpv_record nx_provision)"

lemma nx_fresh: "wall \<in> {10..<e} \<Longrightarrow> \<not> stale_for_policy (nx_request e) nx_policy wall"
  by (auto simp: stale_for_policy_def nx_request_def nx_provision_def)

lemma nx_begin_ok: "wall \<in> {10..<e} \<Longrightarrow> validate_begin_for_policy nx_prims (nx_begin e) nx_policy wall = Inr ()"
  using nx_checks(1) [of e]
  by (auto simp: validate_begin_for_policy_def nx_begin_def nx_request_def nx_provision_def Let_def)

lemma nx_release_ok:
  "wall \<in> {10..<e} \<Longrightarrow> e < 256 \<Longrightarrow> validate_release_for_policy nx_prims (nx_release e) nx_policy (nx_request e) wall = Inr ()"
  using nx_checks(2) [of e] nx_checks(4) nx_digest [of e] nx_fresh [of wall e]
  by (auto simp: validate_release_for_policy_def request_digest_def nx_release_def Let_def validate_membership_def nx_eval
      nx_provision_def nx_request_def)

lemma nx_cancel_ok:
  "wall \<in> {10..<e} \<Longrightarrow> e < 256 \<Longrightarrow> validate_owner_cancel_for_policy nx_prims (nx_cancel e) nx_policy (nx_request e) wall = Inr ()"
  using nx_checks(3) [of e] nx_digest [of e] nx_fresh [of wall e]
  by (auto simp: validate_owner_cancel_for_policy_def nx_cancel_def nx_eval nx_provision_def nx_request_def)

text \<open>Two requests with one identifier: the first is cancelled before it begins, the second begins, cannot
  be cancelled, and is released.\<close>

abbreviation nx_cancel_op :: "u64 \<Rightarrow> entry_op" where
  "nx_cancel_op e \<equiv> (10, 0, ''b'', GuardianCancel (nx_request e) (nx_cancel e))"

abbreviation nx_begin_op :: "u64 \<Rightarrow> entry_op" where
  "nx_begin_op e \<equiv> (10, 1, ''b'', GuardianBegin (nx_begin e))"

abbreviation nx_release_op :: "u64 \<Rightarrow> entry_op" where
  "nx_release_op e \<equiv> (12, 6, ''b'', GuardianRelease (nx_request e) (nx_release e))"

abbreviation nx_exec :: "entry_op \<Rightarrow> GuardianEntry \<Rightarrow> (ApiError, MailboxResponse) result \<times> GuardianEntry" where
  "nx_exec \<equiv> entry_exec nx_prims (\<lambda>_. ''k'') False"

lemma nx_cancel_step:
  assumes "gne_provision s = nx_provision" "10 < e" "e < 256" "bt_get (gne_released s) ''k'' \<noteq> Some (ucast e)"
    "bt_get (gne_cancelled s) ''k'' \<in> {None, Some (ucast e)}"
  shows "\<exists>ack. nx_exec (nx_cancel_op e) s =
    (Inr (CancellationAccepted ack), s \<lparr> gne_cancelled := bt_insert ''k'' (ucast e) (gne_cancelled s) \<rparr>)"
  using assms nx_cancel_ok [of 10 e] nx_digest [of e] nx_checks(3) [of e]
  by (auto simp: entry_exec_def handle_guardian_def guardian_cancel_def attempt_eq Let_def owner_cancel_ack_def transcript_ok
      MAX_FIELD_LEN_def split: option.split)

lemma nx_conflict_step:
  assumes "gne_provision s = nx_provision" "10 < e" "e < 256" "bt_get (gne_released s) ''k'' = None"
    "bt_get (gne_cancelled s) ''k'' = Some d" "d \<noteq> ucast e"
  shows "nx_exec (nx_cancel_op e) s = (Inl (bad_request (Text ''cancellation digest conflict'')), s)"
  using assms nx_cancel_ok [of 10 e] nx_digest [of e]
  by (auto simp: entry_exec_def handle_guardian_def guardian_cancel_def attempt_eq Let_def)

lemma nx_machine:
  assumes "12 < e"
  obtains m where "begin_at (nx_request e) (ucast e) 10 1 5 True (GuardianMachine_new 7 1) = (Inr 6, m)"
    "\<exists>m'. authorize_release_at 3 (ucast e) 12 6 True True m = (Inr (), m')"
proof -
  have "10 < e" using assms by (rule order.strict_trans [rotated]) simp
  with assms that show thesis
    by (simp add: guardian_op_defs GuardianMachine_new_def nx_request_def saturating_add_def Let_def not_le not_less)
qed

lemma nx_begin_step:
  assumes "gne_provision s = nx_provision" "12 < e" "e < 256" "bt_get (gne_cancelled s) ''k'' \<noteq> Some (ucast e)"
    "bt_get (gne_pending s) ''k'' = None" "gne_seen_nonces s = {}"
  shows "nx_exec (nx_begin_op e) s = (Inr (BeginAccepted 6), s \<lparr> gne_seen_nonces := {ucast e}, gne_pending := bt_insert ''k''
      \<lparr> pnr_request = nx_request e, pnr_request_digest = ucast e, pnr_accepted_wall_time = 10, pnr_started_monotonic = 1,
        pnr_not_before_monotonic = 6, pnr_boot_id = ''b'' \<rparr> (gne_pending s) \<rparr>)"
proof -
  have "10 < e" using assms(2) by (rule order.strict_trans [rotated]) simp
  obtain m where "begin_at (nx_request e) (ucast e) 10 1 5 True (GuardianMachine_new 7 1) = (Inr 6, m)"
    using nx_machine [OF assms(2)] by blast
  with assms nx_begin_ok [of 10 e] nx_digest [of e] \<open>10 < e\<close> show ?thesis
    by (auto simp: entry_exec_def handle_guardian_def guardian_begin_def attempt_eq Let_def nx_begin_def nx_provision_def nx_request_def)
qed

lemma nx_release_step:
  assumes "gne_provision s = nx_provision" "12 < e" "e < 256" "bt_get (gne_cancelled s) ''k'' \<noteq> Some (ucast e)"
    "bt_get (gne_pending s) ''k'' = Some \<lparr> pnr_request = nx_request e, pnr_request_digest = ucast e, pnr_accepted_wall_time = 10,
        pnr_started_monotonic = 1, pnr_not_before_monotonic = 6, pnr_boot_id = ''b'' \<rparr>"
  shows "\<exists>c. nx_exec (nx_release_op e) s = (Inr (GuardianContributed c), s \<lparr> gne_released := bt_insert ''k'' (ucast e) (gne_released s) \<rparr>)"
proof -
  obtain m m' where m: "begin_at (nx_request e) (ucast e) 10 1 5 True (GuardianMachine_new 7 1) = (Inr 6, m)"
    "authorize_release_at 3 (ucast e) 12 6 True True m = (Inr (), m')"
    using nx_machine [OF assms(2)] by blast
  obtain c where c: "guardian_material nx_prims False (nx_request e) (ucast e) nx_provision = Inr c"
    by (simp add: guardian_material_def sign_guardian_contribution_def guardian_contribution_def nx_provision_def transcript_ok
        MAX_FIELD_LEN_def)
  have "12 \<in> {10..<e}" "10 < e" using assms(2) by (auto intro: order.strict_trans [rotated])
  with assms nx_release_ok [of 12 e] nx_digest [of e] m c show ?thesis
    by (auto simp: entry_exec_def handle_guardian_def guardian_release_def attempt_eq ok_or_eq_Inr Let_def nx_provision_def nx_request_def)
qed

lemma nx_run:
  "\<exists>ack ack' c t. run_log nx_exec (GuardianEntry_new nx_provision)
     [nx_cancel_op 20, nx_cancel_op 20, nx_begin_op 21, nx_cancel_op 21, nx_release_op 21] =
   ([(nx_cancel_op 20, Inr (CancellationAccepted ack)), (nx_cancel_op 20, Inr (CancellationAccepted ack')),
     (nx_begin_op 21, Inr (BeginAccepted 6)), (nx_cancel_op 21, Inl (bad_request (Text ''cancellation digest conflict''))),
     (nx_release_op 21, Inr (GuardianContributed c))], t)"
proof -
  let ?e = "GuardianEntry_new nx_provision"
  let ?e1 = "?e \<lparr> gne_cancelled := bt_insert ''k'' 20 (gne_cancelled ?e) \<rparr>"
  let ?e2 = "?e1 \<lparr> gne_cancelled := bt_insert ''k'' 20 (gne_cancelled ?e1) \<rparr>"
  let ?e3 = "?e2 \<lparr> gne_seen_nonces := {21}, gne_pending := bt_insert ''k''
      \<lparr> pnr_request = nx_request 21, pnr_request_digest = 21, pnr_accepted_wall_time = 10, pnr_started_monotonic = 1,
        pnr_not_before_monotonic = 6, pnr_boot_id = ''b'' \<rparr> (gne_pending ?e2) \<rparr>"
  have f: "gne_provision ?e = nx_provision" "gne_pending ?e = []" "gne_cancelled ?e = []" "gne_released ?e = []"
    "gne_seen_nonces ?e = {}" by (simp_all add: GuardianEntry_new_def)
  obtain ack where 1: "nx_exec (nx_cancel_op 20) ?e = (Inr (CancellationAccepted ack), ?e1)"
    using nx_cancel_step [of ?e 20] f by auto
  obtain ack' where 2: "nx_exec (nx_cancel_op 20) ?e1 = (Inr (CancellationAccepted ack'), ?e2)"
    using nx_cancel_step [of ?e1 20] f by auto
  have 3: "nx_exec (nx_begin_op 21) ?e2 = (Inr (BeginAccepted 6), ?e3)"
    using nx_begin_step [of ?e2 21] f by auto
  have 4: "nx_exec (nx_cancel_op 21) ?e3 = (Inl (bad_request (Text ''cancellation digest conflict'')), ?e3)"
    using nx_conflict_step [of ?e3 21 20] f by auto
  obtain c where 5: "nx_exec (nx_release_op 21) ?e3 = (Inr (GuardianContributed c), ?e3 \<lparr> gne_released := bt_insert ''k'' 21 (gne_released ?e3) \<rparr>)"
    using nx_release_step [of ?e3 21] f by auto
  show ?thesis using 1 2 3 4 5 by auto
qed

theorem begin_certificate_exact_witness: "validate_begin_for_policy nx_prims (nx_begin 20) nx_policy 10 = Inr ()"
  using begin_certificate_exact [of nx_prims "nx_begin 20" nx_policy 10] nx_checks(1) [of 20]
  by (auto simp: nx_begin_def nx_request_def nx_provision_def)

theorem release_certificate_exact_witness:
  "validate_release_for_policy nx_prims (nx_release 20) nx_policy (nx_request 20) 10 = Inr ()"
  using release_certificate_exact [of nx_prims "nx_release 20" nx_policy "nx_request 20" 10] nx_checks(2) [of 20] nx_checks(4)
    nx_digest [of 20] nx_fresh [of 10 20]
  by (auto simp: nx_release_def nx_request_def nx_provision_def vote_for_def vote_signed_def nx_eval validate_membership_def)

theorem entry_release_due_witness:
  "\<exists>c digest. guardian_material nx_prims False (nx_request 21) digest nx_provision = Inr c \<and>
     request_digest nx_prims (nx_request 21) = Inr digest"
proof -
  from nx_run obtain ack ack' c t where run: "run_log nx_exec (GuardianEntry_new nx_provision)
     [nx_cancel_op 20, nx_cancel_op 20, nx_begin_op 21, nx_cancel_op 21, nx_release_op 21] =
     ([(nx_cancel_op 20, Inr (CancellationAccepted ack)), (nx_cancel_op 20, Inr (CancellationAccepted ack')),
     (nx_begin_op 21, Inr (BeginAccepted 6)), (nx_cancel_op 21, Inl (bad_request (Text ''cancellation digest conflict'')))] @
     (nx_release_op 21, Inr (GuardianContributed c)) # [], t)" by auto
  from entry_release_due [OF run] show ?thesis by blast
qed

lemma nx_filed: "filed nx_prims (\<lambda>_. ''k'') (nx_request 20) ''k'' 20"
  using nx_digest [of 20] by (simp add: filed_def)

lemma nx_cancels: "cancels nx_prims (\<lambda>_. ''k'') ''k'' 20 (nx_cancel_op 20, Inr (CancellationAccepted ack))"
  using nx_filed by (auto simp: cancels_def)

theorem entry_cancel_excludes_release_witness:
  "\<exists>l t c. run_log nx_exec (GuardianEntry_new nx_provision)
     [nx_cancel_op 20, nx_cancel_op 20, nx_begin_op 21, nx_cancel_op 21, nx_release_op 21] = (l, t) \<and>
     (nx_release_op 21, Inr (GuardianContributed c)) \<in> set l \<and>
     \<not> releases nx_prims (\<lambda>_. ''k'') ''k'' 20 (nx_release_op 21, Inr (GuardianContributed c))"
proof -
  from nx_run obtain ack ack' c t where run: "run_log nx_exec (GuardianEntry_new nx_provision)
     [nx_cancel_op 20, nx_cancel_op 20, nx_begin_op 21, nx_cancel_op 21, nx_release_op 21] =
     ([(nx_cancel_op 20, Inr (CancellationAccepted ack)), (nx_cancel_op 20, Inr (CancellationAccepted ack')),
     (nx_begin_op 21, Inr (BeginAccepted 6)), (nx_cancel_op 21, Inl (bad_request (Text ''cancellation digest conflict''))),
     (nx_release_op 21, Inr (GuardianContributed c))], t)" by blast
  from entry_cancel_excludes_release [OF run _ _ nx_cancels, where y = "(nx_release_op 21, Inr (GuardianContributed c))"] run
  show ?thesis by fastforce
qed

theorem cancelled_identifier_reused_witness:
  "\<exists>ack t t1 t2 t3 c. run_log nx_exec (GuardianEntry_new nx_provision) [nx_cancel_op 20] = ([(nx_cancel_op 20, Inr (CancellationAccepted ack))], t) \<and>
     nx_exec (nx_begin_op 21) t = (Inr (BeginAccepted 6), t1) \<and>
     nx_exec (nx_cancel_op 21) t1 = (Inl (bad_request (Text ''cancellation digest conflict'')), t2) \<and>
     nx_exec (nx_release_op 21) t2 = (Inr (GuardianContributed c), t3)"
proof -
  let ?e = "GuardianEntry_new nx_provision"
  let ?t = "?e \<lparr> gne_cancelled := bt_insert ''k'' 20 (gne_cancelled ?e) \<rparr>"
  have f: "gne_provision ?e = nx_provision" "gne_pending ?e = []" "gne_cancelled ?e = []" "gne_released ?e = []"
    "gne_seen_nonces ?e = {}" by (simp_all add: GuardianEntry_new_def)
  obtain ack where ack: "nx_exec (nx_cancel_op 20) ?e = (Inr (CancellationAccepted ack), ?t)"
    using nx_cancel_step [of ?e 20] f by auto
  then have run: "run_log nx_exec ?e [nx_cancel_op 20] = ([(nx_cancel_op 20, Inr (CancellationAccepted ack))], ?t)" by simp
  obtain c where c: "guardian_material nx_prims False (nx_request 21) 21 nx_provision = Inr c"
    by (simp add: guardian_material_def sign_guardian_contribution_def guardian_contribution_def nx_provision_def transcript_ok
        MAX_FIELD_LEN_def)
  have filed: "filed nx_prims (\<lambda>_. ''k'') (nx_request 21) ''k'' 21" using nx_digest [of 21] by (simp add: filed_def)
  have wall: "(10 :: u64) \<in> {10..<21}" "(12 :: u64) \<in> {10..<21}" by auto
  have request: "brc_request (nx_begin 21) = nx_request 21" by (simp add: nx_begin_def)
  have delay: "saturating_add 1 (gp_minimum_recovery_delay nx_policy) \<le> 6" by (simp add: nx_provision_def saturating_add_def)
  obtain nb t1 where b: "nx_exec (nx_begin_op 21) ?t = (Inr (BeginAccepted nb), t1)"
    and rest: "\<And>ops2 l2 t2. run_log nx_exec t1 ops2 = (l2, t2) \<Longrightarrow>
      \<exists>t3. nx_exec (nx_release_op 21) t2 = (Inr (GuardianContributed c), t3)"
    using cancelled_identifier_reused [OF run _ nx_cancels request filed _ _ _ nx_begin_ok [OF wall(1)] nx_release_ok [OF wall(2)] delay c] f
    by fastforce
  have nb: "nb = 6" "gne_provision t1 = nx_provision" "gne_released t1 = []" "gne_cancelled t1 = bt_insert ''k'' 20 []"
    using b nx_begin_step [of ?t 21] f by auto
  have conflict: "nx_exec (nx_cancel_op 21) t1 = (Inl (bad_request (Text ''cancellation digest conflict'')), t1)"
    using nx_conflict_step [of t1 21 20] nb by auto
  then have "run_log nx_exec t1 [nx_cancel_op 21] = ([(nx_cancel_op 21, Inl (bad_request (Text ''cancellation digest conflict'')))], t1)"
    by simp
  from rest [OF this] run b nb(1) conflict show ?thesis by blast
qed

theorem owner_cancellation_acknowledged_witness:
  "\<exists>certificate ack e. make_owner_cancel_certificate nx_prims (nx_request 20) 0 (replicate XWING_PUBLIC_KEY_LEN 0) 0 10 = Inr certificate \<and>
     nx_exec (10, 0, ''b'', GuardianCancel (nx_request 20) certificate) (GuardianEntry_new nx_provision) =
       (Inr (CancellationAccepted ack), e) \<and>
     nx_exec (nx_release_op 20) e = (Inr (ReleaseRefused ''cancelled''), e)"
proof -
  obtain certificate where c: "make_owner_cancel_certificate nx_prims (nx_request 20) 0 (replicate XWING_PUBLIC_KEY_LEN 0) 0 10 = Inr certificate"
    using nx_digest [of 20]
    by (auto simp: make_owner_cancel_certificate_def owner_cancel_def nx_request_def transcript_ok MAX_FIELD_LEN_def XWING_PUBLIC_KEY_LEN_def)
  let ?route = "\<lparr> gr_mailbox = [], gr_opaque_slot_id = 0, gr_guardian_index = 1, gr_guardian_public_key = 0 \<rparr>"
  have e: "gne_provision (GuardianEntry_new nx_provision) = nx_provision" "gne_cancelled (GuardianEntry_new nx_provision) = []"
    "gne_released (GuardianEntry_new nx_provision) = []" by (simp_all add: GuardianEntry_new_def)
  have "signatures_correct nx_prims" by (simp add: signatures_correct_def nx_eval)
  from owner_cancellation_acknowledged [OF this c, of "GuardianEntry_new nx_provision" 10 "\<lambda>_. ''k''" "''k''" 20 ?route False 0 "''b''"]
    nx_filed nx_fresh [of 10 20] c
  show ?thesis by (auto simp: e nx_eval) (auto simp: nx_provision_def nx_request_def)
qed

end
