(* ===== verification/GP_Recovery_Roundtrip.thy ===== *)
theory GP_Recovery_Roundtrip
  imports GP_Node_V2 GP_Sharing_Safety
begin

text \<open>
  Protocol 2 from end to end: what the owner sets up, a threshold of signers and a threshold of
  guardians give back. The laws of the third-party primitives are named hypotheses.
\<close>

section \<open>What the primitives promise\<close>

text \<open>Decryption inverts encryption, and the ciphertext is 16 bytes longer than the plaintext.\<close>

definition aead_correct :: "primitives \<Rightarrow> bool" where
  "aead_correct cp \<longleftrightarrow> (\<forall>k n p a c. xchacha_encrypt cp k n p a = Some c \<longrightarrow>
     xchacha_decrypt cp k n c a = Some p \<and> length c = length p + 16)"

definition kem_correct :: "primitives \<Rightarrow> bool" where
  "kem_correct cp \<longleftrightarrow> (\<forall>seed kem c k. xwing_encapsulate cp (xwing_public cp seed) kem = Some (c, k) \<longrightarrow>
     xwing_decapsulate cp seed c = Some k)"

definition json_correct :: "descriptor_json \<Rightarrow> bool" where
  "json_correct js \<longleftrightarrow> (\<forall>d b. descriptor_to_vec js d = Some b \<longrightarrow> descriptor_from_slice js b = Some d)"

lemma json_eq_Inr [simp]: "json r = Inr a \<longleftrightarrow> r = Some a"
  by (simp add: json_def ok_or_eq_Inr)

lemma arr32_try_from_bytes32 [simp]: "arr32_try_from msg (bytes32 k) = Inr k"
  proof -
  have "unat k < 256 ^ 32" using unsigned_less [of k, where 'a = nat] by simp
  then have "from_be (be_bytes 32 (unat k)) = unat k" by (rule from_be_be_bytes)
  then show ?thesis by (simp add: arr32_try_from_def bytes32_def)
qed

lemma aead_decrypt_encrypt:
  assumes "aead_correct cp" and "aead_encrypt cp k n p a = Inr c"
  shows "aead_decrypt cp k c a = Inr p" and "ac_nonce c = n" and "length (ac_ciphertext c) = length p + 16"
  using assms by (auto simp: aead_encrypt_def aead_decrypt_def aead_correct_def ok_or_eq_Inr)

lemma open_sealed_seal:
  assumes "aead_correct cp" "kem_correct cp" and "seal_to_recipient cp (xwing_public cp seed) kem n p a = Inr m"
  shows "open_sealed cp seed m a = Inr p"
  using assms(2,3) aead_decrypt_encrypt(1) [OF assms(1)]
  by (fastforce simp: seal_to_recipient_def open_sealed_def kem_correct_def ok_or_eq_Inr)

section \<open>Indices\<close>

lemma index16:
  assumes "i < unat (n :: u16)"
  shows "(of_nat (i + 1) :: u16) \<noteq> 0" and "(of_nat (i + 1) :: u16) \<le> n" and "unat (of_nat (i + 1) - 1 :: u16) = i"
    and "unat (of_nat (i + 1) :: u16) = i + 1"
proof -
  have "i + 1 < 65536" using assms unsigned_less [of n, where 'a = nat] by simp
  then show u: "unat (of_nat (i + 1) :: u16) = i + 1" by (simp add: unsigned_of_nat take_bit_nat_eq_self del: of_nat_Suc of_nat_add)
  then show "(of_nat (i + 1) :: u16) \<noteq> 0" by (metis add_is_0 unat_0 zero_neq_one)
  show "(of_nat (i + 1) :: u16) \<le> n" unfolding word_le_nat_alt u using assms by simp
  have "(of_nat (i + 1) - 1 :: u16) = of_nat i" by simp
  then show "unat (of_nat (i + 1) - 1 :: u16) = i"
    using \<open>i + 1 < 65536\<close> by (simp add: unsigned_of_nat take_bit_nat_eq_self)
qed

section \<open>The set-up\<close>

lemma setup_signers_ok:
  assumes "setup_signers cp dr policy shares off ms = Inr ss"
  shows "length ss = length ms \<and> (\<forall>i < length ms. \<exists>t.
    signer_leaf (of_nat (off + i + 1)) (verifying_key_bytes cp (dr_signer_seed dr (off + i))) = Inr t \<and> fst (ss ! i) = sha256 cp t \<and>
    ss_signer_id (snd (ss ! i)) = of_nat (off + i + 1) \<and> ss_authorization_share (snd (ss ! i)) = shares ! (off + i) \<and>
    ss_signing_seed (snd (ss ! i)) = dr_signer_seed dr (off + i) \<and>
    ss_signing_public_key (snd (ss ! i)) = verifying_key_bytes cp (dr_signer_seed dr (off + i)))"
  using assms
proof (induction ms arbitrary: off ss)
  case (Cons m ms)
  from Cons.prems obtain t rest where t: "signer_leaf (of_nat (off + 1)) (verifying_key_bytes cp (dr_signer_seed dr off)) = Inr t"
    and rest: "setup_signers cp dr policy shares (Suc off) ms = Inr rest" and ss: "ss = (sha256 cp t, \<lparr> ss_signer_id = of_nat (off + 1),
      ss_mailbox = m, ss_authorization_share = shares ! off, ss_signing_seed = dr_signer_seed dr off,
      ss_signing_public_key = verifying_key_bytes cp (dr_signer_seed dr off), ss_membership_proof = [],
      ss_policy = \<lparr> sp_config_id = dr_config_id dr, sp_config_version = 1, sp_signer_set_commitment = 0,
        sp_signer_threshold = setup_signer_threshold policy \<rparr>, ss_seen_requests = [], ss_seen_nonces = {} \<rparr>) # rest"
    by (auto simp: Let_def u16_try_from_def split: if_splits)
  from Cons.IH [OF rest] show ?case
    using t by (auto simp: ss nth_Cons split: nat.split simp del: of_nat_add of_nat_Suc)
qed simp

definition sets_up_guardian ::
    "primitives \<Rightarrow> setup_draws \<Rightarrow> Id32 \<Rightarrow> byte list list \<Rightarrow> byte list list \<Rightarrow> nat \<Rightarrow>
     Id32 \<times> GuardianRoute \<times> Id32 \<times> byte list \<times> AeadCiphertext \<Rightarrow> bool"
where
  "sets_up_guardian cp dr authorization fragments dek_shares i = (\<lambda>(h, route, seed, fragment, enc).
     gr_guardian_index route = of_nat (i + 1) \<and> gr_guardian_public_key route = verifying_key_bytes cp seed \<and>
     fragment = fragments ! i \<and>
     (\<exists>key nonce context. guardian_share_key cp authorization (dr_config_id dr) 1 (of_nat (i + 1)) = Inr key \<and>
        guardian_share_context (dr_config_id dr) 1 (of_nat (i + 1)) = Inr context \<and>
        aead_encrypt cp key nonce (dek_shares ! i) context = Inr enc) \<and>
     (\<exists>t. guardian_leaf (dr_config_id dr) 1 (of_nat (i + 1)) (sha256 cp fragment) (hash_aead cp enc) = Inr t \<and> h = sha256 cp t))"

lemma setup_guardians_ok:
  assumes "setup_guardians cp dr (bytes32 a) fragments shares off ms = Inr raw"
  shows "length raw = length ms \<and> (\<forall>i < length ms. sets_up_guardian cp dr a fragments shares (off + i) (raw ! i))"
  using assms
proof (induction ms arbitrary: off raw)
  case (Cons m ms)
  from Cons.prems obtain key ctx enc t rest where
    f: "guardian_share_key cp a (dr_config_id dr) 1 (of_nat (off + 1)) = Inr key"
    "guardian_share_context (dr_config_id dr) 1 (of_nat (off + 1)) = Inr ctx"
    "aead_encrypt cp key (dr_share_nonce dr off) (shares ! off) ctx = Inr enc"
    "guardian_leaf (dr_config_id dr) 1 (of_nat (off + 1)) (sha256 cp (fragments ! off)) (hash_aead cp enc) = Inr t"
    "setup_guardians cp dr (bytes32 a) fragments shares (Suc off) ms = Inr rest"
    and raw: "raw = (sha256 cp t, \<lparr> gr_mailbox = m, gr_opaque_slot_id = dr_slot dr off, gr_guardian_index = of_nat (off + 1),
      gr_guardian_public_key = verifying_key_bytes cp (dr_guardian_seed dr off) \<rparr>, dr_guardian_seed dr off, fragments ! off, enc) # rest"
    by (auto simp: Let_def u16_try_from_def simp del: of_nat_add of_nat_Suc split: if_splits)
  have "sets_up_guardian cp dr a fragments shares off (hd raw)"
    unfolding sets_up_guardian_def raw using f(1-4) by auto
  with Cons.IH [OF f(5)] show ?case
    by (auto simp: raw nth_Cons split: nat.split)
qed simp

text \<open>The facts behind a successful set-up.\<close>

lemma create_setup_elim:
  assumes "create_setup cp sp js hx dr secret policy sm gm bases relays = Inr b"
  obtains a_shares signers root sproofs pctx payload fragments dek_shares raw groot proofs bytes key dctx enc d where
    "length sm = unat (setup_signer_count policy)" "length gm = unat (setup_guardian_count policy)"
    "setup_signer_threshold policy \<noteq> 0" "setup_signer_threshold policy \<le> setup_signer_count policy"
    "setup_guardian_threshold policy \<noteq> 0" "setup_guardian_threshold policy \<le> setup_guardian_count policy"
    "split_secret sp (bytes32 (dr_authorization_key dr)) (setup_signer_threshold policy) (setup_signer_count policy) (dr_a_seed dr) = Inr a_shares"
    "setup_signers cp dr policy a_shares 0 sm = Inr signers" "merkle_commit cp (map fst signers) = Inr (root, sproofs)"
    "payload_context (dr_config_id dr) 1 = Inr pctx" "aead_encrypt cp (dr_dek dr) (dr_payload_nonce dr) secret pctx = Inr payload"
    "erasure_encode sp (ac_ciphertext payload) (setup_guardian_threshold policy) (setup_guardian_count policy) = Inr fragments"
    "split_secret sp (bytes32 (dr_dek dr)) (setup_guardian_threshold policy) (setup_guardian_count policy) (dr_dek_seed dr) = Inr dek_shares"
    "setup_guardians cp dr (bytes32 (dr_authorization_key dr)) fragments dek_shares 0 gm = Inr raw"
    "merkle_commit cp (map fst raw) = Inr (groot, proofs)"
    "d = \<lparr> rd_guardians = map (\<lambda>(_, route, _). route) raw, rd_guardian_material_root = groot,
       rd_data_shards = setup_guardian_threshold policy, rd_total_shards = setup_guardian_count policy,
       rd_ciphertext_len = of_nat (length (ac_ciphertext payload)), rd_payload_nonce = dr_payload_nonce dr \<rparr>"
    "descriptor_to_vec js d = Some bytes" "descriptor_key cp (dr_authorization_key dr) (dr_config_id dr) 1 = Inr key"
    "descriptor_context (dr_config_id dr) 1 = Inr dctx" "aead_encrypt cp key (dr_descriptor_nonce dr) bytes dctx = Inr enc"
    "sb_signers b = map (with_membership root) (zip (map snd signers) sproofs)"
    "cc_config_id (sb_capsule b) = dr_config_id dr" "cc_config_version (sb_capsule b) = 1"
    "cc_signer_count (sb_capsule b) = setup_signer_count policy" "cc_signer_threshold (sb_capsule b) = setup_signer_threshold policy"
    "cc_guardian_count (sb_capsule b) = setup_guardian_count policy" "cc_guardian_threshold (sb_capsule b) = setup_guardian_threshold policy"
    "cc_signer_set_commitment (sb_capsule b) = root" "cc_guardian_material_commitment (sb_capsule b) = groot"
    "cc_encrypted_recovery_descriptor (sb_capsule b) = enc" "validate_capsule (sb_card b) (sb_capsule b) = Inr ()"
    "\<exists>policy'. sb_guardians b = map (guardian_provision policy') (zip raw proofs) \<and> gp_config_id policy' = dr_config_id dr \<and>
       gp_config_version policy' = 1 \<and> gp_signer_set_commitment policy' = root \<and> gp_signer_count policy' = setup_signer_count policy \<and>
       gp_signer_threshold policy' = setup_signer_threshold policy"
proof -
  show thesis
    using assms unfolding create_setup_def Let_def
    apply (clarsimp simp only: if_bail_ok bindR_eq_Inr crypt_ok wire_ok json_eq_Inr arr32_try_from_bytes32 not_less
        de_Morgan_disj not_not sum.inject prod.case)
    apply (rule that)
                        apply assumption+
                       apply (rule HOL.refl)
                      apply assumption+
                 apply (simp_all add: with_membership_def)
     apply (auto simp: validate_capsule_def PROTOCOL_VERSION_def not_less word_le_nat_alt unat_eq_zero [symmetric] simp del: unat_eq_zero)
    done
qed


section \<open>Signers\<close>

lemma merkle_commit_length: "merkle_commit cp leaves = Inr (root, proofs) \<Longrightarrow> length proofs = length leaves"
  by (auto simp: merkle_commit_def split: if_splits)

text \<open>A signer of the set-up: its share, its key and its place in the committed set.\<close>

definition committed_signer :: "primitives \<Rightarrow> Id32 \<Rightarrow> u16 \<Rightarrow> byte list list \<Rightarrow> nat \<Rightarrow> SignerState \<Rightarrow> bool" where
  "committed_signer cp root n a_shares i s \<longleftrightarrow> ss_signer_id s = of_nat (i + 1) \<and> ss_authorization_share s = a_shares ! i \<and>
     ss_signing_public_key s = verifying_key_bytes cp (ss_signing_seed s) \<and>
     validate_membership cp (ss_signer_id s) (ss_signing_public_key s) (ss_membership_proof s) root n = Inr ()"

lemma setup_committed_signer:
  assumes "merkle_complete cp" and "setup_signers cp dr policy a_shares 0 sm = Inr signers"
    and "merkle_commit cp (map fst signers) = Inr (root, sproofs)" and "length sm = unat n" and i: "i < unat n"
  shows "committed_signer cp root n a_shares i (map (with_membership root) (zip (map snd signers) sproofs) ! i)"
proof -
  from setup_signers_ok [OF assms(2)] assms(4) i obtain t where len: "length signers = unat n"
    and t: "signer_leaf (of_nat (i + 1)) (verifying_key_bytes cp (dr_signer_seed dr i)) = Inr t" "fst (signers ! i) = sha256 cp t"
    and s: "ss_signer_id (snd (signers ! i)) = of_nat (i + 1)" "ss_authorization_share (snd (signers ! i)) = a_shares ! i"
      "ss_signing_seed (snd (signers ! i)) = dr_signer_seed dr i"
      "ss_signing_public_key (snd (signers ! i)) = verifying_key_bytes cp (dr_signer_seed dr i)"
    by (auto simp del: of_nat_add of_nat_Suc)
  have proofs: "length sproofs = unat n" using merkle_commit_length [OF assms(3)] len by simp
  have member: "merkle_verify cp root (sha256 cp t) i (unat n) (sproofs ! i) = Inr ()"
    using merkle_commit_verify [OF assms(1,3), of i] t(2) len i by simp
  have at: "map (with_membership root) (zip (map snd signers) sproofs) ! i = with_membership root (snd (signers ! i), sproofs ! i)"
    using len proofs i by simp
  have "validate_membership cp (of_nat (i + 1)) (verifying_key_bytes cp (dr_signer_seed dr i)) (sproofs ! i) root n = Inr ()"
    using index16 [OF i] t(1) member by (simp add: validate_membership_def not_less del: of_nat_add of_nat_Suc)
  then have "committed_signer cp root n a_shares i (with_membership root (snd (signers ! i), sproofs ! i))"
    unfolding committed_signer_def with_membership_def prod.case using s by (simp del: of_nat_add of_nat_Suc)
  then show ?thesis by (simp only: at)
qed

lemma signer_contribution_ok:
  assumes "aead_correct cp" "kem_correct cp" "signatures_correct cp" and s: "committed_signer cp root n a_shares i s"
    and rq: "rq_recovery_recipient_key request = xwing_public cp recipient"
    and c: "signer_contribution cp kem nonce request s = Inr c"
  shows "sc_request c = request \<and> sc_signer_id c = of_nat (i + 1) \<and> check_contribution cp request root n c = Inr () \<and>
    (\<exists>ctx. recipient_share_context request (sc_signer_id c) = Inr ctx \<and>
      open_sealed cp recipient (sc_encrypted_a_share c) ctx = Inr (a_shares ! i))"
proof -
  from c obtain ctx enc t where f: "recipient_share_context request (ss_signer_id s) = Inr ctx"
    "seal_to_recipient cp (xwing_public cp recipient) kem nonce (ss_authorization_share s) ctx = Inr enc"
    "signer_approval request (ss_signer_id s) enc = Inr t"
    and c: "c = \<lparr> sc_request = request, sc_signer_id = ss_signer_id s, sc_signer_public_key = ss_signing_public_key s,
      sc_signer_signature = sign cp (ss_signing_seed s) t, sc_signer_membership_proof = ss_membership_proof s,
      sc_encrypted_a_share = enc \<rparr>"
    by (auto simp: signer_contribution_def rq)
  from assms(3) have "verify cp (verifying_key_bytes cp (ss_signing_seed s)) t (sign cp (ss_signing_seed s) t) = Inr ()"
    by (simp add: signatures_correct_def)
  moreover note open_sealed_seal [OF assms(1,2) f(2)]
  ultimately show ?thesis
    using f s by (auto simp: c committed_signer_def check_contribution_def simp del: of_nat_add of_nat_Suc)
qed

text \<open>The loops over honest contributions accept them all.\<close>

lemma open_a_shares_all:
  assumes "list_all2 (\<lambda>c s. sc_request c = request \<and>
      check_contribution cp request (cc_signer_set_commitment capsule) (cc_signer_count capsule) c = Inr () \<and>
      (\<exists>ctx. recipient_share_context request (sc_signer_id c) = Inr ctx \<and> open_sealed cp recipient (sc_encrypted_a_share c) ctx = Inr s))
      cs shares"
    and "distinct (map sc_signer_id cs)" and "set (map sc_signer_id cs) \<inter> ids = {}"
  shows "open_a_shares cp request capsule recipient ids cs = Inr shares"
  using assms by (induction arbitrary: ids rule: list_all2_induct) auto


lemma open_a_shares_honest:
  assumes laws: "aead_correct cp" "kem_correct cp" "signatures_correct cp"
    and signers: "\<And>i. i < unat n \<Longrightarrow> committed_signer cp root n a_shares i (ss ! i)"
    and rq: "rq_recovery_recipient_key request = xwing_public cp recipient"
    and S: "distinct S" "set S \<subseteq> {..<unat n}"
    and cs: "list_all2 (\<lambda>i c. \<exists>kem nonce. signer_contribution cp kem nonce request (ss ! i) = Inr c) S cs"
    and cap: "cc_signer_set_commitment capsule = root" "cc_signer_count capsule = n"
  shows "open_a_shares cp request capsule recipient {} cs = Inr (map ((!) a_shares) S) \<and>
    distinct (map sc_signer_id cs) \<and>
    (\<forall>c \<in> set cs. sc_request c = request \<and> check_contribution cp request root n c = Inr ())"
proof -
  let ?ok = "\<lambda>i c. sc_request c = request \<and> sc_signer_id c = of_nat (i + 1) \<and> check_contribution cp request root n c = Inr () \<and>
    (\<exists>ctx. recipient_share_context request (sc_signer_id c) = Inr ctx \<and>
      open_sealed cp recipient (sc_encrypted_a_share c) ctx = Inr (a_shares ! i))"
  have one: "?ok i c" if i: "i \<in> set S" and c: "\<exists>kem nonce. signer_contribution cp kem nonce request (ss ! i) = Inr c" for i c
  proof -
    from c obtain kem nonce where e: "signer_contribution cp kem nonce request (ss ! i) = Inr c" by blast
    have "i < unat n" using i S(2) by auto
    from signer_contribution_ok [OF laws signers [OF this] rq e] show ?thesis .
  qed
  have ok: "list_all2 ?ok S cs"
    using cs by (rule list.rel_mono_strong) (rule one)
  have ids: "map sc_signer_id cs = map (\<lambda>i. of_nat (i + 1)) S"
    using ok by (induction rule: list_all2_induct) auto
  have "inj_on (\<lambda>i. of_nat (i + 1) :: u16) (set S)"
    using S(2) index16(4) [where n = n] by (intro inj_onI) (metis add_right_cancel lessThan_iff subsetD)
  with S(1) have dist: "distinct (map sc_signer_id cs)" by (simp add: ids distinct_map)
  moreover have "open_a_shares cp request capsule recipient {} cs = Inr (map ((!) a_shares) S)"
  proof (rule open_a_shares_all [OF _ dist])
    show "list_all2 (\<lambda>c s. sc_request c = request \<and>
      check_contribution cp request (cc_signer_set_commitment capsule) (cc_signer_count capsule) c = Inr () \<and>
      (\<exists>ctx. recipient_share_context request (sc_signer_id c) = Inr ctx \<and> open_sealed cp recipient (sc_encrypted_a_share c) ctx = Inr s))
      cs (map ((!) a_shares) S)"
      using ok cap by (auto simp: list_all2_conv_all_nth)
  qed simp
  moreover have "\<forall>c \<in> set cs. sc_request c = request \<and> check_contribution cp request root n c = Inr ()"
    using ok by (auto simp: list_all2_conv_all_nth in_set_conv_nth)
  ultimately show ?thesis by blast
qed

section \<open>Guardians\<close>

definition committed_guardian ::
    "primitives \<Rightarrow> Id32 \<Rightarrow> Id32 \<Rightarrow> Id32 \<Rightarrow> u16 \<Rightarrow> byte list list \<Rightarrow> byte list list \<Rightarrow> nat \<Rightarrow> GuardianRoute \<Rightarrow> GuardianProvision \<Rightarrow> bool"
where
  "committed_guardian cp a cfg root n fragments dek_shares i route p \<longleftrightarrow> (let rec = gpv_record p in
     grec_guardian_index rec = of_nat (i + 1) \<and> grec_ciphertext_fragment rec = fragments ! i \<and>
     gr_guardian_index route = of_nat (i + 1) \<and> gr_guardian_public_key route = verifying_key_bytes cp (gpv_signing_seed p) \<and>
     (\<exists>key ctx. guardian_share_key cp a cfg 1 (of_nat (i + 1)) = Inr key \<and> guardian_share_context cfg 1 (of_nat (i + 1)) = Inr ctx \<and>
        aead_decrypt cp key (grec_encrypted_dek_share rec) ctx = Inr (dek_shares ! i)) \<and>
     (\<exists>t. guardian_leaf cfg 1 (of_nat (i + 1)) (sha256 cp (fragments ! i)) (hash_aead cp (grec_encrypted_dek_share rec)) = Inr t \<and>
        merkle_verify cp root (sha256 cp t) i (unat n) (grec_merkle_path_proof rec) = Inr ()))"

lemma setup_committed_guardian:
  assumes "aead_correct cp" "merkle_complete cp"
    and "setup_guardians cp dr (bytes32 a) fragments dek_shares 0 gm = Inr raw"
    and "merkle_commit cp (map fst raw) = Inr (root, proofs)" and "length gm = unat n" and i: "i < unat n"
  shows "committed_guardian cp a (dr_config_id dr) root n fragments dek_shares i (map (\<lambda>(_, route, _). route) raw ! i)
    (map (guardian_provision policy) (zip raw proofs) ! i)"
proof -
  from setup_guardians_ok [OF assms(3)] assms(5) i have len: "length raw = unat n"
    and at: "sets_up_guardian cp dr a fragments dek_shares i (raw ! i)" by auto
  obtain h route seed fragment enc where raw: "raw ! i = (h, route, seed, fragment, enc)" by (metis prod_cases5)
  have proofs: "length proofs = unat n" using merkle_commit_length [OF assms(4)] len by simp
  have verify: "merkle_verify cp root h i (unat n) (proofs ! i) = Inr ()"
    using merkle_commit_verify [OF assms(2,4), of i] len i raw by simp
  have nth: "map (\<lambda>(_, route, _). route) raw ! i = route"
    "map (guardian_provision policy) (zip raw proofs) ! i = guardian_provision policy (raw ! i, proofs ! i)"
    using len proofs i raw by simp_all
  from at raw obtain key nonce ctx t where f: "gr_guardian_index route = of_nat (i + 1)" "fragment = fragments ! i"
    "gr_guardian_public_key route = verifying_key_bytes cp seed"
    "guardian_share_key cp a (dr_config_id dr) 1 (of_nat (i + 1)) = Inr key"
    "guardian_share_context (dr_config_id dr) 1 (of_nat (i + 1)) = Inr ctx" "aead_encrypt cp key nonce (dek_shares ! i) ctx = Inr enc"
    "guardian_leaf (dr_config_id dr) 1 (of_nat (i + 1)) (sha256 cp fragment) (hash_aead cp enc) = Inr t" "h = sha256 cp t"
    unfolding sets_up_guardian_def by auto
  have "committed_guardian cp a (dr_config_id dr) root n fragments dek_shares i route
      (guardian_provision policy ((h, route, seed, fragment, enc), proofs ! i))"
    unfolding committed_guardian_def Let_def guardian_provision_def prod.case
    using f verify aead_decrypt_encrypt(1) [OF assms(1) f(6)] by (simp del: of_nat_add of_nat_Suc)
  then show ?thesis by (simp only: nth raw)
qed

lemma guardian_material_ok:
  assumes "signatures_correct cp" and g: "committed_guardian cp a cfg root n fragments dek_shares i route p" and i: "i < unat n"
    and rq: "request_digest cp request = Inr digest" "rq_config_id request = cfg" "rq_config_version request = 1"
    and d: "rd_guardian_material_root d = root" "rd_total_shards d = n"
    and c: "guardian_material cp False request digest p = Inr c"
  shows "validate_guardian_contribution cp c route d request (bytes32 a) = Inr (dek_shares ! i) \<and>
    gc_guardian_index c = of_nat (i + 1) \<and> gc_ciphertext_fragment c = fragments ! i"
proof -
  let ?rec = "gpv_record p"
  let ?u = "\<lparr> gc_protocol_version = PROTOCOL_VERSION, gc_config_id = cfg, gc_config_version = 1, gc_request_id = rq_request_id request,
       gc_request_digest = digest, gc_guardian_index = grec_guardian_index ?rec, gc_ciphertext_fragment = grec_ciphertext_fragment ?rec,
       gc_encrypted_dek_share = grec_encrypted_dek_share ?rec, gc_merkle_path_proof = grec_merkle_path_proof ?rec,
       gc_guardian_signature = [] \<rparr>"
  from c obtain t where t: "guardian_contribution ?u = Inr t"
    and c: "c = ?u \<lparr> gc_guardian_signature := sign cp (gpv_signing_seed p) t \<rparr>"
    by (auto simp: guardian_material_def sign_guardian_contribution_def Let_def rq)
  have t': "guardian_contribution c = Inr t" using t by (simp add: c guardian_contribution_def)
  from rq(1) obtain q where q: "request_digest_preimage request = Inr q" "digest = sha256 cp q" by (auto simp: request_digest_def)
  have "verify cp (verifying_key_bytes cp (gpv_signing_seed p)) t (sign cp (gpv_signing_seed p) t) = Inr ()"
    using assms(1) by (simp add: signatures_correct_def)
  moreover have "unat (of_nat (i + 1) - 1 :: u16) = i" using index16(3) [OF i] .
  ultimately show ?thesis
    using g t' q by (auto simp: committed_guardian_def Let_def validate_guardian_contribution_def rq d c
        simp del: of_nat_add of_nat_Suc)
qed

section \<open>From set-up to reconstruction\<close>

text \<open>The certificate of honest contributions, at a guardian and at the recipient.\<close>

lemma honest_begin_accepted:
  assumes "distinct (map sc_signer_id cs)"
    and "\<forall>c \<in> set cs. sc_request c = request \<and> check_contribution cp request root n c = Inr ()"
    and "unat t \<le> length cs" and "validate_request_v2 request capsule now = Inr ()"
    and "cc_config_id capsule = gp_config_id policy" "cc_config_version capsule = gp_config_version policy"
    and "gp_signer_set_commitment policy = root" "gp_signer_count policy = n" "gp_signer_threshold policy = t"
  shows "validate_begin_for_policy cp \<lparr> brc_request = request, brc_signer_contributions = cs \<rparr> policy now = Inr ()"
proof -
  let ?once = "each_once sc_signer_id (\<lambda>contribution. ensure (sc_request contribution = request)
         ''duplicate or request-mismatched signer contribution'')
       ''duplicate or request-mismatched signer contribution'' (check_contribution cp request root n) {} cs"
  have "?once = Inr ({} \<union> sc_signer_id ` set cs)"
    using assms(1,2) by (auto simp: each_once_ok)
  moreover have "card (sc_signer_id ` set cs) = length cs"
    using distinct_card [OF assms(1)] by simp
  ultimately show ?thesis
    using assms(3-) by (auto simp: validate_begin_for_policy_def validate_request_v2_def Let_def split: if_splits)
qed

lemma honest_fragments:
  assumes "\<And>i. i \<in> set G \<Longrightarrow> gc_guardian_index (m i) = of_nat (i + 1) \<and> gc_ciphertext_fragment (m i) = fragments ! i"
  shows "map (\<lambda>i. (gc_guardian_index (m i), gc_ciphertext_fragment (m i))) G = map (\<lambda>i. (of_nat (i + 1), fragments ! i)) G"
  using assms by (simp del: of_nat_add of_nat_Suc)

text \<open>C1: what the set-up of a configuration splits, the recovery puts together: from the contributions of
  any threshold of its signers and of its guardians, made by the nodes' own functions for one
  request, the requester reconstructs exactly the secret, under the documented laws of the third-party
  primitives.\<close>

theorem recovery_roundtrip:
  assumes laws: "aead_correct cp" "kem_correct cp" "signatures_correct cp" "json_correct js"
      "merkle_complete cp" "sharks_threshold sp" "reed_solomon_code sp"
    and made: "create_setup cp sp js hx dr secret policy sm gm bases relays = Inr b" "length secret + 16 < 2 ^ 64"
    and rq: "validate_request_v2 request (sb_capsule b) now = Inr ()" "request_digest cp request = Inr digest"
      "rq_recovery_recipient_key request = xwing_public cp recipient"
    and S: "distinct S" "set S \<subseteq> {..<unat (setup_signer_count policy)}" "unat (setup_signer_threshold policy) \<le> length S"
      "list_all2 (\<lambda>i c. \<exists>kem nonce. signer_contribution cp kem nonce request (sb_signers b ! i) = Inr c) S cs"
    and G: "distinct G" "set G \<subseteq> {..<unat (setup_guardian_count policy)}" "unat (setup_guardian_threshold policy) \<le> length G"
      "\<forall>i \<in> set G. guardian_material cp False request digest (sb_guardians b ! i) = Inr (m i)"
  defines "certificate \<equiv> \<lparr> brc_request = request, brc_signer_contributions = cs \<rparr>"
  shows "validate_capsule (sb_card b) (sb_capsule b) = Inr () \<and>
    (\<forall>g \<in> set (sb_guardians b). validate_begin_for_policy cp certificate (grec_policy (gpv_record g)) now = Inr ()) \<and>
    (\<exists>A d share. reconstruct_a cp sp certificate (sb_capsule b) recipient now = Inr A \<and>
       open_descriptor cp js (sb_capsule b) A = Inr d \<and>
       (\<forall>i \<in> set G. validate_guardian_contribution cp (m i) (rd_guardians d ! i) d request A = Inr (share i)) \<and>
       reconstruct_payload cp sp (sb_capsule b) d
         (map (\<lambda>i. (gc_guardian_index (m i), gc_ciphertext_fragment (m i))) G) (map share G) = Inr secret)"
proof -
  note [simp del] = of_nat_add of_nat_Suc
  from made(1) show ?thesis
  proof (rule create_setup_elim, goal_cases)
    case (1 a_shares signers root sproofs pctx payload fragments dek_shares raw groot proofs bytes key dctx enc d)
    note f = 1
    let ?cap = "sb_capsule b" and ?A = "bytes32 (dr_authorization_key dr)"
    from f(32) obtain policy' where guardians: "sb_guardians b = map (guardian_provision policy') (zip raw proofs)"
      and pol: "gp_config_id policy' = dr_config_id dr" "gp_config_version policy' = 1" "gp_signer_set_commitment policy' = root"
        "gp_signer_count policy' = setup_signer_count policy" "gp_signer_threshold policy' = setup_signer_threshold policy" by blast
    have cfg: "rq_config_id request = dr_config_id dr" "rq_config_version request = 1"
      using rq(1) f(22,23) by (auto simp: validate_request_v2_def split: if_splits)
    have signer: "committed_signer cp root (setup_signer_count policy) a_shares i (sb_signers b ! i)"
      if "i < unat (setup_signer_count policy)" for i
      unfolding f(21) by (rule setup_committed_signer [OF laws(5) f(8,9,1) that])
    from open_a_shares_honest [OF laws(1-3) signer rq(3) S(1,2,4) f(28,24)]
    have shares: "open_a_shares cp request ?cap recipient {} cs = Inr (map ((!) a_shares) S)"
      and cs: "distinct (map sc_signer_id cs)"
        "\<forall>c \<in> set cs. sc_request c = request \<and> check_contribution cp request root (setup_signer_count policy) c = Inr ()"
      by blast+
    have len: "length cs = length S" using S(4) by (simp add: list_all2_lengthD)
    have "recover_secret sp (map ((!) a_shares) S) (setup_signer_threshold policy) = Inr ?A"
      by (rule shamir_recovers [OF laws(6) f(7) S(1-3)])
    then have A: "reconstruct_a cp sp certificate ?cap recipient now = Inr ?A"
      using S(3) by (simp add: reconstruct_a_def certificate_def rq(1) shares f(25))
    have accepted: "validate_begin_for_policy cp certificate (grec_policy (gpv_record g)) now = Inr ()" if "g \<in> set (sb_guardians b)" for g
    proof -
      have "grec_policy (gpv_record g) = policy'" using that by (auto simp: guardians guardian_provision_def)
      then show ?thesis
        unfolding certificate_def using honest_begin_accepted [OF cs _ rq(1)] S(3) len pol f(22,23) by simp
    qed
    have d: "open_descriptor cp js ?cap ?A = Inr d"
    proof -
      have "descriptor_from_slice js bytes = Some d" using laws(4) f(17) by (simp add: json_correct_def)
      moreover have "length raw = length gm" using setup_guardians_ok [OF f(14)] by simp
      ultimately show ?thesis
        using f(2,16,18,19,22,23,26,27,29,30) aead_decrypt_encrypt(1) [OF laws(1) f(20)]
        by (simp add: open_descriptor_def)
    qed
    have guardian: "validate_guardian_contribution cp (m i) (rd_guardians d ! i) d request ?A = Inr (dek_shares ! i) \<and>
        gc_guardian_index (m i) = of_nat (i + 1) \<and> gc_ciphertext_fragment (m i) = fragments ! i" if i: "i \<in> set G" for i
    proof -
      have n: "i < unat (setup_guardian_count policy)" using G(2) i by auto
      have c: "committed_guardian cp (dr_authorization_key dr) (dr_config_id dr) groot (setup_guardian_count policy) fragments dek_shares i
          (rd_guardians d ! i) (sb_guardians b ! i)"
        unfolding guardians f(16) using setup_committed_guardian [OF laws(1,5) f(14,15,2) n] by simp
      have "rd_guardian_material_root d = groot" "rd_total_shards d = setup_guardian_count policy" by (simp_all add: f(16))
      from guardian_material_ok [OF laws(3) c n rq(2) cfg this] G(4) i show ?thesis by blast
    qed
    have ct: "length (ac_ciphertext payload) = length secret + 16" "ac_nonce payload = dr_payload_nonce dr"
      using aead_decrypt_encrypt(2,3) [OF laws(1) f(11)] by simp_all
    have "recover_secret sp (map ((!) dek_shares) G) (setup_guardian_threshold policy) = Inr (bytes32 (dr_dek dr))"
      by (rule shamir_recovers [OF laws(6) f(13) G(1-3)])
    moreover have "erasure_reconstruct sp (map (\<lambda>i. (gc_guardian_index (m i), gc_ciphertext_fragment (m i))) G)
        (setup_guardian_threshold policy) (setup_guardian_count policy) (length (ac_ciphertext payload)) = Inr (ac_ciphertext payload)"
      using erasure_recovers [OF laws(7) f(12) G(1-3)]
      by (subst honest_fragments [of G m fragments]) (use guardian in blast)+
    moreover have "unat (rd_ciphertext_len d) = length (ac_ciphertext payload)"
      using made(2) ct by (simp add: f(16) unsigned_of_nat take_bit_nat_eq_self)
    moreover have "aead_decrypt cp (dr_dek dr) \<lparr> ac_nonce = dr_payload_nonce dr, ac_ciphertext = ac_ciphertext payload \<rparr> pctx = Inr secret"
      using aead_decrypt_encrypt(1) [OF laws(1) f(11)] ct(2) by (metis AeadCiphertext.surjective old.unit.exhaust)
    ultimately have "reconstruct_payload cp sp ?cap d (map (\<lambda>i. (gc_guardian_index (m i), gc_ciphertext_fragment (m i))) G)
        (map ((!) dek_shares) G) = Inr secret"
      using f(10,22,23,27) by (simp add: reconstruct_payload_def f(16))
    with A d guardian accepted f(31) show ?thesis by blast
  qed
qed

section \<open>A concrete recovery\<close>

text \<open>Primitives that satisfy the laws: one digest for all inputs, ciphertexts that are the plaintext
  after sixteen zero bytes, and signatures that always verify.\<close>

definition ex_aead :: primitives where
  "ex_aead = ex_merkle \<lparr> sha2_digest := \<lambda>_. 0, dalek_public := \<lambda>_. 0,
     hkdf_expand := \<lambda>_ _. Some 0, xchacha_encrypt := \<lambda>_ _ m _. Some (replicate 16 0 @ m),
     xchacha_decrypt := \<lambda>_ _ c _. Some (drop 16 c), xwing_public := \<lambda>_. replicate 1216 0 \<rparr>"

lemma ex_aead_laws: "aead_correct ex_aead" "kem_correct ex_aead" "signatures_correct ex_aead" "merkle_complete ex_aead"
proof -
  show "merkle_complete ex_aead"
    using ex_merkle_complete by (simp add: merkle_complete_def ex_aead_def)
qed (auto simp: aead_correct_def kem_correct_def signatures_correct_def ex_aead_def ex_merkle_def verify_def)

definition ex_descriptor :: RecoveryDescriptor where
  "ex_descriptor = \<lparr> rd_guardians = [\<lparr> gr_mailbox = ''g'', gr_opaque_slot_id = 0, gr_guardian_index = 1,
       gr_guardian_public_key = 0 \<rparr>], rd_guardian_material_root = 1, rd_data_shards = 1, rd_total_shards = 1,
     rd_ciphertext_len = 17, rd_payload_nonce = 0 \<rparr>"

definition ex_json :: descriptor_json where
  "ex_json = \<lparr> descriptor_to_vec = (\<lambda>d. if d = ex_descriptor then Some [1] else None),
     descriptor_from_slice = (\<lambda>_. Some ex_descriptor) \<rparr>"

definition ex_draws :: setup_draws where
  "ex_draws = \<lparr> dr_config_id = 7, dr_owner_seed = 0, dr_authorization_key = 0, dr_dek = 0, dr_a_seed = 0,
     dr_signer_seed = (\<lambda>_. 0), dr_payload_nonce = 0, dr_dek_seed = 0, dr_share_nonce = (\<lambda>_. 0),
     dr_guardian_seed = (\<lambda>_. 0), dr_slot = (\<lambda>_. 0), dr_descriptor_nonce = 0 \<rparr>"

definition ex_policy :: SetupPolicy where
  "ex_policy = \<lparr> setup_signer_count = 1, setup_signer_threshold = 1, setup_guardian_count = 1,
     setup_guardian_threshold = 1, setup_minimum_recovery_delay = 86400 \<rparr>"

text \<open>The transcripts of the example are short enough.\<close>

lemma ex_transcripts:
  "\<exists>t. signer_leaf i k = Inr t" "\<exists>t. payload_context c v = Inr t" "\<exists>t. guardian_share_context c v j = Inr t"
  "\<exists>t. guardian_leaf c v j h h' = Inr t" "\<exists>t. descriptor_context c v = Inr t"
  by (simp_all add: signer_leaf_def payload_context_def guardian_share_context_def guardian_leaf_def descriptor_context_def
      transcript_ok MAX_FIELD_LEN_def)

lemma ex_eval:
  "sha256 ex_aead t = 0" "hash_aead ex_aead e = 0" "verifying_key_bytes ex_aead seed = 0"
  "aead_encrypt ex_aead k n p a = Inr \<lparr> ac_nonce = n, ac_ciphertext = replicate 16 0 @ p \<rparr>"
  "guardian_share_key ex_aead k c v i = Inr 0" "descriptor_key ex_aead k c v = Inr 0"
  "merkle_commit ex_aead [0] = Inr (1, [bytes32 0])" "sign ex_aead seed t = []"
  "seal_to_recipient ex_aead rk seed n p a = Inr \<lparr> sm_kem_ciphertext = [],
     sm_payload = \<lparr> ac_nonce = n, ac_ciphertext = replicate 16 0 @ p \<rparr> \<rparr>"
  by (simp_all add: sha256_def hash_aead_def verifying_key_bytes_def aead_encrypt_def guardian_share_key_def descriptor_key_def
      hkdf_sha256_def merkle_commit_def sign_def seal_to_recipient_def ok_or_def ex_aead_def ex_merkle_def)

lemma ex_split: "split_secret ex_sharing (bytes32 0) 1 1 seed = Inr [1 # bytes32 0]"
  by (simp add: split_secret_def ex_sharing_def SHAMIR_SECRET_LEN_def SHAMIR_MAX_SHARES_def)

lemma ex_erasure: "erasure_encode ex_sharing (replicate 16 0 @ [42]) 1 1 = Inr [replicate 16 0 @ [42]]"
proof -
  let ?data = "replicate 16 0 @ [42] :: byte list" and ?shards = "[replicate 17 0] :: byte list list"
  have "length (place_bytes 17 0 ?data ?shards) = 1" using place_bytes_lengths [of ?shards 17 0 ?data] by simp
  moreover have "concat (place_bytes 17 0 ?data ?shards) = ?data"
    using concat_place_bytes [of ?shards 17 0 ?data] by simp
  ultimately have "place_bytes 17 0 ?data ?shards = [?data]" by (cases "place_bytes 17 0 ?data ?shards") auto
  then show ?thesis
    by (simp add: erasure_encode_def ex_sharing_def div_ceil_def ok_or_def)
qed

definition ex_signer :: SignerState where
  "ex_signer = \<lparr> ss_signer_id = 1, ss_mailbox = ''s'', ss_authorization_share = 1 # bytes32 0, ss_signing_seed = 0,
     ss_signing_public_key = 0, ss_membership_proof = bytes32 0,
     ss_policy = \<lparr> sp_config_id = 7, sp_config_version = 1, sp_signer_set_commitment = 1, sp_signer_threshold = 1 \<rparr>,
     ss_seen_requests = [], ss_seen_nonces = {} \<rparr>"

definition short_record :: "GuardianRecord \<Rightarrow> bool" where
  "short_record rec \<longleftrightarrow> length (grec_ciphertext_fragment rec) \<le> 100 \<and>
     length (ac_ciphertext (grec_encrypted_dek_share rec)) \<le> 100 \<and> length (grec_merkle_path_proof rec) \<le> 100"

abbreviation ex_setup :: "(anyhow, SetupBundle) result" where
  "ex_setup \<equiv> create_setup ex_aead ex_sharing ex_json (\<lambda>_. []) ex_draws [42] ex_policy [''s''] [''g''] [''c''] [''r'']"

lemma ex_create_setup:
  "\<exists>b. ex_setup = Inr b \<and> sb_signers b = [ex_signer] \<and> (\<exists>g. sb_guardians b = [g] \<and> short_record (gpv_record g)) \<and>
    cc_crypto_suite (sb_capsule b) = XWingXChaCha20Poly1305Ed25519 \<and> cc_config_id (sb_capsule b) = 7 \<and>
    cc_config_version (sb_capsule b) = 1 \<and> cc_max_request_lifetime (sb_capsule b) = 604800"
proof -
  obtain t1 t2 t3 t4 t5 where t: "signer_leaf 1 0 = Inr t1" "payload_context 7 1 = Inr t2" "guardian_share_context 7 1 1 = Inr t3"
    "guardian_leaf 7 1 1 0 0 = Inr t4" "descriptor_context 7 1 = Inr t5"
    using ex_transcripts by meson
  have json: "descriptor_to_vec ex_json ex_descriptor = Some [1]" by (simp add: ex_json_def)
  show ?thesis
    unfolding create_setup_def ex_policy_def
    by (simp add: ex_draws_def t ex_erasure ex_split ex_eval Let_def u16_try_from_def json [unfolded ex_descriptor_def]
        guardian_provision_def with_membership_def ex_signer_def short_record_def)
qed

definition ex_request :: RecoveryRequest where
  "ex_request = \<lparr> rq_protocol_version = PROTOCOL_VERSION, rq_crypto_suite = XWingXChaCha20Poly1305Ed25519,
     rq_config_id = 7, rq_config_version = 1, rq_request_id = 3, rq_recovery_recipient_key = xwing_public ex_aead 0,
     rq_requested_at = 10, rq_nonce = 4, rq_expiry = 20 \<rparr>"

lemma ex_recovery_request: "\<exists>t. recovery_request ex_request = Inr t \<and> length t \<le> MAX_FIELD_LEN"
  by (simp add: recovery_request_def transcript_ok MAX_FIELD_LEN_def ex_request_def ex_aead_def lp_def)

lemma ex_request_transcripts:
  "\<exists>t. request_digest_preimage ex_request = Inr t" "\<exists>t. recipient_share_context ex_request i = Inr t"
  "length k \<le> 100 \<Longrightarrow> length p \<le> 100 \<Longrightarrow>
    \<exists>t. signer_approval ex_request i \<lparr> sm_kem_ciphertext = k, sm_payload = \<lparr> ac_nonce = n, ac_ciphertext = p \<rparr> \<rparr> = Inr t"
  using ex_recovery_request
  by (auto simp: request_digest_preimage_def recipient_share_context_def signer_approval_def
      transcript_ok MAX_FIELD_LEN_def)

lemma ex_contribution: "\<exists>c. signer_contribution ex_aead 0 0 ex_request ex_signer = Inr c"
proof -
  obtain t where "recipient_share_context ex_request 1 = Inr t" using ex_request_transcripts(2) by blast
  moreover obtain t' where "signer_approval ex_request 1 \<lparr> sm_kem_ciphertext = [],
      sm_payload = \<lparr> ac_nonce = 0, ac_ciphertext = replicate 16 0 @ 1 # bytes32 0 \<rparr> \<rparr> = Inr t'"
    using ex_request_transcripts(3) by fastforce
  ultimately show ?thesis by (simp add: signer_contribution_def ex_eval ex_signer_def)
qed

lemma ex_material: "short_record (gpv_record g) \<Longrightarrow> \<exists>m. guardian_material ex_aead False ex_request 0 g = Inr m"
  by (simp add: guardian_material_def sign_guardian_contribution_def guardian_contribution_def Let_def transcript_ok
      MAX_FIELD_LEN_def short_record_def)

theorem recovery_roundtrip_witness:
  "\<exists>b c g m A d share. ex_setup = Inr b \<and>
     signer_contribution ex_aead 0 0 ex_request (sb_signers b ! 0) = Inr c \<and>
     sb_guardians b = [g] \<and> guardian_material ex_aead False ex_request 0 g = Inr m \<and>
     reconstruct_a ex_aead ex_sharing \<lparr> brc_request = ex_request, brc_signer_contributions = [c] \<rparr> (sb_capsule b) 0 10 = Inr A \<and>
     open_descriptor ex_aead ex_json (sb_capsule b) A = Inr d \<and>
     validate_guardian_contribution ex_aead m (rd_guardians d ! 0) d ex_request A = Inr share \<and>
     reconstruct_payload ex_aead ex_sharing (sb_capsule b) d [(gc_guardian_index m, gc_ciphertext_fragment m)] [share] = Inr [42]"
proof -
  from ex_create_setup obtain b g where b: "ex_setup = Inr b" "sb_signers b = [ex_signer]" "sb_guardians b = [g]"
    "short_record (gpv_record g)" "cc_crypto_suite (sb_capsule b) = XWingXChaCha20Poly1305Ed25519" "cc_config_id (sb_capsule b) = 7"
    "cc_config_version (sb_capsule b) = 1" "cc_max_request_lifetime (sb_capsule b) = 604800" by blast
  from ex_contribution obtain c where c: "signer_contribution ex_aead 0 0 ex_request ex_signer = Inr c" by blast
  from ex_material [OF b(4)] obtain m where m: "guardian_material ex_aead False ex_request 0 g = Inr m" by blast
  have js: "json_correct ex_json" by (auto simp: json_correct_def ex_json_def split: if_splits)
  have rq: "validate_request_v2 ex_request (sb_capsule b) 10 = Inr ()"
    using b by (simp add: validate_request_v2_def ex_request_def ex_aead_def XWING_PUBLIC_KEY_LEN_def saturating_add_def)
  have digest: "request_digest ex_aead ex_request = Inr 0"
    using ex_request_transcripts(1) by (auto simp: request_digest_def ex_eval)
  have key: "rq_recovery_recipient_key ex_request = xwing_public ex_aead 0" by (simp add: ex_request_def)
  have S: "list_all2 (\<lambda>i c. \<exists>kem nonce. signer_contribution ex_aead kem nonce ex_request (sb_signers b ! i) = Inr c) [0] [c]"
    using c b(2) by auto
  have G: "\<forall>i \<in> set [0]. guardian_material ex_aead False ex_request 0 (sb_guardians b ! i) = Inr m"
    using m b(3) by simp
  from recovery_roundtrip [OF ex_aead_laws(1-3) js ex_aead_laws(4) ex_sharing_threshold ex_sharing_code b(1) _ rq digest key _ _ _ S _ _ _ G]
  obtain A d share where "reconstruct_a ex_aead ex_sharing \<lparr> brc_request = ex_request, brc_signer_contributions = [c] \<rparr> (sb_capsule b) 0 10 = Inr A"
    "open_descriptor ex_aead ex_json (sb_capsule b) A = Inr d"
    "validate_guardian_contribution ex_aead m (rd_guardians d ! 0) d ex_request A = Inr (share (0 :: nat))"
    "reconstruct_payload ex_aead ex_sharing (sb_capsule b) d [(gc_guardian_index m, gc_ciphertext_fragment m)] [share 0] = Inr [42]"
    by (auto simp: ex_policy_def)
  with b(1-3) c m show ?thesis by fastforce
qed

end
