(* ===== verification/GP_Frost.thy ===== *)
theory GP_Frost
  imports GP_Sharing
begin

text \<open>
  The FROST half of \<open>gp-crypto/src/rotation.rs\<close>: dealing and recovering the data key, repairing the
  share of a replacement guardian, refreshing shares, and the checks around each call. The library
  \<open>frost_ristretto255\<close> is the record \<open>frost\<close> of parameters. A value of the library is named by what
  its accessors return; identifiers, group elements and scalars by their encodings.
\<close>

section \<open>The library\<close>

record KeyPackage =
  kp_identifier :: nat
  kp_signing_share :: "byte list"
  kp_verifying_share :: "byte list"
  kp_verifying_key :: "byte list"
  kp_min_signers :: u16

record PublicKeyPackage =
  pkp_verifying_shares :: "(nat, byte list) btree_map"
  pkp_verifying_key :: "byte list"
  pkp_min_signers :: "u16 option"

text \<open>Secret packages of the refresh rounds: the identifier of their owner and the opaque rest.\<close>

record SecretPackage =
  sp_identifier :: nat
  sp_opaque :: "byte list"

record frost =
  identifier_try_from :: "u16 \<Rightarrow> nat option"
  key_package_deserialize :: "byte list \<Rightarrow> KeyPackage option"
  key_package_serialize :: "KeyPackage \<Rightarrow> byte list option"
  verifying_share_from :: "byte list \<Rightarrow> byte list"
  public_deserialize :: "byte list \<Rightarrow> PublicKeyPackage option"
  public_serialize :: "PublicKeyPackage \<Rightarrow> byte list option"
  generate_with_dealer :: "u16 \<Rightarrow> u16 \<Rightarrow> Id32 \<Rightarrow> (KeyPackage option list \<times> PublicKeyPackage) option"
  reconstruct_key :: "KeyPackage list \<Rightarrow> byte list option"
  repair_share_part1 :: "nat list \<Rightarrow> KeyPackage \<Rightarrow> Id32 \<Rightarrow> nat \<Rightarrow> (nat, byte list) btree_map option"
  delta_deserialize :: "byte list \<Rightarrow> byte list option"
  repair_share_part2 :: "byte list list \<Rightarrow> byte list"
  sigma_deserialize :: "byte list \<Rightarrow> byte list option"
  repair_share_part3 :: "byte list list \<Rightarrow> nat \<Rightarrow> PublicKeyPackage \<Rightarrow> KeyPackage option"
  refresh_dkg_part1 :: "nat \<Rightarrow> u16 \<Rightarrow> u16 \<Rightarrow> Id32 \<Rightarrow> (SecretPackage \<times> byte list) option"
  round1_secret_serialize :: "SecretPackage \<Rightarrow> byte list option"
  round1_secret_deserialize :: "byte list \<Rightarrow> SecretPackage option"
  round1_package_serialize :: "byte list \<Rightarrow> byte list option"
  round1_package_deserialize :: "byte list \<Rightarrow> byte list option"
  refresh_dkg_part2 :: "SecretPackage \<Rightarrow> (nat, byte list) btree_map \<Rightarrow> (SecretPackage \<times> (nat, byte list) btree_map) option"
  round2_secret_serialize :: "SecretPackage \<Rightarrow> byte list option"
  round2_secret_deserialize :: "byte list \<Rightarrow> SecretPackage option"
  round2_package_serialize :: "byte list \<Rightarrow> byte list option"
  round2_package_deserialize :: "byte list \<Rightarrow> byte list option"
  refresh_dkg_shares :: "SecretPackage \<Rightarrow> (nat, byte list) btree_map \<Rightarrow> (nat, byte list) btree_map \<Rightarrow>
    PublicKeyPackage \<Rightarrow> KeyPackage \<Rightarrow> (KeyPackage \<times> PublicKeyPackage) option"

section \<open>Bounds and encodings\<close>

definition FROST_SHARE_MAX_LEN :: nat where "FROST_SHARE_MAX_LEN = 512"
definition FROST_PUBLIC_PACKAGE_MAX_LEN :: nat where "FROST_PUBLIC_PACKAGE_MAX_LEN = 4 * 1024"
definition FROST_SCALAR_LEN :: nat where "FROST_SCALAR_LEN = 32"

definition share_identifier :: "frost \<Rightarrow> u16 \<Rightarrow> (CryptoError, nat) result" where
  "share_identifier fr value = bindR (frost_identifier value) (\<lambda>_. ok_or (identifier_try_from fr value) InvalidFrostParticipant)"

definition numeric_identifier :: "frost \<Rightarrow> nat \<Rightarrow> (CryptoError, u16) result" where
  "numeric_identifier fr value = (let numeric_from = (\<lambda>candidate r.
     bindR (share_identifier fr candidate) (\<lambda>i. if i = value then Inr candidate else r)) in
     foldr numeric_from (map of_nat [1..<Suc (unat FROST_MAX_PARTICIPANTS)]) (Inl InvalidFrostParticipant))"

definition decode_share :: "frost \<Rightarrow> byte list \<Rightarrow> (CryptoError, KeyPackage) result" where
  "decode_share fr value =
    bindR (bounded value FROST_SHARE_MAX_LEN) (\<lambda>_.
    bindR (ok_or (key_package_deserialize fr value) InvalidFrost) (\<lambda>share.
    if verifying_share_from fr (kp_signing_share share) \<noteq> kp_verifying_share share then Inl InvalidFrost
    else Inr share))"

definition decode_public :: "frost \<Rightarrow> byte list \<Rightarrow> (CryptoError, PublicKeyPackage) result" where
  "decode_public fr value =
    bindR (bounded value FROST_PUBLIC_PACKAGE_MAX_LEN) (\<lambda>_. ok_or (public_deserialize fr value) InvalidFrost)"

definition encode_share :: "frost \<Rightarrow> KeyPackage \<Rightarrow> (CryptoError, byte list) result" where
  "encode_share fr value =
    bindR (ok_or (key_package_serialize fr value) InvalidFrost) (\<lambda>encoded.
    bindR (bounded encoded FROST_SHARE_MAX_LEN) (\<lambda>_. Inr encoded))"

definition encode_public :: "frost \<Rightarrow> PublicKeyPackage \<Rightarrow> (CryptoError, byte list) result" where
  "encode_public fr value =
    bindR (ok_or (public_serialize fr value) InvalidFrost) (\<lambda>encoded.
    bindR (bounded encoded FROST_PUBLIC_PACKAGE_MAX_LEN) (\<lambda>_. Inr encoded))"

fun mapR :: "('a \<Rightarrow> ('e, 'b) result) \<Rightarrow> 'a list \<Rightarrow> ('e, 'b list) result" where
  "mapR f [] = Inr []"
| "mapR f (x # xs) = bindR (f x) (\<lambda>y. bindR (mapR f xs) (\<lambda>ys. Inr (y # ys)))"

section \<open>Dealing and recovering the data key\<close>

record FrostDealerOutput =
  fdo_dek :: "byte list"
  fdo_shares :: "byte list list"
  fdo_public_package :: "byte list"

text \<open>The loop over the dealt shares yields the key packages and their encodings.\<close>

definition deal_share :: "frost \<Rightarrow> KeyPackage option \<Rightarrow> (CryptoError, KeyPackage \<times> byte list) result" where
  "deal_share fr secret_share =
    bindR (ok_or secret_share InvalidFrost) (\<lambda>key_package.
    bindR (encode_share fr key_package) (\<lambda>encoded. Inr (key_package, encoded)))"

definition frost_dealer_split :: "frost \<Rightarrow> u16 \<Rightarrow> u16 \<Rightarrow> Id32 \<Rightarrow> (CryptoError, FrostDealerOutput) result" where
  "frost_dealer_split fr threshold total_shares seed =
    bindR (validate_threshold threshold total_shares) (\<lambda>_.
    bindR (ok_or (generate_with_dealer fr total_shares threshold seed) InvalidFrost) (\<lambda>(secret_shares, public_package).
    if length secret_shares \<noteq> unat total_shares then Inl InvalidFrost else
    bindR (mapR (deal_share fr) secret_shares) (\<lambda>dealt.
    bindR (ok_or (reconstruct_key fr (take (unat threshold) (map fst dealt))) InvalidFrost) (\<lambda>dek.
    if length dek \<noteq> FROST_SCALAR_LEN then Inl InvalidFrost else
    bindR (encode_public fr public_package) (\<lambda>public_package.
    Inr \<lparr> fdo_dek = dek, fdo_shares = map snd dealt, fdo_public_package = public_package \<rparr>)))))"

text \<open>The loop of \<open>frost_recover_dek\<close>; an identifier is inserted before the verifying key is compared.\<close>

fun collect_packages ::
    "frost \<Rightarrow> u16 \<Rightarrow> nat set \<Rightarrow> byte list option \<Rightarrow> byte list list \<Rightarrow> (CryptoError, KeyPackage list) result"
where
  "collect_packages fr threshold identifiers verifying_key [] = Inr []"
| "collect_packages fr threshold identifiers verifying_key (encoded # shares) =
    bindR (decode_share fr encoded) (\<lambda>package.
    if kp_min_signers package \<noteq> threshold \<or> kp_identifier package \<in> identifiers \<or>
       (case verifying_key of Some key \<Rightarrow> key \<noteq> kp_verifying_key package | None \<Rightarrow> False)
    then Inl InvalidFrostParticipant else
    bindR (collect_packages fr threshold (insert (kp_identifier package) identifiers)
      (Some (kp_verifying_key package)) shares) (\<lambda>packages. Inr (package # packages)))"

definition frost_recover_dek :: "frost \<Rightarrow> byte list list \<Rightarrow> u16 \<Rightarrow> (CryptoError, byte list) result" where
  "frost_recover_dek fr shares threshold =
    (if threshold < 2 \<or> length shares < unat threshold then Inl InsufficientShares else
     bindR (collect_packages fr threshold {} None shares) (\<lambda>packages.
     bindR (ok_or (reconstruct_key fr packages) InvalidFrost) (\<lambda>output.
     if length output \<noteq> FROST_SCALAR_LEN then Inl InvalidFrost else Inr output)))"

record EpochFrostShare =
  efs_config_ref :: ConfigRef
  efs_encoded_share :: "byte list"

definition frost_recover_dek_for_epoch ::
    "frost \<Rightarrow> EpochFrostShare list \<Rightarrow> ConfigRef \<Rightarrow> u16 \<Rightarrow> (CryptoError, byte list) result"
where
  "frost_recover_dek_for_epoch fr shares expected threshold =
    (if \<exists>share \<in> set shares. efs_config_ref share \<noteq> expected then Inl InvalidFrostParticipant
     else frost_recover_dek fr (map efs_encoded_share shares) threshold)"

section \<open>Checking shares and results\<close>

definition frost_verify_share :: "frost \<Rightarrow> byte list \<Rightarrow> byte list \<Rightarrow> (CryptoError, u16) result" where
  "frost_verify_share fr encoded_share encoded_public =
    bindR (decode_share fr encoded_share) (\<lambda>share.
    bindR (decode_public fr encoded_public) (\<lambda>public.
    if kp_verifying_key share \<noteq> pkp_verifying_key public \<or>
       pkp_min_signers public \<noteq> Some (kp_min_signers share) \<or>
       bt_get (pkp_verifying_shares public) (kp_identifier share) \<noteq> Some (kp_verifying_share share)
    then Inl InvalidFrost
    else numeric_identifier fr (kp_identifier share)))"

definition frost_public_package_digest :: "primitives \<Rightarrow> frost \<Rightarrow> byte list \<Rightarrow> (CryptoError, Id32) result" where
  "frost_public_package_digest cp fr encoded_public =
    bindR (decode_public fr encoded_public) (\<lambda>public.
    bindR (encode_public fr public) (\<lambda>encoded. Inr (sha256 cp encoded)))"

text \<open>The loop of \<open>verify_dpss_result\<close>: every package is the canonical one and every share verifies.\<close>

definition verify_successor :: "frost \<Rightarrow> byte list \<Rightarrow> byte list \<times> byte list \<Rightarrow> (CryptoError, u16) result" where
  "verify_successor fr encoded_canonical = (\<lambda>(public, share).
     if public \<noteq> encoded_canonical then Inl InvalidFrost else frost_verify_share fr share encoded_canonical)"

definition verify_dpss_result ::
    "primitives \<Rightarrow> frost \<Rightarrow> byte list \<Rightarrow> byte list list \<Rightarrow> byte list list \<Rightarrow> u16 list \<Rightarrow> (CryptoError, Id32) result"
where
  "verify_dpss_result cp fr old_public successor_public_packages successor_shares expected_participants =
    (if length successor_public_packages \<noteq> length expected_participants \<or>
        length successor_shares \<noteq> length expected_participants \<or> expected_participants = []
     then Inl InvalidFrostParticipant else
     bindR (mapR (share_identifier fr) expected_participants) (\<lambda>expected.
     if card (set expected) \<noteq> length expected_participants then Inl InvalidFrostParticipant else
     bindR (decode_public fr old_public) (\<lambda>old.
     bindR (decode_public fr (hd successor_public_packages)) (\<lambda>canonical.
     if pkp_verifying_key old \<noteq> pkp_verifying_key canonical \<or>
        fst ` set (pkp_verifying_shares canonical) \<noteq> set expected
     then Inl InvalidFrost else
     bindR (encode_public fr canonical) (\<lambda>encoded_canonical.
     bindR (mapR (verify_successor fr encoded_canonical) (zip successor_public_packages successor_shares)) (\<lambda>actual.
     if set actual \<noteq> set expected_participants then Inl InvalidFrostParticipant
     else Inr (sha256 cp encoded_canonical)))))))"

section \<open>Repairing a share\<close>

definition frost_repair_part1 ::
    "frost \<Rightarrow> byte list \<Rightarrow> u16 list \<Rightarrow> u16 \<Rightarrow> Id32 \<Rightarrow> (CryptoError, (u16 \<times> byte list) list) result"
where
  "frost_repair_part1 fr helper_share helper_ids replacement_id seed =
    bindR (decode_share fr helper_share) (\<lambda>helper.
    bindR (mapR (share_identifier fr) helper_ids) (\<lambda>helper_identifiers.
    if card (set helper_identifiers) \<noteq> length helper_identifiers \<or>
       kp_identifier helper \<notin> set helper_identifiers \<or>
       length helper_ids < unat (kp_min_signers helper)
    then Inl InvalidFrostParticipant else
    bindR (share_identifier fr replacement_id) (\<lambda>replacement.
    bindR (ok_or (repair_share_part1 fr helper_identifiers helper seed replacement) InvalidFrost) (\<lambda>values.
    mapR (\<lambda>(numeric, i).
      bindR (ok_or (bt_get values i) InvalidFrost) (\<lambda>encoded.
      bindR (bounded encoded FROST_ROUND_PACKAGE_MAX_LEN) (\<lambda>_. Inr (numeric, encoded))))
      (zip helper_ids helper_identifiers)))))"

definition frost_repair_part2 :: "frost \<Rightarrow> byte list list \<Rightarrow> (CryptoError, byte list) result" where
  "frost_repair_part2 fr deltas =
    (if length deltas < 2 then Inl InsufficientShares else
     bindR (mapR (\<lambda>value. bindR (bounded value FROST_ROUND_PACKAGE_MAX_LEN) (\<lambda>_.
       ok_or (delta_deserialize fr value) InvalidFrost)) deltas) (\<lambda>decoded.
     Inr (repair_share_part2 fr decoded)))"

definition frost_repair_part3 ::
    "frost \<Rightarrow> byte list list \<Rightarrow> u16 \<Rightarrow> byte list \<Rightarrow> (CryptoError, byte list) result"
where
  "frost_repair_part3 fr sigmas replacement_id encoded_public =
    bindR (decode_public fr encoded_public) (\<lambda>public.
    bindR (ok_or (pkp_min_signers public) InvalidFrost) (\<lambda>threshold.
    if length sigmas < unat threshold then Inl InsufficientShares else
    bindR (mapR (\<lambda>value. bindR (bounded value FROST_ROUND_PACKAGE_MAX_LEN) (\<lambda>_.
      ok_or (sigma_deserialize fr value) InvalidFrost)) sigmas) (\<lambda>decoded.
    bindR (share_identifier fr replacement_id) (\<lambda>replacement.
    bindR (ok_or (repair_share_part3 fr decoded replacement public) InvalidFrost) (\<lambda>share.
    encode_share fr share)))))"

definition begin_old_share ::
    "frost \<Rightarrow> byte list \<Rightarrow> u16 list \<Rightarrow> u16 \<Rightarrow> Id32 \<Rightarrow> (CryptoError, (u16 \<times> byte list) list) result"
where
  "begin_old_share fr helper_share helper_ids replacement_id seed =
    frost_repair_part1 fr helper_share helper_ids replacement_id seed"

definition finalize_new_share :: "frost \<Rightarrow> byte list list \<Rightarrow> u16 \<Rightarrow> byte list \<Rightarrow> (CryptoError, byte list) result" where
  "finalize_new_share fr sigmas replacement_id encoded_public = frost_repair_part3 fr sigmas replacement_id encoded_public"

definition frost_public_add_repaired_share ::
    "frost \<Rightarrow> byte list \<Rightarrow> byte list \<Rightarrow> (CryptoError, byte list) result"
where
  "frost_public_add_repaired_share fr encoded_public repaired_share =
    bindR (decode_public fr encoded_public) (\<lambda>public.
    bindR (decode_share fr repaired_share) (\<lambda>share.
    if pkp_verifying_key public \<noteq> kp_verifying_key share \<or>
       pkp_min_signers public \<noteq> Some (kp_min_signers share)
    then Inl InvalidFrost
    else if bt_contains_key (pkp_verifying_shares public) (kp_identifier share) then Inl InvalidFrostParticipant
    else encode_public fr (public \<lparr> pkp_verifying_shares :=
      bt_insert (kp_identifier share) (kp_verifying_share share) (pkp_verifying_shares public) \<rparr>)))"

section \<open>Refreshing shares\<close>

record FrostRefreshRound1 =
  fr1_secret_state :: "byte list"
  fr1_broadcast :: "byte list"

record FrostRefreshRound2 =
  fr2_secret_state :: "byte list"
  fr2_direct_messages :: "(u16 \<times> byte list) list"

record FrostRefreshOutput =
  fro_share :: "byte list"
  fro_public_package :: "byte list"

definition frost_refresh_part1 ::
    "frost \<Rightarrow> u16 \<Rightarrow> u16 \<Rightarrow> u16 \<Rightarrow> Id32 \<Rightarrow> (CryptoError, FrostRefreshRound1) result"
where
  "frost_refresh_part1 fr participant_id threshold total_shares seed =
    bindR (validate_threshold threshold total_shares) (\<lambda>_.
    bindR (share_identifier fr participant_id) (\<lambda>participant.
    bindR (ok_or (refresh_dkg_part1 fr participant total_shares threshold seed) InvalidFrost) (\<lambda>(secret, public).
    bindR (ok_or (round1_secret_serialize fr secret) InvalidFrost) (\<lambda>secret_state.
    bindR (ok_or (round1_package_serialize fr public) InvalidFrost) (\<lambda>broadcast.
    bindR (bounded secret_state FROST_ROUND_PACKAGE_MAX_LEN) (\<lambda>_.
    bindR (bounded broadcast FROST_ROUND_PACKAGE_MAX_LEN) (\<lambda>_.
    Inr \<lparr> fr1_secret_state = secret_state, fr1_broadcast = broadcast \<rparr>)))))))"

text \<open>The loop over the messages of a round: each sender once, and not the owner itself.\<close>

fun round_messages ::
    "frost \<Rightarrow> (byte list \<Rightarrow> byte list option) \<Rightarrow> nat \<Rightarrow> (nat, byte list) btree_map \<Rightarrow> (u16 \<times> byte list) list \<Rightarrow>
     (CryptoError, (nat, byte list) btree_map) result"
where
  "round_messages fr deserialize self_id messages [] = Inr messages"
| "round_messages fr deserialize self_id messages ((sender, encoded) # rest) =
    bindR (share_identifier fr sender) (\<lambda>sender.
    if sender = self_id \<or> bt_contains_key messages sender then Inl InvalidFrostParticipant else
    bindR (bounded encoded FROST_ROUND_PACKAGE_MAX_LEN) (\<lambda>_.
    bindR (ok_or (deserialize encoded) InvalidFrost) (\<lambda>package.
    round_messages fr deserialize self_id (bt_insert sender package messages) rest)))"

definition outgoing_message :: "frost \<Rightarrow> nat \<times> byte list \<Rightarrow> (CryptoError, u16 \<times> byte list) result" where
  "outgoing_message fr = (\<lambda>(recipient, package).
     bindR (numeric_identifier fr recipient) (\<lambda>numeric.
     bindR (ok_or (round2_package_serialize fr package) InvalidFrost) (\<lambda>encoded.
     bindR (bounded encoded FROST_ROUND_PACKAGE_MAX_LEN) (\<lambda>_. Inr (numeric, encoded)))))"

definition frost_refresh_part2 ::
    "frost \<Rightarrow> byte list \<Rightarrow> (u16 \<times> byte list) list \<Rightarrow> (CryptoError, FrostRefreshRound2) result"
where
  "frost_refresh_part2 fr secret_state round1_messages =
    bindR (bounded secret_state FROST_ROUND_PACKAGE_MAX_LEN) (\<lambda>_.
    bindR (ok_or (round1_secret_deserialize fr secret_state) InvalidFrost) (\<lambda>secret.
    bindR (round_messages fr (round1_package_deserialize fr) (sp_identifier secret) [] round1_messages) (\<lambda>messages.
    bindR (ok_or (refresh_dkg_part2 fr secret messages) InvalidFrost) (\<lambda>(next_secret, outgoing).
    bindR (ok_or (round2_secret_serialize fr next_secret) InvalidFrost) (\<lambda>secret_state.
    bindR (mapR (outgoing_message fr) outgoing) (\<lambda>direct_messages.
    Inr \<lparr> fr2_secret_state = secret_state, fr2_direct_messages = direct_messages \<rparr>))))))"

definition frost_refresh_part3 ::
    "frost \<Rightarrow> byte list \<Rightarrow> (u16 \<times> byte list) list \<Rightarrow> (u16 \<times> byte list) list \<Rightarrow> byte list \<Rightarrow> byte list \<Rightarrow>
     (CryptoError, FrostRefreshOutput) result"
where
  "frost_refresh_part3 fr secret_state round1_messages round2_messages old_public old_share =
    bindR (bounded secret_state FROST_ROUND_PACKAGE_MAX_LEN) (\<lambda>_.
    bindR (ok_or (round2_secret_deserialize fr secret_state) InvalidFrost) (\<lambda>secret.
    bindR (round_messages fr (round1_package_deserialize fr) (sp_identifier secret) [] round1_messages) (\<lambda>round1.
    bindR (round_messages fr (round2_package_deserialize fr) (sp_identifier secret) [] round2_messages) (\<lambda>round2.
    if map fst round1 \<noteq> map fst round2 then Inl InvalidFrostParticipant else
    bindR (decode_public fr old_public) (\<lambda>old_public.
    bindR (decode_share fr old_share) (\<lambda>old_share.
    if kp_identifier old_share \<noteq> sp_identifier secret then Inl InvalidFrostParticipant else
    bindR (ok_or (refresh_dkg_shares fr secret round1 round2 old_public old_share) InvalidFrost) (\<lambda>(share, public).
    bindR (encode_share fr share) (\<lambda>share.
    bindR (encode_public fr public) (\<lambda>public_package.
    Inr \<lparr> fro_share = share, fro_public_package = public_package \<rparr>)))))))))"

end
