(* ===== verification/GP_Frost_Safety.thy ===== *)
theory GP_Frost_Safety
  imports GP_Frost
begin

text \<open>
  What the checks around the FROST library promise: the identifiers convert both ways, the data key is
  recovered exactly from enough distinct shares of one epoch and one key, and a result of the
  resharing that verifies keeps the group key and gives every expected guardian exactly one share.
\<close>

section \<open>Lists of fallible calls\<close>

lemma mapR_ok: "mapR f xs = Inr ys \<longleftrightarrow> list_all2 (\<lambda>x y. f x = Inr y) xs ys"
proof (induction xs arbitrary: ys)
  case (Cons x xs)
  then show ?case by (cases ys) (auto simp: bindR_eq_Inr)
qed auto

lemma mapR_length: "mapR f xs = Inr ys \<Longrightarrow> length ys = length xs"
  by (simp add: mapR_ok list_all2_lengthD)

section \<open>Identifiers\<close>

lemma share_identifier_ok: "share_identifier fr i = Inr v \<longleftrightarrow> frost_identifier i = Inr () \<and> identifier_try_from fr i = Some v"
  by (auto simp: share_identifier_def bindR_eq_Inr ok_or_def split: option.splits)

abbreviation numeric_from :: "frost \<Rightarrow> nat \<Rightarrow> u16 \<Rightarrow> (CryptoError, u16) result \<Rightarrow> (CryptoError, u16) result" where
  "numeric_from fr v \<equiv> (\<lambda>candidate r. bindR (share_identifier fr candidate) (\<lambda>i. if i = v then Inr candidate else r))"

lemma numeric_found: "foldr (numeric_from fr v) cs (Inl e) = Inr i \<Longrightarrow> share_identifier fr i = Inr v"
  by (induction cs) (auto simp: bindR_eq_Inr split: if_splits)

lemma numeric_sound: "numeric_identifier fr v = Inr i \<Longrightarrow> share_identifier fr i = Inr v"
  unfolding numeric_identifier_def Let_def by (rule numeric_found)

lemma numeric_first:
  assumes "\<And>c. c \<in> set cs \<Longrightarrow> \<exists>w. share_identifier fr c = Inr w" and "i \<in> set cs" "share_identifier fr i = Inr v"
    and "\<And>c. c \<in> set cs \<Longrightarrow> share_identifier fr c = Inr v \<Longrightarrow> c = i"
  shows "foldr (numeric_from fr v) cs r = Inr i"
  using assms
proof (induction cs)
  case (Cons c cs)
  from Cons.prems(1) [of c] obtain w where w: "share_identifier fr c = Inr w" by auto
  then have step: "foldr (numeric_from fr v) (c # cs) r = (if w = v then Inr c else foldr (numeric_from fr v) cs r)" by simp
  show ?case
  proof (cases "c = i")
    case True
    with w Cons.prems(3) step show ?thesis by simp
  next
    case False
    with Cons.prems(4) [of c] w have "w \<noteq> v" by auto
    moreover have "foldr (numeric_from fr v) cs r = Inr i"
    proof (rule Cons.IH)
      show "i \<in> set cs" using Cons.prems(2) False by simp
      show "share_identifier fr i = Inr v" by (rule Cons.prems(3))
      show "\<exists>w. share_identifier fr x = Inr w" if "x \<in> set cs" for x using that Cons.prems(1) [of x] by simp
      show "x = i" if "x \<in> set cs" "share_identifier fr x = Inr v" for x using that Cons.prems(4) [of x] by simp
    qed
    ultimately show ?thesis using step by simp
  qed
qed simp

lemma numeric_complete:
  assumes "\<And>c. frost_identifier c = Inr () \<Longrightarrow> identifier_try_from fr c \<noteq> None"
    and "\<And>c d w. identifier_try_from fr c = Some w \<Longrightarrow> identifier_try_from fr d = Some w \<Longrightarrow> c = d"
    and "share_identifier fr i = Inr v"
  shows "numeric_identifier fr v = Inr i"
  unfolding numeric_identifier_def Let_def
proof (rule numeric_first)
  have valid: "frost_identifier c = Inr () \<longleftrightarrow> c \<in> set (map of_nat [1..<Suc (unat FROST_MAX_PARTICIPANTS)])" for c
  proof
    assume "frost_identifier c = Inr ()"
    then have "c \<noteq> 0" "c \<le> FROST_MAX_PARTICIPANTS" by (auto simp: frost_identifier_def split: if_splits)
    then have "unat c \<in> {1..<Suc (unat FROST_MAX_PARTICIPANTS)}" "c = of_nat (unat c)"
      by (auto simp: word_le_nat_alt unat_eq_0 Suc_le_eq intro: unat_gt_0 [THEN iffD2])
    then show "c \<in> set (map of_nat [1..<Suc (unat FROST_MAX_PARTICIPANTS)])" by (metis imageI set_map set_upt)
  next
    assume "c \<in> set (map of_nat [1..<Suc (unat FROST_MAX_PARTICIPANTS)])"
    then obtain n where "c = of_nat n" "1 \<le> n" "n \<le> unat FROST_MAX_PARTICIPANTS" by auto
    moreover have "unat (of_nat n :: u16) = n"
      using calculation(3) unsigned_less [of FROST_MAX_PARTICIPANTS, where 'a = nat] by (simp add: unsigned_of_nat take_bit_nat_eq_self)
    ultimately show "frost_identifier c = Inr ()"
      by (auto simp: frost_identifier_def word_le_nat_alt not_less word_less_nat_alt)
  qed
  show "i \<in> set (map of_nat [1..<Suc (unat FROST_MAX_PARTICIPANTS)])"
    using assms(3) unfolding valid [symmetric] share_identifier_ok by simp
  show "\<exists>w. share_identifier fr c = Inr w" if "c \<in> set (map of_nat [1..<Suc (unat FROST_MAX_PARTICIPANTS)])" for c
    using that assms(1) [of c] unfolding valid [symmetric] share_identifier_ok by auto
  show "c = i" if "share_identifier fr c = Inr v" for c
    using that assms(2,3) unfolding share_identifier_ok by blast
qed (rule assms(3))

text \<open>The two conversions of participant identifiers are inverse: with a library that accepts every
  identifier in range and gives different ones different values, the search of the code over all
  candidates finds exactly the number an identifier was made from, and it finds nothing else.\<close>

theorem identifiers_roundtrip:
  assumes "\<And>c. frost_identifier c = Inr () \<Longrightarrow> identifier_try_from fr c \<noteq> None"
    and "\<And>c d w. identifier_try_from fr c = Some w \<Longrightarrow> identifier_try_from fr d = Some w \<Longrightarrow> c = d"
  shows "share_identifier fr i = Inr v \<longleftrightarrow> numeric_identifier fr v = Inr i"
  by (rule iffI) (rule numeric_complete, use assms in \<open>blast+\<close>, rule numeric_sound)

section \<open>Recovering the data key\<close>

lemma collect_ok:
  "collect_packages fr threshold ids key shares = Inr packages \<longleftrightarrow>
     list_all2 (\<lambda>s p. decode_share fr s = Inr p) shares packages \<and>
     distinct (map kp_identifier packages) \<and> kp_identifier ` set packages \<inter> ids = {} \<and>
     (\<forall>p \<in> set packages. kp_min_signers p = threshold \<and>
        kp_verifying_key p = (case key of Some k \<Rightarrow> k | None \<Rightarrow> kp_verifying_key (hd packages)))"
proof (induction shares arbitrary: ids key packages)
  case (Cons s shares)
  show ?case
  proof (cases packages)
    case (Cons p ps)
    then show ?thesis by (auto simp: Cons.IH split: option.splits)
  qed (auto split: if_splits)
qed auto

text \<open>C32: the data key is recovered exactly when it may be: all shares carry the expected configuration,
  the threshold is at least two and met, every share decodes, no two belong to the same participant,
  all name that threshold and one verifying key, and the library reconstructs 32 bytes from exactly
  these shares. A share of another epoch, a repeated participant or a share of another key makes it
  fail.\<close>

theorem frost_recovery_exact:
  "frost_recover_dek_for_epoch fr shares expected threshold = Inr dek \<longleftrightarrow>
     (\<forall>s \<in> set shares. efs_config_ref s = expected) \<and> 2 \<le> threshold \<and> unat threshold \<le> length shares \<and>
     (\<exists>packages. list_all2 (\<lambda>s p. decode_share fr (efs_encoded_share s) = Inr p) shares packages \<and>
        distinct (map kp_identifier packages) \<and>
        (\<forall>p \<in> set packages. kp_min_signers p = threshold \<and> kp_verifying_key p = kp_verifying_key (hd packages)) \<and>
        reconstruct_key fr packages = Some dek \<and> length dek = 32)"
  by (auto simp: frost_recover_dek_for_epoch_def frost_recover_dek_def collect_ok ok_or_eq_Inr FROST_SCALAR_LEN_def
      list_all2_map1 not_less)

section \<open>The result of a resharing\<close>

lemma verify_share_ok:
  "frost_verify_share fr s e = Inr i \<Longrightarrow> \<exists>sh P. decode_share fr s = Inr sh \<and> decode_public fr e = Inr P \<and>
     kp_verifying_key sh = pkp_verifying_key P \<and> pkp_min_signers P = Some (kp_min_signers sh) \<and>
     bt_get (pkp_verifying_shares P) (kp_identifier sh) = Some (kp_verifying_share sh) \<and>
     share_identifier fr i = Inr (kp_identifier sh)"
  by (auto simp: frost_verify_share_def split: if_splits dest: numeric_sound)

lemma successors_ok:
  "mapR (verify_successor fr e) (zip publics shares) = Inr actual \<Longrightarrow> length publics = length shares \<Longrightarrow>
   (\<forall>P \<in> set publics. P = e) \<and> list_all2 (\<lambda>s i. frost_verify_share fr s e = Inr i) shares actual"
proof (induction publics arbitrary: shares actual)
  case (Cons P publics)
  then show ?case by (cases shares) (auto simp: verify_successor_def split: if_splits)
qed simp

lemma distinct_by_image: "card (f ` set xs) = length xs \<Longrightarrow> distinct xs"
  by (metis card_distinct card_image_le card_length finite_set le_antisym)

lemma mapR_card:
  assumes "mapR f xs = Inr ys" "card (set ys) = length xs"
  shows "distinct xs"
proof -
  have "list_all2 (\<lambda>x y. f x = Inr y) xs ys" using assms(1) by (simp add: mapR_ok)
  then have "set ys \<subseteq> (\<lambda>x. case f x of Inr y \<Rightarrow> y) ` set xs"
    by (induction rule: list_all2_induct) force+
  then have "length xs \<le> card (set xs)"
    using assms(2) by (metis List.finite_set card_image_le card_mono finite_imageI le_trans)
  then show ?thesis using card_distinct card_length le_antisym by blast
qed

text \<open>C14: a resharing result that verifies keeps the group key and leaves exactly one share with every
  expected guardian: all guardians hold the same public package, its key is the one of the old package
  and its entries are those of the expected guardians; every share decodes, belongs to that key
  and matches its public entry, and the owners of the shares are the expected guardians, each once. The law
  used of the library is that an encoded public package decodes to itself.\<close>

theorem dpss_result_sound:
  assumes law: "\<And>P e. encode_public fr P = Inr e \<Longrightarrow> decode_public fr e = Inr P"
    and "verify_dpss_result cp fr old publics shares expected = Inr digest"
  shows "\<exists>old_key P e actual. decode_public fr old = Inr old_key \<and> encode_public fr P = Inr e \<and> digest = sha256 cp e \<and>
     pkp_verifying_key P = pkp_verifying_key old_key \<and> set publics = {e} \<and>
     (\<forall>v. v \<in> fst ` set (pkp_verifying_shares P) \<longleftrightarrow> (\<exists>i \<in> set expected. share_identifier fr i = Inr v)) \<and>
     distinct expected \<and> distinct actual \<and> set actual = set expected \<and>
     list_all2 (\<lambda>s i. \<exists>sh. decode_share fr s = Inr sh \<and> share_identifier fr i = Inr (kp_identifier sh) \<and>
       kp_verifying_key sh = pkp_verifying_key old_key \<and> pkp_min_signers P = Some (kp_min_signers sh) \<and>
       bt_get (pkp_verifying_shares P) (kp_identifier sh) = Some (kp_verifying_share sh)) shares actual"
proof -
  from assms(2) obtain ids old_key P e actual where
    len: "length publics = length expected" "length shares = length expected" "expected \<noteq> []" and
    ids: "mapR (share_identifier fr) expected = Inr ids" "card (set ids) = length expected" and
    old: "decode_public fr old = Inr old_key" "pkp_verifying_key P = pkp_verifying_key old_key" and
    dom: "fst ` set (pkp_verifying_shares P) = set ids" and e: "encode_public fr P = Inr e" "digest = sha256 cp e" and
    run: "mapR (verify_successor fr e) (zip publics shares) = Inr actual" and actual: "set actual = set expected"
    by (auto simp: verify_dpss_result_def split: if_splits)
  have ok: "(\<forall>P \<in> set publics. P = e) \<and> list_all2 (\<lambda>s i. frost_verify_share fr s e = Inr i) shares actual"
    using successors_ok [OF run] len by simp
  have distinct: "distinct expected" by (rule mapR_card [OF ids])
  have "length actual = length expected" using ok len list_all2_lengthD by fastforce
  with actual distinct have d: "distinct actual" by (metis card_distinct distinct_card)
  have p: "set publics = {e}" using ok len by (cases publics) auto
  have v: "v \<in> set ids \<longleftrightarrow> (\<exists>i \<in> set expected. share_identifier fr i = Inr v)" for v
  proof -
    have "list_all2 (\<lambda>x y. share_identifier fr x = Inr y) expected ids" using ids(1) by (simp add: mapR_ok)
    then show ?thesis by (induction rule: list_all2_induct) auto
  qed
  have l: "list_all2 (\<lambda>s i. \<exists>sh. decode_share fr s = Inr sh \<and> share_identifier fr i = Inr (kp_identifier sh) \<and>
       kp_verifying_key sh = pkp_verifying_key old_key \<and> pkp_min_signers P = Some (kp_min_signers sh) \<and>
       bt_get (pkp_verifying_shares P) (kp_identifier sh) = Some (kp_verifying_share sh)) shares actual"
  proof (rule list_all2_mono [OF conjunct2 [OF ok]])
    fix s i assume "frost_verify_share fr s e = Inr i"
    from verify_share_ok [OF this] law [OF e(1)] old(2) show "\<exists>sh. decode_share fr s = Inr sh \<and>
       share_identifier fr i = Inr (kp_identifier sh) \<and>
       kp_verifying_key sh = pkp_verifying_key old_key \<and> pkp_min_signers P = Some (kp_min_signers sh) \<and>
       bt_get (pkp_verifying_shares P) (kp_identifier sh) = Some (kp_verifying_share sh)" by auto
  qed
  show ?thesis
    by (intro exI [of _ old_key] exI [of _ P] exI [of _ e] exI [of _ actual] conjI allI)
      (rule old e distinct actual d p l, (simp only: dom v)?)+
qed

text \<open>A library of two guardians that encodes everything in one byte.\<close>

definition fz_public :: PublicKeyPackage where
  "fz_public = \<lparr> pkp_verifying_shares = [(1, []), (2, [])], pkp_verifying_key = [5], pkp_min_signers = Some 2 \<rparr>"

definition fz_frost :: frost where
  "fz_frost = \<lparr> identifier_try_from = \<lambda>i. Some (unat i),
     key_package_deserialize = \<lambda>d. Some \<lparr> kp_identifier = unat (hd d), kp_signing_share = [], kp_verifying_share = [],
       kp_verifying_key = [5], kp_min_signers = 2 \<rparr>,
     key_package_serialize = \<lambda>_. None, verifying_share_from = \<lambda>_. [], public_deserialize = \<lambda>_. Some fz_public,
     public_serialize = \<lambda>P. if P = fz_public then Some [9] else None, generate_with_dealer = \<lambda>_ _ _. None,
     reconstruct_key = \<lambda>_. None, repair_share_part1 = \<lambda>_ _ _ _. None, delta_deserialize = Some,
     repair_share_part2 = concat, sigma_deserialize = Some, repair_share_part3 = \<lambda>_ _ _. None,
     refresh_dkg_part1 = \<lambda>_ _ _ _. None, round1_secret_serialize = \<lambda>_. None, round1_secret_deserialize = \<lambda>_. None,
     round1_package_serialize = Some, round1_package_deserialize = Some, refresh_dkg_part2 = \<lambda>_ _. None,
     round2_secret_serialize = \<lambda>_. None, round2_secret_deserialize = \<lambda>_. None, round2_package_serialize = Some,
     round2_package_deserialize = Some, refresh_dkg_shares = \<lambda>_ _ _ _ _. None \<rparr>"

lemma fz_identifier: "share_identifier fz_frost i = (if frost_identifier i = Inr () then Inr (unat i) else Inl InvalidFrostParticipant)"
  by (auto simp: share_identifier_def fz_frost_def ok_or_def frost_identifier_def)

lemma fz_total: "frost_identifier c = Inr () \<Longrightarrow> identifier_try_from fz_frost c \<noteq> None"
  by (simp add: fz_frost_def)

lemma fz_inj: "identifier_try_from fz_frost c = Some w \<Longrightarrow> identifier_try_from fz_frost d = Some w \<Longrightarrow> c = d"
proof -
  assume "identifier_try_from fz_frost c = Some w" "identifier_try_from fz_frost d = Some w"
  then have "unat c = w" "unat d = w" by (simp_all add: fz_frost_def)
  moreover have "of_nat (unat c) = c" "of_nat (unat d) = d" by simp_all
  ultimately show "c = d" by metis
qed

lemma fz_law: "encode_public fz_frost P = Inr e \<Longrightarrow> decode_public fz_frost e = Inr P"
  by (auto simp: encode_public_def decode_public_def fz_frost_def ok_or_eq_Inr bounded_def split: if_splits)

theorem identifiers_roundtrip_witness:
  "share_identifier fz_frost 20 = Inr 20 \<and> numeric_identifier fz_frost 20 = Inr 20"
proof -
  have "share_identifier fz_frost i = Inr v \<longleftrightarrow> numeric_identifier fz_frost v = Inr i" for i v
    by (rule identifiers_roundtrip [OF fz_total fz_inj])
  moreover have "share_identifier fz_frost 20 = Inr 20"
    by (simp add: fz_identifier frost_identifier_def FROST_MAX_PARTICIPANTS_def)
  ultimately show ?thesis by blast
qed

lemma fz_result: "verify_dpss_result cp fz_frost [9] [[9], [9]] [[1], [2]] [1, 2] = Inr (sha256 cp [9])"
proof -
  have n: "numeric_identifier fz_frost (Suc 0) = Inr 1" "numeric_identifier fz_frost 2 = Inr 2"
    by (rule numeric_complete [OF fz_total fz_inj], assumption, assumption, assumption,
      simp add: fz_identifier frost_identifier_def FROST_MAX_PARTICIPANTS_def)+
  have "decode_public fz_frost [9] = Inr fz_public" "encode_public fz_frost fz_public = Inr [9]"
    by (simp_all add: decode_public_def encode_public_def fz_frost_def ok_or_def bounded_def FROST_PUBLIC_PACKAGE_MAX_LEN_def)
  moreover have "decode_share fz_frost [b] = Inr \<lparr> kp_identifier = unat b, kp_signing_share = [], kp_verifying_share = [],
      kp_verifying_key = [5], kp_min_signers = 2 \<rparr>" for b
    by (simp add: decode_share_def fz_frost_def ok_or_def bounded_def FROST_SHARE_MAX_LEN_def)
  ultimately show ?thesis
    using n by (simp add: verify_dpss_result_def fz_identifier frost_identifier_def FROST_MAX_PARTICIPANTS_def fz_public_def
        verify_successor_def frost_verify_share_def)
qed

theorem dpss_result_sound_witness:
  "\<exists>P e actual. encode_public fz_frost P = Inr e \<and> distinct actual \<and> set actual = {1, 2 :: u16}"
  using dpss_result_sound [OF fz_law fz_result] by auto

definition fz_dek_frost :: frost where
  "fz_dek_frost = fz_frost \<lparr> reconstruct_key := \<lambda>_. Some (replicate 32 0) \<rparr>"

definition fz_ref :: ConfigRef where
  "fz_ref = \<lparr> cr_config_id = 1, cr_payload_generation = 1, cr_authorization_epoch = 1, cr_guardian_epoch = 1, cr_epoch_binding = 1 \<rparr>"

theorem frost_recovery_exact_witness:
  "frost_recover_dek_for_epoch fz_dek_frost [\<lparr> efs_config_ref = fz_ref, efs_encoded_share = [1] \<rparr>,
     \<lparr> efs_config_ref = fz_ref, efs_encoded_share = [2] \<rparr>] fz_ref 2 = Inr (replicate 32 0)"
proof -
  have d: "decode_share fz_dek_frost [b] = Inr \<lparr> kp_identifier = unat b, kp_signing_share = [], kp_verifying_share = [],
      kp_verifying_key = [5], kp_min_signers = 2 \<rparr>" for b
    by (simp add: decode_share_def fz_dek_frost_def fz_frost_def ok_or_def bounded_def FROST_SHARE_MAX_LEN_def)
  have "reconstruct_key fz_dek_frost packages = Some (replicate 32 0)" for packages by (simp add: fz_dek_frost_def)
  with d show ?thesis unfolding frost_recovery_exact by (simp add: list_all2_Cons1)
qed

end
