(* ===== verification/GP_Progress.thy ===== *)
theory GP_Progress
  imports GP_Core GP_Core_Rotation
begin

text \<open>
  The coordinator machines of \<open>gp-core\<close> cannot be kept busy: every accepted event uses up a rank, so
  any run, however long, accepts a bounded number of events.
\<close>

locale ranked_machine =
  fixes exec :: "'op \<Rightarrow> 's \<Rightarrow> ('e, 'a) result \<times> 's"
    and rank :: "'s \<Rightarrow> nat"
  assumes accepted: "exec op s = (Inr a, s') \<Longrightarrow> rank s' < rank s"
    and refused: "exec op s = (Inl e, s') \<Longrightarrow> rank s' \<le> rank s"
begin

lemma accepted_bound:
  "length (filter (\<lambda>(op, r). is_ok r) (fst (run_log exec s ops))) + rank (snd (run_log exec s ops)) \<le> rank s"
proof (induction ops arbitrary: s)
  case (Cons op ops)
  obtain r t where t: "exec op s = (r, t)" by fastforce
  show ?case
  proof (cases r)
    case (Inl e)
    with refused [of op s e t] t Cons [of t] show ?thesis by (simp add: is_ok_def Let_def case_prod_beta)
  next
    case (Inr a)
    with accepted [of op s a t] t Cons [of t] show ?thesis by (simp add: is_ok_def Let_def case_prod_beta)
  qed
qed simp

end

fun recovery_state_rank :: "RecoveryState \<Rightarrow> nat" where
  "recovery_state_rank RecoveryState.Created = 6"
| "recovery_state_rank RecoveryState.AwaitingApprovals = 5"
| "recovery_state_rank RecoveryState.Authorized = 4"
| "recovery_state_rank RecoveryState.DelayPending = 3"
| "recovery_state_rank RecoveryState.Releasing = 2"
| "recovery_state_rank RecoveryState.Completed = 1"
| "recovery_state_rank RecoveryState.Cancelled = 0"
| "recovery_state_rank RecoveryState.Expired = 0"

definition recovery_rank :: "RecoveryMachine \<Rightarrow> nat" where
  "recovery_rank m = recovery_state_rank (rm_state m)"

fun rotation_state_rank :: "RotationState \<Rightarrow> nat" where
  "rotation_state_rank RotationState.Proposed = 8"
| "rotation_state_rank RotationState.DelayPending = 7"
| "rotation_state_rank RotationState.Preparing = 6"
| "rotation_state_rank RotationState.Ready = 5"
| "rotation_state_rank RotationState.Activating = 4"
| "rotation_state_rank RotationState.Active = 3"
| "rotation_state_rank RotationState.Draining = 2"
| "rotation_state_rank RotationState.Retired = 1"
| "rotation_state_rank RotationState.Aborted = 1"

definition rotation_rank :: "RotationMachine \<Rightarrow> nat" where
  "rotation_rank m = (if rot_ambiguous m \<or> rot_tombstoned m then 0 else rotation_state_rank (rot_state m))"

lemma state_ranks: "recovery_state_rank s \<le> 6" "1 \<le> rotation_state_rank r" "rotation_state_rank r \<le> 8"
  by (cases s; simp) (cases r; simp)+

interpretation recovery_progress: ranked_machine "\<lambda>(event, now, delay). RecoveryMachine_apply event now delay" recovery_rank
proof
  fix op s a s' assume "(case op of (event, now, delay) \<Rightarrow> RecoveryMachine_apply event now delay) s = (Inr a, s')"
  then show "recovery_rank s' < recovery_rank s"
    by (cases op; cases "rm_state s"; cases "fst op")
      (auto simp: RecoveryMachine_apply_def recovery_rank_def Let_def split: if_splits)
next
  fix op s e s' assume "(case op of (event, now, delay) \<Rightarrow> RecoveryMachine_apply event now delay) s = (Inl e, s')"
  then have "s' = s"
    by (cases op; cases "rm_state s"; cases "fst op") (auto simp: RecoveryMachine_apply_def Let_def split: if_splits)
  then show "recovery_rank s' \<le> recovery_rank s" by simp
qed

interpretation rotation_progress: ranked_machine RotationMachine_apply rotation_rank
proof
  fix op s a s' assume ok: "RotationMachine_apply op s = (Inr a, s')"
  show "rotation_rank s' < rotation_rank s"
  proof (cases "op = ConflictObserved")
    case True
    with ok state_ranks(2) [of "rot_state s"] show ?thesis
      by (auto simp: RotationMachine_apply_def rotation_rank_def split: if_splits)
  next
    case False
    with ok show ?thesis
      by (cases "rot_state s"; cases op)
        (auto simp: RotationMachine_apply_def rotation_rank_def Let_def is_abort_def
          split: if_splits bool.splits)
  qed
qed (use rotation_apply_err in fastforce)

text \<open>C33: the two coordinator machines terminate: whatever events are fed to them, in whatever order and
  number, a requester machine accepts at most six events and a rotation machine at most eight;
  all others are refused.\<close>

theorem coordinators_terminate:
  "length (filter (\<lambda>(event, r). is_ok r)
     (fst (run_log (\<lambda>(event, now, delay). RecoveryMachine_apply event now delay) recovery events))) \<le> 6 \<and>
   length (filter (\<lambda>(event, r). is_ok r) (fst (run_log RotationMachine_apply rotation revents))) \<le> 8"
proof
  show "length (filter (\<lambda>(event, r). is_ok r)
     (fst (run_log (\<lambda>(event, now, delay). RecoveryMachine_apply event now delay) recovery events))) \<le> 6"
    using recovery_progress.accepted_bound [of recovery events] state_ranks(1) [of "rm_state recovery"]
    by (simp add: recovery_rank_def)
  show "length (filter (\<lambda>(event, r). is_ok r) (fst (run_log RotationMachine_apply rotation revents))) \<le> 8"
    using rotation_progress.accepted_bound [of rotation revents] state_ranks(3) [of "rot_state rotation"]
    by (simp add: rotation_rank_def split: if_splits)
qed

end
