(* ===== verification/GP_Guardian_Recovery.thy ===== *)
theory GP_Guardian_Recovery
  imports GP_Protocol_Rotation GP_Storage_Rotation
begin

text \<open>
  The protocol-3 guardian: its state in \<open>gp-network/src/types.rs\<close> and its half of
  \<open>gp-network/src/recovery_runtime.rs\<close>. The clock readings, the boot identifier and the demonstration
  flag are inputs, \<open>hex::encode\<close> is a parameter. A handler that fails after a change of the entry
  keeps the change.
\<close>

section \<open>State and messages\<close>

record GuardianRotationProvisionV3 =
  grp_mailbox :: string
  grp_signing_seed :: Id32
  grp_signing_public_key :: arr32
  grp_recovery_card :: RecoveryCardV3
  grp_predecessor_capsule :: ConfigCapsuleV3
  grp_signer_public_keys :: "(u16, arr32) btree_map"
  grp_epoch_store :: GuardianEpochStore

record StagedGuardianMaterialV3 =
  sgm_record_draft :: GuardianRecordV3
  sgm_leaf :: PreparedRecordLeaf
  sgm_dpss_result_commitment :: Id32

record GuardianRotationSessionV3 =
  gse_rotation_machine :: RotationMachine
  gse_plan_hash :: Id32
  gse_begin_certificate_hash :: Id32
  gse_accepted_wall_time :: u64
  gse_started_monotonic :: u64
  gse_not_before_monotonic :: u64
  gse_boot_id :: string
  gse_cancelled :: bool
  gse_next_outgoing_sequences :: "(string, u64) btree_map"
  gse_next_incoming_sequences :: "(string, u64) btree_map"
  gse_encrypted_local_state :: "AeadCiphertext option"
  gse_staged_material :: "StagedGuardianMaterialV3 option"

record PendingNetworkRecoveryV3 =
  pn3_request :: RecoveryRequestV3
  pn3_request_digest :: Id32
  pn3_accepted_wall_time :: u64
  pn3_started_monotonic :: u64
  pn3_not_before_monotonic :: u64
  pn3_boot_id :: string
  pn3_cancelled :: bool
  pn3_released :: bool

record GuardianRotationEntryV3 =
  gre_provision :: GuardianRotationProvisionV3
  gre_sessions :: "(string, GuardianRotationSessionV3) btree_map"
  gre_recoveries :: "(string, PendingNetworkRecoveryV3) btree_map"

datatype GuardianRecoveryRequestV3 =
    BeginRecovery BeginRecoveryCertificateV3
  | CancelRecovery RecoveryRequestV3 OwnerRecoveryCancelCertificateV3
  | ReleaseRecovery RecoveryRequestV3 RecoveryReleaseCertificateV3

fun recovery_of :: "GuardianRecoveryRequestV3 \<Rightarrow> RecoveryRequestV3" where
  "recovery_of (BeginRecovery certificate) = brc3_request certificate"
| "recovery_of (CancelRecovery request _) = request"
| "recovery_of (ReleaseRecovery request _) = request"

datatype GuardianRecoveryResponseV3 =
    RecoveryBeginAccepted u64
  | RecoveryCancelled OwnerRecoveryCancelAckV3
  | RecoveryContribution GuardianRecoveryContributionV3
  | RecoveryRefused string

abbreviation epoch_store :: "GuardianRotationEntryV3 \<Rightarrow> GuardianEpochStore" where
  "epoch_store entry \<equiv> grp_epoch_store (gre_provision entry)"

abbreviation predecessor_capsule :: "GuardianRotationEntryV3 \<Rightarrow> ConfigCapsuleV3" where
  "predecessor_capsule entry \<equiv> grp_predecessor_capsule (gre_provision entry)"

definition with_store :: "GuardianEpochStore \<Rightarrow> GuardianRotationEntryV3 \<Rightarrow> GuardianRotationEntryV3" where
  "with_store store entry = entry \<lparr> gre_provision := (gre_provision entry) \<lparr> grp_epoch_store := store \<rparr> \<rparr>"

definition with_recovery :: "string \<Rightarrow> PendingNetworkRecoveryV3 \<Rightarrow> GuardianRotationEntryV3 \<Rightarrow> GuardianRotationEntryV3" where
  "with_recovery key pending entry = entry \<lparr> gre_recoveries := bt_insert key pending (gre_recoveries entry) \<rparr>"

section \<open>Recovery\<close>

definition record_for_request ::
    "GuardianRotationEntryV3 \<Rightarrow> ConfigRef \<Rightarrow> Id32 \<Rightarrow> bool \<Rightarrow> (anyhow, GuardianRecordV3) result"
where
  "record_for_request entry config_ref request_id require_pending_drain =
    (let draining = bindR (ok_or (case bt_get (ges_draining (epoch_store entry)) (cr_guardian_epoch config_ref) of
           Some epoch \<Rightarrow> if gp3_config_ref (grec3_policy (dge_record epoch)) = config_ref then Some epoch else None
         | None \<Rightarrow> None) (Bail ''guardian has no record for the recovery request's exact epoch'')) (\<lambda>epoch.
         if require_pending_drain \<and> request_id \<notin> dge_pending_request_ids epoch
         then Inl (Bail ''draining guardian refuses a recovery that did not begin before activation'')
         else Inr (dge_record epoch)) in
     case ges_active (epoch_store entry) of
       Some rec \<Rightarrow> if gp3_config_ref (grec3_policy rec) = config_ref then Inr rec else draining
     | None \<Rightarrow> draining)"

definition pending_old_recovery_ids :: "GuardianRotationEntryV3 \<Rightarrow> Id32 set" where
  "pending_old_recovery_ids entry =
    (let predecessor = cc3_config_ref (predecessor_capsule entry) in
     (\<lambda>pending. rq3_request_id (pn3_request pending)) `
       {pending \<in> set (bt_values (gre_recoveries entry)).
          rq3_config_ref (pn3_request pending) = predecessor \<and> \<not> pn3_cancelled pending \<and> \<not> pn3_released pending})"

definition recovery_begin ::
    "primitives \<Rightarrow> (Id32 \<Rightarrow> string) \<Rightarrow> u64 \<Rightarrow> u64 \<Rightarrow> string \<Rightarrow> bool \<Rightarrow> BeginRecoveryCertificateV3 \<Rightarrow>
     GuardianRotationEntryV3 \<Rightarrow> (anyhow, GuardianRecoveryResponseV3) result \<times> GuardianRotationEntryV3"
where
  "recovery_begin cp hx wall_now monotonic_now boot_id allow_insecure_demo_delay certificate entry =
    (let request = brc3_request certificate; key = hx (rq3_request_id request) in
     attempt (ok_or (ges_active (epoch_store entry)) (Bail ''guardian has no ACTIVE recovery authority'')) entry (\<lambda>active.
     if gp3_config_ref (grec3_policy active) \<noteq> rq3_config_ref request
     then (Inl (Bail ''new recovery Begin is not for this guardian's ACTIVE epoch''), entry) else
     attempt (validate_begin_recovery_certificate_v3 cp certificate (predecessor_capsule entry) wall_now) entry (\<lambda>digest.
     if bt_contains_key (ges_recovery_cancellation_tombstones (epoch_store entry)) key
     then (Inl (Bail ''recovery request was permanently cancelled''), entry) else
     case bt_get (gre_recoveries entry) key of
       Some existing \<Rightarrow>
         (if pn3_request_digest existing \<noteq> digest \<or> pn3_request existing \<noteq> request
          then (Inl (Bail ''recovery request id is locked to another transcript''), entry)
          else (Inr (RecoveryBeginAccepted (pn3_not_before_monotonic existing)), entry))
     | None \<Rightarrow>
       if \<exists>pending \<in> set (bt_values (gre_recoveries entry)). rq3_nonce (pn3_request pending) = rq3_nonce request
       then (Inl (Bail ''guardian rejected a replayed recovery nonce''), entry) else
       let delay = (if allow_insecure_demo_delay then min (gp3_minimum_recovery_delay (grec3_policy active)) 2
             else gp3_minimum_recovery_delay (grec3_policy active));
           not_before_monotonic = saturating_add monotonic_now delay in
       (Inr (RecoveryBeginAccepted not_before_monotonic),
        with_recovery key \<lparr> pn3_request = request, pn3_request_digest = digest, pn3_accepted_wall_time = wall_now,
          pn3_started_monotonic = monotonic_now, pn3_not_before_monotonic = not_before_monotonic, pn3_boot_id = boot_id,
          pn3_cancelled = False, pn3_released = False \<rparr> entry))))"

definition recovery_cancel ::
    "primitives \<Rightarrow> (Id32 \<Rightarrow> string) \<Rightarrow> u64 \<Rightarrow> RecoveryRequestV3 \<Rightarrow> OwnerRecoveryCancelCertificateV3 \<Rightarrow>
     GuardianRotationEntryV3 \<Rightarrow> (anyhow, GuardianRecoveryResponseV3) result \<times> GuardianRotationEntryV3"
where
  "recovery_cancel cp hx wall_now request certificate entry =
    (let expected_ref = rq3_config_ref request; key = hx (rq3_request_id request) in
     attempt (record_for_request entry expected_ref (rq3_request_id request) True) entry (\<lambda>_.
     attempt (validate_owner_recovery_cancel_for_ref_v3 cp certificate request (predecessor_capsule entry) expected_ref
       wall_now) entry (\<lambda>digest.
     attempt (case bt_get (gre_recoveries entry) key of
         Some pending \<Rightarrow>
           (if pn3_request_digest pending \<noteq> digest
            then Inl (Bail ''cancellation conflicts with the accepted request transcript'')
            else if pn3_released pending
            then Inl (Bail ''owner cancellation is not retroactive after material release'')
            else Inr ())
       | None \<Rightarrow> Inr ()) entry (\<lambda>_.
     let store = epoch_store entry;
         entry = with_store (store \<lparr> ges_recovery_cancellation_tombstones :=
           bt_insert key digest (ges_recovery_cancellation_tombstones store) \<rparr>) entry;
         entry = (case bt_get (gre_recoveries entry) key of
             Some pending \<Rightarrow> with_recovery key (pending \<lparr> pn3_cancelled := True \<rparr>) entry
           | None \<Rightarrow> entry) in
     attempt (record_for_request entry expected_ref (rq3_request_id request) True) entry (\<lambda>rec.
     attempt (wire (owner_recovery_cancel_certificate_v3 certificate)) entry (\<lambda>c.
     let ack = \<lparr> oca3_config_ref = expected_ref, oca3_request_id = rq3_request_id request, oca3_request_digest = digest,
           oca3_cancel_certificate_hash = sha256 cp c, oca3_guardian_index = grec3_guardian_index rec,
           oca3_guardian_signature = [] \<rparr> in
     attempt (wire (owner_recovery_cancel_ack_v3 ack)) entry (\<lambda>t.
     (Inr (RecoveryCancelled (ack \<lparr> oca3_guardian_signature := sign cp (grp_signing_seed (gre_provision entry)) t \<rparr>)),
      entry))))))))"

definition recovery_release ::
    "primitives \<Rightarrow> (Id32 \<Rightarrow> string) \<Rightarrow> u64 \<Rightarrow> u64 \<Rightarrow> string \<Rightarrow> RecoveryRequestV3 \<Rightarrow> RecoveryReleaseCertificateV3 \<Rightarrow>
     GuardianRotationEntryV3 \<Rightarrow> (anyhow, GuardianRecoveryResponseV3) result \<times> GuardianRotationEntryV3"
where
  "recovery_release cp hx wall_now monotonic_now boot_id request certificate entry =
    (let expected_ref = rq3_config_ref request; key = hx (rq3_request_id request) in
     attempt (validate_recovery_release_certificate_for_ref_v3 cp certificate (predecessor_capsule entry) expected_ref
       wall_now) entry (\<lambda>digest.
     attempt (record_for_request entry expected_ref (rq3_request_id request) True) entry (\<lambda>rec.
     attempt (ok_or (bt_get (gre_recoveries entry) key)
       (Bail ''guardian never accepted Begin for this exact request'')) entry (\<lambda>pending.
     if pn3_request pending \<noteq> request \<or> pn3_request_digest pending \<noteq> digest
     then (Inl (Bail ''guardian Release does not match the durably accepted Begin''), entry) else
     if pn3_cancelled pending \<or> pn3_released pending \<or>
        bt_get (ges_recovery_cancellation_tombstones (epoch_store entry)) key = Some digest
     then (Inl (Bail ''guardian refuses cancelled or replayed recovery Release''), entry) else
     if pn3_boot_id pending \<noteq> boot_id \<or> monotonic_now < pn3_not_before_monotonic pending \<or>
        wall_now \<ge> rq3_expiry (pn3_request pending)
     then (Inl (Bail ''guardian recovery delay is incomplete, expired, or reboot-ambiguous''), entry) else
     let contribution = \<lparr> gc3_config_ref = rq3_config_ref request, gc3_request_id = rq3_request_id request,
           gc3_request_digest = digest, gc3_recovery_recipient_key = rq3_recovery_recipient_key request,
           gc3_nonce = rq3_nonce request, gc3_guardian_index = grec3_guardian_index rec,
           gc3_fragment_index = grec3_fragment_index rec,
           gc3_encrypted_ciphertext_fragment = grec3_encrypted_ciphertext_fragment rec,
           gc3_encrypted_dek_share = grec3_encrypted_dek_share rec, gc3_merkle_path_proof = grec3_merkle_path_proof rec,
           gc3_guardian_signature = [] \<rparr> in
     attempt (wire (guardian_recovery_contribution_v3 contribution)) entry (\<lambda>t.
     let reply = RecoveryContribution (contribution \<lparr> gc3_guardian_signature :=
           sign cp (grp_signing_seed (gre_provision entry)) t \<rparr>);
         entry = with_recovery key (pending \<lparr> pn3_released := True \<rparr>) entry in
     if bt_contains_key (ges_draining (epoch_store entry)) (cr_guardian_epoch expected_ref)
     then (case finish_draining_request (cr_guardian_epoch expected_ref) (rq3_request_id request) (epoch_store entry) of
         (Inl e, store) \<Rightarrow> (Inl (FromStorage e), with_store store entry)
       | (Inr _, store) \<Rightarrow> (Inr reply, with_store store entry))
     else (Inr reply, entry))))))"

definition handle_guardian_recovery_v3 ::
    "primitives \<Rightarrow> (Id32 \<Rightarrow> string) \<Rightarrow> u64 \<Rightarrow> u64 \<Rightarrow> string \<Rightarrow> bool \<Rightarrow> GuardianRecoveryRequestV3 \<Rightarrow>
     GuardianRotationEntryV3 \<Rightarrow> (anyhow, GuardianRecoveryResponseV3) result \<times> GuardianRotationEntryV3"
where
  "handle_guardian_recovery_v3 cp hx wall_now monotonic_now boot_id allow_insecure_demo_delay request entry =
    (let recovery = recovery_of request in
     if rq3_protocol_version recovery \<noteq> PROTOCOL_VERSION_V3 \<or>
        length (rq3_recovery_recipient_key recovery) \<noteq> XWING_PUBLIC_KEY_LEN
     then (Inl (Bail ''guardian rejected malformed protocol-v3 recovery request''), entry) else
     case request of
       BeginRecovery certificate \<Rightarrow>
         recovery_begin cp hx wall_now monotonic_now boot_id allow_insecure_demo_delay certificate entry
     | CancelRecovery request certificate \<Rightarrow> recovery_cancel cp hx wall_now request certificate entry
     | ReleaseRecovery request certificate \<Rightarrow>
         recovery_release cp hx wall_now monotonic_now boot_id request certificate entry)"

end
