(* ===== verification/GP_Guardian_Runtime.thy ===== *)
theory GP_Guardian_Runtime
  imports GP_Guardian_Recovery GP_Frost
begin

text \<open>
  The rotation half of the protocol-3 guardian, \<open>gp-network/src/guardian_runtime.rs\<close>: begin and
  cancellation, the rounds of share repair and refresh, staging and committing the material of the
  next epoch, hand-off, activation, abort and retirement. The results of the random draws of a call
  are the fields of an argument; \<open>serde_json\<close> is a parameter. State is threaded as the code
  threads \<open>&mut\<close>: a step that fails after a change returns the changed state.
\<close>

section \<open>State and messages\<close>

datatype LocalDpssState =
    RepairDealer "byte list" "byte list"
  | OldShare "byte list"
  | Repaired "byte list"
  | Refreshed "byte list" "byte list"
  | RefreshRound1 "byte list" "byte list"
  | RefreshRound2 "byte list" "byte list" "(u16 \<times> byte list) list"

record DpssDeliveryV3 =
  dd_target_mailbox :: string
  dd_sealed_message :: SealedMessage

datatype GuardianRotationRequestV3 =
    RotationBegin RotationPlan BeginRotationCertificate
  | RotationCancel RotationPlan OwnerRotationCancelCertificate
  | DoRepairRound1 RotationPlan BeginRotationCertificate RotationReleaseCertificate OldShareUnlockGrant "u16 list" u16
  | DoRepairRound2 RotationPlan "SealedMessage list" u16
  | RepairFinalize RotationPlan "SealedMessage list" "byte list"
  | DoRefreshRound1 RotationPlan "BeginRotationCertificate option" "RotationReleaseCertificate option"
      "OldShareUnlockGrant option"
  | DoRefreshRound2 RotationPlan "SealedMessage list"
  | RefreshFinalize RotationPlan "SealedMessage list" "byte list"
  | StageMaterial RotationPlan NewShareWrapGrant u16 "byte list" "byte list" GuardianPolicyV3 Id32
  | PrepareCommit RotationPlan Id32 "byte list" Id32
  | HandoffComplete RotationPlan Id32
  | RotationActivate RotationPlan ConfigCapsuleV3 u64
  | RotationAbort RotationPlan AbortRotationCertificate
  | Retire RetirementNotice u64

fun rotation_context :: "GuardianRotationRequestV3 \<Rightarrow> RotationContext" where
  "rotation_context (RotationBegin plan _) = rp_context plan"
| "rotation_context (RotationCancel plan _) = rp_context plan"
| "rotation_context (DoRepairRound1 plan _ _ _ _ _) = rp_context plan"
| "rotation_context (DoRepairRound2 plan _ _) = rp_context plan"
| "rotation_context (RepairFinalize plan _ _) = rp_context plan"
| "rotation_context (DoRefreshRound1 plan _ _ _) = rp_context plan"
| "rotation_context (DoRefreshRound2 plan _) = rp_context plan"
| "rotation_context (RefreshFinalize plan _ _) = rp_context plan"
| "rotation_context (StageMaterial plan _ _ _ _ _ _) = rp_context plan"
| "rotation_context (PrepareCommit plan _ _ _) = rp_context plan"
| "rotation_context (HandoffComplete plan _) = rp_context plan"
| "rotation_context (RotationActivate plan _ _) = rp_context plan"
| "rotation_context (RotationAbort plan _) = rp_context plan"
| "rotation_context (Retire notice _) = rn_context notice"

datatype GuardianRotationResponseV3 =
    RotationBeginAccepted u64
  | RotationCancelled OwnerRotationCancelAck
  | DpssDeliveries "DpssDeliveryV3 list" "CiphertextFragmentContribution option"
  | RepairStored u16 "byte list"
  | RefreshFinalized u16 "byte list" Id32
  | RefreshMaterialStaged PreparedRecordLeaf "byte list" Id32
  | RotationPrepared NewGuardianPreparedAck
  | Handoff OldGuardianHandoffAck
  | Activated u64
  | RotationAborted
  | RotationRetired RetirementAck

record guardian_json =
  message_to_vec :: "DpssProtocolMessage \<Rightarrow> byte list option"
  message_from_slice :: "byte list \<Rightarrow> DpssProtocolMessage option"
  local_state_to_vec :: "LocalDpssState \<Rightarrow> byte list option"
  local_state_from_slice :: "byte list \<Rightarrow> LocalDpssState option"

record guardian_draws =
  gd_provider_seed :: Id32
  gd_local_nonce :: arr24
  gd_delivery :: "nat \<Rightarrow> Id32 \<times> arr24"
  gd_share_nonce :: arr24
  gd_fragment_nonce :: arr24

definition json_result :: "'a option \<Rightarrow> (anyhow, 'a) result" where
  "json_result r = ok_or r FromJson"

definition storage_result :: "(StorageError, 'a) result \<Rightarrow> (anyhow, 'a) result" where
  "storage_result r = (case r of Inl e \<Rightarrow> Inl (FromStorage e) | Inr a \<Rightarrow> Inr a)"

definition machine_result :: "(RotationError, 'a) result \<Rightarrow> (anyhow, 'a) result" where
  "machine_result r = (case r of Inl e \<Rightarrow> Inl (FromRotation e) | Inr a \<Rightarrow> Inr a)"

definition plan_digest :: "primitives \<Rightarrow> RotationPlan \<Rightarrow> (anyhow, Id32) result" where
  "plan_digest cp plan = bindR (wire (rotation_plan plan)) (\<lambda>t. Inr (sha256 cp t))"

section \<open>Routes, sessions and local state\<close>

definition guardian_route :: "GuardianRotationEntryV3 \<Rightarrow> RotationPlan \<Rightarrow> bool \<Rightarrow> (anyhow, GuardianRouteV3) result" where
  "guardian_route entry plan successor =
    (let roster = (if successor then rp_new_roster plan else rp_old_roster plan) in
     case filter (\<lambda>route. gr3_guardian_public_key route = grp_signing_public_key (gre_provision entry)) roster of
       [route] \<Rightarrow> Inr route
     | _ \<Rightarrow> Inl (Bail ''guardian identity is absent or duplicated in the exact plan roster''))"

definition local_journal_context :: "RotationPlan \<Rightarrow> u16 \<Rightarrow> (anyhow, byte list) result" where
  "local_journal_context plan guardian_index =
    bindR (wire (rotation_plan plan)) (\<lambda>context.
    Inr (context @ as_bytes ''gp/network-guardian-local-state/v3'' @ be16 guardian_index))"

definition save_local_state ::
    "primitives \<Rightarrow> guardian_json \<Rightarrow> arr24 \<Rightarrow> Id32 \<Rightarrow> RotationPlan \<Rightarrow> u16 \<Rightarrow> LocalDpssState \<Rightarrow>
     GuardianRotationSessionV3 \<Rightarrow> (anyhow, unit) result \<times> GuardianRotationSessionV3"
where
  "save_local_state cp gj nonce identity_seed plan guardian_index state session =
    attempt (json_result (local_state_to_vec gj state)) session (\<lambda>plaintext.
    attempt (local_journal_context plan guardian_index) session (\<lambda>context.
    attempt (crypt (seal_local_rotation_journal cp identity_seed nonce plaintext context)) session (\<lambda>sealed.
    (Inr (), session \<lparr> gse_encrypted_local_state := Some sealed \<rparr>))))"

definition open_local_state ::
    "primitives \<Rightarrow> guardian_json \<Rightarrow> Id32 \<Rightarrow> RotationPlan \<Rightarrow> u16 \<Rightarrow> GuardianRotationSessionV3 \<Rightarrow>
     (anyhow, LocalDpssState) result"
where
  "open_local_state cp gj identity_seed plan guardian_index session =
    bindR (ok_or (gse_encrypted_local_state session) (Bail ''guardian has no encrypted local DPSS state'')) (\<lambda>encrypted.
    bindR (local_journal_context plan guardian_index) (\<lambda>context.
    bindR (crypt (open_local_rotation_journal cp identity_seed encrypted context)) (\<lambda>plaintext.
    json_result (local_state_from_slice gj plaintext))))"

text \<open>Decimal numbers, as \<open>format!\<close> prints them.\<close>

fun show_nat :: "nat \<Rightarrow> string" where
  "show_nat n = (if n < 10 then [char_of (48 + n)] else show_nat (n div 10) @ [char_of (48 + n mod 10)])"

declare show_nat.simps [simp del]

definition sequence_key :: "u16 \<Rightarrow> u16 \<Rightarrow> string" where
  "sequence_key sender recipient = show_nat (unat sender) @ '':'' @ show_nat (unat recipient)"

definition next_sequence :: "(string, u64) btree_map \<Rightarrow> string \<Rightarrow> u64" where
  "next_sequence sequences key = (case bt_get sequences key of Some n \<Rightarrow> n | None \<Rightarrow> 1)"

definition make_delivery ::
    "primitives \<Rightarrow> guardian_json \<Rightarrow> Id32 \<times> arr24 \<Rightarrow> Id32 \<Rightarrow> RotationPlan \<Rightarrow> u16 \<Rightarrow> GuardianRouteV3 \<Rightarrow> DpssPhase \<Rightarrow>
     byte list \<Rightarrow> GuardianRotationSessionV3 \<Rightarrow> (anyhow, DpssDeliveryV3) result \<times> GuardianRotationSessionV3"
where
  "make_delivery cp gj draw signing_seed plan sender_index target phase provider_payload session =
    (let key = sequence_key sender_index (gr3_guardian_index target);
         sequence = next_sequence (gse_next_outgoing_sequences session) key;
         session = session \<lparr> gse_next_outgoing_sequences :=
           bt_insert key sequence (gse_next_outgoing_sequences session) \<rparr> in
     attempt (plan_digest cp plan) session (\<lambda>plan_hash.
     let message = \<lparr> dpm_context = rp_context plan, dpm_plan_hash = plan_hash, dpm_dpss_suite = rp_dpss_suite plan,
           dpm_dpss_session_id = rp_dpss_session_id plan,
           dpm_qualified_set_commitment = rp_dpss_qualified_set_commitment plan, dpm_phase = phase,
           dpm_sender_index = sender_index, dpm_recipient_index = gr3_guardian_index target, dpm_sequence = sequence,
           dpm_provider_payload = provider_payload, dpm_sender_signature = [] \<rparr>;
         session = session \<lparr> gse_next_outgoing_sequences :=
           bt_insert key (saturating_add sequence 1) (gse_next_outgoing_sequences session) \<rparr> in
     attempt (wire (dpss_protocol_message message)) session (\<lambda>t.
     let message = message \<lparr> dpm_sender_signature := sign cp signing_seed t \<rparr> in
     attempt (json_result (message_to_vec gj message)) session (\<lambda>bytes.
     attempt (wire (mailbox_transport_context (gr3_mailbox target) ''dpss-direct'')) session (\<lambda>context.
     attempt (crypt (seal_to_recipient cp (gr3_session_recipient_key target) (fst draw) (snd draw) bytes context)) session
       (\<lambda>sealed.
     (Inr \<lparr> dd_target_mailbox = gr3_mailbox target, dd_sealed_message = sealed \<rparr>, session)))))))"

text \<open>The later duplicate of an index wins, as collecting into a map does.\<close>

definition route_keys :: "GuardianRouteV3 list \<Rightarrow> (u16, arr32) btree_map" where
  "route_keys routes = fold (\<lambda>route. bt_insert (gr3_guardian_index route) (gr3_guardian_public_key route)) routes []"

definition message_mismatch ::
    "primitives \<Rightarrow> RotationPlan \<Rightarrow> u16 \<Rightarrow> DpssPhase \<Rightarrow> u16 set \<Rightarrow> DpssProtocolMessage \<Rightarrow> (anyhow, bool) result"
where
  "message_mismatch cp plan own_index expected_phase senders message =
    (if dpm_context message \<noteq> rp_context plan then Inr True else
     bindR (plan_digest cp plan) (\<lambda>plan_hash.
     Inr (dpm_plan_hash message \<noteq> plan_hash \<or> dpm_dpss_suite message \<noteq> rp_dpss_suite plan \<or>
       dpm_dpss_session_id message \<noteq> rp_dpss_session_id plan \<or>
       dpm_qualified_set_commitment message \<noteq> rp_dpss_qualified_set_commitment plan \<or>
       dpm_phase message \<noteq> expected_phase \<or> dpm_recipient_index message \<noteq> own_index \<or>
       dpm_sender_index message \<in> senders)))"

text \<open>The loop of \<open>open_deliveries\<close>.\<close>

fun open_each ::
    "primitives \<Rightarrow> guardian_json \<Rightarrow> Id32 \<Rightarrow> RotationPlan \<Rightarrow> GuardianRouteV3 \<Rightarrow> (u16, arr32) btree_map \<Rightarrow> DpssPhase \<Rightarrow>
     u16 set \<Rightarrow> SealedMessage list \<Rightarrow> GuardianRotationSessionV3 \<Rightarrow>
     (anyhow, (u16 \<times> byte list) list) result \<times> GuardianRotationSessionV3"
where
  "open_each cp gj identity_seed plan own_route keys expected_phase senders [] session = (Inr [], session)"
| "open_each cp gj identity_seed plan own_route keys expected_phase senders (sealed # incoming) session =
    attempt (wire (mailbox_transport_context (gr3_mailbox own_route) ''dpss-direct'')) session (\<lambda>context.
    attempt (crypt (open_sealed cp identity_seed sealed context)) session (\<lambda>plaintext.
    attempt (json_result (message_from_slice gj plaintext)) session (\<lambda>message.
    let sender = dpm_sender_index message in
    attempt (ok_or (bt_get keys sender)
      (Bail ''DPSS message is from an actor outside the expected roster'')) session (\<lambda>sender_key.
    attempt (wire (dpss_protocol_message message)) session (\<lambda>transcript.
    attempt (message_mismatch cp plan (gr3_guardian_index own_route) expected_phase senders message) session (\<lambda>bad.
    if bad then (Inl (Bail ''DPSS delivery is replayed or transcript-mismatched''), session) else
    let key = sequence_key sender (gr3_guardian_index own_route);
        sequence = next_sequence (gse_next_incoming_sequences session) key;
        session = session \<lparr> gse_next_incoming_sequences :=
          bt_insert key sequence (gse_next_incoming_sequences session) \<rparr> in
    if dpm_sequence message \<noteq> sequence
    then (Inl (Bail ''DPSS delivery is reordered or replayed''), session) else
    attempt (crypt (verify cp sender_key transcript (dpm_sender_signature message))) session (\<lambda>_.
    let session = session \<lparr> gse_next_incoming_sequences :=
          bt_insert key (saturating_add sequence 1) (gse_next_incoming_sequences session) \<rparr> in
    case open_each cp gj identity_seed plan own_route keys expected_phase (insert sender senders) incoming session of
      (Inl e, session) \<Rightarrow> (Inl e, session)
    | (Inr opened, session) \<Rightarrow> (Inr ((sender, dpm_provider_payload message) # opened), session))))))))"

definition open_deliveries ::
    "primitives \<Rightarrow> guardian_json \<Rightarrow> Id32 \<Rightarrow> RotationPlan \<Rightarrow> GuardianRouteV3 \<Rightarrow> GuardianRouteV3 list \<Rightarrow> DpssPhase \<Rightarrow>
     SealedMessage list \<Rightarrow> GuardianRotationSessionV3 \<Rightarrow>
     (anyhow, (u16 \<times> byte list) list) result \<times> GuardianRotationSessionV3"
where
  "open_deliveries cp gj identity_seed plan own_route sender_routes expected_phase incoming session =
    open_each cp gj identity_seed plan own_route (route_keys sender_routes) expected_phase {} incoming session"

definition session_mut ::
    "primitives \<Rightarrow> (Id32 \<Rightarrow> string) \<Rightarrow> GuardianRotationEntryV3 \<Rightarrow> RotationPlan \<Rightarrow>
     (anyhow, GuardianRotationSessionV3) result"
where
  "session_mut cp hx entry plan =
    bindR (plan_digest cp plan) (\<lambda>plan_hash.
    bindR (ok_or (bt_get (gre_sessions entry) (hx (rx_rotation_id (rp_context plan))))
      (Bail ''guardian has not accepted Begin for this rotation'')) (\<lambda>session.
    let machine = gse_rotation_machine session in
    if gse_plan_hash session \<noteq> plan_hash \<or>
       rot_rotation_id machine \<noteq> rx_rotation_id (rp_context plan) \<or>
       rot_plan_hash machine \<noteq> plan_hash \<or>
       rot_predecessor machine \<noteq> rp_predecessor plan \<or>
       rot_successor machine \<noteq> rp_successor plan \<or>
       gse_cancelled session
    then Inl (Bail ''guardian rotation session is cancelled or plan-mismatched'')
    else Inr session))"

text \<open>The code after \<open>session_mut(entry, plan)?\<close> changes the session in place.\<close>

definition in_session ::
    "primitives \<Rightarrow> (Id32 \<Rightarrow> string) \<Rightarrow> RotationPlan \<Rightarrow> GuardianRotationEntryV3 \<Rightarrow>
     (GuardianRotationSessionV3 \<Rightarrow> (anyhow, 'a) result \<times> GuardianRotationSessionV3) \<Rightarrow>
     (anyhow, 'a) result \<times> GuardianRotationEntryV3"
where
  "in_session cp hx plan entry f =
    attempt (session_mut cp hx entry plan) entry (\<lambda>session.
    case f session of (r, session) \<Rightarrow>
      (r, entry \<lparr> gre_sessions := bt_insert (hx (rx_rotation_id (rp_context plan))) session (gre_sessions entry) \<rparr>))"

text \<open>The operator \<open>?\<close> after a step that changes the session.\<close>

definition and_then ::
    "('e, 'a) result \<times> 's \<Rightarrow> ('a \<Rightarrow> 's \<Rightarrow> ('e, 'b) result \<times> 's) \<Rightarrow> ('e, 'b) result \<times> 's"
where
  "and_then step f = (case step of (Inl e, s) \<Rightarrow> (Inl e, s) | (Inr a, s) \<Rightarrow> f a s)"

definition apply_event ::
    "RotationEvent \<Rightarrow> GuardianRotationSessionV3 \<Rightarrow> (anyhow, unit) result \<times> GuardianRotationSessionV3"
where
  "apply_event event session =
    (case RotationMachine_apply event (gse_rotation_machine session) of (r, machine) \<Rightarrow>
      (bindR (machine_result r) (\<lambda>_. Inr ()), session \<lparr> gse_rotation_machine := machine \<rparr>))"

definition advance_to_preparing ::
    "u64 \<Rightarrow> GuardianRotationSessionV3 \<Rightarrow> (anyhow, unit) result \<times> GuardianRotationSessionV3"
where
  "advance_to_preparing monotonic_now session =
    (case rot_state (gse_rotation_machine session) of
       RotationState.DelayPending \<Rightarrow> apply_event (ReleaseAccepted monotonic_now True True) session
     | RotationState.Preparing \<Rightarrow> (Inr (), session)
     | _ \<Rightarrow> (Inl (Bail ''rotation Release is invalid from local state''), session))"

section \<open>Opening grants\<close>

definition key_of :: "byte list \<Rightarrow> Id32" where
  "key_of bytes = of_nat (from_be bytes)"

definition open_old_material ::
    "primitives \<Rightarrow> GuardianRotationEntryV3 \<Rightarrow> Id32 \<Rightarrow> RotationPlan \<Rightarrow> OldShareUnlockGrant \<Rightarrow> Id32 \<Rightarrow>
     (anyhow, byte list \<times> byte list) result"
where
  "open_old_material cp entry identity_seed plan grant release_hash =
    bindR (guardian_route entry plan False) (\<lambda>route.
    let err = Inl (Bail ''old-share grant does not bind this guardian and release'') in
    if osug_context grant \<noteq> rp_context plan then err else
    bindR (plan_digest cp plan) (\<lambda>plan_hash.
    if osug_plan_hash grant \<noteq> plan_hash \<or> osug_release_certificate_hash grant \<noteq> release_hash \<or>
       osug_old_guardian_index grant \<noteq> gr3_guardian_index route
    then err else
    bindR (wire (old_share_unlock_grant grant)) (\<lambda>_.
    bindR (wire (old_share_unlock_grant_payload_context grant False)) (\<lambda>share_context.
    bindR (crypt (open_sealed cp identity_seed (osug_encrypted_unwrap_key grant) share_context)) (\<lambda>share_key.
    bindR (wire (old_share_unlock_grant_payload_context grant True)) (\<lambda>fragment_context.
    bindR (crypt (open_sealed cp identity_seed (osug_encrypted_fragment_key grant) fragment_context)) (\<lambda>fragment_key.
    if length share_key \<noteq> 32 \<or> length fragment_key \<noteq> 32
    then Inl (Bail ''old-share grant contains an invalid key length'') else
    bindR (ok_or (ges_active (epoch_store entry)) (Bail ''old guardian has no active record'')) (\<lambda>rec.
    let config_ref = gp3_config_ref (grec3_policy rec) in
    bindR (wire (guardian_share_context_v3 config_ref (grec3_guardian_index rec))) (\<lambda>context.
    bindR (crypt (aead_decrypt cp (key_of share_key) (grec3_encrypted_dek_share rec) context)) (\<lambda>share.
    bindR (wire (guardian_fragment_context_v3 config_ref (grec3_guardian_index rec) (grec3_fragment_index rec)))
      (\<lambda>context.
    bindR (crypt (aead_decrypt cp (key_of fragment_key) (grec3_encrypted_ciphertext_fragment rec) context)) (\<lambda>fragment.
    Inr (share, fragment)))))))))))))"

definition open_new_keys ::
    "primitives \<Rightarrow> Id32 \<Rightarrow> RotationPlan \<Rightarrow> u16 \<Rightarrow> NewShareWrapGrant \<Rightarrow> (anyhow, byte list \<times> byte list) result"
where
  "open_new_keys cp identity_seed plan guardian_index grant =
    (let err = Inl (Bail ''new-share grant does not bind this successor guardian'') in
     if nswg_context grant \<noteq> rp_context plan then err else
     bindR (plan_digest cp plan) (\<lambda>plan_hash.
     if nswg_plan_hash grant \<noteq> plan_hash \<or> nswg_new_guardian_index grant \<noteq> guardian_index then err else
     bindR (wire (new_share_wrap_grant grant)) (\<lambda>_.
     bindR (wire (new_share_wrap_grant_payload_context grant False)) (\<lambda>share_context.
     bindR (crypt (open_sealed cp identity_seed (nswg_encrypted_wrap_key grant) share_context)) (\<lambda>share_key.
     bindR (wire (new_share_wrap_grant_payload_context grant True)) (\<lambda>fragment_context.
     bindR (crypt (open_sealed cp identity_seed (nswg_encrypted_fragment_key grant) fragment_context)) (\<lambda>fragment_key.
     if length share_key \<noteq> 32 \<or> length fragment_key \<noteq> 32
     then Inl (Bail ''new-share grant contains an invalid key length'')
     else Inr (share_key, fragment_key))))))))"

section \<open>Begin, cancellation and abort\<close>

text \<open>The loop over the routes of the guardian in both rosters.\<close>

definition session_key_substituted :: "primitives \<Rightarrow> Id32 \<Rightarrow> GuardianRotationEntryV3 \<Rightarrow> RotationPlan \<Rightarrow> bool" where
  "session_key_substituted cp identity_seed entry plan \<longleftrightarrow>
     (\<exists>route \<in> set (rp_old_roster plan @ rp_new_roster plan).
        gr3_guardian_public_key route = grp_signing_public_key (gre_provision entry) \<and>
        gr3_session_recipient_key route \<noteq> xwing_public cp identity_seed)"

definition is_participant :: "GuardianRotationEntryV3 \<Rightarrow> RotationPlan \<Rightarrow> bool" where
  "is_participant entry plan \<longleftrightarrow> is_ok (guardian_route entry plan False) \<or> is_ok (guardian_route entry plan True)"

definition rotation_begin ::
    "primitives \<Rightarrow> (Id32 \<Rightarrow> string) \<Rightarrow> Id32 \<Rightarrow> u64 \<Rightarrow> u64 \<Rightarrow> string \<Rightarrow> bool \<Rightarrow> RotationPlan \<Rightarrow>
     BeginRotationCertificate \<Rightarrow> GuardianRotationEntryV3 \<Rightarrow>
     (anyhow, GuardianRotationResponseV3) result \<times> GuardianRotationEntryV3"
where
  "rotation_begin cp hx identity_seed wall_now monotonic_now boot_id allow_insecure_demo_delay plan certificate entry =
    attempt (validate_begin_rotation_certificate_v3 cp certificate plan (predecessor_capsule entry) wall_now) entry
      (\<lambda>begin_hash.
    if \<not> is_participant entry plan
    then (Inl (Bail ''guardian is not a participant in this rotation''), entry) else
    if session_key_substituted cp identity_seed entry plan
    then (Inl (Bail ''plan substituted this guardian's DPSS session recipient key''), entry) else
    attempt (plan_digest cp plan) entry (\<lambda>plan_hash.
    let key = hx (rx_rotation_id (rp_context plan)) in
    if bt_contains_key (ges_rotation_tombstones (epoch_store entry)) key
    then (Inl (Bail ''guardian permanently rejected this completed or cancelled rotation id''), entry) else
    case bt_get (gre_sessions entry) key of
      Some existing \<Rightarrow>
        (if gse_plan_hash existing = plan_hash \<and> gse_begin_certificate_hash existing = begin_hash
         then (Inr (RotationBeginAccepted (gse_not_before_monotonic existing)), entry)
         else (Inl (Bail ''guardian is already locked to another plan for this rotation id''), entry))
    | None \<Rightarrow>
      let delay = (if allow_insecure_demo_delay then min (rp_minimum_delay_secs plan) 2 else rp_minimum_delay_secs plan) in
      attempt (machine_result (RotationMachine_new (rx_rotation_id (rp_context plan)) plan_hash
        (rp_predecessor plan) (rp_successor plan))) entry (\<lambda>machine.
      case RotationMachine_apply (BeginAccepted monotonic_now delay True) machine of
        (Inl e, _) \<Rightarrow> (Inl (FromRotation e), entry)
      | (Inr _, machine) \<Rightarrow>
        attempt (ok_or (rot_not_before machine) (Bail ''rotation machine did not persist its delay'')) entry
          (\<lambda>not_before_monotonic.
        (Inr (RotationBeginAccepted not_before_monotonic),
         entry \<lparr> gre_sessions := bt_insert key \<lparr> gse_rotation_machine = machine, gse_plan_hash = plan_hash,
           gse_begin_certificate_hash = begin_hash, gse_accepted_wall_time = wall_now,
           gse_started_monotonic = monotonic_now, gse_not_before_monotonic = not_before_monotonic,
           gse_boot_id = boot_id, gse_cancelled = False, gse_next_outgoing_sequences = [],
           gse_next_incoming_sequences = [], gse_encrypted_local_state = None, gse_staged_material = None \<rparr>
           (gre_sessions entry) \<rparr>)))))"

text \<open>The chain of the tombstone, the session and the fresh machine in the cancellation.\<close>

definition cancel_session ::
    "(Id32 \<Rightarrow> string) \<Rightarrow> RotationPlan \<Rightarrow> Id32 \<Rightarrow> GuardianRotationEntryV3 \<Rightarrow> (anyhow, unit) result \<times> GuardianRotationEntryV3"
where
  "cancel_session hx plan plan_hash entry =
    (let key = hx (rx_rotation_id (rp_context plan)) in
     case bt_get (ges_rotation_tombstones (epoch_store entry)) key of
       Some tombstone \<Rightarrow>
         (if rt_plan_hash tombstone \<noteq> plan_hash \<or> rt_terminal_state tombstone \<noteq> RotationState.Aborted
          then (Inl (Bail ''rotation id already has a conflicting terminal state''), entry)
          else (Inr (), entry))
     | None \<Rightarrow>
       (case bt_get (gre_sessions entry) key of
          Some session \<Rightarrow>
            (case (if gse_cancelled session then (Inr (), session)
                   else apply_event (OwnerCancelObserved True) session) of
               (Inl e, session) \<Rightarrow>
                 (Inl e, entry \<lparr> gre_sessions := bt_insert key session (gre_sessions entry) \<rparr>)
             | (Inr _, session) \<Rightarrow>
                 (Inr (), entry \<lparr> gre_sessions := bt_insert key (session \<lparr> gse_cancelled := True,
                   gse_encrypted_local_state := None, gse_staged_material := None \<rparr>) (gre_sessions entry) \<rparr>))
        | None \<Rightarrow>
            (bindR (machine_result (RotationMachine_new (rx_rotation_id (rp_context plan)) plan_hash
               (rp_predecessor plan) (rp_successor plan))) (\<lambda>machine.
             bindR (machine_result (fst (RotationMachine_apply (OwnerCancelObserved True) machine))) (\<lambda>_. Inr ())),
             entry)))"

definition remove_session :: "string \<Rightarrow> GuardianRotationEntryV3 \<Rightarrow> GuardianRotationEntryV3" where
  "remove_session key entry = entry \<lparr> gre_sessions := bt_remove key (gre_sessions entry) \<rparr>"

text \<open>A call on the epoch store of the entry.\<close>

definition on_store ::
    "GuardianRotationEntryV3 \<Rightarrow> (GuardianEpochStore \<Rightarrow> (StorageError, 'a) result \<times> GuardianEpochStore) \<Rightarrow>
     (anyhow, 'a) result \<times> GuardianRotationEntryV3"
where
  "on_store entry f = (case f (epoch_store entry) of (r, store) \<Rightarrow> (storage_result r, with_store store entry))"

text \<open>The signed answer to a cancellation, over the entry after the session is gone.\<close>

definition cancel_acknowledgement ::
    "primitives \<Rightarrow> RotationPlan \<Rightarrow> Id32 \<Rightarrow> byte list \<Rightarrow> GuardianRotationEntryV3 \<Rightarrow> (anyhow, GuardianRotationResponseV3) result"
where
  "cancel_acknowledgement cp plan plan_hash c entry =
    bindR (case ges_active (epoch_store entry) of
        Some rec \<Rightarrow> Inr (grec3_guardian_index rec)
      | None \<Rightarrow> (case guardian_route entry plan True of
          Inr route \<Rightarrow> Inr (gr3_guardian_index route)
        | Inl _ \<Rightarrow> Inl (Bail ''cancel recipient has no guardian index''))) (\<lambda>guardian_index.
    let ack = \<lparr> orca_context = rp_context plan, orca_plan_hash = plan_hash, orca_cancel_certificate_hash = sha256 cp c,
          orca_guardian_index = guardian_index, orca_guardian_signature = [] \<rparr> in
    bindR (wire (owner_rotation_cancel_ack ack)) (\<lambda>t.
    Inr (RotationCancelled (ack \<lparr> orca_guardian_signature := sign cp (grp_signing_seed (gre_provision entry)) t \<rparr>))))"

definition rotation_cancel ::
    "primitives \<Rightarrow> (Id32 \<Rightarrow> string) \<Rightarrow> u64 \<Rightarrow> RotationPlan \<Rightarrow> OwnerRotationCancelCertificate \<Rightarrow>
     GuardianRotationEntryV3 \<Rightarrow> (anyhow, GuardianRotationResponseV3) result \<times> GuardianRotationEntryV3"
where
  "rotation_cancel cp hx wall_now plan certificate entry =
    attempt (validate_rotation_plan_v3 cp plan (predecessor_capsule entry) wall_now) entry (\<lambda>plan_hash.
    if orcc_context certificate \<noteq> rp_context plan \<or> orcc_plan_hash certificate \<noteq> plan_hash \<or>
       orcc_owner_cancel_public_key certificate \<noteq> cc3_owner_cancel_public_key (predecessor_capsule entry) \<or>
       length (orcc_cancel_response_recipient_key certificate) \<noteq> XWING_PUBLIC_KEY_LEN
    then (Inl (Bail ''owner rotation cancellation is plan-mismatched''), entry) else
    attempt (wire (owner_rotation_cancel_certificate certificate)) entry (\<lambda>c.
    attempt (crypt (verify cp (orcc_owner_cancel_public_key certificate) c (orcc_owner_signature certificate))) entry (\<lambda>_.
    if \<not> is_participant entry plan
    then (Inl (Bail ''guardian is not a participant in this cancelled rotation''), entry) else
    let key = hx (rx_rotation_id (rp_context plan)) in
    and_then (cancel_session hx plan plan_hash entry) (\<lambda>_ entry.
    and_then (on_store entry (abort_prepared hx (rx_rotation_id (rp_context plan)) plan_hash)) (\<lambda>_ entry.
    let entry = remove_session key entry in
    (cancel_acknowledgement cp plan plan_hash c entry, entry))))))"

definition rotation_abort ::
    "primitives \<Rightarrow> (Id32 \<Rightarrow> string) \<Rightarrow> u64 \<Rightarrow> RotationPlan \<Rightarrow> AbortRotationCertificate \<Rightarrow>
     GuardianRotationEntryV3 \<Rightarrow> (anyhow, GuardianRotationResponseV3) result \<times> GuardianRotationEntryV3"
where
  "rotation_abort cp hx wall_now plan certificate entry =
    attempt (validate_abort_rotation_certificate_v3 cp certificate plan (predecessor_capsule entry) wall_now) entry (\<lambda>_.
    attempt (plan_digest cp plan) entry (\<lambda>plan_hash.
    and_then (in_session cp hx plan entry (apply_event (AbortObserved True))) (\<lambda>_ entry.
    and_then (on_store entry (abort_prepared hx (rx_rotation_id (rp_context plan)) plan_hash)) (\<lambda>_ entry.
    (Inr RotationAborted, remove_session (hx (rx_rotation_id (rp_context plan))) entry)))))"

section \<open>Repairing and refreshing shares\<close>

definition route_of :: "u16 \<Rightarrow> GuardianRouteV3 list \<Rightarrow> GuardianRouteV3 option" where
  "route_of index roster = List.find (\<lambda>route. gr3_guardian_index route = index) roster"

text \<open>The loops over \<open>make_delivery\<close>: the targets with their payloads, in order.\<close>

fun deliver_each ::
    "primitives \<Rightarrow> guardian_json \<Rightarrow> (nat \<Rightarrow> Id32 \<times> arr24) \<Rightarrow> Id32 \<Rightarrow> RotationPlan \<Rightarrow> u16 \<Rightarrow> DpssPhase \<Rightarrow> string \<Rightarrow> nat \<Rightarrow>
     (GuardianRouteV3 option \<times> byte list) list \<Rightarrow> GuardianRotationSessionV3 \<Rightarrow>
     (anyhow, DpssDeliveryV3 list) result \<times> GuardianRotationSessionV3"
where
  "deliver_each cp gj draw signing_seed plan sender_index phase unknown n [] session = (Inr [], session)"
| "deliver_each cp gj draw signing_seed plan sender_index phase unknown n ((target, payload) # rest) session =
    attempt (ok_or target (Bail unknown)) session (\<lambda>target.
    and_then (make_delivery cp gj (draw n) signing_seed plan sender_index target phase payload session)
      (\<lambda>delivery session.
    and_then (deliver_each cp gj draw signing_seed plan sender_index phase unknown (Suc n) rest session)
      (\<lambda>deliveries session. (Inr (delivery # deliveries), session))))"

definition record_leaf :: "primitives \<Rightarrow> GuardianRecordV3 \<Rightarrow> (anyhow, PreparedRecordLeaf) result" where
  "record_leaf cp rec =
    bindR (wire (guardian_policy_body_v3 (grec3_policy rec))) (\<lambda>policy.
    Inr \<lparr> prl_guardian_index = grec3_guardian_index rec, prl_fragment_index = grec3_fragment_index rec,
      prl_opaque_slot_id = grec3_opaque_slot_id rec, prl_encrypted_share_hash = hash_aead cp (grec3_encrypted_dek_share rec),
      prl_fragment_hash = hash_aead cp (grec3_encrypted_ciphertext_fragment rec), prl_policy_hash = sha256 cp policy \<rparr>)"

definition repair_round1 ::
    "primitives \<Rightarrow> frost \<Rightarrow> guardian_json \<Rightarrow> (Id32 \<Rightarrow> string) \<Rightarrow> guardian_draws \<Rightarrow> Id32 \<Rightarrow> u64 \<Rightarrow> u64 \<Rightarrow> string \<Rightarrow>
     RotationPlan \<Rightarrow> BeginRotationCertificate \<Rightarrow> RotationReleaseCertificate \<Rightarrow> OldShareUnlockGrant \<Rightarrow> u16 list \<Rightarrow> u16 \<Rightarrow>
     GuardianRotationEntryV3 \<Rightarrow> (anyhow, GuardianRotationResponseV3) result \<times> GuardianRotationEntryV3"
where
  "repair_round1 cp fr gj hx draws identity_seed wall_now monotonic_now boot_id plan begin_certificate
      release_certificate unlock_grant helper_ids replacement_id entry =
    attempt (validate_rotation_release_certificate_v3 cp release_certificate begin_certificate plan
      (predecessor_capsule entry) wall_now) entry (\<lambda>release_hash.
    attempt (guardian_route entry plan False) entry (\<lambda>old_route.
    let signing_seed = grp_signing_seed (gre_provision entry); own = gr3_guardian_index old_route in
    attempt (open_old_material cp entry identity_seed plan unlock_grant release_hash) entry (\<lambda>(old_share, fragment).
    attempt (ok_or (ges_active (epoch_store entry)) (Bail ''old guardian has no active record'')) entry (\<lambda>rec.
    attempt (record_leaf cp rec) entry (\<lambda>prepared_record_leaf.
    in_session cp hx plan entry (\<lambda>session.
    attempt (wire (begin_rotation_certificate begin_certificate)) session (\<lambda>begin_transcript.
    if gse_begin_certificate_hash session \<noteq> sha256 cp begin_transcript \<or> gse_boot_id session \<noteq> boot_id \<or>
       monotonic_now < gse_not_before_monotonic session
    then (Inl (Bail ''guardian delay is incomplete or reboot-ambiguous''), session) else
    and_then (advance_to_preparing monotonic_now session) (\<lambda>_ session.
    attempt (crypt (begin_old_share fr old_share helper_ids replacement_id (gd_provider_seed draws))) session (\<lambda>deltas.
    attempt (ok_or (List.find (\<lambda>(recipient, _). recipient = own) deltas)
      (Bail ''RTS provider omitted the helper's own delta'')) session (\<lambda>(_, self_delta).
    and_then (save_local_state cp gj (gd_local_nonce draws) identity_seed plan own (RepairDealer old_share self_delta)
      session) (\<lambda>_ session.
    and_then (deliver_each cp gj (gd_delivery draws) signing_seed plan own DpssPhase.RepairRound1
      ''RTS helper is not in the old roster'' 0
      (map (\<lambda>(target_id, delta). (route_of target_id (rp_old_roster plan), delta))
        (filter (\<lambda>(target_id, _). target_id \<noteq> own) deltas)) session) (\<lambda>deliveries session.
    let contribution = \<lparr> cfc_context = rp_context plan, cfc_plan_hash = gse_plan_hash session,
          cfc_release_certificate_hash = release_hash, cfc_old_guardian_index = own,
          cfc_fragment_index = grec3_fragment_index rec, cfc_ciphertext_fragment = fragment,
          cfc_fragment_commitment = sha256 cp fragment, cfc_prepared_record_leaf = prepared_record_leaf,
          cfc_merkle_path_proof = grec3_merkle_path_proof rec, cfc_guardian_signature = [] \<rparr> in
    attempt (wire (ciphertext_fragment_contribution contribution)) session (\<lambda>t.
    (Inr (DpssDeliveries deliveries (Some (contribution \<lparr> cfc_guardian_signature := sign cp signing_seed t \<rparr>))),
     session))))))))))))))"

definition repair_round2 ::
    "primitives \<Rightarrow> frost \<Rightarrow> guardian_json \<Rightarrow> (Id32 \<Rightarrow> string) \<Rightarrow> guardian_draws \<Rightarrow> Id32 \<Rightarrow> RotationPlan \<Rightarrow>
     SealedMessage list \<Rightarrow> u16 \<Rightarrow> GuardianRotationEntryV3 \<Rightarrow>
     (anyhow, GuardianRotationResponseV3) result \<times> GuardianRotationEntryV3"
where
  "repair_round2 cp fr gj hx draws identity_seed plan incoming replacement_id entry =
    attempt (guardian_route entry plan False) entry (\<lambda>old_route.
    let signing_seed = grp_signing_seed (gre_provision entry); own = gr3_guardian_index old_route in
    attempt (ok_or (route_of replacement_id (rp_new_roster plan))
      (Bail ''replacement is not in the successor roster'')) entry (\<lambda>replacement.
    in_session cp hx plan entry (\<lambda>session.
    and_then (open_deliveries cp gj identity_seed plan old_route (rp_old_roster plan) DpssPhase.RepairRound1 incoming session)
      (\<lambda>opened session.
    attempt (open_local_state cp gj identity_seed plan own session) session (\<lambda>state.
    case state of
      RepairDealer old_share self_delta \<Rightarrow>
        attempt (crypt (frost_repair_part2 fr (map snd opened @ [self_delta]))) session (\<lambda>sigma.
        and_then (save_local_state cp gj (gd_local_nonce draws) identity_seed plan own (OldShare old_share) session)
          (\<lambda>_ session.
        and_then (make_delivery cp gj (gd_delivery draws 0) signing_seed plan own replacement DpssPhase.RepairRound2 sigma session)
          (\<lambda>delivery session. (Inr (DpssDeliveries [delivery] None), session))))
    | _ \<Rightarrow> (Inl (Bail ''guardian is not in RTS repair-dealer state''), session))))))"

definition repair_finalize ::
    "primitives \<Rightarrow> frost \<Rightarrow> guardian_json \<Rightarrow> (Id32 \<Rightarrow> string) \<Rightarrow> guardian_draws \<Rightarrow> Id32 \<Rightarrow> RotationPlan \<Rightarrow>
     SealedMessage list \<Rightarrow> byte list \<Rightarrow> GuardianRotationEntryV3 \<Rightarrow>
     (anyhow, GuardianRotationResponseV3) result \<times> GuardianRotationEntryV3"
where
  "repair_finalize cp fr gj hx draws identity_seed plan incoming old_public_package entry =
    attempt (guardian_route entry plan True) entry (\<lambda>new_route.
    let own = gr3_guardian_index new_route in
    in_session cp hx plan entry (\<lambda>session.
    and_then (open_deliveries cp gj identity_seed plan new_route (rp_old_roster plan) DpssPhase.RepairRound2 incoming session)
      (\<lambda>opened session.
    if length opened < unat (rp_old_guardian_threshold plan)
    then (Inl (Bail ''RTS finalization lacks an old-guardian threshold''), session) else
    and_then (advance_to_preparing (gse_not_before_monotonic session) session) (\<lambda>_ session.
    attempt (crypt (finalize_new_share fr (map snd opened) own old_public_package)) session (\<lambda>share.
    attempt (crypt (frost_public_add_repaired_share fr old_public_package share)) session (\<lambda>expanded_public_package.
    attempt (crypt (frost_verify_share fr share expanded_public_package)) session (\<lambda>participant.
    if participant \<noteq> own
    then (Inl (Bail ''RTS replacement share has the wrong participant id''), session) else
    and_then (save_local_state cp gj (gd_local_nonce draws) identity_seed plan own (Repaired share) session) (\<lambda>_ session.
    (Inr (RepairStored own expanded_public_package), session)))))))))"

text \<open>The share a guardian enters the refresh with: unlocked by a grant, or repaired before.\<close>

definition refresh_share ::
    "primitives \<Rightarrow> guardian_json \<Rightarrow> (Id32 \<Rightarrow> string) \<Rightarrow> Id32 \<Rightarrow> u64 \<Rightarrow> RotationPlan \<Rightarrow>
     BeginRotationCertificate option \<Rightarrow> RotationReleaseCertificate option \<Rightarrow> OldShareUnlockGrant option \<Rightarrow> u16 \<Rightarrow>
     GuardianRotationEntryV3 \<Rightarrow> (anyhow, byte list) result"
where
  "refresh_share cp gj hx identity_seed wall_now plan begin_certificate release_certificate old_share_grant own entry =
    (case old_share_grant of
       Some grant \<Rightarrow>
         bindR (ok_or begin_certificate (Bail ''unchanged guardian refresh lacks Begin certificate'')) (\<lambda>begin_cert.
         bindR (ok_or release_certificate (Bail ''unchanged guardian refresh lacks Release certificate'')) (\<lambda>release.
         bindR (validate_rotation_release_certificate_v3 cp release begin_cert plan (predecessor_capsule entry) wall_now)
           (\<lambda>release_hash.
         bindR (open_old_material cp entry identity_seed plan grant release_hash) (\<lambda>(share, _). Inr share))))
     | None \<Rightarrow>
         bindR (session_mut cp hx entry plan) (\<lambda>session.
         bindR (open_local_state cp gj identity_seed plan own session) (\<lambda>state.
         case state of
           Repaired share \<Rightarrow> Inr share
         | _ \<Rightarrow> Inl (Bail ''candidate has no locally finalized RTS share''))))"

definition refresh_round1 ::
    "primitives \<Rightarrow> frost \<Rightarrow> guardian_json \<Rightarrow> (Id32 \<Rightarrow> string) \<Rightarrow> guardian_draws \<Rightarrow> Id32 \<Rightarrow> u64 \<Rightarrow> u64 \<Rightarrow> string \<Rightarrow>
     RotationPlan \<Rightarrow> BeginRotationCertificate option \<Rightarrow> RotationReleaseCertificate option \<Rightarrow> OldShareUnlockGrant option \<Rightarrow>
     GuardianRotationEntryV3 \<Rightarrow> (anyhow, GuardianRotationResponseV3) result \<times> GuardianRotationEntryV3"
where
  "refresh_round1 cp fr gj hx draws identity_seed wall_now monotonic_now boot_id plan begin_certificate
      release_certificate old_share_grant entry =
    attempt (guardian_route entry plan True) entry (\<lambda>new_route.
    let signing_seed = grp_signing_seed (gre_provision entry); own = gr3_guardian_index new_route in
    attempt (refresh_share cp gj hx identity_seed wall_now plan begin_certificate release_certificate old_share_grant own
      entry) entry (\<lambda>share.
    in_session cp hx plan entry (\<lambda>session.
    if gse_boot_id session \<noteq> boot_id \<or> monotonic_now < gse_not_before_monotonic session
    then (Inl (Bail ''guardian refresh delay is incomplete or reboot-ambiguous''), session) else
    and_then (advance_to_preparing monotonic_now session) (\<lambda>_ session.
    attempt (u16_try_from (length (rp_new_roster plan))) session (\<lambda>total.
    attempt (crypt (frost_refresh_part1 fr own (rp_new_guardian_threshold plan) total (gd_provider_seed draws))) session
      (\<lambda>refresh.
    and_then (save_local_state cp gj (gd_local_nonce draws) identity_seed plan own
      (LocalDpssState.RefreshRound1 share (fr1_secret_state refresh)) session) (\<lambda>_ session.
    and_then (deliver_each cp gj (gd_delivery draws) signing_seed plan own DpssPhase.RefreshRound1 [] 0
      (map (\<lambda>route. (Some route, fr1_broadcast refresh))
        (filter (\<lambda>route. gr3_guardian_index route \<noteq> own) (rp_new_roster plan))) session) (\<lambda>deliveries session.
    (Inr (DpssDeliveries deliveries None), session)))))))))"

definition refresh_round2 ::
    "primitives \<Rightarrow> frost \<Rightarrow> guardian_json \<Rightarrow> (Id32 \<Rightarrow> string) \<Rightarrow> guardian_draws \<Rightarrow> Id32 \<Rightarrow> RotationPlan \<Rightarrow>
     SealedMessage list \<Rightarrow> GuardianRotationEntryV3 \<Rightarrow>
     (anyhow, GuardianRotationResponseV3) result \<times> GuardianRotationEntryV3"
where
  "refresh_round2 cp fr gj hx draws identity_seed plan incoming entry =
    attempt (guardian_route entry plan True) entry (\<lambda>new_route.
    let signing_seed = grp_signing_seed (gre_provision entry); own = gr3_guardian_index new_route in
    in_session cp hx plan entry (\<lambda>session.
    and_then (open_deliveries cp gj identity_seed plan new_route (rp_new_roster plan) DpssPhase.RefreshRound1 incoming session)
      (\<lambda>round1 session.
    if length round1 + 1 \<noteq> length (rp_new_roster plan)
    then (Inl (Bail ''refresh round 1 is incomplete''), session) else
    attempt (open_local_state cp gj identity_seed plan own session) session (\<lambda>state.
    case state of
      LocalDpssState.RefreshRound1 old_share secret_state \<Rightarrow>
        attempt (crypt (frost_refresh_part2 fr secret_state round1)) session (\<lambda>refresh.
        and_then (save_local_state cp gj (gd_local_nonce draws) identity_seed plan own
          (LocalDpssState.RefreshRound2 old_share (fr2_secret_state refresh) round1) session) (\<lambda>_ session.
        and_then (deliver_each cp gj (gd_delivery draws) signing_seed plan own DpssPhase.RefreshRound2
          ''refresh provider emitted an unknown recipient'' 0
          (map (\<lambda>(recipient, payload). (route_of recipient (rp_new_roster plan), payload)) (fr2_direct_messages refresh))
          session) (\<lambda>deliveries session.
        (Inr (DpssDeliveries deliveries None), session))))
    | _ \<Rightarrow> (Inl (Bail ''guardian is not in refresh round-1 state''), session)))))"

definition refresh_finalize ::
    "primitives \<Rightarrow> frost \<Rightarrow> guardian_json \<Rightarrow> (Id32 \<Rightarrow> string) \<Rightarrow> guardian_draws \<Rightarrow> Id32 \<Rightarrow> RotationPlan \<Rightarrow>
     SealedMessage list \<Rightarrow> byte list \<Rightarrow> GuardianRotationEntryV3 \<Rightarrow>
     (anyhow, GuardianRotationResponseV3) result \<times> GuardianRotationEntryV3"
where
  "refresh_finalize cp fr gj hx draws identity_seed plan incoming old_public_package entry =
    attempt (guardian_route entry plan True) entry (\<lambda>new_route.
    let own = gr3_guardian_index new_route in
    in_session cp hx plan entry (\<lambda>session.
    and_then (open_deliveries cp gj identity_seed plan new_route (rp_new_roster plan) DpssPhase.RefreshRound2 incoming session)
      (\<lambda>round2 session.
    if length round2 + 1 \<noteq> length (rp_new_roster plan)
    then (Inl (Bail ''refresh round 2 is incomplete''), session) else
    attempt (open_local_state cp gj identity_seed plan own session) session (\<lambda>state.
    case state of
      LocalDpssState.RefreshRound2 old_share secret_state round1_messages \<Rightarrow>
        attempt (crypt (frost_refresh_part3 fr secret_state round1_messages round2 old_public_package old_share)) session
          (\<lambda>output.
        attempt (crypt (frost_verify_share fr (fro_share output) (fro_public_package output))) session (\<lambda>participant.
        if participant \<noteq> own
        then (Inl (Bail ''refreshed share has the wrong participant id''), session) else
        attempt (crypt (frost_public_package_digest cp fr (fro_public_package output))) session (\<lambda>dpss_result_commitment.
        and_then (save_local_state cp gj (gd_local_nonce draws) identity_seed plan own
          (Refreshed (fro_share output) (fro_public_package output)) session) (\<lambda>_ session.
        (Inr (RefreshFinalized own (fro_public_package output) dpss_result_commitment), session)))))
    | _ \<Rightarrow> (Inl (Bail ''guardian is not in refresh round-2 state''), session)))))"

section \<open>The material of the next epoch\<close>

definition custody_bytes :: "GuardianRecordV3 \<Rightarrow> byte list" where
  "custody_bytes rec =
    bytes24 (ac_nonce (grec3_encrypted_dek_share rec)) @ ac_ciphertext (grec3_encrypted_dek_share rec) @
    bytes24 (ac_nonce (grec3_encrypted_ciphertext_fragment rec)) @ ac_ciphertext (grec3_encrypted_ciphertext_fragment rec)"

fun position_of :: "u16 \<Rightarrow> GuardianRouteV3 list \<Rightarrow> nat option" where
  "position_of index [] = None"
| "position_of index (route # roster) =
     (if gr3_guardian_index route = index then Some 0 else map_option Suc (position_of index roster))"

definition stage_material ::
    "primitives \<Rightarrow> frost \<Rightarrow> guardian_json \<Rightarrow> (Id32 \<Rightarrow> string) \<Rightarrow> guardian_draws \<Rightarrow> Id32 \<Rightarrow> RotationPlan \<Rightarrow>
     NewShareWrapGrant \<Rightarrow> u16 \<Rightarrow> byte list \<Rightarrow> byte list \<Rightarrow> GuardianPolicyV3 \<Rightarrow> Id32 \<Rightarrow>
     GuardianRotationEntryV3 \<Rightarrow> (anyhow, GuardianRotationResponseV3) result \<times> GuardianRotationEntryV3"
where
  "stage_material cp fr gj hx draws identity_seed plan wrap_grant fragment_index ciphertext_fragment
      ciphertext_fragment_proof policy opaque_slot_id entry =
    attempt (guardian_route entry plan True) entry (\<lambda>new_route.
    let capsule = predecessor_capsule entry; own = gr3_guardian_index new_route; successor = rp_successor plan in
    in_session cp hx plan entry (\<lambda>session.
    attempt (open_local_state cp gj identity_seed plan own session) session (\<lambda>state.
    case state of
      Refreshed share public_package \<Rightarrow>
        attempt (crypt (frost_public_package_digest cp fr public_package)) session (\<lambda>dpss_result_commitment.
        attempt (ok_or (position_of own (rp_new_roster plan)) (Bail ''successor route is absent'')) session
          (\<lambda>fragment_position.
        attempt (u16_try_from (fragment_position + 1)) session (\<lambda>expected_fragment_index.
        if gp3_config_ref policy \<noteq> successor \<or> gp3_epoch_state policy \<noteq> GuardianEpochState.Prepared \<or>
           gp3_predecessor_capsule_hash policy \<noteq> cc3_capsule_hash capsule \<or>
           gp3_dpss_suite policy \<noteq> rp_dpss_suite plan \<or>
           gp3_dpss_public_commitment policy \<noteq> dpss_result_commitment \<or>
           gp3_signer_set_commitment policy \<noteq> cc3_signer_set_commitment capsule \<or>
           opaque_slot_id \<noteq> gr3_opaque_slot_id new_route \<or>
           fragment_index \<noteq> expected_fragment_index
        then (Inl (Bail ''successor policy or opaque slot does not bind the exact DPSS result''), session) else
        if \<not> is_ok (verify_ciphertext_fragment cp (cc3_ciphertext_fragment_root capsule) (cr_config_id successor)
          (cr_payload_generation successor) fragment_index (rp_total_shards plan) ciphertext_fragment
          ciphertext_fragment_proof)
        then (Inl (Bail ''successor ciphertext fragment is not committed by the predecessor payload''), session) else
        attempt (open_new_keys cp identity_seed plan own wrap_grant) session (\<lambda>(share_key, fragment_key).
        attempt (wire (guardian_share_context_v3 successor own)) session (\<lambda>share_context.
        attempt (crypt (aead_encrypt cp (key_of share_key) (gd_share_nonce draws) share share_context)) session
          (\<lambda>encrypted_dek_share.
        attempt (wire (guardian_fragment_context_v3 successor own fragment_index)) session (\<lambda>fragment_context.
        attempt (crypt (aead_encrypt cp (key_of fragment_key) (gd_fragment_nonce draws) ciphertext_fragment fragment_context))
          session (\<lambda>encrypted_ciphertext_fragment.
        let draft = \<lparr> grec3_opaque_slot_id = opaque_slot_id, grec3_guardian_index = own,
              grec3_fragment_index = fragment_index, grec3_encrypted_ciphertext_fragment = encrypted_ciphertext_fragment,
              grec3_encrypted_dek_share = encrypted_dek_share, grec3_merkle_path_proof = [], grec3_custody_root = 0,
              grec3_policy = policy \<rparr> in
        attempt (record_leaf cp draft) session (\<lambda>leaf.
        attempt (crypt (custody_commit cp (custody_bytes draft))) session (\<lambda>custody.
        (Inr (RefreshMaterialStaged leaf public_package dpss_result_commitment),
         session \<lparr> gse_encrypted_local_state := None,
           gse_staged_material := Some \<lparr> sgm_record_draft = draft \<lparr> grec3_custody_root := cuc_root custody \<rparr>,
             sgm_leaf = leaf, sgm_dpss_result_commitment = dpss_result_commitment \<rparr> \<rparr>)))))))))))
    | _ \<Rightarrow> (Inl (Bail ''guardian has not finalized its refresh share''), session))))"

definition prepare_commit ::
    "primitives \<Rightarrow> (Id32 \<Rightarrow> string) \<Rightarrow> guardian_draws \<Rightarrow> Id32 \<Rightarrow> RotationPlan \<Rightarrow> Id32 \<Rightarrow> byte list \<Rightarrow> Id32 \<Rightarrow>
     GuardianRotationEntryV3 \<Rightarrow> (anyhow, GuardianRotationResponseV3) result \<times> GuardianRotationEntryV3"
where
  "prepare_commit cp hx draws identity_seed plan guardian_material_root merkle_path_proof dpss_result_commitment entry =
    attempt (guardian_route entry plan True) entry (\<lambda>route.
    let signing_seed = grp_signing_seed (gre_provision entry); own = gr3_guardian_index route in
    attempt (session_mut cp hx entry plan) entry (\<lambda>session.
    attempt (ok_or (gse_staged_material session) (Bail ''guardian has no staged successor material'')) entry (\<lambda>staged.
    attempt (wire (prepared_record_leaf_v3 (sgm_leaf staged))) entry (\<lambda>leaf.
    attempt (ok_or (position_of own (rp_new_roster plan)) (Bail ''successor route is absent'')) entry (\<lambda>position.
    if sgm_dpss_result_commitment staged \<noteq> dpss_result_commitment \<or> guardian_material_root = 0
    then (Inl (Bail ''durable successor record differs from locally staged material''), entry) else
    attempt (crypt (merkle_verify cp guardian_material_root (sha256 cp leaf) position (length (rp_new_roster plan))
      merkle_path_proof)) entry (\<lambda>_.
    let rec = sgm_record_draft staged in
    if grec3_guardian_index rec \<noteq> own \<or>
       grec3_fragment_index rec \<noteq> prl_fragment_index (sgm_leaf staged) \<or>
       grec3_opaque_slot_id rec \<noteq> gr3_opaque_slot_id route \<or>
       gp3_config_ref (grec3_policy rec) \<noteq> rp_successor plan \<or>
       gp3_dpss_public_commitment (grec3_policy rec) \<noteq> dpss_result_commitment
    then (Inl (Bail ''locally staged successor record is inconsistent''), entry) else
    let rec = rec \<lparr> grec3_policy := (grec3_policy rec) \<lparr> gp3_guardian_material_root := guardian_material_root \<rparr>,
          grec3_merkle_path_proof := merkle_path_proof \<rparr> in
    attempt (crypt (custody_commit cp (custody_bytes rec))) entry (\<lambda>custody.
    if cuc_root custody \<noteq> grec3_custody_root rec
    then (Inl (Bail ''successor custody commitment is invalid''), entry) else
    attempt (local_journal_context plan own) entry (\<lambda>context.
    attempt (crypt (seal_local_rotation_journal cp identity_seed (gd_local_nonce draws) (as_bytes ''dpss-complete'') context))
      entry (\<lambda>sealed.
    let journal = \<lparr> dj_rotation_id = rx_rotation_id (rp_context plan), dj_plan_hash = gse_plan_hash session,
          dj_session_id = rp_dpss_session_id plan, dj_qualified_set_digest = rp_dpss_qualified_set_commitment plan,
          dj_phase = 6, dj_next_sequence = 1, dj_provider_public_journal = bytes32 dpss_result_commitment,
          dj_encrypted_provider_secret_journal = sealed \<rparr> in
    and_then (on_store entry (prepare_successor hx (rx_rotation_id (rp_context plan)) (gse_plan_hash session) rec journal))
      (\<lambda>generation entry.
    let ack = \<lparr> ngpa_context = rp_context plan, ngpa_plan_hash = gse_plan_hash session,
          ngpa_dpss_result_commitment = dpss_result_commitment, ngpa_guardian_material_root = guardian_material_root,
          ngpa_new_guardian_index = own, ngpa_prepared_record_leaf = sgm_leaf staged,
          ngpa_durable_write_generation = generation, ngpa_guardian_signature = [] \<rparr> in
    attempt (wire (new_guardian_prepared_ack ack)) entry (\<lambda>t.
    (Inr (RotationPrepared (ack \<lparr> ngpa_guardian_signature := sign cp signing_seed t \<rparr>)),
     entry \<lparr> gre_sessions := bt_insert (hx (rx_rotation_id (rp_context plan)))
       (session \<lparr> gse_staged_material := None \<rparr>) (gre_sessions entry) \<rparr>))))))))))))"

definition handoff_complete ::
    "primitives \<Rightarrow> (Id32 \<Rightarrow> string) \<Rightarrow> RotationPlan \<Rightarrow> Id32 \<Rightarrow> GuardianRotationEntryV3 \<Rightarrow>
     (anyhow, GuardianRotationResponseV3) result \<times> GuardianRotationEntryV3"
where
  "handoff_complete cp hx plan dpss_result_commitment entry =
    attempt (guardian_route entry plan False) entry (\<lambda>route.
    let signing_seed = grp_signing_seed (gre_provision entry) in
    in_session cp hx plan entry (\<lambda>session.
    let session = session \<lparr> gse_encrypted_local_state := None \<rparr>;
        ack = \<lparr> ogha_context = rp_context plan, ogha_plan_hash = gse_plan_hash session,
          ogha_dpss_result_commitment = dpss_result_commitment,
          ogha_qualified_set_commitment = rp_dpss_qualified_set_commitment plan,
          ogha_old_guardian_index = gr3_guardian_index route, ogha_guardian_signature = [] \<rparr> in
    attempt (wire (old_guardian_handoff_ack ack)) session (\<lambda>t.
    (Inr (Handoff (ack \<lparr> ogha_guardian_signature := sign cp signing_seed t \<rparr>)), session))))"

section \<open>Activation and retirement\<close>

text \<open>The operands after the roster length are evaluated only when those before it agree.\<close>

definition activation_mismatch ::
    "RotationPlan \<Rightarrow> ConfigCapsuleV3 \<Rightarrow> EpochActivationQc \<Rightarrow> GuardianRotationEntryV3 \<Rightarrow> (anyhow, bool) result"
where
  "activation_mismatch plan activated_capsule qc entry =
    (if cc3_config_ref activated_capsule \<noteq> rp_successor plan \<or>
        cc3_predecessor_capsule_hash activated_capsule \<noteq> cc3_capsule_hash (predecessor_capsule entry) \<or>
        cc3_ciphertext_fragment_root activated_capsule \<noteq> cc3_ciphertext_fragment_root (predecessor_capsule entry)
     then Inr True else
     bindR (u16_try_from (length (rp_new_roster plan))) (\<lambda>count.
     Inr (cc3_guardian_count activated_capsule \<noteq> count \<or>
       cc3_guardian_threshold activated_capsule \<noteq> rp_new_guardian_threshold plan \<or>
       cc3_dpss_suite activated_capsule \<noteq> rp_dpss_suite plan \<or>
       qc_rotation_id qc \<noteq> rx_rotation_id (rp_context plan))))"

text \<open>The session is driven through its remaining states.\<close>

definition drive_to_active ::
    "RotationPlan \<Rightarrow> u64 \<Rightarrow> GuardianRotationSessionV3 \<Rightarrow> (anyhow, unit) result \<times> GuardianRotationSessionV3"
where
  "drive_to_active plan drain_deadline session =
    and_then (advance_to_preparing (gse_not_before_monotonic session) session) (\<lambda>_ session.
    attempt (u16_try_from (length (rp_new_roster plan))) session (\<lambda>count.
    and_then (apply_event (PreparationComplete count count True True) session) (\<lambda>_ session.
    and_then (apply_event (ActivationAuthorized True True) session) (\<lambda>_ session.
    apply_event (WitnessQcObserved True True drain_deadline) session))))"

definition prepared_matches :: "ConfigCapsuleV3 \<Rightarrow> GuardianRotationEntryV3 \<Rightarrow> (anyhow, unit) result" where
  "prepared_matches activated_capsule entry =
    bindR (ok_or (ges_prepared (epoch_store entry)) (Bail ''successor guardian has no locally prepared record'')) (\<lambda>prepared.
    let policy = grec3_policy (pge_record prepared) in
    if gp3_config_ref policy \<noteq> cc3_config_ref activated_capsule \<or>
       gp3_guardian_material_root policy \<noteq> cc3_guardian_material_root activated_capsule \<or>
       gp3_dpss_public_commitment policy \<noteq> cc3_dpss_public_commitment activated_capsule
    then Inl (Bail ''activated capsule differs from the guardian's prepared record'')
    else Inr ())"

definition rotation_activate ::
    "primitives \<Rightarrow> (Id32 \<Rightarrow> string) \<Rightarrow> RotationPlan \<Rightarrow> ConfigCapsuleV3 \<Rightarrow> u64 \<Rightarrow> GuardianRotationEntryV3 \<Rightarrow>
     (anyhow, GuardianRotationResponseV3) result \<times> GuardianRotationEntryV3"
where
  "rotation_activate cp hx plan activated_capsule drain_deadline entry =
    (let locally_pending = pending_old_recovery_ids entry; rotation_id = rx_rotation_id (rp_context plan) in
     attempt (validate_activated_capsule_v3 cp (grp_recovery_card (gre_provision entry)) activated_capsule) entry (\<lambda>_.
     attempt (ok_or (cc3_activation_qc activated_capsule) (Bail ''activated successor capsule has no QC'')) entry (\<lambda>qc.
     attempt (wire (epoch_activation_qc qc)) entry (\<lambda>qc_transcript.
     attempt (plan_digest cp plan) entry (\<lambda>plan_hash.
     attempt (activation_mismatch plan activated_capsule qc entry) entry (\<lambda>bad.
     if bad then (Inl (Bail ''activation QC/capsule does not bind the exact plan''), entry) else
     attempt (if is_ok (guardian_route entry plan True) then prepared_matches activated_capsule entry else Inr ()) entry (\<lambda>_.
     and_then (in_session cp hx plan entry (drive_to_active plan drain_deadline)) (\<lambda>_ entry.
     and_then (on_store entry (if is_ok (guardian_route entry plan True)
         then store_activate_successor hx rotation_id plan_hash qc (sha256 cp qc_transcript) drain_deadline locally_pending
         else observe_replacement_activation hx rotation_id plan_hash qc (sha256 cp qc_transcript) drain_deadline
           locally_pending)) (\<lambda>_ entry.
     (Inr (Activated (cr_guardian_epoch (rp_successor plan))),
      remove_session (hx rotation_id) (entry \<lparr> gre_provision :=
        (gre_provision entry) \<lparr> grp_predecessor_capsule := activated_capsule \<rparr> \<rparr>)))))))))))"

definition retire ::
    "primitives \<Rightarrow> RetirementNotice \<Rightarrow> u64 \<Rightarrow> GuardianRotationEntryV3 \<Rightarrow>
     (anyhow, GuardianRotationResponseV3) result \<times> GuardianRotationEntryV3"
where
  "retire cp notice monotonic_now entry =
    attempt (ok_or (ges_activation_qc (epoch_store entry)) (Bail ''guardian has not observed an activation QC'')) entry (\<lambda>qc.
    attempt (wire (epoch_activation_qc qc)) entry (\<lambda>qc_transcript.
    let qc_hash = sha256 cp qc_transcript in
    if rn_activation_qc_hash notice \<noteq> qc_hash \<or> rn_retired_epoch notice \<noteq> qc_predecessor_epoch qc \<or>
       rn_drain_deadline notice > monotonic_now
    then (Inl (Bail ''retirement notice is early or QC-mismatched''), entry) else
    attempt (ok_or (map_option (\<lambda>draining. grec3_guardian_index (dge_record draining))
      (bt_get (ges_draining (epoch_store entry)) (rn_retired_epoch notice))) (Bail ''retired epoch is not draining'')) entry
      (\<lambda>guardian_index.
    and_then (on_store entry (retire_epoch (rn_retired_epoch notice) monotonic_now)) (\<lambda>tombstone_hash entry.
    let ack = \<lparr> rta_context = rn_context notice, rta_plan_hash = rn_plan_hash notice, rta_activation_qc_hash = qc_hash,
          rta_guardian_index = guardian_index, rta_retired_epoch = rn_retired_epoch notice,
          rta_tombstone_hash = tombstone_hash, rta_guardian_signature = [] \<rparr> in
    attempt (wire (retirement_ack ack)) entry (\<lambda>t.
    (Inr (RotationRetired (ack \<lparr> rta_guardian_signature := sign cp (grp_signing_seed (gre_provision entry)) t \<rparr>)),
     entry))))))"

section \<open>The handler\<close>

definition handle_guardian_rotation_v3 ::
    "primitives \<Rightarrow> frost \<Rightarrow> guardian_json \<Rightarrow> (Id32 \<Rightarrow> string) \<Rightarrow> guardian_draws \<Rightarrow> Id32 \<Rightarrow> u64 \<Rightarrow> u64 \<Rightarrow> string \<Rightarrow> bool \<Rightarrow>
     GuardianRotationRequestV3 \<Rightarrow> GuardianRotationEntryV3 \<Rightarrow>
     (anyhow, GuardianRotationResponseV3) result \<times> GuardianRotationEntryV3"
where
  "handle_guardian_rotation_v3 cp fr gj hx draws identity_seed wall_now monotonic_now boot_id
      allow_insecure_demo_delay request entry =
    (let context = rotation_context request in
     if rx_protocol_version context \<noteq> PROTOCOL_VERSION_V3 \<or>
        cr_config_id (rx_config_ref context) \<noteq> cr_config_id (cc3_config_ref (predecessor_capsule entry)) \<or>
        rx_issued_at context > wall_now \<or>
        rx_expiry context \<le> wall_now \<or>
        length (rx_recipient_key context) \<noteq> XWING_PUBLIC_KEY_LEN
     then (Inl (Bail ''guardian rejected malformed or expired rotation context''), entry) else
     case request of
       RotationBegin plan certificate \<Rightarrow>
         rotation_begin cp hx identity_seed wall_now monotonic_now boot_id allow_insecure_demo_delay plan certificate entry
     | RotationCancel plan certificate \<Rightarrow> rotation_cancel cp hx wall_now plan certificate entry
     | DoRepairRound1 plan begin_certificate release_certificate unlock_grant helper_ids replacement_id \<Rightarrow>
         repair_round1 cp fr gj hx draws identity_seed wall_now monotonic_now boot_id plan begin_certificate
           release_certificate unlock_grant helper_ids replacement_id entry
     | DoRepairRound2 plan incoming replacement_id \<Rightarrow>
         repair_round2 cp fr gj hx draws identity_seed plan incoming replacement_id entry
     | RepairFinalize plan incoming old_public_package \<Rightarrow>
         repair_finalize cp fr gj hx draws identity_seed plan incoming old_public_package entry
     | DoRefreshRound1 plan begin_certificate release_certificate old_share_grant \<Rightarrow>
         refresh_round1 cp fr gj hx draws identity_seed wall_now monotonic_now boot_id plan begin_certificate
           release_certificate old_share_grant entry
     | DoRefreshRound2 plan incoming \<Rightarrow> refresh_round2 cp fr gj hx draws identity_seed plan incoming entry
     | RefreshFinalize plan incoming old_public_package \<Rightarrow>
         refresh_finalize cp fr gj hx draws identity_seed plan incoming old_public_package entry
     | StageMaterial plan wrap_grant fragment_index ciphertext_fragment ciphertext_fragment_proof policy opaque_slot_id \<Rightarrow>
         stage_material cp fr gj hx draws identity_seed plan wrap_grant fragment_index ciphertext_fragment
           ciphertext_fragment_proof policy opaque_slot_id entry
     | PrepareCommit plan guardian_material_root merkle_path_proof dpss_result_commitment \<Rightarrow>
         prepare_commit cp hx draws identity_seed plan guardian_material_root merkle_path_proof dpss_result_commitment entry
     | HandoffComplete plan dpss_result_commitment \<Rightarrow> handoff_complete cp hx plan dpss_result_commitment entry
     | RotationActivate plan activated_capsule drain_deadline \<Rightarrow>
         rotation_activate cp hx plan activated_capsule drain_deadline entry
     | RotationAbort plan certificate \<Rightarrow> rotation_abort cp hx wall_now plan certificate entry
     | Retire notice monotonic_now \<Rightarrow> retire cp notice monotonic_now entry)"

end
