(* ===== verification/GP_Guardian_Steps.thy ===== *)
theory GP_Guardian_Steps
  imports GP_Guardian_Runtime
begin

text \<open>
  What a call to the protocol-3 guardian can change. A call is a sequence of steps over a session or
  an entry; a preorder that every step respects is respected by the call. The locale below carries
  that argument; its instances say what sessions and entries keep. The elimination rules at the end
  list the outcomes of each handler.
\<close>

section \<open>Frame conditions\<close>

definition leaves :: "('s \<Rightarrow> 's \<Rightarrow> bool) \<Rightarrow> 's \<Rightarrow> 'r \<times> 's \<Rightarrow> bool" where
  "leaves K s p \<longleftrightarrow> K s (snd p)"

locale step_frame =
  fixes K :: "'s \<Rightarrow> 's \<Rightarrow> bool"
  assumes K_self: "K s s"
    and K_join: "K s t \<Longrightarrow> K t u \<Longrightarrow> K s u"
begin

lemma keep_pair: "K s s' \<Longrightarrow> leaves K s (r, s')"
  by (simp add: leaves_def)

lemma keep_attempt: "K s t \<Longrightarrow> (\<And>a. r = Inr a \<Longrightarrow> leaves K s (f a)) \<Longrightarrow> leaves K s (attempt r t f)"
  by (cases r) (simp_all add: attempt_def leaves_def)

lemma keep_then:
  assumes "leaves K s p" and "\<And>a t. p = (Inr a, t) \<Longrightarrow> K s t \<Longrightarrow> leaves K s (f a t)"
  shows "leaves K s (and_then p f)"
  using assms by (cases p; cases "fst p") (auto simp: and_then_def leaves_def)

lemma keep_from: "K s t \<Longrightarrow> leaves K t p \<Longrightarrow> leaves K s p"
  unfolding leaves_def by (rule K_join)

lemma keep_result: "leaves K s p \<Longrightarrow> p = (r, s') \<Longrightarrow> K s s'"
  by (simp add: leaves_def)

end

section \<open>What a session keeps\<close>

text \<open>A session is bound to its plan, its begin certificate, its boot and its delay.\<close>

definition session_kept :: "GuardianRotationSessionV3 \<Rightarrow> GuardianRotationSessionV3 \<Rightarrow> bool" where
  "session_kept s s' \<longleftrightarrow> gse_plan_hash s' = gse_plan_hash s \<and>
     gse_begin_certificate_hash s' = gse_begin_certificate_hash s \<and>
     gse_accepted_wall_time s' = gse_accepted_wall_time s \<and>
     gse_started_monotonic s' = gse_started_monotonic s \<and>
     gse_not_before_monotonic s' = gse_not_before_monotonic s \<and> gse_boot_id s' = gse_boot_id s \<and>
     (gse_cancelled s \<longrightarrow> gse_cancelled s')"

interpretation ses: step_frame session_kept
  by unfold_locales (auto simp: session_kept_def)

lemmas ses_rules = ses.keep_pair ses.keep_attempt ses.keep_then

lemma session_updates [simp]:
  "session_kept s (t \<lparr> gse_encrypted_local_state := a \<rparr>) = session_kept s t"
  "session_kept s (t \<lparr> gse_staged_material := b \<rparr>) = session_kept s t"
  "session_kept s (t \<lparr> gse_next_outgoing_sequences := c \<rparr>) = session_kept s t"
  "session_kept s (t \<lparr> gse_next_incoming_sequences := c \<rparr>) = session_kept s t"
  "session_kept s (t \<lparr> gse_rotation_machine := m \<rparr>) = session_kept s t"
  "session_kept (s \<lparr> gse_next_incoming_sequences := c \<rparr>) t = session_kept s t"
  by (simp_all add: session_kept_def)

lemma session_kept_self [simp]: "session_kept s s"
  by (rule ses.K_self)

lemma kept_save_local_state: "leaves session_kept s (save_local_state cp gj nonce seed plan i state s)"
  unfolding save_local_state_def by (intro ses_rules) simp_all

lemma kept_make_delivery: "leaves session_kept s (make_delivery cp gj draw seed plan i target phase payload s)"
  unfolding make_delivery_def Let_def by (intro ses_rules) simp_all

lemma kept_apply_event: "leaves session_kept s (apply_event event s)"
  by (simp add: apply_event_def leaves_def split: prod.splits)

lemma kept_advance: "leaves session_kept s (advance_to_preparing now s)"
  by (auto simp: advance_to_preparing_def leaves_def kept_apply_event [unfolded leaves_def] split: RotationState.splits)

lemma kept_open_each: "leaves session_kept s (open_each cp gj seed plan route keys phase senders incoming s)"
proof (induction incoming arbitrary: senders s)
  case (Cons sealed incoming)
  have tail: "session_kept t u" if "open_each cp gj seed plan route keys phase S incoming t = (r, u)" for t r u S
    using Cons.IH [of t S] that by (simp add: leaves_def)
  then show ?case
    by (auto simp: Let_def leaves_def attempt_def split: sum.splits prod.splits dest!: tail)
qed (simp add: leaves_def)

lemma kept_open_deliveries: "leaves session_kept s (open_deliveries cp gj seed plan route routes phase incoming s)"
  unfolding open_deliveries_def by (rule kept_open_each)

lemma kept_deliver_each:
  "leaves session_kept s (deliver_each cp gj draw seed plan i phase unknown n targets s)"
proof (induction targets arbitrary: n s)
  case (Cons t targets)
  obtain target payload where t: "t = (target, payload)" by fastforce
  show ?case
    unfolding t deliver_each.simps
    by (intro ses_rules kept_make_delivery) (auto intro: ses.keep_from Cons.IH kept_make_delivery)
qed (simp add: leaves_def)

lemmas session_steps = kept_save_local_state kept_make_delivery kept_apply_event kept_advance
  kept_open_deliveries kept_deliver_each

lemmas session_steps_from = session_steps [THEN ses.keep_from [rotated]]

section \<open>What an entry keeps\<close>

text \<open>Rotation calls leave the recoveries and their tombstones alone.\<close>

abbreviation recovery_tombstones :: "GuardianRotationEntryV3 \<Rightarrow> (string, Id32) btree_map" where
  "recovery_tombstones entry \<equiv> ges_recovery_cancellation_tombstones (epoch_store entry)"

abbreviation rotation_ended_at :: "GuardianRotationEntryV3 \<Rightarrow> string \<Rightarrow> bool" where
  "rotation_ended_at entry key \<equiv> bt_contains_key (ges_rotation_tombstones (epoch_store entry)) key"

definition recoveries_kept :: "GuardianRotationEntryV3 \<Rightarrow> GuardianRotationEntryV3 \<Rightarrow> bool" where
  "recoveries_kept e e' \<longleftrightarrow> gre_recoveries e' = gre_recoveries e \<and> recovery_tombstones e' = recovery_tombstones e"

interpretation recs: step_frame recoveries_kept
  by unfold_locales (auto simp: recoveries_kept_def)

text \<open>No new session appears, and a session that stays keeps what it is bound to.\<close>

definition sessions_kept :: "GuardianRotationEntryV3 \<Rightarrow> GuardianRotationEntryV3 \<Rightarrow> bool" where
  "sessions_kept e e' \<longleftrightarrow> (\<forall>key s'. bt_get (gre_sessions e') key = Some s' \<longrightarrow>
     (\<exists>s. bt_get (gre_sessions e) key = Some s \<and> session_kept s s'))"

interpretation sess: step_frame sessions_kept
proof
  show "sessions_kept e e" for e by (auto simp: sessions_kept_def)
  show "sessions_kept e t \<Longrightarrow> sessions_kept t u \<Longrightarrow> sessions_kept e u" for e t u
    unfolding sessions_kept_def by (meson ses.K_join)
qed

text \<open>The epoch store moves by operations of \<open>gp-storage\<close> and by entries of the cancellation table.\<close>

datatype epoch_op = StoreOp store_op | MarkCancelled string Id32

fun epoch_exec :: "(Id32 \<Rightarrow> string) \<Rightarrow> epoch_op \<Rightarrow> GuardianEpochStore \<Rightarrow> (StorageError, store_value) result \<times> GuardianEpochStore" where
  "epoch_exec hx (StoreOp op) s = store_exec hx op s"
| "epoch_exec hx (MarkCancelled key digest) s =
     (Inr Done, s \<lparr> ges_recovery_cancellation_tombstones := bt_insert key digest (ges_recovery_cancellation_tombstones s) \<rparr>)"

definition store_moves :: "(Id32 \<Rightarrow> string) \<Rightarrow> GuardianRotationEntryV3 \<Rightarrow> GuardianRotationEntryV3 \<Rightarrow> bool" where
  "store_moves hx e e' \<longleftrightarrow> (\<exists>ops l. run_log (epoch_exec hx) (epoch_store e) ops = (l, epoch_store e'))"

interpretation moves: step_frame "store_moves hx" for hx
proof
  show "store_moves hx e e" for e
    unfolding store_moves_def by (rule exI [of _ "[]"]) simp
  show "store_moves hx e t \<Longrightarrow> store_moves hx t u \<Longrightarrow> store_moves hx e u" for e t u
    unfolding store_moves_def by (elim exE, rule_tac x = "ops @ opsa" in exI) (simp add: run_log_append)
qed

text \<open>The frames together, with the rotation tombstones fixed: a call that neither begins nor ends a
  rotation.\<close>

abbreviation tombstones :: "GuardianRotationEntryV3 \<Rightarrow> (string, RotationTombstone) btree_map" where
  "tombstones e \<equiv> ges_rotation_tombstones (epoch_store e)"

definition rotation_frame :: "(Id32 \<Rightarrow> string) \<Rightarrow> GuardianRotationEntryV3 \<Rightarrow> GuardianRotationEntryV3 \<Rightarrow> bool" where
  "rotation_frame hx e e' \<longleftrightarrow> recoveries_kept e e' \<and> sessions_kept e e' \<and> store_moves hx e e' \<and>
     tombstones e' = tombstones e"

interpretation rot: step_frame "rotation_frame hx" for hx
  by unfold_locales
    (auto simp: rotation_frame_def intro: recs.K_self sess.K_self moves.K_self recs.K_join sess.K_join moves.K_join)

lemmas rot_rules = rot.keep_pair rot.keep_attempt rot.keep_then

lemma rotation_frame_self [simp]: "rotation_frame hx e e"
  by (rule rot.K_self)

lemma epoch_store_with [simp]:
  "epoch_store (with_store s e) = s" "gre_sessions (with_store s e) = gre_sessions e"
  "gre_recoveries (with_store s e) = gre_recoveries e" "predecessor_capsule (with_store s e) = predecessor_capsule e"
  by (simp_all add: with_store_def)

lemma session_mut_found:
  assumes "session_mut cp hx e plan = Inr s"
  shows "bt_get (gre_sessions e) (hx (rx_rotation_id (rp_context plan))) = Some s"
    and "plan_digest cp plan = Inr (gse_plan_hash s)" and "\<not> gse_cancelled s"
  using assms by (auto simp: session_mut_def Let_def ok_or_eq_Inr split: if_splits)

lemma frame_session:
  assumes "bt_get (gre_sessions e) key = Some s" and "session_kept s s'"
  shows "rotation_frame hx e (e \<lparr> gre_sessions := bt_insert key s' (gre_sessions e) \<rparr>)"
  using assms moves.K_self [of hx e]
  by (auto simp: rotation_frame_def recoveries_kept_def sessions_kept_def store_moves_def)

lemma frame_in_session:
  assumes "\<And>s. session_mut cp hx e plan = Inr s \<Longrightarrow> leaves session_kept s (f s)"
  shows "leaves (rotation_frame hx) e (in_session cp hx plan e f)"
  unfolding in_session_def
proof (rule rot.keep_attempt)
  fix s assume s: "session_mut cp hx e plan = Inr s"
  with assms frame_session [OF session_mut_found(1) [OF s]]
  show "leaves (rotation_frame hx) e (case f s of (r, s') \<Rightarrow>
      (r, e \<lparr> gre_sessions := bt_insert (hx (rx_rotation_id (rp_context plan))) s' (gre_sessions e) \<rparr>))"
    by (auto simp: leaves_def split: prod.split)
qed simp

lemma store_frame:
  "store_exec hx op s = (r, s') \<Longrightarrow> ges_recovery_cancellation_tombstones s' = ges_recovery_cancellation_tombstones s"
  by (cases op) (auto simp: store_op_defs Let_def split: if_splits option.splits)

lemma store_step:
  assumes "store_exec hx op (epoch_store e) = (r, s)"
  shows "recoveries_kept e (with_store s e)" and "store_moves hx e (with_store s e)" and "sessions_kept e (with_store s e)"
proof -
  have "run_log (epoch_exec hx) (epoch_store e) [StoreOp op] = ([(StoreOp op, r)], epoch_store (with_store s e))"
    using assms by simp
  then show "store_moves hx e (with_store s e)" unfolding store_moves_def by blast
  show "recoveries_kept e (with_store s e)" "sessions_kept e (with_store s e)"
    using store_frame [OF assms] by (auto simp: recoveries_kept_def sessions_kept_def)
qed

lemma frame_store:
  assumes "store_exec hx op (epoch_store e) = (r, s)" and "ges_rotation_tombstones s = tombstones e"
  shows "rotation_frame hx e (with_store s e)"
  using store_step [OF assms(1)] assms(2) by (simp add: rotation_frame_def)

lemma refused_tombstones: "store_exec hx op s = (Inl err, s') \<Longrightarrow> ges_rotation_tombstones s' = ges_rotation_tombstones s"
  by (cases op) (auto simp: store_op_defs Let_def split: if_splits option.splits)

section \<open>Calls that only work in a session\<close>

lemma leaves_if: "(b \<Longrightarrow> leaves K s p) \<Longrightarrow> (\<not> b \<Longrightarrow> leaves K s q) \<Longrightarrow> leaves K s (if b then p else q)"
  by simp

lemma leaves_prod: "(\<And>a b. leaves K s (f a b)) \<Longrightarrow> leaves K s (case p of (a, b) \<Rightarrow> f a b)"
  by (cases p) simp

lemma leaves_state:
  assumes "\<And>a b. leaves K s (f1 a b)" "\<And>a. leaves K s (f2 a)" "\<And>a. leaves K s (f3 a)" "\<And>a b. leaves K s (f4 a b)"
    "\<And>a b. leaves K s (f5 a b)" "\<And>a b c. leaves K s (f6 a b c)"
  shows "leaves K s (case_LocalDpssState f1 f2 f3 f4 f5 f6 x)"
  using assms by (cases x) simp_all

lemmas work_rules = leaves_if leaves_prod leaves_state rot_rules frame_in_session ses_rules session_steps_from
  session_steps_from [OF session_kept_self]

lemma work_repair_round1:
  "leaves (rotation_frame hx) e (repair_round1 cp fr gj hx draws seed wall now boot plan bc rc grant ids rid e)"
  unfolding repair_round1_def Let_def by (intro work_rules) simp_all

lemma work_repair_round2:
  "leaves (rotation_frame hx) e (repair_round2 cp fr gj hx draws seed plan incoming rid e)"
  unfolding repair_round2_def Let_def by (intro work_rules) simp_all

lemma work_repair_finalize:
  "leaves (rotation_frame hx) e (repair_finalize cp fr gj hx draws seed plan incoming pub e)"
  unfolding repair_finalize_def Let_def by (intro work_rules) simp_all

lemma work_refresh_round1:
  "leaves (rotation_frame hx) e (refresh_round1 cp fr gj hx draws seed wall now boot plan bc rc grant e)"
  unfolding refresh_round1_def Let_def by (intro work_rules) simp_all

lemma work_refresh_round2:
  "leaves (rotation_frame hx) e (refresh_round2 cp fr gj hx draws seed plan incoming e)"
  unfolding refresh_round2_def Let_def by (intro work_rules) simp_all

lemma work_refresh_finalize:
  "leaves (rotation_frame hx) e (refresh_finalize cp fr gj hx draws seed plan incoming pub e)"
  unfolding refresh_finalize_def Let_def by (intro work_rules) simp_all

lemma work_stage_material:
  "leaves (rotation_frame hx) e (stage_material cp fr gj hx draws seed plan grant i fragment proof policy slot e)"
  unfolding stage_material_def Let_def by (intro work_rules) simp_all

lemma work_handoff: "leaves (rotation_frame hx) e (handoff_complete cp hx plan d e)"
  unfolding handoff_complete_def Let_def by (intro work_rules) simp_all

lemmas work_steps = work_repair_round1 work_repair_round2 work_repair_finalize work_refresh_round1
  work_refresh_round2 work_refresh_finalize work_stage_material work_handoff

section \<open>Calls on the epoch store\<close>

lemma on_store_eq: "on_store e f = (r, e') \<longleftrightarrow> (\<exists>v s. f (epoch_store e) = (v, s) \<and> r = storage_result v \<and> e' = with_store s e)"
  by (auto simp: on_store_def split: prod.splits)

lemma and_then_eq:
  "and_then p f = (r, s) \<longleftrightarrow> (\<exists>err. p = (Inl err, s) \<and> r = Inl err) \<or> (\<exists>a t. p = (Inr a, t) \<and> f a t = (r, s))"
  by (cases p; cases "fst p") (auto simp: and_then_def)

lemma result_ok [simp]:
  "storage_result v = Inr a \<longleftrightarrow> v = Inr a" "machine_result w = Inr b \<longleftrightarrow> w = Inr b" "json_result x = Inr c \<longleftrightarrow> x = Some c"
  by (auto simp: storage_result_def machine_result_def json_result_def ok_or_eq_Inr split: sum.splits)

lemma storage_failed [simp]: "storage_result v = Inl err \<longleftrightarrow> (\<exists>e. v = Inl e \<and> err = FromStorage e)"
  by (auto simp: storage_result_def split: sum.splits)

lemma work_on_store:
  assumes "\<And>r s. f (epoch_store e) = (r, s) \<Longrightarrow>
    (\<exists>op v. store_exec hx op (epoch_store e) = (v, s)) \<and> ges_rotation_tombstones s = tombstones e"
  shows "leaves (rotation_frame hx) e (on_store e f)"
  using assms frame_store by (fastforce simp: leaves_def on_store_def split: prod.splits)

lemma prepare_as_store:
  "prepare_successor hx rid ph rec j s = (r, s') \<Longrightarrow>
   (\<exists>op v. store_exec hx op s = (v, s')) \<and> ges_rotation_tombstones s' = ges_rotation_tombstones s"
  by (rule conjI, rule exI [of _ "SPrepare rid ph rec j"]) (auto simp: prepare_successor_def Let_def split: if_splits)

lemma retire_as_store:
  "retire_epoch e t s = (r, s') \<Longrightarrow>
   (\<exists>op v. store_exec hx op s = (v, s')) \<and> ges_rotation_tombstones s' = ges_rotation_tombstones s"
  by (rule conjI, rule exI [of _ "SRetire e t"]) (auto simp: retire_epoch_def split: if_splits option.splits)

lemma work_prepare_commit:
  "leaves (rotation_frame hx) e (prepare_commit cp hx draws seed plan root proof d e)"
proof -
  have finish: "rotation_frame hx e (t \<lparr> gre_sessions := bt_insert (hx (rx_rotation_id (rp_context plan)))
      (s \<lparr> gse_staged_material := None \<rparr>) (gre_sessions t) \<rparr>)"
    if "session_mut cp hx e plan = Inr s" "on_store e f = (Inr g, t)" "rotation_frame hx e t" for s t f g
  proof -
    have "bt_get (gre_sessions t) (hx (rx_rotation_id (rp_context plan))) = Some s"
      using session_mut_found(1) [OF that(1)] that(2) by (auto simp: on_store_eq)
    from that(3) frame_session [OF this] show ?thesis by (rule rot.K_join) simp
  qed
  show ?thesis
    unfolding prepare_commit_def Let_def
    by (intro work_rules work_on_store) (auto dest: prepare_as_store intro: finish)
qed

lemma work_retire: "leaves (rotation_frame hx) e (retire cp notice now e)"
  unfolding retire_def Let_def by (intro work_rules work_on_store) (auto dest: retire_as_store)

section \<open>Calls that end a rotation\<close>

text \<open>The rotation gets a tombstone and loses its session.\<close>

definition closing_frame :: "(Id32 \<Rightarrow> string) \<Rightarrow> string \<Rightarrow> GuardianRotationEntryV3 \<Rightarrow> GuardianRotationEntryV3 \<Rightarrow> bool" where
  "closing_frame hx key e e' \<longleftrightarrow> recoveries_kept e e' \<and> sessions_kept e e' \<and> store_moves hx e e' \<and>
     (\<forall>k. rotation_ended_at e' k \<longleftrightarrow> rotation_ended_at e k \<or> k = key) \<and> bt_get (gre_sessions e') key = None"

lemma closing_after: "rotation_frame hx e t \<Longrightarrow> closing_frame hx key t u \<Longrightarrow> closing_frame hx key e u"
  unfolding closing_frame_def rotation_frame_def
  using recs.K_join sess.K_join moves.K_join by (metis (no_types, lifting))

lemma closing_store:
  assumes "store_exec hx op (epoch_store e) = (r, s)" and "ges_rotation_tombstones s = bt_insert key tombstone (tombstones e)"
  shows "closing_frame hx key e (remove_session key (with_store s e))"
proof -
  have "sessions_kept e (remove_session key (with_store s e))"
    by (auto simp: sessions_kept_def remove_session_def split: if_splits)
  then show ?thesis
    using store_step [OF assms(1)] assms(2)
    by (auto simp: closing_frame_def recoveries_kept_def store_moves_def remove_session_def)
qed

lemma abort_as_store:
  "abort_prepared hx rid ph s = (Inr u, s') \<Longrightarrow> store_exec hx (SAbort rid ph) s = (Inr Done, s') \<and>
     (\<exists>x. ges_rotation_tombstones s' = bt_insert (hx rid) x (ges_rotation_tombstones s))"
  by (auto simp: abort_prepared_def split: if_splits)

lemma abort_refused: "abort_prepared hx rid ph s = (Inl err, s') \<Longrightarrow> s' = s"
  by (auto simp: abort_prepared_def split: if_splits)

lemma with_same_store [simp]: "with_store (epoch_store e) e = e"
  by (simp add: with_store_def)

lemma abort_then:
  assumes "and_then (on_store e (abort_prepared hx rid ph)) (\<lambda>_ e. f e) = (r, e')"
  obtains (refused) err where "r = Inl err" "e' = e"
    | (ended) t where "closing_frame hx (hx rid) e (remove_session (hx rid) t)" "f t = (r, e')" "gre_sessions t = gre_sessions e"
proof -
  obtain v s where a: "abort_prepared hx rid ph (epoch_store e) = (v, s)" by fastforce
  show thesis
  proof (cases v)
    case (Inl err)
    with a assms abort_refused [of hx rid ph "epoch_store e"] show thesis
      by (intro refused [of "FromStorage err"]) (simp_all add: and_then_def on_store_def storage_result_def)
  next
    case (Inr u)
    note stored = abort_as_store [OF a [unfolded Inr]]
    from stored obtain x where x: "ges_rotation_tombstones s = bt_insert (hx rid) x (tombstones e)" by blast
    from Inr a assms have "f (with_store s e) = (r, e')" by (simp add: and_then_def on_store_def storage_result_def)
    with closing_store [OF conjunct1 [OF stored] x] show thesis by (intro ended [of "with_store s e"]) simp_all
  qed
qed

lemma cancel_session_frame: "leaves (rotation_frame hx) e (cancel_session hx plan ph e)"
proof (cases "bt_get (tombstones e) (hx (rx_rotation_id (rp_context plan)))")
  case None
  let ?key = "hx (rx_rotation_id (rp_context plan))"
  show ?thesis
  proof (cases "bt_get (gre_sessions e) ?key")
    case (Some s)
    obtain r t where a: "apply_event (OwnerCancelObserved True) s = (r, t)" by fastforce
    then have t: "session_kept s t" using kept_apply_event [of s "OwnerCancelObserved True"] by (simp add: leaves_def)
    then have "session_kept s (t \<lparr> gse_cancelled := True, gse_encrypted_local_state := None, gse_staged_material := None \<rparr>)"
      "session_kept s (s \<lparr> gse_cancelled := True, gse_encrypted_local_state := None, gse_staged_material := None \<rparr>)"
      by (simp_all add: session_kept_def)
    with t a None Some show ?thesis
      by (auto simp: cancel_session_def Let_def leaves_def intro: frame_session split: sum.splits)
  qed (simp add: cancel_session_def None leaves_def)
qed (simp add: cancel_session_def leaves_def)

lemma end_after:
  assumes "rotation_frame hx e t"
    and "and_then (on_store t (abort_prepared hx rid ph)) (\<lambda>_ e. (g e, remove_session (hx rid) e)) = (r, e')"
  obtains (refused) err where "r = Inl err" "rotation_frame hx e e'"
    | (ended) u where "closing_frame hx (hx rid) e e'" "r = g u"
proof -
  from assms(2) show thesis
  proof (cases rule: abort_then)
    case (refused err)
    with assms(1) that(1) show thesis by blast
  next
    case (ended u)
    with closing_after [OF assms(1) ended(1)] that(2) show thesis by auto
  qed
qed

lemma attempt_cases: "(\<And>err. Q (Inl err, s)) \<Longrightarrow> (\<And>a. r = Inr a \<Longrightarrow> Q (f a)) \<Longrightarrow> Q (attempt r s f)"
  by (cases r) (simp_all add: attempt_def)

lemma cancel_outcome:
  assumes "rotation_cancel cp hx wall plan certificate e = (r, e')"
  obtains (refused) err where "r = Inl err" "rotation_frame hx e e'"
    | (ended) ph c u where "closing_frame hx (hx (rx_rotation_id (rp_context plan))) e e'"
        "r = cancel_acknowledgement cp plan ph c u"
proof -
  let ?rid = "rx_rotation_id (rp_context plan)"
  let ?tail = "\<lambda>ph c. and_then (cancel_session hx plan ph e) (\<lambda>_ entry.
        and_then (on_store entry (abort_prepared hx ?rid ph)) (\<lambda>_ entry.
        (cancel_acknowledgement cp plan ph c (remove_session (hx ?rid) entry), remove_session (hx ?rid) entry)))"
  let ?Q = "\<lambda>p. (\<exists>err. p = (Inl err, e)) \<or> (\<exists>ph c. p = ?tail ph c)"
  have "?Q (rotation_cancel cp hx wall plan certificate e)"
    unfolding rotation_cancel_def Let_def
    by (intro attempt_cases [where Q = ?Q] if_split [where P = ?Q, THEN iffD2] conjI impI) blast+
  with assms consider err where "r = Inl err" "e' = e" | ph c where "?tail ph c = (r, e')" by force
  then show thesis
  proof cases
    case (2 ph c)
    from 2 consider err where "r = Inl err" "cancel_session hx plan ph e = (Inl err, e')"
      | u t where "cancel_session hx plan ph e = (Inr u, t)"
        "and_then (on_store t (abort_prepared hx ?rid ph)) (\<lambda>_ entry.
          (cancel_acknowledgement cp plan ph c (remove_session (hx ?rid) entry), remove_session (hx ?rid) entry)) = (r, e')"
      unfolding and_then_eq [of "cancel_session hx plan ph e"] by blast
    then show thesis
    proof cases
      case (1 err)
      with refused rot.keep_result [OF cancel_session_frame] show thesis by blast
    next
      case (2 u t)
      from rot.keep_result [OF cancel_session_frame 2(1)] 2(2) show thesis
        by (cases rule: end_after) (use that in blast)+
    qed
  qed (use refused in simp)
qed

lemma abort_outcome:
  assumes "rotation_abort cp hx wall plan certificate e = (r, e')"
  obtains (refused) err where "r = Inl err" "rotation_frame hx e e'"
    | (ended) "closing_frame hx (hx (rx_rotation_id (rp_context plan))) e e'" "r = Inr RotationAborted"
proof -
  let ?rid = "rx_rotation_id (rp_context plan)" and ?f = "apply_event (AbortObserved True)"
  have f: "leaves (rotation_frame hx) e (in_session cp hx plan e ?f)"
    by (intro frame_in_session kept_apply_event)
  from assms consider err where "r = Inl err" "e' = e" | err where "r = Inl err" "in_session cp hx plan e ?f = (Inl err, e')"
    | ph u t where "in_session cp hx plan e ?f = (Inr u, t)"
      "and_then (on_store t (abort_prepared hx ?rid ph)) (\<lambda>_ e. (Inr RotationAborted, remove_session (hx ?rid) e)) = (r, e')"
    unfolding rotation_abort_def attempt_eq and_then_eq [of "in_session cp hx plan e ?f"] by blast
  then show thesis
  proof cases
    case (2 err)
    with refused rot.keep_result [OF f] show thesis by blast
  next
    case (3 ph u t)
    from rot.keep_result [OF f 3(1)] 3(2) show thesis
      by (cases rule: end_after) (use that in blast)+
  qed (use refused in simp)
qed

lemma route_of_sessions [simp]:
  "guardian_route (e \<lparr> gre_sessions := x \<rparr>) plan b = guardian_route e plan b"
  by (simp add: guardian_route_def)

lemma in_session_provision:
  assumes "in_session cp hx plan e f = (r, t)"
  shows "gre_provision t = gre_provision e" and "is_ok r \<Longrightarrow> is_ok (session_mut cp hx e plan)"
proof -
  obtain v s where "f (projr (session_mut cp hx e plan)) = (v, s)" by fastforce
  with assms have "gre_provision t = gre_provision e \<and> (is_ok r \<longrightarrow> is_ok (session_mut cp hx e plan))"
    by (cases "session_mut cp hx e plan") (auto simp: in_session_def attempt_def is_ok_iff)
  then show "gre_provision t = gre_provision e" and "is_ok r \<Longrightarrow> is_ok (session_mut cp hx e plan)" by blast+
qed

lemma route_of_provision: "gre_provision t = gre_provision e \<Longrightarrow> guardian_route t plan b = guardian_route e plan b"
  by (simp add: guardian_route_def)

lemma kept_drive: "leaves session_kept s (drive_to_active plan dd s)"
  unfolding drive_to_active_def by (intro ses_rules session_steps session_steps_from) simp_all

definition activation_op :: "bool \<Rightarrow> Id32 \<Rightarrow> Id32 \<Rightarrow> EpochActivationQc \<Rightarrow> Id32 \<Rightarrow> u64 \<Rightarrow> Id32 set \<Rightarrow> store_op" where
  "activation_op successor rid ph qc qh dd pending =
    (if successor then SActivate rid ph qc qh dd pending else SReplace rid ph qc qh dd pending)"

lemma activation_as_store:
  assumes "(if b then store_activate_successor hx rid ph qc h dd P else observe_replacement_activation hx rid ph qc h dd P) s = (v, s')"
  shows "store_exec hx (activation_op b rid ph qc h dd P) s = (map_sum id (\<lambda>_. Done) v, s')"
  using assms by (auto simp: activation_op_def)

lemma activation_tombstone:
  "store_exec hx (activation_op b rid ph qc h dd P) s = (Inr v, s') \<Longrightarrow>
   \<exists>x. ges_rotation_tombstones s' = bt_insert (hx rid) x (ges_rotation_tombstones s)"
  by (cases b) (auto simp: activation_op_def reply_ok store_activate_successor_def observe_replacement_activation_def
      install_successor_def Let_def split: if_splits option.splits)

definition activation_checked ::
    "primitives \<Rightarrow> GuardianRotationEntryV3 \<Rightarrow> RotationPlan \<Rightarrow> ConfigCapsuleV3 \<Rightarrow> EpochActivationQc \<Rightarrow> Id32 \<Rightarrow> bool"
where
  "activation_checked cp e plan capsule qc ph \<longleftrightarrow>
     validate_activated_capsule_v3 cp (grp_recovery_card (gre_provision e)) capsule = Inr () \<and>
     cc3_activation_qc capsule = Some qc \<and> plan_digest cp plan = Inr ph \<and>
     activation_mismatch plan capsule qc e = Inr False \<and>
     (is_ok (guardian_route e plan True) \<longrightarrow> prepared_matches capsule e = Inr ())"

lemma checkedI:
  assumes "validate_activated_capsule_v3 cp (grp_recovery_card (gre_provision e)) capsule = Inr a"
    and "ok_or (cc3_activation_qc capsule) x = Inr qc" and "plan_digest cp plan = Inr ph"
    and "activation_mismatch plan capsule qc e = Inr b" and "\<not> b"
    and "(if is_ok (guardian_route e plan True) then prepared_matches capsule e else Inr ()) = Inr u"
  shows "activation_checked cp e plan capsule qc ph"
  using assms by (auto simp: activation_checked_def ok_or_eq_Inr)

lemma closing_capsule:
  assumes "closing_frame hx key e (remove_session key t)"
  shows "closing_frame hx key e (remove_session key (t \<lparr> gre_provision := (gre_provision t) \<lparr> grp_predecessor_capsule := c \<rparr> \<rparr>))"
  using assms by (auto simp: closing_frame_def recoveries_kept_def sessions_kept_def store_moves_def remove_session_def)

lemma activate_outcome:
  assumes "rotation_activate cp hx plan capsule dd e = (r, e')"
  obtains (refused) err where "r = Inl err" "rotation_frame hx e e'"
    | (ended) qc qh ph where "closing_frame hx (hx (rx_rotation_id (rp_context plan))) e e'"
        "r = Inr (Activated (cr_guardian_epoch (rp_successor plan)))" "activation_checked cp e plan capsule qc ph"
        "is_ok (session_mut cp hx e plan)" "predecessor_capsule e' = capsule"
        "store_exec hx (activation_op (is_ok (guardian_route e plan True)) (rx_rotation_id (rp_context plan)) ph qc qh dd
           (pending_old_recovery_ids e)) (epoch_store e) = (Inr Done, epoch_store e')"
proof -
  let ?rid = "rx_rotation_id (rp_context plan)" and ?P = "pending_old_recovery_ids e"
  let ?tail = "\<lambda>qc qt ph. and_then (in_session cp hx plan e (drive_to_active plan dd)) (\<lambda>_ entry.
     and_then (on_store entry (if is_ok (guardian_route entry plan True)
         then store_activate_successor hx ?rid ph qc (sha256 cp qt) dd ?P
         else observe_replacement_activation hx ?rid ph qc (sha256 cp qt) dd ?P)) (\<lambda>_ entry.
     (Inr (Activated (cr_guardian_epoch (rp_successor plan))),
      remove_session (hx ?rid) (entry \<lparr> gre_provision := (gre_provision entry) \<lparr> grp_predecessor_capsule := capsule \<rparr> \<rparr>))))"
  let ?Q = "\<lambda>p. (\<exists>err. p = (Inl err, e)) \<or> (\<exists>qc qt ph. activation_checked cp e plan capsule qc ph \<and> p = ?tail qc qt ph)"
  have "?Q (rotation_activate cp hx plan capsule dd e)"
    unfolding rotation_activate_def Let_def
    by (intro attempt_cases [where Q = ?Q] if_split [where P = ?Q, THEN iffD2] conjI impI) (blast intro: checkedI)+
  with assms consider err where "r = Inl err" "e' = e"
    | qc qt ph where "activation_checked cp e plan capsule qc ph" "?tail qc qt ph = (r, e')" by force
  then show thesis
  proof cases
    case (2 qc qt ph)
    obtain v t where t: "in_session cp hx plan e (drive_to_active plan dd) = (v, t)" by fastforce
    have f: "rotation_frame hx e t" by (rule rot.keep_result [OF frame_in_session [OF kept_drive] t])
    have route: "guardian_route t plan True = guardian_route e plan True" by (rule route_of_provision [OF in_session_provision(1) [OF t]])
    let ?b = "is_ok (guardian_route e plan True)"
    let ?f = "if ?b then store_activate_successor hx ?rid ph qc (sha256 cp qt) dd ?P
         else observe_replacement_activation hx ?rid ph qc (sha256 cp qt) dd ?P"
    obtain w s where w: "?f (epoch_store t) = (w, s)" by fastforce
    note stored = activation_as_store [OF w]
    have store: "epoch_store t = epoch_store e"
      using in_session_provision(1) [OF t] by simp
    show thesis
    proof (cases v)
      case (Inl err)
      with 2(2) t f refused show thesis by (auto simp: and_then_def)
    next
      case (Inr u)
      note v = this
      show thesis
      proof (cases w)
        case (Inl err)
        then have "store_exec hx (activation_op ?b ?rid ph qc (sha256 cp qt) dd ?P) (epoch_store t) = (Inl err, s)"
          using stored by simp
        then have "rotation_frame hx t (with_store s t)"
          by (intro frame_store refused_tombstones)
        moreover have "r = Inl (FromStorage err)" "e' = with_store s t"
          using 2(2) t v Inl w route by (simp_all add: and_then_def on_store_def storage_result_def)
        ultimately show thesis
          using refused rot.K_join [OF f] by blast
      next
        case (Inr u')
        then have st: "store_exec hx (activation_op ?b ?rid ph qc (sha256 cp qt) dd ?P) (epoch_store t) = (Inr Done, s)"
          using stored by simp
        obtain x where x: "ges_rotation_tombstones s = bt_insert (hx ?rid) x (tombstones t)"
          using activation_tombstone [OF st] by blast
        have "r = Inr (Activated (cr_guardian_epoch (rp_successor plan)))"
          and e': "e' = remove_session (hx ?rid) ((with_store s t) \<lparr> gre_provision :=
            (gre_provision (with_store s t)) \<lparr> grp_predecessor_capsule := capsule \<rparr> \<rparr>)"
          using 2(2) t v Inr w route by (simp_all add: and_then_def on_store_def storage_result_def)
        moreover have "closing_frame hx (hx ?rid) e e'"
          unfolding e' by (intro closing_after [OF f] closing_capsule closing_store [OF st x])
        moreover have "predecessor_capsule e' = capsule" "epoch_store e' = s"
          by (simp_all add: e' remove_session_def with_store_def)
        ultimately show thesis
          using ended [of qc ph "sha256 cp qt"] 2(1) st in_session_provision(2) [OF t] v store by (simp add: is_ok_iff)
      qed
    qed
  qed (use refused in simp)
qed

section \<open>Begin and the handler\<close>

definition rotation_delay :: "bool \<Rightarrow> RotationPlan \<Rightarrow> u64" where
  "rotation_delay demo plan = (if demo then min (rp_minimum_delay_secs plan) 2 else rp_minimum_delay_secs plan)"

text \<open>What the guardian checked when it opened a session, and what the session records of it.\<close>

definition rotation_accepts ::
    "primitives \<Rightarrow> Id32 \<Rightarrow> bool \<Rightarrow> GuardianRotationEntryV3 \<Rightarrow> u64 \<Rightarrow> u64 \<Rightarrow> string \<Rightarrow> RotationPlan \<Rightarrow>
     BeginRotationCertificate \<Rightarrow> GuardianRotationSessionV3 \<Rightarrow> bool"
where
  "rotation_accepts cp seed demo e wall now boot plan certificate s \<longleftrightarrow>
     validate_begin_rotation_certificate_v3 cp certificate plan (predecessor_capsule e) wall = Inr (gse_begin_certificate_hash s) \<and>
     plan_digest cp plan = Inr (gse_plan_hash s) \<and> is_participant e plan \<and> \<not> session_key_substituted cp seed e plan \<and>
     gse_accepted_wall_time s = wall \<and> gse_started_monotonic s = now \<and> gse_boot_id s = boot \<and>
     gse_not_before_monotonic s = saturating_add now (rotation_delay demo plan)"

lemma accepts_kept:
  "rotation_accepts cp seed demo e wall now boot plan certificate s \<Longrightarrow> session_kept s s' \<Longrightarrow>
   rotation_accepts cp seed demo e wall now boot plan certificate s'"
  by (simp add: rotation_accepts_def session_kept_def)

lemma machine_begins:
  "RotationMachine_new rid ph p q = Inr m \<Longrightarrow>
   \<exists>acts m'. RotationMachine_apply (BeginAccepted now delay True) m = (Inr acts, m') \<and>
     rot_not_before m' = Some (saturating_add now delay)"
  by (auto simp: RotationMachine_new_def RotationMachine_apply_def Let_def split: if_splits)

lemma begin_outcome:
  assumes "rotation_begin cp hx seed wall now boot demo plan certificate e = (r, e')"
  obtains (refused) err where "r = Inl err" "e' = e"
    | (again) s where "r = Inr (RotationBeginAccepted (gse_not_before_monotonic s))" "e' = e"
        "bt_get (gre_sessions e) (hx (rx_rotation_id (rp_context plan))) = Some s"
        "\<not> rotation_ended_at e (hx (rx_rotation_id (rp_context plan)))"
    | (fresh) s where "r = Inr (RotationBeginAccepted (gse_not_before_monotonic s))"
        "rotation_accepts cp seed demo e wall now boot plan certificate s" "\<not> gse_cancelled s"
        "bt_get (gre_sessions e) (hx (rx_rotation_id (rp_context plan))) = None"
        "\<not> rotation_ended_at e (hx (rx_rotation_id (rp_context plan)))"
        "e' = e \<lparr> gre_sessions := bt_insert (hx (rx_rotation_id (rp_context plan))) s (gre_sessions e) \<rparr>"
proof (cases r)
  case (Inl err)
  have "e' = e"
  proof (cases "RotationMachine_new (rx_rotation_id (rp_context plan)) (projr (plan_digest cp plan)) (rp_predecessor plan) (rp_successor plan)")
    case (Inr m)
    from machine_begins [OF Inr, of now "rotation_delay demo plan"] assms Inl Inr show ?thesis
      by (auto simp: rotation_begin_def Let_def attempt_eq machine_result_def rotation_delay_def split: if_splits option.splits)
  qed (use assms Inl in \<open>auto simp: rotation_begin_def Let_def attempt_eq machine_result_def split: if_splits option.splits\<close>)
  with Inl refused show thesis by blast
next
  case (Inr x)
  let ?key = "hx (rx_rotation_id (rp_context plan))"
  from assms Inr obtain bh ph where c: "validate_begin_rotation_certificate_v3 cp certificate plan (predecessor_capsule e) wall = Inr bh"
    "is_participant e plan" "\<not> session_key_substituted cp seed e plan" "plan_digest cp plan = Inr ph" "\<not> rotation_ended_at e ?key"
    by (auto simp: rotation_begin_def Let_def attempt_eq split: if_splits)
  show thesis
  proof (cases "bt_get (gre_sessions e) ?key")
    case (Some s)
    with assms Inr c again [of s] show thesis
      by (auto simp: rotation_begin_def Let_def attempt_eq split: if_splits)
  next
    case None
    with assms Inr c obtain m where m: "RotationMachine_new (rx_rotation_id (rp_context plan)) ph (rp_predecessor plan) (rp_successor plan) = Inr m"
      by (auto simp: rotation_begin_def Let_def attempt_eq)
    obtain acts m' where m': "RotationMachine_apply (BeginAccepted now (rotation_delay demo plan) True) m = (Inr acts, m')"
      "rot_not_before m' = Some (saturating_add now (rotation_delay demo plan))" using machine_begins [OF m] by blast
    let ?s = "\<lparr> gse_rotation_machine = m', gse_plan_hash = ph, gse_begin_certificate_hash = bh, gse_accepted_wall_time = wall,
           gse_started_monotonic = now, gse_not_before_monotonic = saturating_add now (rotation_delay demo plan),
           gse_boot_id = boot, gse_cancelled = False, gse_next_outgoing_sequences = [],
           gse_next_incoming_sequences = [], gse_encrypted_local_state = None, gse_staged_material = None \<rparr>"
    from assms c None m m' have "r = Inr (RotationBeginAccepted (gse_not_before_monotonic ?s))"
      "e' = e \<lparr> gre_sessions := bt_insert ?key ?s (gre_sessions e) \<rparr>"
      by (simp_all add: rotation_begin_def Let_def attempt_def machine_result_def rotation_delay_def ok_or_def split: if_splits)
    with fresh [of ?s] c None show thesis by (simp add: rotation_accepts_def)
  qed
qed

fun ends_rotation :: "GuardianRotationRequestV3 \<Rightarrow> bool" where
  "ends_rotation (RotationCancel _ _) = True"
| "ends_rotation (RotationActivate _ _ _) = True"
| "ends_rotation (RotationAbort _ _) = True"
| "ends_rotation _ = False"

abbreviation request_key :: "(Id32 \<Rightarrow> string) \<Rightarrow> GuardianRotationRequestV3 \<Rightarrow> string" where
  "request_key hx request \<equiv> hx (rx_rotation_id (rotation_context request))"

text \<open>The three outcomes of a rotation call.\<close>

lemma rotation_outcome:
  assumes "handle_guardian_rotation_v3 cp fr gj hx draws seed wall now boot demo request e = (r, e')"
  obtains (within) "rotation_frame hx e e'" "ends_rotation request \<Longrightarrow> \<not> is_ok r"
    | (fresh) plan certificate s where "request = RotationBegin plan certificate"
        "r = Inr (RotationBeginAccepted (gse_not_before_monotonic s))"
        "rotation_accepts cp seed demo e wall now boot plan certificate s"
        "bt_get (gre_sessions e) (request_key hx request) = None" "\<not> rotation_ended_at e (request_key hx request)"
        "e' = e \<lparr> gre_sessions := bt_insert (request_key hx request) s (gre_sessions e) \<rparr>"
    | (ended) "closing_frame hx (request_key hx request) e e'" "ends_rotation request"
proof -
  from assms consider err where "r = Inl err" "e' = e"
    | "(case request of
       RotationBegin plan certificate \<Rightarrow> rotation_begin cp hx seed wall now boot demo plan certificate e
     | RotationCancel plan certificate \<Rightarrow> rotation_cancel cp hx wall plan certificate e
     | DoRepairRound1 plan bc rc grant ids rid \<Rightarrow> repair_round1 cp fr gj hx draws seed wall now boot plan bc rc grant ids rid e
     | DoRepairRound2 plan incoming rid \<Rightarrow> repair_round2 cp fr gj hx draws seed plan incoming rid e
     | RepairFinalize plan incoming pub \<Rightarrow> repair_finalize cp fr gj hx draws seed plan incoming pub e
     | DoRefreshRound1 plan bc rc grant \<Rightarrow> refresh_round1 cp fr gj hx draws seed wall now boot plan bc rc grant e
     | DoRefreshRound2 plan incoming \<Rightarrow> refresh_round2 cp fr gj hx draws seed plan incoming e
     | RefreshFinalize plan incoming pub \<Rightarrow> refresh_finalize cp fr gj hx draws seed plan incoming pub e
     | StageMaterial plan grant i fragment proof policy slot \<Rightarrow>
         stage_material cp fr gj hx draws seed plan grant i fragment proof policy slot e
     | PrepareCommit plan root proof d \<Rightarrow> prepare_commit cp hx draws seed plan root proof d e
     | HandoffComplete plan d \<Rightarrow> handoff_complete cp hx plan d e
     | RotationActivate plan capsule dd \<Rightarrow> rotation_activate cp hx plan capsule dd e
     | RotationAbort plan certificate \<Rightarrow> rotation_abort cp hx wall plan certificate e
     | Retire notice t \<Rightarrow> retire cp notice t e) = (r, e')"
    unfolding handle_guardian_rotation_v3_def Let_def by (auto split: if_splits)
  then show thesis
  proof cases
    case (1 err)
    with within show thesis by (simp add: is_ok_def)
  next
    case 2
    show thesis
    proof (cases request)
      case (RotationBegin plan certificate)
      with 2 have "rotation_begin cp hx seed wall now boot demo plan certificate e = (r, e')" by simp
      then show thesis
        by (cases rule: begin_outcome) (use RotationBegin within fresh in \<open>simp_all\<close>)
    next
      case (RotationCancel plan certificate)
      with 2 have "rotation_cancel cp hx wall plan certificate e = (r, e')" by simp
      then show thesis
        by (cases rule: cancel_outcome) (use RotationCancel within ended in \<open>simp_all add: is_ok_def\<close>)
    next
      case (RotationAbort plan certificate)
      with 2 have "rotation_abort cp hx wall plan certificate e = (r, e')" by simp
      then show thesis
        by (cases rule: abort_outcome) (use RotationAbort within ended in \<open>simp_all add: is_ok_def\<close>)
    next
      case (RotationActivate plan capsule dd)
      with 2 have "rotation_activate cp hx plan capsule dd e = (r, e')" by simp
      then show thesis
        by (cases rule: activate_outcome) (use RotationActivate within ended in \<open>simp_all add: is_ok_def\<close>)
    qed (use 2 within rot.keep_result [OF work_repair_round1] rot.keep_result [OF work_repair_round2]
        rot.keep_result [OF work_repair_finalize] rot.keep_result [OF work_refresh_round1]
        rot.keep_result [OF work_refresh_round2] rot.keep_result [OF work_refresh_finalize]
        rot.keep_result [OF work_stage_material] rot.keep_result [OF work_handoff]
        rot.keep_result [OF work_prepare_commit] rot.keep_result [OF work_retire] in \<open>simp_all, blast?\<close>)
  qed
qed

section \<open>Calls that need a live session\<close>

fun needs_session :: "GuardianRotationRequestV3 \<Rightarrow> RotationPlan option" where
  "needs_session (RotationBegin _ _) = None"
| "needs_session (RotationCancel _ _) = None"
| "needs_session (Retire _ _) = None"
| "needs_session (DoRepairRound1 plan _ _ _ _ _) = Some plan"
| "needs_session (DoRepairRound2 plan _ _) = Some plan"
| "needs_session (RepairFinalize plan _ _) = Some plan"
| "needs_session (DoRefreshRound1 plan _ _ _) = Some plan"
| "needs_session (DoRefreshRound2 plan _) = Some plan"
| "needs_session (RefreshFinalize plan _ _) = Some plan"
| "needs_session (StageMaterial plan _ _ _ _ _ _) = Some plan"
| "needs_session (PrepareCommit plan _ _ _) = Some plan"
| "needs_session (HandoffComplete plan _) = Some plan"
| "needs_session (RotationActivate plan _ _) = Some plan"
| "needs_session (RotationAbort plan _) = Some plan"

text \<open>A step that can only succeed where \<open>b\<close> holds.\<close>

definition only_if :: "bool \<Rightarrow> ('e, 'a) result \<times> 's \<Rightarrow> bool" where
  "only_if b p \<longleftrightarrow> (is_ok (fst p) \<longrightarrow> b)"

lemma only_if_rules:
  "only_if b (Inl err, s)"
  "(c \<Longrightarrow> only_if b p) \<Longrightarrow> (\<not> c \<Longrightarrow> only_if b q) \<Longrightarrow> only_if b (if c then p else q)"
  "(\<And>x y. only_if b (g x y)) \<Longrightarrow> only_if b (case z of (x, y) \<Rightarrow> g x y)"
  "only_if (is_ok (session_mut cp hx e plan)) (in_session cp hx plan e k)"
  "only_if b p' \<Longrightarrow> only_if b (and_then p' h)"
  by (auto simp: only_if_def is_ok_def and_then_def in_session_def attempt_def split: prod.splits sum.splits)

lemma only_if_attempt: "(\<And>a. r = Inr a \<Longrightarrow> only_if b (f a)) \<Longrightarrow> only_if b (attempt r s f)"
  by (cases r) (simp_all add: attempt_def only_if_def is_ok_def)

lemmas live_rules = only_if_rules only_if_attempt

lemma live_repair:
  "only_if (is_ok (session_mut cp hx e plan)) (repair_round1 cp fr gj hx draws seed wall now boot plan bc rc grant ids rid e)"
  "only_if (is_ok (session_mut cp hx e plan)) (repair_round2 cp fr gj hx draws seed plan incoming rid e)"
  "only_if (is_ok (session_mut cp hx e plan)) (repair_finalize cp fr gj hx draws seed plan incoming pub e)"
  unfolding repair_round1_def repair_round2_def repair_finalize_def Let_def by (intro live_rules)+

lemma live_refresh:
  "only_if (is_ok (session_mut cp hx e plan)) (refresh_round1 cp fr gj hx draws seed wall now boot plan bco rco gro e)"
  "only_if (is_ok (session_mut cp hx e plan)) (refresh_round2 cp fr gj hx draws seed plan incoming e)"
  "only_if (is_ok (session_mut cp hx e plan)) (refresh_finalize cp fr gj hx draws seed plan incoming pub e)"
  unfolding refresh_round1_def refresh_round2_def refresh_finalize_def Let_def by (intro live_rules)+

lemma live_material:
  "only_if (is_ok (session_mut cp hx e plan)) (stage_material cp fr gj hx draws seed plan wgrant i fragment proof policy slot e)"
  "only_if (is_ok (session_mut cp hx e plan)) (handoff_complete cp hx plan d e)"
  "only_if (is_ok (session_mut cp hx e plan)) (rotation_abort cp hx wall plan acert e)"
  "only_if (is_ok (session_mut cp hx e plan)) (rotation_activate cp hx plan capsule dd e)"
  unfolding stage_material_def handoff_complete_def rotation_abort_def rotation_activate_def Let_def by (intro live_rules)+

lemma live_prepare: "only_if (is_ok (session_mut cp hx e plan)) (prepare_commit cp hx draws seed plan root proof d e)"
proof (cases "session_mut cp hx e plan")
  case (Inl err)
  then show ?thesis
    unfolding prepare_commit_def Let_def
    by (intro only_if_attempt) (simp_all add: attempt_def only_if_def is_ok_def)
qed (simp add: only_if_def is_ok_def)

lemma live_session:
  assumes "handle_guardian_rotation_v3 cp fr gj hx draws seed wall now boot demo request e = (Inr x, e')"
    and "needs_session request = Some plan"
  shows "is_ok (session_mut cp hx e plan)"
proof -
  have "only_if (is_ok (session_mut cp hx e plan)) (handle_guardian_rotation_v3 cp fr gj hx draws seed wall now boot demo request e)"
    using assms(2) unfolding handle_guardian_rotation_v3_def Let_def
    by (cases request) (simp_all add: live_repair live_refresh live_material live_prepare only_if_rules(1))
  with assms(1) show ?thesis by (simp add: only_if_def is_ok_def)
qed

end
