(* ===== verification/GP_Guardian_Safety.thy ===== *)
theory GP_Guardian_Safety
  imports GP_Guardian_Steps GP_Protocol_Safety
begin

text \<open>
  What the protocol-3 guardian promises over any sequence of recovery and rotation calls to one
  mailbox: recovery material leaves once per request identifier, after begin, delay and release and
  never beside a cancellation; the old share of a rotation is unlocked only after begin, delay and
  release of the same plan; a rotation identifier that ended stays ended; the epoch store only moves
  by operations of the store.
\<close>

section \<open>Outcomes of the recovery calls\<close>

definition recovery_delay :: "bool \<Rightarrow> GuardianRecordV3 \<Rightarrow> u64" where
  "recovery_delay demo rec =
    (if demo then min (gp3_minimum_recovery_delay (grec3_policy rec)) 2 else gp3_minimum_recovery_delay (grec3_policy rec))"

text \<open>What the guardian checked when it accepted a begin, and what it filed.\<close>

definition recovery_accepts ::
    "primitives \<Rightarrow> bool \<Rightarrow> GuardianRotationEntryV3 \<Rightarrow> u64 \<Rightarrow> u64 \<Rightarrow> string \<Rightarrow> BeginRecoveryCertificateV3 \<Rightarrow>
     PendingNetworkRecoveryV3 \<Rightarrow> bool"
where
  "recovery_accepts cp demo e wall now boot certificate p \<longleftrightarrow> brc3_request certificate = pn3_request p \<and>
     validate_begin_recovery_certificate_v3 cp certificate (predecessor_capsule e) wall = Inr (pn3_request_digest p) \<and>
     pn3_boot_id p = boot \<and>
     (\<exists>active. ges_active (epoch_store e) = Some active \<and>
        gp3_config_ref (grec3_policy active) = rq3_config_ref (pn3_request p) \<and>
        pn3_not_before_monotonic p = saturating_add now (recovery_delay demo active))"

abbreviation recovery_key :: "(Id32 \<Rightarrow> string) \<Rightarrow> GuardianRecoveryRequestV3 \<Rightarrow> string" where
  "recovery_key hx request \<equiv> hx (rq3_request_id (recovery_of request))"

text \<open>A call that fails without a change.\<close>

definition fails_clean :: "'s \<Rightarrow> ('e, 'a) result \<times> 's \<Rightarrow> bool" where
  "fails_clean s p \<longleftrightarrow> is_ok (fst p) \<or> snd p = s"

lemma clean_rules:
  "fails_clean s (Inl err, s)" "fails_clean s (Inr x, t)"
  "fails_clean s p \<Longrightarrow> fails_clean s q \<Longrightarrow> fails_clean s (if b then p else q)"
  "fails_clean s p \<Longrightarrow> (\<And>y. fails_clean s (f y)) \<Longrightarrow> fails_clean s (case z of None \<Rightarrow> p | Some y \<Rightarrow> f y)"
  by (auto simp: fails_clean_def is_ok_def split: option.split)

lemma clean_attempt: "(\<And>a. fails_clean s (g a)) \<Longrightarrow> fails_clean s (attempt r s g)"
  by (cases r) (simp_all add: fails_clean_def is_ok_def attempt_def)

lemma fails_cleanD: "fails_clean s p \<Longrightarrow> p = (Inl err, t) \<Longrightarrow> t = s"
  by (simp add: fails_clean_def is_ok_def)

lemma clean_recovery_begin: "fails_clean e (recovery_begin cp hx wall now boot demo certificate e)"
  unfolding recovery_begin_def Let_def by (intro clean_rules clean_attempt)

lemma recovery_begin_outcome:
  assumes "recovery_begin cp hx wall now boot demo certificate e = (r, e')"
  obtains (refused) err where "r = Inl err" "e' = e"
    | (again) p where "r = Inr (RecoveryBeginAccepted (pn3_not_before_monotonic p))" "e' = e"
        "bt_get (gre_recoveries e) (hx (rq3_request_id (brc3_request certificate))) = Some p"
    | (fresh) p where "r = Inr (RecoveryBeginAccepted (pn3_not_before_monotonic p))"
        "recovery_accepts cp demo e wall now boot certificate p" "\<not> pn3_cancelled p" "\<not> pn3_released p"
        "bt_get (gre_recoveries e) (hx (rq3_request_id (brc3_request certificate))) = None"
        "bt_get (recovery_tombstones e) (hx (rq3_request_id (brc3_request certificate))) = None"
        "e' = with_recovery (hx (rq3_request_id (brc3_request certificate))) p e"
proof (cases r)
  case (Inl err)
  with assms refused fails_cleanD [OF clean_recovery_begin] show thesis by blast
next
  case (Inr x)
  let ?key = "hx (rq3_request_id (brc3_request certificate))"
  from assms Inr obtain active digest where c: "ges_active (epoch_store e) = Some active"
    "gp3_config_ref (grec3_policy active) = rq3_config_ref (brc3_request certificate)"
    "validate_begin_recovery_certificate_v3 cp certificate (predecessor_capsule e) wall = Inr digest"
    "\<not> bt_contains_key (recovery_tombstones e) ?key"
    by (auto simp: recovery_begin_def Let_def attempt_eq ok_or_eq_Inr split: if_splits)
  show thesis
  proof (cases "bt_get (gre_recoveries e) ?key")
    case (Some p)
    with assms Inr c again [of p] show thesis
      by (auto simp: recovery_begin_def Let_def attempt_eq ok_or_eq_Inr split: if_splits)
  next
    case None
    let ?p = "\<lparr> pn3_request = brc3_request certificate, pn3_request_digest = digest, pn3_accepted_wall_time = wall,
      pn3_started_monotonic = now, pn3_not_before_monotonic = saturating_add now (recovery_delay demo active),
      pn3_boot_id = boot, pn3_cancelled = False, pn3_released = False \<rparr>"
    from assms Inr c None have "r = Inr (RecoveryBeginAccepted (pn3_not_before_monotonic ?p))" "e' = with_recovery ?key ?p e"
      by (simp_all add: recovery_begin_def Let_def attempt_def recovery_delay_def ok_or_def split: if_splits)
    with fresh [of ?p] c None show thesis by (auto simp: recovery_accepts_def split: option.splits)
  qed
qed

text \<open>The entry after an accepted cancellation.\<close>

definition cancelled_entry :: "string \<Rightarrow> Id32 \<Rightarrow> GuardianRotationEntryV3 \<Rightarrow> GuardianRotationEntryV3" where
  "cancelled_entry key digest e =
    (let store = epoch_store e;
         e = with_store (store \<lparr> ges_recovery_cancellation_tombstones :=
           bt_insert key digest (ges_recovery_cancellation_tombstones store) \<rparr>) e in
     case bt_get (gre_recoveries e) key of
       Some pending \<Rightarrow> with_recovery key (pending \<lparr> pn3_cancelled := True \<rparr>) e
     | None \<Rightarrow> e)"

lemma recovery_cancel_outcome:
  assumes "recovery_cancel cp hx wall request certificate e = (r, e')"
  obtains (refused) err where "r = Inl err" "e' = e"
    | (marked) digest where "e' = cancelled_entry (hx (rq3_request_id request)) digest e"
        "\<And>p. bt_get (gre_recoveries e) (hx (rq3_request_id request)) = Some p \<Longrightarrow> \<not> pn3_released p"
        "\<And>x. r = Inr x \<Longrightarrow> \<exists>ack. x = RecoveryCancelled ack"
proof -
  let ?key = "hx (rq3_request_id request)"
  let ?Q = "\<lambda>p. (\<exists>err. p = (Inl err, e)) \<or> (\<exists>digest r. p = (r, cancelled_entry ?key digest e) \<and>
     (\<forall>p. bt_get (gre_recoveries e) ?key = Some p \<longrightarrow> \<not> pn3_released p) \<and> (\<forall>x. r = Inr x \<longrightarrow> (\<exists>ack. x = RecoveryCancelled ack)))"
  have "?Q (recovery_cancel cp hx wall request certificate e)"
    unfolding recovery_cancel_def Let_def
    by (intro attempt_cases [where Q = ?Q])
      (auto simp: cancelled_entry_def Let_def attempt_def split: option.splits if_splits sum.splits)
  with assms that show thesis by auto
qed

lemma if_cases: "(b \<Longrightarrow> Q x) \<Longrightarrow> (\<not> b \<Longrightarrow> Q y) \<Longrightarrow> Q (if b then x else y)"
  by simp

lemma recovery_release_outcome:
  assumes "recovery_release cp hx wall now boot request certificate e = (r, e')"
  obtains (refused) err where "r = Inl err" "e' = e"
    | (released) p c s where "r = Inr (RecoveryContribution c)"
        "bt_get (gre_recoveries e) (hx (rq3_request_id request)) = Some p" "pn3_request p = request"
        "validate_recovery_release_certificate_for_ref_v3 cp certificate (predecessor_capsule e) (rq3_config_ref request) wall
           = Inr (pn3_request_digest p)"
        "\<not> pn3_cancelled p" "\<not> pn3_released p"
        "bt_get (recovery_tombstones e) (hx (rq3_request_id request)) \<noteq> Some (pn3_request_digest p)"
        "pn3_boot_id p = boot" "pn3_not_before_monotonic p \<le> now" "wall < rq3_expiry request"
        "gc3_config_ref c = rq3_config_ref request" "gc3_request_id c = rq3_request_id request"
        "gc3_request_digest c = pn3_request_digest p" "gc3_recovery_recipient_key c = rq3_recovery_recipient_key request"
        "is_ok (record_for_request e (rq3_config_ref request) (rq3_request_id request) True)"
        "e' = with_store s (with_recovery (hx (rq3_request_id request)) (p \<lparr> pn3_released := True \<rparr>) e)"
        "s = epoch_store e \<or> store_exec hx (SFinish (cr_guardian_epoch (rq3_config_ref request)) (rq3_request_id request))
           (epoch_store e) = (Inr Done, s)"
proof -
  let ?key = "hx (rq3_request_id request)" and ?ref = "rq3_config_ref request"
  let ?con = "\<lambda>digest rec. \<lparr> gc3_config_ref = rq3_config_ref request, gc3_request_id = rq3_request_id request,
           gc3_request_digest = digest, gc3_recovery_recipient_key = rq3_recovery_recipient_key request,
           gc3_nonce = rq3_nonce request, gc3_guardian_index = grec3_guardian_index rec,
           gc3_fragment_index = grec3_fragment_index rec,
           gc3_encrypted_ciphertext_fragment = grec3_encrypted_ciphertext_fragment rec,
           gc3_encrypted_dek_share = grec3_encrypted_dek_share rec, gc3_merkle_path_proof = grec3_merkle_path_proof rec,
           gc3_guardian_signature = [] \<rparr>"
  let ?reply = "\<lambda>digest rec t. RecoveryContribution (?con digest rec \<lparr> gc3_guardian_signature :=
           sign cp (grp_signing_seed (gre_provision e)) t \<rparr>)"
  let ?e = "\<lambda>pending. with_recovery ?key (pending \<lparr> pn3_released := True \<rparr>) e"
  let ?tail = "\<lambda>digest rec pending t.
     if bt_contains_key (ges_draining (epoch_store (?e pending))) (cr_guardian_epoch ?ref)
     then (case finish_draining_request (cr_guardian_epoch ?ref) (rq3_request_id request) (epoch_store (?e pending)) of
         (Inl err, store) \<Rightarrow> (Inl (FromStorage err), with_store store (?e pending))
       | (Inr _, store) \<Rightarrow> (Inr (?reply digest rec t), with_store store (?e pending)))
     else (Inr (?reply digest rec t), ?e pending)"
  let ?ok = "\<lambda>digest rec pending.
     validate_recovery_release_certificate_for_ref_v3 cp certificate (predecessor_capsule e) ?ref wall = Inr digest \<and>
     record_for_request e ?ref (rq3_request_id request) True = Inr rec \<and>
     bt_get (gre_recoveries e) ?key = Some pending \<and> pn3_request pending = request \<and> pn3_request_digest pending = digest \<and>
     \<not> pn3_cancelled pending \<and> \<not> pn3_released pending \<and> bt_get (recovery_tombstones e) ?key \<noteq> Some digest \<and>
     pn3_boot_id pending = boot \<and> pn3_not_before_monotonic pending \<le> now \<and> wall < rq3_expiry request"
  let ?Q = "\<lambda>p. (\<exists>err. p = (Inl err, e)) \<or> (\<exists>digest rec pending t. ?ok digest rec pending \<and> p = ?tail digest rec pending t)"
  have "?Q (recovery_release cp hx wall now boot request certificate e)"
    unfolding recovery_release_def Let_def
    apply (rule attempt_cases [where Q = ?Q], rule disjI1, rule exI, rule HOL.refl)+
    apply (rule if_cases [where Q = ?Q], rule disjI1, rule exI, rule HOL.refl)+
    apply (rule attempt_cases [where Q = ?Q], rule disjI1, rule exI, rule HOL.refl)
    apply (rule disjI2, (rule exI)+, rule conjI [rotated], rule HOL.refl)
    apply (simp add: ok_or_eq_Inr not_less not_le)
    done
  then have "?Q (r, e')" unfolding assms .
  then show thesis
  proof (elim disjE exE)
    fix err assume "(r, e') = (Inl err, e)"
    with refused show thesis by simp
  next
    fix digest rec p t
    assume both: "?ok digest rec p \<and> (r, e') = ?tail digest rec p t"
    note ok = conjunct1 [OF both] and tail = conjunct2 [OF both]
    define c where "c = ?con digest rec \<lparr> gc3_guardian_signature := sign cp (grp_signing_seed (gre_provision e)) t \<rparr>"
    have c: "gc3_config_ref c = ?ref" "gc3_request_id c = rq3_request_id request" "gc3_request_digest c = digest"
      "gc3_recovery_recipient_key c = rq3_recovery_recipient_key request" by (simp_all add: c_def)
    have store: "epoch_store (?e p) = epoch_store e" by (simp add: with_recovery_def)
    have "\<exists>s. r = Inr (RecoveryContribution c) \<and> e' = with_store s (?e p) \<and> (s = epoch_store e \<or>
        store_exec hx (SFinish (cr_guardian_epoch ?ref) (rq3_request_id request)) (epoch_store e) = (Inr Done, s))"
    proof (cases "bt_get (ges_draining (epoch_store e)) (cr_guardian_epoch ?ref)")
      case None
      with tail store have "(r, e') = (Inr (RecoveryContribution c), ?e p)" by (simp add: c_def)
      moreover have "with_store (epoch_store e) (?e p) = ?e p" by (simp add: with_store_def with_recovery_def)
      ultimately show ?thesis by (intro exI [of _ "epoch_store e"]) simp_all
    next
      case (Some d)
      let ?s = "(epoch_store e) \<lparr> ges_draining := bt_insert (cr_guardian_epoch ?ref)
         (d \<lparr> dge_pending_request_ids := dge_pending_request_ids d - {rq3_request_id request} \<rparr>) (ges_draining (epoch_store e)) \<rparr>"
      have f: "finish_draining_request (cr_guardian_epoch ?ref) (rq3_request_id request) (epoch_store e) = (Inr (), ?s)"
        by (simp add: finish_draining_request_def Some)
      with tail store Some have "(r, e') = (Inr (RecoveryContribution c), with_store ?s (?e p))" by (simp add: c_def)
      with f show ?thesis by auto
    qed
    then obtain s where "r = Inr (RecoveryContribution c)" "e' = with_store s (?e p)" "s = epoch_store e \<or>
        store_exec hx (SFinish (cr_guardian_epoch ?ref) (rq3_request_id request)) (epoch_store e) = (Inr Done, s)" by blast
    with ok c show thesis by (intro released [of c p s]) (simp_all add: is_ok_def)
  qed
qed

lemma recovery_outcome:
  assumes "handle_guardian_recovery_v3 cp hx wall now boot demo request e = (r, e')"
  obtains (same) "e' = e" "\<And>x. r = Inr x \<Longrightarrow> \<exists>n. x = RecoveryBeginAccepted n"
    | (fresh) certificate p where "request = BeginRecovery certificate" "r = Inr (RecoveryBeginAccepted (pn3_not_before_monotonic p))"
        "recovery_accepts cp demo e wall now boot certificate p" "\<not> pn3_cancelled p" "\<not> pn3_released p"
        "bt_get (gre_recoveries e) (recovery_key hx request) = None" "bt_get (recovery_tombstones e) (recovery_key hx request) = None"
        "e' = with_recovery (recovery_key hx request) p e"
    | (marked) req certificate digest where "request = CancelRecovery req certificate"
        "e' = cancelled_entry (recovery_key hx request) digest e"
        "\<And>p. bt_get (gre_recoveries e) (recovery_key hx request) = Some p \<Longrightarrow> \<not> pn3_released p"
        "\<And>x. r = Inr x \<Longrightarrow> \<exists>ack. x = RecoveryCancelled ack"
    | (released) req certificate p c s where "request = ReleaseRecovery req certificate"
        "recovery_release cp hx wall now boot req certificate e = (r, e')" "r = Inr (RecoveryContribution c)"
        "bt_get (gre_recoveries e) (recovery_key hx request) = Some p" "\<not> pn3_cancelled p" "\<not> pn3_released p"
        "e' = with_store s (with_recovery (recovery_key hx request) (p \<lparr> pn3_released := True \<rparr>) e)"
        "s = epoch_store e \<or> store_exec hx (SFinish (cr_guardian_epoch (rq3_config_ref req)) (rq3_request_id req))
           (epoch_store e) = (Inr Done, s)"
proof (cases "rq3_protocol_version (recovery_of request) \<noteq> PROTOCOL_VERSION_V3 \<or>
    length (rq3_recovery_recipient_key (recovery_of request)) \<noteq> XWING_PUBLIC_KEY_LEN")
  case True
  then have "handle_guardian_recovery_v3 cp hx wall now boot demo request e =
      (Inl (Bail ''guardian rejected malformed protocol-v3 recovery request''), e)"
    by (auto simp: handle_guardian_recovery_v3_def Let_def)
  with assms have *: "e' = e" "\<not> is_ok r" by (auto simp: is_ok_def)
  show thesis by (rule same [OF *(1)]) (use *(2) in \<open>simp add: is_ok_def\<close>)
next
  case False
  show thesis
  proof (cases request)
    case (BeginRecovery certificate)
    with False assms have "recovery_begin cp hx wall now boot demo certificate e = (r, e')"
      by (simp add: handle_guardian_recovery_v3_def Let_def)
    then show thesis
      by (cases rule: recovery_begin_outcome) (use BeginRecovery same fresh in simp_all)
  next
    case (CancelRecovery req certificate)
    with False assms have "recovery_cancel cp hx wall req certificate e = (r, e')"
      by (simp add: handle_guardian_recovery_v3_def Let_def)
    then show thesis
      by (cases rule: recovery_cancel_outcome) (use CancelRecovery same marked in simp_all)
  next
    case (ReleaseRecovery req certificate)
    with False assms have rel: "recovery_release cp hx wall now boot req certificate e = (r, e')"
      by (simp add: handle_guardian_recovery_v3_def Let_def)
    then show thesis
    proof (cases rule: recovery_release_outcome)
      case (refused err)
      with same show thesis by simp
    next
      case (released p c s)
      with ReleaseRecovery rel that(4) [of req certificate c p s] show thesis by simp
    qed
  qed
qed

section \<open>Runs of an entry\<close>

datatype guardian_call =
    RecoveryCall u64 u64 string GuardianRecoveryRequestV3
  | RotationCall guardian_draws u64 u64 string GuardianRotationRequestV3

datatype guardian_reply = RecoveryReply GuardianRecoveryResponseV3 | RotationReply GuardianRotationResponseV3

type_synonym guardian_answer = "(anyhow, guardian_reply) result"

fun guardian_exec ::
    "primitives \<Rightarrow> frost \<Rightarrow> guardian_json \<Rightarrow> (Id32 \<Rightarrow> string) \<Rightarrow> Id32 \<Rightarrow> bool \<Rightarrow> guardian_call \<Rightarrow>
     GuardianRotationEntryV3 \<Rightarrow> guardian_answer \<times> GuardianRotationEntryV3"
where
  "guardian_exec cp fr gj hx seed demo (RecoveryCall wall now boot request) e =
     map_prod (map_sum id RecoveryReply) id (handle_guardian_recovery_v3 cp hx wall now boot demo request e)"
| "guardian_exec cp fr gj hx seed demo (RotationCall draws wall now boot request) e =
     map_prod (map_sum id RotationReply) id (handle_guardian_rotation_v3 cp fr gj hx draws seed wall now boot demo request e)"

text \<open>An entry as provisioning creates it.\<close>

definition GuardianRotationEntryV3_new :: "GuardianRotationProvisionV3 \<Rightarrow> GuardianRotationEntryV3" where
  "GuardianRotationEntryV3_new provision = \<lparr> gre_provision = provision, gre_sessions = [], gre_recoveries = [] \<rparr>"

type_synonym guardian_log = "(guardian_call \<times> guardian_answer) list"

text \<open>The entry after the calls of a log.\<close>

definition state_after ::
    "(guardian_call \<Rightarrow> GuardianRotationEntryV3 \<Rightarrow> guardian_answer \<times> GuardianRotationEntryV3) \<Rightarrow>
     GuardianRotationEntryV3 \<Rightarrow> guardian_log \<Rightarrow> GuardianRotationEntryV3"
where
  "state_after X e log = snd (run_log X e (map fst log))"

definition contributes :: "(Id32 \<Rightarrow> string) \<Rightarrow> string \<Rightarrow> guardian_call \<times> guardian_answer \<Rightarrow> bool" where
  "contributes hx key x \<longleftrightarrow> (\<exists>wall now boot request certificate c. key = hx (rq3_request_id request) \<and>
     x = (RecoveryCall wall now boot (ReleaseRecovery request certificate), Inr (RecoveryReply (RecoveryContribution c))))"

definition cancels_recovery :: "(Id32 \<Rightarrow> string) \<Rightarrow> string \<Rightarrow> guardian_call \<times> guardian_answer \<Rightarrow> bool" where
  "cancels_recovery hx key x \<longleftrightarrow> (\<exists>wall now boot request certificate ack. key = hx (rq3_request_id request) \<and>
     x = (RecoveryCall wall now boot (CancelRecovery request certificate), Inr (RecoveryReply (RecoveryCancelled ack))))"

definition closes_rotation :: "(Id32 \<Rightarrow> string) \<Rightarrow> string \<Rightarrow> guardian_call \<times> guardian_answer \<Rightarrow> bool" where
  "closes_rotation hx key x \<longleftrightarrow> (\<exists>draws wall now boot request reply. ends_rotation request \<and>
     key = request_key hx request \<and> x = (RotationCall draws wall now boot request, Inr reply))"

text \<open>The begin behind a filed recovery and behind a session, with the entry it was accepted in.\<close>

definition recovery_began ::
    "primitives \<Rightarrow> (Id32 \<Rightarrow> string) \<Rightarrow> bool \<Rightarrow> (guardian_log \<Rightarrow> GuardianRotationEntryV3) \<Rightarrow> string \<Rightarrow>
     PendingNetworkRecoveryV3 \<Rightarrow> guardian_log \<Rightarrow> bool"
where
  "recovery_began cp hx demo at key p log \<longleftrightarrow> key = hx (rq3_request_id (pn3_request p)) \<and>
     (\<exists>l0 l wall now boot certificate.
        log = l0 @ (RecoveryCall wall now boot (BeginRecovery certificate),
          Inr (RecoveryReply (RecoveryBeginAccepted (pn3_not_before_monotonic p)))) # l \<and>
        recovery_accepts cp demo (at l0) wall now boot certificate p)"

definition rotation_began ::
    "primitives \<Rightarrow> (Id32 \<Rightarrow> string) \<Rightarrow> Id32 \<Rightarrow> bool \<Rightarrow> (guardian_log \<Rightarrow> GuardianRotationEntryV3) \<Rightarrow> string \<Rightarrow>
     GuardianRotationSessionV3 \<Rightarrow> guardian_log \<Rightarrow> bool"
where
  "rotation_began cp hx seed demo at key s log \<longleftrightarrow> (\<exists>l0 l draws wall now boot plan certificate.
     key = hx (rx_rotation_id (rp_context plan)) \<and>
     log = l0 @ (RotationCall draws wall now boot (RotationBegin plan certificate),
       Inr (RotationReply (RotationBeginAccepted (gse_not_before_monotonic s)))) # l \<and>
     rotation_accepts cp seed demo (at l0) wall now boot plan certificate s)"

lemma began_longer:
  "recovery_began cp hx demo at key p log \<Longrightarrow> recovery_began cp hx demo at key p (log @ xs)"
  "rotation_began cp hx seed demo at key s log \<Longrightarrow> rotation_began cp hx seed demo at key s (log @ xs)"
  by (fastforce simp: recovery_began_def rotation_began_def)+

lemma rotation_began_kept:
  assumes "rotation_began cp hx seed demo at key s log" and "session_kept s s'"
  shows "rotation_began cp hx seed demo at key s' log"
proof -
  have "gse_not_before_monotonic s' = gse_not_before_monotonic s" using assms(2) by (simp add: session_kept_def)
  with assms show ?thesis unfolding rotation_began_def by (metis accepts_kept)
qed

lemma recovery_flags:
  "recovery_began cp hx demo at key (p \<lparr> pn3_released := b \<rparr>) log = recovery_began cp hx demo at key p log"
  "recovery_began cp hx demo at key (p \<lparr> pn3_cancelled := b \<rparr>) log = recovery_began cp hx demo at key p log"
  by (simp_all add: recovery_began_def recovery_accepts_def)

section \<open>The invariant\<close>

definition recoveries_inv ::
    "primitives \<Rightarrow> (Id32 \<Rightarrow> string) \<Rightarrow> bool \<Rightarrow> (guardian_log \<Rightarrow> GuardianRotationEntryV3) \<Rightarrow> guardian_log \<Rightarrow>
     GuardianRotationEntryV3 \<Rightarrow> bool"
where
  "recoveries_inv cp hx demo at log e \<longleftrightarrow>
     (\<forall>key p. bt_get (gre_recoveries e) key = Some p \<longrightarrow> recovery_began cp hx demo at key p log \<and>
        \<not> (pn3_cancelled p \<and> pn3_released p) \<and> (bt_contains_key (recovery_tombstones e) key \<longrightarrow> pn3_cancelled p)) \<and>
     (\<forall>x \<in> set log. \<forall>key.
        (contributes hx key x \<longrightarrow> (\<exists>p. bt_get (gre_recoveries e) key = Some p \<and> pn3_released p)) \<and>
        (cancels_recovery hx key x \<longrightarrow> bt_contains_key (recovery_tombstones e) key))"

definition sessions_inv ::
    "primitives \<Rightarrow> (Id32 \<Rightarrow> string) \<Rightarrow> Id32 \<Rightarrow> bool \<Rightarrow> (guardian_log \<Rightarrow> GuardianRotationEntryV3) \<Rightarrow> guardian_log \<Rightarrow>
     GuardianRotationEntryV3 \<Rightarrow> bool"
where
  "sessions_inv cp hx seed demo at log e \<longleftrightarrow>
     (\<forall>key s. bt_get (gre_sessions e) key = Some s \<longrightarrow>
        rotation_began cp hx seed demo at key s log \<and> \<not> rotation_ended_at e key) \<and>
     (\<forall>x \<in> set log. \<forall>key. closes_rotation hx key x \<longrightarrow> rotation_ended_at e key)"

definition guardian_inv ::
    "primitives \<Rightarrow> frost \<Rightarrow> guardian_json \<Rightarrow> (Id32 \<Rightarrow> string) \<Rightarrow> Id32 \<Rightarrow> bool \<Rightarrow> GuardianRotationProvisionV3 \<Rightarrow>
     guardian_log \<Rightarrow> GuardianRotationEntryV3 \<Rightarrow> bool"
where
  "guardian_inv cp fr gj hx seed demo provision log e \<longleftrightarrow>
     (let X = guardian_exec cp fr gj hx seed demo; e0 = GuardianRotationEntryV3_new provision; at = state_after X e0 in
      run_log X e0 (map fst log) = (log, e) \<and> recoveries_inv cp hx demo at log e \<and>
      sessions_inv cp hx seed demo at log e)"

lemma recoveries_inv_kept:
  assumes "recoveries_inv cp hx demo at log e" and "recoveries_kept e e'"
    and "\<And>key. \<not> contributes hx key x \<and> \<not> cancels_recovery hx key x"
  shows "recoveries_inv cp hx demo at (log @ [x]) e'"
  using assms by (auto simp: recoveries_inv_def recoveries_kept_def began_longer)

lemma sessions_inv_kept:
  assumes "sessions_inv cp hx seed demo at log e" and "sessions_kept e e'"
    and "\<And>key. rotation_ended_at e' key = rotation_ended_at e key" and "\<And>key. \<not> closes_rotation hx key x"
  shows "sessions_inv cp hx seed demo at (log @ [x]) e'"
  using assms unfolding sessions_inv_def sessions_kept_def
  by (fastforce intro: began_longer rotation_began_kept)

lemma label_of_recovery:
  "\<not> closes_rotation hx key (RecoveryCall wall now boot request, r)"
  "\<not> contributes hx key (RotationCall draws wall now boot rrequest, r)"
  "\<not> cancels_recovery hx key (RotationCall draws wall now boot rrequest, r)"
  "\<not> contributes hx key (c, Inl err)" "\<not> cancels_recovery hx key (c, Inl err)" "\<not> closes_rotation hx key (c, Inl err)"
  by (auto simp: closes_rotation_def contributes_def cancels_recovery_def)

lemma with_recovery_simps [simp]:
  "gre_recoveries (with_recovery key p e) = bt_insert key p (gre_recoveries e)"
  "gre_provision (with_recovery key p e) = gre_provision e" "gre_sessions (with_recovery key p e) = gre_sessions e"
  by (simp_all add: with_recovery_def)

lemma cancelled_entry_simps:
  "gre_sessions (cancelled_entry key digest e) = gre_sessions e"
  "tombstones (cancelled_entry key digest e) = tombstones e"
  "bt_get (recovery_tombstones (cancelled_entry key digest e)) k =
     (if k = key then Some digest else bt_get (recovery_tombstones e) k)"
  "bt_get (gre_recoveries (cancelled_entry key digest e)) k =
     (if k = key then map_option (\<lambda>p. p \<lparr> pn3_cancelled := True \<rparr>) (bt_get (gre_recoveries e) key)
      else bt_get (gre_recoveries e) k)"
  by (auto simp: cancelled_entry_def Let_def split: option.split)

lemma same_sessions: "gre_sessions e' = gre_sessions e \<Longrightarrow> sessions_kept e e'"
  using sess.K_self [of e] by (simp add: sessions_kept_def)

lemma kept_recoveries_self [simp]: "recoveries_kept e e"
  by (simp add: recoveries_kept_def)

lemma finish_tombstones:
  "s = epoch_store e \<or> store_exec hx (SFinish c i) (epoch_store e) = (Inr v, s) \<Longrightarrow>
   ges_recovery_cancellation_tombstones s = recovery_tombstones e \<and> ges_rotation_tombstones s = tombstones e"
  by (auto simp: finish_draining_request_def split: option.splits)

lemma recovery_keeps_inv:
  assumes h: "handle_guardian_recovery_v3 cp hx wall now boot demo request e = (r, e')"
    and R: "recoveries_inv cp hx demo at log e" and S: "sessions_inv cp hx seed demo at log e" and at: "at log = e"
    and x: "x = (RecoveryCall wall now boot request, map_sum id RecoveryReply r)"
  shows "recoveries_inv cp hx demo at (log @ [x]) e' \<and> sessions_inv cp hx seed demo at (log @ [x]) e'"
  using h
proof (cases rule: recovery_outcome)
  case same
  from same(2) have "\<not> contributes hx key x \<and> \<not> cancels_recovery hx key x" for key
    by (cases r) (auto simp: x contributes_def cancels_recovery_def)
  then show ?thesis
    unfolding same(1) by (intro conjI recoveries_inv_kept [OF R] sessions_inv_kept [OF S]) (simp_all add: x label_of_recovery sess.K_self)
next
  case (fresh certificate p)
  have no: "\<not> contributes hx key x \<and> \<not> cancels_recovery hx key x" for key
    using fresh by (auto simp: x contributes_def cancels_recovery_def)
  have began: "recovery_began cp hx demo at (recovery_key hx request) p (log @ [x])"
    using fresh at by (fastforce simp: recovery_began_def recovery_accepts_def x)
  have "recoveries_inv cp hx demo at (log @ [x]) e'"
    using R fresh(4-7) no began unfolding recoveries_inv_def fresh(8)
    by (auto simp: began_longer simp del: split_paired_All) fastforce+
  moreover have "sessions_inv cp hx seed demo at (log @ [x]) e'"
    by (rule sessions_inv_kept [OF S]) (simp_all add: fresh x label_of_recovery same_sessions)
  ultimately show ?thesis ..
next
  case (marked req certificate digest)
  have no: "\<not> contributes hx key x" "cancels_recovery hx key x \<Longrightarrow> key = recovery_key hx request" for key
    using marked by (auto simp: x contributes_def cancels_recovery_def)
  have "recoveries_inv cp hx demo at (log @ [x]) e'"
    using R marked(3) no unfolding recoveries_inv_def marked(2)
    by (auto simp: cancelled_entry_simps began_longer recovery_flags) fastforce+
  moreover have "sessions_inv cp hx seed demo at (log @ [x]) e'"
    by (rule sessions_inv_kept [OF S])
      (simp_all add: marked(2) x label_of_recovery same_sessions cancelled_entry_simps)
  ultimately show ?thesis ..
next
  case (released req certificate p c s)
  have no: "\<not> cancels_recovery hx key x" "contributes hx key x \<Longrightarrow> key = recovery_key hx request" for key
    using released by (auto simp: x contributes_def cancels_recovery_def)
  note stones = finish_tombstones [OF released(8)]
  have nt: "bt_get (recovery_tombstones e) (recovery_key hx request) = None"
    using R released(4,5) unfolding recoveries_inv_def by (cases "bt_get (recovery_tombstones e) (recovery_key hx request)") auto
  have "recoveries_inv cp hx demo at (log @ [x]) e'"
    using R released(4-6) no stones nt unfolding recoveries_inv_def released(7)
    by (auto simp: began_longer recovery_flags)
  moreover have "sessions_inv cp hx seed demo at (log @ [x]) e'"
    by (rule sessions_inv_kept [OF S])
      (simp_all add: released(7) stones x label_of_recovery same_sessions)
  ultimately show ?thesis ..
qed

lemma rotation_keeps_inv:
  assumes h: "handle_guardian_rotation_v3 cp fr gj hx draws seed wall now boot demo request e = (r, e')"
    and R: "recoveries_inv cp hx demo at log e" and S: "sessions_inv cp hx seed demo at log e" and at: "at log = e"
    and x: "x = (RotationCall draws wall now boot request, map_sum id RotationReply r)"
  shows "recoveries_inv cp hx demo at (log @ [x]) e' \<and> sessions_inv cp hx seed demo at (log @ [x]) e'"
  using h
proof (cases rule: rotation_outcome)
  case within
  then have "\<not> closes_rotation hx key x" for key
    by (cases r) (auto simp: x closes_rotation_def is_ok_def)
  then show ?thesis using within(1)
    by (intro conjI recoveries_inv_kept [OF R] sessions_inv_kept [OF S])
      (simp_all add: x label_of_recovery rotation_frame_def)
next
  case (fresh plan certificate s)
  have began: "rotation_began cp hx seed demo at (request_key hx request) s (log @ [x])"
    using fresh at by (fastforce simp: rotation_began_def x)
  have "recoveries_inv cp hx demo at (log @ [x]) e'"
    by (rule recoveries_inv_kept [OF R]) (simp_all add: fresh x label_of_recovery recoveries_kept_def)
  moreover have "sessions_inv cp hx seed demo at (log @ [x]) e'"
    using S fresh began by (auto simp: sessions_inv_def began_longer x closes_rotation_def)
  ultimately show ?thesis ..
next
  case ended
  have "recoveries_inv cp hx demo at (log @ [x]) e'" using ended(1)
    by (intro recoveries_inv_kept [OF R]) (simp_all add: x label_of_recovery closing_frame_def)
  moreover have "sessions_inv cp hx seed demo at (log @ [x]) e'"
    unfolding sessions_inv_def
  proof (intro conjI allI impI ballI)
    fix key s' assume s': "bt_get (gre_sessions e') key = Some s'"
    with ended(1) obtain s where s: "bt_get (gre_sessions e) key = Some s" "session_kept s s'"
      unfolding closing_frame_def sessions_kept_def by blast
    with S show "rotation_began cp hx seed demo at key s' (log @ [x])"
      unfolding sessions_inv_def by (blast intro: began_longer rotation_began_kept)
    from s' ended(1) have "key \<noteq> request_key hx request" by (auto simp: closing_frame_def)
    with s S ended(1) show "\<not> rotation_ended_at e' key" unfolding sessions_inv_def closing_frame_def by blast
  next
    fix y key assume y: "y \<in> set (log @ [x])" "closes_rotation hx key y"
    from y consider "y \<in> set log" | "y = x" by auto
    then show "rotation_ended_at e' key"
    proof cases
      case 1
      with y S ended(1) show ?thesis unfolding sessions_inv_def closing_frame_def by blast
    next
      case 2
      with y ended(1) show ?thesis unfolding closing_frame_def x closes_rotation_def by blast
    qed
  qed
  ultimately show ?thesis ..
qed

lemma guardian_inv_exec:
  assumes I: "guardian_inv cp fr gj hx seed demo provision log e"
    and x: "guardian_exec cp fr gj hx seed demo op e = (r, e')"
  shows "guardian_inv cp fr gj hx seed demo provision (log @ [(op, r)]) e'"
proof -
  let ?X = "guardian_exec cp fr gj hx seed demo" and ?e0 = "GuardianRotationEntryV3_new provision"
  let ?at = "state_after ?X ?e0"
  from I have run: "run_log ?X ?e0 (map fst log) = (log, e)" and R: "recoveries_inv cp hx demo ?at log e"
    and S: "sessions_inv cp hx seed demo ?at log e" by (simp_all add: guardian_inv_def Let_def)
  have at: "?at log = e" by (simp add: state_after_def run)
  have "run_log ?X ?e0 (map fst (log @ [(op, r)])) = (log @ [(op, r)], e')"
    by (simp add: run_log_append run x)
  moreover have "recoveries_inv cp hx demo ?at (log @ [(op, r)]) e' \<and> sessions_inv cp hx seed demo ?at (log @ [(op, r)]) e'"
  proof (cases op)
    case (RecoveryCall wall now boot request)
    with x obtain v where "handle_guardian_recovery_v3 cp hx wall now boot demo request e = (v, e')"
      "r = map_sum id RecoveryReply v" by (auto simp: prod.case_eq_if prod_eq_iff)
    with recovery_keeps_inv [OF this(1) R S at] RecoveryCall show ?thesis by simp
  next
    case (RotationCall draws wall now boot request)
    with x obtain v where "handle_guardian_rotation_v3 cp fr gj hx draws seed wall now boot demo request e = (v, e')"
      "r = map_sum id RotationReply v" by (auto simp: prod.case_eq_if prod_eq_iff)
    with rotation_keeps_inv [OF this(1) R S at] RotationCall show ?thesis by simp
  qed
  ultimately show ?thesis by (simp add: guardian_inv_def Let_def)
qed

lemma guardian_inv_new: "guardian_inv cp fr gj hx seed demo provision [] (GuardianRotationEntryV3_new provision)"
  by (simp add: guardian_inv_def recoveries_inv_def sessions_inv_def GuardianRotationEntryV3_new_def Let_def)

interpretation guardian: logged_machine "guardian_exec cp fr gj hx seed demo" "GuardianRotationEntryV3_new provision"
  "guardian_inv cp fr gj hx seed demo provision" for cp fr gj hx seed demo provision
  by unfold_locales (rule guardian_inv_new, rule guardian_inv_exec)

end
