(* ===== verification/GP_Guardian_Instances.thy ===== *)
theory GP_Guardian_Instances
  imports GP_Guardian_Safety
begin

text \<open>
  A concrete life of a guardian: it accepts a recovery and releases its material after the delay,
  accepts a rotation that replaces it, opens its old share for the repair, and observes the
  activation of the successor; in a second run the owner cancels the rotation first. The
  cryptography accepts everything and the digest is constant.
\<close>

definition fg_key :: "byte list" where "fg_key = replicate 1216 0"

lemma length_fg_key [simp]: "length fg_key = 1216" by (simp add: fg_key_def)

definition fg_prim :: primitives where "fg_prim = fx_const \<lparr> hkdf_expand := \<lambda>_ _. Some 0 \<rparr>"

definition fg_hx :: "Id32 \<Rightarrow> string" where "fg_hx i = [char_of (unat i)]"

lemma fg_sha [simp]: "sha256 fg_prim d = 11"
  by (simp add: sha256_def fg_prim_def fx_const_def)

lemma fg_accepts [simp]: "verify fg_prim k t s = Inr ()" "merkle_verify fg_prim r l i n prf = Inr ()"
  by (simp_all add: verify_def merkle_verify_def fg_prim_def fx_const_def fx_prim_def)

lemma fg_genesis: "fx_genesis fg_prim = (fx_body 1 1 0) \<lparr> cc3_capsule_hash := 11 \<rparr>"
  using fx_body_ok [of 1 1 0] by (auto simp: fx_genesis_def fx_hash_def)

lemma fg_member: "validate_signer_membership fg_prim 1 33 [] (fx_genesis fg_prim) = Inr ()"
  by (simp add: signer_membership_ok fg_genesis fx_body_def signer_leaf_def transcript_ok MAX_FIELD_LEN_def)

section \<open>Recovery\<close>

definition fg_request :: RecoveryRequestV3 where
  "fg_request = \<lparr> rq3_protocol_version = 3, rq3_config_ref = fx_ref 1 1, rq3_request_id = 3,
     rq3_recovery_recipient_key = fg_key, rq3_requested_at = 1, rq3_nonce = 5, rq3_expiry = 100 \<rparr>"

definition fg_begin_recovery :: BeginRecoveryCertificateV3 where
  "fg_begin_recovery = \<lparr> brc3_request = fg_request, brc3_request_digest = 11, brc3_signer_contributions =
     [\<lparr> sc3_request = fg_request, sc3_signer_id = 1, sc3_signer_public_key = 33, sc3_signer_membership_proof = [],
        sc3_encrypted_authorization_share = \<lparr> sm_kem_ciphertext = [],
          sm_payload = \<lparr> ac_nonce = 0, ac_ciphertext = [] \<rparr> \<rparr>, sc3_signer_signature = [] \<rparr>] \<rparr>"

definition fg_release_recovery :: RecoveryReleaseCertificateV3 where
  "fg_release_recovery = \<lparr> rc3_request = fg_request, rc3_request_digest = 11, rc3_votes =
     [\<lparr> rv3_request = fg_request, rv3_request_digest = 11, rv3_signer_id = 1, rv3_signer_public_key = 33,
        rv3_signer_membership_proof = [], rv3_signer_signature = [] \<rparr>] \<rparr>"

lemma fg_request_ok: "\<exists>t. recovery_request_v3 fg_request = Inr t \<and> length t \<le> 16777216"
  by (simp add: recovery_request_v3_def fg_request_def fx_ref_def fx_wire lp_def as_bytes_def word_le_nat_alt)

lemma fg_request_digest: "\<exists>t. recovery_request_digest_v3 fg_request = Inr t"
  using fg_request_ok by (auto simp: recovery_request_digest_v3_def fx_wire)

lemma fg_request_valid:
  assumes "1 \<le> now" "now < 100"
  shows "validate_recovery_request_for_ref_v3 fg_prim fg_request (fx_genesis fg_prim) (fx_ref 1 1) now = Inr 11"
  using assms fg_request_digest
  by (auto simp: validate_recovery_request_for_ref_v3_def request_digest_v3_def wire_def fg_genesis)
    (auto simp: fg_request_def fx_body_def PROTOCOL_VERSION_V3_def XWING_PUBLIC_KEY_LEN_def fx_ref_def saturating_add_def
      word_le_nat_alt word_less_nat_alt)

lemma fg_begin_recovery_valid:
  assumes "1 \<le> now" "now < 100"
  shows "validate_begin_recovery_certificate_v3 fg_prim fg_begin_recovery (fx_genesis fg_prim) now = Inr 11"
proof -
  have w: "\<exists>t. begin_recovery_certificate_v3 fg_begin_recovery = Inr t"
    using fg_request_ok by (auto simp: begin_recovery_certificate_v3_def fg_begin_recovery_def
      signer_recovery_contribution_into_def sealed_into_def fx_wire)
  have v: "\<exists>t. signer_recovery_contribution_v3 (hd (brc3_signer_contributions fg_begin_recovery)) = Inr t"
    using fg_request_ok by (auto simp: signer_recovery_contribution_v3_def fg_begin_recovery_def
      signer_recovery_contribution_into_def sealed_into_def fx_wire)
  have r: "validate_recovery_request_v3 fg_prim fg_request (fx_genesis fg_prim) now = Inr 11"
    using fg_request_valid [OF assms] by (simp add: validate_recovery_request_v3_def fg_genesis fx_body_def)
  show ?thesis using w v r fg_member
    by (auto simp: validate_begin_recovery_certificate_v3_def wire_def crypt_def fg_begin_recovery_def
      each_once_ok fg_genesis fx_body_def)
qed

lemma fg_release_recovery_valid:
  assumes "1 \<le> now" "now < 100"
  shows "validate_recovery_release_certificate_for_ref_v3 fg_prim fg_release_recovery (fx_genesis fg_prim) (fx_ref 1 1) now = Inr 11"
proof -
  have w: "\<exists>t. recovery_release_certificate_v3 fg_release_recovery = Inr t"
    using fg_request_ok by (auto simp: recovery_release_certificate_v3_def fg_release_recovery_def
      signer_recovery_release_vote_into_def fx_wire)
  have v: "\<exists>t. signer_recovery_release_vote_v3 (hd (rc3_votes fg_release_recovery)) = Inr t"
    using fg_request_ok by (auto simp: signer_recovery_release_vote_v3_def fg_release_recovery_def
      signer_recovery_release_vote_into_def fx_wire)
  show ?thesis using w v fg_request_valid [OF assms] fg_member
    by (auto simp: validate_recovery_release_certificate_for_ref_v3_def wire_def crypt_def fg_release_recovery_def
      each_once_ok fg_genesis fx_body_def)
qed

definition fg_record :: GuardianRecordV3 where
  "fg_record = (sample_record (fx_ref 1 1) 0) \<lparr> grec3_guardian_index := 2 \<rparr>"

definition fg_provision :: GuardianRotationProvisionV3 where
  "fg_provision = \<lparr> grp_mailbox = ''g'', grp_signing_seed = 2, grp_signing_public_key = 2,
     grp_recovery_card = fx_card [1, 2, 3, 4], grp_predecessor_capsule = fx_genesis fg_prim,
     grp_signer_public_keys = [], grp_epoch_store = GuardianEpochStore_new fg_record 11 \<rparr>"

definition fg_entry :: GuardianRotationEntryV3 where "fg_entry = GuardianRotationEntryV3_new fg_provision"

definition fg_pending :: "bool \<Rightarrow> PendingNetworkRecoveryV3" where
  "fg_pending b = \<lparr> pn3_request = fg_request, pn3_request_digest = 11, pn3_accepted_wall_time = 30,
     pn3_started_monotonic = 1000, pn3_not_before_monotonic = 1010, pn3_boot_id = ''b'', pn3_cancelled = False,
     pn3_released = b \<rparr>"

definition fg_contribution :: GuardianRecoveryContributionV3 where
  "fg_contribution = \<lparr> gc3_config_ref = fx_ref 1 1, gc3_request_id = 3, gc3_request_digest = 11,
     gc3_recovery_recipient_key = fg_key, gc3_nonce = 5, gc3_guardian_index = 2, gc3_fragment_index = 1,
     gc3_encrypted_ciphertext_fragment = \<lparr> ac_nonce = 0, ac_ciphertext = [1] \<rparr>,
     gc3_encrypted_dek_share = \<lparr> ac_nonce = 0, ac_ciphertext = [2] \<rparr>, gc3_merkle_path_proof = [],
     gc3_guardian_signature = [] \<rparr>"

lemma fg_active [simp]:
  "ges_active (GuardianEpochStore_new fg_record 11) = Some (with_epoch_state GuardianEpochState.Active fg_record)"
  "ges_draining (GuardianEpochStore_new fg_record 11) = []"
  "ges_recovery_cancellation_tombstones (GuardianEpochStore_new fg_record 11) = []"
  "ges_rotation_tombstones (GuardianEpochStore_new fg_record 11) = []"
  by (simp_all add: GuardianEpochStore_new_def Let_def)

lemma fg_entry_sel [simp]:
  "gre_provision fg_entry = fg_provision" "gre_recoveries fg_entry = []" "gre_sessions fg_entry = []"
  "grp_epoch_store fg_provision = GuardianEpochStore_new fg_record 11" "grp_predecessor_capsule fg_provision = fx_genesis fg_prim"
  "grp_recovery_card fg_provision = fx_card [1, 2, 3, 4]" "grp_signing_public_key fg_provision = 2"
  by (simp_all add: fg_entry_def GuardianRotationEntryV3_new_def fg_provision_def)

lemma fg_record_sel:
  "record_ref fg_record = fx_ref 1 1" "gp3_minimum_recovery_delay (grec3_policy fg_record) = 10"
  "grec3_guardian_index fg_record = 2" "grec3_fragment_index fg_record = 1"
  "grec3_encrypted_ciphertext_fragment fg_record = \<lparr> ac_nonce = 0, ac_ciphertext = [1] \<rparr>"
  "grec3_encrypted_dek_share fg_record = \<lparr> ac_nonce = 0, ac_ciphertext = [2] \<rparr>" "grec3_merkle_path_proof fg_record = []"
  by (simp_all add: fg_record_def sample_record_def sample_policy_def)

lemma fg_request_sel:
  "rq3_protocol_version fg_request = 3" "rq3_config_ref fg_request = fx_ref 1 1" "rq3_request_id fg_request = 3"
  "rq3_recovery_recipient_key fg_request = fg_key" "rq3_nonce fg_request = 5" "rq3_expiry fg_request = 100"
  "brc3_request fg_begin_recovery = fg_request"
  by (simp_all add: fg_request_def fg_begin_recovery_def)

lemma fg_hx_sel [simp]: "fg_hx 3 = [char_of (3::nat)]" "fg_hx 2 = [char_of (2::nat)]"
  by (simp_all add: fg_hx_def)

definition fg_begun :: GuardianRotationEntryV3 where
  "fg_begun = with_recovery (fg_hx 3) (fg_pending False) fg_entry"

definition fg_given :: GuardianRotationEntryV3 where
  "fg_given = with_recovery (fg_hx 3) (fg_pending True) fg_begun"

lemma fg_begins:
  "handle_guardian_recovery_v3 fg_prim fg_hx 30 1000 ''b'' False (BeginRecovery fg_begin_recovery) fg_entry =
     (Inr (RecoveryBeginAccepted 1010), fg_begun)"
  using fg_begin_recovery_valid [of 30]
  by (simp add: handle_guardian_recovery_v3_def recovery_begin_def Let_def attempt_def ok_or_def fg_record_sel fg_request_sel
      PROTOCOL_VERSION_V3_def XWING_PUBLIC_KEY_LEN_def bt_values_def saturating_add_def fg_begun_def fg_pending_def
      del: fg_hx_sel)

lemma fg_contribution_ok: "\<exists>t. guardian_recovery_contribution_v3 fg_contribution = Inr t"
  by (simp add: guardian_recovery_contribution_v3_def fg_contribution_def fx_ref_def fx_wire)

lemma fg_releases:
  "handle_guardian_recovery_v3 fg_prim fg_hx 40 1010 ''b'' False (ReleaseRecovery fg_request fg_release_recovery) fg_begun =
     (Inr (RecoveryContribution fg_contribution), fg_given)"
proof -
  obtain t where t: "guardian_recovery_contribution_v3 fg_contribution = Inr t" using fg_contribution_ok by blast
  have "sign fg_prim k t = []" for k by (simp add: sign_def fg_prim_def fx_const_def fx_prim_def)
  then show ?thesis
    using fg_release_recovery_valid [of 40] t
    by (simp add: handle_guardian_recovery_v3_def recovery_release_def Let_def attempt_def ok_or_def fg_record_sel fg_request_sel
        PROTOCOL_VERSION_V3_def XWING_PUBLIC_KEY_LEN_def record_for_request_def fg_begun_def fg_given_def fg_pending_def
        fg_contribution_def wire_def)
qed

section \<open>Rotation\<close>

definition fg_ctx :: RotationContext where "fg_ctx = (fx_ctx fg_prim 2) \<lparr> rx_recipient_key := fg_key \<rparr>"

definition fg_plan :: RotationPlan where "fg_plan = fx_plan \<lparr> rp_context := fg_ctx \<rparr>"

definition fg_begin :: BeginRotationCertificate where
  "fg_begin = fx_begin \<lparr> brot_context := fg_ctx,
     brot_votes := map (\<lambda>v. v \<lparr> srbv_context := fg_ctx \<rparr>) (brot_votes fx_begin) \<rparr>"

definition fg_release :: RotationReleaseCertificate where
  "fg_release = fx_release \<lparr> rrc_context := fg_ctx,
     rrc_votes := map (\<lambda>v. v \<lparr> srrv_context := fg_ctx \<rparr>) (rrc_votes fx_release) \<rparr>"

definition fg_cancel :: OwnerRotationCancelCertificate where
  "fg_cancel = \<lparr> orcc_context = fg_ctx, orcc_plan_hash = 11, orcc_reason_code = 1,
     orcc_cancel_response_recipient_key = fg_key, orcc_owner_cancel_public_key = 21, orcc_owner_signature = [] \<rparr>"

lemma fg_ctx_sel [simp]:
  "rx_protocol_version fg_ctx = 3" "rx_config_ref fg_ctx = fx_ref 1 1" "rx_rotation_id fg_ctx = 2"
  "rx_predecessor_capsule_hash fg_ctx = 11" "rx_recipient_key fg_ctx = fg_key" "rx_issued_at fg_ctx = 1" "rx_expiry fg_ctx = 1000"
  by (simp_all add: fg_ctx_def fx_ctx_def fg_genesis)

lemma fg_plan_ok: "\<exists>t. rotation_plan fg_plan = Inr t"
  by (simp add: rotation_plan_def fg_plan_def fx_plan_def fg_ctx_def fx_ctx_def fx_ref_def fx_route_def fx_wire
      route_into_def is_direct_successor_of_def lp_def as_bytes_def)

lemma fg_plan_digest: "plan_digest fg_prim fg_plan = Inr 11"
  using fg_plan_ok by (auto simp: GP_Guardian_Runtime.plan_digest_def wire_def)

lemma fg_roster_ok: "\<exists>t. guardian_roster_v3 (rp_old_roster fg_plan) = Inr t" "\<exists>t. guardian_roster_v3 (rp_new_roster fg_plan) = Inr t"
  using fx_roster_ok by (simp_all add: fg_plan_def)

lemma fg_plan_valid:
  assumes "1 \<le> now" "now < 1000"
  shows "validate_rotation_plan_v3 fg_prim fg_plan (fx_genesis fg_prim) now = Inr 11"
  using fg_plan_ok fg_roster_ok assms
  by (auto simp: validate_rotation_plan_v3_def wire_def fg_genesis u16_try_from_def)
    (auto simp: fg_plan_def fx_plan_def fx_body_def fx_ref_def is_direct_successor_of_def saturating_add_def
      PROTOCOL_VERSION_V3_def word_le_nat_alt word_less_nat_alt)

lemma fg_begin_ok: "\<exists>t. begin_rotation_certificate fg_begin = Inr t"
  by (simp add: begin_rotation_certificate_def fg_begin_def fx_begin_def begin_vote_into_def fg_ctx_def fx_ctx_def
      fx_ref_def fx_wire lp_def as_bytes_def)

lemma fg_begin_valid: "validate_begin_rotation_certificate_v3 fg_prim fg_begin fg_plan (fx_genesis fg_prim) 30 = Inr 11"
proof -
  have v: "\<exists>t. signer_rotation_begin_vote (hd (brot_votes fg_begin)) = Inr t"
    by (simp add: signer_rotation_begin_vote_def fg_begin_def fx_begin_def begin_vote_into_def fg_ctx_def fx_ctx_def
        fx_ref_def fx_wire lp_def as_bytes_def)
  show ?thesis
    using fg_begin_ok v fg_member fg_plan_valid [of 30]
    by (auto simp: validate_begin_rotation_certificate_v3_def wire_def crypt_def)
      (simp_all add: fg_begin_def fx_begin_def fg_plan_def fx_plan_def fg_genesis fx_body_def saturating_add_def
        word_le_nat_alt word_less_nat_alt)
qed

lemma fg_release_valid:
  "validate_rotation_release_certificate_v3 fg_prim fg_release fg_begin fg_plan (fx_genesis fg_prim) 30 = Inr 11"
proof -
  have w: "\<exists>t. rotation_release_certificate fg_release = Inr t"
    by (simp add: rotation_release_certificate_def fg_release_def fx_release_def release_vote_into_def fg_ctx_def fx_ctx_def
        fx_ref_def fx_wire lp_def as_bytes_def)
  have v: "\<exists>t. signer_rotation_release_vote (hd (rrc_votes fg_release)) = Inr t"
    by (simp add: signer_rotation_release_vote_def fg_release_def fx_release_def release_vote_into_def fg_ctx_def fx_ctx_def
        fx_ref_def fx_wire lp_def as_bytes_def)
  show ?thesis
    using w v fg_member fg_plan_ok
    by (auto simp: validate_rotation_release_certificate_v3_def fg_begin_valid wire_def crypt_def)
      (simp_all add: fg_release_def fx_release_def fg_begin_def fx_begin_def fg_plan_def fx_plan_def fg_genesis fx_body_def
        word_le_nat_alt word_less_nat_alt)
qed

definition fg_session :: "RotationState \<Rightarrow> AeadCiphertext option \<Rightarrow> GuardianRotationSessionV3" where
  "fg_session st local = \<lparr> gse_rotation_machine = \<lparr> rot_rotation_id = 2, rot_plan_hash = 11, rot_predecessor = fx_ref 1 1,
       rot_successor = fx_ref 2 2, rot_state = st, rot_not_before = Some 1010, rot_drain_deadline = None,
       rot_tombstoned = False, rot_ambiguous = False \<rparr>,
     gse_plan_hash = 11, gse_begin_certificate_hash = 11, gse_accepted_wall_time = 30, gse_started_monotonic = 1000,
     gse_not_before_monotonic = 1010, gse_boot_id = ''b'', gse_cancelled = False, gse_next_outgoing_sequences = [],
     gse_next_incoming_sequences = [], gse_encrypted_local_state = local, gse_staged_material = None \<rparr>"

definition fg_locked :: "RotationState \<Rightarrow> AeadCiphertext option \<Rightarrow> GuardianRotationEntryV3" where
  "fg_locked st local = fg_entry \<lparr> gre_sessions := [(fg_hx 2, fg_session st local)] \<rparr>"

lemma fg_routes:
  "gre_provision e = fg_provision \<Longrightarrow> guardian_route e fg_plan False = Inr (fx_route 2 52)"
  "gre_provision e = fg_provision \<Longrightarrow> \<not> is_ok (guardian_route e fg_plan True)"
  by (simp_all add: guardian_route_def fg_plan_def fx_plan_def fx_route_def is_ok_def)

lemma fg_plan_sel:
  "rp_context fg_plan = fg_ctx" "rp_predecessor fg_plan = fx_ref 1 1" "rp_successor fg_plan = fx_ref 2 2"
  "rp_minimum_delay_secs fg_plan = 10" "length (rp_new_roster fg_plan) = 2" "rp_new_guardian_threshold fg_plan = 2"
  "rp_dpss_suite fg_plan = ZfFrostRistretto255RtsRefreshV1"
  by (simp_all add: fg_plan_def fx_plan_def)

lemma fg_window:
  "wall = 30 \<Longrightarrow> rotation_context request = fg_ctx \<Longrightarrow> gre_provision e = fg_provision \<Longrightarrow>
   rx_protocol_version (rotation_context request) = PROTOCOL_VERSION_V3 \<and>
   cr_config_id (rx_config_ref (rotation_context request)) = cr_config_id (cc3_config_ref (predecessor_capsule e)) \<and>
   \<not> wall < rx_issued_at (rotation_context request) \<and> \<not> rx_expiry (rotation_context request) \<le> wall \<and>
   length (rx_recipient_key (rotation_context request)) = XWING_PUBLIC_KEY_LEN"
  by (simp add: PROTOCOL_VERSION_V3_def XWING_PUBLIC_KEY_LEN_def fg_genesis fx_body_def)

lemma fg_begins_rotation:
  "handle_guardian_rotation_v3 fg_prim fr gj fg_hx draws seed 30 1000 ''b'' False (RotationBegin fg_plan fg_begin) fg_entry =
     (Inr (RotationBeginAccepted 1010), fg_locked RotationState.DelayPending None)"
proof -
  have "is_direct_successor_of (fx_ref 2 2) (fx_ref 1 1)" by (simp add: is_direct_successor_of_def fx_ref_def saturating_add_def)
  moreover have "\<not> session_key_substituted fg_prim seed fg_entry fg_plan"
    by (simp add: session_key_substituted_def fg_plan_def fx_plan_def fx_route_def fg_prim_def fx_const_def fx_prim_def)
  moreover have "is_participant fg_entry fg_plan" by (simp add: is_participant_def fg_routes is_ok_def)
  ultimately show ?thesis
    using fg_window [of 30 "RotationBegin fg_plan fg_begin" fg_entry] fg_begin_valid
    by (simp add: handle_guardian_rotation_v3_def rotation_begin_def Let_def attempt_def fg_plan_digest fg_plan_sel
        machine_result_def RotationMachine_new_def RotationMachine_apply_def saturating_add_def ok_or_def fg_locked_def
        fg_session_def del: fg_hx_sel)
qed

lemma fg_cancels_rotation:
  "\<exists>ack e'. handle_guardian_rotation_v3 fg_prim fr gj fg_hx draws seed 30 1000 ''b'' False (RotationCancel fg_plan fg_cancel)
     (fg_locked RotationState.DelayPending None) = (Inr (RotationCancelled ack), e')"
proof -
  let ?e = "fg_locked RotationState.DelayPending None"
  obtain c where c: "owner_rotation_cancel_certificate fg_cancel = Inr c"
    by (simp add: owner_rotation_cancel_certificate_def fg_cancel_def fg_ctx_def fx_ctx_def fx_ref_def fx_wire lp_def as_bytes_def)
  have ack: "\<exists>t. owner_rotation_cancel_ack \<lparr> orca_context = fg_ctx, orca_plan_hash = 11, orca_cancel_certificate_hash = 11,
      orca_guardian_index = 2, orca_guardian_signature = [] \<rparr> = Inr t"
    by (simp add: owner_rotation_cancel_ack_def fg_ctx_def fx_ctx_def fx_ref_def fx_wire lp_def as_bytes_def)
  have e: "gre_provision ?e = fg_provision" by (simp add: fg_locked_def)
  moreover have "is_participant ?e fg_plan" by (simp add: is_participant_def fg_routes e is_ok_def)
  moreover have "cc3_owner_cancel_public_key (fx_genesis fg_prim) = 21" by (simp add: fg_genesis fx_body_def)
  ultimately show ?thesis
    using fg_window [of 30 "RotationCancel fg_plan fg_cancel" ?e] fg_plan_valid [of 30] c ack
    by (auto simp: handle_guardian_rotation_v3_def rotation_cancel_def Let_def attempt_def fg_plan_digest fg_plan_sel
        cancel_session_def fg_locked_def fg_session_def apply_event_def RotationMachine_apply_def and_then_def on_store_def
        abort_prepared_def machine_result_def storage_result_def cancel_acknowledgement_def fg_record_sel remove_session_def
        fg_cancel_def with_store_def GuardianEpochStore_new_def wire_def crypt_def is_abort_def)
qed

text \<open>A share of guardian 2, threshold one, and a library that hands its own delta back.\<close>

definition fg_package :: KeyPackage where
  "fg_package = \<lparr> kp_identifier = 2, kp_signing_share = [], kp_verifying_share = [], kp_verifying_key = [], kp_min_signers = 1 \<rparr>"

definition fg_frost :: frost where
  "fg_frost = \<lparr> identifier_try_from = \<lambda>i. Some (unat i), key_package_deserialize = \<lambda>_. Some fg_package,
     key_package_serialize = \<lambda>_. Some [2], verifying_share_from = \<lambda>_. [], public_deserialize = \<lambda>_. None,
     public_serialize = \<lambda>_. None, generate_with_dealer = \<lambda>_ _ _. None, reconstruct_key = \<lambda>_. None,
     repair_share_part1 = \<lambda>ids _ _ _. Some (map (\<lambda>i. (i, [7])) ids), delta_deserialize = Some, repair_share_part2 = concat,
     sigma_deserialize = Some, repair_share_part3 = \<lambda>_ _ _. None, refresh_dkg_part1 = \<lambda>_ _ _ _. None,
     round1_secret_serialize = \<lambda>_. None, round1_secret_deserialize = \<lambda>_. None, round1_package_serialize = Some,
     round1_package_deserialize = Some, refresh_dkg_part2 = \<lambda>_ _. None, round2_secret_serialize = \<lambda>_. None,
     round2_secret_deserialize = \<lambda>_. None, round2_package_serialize = Some, round2_package_deserialize = Some,
     refresh_dkg_shares = \<lambda>_ _ _ _ _. None \<rparr>"

definition fg_json :: guardian_json where
  "fg_json = \<lparr> message_to_vec = \<lambda>_. Some [], message_from_slice = \<lambda>_. None, local_state_to_vec = \<lambda>_. Some [],
     local_state_from_slice = \<lambda>_. None \<rparr>"

definition fg_grant :: OldShareUnlockGrant where
  "fg_grant = (let sealed = \<lparr> sm_kem_ciphertext = [], sm_payload = \<lparr> ac_nonce = 0, ac_ciphertext = replicate 32 0 \<rparr> \<rparr> in
     \<lparr> osug_context = fg_ctx, osug_plan_hash = 11, osug_release_certificate_hash = 11, osug_old_guardian_index = 2,
       osug_encrypted_unwrap_key = sealed, osug_encrypted_fragment_key = sealed \<rparr>)"

lemma fg_part1: "frost_repair_part1 fg_frost share [2] 3 x = Inr [(2, [7])]" if "share \<noteq> []" "length share \<le> 512"
  using that by (simp add: frost_repair_part1_def decode_share_def bounded_def fg_frost_def fg_package_def share_identifier_def
      frost_identifier_def ok_or_def FROST_SHARE_MAX_LEN_def FROST_ROUND_PACKAGE_MAX_LEN_def FROST_MAX_PARTICIPANTS_def)

lemma fg_opens:
  assumes "gre_provision e = fg_provision"
  shows "open_old_material fg_prim e seed fg_plan fg_grant 11 = Inr ([2], [1])"
proof -
  have t: "\<exists>t. old_share_unlock_grant fg_grant = Inr t" "\<exists>t. old_share_unlock_grant_payload_context fg_grant b = Inr t" for b
    by (simp_all add: old_share_unlock_grant_def old_share_unlock_grant_payload_context_def fg_grant_def Let_def fg_ctx_def
        fx_ctx_def fx_ref_def fx_wire sealed_into_def lp_def as_bytes_def)
  obtain t1 t2 t3 where ts: "old_share_unlock_grant fg_grant = Inr t1"
    "old_share_unlock_grant_payload_context fg_grant False = Inr t2"
    "old_share_unlock_grant_payload_context fg_grant True = Inr t3" using t by blast
  have c: "\<exists>t. guardian_share_context_v3 (fx_ref 1 1) 2 = Inr t" "\<exists>t. guardian_fragment_context_v3 (fx_ref 1 1) 2 1 = Inr t"
    by (simp_all add: guardian_share_context_v3_def guardian_fragment_context_v3_def fx_ref_def fx_wire)
  have g: "osug_context fg_grant = fg_ctx" "osug_plan_hash fg_grant = 11" "osug_release_certificate_hash fg_grant = 11"
    "osug_old_guardian_index fg_grant = 2" "gr3_guardian_index (fx_route 2 52) = 2"
    by (simp_all add: fg_grant_def Let_def fx_route_def)
  have o: "open_sealed fg_prim k (osug_encrypted_unwrap_key fg_grant) a = Inr (replicate 32 0)"
    "open_sealed fg_prim k (osug_encrypted_fragment_key fg_grant) a = Inr (replicate 32 0)"
    "aead_decrypt fg_prim i v a = Inr (ac_ciphertext v)" for k a i v
    by (simp_all add: open_sealed_def aead_decrypt_def fg_prim_def fx_const_def fx_prim_def ok_or_def fg_grant_def Let_def)
  show ?thesis using ts c
    by (auto simp: open_old_material_def fg_routes [OF assms] fg_plan_digest fg_plan_sel wire_def crypt_def ok_or_def assms
        fg_record_sel g o)
qed

lemma fg_repairs:
  "\<exists>v e'. handle_guardian_rotation_v3 fg_prim fg_frost fg_json fg_hx draws seed 30 1010 ''b'' False
     (DoRepairRound1 fg_plan fg_begin fg_release fg_grant [2] 3) (fg_locked RotationState.DelayPending None) = (Inr v, e')"
proof -
  let ?e = "fg_locked RotationState.DelayPending None" and ?r = "DoRepairRound1 fg_plan fg_begin fg_release fg_grant [2] 3"
  have e: "gre_provision ?e = fg_provision" by (simp add: fg_locked_def)
  have s: "session_mut fg_prim fg_hx ?e fg_plan = Inr (fg_session RotationState.DelayPending None)"
    by (simp add: session_mut_def fg_plan_digest fg_plan_sel fg_locked_def fg_session_def ok_or_def del: fg_hx_sel)
  have "\<exists>policy. guardian_policy_body_v3 (grec3_policy (with_epoch_state GuardianEpochState.Active fg_record)) = Inr policy"
    by (simp add: guardian_policy_body_v3_def fg_record_def sample_record_def sample_policy_def fx_ref_def fx_wire)
  then obtain policy where
    p: "guardian_policy_body_v3 (grec3_policy (with_epoch_state GuardianEpochState.Active fg_record)) = Inr policy" by blast
  define leaf where "leaf = \<lparr> prl_guardian_index = 2, prl_fragment_index = 1, prl_opaque_slot_id = 1,
      prl_encrypted_share_hash = 11, prl_fragment_hash = 11, prl_policy_hash = (11 :: Id32) \<rparr>"
  have l: "record_leaf fg_prim (with_epoch_state GuardianEpochState.Active fg_record) = Inr leaf"
    using p by (simp add: record_leaf_def leaf_def wire_def hash_aead_def fg_record_def sample_record_def)
  obtain t where t: "begin_rotation_certificate fg_begin = Inr t" using fg_begin_ok by blast
  obtain q where q: "rotation_plan fg_plan = Inr q" using fg_plan_ok by blast
  have c: "\<exists>t. ciphertext_fragment_contribution \<lparr> cfc_context = fg_ctx, cfc_plan_hash = 11, cfc_release_certificate_hash = 11,
      cfc_old_guardian_index = 2, cfc_fragment_index = 1, cfc_ciphertext_fragment = [1], cfc_fragment_commitment = 11,
      cfc_prepared_record_leaf = leaf, cfc_merkle_path_proof = [], cfc_guardian_signature = [] \<rparr> = Inr t"
    by (simp add: ciphertext_fragment_contribution_def leaf_def prepared_leaf_into_def fg_ctx_def fx_ctx_def fx_ref_def fx_wire
        lp_def as_bytes_def)
  have own: "gr3_guardian_index (fx_route 2 52) = 2" by (simp add: fx_route_def)
  have local: "seal_local_rotation_journal fg_prim k nonce [] cx = Inr \<lparr> ac_nonce = nonce, ac_ciphertext = [] \<rparr>" for k nonce cx
    by (simp add: seal_local_rotation_journal_def hkdf_sha256_def aead_encrypt_def fg_prim_def fx_const_def fx_prim_def ok_or_def)
  have "handle_guardian_rotation_v3 fg_prim fg_frost fg_json fg_hx draws seed 30 1010 ''b'' False ?r ?e =
      repair_round1 fg_prim fg_frost fg_json fg_hx draws seed 30 1010 ''b'' fg_plan fg_begin fg_release fg_grant [2] 3 ?e"
    using fg_window [of 30 ?r ?e] e by (simp add: handle_guardian_rotation_v3_def Let_def fg_plan_sel)
  also have "\<exists>v e'. \<dots> = (Inr v, e')"
    using c by (auto simp: repair_round1_def Let_def attempt_def fg_release_valid e fg_routes fg_opens l s t in_session_def
        wire_def crypt_def fg_session_def advance_to_preparing_def apply_event_def RotationMachine_apply_def and_then_def
        unwrap_or_def machine_result_def begin_old_share_def fg_part1 own ok_or_def save_local_state_def json_result_def
        fg_json_def local_journal_context_def q local fg_record_sel fg_plan_sel)
  finally show ?thesis .
qed

definition fg_capsule :: ConfigCapsuleV3 where "fg_capsule = fx_active fg_prim 2 [1, 2, 3]"

lemma fg_capsule_valid: "validate_activated_capsule_v3 fg_prim (fx_card [1, 2, 3, 4]) fg_capsule = Inr ()"
  unfolding fg_capsule_def by (intro fx_active_ok fx_card_ok fg_accepts) simp_all

lemma fg_succ_hash: "fx_succ_hash fg_prim 2 = 11"
  using fx_body_ok [of 2 2 "cc3_capsule_hash (fx_genesis fg_prim)"] by (auto simp: fx_succ_hash_def fx_hash_def fx_succ_def)

lemma fg_capsule_sel:
  "cc3_config_ref fg_capsule = fx_ref 2 2" "cc3_predecessor_capsule_hash fg_capsule = 11"
  "cc3_ciphertext_fragment_root fg_capsule = 23" "cc3_guardian_count fg_capsule = 2" "cc3_guardian_threshold fg_capsule = 2"
  "cc3_dpss_suite fg_capsule = ZfFrostRistretto255RtsRefreshV1" "cc3_activation_qc fg_capsule = Some (fx_qc fg_prim 2 [1, 2, 3])"
  by (simp_all add: fg_capsule_def fx_active_def fx_succ_def fx_body_def fg_genesis)

lemma fg_qc_sel:
  "qc_rotation_id (fx_qc fg_prim 2 ids) = 2" "qc_predecessor_epoch (fx_qc fg_prim 2 ids) = 1"
  "qc_predecessor_capsule_hash (fx_qc fg_prim 2 ids) = 11" "qc_successor_epoch (fx_qc fg_prim 2 ids) = 2"
  by (simp_all add: fx_qc_def fg_genesis)

lemma fg_activates:
  "\<exists>e'. handle_guardian_rotation_v3 fg_prim fr gj fg_hx draws seed 30 now ''b'' False
     (RotationActivate fg_plan fg_capsule 2000) (fg_locked RotationState.DelayPending None) = (Inr (Activated 2), e')"
proof -
  let ?e = "fg_locked RotationState.DelayPending None" and ?r = "RotationActivate fg_plan fg_capsule 2000"
  have e: "gre_provision ?e = fg_provision" by (simp add: fg_locked_def)
  have s: "session_mut fg_prim fg_hx ?e fg_plan = Inr (fg_session RotationState.DelayPending None)"
    by (simp add: session_mut_def fg_plan_digest fg_plan_sel fg_locked_def fg_session_def ok_or_def del: fg_hx_sel)
  obtain q where q: "epoch_activation_qc (fx_qc fg_prim 2 [1, 2, 3]) = Inr q" using fx_qc_ok by blast
  have no: "\<not> is_ok (guardian_route x fg_plan True)" if "gre_provision x = fg_provision" for x
    by (rule fg_routes(2) [OF that])
  have bad: "activation_mismatch fg_plan fg_capsule (fx_qc fg_prim 2 [1, 2, 3]) ?e = Inr False"
    by (simp add: activation_mismatch_def fg_capsule_sel fg_plan_sel fg_qc_sel e u16_try_from_def)
      (simp add: fg_genesis fx_body_def)
  have drive: "drive_to_active fg_plan 2000 (fg_session RotationState.DelayPending None) =
      (Inr (), (fg_session RotationState.Active None) \<lparr> gse_rotation_machine :=
         (gse_rotation_machine (fg_session RotationState.Active None)) \<lparr> rot_drain_deadline := Some 2000 \<rparr> \<rparr>)"
    by (simp add: drive_to_active_def advance_to_preparing_def fg_session_def apply_event_def RotationMachine_apply_def
        unwrap_or_def machine_result_def and_then_def attempt_def u16_try_from_def fg_plan_sel)
  have "handle_guardian_rotation_v3 fg_prim fr gj fg_hx draws seed 30 now ''b'' False ?r ?e =
      rotation_activate fg_prim fg_hx fg_plan fg_capsule 2000 ?e"
    using fg_window [of 30 ?r ?e] e by (simp add: handle_guardian_rotation_v3_def Let_def fg_plan_sel)
  also have "\<exists>e'. \<dots> = (Inr (Activated 2), e')"
    using q by (simp add: rotation_activate_def Let_def attempt_def e fg_capsule_valid fg_capsule_sel ok_or_def wire_def
        fg_plan_digest bad no in_session_def s drive fg_plan_sel and_then_def on_store_def observe_replacement_activation_def
        fg_qc_sel storage_result_def)
      (simp add: GuardianEpochStore_new_def fx_ref_def fg_record_sel saturating_add_def)
  finally show ?thesis .
qed

section \<open>Runs\<close>

abbreviation fg_exec :: "guardian_call \<Rightarrow> GuardianRotationEntryV3 \<Rightarrow> guardian_answer \<times> GuardianRotationEntryV3" where
  "fg_exec \<equiv> guardian_exec fg_prim fg_frost fg_json fg_hx 0 False"

definition fg_draws :: guardian_draws where
  "fg_draws = \<lparr> gd_provider_seed = 0, gd_local_nonce = 0, gd_delivery = \<lambda>_. (0, 0), gd_share_nonce = 0, gd_fragment_nonce = 0 \<rparr>"

abbreviation fg_begin_call :: guardian_call where
  "fg_begin_call \<equiv> RotationCall fg_draws 30 1000 ''b'' (RotationBegin fg_plan fg_begin)"

lemma fg_recovery_run:
  "run_log fg_exec (GuardianRotationEntryV3_new fg_provision)
     [RecoveryCall 30 1000 ''b'' (BeginRecovery fg_begin_recovery), RecoveryCall 40 1010 ''b'' (ReleaseRecovery fg_request fg_release_recovery)] =
   ([(RecoveryCall 30 1000 ''b'' (BeginRecovery fg_begin_recovery), Inr (RecoveryReply (RecoveryBeginAccepted 1010)))] @
      (RecoveryCall 40 1010 ''b'' (ReleaseRecovery fg_request fg_release_recovery),
       Inr (RecoveryReply (RecoveryContribution fg_contribution))) # [], fg_given)"
  by (simp add: fg_entry_def [symmetric] fg_begins fg_releases Let_def)

lemma fg_rotation_begun:
  "fg_exec fg_begin_call fg_entry =
     (Inr (RotationReply (RotationBeginAccepted 1010)), fg_locked RotationState.DelayPending None)"
  by (simp add: fg_begins_rotation)

lemma fg_run_then:
  assumes "fg_exec op (fg_locked RotationState.DelayPending None) = (r, e)"
  shows "run_log fg_exec (GuardianRotationEntryV3_new fg_provision) (fg_begin_call # op # ops) =
     ((fg_begin_call, Inr (RotationReply (RotationBeginAccepted 1010))) # (op, r) # fst (run_log fg_exec e ops),
      snd (run_log fg_exec e ops))"
  using assms by (simp add: fg_entry_def [symmetric] fg_begins_rotation Let_def prod.case_eq_if del: guardian_exec.simps(1))

end
