(* ===== verification/GP_Guardian_Properties.thy ===== *)
theory GP_Guardian_Properties
  imports GP_Guardian_Instances
begin

text \<open>
  The properties of the protocol-3 guardian over any run of calls to one entry, and concrete runs
  that meet their hypotheses.
\<close>

section \<open>Steps read off the invariant\<close>

lemma exec_recovery:
  "guardian_exec cp fr gj hx seed demo (RecoveryCall wall now boot request) e = (Inr (RecoveryReply v), e') \<Longrightarrow>
   handle_guardian_recovery_v3 cp hx wall now boot demo request e = (Inr v, e')"
  by (cases "handle_guardian_recovery_v3 cp hx wall now boot demo request e"; cases "fst (handle_guardian_recovery_v3 cp hx wall now boot demo request e)") auto

lemma exec_rotation:
  "guardian_exec cp fr gj hx seed demo (RotationCall draws wall now boot request) e = (Inr v, e') \<Longrightarrow>
   \<exists>u. handle_guardian_rotation_v3 cp fr gj hx draws seed wall now boot demo request e = (Inr u, e') \<and> v = RotationReply u"
  by (cases "handle_guardian_rotation_v3 cp fr gj hx draws seed wall now boot demo request e";
      cases "fst (handle_guardian_rotation_v3 cp fr gj hx draws seed wall now boot demo request e)") auto

lemma contribution_outcome:
  assumes "handle_guardian_recovery_v3 cp hx wall now boot demo (ReleaseRecovery request certificate) e =
    (Inr (RecoveryContribution c), e')"
  obtains p where "recovery_release cp hx wall now boot request certificate e = (Inr (RecoveryContribution c), e')"
    "bt_get (gre_recoveries e) (hx (rq3_request_id request)) = Some p" "\<not> pn3_cancelled p" "\<not> pn3_released p"
  using assms by (cases rule: recovery_outcome) auto

lemma contribute_step:
  assumes "contributes hx key (op, r)" "guardian_exec cp fr gj hx seed demo op e = (r, e')"
  obtains p where "bt_get (gre_recoveries e) key = Some p" "\<not> pn3_cancelled p" "\<not> pn3_released p"
proof -
  from assms(1) obtain wall now boot request certificate c where
    x: "op = RecoveryCall wall now boot (ReleaseRecovery request certificate)" "key = hx (rq3_request_id request)"
      "r = Inr (RecoveryReply (RecoveryContribution c))"
    unfolding contributes_def by blast
  from exec_recovery [OF assms(2) [unfolded x]] x(2) that show thesis by (blast elim: contribution_outcome)
qed

lemma cancel_step:
  assumes "cancels_recovery hx key (op, r)" "guardian_exec cp fr gj hx seed demo op e = (r, e')"
    and "bt_get (gre_recoveries e) key = Some p"
  shows "\<not> pn3_released p"
proof -
  from assms(1) obtain wall now boot request certificate ack where
    x: "op = RecoveryCall wall now boot (CancelRecovery request certificate)" "key = hx (rq3_request_id request)"
      "r = Inr (RecoveryReply (RecoveryCancelled ack))"
    unfolding cancels_recovery_def by blast
  from exec_recovery [OF assms(2) [unfolded x]] show ?thesis
    by (cases rule: recovery_outcome) (use assms(3) x(2) in auto)
qed

section \<open>Properties of recovery\<close>

lemma begin_certificate_request:
  "validate_begin_recovery_certificate_v3 cp certificate capsule now = Inr d \<Longrightarrow>
   request_digest_v3 cp (brc3_request certificate) = Inr d \<and> rq3_protocol_version (brc3_request certificate) = 3 \<and>
   rq3_config_ref (brc3_request certificate) = cc3_config_ref capsule \<and>
   length (rq3_recovery_recipient_key (brc3_request certificate)) = 1216"
  by (auto simp: validate_begin_recovery_certificate_v3_def validate_recovery_request_v3_def
      validate_recovery_request_for_ref_v3_def PROTOCOL_VERSION_V3_def XWING_PUBLIC_KEY_LEN_def split: if_splits)

lemma begin_certificate_plan:
  "validate_begin_rotation_certificate_v3 cp certificate plan capsule now = Inr d \<Longrightarrow>
   rx_config_ref (rp_context plan) = cc3_config_ref capsule \<and> is_direct_successor_of (rp_successor plan) (rp_predecessor plan)"
  by (auto simp: validate_begin_rotation_certificate_v3_def validate_rotation_plan_v3_def split: if_splits)

text \<open>C31: the maps of a protocol-3 guardian hold only well-formed records: after any run every filed
  recovery sits under its own request identifier, is a version-3 request of the right key length with its
  own digest, and is not both cancelled and released; every session sits under the rotation identifier of a
  plan of its own digest whose successor directly follows its predecessor, has its delay
  counted from its start, and its identifier is not tombstoned.\<close>

theorem guardian_entry_typed:
  assumes "run_log (guardian_exec cp fr gj hx seed demo) (GuardianRotationEntryV3_new provision) ops = (l, e)"
  shows "(\<forall>key p. bt_get (gre_recoveries e) key = Some p \<longrightarrow> key = hx (rq3_request_id (pn3_request p)) \<and>
      request_digest_v3 cp (pn3_request p) = Inr (pn3_request_digest p) \<and> rq3_protocol_version (pn3_request p) = 3 \<and>
      length (rq3_recovery_recipient_key (pn3_request p)) = 1216 \<and> \<not> (pn3_cancelled p \<and> pn3_released p)) \<and>
    (\<forall>key s. bt_get (gre_sessions e) key = Some s \<longrightarrow> \<not> bt_contains_key (tombstones e) key \<and>
      (\<exists>plan. key = hx (rx_rotation_id (rp_context plan)) \<and> plan_digest cp plan = Inr (gse_plan_hash s) \<and>
         is_direct_successor_of (rp_successor plan) (rp_predecessor plan) \<and>
         gse_not_before_monotonic s = saturating_add (gse_started_monotonic s) (rotation_delay demo plan)))"
proof -
  let ?at = "state_after (guardian_exec cp fr gj hx seed demo) (GuardianRotationEntryV3_new provision)"
  from guardian.run_inv [OF assms] have R: "recoveries_inv cp hx demo ?at l e" and S: "sessions_inv cp hx seed demo ?at l e"
    by (simp_all add: guardian_inv_def Let_def)
  show ?thesis
  proof (intro conjI allI impI)
    fix key p assume "bt_get (gre_recoveries e) key = Some p"
    with R have b: "recovery_began cp hx demo ?at key p l" and c: "\<not> (pn3_cancelled p \<and> pn3_released p)"
      unfolding recoveries_inv_def by blast+
    from b show "key = hx (rq3_request_id (pn3_request p))" by (simp add: recovery_began_def)
    from b obtain l0 wall now boot certificate where "recovery_accepts cp demo (?at l0) wall now boot certificate p"
      unfolding recovery_began_def by blast
    then have "request_digest_v3 cp (pn3_request p) = Inr (pn3_request_digest p) \<and> rq3_protocol_version (pn3_request p) = 3 \<and>
      length (rq3_recovery_recipient_key (pn3_request p)) = 1216"
      unfolding recovery_accepts_def using begin_certificate_request by metis
    then show "request_digest_v3 cp (pn3_request p) = Inr (pn3_request_digest p)" "rq3_protocol_version (pn3_request p) = 3"
      "length (rq3_recovery_recipient_key (pn3_request p)) = 1216" by auto
    show "\<not> (pn3_cancelled p \<and> pn3_released p)" by (rule c)
  next
    fix key s assume "bt_get (gre_sessions e) key = Some s"
    with S have b: "rotation_began cp hx seed demo ?at key s l" and t: "\<not> bt_contains_key (tombstones e) key"
      unfolding sessions_inv_def by blast+
    show "\<not> bt_contains_key (tombstones e) key" by (rule t)
    from b obtain l0 wall now boot plan certificate where key: "key = hx (rx_rotation_id (rp_context plan))"
      and a: "rotation_accepts cp seed demo (?at l0) wall now boot plan certificate s" unfolding rotation_began_def by blast
    then show "\<exists>plan. key = hx (rx_rotation_id (rp_context plan)) \<and> plan_digest cp plan = Inr (gse_plan_hash s) \<and>
         is_direct_successor_of (rp_successor plan) (rp_predecessor plan) \<and>
         gse_not_before_monotonic s = saturating_add (gse_started_monotonic s) (rotation_delay demo plan)"
      unfolding rotation_accepts_def using begin_certificate_plan by blast
  qed
qed

theorem guardian_entry_typed_witness:
  "bt_get (gre_recoveries fg_given) (fg_hx 3) = Some (fg_pending True) \<and>
   request_digest_v3 fg_prim fg_request = Inr 11 \<and> length (rq3_recovery_recipient_key fg_request) = 1216"
proof -
  have "bt_get (gre_recoveries fg_given) (fg_hx 3) = Some (fg_pending True)" by (simp add: fg_given_def)
  with guardian_entry_typed [OF fg_recovery_run] show ?thesis by (fastforce simp: fg_pending_def)
qed

text \<open>C4: recovery material leaves a protocol-3 guardian only after the whole ceremony: in any run of
  calls on a provisioned entry, a contribution answers a release of a request whose begin was
  accepted earlier in the same boot, in the state of that moment, under a certificate valid for the
  capsule of that moment; the delay of the active policy has passed on the monotonic clock, the request has not
  expired, the release certificate is valid for the capsule the entry holds now, and the
  contribution names the same request, digest and recipient key.\<close>

theorem guardian_contribution_due:
  assumes "run_log (guardian_exec cp fr gj hx seed demo) (GuardianRotationEntryV3_new provision) ops =
    (l1 @ (RecoveryCall wall now boot (ReleaseRecovery request certificate), Inr (RecoveryReply (RecoveryContribution c))) # l2, e)"
  shows "\<exists>l0 l wall0 now0 begun p.
    l1 = l0 @ (RecoveryCall wall0 now0 boot (BeginRecovery begun),
      Inr (RecoveryReply (RecoveryBeginAccepted (pn3_not_before_monotonic p)))) # l \<and>
    recovery_accepts cp demo (state_after (guardian_exec cp fr gj hx seed demo) (GuardianRotationEntryV3_new provision) l0)
      wall0 now0 boot begun p \<and>
    pn3_request p = request \<and> pn3_not_before_monotonic p \<le> now \<and> wall < rq3_expiry request \<and>
    validate_recovery_release_certificate_for_ref_v3 cp certificate
      (predecessor_capsule (state_after (guardian_exec cp fr gj hx seed demo) (GuardianRotationEntryV3_new provision) l1))
      (rq3_config_ref request) wall = Inr (pn3_request_digest p) \<and>
    gc3_config_ref c = rq3_config_ref request \<and> gc3_request_id c = rq3_request_id request \<and>
    gc3_request_digest c = pn3_request_digest p \<and> gc3_recovery_recipient_key c = rq3_recovery_recipient_key request"
proof -
  let ?at = "state_after (guardian_exec cp fr gj hx seed demo) (GuardianRotationEntryV3_new provision)"
  from guardian.inv_before [OF assms] obtain s s' where I: "guardian_inv cp fr gj hx seed demo provision l1 s"
    and x: "guardian_exec cp fr gj hx seed demo (RecoveryCall wall now boot (ReleaseRecovery request certificate)) s =
      (Inr (RecoveryReply (RecoveryContribution c)), s')" by blast
  from I have at: "?at l1 = s" and R: "recoveries_inv cp hx demo ?at l1 s"
    by (simp_all add: guardian_inv_def Let_def state_after_def)
  from exec_recovery [OF x] obtain p where
    rel: "recovery_release cp hx wall now boot request certificate s = (Inr (RecoveryContribution c), s')"
    and p: "bt_get (gre_recoveries s) (hx (rq3_request_id request)) = Some p" by (rule contribution_outcome)
  from R p have "recovery_began cp hx demo ?at (hx (rq3_request_id request)) p l1" unfolding recoveries_inv_def by blast
  then obtain l0 l wall0 now0 boot0 begun where
    l: "l1 = l0 @ (RecoveryCall wall0 now0 boot0 (BeginRecovery begun),
      Inr (RecoveryReply (RecoveryBeginAccepted (pn3_not_before_monotonic p)))) # l"
    "recovery_accepts cp demo (?at l0) wall0 now0 boot0 begun p" unfolding recovery_began_def by blast
  from rel show ?thesis
  proof (cases rule: recovery_release_outcome)
    case (released q d t)
    with p have "q = p" by simp
    with released l(2) have "boot0 = boot" by (simp add: recovery_accepts_def)
    with l \<open>q = p\<close> released at show ?thesis by blast
  qed simp
qed

theorem guardian_contribution_due_witness:
  "\<exists>wall0 now0 begun p. recovery_accepts fg_prim False fg_entry wall0 now0 ''b'' begun p \<and>
     pn3_request p = fg_request \<and> pn3_not_before_monotonic p \<le> 1010"
proof -
  have "state_after fg_exec (GuardianRotationEntryV3_new fg_provision) [] = fg_entry"
    by (simp add: state_after_def fg_entry_def)
  with guardian_contribution_due [OF fg_recovery_run] show ?thesis by (auto simp: Cons_eq_append_conv)
qed

text \<open>C5: recovery material leaves a protocol-3 guardian at most once per request identifier, and never
  beside an accepted cancellation: in any run, next to a contribution for an identifier no other
  call, earlier or later, gives another contribution for it or has a cancellation of it accepted.\<close>

theorem guardian_recovery_exclusive:
  assumes run: "run_log (guardian_exec cp fr gj hx seed demo) (GuardianRotationEntryV3_new provision) ops = (l1 @ x # l2, e)"
    and x: "contributes hx key x" and y: "y \<in> set l1 \<union> set l2"
  shows "\<not> contributes hx key y \<and> \<not> cancels_recovery hx key y"
proof -
  let ?at = "state_after (guardian_exec cp fr gj hx seed demo) (GuardianRotationEntryV3_new provision)"
  have rec: "recoveries_inv cp hx demo ?at l s" if "guardian_inv cp fr gj hx seed demo provision l s" for l s
    using that by (simp add: guardian_inv_def Let_def)
  from y show ?thesis
  proof
    assume y: "y \<in> set l1"
    obtain op r where xo: "x = (op, r)" by fastforce
    from guardian.inv_before [OF run [unfolded xo]] obtain s s' where
      R: "recoveries_inv cp hx demo ?at l1 s" and step: "guardian_exec cp fr gj hx seed demo op s = (r, s')"
      using rec by blast
    from contribute_step [OF x [unfolded xo] step] obtain p where
      p: "bt_get (gre_recoveries s) key = Some p" "\<not> pn3_cancelled p" "\<not> pn3_released p" .
    from R y p show ?thesis unfolding recoveries_inv_def by (metis option.inject)
  next
    assume "y \<in> set l2"
    then obtain m1 m2 where l2: "l2 = m1 @ y # m2" by (meson split_list)
    obtain op r where yo: "y = (op, r)" by fastforce
    have run': "run_log (guardian_exec cp fr gj hx seed demo) (GuardianRotationEntryV3_new provision) ops =
        ((l1 @ x # m1) @ (op, r) # m2, e)" using run by (simp add: l2 yo)
    from guardian.inv_before [OF run'] obtain s s' where
      R: "recoveries_inv cp hx demo ?at (l1 @ x # m1) s" and step: "guardian_exec cp fr gj hx seed demo op s = (r, s')"
      using rec by blast
    from R x obtain p where p: "bt_get (gre_recoveries s) key = Some p" "pn3_released p"
      unfolding recoveries_inv_def by (metis in_set_conv_decomp)
    with contribute_step [OF _ step] cancel_step [OF _ step p(1)] show ?thesis unfolding yo by fastforce
  qed
qed

theorem guardian_recovery_exclusive_witness:
  "contributes fg_hx (fg_hx 3) (RecoveryCall 40 1010 ''b'' (ReleaseRecovery fg_request fg_release_recovery),
     Inr (RecoveryReply (RecoveryContribution fg_contribution))) \<and>
   \<not> contributes fg_hx (fg_hx 3) (RecoveryCall 30 1000 ''b'' (BeginRecovery fg_begin_recovery), Inr (RecoveryReply (RecoveryBeginAccepted 1010)))"
proof -
  have c: "contributes fg_hx (fg_hx 3) (RecoveryCall 40 1010 ''b'' (ReleaseRecovery fg_request fg_release_recovery),
     Inr (RecoveryReply (RecoveryContribution fg_contribution)))"
    unfolding contributes_def by (intro exI conjI) (simp_all add: fg_request_sel)
  from guardian_recovery_exclusive [OF fg_recovery_run c] c show ?thesis by simp
qed

section \<open>Properties of rotation\<close>

text \<open>C8: a rotation identifier that was cancelled, activated or aborted at a protocol-3 guardian stays
  ended: later in the same run every call for it fails, other than an owner cancellation and the
  retirement of the drained epoch, of which nothing is claimed here. (The code acknowledges a repeated
  cancellation, and also the first cancellation after an abort.)\<close>

theorem guardian_rotation_final:
  assumes run: "run_log (guardian_exec cp fr gj hx seed demo) (GuardianRotationEntryV3_new provision) ops =
      (l1 @ x # l2 @ (RotationCall draws wall now boot request, r) # l3, e)"
    and x: "closes_rotation hx (request_key hx request) x"
    and call: "\<nexists>plan certificate. request = RotationCancel plan certificate" "\<nexists>notice t. request = Retire notice t"
  shows "\<not> is_ok r"
proof
  let ?at = "state_after (guardian_exec cp fr gj hx seed demo) (GuardianRotationEntryV3_new provision)"
  assume "is_ok r"
  then obtain v where r: "r = Inr v" by (auto simp: is_ok_def split: sum.splits)
  have run': "run_log (guardian_exec cp fr gj hx seed demo) (GuardianRotationEntryV3_new provision) ops =
      ((l1 @ x # l2) @ (RotationCall draws wall now boot request, r) # l3, e)" using run by simp
  from guardian.inv_before [OF run'] obtain s s' where I: "guardian_inv cp fr gj hx seed demo provision (l1 @ x # l2) s"
    and step: "guardian_exec cp fr gj hx seed demo (RotationCall draws wall now boot request) s = (r, s')" by blast
  from I have S: "sessions_inv cp hx seed demo ?at (l1 @ x # l2) s" by (simp add: guardian_inv_def Let_def)
  with x have over: "rotation_ended_at s (request_key hx request)" unfolding sessions_inv_def by (metis in_set_conv_decomp)
  from exec_rotation [OF step [unfolded r]] obtain u where
    h: "handle_guardian_rotation_v3 cp fr gj hx draws seed wall now boot demo request s = (Inr u, s')" by blast
  show False
  proof (cases "needs_session request")
    case (Some plan)
    with live_session [OF h Some] obtain t where "session_mut cp hx s plan = Inr t" by (auto simp: is_ok_def split: sum.splits)
    then have "bt_get (gre_sessions s) (hx (rx_rotation_id (rp_context plan))) = Some t" by (rule session_mut_found)
    moreover have "hx (rx_rotation_id (rp_context plan)) = request_key hx request" using Some by (cases request) auto
    ultimately show False using S over unfolding sessions_inv_def by metis
  next
    case None
    with call obtain plan certificate where b: "request = RotationBegin plan certificate" by (cases request) auto
    with h have "rotation_begin cp hx seed wall now boot demo plan certificate s = (Inr u, s')"
      by (auto simp: handle_guardian_rotation_v3_def Let_def split: if_splits)
    then show False by (cases rule: begin_outcome) (use over b in simp_all)
  qed
qed

theorem guardian_rotation_final_witness:
  "\<exists>ack r e. run_log fg_exec (GuardianRotationEntryV3_new fg_provision)
      [fg_begin_call, RotationCall fg_draws 30 1000 ''b'' (RotationCancel fg_plan fg_cancel), fg_begin_call] =
     ([(fg_begin_call, Inr (RotationReply (RotationBeginAccepted 1010))),
       (RotationCall fg_draws 30 1000 ''b'' (RotationCancel fg_plan fg_cancel), Inr (RotationReply (RotationCancelled ack))),
       (fg_begin_call, r)], e) \<and> \<not> is_ok r"
proof -
  let ?op = "RotationCall fg_draws 30 1000 ''b'' (RotationCancel fg_plan fg_cancel)"
  obtain ack t where "fg_exec ?op (fg_locked RotationState.DelayPending None) = (Inr (RotationReply (RotationCancelled ack)), t)"
    using fg_cancels_rotation [of fg_frost fg_json fg_draws 0] by fastforce
  note run = fg_run_then [OF this, of "[fg_begin_call]"]
  obtain r e where last: "fg_exec fg_begin_call t = (r, e)" by fastforce
  have c: "closes_rotation fg_hx (request_key fg_hx (RotationBegin fg_plan fg_begin)) (?op, Inr (RotationReply (RotationCancelled ack)))"
    unfolding closes_rotation_def by (intro exI conjI) simp_all
  have "run_log fg_exec t [fg_begin_call] = ([(fg_begin_call, r)], e)" using last by (simp add: Let_def del: guardian_exec.simps)
  with run have all: "run_log fg_exec (GuardianRotationEntryV3_new fg_provision) [fg_begin_call, ?op, fg_begin_call] =
     ([(fg_begin_call, Inr (RotationReply (RotationBeginAccepted 1010)))] @ (?op, Inr (RotationReply (RotationCancelled ack))) #
      [] @ (fg_begin_call, r) # [], e)" by simp
  from guardian_rotation_final [OF all c] have "\<not> is_ok r" by simp
  with all show ?thesis by fastforce
qed

lemma holds_only_if: "b \<Longrightarrow> only_if b p"
  by (simp add: only_if_def)

lemma repair_gate:
  assumes "repair_round1 cp fr gj hx draws seed wall now boot plan bc rc grant ids rid e = (Inr v, e')"
  obtains rh s t where "validate_rotation_release_certificate_v3 cp rc bc plan (predecessor_capsule e) wall = Inr rh"
    "session_mut cp hx e plan = Inr s" "begin_rotation_certificate bc = Inr t"
    "gse_begin_certificate_hash s = sha256 cp t" "gse_boot_id s = boot" "gse_not_before_monotonic s \<le> now"
proof -
  let ?B = "\<exists>rh s t. validate_rotation_release_certificate_v3 cp rc bc plan (predecessor_capsule e) wall = Inr rh \<and>
    session_mut cp hx e plan = Inr s \<and> begin_rotation_certificate bc = Inr t \<and>
    gse_begin_certificate_hash s = sha256 cp t \<and> gse_boot_id s = boot \<and> gse_not_before_monotonic s \<le> now"
  have in_sess: "only_if ?B (in_session cp hx plan e f)"
    if "\<And>s. session_mut cp hx e plan = Inr s \<Longrightarrow> only_if ?B (f s)" for f :: "_ \<Rightarrow> (anyhow, GuardianRotationResponseV3) result \<times> _"
    using that unfolding in_session_def
    by (intro only_if_attempt) (auto simp: only_if_def split: prod.splits)
  have "only_if ?B (repair_round1 cp fr gj hx draws seed wall now boot plan bc rc grant ids rid e)"
    unfolding repair_round1_def Let_def
    apply (rule only_if_attempt)+
    apply (rule only_if_rules(3))
    apply (rule only_if_attempt)+
    apply (rule in_sess)
    apply (rule only_if_attempt)
    apply (rule only_if_rules(2))
     apply (rule only_if_rules(1))
    apply (rule holds_only_if)
    apply (auto simp: wire_def ok_or_eq_Inr not_less split: sum.splits)
    done
  with assms that show thesis by (auto simp: only_if_def is_ok_def)
qed

text \<open>C6: a helper hands out the messages and the fragment made from its old share only after the whole
  ceremony: a first repair round that answers in a run follows a begin accepted in the same boot for a
  plan of the same digest, with exactly the begin certificate shown now, after the delay that begin
  fixed, and under a release certificate valid for the capsule the entry holds. This is about rounds that
  answer: the code decrypts the old share in memory before it compares the begin certificate, the
  boot and the delay, and drops it when one of them fails.\<close>

theorem guardian_old_share_gated:
  assumes "run_log (guardian_exec cp fr gj hx seed demo) (GuardianRotationEntryV3_new provision) ops =
    (l1 @ (RotationCall draws wall now boot (DoRepairRound1 plan bc rc grant ids rid), Inr v) # l2, e)"
  shows "\<exists>l0 l draws0 wall0 now0 plan0 begun s rh t.
    l1 = l0 @ (RotationCall draws0 wall0 now0 boot (RotationBegin plan0 begun),
      Inr (RotationReply (RotationBeginAccepted (gse_not_before_monotonic s)))) # l \<and>
    rotation_accepts cp seed demo (state_after (guardian_exec cp fr gj hx seed demo) (GuardianRotationEntryV3_new provision) l0)
      wall0 now0 boot plan0 begun s \<and>
    plan_digest cp plan = plan_digest cp plan0 \<and> begin_rotation_certificate bc = Inr t \<and>
    gse_begin_certificate_hash s = sha256 cp t \<and> gse_not_before_monotonic s \<le> now \<and>
    validate_rotation_release_certificate_v3 cp rc bc plan
      (predecessor_capsule (state_after (guardian_exec cp fr gj hx seed demo) (GuardianRotationEntryV3_new provision) l1)) wall = Inr rh"
proof -
  let ?at = "state_after (guardian_exec cp fr gj hx seed demo) (GuardianRotationEntryV3_new provision)"
  from guardian.inv_before [OF assms] obtain s s' where I: "guardian_inv cp fr gj hx seed demo provision l1 s"
    and step: "guardian_exec cp fr gj hx seed demo (RotationCall draws wall now boot (DoRepairRound1 plan bc rc grant ids rid)) s =
      (Inr v, s')" by blast
  from I have at: "?at l1 = s" and S: "sessions_inv cp hx seed demo ?at l1 s"
    by (simp_all add: guardian_inv_def Let_def state_after_def)
  from exec_rotation [OF step] obtain u where
    "repair_round1 cp fr gj hx draws seed wall now boot plan bc rc grant ids rid s = (Inr u, s')"
    by (auto simp: handle_guardian_rotation_v3_def Let_def split: if_splits)
  then obtain rh z t where g: "validate_rotation_release_certificate_v3 cp rc bc plan (predecessor_capsule s) wall = Inr rh"
    "session_mut cp hx s plan = Inr z" "begin_rotation_certificate bc = Inr t"
    "gse_begin_certificate_hash z = sha256 cp t" "gse_boot_id z = boot" "gse_not_before_monotonic z \<le> now" by (rule repair_gate)
  from S session_mut_found(1) [OF g(2)] have
    "rotation_began cp hx seed demo ?at (hx (rx_rotation_id (rp_context plan))) z l1" unfolding sessions_inv_def by blast
  then obtain l0 l draws0 wall0 now0 boot0 plan0 begun where
    l: "l1 = l0 @ (RotationCall draws0 wall0 now0 boot0 (RotationBegin plan0 begun),
      Inr (RotationReply (RotationBeginAccepted (gse_not_before_monotonic z)))) # l"
    "rotation_accepts cp seed demo (?at l0) wall0 now0 boot0 plan0 begun z" unfolding rotation_began_def by blast
  from l(2) g(5) session_mut_found(2) [OF g(2)] have "boot0 = boot" "plan_digest cp plan = plan_digest cp plan0"
    by (simp_all add: rotation_accepts_def)
  with l g at show ?thesis by blast
qed

theorem guardian_old_share_gated_witness:
  "\<exists>wall0 now0 plan0 begun s. rotation_accepts fg_prim 0 False fg_entry wall0 now0 ''b'' plan0 begun s \<and>
     plan_digest fg_prim fg_plan = plan_digest fg_prim plan0 \<and> gse_not_before_monotonic s \<le> 1010"
proof -
  obtain v t where "fg_exec (RotationCall fg_draws 30 1010 ''b'' (DoRepairRound1 fg_plan fg_begin fg_release fg_grant [2] 3))
      (fg_locked RotationState.DelayPending None) = (Inr v, t)" using fg_repairs [of fg_draws 0] by fastforce
  from fg_run_then [OF this, of "[]"] have run: "run_log fg_exec (GuardianRotationEntryV3_new fg_provision)
      [fg_begin_call, RotationCall fg_draws 30 1010 ''b'' (DoRepairRound1 fg_plan fg_begin fg_release fg_grant [2] 3)] =
    ([(fg_begin_call, Inr (RotationReply (RotationBeginAccepted 1010)))] @
      (RotationCall fg_draws 30 1010 ''b'' (DoRepairRound1 fg_plan fg_begin fg_release fg_grant [2] 3), Inr v) # [], t)" by simp
  have "state_after fg_exec (GuardianRotationEntryV3_new fg_provision) [] = fg_entry"
    by (simp add: state_after_def fg_entry_def)
  with guardian_old_share_gated [OF run] show ?thesis by (fastforce simp: Cons_eq_append_conv)
qed

text \<open>C7: a guardian installs a successor epoch only under a checked activation: a successful activate
  in a run follows an accepted begin for a plan of the same digest; the capsule validates against the
  owner's card and carries the activation certificate, it is the direct continuation the plan names,
  and for a guardian of the new roster the prepared record matches it; the epoch store then takes
  exactly that activation and the entry adopts the capsule.\<close>

theorem guardian_activation_gated:
  assumes "run_log (guardian_exec cp fr gj hx seed demo) (GuardianRotationEntryV3_new provision) ops =
    (l1 @ (RotationCall draws wall now boot (RotationActivate plan capsule dd), Inr v) # l2, e)"
    and s: "s = state_after (guardian_exec cp fr gj hx seed demo) (GuardianRotationEntryV3_new provision) l1"
    and s': "s' = snd (guardian_exec cp fr gj hx seed demo (RotationCall draws wall now boot (RotationActivate plan capsule dd)) s)"
  shows "v = RotationReply (Activated (cr_guardian_epoch (rp_successor plan))) \<and> predecessor_capsule s' = capsule \<and>
    (\<exists>qc qh ph z. activation_checked cp s plan capsule qc ph \<and> gse_plan_hash z = ph \<and>
       rotation_began cp hx seed demo (state_after (guardian_exec cp fr gj hx seed demo) (GuardianRotationEntryV3_new provision))
         (hx (rx_rotation_id (rp_context plan))) z l1 \<and>
       store_exec hx (activation_op (is_ok (guardian_route s plan True)) (rx_rotation_id (rp_context plan)) ph qc qh dd
         (pending_old_recovery_ids s)) (epoch_store s) = (Inr Done, epoch_store s'))"
proof -
  from guardian.inv_before [OF assms(1)] obtain z z' where I: "guardian_inv cp fr gj hx seed demo provision l1 z"
    and step: "guardian_exec cp fr gj hx seed demo (RotationCall draws wall now boot (RotationActivate plan capsule dd)) z =
      (Inr v, z')" by blast
  from I have z: "z = s" by (simp add: guardian_inv_def Let_def state_after_def s)
  with step s' have z': "z' = s'" by simp
  from I have S: "sessions_inv cp hx seed demo (state_after (guardian_exec cp fr gj hx seed demo) (GuardianRotationEntryV3_new provision)) l1 s"
    by (simp add: guardian_inv_def Let_def z)
  from exec_rotation [OF step] obtain u where
    "rotation_activate cp hx plan capsule dd s = (Inr u, s')" and v: "v = RotationReply u"
    by (auto simp: handle_guardian_rotation_v3_def Let_def z z' split: if_splits)
  then show ?thesis
  proof (cases rule: activate_outcome)
    case (ended qc qh ph)
    from ended(4) obtain t where t: "session_mut cp hx s plan = Inr t" by (auto simp: is_ok_def split: sum.splits)
    from ended(3) session_mut_found(2) [OF t] have "gse_plan_hash t = ph" by (simp add: activation_checked_def)
    with S session_mut_found(1) [OF t] ended v show ?thesis unfolding sessions_inv_def by blast
  qed simp
qed

theorem guardian_activation_gated_witness:
  "\<exists>qc ph. activation_checked fg_prim (fg_locked RotationState.DelayPending None) fg_plan fg_capsule qc ph"
proof -
  let ?op = "RotationCall fg_draws 30 1000 ''b'' (RotationActivate fg_plan fg_capsule 2000)"
  obtain t where t: "fg_exec ?op (fg_locked RotationState.DelayPending None) = (Inr (RotationReply (Activated 2)), t)"
    using fg_activates [of fg_frost fg_json fg_draws 0 1000] by fastforce
  from fg_run_then [OF t, of "[]"] have run: "run_log fg_exec (GuardianRotationEntryV3_new fg_provision) [fg_begin_call, ?op] =
    ([(fg_begin_call, Inr (RotationReply (RotationBeginAccepted 1010)))] @ (?op, Inr (RotationReply (Activated 2))) # [], t)" by simp
  have "state_after fg_exec (GuardianRotationEntryV3_new fg_provision)
      [(fg_begin_call, Inr (RotationReply (RotationBeginAccepted 1010)))] = fg_locked RotationState.DelayPending None"
    by (simp add: state_after_def fg_entry_def [symmetric] fg_begins_rotation)
  from guardian_activation_gated [OF run this [symmetric] HOL.refl] show ?thesis by blast
qed

section \<open>The epoch store of an entry\<close>

lemma same_store: "epoch_store e' = epoch_store e \<Longrightarrow> store_moves hx e e'"
  unfolding store_moves_def by (rule exI [of _ "[]"]) simp

lemma guardian_store_step:
  assumes "guardian_exec cp fr gj hx seed demo op e = (r, e')"
  shows "store_moves hx e e'"
proof (cases op)
  case (RecoveryCall wall now boot request)
  with assms obtain v where "handle_guardian_recovery_v3 cp hx wall now boot demo request e = (v, e')"
    by (auto simp: prod.case_eq_if prod_eq_iff)
  then show ?thesis
  proof (cases rule: recovery_outcome)
    case (fresh certificate p)
    then show ?thesis by (intro same_store) simp
  next
    case (marked req certificate digest)
    have "epoch_store e' = snd (epoch_exec hx (MarkCancelled (recovery_key hx request) digest) (epoch_store e))"
      by (simp add: marked(2) cancelled_entry_def Let_def split: option.split)
    then show ?thesis unfolding store_moves_def
      by (intro exI [of _ "[MarkCancelled (recovery_key hx request) digest]"]) (simp add: Let_def)
  next
    case (released req certificate p c s)
    then show ?thesis
    proof (elim disjE)
      assume "store_exec hx (SFinish (cr_guardian_epoch (rq3_config_ref req)) (rq3_request_id req)) (epoch_store e) = (Inr Done, s)"
      with released(7) show ?thesis unfolding store_moves_def
        by (intro exI [of _ "[StoreOp (SFinish (cr_guardian_epoch (rq3_config_ref req)) (rq3_request_id req))]"]) (simp add: Let_def del: store_exec.simps)
    qed (auto intro: same_store)
  qed (simp add: moves.K_self)
next
  case (RotationCall draws wall now boot request)
  with assms obtain v where "handle_guardian_rotation_v3 cp fr gj hx draws seed wall now boot demo request e = (v, e')"
    by (auto simp: prod.case_eq_if prod_eq_iff)
  then show ?thesis
    by (cases rule: rotation_outcome) (auto simp: rotation_frame_def closing_frame_def intro: same_store)
qed

lemma epoch_exec_ok: "store_ok hx s \<Longrightarrow> epoch_exec hx op s = (r, s') \<Longrightarrow> store_ok hx s'"
proof (cases op)
  case (StoreOp sop)
  then show "store_ok hx s \<Longrightarrow> epoch_exec hx op s = (r, s') \<Longrightarrow> store_ok hx s'" using store_ok_exec [of hx s sop r s'] by simp
next
  case (MarkCancelled key digest)
  then show "store_ok hx s \<Longrightarrow> epoch_exec hx op s = (r, s') \<Longrightarrow> store_ok hx s'" by (auto simp: store_ok_defs cong: option.case_cong)
qed

interpretation epoch: stable_machine "epoch_exec hx" "store_ok hx" for hx
  by unfold_locales (rule epoch_exec_ok)

context step_frame
begin

lemma run_keeps:
  assumes "\<And>op s r s'. exec op s = (r, s') \<Longrightarrow> K s s'"
  shows "run_log exec s ops = (l, t) \<Longrightarrow> K s t"
proof (induction ops arbitrary: s l)
  case (Cons op ops)
  obtain r u where u: "exec op s = (r, u)" by fastforce
  with Cons.prems obtain l' where "run_log exec u ops = (l', t)" by (auto simp: Let_def split: prod.splits)
  from K_join [OF assms [OF u] Cons.IH [OF this]] show ?case .
qed (simp add: K_self)

end

text \<open>C30: the guardian's runtime touches its epoch store only through the store's operations and the
  filing of recovery cancellations: after any run of recovery and rotation calls the store is the
  result of a sequence of such operations on the store before, and it is well formed if that one was.\<close>

theorem guardian_store_refined:
  assumes "run_log (guardian_exec cp fr gj hx seed demo) e ops = (l, e')" and "store_ok hx (epoch_store e)"
  shows "\<exists>sops sl. run_log (epoch_exec hx) (epoch_store e) sops = (sl, epoch_store e') \<and> store_ok hx (epoch_store e')"
proof -
  have "store_moves hx e e'" by (rule moves.run_keeps [OF _ assms(1)]) (rule guardian_store_step)
  with epoch.run_stable [OF assms(2)] show ?thesis unfolding store_moves_def by blast
qed

theorem guardian_store_refined_witness:
  "store_ok fg_hx (epoch_store fg_given)"
proof -
  have "store_ok fg_hx (epoch_store (GuardianRotationEntryV3_new fg_provision))"
    by (simp add: fg_entry_def [symmetric] store_ok_new)
  from guardian_store_refined [OF fg_recovery_run this] show ?thesis by blast
qed

section \<open>Retirement\<close>

text \<open>C34: the drain deadline does not hold against a caller: the retirement of a draining epoch with no
  pending request is decided by a clock value that the caller sends in the request, and nothing in
  the notice is signed. Whatever the clock of the guardian says, a notice that names the activation certificate and
  the largest clock value erases the old epoch at once, long before its deadline.\<close>

theorem guardian_retirement_unguarded:
  assumes "ges_activation_qc (epoch_store e) = Some qc" "epoch_activation_qc qc = Inr t"
    and "bt_get (ges_draining (epoch_store e)) (qc_predecessor_epoch qc) = Some d" "dge_pending_request_ids d = {}"
    and "rn_activation_qc_hash notice = sha256 cp t" "rn_retired_epoch notice = qc_predecessor_epoch qc"
    and "rx_protocol_version (rn_context notice) = 3" "rx_issued_at (rn_context notice) \<le> wall" "wall < rx_expiry (rn_context notice)"
    and "cr_config_id (rx_config_ref (rn_context notice)) = cr_config_id (cc3_config_ref (predecessor_capsule e))"
    and "length (rx_recipient_key (rn_context notice)) = 1216"
  shows "bt_get (ges_draining (epoch_store (snd (handle_guardian_rotation_v3 cp fr gj hx draws seed wall now boot demo
    (Retire notice u64_MAX) e)))) (qc_predecessor_epoch qc) = None"
proof -
  have top: "\<not> u64_MAX < x" for x :: u64 by (simp add: u64_MAX_def not_less)
  have r: "retire_epoch (qc_predecessor_epoch qc) u64_MAX (epoch_store e) = (Inr (dge_capsule_hash d),
      (epoch_store e) \<lparr> ges_draining := bt_remove (qc_predecessor_epoch qc) (ges_draining (epoch_store e)) \<rparr>)"
    using assms(3,4) top by (simp add: retire_epoch_def)
  have "handle_guardian_rotation_v3 cp fr gj hx draws seed wall now boot demo (Retire notice u64_MAX) e =
      retire cp notice u64_MAX e"
    using assms(7-11) by (auto simp: handle_guardian_rotation_v3_def Let_def PROTOCOL_VERSION_V3_def XWING_PUBLIC_KEY_LEN_def)
  moreover have "epoch_store (snd (attempt x s (\<lambda>t. (y t, s)))) = epoch_store s" for x y s
    by (cases x) (simp_all add: attempt_def)
  ultimately show ?thesis
    using assms(1-6) top r
    by (simp add: retire_def attempt_def ok_or_def wire_def Let_def and_then_def on_store_def storage_result_def with_store_def
        split: sum.splits)
qed

definition fg_draining :: GuardianRotationEntryV3 where
  "fg_draining = with_store (snd (store_exec fg_hx (SReplace 2 11 (fx_qc fg_prim 2 [1, 2, 3]) 11 2000 {})
     (GuardianEpochStore_new fg_record 11))) fg_entry"

lemma fg_draining_store:
  "epoch_store fg_draining = snd (observe_replacement_activation fg_hx 2 11 (fx_qc fg_prim 2 [1, 2, 3]) 11 2000 {}
     (GuardianEpochStore_new fg_record 11))"
  by (simp add: fg_draining_def store_op_defs prod.case_eq_if)

lemma fg_draining_sel:
  "ges_activation_qc (epoch_store fg_draining) = Some (fx_qc fg_prim 2 [1, 2, 3])"
  "\<exists>d. bt_get (ges_draining (epoch_store fg_draining)) 1 = Some d \<and> dge_pending_request_ids d = {} \<and> dge_drain_deadline d = 2000"
  unfolding fg_draining_store observe_replacement_activation_def
  by (simp_all add: GuardianEpochStore_new_def fg_record_sel fg_qc_sel fx_ref_def saturating_add_def)

definition fg_notice :: RetirementNotice where
  "fg_notice = \<lparr> rn_context = fg_ctx, rn_plan_hash = 11, rn_activation_qc_hash = 11, rn_retired_epoch = 1, rn_drain_deadline = 0 \<rparr>"

theorem guardian_retirement_unguarded_witness:
  "(\<exists>d. bt_get (ges_draining (epoch_store fg_draining)) 1 = Some d \<and> dge_drain_deadline d = 2000) \<and>
   bt_get (ges_draining (epoch_store (snd (handle_guardian_rotation_v3 fg_prim fg_frost fg_json fg_hx fg_draws 0 30 1010 ''b'' False
     (Retire fg_notice u64_MAX) fg_draining)))) 1 = None"
proof -
  obtain q where q: "epoch_activation_qc (fx_qc fg_prim 2 [1, 2, 3]) = Inr q" using fx_qc_ok by blast
  obtain d where d: "bt_get (ges_draining (epoch_store fg_draining)) 1 = Some d" "dge_pending_request_ids d = {}"
    "dge_drain_deadline d = 2000" using fg_draining_sel(2) by blast
  have "cc3_config_ref (predecessor_capsule fg_draining) = fx_ref 1 1" by (simp add: fg_draining_def with_store_def fg_genesis fx_body_def)
  then have "bt_get (ges_draining (epoch_store (snd (handle_guardian_rotation_v3 fg_prim fg_frost fg_json fg_hx fg_draws 0 30 1010 ''b'' False
     (Retire fg_notice u64_MAX) fg_draining)))) (qc_predecessor_epoch (fx_qc fg_prim 2 [1, 2, 3])) = None"
    using d by (intro guardian_retirement_unguarded [OF fg_draining_sel(1) q])
      (simp_all add: fg_qc_sel fg_notice_def fx_ref_def)
  with d show ?thesis by (auto simp: fg_qc_sel)
qed

end
