(* ===== verification/GP_Node_V3.thy ===== *)
theory GP_Node_V3
  imports GP_Node_V2 GP_Guardian_Runtime GP_Signer_Runtime
begin

text \<open>
  The protocol-3 endpoints of signer and guardian nodes in \<open>gp-network/src/server.rs\<close>: provisioning,
  route aliases and the rotation and recovery mailboxes around the handlers of the runtimes. Of the
  state of a node (\<open>SignerServerState\<close>, \<open>GuardianServerState\<close> and the disk structures of \<open>types.rs\<close>) these
  endpoints touch the rotation entries and aliases only, which are the fields kept here, in memory and in the state
  file apart. A call carries its clock readings, random draws and the outcome of its save.
\<close>

section \<open>State and messages\<close>

record SignerNodeV3 =
  snv_identity :: IdentityDisk
  snv_auto_approve :: bool
  snv_admin_token :: string
  snv_data :: "(string, SignerRotationEntryV3) btree_map"
  snv_file :: "(string, SignerRotationEntryV3) btree_map"

record GuardianRotationDisk =
  grd_rotation_entries :: "(string, GuardianRotationEntryV3) btree_map"
  grd_rotation_aliases :: "(string, string) btree_map"

record GuardianNodeV3 =
  gnv_identity :: IdentityDisk
  gnv_allow_insecure_demo_delay :: bool
  gnv_admin_token :: string
  gnv_data :: GuardianRotationDisk
  gnv_file :: GuardianRotationDisk

record GuardianRouteAliasV3 =
  gra_mailbox :: string
  gra_existing_mailbox :: string

text \<open>\<open>serde_json\<close> on the messages of the mailboxes.\<close>

record node_json =
  signer_provision_from_slice :: "byte list \<Rightarrow> SignerRotationProvisionV3 option"
  signer_rotation_from_slice :: "byte list \<Rightarrow> SignerRotationRequestV3 option"
  signer_rotation_to_vec :: "SignerRotationResponseV3 \<Rightarrow> byte list option"
  signer_recovery_from_slice :: "byte list \<Rightarrow> SignerRecoveryRequestV3 option"
  signer_recovery_to_vec :: "SignerRecoveryResponseV3 \<Rightarrow> byte list option"
  guardian_provision_from_slice :: "byte list \<Rightarrow> GuardianRotationProvisionV3 option"
  guardian_rotation_from_slice :: "byte list \<Rightarrow> GuardianRotationRequestV3 option"
  guardian_rotation_to_vec :: "GuardianRotationResponseV3 \<Rightarrow> byte list option"
  guardian_recovery_from_slice :: "byte list \<Rightarrow> GuardianRecoveryRequestV3 option"
  guardian_recovery_to_vec :: "GuardianRecoveryResponseV3 \<Rightarrow> byte list option"

definition open_with ::
    "primitives \<Rightarrow> IdentityDisk \<Rightarrow> (WireError, byte list) result \<Rightarrow> (byte list \<Rightarrow> 'a option) \<Rightarrow> SealedMailboxBody \<Rightarrow>
     (anyhow, 'a) result"
where
  "open_with cp identity purpose parse body =
    bindR (wire purpose) (\<lambda>context.
    bindR (crypt (open_sealed cp (idk_kem_seed identity) (smb_sealed body) context)) (\<lambda>plaintext.
    json (parse plaintext)))"

definition seal_with ::
    "primitives \<Rightarrow> Id32 \<times> arr24 \<Rightarrow> string \<Rightarrow> string \<Rightarrow> byte list \<Rightarrow> byte list option \<Rightarrow> (anyhow, SealedMailboxBody) result"
where
  "seal_with cp draw mailbox direction recipient_key encoded =
    bindR (json encoded) (\<lambda>bytes.
    bindR (wire (mailbox_transport_context mailbox direction)) (\<lambda>context.
    bindR (crypt (seal_to_recipient cp recipient_key (fst draw) (snd draw) bytes context)) (\<lambda>sealed.
    Inr \<lparr> smb_sealed = sealed \<rparr>)))"

section \<open>Signer\<close>

definition signer_rotation_provision ::
    "primitives \<Rightarrow> node_json \<Rightarrow> save_outcome \<Rightarrow> string option \<Rightarrow> SealedMailboxBody \<Rightarrow> SignerNodeV3 \<Rightarrow>
     (ApiError, ProvisionAck) result \<times> SignerNodeV3"
where
  "signer_rotation_provision cp nj outcome authorization body self =
    (if snv_admin_token self = [] \<or> bearer authorization \<noteq> Some (snv_admin_token self)
     then (Inl (forbidden ''invalid node provisioning token''), self) else
     attempt (protocol_error (open_with cp (snv_identity self)
       (node_provision_context (idk_node_id (snv_identity self)) ''signer-v3'') (signer_provision_from_slice nj) body)) self
       (\<lambda>provision.
     let capsule = srp_active_capsule provision in
     attempt (protocol_error (validate_activated_capsule_v3 cp (srp_recovery_card provision) capsule)) self (\<lambda>_.
     if srp_signer_id provision = 0 \<or> srp_signer_id provision > cc3_signer_count capsule \<or>
        srp_signing_public_key provision \<noteq> verifying_key_bytes cp (srp_signing_seed provision)
     then (Inl (bad_request (Text ''invalid protocol-v3 signer identity'')), self) else
     attempt (map_err OfWire (signer_leaf (srp_signer_id provision) (srp_signing_public_key provision))) self (\<lambda>leaf.
     attempt (map_err OfCrypto (merkle_verify cp (cc3_signer_set_commitment capsule) (sha256 cp leaf)
       (unat (srp_signer_id provision - 1)) (unat (cc3_signer_count capsule)) (srp_membership_proof provision))) self (\<lambda>_.
     attempt (protocol_error (mailbox_id (srp_mailbox provision))) self (\<lambda>mailbox.
     if bt_contains_key (snv_data self) mailbox
     then (Inl (bad_request (Text ''protocol-v3 signer mailbox is already provisioned'')), self) else
     let self = self \<lparr> snv_data := bt_insert mailbox \<lparr> sre_provision = provision,
           sre_security_state = SignerRotationStore_new, sre_recovery_requests = [], sre_recovery_nonces = {} \<rparr>
           (snv_data self) \<rparr> in
     case save_file outcome (snv_data self) (snv_file self) of (saved, file) \<Rightarrow>
     (let self = self \<lparr> snv_file := file \<rparr> in
      attempt saved self (\<lambda>_. (Inr \<lparr> pack_mailbox = mailbox, pack_stored = True \<rparr>, self)))))))))"

fun signer_rotation_reply_key :: "SignerRotationRequestV3 \<Rightarrow> byte list" where
  "signer_rotation_reply_key (Abort _ _ _ response_recipient_key) = response_recipient_key"
| "signer_rotation_reply_key (FinalizeAbort _ _ response_recipient_key) = response_recipient_key"
| "signer_rotation_reply_key (FinalizeOwnerCancel _ _ _ response_recipient_key) = response_recipient_key"
| "signer_rotation_reply_key request = rx_recipient_key (request_context request)"

fun signer_recovery_reply_key :: "SignerRecoveryRequestV3 \<Rightarrow> byte list" where
  "signer_recovery_reply_key (Approve request _ _) = rq3_recovery_recipient_key request"
| "signer_recovery_reply_key (ReleaseRequest request) = rq3_recovery_recipient_key request"

definition signer_rotation_mailbox ::
    "primitives \<Rightarrow> node_json \<Rightarrow> (Id32 \<Rightarrow> string) \<Rightarrow> save_outcome \<Rightarrow> u64 option \<Rightarrow> Id32 \<times> arr24 \<Rightarrow> Id32 \<times> arr24 \<Rightarrow>
     string \<Rightarrow> SealedMailboxBody \<Rightarrow> SignerNodeV3 \<Rightarrow> (ApiError, SealedMailboxBody) result \<times> SignerNodeV3"
where
  "signer_rotation_mailbox cp nj hx outcome wall_now share_draw reply_draw mailbox body self =
    (if \<not> snv_auto_approve self
     then (Inl (forbidden ''automatic social approval is disabled on this signer''), self) else
     attempt (protocol_error (open_with cp (snv_identity self) (mailbox_transport_context mailbox ''rotation-request'')
       (signer_rotation_from_slice nj) body)) self (\<lambda>request.
     attempt (ok_or wall_now (bad_request OfClock)) self (\<lambda>now.
     attempt (ok_or (bt_get (snv_data self) mailbox) (not_found ''protocol-v3 signer mailbox is not provisioned'')) self
       (\<lambda>entry.
     case handle_signer_rotation_v3 cp hx (fst share_draw) (snd share_draw) now request entry of (reply, entry) \<Rightarrow>
     (let self = self \<lparr> snv_data := bt_insert mailbox entry (snv_data self) \<rparr> in
      attempt (protocol_error reply) self (\<lambda>response.
      case save_file outcome (snv_data self) (snv_file self) of (saved, file) \<Rightarrow>
      (let self = self \<lparr> snv_file := file \<rparr> in
       attempt saved self (\<lambda>_.
       (protocol_error (seal_with cp reply_draw mailbox ''rotation-response'' (signer_rotation_reply_key request)
          (signer_rotation_to_vec nj response)), self))))))))) "

definition signer_recovery_mailbox_v3 ::
    "primitives \<Rightarrow> node_json \<Rightarrow> (Id32 \<Rightarrow> string) \<Rightarrow> save_outcome \<Rightarrow> u64 option \<Rightarrow> Id32 \<times> arr24 \<Rightarrow> Id32 \<times> arr24 \<Rightarrow>
     string \<Rightarrow> SealedMailboxBody \<Rightarrow> SignerNodeV3 \<Rightarrow> (ApiError, SealedMailboxBody) result \<times> SignerNodeV3"
where
  "signer_recovery_mailbox_v3 cp nj hx outcome wall_now share_draw reply_draw mailbox body self =
    (if \<not> snv_auto_approve self
     then (Inl (forbidden ''automatic social approval is disabled on this signer''), self) else
     attempt (protocol_error (open_with cp (snv_identity self) (mailbox_transport_context mailbox ''recovery-request-v3'')
       (signer_recovery_from_slice nj) body)) self (\<lambda>request.
     attempt (ok_or wall_now (bad_request OfClock)) self (\<lambda>now.
     attempt (ok_or (bt_get (snv_data self) mailbox) (not_found ''protocol-v3 signer mailbox is not provisioned'')) self
       (\<lambda>entry.
     case handle_signer_recovery_v3 cp hx (fst share_draw) (snd share_draw) now request entry of (reply, entry) \<Rightarrow>
     (let self = self \<lparr> snv_data := bt_insert mailbox entry (snv_data self) \<rparr> in
      attempt (protocol_error reply) self (\<lambda>response.
      case save_file outcome (snv_data self) (snv_file self) of (saved, file) \<Rightarrow>
      (let self = self \<lparr> snv_file := file \<rparr> in
       attempt saved self (\<lambda>_.
       (protocol_error (seal_with cp reply_draw mailbox ''recovery-response-v3'' (signer_recovery_reply_key request)
          (signer_recovery_to_vec nj response)), self))))))))) "

section \<open>Guardian\<close>

text \<open>The loop over the signer pins of a provision: the first bad pin decides the error.\<close>

fun check_signer_pins :: "u16 \<Rightarrow> (u16, arr32) btree_map \<Rightarrow> (ApiError, unit) result" where
  "check_signer_pins count [] = Inr ()"
| "check_signer_pins count ((i, key) # pins) =
    (if i = 0 \<or> i > count then Inl (bad_request (Text ''guardian signer pin is out of range'')) else
     bindR (map_err OfWire (signer_leaf i key)) (\<lambda>_. check_signer_pins count pins))"

definition guardian_rotation_provision ::
    "primitives \<Rightarrow> node_json \<Rightarrow> save_outcome \<Rightarrow> string option \<Rightarrow> SealedMailboxBody \<Rightarrow> GuardianNodeV3 \<Rightarrow>
     (ApiError, ProvisionAck) result \<times> GuardianNodeV3"
where
  "guardian_rotation_provision cp nj outcome authorization body self =
    (if gnv_admin_token self = [] \<or> bearer authorization \<noteq> Some (gnv_admin_token self)
     then (Inl (forbidden ''invalid node provisioning token''), self) else
     attempt (protocol_error (open_with cp (gnv_identity self)
       (node_provision_context (idk_node_id (gnv_identity self)) ''guardian-v3'') (guardian_provision_from_slice nj) body)) self
       (\<lambda>provision.
     let capsule = grp_predecessor_capsule provision; store = grp_epoch_store provision in
     attempt (protocol_error (validate_activated_capsule_v3 cp (grp_recovery_card provision) capsule)) self (\<lambda>_.
     if grp_signing_public_key provision \<noteq> verifying_key_bytes cp (grp_signing_seed provision) \<or>
        ges_config_id store \<noteq> cr_config_id (cc3_config_ref capsule) \<or>
        ges_expected_predecessor store \<noteq> cc3_config_ref capsule \<or>
        ges_expected_predecessor_capsule_hash store \<noteq> cc3_capsule_hash capsule
     then (Inl (bad_request (Text ''guardian provision does not bind the exact predecessor and identity'')), self) else
     attempt (check_signer_pins (cc3_signer_count capsule) (grp_signer_public_keys provision)) self (\<lambda>_.
     if cc3_minimum_recovery_delay capsule < PRODUCTION_MIN_DELAY_SECS \<and> \<not> gnv_allow_insecure_demo_delay self
     then (Inl (forbidden ''guardian refuses a v3 delay below 24 hours outside explicit demo mode''), self) else
     attempt (protocol_error (mailbox_id (grp_mailbox provision))) self (\<lambda>mailbox.
     if bt_contains_key (grd_rotation_entries (gnv_data self)) mailbox
     then (Inl (bad_request (Text ''protocol-v3 guardian mailbox is already provisioned'')), self) else
     let self = self \<lparr> gnv_data := (gnv_data self) \<lparr> grd_rotation_entries := bt_insert mailbox
           \<lparr> gre_provision = provision, gre_sessions = [], gre_recoveries = [] \<rparr> (grd_rotation_entries (gnv_data self)) \<rparr> \<rparr> in
     case save_file outcome (gnv_data self) (gnv_file self) of (saved, file) \<Rightarrow>
     (let self = self \<lparr> gnv_file := file \<rparr> in
      attempt saved self (\<lambda>_. (Inr \<lparr> pack_mailbox = mailbox, pack_stored = True \<rparr>, self))))))))"

text \<open>The mailbox an alias stands for; an alias is resolved once.\<close>

definition primary_of :: "GuardianRotationDisk \<Rightarrow> string \<Rightarrow> string" where
  "primary_of disk mailbox =
    (case bt_get (grd_rotation_aliases disk) mailbox of Some primary \<Rightarrow> primary | None \<Rightarrow> mailbox)"

definition guardian_rotation_alias ::
    "save_outcome \<Rightarrow> string option \<Rightarrow> GuardianRouteAliasV3 \<Rightarrow> GuardianNodeV3 \<Rightarrow>
     (ApiError, ProvisionAck) result \<times> GuardianNodeV3"
where
  "guardian_rotation_alias outcome authorization route_alias self =
    (if gnv_admin_token self = [] \<or> bearer authorization \<noteq> Some (gnv_admin_token self)
     then (Inl (forbidden ''invalid node provisioning token''), self) else
     if length (gra_mailbox route_alias) < 32 \<or> length (gra_existing_mailbox route_alias) < 32
     then (Inl (bad_request (Text ''invalid opaque guardian mailbox alias'')), self) else
     let disk = gnv_data self; existing_primary = primary_of disk (gra_existing_mailbox route_alias) in
     if \<not> bt_contains_key (grd_rotation_entries disk) existing_primary \<or>
        bt_contains_key (grd_rotation_entries disk) (gra_mailbox route_alias) \<or>
        bt_contains_key (grd_rotation_aliases disk) (gra_mailbox route_alias) \<or>
        gra_mailbox route_alias = existing_primary
     then (Inl (bad_request (Text ''alias target is missing or alias already exists'')), self) else
     let self = self \<lparr> gnv_data := disk \<lparr> grd_rotation_aliases :=
           bt_insert (gra_mailbox route_alias) existing_primary (grd_rotation_aliases disk) \<rparr> \<rparr> in
     case save_file outcome (gnv_data self) (gnv_file self) of (saved, file) \<Rightarrow>
     (let self = self \<lparr> gnv_file := file \<rparr> in
      attempt saved self (\<lambda>_. (Inr \<lparr> pack_mailbox = gra_mailbox route_alias, pack_stored = True \<rparr>, self))))"

fun guardian_rotation_reply_key :: "GuardianRotationRequestV3 \<Rightarrow> byte list" where
  "guardian_rotation_reply_key (RotationCancel _ certificate) = orcc_cancel_response_recipient_key certificate"
| "guardian_rotation_reply_key request = rx_recipient_key (rotation_context request)"

fun guardian_recovery_reply_key :: "GuardianRecoveryRequestV3 \<Rightarrow> byte list" where
  "guardian_recovery_reply_key (CancelRecovery _ certificate) = occ3_cancel_response_recipient_key certificate"
| "guardian_recovery_reply_key request = rq3_recovery_recipient_key (recovery_of request)"

definition put_rotation_entry :: "string \<Rightarrow> GuardianRotationEntryV3 \<Rightarrow> GuardianNodeV3 \<Rightarrow> GuardianNodeV3" where
  "put_rotation_entry mailbox entry self = self \<lparr> gnv_data := (gnv_data self) \<lparr> grd_rotation_entries :=
     bt_insert mailbox entry (grd_rotation_entries (gnv_data self)) \<rparr> \<rparr>"

text \<open>A mailbox call up to the save: the request and the answer that is then sealed.\<close>

definition guardian_rotation_serve ::
    "primitives \<Rightarrow> frost \<Rightarrow> guardian_json \<Rightarrow> node_json \<Rightarrow> (Id32 \<Rightarrow> string) \<Rightarrow> save_outcome \<Rightarrow> u64 option \<Rightarrow> u64 option \<Rightarrow>
     string \<Rightarrow> guardian_draws \<Rightarrow> string \<Rightarrow> SealedMailboxBody \<Rightarrow> GuardianNodeV3 \<Rightarrow>
     (ApiError, GuardianRotationRequestV3 \<times> GuardianRotationResponseV3) result \<times> GuardianNodeV3"
where
  "guardian_rotation_serve cp fr gj nj hx outcome wall_now monotonic_now current_boot draws mailbox body self =
    attempt (protocol_error (open_with cp (gnv_identity self) (mailbox_transport_context mailbox ''rotation-request'')
      (guardian_rotation_from_slice nj) body)) self (\<lambda>request.
    attempt (ok_or wall_now (bad_request OfClock)) self (\<lambda>wall.
    attempt (ok_or monotonic_now (bad_request OfClock)) self (\<lambda>monotonic.
    let primary_mailbox = primary_of (gnv_data self) mailbox in
    attempt (ok_or (bt_get (grd_rotation_entries (gnv_data self)) primary_mailbox)
      (not_found ''protocol-v3 guardian mailbox is not provisioned'')) self (\<lambda>entry.
    case handle_guardian_rotation_v3 cp fr gj hx draws (idk_kem_seed (gnv_identity self)) wall monotonic current_boot
        (gnv_allow_insecure_demo_delay self) request entry of (reply, entry) \<Rightarrow>
    (let self = put_rotation_entry primary_mailbox entry self in
     attempt (protocol_error reply) self (\<lambda>response.
     case save_file outcome (gnv_data self) (gnv_file self) of (saved, file) \<Rightarrow>
     (let self = self \<lparr> gnv_file := file \<rparr> in
      attempt saved self (\<lambda>_. (Inr (request, response), self)))))))))"

definition guardian_rotation_mailbox ::
    "primitives \<Rightarrow> frost \<Rightarrow> guardian_json \<Rightarrow> node_json \<Rightarrow> (Id32 \<Rightarrow> string) \<Rightarrow> save_outcome \<Rightarrow> u64 option \<Rightarrow> u64 option \<Rightarrow>
     string \<Rightarrow> guardian_draws \<Rightarrow> Id32 \<times> arr24 \<Rightarrow> string \<Rightarrow> SealedMailboxBody \<Rightarrow> GuardianNodeV3 \<Rightarrow>
     (ApiError, SealedMailboxBody) result \<times> GuardianNodeV3"
where
  "guardian_rotation_mailbox cp fr gj nj hx outcome wall_now monotonic_now current_boot draws reply_draw mailbox body self =
    (case guardian_rotation_serve cp fr gj nj hx outcome wall_now monotonic_now current_boot draws mailbox body self of
      (served, self) \<Rightarrow>
      (bindR served (\<lambda>(request, response). protocol_error (seal_with cp reply_draw mailbox ''rotation-response''
         (guardian_rotation_reply_key request) (guardian_rotation_to_vec nj response))), self))"

definition guardian_recovery_serve ::
    "primitives \<Rightarrow> node_json \<Rightarrow> (Id32 \<Rightarrow> string) \<Rightarrow> save_outcome \<Rightarrow> u64 option \<Rightarrow> u64 option \<Rightarrow> string \<Rightarrow>
     string \<Rightarrow> SealedMailboxBody \<Rightarrow> GuardianNodeV3 \<Rightarrow>
     (ApiError, GuardianRecoveryRequestV3 \<times> GuardianRecoveryResponseV3) result \<times> GuardianNodeV3"
where
  "guardian_recovery_serve cp nj hx outcome wall_now monotonic_now current_boot mailbox body self =
    attempt (protocol_error (open_with cp (gnv_identity self) (mailbox_transport_context mailbox ''recovery-request-v3'')
      (guardian_recovery_from_slice nj) body)) self (\<lambda>request.
    attempt (ok_or wall_now (bad_request OfClock)) self (\<lambda>wall.
    attempt (ok_or monotonic_now (bad_request OfClock)) self (\<lambda>monotonic.
    let primary_mailbox = primary_of (gnv_data self) mailbox in
    attempt (ok_or (bt_get (grd_rotation_entries (gnv_data self)) primary_mailbox)
      (not_found ''protocol-v3 guardian mailbox is not provisioned'')) self (\<lambda>entry.
    case handle_guardian_recovery_v3 cp hx wall monotonic current_boot (gnv_allow_insecure_demo_delay self) request entry of
      (reply, entry) \<Rightarrow>
    (let self = put_rotation_entry primary_mailbox entry self in
     attempt (protocol_error reply) self (\<lambda>response.
     case save_file outcome (gnv_data self) (gnv_file self) of (saved, file) \<Rightarrow>
     (let self = self \<lparr> gnv_file := file \<rparr> in
      attempt saved self (\<lambda>_. (Inr (request, response), self)))))))))"

definition guardian_recovery_mailbox_v3 ::
    "primitives \<Rightarrow> node_json \<Rightarrow> (Id32 \<Rightarrow> string) \<Rightarrow> save_outcome \<Rightarrow> u64 option \<Rightarrow> u64 option \<Rightarrow> string \<Rightarrow> Id32 \<times> arr24 \<Rightarrow>
     string \<Rightarrow> SealedMailboxBody \<Rightarrow> GuardianNodeV3 \<Rightarrow> (ApiError, SealedMailboxBody) result \<times> GuardianNodeV3"
where
  "guardian_recovery_mailbox_v3 cp nj hx outcome wall_now monotonic_now current_boot reply_draw mailbox body self =
    (case guardian_recovery_serve cp nj hx outcome wall_now monotonic_now current_boot mailbox body self of
      (served, self) \<Rightarrow>
      (bindR served (\<lambda>(request, response). protocol_error (seal_with cp reply_draw mailbox ''recovery-response-v3''
         (guardian_recovery_reply_key request) (guardian_recovery_to_vec nj response))), self))"

end
