(* ===== verification/GP_Node_V3_Safety.thy ===== *)
theory GP_Node_V3_Safety
  imports GP_Node_V3 GP_Guardian_Properties
begin

text \<open>
  A protocol-3 guardian node over any life: many mailboxes and aliases, calls that fail, saves that
  fail before or after the rename, saves of other endpoints and restarts from the state file.
\<close>

section \<open>Lives of a node\<close>

datatype node_call =
    ServeRecovery save_outcome "u64 option" "u64 option" string string SealedMailboxBody
  | ServeRotation save_outcome "u64 option" "u64 option" string guardian_draws string SealedMailboxBody
  | ProvisionGuardian save_outcome "string option" SealedMailboxBody
  | AliasGuardian save_outcome "string option" GuardianRouteAliasV3
  | OtherSave
  | NodeRestart

text \<open>An answer of the recovery mailbox with the primary mailbox it concerns; every other outcome is of no
  interest here.\<close>

datatype node_answer = RecoveryServed string GuardianRecoveryRequestV3 GuardianRecoveryResponseV3 | OtherAnswer

fun node_exec ::
    "primitives \<Rightarrow> frost \<Rightarrow> guardian_json \<Rightarrow> node_json \<Rightarrow> (Id32 \<Rightarrow> string) \<Rightarrow> node_call \<Rightarrow> GuardianNodeV3 \<Rightarrow>
     node_answer \<times> GuardianNodeV3"
where
  "node_exec cp fr gj nj hx (ServeRecovery outcome wall monotonic boot mailbox body) self =
     (case guardian_recovery_serve cp nj hx outcome wall monotonic boot mailbox body self of
        (Inl err, self') \<Rightarrow> (OtherAnswer, self')
      | (Inr (request, response), self') \<Rightarrow> (RecoveryServed (primary_of (gnv_data self) mailbox) request response, self'))"
| "node_exec cp fr gj nj hx (ServeRotation outcome wall monotonic boot draws mailbox body) self =
     (OtherAnswer, snd (guardian_rotation_serve cp fr gj nj hx outcome wall monotonic boot draws mailbox body self))"
| "node_exec cp fr gj nj hx (ProvisionGuardian outcome authorization body) self =
     (OtherAnswer, snd (guardian_rotation_provision cp nj outcome authorization body self))"
| "node_exec cp fr gj nj hx (AliasGuardian outcome authorization route_alias) self =
     (OtherAnswer, snd (guardian_rotation_alias outcome authorization route_alias self))"
| "node_exec cp fr gj nj hx OtherSave self = (OtherAnswer, self \<lparr> gnv_file := gnv_data self \<rparr>)"
| "node_exec cp fr gj nj hx NodeRestart self = (OtherAnswer, self \<lparr> gnv_data := gnv_file self \<rparr>)"

definition GuardianNodeV3_new :: "IdentityDisk \<Rightarrow> bool \<Rightarrow> string \<Rightarrow> GuardianNodeV3" where
  "GuardianNodeV3_new identity demo token = (let empty = \<lparr> grd_rotation_entries = [], grd_rotation_aliases = [] \<rparr> in
     \<lparr> gnv_identity = identity, gnv_allow_insecure_demo_delay = demo, gnv_admin_token = token, gnv_data = empty, gnv_file = empty \<rparr>)"

type_synonym node_log = "(node_call \<times> node_answer) list"

definition gives :: "(Id32 \<Rightarrow> string) \<Rightarrow> string \<Rightarrow> string \<Rightarrow> node_answer \<Rightarrow> bool" where
  "gives hx m key answer \<longleftrightarrow> (\<exists>request certificate c. key = hx (rq3_request_id request) \<and>
     answer = RecoveryServed m (ReleaseRecovery request certificate) (RecoveryContribution c))"

definition stops :: "(Id32 \<Rightarrow> string) \<Rightarrow> string \<Rightarrow> string \<Rightarrow> node_answer \<Rightarrow> bool" where
  "stops hx m key answer \<longleftrightarrow> (\<exists>request certificate ack. key = hx (rq3_request_id request) \<and>
     answer = RecoveryServed m (CancelRecovery request certificate) (RecoveryCancelled ack))"

lemma no_label [simp]: "\<not> gives hx m key OtherAnswer" "\<not> stops hx m key OtherAnswer"
  by (simp_all add: gives_def stops_def)

section \<open>What an entry keeps\<close>

abbreviation released_at :: "GuardianRotationEntryV3 \<Rightarrow> string \<Rightarrow> bool" where
  "released_at e key \<equiv> (\<exists>p. bt_get (gre_recoveries e) key = Some p \<and> pn3_released p)"

abbreviation stopped_at :: "GuardianRotationEntryV3 \<Rightarrow> string \<Rightarrow> bool" where
  "stopped_at e key \<equiv> bt_contains_key (recovery_tombstones e) key"

definition entry_ok :: "GuardianRotationEntryV3 \<Rightarrow> bool" where
  "entry_ok e \<longleftrightarrow> (\<forall>key p. bt_get (gre_recoveries e) key = Some p \<longrightarrow>
     \<not> (pn3_cancelled p \<and> pn3_released p) \<and> (stopped_at e key \<longrightarrow> pn3_cancelled p))"

definition filed_kept :: "GuardianRotationEntryV3 \<Rightarrow> GuardianRotationEntryV3 \<Rightarrow> bool" where
  "filed_kept e e' \<longleftrightarrow> entry_ok e' \<and> (\<forall>key. (released_at e key \<longrightarrow> released_at e' key) \<and> (stopped_at e key \<longrightarrow> stopped_at e' key))"

lemma kept_filed: "entry_ok e \<Longrightarrow> recoveries_kept e e' \<Longrightarrow> filed_kept e e'"
  by (simp add: filed_kept_def entry_ok_def recoveries_kept_def)

lemma rotation_entry_step:
  assumes "handle_guardian_rotation_v3 cp fr gj hx draws seed wall now boot demo request e = (r, e')" and "entry_ok e"
  shows "filed_kept e e'"
  using assms(1)
  by (cases rule: rotation_outcome)
    (auto intro!: kept_filed [OF assms(2)] simp: rotation_frame_def closing_frame_def recoveries_kept_def)

lemma recovery_entry_step:
  assumes "handle_guardian_recovery_v3 cp hx wall now boot demo request e = (r, e')" and ok: "entry_ok e"
  shows "filed_kept e e' \<and>
    (r = Inr (RecoveryContribution c) \<longrightarrow> \<not> released_at e (recovery_key hx request) \<and> \<not> stopped_at e (recovery_key hx request) \<and>
       released_at e' (recovery_key hx request)) \<and>
    (r = Inr (RecoveryCancelled ack) \<longrightarrow> \<not> released_at e (recovery_key hx request) \<and> stopped_at e' (recovery_key hx request))"
  using assms(1)
proof (cases rule: recovery_outcome)
  case same
  with ok show ?thesis by (auto intro: kept_filed)
next
  case (fresh certificate p)
  with ok show ?thesis by (auto simp: filed_kept_def entry_ok_def)
next
  case (marked req certificate digest)
  with ok show ?thesis by (auto simp: filed_kept_def entry_ok_def cancelled_entry_simps)
next
  case (released req certificate p c s)
  from ok released(4,5) have "\<not> stopped_at e (recovery_key hx request)" unfolding entry_ok_def by blast
  with ok released finish_tombstones [OF released(8)] show ?thesis by (auto simp: filed_kept_def entry_ok_def)
qed

section \<open>What a call does to memory and file\<close>

abbreviation entries :: "GuardianRotationDisk \<Rightarrow> (string, GuardianRotationEntryV3) btree_map" where
  "entries d \<equiv> grd_rotation_entries d"

lemma save_file_cases:
  "save_file outcome data fl = (saved, fl') \<Longrightarrow> (is_ok saved \<longrightarrow> fl' = data) \<and> (fl' = fl \<or> fl' = data)"
  by (cases outcome) (auto simp: save_file_def is_ok_def)

lemma save_file_old: "save_file outcome data fl = (saved, fl') \<Longrightarrow> fl' \<noteq> data \<Longrightarrow> fl' = fl"
  by (cases outcome) (auto simp: save_file_def)

lemma stored_end:
  fixes s :: GuardianNodeV3
  shows "\<exists>fl. snd (case save_file outcome (gnv_data s) (gnv_file s) of (saved, fl) \<Rightarrow>
       attempt saved (s \<lparr> gnv_file := fl \<rparr>) (\<lambda>_. (x, s \<lparr> gnv_file := fl \<rparr>))) = s \<lparr> gnv_file := fl \<rparr> \<and>
     (fl = gnv_file s \<or> fl = gnv_data s)"
  by (cases outcome; cases s) (auto simp: save_file_def attempt_def)

text \<open>The end of a served call: the reply, the save and the answer.\<close>

definition finish_call ::
    "save_outcome \<Rightarrow> 'q \<Rightarrow> (anyhow, 'a) result \<Rightarrow> GuardianNodeV3 \<Rightarrow> (ApiError, 'q \<times> 'a) result \<times> GuardianNodeV3"
where
  "finish_call outcome request reply s =
    attempt (protocol_error reply) s (\<lambda>response.
    case save_file outcome (gnv_data s) (gnv_file s) of (saved, fl) \<Rightarrow>
    attempt saved (s \<lparr> gnv_file := fl \<rparr>) (\<lambda>_. (Inr (request, response), s \<lparr> gnv_file := fl \<rparr>)))"

lemma finish_call_ends:
  "\<exists>fl. snd (finish_call outcome request reply s) = s \<lparr> gnv_file := fl \<rparr> \<and> (fl = gnv_file s \<or> fl = gnv_data s) \<and>
     (\<forall>x. fst (finish_call outcome request reply s) = Inr x \<longrightarrow>
        fl = gnv_data s \<and> (\<exists>response. reply = Inr response \<and> x = (request, response)))"
proof (cases reply)
  case (Inl err)
  then show ?thesis by (intro exI [of _ "gnv_file s"]) (simp add: finish_call_def attempt_def map_err_def)
next
  case (Inr response)
  obtain saved fl where f: "save_file outcome (gnv_data s) (gnv_file s) = (saved, fl)" by fastforce
  show ?thesis using Inr f save_file_cases [OF f]
    by (intro exI [of _ fl], cases saved) (simp_all add: finish_call_def attempt_def map_err_def is_ok_def)
qed

lemma recovery_serve_folded:
  "guardian_recovery_serve cp nj hx outcome wall_now monotonic_now current_boot mailbox body self =
    attempt (protocol_error (open_with cp (gnv_identity self) (mailbox_transport_context mailbox ''recovery-request-v3'')
      (guardian_recovery_from_slice nj) body)) self (\<lambda>request.
    attempt (ok_or wall_now (bad_request OfClock)) self (\<lambda>wall.
    attempt (ok_or monotonic_now (bad_request OfClock)) self (\<lambda>monotonic.
    attempt (ok_or (bt_get (entries (gnv_data self)) (primary_of (gnv_data self) mailbox))
      (not_found ''protocol-v3 guardian mailbox is not provisioned'')) self (\<lambda>e.
    case handle_guardian_recovery_v3 cp hx wall monotonic current_boot (gnv_allow_insecure_demo_delay self) request e of
      (reply, e') \<Rightarrow> finish_call outcome request reply (put_rotation_entry (primary_of (gnv_data self) mailbox) e' self)))))"
  unfolding guardian_recovery_serve_def finish_call_def Let_def ..

lemma rotation_serve_folded:
  "guardian_rotation_serve cp fr gj nj hx outcome wall_now monotonic_now current_boot draws mailbox body self =
    attempt (protocol_error (open_with cp (gnv_identity self) (mailbox_transport_context mailbox ''rotation-request'')
      (guardian_rotation_from_slice nj) body)) self (\<lambda>request.
    attempt (ok_or wall_now (bad_request OfClock)) self (\<lambda>wall.
    attempt (ok_or monotonic_now (bad_request OfClock)) self (\<lambda>monotonic.
    attempt (ok_or (bt_get (entries (gnv_data self)) (primary_of (gnv_data self) mailbox))
      (not_found ''protocol-v3 guardian mailbox is not provisioned'')) self (\<lambda>e.
    case handle_guardian_rotation_v3 cp fr gj hx draws (idk_kem_seed (gnv_identity self)) wall monotonic current_boot
        (gnv_allow_insecure_demo_delay self) request e of
      (reply, e') \<Rightarrow> finish_call outcome request reply (put_rotation_entry (primary_of (gnv_data self) mailbox) e' self)))))"
  unfolding guardian_rotation_serve_def finish_call_def Let_def ..

definition handled ::
    "GuardianNodeV3 \<Rightarrow> string \<Rightarrow> GuardianRotationEntryV3 \<Rightarrow> GuardianRotationEntryV3 \<Rightarrow> GuardianRotationDisk \<Rightarrow> GuardianNodeV3 \<Rightarrow> bool"
where
  "handled self m e e' fl self' \<longleftrightarrow> bt_get (entries (gnv_data self)) m = Some e \<and>
     self' = (put_rotation_entry m e' self) \<lparr> gnv_file := fl \<rparr> \<and> (fl = gnv_file self \<or> fl = gnv_data self')"

lemma put_fields [simp]:
  "gnv_file (put_rotation_entry m e self) = gnv_file self"
  "gnv_data (put_rotation_entry m e self) = (gnv_data self) \<lparr> grd_rotation_entries := bt_insert m e (entries (gnv_data self)) \<rparr>"
  by (simp_all add: put_rotation_entry_def)

lemma recovery_served:
  assumes "guardian_recovery_serve cp nj hx outcome wall monotonic boot mailbox body self = (r, self')"
  obtains (unchanged) err where "self' = self" "r = Inl err"
    | (served) request w t e reply e' fl where "handled self (primary_of (gnv_data self) mailbox) e e' fl self'"
        "handle_guardian_recovery_v3 cp hx w t boot (gnv_allow_insecure_demo_delay self) request e = (reply, e')"
        "\<And>x. r = Inr x \<Longrightarrow> fl = gnv_data self' \<and> (\<exists>response. reply = Inr response \<and> x = (request, response))"
proof -
  let ?m = "primary_of (gnv_data self) mailbox"
  let ?Q = "\<lambda>p. (\<exists>err. p = (Inl err, self)) \<or> (\<exists>request w t e reply e'. bt_get (entries (gnv_data self)) ?m = Some e \<and>
     handle_guardian_recovery_v3 cp hx w t boot (gnv_allow_insecure_demo_delay self) request e = (reply, e') \<and>
     p = finish_call outcome request reply (put_rotation_entry ?m e' self))"
  have "?Q (guardian_recovery_serve cp nj hx outcome wall monotonic boot mailbox body self)"
    unfolding recovery_serve_folded
    by (rule attempt_cases [where Q = ?Q], rule disjI1, rule exI, rule HOL.refl)+
      (simp add: ok_or_eq_Inr split: prod.split, blast)
  then show thesis unfolding assms
  proof (elim disjE exE conjE)
    fix err assume "(r, self') = (Inl err, self)"
    with unchanged show thesis by simp
  next
    fix request w t e reply e'
    assume h: "bt_get (entries (gnv_data self)) ?m = Some e"
      "handle_guardian_recovery_v3 cp hx w t boot (gnv_allow_insecure_demo_delay self) request e = (reply, e')"
      "(r, self') = finish_call outcome request reply (put_rotation_entry ?m e' self)"
    from finish_call_ends [of outcome request reply "put_rotation_entry ?m e' self"] obtain fl where
      f: "self' = (put_rotation_entry ?m e' self) \<lparr> gnv_file := fl \<rparr>"
        "fl = gnv_file self \<or> fl = gnv_data (put_rotation_entry ?m e' self)"
        "\<And>x. r = Inr x \<Longrightarrow> fl = gnv_data (put_rotation_entry ?m e' self) \<and> (\<exists>response. reply = Inr response \<and> x = (request, response))"
      unfolding h(3) [symmetric] by auto
    show thesis
      by (rule served [of e e' fl w t request reply]) (use h f in \<open>auto simp: handled_def\<close>)
  qed
qed

lemma rotation_served:
  assumes "guardian_rotation_serve cp fr gj nj hx outcome wall monotonic boot draws mailbox body self = (r, self')"
  obtains (unchanged) "self' = self"
    | (served) request w t e reply e' fl where "handled self (primary_of (gnv_data self) mailbox) e e' fl self'"
        "handle_guardian_rotation_v3 cp fr gj hx draws (idk_kem_seed (gnv_identity self)) w t boot
           (gnv_allow_insecure_demo_delay self) request e = (reply, e')"
proof -
  let ?m = "primary_of (gnv_data self) mailbox"
  let ?Q = "\<lambda>p. (\<exists>err. p = (Inl err, self)) \<or> (\<exists>request w t e reply e'. bt_get (entries (gnv_data self)) ?m = Some e \<and>
     handle_guardian_rotation_v3 cp fr gj hx draws (idk_kem_seed (gnv_identity self)) w t boot
       (gnv_allow_insecure_demo_delay self) request e = (reply, e') \<and>
     p = finish_call outcome request reply (put_rotation_entry ?m e' self))"
  have "?Q (guardian_rotation_serve cp fr gj nj hx outcome wall monotonic boot draws mailbox body self)"
    unfolding rotation_serve_folded
    by (rule attempt_cases [where Q = ?Q], rule disjI1, rule exI, rule HOL.refl)+
      (simp add: ok_or_eq_Inr split: prod.split, blast)
  then show thesis unfolding assms
  proof (elim disjE exE conjE)
    fix err assume "(r, self') = (Inl err, self)"
    with unchanged show thesis by simp
  next
    fix request w t e reply e'
    assume h: "bt_get (entries (gnv_data self)) ?m = Some e"
      "handle_guardian_rotation_v3 cp fr gj hx draws (idk_kem_seed (gnv_identity self)) w t boot
         (gnv_allow_insecure_demo_delay self) request e = (reply, e')"
      "(r, self') = finish_call outcome request reply (put_rotation_entry ?m e' self)"
    from finish_call_ends [of outcome request reply "put_rotation_entry ?m e' self"] obtain fl where
      f: "self' = (put_rotation_entry ?m e' self) \<lparr> gnv_file := fl \<rparr>"
        "fl = gnv_file self \<or> fl = gnv_data (put_rotation_entry ?m e' self)"
      unfolding h(3) [symmetric] by auto
    show thesis
      by (rule served [of e e' fl w t request reply]) (use h f in \<open>auto simp: handled_def\<close>)
  qed
qed

lemma cond_cases: "(c \<Longrightarrow> Q p) \<Longrightarrow> (\<not> c \<Longrightarrow> Q q) \<Longrightarrow> Q (if c then p else q)"
  by simp

lemma provision_ends:
  assumes "guardian_rotation_provision cp nj outcome authorization body self = (r, self')"
  obtains (unchanged) "self' = self"
    | (stored) m e fl where "bt_get (entries (gnv_data self)) m = None" "gre_recoveries e = []"
        "self' = (put_rotation_entry m e self) \<lparr> gnv_file := fl \<rparr>" "fl = gnv_file self \<or> fl = gnv_data self'"
proof -
  let ?Q = "\<lambda>p. snd p = self \<or> (\<exists>m e fl. bt_get (entries (gnv_data self)) m = None \<and> gre_recoveries e = [] \<and>
     snd p = (put_rotation_entry m e self) \<lparr> gnv_file := fl \<rparr> \<and>
     (fl = gnv_file self \<or> fl = gnv_data (put_rotation_entry m e self)))"
  have fresh: "?Q (case save_file outcome (gnv_data s) (gnv_file s) of (saved, fl) \<Rightarrow>
      attempt saved (s \<lparr> gnv_file := fl \<rparr>) (\<lambda>_. (x, s \<lparr> gnv_file := fl \<rparr>)))"
    if "s = put_rotation_entry m \<lparr> gre_provision = p, gre_sessions = [], gre_recoveries = [] \<rparr> self"
      and "\<not> bt_contains_key (entries (gnv_data self)) m" for m p s x
  proof -
    from that(2) have "bt_get (entries (gnv_data self)) m = None" by simp
    moreover obtain fl where "snd (case save_file outcome (gnv_data s) (gnv_file s) of (saved, fl) \<Rightarrow>
        attempt saved (s \<lparr> gnv_file := fl \<rparr>) (\<lambda>_. (x, s \<lparr> gnv_file := fl \<rparr>))) = s \<lparr> gnv_file := fl \<rparr>"
      "fl = gnv_file s \<or> fl = gnv_data s" using stored_end by blast
    ultimately show ?thesis unfolding that(1) put_fields(1)
      by - (rule disjI2, rule exI [of _ m], rule exI [of _ "\<lparr> gre_provision = p, gre_sessions = [], gre_recoveries = [] \<rparr>"],
        rule exI [of _ fl], simp only: GuardianRotationEntryV3.select_convs HOL.simp_thms)
  qed
  have "?Q (guardian_rotation_provision cp nj outcome authorization body self)"
    unfolding guardian_rotation_provision_def Let_def put_rotation_entry_def [symmetric]
    by ((rule attempt_cases [where Q = ?Q] cond_cases [where Q = ?Q], simp)+, rule fresh, rule HOL.refl)
  then show thesis unfolding assms by (auto intro: unchanged stored)
qed

lemma alias_ends:
  assumes "guardian_rotation_alias outcome authorization route_alias self = (r, self')"
  shows "entries (gnv_data self') = entries (gnv_data self) \<and> (gnv_file self' = gnv_file self \<or> gnv_file self' = gnv_data self')"
  using assms
  by (auto simp: guardian_rotation_alias_def Let_def attempt_def split: if_splits prod.splits sum.splits
      dest: save_file_old)

section \<open>The invariant of a node\<close>

definition disk_ok :: "GuardianRotationDisk \<Rightarrow> bool" where
  "disk_ok d \<longleftrightarrow> (\<forall>m e. bt_get (entries d) m = Some e \<longrightarrow> entry_ok e)"

definition disk_kept :: "GuardianRotationDisk \<Rightarrow> GuardianRotationDisk \<Rightarrow> bool" where
  "disk_kept d d' \<longleftrightarrow> disk_ok d' \<and>
     (\<forall>m e. bt_get (entries d) m = Some e \<longrightarrow> (\<exists>e'. bt_get (entries d') m = Some e' \<and> filed_kept e e'))"

lemma filed_kept_refl [simp]: "filed_kept e e \<longleftrightarrow> entry_ok e"
  by (auto simp: filed_kept_def)

lemma disk_kept_same: "disk_ok d \<Longrightarrow> entries d' = entries d \<Longrightarrow> disk_kept d d'"
  by (simp add: disk_kept_def disk_ok_def)

lemma disk_kept_put:
  assumes "disk_ok d" "\<And>e. bt_get (entries d) m = Some e \<Longrightarrow> filed_kept e e'" "entry_ok e'"
  shows "disk_kept d (d \<lparr> grd_rotation_entries := bt_insert m e' (entries d) \<rparr>)"
  using assms by (auto simp: disk_kept_def disk_ok_def)

lemma call_effect:
  assumes x: "node_exec cp fr gj nj hx call self = (ans, self')" and ok: "disk_ok (gnv_data self)"
  shows "(gnv_data self' = gnv_file self \<or> disk_kept (gnv_data self) (gnv_data self')) \<and>
    (gnv_file self' = gnv_file self \<or> gnv_file self' = gnv_data self \<or> gnv_file self' = gnv_data self')"
proof -
  have kept: "disk_kept (gnv_data self) (gnv_data self')"
    if "handled self m e e' fl self'" "filed_kept e e'" for m e e' fl
    using that ok by (auto simp: handled_def filed_kept_def intro!: disk_kept_put)
  have fl: "gnv_file self' = gnv_file self \<or> gnv_file self' = gnv_data self'"
    if "handled self m e e' fl self'" for m e e' fl using that by (auto simp: handled_def)
  have entry: "entry_ok e" if "handled self m e e' fl self'" for m e e' fl
    using that ok by (auto simp: handled_def disk_ok_def)
  show ?thesis
  proof (cases call)
    case (ServeRecovery outcome wall monotonic boot mailbox body)
    obtain r s where g: "guardian_recovery_serve cp nj hx outcome wall monotonic boot mailbox body self = (r, s)" by fastforce
    with x ServeRecovery have [simp]: "s = self'" by (auto split: sum.splits)
    from g show ?thesis
    proof (cases rule: recovery_served)
      case unchanged
      with ok disk_kept_same show ?thesis by auto
    next
      case (served request w t e reply e' f)
      with kept fl entry recovery_entry_step show ?thesis by (metis \<open>s = self'\<close>)
    qed
  next
    case (ServeRotation outcome wall monotonic boot draws mailbox body)
    obtain r s where g: "guardian_rotation_serve cp fr gj nj hx outcome wall monotonic boot draws mailbox body self = (r, s)" by fastforce
    with x ServeRotation have [simp]: "s = self'" by auto
    from g show ?thesis
    proof (cases rule: rotation_served)
      case unchanged
      with ok disk_kept_same show ?thesis by auto
    next
      case (served request w t e reply e' f)
      with kept fl entry rotation_entry_step show ?thesis by (metis \<open>s = self'\<close>)
    qed
  next
    case (ProvisionGuardian outcome authorization body)
    obtain r s where g: "guardian_rotation_provision cp nj outcome authorization body self = (r, s)" by fastforce
    with x ProvisionGuardian have [simp]: "s = self'" by auto
    from g show ?thesis
    proof (cases rule: provision_ends)
      case unchanged
      with ok disk_kept_same show ?thesis by auto
    next
      case (stored m e f)
      with ok show ?thesis by (auto intro!: disk_kept_put simp: entry_ok_def)
    qed
  next
    case (AliasGuardian outcome authorization route_alias)
    obtain r s where g: "guardian_rotation_alias outcome authorization route_alias self = (r, s)" by fastforce
    with x AliasGuardian have [simp]: "s = self'" by auto
    from alias_ends [OF g] ok disk_kept_same show ?thesis by auto
  next
    case OtherSave
    with x ok show ?thesis by (auto intro: disk_kept_same)
  next
    case NodeRestart
    with x show ?thesis by auto
  qed
qed

definition disk_inv :: "(Id32 \<Rightarrow> string) \<Rightarrow> node_log \<Rightarrow> GuardianRotationDisk \<Rightarrow> bool" where
  "disk_inv hx l d \<longleftrightarrow> disk_ok d \<and> (\<forall>call ans m key. (call, ans) \<in> set l \<longrightarrow>
     (gives hx m key ans \<longrightarrow> (\<exists>e. bt_get (entries d) m = Some e \<and> released_at e key)) \<and>
     (stops hx m key ans \<longrightarrow> (\<exists>e. bt_get (entries d) m = Some e \<and> stopped_at e key)))"

definition node_inv :: "(Id32 \<Rightarrow> string) \<Rightarrow> node_log \<Rightarrow> GuardianNodeV3 \<Rightarrow> bool" where
  "node_inv hx l self \<longleftrightarrow> disk_inv hx l (gnv_data self) \<and> disk_inv hx l (gnv_file self)"

lemma disk_inv_kept: "disk_inv hx l d \<Longrightarrow> disk_kept d d' \<Longrightarrow> disk_inv hx l d'"
  unfolding disk_inv_def disk_kept_def filed_kept_def by meson

text \<open>An answer that counts finds its entry unmarked, and leaves it marked in memory and in the file.\<close>

lemma call_answer:
  assumes x: "node_exec cp fr gj nj hx call self = (ans, self')" and ok: "disk_ok (gnv_data self)"
  shows "gives hx m key ans \<Longrightarrow> \<exists>e e'. bt_get (entries (gnv_data self)) m = Some e \<and> \<not> released_at e key \<and> \<not> stopped_at e key \<and>
      gnv_file self' = gnv_data self' \<and> bt_get (entries (gnv_data self')) m = Some e' \<and> released_at e' key" (is "_ \<Longrightarrow> ?gives")
    and "stops hx m key ans \<Longrightarrow> \<exists>e e'. bt_get (entries (gnv_data self)) m = Some e \<and> \<not> released_at e key \<and>
      gnv_file self' = gnv_data self' \<and> bt_get (entries (gnv_data self')) m = Some e' \<and> stopped_at e' key" (is "_ \<Longrightarrow> ?stops")
proof -
  have served: "\<exists>request w t boot e reply e'. bt_get (entries (gnv_data self)) m = Some e \<and> entry_ok e \<and>
      handle_guardian_recovery_v3 cp hx w t boot (gnv_allow_insecure_demo_delay self) req e = (Inr v, e') \<and>
      gnv_file self' = gnv_data self' \<and> bt_get (entries (gnv_data self')) m = Some e'"
    if "ans = RecoveryServed m req v" for req v
  proof -
    from that x obtain outcome wall monotonic boot mailbox body where
      s: "guardian_recovery_serve cp nj hx outcome wall monotonic boot mailbox body self = (Inr (req, v), self')"
        "m = primary_of (gnv_data self) mailbox"
      by (cases call) (auto split: prod.splits sum.splits)
    from s(1) show ?thesis
    proof (cases rule: recovery_served)
      case (served request w t e reply e' fl)
      from served(3) [OF HOL.refl] have r: "reply = Inr v" "request = req" "fl = gnv_data self'" by auto
      from served(1) s(2) have h: "bt_get (entries (gnv_data self)) m = Some e"
        "self' = (put_rotation_entry m e' self) \<lparr> gnv_file := fl \<rparr>" by (simp_all add: handled_def)
      from h(1) ok have "entry_ok e" by (simp add: disk_ok_def)
      moreover from h(2) have "bt_get (entries (gnv_data self')) m = Some e'" by simp
      moreover from h(2) have "gnv_file self' = fl" by simp
      ultimately show ?thesis using h(1) r served(2) by blast
    qed simp
  qed
  show "gives hx m key ans \<Longrightarrow> ?gives"
  proof -
    assume "gives hx m key ans"
    then obtain request certificate c where key: "key = hx (rq3_request_id request)"
      and "ans = RecoveryServed m (ReleaseRecovery request certificate) (RecoveryContribution c)"
      unfolding gives_def by blast
    from served [OF this(2)] recovery_entry_step key show ?gives
      by (metis GuardianRecoveryRequestV3.distinct recovery_of.simps(3))
  qed
  show "stops hx m key ans \<Longrightarrow> ?stops"
  proof -
    assume "stops hx m key ans"
    then obtain request certificate ack where key: "key = hx (rq3_request_id request)"
      and "ans = RecoveryServed m (CancelRecovery request certificate) (RecoveryCancelled ack)"
      unfolding stops_def by blast
    from served [OF this(2)] recovery_entry_step key show ?stops
      by (metis recovery_of.simps(2))
  qed
qed

lemma node_inv_exec:
  assumes I: "node_inv hx l self" and x: "node_exec cp fr gj nj hx call self = (ans, self')"
  shows "node_inv hx (l @ [(call, ans)]) self'"
proof -
  from I have d: "disk_inv hx l (gnv_data self)" "disk_inv hx l (gnv_file self)" and ok: "disk_ok (gnv_data self)"
    by (simp_all add: node_inv_def disk_inv_def)
  from call_effect [OF x ok] d have d': "disk_inv hx l (gnv_data self')" "disk_inv hx l (gnv_file self')"
    by (metis disk_inv_kept)+
  show ?thesis unfolding node_inv_def
  proof
    show "disk_inv hx (l @ [(call, ans)]) (gnv_data self')"
      using d'(1) call_answer [OF x ok] unfolding disk_inv_def by auto blast+
    show "disk_inv hx (l @ [(call, ans)]) (gnv_file self')"
      using d'(2) call_answer [OF x ok] unfolding disk_inv_def by auto (metis)+
  qed
qed

lemma node_inv_new: "node_inv hx [] (GuardianNodeV3_new identity demo token)"
  by (simp add: node_inv_def disk_inv_def disk_ok_def GuardianNodeV3_new_def Let_def)

interpretation node: logged_machine "node_exec cp fr gj nj hx" "GuardianNodeV3_new identity demo token" "node_inv hx"
  for cp fr gj nj hx identity demo token
  by unfold_locales (rule node_inv_new, rule node_inv_exec)

section \<open>A concrete life\<close>

definition nd_mailbox :: string where "nd_mailbox = ''0123456789abcdef0123456789abcdef''"

definition nd_provision :: GuardianRotationProvisionV3 where "nd_provision = fg_provision \<lparr> grp_mailbox := nd_mailbox \<rparr>"

definition nd_entry :: GuardianRotationEntryV3 where
  "nd_entry = \<lparr> gre_provision = nd_provision, gre_sessions = [], gre_recoveries = [] \<rparr>"

definition nd_pending :: "bool \<Rightarrow> PendingNetworkRecoveryV3" where
  "nd_pending b = (fg_pending b) \<lparr> pn3_not_before_monotonic := 1002 \<rparr>"

definition nd_json :: node_json where
  "nd_json = \<lparr> signer_provision_from_slice = Map.empty, signer_rotation_from_slice = Map.empty, signer_rotation_to_vec = Map.empty,
     signer_recovery_from_slice = Map.empty, signer_recovery_to_vec = Map.empty,
     guardian_provision_from_slice = [[1] \<mapsto> nd_provision], guardian_rotation_from_slice = Map.empty,
     guardian_rotation_to_vec = Map.empty,
     guardian_recovery_from_slice = [[2] \<mapsto> BeginRecovery fg_begin_recovery, [3] \<mapsto> ReleaseRecovery fg_request fg_release_recovery],
     guardian_recovery_to_vec = Map.empty \<rparr>"

definition nd_body :: "8 word \<Rightarrow> SealedMailboxBody" where
  "nd_body b = \<lparr> smb_sealed = \<lparr> sm_kem_ciphertext = [], sm_payload = \<lparr> ac_nonce = 0, ac_ciphertext = [b] \<rparr> \<rparr> \<rparr>"

definition nd_start :: GuardianNodeV3 where
  "nd_start = GuardianNodeV3_new \<lparr> idk_node_id = ''n'', idk_kem_seed = 0 \<rparr> True ''t''"

definition nd_node :: "GuardianRotationEntryV3 \<Rightarrow> GuardianNodeV3" where
  "nd_node e = (let d = \<lparr> grd_rotation_entries = [(nd_mailbox, e)], grd_rotation_aliases = [] \<rparr> in
     nd_start \<lparr> gnv_data := d, gnv_file := d \<rparr>)"

lemma nd_open:
  assumes "context_bytes = Inr t"
  shows "open_with fg_prim identity context_bytes parse (nd_body b) = json (parse [b])"
  using assms by (simp add: open_with_def wire_def crypt_def open_sealed_def aead_decrypt_def ok_or_def nd_body_def fg_prim_def
      fx_const_def fx_prim_def)

lemma nd_contexts:
  "\<exists>t. node_provision_context ''n'' ''guardian-v3'' = Inr t"
  "\<exists>t. mailbox_transport_context nd_mailbox ''recovery-request-v3'' = Inr t"
  by (simp_all add: node_provision_context_def mailbox_transport_context_def fx_wire nd_mailbox_def as_bytes_def)

lemma nd_start_sel [simp]:
  "gnv_identity nd_start = \<lparr> idk_node_id = ''n'', idk_kem_seed = 0 \<rparr>" "gnv_allow_insecure_demo_delay nd_start = True"
  "gnv_admin_token nd_start = ''t''" "entries (gnv_data nd_start) = []" "grd_rotation_aliases (gnv_data nd_start) = []"
  by (simp_all add: nd_start_def GuardianNodeV3_new_def Let_def)

lemma nd_node_sel [simp]:
  "gnv_identity (nd_node e) = \<lparr> idk_node_id = ''n'', idk_kem_seed = 0 \<rparr>" "gnv_allow_insecure_demo_delay (nd_node e) = True"
  "entries (gnv_data (nd_node e)) = [(nd_mailbox, e)]" "grd_rotation_aliases (gnv_data (nd_node e)) = []"
  "gnv_file (nd_node e) = gnv_data (nd_node e)"
  by (simp_all add: nd_node_def Let_def)

lemma nd_put: "(put_rotation_entry nd_mailbox e' (nd_node e)) \<lparr> gnv_file := gnv_data (put_rotation_entry nd_mailbox e' (nd_node e)) \<rparr> = nd_node e'"
  by (simp add: put_rotation_entry_def nd_node_def Let_def)

lemma nd_genesis_valid: "validate_activated_capsule_v3 fg_prim (fx_card [1, 2, 3, 4]) (fx_genesis fg_prim) = Inr ()"
proof -
  obtain t where "config_capsule_body_v3 (fx_body 1 1 0) = Inr t" using fx_body_ok by blast
  then show ?thesis by (simp add: validate_activated_capsule_v3_def fx_card_ok fg_genesis wire_def)
      (simp add: fx_body_def fx_ref_def PROTOCOL_VERSION_V3_def)
qed

lemma nd_provisions:
  "guardian_rotation_provision fg_prim nd_json Saved (Some ''Bearer t'') (nd_body 1) nd_start =
     (Inr \<lparr> pack_mailbox = nd_mailbox, pack_stored = True \<rparr>, nd_node nd_entry)"
proof -
  obtain t where t: "node_provision_context ''n'' ''guardian-v3'' = Inr t" using nd_contexts by blast
  have m: "mailbox_id nd_mailbox = Inr nd_mailbox" by (simp add: mailbox_id_def nd_mailbox_def trim_end_slashes_def)
  have b: "bearer (Some ''Bearer t'') = Some ''t''" by (simp add: bearer_def)
  have p: "grp_recovery_card nd_provision = fx_card [1, 2, 3, 4]" "grp_predecessor_capsule nd_provision = fx_genesis fg_prim"
    "grp_signing_public_key nd_provision = 2" "grp_signing_seed nd_provision = 2" "grp_signer_public_keys nd_provision = []"
    "grp_epoch_store nd_provision = GuardianEpochStore_new fg_record 11" "grp_mailbox nd_provision = nd_mailbox"
    by (simp_all add: nd_provision_def fg_provision_def)
  have s: "ges_config_id (GuardianEpochStore_new fg_record 11) = 1" "ges_expected_predecessor (GuardianEpochStore_new fg_record 11) = fx_ref 1 1"
    "ges_expected_predecessor_capsule_hash (GuardianEpochStore_new fg_record 11) = 11"
    by (simp_all add: GuardianEpochStore_new_def Let_def fg_record_sel fx_ref_def)
  have c: "cc3_config_ref (fx_genesis fg_prim) = fx_ref 1 1" "cc3_capsule_hash (fx_genesis fg_prim) = 11" "cr_config_id (fx_ref 1 1) = 1"
    by (simp_all add: fg_genesis fx_body_def fx_ref_def)
  have v: "verifying_key_bytes fg_prim k = k" for k by (simp add: verifying_key_bytes_def fg_prim_def fx_const_def fx_prim_def)
  have j: "guardian_provision_from_slice nd_json [1] = Some nd_provision" by (simp add: nd_json_def)
  show ?thesis
    by (simp add: guardian_rotation_provision_def b t nd_open j json_def ok_or_def attempt_def map_err_def p s c v m
        nd_genesis_valid save_file_def Let_def)
      (simp add: nd_node_def nd_start_def GuardianNodeV3_new_def nd_entry_def Let_def)
qed

lemma nd_serves:
  assumes "handle_guardian_recovery_v3 fg_prim fg_hx wall now boot True request e = (Inr v, e')"
    and "guardian_recovery_from_slice nd_json [b] = Some request"
  shows "node_exec fg_prim fr gj nd_json fg_hx (ServeRecovery Saved (Some wall) (Some now) boot nd_mailbox (nd_body b)) (nd_node e) =
    (RecoveryServed nd_mailbox request v, nd_node e')"
proof -
  obtain t where t: "mailbox_transport_context nd_mailbox ''recovery-request-v3'' = Inr t" using nd_contexts by blast
  show ?thesis using assms
    by (simp add: recovery_serve_folded nd_open t json_def ok_or_def attempt_def map_err_def primary_of_def finish_call_def save_file_def)
      (simp add: nd_node_def nd_start_def GuardianNodeV3_new_def put_rotation_entry_def Let_def)
qed

lemma nd_begins:
  "handle_guardian_recovery_v3 fg_prim fg_hx 30 1000 ''b'' True (BeginRecovery fg_begin_recovery) nd_entry =
     (Inr (RecoveryBeginAccepted 1002), with_recovery (fg_hx 3) (nd_pending False) nd_entry)"
  using fg_begin_recovery_valid [of 30]
  by (simp add: handle_guardian_recovery_v3_def recovery_begin_def Let_def attempt_def ok_or_def fg_record_sel fg_request_sel
      PROTOCOL_VERSION_V3_def XWING_PUBLIC_KEY_LEN_def bt_values_def saturating_add_def fg_pending_def nd_pending_def nd_entry_def
      nd_provision_def del: fg_hx_sel)

lemma nd_releases:
  "handle_guardian_recovery_v3 fg_prim fg_hx 40 1010 ''b'' True (ReleaseRecovery fg_request fg_release_recovery)
     (with_recovery (fg_hx 3) (nd_pending False) nd_entry) =
   (Inr (RecoveryContribution fg_contribution),
    with_recovery (fg_hx 3) (nd_pending True) (with_recovery (fg_hx 3) (nd_pending False) nd_entry))"
proof -
  obtain t where t: "guardian_recovery_contribution_v3 fg_contribution = Inr t" using fg_contribution_ok by blast
  have "sign fg_prim k t = []" for k by (simp add: sign_def fg_prim_def fx_const_def fx_prim_def)
  then show ?thesis
    using fg_release_recovery_valid [of 40] t
    by (simp add: handle_guardian_recovery_v3_def recovery_release_def Let_def attempt_def ok_or_def fg_record_sel fg_request_sel
        PROTOCOL_VERSION_V3_def XWING_PUBLIC_KEY_LEN_def record_for_request_def nd_pending_def fg_pending_def
        fg_contribution_def wire_def nd_entry_def nd_provision_def)
qed

text \<open>C9: recovery material leaves a protocol-3 guardian node at most once per provisioned mailbox and
  request, over any life of the node: with other mailboxes and aliases, calls that fail, saves that
  fail before or after the rename, saves of other endpoints and restarts from the state file, next to
  a saved contribution for a request no other call, earlier or later, contributes to it or has it
  cancelled.\<close>

theorem node_contribution_once:
  assumes run: "run_log (node_exec cp fr gj nj hx) (GuardianNodeV3_new identity demo token) calls = (l1 @ (c, a) # l2, self)"
    and a: "gives hx m key a" and b: "(c', b) \<in> set l1 \<union> set l2"
  shows "\<not> gives hx m key b \<and> \<not> stops hx m key b"
  using b
proof
  assume b: "(c', b) \<in> set l1"
  from node.inv_before [OF run] obtain s s' where I: "node_inv hx l1 s" and x: "node_exec cp fr gj nj hx c s = (a, s')" by blast
  from I have ok: "disk_ok (gnv_data s)" and d: "disk_inv hx l1 (gnv_data s)" by (simp_all add: node_inv_def disk_inv_def)
  from call_answer(1) [OF x ok a] d b show ?thesis unfolding disk_inv_def by (metis option.inject)
next
  assume "(c', b) \<in> set l2"
  then obtain m1 m2 where l2: "l2 = m1 @ (c', b) # m2" by (meson split_list)
  have run': "run_log (node_exec cp fr gj nj hx) (GuardianNodeV3_new identity demo token) calls =
      ((l1 @ (c, a) # m1) @ (c', b) # m2, self)" using run by (simp add: l2)
  from node.inv_before [OF run'] obtain s s' where I: "node_inv hx (l1 @ (c, a) # m1) s"
    and x: "node_exec cp fr gj nj hx c' s = (b, s')" by blast
  from I have ok: "disk_ok (gnv_data s)" and d: "disk_inv hx (l1 @ (c, a) # m1) (gnv_data s)"
    by (simp_all add: node_inv_def disk_inv_def)
  from d a have r: "\<exists>e. bt_get (entries (gnv_data s)) m = Some e \<and> released_at e key" unfolding disk_inv_def by auto
  from call_answer [OF x ok, of m key] r show ?thesis by (metis option.inject)
qed


lemma nd_run:
  "run_log (node_exec fg_prim fr gj nd_json fg_hx) (GuardianNodeV3_new \<lparr> idk_node_id = ''n'', idk_kem_seed = 0 \<rparr> True ''t'')
     [ProvisionGuardian Saved (Some ''Bearer t'') (nd_body 1), ServeRecovery Saved (Some 30) (Some 1000) ''b'' nd_mailbox (nd_body 2),
      NodeRestart, ServeRecovery Saved (Some 40) (Some 1010) ''b'' nd_mailbox (nd_body 3)] =
   ([(ProvisionGuardian Saved (Some ''Bearer t'') (nd_body 1), OtherAnswer),
     (ServeRecovery Saved (Some 30) (Some 1000) ''b'' nd_mailbox (nd_body 2),
      RecoveryServed nd_mailbox (BeginRecovery fg_begin_recovery) (RecoveryBeginAccepted 1002)),
     (NodeRestart, OtherAnswer)] @
    (ServeRecovery Saved (Some 40) (Some 1010) ''b'' nd_mailbox (nd_body 3),
     RecoveryServed nd_mailbox (ReleaseRecovery fg_request fg_release_recovery) (RecoveryContribution fg_contribution)) # [],
    nd_node (with_recovery (fg_hx 3) (nd_pending True) (with_recovery (fg_hx 3) (nd_pending False) nd_entry)))"
  using nd_serves [OF nd_begins, of 2] nd_serves [OF nd_releases, of 3] nd_provisions
  by (simp add: nd_start_def [symmetric] nd_json_def del: node_exec.simps(1))

theorem node_contribution_once_witness:
  "gives fg_hx nd_mailbox (fg_hx 3)
     (RecoveryServed nd_mailbox (ReleaseRecovery fg_request fg_release_recovery) (RecoveryContribution fg_contribution)) \<and>
   \<not> stops fg_hx nd_mailbox (fg_hx 3)
     (RecoveryServed nd_mailbox (BeginRecovery fg_begin_recovery) (RecoveryBeginAccepted 1002))"
proof -
  have g: "gives fg_hx nd_mailbox (fg_hx 3)
     (RecoveryServed nd_mailbox (ReleaseRecovery fg_request fg_release_recovery) (RecoveryContribution fg_contribution))"
    unfolding gives_def by (intro exI conjI) (simp_all add: fg_request_sel)
  from node_contribution_once [OF nd_run [where fr = undefined and gj = undefined] g] g show ?thesis by simp
qed

end
