(* ===== verification/GP_Coordinator_V3.thy ===== *)
theory GP_Coordinator_V3
  imports GP_Guardian_Runtime GP_Signer_Runtime
begin

text \<open>
  The client side of a protocol-3 rotation, \<open>gp-network/src/rotation_coordinator.rs\<close>: the plan, the
  collection of the votes, the certificates, the grants for the guardians and every check of an
  answer. The network is a parameter \<open>ask\<close>: the answer of the \<open>k\<close>-th call to a mailbox, if there is
  one; random draws are arguments. The rounds of the resharing between the guardians, which the
  coordinator only relays, are not part of it.
\<close>

section \<open>Descriptor and memberships\<close>

definition validate_descriptor ::
    "primitives \<Rightarrow> frost \<Rightarrow> RecoveryDescriptorV3 \<Rightarrow> ConfigCapsuleV3 \<Rightarrow> (anyhow, unit) result"
where
  "validate_descriptor cp fr descriptor capsule =
    (let err = Inl (Bail ''active descriptor does not match the witness-authenticated capsule'') in
     if rd3_config_ref descriptor \<noteq> cc3_config_ref capsule \<or>
        rd3_guardian_material_root descriptor \<noteq> cc3_guardian_material_root capsule \<or>
        rd3_data_shards descriptor \<noteq> cc3_guardian_threshold capsule \<or>
        rd3_total_shards descriptor \<noteq> cc3_guardian_count capsule \<or>
        length (rd3_guardians descriptor) \<noteq> unat (cc3_guardian_count capsule) \<or>
        rd3_dpss_public_commitment descriptor \<noteq> cc3_dpss_public_commitment capsule
     then err else
     bindR (crypt (frost_public_package_digest cp fr (rd3_dpss_public_package descriptor))) (\<lambda>digest.
     if digest \<noteq> cc3_dpss_public_commitment capsule then err else Inr ()))"

definition coordinator_membership ::
    "primitives \<Rightarrow> u16 \<Rightarrow> arr32 \<Rightarrow> byte list \<Rightarrow> ConfigCapsuleV3 \<Rightarrow> (anyhow, unit) result"
where
  "coordinator_membership cp signer_id public_key proof_bytes capsule =
    (if signer_id = 0 then Inl (Bail ''zero signer id'') else
     if signer_id > cc3_signer_count capsule
     then Inl (Bail ''signer id is outside the committed signer set'') else
     bindR (wire (signer_leaf signer_id public_key)) (\<lambda>leaf.
     crypt (merkle_verify cp (cc3_signer_set_commitment capsule) (sha256 cp leaf) (unat (signer_id - 1))
       (unat (cc3_signer_count capsule)) proof_bytes)))"

definition validate_intent_contribution ::
    "primitives \<Rightarrow> SignerRotationIntentContribution \<Rightarrow> RotationIntent \<Rightarrow> Id32 \<Rightarrow> ConfigCapsuleV3 \<Rightarrow> (anyhow, unit) result"
where
  "validate_intent_contribution cp contribution intent intent_hash capsule =
    (if sric_context contribution \<noteq> ri_context intent \<or> sric_intent_hash contribution \<noteq> intent_hash
     then Inl (Bail ''signer intent contribution is transcript-mismatched'') else
     bindR (wire (signer_leaf (sric_signer_id contribution) (sric_signer_public_key contribution))) (\<lambda>leaf.
     if sric_signer_id contribution = 0 then Inl (Bail ''zero signer id'') else
     bindR (crypt (merkle_verify cp (cc3_signer_set_commitment capsule) (sha256 cp leaf)
       (unat (sric_signer_id contribution - 1)) (unat (cc3_signer_count capsule))
       (sric_signer_membership_proof contribution))) (\<lambda>_.
     bindR (wire (signer_rotation_intent_contribution contribution)) (\<lambda>t.
     crypt (verify cp (sric_signer_public_key contribution) t (sric_signer_signature contribution))))))"

section \<open>Votes\<close>

definition validate_signer_begin_vote ::
    "primitives \<Rightarrow> SignerRotationBeginVote \<Rightarrow> RotationPlan \<Rightarrow> ConfigCapsuleV3 \<Rightarrow> (anyhow, unit) result"
where
  "validate_signer_begin_vote cp vote plan predecessor =
    bindR (plan_digest cp plan) (\<lambda>plan_hash.
    if srbv_context vote \<noteq> rp_context plan \<or> srbv_intent_hash vote \<noteq> rp_intent_hash plan \<or>
       srbv_plan_hash vote \<noteq> plan_hash \<or> srbv_old_roster_commitment vote \<noteq> rp_old_roster_commitment plan \<or>
       srbv_new_roster_commitment vote \<noteq> rp_new_roster_commitment plan
    then Inl (Bail ''signer Begin vote does not bind the exact plan'') else
    bindR (coordinator_membership cp (srbv_signer_id vote) (srbv_signer_public_key vote)
      (srbv_signer_membership_proof vote) predecessor) (\<lambda>_.
    bindR (wire (signer_rotation_begin_vote vote)) (\<lambda>t.
    crypt (verify cp (srbv_signer_public_key vote) t (srbv_signer_signature vote)))))"

definition validate_signer_release_vote ::
    "primitives \<Rightarrow> SignerRotationReleaseVote \<Rightarrow> RotationPlan \<Rightarrow> Id32 \<Rightarrow> ConfigCapsuleV3 \<Rightarrow> (anyhow, unit) result"
where
  "validate_signer_release_vote cp vote plan begin_hash predecessor =
    bindR (plan_digest cp plan) (\<lambda>plan_hash.
    if srrv_context vote \<noteq> rp_context plan \<or> srrv_plan_hash vote \<noteq> plan_hash \<or>
       srrv_begin_certificate_hash vote \<noteq> begin_hash
    then Inl (Bail ''signer Release vote does not bind the exact Begin'') else
    bindR (coordinator_membership cp (srrv_signer_id vote) (srrv_signer_public_key vote)
      (srrv_signer_membership_proof vote) predecessor) (\<lambda>_.
    bindR (wire (signer_rotation_release_vote vote)) (\<lambda>t.
    crypt (verify cp (srrv_signer_public_key vote) t (srrv_signer_signature vote)))))"

definition validate_signer_activate_vote ::
    "primitives \<Rightarrow> SignerRotationActivateVote \<Rightarrow> RotationPlan \<Rightarrow> Id32 \<Rightarrow> ConfigCapsuleV3 \<Rightarrow> (anyhow, unit) result"
where
  "validate_signer_activate_vote cp vote plan ready_hash successor =
    bindR (plan_digest cp plan) (\<lambda>plan_hash.
    if srav_context vote \<noteq> rp_context plan \<or> srav_plan_hash vote \<noteq> plan_hash \<or>
       srav_ready_certificate_hash vote \<noteq> ready_hash \<or>
       srav_successor_capsule_hash vote \<noteq> cc3_capsule_hash successor
    then Inl (Bail ''signer Activate vote does not bind the exact successor'') else
    bindR (coordinator_membership cp (srav_signer_id vote) (srav_signer_public_key vote)
      (srav_signer_membership_proof vote) successor) (\<lambda>_.
    bindR (wire (signer_rotation_activate_vote vote)) (\<lambda>t.
    crypt (verify cp (srav_signer_public_key vote) t (srav_signer_signature vote)))))"

definition validate_signer_abort_vote ::
    "primitives \<Rightarrow> SignerRotationAbortVote \<Rightarrow> RotationPlan \<Rightarrow> ConfigCapsuleV3 \<Rightarrow> RotationState \<Rightarrow> u16 \<Rightarrow>
     (anyhow, unit) result"
where
  "validate_signer_abort_vote cp vote plan predecessor state_at_abort reason_code =
    bindR (plan_digest cp plan) (\<lambda>plan_hash.
    if sabv_context vote \<noteq> rp_context plan \<or> sabv_plan_hash vote \<noteq> plan_hash \<or>
       sabv_state_at_abort vote \<noteq> state_at_abort \<or> sabv_reason_code vote \<noteq> reason_code
    then Inl (Bail ''signer Abort vote does not bind the exact plan and reason'') else
    bindR (coordinator_membership cp (sabv_signer_id vote) (sabv_signer_public_key vote)
      (sabv_signer_membership_proof vote) predecessor) (\<lambda>_.
    bindR (wire (signer_rotation_abort_vote vote)) (\<lambda>t.
    crypt (verify cp (sabv_signer_public_key vote) t (sabv_signer_signature vote)))))"

text \<open>The loop over the mailboxes of signers or witnesses: an answer counts when it is one of the asked
  kind, valid, and of an actor that has not been counted; at the threshold the loop ends.\<close>

fun collect ::
    "('v \<Rightarrow> u16) \<Rightarrow> ('a \<Rightarrow> 'v option) \<Rightarrow> ('m \<Rightarrow> 'v \<Rightarrow> bool) \<Rightarrow> nat \<Rightarrow> (nat \<Rightarrow> 'm \<Rightarrow> 'q \<Rightarrow> 'a option) \<Rightarrow> 'q \<Rightarrow>
     nat \<Rightarrow> 'm list \<Rightarrow> 'v list \<Rightarrow> 'v list"
where
  "collect actor_id vote_of valid threshold ask request k [] votes = votes"
| "collect actor_id vote_of valid threshold ask request k (mailbox # mailboxes) votes =
    (let votes = (case Option.bind (ask k mailbox request) vote_of of
         Some vote \<Rightarrow> if valid mailbox vote \<and> actor_id vote \<notin> actor_id ` set votes then votes @ [vote] else votes
       | None \<Rightarrow> votes) in
     if threshold \<le> length votes then votes
     else collect actor_id vote_of valid threshold ask request (Suc k) mailboxes votes)"

fun begin_vote_of :: "SignerRotationResponseV3 \<Rightarrow> SignerRotationBeginVote option" where
  "begin_vote_of (BeginVoted vote) = Some vote" | "begin_vote_of _ = None"

fun release_vote_of :: "SignerRotationResponseV3 \<Rightarrow> SignerRotationReleaseVote option" where
  "release_vote_of (SignerRotationResponseV3.ReleaseVoted vote) = Some vote" | "release_vote_of _ = None"

fun activate_vote_of :: "SignerRotationResponseV3 \<Rightarrow> SignerRotationActivateVote option" where
  "activate_vote_of (ActivateVoted vote) = Some vote" | "activate_vote_of _ = None"

fun abort_vote_of :: "SignerRotationResponseV3 \<Rightarrow> SignerRotationAbortVote option" where
  "abort_vote_of (AbortVoted vote) = Some vote" | "abort_vote_of _ = None"

type_synonym signer_network = "nat \<Rightarrow> string \<Rightarrow> SignerRotationRequestV3 \<Rightarrow> SignerRotationResponseV3 option"

definition collect_signer_begin_votes ::
    "primitives \<Rightarrow> signer_network \<Rightarrow> RecoveryCardV3 \<Rightarrow> RotationPlan \<Rightarrow> ConfigCapsuleV3 \<Rightarrow>
     (anyhow, SignerRotationBeginVote list) result"
where
  "collect_signer_begin_votes cp ask rcard plan predecessor =
    (let threshold = unat (cc3_signer_threshold predecessor);
         votes = collect srbv_signer_id begin_vote_of (\<lambda>_ vote. is_ok (validate_signer_begin_vote cp vote plan predecessor))
           threshold ask (Begin (rp_intent_hash plan) plan) 0 (card3_signer_mailboxes rcard) [] in
     if length votes < threshold then Inl (Bail ''signer Begin threshold was not reached'') else Inr votes)"

definition collect_signer_release_votes ::
    "primitives \<Rightarrow> signer_network \<Rightarrow> RecoveryCardV3 \<Rightarrow> RotationPlan \<Rightarrow> BeginRotationCertificate \<Rightarrow> ConfigCapsuleV3 \<Rightarrow>
     (anyhow, SignerRotationReleaseVote list) result"
where
  "collect_signer_release_votes cp ask rcard plan begin_cert predecessor =
    bindR (wire (begin_rotation_certificate begin_cert)) (\<lambda>t.
    let threshold = unat (cc3_signer_threshold predecessor);
        votes = collect srrv_signer_id release_vote_of
          (\<lambda>_ vote. is_ok (validate_signer_release_vote cp vote plan (sha256 cp t) predecessor))
          threshold ask (Release plan begin_cert) 0 (card3_signer_mailboxes rcard) [] in
    if length votes < threshold then Inl (Bail ''signer Release threshold was not reached'') else Inr votes)"

definition collect_signer_activate_votes ::
    "primitives \<Rightarrow> signer_network \<Rightarrow> RecoveryCardV3 \<Rightarrow> RotationPlan \<Rightarrow> RotationReadyCertificate \<Rightarrow> ConfigCapsuleV3 \<Rightarrow>
     (anyhow, SignerRotationActivateVote list) result"
where
  "collect_signer_activate_votes cp ask rcard plan ready successor =
    bindR (wire (rotation_ready_certificate ready)) (\<lambda>t.
    let threshold = unat (cc3_signer_threshold successor);
        votes = collect srav_signer_id activate_vote_of
          (\<lambda>_ vote. is_ok (validate_signer_activate_vote cp vote plan (sha256 cp t) successor))
          threshold ask (Activate plan ready successor) 0 (card3_signer_mailboxes rcard) [] in
    if length votes < threshold then Inl (Bail ''signer Activate threshold was not reached'') else Inr votes)"

definition collect_signer_abort_votes ::
    "primitives \<Rightarrow> signer_network \<Rightarrow> RecoveryCardV3 \<Rightarrow> byte list \<Rightarrow> RotationPlan \<Rightarrow> ConfigCapsuleV3 \<Rightarrow> RotationState \<Rightarrow> u16 \<Rightarrow>
     SignerRotationAbortVote list"
where
  "collect_signer_abort_votes cp ask rcard coordinator plan predecessor state_at_abort reason_code =
    collect sabv_signer_id abort_vote_of
      (\<lambda>_ vote. is_ok (validate_signer_abort_vote cp vote plan predecessor state_at_abort reason_code))
      (unat (cc3_signer_threshold predecessor)) ask (Abort plan state_at_abort reason_code coordinator) 0
      (card3_signer_mailboxes rcard) []"

section \<open>Acknowledgements\<close>

definition validate_owner_rotation_cancel_ack ::
    "primitives \<Rightarrow> OwnerRotationCancelAck \<Rightarrow> GuardianRouteV3 \<Rightarrow> RotationPlan \<Rightarrow> Id32 \<Rightarrow> (anyhow, unit) result"
where
  "validate_owner_rotation_cancel_ack cp ack route plan cancel_hash =
    (let err = Inl (Bail ''owner rotation-cancel ack is plan- or guardian-mismatched'') in
     if orca_context ack \<noteq> rp_context plan then err else
     bindR (plan_digest cp plan) (\<lambda>plan_hash.
     if orca_plan_hash ack \<noteq> plan_hash \<or> orca_cancel_certificate_hash ack \<noteq> cancel_hash \<or>
        orca_guardian_index ack \<noteq> gr3_guardian_index route
     then err else
     bindR (wire (owner_rotation_cancel_ack ack)) (\<lambda>t.
     crypt (verify cp (gr3_guardian_public_key route) t (orca_guardian_signature ack)))))"

definition validate_witness_activation_ack ::
    "primitives \<Rightarrow> WitnessActivationAck \<Rightarrow> WitnessPin \<Rightarrow> RotationContext \<Rightarrow> Id32 \<Rightarrow> Id32 \<Rightarrow> ConfigCapsuleV3 \<Rightarrow>
     ConfigCapsuleV3 \<Rightarrow> (anyhow, unit) result"
where
  "validate_witness_activation_ack cp ack witness ctx plan_hash activation_hash predecessor successor =
    (if waa_context ack \<noteq> ctx \<or> waa_plan_hash ack \<noteq> plan_hash \<or>
        waa_activation_certificate_hash ack \<noteq> activation_hash \<or> waa_witness_id ack \<noteq> wp_witness_id witness \<or>
        waa_predecessor_epoch ack \<noteq> cr_guardian_epoch (cc3_config_ref predecessor) \<or>
        waa_predecessor_capsule_hash ack \<noteq> cc3_capsule_hash predecessor \<or>
        waa_successor_epoch ack \<noteq> cr_guardian_epoch (cc3_config_ref successor) \<or>
        waa_successor_capsule_hash ack \<noteq> cc3_capsule_hash successor \<or>
        waa_witness_public_key ack \<noteq> wp_public_key witness
     then Inl (Bail ''witness activation ack does not bind the exact successor'') else
     bindR (wire (witness_activation_ack ack)) (\<lambda>t.
     crypt (verify cp (wp_public_key witness) t (waa_witness_signature ack))))"

definition validate_witness_rotation_cancel_ack ::
    "primitives \<Rightarrow> WitnessRotationCancelAck \<Rightarrow> WitnessPin \<Rightarrow> RotationPlan \<Rightarrow> Id32 \<Rightarrow> (anyhow, unit) result"
where
  "validate_witness_rotation_cancel_ack cp ack witness plan cancel_hash =
    (let err = Inl (Bail ''witness rotation-cancel ack is transcript-mismatched'') in
     if wrca_protocol_version ack \<noteq> PROTOCOL_VERSION_V3 \<or>
        wrca_config_id ack \<noteq> cr_config_id (rx_config_ref (rp_context plan)) \<or>
        wrca_rotation_id ack \<noteq> rx_rotation_id (rp_context plan)
     then err else
     bindR (plan_digest cp plan) (\<lambda>plan_hash.
     if wrca_plan_hash ack \<noteq> plan_hash \<or> wrca_cancel_certificate_hash ack \<noteq> cancel_hash \<or>
        wrca_witness_id ack \<noteq> wp_witness_id witness \<or> wrca_witness_public_key ack \<noteq> wp_public_key witness
     then err else
     bindR (wire (witness_rotation_cancel_ack ack)) (\<lambda>t.
     crypt (verify cp (wp_public_key witness) t (wrca_witness_signature ack)))))"

section \<open>Grants and fragments\<close>

definition route_by_id :: "GuardianRouteV3 list \<Rightarrow> u16 \<Rightarrow> (anyhow, GuardianRouteV3) result" where
  "route_by_id routes i =
    ok_or (List.find (\<lambda>route. gr3_guardian_index route = i) routes) (Bail ''guardian route is missing'')"

definition empty_sealed :: SealedMessage where
  "empty_sealed = \<lparr> sm_kem_ciphertext = [], sm_payload = \<lparr> ac_nonce = 0, ac_ciphertext = [] \<rparr> \<rparr>"

definition old_grant ::
    "primitives \<Rightarrow> Id32 \<times> arr24 \<Rightarrow> Id32 \<times> arr24 \<Rightarrow> RotationPlan \<Rightarrow> Id32 \<Rightarrow> GuardianRouteV3 \<Rightarrow> arr32 \<Rightarrow>
     (anyhow, OldShareUnlockGrant) result"
where
  "old_grant cp draw1 draw2 plan release_hash route authorization_key =
    bindR (plan_digest cp plan) (\<lambda>plan_hash.
    let grant = \<lparr> osug_context = rp_context plan, osug_plan_hash = plan_hash,
          osug_release_certificate_hash = release_hash, osug_old_guardian_index = gr3_guardian_index route,
          osug_encrypted_unwrap_key = empty_sealed, osug_encrypted_fragment_key = empty_sealed \<rparr> in
    bindR (crypt (guardian_share_key_v3 cp authorization_key (rp_predecessor plan) (gr3_guardian_index route)))
      (\<lambda>share_key.
    bindR (wire (old_share_unlock_grant_payload_context grant False)) (\<lambda>context.
    bindR (crypt (seal_to_recipient cp (gr3_session_recipient_key route) (fst draw1) (snd draw1) (bytes32 share_key)
      context)) (\<lambda>sealed.
    let grant = grant \<lparr> osug_encrypted_unwrap_key := sealed \<rparr> in
    bindR (crypt (guardian_fragment_key_v3 cp authorization_key (rp_predecessor plan) (gr3_guardian_index route)))
      (\<lambda>fragment_key.
    bindR (wire (old_share_unlock_grant_payload_context grant True)) (\<lambda>context.
    bindR (crypt (seal_to_recipient cp (gr3_session_recipient_key route) (fst draw2) (snd draw2) (bytes32 fragment_key)
      context)) (\<lambda>sealed.
    Inr (grant \<lparr> osug_encrypted_fragment_key := sealed \<rparr>))))))))"

definition new_grant ::
    "primitives \<Rightarrow> Id32 \<times> arr24 \<Rightarrow> Id32 \<times> arr24 \<Rightarrow> RotationPlan \<Rightarrow> Id32 \<Rightarrow> GuardianRouteV3 \<Rightarrow> arr32 \<Rightarrow>
     (anyhow, NewShareWrapGrant) result"
where
  "new_grant cp draw1 draw2 plan release_hash route authorization_key =
    bindR (plan_digest cp plan) (\<lambda>plan_hash.
    let grant = \<lparr> nswg_context = rp_context plan, nswg_plan_hash = plan_hash,
          nswg_release_certificate_hash = release_hash, nswg_new_guardian_index = gr3_guardian_index route,
          nswg_encrypted_wrap_key = empty_sealed, nswg_encrypted_fragment_key = empty_sealed \<rparr> in
    bindR (crypt (guardian_share_key_v3 cp authorization_key (rp_successor plan) (gr3_guardian_index route)))
      (\<lambda>share_key.
    bindR (wire (new_share_wrap_grant_payload_context grant False)) (\<lambda>context.
    bindR (crypt (seal_to_recipient cp (gr3_session_recipient_key route) (fst draw1) (snd draw1) (bytes32 share_key)
      context)) (\<lambda>sealed.
    let grant = grant \<lparr> nswg_encrypted_wrap_key := sealed \<rparr> in
    bindR (crypt (guardian_fragment_key_v3 cp authorization_key (rp_successor plan) (gr3_guardian_index route)))
      (\<lambda>fragment_key.
    bindR (wire (new_share_wrap_grant_payload_context grant True)) (\<lambda>context.
    bindR (crypt (seal_to_recipient cp (gr3_session_recipient_key route) (fst draw2) (snd draw2) (bytes32 fragment_key)
      context)) (\<lambda>sealed.
    Inr (grant \<lparr> nswg_encrypted_fragment_key := sealed \<rparr>))))))))"

definition validate_fragment_contribution ::
    "primitives \<Rightarrow> CiphertextFragmentContribution \<Rightarrow> GuardianRouteV3 \<Rightarrow> RecoveryDescriptorV3 \<Rightarrow> RotationPlan \<Rightarrow> Id32 \<Rightarrow>
     (anyhow, unit) result"
where
  "validate_fragment_contribution cp contribution route descriptor plan release_hash =
    (let err = Inl (Bail ''ciphertext fragment contribution is not bound to the old committed record'');
         leaf = cfc_prepared_record_leaf contribution in
     if cfc_context contribution \<noteq> rp_context plan then err else
     bindR (plan_digest cp plan) (\<lambda>plan_hash.
     if cfc_plan_hash contribution \<noteq> plan_hash \<or> cfc_release_certificate_hash contribution \<noteq> release_hash \<or>
        cfc_old_guardian_index contribution \<noteq> gr3_guardian_index route \<or>
        cfc_fragment_index contribution \<noteq> prl_fragment_index leaf \<or>
        cfc_fragment_commitment contribution \<noteq> sha256 cp (cfc_ciphertext_fragment contribution) \<or>
        prl_guardian_index leaf \<noteq> gr3_guardian_index route \<or> prl_opaque_slot_id leaf \<noteq> gr3_opaque_slot_id route
     then err else
     bindR (wire (ciphertext_fragment_contribution contribution)) (\<lambda>t.
     bindR (crypt (verify cp (gr3_guardian_public_key route) t (cfc_guardian_signature contribution))) (\<lambda>_.
     bindR (ok_or (position_of (gr3_guardian_index route) (rd3_guardians descriptor))
       (Bail ''old guardian is absent from the descriptor'')) (\<lambda>position.
     bindR (wire (prepared_record_leaf_v3 leaf)) (\<lambda>t.
     crypt (merkle_verify cp (rd3_guardian_material_root descriptor) (sha256 cp t) position
       (length (rd3_guardians descriptor)) (cfc_merkle_path_proof contribution))))))))"

text \<open>The messages of a round by the guardian they are for.\<close>

fun distribute ::
    "(u16, SealedMessage list) btree_map \<Rightarrow> DpssDeliveryV3 list \<Rightarrow> GuardianRouteV3 list \<Rightarrow>
     (anyhow, (u16, SealedMessage list) btree_map) result"
where
  "distribute by_recipient [] routes = Inr by_recipient"
| "distribute by_recipient (delivery # deliveries) routes =
    bindR (ok_or (List.find (\<lambda>route. gr3_mailbox route = dd_target_mailbox delivery) routes)
      (Bail ''DPSS delivery target is outside the expected roster'')) (\<lambda>recipient.
    distribute (bt_insert (gr3_guardian_index recipient)
      (unwrap_or (bt_get by_recipient (gr3_guardian_index recipient)) [] @ [dd_sealed_message delivery]) by_recipient)
      deliveries routes)"

definition rotation_actor_mailboxes :: "GuardianRouteV3 list \<Rightarrow> string list" where
  "rotation_actor_mailboxes successors = map gr3_mailbox successors"

end
