(* ===== verification/GP_Rotation_Client.thy ===== *)
theory GP_Rotation_Client
  imports GP_Coordinator_V3 GP_Protocol_V2
begin

text \<open>
  The two commands of \<open>gp-network/src/rotation_coordinator.rs\<close>: \<open>rotate_v3\<close> up to the Release certificate
  and from the Ready certificate to the activated capsule, and \<open>cancel_rotation_v3\<close>. Files, clock
  readings, node information and random draws are arguments. A message whose answer the code
  ignores is an output.
\<close>

definition saturating_sub :: "'a::len word \<Rightarrow> 'a word \<Rightarrow> 'a word" where
  "saturating_sub a b = (if b \<le> a then a - b else 0)"

section \<open>Control files\<close>

record OwnerControlFileV3 =
  ocf_protocol_version :: u16
  ocf_config_ref :: ConfigRef
  ocf_owner_cancel_signing_seed :: Id32
  ocf_owner_cancel_public_key :: arr32
  ocf_guardian_targets :: "(u16, string) btree_map"
  ocf_relay_bases :: "string list"

record RotationControlFileV3 =
  rcf_protocol_version :: u16
  rcf_recovery_card :: RecoveryCardV3
  rcf_predecessor_capsule :: ConfigCapsuleV3
  rcf_plan :: RotationPlan
  rcf_owner_cancel_public_key :: arr32

definition owner_file_matches :: "primitives \<Rightarrow> OwnerControlFileV3 \<Rightarrow> RecoveryCardV3 \<Rightarrow> bool" where
  "owner_file_matches cp owner rcard \<longleftrightarrow> \<not> (ocf_protocol_version owner \<noteq> PROTOCOL_VERSION_V3 \<or>
     cr_config_id (ocf_config_ref owner) \<noteq> card3_config_id rcard \<or>
     ocf_owner_cancel_public_key owner \<noteq> card3_owner_cancel_public_key rcard \<or>
     verifying_key_bytes cp (ocf_owner_cancel_signing_seed owner) \<noteq> ocf_owner_cancel_public_key owner \<or>
     ocf_relay_bases owner \<noteq> card3_relay_bases rcard)"

section \<open>The plan\<close>

definition rotation_context_at :: "ConfigCapsuleV3 \<Rightarrow> Id32 \<Rightarrow> byte list \<Rightarrow> Id32 \<Rightarrow> u64 \<Rightarrow> RotationContext" where
  "rotation_context_at predecessor rotation_id coordinator nonce issued_at =
    \<lparr> rx_protocol_version = PROTOCOL_VERSION_V3, rx_config_ref = cc3_config_ref predecessor, rx_rotation_id = rotation_id,
      rx_predecessor_capsule_hash = cc3_capsule_hash predecessor, rx_recipient_key = coordinator, rx_nonce = nonce,
      rx_issued_at = issued_at,
      rx_expiry = saturating_add (saturating_add issued_at (cc3_minimum_recovery_delay predecessor)) 7200 \<rparr>"

definition planned_exit_intent ::
    "primitives \<Rightarrow> RotationContext \<Rightarrow> ConfigCapsuleV3 \<Rightarrow> u16 \<Rightarrow> Id32 \<Rightarrow> RotationIntent"
where
  "planned_exit_intent cp ctx predecessor remove_guardian read_quorum_hash =
    \<lparr> ri_context = ctx, ri_reason = PlannedExit, ri_old_guardian_count = cc3_guardian_count predecessor,
      ri_old_guardian_threshold = cc3_guardian_threshold predecessor,
      ri_allowed_new_guardian_count = [cc3_guardian_count predecessor],
      ri_allowed_new_guardian_threshold = [cc3_guardian_threshold predecessor],
      ri_allowed_dpss_suites = [ZfFrostRistretto255RtsRefreshV1],
      ri_selection_constraints_commitment = sha256 cp (be16 remove_guardian),
      ri_witness_read_qc_hash = read_quorum_hash \<rparr>"

text \<open>The fields of \<open>NodeInfo\<close> the coordinator reads of the replacement.\<close>

record replacement =
  rep_target :: string
  rep_node_id :: string
  rep_transport_public_key :: "byte list"
  rep_signing_seed :: Id32

definition added_index :: "GuardianRouteV3 list \<Rightarrow> (anyhow, u16) result" where
  "added_index guardians =
    (let last_index = fold max (map gr3_guardian_index guardians) 0 in
     if last_index = - 1 then Inl (Bail ''guardian index overflow'') else Inr (last_index + 1))"

definition replacement_is_new ::
    "primitives \<Rightarrow> replacement \<Rightarrow> GuardianRouteV3 list \<Rightarrow> OwnerControlFileV3 \<Rightarrow> bool"
where
  "replacement_is_new cp info guardians owner \<longleftrightarrow>
    \<not> (\<exists>route \<in> set guardians.
         gr3_operator_domain_commitment route = sha256 cp (as_bytes (rep_node_id info)) \<or>
         gr3_session_recipient_key route = rep_transport_public_key info) \<and>
    \<not> (\<exists>target \<in> set (bt_values (ocf_guardian_targets owner)).
         trim_end_slashes target = trim_end_slashes (rep_target info))"

text \<open>The routes that stay, each with the slot and mailbox drawn for it; the owner must know every target.\<close>

fun refreshed_routes ::
    "OwnerControlFileV3 \<Rightarrow> u16 \<Rightarrow> (nat \<Rightarrow> Id32 \<times> string) \<Rightarrow> nat \<Rightarrow> GuardianRouteV3 list \<Rightarrow>
     (anyhow, GuardianRouteV3 list) result"
where
  "refreshed_routes owner remove_guardian draw k [] = Inr []"
| "refreshed_routes owner remove_guardian draw k (route # routes) =
    (if gr3_guardian_index route = remove_guardian then refreshed_routes owner remove_guardian draw k routes else
     bindR (ok_or (bt_get (ocf_guardian_targets owner) (gr3_guardian_index route))
       (Bail ''owner control lacks an unchanged guardian target'')) (\<lambda>_.
     bindR (refreshed_routes owner remove_guardian draw (Suc k) routes) (\<lambda>rest.
     Inr (route \<lparr> gr3_opaque_slot_id := fst (draw k), gr3_mailbox := snd (draw k) \<rparr> # rest))))"

record plan_draws =
  pld_epoch_binding :: Id32
  pld_routes :: "nat \<Rightarrow> Id32 \<times> string"
  pld_replacement_route :: "Id32 \<times> string"
  pld_session_id :: Id32

definition propose_plan ::
    "primitives \<Rightarrow> plan_draws \<Rightarrow> RotationContext \<Rightarrow> Id32 \<Rightarrow> ConfigCapsuleV3 \<Rightarrow> RecoveryDescriptorV3 \<Rightarrow>
     OwnerControlFileV3 \<Rightarrow> u16 \<Rightarrow> replacement \<Rightarrow> (anyhow, RotationPlan) result"
where
  "propose_plan cp draws ctx intent_hash predecessor descriptor owner remove_guardian info =
    (let guardians = rd3_guardians descriptor in
     bindR (ok_or (List.find (\<lambda>route. gr3_guardian_index route = remove_guardian) guardians)
       (Bail ''removed guardian is absent from the active private roster'')) (\<lambda>_.
     bindR (ok_or (bt_get (ocf_guardian_targets owner) remove_guardian)
       (Bail ''owner control lacks the removed guardian target'')) (\<lambda>_.
     if \<not> replacement_is_new cp info guardians owner
     then Inl (Bail ''replacement guardian must be a new operator and transport endpoint'') else
     bindR (added_index guardians) (\<lambda>added_guardian.
     let predecessor_ref = cc3_config_ref predecessor;
         successor_ref = predecessor_ref \<lparr>
           cr_guardian_epoch := saturating_add (cr_guardian_epoch predecessor_ref) 1,
           cr_epoch_binding := pld_epoch_binding draws \<rparr>;
         replacement_route = \<lparr> gr3_guardian_index = added_guardian,
           gr3_opaque_slot_id = fst (pld_replacement_route draws), gr3_mailbox = snd (pld_replacement_route draws),
           gr3_guardian_public_key = verifying_key_bytes cp (rep_signing_seed info),
           gr3_session_recipient_key = rep_transport_public_key info,
           gr3_operator_domain_commitment = sha256 cp (as_bytes (rep_node_id info)) \<rparr> in
     bindR (refreshed_routes owner remove_guardian (pld_routes draws) 0 guardians) (\<lambda>kept.
     let new_roster = sort_key gr3_guardian_index (kept @ [replacement_route]) in
     bindR (u16_try_from (length new_roster)) (\<lambda>successor_count.
     bindR (wire (guardian_roster_v3 guardians)) (\<lambda>old_bytes.
     bindR (wire (guardian_roster_v3 new_roster)) (\<lambda>new_bytes.
     Inr \<lparr> rp_context = ctx, rp_intent_hash = intent_hash, rp_predecessor = predecessor_ref,
       rp_successor = successor_ref, rp_old_roster = guardians, rp_new_roster = new_roster,
       rp_old_roster_commitment = sha256 cp old_bytes, rp_new_roster_commitment = sha256 cp new_bytes,
       rp_old_guardian_threshold = cc3_guardian_threshold predecessor,
       rp_new_guardian_threshold = cc3_guardian_threshold predecessor,
       rp_data_shards = rd3_data_shards descriptor, rp_total_shards = successor_count,
       rp_dpss_suite = cc3_dpss_suite predecessor, rp_dpss_session_id = pld_session_id draws,
       rp_dpss_qualified_set_commitment = sha256 cp new_bytes,
       rp_minimum_delay_secs = cc3_minimum_recovery_delay predecessor,
       rp_preparation_deadline = saturating_sub (rx_expiry ctx) 600, rp_drain_deadline = rx_expiry ctx \<rparr>))))))))"

section \<open>Certificates\<close>

definition begin_certificate_of :: "RotationPlan \<Rightarrow> Id32 \<Rightarrow> SignerRotationBeginVote list \<Rightarrow> BeginRotationCertificate" where
  "begin_certificate_of plan plan_hash votes =
    \<lparr> brot_context = rp_context plan, brot_intent_hash = rp_intent_hash plan, brot_plan_hash = plan_hash,
      brot_old_roster_commitment = rp_old_roster_commitment plan,
      brot_new_roster_commitment = rp_new_roster_commitment plan,
      brot_not_before_wall = saturating_add (rx_issued_at (rp_context plan)) (rp_minimum_delay_secs plan),
      brot_votes = votes \<rparr>"

definition begin_stage ::
    "primitives \<Rightarrow> signer_network \<Rightarrow> RecoveryCardV3 \<Rightarrow> RotationPlan \<Rightarrow> ConfigCapsuleV3 \<Rightarrow> u64 \<Rightarrow>
     (anyhow, BeginRotationCertificate) result"
where
  "begin_stage cp ask rcard plan predecessor now =
    bindR (plan_digest cp plan) (\<lambda>plan_hash.
    bindR (collect_signer_begin_votes cp ask rcard plan predecessor) (\<lambda>votes.
    let certificate = begin_certificate_of plan plan_hash votes in
    bindR (validate_begin_rotation_certificate_v3 cp certificate plan predecessor now) (\<lambda>_.
    Inr certificate)))"

definition release_certificate_of ::
    "RotationPlan \<Rightarrow> Id32 \<Rightarrow> Id32 \<Rightarrow> SignerRotationReleaseVote list \<Rightarrow> RotationReleaseCertificate"
where
  "release_certificate_of plan plan_hash begin_hash votes =
    \<lparr> rrc_context = rp_context plan, rrc_plan_hash = plan_hash, rrc_begin_certificate_hash = begin_hash,
      rrc_votes = votes \<rparr>"

definition release_stage ::
    "primitives \<Rightarrow> signer_network \<Rightarrow> RecoveryCardV3 \<Rightarrow> RotationPlan \<Rightarrow> BeginRotationCertificate \<Rightarrow> ConfigCapsuleV3 \<Rightarrow> u64 \<Rightarrow>
     (anyhow, RotationReleaseCertificate \<times> Id32) result"
where
  "release_stage cp ask rcard plan begin_cert predecessor now =
    bindR (plan_digest cp plan) (\<lambda>plan_hash.
    bindR (collect_signer_release_votes cp ask rcard plan begin_cert predecessor) (\<lambda>votes.
    bindR (wire (begin_rotation_certificate begin_cert)) (\<lambda>t.
    let release = release_certificate_of plan plan_hash (sha256 cp t) votes in
    bindR (validate_rotation_release_certificate_v3 cp release begin_cert plan predecessor now) (\<lambda>_.
    bindR (wire (rotation_release_certificate release)) (\<lambda>t.
    Inr (release, sha256 cp t))))))"

definition helper_ids :: "ConfigCapsuleV3 \<Rightarrow> RecoveryDescriptorV3 \<Rightarrow> u16 \<Rightarrow> (anyhow, u16 list) result" where
  "helper_ids predecessor descriptor remove_guardian =
    (let threshold = unat (cc3_guardian_threshold predecessor);
         ids = take threshold (filter (\<lambda>i. i \<noteq> remove_guardian) (map gr3_guardian_index (rd3_guardians descriptor))) in
     if length ids < threshold then Inl (Bail ''not enough old guardians remain for FROST RTS'') else Inr ids)"

section \<open>Activation\<close>

text \<open>The successor capsule over the result of the resharing.\<close>

definition successor_capsule ::
    "primitives \<Rightarrow> RotationPlan \<Rightarrow> ConfigCapsuleV3 \<Rightarrow> Id32 \<Rightarrow> Id32 \<Rightarrow> AeadCiphertext \<Rightarrow> (anyhow, ConfigCapsuleV3) result"
where
  "successor_capsule cp plan predecessor material_root dpss_result_commitment encrypted_descriptor =
    bindR (u16_try_from (length (rp_new_roster plan))) (\<lambda>successor_count.
    let successor = \<lparr> cc3_protocol_version = PROTOCOL_VERSION_V3, cc3_config_ref = rp_successor plan,
          cc3_capsule_hash = 0, cc3_predecessor_capsule_hash = cc3_capsule_hash predecessor,
          cc3_signer_count = cc3_signer_count predecessor, cc3_signer_threshold = cc3_signer_threshold predecessor,
          cc3_guardian_count = successor_count, cc3_guardian_threshold = rp_new_guardian_threshold plan,
          cc3_minimum_recovery_delay = cc3_minimum_recovery_delay predecessor,
          cc3_max_request_lifetime = cc3_max_request_lifetime predecessor,
          cc3_signer_set_commitment = cc3_signer_set_commitment predecessor,
          cc3_owner_cancel_public_key = cc3_owner_cancel_public_key predecessor,
          cc3_dpss_suite = cc3_dpss_suite predecessor, cc3_dpss_public_commitment = dpss_result_commitment,
          cc3_ciphertext_fragment_root = cc3_ciphertext_fragment_root predecessor,
          cc3_guardian_material_root = material_root, cc3_encrypted_recovery_descriptor = encrypted_descriptor,
          cc3_activation_certificate = None, cc3_activation_qc = None \<rparr> in
    bindR (wire (config_capsule_body_v3 successor)) (\<lambda>t.
    Inr (successor \<lparr> cc3_capsule_hash := sha256 cp t \<rparr>)))"

type_synonym ('q, 'a) witness_network = "nat \<Rightarrow> WitnessPin \<Rightarrow> 'q \<Rightarrow> 'a option"

text \<open>The witnesses are asked in turn; every valid acknowledgement counts.\<close>

fun collect_activation_acks ::
    "(WitnessPin \<Rightarrow> WitnessActivationAck \<Rightarrow> bool) \<Rightarrow> nat \<Rightarrow> (ConfigCapsuleV3 \<times> RotationActivateCertificate, WitnessActivationAck)
     witness_network \<Rightarrow> ConfigCapsuleV3 \<times> RotationActivateCertificate \<Rightarrow> nat \<Rightarrow> WitnessPin list \<Rightarrow> WitnessActivationAck list \<Rightarrow>
     WitnessActivationAck list"
where
  "collect_activation_acks valid required ask request k [] acks = acks"
| "collect_activation_acks valid required ask request k (witness # witnesses) acks =
    (let acks = (case ask k witness request of
         Some ack \<Rightarrow> if valid witness ack then acks @ [ack] else acks
       | None \<Rightarrow> acks) in
     if required \<le> length acks then acks
     else collect_activation_acks valid required ask request (Suc k) witnesses acks)"

definition activation_stage ::
    "primitives \<Rightarrow> signer_network \<Rightarrow> (ConfigCapsuleV3 \<times> RotationActivateCertificate, WitnessActivationAck) witness_network \<Rightarrow>
     RecoveryCardV3 \<Rightarrow> RotationPlan \<Rightarrow> RotationReadyCertificate \<Rightarrow> ConfigCapsuleV3 \<Rightarrow> ConfigCapsuleV3 \<Rightarrow>
     (anyhow, ConfigCapsuleV3) result"
where
  "activation_stage cp ask ask_witness rcard plan ready predecessor successor =
    bindR (plan_digest cp plan) (\<lambda>plan_hash.
    bindR (collect_signer_activate_votes cp ask rcard plan ready successor) (\<lambda>votes.
    bindR (wire (rotation_ready_certificate ready)) (\<lambda>ready_bytes.
    let activation = \<lparr> rac_context = rp_context plan, rac_plan_hash = plan_hash,
          rac_ready_certificate_hash = sha256 cp ready_bytes, rac_successor = rp_successor plan,
          rac_successor_capsule_hash = cc3_capsule_hash successor, rac_votes = votes \<rparr> in
    bindR (wire (rotation_activate_certificate activation)) (\<lambda>activation_bytes.
    let activation_hash = sha256 cp activation_bytes;
        required = unat (card3_witness_fault_bound rcard) * 2 + 1;
        acks = collect_activation_acks (\<lambda>witness ack. is_ok (validate_witness_activation_ack cp ack witness
            (rp_context plan) plan_hash activation_hash predecessor successor))
          required ask_witness (successor, activation) 0 (card3_witnesses rcard) [] in
    if length acks < required then Inl (Bail ''witness activation quorum was not reached'') else
    let qc = \<lparr> qc_protocol_version = PROTOCOL_VERSION_V3, qc_config_id = card3_config_id rcard,
          qc_rotation_id = rx_rotation_id (rp_context plan),
          qc_predecessor_epoch = cr_guardian_epoch (cc3_config_ref predecessor),
          qc_predecessor_capsule_hash = cc3_capsule_hash predecessor,
          qc_successor_epoch = cr_guardian_epoch (rp_successor plan),
          qc_successor_capsule_hash = cc3_capsule_hash successor, qc_activation_certificate_hash = activation_hash,
          qc_witness_fault_bound = card3_witness_fault_bound rcard, qc_witness_acks = acks \<rparr> in
    bindR (wire (epoch_activation_qc qc)) (\<lambda>_.
    let activated = successor \<lparr> cc3_activation_certificate := Some activation, cc3_activation_qc := Some qc \<rparr> in
    bindR (validate_activated_capsule_v3 cp rcard activated) (\<lambda>_. Inr activated))))))"

section \<open>Cancellation by the owner\<close>

record CancelRotationV3Result =
  crr_rotation_id :: string
  crr_witness_acknowledgements :: nat
  crr_required_witness_acknowledgements :: nat
  crr_old_guardian_acknowledgements :: nat
  crr_required_old_guardian_acknowledgements :: nat
  crr_signer_cancel_finalizations :: nat
  crr_permanently_cancelled :: bool

record cancel_network =
  cn_witness :: "(OwnerRotationCancelCertificate, WitnessRotationCancelAck) witness_network"
  cn_guardian :: "nat \<Rightarrow> string \<Rightarrow> GuardianRotationRequestV3 \<Rightarrow> GuardianRotationResponseV3 option"
  cn_signer :: signer_network
  cn_finalize :: signer_network

definition control_files_agree :: "primitives \<Rightarrow> RotationControlFileV3 \<Rightarrow> OwnerControlFileV3 \<Rightarrow> bool" where
  "control_files_agree cp control owner \<longleftrightarrow> \<not> (rcf_protocol_version control \<noteq> PROTOCOL_VERSION_V3 \<or>
     ocf_protocol_version owner \<noteq> PROTOCOL_VERSION_V3 \<or>
     cc3_config_ref (rcf_predecessor_capsule control) \<noteq> ocf_config_ref owner \<or>
     rp_predecessor (rcf_plan control) \<noteq> ocf_config_ref owner \<or>
     rx_config_ref (rp_context (rcf_plan control)) \<noteq> ocf_config_ref owner \<or>
     rcf_owner_cancel_public_key control \<noteq> ocf_owner_cancel_public_key owner \<or>
     card3_config_id (rcf_recovery_card control) \<noteq> cr_config_id (ocf_config_ref owner) \<or>
     card3_relay_bases (rcf_recovery_card control) \<noteq> ocf_relay_bases owner \<or>
     verifying_key_bytes cp (ocf_owner_cancel_signing_seed owner) \<noteq> ocf_owner_cancel_public_key owner)"

definition owner_certificate ::
    "primitives \<Rightarrow> OwnerControlFileV3 \<Rightarrow> RotationPlan \<Rightarrow> Id32 \<Rightarrow> byte list \<Rightarrow> (anyhow, OwnerRotationCancelCertificate) result"
where
  "owner_certificate cp owner plan plan_hash recipient =
    (let certificate = \<lparr> orcc_context = rp_context plan, orcc_plan_hash = plan_hash, orcc_reason_code = 1,
           orcc_cancel_response_recipient_key = recipient,
           orcc_owner_cancel_public_key = ocf_owner_cancel_public_key owner, orcc_owner_signature = [] \<rparr> in
     bindR (wire (owner_rotation_cancel_certificate certificate)) (\<lambda>t.
     Inr (certificate \<lparr> orcc_owner_signature := sign cp (ocf_owner_cancel_signing_seed owner) t \<rparr>)))"

text \<open>The old guardians whose valid acknowledgement came back.\<close>

fun old_acknowledgements ::
    "primitives \<Rightarrow> (nat \<Rightarrow> string \<Rightarrow> GuardianRotationRequestV3 \<Rightarrow> GuardianRotationResponseV3 option) \<Rightarrow> RotationPlan \<Rightarrow>
     OwnerRotationCancelCertificate \<Rightarrow> Id32 \<Rightarrow> nat \<Rightarrow> GuardianRouteV3 list \<Rightarrow> u16 set"
where
  "old_acknowledgements cp ask plan certificate cancel_hash k [] = {}"
| "old_acknowledgements cp ask plan certificate cancel_hash k (route # routes) =
    (let rest = old_acknowledgements cp ask plan certificate cancel_hash (Suc k) routes in
     case ask k (gr3_mailbox route) (RotationCancel plan certificate) of
       Some (RotationCancelled ack) \<Rightarrow>
         (if is_ok (validate_owner_rotation_cancel_ack cp ack route plan cancel_hash)
          then insert (orca_guardian_index ack) rest else rest)
     | _ \<Rightarrow> rest)"

text \<open>The abort of the signers is sent to every mailbox of the plan once, when it is valid.\<close>

definition abort_notices ::
    "primitives \<Rightarrow> RotationPlan \<Rightarrow> ConfigCapsuleV3 \<Rightarrow> Id32 \<Rightarrow> SignerRotationAbortVote list \<Rightarrow> u64 option \<Rightarrow>
     (anyhow, (string \<times> GuardianRotationRequestV3) list) result"
where
  "abort_notices cp plan predecessor plan_hash votes wall_now =
    (if length votes < unat (cc3_signer_threshold predecessor) then Inr [] else
     let abort = \<lparr> abc_context = rp_context plan, abc_plan_hash = plan_hash,
           abc_state_at_abort = RotationState.DelayPending, abc_reason_code = 1, abc_votes = votes \<rparr> in
     bindR (ok_or wall_now (Bail ''second time provided was later than self'')) (\<lambda>now.
     if \<not> is_ok (validate_abort_rotation_certificate_v3 cp abort plan predecessor now) then Inr [] else
     let mailboxes = map fst (fold (\<lambda>route. bt_insert (gr3_mailbox route) ()) (rp_old_roster plan @ rp_new_roster plan) []) in
     Inr (map (\<lambda>mailbox. (mailbox, RotationAbort plan abort)) mailboxes)))"

fun finalized_signers ::
    "signer_network \<Rightarrow> SignerRotationRequestV3 \<Rightarrow> nat \<Rightarrow> string list \<Rightarrow> string set"
where
  "finalized_signers ask request k [] = {}"
| "finalized_signers ask request k (mailbox # mailboxes) =
    (let rest = finalized_signers ask request (Suc k) mailboxes in
     if ask k mailbox request = Some OwnerCancelFinalized then insert mailbox rest else rest)"

definition cancel_rotation_v3 ::
    "primitives \<Rightarrow> (Id32 \<Rightarrow> string) \<Rightarrow> (nat \<Rightarrow> u64 option) \<Rightarrow> byte list \<Rightarrow> cancel_network \<Rightarrow> RotationControlFileV3 \<Rightarrow>
     OwnerControlFileV3 \<Rightarrow> (anyhow, CancelRotationV3Result \<times> (string \<times> GuardianRotationRequestV3) list) result"
where
  "cancel_rotation_v3 cp hx clock recipient net control owner =
    (let plan = rcf_plan control; predecessor = rcf_predecessor_capsule control; rcard = rcf_recovery_card control;
         no_clock = Bail ''second time provided was later than self'' in
     if \<not> control_files_agree cp control owner
     then Inl (Bail ''rotation-control and owner-control files do not describe the same active epoch'') else
     bindR (validate_activated_capsule_v3 cp rcard predecessor) (\<lambda>_.
     bindR (ok_or (clock 0) no_clock) (\<lambda>now.
     bindR (validate_rotation_plan_v3 cp plan predecessor now) (\<lambda>plan_hash.
     bindR (owner_certificate cp owner plan plan_hash recipient) (\<lambda>certificate.
     bindR (wire (owner_rotation_cancel_certificate certificate)) (\<lambda>cancel_bytes.
     let cancel_hash = sha256 cp cancel_bytes in
     bindR (ok_or (Option.bind (checked_mul (unat (card3_witness_fault_bound rcard)) 2) (\<lambda>value. checked_add value 1))
       (Bail ''witness cancellation threshold overflow'')) (\<lambda>required_witness_acks.
     let witness_acks = collect wrca_witness_id Some
           (\<lambda>witness ack. is_ok (validate_witness_rotation_cancel_ack cp ack witness plan cancel_hash))
           required_witness_acks (cn_witness net) certificate 0 (card3_witnesses rcard) [] in
     if length witness_acks < required_witness_acks
     then Inl (Bail ''owner cancellation did not reach the 2f+1 witness veto quorum'') else
     bindR (ok_or (clock 1) no_clock) (\<lambda>now.
     bindR (validate_owner_rotation_cancel_witness_quorum_v3 cp certificate witness_acks rcard plan predecessor now) (\<lambda>_.
     let old_ack_ids = old_acknowledgements cp (cn_guardian net) plan certificate cancel_hash 0 (rp_old_roster plan);
         old_count = length (rp_old_roster plan); old_threshold = unat (rp_old_guardian_threshold plan) in
     if old_count < old_threshold then Inl (Bail ''old cancellation threshold overflow'') else
     let required_old_acks = old_count - old_threshold + 1 in
     if card old_ack_ids < required_old_acks
     then Inl (Bail ''owner cancellation did not leave fewer than the old handoff threshold'') else
     let old_ids = gr3_guardian_index ` set (rp_old_roster plan);
         cancel_notices = map (\<lambda>route. (gr3_mailbox route, RotationCancel plan certificate))
           (filter (\<lambda>route. gr3_guardian_index route \<notin> old_ids) (rp_new_roster plan));
         abort_votes = collect_signer_abort_votes cp (cn_signer net) rcard recipient plan predecessor
           RotationState.DelayPending 1 in
     bindR (abort_notices cp plan predecessor plan_hash abort_votes (clock 2)) (\<lambda>notices.
     let signer_cancel_ids = finalized_signers (cn_finalize net)
           (FinalizeOwnerCancel plan certificate witness_acks recipient) 0 (card3_signer_mailboxes rcard) in
     Inr (\<lparr> crr_rotation_id = hx (rx_rotation_id (rp_context plan)),
         crr_witness_acknowledgements = length witness_acks,
         crr_required_witness_acknowledgements = required_witness_acks,
         crr_old_guardian_acknowledgements = card old_ack_ids,
         crr_required_old_guardian_acknowledgements = required_old_acks,
         crr_signer_cancel_finalizations = card signer_cancel_ids, crr_permanently_cancelled = True \<rparr>,
       cancel_notices @ notices)))))))))))"

end
