(* ===== verification/GP_Client_Safety.thy ===== *)
theory GP_Client_Safety
  imports GP_Rotation_Client GP_Recovery_Roundtrip GP_Guardian_Instances GP_Frost_Safety
begin

text \<open>
  What the rotation coordinator assembles is what the other parts accept: plans, certificates and
  grants; and what a cancellation by the owner that reports success has achieved.
\<close>

section \<open>Collected votes\<close>

lemma collect_distinct:
  "distinct (map actor_id votes) \<Longrightarrow>
   distinct (map actor_id (collect actor_id vote_of valid threshold ask request k ms votes))"
  by (induction actor_id vote_of valid threshold ask request k ms votes rule: collect.induct)
    (auto simp: Let_def split: option.splits)

lemma collect_valid:
  "v \<in> set (collect actor_id vote_of valid threshold ask request k ms votes) \<Longrightarrow>
   v \<in> set votes \<or> (\<exists>m \<in> set ms. valid m v)"
  by (induction actor_id vote_of valid threshold ask request k ms votes rule: collect.induct)
    (auto simp: Let_def split: option.splits if_splits)

lemmas collected = collect_distinct [where votes = "[]", simplified] collect_valid [where votes = "[]", simplified]


lemma is_ok_unit: "is_ok (r :: ('e, unit) result) \<longleftrightarrow> r = Inr ()"
  by (cases r) (simp_all add: is_ok_def)


lemma validated_plan_digest: "validate_rotation_plan_v3 cp plan p now = Inr h \<Longrightarrow> plan_digest cp plan = Inr h"
  by (auto simp: validate_rotation_plan_v3_def plan_digest_def Let_def split: if_splits)




section \<open>Grants\<close>

lemma key_of_bytes32 [simp]: "key_of (bytes32 k) = k"
proof -
  have "unat k < 256 ^ 32" using unsigned_less [of k, where 'a = nat] by simp
  then have "from_be (be_bytes 32 (unat k)) = unat k" by (rule from_be_be_bytes)
  then show ?thesis by (simp add: key_of_def bytes32_def)
qed

lemma grant_context_sealed:
  "old_share_unlock_grant_payload_context (g \<lparr> osug_encrypted_unwrap_key := a \<rparr>) f = old_share_unlock_grant_payload_context g f"
  "old_share_unlock_grant_payload_context (g \<lparr> osug_encrypted_fragment_key := a \<rparr>) f = old_share_unlock_grant_payload_context g f"
  "new_share_wrap_grant_payload_context (n \<lparr> nswg_encrypted_wrap_key := a \<rparr>) f = new_share_wrap_grant_payload_context n f"
  "new_share_wrap_grant_payload_context (n \<lparr> nswg_encrypted_fragment_key := a \<rparr>) f = new_share_wrap_grant_payload_context n f"
  by (simp_all add: old_share_unlock_grant_payload_context_def new_share_wrap_grant_payload_context_def)

text \<open>C13: the coordinator and a helper agree on the way to the old share: a helper whose record holds its
  share and its fragment encrypted under the keys of the authorization key for the predecessor epoch
  and its own index gets exactly both back from the grant the coordinator seals for its route, for the
  release the grant names and no other.\<close>

theorem old_grant_opens:
  assumes laws: "aead_correct cp" "kem_correct cp"
    and route: "guardian_route entry plan False = Inr route" "gr3_session_recipient_key route = xwing_public cp seed"
    and grant: "old_grant cp d1 d2 plan release_hash route key = Inr grant" "old_share_unlock_grant grant = Inr bytes"
    and held: "ges_active (epoch_store entry) = Some rec" "gp3_config_ref (grec3_policy rec) = rp_predecessor plan"
      "grec3_guardian_index rec = gr3_guardian_index route"
    and share: "guardian_share_key_v3 cp key (rp_predecessor plan) (gr3_guardian_index route) = Inr share_key"
      "guardian_share_context_v3 (rp_predecessor plan) (gr3_guardian_index route) = Inr c1"
      "aead_encrypt cp share_key n1 share c1 = Inr (grec3_encrypted_dek_share rec)"
    and fragment: "guardian_fragment_key_v3 cp key (rp_predecessor plan) (gr3_guardian_index route) = Inr fragment_key"
      "guardian_fragment_context_v3 (rp_predecessor plan) (gr3_guardian_index route) (grec3_fragment_index rec) = Inr c2"
      "aead_encrypt cp fragment_key n2 fragment c2 = Inr (grec3_encrypted_ciphertext_fragment rec)"
  shows "open_old_material cp entry seed plan grant r =
    (if r = release_hash then Inr (share, fragment) else Inl (Bail ''old-share grant does not bind this guardian and release''))"
proof -
  from grant(1) share(1) fragment(1) obtain h p1 p2 s1 s2 where
    h: "plan_digest cp plan = Inr h" and
    g: "grant = \<lparr> osug_context = rp_context plan, osug_plan_hash = h, osug_release_certificate_hash = release_hash,
      osug_old_guardian_index = gr3_guardian_index route, osug_encrypted_unwrap_key = s1, osug_encrypted_fragment_key = s2 \<rparr>" and
    p: "old_share_unlock_grant_payload_context grant False = Inr p1" "old_share_unlock_grant_payload_context grant True = Inr p2" and
    s: "seal_to_recipient cp (gr3_session_recipient_key route) (fst d1) (snd d1) (bytes32 share_key) p1 = Inr s1"
      "seal_to_recipient cp (gr3_session_recipient_key route) (fst d2) (snd d2) (bytes32 fragment_key) p2 = Inr s2"
    by (auto simp: old_grant_def Let_def old_share_unlock_grant_payload_context_def)
  note o = open_sealed_seal [OF laws s(1) [unfolded route(2)]] open_sealed_seal [OF laws s(2) [unfolded route(2)]]
  have d: "aead_decrypt cp share_key (grec3_encrypted_dek_share rec) c1 = Inr share"
    "aead_decrypt cp fragment_key (grec3_encrypted_ciphertext_fragment rec) c2 = Inr fragment"
    by (rule aead_decrypt_encrypt(1) [OF laws(1)], fact)+
  show ?thesis using h g p o d route(1) grant(2) held share(2) fragment(2)
    by (simp add: open_old_material_def wire_def crypt_def Let_def)
qed

section \<open>Cancellation by the owner\<close>

lemma old_ack_sound:
  "i \<in> old_acknowledgements cp ask plan certificate ch k routes \<Longrightarrow>
   \<exists>ack. \<exists>route \<in> set routes. gr3_guardian_index route = i \<and> orca_guardian_index ack = i \<and>
     validate_owner_rotation_cancel_ack cp ack route plan ch = Inr ()"
proof (induction routes arbitrary: k)
  case (Cons route routes)
  from Cons.prems consider "i \<in> old_acknowledgements cp ask plan certificate ch (Suc k) routes"
    | ack where "validate_owner_rotation_cancel_ack cp ack route plan ch = Inr ()" "i = orca_guardian_index ack"
    by (auto simp: is_ok_unit Let_def split: option.splits GuardianRotationResponseV3.splits if_splits)
  then show ?case
  proof cases
    case 1
    from Cons.IH [OF this] show ?thesis by auto
  next
    case 2
    then have "orca_guardian_index ack = gr3_guardian_index route"
      by (auto simp: validate_owner_rotation_cancel_ack_def Let_def split: if_splits)
    with 2 show ?thesis by auto
  qed
qed simp

lemma few_left:
  assumes "finite I" "A \<subseteq> I" "card I \<le> n" "t \<le> n" "n - t + 1 \<le> card A"
  shows "card (I - A) < (t :: nat)"
  using assms card_mono [OF assms(1,2)] card_Diff_subset [OF finite_subset [OF assms(2,1)] assms(2)] by linarith

lemma cancel_rotation_elim:
  assumes "cancel_rotation_v3 cp hx clock recipient net control owner = Inr (res, notices)"
  defines "plan \<equiv> rcf_plan control" and "rcard \<equiv> rcf_recovery_card control"
  defines "acks \<equiv> \<lambda>certificate bytes required. collect wrca_witness_id Some
       (\<lambda>witness ack. is_ok (validate_witness_rotation_cancel_ack cp ack witness plan (sha256 cp bytes)))
       required (cn_witness net) certificate 0 (card3_witnesses rcard) []"
    and "old \<equiv> \<lambda>certificate bytes. old_acknowledgements cp (cn_guardian net) plan certificate (sha256 cp bytes) 0 (rp_old_roster plan)"
  obtains plan_hash certificate bytes required now h where
    "owner_certificate cp owner plan plan_hash recipient = Inr certificate"
    "owner_rotation_cancel_certificate certificate = Inr bytes"
    "Option.bind (checked_mul (unat (card3_witness_fault_bound rcard)) 2) (\<lambda>value. checked_add value 1) = Some required"
    "required \<le> length (acks certificate bytes required)"
    "validate_owner_rotation_cancel_witness_quorum_v3 cp certificate (acks certificate bytes required) rcard plan
       (rcf_predecessor_capsule control) now = Inr h"
    "unat (rp_old_guardian_threshold plan) \<le> length (rp_old_roster plan)"
    "length (rp_old_roster plan) - unat (rp_old_guardian_threshold plan) + 1 \<le> card (old certificate bytes)"
    "crr_witness_acknowledgements res = length (acks certificate bytes required)"
    "crr_old_guardian_acknowledgements res = card (old certificate bytes)"
proof -
  from assms(1) show thesis
    unfolding cancel_rotation_v3_def Let_def plan_def [symmetric] rcard_def [symmetric] acks_def [symmetric] old_def [symmetric]
    by (clarsimp simp: ok_or_eq_Inr not_less split: if_splits simp del: One_nat_def)
      (erule (5) that [unfolded acks_def old_def]; simp)
qed

text \<open>C10: an owner's cancellation that reports success has stopped the rotation: the certificate signed by
  the owner is acknowledged by a quorum of distinct witnesses the card pins, and the old guardians
  without a valid, signed acknowledgement are fewer than the threshold the rotation would need of them.\<close>

theorem owner_cancellation_effective:
  assumes "cancel_rotation_v3 cp hx clock recipient net control owner = Inr (res, notices)"
  shows "\<exists>certificate bytes acks now h A.
    validate_owner_rotation_cancel_witness_quorum_v3 cp certificate acks (rcf_recovery_card control) (rcf_plan control)
      (rcf_predecessor_capsule control) now = Inr h \<and>
    orcc_owner_cancel_public_key certificate = ocf_owner_cancel_public_key owner \<and>
    owner_rotation_cancel_certificate certificate = Inr bytes \<and> distinct (map wrca_witness_id acks) \<and>
    2 * unat (card3_witness_fault_bound (rcf_recovery_card control)) + 1 \<le> length acks \<and>
    crr_witness_acknowledgements res = length acks \<and> crr_old_guardian_acknowledgements res = card A \<and>
    A \<subseteq> gr3_guardian_index ` set (rp_old_roster (rcf_plan control)) \<and>
    (\<forall>i \<in> A. \<exists>ack. \<exists>route \<in> set (rp_old_roster (rcf_plan control)). gr3_guardian_index route = i \<and> orca_guardian_index ack = i \<and>
       validate_owner_rotation_cancel_ack cp ack route (rcf_plan control) (sha256 cp bytes) = Inr ()) \<and>
    card (gr3_guardian_index ` set (rp_old_roster (rcf_plan control)) - A) < unat (rp_old_guardian_threshold (rcf_plan control))"
proof -
  let ?plan = "rcf_plan control" and ?card = "rcf_recovery_card control"
  let ?acks = "\<lambda>certificate bytes required. collect wrca_witness_id Some
       (\<lambda>witness ack. is_ok (validate_witness_rotation_cancel_ack cp ack witness ?plan (sha256 cp bytes)))
       required (cn_witness net) certificate 0 (card3_witnesses ?card) []"
  from assms obtain plan_hash certificate bytes required now h where
    own: "owner_certificate cp owner ?plan plan_hash recipient = Inr certificate" and
    bytes: "owner_rotation_cancel_certificate certificate = Inr bytes" and
    req: "Option.bind (checked_mul (unat (card3_witness_fault_bound ?card)) 2) (\<lambda>value. checked_add value 1) = Some required" and
    enough: "required \<le> length (?acks certificate bytes required)" and
    quorum: "validate_owner_rotation_cancel_witness_quorum_v3 cp certificate (?acks certificate bytes required) ?card ?plan
       (rcf_predecessor_capsule control) now = Inr h" and
    old: "unat (rp_old_guardian_threshold ?plan) \<le> length (rp_old_roster ?plan)"
      "length (rp_old_roster ?plan) - unat (rp_old_guardian_threshold ?plan) + 1 \<le>
        card (old_acknowledgements cp (cn_guardian net) ?plan certificate (sha256 cp bytes) 0 (rp_old_roster ?plan))" and
    res: "crr_witness_acknowledgements res = length (?acks certificate bytes required)"
      "crr_old_guardian_acknowledgements res = card (old_acknowledgements cp (cn_guardian net) ?plan certificate (sha256 cp bytes) 0
        (rp_old_roster ?plan))"
    by (rule cancel_rotation_elim)
  define acks where "acks = ?acks certificate bytes required"
  note enough = enough [folded acks_def] and quorum = quorum [folded acks_def] and res = res [folded acks_def]
  let ?A = "old_acknowledgements cp (cn_guardian net) ?plan certificate (sha256 cp bytes) 0 (rp_old_roster ?plan)"
  have sound: "\<exists>ack. \<exists>route \<in> set (rp_old_roster ?plan). gr3_guardian_index route = i \<and> orca_guardian_index ack = i \<and>
       validate_owner_rotation_cancel_ack cp ack route ?plan (sha256 cp bytes) = Inr ()" if "i \<in> ?A" for i
    using that by (rule old_ack_sound)
  then have sub: "?A \<subseteq> gr3_guardian_index ` set (rp_old_roster ?plan)" by blast
  have "card (gr3_guardian_index ` set (rp_old_roster ?plan)) \<le> length (rp_old_roster ?plan)"
    using card_image_le [of "set (rp_old_roster ?plan)" gr3_guardian_index] card_length le_trans by blast
  with few_left [OF _ sub _ old] have few: "card (gr3_guardian_index ` set (rp_old_roster ?plan) - ?A) <
    unat (rp_old_guardian_threshold ?plan)" by blast
  have d: "distinct (map wrca_witness_id acks)" unfolding acks_def by (rule collected(1))
  from req have n: "required = 2 * unat (card3_witness_fault_bound ?card) + 1"
    by (auto simp: checked_mul_def checked_add_def split: if_splits Option.bind_splits)
  from own have key: "orcc_owner_cancel_public_key certificate = ocf_owner_cancel_public_key owner"
    by (auto simp: owner_certificate_def Let_def)
  show ?thesis
    using quorum key bytes d enough n res sub sound few by (intro exI [of _ certificate] exI [of _ bytes] exI [of _ acks]
      exI [of _ now] exI [of _ h] exI [of _ ?A] conjI ballI) auto
qed

section \<open>The proposed plan\<close>

lemma refreshed_ids:
  "refreshed_routes owner r draw k routes = Inr kept \<Longrightarrow>
   map gr3_guardian_index kept = filter (\<lambda>i. i \<noteq> r) (map gr3_guardian_index routes)"
  by (induction routes arbitrary: k kept) (auto simp: ok_or_eq_Inr split: if_splits)

lemma fold_max_le: "x \<in> insert m (set xs) \<Longrightarrow> x \<le> fold max xs (m :: 'a::linorder)"
proof (induction xs arbitrary: m x)
  case (Cons a xs)
  have "m \<le> fold max xs (max a m)" "a \<le> fold max xs (max a m)"
    using Cons.IH [of "max a m" "max a m"] by simp_all
  with Cons show ?case by auto
qed simp

lemma added_index_fresh: "added_index routes = Inr a \<Longrightarrow> a \<notin> gr3_guardian_index ` set routes"
proof
  assume a: "added_index routes = Inr a" and mem: "a \<in> gr3_guardian_index ` set routes"
  let ?m = "fold max (map gr3_guardian_index routes) 0"
  from a have m: "?m \<noteq> - 1" "a = ?m + 1" by (auto simp: added_index_def Let_def split: if_splits)
  have "a \<le> ?m" by (rule fold_max_le) (use mem in auto)
  moreover have "?m < ?m + 1"
  proof -
    have "unat ?m \<noteq> unat (- 1 :: u16)" using m(1) by (simp only: word_unat_eq_iff not_False_eq_True)
    moreover have "unat (- 1 :: u16) = 65535" by (simp add: unat_max_word)
    ultimately have "unat ?m + 1 < 2 ^ 16" using unsigned_less [of ?m, where 'a = nat] by simp
    with saturating_add_one_less [OF m(1)] show ?thesis by (simp add: saturating_add_def)
  qed
  ultimately show False using m(2) by simp
qed

lemma kept_ids_length:
  "distinct ids \<Longrightarrow> r \<in> set ids \<Longrightarrow> Suc (length (filter (\<lambda>i. i \<noteq> r) ids)) = length ids"
proof (induction ids)
  case (Cons i ids)
  then show ?case by (cases "i = r") (auto simp: filter_id_conv intro!: arg_cong [where f = length])
qed simp

lemma map_sort_key: "map f (sort_key f xs) = sort (map f xs)"
proof (induction xs)
  case (Cons x xs)
  have "map f (insort_key f x ys) = insort (f x) (map f ys)" for ys by (induction ys) auto
  with Cons show ?case by simp
qed simp

lemma proposed_fields:
  assumes "propose_plan cp draws ctx ih predecessor descriptor owner r info = Inr plan"
  obtains kept a bytes bytes' where
    "r \<in> gr3_guardian_index ` set (rd3_guardians descriptor)" "added_index (rd3_guardians descriptor) = Inr a"
    "refreshed_routes owner r (pld_routes draws) 0 (rd3_guardians descriptor) = Inr kept"
    "map gr3_guardian_index (rp_new_roster plan) = sort (map gr3_guardian_index kept @ [a])"
    "u16_try_from (length (rp_new_roster plan)) = Inr (rp_total_shards plan)"
    "guardian_roster_v3 (rd3_guardians descriptor) = Inr bytes" "guardian_roster_v3 (rp_new_roster plan) = Inr bytes'"
    "rp_old_roster plan = rd3_guardians descriptor" "rp_context plan = ctx" "rp_predecessor plan = cc3_config_ref predecessor"
    "rp_successor plan = (cc3_config_ref predecessor) \<lparr>
       cr_guardian_epoch := saturating_add (cr_guardian_epoch (cc3_config_ref predecessor)) 1,
       cr_epoch_binding := pld_epoch_binding draws \<rparr>"
    "rp_old_roster_commitment plan = sha256 cp bytes" "rp_new_roster_commitment plan = sha256 cp bytes'"
    "rp_old_guardian_threshold plan = cc3_guardian_threshold predecessor"
    "rp_new_guardian_threshold plan = cc3_guardian_threshold predecessor" "rp_data_shards plan = rd3_data_shards descriptor"
    "rp_minimum_delay_secs plan = cc3_minimum_recovery_delay predecessor"
    "rp_preparation_deadline plan = saturating_sub (rx_expiry ctx) 600" "rp_drain_deadline plan = rx_expiry ctx"
proof -
  note that' = that [unfolded map_append [symmetric]]
  from assms show thesis
    by (clarsimp simp: propose_plan_def Let_def ok_or_eq_Inr find_Some_iff split: if_splits simp del: One_nat_def)
      (rule that; (assumption | simp add: map_sort_key | fastforce))
qed

text \<open>C11: the plan a coordinator proposes is one every participant accepts: made from the descriptor of the
  predecessor capsule and for a context issued by the coordinator, it validates against the
  predecessor at any time until it expires, and its new roster is the old one without the removed
  guardian and with one whose index was never in it.\<close>

theorem proposed_plan_valid:
  assumes made: "propose_plan cp draws (rotation_context_at predecessor rid coordinator nonce issued) ih predecessor descriptor
      owner r info = Inr plan" "rotation_plan plan = Inr bytes"
    and descriptor: "validate_descriptor cp fr descriptor predecessor = Inr ()"
    and policy: "2 \<le> cc3_guardian_threshold predecessor" "cc3_guardian_threshold predecessor \<le> cc3_guardian_count predecessor"
    and fresh: "pld_epoch_binding draws \<noteq> cr_epoch_binding (cc3_config_ref predecessor)"
    and time: "unat issued + unat (cc3_minimum_recovery_delay predecessor) + 7200 < 2 ^ 64" "issued \<le> now"
      "unat now < unat issued + unat (cc3_minimum_recovery_delay predecessor) + 7200"
  shows "validate_rotation_plan_v3 cp plan predecessor now = Inr (sha256 cp bytes) \<and>
    (\<exists>added. added \<notin> gr3_guardian_index ` set (rp_old_roster plan) \<and>
       gr3_guardian_index ` set (rp_new_roster plan) = insert added (gr3_guardian_index ` set (rp_old_roster plan) - {r}) \<and>
       sorted (map gr3_guardian_index (rp_new_roster plan)))"
proof -
  from made(1) obtain kept a old_bytes new_bytes where
    r: "r \<in> gr3_guardian_index ` set (rd3_guardians descriptor)" and a: "added_index (rd3_guardians descriptor) = Inr a" and
    kept: "refreshed_routes owner r (pld_routes draws) 0 (rd3_guardians descriptor) = Inr kept" and
    new: "map gr3_guardian_index (rp_new_roster plan) = sort (map gr3_guardian_index kept @ [a])" and
    count: "u16_try_from (length (rp_new_roster plan)) = Inr (rp_total_shards plan)" and
    rosters: "guardian_roster_v3 (rd3_guardians descriptor) = Inr old_bytes" "guardian_roster_v3 (rp_new_roster plan) = Inr new_bytes" and
    f: "rp_old_roster plan = rd3_guardians descriptor" "rp_context plan = rotation_context_at predecessor rid coordinator nonce issued"
      "rp_predecessor plan = cc3_config_ref predecessor" and
    succ: "rp_successor plan = (cc3_config_ref predecessor) \<lparr>
       cr_guardian_epoch := saturating_add (cr_guardian_epoch (cc3_config_ref predecessor)) 1,
       cr_epoch_binding := pld_epoch_binding draws \<rparr>" and
    g: "rp_old_roster_commitment plan = sha256 cp old_bytes" "rp_new_roster_commitment plan = sha256 cp new_bytes"
      "rp_old_guardian_threshold plan = cc3_guardian_threshold predecessor"
      "rp_new_guardian_threshold plan = cc3_guardian_threshold predecessor" "rp_data_shards plan = rd3_data_shards descriptor"
      "rp_minimum_delay_secs plan = cc3_minimum_recovery_delay predecessor"
      "rp_preparation_deadline plan = saturating_sub (rx_expiry (rotation_context_at predecessor rid coordinator nonce issued)) 600"
      "rp_drain_deadline plan = rx_expiry (rotation_context_at predecessor rid coordinator nonce issued)"
    by (rule proposed_fields)
  let ?ids = "map gr3_guardian_index (rd3_guardians descriptor)"
  note ids = refreshed_ids [OF kept]
  have "distinct ?ids" using rosters(1) by (auto simp: guardian_roster_v3_def unique_ids_ok)
  then have len: "length (rp_new_roster plan) = length (rd3_guardians descriptor)"
    using kept_ids_length [of ?ids r] r ids new by (metis length_append_singleton length_map length_sort list.set_map)
  have d: "rd3_data_shards descriptor = cc3_guardian_threshold predecessor"
    "length (rd3_guardians descriptor) = unat (cc3_guardian_count predecessor)"
    using descriptor by (auto simp: validate_descriptor_def Let_def split: if_splits)
  have total: "rp_total_shards plan = cc3_guardian_count predecessor"
    using count len d(2) by (auto simp: u16_try_from_def split: if_splits)
  have e: "unat (saturating_add (saturating_add issued (cc3_minimum_recovery_delay predecessor)) 7200) =
      unat issued + unat (cc3_minimum_recovery_delay predecessor) + 7200"
    using time(1) by (simp add: unat_saturating_add)
  have s: "is_direct_successor_of (rp_successor plan) (rp_predecessor plan)"
    using fresh by (simp add: is_direct_successor_of_def succ f(3))
  let ?e = "saturating_add (saturating_add issued (cc3_minimum_recovery_delay predecessor)) 7200"
  have "600 \<le> ?e" using e by (simp add: word_le_nat_alt)
  then have p: "unat (saturating_sub ?e 600) = unat ?e - 600" by (simp add: saturating_sub_def unat_sub)
  have times: "\<not> now < issued" "\<not> ?e \<le> now" "\<not> saturating_sub ?e 600 \<le> issued" "\<not> ?e \<le> saturating_sub ?e 600"
    using e p time by (simp_all add: word_le_nat_alt word_less_nat_alt)
  have t: "u16_try_from (length (rp_new_roster plan)) = Inr (cc3_guardian_count predecessor)" using count total by simp
  have "validate_rotation_plan_v3 cp plan predecessor now = Inr (sha256 cp bytes)"
    using times policy t d len total rosters
    by (simp add: validate_rotation_plan_v3_def made(2) f g s [unfolded f(3)] wire_def rotation_context_at_def not_less not_le)
  moreover have "gr3_guardian_index ` set (rp_new_roster plan) = insert a (gr3_guardian_index ` set (rp_old_roster plan) - {r})"
  proof -
    have "gr3_guardian_index ` set (rp_new_roster plan) = set (map gr3_guardian_index kept @ [a])" using new by (metis list.set_map set_sort)
    also have "\<dots> = insert a (set (filter (\<lambda>i. i \<noteq> r) ?ids))" by (simp add: ids)
    finally show ?thesis by (auto simp: f(1))
  qed
  moreover have "sorted (map gr3_guardian_index (rp_new_roster plan))" by (simp add: new)
  moreover have "a \<notin> gr3_guardian_index ` set (rp_old_roster plan)" using added_index_fresh [OF a] by (simp add: f(1))
  ultimately show ?thesis by blast
qed

section \<open>Concrete runs\<close>

definition cl_card :: RecoveryCardV3 where "cl_card = (fx_card [1, 2, 3, 4]) \<lparr> card3_signer_mailboxes := [''s''] \<rparr>"




lemma cl_plan_sel [simp]:
  "rp_context fx_plan = fx_ctx fx_const 2" "rp_intent_hash fx_plan = 11" "rp_old_roster_commitment fx_plan = 11"
  "rp_new_roster_commitment fx_plan = 11" "rp_preparation_deadline fx_plan = 50" "rp_minimum_delay_secs fx_plan = 10"
  "rx_issued_at (fx_ctx fx_const 2) = 1" "cc3_signer_threshold (fx_genesis fx_const) = 1"
  by (simp_all add: fx_plan_def fx_ctx_def fx_const_genesis fx_body_def)

lemma cl_digest: "plan_digest fx_const fx_plan = Inr 11"
  by (rule validated_plan_digest [OF fx_plan_valid]) simp





definition cl_predecessor :: ConfigCapsuleV3 where
  "cl_predecessor = (fx_genesis fx_const) \<lparr> cc3_dpss_public_commitment := 11 \<rparr>"

definition cl_descriptor :: RecoveryDescriptorV3 where
  "cl_descriptor = \<lparr> rd3_config_ref = fx_ref 1 1, rd3_guardians = [fx_route 1 51, fx_route 2 52], rd3_guardian_material_root = 24,
     rd3_data_shards = 2, rd3_total_shards = 2, rd3_ciphertext_len = 17, rd3_payload_nonce = 0,
     rd3_dpss_suite = ZfFrostRistretto255RtsRefreshV1, rd3_dpss_public_package = [9], rd3_dpss_public_commitment = 11 \<rparr>"

definition cl_owner :: OwnerControlFileV3 where
  "cl_owner = \<lparr> ocf_protocol_version = 3, ocf_config_ref = fx_ref 1 1, ocf_owner_cancel_signing_seed = 21,
     ocf_owner_cancel_public_key = 21, ocf_guardian_targets = [(1, ''a''), (2, ''b'')], ocf_relay_bases = [] \<rparr>"

definition cl_info :: replacement where
  "cl_info = \<lparr> rep_target = ''c'', rep_node_id = ''n'', rep_transport_public_key = [7], rep_signing_seed = 3 \<rparr>"

definition cl_draws :: plan_draws where
  "cl_draws = \<lparr> pld_epoch_binding = 2, pld_routes = \<lambda>_. (61, ''x''), pld_replacement_route = (62, ''y''), pld_session_id = 63 \<rparr>"

definition cl_plan :: RotationPlan where
  "cl_plan = \<lparr> rp_context = rotation_context_at cl_predecessor 2 fg_key 5 1, rp_intent_hash = 11, rp_predecessor = fx_ref 1 1,
     rp_successor = fx_ref 2 2, rp_old_roster = [fx_route 1 51, fx_route 2 52],
     rp_new_roster = [(fx_route 1 61) \<lparr> gr3_mailbox := ''x'' \<rparr>,
       \<lparr> gr3_guardian_index = 3, gr3_opaque_slot_id = 62, gr3_mailbox = ''y'', gr3_guardian_public_key = 3,
         gr3_session_recipient_key = [7], gr3_operator_domain_commitment = 11 \<rparr>],
     rp_old_roster_commitment = 11, rp_new_roster_commitment = 11, rp_old_guardian_threshold = 2,
     rp_new_guardian_threshold = 2, rp_data_shards = 2, rp_total_shards = 2, rp_dpss_suite = ZfFrostRistretto255RtsRefreshV1,
     rp_dpss_session_id = 63, rp_dpss_qualified_set_commitment = 11, rp_minimum_delay_secs = 10,
     rp_preparation_deadline = 6611, rp_drain_deadline = 7211 \<rparr>"

lemma cl_rosters:
  "\<exists>t. guardian_roster_v3 [fx_route 1 51, fx_route 2 52] = Inr t" "\<exists>t. guardian_roster_v3 (rp_new_roster cl_plan) = Inr t"
  by (simp_all add: guardian_roster_v3_def cl_plan_def fx_route_def fx_wire route_into_def)

lemma cl_proposed:
  "propose_plan fx_const cl_draws (rotation_context_at cl_predecessor 2 fg_key 5 1) 11 cl_predecessor cl_descriptor cl_owner 2 cl_info =
     Inr cl_plan"
proof -
  have a: "added_index [fx_route 1 51, fx_route 2 52] = Inr 3" by (simp add: added_index_def fx_route_def)
  have n: "replacement_is_new fx_const cl_info [fx_route 1 51, fx_route 2 52] cl_owner"
    by (simp add: replacement_is_new_def cl_info_def cl_owner_def fx_route_def fx_const_sha trim_end_slashes_def bt_values_def)
  have e: "saturating_add (saturating_add 1 10) 7200 = (7211 :: u64)" "saturating_sub 7211 600 = (6611 :: u64)"
    "saturating_add 1 1 = (2 :: u64)" by (simp_all add: saturating_add_def saturating_sub_def word_le_nat_alt)
  have g: "rd3_guardians cl_descriptor = [fx_route 1 51, fx_route 2 52]" "rd3_data_shards cl_descriptor = 2"
    by (simp_all add: cl_descriptor_def)
  have i: "gr3_guardian_index (fx_route j s) = j" for j s by (simp add: fx_route_def)
  have o: "bt_get (ocf_guardian_targets cl_owner) 2 = Some ''b''" "bt_get (ocf_guardian_targets cl_owner) 1 = Some ''a''"
    by (simp_all add: cl_owner_def)
  have r: "(fx_route 1 51) \<lparr> gr3_opaque_slot_id := 61, gr3_mailbox := ''x'' \<rparr> = (fx_route 1 61) \<lparr> gr3_mailbox := ''x'' \<rparr>"
    by (simp add: fx_route_def)
  have c: "cc3_config_ref cl_predecessor = fx_ref 1 1" "cc3_guardian_threshold cl_predecessor = 2"
    "cc3_minimum_recovery_delay cl_predecessor = 10" "cc3_dpss_suite cl_predecessor = ZfFrostRistretto255RtsRefreshV1"
    by (simp_all add: cl_predecessor_def fx_const_genesis fx_body_def)
  have x: "rx_expiry (rotation_context_at cl_predecessor 2 fg_key 5 1) = 7211" by (simp add: rotation_context_at_def c e)
  have f: "(fx_ref 1 1) \<lparr> cr_guardian_epoch := saturating_add (cr_guardian_epoch (fx_ref 1 1)) 1, cr_epoch_binding := 2 \<rparr> = fx_ref 2 2"
    by (simp add: fx_ref_def e)
  have v: "verifying_key_bytes fx_const k = k" for k by (simp add: verifying_key_bytes_def fx_const_def fx_prim_def)
  have w: "rep_transport_public_key cl_info = [7]" "rep_signing_seed cl_info = 3" "pld_epoch_binding cl_draws = 2"
    "pld_routes cl_draws k = (61, ''x'')" "pld_replacement_route cl_draws = (62, ''y'')" "pld_session_id cl_draws = 63" for k
    by (simp_all add: cl_info_def cl_draws_def)
  from cl_rosters obtain t t' where t: "guardian_roster_v3 [fx_route 1 51, fx_route 2 52] = Inr t"
    "guardian_roster_v3 (rp_new_roster cl_plan) = Inr t'" by blast
  show ?thesis
    using t(2) by (simp add: propose_plan_def Let_def g i o a n r c x f e t(1) fx_const_sha v w cl_plan_def u16_try_from_def)
qed

theorem proposed_plan_valid_witness:
  "validate_rotation_plan_v3 fx_const cl_plan cl_predecessor 5 = Inr 11"
proof -
  have w: "\<exists>t. rotation_plan cl_plan = Inr t"
    by (simp add: rotation_plan_def cl_plan_def rotation_context_at_def cl_predecessor_def fx_const_genesis fx_body_def fx_ref_def
        fx_route_def fx_wire route_into_def is_direct_successor_of_def fg_key_def)
  then obtain t where t: "rotation_plan cl_plan = Inr t" by blast
  have d: "validate_descriptor fx_const fz_frost cl_descriptor cl_predecessor = Inr ()"
    by (simp add: validate_descriptor_def cl_descriptor_def cl_predecessor_def fx_const_genesis fx_body_def crypt_def
        frost_public_package_digest_def decode_public_def encode_public_def fz_frost_def ok_or_def bounded_def
        FROST_PUBLIC_PACKAGE_MAX_LEN_def fx_const_sha Let_def)
  show ?thesis
    using proposed_plan_valid [OF cl_proposed t d]
    by (simp add: cl_predecessor_def fx_const_genesis fx_body_def cl_draws_def fx_ref_def fx_const_sha)
qed

definition ge_route :: GuardianRouteV3 where
  "ge_route = (fx_route 1 51) \<lparr> gr3_session_recipient_key := xwing_public ex_aead 0 \<rparr>"

definition ge_plan :: RotationPlan where "ge_plan = fx_plan \<lparr> rp_old_roster := [ge_route, fx_route 2 52] \<rparr>"

definition ge_record :: GuardianRecordV3 where
  "ge_record = fg_record \<lparr> grec3_guardian_index := 1,
     grec3_encrypted_dek_share := \<lparr> ac_nonce = 0, ac_ciphertext = replicate 16 0 @ [5] \<rparr>,
     grec3_encrypted_ciphertext_fragment := \<lparr> ac_nonce = 0, ac_ciphertext = replicate 16 0 @ [6] \<rparr> \<rparr>"

definition ge_entry :: GuardianRotationEntryV3 where
  "ge_entry = GuardianRotationEntryV3_new (fg_provision \<lparr> grp_signing_public_key := 1,
     grp_epoch_store := GuardianEpochStore_new ge_record 11 \<rparr>)"

definition ge_sealed :: SealedMessage where
  "ge_sealed = \<lparr> sm_kem_ciphertext = [], sm_payload = \<lparr> ac_nonce = 0, ac_ciphertext = replicate 16 0 @ bytes32 0 \<rparr> \<rparr>"

definition ge_grant :: OldShareUnlockGrant where
  "ge_grant = \<lparr> osug_context = fx_ctx fx_const 2, osug_plan_hash = 0, osug_release_certificate_hash = 8,
     osug_old_guardian_index = 1, osug_encrypted_unwrap_key = ge_sealed, osug_encrypted_fragment_key = ge_sealed \<rparr>"

lemma ge_digest: "plan_digest ex_aead ge_plan = Inr 0"
proof -
  have "\<exists>t. rotation_plan ge_plan = Inr t"
    by (simp add: rotation_plan_def ge_plan_def ge_route_def ex_aead_def fx_plan_def fx_ctx_def fx_ref_def fx_route_def fx_wire
        route_into_def is_direct_successor_of_def)
  then show ?thesis by (auto simp: plan_digest_def ex_eval)
qed

lemma ge_keys:
  "guardian_share_key_v3 ex_aead k c 1 = Inr 0" "guardian_fragment_key_v3 ex_aead k c 1 = Inr 0"
  by (simp_all add: guardian_share_key_v3_def guardian_fragment_key_v3_def FROST_MAX_PARTICIPANTS_def hkdf_sha256_def ok_or_def
      ex_aead_def)

lemma ge_granted: "old_grant ex_aead (0, 0) (0, 0) ge_plan 8 ge_route 4 = Inr ge_grant" "\<exists>t. old_share_unlock_grant ge_grant = Inr t"
proof -
  show "\<exists>t. old_share_unlock_grant ge_grant = Inr t"
    by (simp add: old_share_unlock_grant_def ge_grant_def ge_sealed_def sealed_into_def fx_ctx_def fx_ref_def fx_wire)
  have r: "gr3_guardian_index ge_route = 1" "rp_context ge_plan = fx_ctx fx_const 2" by (simp_all add: ge_route_def fx_route_def ge_plan_def)
  have "\<exists>t. old_share_unlock_grant_payload_context \<lparr> osug_context = fx_ctx fx_const 2, osug_plan_hash = 0,
     osug_release_certificate_hash = 8, osug_old_guardian_index = 1, osug_encrypted_unwrap_key = a,
     osug_encrypted_fragment_key = b \<rparr> f = Inr t" for a b f
    by (simp add: old_share_unlock_grant_payload_context_def fx_ctx_def fx_ref_def fx_wire)
  then show "old_grant ex_aead (0, 0) (0, 0) ge_plan 8 ge_route 4 = Inr ge_grant"
    by (auto simp: old_grant_def ge_digest r ge_keys ex_eval ge_grant_def ge_sealed_def Let_def)
qed

theorem old_grant_opens_witness:
  "open_old_material ex_aead ge_entry 0 ge_plan ge_grant 8 = Inr ([5], [6])"
proof -
  obtain t where t: "old_share_unlock_grant ge_grant = Inr t" using ge_granted(2) by blast
  obtain c1 where c1: "guardian_share_context_v3 (fx_ref 1 1) 1 = Inr c1"
    by (auto simp: guardian_share_context_v3_def fx_ref_def fx_wire)
  obtain c2 where c2: "guardian_fragment_context_v3 (fx_ref 1 1) 1 1 = Inr c2"
    by (auto simp: guardian_fragment_context_v3_def fx_ref_def fx_wire)
  have route: "guardian_route ge_entry ge_plan False = Inr ge_route"
    by (simp add: guardian_route_def ge_entry_def ge_plan_def ge_route_def fx_route_def GuardianRotationEntryV3_new_def)
  have x: "gr3_session_recipient_key ge_route = xwing_public ex_aead 0" "gr3_guardian_index ge_route = 1"
    "rp_predecessor ge_plan = fx_ref 1 1" by (simp_all add: ge_route_def fx_route_def ge_plan_def fx_plan_def)
  have a: "ges_active (epoch_store ge_entry) = Some (with_epoch_state GuardianEpochState.Active ge_record)"
    by (simp add: ge_entry_def GuardianRotationEntryV3_new_def GuardianEpochStore_new_def Let_def)
  have f: "gp3_config_ref (grec3_policy ge_record) = fx_ref 1 1" "grec3_guardian_index ge_record = 1" "grec3_fragment_index ge_record = 1"
    "grec3_encrypted_dek_share ge_record = \<lparr> ac_nonce = 0, ac_ciphertext = replicate 16 0 @ [5] \<rparr>"
    "grec3_encrypted_ciphertext_fragment ge_record = \<lparr> ac_nonce = 0, ac_ciphertext = replicate 16 0 @ [6] \<rparr>"
    using fg_record_sel by (simp_all add: ge_record_def)
  show ?thesis
    using old_grant_opens [OF ex_aead_laws(1,2) route x(1) ge_granted(1) t a, of 0 c1 0 "[5]" 0 c2 0 "[6]" 8] f x c1 c2 ge_keys
    by (simp add: ex_eval)
qed

definition cx_control :: RotationControlFileV3 where
  "cx_control = \<lparr> rcf_protocol_version = 3, rcf_recovery_card = cl_card, rcf_predecessor_capsule = fx_genesis fx_const,
     rcf_plan = fx_plan, rcf_owner_cancel_public_key = 21 \<rparr>"

definition cx_certificate :: OwnerRotationCancelCertificate where
  "cx_certificate = \<lparr> orcc_context = fx_ctx fx_const 2, orcc_plan_hash = 11, orcc_reason_code = 1,
     orcc_cancel_response_recipient_key = fg_key, orcc_owner_cancel_public_key = 21, orcc_owner_signature = [] \<rparr>"

definition cx_veto :: "WitnessPin \<Rightarrow> WitnessRotationCancelAck" where
  "cx_veto pin = \<lparr> wrca_protocol_version = 3, wrca_config_id = 1, wrca_rotation_id = 2, wrca_plan_hash = 11,
     wrca_cancel_certificate_hash = 11, wrca_witness_id = wp_witness_id pin, wrca_witness_public_key = wp_public_key pin,
     wrca_witness_signature = [] \<rparr>"

definition cx_ack :: "u16 \<Rightarrow> OwnerRotationCancelAck" where
  "cx_ack i = \<lparr> orca_context = fx_ctx fx_const 2, orca_plan_hash = 11, orca_cancel_certificate_hash = 11,
     orca_guardian_index = i, orca_guardian_signature = [] \<rparr>"

text \<open>Every witness answers; of the old guardians the first one does.\<close>

definition cx_network :: cancel_network where
  "cx_network = \<lparr> cn_witness = \<lambda>_ pin _. Some (cx_veto pin),
     cn_guardian = \<lambda>k _ _. if k = 0 then Some (RotationCancelled (cx_ack 1)) else None,
     cn_signer = \<lambda>_ _ _. None, cn_finalize = \<lambda>_ _ _. Some OwnerCancelFinalized \<rparr>"

lemma cx_wires:
  "\<exists>t. owner_rotation_cancel_certificate cx_certificate = Inr t"
  "i \<noteq> 0 \<Longrightarrow> \<exists>t. witness_rotation_cancel_ack (cx_veto (fx_pin i)) = Inr t"
  "\<exists>t. owner_rotation_cancel_ack (cx_ack i) = Inr t"
  by (simp_all add: owner_rotation_cancel_certificate_def cx_certificate_def witness_rotation_cancel_ack_def cx_veto_def
      owner_rotation_cancel_ack_def cx_ack_def fx_ctx_def fx_ref_def fg_key_def fx_pin_def fx_wire)

lemma cx_checks:
  "i \<noteq> 0 \<Longrightarrow> validate_witness_rotation_cancel_ack fx_const (cx_veto (fx_pin i)) (fx_pin i) fx_plan 11 = Inr ()"
  "validate_owner_rotation_cancel_ack fx_const (cx_ack 1) (fx_route 1 51) fx_plan 11 = Inr ()"
  using cx_wires(2) [of i] cx_wires(3) [of 1]
  by (auto simp: validate_witness_rotation_cancel_ack_def validate_owner_rotation_cancel_ack_def cl_digest fx_const_accepts Let_def)
    (simp_all add: cx_veto_def cx_ack_def fx_route_def fx_ctx_def fx_ref_def PROTOCOL_VERSION_V3_def)

lemma cx_card: "validate_recovery_card_v3 cl_card = Inr ()" "card3_witnesses cl_card = map fx_pin [1, 2, 3, 4]"
  "card3_config_id cl_card = 1" "card3_owner_cancel_public_key cl_card = 21" "card3_signer_set_commitment cl_card = 20"
  "card3_witness_fault_bound cl_card = 1" "card3_relay_bases cl_card = []" "card3_signer_mailboxes cl_card = [''s'']"
proof -
  show "validate_recovery_card_v3 cl_card = Inr ()"
    by (simp add: recovery_card_ok cl_card_def fx_card_def fx_pin_def PROTOCOL_VERSION_V3_def)
qed (simp_all add: cl_card_def fx_card_def)

lemma cx_quorum:
  "validate_owner_rotation_cancel_witness_quorum_v3 fx_const cx_certificate [cx_veto (fx_pin 1), cx_veto (fx_pin 2), cx_veto (fx_pin 3)]
     cl_card fx_plan (fx_genesis fx_const) 30 = Inr 11"
proof -
  have p: "validate_rotation_plan_v3 fx_const fx_plan (fx_genesis fx_const) 30 = Inr 11" by (rule fx_plan_valid) simp
  have g: "cr_config_id (cc3_config_ref (fx_genesis fx_const)) = 1" "cc3_owner_cancel_public_key (fx_genesis fx_const) = 21"
    "rx_rotation_id (fx_ctx fx_const 2) = 2"
    by (simp_all add: fx_const_genesis fx_body_def fx_ref_def fx_ctx_def)
  have c: "orcc_context cx_certificate = fx_ctx fx_const 2" "orcc_plan_hash cx_certificate = 11"
    "orcc_owner_cancel_public_key cx_certificate = 21" "length (orcc_cancel_response_recipient_key cx_certificate) = 1216"
    by (simp_all add: cx_certificate_def)
  have pins: "bt_get (witness_pins cl_card) 1 = Some (fx_pin 1)" "bt_get (witness_pins cl_card) 2 = Some (fx_pin 2)"
    "bt_get (witness_pins cl_card) 3 = Some (fx_pin 3)"
    by (simp_all add: witness_pins_def cx_card fx_pin_def)
  have q: "required_witness_quorum 1 = Inr 3" by (simp add: required_witness_quorum_def checked_mul_def checked_add_def ok_or_def)
  from cx_wires(1) obtain t where t: "owner_rotation_cancel_certificate cx_certificate = Inr t" by blast
  have w: "\<exists>t. witness_rotation_cancel_ack (cx_veto (fx_pin i)) = Inr t" if "i \<in> {1, 2, 3}" for i using that cx_wires(2) [of i] by auto
  have f: "wrca_witness_id (cx_veto (fx_pin i)) = i" "wrca_protocol_version (cx_veto (fx_pin i)) = 3"
    "wrca_config_id (cx_veto (fx_pin i)) = 1" "wrca_rotation_id (cx_veto (fx_pin i)) = 2" "wrca_plan_hash (cx_veto (fx_pin i)) = 11"
    "wrca_cancel_certificate_hash (cx_veto (fx_pin i)) = 11" "wrca_witness_public_key (cx_veto (fx_pin i)) = wp_public_key (fx_pin i)" for i
    by (simp_all add: cx_veto_def fx_pin_def)
  show ?thesis
    using w [of 1] w [of 2] w [of 3]
    by (auto simp: validate_owner_rotation_cancel_witness_quorum_v3_def cx_card p g c t f q pins ensure_def fx_const_sha
        fx_const_accepts XWING_PUBLIC_KEY_LEN_def PROTOCOL_VERSION_V3_def ok_or_def Let_def)
qed

lemma cx_capsule: "validate_activated_capsule_v3 fx_const cl_card (fx_genesis fx_const) = Inr ()"
proof -
  obtain t where "config_capsule_body_v3 (fx_body 1 1 0) = Inr t" using fx_body_ok by blast
  then show ?thesis by (simp add: validate_activated_capsule_v3_def cx_card fx_const_genesis wire_def fx_const_sha)
      (simp add: fx_body_def fx_ref_def PROTOCOL_VERSION_V3_def)
qed

lemma cx_cancelled:
  "\<exists>res notices. cancel_rotation_v3 fx_const fg_hx (\<lambda>_. Some 30) fg_key cx_network cx_control cl_owner = Inr (res, notices)"
proof -
  have p: "validate_rotation_plan_v3 fx_const fx_plan (fx_genesis fx_const) 30 = Inr 11" by (rule fx_plan_valid) simp
  from cx_wires(1) obtain t where t: "owner_rotation_cancel_certificate cx_certificate = Inr t" by blast
  have v: "verifying_key_bytes fx_const k = k" "sign fx_const k d = []" for k d
    by (simp_all add: verifying_key_bytes_def sign_def fx_const_def fx_prim_def)
  have agree: "control_files_agree fx_const cx_control cl_owner"
    by (simp add: control_files_agree_def cx_control_def cl_owner_def v cx_card fx_const_genesis fx_body_def fx_plan_def fx_ctx_def
        fx_ref_def PROTOCOL_VERSION_V3_def)
  have own: "owner_certificate fx_const cl_owner fx_plan 11 fg_key = Inr cx_certificate"
    using t by (simp add: owner_certificate_def cx_certificate_def cl_owner_def v)
  have acks: "collect wrca_witness_id Some
      (\<lambda>witness ack. is_ok (validate_witness_rotation_cancel_ack fx_const ack witness fx_plan 11)) 3 (cn_witness cx_network)
      cx_certificate 0 (map fx_pin [1, 2, 3, 4]) [] = [cx_veto (fx_pin 1), cx_veto (fx_pin 2), cx_veto (fx_pin 3)]"
    using cx_checks(1) [of 1] cx_checks(1) [of 2] cx_checks(1) [of 3]
    by (simp add: cx_network_def is_ok_unit Let_def) (simp add: cx_veto_def fx_pin_def)
  have old: "old_acknowledgements fx_const (cn_guardian cx_network) fx_plan cx_certificate 11 0 [fx_route 1 51, fx_route 2 52] = {1}"
    using cx_checks(2) by (simp add: cx_network_def is_ok_unit Let_def) (simp add: cx_ack_def)
  have r: "rp_old_roster fx_plan = [fx_route 1 51, fx_route 2 52]" "rp_old_guardian_threshold fx_plan = 2" by (simp_all add: fx_plan_def)
  have none: "collect_signer_abort_votes fx_const (cn_signer cx_network) cl_card fg_key fx_plan (fx_genesis fx_const) st rc = []" for st rc
    by (simp add: collect_signer_abort_votes_def cx_network_def cx_card)
  have c: "rcf_plan cx_control = fx_plan" "rcf_predecessor_capsule cx_control = fx_genesis fx_const" "rcf_recovery_card cx_control = cl_card"
    by (simp_all add: cx_control_def)
  have three: "Option.bind (checked_mul (unat (1 :: u16)) 2) (\<lambda>value. checked_add value 1) = Some 3"
    by (simp add: checked_mul_def checked_add_def usize_MAX_def)
  show ?thesis
    by (simp add: cancel_rotation_v3_def Let_def c agree cx_capsule p own t fx_const_sha cx_card(2,6) three [simplified] acks
        cx_quorum r old none abort_notices_def del: collect.simps list.map old_acknowledgements.simps)
qed

theorem owner_cancellation_effective_witness:
  "\<exists>res notices. cancel_rotation_v3 fx_const fg_hx (\<lambda>_. Some 30) fg_key cx_network cx_control cl_owner = Inr (res, notices) \<and>
     3 \<le> crr_witness_acknowledgements res"
proof -
  from cx_cancelled obtain res notices where
    c: "cancel_rotation_v3 fx_const fg_hx (\<lambda>_. Some 30) fg_key cx_network cx_control cl_owner = Inr (res, notices)" by blast
  from owner_cancellation_effective [OF c] have "3 \<le> crr_witness_acknowledgements res"
    by (auto simp: cx_control_def cl_card_def fx_card_def)
  with c show ?thesis by blast
qed

end
