(* ===== verification/GP_Recovery_Client.thy ===== *)
theory GP_Recovery_Client
  imports GP_Guardian_Runtime GP_Signer_Runtime GP_Protocol_V2 GP_Sharing
begin

text \<open>
  The recovery client of protocol 3 in \<open>gp-network/src/client.rs\<close>: the epoch read, the whole of
  \<open>recover_v3\<close>, and the checks it makes of a descriptor and of a guardian's contribution. The network
  is a parameter, the answer of the \<open>k\<close>-th actor of a list to a request if there is one; clock readings,
  random draws and \<open>serde_json\<close> on the descriptor are arguments.
\<close>

section \<open>Network and result\<close>

record recovery_network =
  rcn_witness :: "nat \<Rightarrow> WitnessPin \<Rightarrow> EpochReadChallenge \<Rightarrow> WitnessReadEnvelope option"
  rcn_signer :: "nat \<Rightarrow> string \<Rightarrow> SignerRecoveryRequestV3 \<Rightarrow> SignerRecoveryResponseV3 option"
  rcn_guardian :: "nat \<Rightarrow> string \<Rightarrow> GuardianRecoveryRequestV3 \<Rightarrow> GuardianRecoveryResponseV3 option"

record recovery_draws =
  rcd_recipient :: Id32
  rcd_client_nonce :: Id32
  rcd_request_id :: Id32
  rcd_nonce :: Id32

text \<open>The recovered secret is kept as bytes; the code shows it as lossy UTF-8.\<close>

record NetworkDemoResult =
  ndr_config_id :: string
  ndr_request_id :: string
  ndr_recovered_secret :: "byte list option"
  ndr_signer_contributions :: nat
  ndr_guardian_contributions :: nat
  ndr_rejected_guardians :: "u16 list"
  ndr_cancelled :: bool

abbreviation wall_clock :: "u64 option \<Rightarrow> (anyhow, u64) result" where
  "wall_clock reading \<equiv> ok_or reading (Bail ''second time provided was later than self'')"

text \<open>The answers of a list of actors in order, up to a number of them; answers of another kind are skipped,
  the others are taken as they are.\<close>

fun gather ::
    "('a \<Rightarrow> 'v option) \<Rightarrow> nat option \<Rightarrow> (nat \<Rightarrow> 'm \<Rightarrow> 'q \<Rightarrow> 'a option) \<Rightarrow> 'q \<Rightarrow> nat \<Rightarrow> 'm list \<Rightarrow> 'v list \<Rightarrow> 'v list"
where
  "gather pick enough ask request k [] vs = vs"
| "gather pick enough ask request k (m # ms) vs =
    (let vs = (case Option.bind (ask k m request) pick of Some v \<Rightarrow> vs @ [v] | None \<Rightarrow> vs) in
     case enough of
       Some n \<Rightarrow> if n \<le> length vs then vs else gather pick enough ask request (Suc k) ms vs
     | None \<Rightarrow> gather pick enough ask request (Suc k) ms vs)"

fun contribution_of :: "SignerRecoveryResponseV3 \<Rightarrow> SignerRecoveryContributionV3 option" where
  "contribution_of (Contribution c) = Some c" | "contribution_of _ = None"

fun recovery_vote_of :: "SignerRecoveryResponseV3 \<Rightarrow> SignerRecoveryReleaseVoteV3 option" where
  "recovery_vote_of (RecoveryReleaseVote vote) = Some vote" | "recovery_vote_of _ = None"

fun begin_accepted_of :: "GuardianRecoveryResponseV3 \<Rightarrow> u64 option" where
  "begin_accepted_of (RecoveryBeginAccepted t) = Some t" | "begin_accepted_of _ = None"

section \<open>The epoch\<close>

definition read_latest_epoch_v3 ::
    "primitives \<Rightarrow> (nat \<Rightarrow> WitnessPin \<Rightarrow> EpochReadChallenge \<Rightarrow> WitnessReadEnvelope option) \<Rightarrow> RecoveryCardV3 \<Rightarrow> byte list \<Rightarrow>
     Id32 \<Rightarrow> u64 option \<Rightarrow> (anyhow, ConfigCapsuleV3 \<times> EpochReadChallenge \<times> WitnessReadEnvelope list) result"
where
  "read_latest_epoch_v3 cp ask rcard recipient_key client_nonce reading =
    bindR (validate_recovery_card_v3 rcard) (\<lambda>_.
    bindR (wall_clock reading) (\<lambda>now.
    let challenge = \<lparr> erc_protocol_version = PROTOCOL_VERSION_V3, erc_config_id = card3_config_id rcard,
          erc_client_nonce = client_nonce, erc_response_recipient_key = recipient_key, erc_issued_at = now,
          erc_expiry = saturating_add now 60 \<rparr>;
        envelopes = gather Some None ask challenge 0 (card3_witnesses rcard) [] in
    bindR (select_latest_epoch_v3 cp rcard challenge envelopes) (\<lambda>capsule.
    Inr (capsule, challenge, envelopes))))"

definition discover_latest_epoch_v3 ::
    "primitives \<Rightarrow> (nat \<Rightarrow> WitnessPin \<Rightarrow> EpochReadChallenge \<Rightarrow> WitnessReadEnvelope option) \<Rightarrow> RecoveryCardV3 \<Rightarrow> Id32 \<Rightarrow>
     Id32 \<Rightarrow> u64 option \<Rightarrow> (anyhow, ConfigCapsuleV3) result"
where
  "discover_latest_epoch_v3 cp ask rcard recipient client_nonce reading =
    bindR (validate_recovery_card_v3 rcard) (\<lambda>_.
    bindR (read_latest_epoch_v3 cp ask rcard (xwing_public cp recipient) client_nonce reading) (\<lambda>(capsule, _). Inr capsule))"

section \<open>Checks\<close>

definition validate_recovery_descriptor_v3 ::
    "primitives \<Rightarrow> frost \<Rightarrow> RecoveryDescriptorV3 \<Rightarrow> ConfigCapsuleV3 \<Rightarrow> (anyhow, unit) result"
where
  "validate_recovery_descriptor_v3 cp fr descriptor capsule =
    (let err = Inl (Bail ''Recovery Descriptor does not match the authenticated v3 capsule'');
         route_ids = gr3_guardian_index ` set (rd3_guardians descriptor) in
     if rd3_config_ref descriptor \<noteq> cc3_config_ref capsule \<or>
        rd3_guardian_material_root descriptor \<noteq> cc3_guardian_material_root capsule \<or>
        rd3_data_shards descriptor \<noteq> cc3_guardian_threshold capsule \<or>
        rd3_total_shards descriptor \<noteq> cc3_guardian_count capsule \<or>
        length (rd3_guardians descriptor) \<noteq> unat (cc3_guardian_count capsule) \<or>
        card route_ids \<noteq> length (rd3_guardians descriptor) \<or>
        rd3_dpss_suite descriptor \<noteq> cc3_dpss_suite capsule \<or>
        rd3_dpss_public_commitment descriptor \<noteq> cc3_dpss_public_commitment capsule
     then err else
     bindR (crypt (frost_public_package_digest cp fr (rd3_dpss_public_package descriptor))) (\<lambda>digest.
     if digest \<noteq> cc3_dpss_public_commitment capsule then err else Inr ()))"

text \<open>The policy a record of the capsule's epoch was committed with.\<close>

definition capsule_policy :: "primitives \<Rightarrow> ConfigCapsuleV3 \<Rightarrow> GuardianPolicyV3" where
  "capsule_policy cp capsule = \<lparr> gp3_config_ref = cc3_config_ref capsule, gp3_epoch_state = GuardianEpochState.Active,
     gp3_signer_set_commitment = cc3_signer_set_commitment capsule, gp3_signer_count = cc3_signer_count capsule,
     gp3_signer_threshold = cc3_signer_threshold capsule, gp3_owner_cancel_public_key = cc3_owner_cancel_public_key capsule,
     gp3_minimum_recovery_delay = cc3_minimum_recovery_delay capsule,
     gp3_guardian_material_root = cc3_guardian_material_root capsule, gp3_dpss_suite = cc3_dpss_suite capsule,
     gp3_dpss_public_commitment = cc3_dpss_public_commitment capsule,
     gp3_predecessor_capsule_hash = cc3_predecessor_capsule_hash capsule,
     gp3_activation_qc_hash = map_option (\<lambda>qc. sha256 cp (case epoch_activation_qc qc of Inr t \<Rightarrow> t | Inl _ \<Rightarrow> []))
       (cc3_activation_qc capsule),
     gp3_drain_deadline = None \<rparr>"

definition open_guardian_contribution_v3 ::
    "primitives \<Rightarrow> frost \<Rightarrow> GuardianRecoveryContributionV3 \<Rightarrow> GuardianRouteV3 \<Rightarrow> RecoveryDescriptorV3 \<Rightarrow> ConfigCapsuleV3 \<Rightarrow>
     RecoveryRequestV3 \<Rightarrow> arr32 \<Rightarrow> (anyhow, byte list \<times> byte list) result"
where
  "open_guardian_contribution_v3 cp fr contribution route descriptor capsule request authorization_key =
    (let err = Inl (Bail ''guardian contribution is not bound to the exact recovery transcript'');
         index = gc3_guardian_index contribution; config_ref = rq3_config_ref request in
     if gc3_config_ref contribution \<noteq> config_ref \<or> gc3_request_id contribution \<noteq> rq3_request_id request then err else
     bindR (request_digest_v3 cp request) (\<lambda>digest.
     if gc3_request_digest contribution \<noteq> digest \<or>
        gc3_recovery_recipient_key contribution \<noteq> rq3_recovery_recipient_key request \<or>
        gc3_nonce contribution \<noteq> rq3_nonce request \<or> index \<noteq> gr3_guardian_index route
     then err else
     bindR (wire (guardian_recovery_contribution_v3 contribution)) (\<lambda>t.
     bindR (crypt (verify cp (gr3_guardian_public_key route) t (gc3_guardian_signature contribution))) (\<lambda>_.
     bindR (wire (guardian_policy_body_v3 (capsule_policy cp capsule))) (\<lambda>policy.
     let leaf = \<lparr> prl_guardian_index = index, prl_fragment_index = gc3_fragment_index contribution,
           prl_opaque_slot_id = gr3_opaque_slot_id route,
           prl_encrypted_share_hash = hash_aead cp (gc3_encrypted_dek_share contribution),
           prl_fragment_hash = hash_aead cp (gc3_encrypted_ciphertext_fragment contribution),
           prl_policy_hash = sha256 cp policy \<rparr> in
     bindR (ok_or (position_of index (rd3_guardians descriptor))
       (Bail ''guardian contribution is outside the descriptor roster'')) (\<lambda>position.
     bindR (wire (prepared_record_leaf_v3 leaf)) (\<lambda>leaf_bytes.
     bindR (crypt (merkle_verify cp (rd3_guardian_material_root descriptor) (sha256 cp leaf_bytes) position
       (length (rd3_guardians descriptor)) (gc3_merkle_path_proof contribution))) (\<lambda>_.
     bindR (crypt (guardian_share_key_v3 cp authorization_key config_ref index)) (\<lambda>share_key.
     bindR (wire (guardian_share_context_v3 config_ref index)) (\<lambda>context.
     bindR (crypt (aead_decrypt cp share_key (gc3_encrypted_dek_share contribution) context)) (\<lambda>share.
     bindR (crypt (frost_verify_share fr share (rd3_dpss_public_package descriptor))) (\<lambda>participant.
     if participant \<noteq> index then Inl (Bail ''guardian returned a FROST share for another participant'') else
     bindR (crypt (guardian_fragment_key_v3 cp authorization_key config_ref index)) (\<lambda>fragment_key.
     bindR (wire (guardian_fragment_context_v3 config_ref index (gc3_fragment_index contribution))) (\<lambda>context.
     bindR (crypt (aead_decrypt cp fragment_key (gc3_encrypted_ciphertext_fragment contribution) context)) (\<lambda>fragment.
     Inr (share, fragment))))))))))))))))"

section \<open>Recovery\<close>

fun open_each_share ::
    "primitives \<Rightarrow> Id32 \<Rightarrow> RecoveryRequestV3 \<Rightarrow> SignerRecoveryContributionV3 list \<Rightarrow> (anyhow, byte list list) result"
where
  "open_each_share cp recipient request [] = Inr []"
| "open_each_share cp recipient request (c # cs) =
    bindR (wire (recovery_authorization_share_context_v3 request (sc3_signer_id c))) (\<lambda>context.
    bindR (crypt (open_sealed cp recipient (sc3_encrypted_authorization_share c) context)) (\<lambda>share.
    bindR (open_each_share cp recipient request cs) (\<lambda>shares. Inr (share # shares))))"

text \<open>The state of the release loop: shares, fragments and the guardians whose answer was refused.\<close>

type_synonym collected = "EpochFrostShare list \<times> (u16 \<times> byte list) list \<times> u16 list"

fun take_contribution ::
    "(GuardianRecoveryContributionV3 \<Rightarrow> GuardianRouteV3 \<Rightarrow> (anyhow, byte list \<times> byte list) result) \<Rightarrow> ConfigRef \<Rightarrow>
     GuardianRouteV3 \<Rightarrow> GuardianRecoveryResponseV3 option \<Rightarrow> collected \<Rightarrow> collected"
where
  "take_contribution open config_ref route (Some (RecoveryContribution c)) (shares, fragments, rejected) =
    (case open c route of
       Inr (share, fragment) \<Rightarrow>
         (shares @ [\<lparr> efs_config_ref = config_ref, efs_encoded_share = share \<rparr>],
          fragments @ [(gc3_fragment_index c, fragment)], rejected)
     | Inl _ \<Rightarrow> (shares, fragments, rejected @ [gr3_guardian_index route]))"
| "take_contribution open config_ref route _ (shares, fragments, rejected) =
    (shares, fragments, rejected @ [gr3_guardian_index route])"

fun collect_contributions ::
    "(GuardianRecoveryContributionV3 \<Rightarrow> GuardianRouteV3 \<Rightarrow> (anyhow, byte list \<times> byte list) result) \<Rightarrow> ConfigRef \<Rightarrow> nat \<Rightarrow>
     (nat \<Rightarrow> string \<Rightarrow> GuardianRecoveryRequestV3 \<Rightarrow> GuardianRecoveryResponseV3 option) \<Rightarrow> GuardianRecoveryRequestV3 \<Rightarrow>
     nat \<Rightarrow> GuardianRouteV3 list \<Rightarrow> collected \<Rightarrow> collected"
where
  "collect_contributions open config_ref threshold ask request k [] acc = acc"
| "collect_contributions open config_ref threshold ask request k (route # routes) acc =
    (let acc = take_contribution open config_ref route (ask k (gr3_mailbox route) request) acc in
     if threshold \<le> length (fst acc) then acc
     else collect_contributions open config_ref threshold ask request (Suc k) routes acc)"

text \<open>The certificate and the authorization key from the approvals.\<close>

definition approve_recovery ::
    "primitives \<Rightarrow> sharing \<Rightarrow> recovery_network \<Rightarrow> RecoveryCardV3 \<Rightarrow> ConfigCapsuleV3 \<Rightarrow> EpochReadChallenge \<Rightarrow>
     WitnessReadEnvelope list \<Rightarrow> Id32 \<Rightarrow> RecoveryRequestV3 \<Rightarrow> u64 option \<Rightarrow>
     (anyhow, BeginRecoveryCertificateV3 \<times> byte list) result"
where
  "approve_recovery cp sp net rcard capsule witness_challenge witness_reads recipient request reading =
    (let threshold = unat (cc3_signer_threshold capsule);
         contributions = gather contribution_of (Some threshold) (rcn_signer net)
           (Approve request witness_challenge witness_reads) 0 (card3_signer_mailboxes rcard) [] in
     if length contributions < threshold
     then Inl (Bail ''protocol-v3 signer approval threshold was not reached'') else
     bindR (request_digest_v3 cp request) (\<lambda>request_digest.
     let begin_cert = \<lparr> brc3_request = request, brc3_request_digest = request_digest,
           brc3_signer_contributions = contributions \<rparr> in
     bindR (wall_clock reading) (\<lambda>now.
     bindR (validate_begin_recovery_certificate_v3 cp begin_cert capsule now) (\<lambda>_.
     bindR (open_each_share cp recipient request contributions) (\<lambda>shares.
     bindR (crypt (recover_secret sp shares (cc3_signer_threshold capsule))) (\<lambda>authorization_key.
     Inr (begin_cert, authorization_key)))))))"

definition open_descriptor_v3 ::
    "primitives \<Rightarrow> frost \<Rightarrow> (byte list \<Rightarrow> RecoveryDescriptorV3 option) \<Rightarrow> ConfigCapsuleV3 \<Rightarrow> arr32 \<Rightarrow>
     (anyhow, RecoveryDescriptorV3) result"
where
  "open_descriptor_v3 cp fr parse capsule key =
    bindR (crypt (descriptor_key_v3 cp key (cc3_config_ref capsule))) (\<lambda>descriptor_key.
    bindR (wire (descriptor_context_v3 (cc3_config_ref capsule))) (\<lambda>context.
    bindR (crypt (aead_decrypt cp descriptor_key (cc3_encrypted_recovery_descriptor capsule) context)) (\<lambda>plaintext.
    bindR (json (parse plaintext)) (\<lambda>descriptor.
    bindR (validate_recovery_descriptor_v3 cp fr descriptor capsule) (\<lambda>_. Inr descriptor)))))"

definition release_recovery ::
    "primitives \<Rightarrow> recovery_network \<Rightarrow> RecoveryCardV3 \<Rightarrow> ConfigCapsuleV3 \<Rightarrow> RecoveryRequestV3 \<Rightarrow> Id32 \<Rightarrow> u64 option \<Rightarrow>
     (anyhow, RecoveryReleaseCertificateV3) result"
where
  "release_recovery cp net rcard capsule request digest reading =
    (let threshold = unat (cc3_signer_threshold capsule);
         votes = gather recovery_vote_of (Some threshold) (rcn_signer net) (ReleaseRequest request) 0
           (card3_signer_mailboxes rcard) [] in
     if length votes < threshold then Inl (Bail ''protocol-v3 signer Release threshold was not reached'') else
     let release = \<lparr> rc3_request = request, rc3_request_digest = digest, rc3_votes = votes \<rparr> in
     bindR (wall_clock reading) (\<lambda>now.
     bindR (validate_recovery_release_certificate_for_ref_v3 cp release capsule (cc3_config_ref capsule) now) (\<lambda>_.
     Inr release)))"

definition reconstruct_payload_v3 ::
    "primitives \<Rightarrow> frost \<Rightarrow> sharing \<Rightarrow> ConfigCapsuleV3 \<Rightarrow> RecoveryDescriptorV3 \<Rightarrow> EpochFrostShare list \<Rightarrow>
     (u16 \<times> byte list) list \<Rightarrow> (anyhow, byte list) result"
where
  "reconstruct_payload_v3 cp fr sp capsule descriptor shares fragments =
    bindR (crypt (frost_recover_dek_for_epoch fr shares (cc3_config_ref capsule) (cc3_guardian_threshold capsule))) (\<lambda>dek.
    bindR (crypt (erasure_reconstruct sp fragments (rd3_data_shards descriptor) (rd3_total_shards descriptor)
      (unat (rd3_ciphertext_len descriptor)))) (\<lambda>ciphertext.
    bindR (arr32_try_from ''could not convert slice to array'' dek) (\<lambda>key.
    bindR (wire (payload_context_v3 (cr_config_id (cc3_config_ref capsule)) (cr_payload_generation (cc3_config_ref capsule))))
      (\<lambda>context.
    crypt (aead_decrypt cp key \<lparr> ac_nonce = rd3_payload_nonce descriptor, ac_ciphertext = ciphertext \<rparr> context)))))"

definition recover_v3 ::
    "primitives \<Rightarrow> frost \<Rightarrow> sharing \<Rightarrow> (byte list \<Rightarrow> RecoveryDescriptorV3 option) \<Rightarrow> (Id32 \<Rightarrow> string) \<Rightarrow> (nat \<Rightarrow> u64 option) \<Rightarrow>
     recovery_draws \<Rightarrow> recovery_network \<Rightarrow> RecoveryCardV3 \<Rightarrow> (anyhow, NetworkDemoResult) result"
where
  "recover_v3 cp fr sp parse hx clock draws net rcard =
    (let recipient = rcd_recipient draws; recipient_key = xwing_public cp recipient in
     bindR (read_latest_epoch_v3 cp (rcn_witness net) rcard recipient_key (rcd_client_nonce draws) (clock 0))
       (\<lambda>(capsule, witness_challenge, witness_reads).
     bindR (wall_clock (clock 1)) (\<lambda>now.
     let request = \<lparr> rq3_protocol_version = PROTOCOL_VERSION_V3, rq3_config_ref = cc3_config_ref capsule,
           rq3_request_id = rcd_request_id draws, rq3_recovery_recipient_key = recipient_key, rq3_requested_at = now,
           rq3_nonce = rcd_nonce draws, rq3_expiry = saturating_add now (cc3_max_request_lifetime capsule) \<rparr> in
     bindR (approve_recovery cp sp net rcard capsule witness_challenge witness_reads recipient request (clock 2))
       (\<lambda>(begin_cert, authorization_key).
     bindR (arr32_try_from ''reconstructed A has the wrong length'' authorization_key) (\<lambda>key.
     bindR (open_descriptor_v3 cp fr parse capsule key) (\<lambda>descriptor.
     let begun = gather begin_accepted_of None (rcn_guardian net) (BeginRecovery begin_cert) 0
           (map gr3_mailbox (rd3_guardians descriptor)) [];
         threshold = unat (cc3_guardian_threshold capsule) in
     if length begun < threshold then Inl (Bail ''not enough protocol-v3 guardians accepted Begin'') else
     bindR (release_recovery cp net rcard capsule request (brc3_request_digest begin_cert) (clock 3)) (\<lambda>release.
     case collect_contributions
         (\<lambda>contribution route. open_guardian_contribution_v3 cp fr contribution route descriptor capsule request key)
         (cc3_config_ref capsule) threshold (rcn_guardian net) (ReleaseRecovery request release) 0
         (rd3_guardians descriptor) ([], [], []) of
       (shares, fragments, rejected) \<Rightarrow>
     if length shares < threshold then Inl (Bail ''protocol-v3 guardian threshold was not reached'') else
     bindR (reconstruct_payload_v3 cp fr sp capsule descriptor shares fragments) (\<lambda>plaintext.
     Inr \<lparr> ndr_config_id = hx (cr_config_id (cc3_config_ref capsule)), ndr_request_id = hx (rq3_request_id request),
       ndr_recovered_secret = Some plaintext, ndr_signer_contributions = unat (cc3_signer_threshold capsule),
       ndr_guardian_contributions = length shares, ndr_rejected_guardians = rejected, ndr_cancelled = False \<rparr>))))))))"

end
