(* ===== verification/GP_Recovery_Client_Safety.thy ===== *)
theory GP_Recovery_Client_Safety
  imports GP_Recovery_Client GP_Recovery_Roundtrip GP_Guardian_Instances
begin

text \<open>
  The recovery client of protocol 3 against the code of the guardian: what a guardian answers to a
  release opens to exactly its share and fragment, for the request it was released for and no other;
  and the release loop keeps only contributions that opened.
\<close>

section \<open>Opening a contribution\<close>

definition contribution_from ::
    "RecoveryRequestV3 \<Rightarrow> Id32 \<Rightarrow> GuardianRecordV3 \<Rightarrow> byte list \<Rightarrow> GuardianRecoveryContributionV3"
where
  "contribution_from request digest rec signature = \<lparr> gc3_config_ref = rq3_config_ref request, gc3_request_id = rq3_request_id request,
     gc3_request_digest = digest, gc3_recovery_recipient_key = rq3_recovery_recipient_key request,
     gc3_nonce = rq3_nonce request, gc3_guardian_index = grec3_guardian_index rec,
     gc3_fragment_index = grec3_fragment_index rec,
     gc3_encrypted_ciphertext_fragment = grec3_encrypted_ciphertext_fragment rec,
     gc3_encrypted_dek_share = grec3_encrypted_dek_share rec, gc3_merkle_path_proof = grec3_merkle_path_proof rec,
     gc3_guardian_signature = signature \<rparr>"

text \<open>The contribution a guardian answers with, in full.\<close>

lemma released_contribution:
  assumes "handle_guardian_recovery_v3 cp hx wall now boot demo (ReleaseRecovery request certificate) entry =
      (Inr (RecoveryContribution c), entry')"
    and "record_for_request entry (rq3_config_ref request) (rq3_request_id request) True = Inr rec"
  obtains t where "guardian_recovery_contribution_v3 c = Inr t"
    and "gc3_config_ref c = rq3_config_ref request" "gc3_request_id c = rq3_request_id request"
      "gc3_recovery_recipient_key c = rq3_recovery_recipient_key request" "gc3_nonce c = rq3_nonce request"
      "gc3_guardian_index c = grec3_guardian_index rec" "gc3_fragment_index c = grec3_fragment_index rec"
      "gc3_encrypted_ciphertext_fragment c = grec3_encrypted_ciphertext_fragment rec"
      "gc3_encrypted_dek_share c = grec3_encrypted_dek_share rec" "gc3_merkle_path_proof c = grec3_merkle_path_proof rec"
      "gc3_guardian_signature c = sign cp (grp_signing_seed (gre_provision entry)) t"
proof -
  from assms(1) have "recovery_release cp hx wall now boot request certificate entry = (Inr (RecoveryContribution c), entry')"
    by (auto simp: handle_guardian_recovery_v3_def Let_def split: if_splits)
  with assms(2) have "\<exists>digest t. guardian_recovery_contribution_v3 (contribution_from request digest rec []) = Inr t \<and>
      c = contribution_from request digest rec (sign cp (grp_signing_seed (gre_provision entry)) t)"
    unfolding recovery_release_def Let_def contribution_from_def
    by (auto simp: attempt_eq wire_ok split: if_splits prod.splits sum.splits)
  then obtain digest t where t: "guardian_recovery_contribution_v3 (contribution_from request digest rec []) = Inr t"
    and c: "c = contribution_from request digest rec (sign cp (grp_signing_seed (gre_provision entry)) t)" by blast
  have "guardian_recovery_contribution_v3 c = Inr t"
    using t unfolding c contribution_from_def by (simp add: guardian_recovery_contribution_v3_def)
  then show thesis by (rule that) (simp_all add: c contribution_from_def)
qed

text \<open>For which requests a contribution opens at all.\<close>

lemma opened_request:
  assumes "open_guardian_contribution_v3 cp fr c route descriptor capsule request key = Inr x"
  shows "gc3_config_ref c = rq3_config_ref request \<and> gc3_request_id c = rq3_request_id request \<and>
    request_digest_v3 cp request = Inr (gc3_request_digest c) \<and>
    gc3_recovery_recipient_key c = rq3_recovery_recipient_key request \<and> gc3_nonce c = rq3_nonce request"
  using assms by (auto simp: open_guardian_contribution_v3_def Let_def bindR_eq_Inr split: if_splits)

text \<open>C39: the recovery client and a guardian of protocol 3 agree on the way to the guardian's material: the
  contribution a guardian answers to a release, from a record that holds its share and its fragment
  encrypted under the keys of the authorization key for the epoch of the request and its own index, opens at
  the client to exactly that share and fragment, when the record is committed at the place of the guardian's
  route under the root of the descriptor and the share verifies for its index; and it opens for no
  request with another epoch, identifier, digest, recipient key or nonce.\<close>

theorem contribution_opens:
  assumes laws: "aead_correct cp" "signatures_correct cp"
    and answer: "handle_guardian_recovery_v3 cp hx wall now boot demo (ReleaseRecovery request certificate) entry =
      (Inr (RecoveryContribution c), entry')" "request_digest_v3 cp request = Inr (gc3_request_digest c)"
    and held: "record_for_request entry (rq3_config_ref request) (rq3_request_id request) True = Inr rec"
    and route: "gr3_guardian_index route = grec3_guardian_index rec"
      "gr3_guardian_public_key route = verifying_key_bytes cp (grp_signing_seed (gre_provision entry))"
    and committed: "position_of (grec3_guardian_index rec) (rd3_guardians descriptor) = Some place"
      "guardian_policy_body_v3 (capsule_policy cp capsule) = Inr policy"
      "prepared_record_leaf_v3 \<lparr> prl_guardian_index = grec3_guardian_index rec, prl_fragment_index = grec3_fragment_index rec,
         prl_opaque_slot_id = gr3_opaque_slot_id route, prl_encrypted_share_hash = hash_aead cp (grec3_encrypted_dek_share rec),
         prl_fragment_hash = hash_aead cp (grec3_encrypted_ciphertext_fragment rec), prl_policy_hash = sha256 cp policy \<rparr> = Inr leaf"
      "merkle_verify cp (rd3_guardian_material_root descriptor) (sha256 cp leaf) place (length (rd3_guardians descriptor))
         (grec3_merkle_path_proof rec) = Inr ()"
    and share: "guardian_share_key_v3 cp key (rq3_config_ref request) (grec3_guardian_index rec) = Inr share_key"
      "guardian_share_context_v3 (rq3_config_ref request) (grec3_guardian_index rec) = Inr c1"
      "aead_encrypt cp share_key n1 share c1 = Inr (grec3_encrypted_dek_share rec)"
      "frost_verify_share fr share (rd3_dpss_public_package descriptor) = Inr (grec3_guardian_index rec)"
    and fragment: "guardian_fragment_key_v3 cp key (rq3_config_ref request) (grec3_guardian_index rec) = Inr fragment_key"
      "guardian_fragment_context_v3 (rq3_config_ref request) (grec3_guardian_index rec) (grec3_fragment_index rec) = Inr c2"
      "aead_encrypt cp fragment_key n2 fragment c2 = Inr (grec3_encrypted_ciphertext_fragment rec)"
  shows "open_guardian_contribution_v3 cp fr c route descriptor capsule request key = Inr (share, fragment) \<and>
    (\<forall>request'. is_ok (open_guardian_contribution_v3 cp fr c route descriptor capsule request' key) \<longrightarrow>
       rq3_config_ref request' = rq3_config_ref request \<and> rq3_request_id request' = rq3_request_id request \<and>
       request_digest_v3 cp request' = request_digest_v3 cp request \<and>
       rq3_recovery_recipient_key request' = rq3_recovery_recipient_key request \<and> rq3_nonce request' = rq3_nonce request)"
proof -
  from released_contribution [OF answer(1) held] obtain t where t: "guardian_recovery_contribution_v3 c = Inr t"
    and c: "gc3_config_ref c = rq3_config_ref request" "gc3_request_id c = rq3_request_id request"
      "gc3_recovery_recipient_key c = rq3_recovery_recipient_key request" "gc3_nonce c = rq3_nonce request"
      "gc3_guardian_index c = grec3_guardian_index rec" "gc3_fragment_index c = grec3_fragment_index rec"
      "gc3_encrypted_ciphertext_fragment c = grec3_encrypted_ciphertext_fragment rec"
      "gc3_encrypted_dek_share c = grec3_encrypted_dek_share rec" "gc3_merkle_path_proof c = grec3_merkle_path_proof rec"
      "gc3_guardian_signature c = sign cp (grp_signing_seed (gre_provision entry)) t" by metis
  have signed: "verify cp (gr3_guardian_public_key route) t (gc3_guardian_signature c) = Inr ()"
    using laws(2) route(2) c(10) by (simp add: signatures_correct_def)
  have plain: "aead_decrypt cp share_key (grec3_encrypted_dek_share rec) c1 = Inr share"
    "aead_decrypt cp fragment_key (grec3_encrypted_ciphertext_fragment rec) c2 = Inr fragment"
    by (rule aead_decrypt_encrypt(1) [OF laws(1)], fact)+
  have "open_guardian_contribution_v3 cp fr c route descriptor capsule request key = Inr (share, fragment)"
    using answer(2) by (simp add: open_guardian_contribution_v3_def Let_def c t signed [unfolded c(10)] route(1) committed share fragment plain
        wire_def crypt_def ok_or_def)
  moreover have "gc3_config_ref c = rq3_config_ref request' \<and> gc3_request_id c = rq3_request_id request' \<and>
      request_digest_v3 cp request' = Inr (gc3_request_digest c) \<and>
      gc3_recovery_recipient_key c = rq3_recovery_recipient_key request' \<and> gc3_nonce c = rq3_nonce request'"
    if "is_ok (open_guardian_contribution_v3 cp fr c route descriptor capsule request' key)" for request'
    using that by (auto simp: is_ok_def dest: opened_request split: sum.splits)
  ultimately show ?thesis using c(1-4) answer(2) by auto
qed

text \<open>The release loop: every share it keeps comes, with its fragment, from the contribution of a guardian
  that opened for the guardian's route.\<close>

definition all_opened ::
    "(GuardianRecoveryContributionV3 \<Rightarrow> GuardianRouteV3 \<Rightarrow> (anyhow, byte list \<times> byte list) result) \<Rightarrow> ConfigRef \<Rightarrow>
     GuardianRouteV3 set \<Rightarrow> collected \<Rightarrow> bool"
where
  "all_opened open ref R = (\<lambda>(shares, fragments, rejected). list_all2 (\<lambda>s (i, fragment). efs_config_ref s = ref \<and>
     (\<exists>c. \<exists>route \<in> R. gc3_fragment_index c = i \<and> open c route = Inr (efs_encoded_share s, fragment))) shares fragments)"

lemma take_contribution_opened:
  "all_opened open ref R acc \<Longrightarrow> route \<in> R \<Longrightarrow> all_opened open ref R (take_contribution open ref route answer acc)"
  by (cases "(open, ref, route, answer, acc)" rule: take_contribution.cases)
    (auto simp: all_opened_def intro!: list_all2_appendI split: sum.splits, blast)

theorem collected_opened:
  "all_opened open ref R acc \<Longrightarrow> set routes \<subseteq> R \<Longrightarrow>
   all_opened open ref R (collect_contributions open ref threshold ask request k routes acc)"
  by (induction routes arbitrary: k acc) (simp_all add: Let_def take_contribution_opened)

section \<open>A concrete recovery\<close>

text \<open>The guardian of the other examples with ciphertexts that are the plaintext after sixteen zero bytes.\<close>

definition rc_prim :: primitives where
  "rc_prim = fg_prim \<lparr> xchacha_encrypt := \<lambda>_ _ m _. Some (replicate 16 0 @ m), xchacha_decrypt := \<lambda>_ _ c _. Some (drop 16 c) \<rparr>"

lemma rc_laws: "aead_correct rc_prim" "signatures_correct rc_prim"
  by (auto simp: aead_correct_def signatures_correct_def rc_prim_def fg_prim_def fx_const_def fx_prim_def verify_def)

lemma rc_eval [simp]:
  "sha256 rc_prim d = 11" "verify rc_prim k t s = Inr ()" "merkle_verify rc_prim r l i n prf = Inr ()" "sign rc_prim k t = []"
  "verifying_key_bytes rc_prim k = k" "hash_aead rc_prim e = 11"
  "aead_encrypt rc_prim key nonce m a = Inr \<lparr> ac_nonce = nonce, ac_ciphertext = replicate 16 0 @ m \<rparr>"
  by (simp_all add: rc_prim_def sha256_def verify_def merkle_verify_def sign_def verifying_key_bytes_def hash_aead_def
      aead_encrypt_def ok_or_def fg_prim_def fx_const_def fx_prim_def)

lemma rc_keys: "guardian_share_key_v3 rc_prim k c 2 = Inr 0" "guardian_fragment_key_v3 rc_prim k c 2 = Inr 0"
  by (simp_all add: guardian_share_key_v3_def guardian_fragment_key_v3_def FROST_MAX_PARTICIPANTS_def hkdf_sha256_def ok_or_def
      rc_prim_def fg_prim_def)

lemma rc_genesis: "fx_genesis rc_prim = fx_genesis fg_prim"
  using fx_body_ok [of 1 1 0] by (auto simp: fx_genesis_def fx_hash_def)

lemma rc_digest: "request_digest_v3 rc_prim fg_request = Inr 11"
  using fg_request_digest by (auto simp: request_digest_v3_def wire_def)

lemma rc_release_valid:
  "validate_recovery_release_certificate_for_ref_v3 rc_prim fg_release_recovery (fx_genesis fg_prim) (fx_ref 1 1) 40 = Inr 11"
proof -
  have w: "\<exists>t. recovery_release_certificate_v3 fg_release_recovery = Inr t"
    using fg_request_ok by (auto simp: recovery_release_certificate_v3_def fg_release_recovery_def
      signer_recovery_release_vote_into_def fx_wire)
  have v: "\<exists>t. signer_recovery_release_vote_v3 (hd (rc3_votes fg_release_recovery)) = Inr t"
    using fg_request_ok by (auto simp: signer_recovery_release_vote_v3_def fg_release_recovery_def
      signer_recovery_release_vote_into_def fx_wire)
  have m: "validate_signer_membership rc_prim 1 33 [] (fx_genesis fg_prim) = Inr ()"
    by (simp add: signer_membership_ok fg_genesis fx_body_def signer_leaf_def transcript_ok MAX_FIELD_LEN_def)
  have r: "validate_recovery_request_for_ref_v3 rc_prim fg_request (fx_genesis fg_prim) (fx_ref 1 1) 40 = Inr 11"
    using fg_request_valid [of 40] rc_digest
    by (auto simp: validate_recovery_request_for_ref_v3_def request_digest_v3_def wire_def split: if_splits sum.splits)
  show ?thesis using w v m r
    by (auto simp: validate_recovery_release_certificate_for_ref_v3_def wire_def crypt_def fg_release_recovery_def
      each_once_ok fg_genesis fx_body_def)
qed

definition rc_record :: GuardianRecordV3 where
  "rc_record = fg_record \<lparr> grec3_encrypted_dek_share := \<lparr> ac_nonce = 0, ac_ciphertext = replicate 16 0 @ [5] \<rparr>,
     grec3_encrypted_ciphertext_fragment := \<lparr> ac_nonce = 0, ac_ciphertext = replicate 16 0 @ [6] \<rparr> \<rparr>"

definition rc_entry :: GuardianRotationEntryV3 where
  "rc_entry = with_recovery (fg_hx 3) (fg_pending False)
     (GuardianRotationEntryV3_new (fg_provision \<lparr> grp_epoch_store := GuardianEpochStore_new rc_record 11 \<rparr>))"

definition rc_contribution :: GuardianRecoveryContributionV3 where
  "rc_contribution = contribution_from fg_request 11 rc_record []"

definition rc_route :: GuardianRouteV3 where "rc_route = (fx_route 2 52)"

definition rc_descriptor :: RecoveryDescriptorV3 where
  "rc_descriptor = \<lparr> rd3_config_ref = fx_ref 1 1, rd3_guardians = [rc_route], rd3_guardian_material_root = 24, rd3_data_shards = 2,
     rd3_total_shards = 2, rd3_ciphertext_len = 1, rd3_payload_nonce = 0, rd3_dpss_suite = ZfFrostRistretto255RtsRefreshV1,
     rd3_dpss_public_package = [1], rd3_dpss_public_commitment = 22 \<rparr>"

definition rc_frost :: frost where
  "rc_frost = fg_frost \<lparr> public_deserialize := \<lambda>_. Some \<lparr> pkp_verifying_shares = [(2, [])], pkp_verifying_key = [],
     pkp_min_signers = Some 1 \<rparr> \<rparr>"

lemma rc_record_sel:
  "gp3_config_ref (grec3_policy rc_record) = fx_ref 1 1" "grec3_guardian_index rc_record = 2" "grec3_fragment_index rc_record = 1"
  "grec3_encrypted_dek_share rc_record = \<lparr> ac_nonce = 0, ac_ciphertext = replicate 16 0 @ [5] \<rparr>"
  "grec3_encrypted_ciphertext_fragment rc_record = \<lparr> ac_nonce = 0, ac_ciphertext = replicate 16 0 @ [6] \<rparr>"
  "grec3_merkle_path_proof rc_record = []"
  by (simp_all add: rc_record_def fg_record_def sample_record_def sample_policy_def)

lemma rc_store:
  "ges_active (GuardianEpochStore_new rc_record 11) = Some (with_epoch_state GuardianEpochState.Active rc_record)"
  "ges_draining (GuardianEpochStore_new rc_record 11) = []"
  "ges_recovery_cancellation_tombstones (GuardianEpochStore_new rc_record 11) = []"
  by (simp_all add: GuardianEpochStore_new_def Let_def)

lemma rc_entry_sel:
  "epoch_store rc_entry = GuardianEpochStore_new rc_record 11" "predecessor_capsule rc_entry = fx_genesis fg_prim"
  "gre_recoveries rc_entry = [(fg_hx 3, fg_pending False)]" "grp_signing_seed (gre_provision rc_entry) = 2"
  by (simp_all add: rc_entry_def GuardianRotationEntryV3_new_def with_recovery_def fg_provision_def)

lemma rc_held:
  "record_for_request rc_entry (fx_ref 1 1) 3 True = Inr (with_epoch_state GuardianEpochState.Active rc_record)"
  by (simp add: record_for_request_def rc_entry_sel rc_store rc_record_sel Let_def)

lemma rc_answer:
  "\<exists>entry'. handle_guardian_recovery_v3 rc_prim fg_hx 40 1010 ''b'' False (ReleaseRecovery fg_request fg_release_recovery) rc_entry =
     (Inr (RecoveryContribution rc_contribution), entry')"
proof -
  have "\<exists>t. guardian_recovery_contribution_v3 rc_contribution = Inr t"
    by (simp add: guardian_recovery_contribution_v3_def rc_contribution_def contribution_from_def rc_record_sel fg_request_sel
        fx_ref_def fx_wire)
  then show ?thesis
    using rc_release_valid
    by (auto simp: handle_guardian_recovery_v3_def recovery_release_def Let_def attempt_def ok_or_def rc_record_sel fg_request_sel
        PROTOCOL_VERSION_V3_def XWING_PUBLIC_KEY_LEN_def rc_held rc_entry_sel rc_store fg_pending_def rc_contribution_def
        contribution_from_def wire_def with_recovery_def)
qed

lemma rc_identifier: "numeric_identifier rc_frost 2 = Inr 2"
proof -
  have "share_identifier rc_frost i = (if i = 0 \<or> 32 < i then Inl InvalidFrostParticipant else Inr (unat i))" for i
    by (simp add: share_identifier_def frost_identifier_def rc_frost_def fg_frost_def FROST_MAX_PARTICIPANTS_def ok_or_def)
  moreover have "[1..<Suc (unat FROST_MAX_PARTICIPANTS)] = 1 # 2 # [3..<33]"
    by (simp add: FROST_MAX_PARTICIPANTS_def upt_conv_Cons)
  ultimately show ?thesis by (simp add: numeric_identifier_def Let_def)
qed

lemma rc_share: "frost_verify_share rc_frost [5] [1] = Inr 2"
  using rc_identifier
  by (simp add: frost_verify_share_def decode_share_def decode_public_def bounded_def FROST_SHARE_MAX_LEN_def
      FROST_PUBLIC_PACKAGE_MAX_LEN_def ok_or_def rc_frost_def fg_frost_def fg_package_def)

theorem contribution_opens_witness:
  "open_guardian_contribution_v3 rc_prim rc_frost rc_contribution rc_route rc_descriptor (fx_genesis fg_prim) fg_request 4 = Inr ([5], [6])"
proof -
  obtain entry' where answer: "handle_guardian_recovery_v3 rc_prim fg_hx 40 1010 ''b'' False (ReleaseRecovery fg_request fg_release_recovery) rc_entry =
     (Inr (RecoveryContribution rc_contribution), entry')" using rc_answer by blast
  obtain c1 where c1: "guardian_share_context_v3 (fx_ref 1 1) 2 = Inr c1"
    by (auto simp: guardian_share_context_v3_def fx_ref_def fx_wire)
  obtain c2 where c2: "guardian_fragment_context_v3 (fx_ref 1 1) 2 1 = Inr c2"
    by (auto simp: guardian_fragment_context_v3_def fx_ref_def fx_wire)
  obtain policy where policy: "guardian_policy_body_v3 (capsule_policy rc_prim (fx_genesis fg_prim)) = Inr policy"
    by (auto simp: guardian_policy_body_v3_def capsule_policy_def fg_genesis fx_body_def fx_ref_def fx_wire)
  obtain leaf where leaf: "prepared_record_leaf_v3 \<lparr> prl_guardian_index = 2, prl_fragment_index = 1, prl_opaque_slot_id = gr3_opaque_slot_id rc_route,
      prl_encrypted_share_hash = 11, prl_fragment_hash = 11, prl_policy_hash = 11 \<rparr> = Inr leaf"
    by (auto simp: prepared_record_leaf_v3_def prepared_leaf_into_def fx_wire)
  have route: "gr3_guardian_index rc_route = 2" "gr3_guardian_public_key rc_route = 2" by (simp_all add: rc_route_def fx_route_def)
  have d: "rd3_guardians rc_descriptor = [rc_route]" "rd3_dpss_public_package rc_descriptor = [1]" by (simp_all add: rc_descriptor_def)
  have digest: "request_digest_v3 rc_prim fg_request = Inr (gc3_request_digest rc_contribution)"
    by (simp add: rc_digest rc_contribution_def contribution_from_def)
  have rec: "grec3_guardian_index (with_epoch_state s rc_record) = 2" "grec3_fragment_index (with_epoch_state s rc_record) = 1"
    "grec3_encrypted_dek_share (with_epoch_state s rc_record) = \<lparr> ac_nonce = 0, ac_ciphertext = replicate 16 0 @ [5] \<rparr>"
    "grec3_encrypted_ciphertext_fragment (with_epoch_state s rc_record) = \<lparr> ac_nonce = 0, ac_ciphertext = replicate 16 0 @ [6] \<rparr>"
    "grec3_merkle_path_proof (with_epoch_state s rc_record) = []" for s
    by (simp_all add: rc_record_sel)
  show ?thesis
    by (rule conjunct1 [OF contribution_opens [OF rc_laws answer digest, of "with_epoch_state GuardianEpochState.Active rc_record" rc_route rc_descriptor 0
        "fx_genesis fg_prim" policy leaf 4 0 c1 0 "[5]" rc_frost 0 c2 0 "[6]"]])
      (simp_all add: fg_request_sel rc_held rec route d policy leaf c1 c2 rc_keys rc_share rc_entry_sel)
qed

end
