(* ===== verification/GP_Rotation_Run.thy ===== *)
theory GP_Rotation_Run
  imports GP_Rotation_Client GP_Recovery_Client
begin

text \<open>
  The whole of \<open>rotate_v3\<close> in \<open>gp-network/src/rotation_coordinator.rs\<close>: the intent, the plan, the
  certificates, the rounds of the resharing the coordinator relays between the guardians, the
  preparation of the successor records, the activation and the update of the owner file. The network
  is a parameter: the answer of the \<open>k\<close>-th actor of a loop to a request, or an error. The
  provisioning of fresh mailboxes and of the replacement, which ends the command when it fails, is
  one call; \<open>serde_json\<close> on the descriptor, clock readings and random draws are arguments.
\<close>

section \<open>Network, draws and results\<close>

type_synonym guardian_network =
  "nat \<Rightarrow> string \<Rightarrow> GuardianRotationRequestV3 \<Rightarrow> (anyhow, GuardianRotationResponseV3) result"

record rotation_network =
  rtn_read :: "nat \<Rightarrow> WitnessPin \<Rightarrow> EpochReadChallenge \<Rightarrow> WitnessReadEnvelope option"
  rtn_signer :: signer_network
  rtn_provision :: "GuardianRouteV3 list \<Rightarrow> GuardianRotationProvisionV3 \<Rightarrow> (anyhow, unit) result"
  rtn_guardian :: guardian_network
  rtn_activate :: "(ConfigCapsuleV3 \<times> RotationActivateCertificate, WitnessActivationAck) witness_network"
  rtn_finalize :: "nat \<Rightarrow> WitnessPin \<Rightarrow> EpochActivationQc \<Rightarrow> (anyhow, unit) result"

type_synonym seal_draws = "nat \<Rightarrow> (Id32 \<times> arr24) \<times> (Id32 \<times> arr24)"

record rotation_draws =
  rtd_coordinator :: Id32
  rtd_client_nonce :: Id32
  rtd_rotation_id :: Id32
  rtd_nonce :: Id32
  rtd_plan :: plan_draws
  rtd_repair_grants :: seal_draws
  rtd_refresh_grants :: seal_draws
  rtd_wrap_grants :: seal_draws
  rtd_descriptor_nonce :: arr24

record RotateV3Result =
  rvr_config_id :: string
  rvr_predecessor_epoch :: u64
  rvr_successor_epoch :: u64
  rvr_removed_guardian :: u16
  rvr_added_guardian :: u16
  rvr_prepared_guardians :: nat
  rvr_witness_acknowledgements :: nat
  rvr_plaintext_decryptions :: u64

text \<open>A loop over actors that ends at the first error.\<close>

fun each_route :: "(nat \<Rightarrow> 'r \<Rightarrow> 's \<Rightarrow> (anyhow, 's) result) \<Rightarrow> nat \<Rightarrow> 'r list \<Rightarrow> 's \<Rightarrow> (anyhow, 's) result" where
  "each_route step k [] s = Inr s"
| "each_route step k (r # rs) s = bindR (step k r s) (each_route step (Suc k) rs)"

text \<open>An index out of range, where the code panics, is an error here.\<close>

definition at_offset :: "'a list \<Rightarrow> nat \<Rightarrow> (anyhow, 'a) result" where
  "at_offset xs k = ok_or (if k < length xs then Some (xs ! k) else None) (Bail ''index out of bounds'')"

section \<open>Intent\<close>

fun intent_contribution_of :: "SignerRotationResponseV3 \<Rightarrow> SignerRotationIntentContribution option" where
  "intent_contribution_of (IntentContribution c) = Some c" | "intent_contribution_of _ = None"

fun collect_intents ::
    "(SignerRotationIntentContribution \<Rightarrow> (anyhow, unit) result) \<Rightarrow> nat \<Rightarrow> signer_network \<Rightarrow> SignerRotationRequestV3 \<Rightarrow>
     nat \<Rightarrow> string list \<Rightarrow> SignerRotationIntentContribution list \<Rightarrow> (anyhow, SignerRotationIntentContribution list) result"
where
  "collect_intents check threshold ask request k [] cs = Inr cs"
| "collect_intents check threshold ask request k (mailbox # mailboxes) cs =
    bindR (case Option.bind (ask k mailbox request) intent_contribution_of of
        Some c \<Rightarrow> bindR (check c) (\<lambda>_. Inr (cs @ [c]))
      | None \<Rightarrow> Inr cs) (\<lambda>cs.
    if threshold \<le> length cs then Inr cs
    else collect_intents check threshold ask request (Suc k) mailboxes cs)"

fun open_intent_shares ::
    "primitives \<Rightarrow> Id32 \<Rightarrow> RotationContext \<Rightarrow> Id32 \<Rightarrow> SignerRotationIntentContribution list \<Rightarrow> (anyhow, byte list list) result"
where
  "open_intent_shares cp coordinator ctx intent_hash [] = Inr []"
| "open_intent_shares cp coordinator ctx intent_hash (c # cs) =
    bindR (wire (rotation_intent_share_context_v3 ctx intent_hash (sric_signer_id c))) (\<lambda>context.
    bindR (crypt (open_sealed cp coordinator (sric_encrypted_authorization_share c) context)) (\<lambda>share.
    bindR (open_intent_shares cp coordinator ctx intent_hash cs) (\<lambda>shares. Inr (share # shares))))"

text \<open>The contributions to the intent, the authorization key and the descriptor it opens.\<close>

definition intent_stage ::
    "primitives \<Rightarrow> frost \<Rightarrow> sharing \<Rightarrow> (byte list \<Rightarrow> RecoveryDescriptorV3 option) \<Rightarrow> signer_network \<Rightarrow> RecoveryCardV3 \<Rightarrow>
     Id32 \<Rightarrow> ConfigCapsuleV3 \<Rightarrow> RotationIntent \<Rightarrow> EpochReadChallenge \<Rightarrow> WitnessReadEnvelope list \<Rightarrow>
     (anyhow, Id32 \<times> arr32 \<times> RecoveryDescriptorV3) result"
where
  "intent_stage cp fr sp parse ask rcard coordinator predecessor intent witness_challenge witness_reads =
    bindR (wire (rotation_intent intent)) (\<lambda>t.
    let intent_hash = sha256 cp t; ctx = ri_context intent; threshold = unat (cc3_signer_threshold predecessor) in
    bindR (collect_intents (\<lambda>c. validate_intent_contribution cp c intent intent_hash predecessor) threshold ask
      (Intent intent witness_challenge witness_reads) 0 (card3_signer_mailboxes rcard) []) (\<lambda>contributions.
    if length contributions < threshold then Inl (Bail ''rotation intent did not reach the signer threshold'') else
    bindR (open_intent_shares cp coordinator ctx intent_hash contributions) (\<lambda>shares.
    bindR (crypt (recover_secret sp shares (cc3_signer_threshold predecessor))) (\<lambda>authorization_key.
    bindR (arr32_try_from ''could not convert slice to array'' authorization_key) (\<lambda>key.
    bindR (crypt (descriptor_key_v3 cp key (cc3_config_ref predecessor))) (\<lambda>descriptor_key.
    bindR (wire (descriptor_context_v3 (cc3_config_ref predecessor))) (\<lambda>context.
    bindR (crypt (aead_decrypt cp descriptor_key (cc3_encrypted_recovery_descriptor predecessor) context)) (\<lambda>plaintext.
    bindR (json (parse plaintext)) (\<lambda>descriptor.
    bindR (validate_descriptor cp fr descriptor predecessor) (\<lambda>_.
    Inr (intent_hash, key, descriptor)))))))))))"

text \<open>\<open>mailbox_id\<close> of \<open>client.rs\<close>: the last segment of the address.\<close>

definition client_mailbox_id :: "string \<Rightarrow> (anyhow, string) result" where
  "client_mailbox_id mailbox_url =
    (let value = rev (takeWhile (\<lambda>c. c \<noteq> CHR ''/'') (rev (trim_end_slashes mailbox_url))) in
     if length value \<ge> 32 then Inr value else Inl (Bail ''invalid mailbox URL''))"

definition candidate_provision ::
    "primitives \<Rightarrow> RecoveryCardV3 \<Rightarrow> ConfigCapsuleV3 \<Rightarrow> replacement \<Rightarrow> GuardianRouteV3 \<Rightarrow>
     (anyhow, GuardianRotationProvisionV3) result"
where
  "candidate_provision cp rcard predecessor info route =
    bindR (client_mailbox_id (gr3_mailbox route)) (\<lambda>mailbox.
    Inr \<lparr> grp_mailbox = mailbox, grp_signing_seed = rep_signing_seed info,
      grp_signing_public_key = gr3_guardian_public_key route, grp_recovery_card = rcard,
      grp_predecessor_capsule = predecessor, grp_signer_public_keys = [],
      grp_epoch_store = new_candidate (cc3_config_ref predecessor) (cc3_capsule_hash predecessor) \<rparr>)"

section \<open>Resharing\<close>

text \<open>Every guardian of the successor has to answer with the given kind.\<close>

definition expect ::
    "(GuardianRotationResponseV3 \<Rightarrow> bool) \<Rightarrow> string \<Rightarrow> guardian_network \<Rightarrow> GuardianRotationRequestV3 \<Rightarrow> nat \<Rightarrow> string \<Rightarrow> unit \<Rightarrow>
     (anyhow, unit) result"
where
  "expect wanted message ask request k mailbox s =
    bindR (ask k mailbox request) (\<lambda>response. if wanted response then Inr () else Inl (Bail message))"

fun begin_accepted :: "GuardianRotationResponseV3 \<Rightarrow> bool" where
  "begin_accepted (RotationBeginAccepted _) = True" | "begin_accepted _ = False"

fun activated_answer :: "GuardianRotationResponseV3 \<Rightarrow> bool" where
  "activated_answer (Activated _) = True" | "activated_answer _ = False"

type_synonym messages = "(u16, SealedMessage list) btree_map"

definition repair1_step ::
    "primitives \<Rightarrow> guardian_network \<Rightarrow> seal_draws \<Rightarrow> RotationPlan \<Rightarrow> BeginRotationCertificate \<Rightarrow> RotationReleaseCertificate \<Rightarrow>
     Id32 \<Rightarrow> RecoveryDescriptorV3 \<Rightarrow> arr32 \<Rightarrow> u16 list \<Rightarrow> u16 \<Rightarrow> nat \<Rightarrow> u16 \<Rightarrow>
     messages \<times> CiphertextFragmentContribution list \<Rightarrow> (anyhow, messages \<times> CiphertextFragmentContribution list) result"
where
  "repair1_step cp ask draws plan begin_cert release release_hash descriptor key helpers added k helper s =
    bindR (route_by_id (rd3_guardians descriptor) helper) (\<lambda>route.
    bindR (old_grant cp (fst (draws k)) (snd (draws k)) plan release_hash route key) (\<lambda>grant.
    bindR (ask k (gr3_mailbox route) (DoRepairRound1 plan begin_cert release grant helpers added)) (\<lambda>response.
    case response of
      DpssDeliveries deliveries answered_fragment \<Rightarrow>
        bindR (ok_or answered_fragment (Bail ''RTS helper omitted its ciphertext fragment'')) (\<lambda>fragment.
        bindR (validate_fragment_contribution cp fragment route descriptor plan release_hash) (\<lambda>_.
        bindR (distribute (fst s) deliveries (rd3_guardians descriptor)) (\<lambda>by_recipient.
        Inr (by_recipient, snd s @ [fragment]))))
    | _ \<Rightarrow> Inl (Bail ''guardian returned the wrong RTS round-1 response''))))"

definition repair2_step ::
    "guardian_network \<Rightarrow> RotationPlan \<Rightarrow> RecoveryDescriptorV3 \<Rightarrow> u16 \<Rightarrow> nat \<Rightarrow> u16 \<Rightarrow> messages \<times> SealedMessage list \<Rightarrow>
     (anyhow, messages \<times> SealedMessage list) result"
where
  "repair2_step ask plan descriptor added k helper s =
    bindR (route_by_id (rd3_guardians descriptor) helper) (\<lambda>route.
    bindR (ask k (gr3_mailbox route) (DoRepairRound2 plan (unwrap_or (bt_get (fst s) helper) []) added)) (\<lambda>response.
    case response of
      DpssDeliveries deliveries _ \<Rightarrow> Inr (bt_remove helper (fst s), snd s @ map dd_sealed_message deliveries)
    | _ \<Rightarrow> Inl (Bail ''guardian returned the wrong RTS round-2 response'')))"

definition repair_result ::
    "guardian_network \<Rightarrow> RotationPlan \<Rightarrow> string \<Rightarrow> SealedMessage list \<Rightarrow> byte list \<Rightarrow> (anyhow, byte list) result"
where
  "repair_result ask plan mailbox sigmas old_package =
    bindR (ask 0 mailbox (RepairFinalize plan sigmas old_package)) (\<lambda>response.
    case response of
      RepairStored _ expanded \<Rightarrow> Inr expanded
    | _ \<Rightarrow> Inl (Bail ''replacement guardian did not finalize RTS repair''))"

definition refresh1_step ::
    "primitives \<Rightarrow> guardian_network \<Rightarrow> seal_draws \<Rightarrow> RotationPlan \<Rightarrow> BeginRotationCertificate \<Rightarrow> RotationReleaseCertificate \<Rightarrow>
     Id32 \<Rightarrow> RecoveryDescriptorV3 \<Rightarrow> arr32 \<Rightarrow> nat \<Rightarrow> GuardianRouteV3 \<Rightarrow> messages \<Rightarrow> (anyhow, messages) result"
where
  "refresh1_step cp ask draws plan begin_cert release release_hash descriptor key k route s =
    bindR (case List.find (\<lambda>old. gr3_guardian_index old = gr3_guardian_index route) (rd3_guardians descriptor) of
        Some old \<Rightarrow>
          bindR (old_grant cp (fst (draws k)) (snd (draws k)) plan release_hash old key) (\<lambda>grant.
          Inr (Some begin_cert, Some release, Some grant))
      | None \<Rightarrow> Inr (None, None, None)) (\<lambda>(begin_certificate, release_certificate, old_share_grant).
    bindR (ask k (gr3_mailbox route) (DoRefreshRound1 plan begin_certificate release_certificate old_share_grant))
      (\<lambda>response.
    case response of
      DpssDeliveries deliveries _ \<Rightarrow> distribute s deliveries (rp_new_roster plan)
    | _ \<Rightarrow> Inl (Bail ''guardian returned the wrong refresh round-1 response'')))"

definition refresh2_step ::
    "guardian_network \<Rightarrow> RotationPlan \<Rightarrow> nat \<Rightarrow> GuardianRouteV3 \<Rightarrow> messages \<times> messages \<Rightarrow> (anyhow, messages \<times> messages) result"
where
  "refresh2_step ask plan k route s =
    bindR (ask k (gr3_mailbox route) (DoRefreshRound2 plan (unwrap_or (bt_get (fst s) (gr3_guardian_index route)) [])))
      (\<lambda>response.
    case response of
      DpssDeliveries deliveries _ \<Rightarrow>
        bindR (distribute (snd s) deliveries (rp_new_roster plan)) (\<lambda>by_recipient.
        Inr (bt_remove (gr3_guardian_index route) (fst s), by_recipient))
    | _ \<Rightarrow> Inl (Bail ''guardian returned the wrong refresh round-2 response''))"

definition finalize_step ::
    "guardian_network \<Rightarrow> RotationPlan \<Rightarrow> byte list \<Rightarrow> nat \<Rightarrow> GuardianRouteV3 \<Rightarrow> messages \<times> (byte list \<times> Id32) option \<Rightarrow>
     (anyhow, messages \<times> (byte list \<times> Id32) option) result"
where
  "finalize_step ask plan expanded k route s =
    bindR (ask k (gr3_mailbox route)
      (RefreshFinalize plan (unwrap_or (bt_get (fst s) (gr3_guardian_index route)) []) expanded)) (\<lambda>response.
    case response of
      RefreshFinalized _ candidate_public candidate_commitment \<Rightarrow>
        if case snd s of Some (public, commitment) \<Rightarrow> public \<noteq> candidate_public \<or> commitment \<noteq> candidate_commitment
           | None \<Rightarrow> False
        then Inl (Bail ''successor guardians disagreed on the FROST refresh result'')
        else Inr (bt_remove (gr3_guardian_index route) (fst s), Some (candidate_public, candidate_commitment))
    | _ \<Rightarrow> Inl (Bail ''guardian did not finalize refresh''))"

text \<open>Repair of the replacement and refresh of all shares: the public package and the commitment of the
  successor committee and the fragments of the helpers.\<close>

definition resharing_stage ::
    "primitives \<Rightarrow> guardian_network \<Rightarrow> rotation_draws \<Rightarrow> RotationPlan \<Rightarrow> BeginRotationCertificate \<Rightarrow>
     RotationReleaseCertificate \<Rightarrow> Id32 \<Rightarrow> RecoveryDescriptorV3 \<Rightarrow> arr32 \<Rightarrow> u16 list \<Rightarrow> GuardianRouteV3 \<Rightarrow>
     (anyhow, byte list \<times> Id32 \<times> CiphertextFragmentContribution list) result"
where
  "resharing_stage cp ask draws plan begin_cert release release_hash descriptor key helpers added_route =
    (let added = gr3_guardian_index added_route; new_roster = rp_new_roster plan in
     bindR (each_route (repair1_step cp ask (rtd_repair_grants draws) plan begin_cert release release_hash descriptor key
       helpers added) 0 helpers ([], [])) (\<lambda>(repair1, fragments).
     bindR (each_route (repair2_step ask plan descriptor added) 0 helpers (repair1, [])) (\<lambda>(_, sigmas).
     bindR (repair_result ask plan (gr3_mailbox added_route) sigmas (rd3_dpss_public_package descriptor)) (\<lambda>expanded.
     bindR (each_route (refresh1_step cp ask (rtd_refresh_grants draws) plan begin_cert release release_hash descriptor key)
       0 new_roster []) (\<lambda>refresh1.
     bindR (each_route (refresh2_step ask plan) 0 new_roster (refresh1, [])) (\<lambda>(_, refresh2).
     bindR (each_route (finalize_step ask plan expanded) 0 new_roster (refresh2, None)) (\<lambda>(_, agreed).
     bindR (ok_or agreed (Bail ''refresh produced no public package'')) (\<lambda>(public_package, dpss_result_commitment).
     Inr (public_package, dpss_result_commitment, fragments)))))))))"

section \<open>Preparation\<close>

text \<open>The ciphertext of the old fragments in the shards of the successor, committed under the same root.\<close>

definition successor_fragments ::
    "primitives \<Rightarrow> sharing \<Rightarrow> RotationPlan \<Rightarrow> ConfigCapsuleV3 \<Rightarrow> RecoveryDescriptorV3 \<Rightarrow>
     CiphertextFragmentContribution list \<Rightarrow> (anyhow, byte list list \<times> CiphertextFragmentCommitment) result"
where
  "successor_fragments cp sp plan predecessor descriptor fragments =
    bindR (crypt (erasure_reconstruct sp (map (\<lambda>f. (cfc_fragment_index f, cfc_ciphertext_fragment f)) fragments)
      (rd3_data_shards descriptor) (rd3_total_shards descriptor) (unat (rd3_ciphertext_len descriptor)))) (\<lambda>ciphertext.
    bindR (crypt (erasure_encode sp ciphertext (rp_new_guardian_threshold plan) (rp_total_shards plan))) (\<lambda>shards.
    bindR (crypt (commit_ciphertext_fragments cp (cr_config_id (rp_successor plan))
      (cr_payload_generation (rp_successor plan)) shards)) (\<lambda>commitment.
    if cfc_root commitment \<noteq> cc3_ciphertext_fragment_root predecessor
    then Inl (Bail ''reconstructed ciphertext does not match the predecessor fragment commitment'') else
    Inr (shards, commitment))))"

definition staged_policy :: "RotationPlan \<Rightarrow> ConfigCapsuleV3 \<Rightarrow> Id32 \<Rightarrow> GuardianPolicyV3" where
  "staged_policy plan predecessor dpss_result_commitment =
    \<lparr> gp3_config_ref = rp_successor plan, gp3_epoch_state = GuardianEpochState.Prepared,
      gp3_signer_set_commitment = cc3_signer_set_commitment predecessor, gp3_signer_count = cc3_signer_count predecessor,
      gp3_signer_threshold = cc3_signer_threshold predecessor,
      gp3_owner_cancel_public_key = cc3_owner_cancel_public_key predecessor,
      gp3_minimum_recovery_delay = cc3_minimum_recovery_delay predecessor, gp3_guardian_material_root = 0,
      gp3_dpss_suite = cc3_dpss_suite predecessor, gp3_dpss_public_commitment = dpss_result_commitment,
      gp3_predecessor_capsule_hash = cc3_capsule_hash predecessor, gp3_activation_qc_hash = None,
      gp3_drain_deadline = None \<rparr>"

definition stage_step ::
    "primitives \<Rightarrow> guardian_network \<Rightarrow> seal_draws \<Rightarrow> RotationPlan \<Rightarrow> Id32 \<Rightarrow> arr32 \<Rightarrow> byte list list \<Rightarrow>
     CiphertextFragmentCommitment \<Rightarrow> GuardianPolicyV3 \<Rightarrow> byte list \<Rightarrow> Id32 \<Rightarrow> nat \<Rightarrow> GuardianRouteV3 \<Rightarrow>
     PreparedRecordLeaf list \<Rightarrow> (anyhow, PreparedRecordLeaf list) result"
where
  "stage_step cp ask draws plan release_hash key shards commitment policy public_package dpss_result_commitment offset route
     leaves =
    bindR (new_grant cp (fst (draws offset)) (snd (draws offset)) plan release_hash route key) (\<lambda>grant.
    bindR (u16_try_from (offset + 1)) (\<lambda>fragment_index.
    bindR (at_offset shards offset) (\<lambda>shard.
    bindR (at_offset (cfc_proofs commitment) offset) (\<lambda>shard_proof.
    bindR (ask offset (gr3_mailbox route)
      (StageMaterial plan grant fragment_index shard shard_proof policy (gr3_opaque_slot_id route))) (\<lambda>response.
    case response of
      RefreshMaterialStaged leaf candidate_public candidate_commitment \<Rightarrow>
        if candidate_public \<noteq> public_package \<or> candidate_commitment \<noteq> dpss_result_commitment
        then Inl (Bail ''staged guardian material changed the agreed refresh result'')
        else Inr (leaves @ [leaf])
    | _ \<Rightarrow> Inl (Bail ''guardian did not stage refreshed material''))))))"

fun leaf_hashes :: "primitives \<Rightarrow> PreparedRecordLeaf list \<Rightarrow> (anyhow, Id32 list) result" where
  "leaf_hashes cp [] = Inr []"
| "leaf_hashes cp (leaf # leaves) =
    bindR (wire (prepared_record_leaf_v3 leaf)) (\<lambda>t.
    bindR (leaf_hashes cp leaves) (\<lambda>hashes. Inr (sha256 cp t # hashes)))"

definition prepare_step ::
    "guardian_network \<Rightarrow> RotationPlan \<Rightarrow> Id32 \<Rightarrow> byte list list \<Rightarrow> Id32 \<Rightarrow> nat \<Rightarrow> GuardianRouteV3 \<Rightarrow>
     NewGuardianPreparedAck list \<Rightarrow> (anyhow, NewGuardianPreparedAck list) result"
where
  "prepare_step ask plan material_root proofs dpss_result_commitment offset route acks =
    bindR (at_offset proofs offset) (\<lambda>path.
    bindR (ask offset (gr3_mailbox route) (PrepareCommit plan material_root path dpss_result_commitment)) (\<lambda>response.
    case response of
      RotationPrepared ack \<Rightarrow> Inr (acks @ [ack])
    | _ \<Rightarrow> Inl (Bail ''guardian did not durably prepare its successor record'')))"

definition handoff_step ::
    "guardian_network \<Rightarrow> RotationPlan \<Rightarrow> RecoveryDescriptorV3 \<Rightarrow> Id32 \<Rightarrow> nat \<Rightarrow> u16 \<Rightarrow> OldGuardianHandoffAck list \<Rightarrow>
     (anyhow, OldGuardianHandoffAck list) result"
where
  "handoff_step ask plan descriptor dpss_result_commitment k helper acks =
    bindR (route_by_id (rd3_guardians descriptor) helper) (\<lambda>route.
    bindR (ask k (gr3_mailbox route) (HandoffComplete plan dpss_result_commitment)) (\<lambda>response.
    case response of
      Handoff ack \<Rightarrow> Inr (acks @ [ack])
    | _ \<Rightarrow> Inl (Bail ''old guardian did not acknowledge handoff'')))"

definition successor_descriptor ::
    "RotationPlan \<Rightarrow> RecoveryDescriptorV3 \<Rightarrow> Id32 \<Rightarrow> byte list \<Rightarrow> Id32 \<Rightarrow> RecoveryDescriptorV3"
where
  "successor_descriptor plan descriptor material_root public_package dpss_result_commitment =
    \<lparr> rd3_config_ref = rp_successor plan, rd3_guardians = rp_new_roster plan,
      rd3_guardian_material_root = material_root, rd3_data_shards = rp_new_guardian_threshold plan,
      rd3_total_shards = rp_total_shards plan, rd3_ciphertext_len = rd3_ciphertext_len descriptor,
      rd3_payload_nonce = rd3_payload_nonce descriptor, rd3_dpss_suite = rp_dpss_suite plan,
      rd3_dpss_public_package = public_package, rd3_dpss_public_commitment = dpss_result_commitment \<rparr>"

text \<open>From the result of the resharing to the Ready certificate: it, the root of the new records and the
  encrypted descriptor.\<close>

definition preparation_stage ::
    "primitives \<Rightarrow> sharing \<Rightarrow> (RecoveryDescriptorV3 \<Rightarrow> byte list option) \<Rightarrow> guardian_network \<Rightarrow> rotation_draws \<Rightarrow> u64 option \<Rightarrow>
     RotationPlan \<Rightarrow> Id32 \<Rightarrow> Id32 \<Rightarrow> ConfigCapsuleV3 \<Rightarrow> RecoveryDescriptorV3 \<Rightarrow> arr32 \<Rightarrow> u16 list \<Rightarrow> byte list \<Rightarrow> Id32 \<Rightarrow>
     CiphertextFragmentContribution list \<Rightarrow> (anyhow, RotationReadyCertificate \<times> Id32 \<times> AeadCiphertext) result"
where
  "preparation_stage cp sp render ask draws clock plan plan_hash release_hash predecessor descriptor key helpers
     public_package dpss_result_commitment fragments =
    (let new_roster = rp_new_roster plan in
     bindR (successor_fragments cp sp plan predecessor descriptor fragments) (\<lambda>(shards, commitment).
     bindR (each_route (stage_step cp ask (rtd_wrap_grants draws) plan release_hash key shards commitment
       (staged_policy plan predecessor dpss_result_commitment) public_package dpss_result_commitment) 0 new_roster []) (\<lambda>leaves.
     bindR (leaf_hashes cp leaves) (\<lambda>hashes.
     bindR (crypt (merkle_commit cp hashes)) (\<lambda>(material_root, proofs).
     bindR (each_route (prepare_step ask plan material_root proofs dpss_result_commitment) 0 new_roster []) (\<lambda>prepared_acks.
     bindR (each_route (handoff_step ask plan descriptor dpss_result_commitment) 0 helpers []) (\<lambda>handoff_acks.
     bindR (crypt (descriptor_key_v3 cp key (rp_successor plan))) (\<lambda>descriptor_key.
     bindR (json (render (successor_descriptor plan descriptor material_root public_package dpss_result_commitment)))
       (\<lambda>plaintext.
     bindR (wire (descriptor_context_v3 (rp_successor plan))) (\<lambda>context.
     bindR (crypt (aead_encrypt cp descriptor_key (rtd_descriptor_nonce draws) plaintext context)) (\<lambda>encrypted_descriptor.
     let ready = \<lparr> rrdy_context = rp_context plan, rrdy_plan_hash = plan_hash, rrdy_successor = rp_successor plan,
           rrdy_dpss_result_commitment = dpss_result_commitment, rrdy_guardian_material_root = material_root,
           rrdy_encrypted_descriptor_hash = hash_aead cp encrypted_descriptor, rrdy_prepared_acks = prepared_acks,
           rrdy_old_handoff_acks = handoff_acks \<rparr> in
     bindR (wall_clock clock) (\<lambda>now.
     bindR (validate_rotation_ready_certificate_v3 cp ready plan predecessor now) (\<lambda>_.
     Inr (ready, material_root, encrypted_descriptor))))))))))))))"

section \<open>The command\<close>

record rotation_start =
  rst_predecessor :: ConfigCapsuleV3
  rst_descriptor :: RecoveryDescriptorV3
  rst_key :: arr32
  rst_plan :: RotationPlan
  rst_plan_hash :: Id32
  rst_begin :: BeginRotationCertificate
  rst_added_route :: GuardianRouteV3
  rst_removed_route :: GuardianRouteV3

text \<open>Up to the begin every guardian of the successor accepted.\<close>

definition start_rotation ::
    "primitives \<Rightarrow> frost \<Rightarrow> sharing \<Rightarrow> (byte list \<Rightarrow> RecoveryDescriptorV3 option) \<Rightarrow> (nat \<Rightarrow> u64 option) \<Rightarrow> rotation_draws \<Rightarrow>
     rotation_network \<Rightarrow> RecoveryCardV3 \<Rightarrow> OwnerControlFileV3 \<Rightarrow> u16 \<Rightarrow> replacement \<Rightarrow> (anyhow, rotation_start) result"
where
  "start_rotation cp fr sp parse clock draws net rcard owner remove_guardian info =
    (let coordinator = rtd_coordinator draws; recipient_key = xwing_public cp coordinator in
     if \<not> owner_file_matches cp owner rcard
     then Inl (Bail ''v3 owner-control file does not match the Recovery Card'') else
     bindR (read_latest_epoch_v3 cp (rtn_read net) rcard recipient_key (rtd_client_nonce draws) (clock 0))
       (\<lambda>(predecessor, witness_challenge, witness_reads).
     if ocf_config_ref owner \<noteq> cc3_config_ref predecessor
     then Inl (Bail ''owner-control epoch is stale; refusing rotation'') else
     bindR (wall_clock (clock 1)) (\<lambda>issued_at.
     let ctx = rotation_context_at predecessor (rtd_rotation_id draws) recipient_key (rtd_nonce draws) issued_at in
     bindR (witness_read_quorum_hash_v3 cp witness_challenge witness_reads) (\<lambda>read_quorum_hash.
     let intent = planned_exit_intent cp ctx predecessor remove_guardian read_quorum_hash in
     bindR (intent_stage cp fr sp parse (rtn_signer net) rcard coordinator predecessor intent witness_challenge witness_reads)
       (\<lambda>(intent_hash, key, descriptor).
     bindR (propose_plan cp (rtd_plan draws) ctx intent_hash predecessor descriptor owner remove_guardian info) (\<lambda>plan.
     bindR (plan_digest cp plan) (\<lambda>plan_hash.
     bindR (added_index (rd3_guardians descriptor)) (\<lambda>added_guardian.
     bindR (route_by_id (rp_new_roster plan) added_guardian) (\<lambda>added_route.
     bindR (route_by_id (rd3_guardians descriptor) remove_guardian) (\<lambda>removed_route.
     bindR (candidate_provision cp rcard predecessor info added_route) (\<lambda>provision.
     bindR (rtn_provision net (filter (\<lambda>route. gr3_guardian_index route \<noteq> added_guardian) (rp_new_roster plan)) provision) (\<lambda>_.
     bindR (wall_clock (clock 2)) (\<lambda>now.
     bindR (begin_stage cp (rtn_signer net) rcard plan predecessor now) (\<lambda>begin_cert.
     bindR (each_route (expect begin_accepted ''guardian returned the wrong Begin response'' (rtn_guardian net)
       (RotationBegin plan begin_cert)) 0 (rotation_actor_mailboxes (rp_new_roster plan)) ()) (\<lambda>_.
     Inr \<lparr> rst_predecessor = predecessor, rst_descriptor = descriptor, rst_key = key, rst_plan = plan,
       rst_plan_hash = plan_hash, rst_begin = begin_cert, rst_added_route = added_route,
       rst_removed_route = removed_route \<rparr>)))))))))))))))"

definition finalize_step_witness ::
    "(nat \<Rightarrow> WitnessPin \<Rightarrow> EpochActivationQc \<Rightarrow> (anyhow, unit) result) \<Rightarrow> EpochActivationQc \<Rightarrow> nat \<Rightarrow> WitnessPin \<Rightarrow> unit \<Rightarrow>
     (anyhow, unit) result"
where
  "finalize_step_witness ask qc k witness s = ask k witness qc"

text \<open>After the delay: from the release to the updated owner file, with the capsule that was activated
  and the drain deadline sent with it.\<close>

definition finish_rotation ::
    "primitives \<Rightarrow> sharing \<Rightarrow> (RecoveryDescriptorV3 \<Rightarrow> byte list option) \<Rightarrow> (Id32 \<Rightarrow> string) \<Rightarrow> (nat \<Rightarrow> u64 option) \<Rightarrow>
     rotation_draws \<Rightarrow> rotation_network \<Rightarrow> RecoveryCardV3 \<Rightarrow> OwnerControlFileV3 \<Rightarrow> u16 \<Rightarrow> replacement \<Rightarrow> rotation_start \<Rightarrow>
     (anyhow, RotateV3Result \<times> OwnerControlFileV3 \<times> ConfigCapsuleV3 \<times> u64) result"
where
  "finish_rotation cp sp render hx clock draws net rcard owner remove_guardian info start =
    (let predecessor = rst_predecessor start; descriptor = rst_descriptor start; key = rst_key start; plan = rst_plan start;
         begin_cert = rst_begin start; new_roster = rp_new_roster plan;
         added_guardian = gr3_guardian_index (rst_added_route start) in
     bindR (wall_clock (clock 3)) (\<lambda>now.
     bindR (release_stage cp (rtn_signer net) rcard plan begin_cert predecessor now) (\<lambda>(release, release_hash).
     bindR (helper_ids predecessor descriptor remove_guardian) (\<lambda>helpers.
     bindR (resharing_stage cp (rtn_guardian net) draws plan begin_cert release release_hash descriptor key helpers
       (rst_added_route start)) (\<lambda>(public_package, dpss_result_commitment, fragments).
     bindR (preparation_stage cp sp render (rtn_guardian net) draws (clock 4) plan (rst_plan_hash start) release_hash
       predecessor descriptor key helpers public_package dpss_result_commitment fragments)
       (\<lambda>(ready, material_root, encrypted_descriptor).
     bindR (successor_capsule cp plan predecessor material_root dpss_result_commitment encrypted_descriptor) (\<lambda>successor.
     bindR (activation_stage cp (rtn_signer net) (rtn_activate net) rcard plan ready predecessor successor) (\<lambda>activated.
     bindR (ok_or (cc3_activation_qc activated) (Bail ''witness activation quorum was not reached'')) (\<lambda>qc.
     bindR (each_route (finalize_step_witness (rtn_finalize net) qc) 0
       (filter (\<lambda>witness. wp_witness_id witness \<in> waa_witness_id ` set (qc_witness_acks qc)) (card3_witnesses rcard)) ()) (\<lambda>_.
     bindR (wall_clock (clock 5)) (\<lambda>now.
     let drain_deadline = saturating_add now (cc3_max_request_lifetime predecessor) in
     bindR (each_route (expect activated_answer ''guardian did not atomically activate the witness-certified epoch''
       (rtn_guardian net) (RotationActivate plan activated drain_deadline)) 0 (rotation_actor_mailboxes new_roster) ()) (\<lambda>_.
     let owner = owner \<lparr>
           ocf_guardian_targets := bt_insert added_guardian (trim_end_slashes (rep_target info))
             (bt_remove remove_guardian (ocf_guardian_targets owner)),
           ocf_config_ref := rp_successor plan \<rparr> in
     Inr (\<lparr> rvr_config_id = hx (card3_config_id rcard),
       rvr_predecessor_epoch = cr_guardian_epoch (cc3_config_ref predecessor),
       rvr_successor_epoch = cr_guardian_epoch (rp_successor plan),
       rvr_removed_guardian = gr3_guardian_index (rst_removed_route start), rvr_added_guardian = added_guardian,
       rvr_prepared_guardians = length new_roster, rvr_witness_acknowledgements = length (qc_witness_acks qc),
       rvr_plaintext_decryptions = 0 \<rparr>, owner, activated, drain_deadline)))))))))))))"

text \<open>The answer of the command, the control file it wrote, and the messages to the removed guardian whose
  answers it ignores. The control file is there as soon as the guardians accepted the begin.\<close>

definition rotate_v3 ::
    "primitives \<Rightarrow> frost \<Rightarrow> sharing \<Rightarrow> (byte list \<Rightarrow> RecoveryDescriptorV3 option) \<Rightarrow> (RecoveryDescriptorV3 \<Rightarrow> byte list option) \<Rightarrow>
     (Id32 \<Rightarrow> string) \<Rightarrow> (nat \<Rightarrow> u64 option) \<Rightarrow> rotation_draws \<Rightarrow> rotation_network \<Rightarrow> RecoveryCardV3 \<Rightarrow> OwnerControlFileV3 \<Rightarrow>
     u16 \<Rightarrow> replacement \<Rightarrow>
     (anyhow, RotateV3Result \<times> OwnerControlFileV3) result \<times> RotationControlFileV3 option \<times> (string \<times> GuardianRotationRequestV3) list"
where
  "rotate_v3 cp fr sp parse render hx clock draws net rcard owner remove_guardian info =
    (case start_rotation cp fr sp parse clock draws net rcard owner remove_guardian info of
       Inl e \<Rightarrow> (Inl e, None, [])
     | Inr start \<Rightarrow>
         let plan = rst_plan start; mailbox = gr3_mailbox (rst_removed_route start);
             control = \<lparr> rcf_protocol_version = PROTOCOL_VERSION_V3, rcf_recovery_card = rcard,
               rcf_predecessor_capsule = rst_predecessor start, rcf_plan = plan,
               rcf_owner_cancel_public_key = ocf_owner_cancel_public_key owner \<rparr>;
             begun = (mailbox, RotationBegin plan (rst_begin start)) in
         (case finish_rotation cp sp render hx clock draws net rcard owner remove_guardian info start of
            Inl e \<Rightarrow> (Inl e, Some control, [begun])
          | Inr (result, owner, activated, drain_deadline) \<Rightarrow>
              (Inr (result, owner), Some control, [begun, (mailbox, RotationActivate plan activated drain_deadline)])))"

end
