(* ===== verification/GP_Rotation_Run_Safety.thy ===== *)
theory GP_Rotation_Run_Safety
  imports GP_Rotation_Run
begin

text \<open>
  What a successful \<open>rotate_v3\<close> establishes, whatever the network answered: the certificates of every
  phase, the activated capsule, and the agreement of all guardians of the successor.
\<close>

lemma expect_ok: "expect wanted message ask request k m s = Inr u \<longleftrightarrow> (\<exists>r. ask k m request = Inr r \<and> wanted r)"
  by (auto simp: expect_def bindR_eq_Inr)

lemma each_route_expect:
  "each_route (expect wanted message ask request) k mailboxes () = Inr () \<longleftrightarrow>
   (\<forall>i < length mailboxes. \<exists>r. ask (k + i) (mailboxes ! i) request = Inr r \<and> wanted r)"
  by (induction mailboxes arbitrary: k) (auto simp: bindR_eq_Inr expect_ok All_less_Suc2)

lemma start_rotation_ok:
  assumes "start_rotation cp fr sp parse clock draws net rcard owner remove_guardian info = Inr start"
  obtains now h intent_hash ctx where
    "propose_plan cp (rtd_plan draws) ctx intent_hash (rst_predecessor start) (rst_descriptor start) owner remove_guardian info =
       Inr (rst_plan start)"
    "rx_config_ref ctx = cc3_config_ref (rst_predecessor start)" "ocf_config_ref owner = cc3_config_ref (rst_predecessor start)"
    "owner_file_matches cp owner rcard" "plan_digest cp (rst_plan start) = Inr (rst_plan_hash start)"
    "validate_begin_rotation_certificate_v3 cp (rst_begin start) (rst_plan start) (rst_predecessor start) now = Inr h"
    "\<forall>k < length (rp_new_roster (rst_plan start)). \<exists>r. rtn_guardian net k (gr3_mailbox (rp_new_roster (rst_plan start) ! k))
       (RotationBegin (rst_plan start) (rst_begin start)) = Inr r \<and> begin_accepted r"
  using assms that
  unfolding start_rotation_def Let_def
  by (auto simp: bindR_eq_Inr begin_stage_def each_route_expect rotation_actor_mailboxes_def rotation_context_at_def Let_def
      split: if_splits prod.splits)

lemma activation_stage_ok:
  assumes "activation_stage cp ask ask_witness rcard plan ready predecessor successor = Inr activated"
  obtains certificate qc where "validate_activated_capsule_v3 cp rcard activated = Inr ()"
    "activated = successor \<lparr> cc3_activation_certificate := Some certificate, cc3_activation_qc := Some qc \<rparr>"
    "unat (card3_witness_fault_bound rcard) * 2 + 1 \<le> length (qc_witness_acks qc)"
    "qc_predecessor_capsule_hash qc = cc3_capsule_hash predecessor" "qc_successor_capsule_hash qc = cc3_capsule_hash successor"
  using assms that unfolding activation_stage_def Let_def
  by (auto simp: bindR_eq_Inr split: if_splits)

lemma successor_capsule_ok:
  assumes "successor_capsule cp plan predecessor material_root commitment descriptor = Inr successor"
  shows "cc3_config_ref successor = rp_successor plan" "cc3_predecessor_capsule_hash successor = cc3_capsule_hash predecessor"
  using assms by (auto simp: successor_capsule_def bindR_eq_Inr Let_def)

lemma finish_rotation_ok:
  assumes "finish_rotation cp sp render hx clock draws net rcard owner remove_guardian info start =
      Inr (result, owner', activated, drain_deadline)"
  defines "plan \<equiv> rst_plan start" and "predecessor \<equiv> rst_predecessor start"
  obtains release ready now1 now2 h1 h2 where
    "validate_rotation_release_certificate_v3 cp release (rst_begin start) plan predecessor now1 = Inr h1"
    "validate_rotation_ready_certificate_v3 cp ready plan predecessor now2 = Inr h2"
    "validate_activated_capsule_v3 cp rcard activated = Inr ()" "cc3_config_ref activated = rp_successor plan"
    "cc3_predecessor_capsule_hash activated = cc3_capsule_hash predecessor" "ocf_config_ref owner' = rp_successor plan"
    "\<forall>k < length (rp_new_roster plan). \<exists>r. rtn_guardian net k (gr3_mailbox (rp_new_roster plan ! k))
       (RotationActivate plan activated drain_deadline) = Inr r \<and> activated_answer r"
proof -
  from assms(1) obtain now1 release release_hash helpers r now2 ready x successor y now3 where
    release: "release_stage cp (rtn_signer net) rcard plan (rst_begin start) predecessor now1 = Inr (release, release_hash)"
    and ready: "preparation_stage cp sp render (rtn_guardian net) draws (clock 4) plan (rst_plan_hash start) release_hash
       predecessor (rst_descriptor start) (rst_key start) helpers (fst r) (fst (snd r)) (snd (snd r)) = Inr (ready, x)"
    and capsule: "successor_capsule cp plan predecessor (fst x) (fst (snd r)) (snd x) = Inr successor"
    and act: "activation_stage cp (rtn_signer net) (rtn_activate net) rcard plan ready predecessor successor = Inr activated"
    and rest: "each_route (expect activated_answer y (rtn_guardian net) (RotationActivate plan activated drain_deadline)) 0
       (rotation_actor_mailboxes (rp_new_roster plan)) () = Inr ()" "ocf_config_ref owner' = rp_successor plan"
    unfolding finish_rotation_def Let_def plan_def predecessor_def
    by (auto simp: bindR_eq_Inr split: prod.splits)
  from release obtain h1 where h1: "validate_rotation_release_certificate_v3 cp release (rst_begin start) plan predecessor now1 = Inr h1"
    by (auto simp: release_stage_def bindR_eq_Inr Let_def)
  from ready obtain now2 h2 where h2: "validate_rotation_ready_certificate_v3 cp ready plan predecessor now2 = Inr h2"
    by (auto simp: preparation_stage_def bindR_eq_Inr Let_def split: prod.splits)
  show thesis
  proof (rule activation_stage_ok [OF act])
    fix certificate qc
    assume a: "validate_activated_capsule_v3 cp rcard activated = Inr ()"
      "activated = successor \<lparr> cc3_activation_certificate := Some certificate, cc3_activation_qc := Some qc \<rparr>"
    show thesis
      by (rule that [OF h1 h2 a(1)])
        (use a(2) successor_capsule_ok [OF capsule] rest in \<open>auto simp: each_route_expect rotation_actor_mailboxes_def\<close>)
  qed
qed

text \<open>\<open>rotate_v3\<close> reports success only for a rotation that is certified in every phase: the plan is the one it
  proposed for the selected predecessor, the begin, release and ready certificates of that plan pass the checks
  of every participant, the successor capsule passes the check of an activated capsule against the
  card and directly continues the predecessor, every guardian of the new roster accepted the begin and
  confirmed the activation of that capsule, and the owner's file then names that successor. The
  control file names the plan also when the rotation fails after the begin.\<close>

theorem rotation_completed:
  assumes "rotate_v3 cp fr sp parse render hx clock draws net rcard owner remove_guardian info = (Inr (result, owner'), control, notices)"
  shows "\<exists>start release ready activated drain_deadline now1 now2 now3 h1 h2 h3.
    start_rotation cp fr sp parse clock draws net rcard owner remove_guardian info = Inr start \<and>
    ocf_config_ref owner = cc3_config_ref (rst_predecessor start) \<and> map_option rcf_plan control = Some (rst_plan start) \<and>
    validate_begin_rotation_certificate_v3 cp (rst_begin start) (rst_plan start) (rst_predecessor start) now1 = Inr h1 \<and>
    validate_rotation_release_certificate_v3 cp release (rst_begin start) (rst_plan start) (rst_predecessor start) now2 = Inr h2 \<and>
    validate_rotation_ready_certificate_v3 cp ready (rst_plan start) (rst_predecessor start) now3 = Inr h3 \<and>
    validate_activated_capsule_v3 cp rcard activated = Inr () \<and>
    cc3_predecessor_capsule_hash activated = cc3_capsule_hash (rst_predecessor start) \<and>
    cc3_config_ref activated = rp_successor (rst_plan start) \<and> ocf_config_ref owner' = cc3_config_ref activated \<and>
    (\<forall>k < length (rp_new_roster (rst_plan start)).
       (\<exists>r. rtn_guardian net k (gr3_mailbox (rp_new_roster (rst_plan start) ! k))
          (RotationBegin (rst_plan start) (rst_begin start)) = Inr r \<and> begin_accepted r) \<and>
       (\<exists>r. rtn_guardian net k (gr3_mailbox (rp_new_roster (rst_plan start) ! k))
          (RotationActivate (rst_plan start) activated drain_deadline) = Inr r \<and> activated_answer r))"
proof -
  from assms obtain start activated drain_deadline where
    start: "start_rotation cp fr sp parse clock draws net rcard owner remove_guardian info = Inr start"
    and finish: "finish_rotation cp sp render hx clock draws net rcard owner remove_guardian info start =
      Inr (result, owner', activated, drain_deadline)"
    and control: "map_option rcf_plan control = Some (rst_plan start)"
    by (auto simp: rotate_v3_def Let_def split: sum.splits)
  show ?thesis
  proof (rule start_rotation_ok [OF start], rule finish_rotation_ok [OF finish], goal_cases)
    case (1 now h ih ctx release ready now1 now2 h1 h2)
    show ?case
      by (rule exI [of _ start], rule exI [of _ release], rule exI [of _ ready], rule exI [of _ activated],
        rule exI [of _ drain_deadline], rule exI [of _ now], rule exI [of _ now1], rule exI [of _ now2], rule exI [of _ h],
        rule exI [of _ h1], rule exI [of _ h2]) (use 1 start control in simp)
  qed
qed

end
