(* ===== verification/Spec2Isabelle.thy ===== *)
theory Spec2Isabelle
  imports GP_Core GP_Core_Rotation GP_Wire GP_Wire_Rotation GP_Documents
    GP_Storage GP_Storage_Rotation GP_Storage_Locks
    GP_Crypto GP_Protocol_V3 GP_Protocol_Rotation GP_Protocol_Safety GP_Witness_Service GP_Witness_Safety GP_Sharing GP_Sharing_Safety
    GP_Signer_Runtime GP_Signer_Steps GP_Signer_Safety GP_Signer_Instances
    GP_Protocol_V2 GP_Node_V2 GP_Node_Safety GP_Recovery_Roundtrip
    GP_Frost GP_Frost_Safety GP_Progress
    GP_Guardian_Recovery GP_Guardian_Runtime GP_Guardian_Steps GP_Guardian_Safety GP_Guardian_Instances GP_Guardian_Properties
    GP_Node_V3 GP_Node_V3_Safety GP_Coordinator_V3 GP_Rotation_Client GP_Client_Safety
    GP_Recovery_Client GP_Recovery_Client_Safety GP_Rotation_Run GP_Rotation_Run_Safety
begin

text \<open>
  \<^bold>\<open>A verification development for the guardian recovery protocol\<close>

  \<^bold>\<open>The program.\<close>  The repository implements social recovery of a master secret.  An owner
  distributes shares over \<^emph>\<open>guardians\<close>; \<^emph>\<open>signers\<close> approve a recovery request; the guardians wait
  for a delay during which the owner can cancel; then they release their contributions.  Protocol
  version 3 adds \<^emph>\<open>guardian rotation\<close>: a committee epoch is replaced by a successor epoch, which
  \<^emph>\<open>configuration witnesses\<close> (3f+1 of them, quorum 2f+1) acknowledge before it takes effect, while
  recoveries already begun drain on the old epoch.  The crates build on one another:
  \<^item> \<^verbatim>\<open>gp-types\<close> holds the data that all parts exchange;
  \<^item> \<^verbatim>\<open>gp-wire\<close> writes the canonical byte transcript of each signed object;
  \<^item> \<^verbatim>\<open>gp-core\<close> holds the state machines of requester, guardian, rotation coordinator, witness and
    epoch-bound guardian, without any I/O;
  \<^item> \<^verbatim>\<open>gp-storage\<close> holds what the nodes persist: replay state, epoch custody, one-shot locks;
  \<^item> \<^verbatim>\<open>gp-crypto\<close> wraps the cryptographic primitives; \<^verbatim>\<open>gp-network\<close> verifies certificates and serves
    the nodes over HTTP; \<^verbatim>\<open>gp-transport\<close>, \<^verbatim>\<open>gp-ipc\<close>, \<^verbatim>\<open>gp-sim\<close>, \<^verbatim>\<open>gp-gui-sim\<close> and \<^verbatim>\<open>gp-cli\<close> are
    adapters and drivers.

  \<^bold>\<open>The theories and the code they model.\<close>
  \<^item> \<^verbatim>\<open>GP_Prelude\<close>: what the source uses of Rust and its standard library.  \<^verbatim>\<open>Result\<close> is a sum
    type with the error on the left; \<^verbatim>\<open>u16\<close>, \<^verbatim>\<open>u32\<close>, \<^verbatim>\<open>u64\<close> are words, with the saturating addition of the code; a
    \<^verbatim>\<open>BTreeMap\<close> or \<^verbatim>\<open>BTreeSet\<close> is an association list without duplicate keys, and the locale of
    key-value stores states the laws its users rely on.  The locale \<^verbatim>\<open>prefix_code\<close> carries all
    statements on encodings; the locale \<^verbatim>\<open>logged_machine\<close> carries statements on runs, the sequences of
    operations applied to a machine together with the answers it gave.
  \<^item> \<^verbatim>\<open>GP_Types\<close>, \<^verbatim>\<open>GP_Types_Rotation\<close>: every struct and enum of \<^verbatim>\<open>gp-types/src/lib.rs\<close> and
    \<^verbatim>\<open>gp-types/src/rotation.rs\<close> as records and datatypes.  A field carries a prefix for its struct,
    because record selectors share one name space.
  \<^item> \<^verbatim>\<open>GP_Custody\<close>, \<^verbatim>\<open>GP_Registers\<close>: the abstract specifications.  A custodian (begin, delay,
    release, cancel) is what both guardian machines promise; write-once and revocable registers are
    what the locks of witnesses and signers promise.  They are stated as locales, and their
    consequences are proved once for all providers.
  \<^item> \<^verbatim>\<open>GP_Core\<close>: \<^verbatim>\<open>gp-core/src/lib.rs\<close>, that is \<^verbatim>\<open>RecoveryMachine\<close> and \<^verbatim>\<open>GuardianMachine\<close>.
  \<^item> \<^verbatim>\<open>GP_Core_Rotation\<close>: \<^verbatim>\<open>gp-core/src/rotation.rs\<close>, that is \<^verbatim>\<open>RotationMachine\<close>,
    \<^verbatim>\<open>EpochWitnessMachine\<close> and \<^verbatim>\<open>EpochRecoveryMachine\<close>.
  \<^item> \<^verbatim>\<open>GP_Wire\<close>, \<^verbatim>\<open>GP_Wire_Rotation\<close>: \<^verbatim>\<open>gp-wire/src/lib.rs\<close> and \<^verbatim>\<open>gp-wire/src/rotation.rs\<close>, the frame
    format, the transcript writer and each transcript function with its checks.
  \<^item> \<^verbatim>\<open>GP_Documents\<close>: one datatype of all signed objects and the transcript function on it, so that
    injectivity and domain separation are statements over all 66 kinds at once.
  \<^item> \<^verbatim>\<open>GP_Storage\<close>: \<^verbatim>\<open>gp-storage/src/lib.rs\<close>.  \<^verbatim>\<open>GP_Storage_Rotation\<close>: the guardian epoch store of
    \<^verbatim>\<open>gp-storage/src/rotation.rs\<close> with its transactions.  \<^verbatim>\<open>GP_Storage_Locks\<close>: the signer and witness
    stores of that file, and the relation of the witness store to the witness machine of the core.
  \<^item> \<^verbatim>\<open>GP_Crypto\<close>: the wrappers of \<^verbatim>\<open>gp-crypto/src/lib.rs\<close> that the protocol checks call, over a record
    of third-party primitives (digest, signatures, Merkle trees, authenticated encryption, key
    encapsulation, key derivation).  \<^verbatim>\<open>GP_Sharing\<close>: secret sharing, erasure coding, fragment and custody
    commitments and key derivation of that file, and the message tracker of
    \<^verbatim>\<open>gp-crypto/src/rotation.rs\<close>.  \<^verbatim>\<open>GP_Sharing_Safety\<close>: their round trips, bounds and separation.
    \<^verbatim>\<open>GP_Frost\<close>: the rest of that file, the wrappers around the FROST library, which is a record of
    parameters.  \<^verbatim>\<open>GP_Frost_Safety\<close>: what these wrappers accept.
  \<^item> \<^verbatim>\<open>GP_Progress\<close>: the two coordinator machines of \<^verbatim>\<open>gp-core\<close> accept boundedly many events.
  \<^item> \<^verbatim>\<open>GP_Protocol_V3\<close>, \<^verbatim>\<open>GP_Protocol_Rotation\<close>: \<^verbatim>\<open>gp-network/src/rotation_protocol.rs\<close>, the checks of
    cards, requests, plans, certificates, quorum certificates and capsules, and the selection of the
    latest epoch from fresh reads.  \<^verbatim>\<open>GP_Protocol_Safety\<close>: what acceptance by these checks guarantees.
  \<^item> \<^verbatim>\<open>GP_Witness_Service\<close>: the witness handlers of \<^verbatim>\<open>gp-network/src/server.rs\<close> over the state of
    \<^verbatim>\<open>types.rs\<close>, with the state file beside the memory.  \<^verbatim>\<open>GP_Witness_Safety\<close>: runs of a witness node
    with restarts, and agreement among the witnesses of a card.
  \<^item> \<^verbatim>\<open>GP_Signer_Runtime\<close>: the signer of protocol 3, \<^verbatim>\<open>rotation_runtime.rs\<close> and the signer half of
    \<^verbatim>\<open>recovery_runtime.rs\<close>.  \<^verbatim>\<open>GP_Signer_Steps\<close>: runs of a signer and the effect of each call on its
    locks and votes.  \<^verbatim>\<open>GP_Signer_Safety\<close>: what a signer promises over its whole life.
    \<^verbatim>\<open>GP_Signer_Instances\<close>: a concrete signer through two rotations and a recovery.
  \<^item> \<^verbatim>\<open>GP_Guardian_Recovery\<close>, \<^verbatim>\<open>GP_Guardian_Runtime\<close>: the guardian of protocol 3, its half of
    \<^verbatim>\<open>recovery_runtime.rs\<close> and \<^verbatim>\<open>guardian_runtime.rs\<close>, on top of the epoch store, the rotation machine and
    the FROST wrappers.  \<^verbatim>\<open>GP_Guardian_Steps\<close>: what each rotation call leaves unchanged and how it can
    end.  \<^verbatim>\<open>GP_Guardian_Safety\<close>: runs of an entry and their invariant.  \<^verbatim>\<open>GP_Guardian_Instances\<close>: a
    concrete guardian through a recovery, a repair, an activation and a cancellation.
    \<^verbatim>\<open>GP_Guardian_Properties\<close>: what a guardian promises over any run.
  \<^item> \<^verbatim>\<open>GP_Protocol_V2\<close>: \<^verbatim>\<open>gp-network/src/protocol.rs\<close>, from the set-up of a configuration to the
    reconstruction of the secret.  \<^verbatim>\<open>GP_Node_V2\<close>: the protocol-2 signer and guardian handlers of
    \<^verbatim>\<open>server.rs\<close>.  \<^verbatim>\<open>GP_Node_Safety\<close>: runs of a protocol-2 guardian, owner cancellations and the exact
    meaning of the certificate checks.  \<^verbatim>\<open>GP_Recovery_Roundtrip\<close>: honest nodes give the secret back.
  \<^item> \<^verbatim>\<open>GP_Node_V3\<close>: the protocol-3 endpoints of \<^verbatim>\<open>server.rs\<close> around the runtimes, with aliases and the
    state file.  \<^verbatim>\<open>GP_Node_V3_Safety\<close>: the life of a guardian node.
  \<^item> \<^verbatim>\<open>GP_Coordinator_V3\<close>, \<^verbatim>\<open>GP_Rotation_Client\<close>: \<^verbatim>\<open>rotation_coordinator.rs\<close>, its checks, vote collection
    and grants, the stages of the command \<^verbatim>\<open>rotate_v3\<close> and the command \<^verbatim>\<open>cancel_rotation_v3\<close>.
    \<^verbatim>\<open>GP_Client_Safety\<close>: what a coordinator proposes and certifies is accepted, and a reported
    cancellation is effective.
  \<^item> \<^verbatim>\<open>GP_Rotation_Run\<close>: the whole of \<^verbatim>\<open>rotate_v3\<close>, from the latest epoch to the published card, with
    the relaying of the repair and resharing rounds.  \<^verbatim>\<open>GP_Rotation_Run_Safety\<close>: what a run of it that
    succeeds establishes.
  \<^item> \<^verbatim>\<open>GP_Recovery_Client\<close>: \<^verbatim>\<open>recover_v3\<close> of \<^verbatim>\<open>client.rs\<close>, from the selection of an epoch to the
    reconstruction of the secret.  \<^verbatim>\<open>GP_Recovery_Client_Safety\<close>: what guardians hand out can be opened by
    the requester, and by the request it was made for.

  \<^bold>\<open>State and operations.\<close>  A method with receiver \<^verbatim>\<open>&mut self\<close> is a function that takes the record
  of the state and returns its answer and the new state; the state is returned on the error branches
  too, because several methods of the code change it before they fail (the replay sets of
  \<^verbatim>\<open>EpochRecoveryMachine::begin\<close>, the expiry written by \<^verbatim>\<open>authorize_release_at\<close>).  The order of the
  guards is the order of the code, so the lemmas on errors name the exact error of each branch.
  Runs are lists of operations; the log of a run pairs each operation with its answer.

  \<^bold>\<open>What the lemmas show.\<close>
  \<^item> Custody: no release without an accepted begin of the same request and digest, before its delay,
    after its expiry or after a cancellation; a cancellation is permanent, also when it comes before
    the begin; identifiers and nonces are used once.  Both guardian machines refine the abstract
    custodian by a simulation, and the safety statements come from the locale.
  \<^item> Rotation: the accepted events of a rotation form a legal path; activation needs a valid quorum
    certificate after begin, delayed release, complete preparation and the activation certificate;
    final states are final; an epoch retires only when nothing of it is pending.
  \<^item> Witnesses: one child per predecessor, fresh reads that never go back (for a node: in runs
    whose saves succeed); the store keeps the same promise across cancellations that the code allows, and follows the machine step by step.
  \<^item> Stores: the well-formedness of the guardian epoch store is an invariant of all operations,
    refused operations leave it unchanged, transactions are atomic, pending recoveries survive.
  \<^item> Quorums: on a card with 3f+1 witnesses a fork needs f+1 double signers; with at most f faulty
    witnesses and the service model for the others there is no fork without an owner cancellation.
    The selected epoch is fresh and certified, a rotation is released only on two thresholds of
    committed signers, a plan replaces the intended guardian only and moves the
    others to fresh slots and mailboxes.
  \<^item> Signers: one activation per predecessor unless the owner cancels in between, no activation vote
    before the delay, closed rotations stay closed, recovery votes stay bound to the approved request.
    An abort vote leaves no trace, which is a weakness of the code.
  \<^item> Guardians of protocol 3: a contribution, and what is made from the old share, leave the guardian only after
    begin, delay and release of the same request or plan in one boot; one contribution per identifier and none
    beside a cancellation; an ended rotation stays ended; an activation is checked and moves the
    epoch store by one operation of it; the filed records are well formed.  The invariant of the runs is proved once, from the
    frame conditions of the calls (locale \<^verbatim>\<open>step_frame\<close>) and the outcomes of those that file or end something.  The drain
    deadline does not bind a caller, which is a weakness of the code.
  \<^item> Resharing and termination: a result that verifies keeps the group key and leaves one share with each
    expected guardian; the data key is recovered exactly from enough shares of one epoch and key; both
    coordinator machines accept boundedly many events.
  \<^item> Sharing: any threshold of different shares recovers the secret and the duplicate test of the code
    is exact; any k different fragments reconstruct a ciphertext of any length; each block of a
    custody commitment verifies at its index; derived keys of different uses never share an input.
  \<^item> Protocol 2 from end to end: what the owner sets up, any threshold of honest signers and guardians
    give back; a guardian releases only after begin and delay and never a cancelled request; a
    cancellation made in time is acknowledged by a guardian that has not released.
  \<^item> Nodes and coordinator: recovery material of a mailbox and request leaves a node once over its whole
    life; the plan and certificates of a coordinator pass the checks of the participants, its grants open
    the old share, and a cancellation it reports leaves fewer old guardians than a rotation needs.
  \<^item> The client: a material message that a guardian seals for a capsule is opened by the requester to
    exactly the contribution and data-key share that went in.
  \<^item> Limits: an acknowledgement whose save failed is handed out on retry and lost on restart, after
    which the witness acknowledges another child; an identifier that was cancelled under one digest
    can be begun and released under another; both are proved for all such states and witnessed by runs.
  \<^item> Encodings: a frame round-trips; a transcript determines its object up to the fields the code
    leaves out on purpose, and transcripts of different kinds never coincide.

  \<^bold>\<open>Bounds, parameters and totality.\<close>  No definition uses fuel: every loop of the modelled code runs
  over a finite collection and is structural recursion or a fold.  Lengths are bounded where the code
  bounds them (\<^verbatim>\<open>MAX_FIELD_LEN\<close>, the counts written as \<^verbatim>\<open>u16\<close>), and clocks are 64-bit words.  The
  verification of signatures happens outside the core: its machines receive the verdict as a boolean
  of the event, as in the code.  \<^verbatim>\<open>hex::encode\<close> is a parameter of the store operations that use it; the
  only property used of it is that it is injective, and the witnesses use a concrete encoder.  The
  cryptographic primitives are a record of functions; the checks use no property of them, and the one
  theorem that needs unforgeability states it as a hypothesis on the transcripts a node signed.  The
  round trips of sharing name the documented law of the library they rest on (any threshold of shares
  interpolates, any k shards reconstruct, a Merkle proof of the tree verifies) and their witnesses
  instantiate it with a concrete function.  A
  handler takes the clock reading (absent when the clock is before 1970) and the outcome of its save
  (done, failed before or after the rename) as inputs; a restart reloads the state file.

  \<^bold>\<open>What is not modelled.\<close>  The relay and configuration endpoints of \<^verbatim>\<open>server.rs\<close>, which move opaque bytes;
  of \<^verbatim>\<open>rotation_coordinator.rs\<close> the transport and fail-over between relays and the provisioning of the
  candidate, which are calls of the network; of \<^verbatim>\<open>client.rs\<close> the set-up commands and the orchestration
  of protocol 2; \<^verbatim>\<open>gp-transport\<close>, \<^verbatim>\<open>gp-ipc\<close>, the simulators, the
  command line and the benchmarks.  Serde attributes, the redacting \<^verbatim>\<open>Debug\<close> output and zeroisation have
  no behaviour in this model.
\<close>

end
